(* ===== verification/Prelude.thy ===== *)
theory Prelude
  imports Main "HOL-Library.Signed_Division"
begin

text \<open>
  Shared vocabulary of the development.

  \<^item> Types: Go's \<open>int64\<close> identifiers and \<open>time.Time\<close> values (nanoseconds) are \<open>int\<close>;
    Go strings are byte strings (\<open>string\<close>); a nullable column or pointer is an \<open>option\<close>.
  \<^item> Results: an operation that may fail returns \<open>'e + 'a\<close> with \<open>Inl\<close> for the error.
  \<^item> Tables: a table is a list of rows; \<open>update_where\<close> is SQL's \<open>UPDATE .. SET .. WHERE ..\<close>,
    \<open>find_row\<close> is \<open>SELECT .. LIMIT 1\<close> in storage order.
  \<^item> Transactions: \<open>run_in_tx\<close> gives the body the state it starts from and keeps the
    state it started from when the body or the commit fails.
  \<^item> Audit rows: \<open>audit_logs\<close> with its JSON before and after columns.
\<close>

named_theorems row_simps \<open>facts on rows kept or changed by a table operation\<close>
named_theorems inv_intros \<open>one invariant lemma per operation\<close>

type_synonym id64 = int
type_synonym timestamp = int
type_synonym ip_addr = string
type_synonym ('e, 'a) result = "'e + 'a"

section \<open>Durations and Go arithmetic\<close>

abbreviation second :: int where "second \<equiv> 1000000000"
abbreviation minute :: int where "minute \<equiv> 60 * second"
abbreviation hour :: int where "hour \<equiv> 60 * minute"

text \<open>Bounds of Go's \<open>int64\<close>, and \<open>time.Time.Sub\<close>, which saturates at them.\<close>

definition int64_max :: int where "int64_max = 2 ^ 63 - 1"
definition int64_min :: int where "int64_min = - (2 ^ 63)"
definition int32_max :: int where "int32_max = 2 ^ 31 - 1"

definition time_sub :: "timestamp \<Rightarrow> timestamp \<Rightarrow> int" where
  "time_sub a b = (let d = a - b in
     if d > int64_max then int64_max else if d < int64_min then int64_min else d)"

text \<open>Go's integer division truncates towards zero.\<close>

definition go_div :: "int \<Rightarrow> int \<Rightarrow> int" where
  "go_div a b = (if b = 0 then 0 else a sdiv b)"

section \<open>Strings\<close>

text \<open>
  \<open>strings.EqualFold\<close> against an ASCII string. Simple case folding maps an ASCII letter to
  its two cases and, beyond ASCII, only the long s (U+017F, bytes C5 BF) to s and the Kelvin
  sign (U+212A, bytes E2 84 AA) to k; \<open>fold_bytes\<close> normalises exactly these.
\<close>

definition ascii_lower :: "char \<Rightarrow> char" where
  "ascii_lower c = (if 65 \<le> (of_char c :: nat) \<and> (of_char c :: nat) \<le> 90
     then char_of (of_char c + (32 :: nat)) else c)"

definition ascii_upper :: "char \<Rightarrow> char" where
  "ascii_upper c = (if 97 \<le> (of_char c :: nat) \<and> (of_char c :: nat) \<le> 122
     then char_of (of_char c - (32 :: nat)) else c)"

fun fold_bytes :: "string \<Rightarrow> string" where
  "fold_bytes [] = []"
| "fold_bytes [c] = [ascii_lower c]"
| "fold_bytes [c, d] = (if c = CHR 0xC5 \<and> d = CHR 0xBF then ''s'' else ascii_lower c # fold_bytes [d])"
| "fold_bytes (c # d # e # cs) =
     (if c = CHR 0xC5 \<and> d = CHR 0xBF then CHR ''s'' # fold_bytes (e # cs)
      else if c = CHR 0xE2 \<and> d = CHR 0x84 \<and> e = CHR 0xAA then CHR ''k'' # fold_bytes cs
      else ascii_lower c # fold_bytes (d # e # cs))"

definition equal_fold :: "string \<Rightarrow> string \<Rightarrow> bool" where
  "equal_fold s t \<longleftrightarrow> fold_bytes s = fold_bytes t"

lemma equal_fold_refl [simp]: "equal_fold s s"
  by (simp add: equal_fold_def)

section \<open>Tables\<close>

definition update_where :: "('r \<Rightarrow> bool) \<Rightarrow> ('r \<Rightarrow> 'r) \<Rightarrow> 'r list \<Rightarrow> 'r list" where
  "update_where p f rs = map (\<lambda>r. if p r then f r else r) rs"

definition find_row :: "('r \<Rightarrow> bool) \<Rightarrow> 'r list \<Rightarrow> 'r option" where
  "find_row p rs = find p rs"

lemma update_where_Nil [simp]: "update_where p f [] = []"
  by (simp add: update_where_def)

lemma update_where_Cons [simp]:
  "update_where p f (r # rs) = (if p r then f r else r) # update_where p f rs"
  by (simp add: update_where_def)

lemma update_where_append [simp]:
  "update_where p f (rs @ ss) = update_where p f rs @ update_where p f ss"
  by (simp add: update_where_def)

lemma length_update_where [simp]: "length (update_where p f rs) = length rs"
  by (simp add: update_where_def)

lemma update_where_none: "(\<And>r. r \<in> set rs \<Longrightarrow> \<not> p r) \<Longrightarrow> update_where p f rs = rs"
  by (induction rs) auto

lemma in_update_whereE:
  assumes "x \<in> set (update_where p f rs)"
  obtains (kept) "x \<in> set rs" "\<not> p x" | (changed) r where "r \<in> set rs" "p r" "x = f r"
  using assms by (auto simp: update_where_def split: if_splits)

lemma map_update_where [simp]:
  "(\<And>r. k (f r) = k r) \<Longrightarrow> map k (update_where p f rs) = map k rs"
  by (induction rs) auto

lemma find_row_Some:
  "find_row p rs = Some r \<Longrightarrow> r \<in> set rs \<and> p r"
  by (auto simp: find_row_def find_Some_iff)

lemma find_row_None: "find_row p rs = None \<longleftrightarrow> (\<forall>r \<in> set rs. \<not> p r)"
  by (auto simp: find_row_def find_None_iff)

lemma find_row_simps [simp]:
  "find_row p [] = None"
  "find_row p (r # rs) = (if p r then Some r else find_row p rs)"
  by (simp_all add: find_row_def)

lemma find_row_append:
  "find_row p (rs @ ss) = (case find_row p rs of None \<Rightarrow> find_row p ss | Some r \<Rightarrow> Some r)"
  by (induction rs) auto

text \<open>A key that is distinct in a table finds its row.\<close>

lemma find_row_key:
  assumes "distinct (map k rs)" and "r \<in> set rs"
  shows "find_row (\<lambda>x. k x = k r) rs = Some r"
  using assms by (induction rs) (auto simp: image_iff)

lemma distinct_key_eq:
  assumes "distinct (map k rs)" "a \<in> set rs" "b \<in> set rs" "k a = k b"
  shows "a = b"
  using assms by (metis find_row_key option.inject)

lemma distinct_key_iff:
  assumes "distinct (map k rs)" "r \<in> set rs"
  shows "\<forall>x \<in> set rs. k x = k r \<longleftrightarrow> x = r"
  using distinct_key_eq [OF assms(1) _ assms(2)] by auto

lemma set_update_where_key:
  assumes "distinct (map k rs)" "r \<in> set rs"
  shows "set (update_where (\<lambda>x. k x = k r) f rs) = insert (f r) (set rs - {r})"
proof -
  have "set (update_where (\<lambda>x. k x = k r) f rs) = (\<lambda>x. if x = r then f r else x) ` set rs"
    unfolding update_where_def set_map
    by (rule image_cong) (use distinct_key_iff [OF assms] in auto)
  then show ?thesis using assms(2) by auto
qed

text \<open>With distinct keys, a key is among those of the selected rows when its own row is selected.\<close>

lemma key_of_filter:
  assumes "distinct (map k rs)" "r \<in> set rs"
  shows "k r \<in> set (map k (filter p rs)) \<longleftrightarrow> p r"
proof
  assume "k r \<in> set (map k (filter p rs))"
  then obtain x where x: "x \<in> set rs" "p x" "k x = k r" by fastforce
  have "x = r" by (rule distinct_key_eq [OF assms(1) x(1) assms(2) x(3)])
  with x(2) show "p r" by simp
qed (use assms(2) in simp)

lemma ex_key:
  assumes "distinct (map k rs)" "r \<in> set rs"
  shows "(\<exists>x \<in> set rs. k x = k r \<and> p x) \<longleftrightarrow> p r"
proof
  assume "\<exists>x \<in> set rs. k x = k r \<and> p x"
  then obtain x where x: "x \<in> set rs" "k x = k r" "p x" by blast
  have "x = r" by (rule distinct_key_eq [OF assms(1) x(1) assms(2) x(2)])
  with x(3) show "p r" by simp
qed (use assms(2) in auto)

lemma distinct_key_filter: "distinct (map k rs) \<Longrightarrow> length (filter (\<lambda>r. k r = v) rs) \<le> 1"
  by (induction rs) (auto simp: filter_empty_conv rev_image_eqI)

lemma dom_upd_subset: "dom w \<subseteq> A \<Longrightarrow> k \<in> A \<Longrightarrow> dom (w(k \<mapsto> v)) \<subseteq> A"
  by auto

text \<open>
  \<open>ORDER BY k ASC LIMIT 1\<close>: the first row, in storage order, with the least key.
\<close>

fun first_min :: "('r \<Rightarrow> 'k::linorder) \<Rightarrow> 'r list \<Rightarrow> 'r option" where
  "first_min k [] = None"
| "first_min k (r # rs) =
     (case first_min k rs of None \<Rightarrow> Some r | Some m \<Rightarrow> if k r \<le> k m then Some r else Some m)"

lemma first_min_None [simp]: "first_min k rs = None \<longleftrightarrow> rs = []"
  by (cases rs) (auto split: option.splits)

lemma first_min_Some:
  "first_min k rs = Some m \<Longrightarrow> m \<in> set rs \<and> (\<forall>r \<in> set rs. k m \<le> k r)"
  by (induction rs arbitrary: m) (fastforce split: option.splits if_splits)+

section \<open>Transactions\<close>

text \<open>
  The body of a transaction maps the state it starts from to an error or to a value and the
  state it leaves. \<open>commit_ok\<close> is whether the database accepts the commit.
\<close>

type_synonym ('s, 'e, 'a) tx = "'s \<Rightarrow> 'e + 'a \<times> 's"

definition run_in_tx :: "bool \<Rightarrow> 'e \<Rightarrow> ('s, 'e, 'a) tx \<Rightarrow> 's \<Rightarrow> ('e + 'a) \<times> 's" where
  "run_in_tx commit_ok commit_err body s =
     (case body s of
        Inl e \<Rightarrow> (Inl e, s)
      | Inr (a, s') \<Rightarrow> if commit_ok then (Inr a, s') else (Inl commit_err, s))"

lemma run_in_tx_error: "run_in_tx c ce f s = (Inl e, s') \<Longrightarrow> s' = s"
  by (auto simp: run_in_tx_def split: sum.splits prod.splits if_splits)

lemma run_in_tx_ok: "run_in_tx c ce f s = (Inr a, s') \<Longrightarrow> c \<and> f s = Inr (a, s')"
  by (auto simp: run_in_tx_def split: sum.splits prod.splits if_splits)

lemma run_in_tx_cases:
  obtains (rolled_back) e where "run_in_tx c ce f s = (Inl e, s)"
  | (committed) a s' where "f s = Inr (a, s')" "c" "run_in_tx c ce f s = (Inr a, s')"
  by (cases "f s"; cases c) (auto simp: run_in_tx_def split: prod.splits)

section \<open>JSON values and audit rows\<close>

datatype json = JNull | JBool bool | JNum int | JStr string | JArr "json list"
  | JObj "(string \<times> json) list"

record audit_row =
  al_actor_id :: id64
  al_action :: string
  al_entity_type :: string
  al_entity_id :: id64
  al_before :: "json option"
  al_after :: "json option"
  al_ip :: "ip_addr option"

definition json_opt :: "('a \<Rightarrow> json) \<Rightarrow> 'a option \<Rightarrow> json" where
  "json_opt f v = (case v of None \<Rightarrow> JNull | Some x \<Rightarrow> f x)"

text \<open>
  \<open>audit.Writer.Write\<close>: an entry becomes one appended row; an empty IP is stored as NULL.
\<close>

definition audit_entry ::
  "id64 \<Rightarrow> string \<Rightarrow> string \<Rightarrow> id64 \<Rightarrow> json option \<Rightarrow> json option \<Rightarrow> ip_addr \<Rightarrow> audit_row" where
  "audit_entry actor action etype eid before after ip =
     \<lparr>al_actor_id = actor, al_action = action, al_entity_type = etype, al_entity_id = eid,
      al_before = before, al_after = after, al_ip = (if ip = [] then None else Some ip)\<rparr>"

section \<open>Contracts shared by the components\<close>

text \<open>
  Invariants of a transition system: an invariant that holds initially and that every step
  keeps holds in every state a run reaches.
\<close>

locale invariant_system =
  fixes init :: "'s \<Rightarrow> bool"
    and step :: "'s \<Rightarrow> 's \<Rightarrow> bool"
    and invar :: "'s \<Rightarrow> bool"
  assumes init_invar: "init s \<Longrightarrow> invar s"
    and step_invar: "invar s \<Longrightarrow> step s t \<Longrightarrow> invar t"
begin

lemma run_invar:
  assumes "invar s" and "step\<^sup>*\<^sup>* s t"
  shows "invar t"
  using assms(2,1) by (induction rule: rtranclp_induct) (auto intro: step_invar)

lemma reachable_invar: "init s \<Longrightarrow> step\<^sup>*\<^sup>* s t \<Longrightarrow> invar t"
  by (blast intro: init_invar run_invar)

text \<open>A relation between the states around one step lifts to runs when it is a preorder.\<close>

lemma run_preorder:
  assumes "step\<^sup>*\<^sup>* s t" and "invar s"
    and "\<And>u. Q u u" and "\<And>u v w. Q u v \<Longrightarrow> Q v w \<Longrightarrow> Q u w"
    and "\<And>u v. invar u \<Longrightarrow> step u v \<Longrightarrow> Q u v"
  shows "Q s t"
  using assms(1)
proof (induction rule: rtranclp_induct)
  case base
  show ?case by (rule assms(3))
next
  case (step u v)
  have "invar u" using assms(2) step.hyps(1) by (rule run_invar)
  then have "Q u v" using step.hyps(2) by (rule assms(5))
  with step.IH show ?case by (rule assms(4))
qed

end

text \<open>
  Audited transactions: the body appends at least one audit row whenever it succeeds. Then a
  run either leaves no trace at all or leaves its audit rows with its writes.
\<close>

locale audited_tx =
  fixes body :: "('s, 'e, 'a) tx"
    and audit :: "'s \<Rightarrow> audit_row list"
    and entry :: "'s \<Rightarrow> 'a \<Rightarrow> audit_row \<Rightarrow> bool"
  assumes writes_audit:
    "body s = Inr (a, s') \<Longrightarrow> \<exists>rows. audit s' = audit s @ rows \<and> (\<exists>e \<in> set rows. entry s a e)"
begin

lemma atomic:
  "(\<exists>e. run_in_tx c ce body s = (Inl e, s))
   \<or> (\<exists>a s' rows e. run_in_tx c ce body s = (Inr a, s') \<and> audit s' = audit s @ rows
        \<and> e \<in> set rows \<and> entry s a e)"
  by (rule run_in_tx_cases [of c ce body s]) (use writes_audit in fastforce)+

lemma no_write_without_audit:
  assumes "run_in_tx c ce body s = (r, s')" and "s' \<noteq> s"
  shows "\<exists>a rows e. r = Inr a \<and> audit s' = audit s @ rows \<and> e \<in> set rows \<and> entry s a e"
  using atomic [of c ce s] assms by fastforce

end

end
