(* ===== verification/Approval.thy ===== *)
theory Approval
  imports Prelude
begin

text \<open>
  The maker-checker component: package \<open>src/backend/internal/approval\<close> over the queries of
  \<open>src/backend/internal/db/approval.sql.go\<close>.

  \<^item> \<open>approval_db\<close> holds the tables the package reads and writes: the reporting lines of
    \<open>users\<close>, \<open>user_leaves\<close>, \<open>approval_delegations\<close>, \<open>approval_policies\<close>,
    \<open>approval_requests\<close>, \<open>approval_steps\<close> and \<open>audit_logs\<close>. The constraints of the
    schema that the code depends on are checked by the inserting and updating queries.
  \<^item> Queries carry sqlc's names; \<open>Repository_*\<close> are the methods of \<open>repository.go\<close>, which
    turn "no rows" into nil and can fail: \<open>approval_faults\<close> says which calls fail.
  \<^item> \<open>BuildChain\<close> walks the reporting line. Its loop has no bound, so it is a
    \<open>partial_function\<close> whose value \<open>None\<close> is a walk that never returns.
  \<^item> \<open>Orchestrator_SubmitForApproval\<close>, \<open>Orchestrator_Approve\<close> and
    \<open>Orchestrator_Reject\<close> are the state machine. The parameter \<open>env\<close> is what other
    sessions commit between an operation's reads and its transaction; \<open>id\<close> is a run alone.
  Columns \<open>created_at\<close> and \<open>updated_at\<close> are left out: rows are kept in insertion order, which
  is what the one \<open>ORDER BY created_at\<close> of the package sees. Amounts are in hundredths
  (\<open>numeric(20,2)\<close>).
\<close>

section \<open>Tables\<close>

record user_node =
  un_id :: id64
  un_supervisor_id :: "id64 option"
  un_approval_level :: "int option"

record leave_row =
  ul_id :: id64
  ul_user_id :: id64
  ul_start_at :: timestamp
  ul_end_at :: timestamp
  ul_reason :: "string option"

record delegation_row =
  ad_id :: id64
  ad_from_user_id :: id64
  ad_to_user_id :: id64
  ad_start_at :: timestamp
  ad_end_at :: timestamp
  ad_reason :: "string option"

record policy_row =
  ap_id :: id64
  ap_document_type :: string
  ap_min_amount :: int
  ap_max_amount :: int
  ap_required_level :: int
  ap_is_active :: bool

datatype request_status = Draft | Pending | Approved | Rejected

datatype step_status = StepPending | StepApproved | StepRejected

record approval_request =
  ar_id :: id64
  ar_maker_id :: id64
  ar_document_type :: string
  ar_document_id :: id64
  ar_amount :: int
  ar_required_level :: int
  ar_status :: request_status

record approval_step =
  as_id :: id64
  as_request_id :: id64
  as_step_level :: int
  as_assigned_approver_id :: id64
  as_acted_by_id :: "id64 option"
  as_status :: step_status
  as_acted_at :: "timestamp option"

record approval_db =
  db_users :: "user_node list"
  db_leaves :: "leave_row list"
  db_delegations :: "delegation_row list"
  db_policies :: "policy_row list"
  db_requests :: "approval_request list"
  db_steps :: "approval_step list"
  db_audit :: "audit_row list"
  db_next_id :: id64

datatype approval_err =
    ErrNotAuthorized | ErrRequestNotPending | ErrPolicyNotFound | ErrDelegationOverlap
  | ErrApproverOnLeaveNoDelegate | ErrChainIncomplete
  | ErrNoRows                        \<comment> \<open>pgx.ErrNoRows\<close>
  | UniqueViolation string           \<comment> \<open>23505, by constraint\<close>
  | ExclusionViolation string        \<comment> \<open>23P01\<close>
  | CheckViolation string            \<comment> \<open>23514\<close>
  | ForeignKeyViolation string       \<comment> \<open>23503\<close>
  | DbError                          \<comment> \<open>any other failing statement\<close>

text \<open>The calls that can fail for a reason outside the model (connection, timeout, ...).\<close>

datatype approval_call =
    CFindRequest | CFindPolicy | CGetApprover id64 | CBegin | CCreateRequest | CCreateStep nat
  | CAudit nat | CCommit | CReload | CGetRequest | CFindPendingStep | CIsOnLeave
  | CFindDelegate | CUpdateStep | CListSteps | CUpdateRequest | CAdminWrite

type_synonym approval_faults = "approval_call \<Rightarrow> bool"

section \<open>Queries\<close>

definition GetUserApprovalInfo :: "approval_db \<Rightarrow> id64 \<Rightarrow> user_node option" where
  "GetUserApprovalInfo db uid = find_row (\<lambda>u. un_id u = uid) (db_users db)"

definition covers :: "timestamp \<Rightarrow> timestamp \<Rightarrow> timestamp \<Rightarrow> bool" where
  "covers s e t \<longleftrightarrow> s \<le> t \<and> e > t"

definition FindActiveLeave :: "approval_db \<Rightarrow> id64 \<Rightarrow> timestamp \<Rightarrow> leave_row option" where
  "FindActiveLeave db uid t =
     find_row (\<lambda>l. ul_user_id l = uid \<and> covers (ul_start_at l) (ul_end_at l) t) (db_leaves db)"

definition FindActiveDelegate :: "approval_db \<Rightarrow> id64 \<Rightarrow> timestamp \<Rightarrow> id64 option" where
  "FindActiveDelegate db uid t =
     map_option ad_to_user_id
       (first_min (\<lambda>d. - ad_start_at d)
         (filter (\<lambda>d. ad_from_user_id d = uid \<and> covers (ad_start_at d) (ad_end_at d) t)
           (db_delegations db)))"

definition FindApprovalPolicy :: "approval_db \<Rightarrow> string \<Rightarrow> int \<Rightarrow> int option" where
  "FindApprovalPolicy db dtype amount =
     map_option ap_required_level
       (find_row (\<lambda>p. ap_document_type p = dtype \<and> amount \<ge> ap_min_amount p
                    \<and> amount < ap_max_amount p \<and> ap_is_active p) (db_policies db))"

definition FindApprovalRequestByDocument ::
  "approval_db \<Rightarrow> string \<Rightarrow> id64 \<Rightarrow> approval_request option" where
  "FindApprovalRequestByDocument db dtype did =
     find_row (\<lambda>r. ar_document_type r = dtype \<and> ar_document_id r = did) (db_requests db)"

definition GetApprovalRequest :: "approval_db \<Rightarrow> id64 \<Rightarrow> approval_request option" where
  "GetApprovalRequest db rid = find_row (\<lambda>r. ar_id r = rid) (db_requests db)"

definition CreateApprovalRequest ::
  "approval_db \<Rightarrow> id64 \<Rightarrow> string \<Rightarrow> id64 \<Rightarrow> int \<Rightarrow> int
   \<Rightarrow> (approval_err, approval_request \<times> approval_db) result" where
  "CreateApprovalRequest db maker dtype did amount lvl =
     (if FindApprovalRequestByDocument db dtype did \<noteq> None
      then Inl (UniqueViolation ''approval_requests_document_uq'')
      else let r = \<lparr>ar_id = db_next_id db, ar_maker_id = maker, ar_document_type = dtype,
                    ar_document_id = did, ar_amount = amount, ar_required_level = lvl,
                    ar_status = Pending\<rparr>
           in Inr (r, db\<lparr>db_requests := db_requests db @ [r], db_next_id := db_next_id db + 1\<rparr>))"

definition CreateApprovalStep ::
  "approval_db \<Rightarrow> id64 \<Rightarrow> int \<Rightarrow> id64 \<Rightarrow> (approval_err, approval_step \<times> approval_db) result" where
  "CreateApprovalStep db rid lvl approver =
     (if \<exists>s \<in> set (db_steps db). as_request_id s = rid \<and> as_step_level s = lvl
      then Inl (UniqueViolation ''approval_steps_request_level_uq'')
      else let s = \<lparr>as_id = db_next_id db, as_request_id = rid, as_step_level = lvl,
                    as_assigned_approver_id = approver, as_acted_by_id = None,
                    as_status = StepPending, as_acted_at = None\<rparr>
           in Inr (s, db\<lparr>db_steps := db_steps db @ [s], db_next_id := db_next_id db + 1\<rparr>))"

definition ListApprovalSteps :: "approval_db \<Rightarrow> id64 \<Rightarrow> approval_step list" where
  "ListApprovalSteps db rid =
     sort_key as_step_level (filter (\<lambda>s. as_request_id s = rid) (db_steps db))"

definition FindPendingApprovalStep :: "approval_db \<Rightarrow> id64 \<Rightarrow> approval_step option" where
  "FindPendingApprovalStep db rid =
     first_min as_step_level
       (filter (\<lambda>s. as_request_id s = rid \<and> as_status s = StepPending) (db_steps db))"

definition UpdateApprovalRequestStatus ::
  "approval_db \<Rightarrow> id64 \<Rightarrow> request_status \<Rightarrow> (approval_err, approval_request \<times> approval_db) result" where
  "UpdateApprovalRequestStatus db rid st =
     (let db' = db\<lparr>db_requests := update_where (\<lambda>r. ar_id r = rid)
                     (\<lambda>r. r\<lparr>ar_status := st\<rparr>) (db_requests db)\<rparr>
      in case GetApprovalRequest db' rid of None \<Rightarrow> Inl ErrNoRows | Some r \<Rightarrow> Inr (r, db'))"

definition UpdateApprovalStepStatus ::
  "approval_db \<Rightarrow> id64 \<Rightarrow> step_status \<Rightarrow> id64 \<Rightarrow> timestamp
   \<Rightarrow> (approval_err, approval_step \<times> approval_db) result" where
  "UpdateApprovalStepStatus db sid st actor t =
     (let db' = db\<lparr>db_steps := update_where (\<lambda>s. as_id s = sid)
                     (\<lambda>s. s\<lparr>as_status := st, as_acted_by_id := Some actor, as_acted_at := Some t\<rparr>)
                     (db_steps db)\<rparr>
      in case find_row (\<lambda>s. as_id s = sid) (db_steps db') of
           None \<Rightarrow> Inl ErrNoRows | Some s \<Rightarrow> Inr (s, db'))"

record inbox_item =
  ii_step_id :: id64
  ii_request_id :: id64
  ii_step_level :: int
  ii_document_type :: string
  ii_document_id :: id64
  ii_amount :: int
  ii_maker_id :: id64

definition ListPendingStepsForApprover :: "approval_db \<Rightarrow> id64 \<Rightarrow> inbox_item list" where
  "ListPendingStepsForApprover db approver =
     concat (map (\<lambda>s. map (\<lambda>r. \<lparr>ii_step_id = as_id s, ii_request_id = as_request_id s,
          ii_step_level = as_step_level s, ii_document_type = ar_document_type r,
          ii_document_id = ar_document_id r, ii_amount = ar_amount r, ii_maker_id = ar_maker_id r\<rparr>)
        (filter (\<lambda>r. ar_id r = as_request_id s \<and> ar_status r = Pending) (db_requests db)))
      (filter (\<lambda>s. as_assigned_approver_id s = approver \<and> as_status s = StepPending) (db_steps db)))"

definition UpdateUserHierarchy ::
  "approval_db \<Rightarrow> id64 \<Rightarrow> id64 option \<Rightarrow> int option
   \<Rightarrow> (approval_err, user_node \<times> approval_db) result" where
  "UpdateUserHierarchy db uid spv lvl =
     (if GetUserApprovalInfo db uid = None then Inl ErrNoRows
      else if spv = Some uid then Inl (CheckViolation ''users_supervisor_not_self_chk'')
      else if spv \<noteq> None \<and> GetUserApprovalInfo db (the spv) = None
      then Inl (ForeignKeyViolation ''users_supervisor_fk'')
      else Inr (\<lparr>un_id = uid, un_supervisor_id = spv, un_approval_level = lvl\<rparr>,
                db\<lparr>db_users := update_where (\<lambda>u. un_id u = uid)
                     (\<lambda>u. u\<lparr>un_supervisor_id := spv, un_approval_level := lvl\<rparr>) (db_users db)\<rparr>))"

definition ranges_overlap :: "int \<Rightarrow> int \<Rightarrow> int \<Rightarrow> int \<Rightarrow> bool" where
  "ranges_overlap s1 e1 s2 e2 \<longleftrightarrow> s1 < e2 \<and> s2 < e1"

definition CreateApprovalDelegation ::
  "approval_db \<Rightarrow> id64 \<Rightarrow> id64 \<Rightarrow> timestamp \<Rightarrow> timestamp \<Rightarrow> string option
   \<Rightarrow> (approval_err, delegation_row \<times> approval_db) result" where
  "CreateApprovalDelegation db frm to s e reason =
     (if frm = to then Inl (CheckViolation ''approval_delegations_not_self_chk'')
      else if \<not> s < e then Inl (CheckViolation ''approval_delegations_range_chk'')
      else if \<exists>d \<in> set (db_delegations db). ad_from_user_id d = frm
                \<and> ranges_overlap (ad_start_at d) (ad_end_at d) s e
      then Inl (ExclusionViolation ''approval_delegations_no_overlap'')
      else if GetUserApprovalInfo db frm = None
      then Inl (ForeignKeyViolation ''approval_delegations_from_fk'')
      else if GetUserApprovalInfo db to = None
      then Inl (ForeignKeyViolation ''approval_delegations_to_fk'')
      else let d = \<lparr>ad_id = db_next_id db, ad_from_user_id = frm, ad_to_user_id = to,
                    ad_start_at = s, ad_end_at = e, ad_reason = reason\<rparr>
           in Inr (d, db\<lparr>db_delegations := db_delegations db @ [d], db_next_id := db_next_id db + 1\<rparr>))"

definition RevokeApprovalDelegation ::
  "approval_db \<Rightarrow> id64 \<Rightarrow> timestamp \<Rightarrow> (approval_err, delegation_row \<times> approval_db) result" where
  "RevokeApprovalDelegation db did e =
     (case find_row (\<lambda>d. ad_id d = did \<and> ad_end_at d > e) (db_delegations db) of
        None \<Rightarrow> Inl ErrNoRows
      | Some d \<Rightarrow>
          if \<not> ad_start_at d < e then Inl (CheckViolation ''approval_delegations_range_chk'')
          else Inr (d\<lparr>ad_end_at := e\<rparr>,
                 db\<lparr>db_delegations := update_where (\<lambda>d. ad_id d = did \<and> ad_end_at d > e)
                      (\<lambda>d. d\<lparr>ad_end_at := e\<rparr>) (db_delegations db)\<rparr>))"

definition CreateUserLeave ::
  "approval_db \<Rightarrow> id64 \<Rightarrow> timestamp \<Rightarrow> timestamp \<Rightarrow> string option
   \<Rightarrow> (approval_err, leave_row \<times> approval_db) result" where
  "CreateUserLeave db uid s e reason =
     (if \<not> s < e then Inl (CheckViolation ''user_leaves_range_chk'')
      else if GetUserApprovalInfo db uid = None then Inl (ForeignKeyViolation ''user_leaves_user_fk'')
      else let l = \<lparr>ul_id = db_next_id db, ul_user_id = uid, ul_start_at = s, ul_end_at = e,
                    ul_reason = reason\<rparr>
           in Inr (l, db\<lparr>db_leaves := db_leaves db @ [l], db_next_id := db_next_id db + 1\<rparr>))"

definition policy_conflict :: "approval_db \<Rightarrow> id64 option \<Rightarrow> string \<Rightarrow> int \<Rightarrow> int \<Rightarrow> bool" where
  "policy_conflict db except dtype lo hi \<longleftrightarrow>
     (\<exists>p \<in> set (db_policies db). ap_is_active p \<and> ap_document_type p = dtype
        \<and> Some (ap_id p) \<noteq> except \<and> ranges_overlap (ap_min_amount p) (ap_max_amount p) lo hi)"

definition CreateApprovalPolicy ::
  "approval_db \<Rightarrow> string \<Rightarrow> int \<Rightarrow> int \<Rightarrow> int \<Rightarrow> (approval_err, policy_row \<times> approval_db) result" where
  "CreateApprovalPolicy db dtype lo hi lvl =
     (if \<not> lo < hi then Inl (CheckViolation ''approval_policies_amount_range_chk'')
      else if policy_conflict db None dtype lo hi
      then Inl (ExclusionViolation ''approval_policies_no_overlap'')
      else let p = \<lparr>ap_id = db_next_id db, ap_document_type = dtype, ap_min_amount = lo,
                    ap_max_amount = hi, ap_required_level = lvl, ap_is_active = True\<rparr>
           in Inr (p, db\<lparr>db_policies := db_policies db @ [p], db_next_id := db_next_id db + 1\<rparr>))"

definition UpdateApprovalPolicy ::
  "approval_db \<Rightarrow> id64 \<Rightarrow> string \<Rightarrow> int \<Rightarrow> int \<Rightarrow> int \<Rightarrow> (approval_err, policy_row \<times> approval_db) result" where
  "UpdateApprovalPolicy db pid dtype lo hi lvl =
     (case find_row (\<lambda>p. ap_id p = pid) (db_policies db) of
        None \<Rightarrow> Inl ErrNoRows
      | Some p \<Rightarrow>
          if \<not> lo < hi then Inl (CheckViolation ''approval_policies_amount_range_chk'')
          else if ap_is_active p \<and> policy_conflict db (Some pid) dtype lo hi
          then Inl (ExclusionViolation ''approval_policies_no_overlap'')
          else let upd = (\<lambda>p. p\<lparr>ap_document_type := dtype, ap_min_amount := lo,
                            ap_max_amount := hi, ap_required_level := lvl\<rparr>)
               in Inr (upd p, db\<lparr>db_policies := update_where (\<lambda>p. ap_id p = pid) upd (db_policies db)\<rparr>))"

section \<open>Repository\<close>

definition Repository_GetApproverInfo ::
  "approval_faults \<Rightarrow> approval_db \<Rightarrow> id64 \<Rightarrow> (approval_err, user_node) result" where
  "Repository_GetApproverInfo flt db uid =
     (if flt (CGetApprover uid) then Inl DbError
      else case GetUserApprovalInfo db uid of None \<Rightarrow> Inl ErrNoRows | Some u \<Rightarrow> Inr u)"

definition Repository_IsOnLeave ::
  "approval_faults \<Rightarrow> approval_db \<Rightarrow> id64 \<Rightarrow> timestamp \<Rightarrow> (approval_err, bool) result" where
  "Repository_IsOnLeave flt db uid t =
     (if flt CIsOnLeave then Inl DbError else Inr (FindActiveLeave db uid t \<noteq> None))"

definition Repository_FindActiveDelegate ::
  "approval_faults \<Rightarrow> approval_db \<Rightarrow> id64 \<Rightarrow> timestamp \<Rightarrow> (approval_err, id64 option) result" where
  "Repository_FindActiveDelegate flt db uid t =
     (if flt CFindDelegate then Inl DbError else Inr (FindActiveDelegate db uid t))"

definition Repository_FindPolicy ::
  "approval_faults \<Rightarrow> approval_db \<Rightarrow> string \<Rightarrow> int \<Rightarrow> (approval_err, int) result" where
  "Repository_FindPolicy flt db dtype amount =
     (if flt CFindPolicy then Inl DbError
      else case FindApprovalPolicy db dtype amount of None \<Rightarrow> Inl ErrNoRows | Some l \<Rightarrow> Inr l)"

definition Repository_FindRequestByDocument ::
  "bool \<Rightarrow> approval_db \<Rightarrow> string \<Rightarrow> id64 \<Rightarrow> (approval_err, approval_request option) result" where
  "Repository_FindRequestByDocument failing db dtype did =
     (if failing then Inl DbError else Inr (FindApprovalRequestByDocument db dtype did))"

definition Repository_CreateRequest ::
  "approval_faults \<Rightarrow> approval_db \<Rightarrow> id64 \<Rightarrow> string \<Rightarrow> id64 \<Rightarrow> int \<Rightarrow> int
   \<Rightarrow> (approval_err, approval_request \<times> approval_db) result" where
  "Repository_CreateRequest flt db maker dtype did amount lvl =
     (if flt CCreateRequest then Inl DbError else CreateApprovalRequest db maker dtype did amount lvl)"

definition Repository_GetRequest ::
  "approval_faults \<Rightarrow> approval_db \<Rightarrow> id64 \<Rightarrow> (approval_err, approval_request) result" where
  "Repository_GetRequest flt db rid =
     (if flt CGetRequest then Inl DbError
      else case GetApprovalRequest db rid of None \<Rightarrow> Inl ErrNoRows | Some r \<Rightarrow> Inr r)"

definition Repository_UpdateRequestStatus ::
  "approval_faults \<Rightarrow> approval_db \<Rightarrow> id64 \<Rightarrow> request_status
   \<Rightarrow> (approval_err, approval_request \<times> approval_db) result" where
  "Repository_UpdateRequestStatus flt db rid st =
     (if flt CUpdateRequest then Inl DbError else UpdateApprovalRequestStatus db rid st)"

definition Repository_CreateStep ::
  "bool \<Rightarrow> approval_db \<Rightarrow> id64 \<Rightarrow> int \<Rightarrow> id64 \<Rightarrow> (approval_err, approval_step \<times> approval_db) result" where
  "Repository_CreateStep failing db rid lvl approver =
     (if failing then Inl DbError else CreateApprovalStep db rid lvl approver)"

definition Repository_ListSteps ::
  "approval_faults \<Rightarrow> approval_db \<Rightarrow> id64 \<Rightarrow> (approval_err, approval_step list) result" where
  "Repository_ListSteps flt db rid =
     (if flt CListSteps then Inl DbError else Inr (ListApprovalSteps db rid))"

definition Repository_FindPendingStep ::
  "approval_faults \<Rightarrow> approval_db \<Rightarrow> id64 \<Rightarrow> (approval_err, approval_step option) result" where
  "Repository_FindPendingStep flt db rid =
     (if flt CFindPendingStep then Inl DbError else Inr (FindPendingApprovalStep db rid))"

definition Repository_UpdateStepStatus ::
  "approval_faults \<Rightarrow> approval_db \<Rightarrow> id64 \<Rightarrow> step_status \<Rightarrow> id64 \<Rightarrow> timestamp
   \<Rightarrow> (approval_err, approval_step \<times> approval_db) result" where
  "Repository_UpdateStepStatus flt db sid st actor t =
     (if flt CUpdateStep then Inl DbError else UpdateApprovalStepStatus db sid st actor t)"

definition Repository_CreateDelegation ::
  "approval_faults \<Rightarrow> approval_db \<Rightarrow> id64 \<Rightarrow> id64 \<Rightarrow> timestamp \<Rightarrow> timestamp \<Rightarrow> string option
   \<Rightarrow> (approval_err, delegation_row \<times> approval_db) result" where
  "Repository_CreateDelegation flt db frm to s e reason =
     (if flt CAdminWrite then Inl DbError
      else case CreateApprovalDelegation db frm to s e reason of
        Inl (ExclusionViolation c) \<Rightarrow> Inl ErrDelegationOverlap
      | Inl err \<Rightarrow> Inl err
      | Inr r \<Rightarrow> Inr r)"

definition Repository_RevokeDelegation ::
  "approval_faults \<Rightarrow> approval_db \<Rightarrow> id64 \<Rightarrow> timestamp
   \<Rightarrow> (approval_err, (delegation_row option) \<times> approval_db) result" where
  "Repository_RevokeDelegation flt db did t =
     (if flt CAdminWrite then Inl DbError
      else case RevokeApprovalDelegation db did t of
        Inl ErrNoRows \<Rightarrow> Inr (None, db)
      | Inl err \<Rightarrow> Inl err
      | Inr (d, db') \<Rightarrow> Inr (Some d, db'))"

definition Audit_WriteTx ::
  "bool \<Rightarrow> audit_row \<Rightarrow> approval_db \<Rightarrow> (approval_err, approval_db) result" where
  "Audit_WriteTx failing e db =
     (if failing then Inl DbError else Inr (db\<lparr>db_audit := db_audit db @ [e]\<rparr>))"

section \<open>Routing: the approver chain and the effective approver\<close>

partial_function (option) build_chain_from ::
  "(id64 \<Rightarrow> (approval_err, user_node) result) \<Rightarrow> int \<Rightarrow> user_node list \<Rightarrow> id64
   \<Rightarrow> (approval_err, user_node list) result option" where
  "build_chain_from get requiredLevel chain currentID =
     (case get currentID of
        Inl e \<Rightarrow> Some (Inl e)
      | Inr current \<Rightarrow>
         (case un_supervisor_id current of
            None \<Rightarrow> Some (Inl ErrChainIncomplete)
          | Some sid \<Rightarrow>
             (case get sid of
                Inl e \<Rightarrow> Some (Inl e)
              | Inr supervisor \<Rightarrow>
                 (case un_approval_level supervisor of
                    None \<Rightarrow> build_chain_from get requiredLevel chain (un_id supervisor)
                  | Some lvl \<Rightarrow>
                      if lvl \<ge> requiredLevel then Some (Inr (chain @ [supervisor]))
                      else build_chain_from get requiredLevel (chain @ [supervisor])
                             (un_id supervisor)))))"

declare build_chain_from.simps [code]

definition BuildChain ::
  "(id64 \<Rightarrow> (approval_err, user_node) result) \<Rightarrow> id64 \<Rightarrow> int
   \<Rightarrow> (approval_err, user_node list) result option" where
  "BuildChain get makerID requiredLevel = build_chain_from get requiredLevel [] makerID"

definition ResolveEffectiveApprover ::
  "approval_faults \<Rightarrow> approval_db \<Rightarrow> id64 \<Rightarrow> id64 \<Rightarrow> timestamp \<Rightarrow> (approval_err, id64) result" where
  "ResolveEffectiveApprover flt db approverID makerID t =
     (case Repository_IsOnLeave flt db approverID t of
        Inl e \<Rightarrow> Inl e
      | Inr onLeave \<Rightarrow>
         (case (if onLeave
                then (case Repository_FindActiveDelegate flt db approverID t of
                        Inl e \<Rightarrow> Inl e
                      | Inr None \<Rightarrow> Inl ErrApproverOnLeaveNoDelegate
                      | Inr (Some delegate) \<Rightarrow> Inr delegate)
                else Inr approverID) of
            Inl e \<Rightarrow> Inl e
          | Inr effective \<Rightarrow>
              if effective = makerID then Inl ErrNotAuthorized else Inr effective))"

section \<open>The orchestrator\<close>

fun json_request_status :: "request_status \<Rightarrow> json" where
  "json_request_status Draft = JStr ''draft''"
| "json_request_status Pending = JStr ''pending''"
| "json_request_status Approved = JStr ''approved''"
| "json_request_status Rejected = JStr ''rejected''"

definition json_request :: "approval_request \<Rightarrow> json" where
  "json_request r = JObj [(''id'', JNum (ar_id r)), (''maker_id'', JNum (ar_maker_id r)),
     (''document_type'', JStr (ar_document_type r)), (''document_id'', JNum (ar_document_id r)),
     (''amount'', JNum (ar_amount r)), (''required_level'', JNum (ar_required_level r)),
     (''status'', json_request_status (ar_status r))]"

definition json_status :: "string \<Rightarrow> json" where
  "json_status s = JObj [(''status'', JStr s)]"

definition isDocumentConflict :: "approval_err \<Rightarrow> bool" where
  "isDocumentConflict e \<longleftrightarrow> e = UniqueViolation ''approval_requests_document_uq''"

text \<open>The steps of a new request, one per approver of the chain, in chain order.\<close>

fun create_steps ::
  "approval_faults \<Rightarrow> nat \<Rightarrow> id64 \<Rightarrow> user_node list \<Rightarrow> approval_db \<Rightarrow> (approval_err, approval_db) result" where
  "create_steps flt i rid [] db = Inr db"
| "create_steps flt i rid (approver # chain) db =
     (case Repository_CreateStep (flt (CCreateStep i)) db rid
             (the (un_approval_level approver)) (un_id approver) of
        Inl e \<Rightarrow> Inl e
      | Inr (_, db') \<Rightarrow> create_steps flt (Suc i) rid chain db')"

definition submit_tx ::
  "approval_faults \<Rightarrow> id64 \<Rightarrow> string \<Rightarrow> id64 \<Rightarrow> int \<Rightarrow> int \<Rightarrow> user_node list \<Rightarrow> ip_addr
   \<Rightarrow> (approval_db, approval_err, approval_request) tx" where
  "submit_tx flt maker dtype did amount lvl chain ip db =
     (if flt CBegin then Inl DbError
      else case Repository_CreateRequest flt db maker dtype did amount lvl of
        Inl e \<Rightarrow> Inl e
      | Inr (request, db1) \<Rightarrow>
         (case create_steps flt 0 (ar_id request) chain db1 of
            Inl e \<Rightarrow> Inl e
          | Inr db2 \<Rightarrow>
             (case Audit_WriteTx (flt (CAudit 0))
                     (audit_entry maker ''submit'' ''approval_request'' (ar_id request) None
                        (Some (json_request request)) ip) db2 of
                Inl e \<Rightarrow> Inl e
              | Inr db3 \<Rightarrow> Inr (request, db3))))"

definition Orchestrator_SubmitForApproval ::
  "(approval_db \<Rightarrow> approval_db) \<Rightarrow> approval_faults \<Rightarrow> id64 \<Rightarrow> string \<Rightarrow> id64 \<Rightarrow> int \<Rightarrow> ip_addr
   \<Rightarrow> approval_db \<Rightarrow> ((approval_err, approval_request \<times> bool) result \<times> approval_db) option" where
  "Orchestrator_SubmitForApproval env flt makerID dtype did amount ip db =
     (case Repository_FindRequestByDocument (flt CFindRequest) db dtype did of
        Inl e \<Rightarrow> Some (Inl e, db)
      | Inr (Some existing) \<Rightarrow> Some (Inr (existing, False), db)
      | Inr None \<Rightarrow>
         (case Repository_FindPolicy flt db dtype amount of
            Inl e \<Rightarrow> Some (Inl ErrPolicyNotFound, db)
          | Inr requiredLevel \<Rightarrow>
             (case BuildChain (Repository_GetApproverInfo flt db) makerID requiredLevel of
                None \<Rightarrow> None
              | Some (Inl e) \<Rightarrow> Some (Inl e, db)
              | Some (Inr chain) \<Rightarrow> Some
                 (case run_in_tx (\<not> flt CCommit) DbError
                         (submit_tx flt makerID dtype did amount requiredLevel chain ip) (env db) of
                    (Inr request, db') \<Rightarrow> (Inr (request, True), db')
                  | (Inl err, db') \<Rightarrow>
                      if isDocumentConflict err
                      then (case Repository_FindRequestByDocument (flt CReload) db' dtype did of
                              Inl e \<Rightarrow> (Inl e, db')
                            | Inr (Some existing) \<Rightarrow> (Inr (existing, False), db')
                            | Inr None \<Rightarrow> (Inl err, db'))
                      else (Inl err, db')))))"

definition loadPendingStep ::
  "approval_faults \<Rightarrow> approval_db \<Rightarrow> id64 \<Rightarrow> (approval_err, approval_request \<times> approval_step) result" where
  "loadPendingStep flt db requestID =
     (case Repository_GetRequest flt db requestID of
        Inl e \<Rightarrow> Inl e
      | Inr request \<Rightarrow>
          if ar_status request \<noteq> Pending then Inl ErrRequestNotPending
          else (case Repository_FindPendingStep flt db requestID of
                  Inl e \<Rightarrow> Inl e
                | Inr None \<Rightarrow> Inl ErrRequestNotPending
                | Inr (Some step) \<Rightarrow> Inr (request, step)))"

definition max_level :: "approval_step list \<Rightarrow> int" where
  "max_level steps = fold (\<lambda>s m. if as_step_level s > m then as_step_level s else m) steps 0"

definition approve_tx ::
  "approval_faults \<Rightarrow> timestamp \<Rightarrow> id64 \<Rightarrow> id64 \<Rightarrow> ip_addr \<Rightarrow> approval_request \<Rightarrow> approval_step
   \<Rightarrow> (approval_db, approval_err, approval_request) tx" where
  "approve_tx flt t requestID actorID ip request step db =
     (if flt CBegin then Inl DbError
      else case Repository_UpdateStepStatus flt db (as_id step) StepApproved actorID t of
        Inl e \<Rightarrow> Inl e
      | Inr (updatedStep, db1) \<Rightarrow>
         (case Audit_WriteTx (flt (CAudit 0))
                 (audit_entry actorID ''approve'' ''approval_step'' (as_id updatedStep)
                    (Some (json_status ''pending'')) (Some (json_status ''approved'')) ip) db1 of
            Inl e \<Rightarrow> Inl e
          | Inr db2 \<Rightarrow>
             (case Repository_ListSteps flt db2 requestID of
                Inl e \<Rightarrow> Inl e
              | Inr steps \<Rightarrow>
                  if as_step_level updatedStep < max_level steps then Inr (request, db2)
                  else (case Repository_UpdateRequestStatus flt db2 requestID Approved of
                          Inl e \<Rightarrow> Inl e
                        | Inr (request', db3) \<Rightarrow>
                           (case Audit_WriteTx (flt (CAudit 1))
                                   (audit_entry actorID ''final_approve'' ''approval_request'' requestID
                                      (Some (json_status ''pending'')) (Some (json_status ''approved''))
                                      ip) db3 of
                              Inl e \<Rightarrow> Inl e
                            | Inr db4 \<Rightarrow> Inr (request', db4))))))"

definition reject_tx ::
  "approval_faults \<Rightarrow> timestamp \<Rightarrow> id64 \<Rightarrow> id64 \<Rightarrow> ip_addr \<Rightarrow> approval_step
   \<Rightarrow> (approval_db, approval_err, approval_request) tx" where
  "reject_tx flt t requestID actorID ip step db =
     (if flt CBegin then Inl DbError
      else case Repository_UpdateStepStatus flt db (as_id step) StepRejected actorID t of
        Inl e \<Rightarrow> Inl e
      | Inr (_, db1) \<Rightarrow>
         (case Repository_UpdateRequestStatus flt db1 requestID Rejected of
            Inl e \<Rightarrow> Inl e
          | Inr (finalRequest, db2) \<Rightarrow>
             (case Audit_WriteTx (flt (CAudit 0))
                     (audit_entry actorID ''reject'' ''approval_request'' requestID
                        (Some (json_status ''pending'')) (Some (json_status ''rejected'')) ip) db2 of
                Inl e \<Rightarrow> Inl e
              | Inr db3 \<Rightarrow> Inr (finalRequest, db3))))"

text \<open>
  \<open>t\<close> is the clock when the approver is resolved and \<open>t'\<close> when the step is written.
\<close>

definition Orchestrator_Approve ::
  "(approval_db \<Rightarrow> approval_db) \<Rightarrow> approval_faults \<Rightarrow> timestamp \<Rightarrow> timestamp \<Rightarrow> id64 \<Rightarrow> id64
   \<Rightarrow> ip_addr \<Rightarrow> approval_db \<Rightarrow> (approval_err, approval_request) result \<times> approval_db" where
  "Orchestrator_Approve env flt t t' requestID actorID ip db =
     (case loadPendingStep flt db requestID of
        Inl e \<Rightarrow> (Inl e, db)
      | Inr (request, step) \<Rightarrow>
         (case ResolveEffectiveApprover flt db (as_assigned_approver_id step) (ar_maker_id request) t of
            Inl e \<Rightarrow> (Inl e, db)
          | Inr effectiveApprover \<Rightarrow>
              if actorID \<noteq> effectiveApprover then (Inl ErrNotAuthorized, db)
              else run_in_tx (\<not> flt CCommit) DbError
                     (approve_tx flt t' requestID actorID ip request step) (env db)))"

definition Orchestrator_Reject ::
  "(approval_db \<Rightarrow> approval_db) \<Rightarrow> approval_faults \<Rightarrow> timestamp \<Rightarrow> timestamp \<Rightarrow> id64 \<Rightarrow> id64
   \<Rightarrow> ip_addr \<Rightarrow> approval_db \<Rightarrow> (approval_err, approval_request) result \<times> approval_db" where
  "Orchestrator_Reject env flt t t' requestID actorID ip db =
     (case loadPendingStep flt db requestID of
        Inl e \<Rightarrow> (Inl e, db)
      | Inr (request, step) \<Rightarrow>
         (case ResolveEffectiveApprover flt db (as_assigned_approver_id step) (ar_maker_id request) t of
            Inl e \<Rightarrow> (Inl e, db)
          | Inr effectiveApprover \<Rightarrow>
              if actorID \<noteq> effectiveApprover then (Inl ErrNotAuthorized, db)
              else run_in_tx (\<not> flt CCommit) DbError
                     (reject_tx flt t' requestID actorID ip step) (env db)))"

section \<open>Administration of hierarchy, delegations and leaves\<close>

text \<open>
  \<open>AdminApprovalHandler\<close>: each handler answers with a status and an error code, and its audit
  row is best effort (\<open>_ = h.audit.Write(..)\<close>). A path id, body or timestamp that does not parse
  is \<open>None\<close>; \<open>auth\<close> is the caller's user id, \<open>None\<close> without an auth context.
\<close>

datatype http_reply = HttpOK nat | HttpError nat string

definition best_effort_audit :: "approval_faults \<Rightarrow> audit_row \<Rightarrow> approval_db \<Rightarrow> approval_db" where
  "best_effort_audit flt e db = (case Audit_WriteTx (flt (CAudit 0)) e db of Inl _ \<Rightarrow> db | Inr db' \<Rightarrow> db')"

definition admin_handleError :: "approval_err \<Rightarrow> http_reply" where
  "admin_handleError e =
     (if e = ErrDelegationOverlap then HttpError 409 ''conflict'' else HttpError 500 ''internal_error'')"

definition parse_id :: "int option \<Rightarrow> int option" where
  "parse_id v = (case v of None \<Rightarrow> None | Some i \<Rightarrow> if i \<le> 0 then None else Some i)"

definition parseRange :: "timestamp option \<Rightarrow> timestamp option \<Rightarrow> (timestamp \<times> timestamp) option" where
  "parseRange s e = (case (s, e) of
      (Some s, Some e) \<Rightarrow> if s < e then Some (s, e) else None
    | _ \<Rightarrow> None)"

definition json_int_opt :: "int option \<Rightarrow> json" where
  "json_int_opt = json_opt JNum"

definition AdminApproval_SetHierarchy ::
  "approval_faults \<Rightarrow> id64 option \<Rightarrow> int option \<Rightarrow> (id64 option \<times> int option) option \<Rightarrow> ip_addr
   \<Rightarrow> approval_db \<Rightarrow> http_reply \<times> approval_db" where
  "AdminApproval_SetHierarchy flt auth path body ip db =
     (case auth of None \<Rightarrow> (HttpError 401 ''unauthorized'', db)
      | Some actor \<Rightarrow>
     (case parse_id path of None \<Rightarrow> (HttpError 400 ''bad_request'', db)
      | Some userID \<Rightarrow>
     (case body of None \<Rightarrow> (HttpError 400 ''bad_request'', db)
      | Some (supervisorID, level) \<Rightarrow>
        if supervisorID = Some userID then (HttpError 400 ''bad_request'', db)
        else if flt CAdminWrite then (admin_handleError DbError, db)
        else (case UpdateUserHierarchy db userID supervisorID level of
            Inl e \<Rightarrow> (admin_handleError e, db)
          | Inr (_, db') \<Rightarrow> (HttpOK 200, best_effort_audit flt
              (audit_entry actor ''admin_set_hierarchy'' ''user'' userID None
                 (Some (JObj [(''supervisor_id'', json_int_opt supervisorID),
                              (''approval_level'', json_int_opt level)])) ip) db')))))"

definition json_delegation :: "delegation_row \<Rightarrow> json" where
  "json_delegation d = JObj [(''id'', JNum (ad_id d)), (''from_user_id'', JNum (ad_from_user_id d)),
     (''to_user_id'', JNum (ad_to_user_id d)), (''start_at'', JNum (ad_start_at d)),
     (''end_at'', JNum (ad_end_at d)), (''reason'', json_opt JStr (ad_reason d))]"

definition AdminApproval_CreateDelegation ::
  "approval_faults \<Rightarrow> id64 option \<Rightarrow> (id64 \<times> id64 \<times> timestamp option \<times> timestamp option \<times> string option) option
   \<Rightarrow> ip_addr \<Rightarrow> approval_db \<Rightarrow> http_reply \<times> approval_db" where
  "AdminApproval_CreateDelegation flt auth body ip db =
     (case auth of None \<Rightarrow> (HttpError 401 ''unauthorized'', db)
      | Some actor \<Rightarrow>
     (case body of None \<Rightarrow> (HttpError 400 ''bad_request'', db)
      | Some (frm, to, s, e, reason) \<Rightarrow>
        if frm \<le> 0 \<or> to \<le> 0 then (HttpError 400 ''bad_request'', db)
        else (case parseRange s e of None \<Rightarrow> (HttpError 400 ''bad_request'', db)
          | Some (startAt, endAt) \<Rightarrow>
             (case Repository_CreateDelegation flt db frm to startAt endAt reason of
                Inl err \<Rightarrow> (admin_handleError err, db)
              | Inr (d, db') \<Rightarrow> (HttpOK 201, best_effort_audit flt
                  (audit_entry actor ''admin_create_delegation'' ''approval_delegation'' (ad_id d) None
                     (Some (JObj [(''from_user_id'', JNum frm), (''to_user_id'', JNum to),
                        (''start_at'', JNum startAt), (''end_at'', JNum endAt),
                        (''reason'', json_opt JStr reason)])) ip) db')))))"

definition AdminApproval_RevokeDelegation ::
  "approval_faults \<Rightarrow> timestamp \<Rightarrow> id64 option \<Rightarrow> int option \<Rightarrow> ip_addr
   \<Rightarrow> approval_db \<Rightarrow> http_reply \<times> approval_db" where
  "AdminApproval_RevokeDelegation flt now auth path ip db =
     (case auth of None \<Rightarrow> (HttpError 401 ''unauthorized'', db)
      | Some actor \<Rightarrow>
     (case parse_id path of None \<Rightarrow> (HttpError 400 ''bad_request'', db)
      | Some did \<Rightarrow>
     (case Repository_RevokeDelegation flt db did now of
        Inl err \<Rightarrow> (admin_handleError err, db)
      | Inr (None, _) \<Rightarrow> (HttpError 404 ''not_found'', db)
      | Inr (Some d, db') \<Rightarrow> (HttpOK 200, best_effort_audit flt
          (audit_entry actor ''admin_revoke_delegation'' ''approval_delegation'' did None
             (Some (json_delegation d)) ip) db'))))"

definition AdminApproval_CreateLeave ::
  "approval_faults \<Rightarrow> id64 option \<Rightarrow> (id64 \<times> timestamp option \<times> timestamp option \<times> string option) option
   \<Rightarrow> ip_addr \<Rightarrow> approval_db \<Rightarrow> http_reply \<times> approval_db" where
  "AdminApproval_CreateLeave flt auth body ip db =
     (case auth of None \<Rightarrow> (HttpError 401 ''unauthorized'', db)
      | Some actor \<Rightarrow>
     (case body of None \<Rightarrow> (HttpError 400 ''bad_request'', db)
      | Some (uid, s, e, reason) \<Rightarrow>
        if uid \<le> 0 then (HttpError 400 ''bad_request'', db)
        else (case parseRange s e of None \<Rightarrow> (HttpError 400 ''bad_request'', db)
          | Some (startAt, endAt) \<Rightarrow>
             if flt CAdminWrite then (admin_handleError DbError, db)
             else (case CreateUserLeave db uid startAt endAt reason of
                Inl err \<Rightarrow> (admin_handleError err, db)
              | Inr (l, db') \<Rightarrow> (HttpOK 201, best_effort_audit flt
                  (audit_entry actor ''admin_create_leave'' ''user_leave'' (ul_id l) None
                     (Some (JObj [(''user_id'', JNum uid), (''start_at'', JNum startAt),
                        (''end_at'', JNum endAt), (''reason'', json_opt JStr reason)])) ip) db')))))"

section \<open>The approval endpoints\<close>

definition approval_handleError :: "approval_err \<Rightarrow> http_reply" where
  "approval_handleError e = (case e of
      ErrNotAuthorized \<Rightarrow> HttpError 403 ''forbidden''
    | ErrRequestNotPending \<Rightarrow> HttpError 409 ''conflict''
    | ErrApproverOnLeaveNoDelegate \<Rightarrow> HttpError 409 ''conflict''
    | ErrPolicyNotFound \<Rightarrow> HttpError 400 ''bad_request''
    | _ \<Rightarrow> HttpError 500 ''internal_error'')"

text \<open>The body's amount is \<open>None\<close> when \<open>pgtype.Numeric\<close> does not scan it.\<close>

definition ApprovalHandler_Submit ::
  "(approval_db \<Rightarrow> approval_db) \<Rightarrow> approval_faults \<Rightarrow> id64 option
   \<Rightarrow> (string \<times> id64 \<times> string) option \<Rightarrow> int option \<Rightarrow> ip_addr
   \<Rightarrow> approval_db \<Rightarrow> (http_reply \<times> approval_db) option" where
  "ApprovalHandler_Submit env flt auth body amount ip db =
     (case auth of None \<Rightarrow> Some (HttpError 401 ''unauthorized'', db)
      | Some actor \<Rightarrow>
     (case body of None \<Rightarrow> Some (HttpError 400 ''bad_request'', db)
      | Some (dtype, did, raw) \<Rightarrow>
        if dtype = [] \<or> did \<le> 0 \<or> raw = [] then Some (HttpError 400 ''bad_request'', db)
        else (case amount of None \<Rightarrow> Some (HttpError 400 ''bad_request'', db)
          | Some a \<Rightarrow>
             (case Orchestrator_SubmitForApproval env flt actor dtype did a ip db of
                None \<Rightarrow> None
              | Some (Inl e, db') \<Rightarrow> Some (approval_handleError e, db')
              | Some (Inr (_, created), db') \<Rightarrow>
                  Some (if created then HttpOK 201 else HttpError 409 ''already_submitted'', db')))))"

definition decide_reply :: "(approval_err, approval_request) result \<times> approval_db \<Rightarrow> http_reply \<times> approval_db" where
  "decide_reply x = (case x of (Inl e, db') \<Rightarrow> (approval_handleError e, db')
                        | (Inr _, db') \<Rightarrow> (HttpOK 200, db'))"

definition ApprovalHandler_Approve ::
  "(approval_db \<Rightarrow> approval_db) \<Rightarrow> approval_faults \<Rightarrow> timestamp \<Rightarrow> timestamp \<Rightarrow> id64 option \<Rightarrow> int option
   \<Rightarrow> ip_addr \<Rightarrow> approval_db \<Rightarrow> http_reply \<times> approval_db" where
  "ApprovalHandler_Approve env flt t t' auth path ip db =
     (case auth of None \<Rightarrow> (HttpError 401 ''unauthorized'', db)
      | Some actor \<Rightarrow>
     (case parse_id path of None \<Rightarrow> (HttpError 400 ''bad_request'', db)
      | Some rid \<Rightarrow> decide_reply (Orchestrator_Approve env flt t t' rid actor ip db)))"

definition ApprovalHandler_Reject ::
  "(approval_db \<Rightarrow> approval_db) \<Rightarrow> approval_faults \<Rightarrow> timestamp \<Rightarrow> timestamp \<Rightarrow> id64 option \<Rightarrow> int option
   \<Rightarrow> ip_addr \<Rightarrow> approval_db \<Rightarrow> http_reply \<times> approval_db" where
  "ApprovalHandler_Reject env flt t t' auth path ip db =
     (case auth of None \<Rightarrow> (HttpError 401 ''unauthorized'', db)
      | Some actor \<Rightarrow>
     (case parse_id path of None \<Rightarrow> (HttpError 400 ''bad_request'', db)
      | Some rid \<Rightarrow> decide_reply (Orchestrator_Reject env flt t t' rid actor ip db)))"

definition ApprovalHandler_Get ::
  "approval_faults \<Rightarrow> id64 option \<Rightarrow> int option \<Rightarrow> approval_db \<Rightarrow> http_reply + approval_request" where
  "ApprovalHandler_Get flt auth path db =
     (case auth of None \<Rightarrow> Inl (HttpError 401 ''unauthorized'')
      | Some _ \<Rightarrow>
     (case parse_id path of None \<Rightarrow> Inl (HttpError 400 ''bad_request'')
      | Some rid \<Rightarrow> (case Repository_GetRequest flt db rid of
            Inl _ \<Rightarrow> Inl (HttpError 404 ''not_found'') | Inr r \<Rightarrow> Inr r)))"

definition ApprovalHandler_Inbox ::
  "bool \<Rightarrow> id64 option \<Rightarrow> approval_db \<Rightarrow> http_reply + inbox_item list" where
  "ApprovalHandler_Inbox failing auth db =
     (case auth of None \<Rightarrow> Inl (HttpError 401 ''unauthorized'')
      | Some actor \<Rightarrow> if failing then Inl (HttpError 500 ''internal_error'')
          else Inr (ListPendingStepsForApprover db actor))"

end
