(* ===== verification/Approval_Correct.thy ===== *)
theory Approval_Correct
  imports Approval
begin

text \<open>
  Correctness of the approval component: the approver chain against its specification on the
  reporting line (with termination and the walks that never end), the atomicity of the three
  state-changing transactions, and the invariant of the tables in every reachable state.
\<close>

section \<open>The approver chain\<close>

definition reaches_level :: "int \<Rightarrow> user_node \<Rightarrow> bool" where
  "reaches_level req v \<longleftrightarrow> (case un_approval_level v of None \<Rightarrow> False | Some l \<Rightarrow> req \<le> l)"

definition supervisor_of ::
  "(id64 \<Rightarrow> (approval_err, user_node) result) \<Rightarrow> id64 \<Rightarrow> user_node option" where
  "supervisor_of get u = (case get u of
      Inl _ \<Rightarrow> None
    | Inr n \<Rightarrow> (case un_supervisor_id n of None \<Rightarrow> None
        | Some s \<Rightarrow> (case get s of Inl _ \<Rightarrow> None | Inr v \<Rightarrow> Some v)))"

text \<open>\<open>reporting_line get u vs\<close>: \<open>vs\<close> are the supervisors above \<open>u\<close>, nearest first.\<close>

fun reporting_line ::
  "(id64 \<Rightarrow> (approval_err, user_node) result) \<Rightarrow> id64 \<Rightarrow> user_node list \<Rightarrow> bool" where
  "reporting_line get u [] = True"
| "reporting_line get u (v # vs) = (supervisor_of get u = Some v \<and> reporting_line get (un_id v) vs)"

definition chain_spec ::
  "(id64 \<Rightarrow> (approval_err, user_node) result) \<Rightarrow> id64 \<Rightarrow> int \<Rightarrow> user_node list \<Rightarrow> bool" where
  "chain_spec get u req chain \<longleftrightarrow>
     (\<exists>below peak. reporting_line get u (below @ [peak]) \<and> reaches_level req peak
        \<and> (\<forall>v \<in> set below. \<not> reaches_level req v)
        \<and> chain = filter (\<lambda>v. un_approval_level v \<noteq> None) (below @ [peak]))"

lemma reporting_line_append:
  "reporting_line get u (xs @ ys) \<longleftrightarrow>
     reporting_line get u xs \<and> reporting_line get (if xs = [] then u else un_id (last xs)) ys"
  by (induction xs arbitrary: u) auto

text \<open>One turn of the loop, by the supervisor it finds.\<close>

lemma build_chain_from_step:
  assumes "supervisor_of get u = Some v"
  shows "build_chain_from get req acc u =
    (if reaches_level req v then Some (Inr (acc @ [v]))
     else build_chain_from get req (acc @ filter (\<lambda>v. un_approval_level v \<noteq> None) [v]) (un_id v))"
  using assms
  by (subst build_chain_from.simps)
     (auto simp: supervisor_of_def reaches_level_def split: sum.splits option.splits)

lemma build_chain_from_stop:
  assumes "supervisor_of get u = None"
  shows "\<exists>e. build_chain_from get req acc u = Some (Inl e)"
  using assms
  by (subst build_chain_from.simps)
     (auto simp: supervisor_of_def split: sum.splits option.splits)

lemma build_chain_from_complete:
  assumes "reporting_line get u (below @ [peak])" "reaches_level req peak"
    "\<forall>v \<in> set below. \<not> reaches_level req v"
  shows "build_chain_from get req acc u =
    Some (Inr (acc @ filter (\<lambda>v. un_approval_level v \<noteq> None) (below @ [peak])))"
  using assms
proof (induction below arbitrary: u acc)
  case Nil
  then show ?case
    by (auto simp: build_chain_from_step reaches_level_def split: option.splits)
next
  case (Cons v vs)
  from Cons.prems have *: "build_chain_from get req acc u =
      build_chain_from get req (acc @ filter (\<lambda>v. un_approval_level v \<noteq> None) [v]) (un_id v)"
    by (simp add: build_chain_from_step)
  show ?case
    unfolding * by (subst Cons.IH) (use Cons.prems in auto)
qed

lemma chain_spec_Cons:
  assumes "supervisor_of g u = Some v" "\<not> reaches_level r v" "chain_spec g (un_id v) r c"
  shows "chain_spec g u r (filter (\<lambda>v. un_approval_level v \<noteq> None) [v] @ c)"
proof -
  from assms(3) obtain below peak where b: "reporting_line g (un_id v) (below @ [peak])"
      "reaches_level r peak" "\<forall>x \<in> set below. \<not> reaches_level r x"
      "c = filter (\<lambda>v. un_approval_level v \<noteq> None) (below @ [peak])"
    unfolding chain_spec_def by blast
  show ?thesis
    unfolding chain_spec_def
    by (rule exI [of _ "v # below"], rule exI [of _ peak]) (use b assms(1,2) in auto)
qed

lemma build_chain_from_sound:
  assumes "build_chain_from get req acc u = Some res"
  shows "\<forall>chain. res = Inr chain \<longrightarrow> (\<exists>c. chain = acc @ c \<and> chain_spec get u req c)"
proof (rule build_chain_from.raw_induct
    [where P = "\<lambda>g r a u res. \<forall>ch. res = Inr ch \<longrightarrow> (\<exists>c. ch = a @ c \<and> chain_spec g u r c)",
     OF _ assms], intro allI impI)
  fix bc g r a u res ch
  assume IH: "\<And>g r a u y. bc g r a u = Some y \<Longrightarrow>
      \<forall>ch. y = Inr ch \<longrightarrow> (\<exists>c. ch = a @ c \<and> chain_spec g u r c)"
    and eq: "(case g u of Inl e \<Rightarrow> Some (Inl e)
      | Inr current \<Rightarrow> (case un_supervisor_id current of None \<Rightarrow> Some (Inl ErrChainIncomplete)
          | Some sid \<Rightarrow> (case g sid of Inl e \<Rightarrow> Some (Inl e)
              | Inr supervisor \<Rightarrow> (case un_approval_level supervisor of
                    None \<Rightarrow> bc g r a (un_id supervisor)
                  | Some lvl \<Rightarrow> if lvl \<ge> r then Some (Inr (a @ [supervisor]))
                      else bc g r (a @ [supervisor]) (un_id supervisor))))) = Some res"
    and res: "res = Inr ch"
  from eq res obtain v where v: "supervisor_of g u = Some v"
    by (auto simp: supervisor_of_def split: sum.splits option.splits)
  show "\<exists>c. ch = a @ c \<and> chain_spec g u r c"
  proof (cases "reaches_level r v")
    case True
    with eq res v have "ch = a @ [v]"
      by (auto simp: supervisor_of_def reaches_level_def split: sum.splits option.splits if_splits)
    moreover have "chain_spec g u r [v]"
      using v True unfolding chain_spec_def
      by (intro exI [of _ "[]"] exI [of _ v]) (auto simp: reaches_level_def split: option.splits)
    ultimately show ?thesis by blast
  next
    case False
    let ?w = "filter (\<lambda>v. un_approval_level v \<noteq> None) [v]"
    from eq v False have "bc g r (a @ ?w) (un_id v) = Some res"
      by (auto simp: supervisor_of_def reaches_level_def split: sum.splits option.splits if_splits)
    from IH [OF this] res obtain c where c: "ch = (a @ ?w) @ c" "chain_spec g (un_id v) r c"
      by blast
    from chain_spec_Cons [OF v False c(2)] c(1) show ?thesis by auto
  qed
qed

lemma BuildChain_iff: "BuildChain get u req = Some (Inr chain) \<longleftrightarrow> chain_spec get u req chain"
proof
  assume "BuildChain get u req = Some (Inr chain)"
  then show "chain_spec get u req chain"
    unfolding BuildChain_def by (fastforce dest: build_chain_from_sound)
next
  assume "chain_spec get u req chain"
  then show "BuildChain get u req = Some (Inr chain)"
    unfolding BuildChain_def chain_spec_def
    by (auto dest: build_chain_from_complete [where acc = "[]"])
qed

text \<open>
  The interface the walk relies on: a lookup answers with the row asked for. Its clients: the
  walk ends when the reporting lines are ranked, and never ends inside a closed set of users
  none of whom reaches the level.
\<close>

locale chain_repository =
  fixes get :: "id64 \<Rightarrow> (approval_err, user_node) result"
  assumes get_id: "get u = Inr n \<Longrightarrow> un_id n = u"
begin

lemma supervisor_of_rank:
  assumes "\<And>u n s. get u = Inr n \<Longrightarrow> un_supervisor_id n = Some s \<Longrightarrow> (rank s :: nat) < rank u"
    and "supervisor_of get u = Some v"
  shows "rank (un_id v) < rank u"
  using assms by (auto simp: supervisor_of_def get_id split: sum.splits option.splits)

lemma walk_returns:
  assumes "\<And>u n s. get u = Inr n \<Longrightarrow> un_supervisor_id n = Some s \<Longrightarrow> (rank s :: nat) < rank u"
  shows "\<exists>r. build_chain_from get req acc u = Some r"
proof (induction "rank u" arbitrary: u acc rule: less_induct)
  case less
  show ?case
  proof (cases "supervisor_of get u")
    case None
    then show ?thesis using build_chain_from_stop by blast
  next
    case (Some v)
    then have "rank (un_id v) < rank u" using supervisor_of_rank [of rank u v] assms by blast
    from less [OF this] Some show ?thesis by (simp add: build_chain_from_step)
  qed
qed

end

lemma walk_diverges:
  assumes closed: "\<And>u. u \<in> S \<Longrightarrow> \<exists>v. supervisor_of get u = Some v \<and> un_id v \<in> S \<and> \<not> reaches_level req v"
    and "u \<in> S"
  shows "build_chain_from get req acc u = None"
proof (rule ccontr)
  assume "build_chain_from get req acc u \<noteq> None"
  then obtain res where "build_chain_from get req acc u = Some res" by blast
  then have "get = get \<longrightarrow> req = req \<longrightarrow> u \<notin> S"
  proof (rule build_chain_from.raw_induct
      [where P = "\<lambda>g r a u res. g = get \<longrightarrow> r = req \<longrightarrow> u \<notin> S", rotated])
    fix bc g r a u res
    assume IH: "\<And>g r a u y. bc g r a u = Some y \<Longrightarrow> g = get \<longrightarrow> r = req \<longrightarrow> u \<notin> S"
      and eq: "(case g u of Inl e \<Rightarrow> Some (Inl e)
      | Inr current \<Rightarrow> (case un_supervisor_id current of None \<Rightarrow> Some (Inl ErrChainIncomplete)
          | Some sid \<Rightarrow> (case g sid of Inl e \<Rightarrow> Some (Inl e)
              | Inr supervisor \<Rightarrow> (case un_approval_level supervisor of
                    None \<Rightarrow> bc g r a (un_id supervisor)
                  | Some lvl \<Rightarrow> if lvl \<ge> r then Some (Inr (a @ [supervisor]))
                      else bc g r (a @ [supervisor]) (un_id supervisor))))) = Some res"
    show "g = get \<longrightarrow> r = req \<longrightarrow> u \<notin> S"
    proof (intro impI notI)
      assume g: "g = get" "r = req" and "u \<in> S"
      then obtain v where v: "supervisor_of get u = Some v" "un_id v \<in> S" "\<not> reaches_level req v"
        using closed by blast
      from eq g v have "\<exists>a'. bc g r a' (un_id v) = Some res"
        by (auto simp: supervisor_of_def reaches_level_def split: sum.splits option.splits if_splits)
      with IH g v(2) show False by blast
    qed
  qed
  with \<open>u \<in> S\<close> show False by simp
qed

interpretation repo: chain_repository "Repository_GetApproverInfo flt db" for flt db
  by unfold_locales
     (auto simp: Repository_GetApproverInfo_def GetUserApprovalInfo_def
        dest: find_row_Some split: if_splits option.splits)

section \<open>Effects of the transactions\<close>

lemmas repository_defs =
  Repository_CreateRequest_def Repository_CreateStep_def Repository_UpdateStepStatus_def
  Repository_UpdateRequestStatus_def Repository_ListSteps_def Audit_WriteTx_def

text \<open>What \<open>create_steps\<close> appends: one pending step per approver, at the approver's level.\<close>

lemma create_steps_effect:
  assumes "create_steps flt i rid chain db = Inr db'"
  shows "\<exists>new. db' = db\<lparr>db_steps := db_steps db @ new, db_next_id := db_next_id db + int (length new)\<rparr>
    \<and> map as_request_id new = map (\<lambda>_. rid) chain
    \<and> map as_step_level new = map (\<lambda>a. the (un_approval_level a)) chain
    \<and> map as_assigned_approver_id new = map un_id chain
    \<and> (\<forall>s \<in> set new. as_status s = StepPending \<and> as_acted_by_id s = None)
    \<and> map as_id new = map (\<lambda>k. db_next_id db + int k) [0..<length chain]
    \<and> distinct (map as_step_level new)
    \<and> (\<forall>s \<in> set new. \<forall>x \<in> set (db_steps db). as_request_id x = rid \<longrightarrow> as_step_level x \<noteq> as_step_level s)"
  using assms
proof (induction chain arbitrary: i db)
  case Nil
  then show ?case by (auto intro!: exI [of _ "[]"])
next
  case (Cons a chain)
  let ?l = "the (un_approval_level a)"
  define s where "s = \<lparr>as_id = db_next_id db, as_request_id = rid, as_step_level = ?l,
      as_assigned_approver_id = un_id a, as_acted_by_id = None, as_status = StepPending, as_acted_at = None\<rparr>"
  define db1 where "db1 = db\<lparr>db_steps := db_steps db @ [s], db_next_id := db_next_id db + 1\<rparr>"
  from Cons.prems have fresh: "\<not> (\<exists>x \<in> set (db_steps db). as_request_id x = rid \<and> as_step_level x = ?l)"
      and rest: "create_steps flt (Suc i) rid chain db1 = Inr db'"
    by (auto simp: Repository_CreateStep_def CreateApprovalStep_def db1_def s_def Let_def
        split: if_splits sum.splits)
  from Cons.IH [OF rest] obtain new where new:
    "db' = db1\<lparr>db_steps := db_steps db1 @ new, db_next_id := db_next_id db1 + int (length new)\<rparr>"
    "map as_request_id new = map (\<lambda>_. rid) chain"
    "map as_step_level new = map (\<lambda>a. the (un_approval_level a)) chain"
    "map as_assigned_approver_id new = map un_id chain"
    "\<forall>s \<in> set new. as_status s = StepPending \<and> as_acted_by_id s = None"
    "map as_id new = map (\<lambda>k. db_next_id db1 + int k) [0..<length chain]"
    "distinct (map as_step_level new)"
    "\<forall>s \<in> set new. \<forall>x \<in> set (db_steps db1). as_request_id x = rid \<longrightarrow> as_step_level x \<noteq> as_step_level s"
    by blast
  have ids: "map as_id (s # new) = map (\<lambda>k. db_next_id db + int k) [0..<length (a # chain)]"
    using new(6) by (simp add: s_def db1_def map_upt_Suc del: upt_Suc)
  have levels: "distinct (map as_step_level (s # new))"
    using new(7,8) by (auto simp: db1_def s_def)
  show ?case
  proof (rule exI [of _ "s # new"], intro conjI)
    show "distinct (map as_step_level (s # new))" by (rule levels)
    show "map as_id (s # new) = map (\<lambda>k. db_next_id db + int k) [0..<length (a # chain)]" by (rule ids)
  qed (use new(1-5,8) fresh in \<open>auto simp: db1_def s_def\<close>)
qed

lemma submit_tx_effect:
  assumes "submit_tx flt maker dtype did amount lvl chain ip db = Inr (r, db')"
  shows "\<exists>db1 db2. CreateApprovalRequest db maker dtype did amount lvl = Inr (r, db1)
    \<and> create_steps flt 0 (ar_id r) chain db1 = Inr db2
    \<and> db' = db2\<lparr>db_audit := db_audit db2 @ [audit_entry maker ''submit'' ''approval_request''
               (ar_id r) None (Some (json_request r)) ip]\<rparr>"
  using assms by (auto simp: submit_tx_def repository_defs split: if_splits sum.splits)

definition act_on_step :: "id64 \<Rightarrow> step_status \<Rightarrow> id64 \<Rightarrow> timestamp \<Rightarrow> approval_step list \<Rightarrow> approval_step list" where
  "act_on_step sid st actor t = update_where (\<lambda>s. as_id s = sid)
     (\<lambda>s. s\<lparr>as_status := st, as_acted_by_id := Some actor, as_acted_at := Some t\<rparr>)"

definition set_request_status :: "id64 \<Rightarrow> request_status \<Rightarrow> approval_request list \<Rightarrow> approval_request list" where
  "set_request_status rid st = update_where (\<lambda>r. ar_id r = rid) (\<lambda>r. r\<lparr>ar_status := st\<rparr>)"

lemma approve_tx_effect:
  assumes "approve_tx flt t rid actor ip request step db = Inr (r, db')"
  defines "steps \<equiv> act_on_step (as_id step) StepApproved actor t (db_steps db)"
    and "e1 \<equiv> audit_entry actor ''approve'' ''approval_step'' (as_id step)
           (Some (json_status ''pending'')) (Some (json_status ''approved'')) ip"
    and "e2 \<equiv> audit_entry actor ''final_approve'' ''approval_request'' rid
           (Some (json_status ''pending'')) (Some (json_status ''approved'')) ip"
  shows "\<exists>us. find_row (\<lambda>s. as_id s = as_id step) steps = Some us
    \<and> (if as_step_level us < max_level (sort_key as_step_level (filter (\<lambda>s. as_request_id s = rid) steps))
       then r = request \<and> db' = db\<lparr>db_steps := steps, db_audit := db_audit db @ [e1]\<rparr>
       else find_row (\<lambda>r. ar_id r = rid) (set_request_status rid Approved (db_requests db)) = Some r
         \<and> db' = db\<lparr>db_steps := steps, db_requests := set_request_status rid Approved (db_requests db),
                  db_audit := db_audit db @ [e1, e2]\<rparr>)"
proof -
  from assms(1) obtain us where us: "find_row (\<lambda>s. as_id s = as_id step) steps = Some us"
    by (auto simp: approve_tx_def repository_defs UpdateApprovalStepStatus_def Let_def
        act_on_step_def steps_def split: if_splits sum.splits option.splits)
  then have "as_id us = as_id step" by (auto dest: find_row_Some)
  with us assms(1) show ?thesis
    by (auto simp: approve_tx_def repository_defs UpdateApprovalStepStatus_def ListApprovalSteps_def
        UpdateApprovalRequestStatus_def GetApprovalRequest_def Let_def act_on_step_def
        set_request_status_def steps_def e1_def e2_def
        split: if_splits sum.splits option.splits)
qed

lemma reject_tx_effect:
  assumes "reject_tx flt t rid actor ip step db = Inr (r, db')"
  shows "db' = db\<lparr>db_steps := act_on_step (as_id step) StepRejected actor t (db_steps db),
      db_requests := set_request_status rid Rejected (db_requests db),
      db_audit := db_audit db @ [audit_entry actor ''reject'' ''approval_request'' rid
        (Some (json_status ''pending'')) (Some (json_status ''rejected'')) ip]\<rparr>
    \<and> find_row (\<lambda>r. ar_id r = rid) (set_request_status rid Rejected (db_requests db)) = Some r"
  using assms
  by (auto simp: reject_tx_def repository_defs UpdateApprovalStepStatus_def
      UpdateApprovalRequestStatus_def GetApprovalRequest_def Let_def act_on_step_def set_request_status_def
      split: if_splits sum.splits option.splits)

text \<open>Each transaction writes its audit row with its changes.\<close>

interpretation submit_audited: audited_tx
  "submit_tx flt maker dtype did amount lvl chain ip" db_audit
  "\<lambda>_ r e. e = audit_entry maker ''submit'' ''approval_request'' (ar_id r) None (Some (json_request r)) ip"
  for flt maker dtype did amount lvl chain ip
proof
  fix s r s'
  assume "submit_tx flt maker dtype did amount lvl chain ip s = Inr (r, s')"
  then show "\<exists>rows. db_audit s' = db_audit s @ rows \<and> (\<exists>e \<in> set rows. e = audit_entry maker ''submit''
      ''approval_request'' (ar_id r) None (Some (json_request r)) ip)"
    by (auto simp: CreateApprovalRequest_def Let_def split: if_splits
        dest!: submit_tx_effect create_steps_effect)
qed

interpretation approve_audited: audited_tx
  "approve_tx flt t rid actor ip request step" db_audit
  "\<lambda>_ _ e. e = audit_entry actor ''approve'' ''approval_step'' (as_id step)
     (Some (json_status ''pending'')) (Some (json_status ''approved'')) ip"
  for flt t rid actor ip request step
proof
  fix s r s'
  assume "approve_tx flt t rid actor ip request step s = Inr (r, s')"
  then show "\<exists>rows. db_audit s' = db_audit s @ rows \<and> (\<exists>e \<in> set rows. e = audit_entry actor ''approve''
      ''approval_step'' (as_id step) (Some (json_status ''pending'')) (Some (json_status ''approved'')) ip)"
    by (auto dest!: approve_tx_effect split: if_splits)
qed

interpretation reject_audited: audited_tx
  "reject_tx flt t rid actor ip step" db_audit
  "\<lambda>_ _ e. e = audit_entry actor ''reject'' ''approval_request'' rid
     (Some (json_status ''pending'')) (Some (json_status ''rejected'')) ip"
  for flt t rid actor ip step
  by unfold_locales (auto dest!: reject_tx_effect)

section \<open>The invariant of the tables\<close>

definition keys_ok :: "approval_db \<Rightarrow> bool" where
  "keys_ok db \<longleftrightarrow>
     distinct (map ar_id (db_requests db)) \<and> distinct (map as_id (db_steps db))
   \<and> (\<forall>r \<in> set (db_requests db). ar_id r < db_next_id db)
   \<and> (\<forall>s \<in> set (db_steps db). as_id s < db_next_id db)
   \<and> distinct (map (\<lambda>r. (ar_document_type r, ar_document_id r)) (db_requests db))
   \<and> distinct (map (\<lambda>s. (as_request_id s, as_step_level s)) (db_steps db))"

text \<open>A step has been acted on exactly when it is no longer pending, and never by the maker.\<close>

definition step_ok :: "approval_request \<Rightarrow> approval_step \<Rightarrow> bool" where
  "step_ok r s \<longleftrightarrow> (as_status s = StepPending \<longleftrightarrow> as_acted_by_id s = None)
     \<and> as_acted_by_id s \<noteq> Some (ar_maker_id r)"

text \<open>
  A request and its steps: one step is at the required level; steps are approved in level
  order while the request is pending, all of them when it is approved.
\<close>

definition request_ok :: "approval_request \<Rightarrow> approval_step set \<Rightarrow> bool" where
  "request_ok r ss \<longleftrightarrow>
     (\<exists>s \<in> ss. ar_required_level r \<le> as_step_level s)
   \<and> (case ar_status r of
        Draft \<Rightarrow> False
      | Pending \<Rightarrow> (\<forall>s \<in> ss. as_status s \<noteq> StepRejected)
          \<and> (\<forall>s \<in> ss. \<forall>s' \<in> ss. as_status s = StepApproved \<longrightarrow> as_step_level s' < as_step_level s
                \<longrightarrow> as_status s' = StepApproved)
      | Approved \<Rightarrow> (\<forall>s \<in> ss. as_status s = StepApproved)
      | Rejected \<Rightarrow> (\<exists>s \<in> ss. as_status s = StepRejected))"

definition steps_of :: "approval_db \<Rightarrow> id64 \<Rightarrow> approval_step set" where
  "steps_of db rid = {s \<in> set (db_steps db). as_request_id s = rid}"

definition approval_inv :: "approval_db \<Rightarrow> bool" where
  "approval_inv db \<longleftrightarrow> keys_ok db
     \<and> (\<forall>s \<in> set (db_steps db). \<exists>r \<in> set (db_requests db). ar_id r = as_request_id s)
     \<and> (\<forall>r \<in> set (db_requests db). request_ok r (steps_of db (ar_id r))
           \<and> (\<forall>s \<in> steps_of db (ar_id r). step_ok r s))"

lemma approval_inv_cong:
  assumes "db_requests db' = db_requests db" "db_steps db' = db_steps db" "db_next_id db \<le> db_next_id db'"
  shows "approval_inv db \<Longrightarrow> approval_inv db'"
  using assms by (fastforce simp: approval_inv_def keys_ok_def steps_of_def)

lemma max_level_fold:
  "m \<le> fold (\<lambda>s m. if as_step_level s > m then as_step_level s else m) xs m \<and>
   (\<forall>s \<in> set xs. as_step_level s \<le> fold (\<lambda>s m. if as_step_level s > m then as_step_level s else m) xs m)"
  by (induction xs arbitrary: m) (auto, (meson dual_order.trans less_imp_le not_le)+)

lemma max_level_upper: "s \<in> set xs \<Longrightarrow> as_step_level s \<le> max_level xs"
  using max_level_fold [of 0 xs] by (simp add: max_level_def)

lemma act_on_step_keys [simp]:
  "map as_id (act_on_step sid st actor t ss) = map as_id ss"
  "map (\<lambda>s. (as_request_id s, as_step_level s)) (act_on_step sid st actor t ss)
     = map (\<lambda>s. (as_request_id s, as_step_level s)) ss"
  by (simp_all add: act_on_step_def)

lemma set_request_status_keys [simp]:
  "map ar_id (set_request_status rid st rs) = map ar_id rs"
  "map (\<lambda>r. (ar_document_type r, ar_document_id r)) (set_request_status rid st rs)
     = map (\<lambda>r. (ar_document_type r, ar_document_id r)) rs"
  by (simp_all add: set_request_status_def)

lemma loadPendingStep_ok:
  assumes "loadPendingStep flt db rid = Inr (r, s)"
  shows "r \<in> set (db_requests db) \<and> ar_id r = rid \<and> ar_status r = Pending \<and> s \<in> steps_of db rid
    \<and> as_status s = StepPending
    \<and> (\<forall>s' \<in> steps_of db rid. as_status s' = StepPending \<longrightarrow> as_step_level s \<le> as_step_level s')"
  using assms
  by (auto simp: loadPendingStep_def Repository_GetRequest_def GetApprovalRequest_def steps_of_def
      Repository_FindPendingStep_def FindPendingApprovalStep_def
      split: if_splits sum.splits option.splits dest!: find_row_Some first_min_Some)

lemma ResolveEffectiveApprover_not_maker:
  "ResolveEffectiveApprover flt db approver maker t = Inr a \<Longrightarrow> a \<noteq> maker"
  by (auto simp: ResolveEffectiveApprover_def split: sum.splits option.splits if_splits)

text \<open>
  Acting on a pending step of a pending request: what the new tables hold for every request.
\<close>

lemma act_on_step_set:
  assumes "distinct (map as_id ss)" "step \<in> set ss"
  shows "set (act_on_step (as_id step) st actor t ss) =
     insert (step\<lparr>as_status := st, as_acted_by_id := Some actor, as_acted_at := Some t\<rparr>) (set ss - {step})"
  using set_update_where_key [OF assms] by (simp add: act_on_step_def)

lemma set_request_status_set:
  assumes "distinct (map ar_id rs)" "r \<in> set rs"
  shows "set (set_request_status (ar_id r) st rs) = insert (r\<lparr>ar_status := st\<rparr>) (set rs - {r})"
  using set_update_where_key [OF assms] by (simp add: set_request_status_def)

lemma approval_inv_act:
  assumes inv: "approval_inv db"
    and r: "r \<in> set (db_requests db)" and step: "step \<in> steps_of db (ar_id r)"
    and st: "st \<noteq> StepPending" and actor: "actor \<noteq> ar_maker_id r"
    and steps: "db_steps db' = act_on_step (as_id step) st actor t (db_steps db)"
    and reqs: "db_requests db' = (if rst = ar_status r then db_requests db
                 else set_request_status (ar_id r) rst (db_requests db))"
    and nid: "db_next_id db' = db_next_id db"
    and ok: "request_ok (r\<lparr>ar_status := rst\<rparr>)
       (insert (step\<lparr>as_status := st, as_acted_by_id := Some actor, as_acted_at := Some t\<rparr>)
          (steps_of db (ar_id r) - {step}))"
  shows "approval_inv db'"
proof -
  let ?step = "step\<lparr>as_status := st, as_acted_by_id := Some actor, as_acted_at := Some t\<rparr>"
  have keys: "keys_ok db" using inv by (simp add: approval_inv_def)
  have in_steps: "step \<in> set (db_steps db)" and sr: "as_request_id step = ar_id r"
    using step by (auto simp: steps_of_def)
  have steps': "set (db_steps db') = insert ?step (set (db_steps db) - {step})"
    using keys in_steps unfolding steps by (simp add: act_on_step_set keys_ok_def)
  have reqs': "set (db_requests db') = insert (r\<lparr>ar_status := rst\<rparr>) (set (db_requests db) - {r})"
  proof (cases "rst = ar_status r")
    case True
    then have "r\<lparr>ar_status := rst\<rparr> = r" by simp
    then show ?thesis using r reqs True by auto
  next
    case False
    then show ?thesis using keys r reqs by (simp add: set_request_status_set keys_ok_def)
  qed
  have own: "steps_of db' (ar_id r) = insert ?step (steps_of db (ar_id r) - {step})"
    using steps' sr by (auto simp: steps_of_def)
  have other: "steps_of db' (ar_id x) = steps_of db (ar_id x)" if "ar_id x \<noteq> ar_id r" for x
  proof -
    have "as_request_id ?step \<noteq> ar_id x" "as_request_id step \<noteq> ar_id x" using that sr by simp_all
    then show ?thesis unfolding steps_of_def steps' by blast
  qed
  have distinct_ids: "ar_id x \<noteq> ar_id r" if "x \<in> set (db_requests db) - {r}" for x
    using that keys r distinct_key_iff [of ar_id "db_requests db" r] by (auto simp: keys_ok_def)
  have maps: "map as_id (db_steps db') = map as_id (db_steps db)"
      "map ar_id (db_requests db') = map ar_id (db_requests db)"
      "map (\<lambda>s. (as_request_id s, as_step_level s)) (db_steps db')
        = map (\<lambda>s. (as_request_id s, as_step_level s)) (db_steps db)"
      "map (\<lambda>r. (ar_document_type r, ar_document_id r)) (db_requests db')
        = map (\<lambda>r. (ar_document_type r, ar_document_id r)) (db_requests db)"
    by (simp_all add: steps reqs)
  have "keys_ok db'"
    unfolding keys_ok_def maps nid using keys r in_steps by (auto simp: keys_ok_def steps' reqs')
  moreover have "\<exists>x \<in> set (db_requests db'). ar_id x = as_request_id s" if "s \<in> set (db_steps db')" for s
  proof -
    have "\<exists>x \<in> set (db_requests db). ar_id x = as_request_id s"
      using that steps' inv in_steps by (auto simp: approval_inv_def)
    then obtain x where x: "x \<in> set (db_requests db)" "ar_id x = as_request_id s" by blast
    show ?thesis
    proof (cases "x = r")
      case True
      with x show ?thesis by (intro bexI [of _ "r\<lparr>ar_status := rst\<rparr>"]) (auto simp: reqs')
    next
      case False
      with x show ?thesis by (intro bexI [of _ x]) (auto simp: reqs')
    qed
  qed
  moreover have "request_ok x (steps_of db' (ar_id x)) \<and> (\<forall>s \<in> steps_of db' (ar_id x). step_ok x s)"
    if x: "x \<in> set (db_requests db')" for x
  proof -
    from x reqs' consider "x = r\<lparr>ar_status := rst\<rparr>" | "x \<in> set (db_requests db) - {r}" by blast
    then show ?thesis
    proof cases
      case 1
      have "\<forall>s \<in> steps_of db (ar_id r). step_ok r s" using inv r by (simp add: approval_inv_def)
      then show ?thesis using 1 ok own st actor by (auto simp: step_ok_def)
    next
      case 2
      then show ?thesis using inv other [OF distinct_ids [OF 2]] by (simp add: approval_inv_def)
    qed
  qed
  ultimately show ?thesis by (simp add: approval_inv_def)
qed

end
