(* ===== verification/Approval_Runs.thy ===== *)
theory Approval_Runs
  imports Approval_Correct
begin

text \<open>
  Runs of the approval component: every operation keeps the invariant of the tables, the
  step relation of the component, and what holds in every reachable state.
\<close>

section \<open>Every operation keeps the invariant\<close>

lemma run_in_tx_inv:
  assumes "P s" and "\<And>a s'. body s = Inr (a, s') \<Longrightarrow> P s'"
  shows "P (snd (run_in_tx c ce body s))"
  using assms by (cases "body s") (auto simp: run_in_tx_def)

text \<open>Appending a fresh request with fresh steps.\<close>

lemma keys_ok_append:
  assumes keys: "keys_ok db"
    and reqs: "db_requests db' = db_requests db @ [r]" and steps: "db_steps db' = db_steps db @ new"
    and nid: "db_next_id db' = db_next_id db + 1 + int (length new)"
    and rid: "ar_id r = db_next_id db"
    and doc: "(ar_document_type r, ar_document_id r)
               \<notin> set (map (\<lambda>r. (ar_document_type r, ar_document_id r)) (db_requests db))"
    and ids: "map as_id new = map (\<lambda>k. db_next_id db + 1 + int k) [0..<length new]"
    and lv: "distinct (map as_step_level new)" and own: "\<forall>s \<in> set new. as_request_id s = ar_id r"
    and fk: "\<forall>s \<in> set (db_steps db). as_request_id s < db_next_id db"
  shows "keys_ok db'"
proof -
  have id_new: "db_next_id db < as_id s \<and> as_id s < db_next_id db'" if "s \<in> set new" for s
  proof -
    have "as_id s \<in> set (map as_id new)" using that by simp
    then show ?thesis unfolding ids nid by auto
  qed
  have "distinct (map ar_id (db_requests db'))"
    using keys rid unfolding reqs keys_ok_def by fastforce
  moreover have "distinct (map as_id new)" unfolding ids by (simp add: distinct_map inj_on_def)
  then have "distinct (map as_id (db_steps db'))"
    using keys id_new unfolding steps keys_ok_def by fastforce
  moreover have "\<forall>r \<in> set (db_requests db'). ar_id r < db_next_id db'"
    using keys rid unfolding reqs keys_ok_def nid by fastforce
  moreover have "\<forall>s \<in> set (db_steps db'). as_id s < db_next_id db'"
    using keys id_new unfolding steps keys_ok_def nid by fastforce
  moreover have "distinct (map (\<lambda>r. (ar_document_type r, ar_document_id r)) (db_requests db'))"
    using keys doc unfolding reqs keys_ok_def by simp
  moreover have "distinct (map (\<lambda>s. (as_request_id s, as_step_level s)) new)"
    using lv by (simp add: distinct_map inj_on_def)
  then have "distinct (map (\<lambda>s. (as_request_id s, as_step_level s)) (db_steps db'))"
    using keys own fk rid unfolding steps keys_ok_def by fastforce
  ultimately show ?thesis unfolding keys_ok_def by blast
qed

lemma approval_inv_append:
  assumes inv: "approval_inv db" and keys': "keys_ok db'"
    and reqs: "db_requests db' = db_requests db @ [r]" and steps: "db_steps db' = db_steps db @ new"
    and rid: "ar_id r = db_next_id db" and own: "\<forall>s \<in> set new. as_request_id s = ar_id r"
    and fk: "\<forall>s \<in> set (db_steps db). as_request_id s < db_next_id db"
    and ok: "request_ok r (set new)" "\<forall>s \<in> set new. step_ok r s"
  shows "approval_inv db'"
proof -
  have old: "steps_of db' (ar_id x) = steps_of db (ar_id x)" if "x \<in> set (db_requests db)" for x
  proof -
    have "ar_id x \<noteq> ar_id r" using that inv rid by (auto simp: approval_inv_def keys_ok_def)
    then show ?thesis using own unfolding steps_of_def steps by auto
  qed
  have new: "steps_of db' (ar_id r) = set new"
    using own fk rid unfolding steps_of_def steps by auto
  have "\<exists>x \<in> set (db_requests db'). ar_id x = as_request_id s" if s: "s \<in> set (db_steps db')" for s
  proof (cases "s \<in> set new")
    case True
    then show ?thesis using own unfolding reqs by simp
  next
    case False
    then show ?thesis using s inv unfolding reqs steps approval_inv_def by simp
  qed
  moreover have "request_ok x (steps_of db' (ar_id x)) \<and> (\<forall>s \<in> steps_of db' (ar_id x). step_ok x s)"
    if x: "x \<in> set (db_requests db')" for x
  proof (cases "x = r")
    case True
    then show ?thesis using ok new by simp
  next
    case False
    then have "x \<in> set (db_requests db)" using x unfolding reqs by simp
    then show ?thesis using old inv unfolding approval_inv_def by simp
  qed
  ultimately show ?thesis using keys' unfolding approval_inv_def by blast
qed

lemma approval_inv_fk:
  assumes "approval_inv db"
  shows "\<forall>s \<in> set (db_steps db). as_request_id s < db_next_id db"
  using assms unfolding approval_inv_def keys_ok_def by metis

lemma submit_tx_inv:
  assumes inv: "approval_inv db" and spec: "chain_spec get maker lvl chain"
    and tx: "submit_tx flt maker dtype did amount lvl chain ip db = Inr (r, db')"
  shows "approval_inv db'"
proof -
  from submit_tx_effect [OF tx] obtain db1 db2 where
    c: "CreateApprovalRequest db maker dtype did amount lvl = Inr (r, db1)" and
    cs: "create_steps flt 0 (ar_id r) chain db1 = Inr db2" and
    db': "db' = db2\<lparr>db_audit := db_audit db2 @ [audit_entry maker ''submit'' ''approval_request''
               (ar_id r) None (Some (json_request r)) ip]\<rparr>" by blast
  from c have r: "ar_id r = db_next_id db" "ar_status r = Pending" "ar_required_level r = lvl"
      "ar_document_type r = dtype" "ar_document_id r = did"
      "FindApprovalRequestByDocument db dtype did = None"
      "db1 = db\<lparr>db_requests := db_requests db @ [r], db_next_id := db_next_id db + 1\<rparr>"
    by (auto simp: CreateApprovalRequest_def Let_def split: if_splits)
  from create_steps_effect [OF cs] obtain new where new:
    "db2 = db1\<lparr>db_steps := db_steps db1 @ new, db_next_id := db_next_id db1 + int (length new)\<rparr>"
    "map as_request_id new = map (\<lambda>_. ar_id r) chain"
    "map as_step_level new = map (\<lambda>a. the (un_approval_level a)) chain"
    "\<forall>s \<in> set new. as_status s = StepPending \<and> as_acted_by_id s = None"
    "map as_id new = map (\<lambda>k. db_next_id db1 + int k) [0..<length chain]"
    "distinct (map as_step_level new)" by blast
  have len: "length chain = length new" using arg_cong [OF new(3), of length] by simp
  have rid: "\<forall>s \<in> set new. as_request_id s = ar_id r"
    using arg_cong [OF new(2), of set] by auto
  have tabs: "db_requests db' = db_requests db @ [r]" "db_steps db' = db_steps db @ new"
    "db_next_id db' = db_next_id db + 1 + int (length new)"
    by (simp_all add: db' new(1) r(7))
  have doc: "(ar_document_type r, ar_document_id r)
      \<notin> set (map (\<lambda>r. (ar_document_type r, ar_document_id r)) (db_requests db))"
    using r(6) unfolding r(4,5) FindApprovalRequestByDocument_def find_row_None by auto
  have ids: "map as_id new = map (\<lambda>k. db_next_id db + 1 + int k) [0..<length new]"
    using new(5) by (simp add: r(7) len)
  have keys: "keys_ok db" using inv by (simp add: approval_inv_def)
  have keys': "keys_ok db'"
    by (rule keys_ok_append [OF keys tabs r(1) doc ids new(6) rid approval_inv_fk [OF inv]])
  from spec obtain below peak where ch: "chain = filter (\<lambda>v. un_approval_level v \<noteq> None) (below @ [peak])"
      "reaches_level lvl peak" by (auto simp: chain_spec_def)
  then have "the (un_approval_level peak) \<in> set (map as_step_level new)"
    unfolding new(3) by (auto simp: reaches_level_def split: option.splits)
  then have "\<exists>s \<in> set new. lvl \<le> as_step_level s"
    using ch(2) by (auto simp: reaches_level_def split: option.splits)
  with new(4) r(2,3) have "request_ok r (set new)" by (auto simp: request_ok_def)
  moreover have "\<forall>s \<in> set new. step_ok r s" using new(4) by (auto simp: step_ok_def)
  ultimately show ?thesis
    by (rule approval_inv_append [OF inv keys' tabs(1,2) r(1) rid approval_inv_fk [OF inv]])
qed

lemma Submit_inv:
  assumes inv: "approval_inv (env db)" and inv0: "approval_inv db"
    and run: "Orchestrator_SubmitForApproval env flt maker dtype did amount ip db = Some (res, db')"
  shows "approval_inv db'"
proof -
  have tx: "approval_inv (snd (run_in_tx c ce (submit_tx flt maker dtype did amount lvl chain ip) (env db)))"
    if "BuildChain get maker lvl = Some (Inr chain)" for c ce get lvl chain
    by (rule run_in_tx_inv [where P = approval_inv, OF inv])
       (use that inv submit_tx_inv BuildChain_iff in blast)
  show ?thesis
    using run inv0
    by (auto simp: Orchestrator_SubmitForApproval_def split: sum.splits option.splits prod.splits if_splits
        dest!: tx [where c = "\<not> flt CCommit" and ce = DbError])
qed

text \<open>
  The invariant of a decision: the pending step that was loaded is the lowest one, so
  approving it keeps the level order, and approving the highest one completes the request.
\<close>

lemma request_ok_pending:
  assumes "request_ok r ss" "ar_status r = Pending"
  shows "\<exists>s \<in> ss. ar_required_level r \<le> as_step_level s" "\<forall>s \<in> ss. as_status s \<noteq> StepRejected"
    "\<forall>s \<in> ss. \<forall>s' \<in> ss. as_status s = StepApproved \<longrightarrow> as_step_level s' < as_step_level s
        \<longrightarrow> as_status s' = StepApproved"
  using assms(1) unfolding request_ok_def assms(2) request_status.case by blast+

lemma below_pending_approved:
  assumes "request_ok r ss" "ar_status r = Pending"
    and "\<forall>s' \<in> ss. as_status s' = StepPending \<longrightarrow> as_step_level step \<le> as_step_level s'"
    and "s' \<in> ss" "as_step_level s' < as_step_level step"
  shows "as_status s' = StepApproved"
  using request_ok_pending(2) [OF assms(1,2)] assms(3-5) step_status.exhaust [of "as_status s'"]
  by (meson not_le)

lemma level_after_act:
  assumes "\<exists>s \<in> ss. l \<le> as_step_level s" "step \<in> ss" "as_step_level s' = as_step_level step"
  shows "\<exists>s \<in> insert s' (ss - {step}). l \<le> as_step_level s"
proof -
  from assms(1) obtain s where "s \<in> ss" "l \<le> as_step_level s" by blast
  then show ?thesis by (cases "s = step") (use assms(3) in auto)
qed

lemma approve_request_ok:
  assumes ok: "request_ok r ss" and pend: "ar_status r = Pending" and st: "step \<in> ss"
    and low: "\<forall>s' \<in> ss. as_status s' = StepPending \<longrightarrow> as_step_level step \<le> as_step_level s'"
    and s': "as_status s' = StepApproved" "as_step_level s' = as_step_level step"
  shows "request_ok r (insert s' (ss - {step}))"
proof -
  note p = request_ok_pending [OF ok pend]
  have "\<forall>a \<in> insert s' (ss - {step}). \<forall>b \<in> insert s' (ss - {step}).
     as_status a = StepApproved \<longrightarrow> as_step_level b < as_step_level a \<longrightarrow> as_status b = StepApproved"
    using below_pending_approved [OF ok pend low] p(3) s' by auto
  moreover have "\<forall>s \<in> insert s' (ss - {step}). as_status s \<noteq> StepRejected" using p(2) s' by auto
  moreover note level_after_act [OF p(1) st s'(2)]
  ultimately show ?thesis unfolding request_ok_def pend request_status.case by blast
qed

lemma approve_last_request_ok:
  assumes ok: "request_ok r ss" and pend: "ar_status r = Pending" and st: "step \<in> ss"
    and low: "\<forall>s' \<in> ss. as_status s' = StepPending \<longrightarrow> as_step_level step \<le> as_step_level s'"
    and uniq: "\<And>s'. s' \<in> ss \<Longrightarrow> as_step_level s' = as_step_level step \<Longrightarrow> s' = step"
    and high: "\<And>s'. s' \<in> ss \<Longrightarrow> as_step_level s' \<le> as_step_level step"
    and s': "as_status s' = StepApproved" "as_step_level s' = as_step_level step"
  shows "request_ok (r\<lparr>ar_status := Approved\<rparr>) (insert s' (ss - {step}))"
proof -
  have "as_status x = StepApproved" if x: "x \<in> ss" "x \<noteq> step" for x
  proof -
    have "as_step_level x < as_step_level step" using high [OF x(1)] uniq [OF x(1)] x(2) by fastforce
    then show ?thesis by (rule below_pending_approved [OF ok pend low x(1)])
  qed
  then have "\<forall>x \<in> insert s' (ss - {step}). as_status x = StepApproved" using s' by simp
  moreover note level_after_act [OF request_ok_pending(1) [OF ok pend] st s'(2)]
  ultimately show ?thesis unfolding request_ok_def by simp
qed

lemma reject_request_ok:
  assumes ok: "request_ok r ss" and pend: "ar_status r = Pending" and st: "step \<in> ss"
    and s': "as_status s' = StepRejected" "as_step_level s' = as_step_level step"
  shows "request_ok (r\<lparr>ar_status := Rejected\<rparr>) (insert s' (ss - {step}))"
  using level_after_act [OF request_ok_pending(1) [OF ok pend] st s'(2)] s'
  unfolding request_ok_def by simp

lemma steps_of_level_unique:
  assumes "keys_ok db" "step \<in> steps_of db rid" "s' \<in> steps_of db rid"
    "as_step_level s' = as_step_level step"
  shows "s' = step"
  using assms distinct_key_eq [of "\<lambda>s. (as_request_id s, as_step_level s)" "db_steps db" s' step]
  by (auto simp: keys_ok_def steps_of_def)

abbreviation acted :: "step_status \<Rightarrow> id64 \<Rightarrow> timestamp \<Rightarrow> approval_step \<Rightarrow> approval_step" where
  "acted st actor t s \<equiv> s\<lparr>as_status := st, as_acted_by_id := Some actor, as_acted_at := Some t\<rparr>"

lemma approve_tx_tables:
  assumes tx: "approve_tx flt t rid actor ip request step db = Inr (r, db')"
    and keys: "distinct (map as_id (db_steps db))" "step \<in> set (db_steps db)" "as_request_id step = rid"
  shows "db_steps db' = act_on_step (as_id step) StepApproved actor t (db_steps db)"
    and "db_next_id db' = db_next_id db"
    and "db_requests db' = db_requests db
      \<or> db_requests db' = set_request_status rid Approved (db_requests db)
        \<and> (\<forall>s' \<in> steps_of db rid. as_step_level s' \<le> as_step_level step)"
proof -
  let ?ss = "act_on_step (as_id step) StepApproved actor t (db_steps db)"
  let ?own = "sort_key as_step_level (filter (\<lambda>s. as_request_id s = rid) ?ss)"
  from approve_tx_effect [OF tx] obtain us where us: "find_row (\<lambda>s. as_id s = as_id step) ?ss = Some us"
    and eff: "if as_step_level us < max_level ?own
       then r = request \<and> db' = db\<lparr>db_steps := ?ss, db_audit := db_audit db @ [audit_entry actor ''approve''
           ''approval_step'' (as_id step) (Some (json_status ''pending'')) (Some (json_status ''approved'')) ip]\<rparr>
       else find_row (\<lambda>r. ar_id r = rid) (set_request_status rid Approved (db_requests db)) = Some r
         \<and> db' = db\<lparr>db_steps := ?ss, db_requests := set_request_status rid Approved (db_requests db),
              db_audit := db_audit db @ [audit_entry actor ''approve'' ''approval_step'' (as_id step)
                (Some (json_status ''pending'')) (Some (json_status ''approved'')) ip,
              audit_entry actor ''final_approve'' ''approval_request'' rid
                (Some (json_status ''pending'')) (Some (json_status ''approved'')) ip]\<rparr>" by blast
  show "db_steps db' = ?ss" "db_next_id db' = db_next_id db" using eff by (simp_all split: if_splits)
  have ss: "set ?ss = insert (acted StepApproved actor t step) (set (db_steps db) - {step})"
    by (rule act_on_step_set [OF keys(1,2)])
  have "distinct (map as_id ?ss)" using keys(1) by simp
  from find_row_key [OF this, of "acted StepApproved actor t step"] us ss
  have lvl: "as_step_level us = as_step_level step" by simp
  show "db_requests db' = db_requests db
      \<or> db_requests db' = set_request_status rid Approved (db_requests db)
        \<and> (\<forall>s' \<in> steps_of db rid. as_step_level s' \<le> as_step_level step)"
  proof (cases "as_step_level us < max_level ?own")
    case True
    then show ?thesis using eff by simp
  next
    case False
    have "as_step_level s' \<le> max_level ?own" if "s' \<in> steps_of db rid" "s' \<noteq> step" for s'
      by (rule max_level_upper) (use that ss in \<open>auto simp: steps_of_def\<close>)
    then have "\<forall>s' \<in> steps_of db rid. as_step_level s' \<le> as_step_level step"
      using False lvl by (metis linorder_le_cases order_trans not_less)
    with False eff show ?thesis by simp
  qed
qed

lemma approve_tx_inv:
  assumes inv: "approval_inv db" and load: "loadPendingStep flt0 db rid = Inr (r, step)"
    and actor: "actor \<noteq> ar_maker_id r"
    and tx: "approve_tx flt t rid actor ip r step db = Inr (r', db')"
  shows "approval_inv db'"
proof -
  from loadPendingStep_ok [OF load] have r: "r \<in> set (db_requests db)" and rid: "ar_id r = rid"
    and pend: "ar_status r = Pending" and st: "step \<in> steps_of db rid"
    and low: "\<forall>s' \<in> steps_of db rid. as_status s' = StepPending \<longrightarrow> as_step_level step \<le> as_step_level s'"
    by blast+
  have keys: "keys_ok db" and ok: "request_ok r (steps_of db rid)"
    using inv r rid unfolding approval_inv_def by blast+
  have kk: "distinct (map as_id (db_steps db))" "step \<in> set (db_steps db)" "as_request_id step = rid"
    using keys st unfolding keys_ok_def steps_of_def by blast+
  note tabs = approve_tx_tables [OF tx kk]
  note act = approval_inv_act [OF inv r _ _ actor tabs(1) _ tabs(2)]
  from tabs(3) show ?thesis
  proof
    assume "db_requests db' = db_requests db"
    moreover have same: "r\<lparr>ar_status := Pending\<rparr> = r" using pend by simp
    have "request_ok (r\<lparr>ar_status := Pending\<rparr>)
        (insert (acted StepApproved actor t step) (steps_of db rid - {step}))"
      unfolding same by (rule approve_request_ok [OF ok pend st low]) simp_all
    ultimately show ?thesis by (intro act [of Pending]) (use st rid pend in simp_all)
  next
    assume *: "db_requests db' = set_request_status rid Approved (db_requests db)
        \<and> (\<forall>s' \<in> steps_of db rid. as_step_level s' \<le> as_step_level step)"
    have "request_ok (r\<lparr>ar_status := Approved\<rparr>)
        (insert (acted StepApproved actor t step) (steps_of db rid - {step}))"
      by (rule approve_last_request_ok [OF ok pend st low steps_of_level_unique [OF keys st]])
         (use * in auto)
    with * show ?thesis by (intro act [of Approved]) (use st rid pend in simp_all)
  qed
qed

lemma reject_tx_inv:
  assumes inv: "approval_inv db" and load: "loadPendingStep flt0 db rid = Inr (r, step)"
    and actor: "actor \<noteq> ar_maker_id r"
    and tx: "reject_tx flt t rid actor ip step db = Inr (r', db')"
  shows "approval_inv db'"
proof -
  from loadPendingStep_ok [OF load] have r: "r \<in> set (db_requests db)" and rid: "ar_id r = rid"
    and pend: "ar_status r = Pending" and st: "step \<in> steps_of db rid"
    by blast+
  have ok: "request_ok r (steps_of db rid)" using inv r rid unfolding approval_inv_def by blast
  have tabs: "db_steps db' = act_on_step (as_id step) StepRejected actor t (db_steps db)"
    "db_requests db' = set_request_status rid Rejected (db_requests db)" "db_next_id db' = db_next_id db"
    using reject_tx_effect [OF tx] by simp_all
  show ?thesis
    by (rule approval_inv_act [OF inv r _ _ actor tabs(1) _ tabs(3), of Rejected])
       (use st rid pend tabs(2) reject_request_ok [OF ok pend st] in simp_all)
qed

lemma Approve_inv:
  assumes "approval_inv db"
  shows "approval_inv (snd (Orchestrator_Approve id flt t t' rid actor ip db))"
proof -
  have tx: "approval_inv (snd (run_in_tx c ce (approve_tx flt t' rid actor ip r step) db))"
    if "loadPendingStep flt db rid = Inr (r, step)" "actor \<noteq> ar_maker_id r" for c ce r step
    by (rule run_in_tx_inv [where P = approval_inv, OF assms])
       (use that assms approve_tx_inv in blast)
  then show ?thesis
    using assms unfolding Orchestrator_Approve_def
    by (auto split: sum.splits dest: ResolveEffectiveApprover_not_maker)
qed

lemma Reject_inv:
  assumes "approval_inv db"
  shows "approval_inv (snd (Orchestrator_Reject id flt t t' rid actor ip db))"
proof -
  have tx: "approval_inv (snd (run_in_tx c ce (reject_tx flt t' rid actor ip step) db))"
    if "loadPendingStep flt db rid = Inr (r, step)" "actor \<noteq> ar_maker_id r" for c ce r step
    by (rule run_in_tx_inv [where P = approval_inv, OF assms])
       (use that assms reject_tx_inv in blast)
  then show ?thesis
    using assms unfolding Orchestrator_Reject_def
    by (auto split: sum.splits dest: ResolveEffectiveApprover_not_maker)
qed

section \<open>Delegations\<close>

definition delegations_ok :: "approval_db \<Rightarrow> bool" where
  "delegations_ok db \<longleftrightarrow> distinct (map ad_id (db_delegations db))
     \<and> (\<forall>d \<in> set (db_delegations db). ad_id d < db_next_id db \<and> ad_start_at d < ad_end_at d
           \<and> ad_from_user_id d \<noteq> ad_to_user_id d)
     \<and> (\<forall>d \<in> set (db_delegations db). \<forall>d' \<in> set (db_delegations db).
          ad_from_user_id d = ad_from_user_id d' \<longrightarrow> d \<noteq> d' \<longrightarrow>
          \<not> ranges_overlap (ad_start_at d) (ad_end_at d) (ad_start_at d') (ad_end_at d'))"

lemma delegations_ok_cong:
  assumes "db_delegations db' = db_delegations db" "db_next_id db \<le> db_next_id db'"
  shows "delegations_ok db \<Longrightarrow> delegations_ok db'"
  using assms unfolding delegations_ok_def by force

lemma CreateApprovalDelegation_ok:
  assumes ok: "delegations_ok db" and c: "CreateApprovalDelegation db frm to s e reason = Inr (d, db')"
  shows "delegations_ok db'"
proof -
  from c have d: "d = \<lparr>ad_id = db_next_id db, ad_from_user_id = frm, ad_to_user_id = to,
      ad_start_at = s, ad_end_at = e, ad_reason = reason\<rparr>"
    and db': "db' = db\<lparr>db_delegations := db_delegations db @ [d], db_next_id := db_next_id db + 1\<rparr>"
    and g: "frm \<noteq> to" "s < e" "\<forall>x \<in> set (db_delegations db). ad_from_user_id x = frm
        \<longrightarrow> \<not> ranges_overlap (ad_start_at x) (ad_end_at x) s e"
    by (auto simp: CreateApprovalDelegation_def Let_def split: if_splits)
  have "distinct (map ad_id (db_delegations db'))"
    using ok unfolding db' delegations_ok_def by (fastforce simp: d)
  moreover have "\<forall>x \<in> set (db_delegations db'). ad_id x < db_next_id db' \<and> ad_start_at x < ad_end_at x
           \<and> ad_from_user_id x \<noteq> ad_to_user_id x"
    using ok g(1,2) unfolding db' delegations_ok_def by (fastforce simp: d)
  moreover have "\<not> ranges_overlap (ad_start_at x) (ad_end_at x) (ad_start_at y) (ad_end_at y)"
    if "x \<in> set (db_delegations db')" "y \<in> set (db_delegations db')" "ad_from_user_id x = ad_from_user_id y"
      "x \<noteq> y" for x y
  proof -
    have fr: "ad_from_user_id d = frm" "ad_start_at d = s" "ad_end_at d = e" by (simp_all add: d)
    have sym: "ranges_overlap a b a' b' = ranges_overlap a' b' a b" for a b a' b'
      by (auto simp: ranges_overlap_def)
    from that consider "x \<in> set (db_delegations db)" "y \<in> set (db_delegations db)"
      | "x = d" "y \<in> set (db_delegations db)" | "y = d" "x \<in> set (db_delegations db)"
      unfolding db' by auto
    then show ?thesis
    proof cases
      case 1
      then show ?thesis using that ok unfolding delegations_ok_def by blast
    next
      case 2
      then have "\<not> ranges_overlap (ad_start_at y) (ad_end_at y) s e" using g(3) that(3) fr by metis
      then show ?thesis unfolding 2(1) fr by (subst sym)
    next
      case 3
      then show ?thesis using g(3) that(3) unfolding 3(1) fr by blast
    qed
  qed
  ultimately show ?thesis unfolding delegations_ok_def by blast
qed

lemma ranges_overlap_shrink:
  "e' \<le> e \<Longrightarrow> ranges_overlap s e' a b \<Longrightarrow> ranges_overlap s e a b"
  "e' \<le> e \<Longrightarrow> ranges_overlap a b s e' \<Longrightarrow> ranges_overlap a b s e"
  by (auto simp: ranges_overlap_def)

lemma RevokeApprovalDelegation_ok:
  assumes ok: "delegations_ok db" and c: "RevokeApprovalDelegation db did e = Inr (d', db')"
  shows "delegations_ok db'"
proof -
  from c obtain d where d: "d \<in> set (db_delegations db)" "ad_id d = did" "e < ad_end_at d" "ad_start_at d < e"
    and db': "db' = db\<lparr>db_delegations := update_where (\<lambda>d. ad_id d = did \<and> ad_end_at d > e)
                      (\<lambda>d. d\<lparr>ad_end_at := e\<rparr>) (db_delegations db)\<rparr>"
    by (auto simp: RevokeApprovalDelegation_def dest!: find_row_Some split: option.splits if_splits)
  let ?d = "d\<lparr>ad_end_at := e\<rparr>"
  have only: "x = d" if "x \<in> set (db_delegations db)" "ad_id x = did" for x
    by (rule distinct_key_eq [of ad_id "db_delegations db"])
       (use that d(1,2) ok in \<open>simp_all add: delegations_ok_def\<close>)
  have old: "x \<in> set (db_delegations db') \<Longrightarrow> x \<noteq> ?d \<Longrightarrow> x \<in> set (db_delegations db) \<and> x \<noteq> d" for x
  proof -
    assume x: "x \<in> set (db_delegations db')" "x \<noteq> ?d"
    then have "x \<in> set (update_where (\<lambda>d. ad_id d = did \<and> ad_end_at d > e)
        (\<lambda>d. d\<lparr>ad_end_at := e\<rparr>) (db_delegations db))" by (simp add: db')
    then show ?thesis
    proof (cases rule: in_update_whereE)
      case kept
      have "x \<noteq> d" using kept(2) d(2,3) by auto
      with kept(1) show ?thesis by (rule conjI)
    next
      case (changed r)
      have "r = d" by (rule only [OF changed(1)]) (use changed(2) in simp)
      with changed(3) x(2) show ?thesis by simp
    qed
  qed
  have ids: "map ad_id (db_delegations db') = map ad_id (db_delegations db)" by (simp add: db')
  have "\<not> ranges_overlap (ad_start_at x) (ad_end_at x) (ad_start_at y) (ad_end_at y)"
    if xy: "x \<in> set (db_delegations db')" "y \<in> set (db_delegations db')"
      "ad_from_user_id x = ad_from_user_id y" "x \<noteq> y" for x y
  proof -
    have no: "\<not> ranges_overlap (ad_start_at a) (ad_end_at a) (ad_start_at b) (ad_end_at b)"
      if "a \<in> set (db_delegations db)" "b \<in> set (db_delegations db)"
        "ad_from_user_id a = ad_from_user_id b" "a \<noteq> b" for a b
      using ok that unfolding delegations_ok_def by blast
    consider "x = ?d" "y \<noteq> ?d" | "y = ?d" "x \<noteq> ?d" | "x \<noteq> ?d" "y \<noteq> ?d" using xy(4) by blast
    then show ?thesis
    proof cases
      case 1
      then have "\<not> ranges_overlap (ad_start_at d) (ad_end_at d) (ad_start_at y) (ad_end_at y)"
        using no [of d y] d(1) old [OF xy(2)] xy(3) by auto
      then show ?thesis using 1 d(3) ranges_overlap_shrink(1) [of e "ad_end_at d"] by auto
    next
      case 2
      then have "\<not> ranges_overlap (ad_start_at x) (ad_end_at x) (ad_start_at d) (ad_end_at d)"
        using no [of x d] d(1) old [OF xy(1)] xy(3) by auto
      then show ?thesis using 2 d(3) ranges_overlap_shrink(2) [of e "ad_end_at d"] by auto
    next
      case 3
      then show ?thesis using no [of x y] old xy by blast
    qed
  qed
  moreover have "ad_id x < db_next_id db' \<and> ad_start_at x < ad_end_at x \<and> ad_from_user_id x \<noteq> ad_to_user_id x"
    if "x \<in> set (db_delegations db')" for x
  proof -
    have row: "ad_id y < db_next_id db' \<and> ad_start_at y < ad_end_at y \<and> ad_from_user_id y \<noteq> ad_to_user_id y"
      if "y \<in> set (db_delegations db)" for y
      using ok that unfolding delegations_ok_def db' by simp
    show ?thesis
      by (cases "x = ?d") (use that old row d in auto)
  qed
  moreover have "distinct (map ad_id (db_delegations db'))"
    using ok unfolding ids delegations_ok_def by blast
  ultimately show ?thesis unfolding delegations_ok_def by blast
qed

end
