(* ===== verification/Approval_System.thy ===== *)
theory Approval_System
  imports Approval_Runs
begin

text \<open>
  The approval component as a transition system: the steps of the HTTP endpoints (any caller,
  any input, any failing call), policies and new users; the invariant in every reachable state;
  the properties of the component.
\<close>

section \<open>The step relation\<close>

inductive approval_op :: "approval_db \<Rightarrow> approval_db \<Rightarrow> bool" where
  submit: "ApprovalHandler_Submit id flt auth body amount ip db = Some (reply, db') \<Longrightarrow> approval_op db db'"
| approve: "ApprovalHandler_Approve id flt t t' auth path ip db = (reply, db') \<Longrightarrow> approval_op db db'"
| reject: "ApprovalHandler_Reject id flt t t' auth path ip db = (reply, db') \<Longrightarrow> approval_op db db'"
| hierarchy: "AdminApproval_SetHierarchy flt auth path hbody ip db = (reply, db') \<Longrightarrow> approval_op db db'"
| delegate: "AdminApproval_CreateDelegation flt auth dbody ip db = (reply, db') \<Longrightarrow> approval_op db db'"
| revoke: "AdminApproval_RevokeDelegation flt now auth path ip db = (reply, db') \<Longrightarrow> approval_op db db'"
| leave: "AdminApproval_CreateLeave flt auth lbody ip db = (reply, db') \<Longrightarrow> approval_op db db'"
| policy_new: "CreateApprovalPolicy db dtype lo hi lvl = Inr (p, db') \<Longrightarrow> approval_op db db'"
| policy_set: "UpdateApprovalPolicy db pid dtype lo hi lvl = Inr (p, db') \<Longrightarrow> approval_op db db'"
| user_new: "GetUserApprovalInfo db uid = None \<Longrightarrow>
    approval_op db (db\<lparr>db_users := db_users db @ [\<lparr>un_id = uid, un_supervisor_id = spv, un_approval_level = lv\<rparr>]\<rparr>)"

definition approval_init :: "approval_db \<Rightarrow> bool" where
  "approval_init db \<longleftrightarrow> db_requests db = [] \<and> db_steps db = [] \<and> db_delegations db = []"

definition system_inv :: "approval_db \<Rightarrow> bool" where
  "system_inv db \<longleftrightarrow> approval_inv db \<and> delegations_ok db"

text \<open>Frames: what an administrative operation leaves alone.\<close>

lemma best_effort_audit_tables [simp]:
  "db_requests (best_effort_audit flt e db) = db_requests db"
  "db_steps (best_effort_audit flt e db) = db_steps db"
  "db_delegations (best_effort_audit flt e db) = db_delegations db"
  "db_next_id (best_effort_audit flt e db) = db_next_id db"
  by (simp_all add: best_effort_audit_def Audit_WriteTx_def)

definition same_decisions :: "approval_db \<Rightarrow> approval_db \<Rightarrow> bool" where
  "same_decisions db db' \<longleftrightarrow> db_requests db' = db_requests db \<and> db_steps db' = db_steps db
     \<and> db_next_id db \<le> db_next_id db'"

lemma same_decisions_refl [simp]: "same_decisions db db"
  by (simp add: same_decisions_def)

lemma admin_same_decisions:
  "same_decisions db (snd (AdminApproval_SetHierarchy flt auth path hbody ip db))"
  "same_decisions db (snd (AdminApproval_CreateDelegation flt auth dbody ip db))"
  "same_decisions db (snd (AdminApproval_RevokeDelegation flt now auth path ip db))"
  "same_decisions db (snd (AdminApproval_CreateLeave flt auth lbody ip db))"
  by (auto simp: AdminApproval_SetHierarchy_def AdminApproval_CreateDelegation_def
      AdminApproval_RevokeDelegation_def AdminApproval_CreateLeave_def UpdateUserHierarchy_def
      Repository_CreateDelegation_def CreateApprovalDelegation_def Repository_RevokeDelegation_def
      RevokeApprovalDelegation_def CreateUserLeave_def same_decisions_def Let_def
      split: option.splits sum.splits if_splits prod.splits approval_err.splits)

lemma policy_same_decisions:
  "CreateApprovalPolicy db dtype lo hi lvl = Inr (p, db') \<Longrightarrow> same_decisions db db'"
  "UpdateApprovalPolicy db pid dtype lo hi lvl = Inr (p, db') \<Longrightarrow> same_decisions db db'"
  by (auto simp: CreateApprovalPolicy_def UpdateApprovalPolicy_def same_decisions_def Let_def
      split: if_splits option.splits)

lemma same_decisions_inv: "same_decisions db db' \<Longrightarrow> approval_inv db \<Longrightarrow> approval_inv db'"
  unfolding same_decisions_def using approval_inv_cong by blast

lemma decide_reply_db [simp]: "snd (decide_reply x) = snd x"
  by (auto simp: decide_reply_def split: prod.splits sum.splits)

lemma ApprovalHandler_Submit_cases:
  assumes "ApprovalHandler_Submit env flt auth body amount ip db = Some (reply, db')"
  obtains "db' = db"
  | actor dtype did a res where
      "Orchestrator_SubmitForApproval env flt actor dtype did a ip db = Some (res, db')"
  using assms by (auto simp: ApprovalHandler_Submit_def split: option.splits if_splits sum.splits)

lemma ApprovalHandler_decide_cases:
  "snd (ApprovalHandler_Approve env flt t t' auth path ip db) = db
   \<or> (\<exists>rid actor. snd (ApprovalHandler_Approve env flt t t' auth path ip db)
        = snd (Orchestrator_Approve env flt t t' rid actor ip db))"
  "snd (ApprovalHandler_Reject env flt t t' auth path ip db) = db
   \<or> (\<exists>rid actor. snd (ApprovalHandler_Reject env flt t t' auth path ip db)
        = snd (Orchestrator_Reject env flt t t' rid actor ip db))"
  by (auto simp: ApprovalHandler_Approve_def ApprovalHandler_Reject_def split: option.splits)

text \<open>
  A step either leaves requests and steps alone, submits a document, or decides a step; the
  case rule every proof about steps uses.
\<close>

lemma approval_op_cases:
  assumes "approval_op db db'"
  obtains (admin) "same_decisions db db'"
  | (submitted) flt maker dtype did a ip res where
      "Orchestrator_SubmitForApproval id flt maker dtype did a ip db = Some (res, db')"
  | (approved) flt t t' rid actor ip where "db' = snd (Orchestrator_Approve id flt t t' rid actor ip db)"
  | (rejected) flt t t' rid actor ip where "db' = snd (Orchestrator_Reject id flt t t' rid actor ip db)"
  using assms
proof cases
  case (submit flt auth body amount ip reply)
  then show ?thesis
    by (cases rule: ApprovalHandler_Submit_cases) (use that(1,2) in auto)
next
  case (approve flt t t' auth path ip reply)
  then have "db' = snd (ApprovalHandler_Approve id flt t t' auth path ip db)" by simp
  then show ?thesis using ApprovalHandler_decide_cases(1) [of id flt t t' auth path ip db] that(1,3) by auto
next
  case (reject flt t t' auth path ip reply)
  then have "db' = snd (ApprovalHandler_Reject id flt t t' auth path ip db)" by simp
  then show ?thesis using ApprovalHandler_decide_cases(2) [of id flt t t' auth path ip db] that(1,4) by auto
next
  case (hierarchy flt auth path hbody ip reply)
  then show ?thesis using that(1) admin_same_decisions(1) [of db flt auth path hbody ip] by simp
next
  case (delegate flt auth dbody ip reply)
  then show ?thesis using that(1) admin_same_decisions(2) [of db flt auth dbody ip] by simp
next
  case (revoke flt now auth path ip reply)
  then show ?thesis using that(1) admin_same_decisions(3) [of db flt now auth path ip] by simp
next
  case (leave flt auth lbody ip reply)
  then show ?thesis using that(1) admin_same_decisions(4) [of db flt auth lbody ip] by simp
next
  case policy_new
  then show ?thesis using that(1) policy_same_decisions(1) by blast
next
  case policy_set
  then show ?thesis using that(1) policy_same_decisions(2) by blast
next
  case user_new
  then show ?thesis using that(1) by (simp add: same_decisions_def)
qed

lemma approval_op_inv:
  assumes inv: "approval_inv db" and op: "approval_op db db'"
  shows "approval_inv db'"
  using op
proof (cases rule: approval_op_cases)
  case admin
  then show ?thesis using inv by (rule same_decisions_inv)
next
  case submitted
  then show ?thesis using Submit_inv [of id db] inv by simp
next
  case approved
  then show ?thesis using Approve_inv [OF inv] by simp
next
  case rejected
  then show ?thesis using Reject_inv [OF inv] by simp
qed

text \<open>The deciding operations do not touch delegations.\<close>

lemma submit_tx_delegations:
  assumes "submit_tx flt maker dtype did amount lvl chain ip db = Inr (r, db')"
  shows "db_delegations db' = db_delegations db" "db_next_id db \<le> db_next_id db'"
  using assms
  by (auto simp: CreateApprovalRequest_def Let_def split: if_splits
      dest!: submit_tx_effect create_steps_effect)

lemma approve_tx_delegations:
  assumes "approve_tx flt t rid actor ip request step db = Inr (r, db')"
  shows "db_delegations db' = db_delegations db" "db_next_id db' = db_next_id db"
  using assms by (auto split: if_splits dest!: approve_tx_effect)

definition delegations_kept :: "approval_db \<Rightarrow> approval_db \<Rightarrow> bool" where
  "delegations_kept db db' \<longleftrightarrow> db_delegations db' = db_delegations db \<and> db_next_id db \<le> db_next_id db'"

lemma decide_delegations:
  "delegations_kept db (snd (Orchestrator_Approve id flt t t' rid actor ip db))"
  "delegations_kept db (snd (Orchestrator_Reject id flt t t' rid actor ip db))"
proof -
  have a: "delegations_kept db (snd (run_in_tx c ce (approve_tx flt t' rid actor ip r step) db))" for c ce r step
    by (rule run_in_tx_inv [where P = "delegations_kept db"])
       (simp_all add: delegations_kept_def approve_tx_delegations)
  have b: "delegations_kept db (snd (run_in_tx c ce (reject_tx flt t' rid actor ip step) db))" for c ce step
    by (rule run_in_tx_inv [where P = "delegations_kept db"])
       (auto simp: delegations_kept_def dest!: reject_tx_effect)
  have refl: "delegations_kept db db" by (simp add: delegations_kept_def)
  show "delegations_kept db (snd (Orchestrator_Approve id flt t t' rid actor ip db))"
    unfolding Orchestrator_Approve_def using a refl by (simp split: sum.splits prod.splits)
  show "delegations_kept db (snd (Orchestrator_Reject id flt t t' rid actor ip db))"
    unfolding Orchestrator_Reject_def using b refl by (simp split: sum.splits prod.splits)
qed

lemma Submit_cases:
  assumes "Orchestrator_SubmitForApproval env flt maker dtype did amount ip db = Some (res, db')"
  obtains (untouched) "db' = db" "\<nexists>r. res = Inr (r, True)"
  | (rolled_back) "db' = env db" "\<nexists>r. res = Inr (r, True)"
  | (created) lvl chain r where "res = Inr (r, True)"
      "FindApprovalRequestByDocument db dtype did = None"
      "FindApprovalPolicy db dtype amount = Some lvl"
      "BuildChain (Repository_GetApproverInfo flt db) maker lvl = Some (Inr chain)"
      "submit_tx flt maker dtype did amount lvl chain ip (env db) = Inr (r, db')"
proof (cases "\<exists>lvl chain. \<not> flt CFindRequest \<and> FindApprovalRequestByDocument db dtype did = None
    \<and> FindApprovalPolicy db dtype amount = Some lvl \<and> \<not> flt CFindPolicy
    \<and> BuildChain (Repository_GetApproverInfo flt db) maker lvl = Some (Inr chain)")
  case False
  then show ?thesis
    using assms that(1)
    by (auto simp: Orchestrator_SubmitForApproval_def Repository_FindRequestByDocument_def
        Repository_FindPolicy_def split: sum.splits option.splits if_splits)
next
  case True
  then obtain lvl chain where g: "\<not> flt CFindRequest" "FindApprovalRequestByDocument db dtype did = None"
      "FindApprovalPolicy db dtype amount = Some lvl" "\<not> flt CFindPolicy"
      "BuildChain (Repository_GetApproverInfo flt db) maker lvl = Some (Inr chain)" by blast
  show ?thesis
  proof (rule run_in_tx_cases [of "\<not> flt CCommit" DbError
        "submit_tx flt maker dtype did amount lvl chain ip" "env db"])
    fix e
    assume "run_in_tx (\<not> flt CCommit) DbError (submit_tx flt maker dtype did amount lvl chain ip) (env db)
        = (Inl e, env db)"
    then have "db' = env db" "\<nexists>r. res = Inr (r, True)"
      using assms g by (auto simp: Orchestrator_SubmitForApproval_def Repository_FindRequestByDocument_def
        Repository_FindPolicy_def split: if_splits option.splits)
    then show ?thesis by (rule that(2))
  next
    fix r s'
    assume tx: "submit_tx flt maker dtype did amount lvl chain ip (env db) = Inr (r, s')"
      and "run_in_tx (\<not> flt CCommit) DbError (submit_tx flt maker dtype did amount lvl chain ip) (env db)
        = (Inr r, s')"
    then have "res = Inr (r, True)" "db' = s'"
      using assms g by (auto simp: Orchestrator_SubmitForApproval_def Repository_FindRequestByDocument_def
        Repository_FindPolicy_def)
    with tx g(2,3,5) show ?thesis by (intro that(3) [of r lvl chain]) simp_all
  qed
qed

lemma Submit_delegations:
  assumes "Orchestrator_SubmitForApproval id flt maker dtype did amount ip db = Some (res, db')"
  shows "delegations_kept db db'"
  using assms
  by (cases rule: Submit_cases) (simp_all add: delegations_kept_def submit_tx_delegations)

lemma admin_delegations_ok:
  assumes "delegations_ok db"
  shows "delegations_ok (snd (AdminApproval_SetHierarchy flt auth path hbody ip db))"
    and "delegations_ok (snd (AdminApproval_CreateDelegation flt auth dbody ip db))"
    and "delegations_ok (snd (AdminApproval_RevokeDelegation flt now auth path ip db))"
    and "delegations_ok (snd (AdminApproval_CreateLeave flt auth lbody ip db))"
proof -
  have audited: "delegations_ok db' \<Longrightarrow> delegations_ok (best_effort_audit flt e db')" for db' e
    by (erule delegations_ok_cong [rotated 2]) simp_all
  have other: "delegations_kept db db' \<Longrightarrow> delegations_ok db'" for db'
    using assms delegations_ok_cong unfolding delegations_kept_def by blast
  have create: "delegations_ok db'" if "Repository_CreateDelegation flt db frm to s e reason = Inr (d, db')"
    for frm to s e reason d db'
    using that assms CreateApprovalDelegation_ok [of db frm to s e reason d db']
    by (auto simp: Repository_CreateDelegation_def split: if_splits sum.splits approval_err.splits)
  have rev: "delegations_ok db'" if "Repository_RevokeDelegation flt db did t = Inr (Some d, db')"
    for did t d db'
    using that assms RevokeApprovalDelegation_ok [of db did t d db']
    by (auto simp: Repository_RevokeDelegation_def split: if_splits sum.splits approval_err.splits prod.splits)
  show "delegations_ok (snd (AdminApproval_SetHierarchy flt auth path hbody ip db))"
    by (rule other) (auto simp: AdminApproval_SetHierarchy_def UpdateUserHierarchy_def delegations_kept_def
        split: option.splits sum.splits if_splits)
  show "delegations_ok (snd (AdminApproval_CreateDelegation flt auth dbody ip db))"
    using assms by (auto simp: AdminApproval_CreateDelegation_def split: option.splits sum.splits
        intro!: audited dest!: create)
  show "delegations_ok (snd (AdminApproval_RevokeDelegation flt now auth path ip db))"
    using assms by (auto simp: AdminApproval_RevokeDelegation_def split: option.splits sum.splits prod.splits
        intro!: audited dest!: rev)
  show "delegations_ok (snd (AdminApproval_CreateLeave flt auth lbody ip db))"
    by (rule other) (auto simp: AdminApproval_CreateLeave_def CreateUserLeave_def delegations_kept_def Let_def
        split: option.splits sum.splits if_splits)
qed

lemma approval_op_delegations_ok:
  assumes ok: "delegations_ok db" and op: "approval_op db db'"
  shows "delegations_ok db'"
proof -
  have kept: "delegations_kept db db1 \<Longrightarrow> delegations_ok db1" for db1
    using ok delegations_ok_cong unfolding delegations_kept_def by blast
  from op show ?thesis
  proof cases
    case (submit flt auth body amount ip reply)
    then show ?thesis
      by (cases rule: ApprovalHandler_Submit_cases) (use ok Submit_delegations kept in blast)+
  next
    case (approve flt t t' auth path ip reply)
    then show ?thesis using ApprovalHandler_decide_cases(1) [of id flt t t' auth path ip db] ok
      by (auto intro: kept decide_delegations)
  next
    case (reject flt t t' auth path ip reply)
    then show ?thesis using ApprovalHandler_decide_cases(2) [of id flt t t' auth path ip db] ok
      by (auto intro: kept decide_delegations)
  next
    case (hierarchy flt auth path hbody ip reply)
    then show ?thesis using admin_delegations_ok(1) [OF ok, of flt auth path hbody ip] by simp
  next
    case (delegate flt auth dbody ip reply)
    then show ?thesis using admin_delegations_ok(2) [OF ok, of flt auth dbody ip] by simp
  next
    case (revoke flt now auth path ip reply)
    then show ?thesis using admin_delegations_ok(3) [OF ok, of flt now auth path ip] by simp
  next
    case (leave flt auth lbody ip reply)
    then show ?thesis using admin_delegations_ok(4) [OF ok, of flt auth lbody ip] by simp
  next
    case policy_new
    then show ?thesis by (intro kept) (auto simp: CreateApprovalPolicy_def delegations_kept_def Let_def split: if_splits)
  next
    case policy_set
    then show ?thesis
      by (intro kept) (auto simp: UpdateApprovalPolicy_def delegations_kept_def Let_def split: if_splits option.splits)
  next
    case user_new
    then show ?thesis by (intro kept) (simp add: delegations_kept_def)
  qed
qed

interpretation approval_sys: invariant_system approval_init approval_op system_inv
proof
  show "approval_init s \<Longrightarrow> system_inv s" for s
    by (simp add: approval_init_def system_inv_def approval_inv_def keys_ok_def delegations_ok_def)
  show "system_inv s \<Longrightarrow> approval_op s t \<Longrightarrow> system_inv t" for s t
    unfolding system_inv_def using approval_op_inv approval_op_delegations_ok by blast
qed

lemma reachable_inv:
  assumes "approval_init db0" "approval_op\<^sup>*\<^sup>* db0 db"
  shows "approval_inv db" "delegations_ok db"
  using approval_sys.reachable_invar [OF assms] by (simp_all add: system_inv_def)

section \<open>Decided requests\<close>

text \<open>
  \<open>keeps_decided db db'\<close>: a request that is approved or rejected, and its steps, are in the
  later tables unchanged.
\<close>

definition keeps_decided :: "approval_db \<Rightarrow> approval_db \<Rightarrow> bool" where
  "keeps_decided db db' \<longleftrightarrow>
     (\<forall>r \<in> set (db_requests db). ar_status r \<noteq> Pending \<longrightarrow>
        r \<in> set (db_requests db') \<and> steps_of db' (ar_id r) = steps_of db (ar_id r))"

lemma keeps_decided_refl: "keeps_decided db db"
  by (simp add: keeps_decided_def)

lemma keeps_decided_trans:
  assumes "keeps_decided a b" "keeps_decided b c" shows "keeps_decided a c"
  using assms unfolding keeps_decided_def by metis

lemma same_decisions_keeps: "same_decisions db db' \<Longrightarrow> keeps_decided db db'"
  by (simp add: same_decisions_def keeps_decided_def steps_of_def)

lemma act_keeps_decided:
  assumes inv: "approval_inv db" and load: "loadPendingStep flt db rid = Inr (r, step)"
    and steps: "db_steps db' = act_on_step (as_id step) st actor t (db_steps db)"
    and reqs: "db_requests db' = db_requests db \<or> db_requests db' = set_request_status rid rst (db_requests db)"
  shows "keeps_decided db db'"
  unfolding keeps_decided_def
proof (intro ballI impI)
  fix x assume x: "x \<in> set (db_requests db)" "ar_status x \<noteq> Pending"
  from loadPendingStep_ok [OF load] have r: "r \<in> set (db_requests db)" "ar_id r = rid"
    "ar_status r = Pending" and s: "step \<in> steps_of db rid" by blast+
  have keys: "keys_ok db" using inv by (simp add: approval_inv_def)
  have ne: "ar_id x \<noteq> rid"
  proof
    assume "ar_id x = rid"
    then have "x = r" using distinct_key_eq [of ar_id "db_requests db" x r] keys x(1) r(1,2)
      by (simp add: keys_ok_def)
    with x(2) r(3) show False by simp
  qed
  have kept: "x \<in> set (set_request_status (ar_id r) rst (db_requests db))"
    using keys r ne x(1) by (subst set_request_status_set) (auto simp: keys_ok_def)
  have "x \<in> set (db_requests db')"
    using reqs
  proof
    assume "db_requests db' = set_request_status rid rst (db_requests db)"
    with kept show ?thesis by (simp add: r(2))
  qed (simp add: x(1))
  moreover have st: "step \<in> set (db_steps db)" "as_request_id step = rid" using s by (auto simp: steps_of_def)
  have "steps_of db' (ar_id x) = steps_of db (ar_id x)"
    using keys st ne unfolding steps_of_def steps
    by (subst act_on_step_set) (auto simp: keys_ok_def)
  ultimately show "x \<in> set (db_requests db') \<and> steps_of db' (ar_id x) = steps_of db (ar_id x)" by blast
qed

lemma Approve_cases:
  obtains (untouched) "snd (Orchestrator_Approve env flt t t' rid actor ip db) \<in> {db, env db}"
      "\<exists>e. fst (Orchestrator_Approve env flt t t' rid actor ip db) = Inl e"
  | (acted) request step r' db' where "loadPendingStep flt db rid = Inr (request, step)"
      "ResolveEffectiveApprover flt db (as_assigned_approver_id step) (ar_maker_id request) t = Inr actor"
      "approve_tx flt t' rid actor ip request step (env db) = Inr (r', db')"
      "Orchestrator_Approve env flt t t' rid actor ip db = (Inr r', db')"
proof (cases "loadPendingStep flt db rid")
  case (Inr p)
  obtain request step where p: "p = (request, step)" by (cases p)
  show ?thesis
  proof (cases "ResolveEffectiveApprover flt db (as_assigned_approver_id step) (ar_maker_id request) t = Inr actor")
    case True
    show ?thesis
      by (rule run_in_tx_cases [of "\<not> flt CCommit" DbError "approve_tx flt t' rid actor ip request step" "env db"])
         (use True Inr p that in \<open>auto simp: Orchestrator_Approve_def\<close>)
  next
    case False
    then show ?thesis using that(1) Inr p by (auto simp: Orchestrator_Approve_def split: sum.splits)
  qed
qed (use that(1) in \<open>auto simp: Orchestrator_Approve_def\<close>)

lemma Reject_cases:
  obtains (untouched) "snd (Orchestrator_Reject env flt t t' rid actor ip db) \<in> {db, env db}"
      "\<exists>e. fst (Orchestrator_Reject env flt t t' rid actor ip db) = Inl e"
  | (acted) request step r' db' where "loadPendingStep flt db rid = Inr (request, step)"
      "ResolveEffectiveApprover flt db (as_assigned_approver_id step) (ar_maker_id request) t = Inr actor"
      "reject_tx flt t' rid actor ip step (env db) = Inr (r', db')"
      "Orchestrator_Reject env flt t t' rid actor ip db = (Inr r', db')"
proof (cases "loadPendingStep flt db rid")
  case (Inr p)
  obtain request step where p: "p = (request, step)" by (cases p)
  show ?thesis
  proof (cases "ResolveEffectiveApprover flt db (as_assigned_approver_id step) (ar_maker_id request) t = Inr actor")
    case True
    show ?thesis
      by (rule run_in_tx_cases [of "\<not> flt CCommit" DbError "reject_tx flt t' rid actor ip step" "env db"])
         (use True Inr p that in \<open>auto simp: Orchestrator_Reject_def\<close>)
  next
    case False
    then show ?thesis using that(1) Inr p by (auto simp: Orchestrator_Reject_def split: sum.splits)
  qed
qed (use that(1) in \<open>auto simp: Orchestrator_Reject_def\<close>)

lemma Approve_keeps_decided:
  assumes inv: "approval_inv db"
  shows "keeps_decided db (snd (Orchestrator_Approve id flt t t' rid actor ip db))"
proof (cases rule: Approve_cases [of id flt t t' rid actor ip db])
  case untouched
  then show ?thesis by (simp add: keeps_decided_refl)
next
  case (acted request step r' db')
  from loadPendingStep_ok [OF acted(1)] have s: "step \<in> set (db_steps db)" "as_request_id step = rid"
    by (auto simp: steps_of_def)
  have "distinct (map as_id (db_steps db))" using inv by (simp add: approval_inv_def keys_ok_def)
  from approve_tx_tables [OF acted(3) [unfolded id_apply] this s]
  have "db_steps db' = act_on_step (as_id step) StepApproved actor t' (db_steps db)"
    "db_requests db' = db_requests db \<or> db_requests db' = set_request_status rid Approved (db_requests db)"
    by blast+
  from act_keeps_decided [OF inv acted(1) this] show ?thesis by (simp add: acted(4))
qed

lemma Reject_keeps_decided:
  assumes inv: "approval_inv db"
  shows "keeps_decided db (snd (Orchestrator_Reject id flt t t' rid actor ip db))"
proof (cases rule: Reject_cases [of id flt t t' rid actor ip db])
  case untouched
  then show ?thesis by (simp add: keeps_decided_refl)
next
  case (acted request step r' db')
  from reject_tx_effect [OF acted(3) [unfolded id_apply]]
  have "db_steps db' = act_on_step (as_id step) StepRejected actor t' (db_steps db)"
    "db_requests db' = db_requests db \<or> db_requests db' = set_request_status rid Rejected (db_requests db)"
    by simp_all
  from act_keeps_decided [OF inv acted(1) this] show ?thesis by (simp add: acted(4))
qed

text \<open>What a successful submission adds.\<close>

lemma submit_tx_adds:
  assumes "submit_tx flt maker dtype did amount lvl chain ip db = Inr (r, db')"
  shows "FindApprovalRequestByDocument db dtype did = None
    \<and> r = \<lparr>ar_id = db_next_id db, ar_maker_id = maker, ar_document_type = dtype, ar_document_id = did,
          ar_amount = amount, ar_required_level = lvl, ar_status = Pending\<rparr>
    \<and> (\<exists>new. db' = db\<lparr>db_requests := db_requests db @ [r], db_steps := db_steps db @ new,
          db_audit := db_audit db @ [audit_entry maker ''submit'' ''approval_request'' (ar_id r) None
                        (Some (json_request r)) ip],
          db_next_id := db_next_id db + 1 + int (length new)\<rparr>
        \<and> map (\<lambda>s. (as_request_id s, as_step_level s, as_assigned_approver_id s, as_status s)) new
          = map (\<lambda>a. (ar_id r, the (un_approval_level a), un_id a, StepPending)) chain)"
proof -
  from submit_tx_effect [OF assms] obtain db1 db2 where
    c: "CreateApprovalRequest db maker dtype did amount lvl = Inr (r, db1)" and
    cs: "create_steps flt 0 (ar_id r) chain db1 = Inr db2" and
    db': "db' = db2\<lparr>db_audit := db_audit db2 @ [audit_entry maker ''submit'' ''approval_request''
               (ar_id r) None (Some (json_request r)) ip]\<rparr>" by blast
  from c have r: "FindApprovalRequestByDocument db dtype did = None"
      "r = \<lparr>ar_id = db_next_id db, ar_maker_id = maker, ar_document_type = dtype, ar_document_id = did,
          ar_amount = amount, ar_required_level = lvl, ar_status = Pending\<rparr>"
      "db1 = db\<lparr>db_requests := db_requests db @ [r], db_next_id := db_next_id db + 1\<rparr>"
    by (auto simp: CreateApprovalRequest_def Let_def split: if_splits)
  from create_steps_effect [OF cs] obtain new where new:
    "db2 = db1\<lparr>db_steps := db_steps db1 @ new, db_next_id := db_next_id db1 + int (length new)\<rparr>"
    "map as_request_id new = map (\<lambda>_. ar_id r) chain"
    "map as_step_level new = map (\<lambda>a. the (un_approval_level a)) chain"
    "map as_assigned_approver_id new = map un_id chain"
    "\<forall>s \<in> set new. as_status s = StepPending \<and> as_acted_by_id s = None" by blast
  have len: "length chain = length new" using arg_cong [OF new(3), of length] by simp
  have "map (\<lambda>s. (as_request_id s, as_step_level s, as_assigned_approver_id s, as_status s)) new
      = map (\<lambda>a. (ar_id r, the (un_approval_level a), un_id a, StepPending)) chain"
  proof (rule nth_equalityI)
    fix i assume "i < length (map (\<lambda>s. (as_request_id s, as_step_level s, as_assigned_approver_id s, as_status s)) new)"
    then have i: "i < length new" "i < length chain" using len by simp_all
    then have "as_request_id (new ! i) = ar_id r" "as_step_level (new ! i) = the (un_approval_level (chain ! i))"
      "as_assigned_approver_id (new ! i) = un_id (chain ! i)" "as_status (new ! i) = StepPending"
      using arg_cong [OF new(2), of "\<lambda>l. l ! i"] arg_cong [OF new(3), of "\<lambda>l. l ! i"]
        arg_cong [OF new(4), of "\<lambda>l. l ! i"] new(5) by simp_all
    with i show "map (\<lambda>s. (as_request_id s, as_step_level s, as_assigned_approver_id s, as_status s)) new ! i
      = map (\<lambda>a. (ar_id r, the (un_approval_level a), un_id a, StepPending)) chain ! i" by simp
  qed (simp add: len)
  moreover have "db' = db\<lparr>db_requests := db_requests db @ [r], db_steps := db_steps db @ new,
          db_audit := db_audit db @ [audit_entry maker ''submit'' ''approval_request'' (ar_id r) None
                        (Some (json_request r)) ip],
          db_next_id := db_next_id db + 1 + int (length new)\<rparr>"
    by (simp add: db' new(1) r(3))
  ultimately show ?thesis using r(1,2) by blast
qed

lemma Submit_keeps_decided:
  assumes inv: "approval_inv db"
    and run: "Orchestrator_SubmitForApproval id flt maker dtype did amount ip db = Some (res, db')"
  shows "keeps_decided db db'"
  using run
proof (cases rule: Submit_cases)
  case (created lvl chain r)
  from submit_tx_adds [OF created(5) [unfolded id_apply]] obtain new where
    rid: "ar_id r = db_next_id db" and
    tabs: "db_requests db' = db_requests db @ [r]" "db_steps db' = db_steps db @ new" and
    own: "map (\<lambda>s. (as_request_id s, as_step_level s, as_assigned_approver_id s, as_status s)) new
          = map (\<lambda>a. (ar_id r, the (un_approval_level a), un_id a, StepPending)) chain"
    by (elim conjE exE) simp
  have "fst ` set (map (\<lambda>s. (as_request_id s, as_step_level s, as_assigned_approver_id s, as_status s)) new)
      \<subseteq> {ar_id r}" unfolding own by auto
  then have own': "\<forall>s \<in> set new. as_request_id s = ar_id r" by force
  show ?thesis
    unfolding keeps_decided_def
  proof (intro ballI impI conjI)
    fix x assume x: "x \<in> set (db_requests db)"
    then show "x \<in> set (db_requests db')" by (simp add: tabs)
    have "ar_id x < ar_id r" using inv x rid by (simp add: approval_inv_def keys_ok_def)
    then show "steps_of db' (ar_id x) = steps_of db (ar_id x)"
      using own' unfolding steps_of_def tabs by auto
  qed
qed (simp_all add: keeps_decided_refl)

lemma approval_op_keeps_decided:
  assumes inv: "approval_inv db" and op: "approval_op db db'"
  shows "keeps_decided db db'"
  using op
proof (cases rule: approval_op_cases)
  case admin
  then show ?thesis by (rule same_decisions_keeps)
next
  case submitted
  then show ?thesis by (rule Submit_keeps_decided [OF inv])
next
  case approved
  then show ?thesis using Approve_keeps_decided [OF inv] by simp
next
  case rejected
  then show ?thesis using Reject_keeps_decided [OF inv] by simp
qed

section \<open>Progress of an approval\<close>

lemma max_level_attained: "max_level xs = 0 \<or> (\<exists>s \<in> set xs. as_step_level s = max_level xs)"
proof -
  have "fold (\<lambda>s m. if as_step_level s > m then as_step_level s else m) xs m = m \<or>
      (\<exists>s \<in> set xs. as_step_level s = fold (\<lambda>s m. if as_step_level s > m then as_step_level s else m) xs m)" for m
  proof (induction xs arbitrary: m)
    case (Cons a xs)
    show ?case using Cons.IH [of m] Cons.IH [of "as_step_level a"] by auto
  qed simp
  then show ?thesis by (simp add: max_level_def)
qed

text \<open>With no failing call, the transaction of \<open>Approve\<close> succeeds on the rows it was given.\<close>

lemma approve_tx_runs:
  assumes "\<And>c. \<not> flt c" and "find_row (\<lambda>s. as_id s = as_id step)
      (act_on_step (as_id step) StepApproved actor t (db_steps db)) = Some us"
    and "find_row (\<lambda>r. ar_id r = rid) (set_request_status rid Approved (db_requests db)) = Some r1"
  shows "\<exists>db'. approve_tx flt t rid actor ip request step db =
    Inr (if as_step_level us < max_level (sort_key as_step_level (filter (\<lambda>s. as_request_id s = rid)
            (act_on_step (as_id step) StepApproved actor t (db_steps db)))) then request else r1, db')"
  using assms
  by (simp add: approve_tx_def repository_defs UpdateApprovalStepStatus_def ListApprovalSteps_def
      UpdateApprovalRequestStatus_def GetApprovalRequest_def Let_def act_on_step_def set_request_status_def)

lemma pending_step_last_iff:
  assumes inv: "approval_inv db" and load: "loadPendingStep flt db rid = Inr (request, step)"
    and nonneg: "\<forall>s \<in> steps_of db rid. 0 \<le> as_step_level s"
    and own: "set own = insert s' (steps_of db rid - {step})" and lvl: "as_step_level s' = as_step_level step"
  shows "as_step_level step < max_level own \<longleftrightarrow>
    \<not> (\<forall>s \<in> steps_of db rid. s = step \<or> as_status s = StepApproved)"
proof -
  from loadPendingStep_ok [OF load] have r: "request \<in> set (db_requests db)" "ar_id request = rid"
    and pend: "ar_status request = Pending" and st: "step \<in> steps_of db rid" "as_status step = StepPending"
    and low: "\<forall>s' \<in> steps_of db rid. as_status s' = StepPending \<longrightarrow> as_step_level step \<le> as_step_level s'"
    by blast+
  have keys: "keys_ok db" and ok: "request_ok request (steps_of db rid)"
    using inv r unfolding approval_inv_def by blast+
  note p = request_ok_pending [OF ok pend]
  show ?thesis
  proof
    assume less: "as_step_level step < max_level own"
    have "0 \<le> as_step_level step" using nonneg st by blast
    with less max_level_attained [of own] obtain x where x: "x \<in> set own" "as_step_level x = max_level own"
      by force
    with less lvl have xo: "x \<in> steps_of db rid" "as_step_level step < as_step_level x"
      unfolding own by auto
    with p(3) st have "as_status x \<noteq> StepApproved" by (metis step_status.distinct(1))
    moreover have "x \<noteq> step" using xo(2) by auto
    ultimately show "\<not> (\<forall>s \<in> steps_of db rid. s = step \<or> as_status s = StepApproved)" using xo(1) by blast
  next
    assume "\<not> (\<forall>s \<in> steps_of db rid. s = step \<or> as_status s = StepApproved)"
    then obtain x where x: "x \<in> steps_of db rid" "x \<noteq> step" "as_status x \<noteq> StepApproved" by blast
    then have "as_status x = StepPending" using p(2) step_status.exhaust by metis
    then have "as_step_level step \<le> as_step_level x" using low x(1) by blast
    moreover have "as_step_level x \<noteq> as_step_level step"
      using steps_of_level_unique [OF keys st(1) x(1)] x(2) by blast
    moreover have "as_step_level x \<le> max_level own" by (rule max_level_upper) (use own x in blast)
    ultimately show "as_step_level step < max_level own" by linarith
  qed
qed

lemma Approve_runs:
  assumes inv: "approval_inv db" and nf: "\<And>c. \<not> flt c"
    and load: "loadPendingStep flt db rid = Inr (request, step)"
    and eff: "ResolveEffectiveApprover flt db (as_assigned_approver_id step) (ar_maker_id request) t = Inr actor"
    and nonneg: "\<forall>s \<in> steps_of db rid. 0 \<le> as_step_level s"
  shows "\<exists>r' db'. Orchestrator_Approve id flt t t' rid actor ip db = (Inr r', db')
    \<and> db_steps db' = act_on_step (as_id step) StepApproved actor t' (db_steps db)
    \<and> (ar_status r' = Approved \<longleftrightarrow> (\<forall>s \<in> steps_of db rid. s = step \<or> as_status s = StepApproved))"
proof -
  from loadPendingStep_ok [OF load] have r: "request \<in> set (db_requests db)" "ar_id request = rid"
    and pend: "ar_status request = Pending" and st: "step \<in> set (db_steps db)" "as_request_id step = rid"
    by (auto simp: steps_of_def)
  have keys: "keys_ok db" using inv by (simp add: approval_inv_def)
  let ?step = "acted StepApproved actor t' step"
  let ?ss = "act_on_step (as_id step) StepApproved actor t' (db_steps db)"
  let ?rs = "set_request_status rid Approved (db_requests db)"
  let ?own = "sort_key as_step_level (filter (\<lambda>s. as_request_id s = rid) ?ss)"
  have dist: "distinct (map as_id (db_steps db))" "distinct (map ar_id (db_requests db))"
    using keys by (simp_all add: keys_ok_def)
  have ss: "set ?ss = insert ?step (set (db_steps db) - {step})" by (rule act_on_step_set [OF dist(1) st(1)])
  have rs: "set ?rs = insert (request\<lparr>ar_status := Approved\<rparr>) (set (db_requests db) - {request})"
    using set_request_status_set [OF dist(2) r(1), of Approved] by (simp add: r(2))
  have us: "find_row (\<lambda>s. as_id s = as_id step) ?ss = Some ?step"
    using find_row_key [of as_id ?ss ?step] dist ss by simp
  have r1: "find_row (\<lambda>r. ar_id r = rid) ?rs = Some (request\<lparr>ar_status := Approved\<rparr>)"
    using find_row_key [of ar_id ?rs "request\<lparr>ar_status := Approved\<rparr>"] dist rs r(2) by simp
  from approve_tx_runs [of flt, OF nf us r1] obtain db' where tx:
    "approve_tx flt t' rid actor ip request step db = Inr (if as_step_level ?step < max_level ?own
        then request else request\<lparr>ar_status := Approved\<rparr>, db')" by blast
  let ?r = "if as_step_level ?step < max_level ?own then request else request\<lparr>ar_status := Approved\<rparr>"
  have "Orchestrator_Approve id flt t t' rid actor ip db = (Inr ?r, db')"
    using load eff nf tx by (simp add: Orchestrator_Approve_def run_in_tx_def)
  moreover have "db_steps db' = ?ss" by (rule approve_tx_tables(1) [OF tx dist(1) st])
  moreover have "set ?own = insert ?step (steps_of db rid - {step})"
    using ss st(2) by (auto simp: steps_of_def)
  from pending_step_last_iff [OF inv load nonneg this]
  have "ar_status ?r = Approved \<longleftrightarrow> (\<forall>s \<in> steps_of db rid. s = step \<or> as_status s = StepApproved)"
    using pend by simp
  ultimately show ?thesis by blast
qed

end
