(* ===== verification/Approval_Properties.thy ===== *)
theory Approval_Properties
  imports Approval_System
begin

text \<open>
  The properties of the approval component, each with a witness on a small organisation: user 1
  reports to user 2 (level 1), who reports to user 3 (level 2), and a policy that asks level 2.
\<close>

section \<open>A small organisation\<close>

definition no_faults :: approval_faults where "no_faults = (\<lambda>_. False)"

definition sample_users :: "user_node list" where
  "sample_users = [\<lparr>un_id = 1, un_supervisor_id = Some 2, un_approval_level = None\<rparr>,
     \<lparr>un_id = 2, un_supervisor_id = Some 3, un_approval_level = Some 1\<rparr>,
     \<lparr>un_id = 3, un_supervisor_id = None, un_approval_level = Some 2\<rparr>]"

definition sample_db :: approval_db where
  "sample_db = \<lparr>db_users = sample_users, db_leaves = [], db_delegations = [],
     db_policies = [\<lparr>ap_id = 10, ap_document_type = ''po'', ap_min_amount = 0, ap_max_amount = 100000,
        ap_required_level = 2, ap_is_active = True\<rparr>],
     db_requests = [], db_steps = [], db_audit = [], db_next_id = 100\<rparr>"

definition sample_request :: "request_status \<Rightarrow> approval_request" where
  "sample_request st = \<lparr>ar_id = 100, ar_maker_id = 1, ar_document_type = ''po'', ar_document_id = 7,
     ar_amount = 500, ar_required_level = 2, ar_status = st\<rparr>"

definition sample_step :: "id64 \<Rightarrow> int \<Rightarrow> id64 \<Rightarrow> (step_status \<times> timestamp) option \<Rightarrow> approval_step" where
  "sample_step sid lvl approver act = \<lparr>as_id = sid, as_request_id = 100, as_step_level = lvl,
     as_assigned_approver_id = approver,
     as_acted_by_id = map_option (\<lambda>_. approver) act,
     as_status = (case act of None \<Rightarrow> StepPending | Some (st, _) \<Rightarrow> st),
     as_acted_at = map_option snd act\<rparr>"

definition sample_submitted :: approval_db where
  "sample_submitted = snd (the (ApprovalHandler_Submit id no_faults (Some 1)
      (Some (''po'', 7, ''5'')) (Some 500) [] sample_db))"

definition sample_level1 :: approval_db where
  "sample_level1 = snd (ApprovalHandler_Approve id no_faults 5 6 (Some 2) (Some 100) [] sample_submitted)"

definition sample_approved :: approval_db where
  "sample_approved = snd (ApprovalHandler_Approve id no_faults 7 8 (Some 3) (Some 100) [] sample_level1)"

lemma sample_submit_runs:
  "Orchestrator_SubmitForApproval id no_faults 1 ''po'' 7 500 [] sample_db
     = Some (Inr (sample_request Pending, True), sample_submitted)"
  "ApprovalHandler_Submit id no_faults (Some 1) (Some (''po'', 7, ''5'')) (Some 500) [] sample_db
     = Some (HttpOK 201, sample_submitted)"
  by code_simp+

lemma sample_tables:
  "db_requests sample_submitted = [sample_request Pending]"
  "db_steps sample_submitted = [sample_step 101 1 2 None, sample_step 102 2 3 None]"
  "db_requests sample_approved = [sample_request Approved]"
  "db_steps sample_approved = [sample_step 101 1 2 (Some (StepApproved, 6)), sample_step 102 2 3 (Some (StepApproved, 8))]"
  by code_simp+

lemma sample_approve_runs:
  "ApprovalHandler_Approve id no_faults 5 6 (Some 2) (Some 100) [] sample_submitted = (HttpOK 200, sample_level1)"
  "ApprovalHandler_Approve id no_faults 7 8 (Some 3) (Some 100) [] sample_level1 = (HttpOK 200, sample_approved)"
  by code_simp+

lemma sample_reachable:
  "approval_init sample_db" "approval_op\<^sup>*\<^sup>* sample_db sample_submitted"
  "approval_op\<^sup>*\<^sup>* sample_submitted sample_approved" "approval_op\<^sup>*\<^sup>* sample_db sample_approved"
proof -
  show "approval_init sample_db" by (simp add: approval_init_def sample_db_def)
  show a: "approval_op\<^sup>*\<^sup>* sample_db sample_submitted"
    by (rule r_into_rtranclp [of approval_op]) (rule approval_op.submit [OF sample_submit_runs(2)])
  show b: "approval_op\<^sup>*\<^sup>* sample_submitted sample_approved"
    by (rule converse_rtranclp_into_rtranclp [of approval_op, OF approval_op.approve [OF sample_approve_runs(1)]])
       (rule r_into_rtranclp [of approval_op, OF approval_op.approve [OF sample_approve_runs(2)]])
  show "approval_op\<^sup>*\<^sup>* sample_db sample_approved" using a b by (rule rtranclp_trans)
qed

section \<open>Routing\<close>

text \<open>C9: the chain that \<open>BuildChain\<close> returns is exactly the specified one: the supervisors with
  an approval level, nearest first, on the reporting line above the maker, up to and including
  the first one who reaches the required level.\<close>

theorem BuildChain_correct:
  "BuildChain get makerID requiredLevel = Some (Inr chain) \<longleftrightarrow> chain_spec get makerID requiredLevel chain"
  by (rule BuildChain_iff)

text \<open>C33: the walk of \<open>BuildChain\<close> ends, with a chain or an error, whenever the reporting lines
  are a hierarchy (a rank that decreases towards the top exists), whatever reads fail.\<close>

theorem BuildChain_terminates:
  assumes "\<forall>u \<in> set (db_users db). \<forall>s. un_supervisor_id u = Some s \<longrightarrow> (rank s :: nat) < rank (un_id u)"
  shows "\<exists>r. BuildChain (Repository_GetApproverInfo flt db) makerID requiredLevel = Some r"
  unfolding BuildChain_def
proof (rule repo.walk_returns)
  fix u n s
  assume n: "Repository_GetApproverInfo flt db u = Inr n" "un_supervisor_id n = Some s"
  then have "n \<in> set (db_users db)" "un_id n = u"
    by (auto simp: Repository_GetApproverInfo_def GetUserApprovalInfo_def dest: find_row_Some
        split: if_splits option.splits)
  with n(2) assms show "rank s < rank u" by blast
qed

theorem BuildChain_terminates_witness:
  "\<exists>r. BuildChain (Repository_GetApproverInfo no_faults sample_db) 1 2 = Some r"
  by (rule BuildChain_terminates [where rank = "\<lambda>u. nat (3 - u)"]) (simp add: sample_db_def sample_users_def)

section \<open>Submitting\<close>

text \<open>C19: a submission that reports a new request has, in one transaction, added exactly that
  pending request at the level the policy asks for, one pending step per approver of the
  specified chain at that approver's level, and the audit row; nothing else changes, and the
  document had no request before. This holds for any failing calls and any commits of other
  sessions before the transaction (\<open>env\<close>).\<close>

theorem SubmitForApproval_creates:
  assumes "Orchestrator_SubmitForApproval env flt makerID dtype did amount ip db
             = Some (Inr (request, True), db')"
  shows "\<exists>lvl chain new.
      FindApprovalPolicy db dtype amount = Some lvl
    \<and> chain_spec (Repository_GetApproverInfo flt db) makerID lvl chain
    \<and> FindApprovalRequestByDocument (env db) dtype did = None
    \<and> request = \<lparr>ar_id = db_next_id (env db), ar_maker_id = makerID, ar_document_type = dtype,
          ar_document_id = did, ar_amount = amount, ar_required_level = lvl, ar_status = Pending\<rparr>
    \<and> db' = (env db)\<lparr>db_requests := db_requests (env db) @ [request],
          db_steps := db_steps (env db) @ new,
          db_audit := db_audit (env db) @ [audit_entry makerID ''submit'' ''approval_request''
             (ar_id request) None (Some (json_request request)) ip],
          db_next_id := db_next_id (env db) + 1 + int (length new)\<rparr>
    \<and> map (\<lambda>s. (as_request_id s, as_step_level s, as_assigned_approver_id s, as_status s)) new
        = map (\<lambda>a. (ar_id request, the (un_approval_level a), un_id a, StepPending)) chain"
  using assms
proof (cases rule: Submit_cases)
  case (created lvl chain r)
  then have tx: "submit_tx flt makerID dtype did amount lvl chain ip (env db) = Inr (request, db')" by simp
  from created(3,4) submit_tx_adds [OF tx] show ?thesis unfolding BuildChain_iff by blast
qed simp_all

theorem SubmitForApproval_creates_witness:
  "\<exists>lvl chain new. FindApprovalPolicy sample_db ''po'' 500 = Some lvl
    \<and> chain_spec (Repository_GetApproverInfo no_faults sample_db) 1 lvl chain
    \<and> db_steps sample_submitted = db_steps sample_db @ new
    \<and> map (\<lambda>s. (as_request_id s, as_step_level s, as_assigned_approver_id s, as_status s)) new
        = map (\<lambda>a. (100, the (un_approval_level a), un_id a, StepPending)) chain"
proof -
  have rid: "ar_id (sample_request Pending) = 100" by (simp add: sample_request_def)
  from SubmitForApproval_creates [OF sample_submit_runs(1), unfolded rid] obtain lvl chain new where
    f: "FindApprovalPolicy sample_db ''po'' 500 = Some lvl"
      "chain_spec (Repository_GetApproverInfo no_faults sample_db) 1 lvl chain"
      "map (\<lambda>s. (as_request_id s, as_step_level s, as_assigned_approver_id s, as_status s)) new
        = map (\<lambda>a. (100, the (un_approval_level a), un_id a, StepPending)) chain"
    and t: "\<exists>a b c. sample_submitted = (id sample_db)\<lparr>db_requests := a,
        db_steps := db_steps (id sample_db) @ new, db_audit := b, db_next_id := c\<rparr>"
    by blast
  from t obtain a b c where e: "sample_submitted = (id sample_db)\<lparr>db_requests := a,
        db_steps := db_steps (id sample_db) @ new, db_audit := b, db_next_id := c\<rparr>" by blast
  have "db_steps sample_submitted = db_steps sample_db @ new" by (subst e) simp
  with f show ?thesis by blast
qed

text \<open>A submission that does not report a new request has written nothing: the tables are
  those it read, or those other sessions left. A repeated submission of a document that has a
  request returns that request, and a failed transaction leaves no request, step or audit row.\<close>

lemma SubmitForApproval_no_partial_write:
  assumes "Orchestrator_SubmitForApproval env flt makerID dtype did amount ip db = Some (res, db')"
    and "\<nexists>r. res = Inr (r, True)"
  shows "(db' = db \<or> db' = env db)
    \<and> (\<forall>r. res = Inr (r, False) \<longrightarrow> FindApprovalRequestByDocument db' dtype did = Some r)"
proof -
  have same: "db' = db \<or> db' = env db" using assms(1) by (cases rule: Submit_cases) (use assms(2) in simp_all)
  have "FindApprovalRequestByDocument db' dtype did = Some r" if "res = Inr (r, False)" for r
    using assms(1) that same
    by (auto simp: Orchestrator_SubmitForApproval_def Repository_FindRequestByDocument_def
        split: sum.splits option.splits prod.splits if_splits)
  with same show ?thesis by blast
qed

lemma SubmitForApproval_no_partial_write_witness:
  "FindApprovalRequestByDocument sample_submitted ''po'' 7 = Some (sample_request Pending)"
proof -
  have "Orchestrator_SubmitForApproval id no_faults 1 ''po'' 7 500 [] sample_submitted
      = Some (Inr (sample_request Pending, False), sample_submitted)" by code_simp
  from SubmitForApproval_no_partial_write [OF this] show ?thesis by simp
qed

section \<open>Deciding\<close>

text \<open>C1: separation of duties. In every state the component reaches, no step of any request has
  been acted on by the request's maker, and a step has an actor exactly when it is decided.\<close>

theorem maker_never_decides:
  assumes "approval_init db0" and "approval_op\<^sup>*\<^sup>* db0 db"
    and "r \<in> set (db_requests db)" and "s \<in> set (db_steps db)" and "as_request_id s = ar_id r"
  shows "as_acted_by_id s \<noteq> Some (ar_maker_id r) \<and> (as_status s = StepPending \<longleftrightarrow> as_acted_by_id s = None)"
proof -
  have "s \<in> steps_of db (ar_id r)" using assms(4,5) by (simp add: steps_of_def)
  then have "step_ok r s" using reachable_inv(1) [OF assms(1,2)] assms(3) by (simp add: approval_inv_def)
  then show ?thesis by (simp add: step_ok_def)
qed

theorem maker_never_decides_witness:
  "as_acted_by_id (sample_step 101 1 2 (Some (StepApproved, 6))) \<noteq> Some 1"
  using maker_never_decides [OF sample_reachable(1,4), of "sample_request Approved"
      "sample_step 101 1 2 (Some (StepApproved, 6))"]
  by (simp add: sample_tables) (simp add: sample_request_def sample_step_def)






text \<open>C20: only the effective approver decides. When \<open>Approve\<close> succeeds, the request was pending, the
  step acted on was its lowest pending one, and the actor is that step's assigned approver when not
  on leave and the approver's active delegate otherwise, and is not the maker. The step is written
  with the actor, and the audit row with it, whatever other sessions committed in between.\<close>

theorem Approve_authorised:
  assumes "Orchestrator_Approve env flt t t' rid actor ip db = (Inr r', db')"
  shows "\<exists>request step. GetApprovalRequest db rid = Some request \<and> ar_status request = Pending
    \<and> FindPendingApprovalStep db rid = Some step
    \<and> actor \<noteq> ar_maker_id request
    \<and> (if FindActiveLeave db (as_assigned_approver_id step) t = None
       then actor = as_assigned_approver_id step
       else FindActiveDelegate db (as_assigned_approver_id step) t = Some actor)
    \<and> db_steps db' = act_on_step (as_id step) StepApproved actor t' (db_steps (env db))
    \<and> (\<exists>rows. db_audit db' = db_audit (env db) @ rows \<and> audit_entry actor ''approve'' ''approval_step''
          (as_id step) (Some (json_status ''pending'')) (Some (json_status ''approved'')) ip \<in> set rows)"
proof (cases rule: Approve_cases [of env flt t t' rid actor ip db])
  case (acted request step r1 db1)
  then have tx: "approve_tx flt t' rid actor ip request step (env db) = Inr (r', db')" using assms by simp
  from acted(1) have "GetApprovalRequest db rid = Some request" "ar_status request = Pending"
    "FindPendingApprovalStep db rid = Some step"
    by (auto simp: loadPendingStep_def Repository_GetRequest_def Repository_FindPendingStep_def
        split: if_splits sum.splits option.splits)
  moreover from acted(2) have "actor \<noteq> ar_maker_id request
    \<and> (if FindActiveLeave db (as_assigned_approver_id step) t = None
       then actor = as_assigned_approver_id step
       else FindActiveDelegate db (as_assigned_approver_id step) t = Some actor)"
    by (auto simp: ResolveEffectiveApprover_def Repository_IsOnLeave_def Repository_FindActiveDelegate_def
        split: if_splits sum.splits option.splits)
  moreover have "db_steps db' = act_on_step (as_id step) StepApproved actor t' (db_steps (env db))"
    using approve_tx_effect [OF tx] by (auto split: if_splits)
  moreover have "\<exists>rows. db_audit db' = db_audit (env db) @ rows \<and> audit_entry actor ''approve'' ''approval_step''
          (as_id step) (Some (json_status ''pending'')) (Some (json_status ''approved'')) ip \<in> set rows"
    using approve_audited.writes_audit [OF tx] by blast
  ultimately show ?thesis by blast
qed (use assms in auto)

theorem Approve_authorised_witness:
  "\<exists>step. FindPendingApprovalStep sample_submitted 100 = Some step \<and> db_steps sample_level1
     = act_on_step (as_id step) StepApproved 2 6 (db_steps sample_submitted)"
proof -
  have "Orchestrator_Approve id no_faults 5 6 100 2 [] sample_submitted = (Inr (sample_request Pending), sample_level1)"
    by code_simp
  from Approve_authorised [OF this] show ?thesis by auto
qed

text \<open>C34: progress. In a reachable state, when nothing fails and the levels are not negative, the
  effective approver of the lowest pending step can approve it: \<open>Approve\<close> returns, that step is
  approved, and the request becomes approved exactly when every other step already was.\<close>

theorem Approve_progress:
  assumes "approval_init db0" and "approval_op\<^sup>*\<^sup>* db0 db"
    and "loadPendingStep no_faults db rid = Inr (request, step)"
    and "ResolveEffectiveApprover no_faults db (as_assigned_approver_id step) (ar_maker_id request) t = Inr actor"
    and "\<forall>s \<in> set (db_steps db). as_request_id s = rid \<longrightarrow> 0 \<le> as_step_level s"
  shows "\<exists>r' db'. Orchestrator_Approve id no_faults t t' rid actor ip db = (Inr r', db')
    \<and> db_steps db' = act_on_step (as_id step) StepApproved actor t' (db_steps db)
    \<and> (ar_status r' = Approved \<longleftrightarrow>
        (\<forall>s \<in> set (db_steps db). as_request_id s = rid \<longrightarrow> s = step \<or> as_status s = StepApproved))"
proof -
  have nf: "\<And>c. \<not> no_faults c" by (simp add: no_faults_def)
  have nn: "\<forall>s \<in> steps_of db rid. 0 \<le> as_step_level s" using assms(5) by (simp add: steps_of_def)
  have "(\<forall>s \<in> steps_of db rid. s = step \<or> as_status s = StepApproved) \<longleftrightarrow>
      (\<forall>s \<in> set (db_steps db). as_request_id s = rid \<longrightarrow> s = step \<or> as_status s = StepApproved)"
    by (auto simp: steps_of_def)
  with Approve_runs [OF reachable_inv(1) [OF assms(1,2)] nf assms(3,4) nn, of t' ip] show ?thesis by simp
qed

theorem Approve_progress_witness:
  "\<exists>r' db'. Orchestrator_Approve id no_faults 5 6 100 2 [] sample_submitted = (Inr r', db')"
proof -
  have "loadPendingStep no_faults sample_submitted 100 = Inr (sample_request Pending, sample_step 101 1 2 None)"
    "ResolveEffectiveApprover no_faults sample_submitted (as_assigned_approver_id (sample_step 101 1 2 None))
      (ar_maker_id (sample_request Pending)) 5 = Inr 2"
    by code_simp+
  moreover have "\<forall>s \<in> set (db_steps sample_submitted). as_request_id s = 100 \<longrightarrow> 0 \<le> as_step_level s"
    by code_simp
  ultimately show ?thesis
    using Approve_progress [OF sample_reachable(1,2), of 100 "sample_request Pending" "sample_step 101 1 2 None" 5 2 6 "[]"]
    by blast
qed

text \<open>At any time a user has at most one active delegation in a reachable state, so the
  delegate \<open>FindActiveDelegate\<close> returns does not depend on its ordering.\<close>

lemma one_active_delegation:
  assumes "approval_init db0" and "approval_op\<^sup>*\<^sup>* db0 db"
    and "d \<in> set (db_delegations db)" and "d' \<in> set (db_delegations db)"
    and "ad_from_user_id d = ad_from_user_id d'"
    and "covers (ad_start_at d) (ad_end_at d) t" and "covers (ad_start_at d') (ad_end_at d') t"
  shows "d = d'"
proof (rule ccontr)
  assume "d \<noteq> d'"
  then have "\<not> ranges_overlap (ad_start_at d) (ad_end_at d) (ad_start_at d') (ad_end_at d')"
    using reachable_inv(2) [OF assms(1,2)] assms(3-5) unfolding delegations_ok_def by blast
  with assms(6,7) show False by (simp add: ranges_overlap_def covers_def)
qed

definition sample_delegated :: approval_db where
  "sample_delegated = snd (AdminApproval_CreateDelegation no_faults (Some 3)
     (Some (2, 3, Some 10, Some 20, None)) [] sample_db)"

lemma one_active_delegation_witness:
  "last (db_delegations sample_delegated) = hd (db_delegations sample_delegated)"
proof -
  let ?d = "\<lparr>ad_id = 100, ad_from_user_id = 2, ad_to_user_id = 3, ad_start_at = 10, ad_end_at = 20, ad_reason = None\<rparr>"
  have "approval_op sample_db sample_delegated"
    by (rule approval_op.delegate [of no_faults "Some 3" "Some (2, 3, Some 10, Some 20, None)" "[]" sample_db
          "HttpOK 201"]) code_simp
  then have run: "approval_op\<^sup>*\<^sup>* sample_db sample_delegated" by (rule r_into_rtranclp)
  have row: "db_delegations sample_delegated = [?d]" by code_simp
  show ?thesis
    using one_active_delegation [OF sample_reachable(1) run, of ?d ?d 15] by (simp add: row covers_def)
qed

section \<open>Where the component falls short\<close>

text \<open>C35: \<open>SetHierarchy\<close> refuses only self-supervision, and \<open>BuildChain\<close> has no visited check: when
  two users supervise each other and neither reaches the required level, submitting a document of
  either never returns, as long as its lookups succeed.\<close>

theorem cyclic_hierarchy_never_returns:
  assumes "GetUserApprovalInfo db a = Some ua" and "un_supervisor_id ua = Some b"
    and "GetUserApprovalInfo db b = Some ub" and "un_supervisor_id ub = Some a"
    and "\<not> reaches_level lvl ua" and "\<not> reaches_level lvl ub"
    and "FindApprovalPolicy db dtype amount = Some lvl"
    and "FindApprovalRequestByDocument db dtype did = None"
  shows "Orchestrator_SubmitForApproval env no_faults a dtype did amount ip db = None"
proof -
  let ?get = "Repository_GetApproverInfo no_faults db"
  have get: "?get a = Inr ua" "?get b = Inr ub"
    using assms(1,3) by (simp_all add: Repository_GetApproverInfo_def no_faults_def)
  have ids: "un_id ua = a" "un_id ub = b" using repo.get_id get by blast+
  have "BuildChain ?get a lvl = None"
    unfolding BuildChain_def
    by (rule walk_diverges [where S = "{a, b}"])
       (use get ids assms(2,4-6) in \<open>auto simp: supervisor_of_def\<close>)
  then show ?thesis using assms(7,8)
    by (simp add: Orchestrator_SubmitForApproval_def Repository_FindRequestByDocument_def
        Repository_FindPolicy_def no_faults_def)
qed

definition sample_cycle :: approval_db where
  "sample_cycle = snd (AdminApproval_SetHierarchy no_faults (Some 9) (Some 2) (Some (Some 1, Some 1)) [] sample_db)"

theorem cyclic_hierarchy_never_returns_witness:
  "Orchestrator_SubmitForApproval id no_faults 1 ''po'' 7 500 [] sample_cycle = None"
proof (rule cyclic_hierarchy_never_returns [where lvl = 2 and b = 2])
  show "GetUserApprovalInfo sample_cycle 1
      = Some \<lparr>un_id = 1, un_supervisor_id = Some 2, un_approval_level = None\<rparr>" by code_simp
  show "GetUserApprovalInfo sample_cycle 2
      = Some \<lparr>un_id = 2, un_supervisor_id = Some 1, un_approval_level = Some 1\<rparr>" by code_simp
  show "FindApprovalPolicy sample_cycle ''po'' 500 = Some 2" by code_simp
  show "FindApprovalRequestByDocument sample_cycle ''po'' 7 = None" by code_simp
qed (simp_all add: reaches_level_def)


text \<open>A reporting line with two approvers of the same level cannot be routed: the second step
  violates the unique constraint on (request, level), and no submission on it ever creates a request.\<close>

lemma equal_levels_never_submit:
  assumes "chain_spec (Repository_GetApproverInfo flt db) makerID lvl chain"
    and "\<not> distinct (map (\<lambda>a. the (un_approval_level a)) chain)"
    and "FindApprovalPolicy db dtype amount = Some lvl"
    and "Orchestrator_SubmitForApproval env flt makerID dtype did amount ip db = Some (res, db')"
  shows "\<nexists>r. res = Inr (r, True)"
  using assms(4)
proof (cases rule: Submit_cases)
  case (created lvl' chain' r)
  then have "chain' = chain" using assms(1,3) BuildChain_iff by (metis option.inject sum.inject(2))
  from submit_tx_effect [OF created(5)] obtain db1 db2 where
    "create_steps flt 0 (ar_id r) chain' db1 = Inr db2" by blast
  from create_steps_effect [OF this] have "distinct (map (\<lambda>a. the (un_approval_level a)) chain')" by metis
  with assms(2) \<open>chain' = chain\<close> show ?thesis by simp
qed simp_all

definition sample_equal :: approval_db where
  "sample_equal = snd (AdminApproval_SetHierarchy no_faults (Some 9) (Some 1) (Some (Some 4, None)) []
     (sample_db\<lparr>db_users := sample_users @
        [\<lparr>un_id = 4, un_supervisor_id = Some 2, un_approval_level = Some 1\<rparr>]\<rparr>))"

lemma equal_levels_never_submit_witness:
  "\<nexists>r. fst (the (Orchestrator_SubmitForApproval id no_faults 1 ''po'' 7 500 [] sample_equal)) = Inr (r, True)"
proof -
  let ?u = "\<lambda>i s l. \<lparr>un_id = i, un_supervisor_id = s, un_approval_level = Some l\<rparr>"
  let ?chain = "[?u 4 (Some 2) 1, ?u 2 (Some 3) 1, ?u 3 None 2]"
  let ?run = "Orchestrator_SubmitForApproval id no_faults 1 ''po'' 7 500 [] sample_equal"
  have "BuildChain (Repository_GetApproverInfo no_faults sample_equal) 1 2 = Some (Inr ?chain)" by code_simp
  then have c: "chain_spec (Repository_GetApproverInfo no_faults sample_equal) 1 2 ?chain" by (simp add: BuildChain_iff)
  have d: "\<not> distinct (map (\<lambda>a. the (un_approval_level a)) ?chain)" by simp
  have p: "FindApprovalPolicy sample_equal ''po'' 500 = Some 2" by code_simp
  have "?run \<noteq> None" by code_simp
  then obtain res db' where r: "?run = Some (res, db')" by force
  from equal_levels_never_submit [OF c d p r] show ?thesis using r by simp
qed

text \<open>A delegation that has not started cannot be revoked: cutting its end to now violates the
  range constraint, so the endpoint answers 500 and the delegation will still become active.\<close>

lemma future_delegation_not_revocable:
  assumes "find_row (\<lambda>d. ad_id d = did \<and> ad_end_at d > now) (db_delegations db) = Some d"
    and "now \<le> ad_start_at d" and "0 < did"
  shows "AdminApproval_RevokeDelegation no_faults now (Some actor) (Some did) ip db
           = (HttpError 500 ''internal_error'', db)"
  using assms
  by (simp add: AdminApproval_RevokeDelegation_def Repository_RevokeDelegation_def parse_id_def
      RevokeApprovalDelegation_def no_faults_def admin_handleError_def)

lemma future_delegation_not_revocable_witness:
  "AdminApproval_RevokeDelegation no_faults 5 (Some 3) (Some 100) [] sample_delegated
     = (HttpError 500 ''internal_error'', sample_delegated)"
  by (rule future_delegation_not_revocable [where d = "\<lparr>ad_id = 100, ad_from_user_id = 2, ad_to_user_id = 3,
        ad_start_at = 10, ad_end_at = 20, ad_reason = None\<rparr>"]) code_simp+

end
