(* ===== verification/Chunks.thy ===== *)
theory Chunks
  imports Prelude
begin

text \<open>
  The file store of an export: \<open>ChunkWriter\<close> (\<open>src/backend-exq/internal/exportjob/chunkwriter.go\<close>).

  A \<open>chunk_writer\<close> is the Go struct without its context, sink and job id. The sink is the list of
  chunks inserted so far, in order; \<open>ins\<close> says whether the insertion of a chunk number succeeds.
  \<open>Write\<close> splits its input into chunks of \<open>cw_chunk_size\<close> bytes; its loop runs on the rest of the
  input and ends because the buffer has room for at least one byte at every turn.
\<close>

type_synonym bytes = string

datatype chunk_err = ErrFileTooLarge | ErrInsertChunk int

record chunk_writer =
  cw_chunk_size :: nat
  cw_max_bytes :: int
  cw_buf :: bytes
  cw_total :: int
  cw_seq :: int
  cw_err :: "chunk_err option"

definition ChunkSize :: nat where "ChunkSize = 1048576"
definition MaxBytes :: int where "MaxBytes = 104857600"

definition NewChunkWriter :: "nat \<Rightarrow> int \<Rightarrow> chunk_writer" where
  "NewChunkWriter csz maxb = \<lparr>cw_chunk_size = csz, cw_max_bytes = maxb, cw_buf = [], cw_total = 0,
     cw_seq = 0, cw_err = None\<rparr>"

text \<open>The sink: chunks by number, in insertion order.\<close>

type_synonym sink = "(int \<times> bytes) list"

definition chunk_flush ::
  "(int \<Rightarrow> bool) \<Rightarrow> chunk_writer \<times> sink \<Rightarrow> chunk_err option \<times> chunk_writer \<times> sink" where
  "chunk_flush ins ws = (case ws of (w, s) \<Rightarrow>
     if \<not> ins (cw_seq w)
     then (Some (ErrInsertChunk (cw_seq w)), w\<lparr>cw_err := Some (ErrInsertChunk (cw_seq w))\<rparr>, s)
     else (None, w\<lparr>cw_seq := cw_seq w + 1, cw_buf := []\<rparr>, s @ [(cw_seq w, cw_buf w)]))"

text \<open>
  The loop of \<open>Write\<close>. A chunk size of zero would make it spin; the guard stops it there, and the
  writer's invariant (room in the buffer) excludes the case.
\<close>

function write_loop ::
  "(int \<Rightarrow> bool) \<Rightarrow> bytes \<Rightarrow> chunk_writer \<times> sink \<Rightarrow> chunk_err option \<times> chunk_writer \<times> sink" where
  "write_loop ins rest ws = (case ws of (w, s) \<Rightarrow>
     if rest = [] then (None, w, s)
     else let n = min (cw_chunk_size w - length (cw_buf w)) (length rest) in
       if n = 0 then (None, w, s)
       else let w1 = w\<lparr>cw_buf := cw_buf w @ take n rest\<rparr> in
         if length (cw_buf w1) = cw_chunk_size w
         then (case chunk_flush ins (w1, s) of
                 (Some e, w2, s2) \<Rightarrow> (Some e, w2, s2)
               | (None, w2, s2) \<Rightarrow> write_loop ins (drop n rest) (w2, s2))
         else write_loop ins (drop n rest) (w1, s))"
  by pat_completeness auto
termination
  by (relation "measure (\<lambda>(ins, rest, ws). length rest)") (auto simp: Let_def)

declare write_loop.simps [simp del]

definition chunk_write ::
  "(int \<Rightarrow> bool) \<Rightarrow> bytes \<Rightarrow> chunk_writer \<times> sink \<Rightarrow> (chunk_err, int) result \<times> chunk_writer \<times> sink" where
  "chunk_write ins p ws = (case ws of (w, s) \<Rightarrow>
     (case cw_err w of
        Some e \<Rightarrow> (Inl e, w, s)
      | None \<Rightarrow>
          if cw_total w + int (length p) > cw_max_bytes w
          then (Inl ErrFileTooLarge, w\<lparr>cw_err := Some ErrFileTooLarge\<rparr>, s)
          else (case write_loop ins p (w\<lparr>cw_total := cw_total w + int (length p)\<rparr>, s) of
                  (Some e, w', s') \<Rightarrow> (Inl e, w', s')
                | (None, w', s') \<Rightarrow> (Inr (int (length p)), w', s'))))"

definition chunk_close ::
  "(int \<Rightarrow> bool) \<Rightarrow> chunk_writer \<times> sink \<Rightarrow> (chunk_err, unit) result \<times> chunk_writer \<times> sink" where
  "chunk_close ins ws = (case ws of (w, s) \<Rightarrow>
     (case cw_err w of
        Some e \<Rightarrow> (Inl e, w, s)
      | None \<Rightarrow>
          if cw_buf w = [] then (Inr (), w, s)
          else (case chunk_flush ins (w, s) of
                  (Some e, w', s') \<Rightarrow> (Inl e, w', s')
                | (None, w', s') \<Rightarrow> (Inr (), w', s'))))"

definition chunk_bytes :: "chunk_writer \<Rightarrow> int" where "chunk_bytes w = cw_total w"
definition chunk_count :: "chunk_writer \<Rightarrow> int" where "chunk_count w = cw_seq w"

text \<open>A sequence of writes that stops at the first error, as the CSV writer above it does.\<close>

fun chunk_writes ::
  "(int \<Rightarrow> bool) \<Rightarrow> bytes list \<Rightarrow> chunk_writer \<times> sink \<Rightarrow> (chunk_err, unit) result \<times> chunk_writer \<times> sink" where
  "chunk_writes ins [] ws = (Inr (), ws)"
| "chunk_writes ins (p # ps) ws =
     (case chunk_write ins p ws of
        (Inl e, ws') \<Rightarrow> (Inl e, ws')
      | (Inr _, ws') \<Rightarrow> chunk_writes ins ps ws')"

section \<open>The writer's invariant\<close>

definition sink_bytes :: "sink \<Rightarrow> bytes" where
  "sink_bytes s = concat (map snd s)"

text \<open>
  With \<open>sent\<close> the bytes accepted so far: the stored chunks and the buffer hold exactly them, all
  stored chunks are full and numbered from zero, the buffer has room, and the size limit holds.
\<close>

definition writer_ok :: "nat \<Rightarrow> int \<Rightarrow> bytes \<Rightarrow> chunk_writer \<times> sink \<Rightarrow> bool" where
  "writer_ok csz maxb sent ws \<longleftrightarrow> (case ws of (w, s) \<Rightarrow>
     cw_chunk_size w = csz \<and> cw_max_bytes w = maxb \<and> cw_err w = None
   \<and> sink_bytes s @ cw_buf w = sent
   \<and> map fst s = map int [0..<length s] \<and> cw_seq w = int (length s)
   \<and> (\<forall>c \<in> set s. length (snd c) = csz) \<and> length (cw_buf w) < csz)"

lemma writer_okD:
  assumes "writer_ok csz maxb sent (w, s)"
  shows "cw_chunk_size w = csz" "cw_max_bytes w = maxb" "cw_err w = None"
    "sink_bytes s @ cw_buf w = sent" "map fst s = map int [0..<length s]" "cw_seq w = int (length s)"
    "\<forall>c \<in> set s. length (snd c) = csz" "length (cw_buf w) < csz"
  using assms by (simp_all add: writer_ok_def)

lemma writer_ok_push:
  assumes ok: "writer_ok csz maxb sent (w, s)" and room: "length (cw_buf w @ p) < csz"
  shows "writer_ok csz maxb (sent @ p) (w\<lparr>cw_buf := cw_buf w @ p\<rparr>, s)"
proof -
  have "sink_bytes s @ cw_buf w @ p = sent @ p" using writer_okD(4) [OF ok] by (metis append_assoc)
  then show ?thesis using ok room by (simp add: writer_ok_def)
qed

lemma writer_ok_flush:
  assumes ok: "writer_ok csz maxb sent (w, s)" and full: "length (cw_buf w @ p) = csz" and csz: "0 < csz"
  shows "writer_ok csz maxb (sent @ p)
    (w\<lparr>cw_seq := cw_seq w + 1, cw_buf := []\<rparr>, s @ [(cw_seq w, cw_buf w @ p)])"
proof -
  note d = writer_okD [OF ok]
  have b: "sink_bytes (s @ [(cw_seq w, cw_buf w @ p)]) @ [] = sent @ p"
    using d(4) by (auto simp: sink_bytes_def)
  have n: "map fst (s @ [(cw_seq w, cw_buf w @ p)]) = map int [0..<length (s @ [(cw_seq w, cw_buf w @ p)])]"
    using d(5,6) by simp
  show ?thesis using d b n full csz by (simp add: writer_ok_def)
qed

text \<open>One turn of the loop, on a writer that is in order.\<close>

lemma write_loop_ok:
  assumes "writer_ok csz maxb sent (w, s)" "0 < csz"
    and "write_loop ins rest (w, s) = (e, w', s')"
  shows "cw_total w' = cw_total w \<and>
    (case e of
       None \<Rightarrow> writer_ok csz maxb (sent @ rest) (w', s')
     | Some err \<Rightarrow> cw_err w' = Some err \<and> (\<exists>k\<ge>0. \<not> ins k \<and> err = ErrInsertChunk k))"
  using assms(1,3)
proof (induction "length rest" arbitrary: rest w s sent rule: less_induct)
  case less
  note d = writer_okD [OF less.prems(1)]
  show ?case
  proof (cases "rest = []")
    case True
    then show ?thesis using less.prems by (simp add: write_loop.simps)
  next
    case False
    let ?n = "min (csz - length (cw_buf w)) (length rest)"
    have n: "?n \<noteq> 0" using False d(8) by auto
    have shorter: "length (drop ?n rest) < length rest" using n False by simp
    have parts: "(sent @ take ?n rest) @ drop ?n rest = sent @ rest"
      by (simp only: append_assoc append_take_drop_id)
    let ?w1 = "w\<lparr>cw_buf := cw_buf w @ take ?n rest\<rparr>"
    have step: "write_loop ins rest (w, s) =
       (if length (cw_buf ?w1) = csz
        then (case chunk_flush ins (?w1, s) of
                 (Some e, w2, s2) \<Rightarrow> (Some e, w2, s2)
               | (None, w2, s2) \<Rightarrow> write_loop ins (drop ?n rest) (w2, s2))
        else write_loop ins (drop ?n rest) (?w1, s))"
      by (subst write_loop.simps) (simp only: Let_def prod.case d(1) n False if_False simp_thms)
    show ?thesis
    proof (cases "length (cw_buf ?w1) = csz")
      case full: True
      show ?thesis
      proof (cases "ins (cw_seq w)")
        case True
        let ?w2 = "w\<lparr>cw_seq := cw_seq w + 1, cw_buf := []\<rparr>"
        let ?s2 = "s @ [(cw_seq w, cw_buf w @ take ?n rest)]"
        have ok: "writer_ok csz maxb (sent @ take ?n rest) (?w2, ?s2)"
          by (rule writer_ok_flush [OF less.prems(1)]) (use full assms(2) in simp_all)
        have run: "write_loop ins (drop ?n rest) (?w2, ?s2) = (e, w', s')"
          using less.prems(2) step full True by (simp add: chunk_flush_def)
        from less.hyps [OF shorter ok run] show ?thesis unfolding parts by simp
      next
        case False
        then show ?thesis using less.prems(2) step full d(6) by (auto simp: chunk_flush_def)
      qed
    next
      case False
      have "length (cw_buf ?w1) \<le> csz" using d(8) by simp
      then have ok: "writer_ok csz maxb (sent @ take ?n rest) (?w1, s)"
        using False by (intro writer_ok_push [OF less.prems(1)]) simp
      have run: "write_loop ins (drop ?n rest) (?w1, s) = (e, w', s')"
        using less.prems(2) step False by simp
      from less.hyps [OF shorter ok run] show ?thesis unfolding parts by simp
    qed
  qed
qed

section \<open>Sequences of writes\<close>

text \<open>A writer in order that has counted what it accepted and is within its limit.\<close>

definition writer_inv :: "nat \<Rightarrow> int \<Rightarrow> bytes \<Rightarrow> chunk_writer \<times> sink \<Rightarrow> bool" where
  "writer_inv csz maxb sent ws \<longleftrightarrow> writer_ok csz maxb sent ws \<and> cw_total (fst ws) = int (length sent)
     \<and> int (length sent) \<le> maxb"

lemma NewChunkWriter_inv:
  "0 < csz \<Longrightarrow> 0 \<le> maxb \<Longrightarrow> writer_inv csz maxb [] (NewChunkWriter csz maxb, [])"
  by (simp add: writer_inv_def writer_ok_def NewChunkWriter_def sink_bytes_def)

lemma chunk_write_step:
  assumes inv: "writer_inv csz maxb sent (w, s)" and csz: "0 < csz"
    and run: "chunk_write ins p (w, s) = (r, w', s')"
  shows "case r of
      Inr n \<Rightarrow> n = int (length p) \<and> writer_inv csz maxb (sent @ p) (w', s')
    | Inl e \<Rightarrow> cw_err w' = Some e \<and>
        (e = ErrFileTooLarge \<and> int (length (sent @ p)) > maxb \<or> (\<exists>k\<ge>0. \<not> ins k \<and> e = ErrInsertChunk k))"
proof -
  have ok: "writer_ok csz maxb sent (w, s)" and tot: "cw_total w = int (length sent)"
    using inv by (simp_all add: writer_inv_def)
  note d = writer_okD [OF ok]
  let ?w1 = "w\<lparr>cw_total := cw_total w + int (length p)\<rparr>"
  have ok1: "writer_ok csz maxb sent (?w1, s)" using ok by (simp add: writer_ok_def)
  obtain e w1 s1 where l: "write_loop ins p (?w1, s) = (e, w1, s1)" by (cases "write_loop ins p (?w1, s)")
  note lo = write_loop_ok [OF ok1 csz l]
  show ?thesis
  proof (cases "cw_total w + int (length p) > cw_max_bytes w")
    case True
    then show ?thesis using run d tot by (auto simp: chunk_write_def)
  next
    case False
    then have "(r, w', s') = (case e of Some e \<Rightarrow> (Inl e, w1, s1) | None \<Rightarrow> (Inr (int (length p)), w1, s1))"
      using run d(3) l by (simp add: chunk_write_def split: option.splits)
    with False lo d(2) tot show ?thesis
      by (auto simp: writer_inv_def split: option.splits)
  qed
qed

lemma chunk_writes_step:
  assumes "writer_inv csz maxb sent ws" and "0 < csz" and "chunk_writes ins ps ws = (r, ws')"
  shows "case r of
      Inr _ \<Rightarrow> writer_inv csz maxb (sent @ concat ps) ws'
    | Inl e \<Rightarrow> (e = ErrFileTooLarge \<and> int (length (sent @ concat ps)) > maxb) \<or> (\<exists>k\<ge>0. \<not> ins k \<and> e = ErrInsertChunk k)"
  using assms
proof (induction ps arbitrary: sent ws)
  case (Cons p ps)
  obtain w s where ws: "ws = (w, s)" by (cases ws)
  obtain r1 w1 s1 where w1: "chunk_write ins p (w, s) = (r1, w1, s1)" by (cases "chunk_write ins p (w, s)")
  note st = chunk_write_step [OF Cons.prems(1) [unfolded ws] Cons.prems(2) w1]
  show ?case
  proof (cases r1)
    case (Inl e)
    then have "r = Inl e" using Cons.prems(3) ws w1 by simp
    with st Inl show ?thesis by auto
  next
    case (Inr n)
    then have "writer_inv csz maxb (sent @ p) (w1, s1)" "chunk_writes ins ps (w1, s1) = (r, ws')"
      using st Cons.prems(3) ws w1 by simp_all
    from Cons.IH [OF this(1) Cons.prems(2) this(2)] show ?thesis
      by (cases r) (simp_all add: add.assoc)
  qed
qed auto

text \<open>What a closed file is: the bytes, cut into numbered chunks, all full but possibly the last.\<close>

definition chunked :: "nat \<Rightarrow> bytes \<Rightarrow> sink \<Rightarrow> bool" where
  "chunked csz file s \<longleftrightarrow> sink_bytes s = file \<and> map fst s = map int [0..<length s]
     \<and> (\<forall>c \<in> set s. 0 < length (snd c) \<and> length (snd c) \<le> csz)
     \<and> (\<forall>c \<in> set (butlast s). length (snd c) = csz)"

lemma chunk_close_chunked:
  assumes inv: "writer_inv csz maxb sent (w, s)" and csz: "0 < csz"
    and run: "chunk_close ins (w, s) = (r, w', s')"
  shows "case r of
      Inr _ \<Rightarrow> chunked csz sent s' \<and> chunk_bytes w' = int (length sent) \<and> chunk_count w' = int (length s')
    | Inl e \<Rightarrow> \<exists>k\<ge>0. \<not> ins k \<and> e = ErrInsertChunk k"
proof -
  have ok: "writer_ok csz maxb sent (w, s)" and tot: "cw_total w = int (length sent)"
    using inv by (simp_all add: writer_inv_def)
  note d = writer_okD [OF ok]
  have butl: "\<forall>c \<in> set (butlast s). length (snd c) = csz" using d(7) by (meson in_set_butlastD)
  show ?thesis
  proof (cases "cw_buf w = []")
    case True
    then have "chunked csz sent s" using d(4,5,7) csz butl by (auto simp: chunked_def)
    with True run d(3,6) tot show ?thesis by (auto simp: chunk_close_def chunk_bytes_def chunk_count_def)
  next
    case False
    show ?thesis
    proof (cases "ins (cw_seq w)")
      case True
      let ?s = "s @ [(cw_seq w, cw_buf w)]"
      have "sink_bytes ?s = sent" using d(4) by (simp add: sink_bytes_def)
      moreover have "map fst ?s = map int [0..<length ?s]" using d(5,6) by simp
      ultimately have "chunked csz sent ?s" using d(7,8) csz False by (auto simp: chunked_def)
      with True False run d(3,6) tot show ?thesis
        by (auto simp: chunk_close_def chunk_flush_def chunk_bytes_def chunk_count_def)
    next
      case no: False
      then show ?thesis using False run d(3,6) by (auto simp: chunk_close_def chunk_flush_def)
    qed
  qed
qed

section \<open>Properties\<close>

text \<open>C26: a file written through \<open>ChunkWriter\<close> and closed without an error is stored exactly: the chunks
  are numbered from 0, none is empty or over the chunk size, all but the last are full, their
  concatenation is the concatenation of the writes, \<open>Bytes\<close> and \<open>Chunks\<close> are their totals, and the
  size limit holds.\<close>

theorem ChunkWriter_round_trip:
  assumes "0 < csz" and "0 \<le> maxb"
    and "chunk_writes ins ps (NewChunkWriter csz maxb, []) = (Inr (), ws)"
    and "chunk_close ins ws = (Inr (), w', chunks)"
  shows "concat (map snd chunks) = concat ps
    \<and> map fst chunks = map int [0..<length chunks]
    \<and> (\<forall>c \<in> set chunks. 0 < length (snd c) \<and> length (snd c) \<le> csz)
    \<and> (\<forall>c \<in> set (butlast chunks). length (snd c) = csz)
    \<and> chunk_bytes w' = int (length (concat ps)) \<and> chunk_count w' = int (length chunks)
    \<and> int (length (concat ps)) \<le> maxb"
proof -
  have inv: "writer_inv csz maxb (concat ps) ws"
    using chunk_writes_step [OF NewChunkWriter_inv [OF assms(1,2)] assms(1,3)] by simp
  obtain w s where ws: "ws = (w, s)" by (cases ws)
  from chunk_close_chunked [OF inv [unfolded ws] assms(1) assms(4) [unfolded ws]] inv
  show ?thesis by (simp add: chunked_def sink_bytes_def writer_inv_def)
qed

theorem ChunkWriter_round_trip_witness:
  "concat (map snd (snd (snd (chunk_close (\<lambda>_. True)
     (snd (chunk_writes (\<lambda>_. True) [''abc'', ''de''] (NewChunkWriter 2 10, []))))))) = ''abcde''"
proof -
  have w: "chunk_writes (\<lambda>_. True) [''abc'', ''de''] (NewChunkWriter 2 10, [])
      = (Inr (), \<lparr>cw_chunk_size = 2, cw_max_bytes = 10, cw_buf = ''e'', cw_total = 5, cw_seq = 2, cw_err = None\<rparr>,
          [(0, ''ab''), (1, ''cd'')])" by code_simp
  have c: "chunk_close (\<lambda>_. True) (\<lparr>cw_chunk_size = 2, cw_max_bytes = 10, cw_buf = ''e'', cw_total = 5,
        cw_seq = 2, cw_err = None\<rparr>, [(0, ''ab''), (1, ''cd'')])
      = (Inr (), \<lparr>cw_chunk_size = 2, cw_max_bytes = 10, cw_buf = [], cw_total = 5, cw_seq = 3, cw_err = None\<rparr>,
          [(0, ''ab''), (1, ''cd''), (2, ''e'')])" by code_simp
  show ?thesis using ChunkWriter_round_trip [OF _ _ w c] unfolding w by (simp add: c)
qed

text \<open>With a sink that accepts every chunk, the only failure is the size limit, and it is exact:
  a sequence of writes succeeds if and only if it does not exceed the limit in total, and otherwise
  reports \<open>ErrFileTooLarge\<close>; closing then always succeeds.\<close>

lemma ChunkWriter_limit_exact:
  assumes "0 < csz" and "0 \<le> maxb" and "\<forall>k. ins k"
  shows "fst (chunk_writes ins ps (NewChunkWriter csz maxb, []))
      = (if int (length (concat ps)) \<le> maxb then Inr () else Inl ErrFileTooLarge)
    \<and> (int (length (concat ps)) \<le> maxb \<longrightarrow>
        fst (chunk_close ins (snd (chunk_writes ins ps (NewChunkWriter csz maxb, [])))) = Inr ())"
proof -
  obtain r ws where run: "chunk_writes ins ps (NewChunkWriter csz maxb, []) = (r, ws)"
    by (cases "chunk_writes ins ps (NewChunkWriter csz maxb, [])")
  note st = chunk_writes_step [OF NewChunkWriter_inv [OF assms(1,2)] assms(1) run]
  show ?thesis
  proof (cases r)
    case (Inl e)
    then show ?thesis using st run assms(3) by auto
  next
    case (Inr u)
    then have inv: "writer_inv csz maxb (concat ps) ws" using st by simp
    obtain w s where ws: "ws = (w, s)" by (cases ws)
    obtain r1 w1 s1 where c: "chunk_close ins (w, s) = (r1, w1, s1)" by (cases "chunk_close ins (w, s)")
    from chunk_close_chunked [OF inv [unfolded ws] assms(1) c] assms(3) have "r1 = Inr ()"
      by (cases r1) auto
    then show ?thesis using inv run Inr ws c by (simp add: writer_inv_def)
  qed
qed

lemma ChunkWriter_limit_exact_witness:
  "fst (chunk_writes (\<lambda>_. True) [''abc'', ''de''] (NewChunkWriter 2 4, [])) = Inl ErrFileTooLarge"
  using ChunkWriter_limit_exact [of 2 4 "\<lambda>_. True" "[''abc'', ''de'']"] by simp

end
