(* ===== verification/Export_Job.thy ===== *)
theory Export_Job
  imports Text Chunks
begin

text \<open>
  The export jobs of \<open>src/backend-exq/internal/exportjob\<close> over the queries of
  \<open>src/backend-exq/internal/repository/export_jobs.sql.go\<close>.

  \<^item> \<open>export_db\<close> holds \<open>export_jobs\<close>, \<open>export_job_chunks\<close>, \<open>audit_logs\<close> and the rows of \<open>users\<close>,
    \<open>vendors\<close> and \<open>vendor_branches\<close> that are read. \<open>updated_at\<close> is left out.
  \<^item> Every status change is one guarded \<open>UPDATE\<close> that reports how many rows it matched.
  \<^item> \<open>now\<close> is the transaction time; calls that fail for outside reasons are named by \<open>export_call\<close>.
  \<^item> \<open>sha\<close> and \<open>marshal\<close> (the canonical JSON of a report's filter) are parameters of \<open>ParamsHash\<close>.
\<close>

section \<open>Data\<close>

datatype export_status =
  Queued | Running | Succeeded | Failed | Downloading | Downloaded | Expired

record report_params =
  rp_month :: "string option"
  rp_date_from :: "string option"
  rp_date_to :: "string option"
  rp_vendor_id :: "id64 option"
  rp_vendor_branch_id :: "id64 option"
  rp_region_code :: "string option"
  rp_status :: "string option"
  rp_classification :: "string option"

record export_params =
  ep_kind :: string
  ep_entity :: string
  ep_vendor_id :: "id64 option"
  ep_branch_id :: "id64 option"
  ep_status_filter :: string
  ep_price_level :: "string option"
  ep_report :: "report_params option"

record export_job =
  ej_id :: id64
  ej_requested_by :: id64
  ej_kind :: string
  ej_entity :: string
  ej_vendor_id :: "id64 option"
  ej_vendor_code :: "string option"
  ej_branch_id :: "id64 option"
  ej_branch_code :: "string option"
  ej_status_filter :: "string option"
  ej_price_level :: "string option"
  ej_params_hash :: string
  ej_file_name :: string
  ej_report_params :: "report_params option"
  ej_status :: export_status
  ej_row_count :: int
  ej_byte_size :: "int option"
  ej_chunk_count :: "int option"
  ej_error_message :: "string option"
  ej_created_at :: timestamp
  ej_started_at :: "timestamp option"
  ej_finished_at :: "timestamp option"
  ej_expires_at :: "timestamp option"
  ej_download_started_at :: "timestamp option"
  ej_downloaded_at :: "timestamp option"
  ej_expired_at :: "timestamp option"

record chunk_row =
  ch_job :: id64
  ch_seq :: int
  ch_data :: bytes

record export_user =
  eu_id :: id64
  eu_role :: string
  eu_active :: bool
  eu_deleted :: bool

record export_db =
  xd_jobs :: "export_job list"
  xd_chunks :: "chunk_row list"
  xd_audit :: "audit_row list"
  xd_users :: "export_user list"
  xd_vendors :: "(id64 \<times> string) list"
  xd_branches :: "(id64 \<times> id64 \<times> string) list"
  xd_next_id :: id64

record actor =
  act_user_id :: id64
  act_username :: string
  act_role :: string
  act_ip :: ip_addr

datatype export_err =
    ErrValidation | ErrUnknownEntity | ErrUnauthenticated | ErrForbidden | ErrNotFound | ErrTooManyActive
  | ErrNotReady | ErrGone | ErrNotDownloading | ErrUnavailable | ErrInternal

datatype export_call =
    XGetVendor | XGetBranch | XLock | XFindActive | XCount | XInsert | XAudit | XCommit | XGetJob
  | XGetRole | XClaim | XReread | XComplete | XDeleteChunks | XAbort | XList
  | XChunk int | XUpdate | XBegin

type_synonym export_faults = "export_call \<Rightarrow> bool"

definition JobTimeout :: int where "JobTimeout = 10 * minute"
definition DownloadLease :: int where "DownloadLease = 5 * minute"
definition Retention :: int where "Retention = 10 * minute"
definition MaxRows :: int where "MaxRows = 1000000"
definition PageSize :: int where "PageSize = 1000"
definition MaxActivePerUser :: int where "MaxActivePerUser = 3"

section \<open>Kinds and parameters\<close>

definition ImportableNames :: "string list" where
  "ImportableNames = [''atm-assignments'', ''atms'', ''vendor-branches'', ''vendor-pics'', ''vendor-vaults'', ''vendors'']"

definition entitiesFor :: "string \<Rightarrow> string list option" where
  "entitiesFor k =
     (if k = ''vendor'' then Some [''vendor'', ''branches'', ''vaults'', ''pics'', ''dsr-location-maps'']
      else if k = ''cabang'' then Some [''vaults'', ''pics'', ''dsr-location-maps'']
      else if k = ''harga_paket'' then Some [''package-prices'']
      else if k = ''master_data_global'' then Some ImportableNames
      else None)"

definition ParseParams ::
  "string \<Rightarrow> string \<Rightarrow> id64 option \<Rightarrow> id64 option \<Rightarrow> string \<Rightarrow> string \<Rightarrow> (export_err, export_params) result" where
  "ParseParams kind entity vendorID branchID status0 priceLevel =
     (case entitiesFor kind of
        None \<Rightarrow> Inl ErrValidation
      | Some ents \<Rightarrow>
          if entity \<notin> set ents then Inl ErrUnknownEntity
          else let status = (if status0 = [] then ''active'' else status0) in
            if status \<notin> {''active'', ''disabled'', ''all''} then Inl ErrValidation
            else if (\<exists>v \<in> set_option vendorID. v \<le> 0) \<or> (\<exists>b \<in> set_option branchID. b \<le> 0) then Inl ErrValidation
            else let vendorNeeded = (kind \<noteq> ''master_data_global''); branchNeeded = (kind = ''cabang'');
                     branchAllowed = (branchNeeded \<or> kind = ''harga_paket'') in
              if vendorNeeded \<noteq> (vendorID \<noteq> None) \<or> branchID \<noteq> None \<and> \<not> branchAllowed
                 \<or> branchNeeded \<and> branchID = None then Inl ErrValidation
              else let p = \<lparr>ep_kind = kind, ep_entity = entity, ep_vendor_id = vendorID,
                            ep_branch_id = branchID, ep_status_filter = status, ep_price_level = None,
                            ep_report = None\<rparr> in
                if kind = ''harga_paket''
                then let lvl = (if priceLevel = [] then ''all'' else priceLevel) in
                  if lvl \<notin> {''vendor'', ''branch'', ''atm'', ''all''} then Inl ErrValidation
                  else Inr (p\<lparr>ep_price_level := Some lvl\<rparr>)
                else if priceLevel \<noteq> [] then Inl ErrValidation
                else Inr p)"

definition idStr :: "id64 option \<Rightarrow> string" where
  "idStr v = (case v of None \<Rightarrow> [] | Some i \<Rightarrow> FormatInt i)"

definition params_text :: "export_params \<Rightarrow> string" where
  "params_text p = join ''|'' [ep_kind p, ep_entity p, idStr (ep_vendor_id p), idStr (ep_branch_id p),
     ep_status_filter p, (case ep_price_level p of None \<Rightarrow> [] | Some l \<Rightarrow> l)]"

definition ParamsHash ::
  "(string \<Rightarrow> string) \<Rightarrow> (string \<Rightarrow> string \<Rightarrow> report_params \<Rightarrow> string) \<Rightarrow> export_params \<Rightarrow> string" where
  "ParamsHash sha marshal p =
     (case ep_report p of
        Some r \<Rightarrow> sha (marshal (ep_kind p) (ep_entity p) r)
      | None \<Rightarrow> sha (params_text p))"

definition sanitize_char :: "char \<Rightarrow> char" where
  "sanitize_char c = (let n = (of_char c :: nat) in
     if 97 \<le> n \<and> n \<le> 122 \<or> 65 \<le> n \<and> n \<le> 90 \<or> 48 \<le> n \<and> n \<le> 57 \<or> c = CHR ''_'' \<or> c = CHR ''-''
     then c else CHR ''_'')"

text \<open>
  \<open>strings.Map\<close> works on runes: an ASCII byte is one rune, and every rune above ASCII (one lead byte
  and its continuation bytes) becomes a single underscore.
\<close>

fun sanitize :: "string \<Rightarrow> string" where
  "sanitize [] = []"
| "sanitize (c # cs) = (let n = (of_char c :: nat) in
     if 128 \<le> n \<and> n < 192 then sanitize cs else sanitize_char c # sanitize cs)"

definition reportFileName :: "string \<Rightarrow> report_params \<Rightarrow> string" where
  "reportFileName kind r = (let m = (case rp_month r of None \<Rightarrow> ''0001-01'' | Some s \<Rightarrow> s);
      f = (case rp_date_from r of None \<Rightarrow> ''0001-01-01'' | Some s \<Rightarrow> s);
      t = (case rp_date_to r of None \<Rightarrow> ''0001-01-01'' | Some s \<Rightarrow> s) in
     if kind = ''dsr_late_daily'' then ''dsr-late-daily-'' @ m @ ''.csv''
     else if kind = ''dsr_late_summary'' then ''dsr-late-summary-'' @ m @ ''.csv''
     else if kind = ''replenishment_amount_mismatch''
     then ''replenishment-amount-mismatch-'' @ f @ ''-'' @ t @ ''.csv''
     else if kind = ''replenishment_trips'' then ''replenishment-trips-'' @ f @ ''-'' @ t @ ''.csv''
     else [])"

text \<open>\<open>d\<close> is the WIB date of the request as \<open>YYYYMMDD\<close>.\<close>

definition FileName :: "export_params \<Rightarrow> string \<Rightarrow> string \<Rightarrow> string \<Rightarrow> string" where
  "FileName p vendorCode branchCode d =
     (case ep_report p of
        Some r \<Rightarrow> reportFileName (ep_kind p) r
      | None \<Rightarrow> let v = sanitize vendorCode; b = sanitize branchCode in
          if ep_kind p = ''vendor'' then ''vendor-'' @ v @ ''-'' @ ep_entity p @ ''-'' @ d @ ''.csv''
          else if ep_kind p = ''cabang''
          then ''vendor-'' @ v @ ''-cabang-'' @ b @ ''-'' @ ep_entity p @ ''-'' @ d @ ''.csv''
          else if ep_kind p = ''harga_paket''
          then (if ep_branch_id p \<noteq> None then ''harga-paket-'' @ v @ ''-cabang-'' @ b @ ''-'' @ d @ ''.csv''
                else ''harga-paket-'' @ v @ ''-'' @ d @ ''.csv'')
          else ''master-data-'' @ ep_entity p @ ''-'' @ d @ ''.csv'')"

datatype entity_ref = VendorRef | BranchRef | PriceRef | GlobalRef | Fixed string

record kind_spec =
  ks_roles :: "string list"
  ks_action :: string
  ks_ref :: entity_ref

definition masterDataAdmin :: "string list" where "masterDataAdmin = [''ADMIN'', ''ADMIN_PARAM'']"

definition DsrLateViewerRoles :: "string list" where
  "DsrLateViewerRoles = [''ATM-USER'', ''ATM-SPV'', ''BRANCH-ATM-SPV'', ''ADMIN'']"

definition ReplenishmentViewerRoles :: "string list" where
  "ReplenishmentViewerRoles = [''ADMIN'', ''ATM-USER'', ''ATM-SPV'', ''BRANCH-ATM-USER'', ''BRANCH-ATM-SPV'']"

definition KindSpecs :: "string \<Rightarrow> kind_spec option" where
  "KindSpecs = map_of
     [(''vendor'', \<lparr>ks_roles = masterDataAdmin, ks_action = ''master_data_exported'', ks_ref = VendorRef\<rparr>),
      (''cabang'', \<lparr>ks_roles = masterDataAdmin, ks_action = ''master_data_exported'', ks_ref = BranchRef\<rparr>),
      (''harga_paket'', \<lparr>ks_roles = masterDataAdmin, ks_action = ''master_data_exported'', ks_ref = PriceRef\<rparr>),
      (''master_data_global'', \<lparr>ks_roles = masterDataAdmin, ks_action = ''master_data_exported'', ks_ref = GlobalRef\<rparr>),
      (''dsr_late_daily'', \<lparr>ks_roles = DsrLateViewerRoles, ks_action = ''report_exported'', ks_ref = Fixed ''dsr_late_report''\<rparr>),
      (''dsr_late_summary'', \<lparr>ks_roles = DsrLateViewerRoles, ks_action = ''report_exported'', ks_ref = Fixed ''dsr_late_report''\<rparr>),
      (''replenishment_amount_mismatch'', \<lparr>ks_roles = ReplenishmentViewerRoles, ks_action = ''report_exported'',
          ks_ref = Fixed ''replenishment_report''\<rparr>),
      (''replenishment_trips'', \<lparr>ks_roles = ReplenishmentViewerRoles, ks_action = ''report_exported'',
          ks_ref = Fixed ''replenishment_report''\<rparr>)]"

definition allowed :: "string \<Rightarrow> string \<Rightarrow> bool" where
  "allowed kind role \<longleftrightarrow> role \<noteq> [] \<and>
     (case KindSpecs kind of None \<Rightarrow> False | Some s \<Rightarrow> role \<in> set (ks_roles s))"

definition idOrZero :: "id64 option \<Rightarrow> id64" where
  "idOrZero v = (case v of None \<Rightarrow> 0 | Some i \<Rightarrow> i)"

fun EntityRef :: "entity_ref \<Rightarrow> export_job \<Rightarrow> string \<times> id64" where
  "EntityRef VendorRef j = (''vendor'', idOrZero (ej_vendor_id j))"
| "EntityRef BranchRef j = (''vendor_branch'', idOrZero (ej_branch_id j))"
| "EntityRef PriceRef j = (if ej_branch_id j \<noteq> None then (''vendor_branch'', idOrZero (ej_branch_id j))
                           else (''vendor'', idOrZero (ej_vendor_id j)))"
| "EntityRef GlobalRef j = (''master_data'', 0)"
| "EntityRef (Fixed t) j = (t, 0)"

definition IsReportKind :: "string \<Rightarrow> bool" where
  "IsReportKind k \<longleftrightarrow> k \<in> {''dsr_late_daily'', ''dsr_late_summary'', ''replenishment_amount_mismatch'', ''replenishment_trips''}"

definition legacyFilter :: "report_params \<Rightarrow> string \<Rightarrow> json" where
  "legacyFilter r kind =
     (if kind \<in> {''dsr_late_daily'', ''dsr_late_summary''}
      then JObj ([(''month'', json_opt JStr (rp_month r)), (''vendor_id'', json_opt JNum (rp_vendor_id r)),
                  (''vendor_branch_id'', json_opt JNum (rp_vendor_branch_id r))]
              @ (if kind = ''dsr_late_daily'' then [(''status'', json_opt JStr (rp_status r))] else []))
      else JObj ([(''date_from'', json_opt JStr (rp_date_from r)), (''date_to'', json_opt JStr (rp_date_to r)),
                  (''vendor_id'', json_opt JNum (rp_vendor_id r)), (''region_code'', json_opt JStr (rp_region_code r))]
              @ (if kind = ''replenishment_amount_mismatch''
                 then [(''classification'', json_opt JStr (rp_classification r))] else [])))"

definition requestedAfter :: "export_job \<Rightarrow> actor \<Rightarrow> (string \<times> json) list" where
  "requestedAfter j a =
     (if ej_report_params j \<noteq> None \<and> IsReportKind (ej_kind j)
      then [(''export_job_id'', JNum (ej_id j)), (''export_kind'', JStr (ej_kind j)),
            (''report'', JStr (ej_entity j)), (''filter'', legacyFilter (the (ej_report_params j)) (ej_kind j)),
            (''username'', JStr (act_username a)), (''role'', JStr (act_role a))]
      else [(''export_job_id'', JNum (ej_id j)), (''export_kind'', JStr (ej_kind j)),
            (''export_entity'', JStr (ej_entity j)), (''vendor_id'', json_opt JNum (ej_vendor_id j)),
            (''vendor_code'', json_opt JStr (ej_vendor_code j)), (''branch_id'', json_opt JNum (ej_branch_id j)),
            (''branch_code'', json_opt JStr (ej_branch_code j)), (''status_filter'', json_opt JStr (ej_status_filter j)),
            (''price_level'', json_opt JStr (ej_price_level j)), (''username'', JStr (act_username a)),
            (''role'', JStr (act_role a))])"

section \<open>Queries\<close>

definition active :: "export_job \<Rightarrow> bool" where
  "active j \<longleftrightarrow> ej_status j \<in> {Queued, Running}"

definition GetVendorCodeByID :: "export_db \<Rightarrow> id64 \<Rightarrow> string option" where
  "GetVendorCodeByID db vid = map_option snd (find_row (\<lambda>v. fst v = vid) (xd_vendors db))"

definition GetVendorBranchForVendor :: "export_db \<Rightarrow> id64 \<Rightarrow> id64 \<Rightarrow> string option" where
  "GetVendorBranchForVendor db bid vid =
     map_option (\<lambda>b. snd (snd b)) (find_row (\<lambda>b. fst b = bid \<and> fst (snd b) = vid) (xd_branches db))"

definition GetActiveUserRole :: "export_db \<Rightarrow> id64 \<Rightarrow> string option" where
  "GetActiveUserRole db uid =
     map_option eu_role (find_row (\<lambda>u. eu_id u = uid \<and> eu_active u \<and> \<not> eu_deleted u) (xd_users db))"

definition FindActiveExportJobByHash :: "export_db \<Rightarrow> id64 \<Rightarrow> string \<Rightarrow> export_job option" where
  "FindActiveExportJobByHash db uid h =
     find_row (\<lambda>j. ej_requested_by j = uid \<and> ej_params_hash j = h \<and> active j) (xd_jobs db)"

definition CountActiveExportJobs :: "export_db \<Rightarrow> id64 \<Rightarrow> int" where
  "CountActiveExportJobs db uid = int (length (filter (\<lambda>j. ej_requested_by j = uid \<and> active j) (xd_jobs db)))"

definition GetExportJobForUser :: "export_db \<Rightarrow> id64 \<Rightarrow> id64 \<Rightarrow> export_job option" where
  "GetExportJobForUser db jid uid = find_row (\<lambda>j. ej_id j = jid \<and> ej_requested_by j = uid) (xd_jobs db)"

definition ListExportJobsForUser :: "export_db \<Rightarrow> id64 \<Rightarrow> int \<Rightarrow> export_job list" where
  "ListExportJobsForUser db uid lim =
     take (nat lim) (sort_key (\<lambda>j. - ej_created_at j)
       (sort_key (\<lambda>j. - ej_id j) (filter (\<lambda>j. ej_requested_by j = uid) (xd_jobs db))))"

text \<open>
  The insert of a queued job. \<open>export_jobs_active_dedupe_uq\<close> is its unique index; the check constraints
  of the parameters hold for what \<open>ParseParams\<close> and \<open>ParseReportParams\<close> return.
\<close>

definition InsertExportJob ::
  "timestamp \<Rightarrow> id64 \<Rightarrow> export_params \<Rightarrow> string option \<Rightarrow> string option \<Rightarrow> string \<Rightarrow> string
   \<Rightarrow> export_db \<Rightarrow> (export_job \<times> export_db) option" where
  "InsertExportJob now uid p vcode bcode h fname db =
     (if FindActiveExportJobByHash db uid h \<noteq> None then None
      else let j = \<lparr>ej_id = xd_next_id db, ej_requested_by = uid, ej_kind = ep_kind p, ej_entity = ep_entity p,
             ej_vendor_id = ep_vendor_id p, ej_vendor_code = vcode, ej_branch_id = ep_branch_id p,
             ej_branch_code = bcode,
             ej_status_filter = (if ep_report p \<noteq> None then None else Some (ep_status_filter p)),
             ej_price_level = ep_price_level p, ej_params_hash = h, ej_file_name = fname,
             ej_report_params = ep_report p, ej_status = Queued, ej_row_count = 0, ej_byte_size = None,
             ej_chunk_count = None, ej_error_message = None, ej_created_at = now, ej_started_at = None,
             ej_finished_at = None, ej_expires_at = None, ej_download_started_at = None,
             ej_downloaded_at = None, ej_expired_at = None\<rparr>
           in Some (j, db\<lparr>xd_jobs := xd_jobs db @ [j], xd_next_id := xd_next_id db + 1\<rparr>))"

text \<open>A guarded \<open>UPDATE\<close> of the jobs: the number of rows it matched, and the new tables.\<close>

definition update_jobs ::
  "(export_job \<Rightarrow> bool) \<Rightarrow> (export_job \<Rightarrow> export_job) \<Rightarrow> export_db \<Rightarrow> int \<times> export_db" where
  "update_jobs p f db = (int (length (filter p (xd_jobs db))),
     db\<lparr>xd_jobs := update_where p f (xd_jobs db)\<rparr>)"

definition ClaimNextExportJob :: "timestamp \<Rightarrow> export_db \<Rightarrow> (export_job \<times> export_db) option" where
  "ClaimNextExportJob now db =
     (case first_min ej_id (filter (\<lambda>j. ej_status j = Queued) (xd_jobs db)) of
        None \<Rightarrow> None
      | Some j0 \<Rightarrow> Some (j0\<lparr>ej_status := Running, ej_started_at := Some now\<rparr>,
          snd (update_jobs (\<lambda>j. ej_id j = ej_id j0)
                 (\<lambda>j. j\<lparr>ej_status := Running, ej_started_at := Some now\<rparr>) db)))"

definition UpdateExportJobProgress :: "int \<Rightarrow> id64 \<Rightarrow> export_db \<Rightarrow> int \<times> export_db" where
  "UpdateExportJobProgress rows jid =
     update_jobs (\<lambda>j. ej_id j = jid \<and> ej_status j = Running) (\<lambda>j. j\<lparr>ej_row_count := rows\<rparr>)"

definition MarkExportJobSucceeded ::
  "timestamp \<Rightarrow> int \<Rightarrow> int \<Rightarrow> int \<Rightarrow> int \<Rightarrow> id64 \<Rightarrow> export_db \<Rightarrow> int \<times> export_db" where
  "MarkExportJobSucceeded now retention rows nbytes chunks jid =
     update_jobs (\<lambda>j. ej_id j = jid \<and> ej_status j = Running)
       (\<lambda>j. j\<lparr>ej_status := Succeeded, ej_finished_at := Some now, ej_expires_at := Some (now + retention),
              ej_row_count := rows, ej_byte_size := Some nbytes, ej_chunk_count := Some chunks\<rparr>)"

definition MarkExportJobFailed :: "timestamp \<Rightarrow> string \<Rightarrow> id64 \<Rightarrow> export_db \<Rightarrow> int \<times> export_db" where
  "MarkExportJobFailed now msg jid =
     update_jobs (\<lambda>j. ej_id j = jid \<and> ej_status j = Running)
       (\<lambda>j. j\<lparr>ej_status := Failed, ej_finished_at := Some now, ej_error_message := Some msg\<rparr>)"

definition ReleaseExportJob :: "id64 \<Rightarrow> export_db \<Rightarrow> int \<times> export_db" where
  "ReleaseExportJob jid =
     update_jobs (\<lambda>j. ej_id j = jid \<and> ej_status j = Running)
       (\<lambda>j. j\<lparr>ej_status := Queued, ej_started_at := None\<rparr>)"

definition StartExportJobDownload :: "timestamp \<Rightarrow> id64 \<Rightarrow> id64 \<Rightarrow> export_db \<Rightarrow> (export_job \<times> export_db) option" where
  "StartExportJobDownload now jid uid db =
     (let p = (\<lambda>j. ej_id j = jid \<and> ej_requested_by j = uid \<and> ej_status j = Succeeded
                 \<and> (case ej_expires_at j of None \<Rightarrow> False | Some e \<Rightarrow> e > now));
          f = (\<lambda>j. j\<lparr>ej_status := Downloading, ej_download_started_at := Some now\<rparr>)
      in map_option (\<lambda>j. (f j, snd (update_jobs p f db))) (find_row p (xd_jobs db)))"

definition CompleteExportJobDownload :: "timestamp \<Rightarrow> id64 \<Rightarrow> export_db \<Rightarrow> int \<times> export_db" where
  "CompleteExportJobDownload now jid =
     update_jobs (\<lambda>j. ej_id j = jid \<and> ej_status j = Downloading)
       (\<lambda>j. j\<lparr>ej_status := Downloaded, ej_downloaded_at := Some now\<rparr>)"

definition AbortExportJobDownload :: "id64 \<Rightarrow> export_db \<Rightarrow> int \<times> export_db" where
  "AbortExportJobDownload jid =
     update_jobs (\<lambda>j. ej_id j = jid \<and> ej_status j = Downloading) (\<lambda>j. j\<lparr>ej_status := Succeeded\<rparr>)"

definition DeleteExportJobChunks :: "id64 \<Rightarrow> export_db \<Rightarrow> export_db" where
  "DeleteExportJobChunks jid db = db\<lparr>xd_chunks := filter (\<lambda>c. ch_job c \<noteq> jid) (xd_chunks db)\<rparr>"

definition delete_chunks_of :: "id64 set \<Rightarrow> export_db \<Rightarrow> export_db" where
  "delete_chunks_of ids db = db\<lparr>xd_chunks := filter (\<lambda>c. ch_job c \<notin> ids) (xd_chunks db)\<rparr>"

definition InsertExportJobChunk :: "id64 \<Rightarrow> int \<Rightarrow> bytes \<Rightarrow> export_db \<Rightarrow> export_db option" where
  "InsertExportJobChunk jid sq d db =
     (if sq < 0 \<or> (\<exists>c \<in> set (xd_chunks db). ch_job c = jid \<and> ch_seq c = sq)
         \<or> \<not> (\<exists>j \<in> set (xd_jobs db). ej_id j = jid) then None
      else Some (db\<lparr>xd_chunks := xd_chunks db @ [\<lparr>ch_job = jid, ch_seq = sq, ch_data = d\<rparr>]\<rparr>))"

definition GetExportJobChunk :: "export_db \<Rightarrow> id64 \<Rightarrow> int \<Rightarrow> bytes option" where
  "GetExportJobChunk db jid sq =
     map_option ch_data (find_row (\<lambda>c. ch_job c = jid \<and> ch_seq c = sq) (xd_chunks db))"

text \<open>The janitor's statements; the data-modifying \<open>WITH\<close> parts run on one snapshot.\<close>

definition timed_out :: "timestamp \<Rightarrow> int \<Rightarrow> export_job \<Rightarrow> bool" where
  "timed_out now tmo j \<longleftrightarrow> ej_status j = Running
     \<and> (case ej_started_at j of None \<Rightarrow> False | Some s \<Rightarrow> s < now - tmo)"

definition FailTimedOutExportJobs :: "timestamp \<Rightarrow> string \<Rightarrow> int \<Rightarrow> export_db \<Rightarrow> id64 list \<times> export_db" where
  "FailTimedOutExportJobs now msg tmo db =
     (let ids = map ej_id (filter (timed_out now tmo) (xd_jobs db))
      in (ids, delete_chunks_of (set ids) (snd (update_jobs (timed_out now tmo)
           (\<lambda>j. j\<lparr>ej_status := Failed, ej_finished_at := Some now, ej_error_message := Some msg\<rparr>) db))))"

definition RecoverStaleDownloads :: "timestamp \<Rightarrow> int \<Rightarrow> export_db \<Rightarrow> int \<times> export_db" where
  "RecoverStaleDownloads now lease =
     update_jobs (\<lambda>j. ej_status j = Downloading
          \<and> (case ej_download_started_at j of None \<Rightarrow> False | Some s \<Rightarrow> s < now - lease))
       (\<lambda>j. j\<lparr>ej_status := Succeeded\<rparr>)"

definition past_retention :: "timestamp \<Rightarrow> export_job \<Rightarrow> bool" where
  "past_retention now j \<longleftrightarrow> ej_status j = Succeeded
     \<and> (case ej_expires_at j of None \<Rightarrow> False | Some e \<Rightarrow> e \<le> now)"

definition ExpireExportJobs :: "timestamp \<Rightarrow> export_db \<Rightarrow> id64 list \<times> export_db" where
  "ExpireExportJobs now db =
     (let ids = map ej_id (filter (past_retention now) (xd_jobs db))
      in (ids, delete_chunks_of (set ids) (snd (update_jobs (past_retention now)
           (\<lambda>j. j\<lparr>ej_status := Expired, ej_expired_at := Some now\<rparr>) db))))"

definition keeps_chunks :: "export_status \<Rightarrow> bool" where
  "keeps_chunks st \<longleftrightarrow> st \<in> {Running, Succeeded, Downloading}"

definition DeleteOrphanExportJobChunks :: "export_db \<Rightarrow> int \<times> export_db" where
  "DeleteOrphanExportJobChunks db =
     (let orphan = (\<lambda>c. \<exists>j \<in> set (xd_jobs db). ej_id j = ch_job c \<and> \<not> keeps_chunks (ej_status j))
      in (int (length (filter orphan (xd_chunks db))),
          db\<lparr>xd_chunks := filter (\<lambda>c. \<not> orphan c) (xd_chunks db)\<rparr>))"

definition audit_write :: "bool \<Rightarrow> audit_row \<Rightarrow> export_db \<Rightarrow> export_db option" where
  "audit_write failing e db =
     (if al_actor_id e = 0 \<or> al_action e = [] \<or> failing then None
      else Some (db\<lparr>xd_audit := xd_audit db @ [e]\<rparr>))"

end
