(* ===== verification/Export_Service.thy ===== *)
theory Export_Service
  imports Export_Job
begin

text \<open>
  The operations on export jobs: \<open>Service\<close> (\<open>service.go\<close>, \<open>download.go\<close>), the worker's store
  (\<open>pgStore\<close> of \<open>worker.go\<close>), the janitor (\<open>janitor.go\<close>) and the download endpoint
  (\<open>Download\<close> of \<open>handler/exports_handler.go\<close>). \<open>flt\<close> says which calls fail; \<open>env\<close> is what other
  sessions commit between an operation's reads and its transaction.
\<close>

section \<open>Creating and reading jobs\<close>

definition resolveScope ::
  "export_faults \<Rightarrow> export_db \<Rightarrow> export_params \<Rightarrow> (export_err, string option \<times> string option) result" where
  "resolveScope flt db p =
     (case (case ep_vendor_id p of
              None \<Rightarrow> Inr None
            | Some v \<Rightarrow> if flt XGetVendor then Inl ErrInternal
                else (case GetVendorCodeByID db v of None \<Rightarrow> Inl ErrNotFound | Some c \<Rightarrow> Inr (Some c))) of
        Inl e \<Rightarrow> Inl e
      | Inr vendorCode \<Rightarrow>
         (case ep_branch_id p of
            None \<Rightarrow> Inr (vendorCode, None)
          | Some b \<Rightarrow>
             (case ep_vendor_id p of
                None \<Rightarrow> Inl ErrNotFound
              | Some v \<Rightarrow> if flt XGetBranch then Inl ErrInternal
                  else (case GetVendorBranchForVendor db b v of
                          None \<Rightarrow> Inl ErrNotFound | Some c \<Rightarrow> Inr (vendorCode, Some c)))))"

definition strOrEmpty :: "string option \<Rightarrow> string" where
  "strOrEmpty v = (case v of None \<Rightarrow> [] | Some s \<Rightarrow> s)"

definition job_audit :: "string \<Rightarrow> export_job \<Rightarrow> actor \<Rightarrow> (string \<times> json) list \<Rightarrow> entity_ref \<Rightarrow> audit_row" where
  "job_audit action j a after ref =
     audit_entry (act_user_id a) action (fst (EntityRef ref j)) (snd (EntityRef ref j)) None (Some (JObj after)) (act_ip a)"

definition create_tx ::
  "export_faults \<Rightarrow> timestamp \<Rightarrow> actor \<Rightarrow> export_params \<Rightarrow> string option \<Rightarrow> string option \<Rightarrow> string \<Rightarrow> string
   \<Rightarrow> (export_db, export_err, export_job \<times> bool) tx" where
  "create_tx flt now a p vcode bcode h fname db =
     (if flt XBegin \<or> flt XLock \<or> flt XFindActive then Inl ErrInternal
      else case FindActiveExportJobByHash db (act_user_id a) h of
        Some existing \<Rightarrow> Inr ((existing, False), db)
      | None \<Rightarrow>
          if flt XCount then Inl ErrInternal
          else if CountActiveExportJobs db (act_user_id a) \<ge> MaxActivePerUser then Inl ErrTooManyActive
          else (case (if flt XInsert then None
                      else InsertExportJob now (act_user_id a) p vcode bcode h fname db) of
                  None \<Rightarrow> Inl ErrInternal
                | Some (j, db1) \<Rightarrow>
                   (case KindSpecs (ep_kind p) of
                      None \<Rightarrow> Inl ErrInternal
                    | Some spec \<Rightarrow>
                       (case audit_write (flt XAudit)
                               (job_audit ''export_requested'' j a (requestedAfter j a) (ks_ref spec)) db1 of
                          None \<Rightarrow> Inl ErrInternal
                        | Some db2 \<Rightarrow> Inr ((j, True), db2)))))"

definition Service_Create ::
  "(string \<Rightarrow> string) \<Rightarrow> (string \<Rightarrow> string \<Rightarrow> report_params \<Rightarrow> string) \<Rightarrow> (export_db \<Rightarrow> export_db) \<Rightarrow> export_faults
   \<Rightarrow> timestamp \<Rightarrow> string \<Rightarrow> actor \<Rightarrow> export_params \<Rightarrow> export_db
   \<Rightarrow> (export_err, export_job \<times> bool) result \<times> export_db" where
  "Service_Create sha marshal env flt now day a p db =
     (if act_user_id a = 0 then (Inl ErrUnauthenticated, db)
      else if \<not> allowed (ep_kind p) (act_role a) then (Inl ErrForbidden, db)
      else case resolveScope flt db p of
        Inl e \<Rightarrow> (Inl e, db)
      | Inr (vcode, bcode) \<Rightarrow>
          run_in_tx (\<not> flt XCommit) ErrInternal
            (create_tx flt now a p vcode bcode (ParamsHash sha marshal p)
               (FileName p (strOrEmpty vcode) (strOrEmpty bcode) day)) (env db))"

definition Service_List ::
  "export_faults \<Rightarrow> actor \<Rightarrow> int \<Rightarrow> export_db \<Rightarrow> (export_err, export_job list) result" where
  "Service_List flt a limit0 db =
     (if act_user_id a = 0 then Inl ErrUnauthenticated
      else let limit = (if limit0 \<le> 0 then 20 else if limit0 > 50 then 50 else limit0) in
        if flt XList then Inl ErrInternal
        else Inr (filter (\<lambda>j. ej_requested_by j = act_user_id a) (ListExportJobsForUser db (act_user_id a) limit)))"

definition Service_Get ::
  "export_faults \<Rightarrow> actor \<Rightarrow> id64 \<Rightarrow> export_db \<Rightarrow> (export_err, export_job) result" where
  "Service_Get flt a jid db =
     (if act_user_id a = 0 then Inl ErrUnauthenticated
      else if jid \<le> 0 then Inl ErrNotFound
      else if flt XGetJob then Inl ErrInternal
      else case GetExportJobForUser db jid (act_user_id a) of
        None \<Rightarrow> Inl ErrNotFound
      | Some j \<Rightarrow> if ej_requested_by j \<noteq> act_user_id a then Inl ErrNotFound else Inr j)"

section \<open>Downloading\<close>

datatype download_err = NotClaimed | DlErr export_err

definition start_download_tx ::
  "export_faults \<Rightarrow> timestamp \<Rightarrow> actor \<Rightarrow> id64 \<Rightarrow> (export_db, download_err, export_job) tx" where
  "start_download_tx flt now a jid db =
     (if flt XBegin \<or> flt XClaim then Inl (DlErr ErrInternal)
      else case StartExportJobDownload now jid (act_user_id a) db of
        None \<Rightarrow> Inl NotClaimed
      | Some (j, db1) \<Rightarrow>
         (case KindSpecs (ej_kind j) of
            None \<Rightarrow> Inl (DlErr ErrInternal)
          | Some spec \<Rightarrow>
             (case audit_write (flt XAudit) (job_audit (ks_action spec) j a
                     (requestedAfter j a @ [(''row_count'', JNum (ej_row_count j))]) (ks_ref spec)) db1 of
                None \<Rightarrow> Inl (DlErr ErrInternal)
              | Some db2 \<Rightarrow> Inr (j, db2))))"

definition notClaimedReason :: "export_faults \<Rightarrow> timestamp \<Rightarrow> actor \<Rightarrow> id64 \<Rightarrow> export_db \<Rightarrow> export_err" where
  "notClaimedReason flt now a jid db =
     (if flt XReread then ErrInternal
      else case GetExportJobForUser db jid (act_user_id a) of
        None \<Rightarrow> ErrNotFound
      | Some j \<Rightarrow>
          if ej_requested_by j \<noteq> act_user_id a then ErrNotFound
          else (case ej_status j of
                  Downloaded \<Rightarrow> ErrGone
                | Expired \<Rightarrow> ErrGone
                | Succeeded \<Rightarrow> (case ej_expires_at j of
                      None \<Rightarrow> ErrGone | Some e \<Rightarrow> if e > now then ErrNotReady else ErrGone)
                | _ \<Rightarrow> ErrNotReady))"

definition Service_StartDownload ::
  "(export_db \<Rightarrow> export_db) \<Rightarrow> export_faults \<Rightarrow> timestamp \<Rightarrow> actor \<Rightarrow> id64 \<Rightarrow> export_db
   \<Rightarrow> (export_err, export_job) result \<times> export_db" where
  "Service_StartDownload env flt now a jid db =
     (if act_user_id a = 0 then (Inl ErrUnauthenticated, db)
      else case Service_Get flt a jid db of
        Inl e \<Rightarrow> (Inl e, db)
      | Inr pre \<Rightarrow>
          if flt XGetRole then (Inl ErrInternal, db)
          else (case GetActiveUserRole db (act_user_id a) of
                  None \<Rightarrow> (Inl ErrForbidden, db)
                | Some role \<Rightarrow>
                    if \<not> allowed (ej_kind pre) role then (Inl ErrForbidden, db)
                    else (case run_in_tx (\<not> flt XCommit) (DlErr ErrInternal)
                                 (start_download_tx flt now a jid) (env db) of
                            (Inl NotClaimed, db') \<Rightarrow> (Inl (notClaimedReason flt now a jid db'), db')
                          | (Inl (DlErr e), db') \<Rightarrow> (Inl e, db')
                          | (Inr j, db') \<Rightarrow> (Inr j, db'))))"

text \<open>
  \<open>OpenChunks\<close>: the chunks it yields before its end, and the error that ended it, if any. A chunk count
  of at least \<open>2 ^ 31\<close> is refused.
\<close>

fun open_chunks_from ::
  "export_faults \<Rightarrow> export_db \<Rightarrow> id64 \<Rightarrow> int \<Rightarrow> nat \<Rightarrow> bytes list \<times> export_err option" where
  "open_chunks_from flt db jid sq 0 = ([], None)"
| "open_chunks_from flt db jid sq (Suc n) =
     (if flt (XChunk sq) then ([], Some ErrInternal)
      else case GetExportJobChunk db jid sq of
        None \<Rightarrow> ([], Some ErrInternal)
      | Some d \<Rightarrow> let (ds, e) = open_chunks_from flt db jid (sq + 1) n in (d # ds, e))"

definition Service_OpenChunks ::
  "export_faults \<Rightarrow> export_db \<Rightarrow> id64 \<Rightarrow> int \<Rightarrow> bytes list \<times> export_err option" where
  "Service_OpenChunks flt db jid count =
     (if count < 0 \<or> count > int32_max then ([], Some ErrInternal)
      else open_chunks_from flt db jid 0 (nat count))"

definition complete_tx :: "export_faults \<Rightarrow> timestamp \<Rightarrow> id64 \<Rightarrow> (export_db, export_err, unit) tx" where
  "complete_tx flt now jid db =
     (if flt XBegin \<or> flt XComplete then Inl ErrInternal
      else let (n, db1) = CompleteExportJobDownload now jid db in
        if n = 0 then Inl ErrNotDownloading
        else if flt XDeleteChunks then Inl ErrInternal
        else Inr ((), DeleteExportJobChunks jid db1))"

definition Service_CompleteDownload ::
  "export_faults \<Rightarrow> timestamp \<Rightarrow> id64 \<Rightarrow> export_db \<Rightarrow> (export_err, unit) result \<times> export_db" where
  "Service_CompleteDownload flt now jid = run_in_tx (\<not> flt XCommit) ErrInternal (complete_tx flt now jid)"

definition Service_AbortDownload ::
  "export_faults \<Rightarrow> id64 \<Rightarrow> export_db \<Rightarrow> (export_err, unit) result \<times> export_db" where
  "Service_AbortDownload flt jid db =
     (if flt XAbort then (Inl ErrInternal, db)
      else let (n, db') = AbortExportJobDownload jid db in
        if n = 0 then (Inl ErrNotDownloading, db') else (Inr (), db'))"

text \<open>
  The download endpoint run alone. \<open>sent k\<close> is whether the client takes chunk number \<open>k\<close>; the reply is
  an error before the first byte, a broken connection after some bytes, or the whole file.
\<close>

datatype download_reply = DlRefused export_err | DlBroken bytes | DlFile "string" int bytes

fun stream_chunks :: "(nat \<Rightarrow> bool) \<Rightarrow> nat \<Rightarrow> bytes list \<times> export_err option \<Rightarrow> bytes \<times> bool" where
  "stream_chunks sent k ([], e) = ([], e = None)"
| "stream_chunks sent k (d # ds, e) =
     (if \<not> sent k then ([], False)
      else let (out, ok) = stream_chunks sent (Suc k) (ds, e) in (d @ out, ok))"

definition ExportsHandler_Download ::
  "export_faults \<Rightarrow> (nat \<Rightarrow> bool) \<Rightarrow> timestamp \<Rightarrow> timestamp \<Rightarrow> actor \<Rightarrow> id64 \<Rightarrow> export_db
   \<Rightarrow> download_reply \<times> export_db" where
  "ExportsHandler_Download flt sent now now' a jid db =
     (case Service_StartDownload id flt now a jid db of
        (Inl e, db1) \<Rightarrow> (DlRefused e, db1)
      | (Inr j, db1) \<Rightarrow>
         (case (ej_byte_size j, ej_chunk_count j) of
            (Some nbytes, Some count) \<Rightarrow>
              (let (out, ok) = stream_chunks sent 0 (Service_OpenChunks flt db1 jid count) in
               if ok then (DlFile (ej_file_name j) nbytes out, snd (Service_CompleteDownload flt now' jid db1))
               else (DlBroken out, snd (Service_AbortDownload flt jid db1)))
          | _ \<Rightarrow> (DlRefused ErrInternal, snd (Service_AbortDownload flt jid db1))))"

section \<open>The worker's store\<close>

definition store_transition ::
  "export_faults \<Rightarrow> id64 \<Rightarrow> (export_db \<Rightarrow> int \<times> export_db) \<Rightarrow> export_db \<Rightarrow> (export_err, bool) result \<times> export_db" where
  "store_transition flt jid upd db =
     (if flt XBegin \<or> flt XUpdate then (Inl ErrInternal, db)
      else let (n, db1) = upd db in
        if n = 0 then (Inr False, db)
        else if flt XDeleteChunks \<or> flt XCommit then (Inl ErrInternal, db)
        else (Inr True, DeleteExportJobChunks jid db1))"

definition store_MarkFailed ::
  "export_faults \<Rightarrow> timestamp \<Rightarrow> id64 \<Rightarrow> string \<Rightarrow> export_db \<Rightarrow> (export_err, bool) result \<times> export_db" where
  "store_MarkFailed flt now jid msg = store_transition flt jid (MarkExportJobFailed now msg jid)"

definition store_Release ::
  "export_faults \<Rightarrow> id64 \<Rightarrow> export_db \<Rightarrow> (export_err, bool) result \<times> export_db" where
  "store_Release flt jid = store_transition flt jid (ReleaseExportJob jid)"

datatype succeed_err = JobLost | StoreFailed | ContextDone

definition worker_succeed ::
  "export_faults \<Rightarrow> timestamp \<Rightarrow> id64 \<Rightarrow> int \<Rightarrow> int \<Rightarrow> int \<Rightarrow> export_db \<Rightarrow> (succeed_err, unit) result \<times> export_db" where
  "worker_succeed flt now jid rows nbytes chunks db =
     (if flt XUpdate then (Inl StoreFailed, db)
      else let (n, db1) = MarkExportJobSucceeded now Retention rows nbytes chunks jid db in
        if n = 0 then (Inl JobLost, if flt XDeleteChunks then db1 else DeleteExportJobChunks jid db1)
        else (Inr (), db1))"

text \<open>A failed progress update is only logged, unless the job's context is done.\<close>

definition worker_progress ::
  "export_faults \<Rightarrow> bool \<Rightarrow> id64 \<Rightarrow> int \<Rightarrow> export_db \<Rightarrow> (succeed_err, unit) result \<times> export_db" where
  "worker_progress flt ctxDone jid rows db =
     (if flt XUpdate then (if ctxDone then Inl ContextDone else Inr (), db)
      else let (n, db1) = UpdateExportJobProgress rows jid db in
        if n = 0 then (Inl JobLost, db1) else (Inr (), db1))"

datatype run_err = REFileTooLarge | RETooManyRows | REDeadline | RERecoveryConflict | REOther

definition failureMessage :: "bool \<Rightarrow> run_err \<Rightarrow> string" where
  "failureMessage ctxDeadline e =
     (if e = REFileTooLarge then ''File melebihi batas 100 MB''
      else if e = RETooManyRows then ''File melebihi batas 1.000.000 baris''
      else if ctxDeadline \<or> e = REDeadline then ''Melewati batas waktu proses''
      else if e = RERecoveryConflict then ''Data sedang diperbarui, coba lagi''
      else ''Gagal membuat file ekspor'')"

text \<open>What \<open>run\<close> does with a failed job: release it on shutdown, unless the failure is the file's own.\<close>

definition worker_finish_failed ::
  "export_faults \<Rightarrow> timestamp \<Rightarrow> bool \<Rightarrow> bool \<Rightarrow> id64 \<Rightarrow> run_err \<Rightarrow> export_db \<Rightarrow> export_db" where
  "worker_finish_failed flt now cancelled ctxDeadline jid e db =
     (if e \<noteq> REFileTooLarge \<and> e \<noteq> RETooManyRows \<and> cancelled then snd (store_Release flt jid db)
      else snd (store_MarkFailed flt now jid (failureMessage ctxDeadline e) db))"

section \<open>The janitor\<close>

record janitor_faults =
  jf_fail :: bool
  jf_recover :: bool
  jf_expire :: bool
  jf_sweep :: bool

definition janitor_step :: "bool \<Rightarrow> (export_db \<Rightarrow> export_db) \<Rightarrow> export_db \<Rightarrow> export_db" where
  "janitor_step failing f db = (if failing then db else f db)"

definition Janitor_tick ::
  "janitor_faults \<Rightarrow> timestamp \<Rightarrow> timestamp \<Rightarrow> timestamp \<Rightarrow> export_db \<Rightarrow> export_db" where
  "Janitor_tick jf t1 t2 t3 db =
     janitor_step (jf_sweep jf) (\<lambda>d. snd (DeleteOrphanExportJobChunks d))
      (janitor_step (jf_expire jf) (\<lambda>d. snd (ExpireExportJobs t3 d))
        (janitor_step (jf_recover jf) (\<lambda>d. snd (RecoverStaleDownloads t2 DownloadLease d))
          (janitor_step (jf_fail jf)
             (\<lambda>d. snd (FailTimedOutExportJobs t1 ''Melewati batas waktu proses'' JobTimeout d)) db)))"

section \<open>Worker configuration\<close>

text \<open>
  \<open>LoadWorkerConfig\<close>. An environment variable is its text, with the value \<open>strconv.Atoi\<close> or
  \<open>time.ParseDuration\<close> reads from it, \<open>None\<close> when that fails.
\<close>

record worker_config =
  wc_workers :: int
  wc_poll_interval :: int
  wc_janitor_interval :: int

definition LoadWorkerConfig ::
  "(string \<times> int option) \<Rightarrow> (string \<times> int option) \<Rightarrow> (string \<times> int option) \<Rightarrow> worker_config option" where
  "LoadWorkerConfig workers poll janitor =
     (case (if fst workers = [] then Some 2 else case snd workers of
              Some n \<Rightarrow> if n < 1 \<or> n > 8 then None else Some n | None \<Rightarrow> None) of
        None \<Rightarrow> None
      | Some n \<Rightarrow>
     (case (if fst poll = [] then Some (2 * second) else case snd poll of
              Some d \<Rightarrow> if d \<le> 0 then None else Some d | None \<Rightarrow> None) of
        None \<Rightarrow> None
      | Some p \<Rightarrow>
     (case (if fst janitor = [] then Some (30 * second) else case snd janitor of
              Some d \<Rightarrow> if d \<le> 0 \<or> d > minute then None else Some d | None \<Rightarrow> None) of
        None \<Rightarrow> None
      | Some j \<Rightarrow> Some \<lparr>wc_workers = n, wc_poll_interval = p, wc_janitor_interval = j\<rparr>)))"

end
