(* ===== verification/Export_Correct.thy ===== *)
theory Export_Correct
  imports Export_Service
begin

text \<open>
  The export jobs as a transition system. Next to the tables, the state has the chunks each worker
  has stored for the job it holds (\<open>es_work\<close>); a worker that has seen an error is \<open>Broken\<close> and can
  only fail or release its job. Each statement of a worker is a step of its own, so that steps of
  the janitor, of downloads and of other workers come in between. What a worker stores for a job,
  and the totals it reports, are those of its \<open>ChunkWriter\<close>.
\<close>

section \<open>Steps\<close>

datatype worker = Writing "bytes list" | Broken

record export_sys =
  es_db :: export_db
  es_work :: "id64 \<rightharpoonup> worker"

abbreviation sys :: "export_db \<Rightarrow> (id64 \<rightharpoonup> worker) \<Rightarrow> export_sys" where
  "sys db w \<equiv> \<lparr>es_db = db, es_work = w\<rparr>"

inductive export_op :: "export_sys \<Rightarrow> export_sys \<Rightarrow> bool" where
  create: "Service_Create sha marshal id flt now day a p db = (r, db') \<Longrightarrow> export_op (sys db w) (sys db' w)"
| start: "Service_StartDownload id flt now a jid db = (rs, db') \<Longrightarrow> export_op (sys db w) (sys db' w)"
| complete: "Service_CompleteDownload flt now jid db = (rc, db') \<Longrightarrow> export_op (sys db w) (sys db' w)"
| abort: "Service_AbortDownload flt jid db = (rc, db') \<Longrightarrow> export_op (sys db w) (sys db' w)"
| claim: "ClaimNextExportJob now db = Some (j, db') \<Longrightarrow> export_op (sys db w) (sys db' (w(ej_id j \<mapsto> Writing [])))"
| claim_lost: "ClaimNextExportJob now db = Some (j, db') \<Longrightarrow> export_op (sys db w) (sys db' w)"
| chunk: "w jid = Some (Writing ds) \<Longrightarrow> InsertExportJobChunk jid (int (length ds)) d db = Some db'
    \<Longrightarrow> export_op (sys db w) (sys db' (w(jid \<mapsto> Writing (ds @ [d]))))"
| chunk_unsure: "w jid = Some (Writing ds) \<Longrightarrow> InsertExportJobChunk jid (int (length ds)) d db = Some db'
    \<Longrightarrow> export_op (sys db w) (sys db' (w(jid \<mapsto> Broken)))"
| progress: "worker_progress flt ctxDone jid rows db = (rw, db') \<Longrightarrow> export_op (sys db w) (sys db' w)"
| succeed: "w jid = Some (Writing ds)
    \<Longrightarrow> worker_succeed flt now jid rows (int (length (concat ds))) (int (length ds)) db = (rw, db')
    \<Longrightarrow> w' = (if rw = Inr () then w(jid := None) else w(jid \<mapsto> Broken))
    \<Longrightarrow> export_op (sys db w) (sys db' w')"
| succeed_unsure: "w jid = Some (Writing ds)
    \<Longrightarrow> MarkExportJobSucceeded now Retention rows (int (length (concat ds))) (int (length ds)) jid db = (n, db')
    \<Longrightarrow> export_op (sys db w) (sys db' (w(jid \<mapsto> Broken)))"
| finish_failed: "w jid \<noteq> None
    \<Longrightarrow> export_op (sys db w) (sys (worker_finish_failed flt now cancelled ctxDeadline jid e db) (w(jid := None)))"
| janitor: "export_op (sys db w) (sys (Janitor_tick jf t1 t2 t3 db) w)"
| users: "export_op (sys db w) (sys (db\<lparr>xd_users := us, xd_vendors := vs, xd_branches := bs\<rparr>) w)"

definition export_init :: "export_sys \<Rightarrow> bool" where
  "export_init s \<longleftrightarrow> xd_jobs (es_db s) = [] \<and> xd_chunks (es_db s) = [] \<and> es_work s = Map.empty"

section \<open>The invariant\<close>

definition chunks_of :: "export_db \<Rightarrow> id64 \<Rightarrow> sink" where
  "chunks_of db jid = map (\<lambda>c. (ch_seq c, ch_data c)) (filter (\<lambda>c. ch_job c = jid) (xd_chunks db))"

definition numbered :: "bytes list \<Rightarrow> sink" where
  "numbered ds = zip (map int [0..<length ds]) ds"

lemma numbered_Nil [simp]: "numbered [] = []"
  by (simp add: numbered_def)

lemma numbered_snoc [simp]: "numbered (ds @ [d]) = numbered ds @ [(int (length ds), d)]"
  by (simp add: numbered_def)

text \<open>A job, the chunks stored for it and the worker that holds it.\<close>

definition file_ready :: "sink \<Rightarrow> export_job \<Rightarrow> bool" where
  "file_ready cs j \<longleftrightarrow> (\<exists>ds. cs = numbered ds \<and> ej_byte_size j = Some (int (length (concat ds)))
     \<and> ej_chunk_count j = Some (int (length ds))) \<and> ej_expires_at j \<noteq> None \<and> ej_finished_at j \<noteq> None"

fun job_ok :: "export_status \<Rightarrow> sink \<Rightarrow> worker option \<Rightarrow> export_job \<Rightarrow> bool" where
  "job_ok Queued cs w j \<longleftrightarrow> cs = [] \<and> w = None"
| "job_ok Running cs w j \<longleftrightarrow> (\<forall>ds. w = Some (Writing ds) \<longrightarrow> cs = numbered ds)"
| "job_ok Succeeded cs w j \<longleftrightarrow> w \<in> {None, Some Broken} \<and> file_ready cs j"
| "job_ok Downloading cs w j \<longleftrightarrow> w \<in> {None, Some Broken} \<and> file_ready cs j"
| "job_ok Failed cs w j \<longleftrightarrow> True"
| "job_ok Downloaded cs w j \<longleftrightarrow> cs = [] \<and> w \<in> {None, Some Broken}"
| "job_ok Expired cs w j \<longleftrightarrow> cs = [] \<and> w \<in> {None, Some Broken}"

definition job_keys_ok :: "export_db \<Rightarrow> (id64 \<rightharpoonup> worker) \<Rightarrow> bool" where
  "job_keys_ok db w \<longleftrightarrow> distinct (map ej_id (xd_jobs db))
     \<and> (\<forall>j \<in> set (xd_jobs db). ej_id j < xd_next_id db)
     \<and> (\<forall>c \<in> set (xd_chunks db). ch_job c \<in> ej_id ` set (xd_jobs db))
     \<and> dom w \<subseteq> ej_id ` set (xd_jobs db)"

definition limits_ok :: "export_job list \<Rightarrow> bool" where
  "limits_ok js \<longleftrightarrow> (\<forall>uid. int (length (filter (\<lambda>j. ej_requested_by j = uid \<and> active j) js)) \<le> MaxActivePerUser)
     \<and> distinct (map (\<lambda>j. (ej_requested_by j, ej_params_hash j)) (filter active js))"

definition jobs_ok :: "export_db \<Rightarrow> (id64 \<rightharpoonup> worker) \<Rightarrow> bool" where
  "jobs_ok db w \<longleftrightarrow> (\<forall>j \<in> set (xd_jobs db). job_ok (ej_status j) (chunks_of db (ej_id j)) (w (ej_id j)) j)"

definition export_inv :: "export_sys \<Rightarrow> bool" where
  "export_inv s \<longleftrightarrow> job_keys_ok (es_db s) (es_work s) \<and> limits_ok (xd_jobs (es_db s)) \<and> jobs_ok (es_db s) (es_work s)"

section \<open>Guarded updates\<close>

text \<open>An update that keeps owner and hash, and never activates a job, keeps the limits.\<close>

lemma limits_ok_update:
  assumes ok: "limits_ok js"
    and f: "\<And>j. ej_requested_by (f j) = ej_requested_by j" "\<And>j. ej_params_hash (f j) = ej_params_hash j"
      "\<And>j. p j \<Longrightarrow> active (f j) \<Longrightarrow> active j"
  shows "limits_ok (update_where p f js)"
proof -
  have count: "length (filter (\<lambda>j. ej_requested_by j = uid \<and> active j) (update_where p f js))
      \<le> length (filter (\<lambda>j. ej_requested_by j = uid \<and> active j) js)" for uid
    by (induction js) (use f in auto)
  have subs: "set (map (\<lambda>j. (ej_requested_by j, ej_params_hash j)) (filter active (update_where p f js)))
      \<subseteq> set (map (\<lambda>j. (ej_requested_by j, ej_params_hash j)) (filter active js))" for js
    by (induction js) (use f in auto)
  have "distinct (map (\<lambda>j. (ej_requested_by j, ej_params_hash j)) (filter active (update_where p f js)))"
    using ok unfolding limits_ok_def
  proof (elim conjE)
    assume "distinct (map (\<lambda>j. (ej_requested_by j, ej_params_hash j)) (filter active js))"
    then show ?thesis
    proof (induction js)
      case (Cons j js)
      have "(ej_requested_by j, ej_params_hash j)
          \<notin> set (map (\<lambda>j. (ej_requested_by j, ej_params_hash j)) (filter active (update_where p f js)))" if "active j"
        using Cons.prems that subs [of js] by auto
      with Cons f show ?case by (auto split: if_splits)
    qed simp
  qed
  moreover have "int (length (filter (\<lambda>j. ej_requested_by j = uid \<and> active j) (update_where p f js))) \<le> MaxActivePerUser" for uid
  proof -
    have "int (length (filter (\<lambda>j. ej_requested_by j = uid \<and> active j) js)) \<le> MaxActivePerUser"
      using ok by (simp add: limits_ok_def)
    then show ?thesis using count [of uid] by linarith
  qed
  ultimately show ?thesis unfolding limits_ok_def by blast
qed

text \<open>
  The case rule of the invariant: an operation that updates jobs in place and may remove or add
  chunk rows keeps it when every job, seen with its chunks and its worker, is in order afterwards.
\<close>

lemma export_inv_update:
  assumes inv: "export_inv (sys db w)"
    and jobs: "xd_jobs db' = update_where p f (xd_jobs db)" and nid: "xd_next_id db' = xd_next_id db"
    and f: "\<And>j. ej_id (f j) = ej_id j" "\<And>j. ej_requested_by (f j) = ej_requested_by j"
      "\<And>j. ej_params_hash (f j) = ej_params_hash j" "\<And>j. p j \<Longrightarrow> active (f j) \<Longrightarrow> active j"
    and fk: "ch_job ` set (xd_chunks db') \<subseteq> ej_id ` set (xd_jobs db)"
    and work: "dom w' \<subseteq> ej_id ` set (xd_jobs db)"
    and step: "\<And>j. j \<in> set (xd_jobs db) \<Longrightarrow> job_ok (ej_status j) (chunks_of db (ej_id j)) (w (ej_id j)) j
      \<Longrightarrow> job_ok (ej_status (if p j then f j else j)) (chunks_of db' (ej_id j)) (w' (ej_id j)) (if p j then f j else j)"
  shows "export_inv (sys db' w')"
proof -
  have keys: "job_keys_ok db w" and lim: "limits_ok (xd_jobs db)" and ok: "jobs_ok db w"
    using inv by (simp_all add: export_inv_def)
  have ids: "map ej_id (xd_jobs db') = map ej_id (xd_jobs db)" using f(1) by (simp add: jobs)
  have idset: "ej_id ` set (xd_jobs db') = ej_id ` set (xd_jobs db)"
    using arg_cong [OF ids, of set] by simp
  have "job_keys_ok db' w'"
    unfolding job_keys_ok_def ids idset
  proof (intro conjI)
    show "distinct (map ej_id (xd_jobs db))" using keys by (simp add: job_keys_ok_def)
    have "\<forall>i \<in> ej_id ` set (xd_jobs db). i < xd_next_id db" using keys by (simp add: job_keys_ok_def)
    then show "\<forall>j \<in> set (xd_jobs db'). ej_id j < xd_next_id db'" unfolding nid idset [symmetric] by blast
    show "\<forall>c \<in> set (xd_chunks db'). ch_job c \<in> ej_id ` set (xd_jobs db)" using fk by blast
  qed (rule work)
  moreover have "limits_ok (xd_jobs db')" unfolding jobs by (rule limits_ok_update [OF lim f(2,3,4)])
  moreover have "jobs_ok db' w'"
    unfolding jobs_ok_def
  proof
    fix j' assume "j' \<in> set (xd_jobs db')"
    then obtain j where j: "j \<in> set (xd_jobs db)" "j' = (if p j then f j else j)"
      unfolding jobs update_where_def by auto
    then have "ej_id j' = ej_id j" using f(1) by simp
    then show "job_ok (ej_status j') (chunks_of db' (ej_id j')) (w' (ej_id j')) j'"
      using step [OF j(1)] ok j unfolding jobs_ok_def by simp
  qed
  ultimately show ?thesis by (simp add: export_inv_def)
qed

section \<open>Every step keeps the invariant\<close>

lemma update_jobs_simps [simp]:
  "xd_jobs (snd (update_jobs p f db)) = update_where p f (xd_jobs db)"
  "xd_chunks (snd (update_jobs p f db)) = xd_chunks db"
  "xd_next_id (snd (update_jobs p f db)) = xd_next_id db"
  "xd_audit (snd (update_jobs p f db)) = xd_audit db"
  "chunks_of (snd (update_jobs p f db)) = chunks_of db"
  by (simp_all add: update_jobs_def chunks_of_def fun_eq_iff)

lemma DeleteExportJobChunks_simps [simp]:
  "xd_jobs (DeleteExportJobChunks jid db) = xd_jobs db"
  "xd_next_id (DeleteExportJobChunks jid db) = xd_next_id db"
  "xd_audit (DeleteExportJobChunks jid db) = xd_audit db"
  "set (xd_chunks (DeleteExportJobChunks jid db)) \<subseteq> set (xd_chunks db)"
  "chunks_of (DeleteExportJobChunks jid db) i = (if i = jid then [] else chunks_of db i)"
  by (auto simp: DeleteExportJobChunks_def chunks_of_def filter_False intro!: arg_cong [of _ _ "map _"] filter_cong)

lemma delete_chunks_of_simps [simp]:
  "xd_jobs (delete_chunks_of ids db) = xd_jobs db"
  "xd_next_id (delete_chunks_of ids db) = xd_next_id db"
  "xd_audit (delete_chunks_of ids db) = xd_audit db"
  "set (xd_chunks (delete_chunks_of ids db)) \<subseteq> set (xd_chunks db)"
  "chunks_of (delete_chunks_of ids db) i = (if i \<in> ids then [] else chunks_of db i)"
  by (auto simp: delete_chunks_of_def chunks_of_def filter_empty_conv intro!: arg_cong [of _ _ "map _"] filter_cong)

lemma export_inv_fk:
  assumes "export_inv (sys db w)"
  shows "ch_job ` set (xd_chunks db) \<subseteq> ej_id ` set (xd_jobs db)" "dom w \<subseteq> ej_id ` set (xd_jobs db)"
  using assms by (auto simp: export_inv_def job_keys_ok_def)

text \<open>An update of statuses that leaves the chunks alone.\<close>

lemma export_inv_update_jobs:
  assumes inv: "export_inv (sys db w)"
    and f: "\<And>j. ej_id (f j) = ej_id j" "\<And>j. ej_requested_by (f j) = ej_requested_by j"
      "\<And>j. ej_params_hash (f j) = ej_params_hash j" "\<And>j. p j \<Longrightarrow> active (f j) \<Longrightarrow> active j"
    and work: "dom w' \<subseteq> ej_id ` set (xd_jobs db)"
    and step: "\<And>j. j \<in> set (xd_jobs db) \<Longrightarrow> job_ok (ej_status j) (chunks_of db (ej_id j)) (w (ej_id j)) j
      \<Longrightarrow> job_ok (ej_status (if p j then f j else j)) (chunks_of db (ej_id j)) (w' (ej_id j)) (if p j then f j else j)"
  shows "export_inv (sys (snd (update_jobs p f db)) w')"
  by (rule export_inv_update [OF inv, where p = p and f = f])
     (use f work step export_inv_fk(1) [OF inv] in \<open>simp_all\<close>)

text \<open>The same, with the chunks of the updated jobs deleted.\<close>

lemma export_inv_update_delete:
  assumes inv: "export_inv (sys db w)"
    and f: "\<And>j. ej_id (f j) = ej_id j" "\<And>j. ej_requested_by (f j) = ej_requested_by j"
      "\<And>j. ej_params_hash (f j) = ej_params_hash j" "\<And>j. p j \<Longrightarrow> active (f j) \<Longrightarrow> active j"
    and work: "dom w' \<subseteq> ej_id ` set (xd_jobs db)"
    and step: "\<And>j. j \<in> set (xd_jobs db) \<Longrightarrow> job_ok (ej_status j) (chunks_of db (ej_id j)) (w (ej_id j)) j
      \<Longrightarrow> job_ok (ej_status (if p j then f j else j)) (if ej_id j \<in> ids then [] else chunks_of db (ej_id j))
            (w' (ej_id j)) (if p j then f j else j)"
  shows "export_inv (sys (delete_chunks_of ids (snd (update_jobs p f db))) w')"
proof (rule export_inv_update [OF inv, where p = p and f = f])
  have "set (xd_chunks (delete_chunks_of ids (snd (update_jobs p f db)))) \<subseteq> set (xd_chunks db)"
    using delete_chunks_of_simps(4) [of ids "snd (update_jobs p f db)"] by simp
  then show "ch_job ` set (xd_chunks (delete_chunks_of ids (snd (update_jobs p f db)))) \<subseteq> ej_id ` set (xd_jobs db)"
    using export_inv_fk(1) [OF inv] by blast
  fix j assume "j \<in> set (xd_jobs db)" "job_ok (ej_status j) (chunks_of db (ej_id j)) (w (ej_id j)) j"
  from step [OF this] show "job_ok (ej_status (if p j then f j else j))
      (chunks_of (delete_chunks_of ids (snd (update_jobs p f db))) (ej_id j)) (w' (ej_id j)) (if p j then f j else j)"
    by (simp only: delete_chunks_of_simps update_jobs_simps)
qed (use f work in simp_all)

lemma DeleteExportJobChunks_eq: "DeleteExportJobChunks jid db = delete_chunks_of {jid} db"
  by (simp add: DeleteExportJobChunks_def delete_chunks_of_def)

lemma progress_inv:
  assumes "export_inv (sys db w)"
  shows "export_inv (sys (snd (worker_progress flt ctxDone jid rows db)) w)"
proof -
  have "export_inv (sys (snd (UpdateExportJobProgress rows jid db)) w)"
    unfolding UpdateExportJobProgress_def
    by (rule export_inv_update_jobs [OF assms])
       (use export_inv_fk(2) [OF assms] in \<open>auto simp: active_def\<close>)
  then show ?thesis using assms by (auto simp: worker_progress_def Let_def split: prod.splits)
qed

lemma mark_succeeded_inv:
  assumes inv: "export_inv (sys db w)" and w: "w jid = Some (Writing ds)"
    and wk: "wk \<in> {None, Some Broken}"
  shows "export_inv (sys (snd (MarkExportJobSucceeded now ret rows (int (length (concat ds))) (int (length ds)) jid db))
           (w(jid := wk)))"
  unfolding MarkExportJobSucceeded_def
proof (rule export_inv_update_jobs [OF inv])
  show "dom (w(jid := wk)) \<subseteq> ej_id ` set (xd_jobs db)" using export_inv_fk(2) [OF inv] w by (auto split: if_splits)
  fix j assume "j \<in> set (xd_jobs db)" and ok: "job_ok (ej_status j) (chunks_of db (ej_id j)) (w (ej_id j)) j"
  let ?f = "\<lambda>j. j\<lparr>ej_status := Succeeded, ej_finished_at := Some now, ej_expires_at := Some (now + ret),
       ej_row_count := rows, ej_byte_size := Some (int (length (concat ds))), ej_chunk_count := Some (int (length ds))\<rparr>"
  show "job_ok (ej_status (if ej_id j = jid \<and> ej_status j = Running then ?f j else j)) (chunks_of db (ej_id j))
      ((w(jid := wk)) (ej_id j)) (if ej_id j = jid \<and> ej_status j = Running then ?f j else j)"
  proof (cases "ej_id j = jid")
    case True
    then show ?thesis using ok w wk
      by (cases "ej_status j") (auto simp: file_ready_def)
  qed (use ok in simp)
qed (simp_all add: active_def)

text \<open>A worker that gives up keeps the invariant; so does one that finds its job taken away.\<close>

lemma broken_inv:
  assumes inv: "export_inv (sys db w)" and w: "w jid = Some (Writing ds)"
  shows "export_inv (sys db (w(jid \<mapsto> Broken)))"
proof -
  have "export_inv (sys (snd (update_jobs (\<lambda>_. False) id db)) (w(jid \<mapsto> Broken)))"
  proof (rule export_inv_update_jobs [OF inv])
    show "dom (w(jid \<mapsto> Broken)) \<subseteq> ej_id ` set (xd_jobs db)" using export_inv_fk(2) [OF inv] w by auto
    fix j assume ok: "job_ok (ej_status j) (chunks_of db (ej_id j)) (w (ej_id j)) j"
    show "job_ok (ej_status (if False then id j else j)) (chunks_of db (ej_id j)) ((w(jid \<mapsto> Broken)) (ej_id j))
        (if False then id j else j)"
      using ok w by (cases "ej_id j = jid"; cases "ej_status j") auto
  qed simp_all
  moreover have "snd (update_jobs (\<lambda>_. False) id db) = db" by (simp add: update_jobs_def update_where_def)
  ultimately show ?thesis by simp
qed

lemma lost_inv:
  assumes inv: "export_inv (sys db w)" and w: "w jid = Some (Writing ds)"
    and none: "\<forall>j \<in> set (xd_jobs db). \<not> (ej_id j = jid \<and> ej_status j = Running)"
  shows "export_inv (sys (DeleteExportJobChunks jid db) (w(jid \<mapsto> Broken)))"
proof -
  have "export_inv (sys (delete_chunks_of {jid} (snd (update_jobs (\<lambda>_. False) id db))) (w(jid \<mapsto> Broken)))"
  proof (rule export_inv_update_delete [OF inv])
    show "dom (w(jid \<mapsto> Broken)) \<subseteq> ej_id ` set (xd_jobs db)" using export_inv_fk(2) [OF inv] w by auto
    fix j assume "j \<in> set (xd_jobs db)" and ok: "job_ok (ej_status j) (chunks_of db (ej_id j)) (w (ej_id j)) j"
    with none w show "job_ok (ej_status (if False then id j else j))
        (if ej_id j \<in> {jid} then [] else chunks_of db (ej_id j)) ((w(jid \<mapsto> Broken)) (ej_id j)) (if False then id j else j)"
      by (cases "ej_id j = jid"; cases "ej_status j") auto
  qed simp_all
  moreover have "snd (update_jobs (\<lambda>_. False) id db) = db" by (simp add: update_jobs_def update_where_def)
  ultimately show ?thesis by (simp add: DeleteExportJobChunks_eq)
qed

lemma update_jobs_none:
  "fst (update_jobs p f db) = 0 \<Longrightarrow> (\<forall>j \<in> set (xd_jobs db). \<not> p j) \<and> snd (update_jobs p f db) = db"
  by (auto simp: update_jobs_def filter_empty_conv update_where_none)

lemma succeed_inv:
  assumes inv: "export_inv (sys db w)" and w: "w jid = Some (Writing ds)"
    and run: "worker_succeed flt now jid rows (int (length (concat ds))) (int (length ds)) db = (r4, db')"
    and w': "w' = (if r4 = Inr () then w(jid := None) else w(jid \<mapsto> Broken))"
  shows "export_inv (sys db' w')"
proof -
  let ?m = "MarkExportJobSucceeded now Retention rows (int (length (concat ds))) (int (length ds)) jid db"
  note ms = mark_succeeded_inv [OF inv w, of None now Retention rows]
  consider "flt XUpdate" | "\<not> flt XUpdate" "fst ?m = 0" | "\<not> flt XUpdate" "fst ?m \<noteq> 0" by blast
  then show ?thesis
  proof cases
    case 1
    then show ?thesis using run w' broken_inv [OF inv w] by (auto simp: worker_succeed_def)
  next
    case 2
    then have "\<forall>j \<in> set (xd_jobs db). \<not> (ej_id j = jid \<and> ej_status j = Running)" "snd ?m = db"
      using update_jobs_none unfolding MarkExportJobSucceeded_def by blast+
    then show ?thesis
      using 2 run w' broken_inv [OF inv w] lost_inv [OF inv w]
      by (auto simp: worker_succeed_def Let_def split_beta split: if_splits)
  next
    case 3
    then show ?thesis using run w' ms by (auto simp: worker_succeed_def Let_def split_beta)
  qed
qed

lemma worker_gone_inv:
  assumes inv: "export_inv (sys db w)" and "w jid \<noteq> None"
  shows "export_inv (sys db (w(jid := None)))"
proof -
  have "export_inv (sys (snd (update_jobs (\<lambda>_. False) id db)) (w(jid := None)))"
  proof (rule export_inv_update_jobs [OF inv])
    show "dom (w(jid := None)) \<subseteq> ej_id ` set (xd_jobs db)" using export_inv_fk(2) [OF inv] by auto
    fix j assume ok: "job_ok (ej_status j) (chunks_of db (ej_id j)) (w (ej_id j)) j"
    show "job_ok (ej_status (if False then id j else j)) (chunks_of db (ej_id j)) ((w(jid := None)) (ej_id j))
        (if False then id j else j)"
      using ok by (cases "ej_id j = jid"; cases "ej_status j") auto
  qed simp_all
  moreover have "snd (update_jobs (\<lambda>_. False) id db) = db" by (simp add: update_jobs_def update_where_def)
  ultimately show ?thesis by simp
qed

lemma store_transition_inv:
  assumes inv: "export_inv (sys db w)" and w: "w jid \<noteq> None"
    and upd: "upd = update_jobs (\<lambda>j. ej_id j = jid \<and> ej_status j = Running) f"
    and f: "\<And>j. ej_id (f j) = ej_id j" "\<And>j. ej_requested_by (f j) = ej_requested_by j"
      "\<And>j. ej_params_hash (f j) = ej_params_hash j" "\<And>j. ej_status (f j) = st" "st = Failed \<or> st = Queued"
  shows "export_inv (sys (snd (store_transition flt jid upd db)) (w(jid := None)))"
proof -
  have "export_inv (sys (delete_chunks_of {jid} (snd (upd db))) (w(jid := None)))"
    if n: "fst (upd db) \<noteq> 0"
    unfolding upd
  proof (rule export_inv_update_delete [OF inv f(1-3)])
    show "dom (w(jid := None)) \<subseteq> ej_id ` set (xd_jobs db)" using export_inv_fk(2) [OF inv] by auto
    have "\<exists>r \<in> set (xd_jobs db). ej_id r = jid \<and> ej_status r = Running"
    proof (rule ccontr)
      assume "\<not> ?thesis"
      then have "filter (\<lambda>j. ej_id j = jid \<and> ej_status j = Running) (xd_jobs db) = []"
        by (auto simp: filter_empty_conv)
      then show False using n by (simp add: upd update_jobs_def)
    qed
    then obtain r where r: "r \<in> set (xd_jobs db)" "ej_id r = jid" "ej_status r = Running" by blast
    fix j assume j: "j \<in> set (xd_jobs db)" and ok: "job_ok (ej_status j) (chunks_of db (ej_id j)) (w (ej_id j)) j"
    have dist: "distinct (map ej_id (xd_jobs db))" using inv by (simp add: export_inv_def job_keys_ok_def)
    have same: "ej_id j = jid \<Longrightarrow> ej_status j = Running"
      using distinct_key_eq [OF dist j r(1)] r(2,3) by simp
    show "job_ok (ej_status (if ej_id j = jid \<and> ej_status j = Running then f j else j))
        (if ej_id j \<in> {jid} then [] else chunks_of db (ej_id j)) ((w(jid := None)) (ej_id j))
        (if ej_id j = jid \<and> ej_status j = Running then f j else j)"
      using ok same f(4,5) by (cases "ej_id j = jid") auto
  qed (use f(4,5) in \<open>auto simp: active_def\<close>)
  then show ?thesis
    using worker_gone_inv [OF inv w]
    by (auto simp: store_transition_def Let_def split_beta DeleteExportJobChunks_eq)
qed

lemma finish_failed_inv:
  assumes inv: "export_inv (sys db w)" and w: "w jid \<noteq> None"
  shows "export_inv (sys (worker_finish_failed flt now cancelled ctxDeadline jid e db) (w(jid := None)))"
proof -
  have "export_inv (sys (snd (store_Release flt jid db)) (w(jid := None)))"
    unfolding store_Release_def ReleaseExportJob_def
    by (rule store_transition_inv [where st = Queued, OF inv w refl]) simp_all
  moreover have "export_inv (sys (snd (store_MarkFailed flt now jid msg db)) (w(jid := None)))" for msg
    unfolding store_MarkFailed_def MarkExportJobFailed_def
    by (rule store_transition_inv [where st = Failed, OF inv w refl]) simp_all
  ultimately show ?thesis by (simp add: worker_finish_failed_def)
qed

lemma claim_inv:
  assumes inv: "export_inv (sys db w)" and c: "ClaimNextExportJob now db = Some (j0, db')"
  shows "export_inv (sys db' (w(ej_id j0 \<mapsto> Writing [])))" and "export_inv (sys db' w)"
proof -
  from c obtain q where q: "first_min ej_id (filter (\<lambda>j. ej_status j = Queued) (xd_jobs db)) = Some q"
    and j0: "j0 = q\<lparr>ej_status := Running, ej_started_at := Some now\<rparr>"
    and db': "db' = snd (update_jobs (\<lambda>j. ej_id j = ej_id q)
        (\<lambda>j. j\<lparr>ej_status := Running, ej_started_at := Some now\<rparr>) db)"
    by (auto simp: ClaimNextExportJob_def split: option.splits)
  have q_in: "q \<in> set (xd_jobs db)" "ej_status q = Queued" using first_min_Some [OF q] by auto
  have dist: "distinct (map ej_id (xd_jobs db))" using inv by (simp add: export_inv_def job_keys_ok_def)
  have only: "ej_id j = ej_id q \<Longrightarrow> j = q" if "j \<in> set (xd_jobs db)" for j
    using distinct_key_eq [OF dist that q_in(1)] by blast
  have id0: "ej_id j0 = ej_id q" by (simp add: j0)
  have upd: "export_inv (sys db' w')" if w': "w' = w \<or> w' = w(ej_id q \<mapsto> Writing [])" for w'
    unfolding db'
  proof (rule export_inv_update [OF inv, where p = "\<lambda>j. j = q"
        and f = "\<lambda>j. j\<lparr>ej_status := Running, ej_started_at := Some now\<rparr>"])
    show "xd_jobs (snd (update_jobs (\<lambda>j. ej_id j = ej_id q) (\<lambda>j. j\<lparr>ej_status := Running, ej_started_at := Some now\<rparr>) db))
        = update_where (\<lambda>j. j = q) (\<lambda>j. j\<lparr>ej_status := Running, ej_started_at := Some now\<rparr>) (xd_jobs db)"
      using only by (auto simp: update_where_def intro: map_cong)
    note dw = export_inv_fk(2) [OF inv]
    show "dom w' \<subseteq> ej_id ` set (xd_jobs db)"
      using w' by (elim disjE) (simp_all only: dw dom_upd_subset [OF dw imageI [OF q_in(1)]])
    fix j assume j: "j \<in> set (xd_jobs db)" and ok: "job_ok (ej_status j) (chunks_of db (ej_id j)) (w (ej_id j)) j"
    show "job_ok (ej_status (if j = q then j\<lparr>ej_status := Running, ej_started_at := Some now\<rparr> else j))
        (chunks_of (snd (update_jobs (\<lambda>j. ej_id j = ej_id q) (\<lambda>j. j\<lparr>ej_status := Running, ej_started_at := Some now\<rparr>) db)) (ej_id j))
        (w' (ej_id j)) (if j = q then j\<lparr>ej_status := Running, ej_started_at := Some now\<rparr> else j)"
      using ok q_in w' only [OF j] by (cases "j = q") auto
  qed (use export_inv_fk(1) [OF inv] q_in in \<open>simp_all add: active_def\<close>)
  show "export_inv (sys db' (w(ej_id j0 \<mapsto> Writing [])))" unfolding id0 by (rule upd) simp
  show "export_inv (sys db' w)" by (rule upd) simp
qed

lemma chunk_inv:
  assumes inv: "export_inv (sys db w)" and w: "w jid = Some (Writing ds)"
    and ins: "InsertExportJobChunk jid (int (length ds)) d db = Some db'"
    and w': "w' = w(jid \<mapsto> Writing (ds @ [d])) \<or> w' = w(jid \<mapsto> Broken)"
  shows "export_inv (sys db' w')"
proof (rule export_inv_update [OF inv, where p = "\<lambda>_. False" and f = id])
  have db': "db' = db\<lparr>xd_chunks := xd_chunks db @ [\<lparr>ch_job = jid, ch_seq = int (length ds), ch_data = d\<rparr>]\<rparr>"
    and fk: "jid \<in> ej_id ` set (xd_jobs db)"
    using ins by (auto simp: InsertExportJobChunk_def split: if_splits)
  have chunks: "chunks_of db' i = (if i = jid then chunks_of db i @ [(int (length ds), d)] else chunks_of db i)" for i
    by (simp add: db' chunks_of_def)
  show "xd_jobs db' = update_where (\<lambda>_. False) id (xd_jobs db)" by (simp add: db' update_where_def)
  show "xd_next_id db' = xd_next_id db" by (simp add: db')
  show "ch_job ` set (xd_chunks db') \<subseteq> ej_id ` set (xd_jobs db)"
    using export_inv_fk(1) [OF inv] fk by (auto simp: db')
  show "dom w' \<subseteq> ej_id ` set (xd_jobs db)"
    using w' by (elim disjE) (simp_all only: dom_upd_subset [OF export_inv_fk(2) [OF inv] fk])
  fix j assume ok: "job_ok (ej_status j) (chunks_of db (ej_id j)) (w (ej_id j)) j"
  show "job_ok (ej_status (if False then id j else j)) (chunks_of db' (ej_id j)) (w' (ej_id j)) (if False then id j else j)"
    using ok w w' by (cases "ej_id j = jid"; cases "ej_status j") (auto simp: chunks)
qed simp_all

lemma start_download_inv:
  assumes inv: "export_inv (sys db w)" and s: "StartExportJobDownload now jid uid db = Some (j0, db')"
  shows "export_inv (sys db' w)"
proof -
  from s obtain p where db': "db' = snd (update_jobs p (\<lambda>j. j\<lparr>ej_status := Downloading, ej_download_started_at := Some now\<rparr>) db)"
    and p: "\<And>j. p j \<Longrightarrow> ej_status j = Succeeded"
    by (auto simp: StartExportJobDownload_def Let_def)
  show ?thesis
    unfolding db'
  proof (rule export_inv_update_jobs [OF inv])
    fix j assume ok: "job_ok (ej_status j) (chunks_of db (ej_id j)) (w (ej_id j)) j"
    show "job_ok (ej_status (if p j then j\<lparr>ej_status := Downloading, ej_download_started_at := Some now\<rparr> else j))
        (chunks_of db (ej_id j)) (w (ej_id j)) (if p j then j\<lparr>ej_status := Downloading, ej_download_started_at := Some now\<rparr> else j)"
      using ok p by (auto simp: file_ready_def)
  qed (use p export_inv_fk(2) [OF inv] in \<open>auto simp: active_def\<close>)
qed

lemma audit_write_inv:
  assumes "export_inv (sys db w)" "audit_write flt e db = Some db'"
  shows "export_inv (sys db' w)"
proof -
  from assms(2) have e: "xd_jobs db' = xd_jobs db" "xd_chunks db' = xd_chunks db" "xd_next_id db' = xd_next_id db"
    by (auto simp: audit_write_def split: if_splits)
  then have "chunks_of db' = chunks_of db" by (simp add: chunks_of_def fun_eq_iff)
  with e assms(1) show ?thesis by (simp add: export_inv_def job_keys_ok_def jobs_ok_def)
qed

lemma limits_ok_snoc:
  assumes ok: "limits_ok js" and lim: "int (length (filter (\<lambda>x. ej_requested_by x = ej_requested_by j \<and> active x) js)) < MaxActivePerUser"
    and fresh: "\<forall>x \<in> set js. ej_requested_by x = ej_requested_by j \<longrightarrow> ej_params_hash x = ej_params_hash j \<longrightarrow> \<not> active x"
  shows "limits_ok (js @ [j])"
proof -
  have "int (length (filter (\<lambda>x. ej_requested_by x = uid \<and> active x) (js @ [j]))) \<le> MaxActivePerUser" for uid
  proof (cases "ej_requested_by j = uid")
    case True
    then show ?thesis using lim by simp
  next
    case False
    then show ?thesis using ok by (simp add: limits_ok_def)
  qed
  moreover have "distinct (map (\<lambda>j. (ej_requested_by j, ej_params_hash j)) (filter active (js @ [j])))"
    using ok fresh by (auto simp: limits_ok_def)
  ultimately show ?thesis unfolding limits_ok_def by blast
qed

lemma insert_inv:
  assumes inv: "export_inv (sys db w)" and n: "CountActiveExportJobs db uid < MaxActivePerUser"
    and ins: "InsertExportJob now uid p vcode bcode h fname db = Some (j, db')"
  shows "export_inv (sys db' w)"
proof -
  have keys: "job_keys_ok db w" and lim: "limits_ok (xd_jobs db)" and ok: "jobs_ok db w"
    using inv by (simp_all add: export_inv_def)
  from ins have j: "ej_id j = xd_next_id db" "ej_requested_by j = uid" "ej_params_hash j = h" "ej_status j = Queued"
    and db': "db' = db\<lparr>xd_jobs := xd_jobs db @ [j], xd_next_id := xd_next_id db + 1\<rparr>"
    and nf: "FindActiveExportJobByHash db uid h = None"
    by (auto simp: InsertExportJob_def Let_def split: if_splits)
  have fresh: "ej_id j \<notin> ej_id ` set (xd_jobs db)" using keys j(1) by (auto simp: job_keys_ok_def)
  have "\<forall>c \<in> set (xd_chunks db). ch_job c \<noteq> ej_id j" using keys fresh unfolding job_keys_ok_def by metis
  then have empty: "chunks_of db (ej_id j) = []" "w (ej_id j) = None"
    using keys fresh by (auto simp: job_keys_ok_def chunks_of_def filter_empty_conv)
  have same: "chunks_of db' = chunks_of db" by (simp add: db' chunks_of_def fun_eq_iff)
  have "job_keys_ok db' w"
    unfolding job_keys_ok_def
  proof (intro conjI)
    show "distinct (map ej_id (xd_jobs db'))" using keys fresh by (simp add: job_keys_ok_def db')
    show "\<forall>j \<in> set (xd_jobs db'). ej_id j < xd_next_id db'" using keys j(1) by (simp add: job_keys_ok_def db') (meson less_imp_le)
    show "\<forall>c \<in> set (xd_chunks db'). ch_job c \<in> ej_id ` set (xd_jobs db')" using keys by (simp add: job_keys_ok_def db')
    show "dom w \<subseteq> ej_id ` set (xd_jobs db')" using keys by (simp add: job_keys_ok_def db' subset_insertI2)
  qed
  moreover have "limits_ok (xd_jobs db')"
    unfolding db' using limits_ok_snoc [OF lim, of j] n nf j
    by (auto simp: CountActiveExportJobs_def FindActiveExportJobByHash_def find_row_None)
  moreover have "jobs_ok db' w"
    using ok empty j(4) unfolding jobs_ok_def same by (auto simp: db')
  ultimately show ?thesis by (simp add: export_inv_def)
qed

lemma create_inv:
  assumes inv: "export_inv (sys db w)"
  shows "export_inv (sys (snd (Service_Create sha marshal id flt now day a p db)) w)"
proof -
  have "export_inv (sys s' w)" if "create_tx flt now a p vcode bcode h fname db = Inr (r, s')"
    for vcode bcode h fname r s'
  proof (cases "FindActiveExportJobByHash db (act_user_id a) h")
    case (Some j)
    then show ?thesis using that inv by (auto simp: create_tx_def split: if_splits)
  next
    case None
    with that obtain j db1 e where "CountActiveExportJobs db (act_user_id a) < MaxActivePerUser"
        "InsertExportJob now (act_user_id a) p vcode bcode h fname db = Some (j, db1)"
        "audit_write (flt XAudit) e db1 = Some s'"
      by (auto simp: create_tx_def not_le split: if_splits option.splits)
    then show ?thesis using insert_inv [OF inv] audit_write_inv by blast
  qed
  then have "export_inv (sys (snd (run_in_tx c ce (create_tx flt now a p vcode bcode h fname) db)) w)"
    for c ce vcode bcode h fname
    using inv by (cases "create_tx flt now a p vcode bcode h fname db") (auto simp: run_in_tx_def)
  then show ?thesis using inv
    by (auto simp: Service_Create_def split: sum.splits)
qed

lemma service_start_inv:
  assumes inv: "export_inv (sys db w)"
  shows "export_inv (sys (snd (Service_StartDownload id flt now a jid db)) w)"
proof -
  have "export_inv (sys s' w)" if "start_download_tx flt now a jid db = Inr (r, s')" for r s'
    using that inv
    by (auto simp: start_download_tx_def split: if_splits option.splits elim!: audit_write_inv [rotated] intro: start_download_inv)
  then have "export_inv (sys (snd (run_in_tx c ce (start_download_tx flt now a jid) db)) w)" for c ce
    using inv by (cases "start_download_tx flt now a jid db") (auto simp: run_in_tx_def)
  from this [of "\<not> flt XCommit" "DlErr ErrInternal"] show ?thesis using inv
    by (auto simp: Service_StartDownload_def split: sum.splits option.splits prod.splits download_err.splits)
qed

lemma complete_inv:
  assumes inv: "export_inv (sys db w)"
  shows "export_inv (sys (snd (Service_CompleteDownload flt now jid db)) w)"
proof -
  let ?f = "\<lambda>j. j\<lparr>ej_status := Downloaded, ej_downloaded_at := Some now\<rparr>"
  have "export_inv (sys (delete_chunks_of {jid} (snd (CompleteExportJobDownload now jid db))) w)"
    if n: "fst (CompleteExportJobDownload now jid db) \<noteq> 0"
    unfolding CompleteExportJobDownload_def
  proof (rule export_inv_update_delete [OF inv])
    have "\<exists>r \<in> set (xd_jobs db). ej_id r = jid \<and> ej_status r = Downloading"
      using n by (auto simp: CompleteExportJobDownload_def update_jobs_def filter_empty_conv)
    then obtain r where r: "r \<in> set (xd_jobs db)" "ej_id r = jid" "ej_status r = Downloading" by blast
    fix j assume j: "j \<in> set (xd_jobs db)" and ok: "job_ok (ej_status j) (chunks_of db (ej_id j)) (w (ej_id j)) j"
    have dist: "distinct (map ej_id (xd_jobs db))" using inv by (simp add: export_inv_def job_keys_ok_def)
    have same: "ej_id j = jid \<Longrightarrow> ej_status j = Downloading"
      using distinct_key_eq [OF dist j r(1)] r(2,3) by simp
    show "job_ok (ej_status (if ej_id j = jid \<and> ej_status j = Downloading then ?f j else j))
        (if ej_id j \<in> {jid} then [] else chunks_of db (ej_id j)) (w (ej_id j))
        (if ej_id j = jid \<and> ej_status j = Downloading then ?f j else j)"
      using ok same by (cases "ej_id j = jid") auto
  qed (use export_inv_fk(2) [OF inv] in \<open>auto simp: active_def\<close>)
  then have "export_inv (sys s' w)" if "complete_tx flt now jid db = Inr (r, s')" for r s'
    using that by (auto simp: complete_tx_def Let_def split_beta DeleteExportJobChunks_eq split: if_splits)
  then show ?thesis
    using inv by (cases "complete_tx flt now jid db") (auto simp: Service_CompleteDownload_def run_in_tx_def)
qed

lemma abort_inv:
  assumes inv: "export_inv (sys db w)"
  shows "export_inv (sys (snd (Service_AbortDownload flt jid db)) w)"
proof -
  have "export_inv (sys (snd (AbortExportJobDownload jid db)) w)"
    unfolding AbortExportJobDownload_def
    by (rule export_inv_update_jobs [OF inv])
       (use export_inv_fk(2) [OF inv] in \<open>auto simp: active_def file_ready_def\<close>)
  then show ?thesis using inv by (auto simp: Service_AbortDownload_def Let_def split_beta)
qed

section \<open>The janitor\<close>

lemma fail_timed_out_inv:
  assumes inv: "export_inv (sys db w)"
  shows "export_inv (sys (snd (FailTimedOutExportJobs now msg tmo db)) w)"
proof -
  let ?f = "\<lambda>j. j\<lparr>ej_status := Failed, ej_finished_at := Some now, ej_error_message := Some msg\<rparr>"
  let ?ids = "set (map ej_id (filter (timed_out now tmo) (xd_jobs db)))"
  have dist: "distinct (map ej_id (xd_jobs db))" using inv by (simp add: export_inv_def job_keys_ok_def)
  have "export_inv (sys (delete_chunks_of ?ids (snd (update_jobs (timed_out now tmo) ?f db))) w)"
  proof (rule export_inv_update_delete [OF inv])
    fix j assume j: "j \<in> set (xd_jobs db)" and ok: "job_ok (ej_status j) (chunks_of db (ej_id j)) (w (ej_id j)) j"
    have "ej_id j \<in> ?ids \<longleftrightarrow> timed_out now tmo j" by (rule key_of_filter [OF dist j])
    then show "job_ok (ej_status (if timed_out now tmo j then ?f j else j))
        (if ej_id j \<in> ?ids then [] else chunks_of db (ej_id j)) (w (ej_id j)) (if timed_out now tmo j then ?f j else j)"
      using ok by simp
  qed (use export_inv_fk(2) [OF inv] in \<open>auto simp: active_def timed_out_def\<close>)
  then show ?thesis by (simp add: FailTimedOutExportJobs_def Let_def)
qed

lemma recover_inv:
  assumes inv: "export_inv (sys db w)"
  shows "export_inv (sys (snd (RecoverStaleDownloads now lease db)) w)"
  unfolding RecoverStaleDownloads_def
  by (rule export_inv_update_jobs [OF inv])
     (use export_inv_fk(2) [OF inv] in \<open>auto simp: active_def file_ready_def\<close>)

lemma expire_inv:
  assumes inv: "export_inv (sys db w)"
  shows "export_inv (sys (snd (ExpireExportJobs now db)) w)"
proof -
  let ?f = "\<lambda>j. j\<lparr>ej_status := Expired, ej_expired_at := Some now\<rparr>"
  let ?ids = "set (map ej_id (filter (past_retention now) (xd_jobs db)))"
  have dist: "distinct (map ej_id (xd_jobs db))" using inv by (simp add: export_inv_def job_keys_ok_def)
  have "export_inv (sys (delete_chunks_of ?ids (snd (update_jobs (past_retention now) ?f db))) w)"
  proof (rule export_inv_update_delete [OF inv])
    fix j assume j: "j \<in> set (xd_jobs db)" and ok: "job_ok (ej_status j) (chunks_of db (ej_id j)) (w (ej_id j)) j"
    have "ej_id j \<in> ?ids \<longleftrightarrow> past_retention now j" by (rule key_of_filter [OF dist j])
    then show "job_ok (ej_status (if past_retention now j then ?f j else j))
        (if ej_id j \<in> ?ids then [] else chunks_of db (ej_id j)) (w (ej_id j)) (if past_retention now j then ?f j else j)"
      using ok by (auto simp: past_retention_def)
  qed (use export_inv_fk(2) [OF inv] in \<open>auto simp: active_def past_retention_def\<close>)
  then show ?thesis by (simp add: ExpireExportJobs_def Let_def)
qed

lemma orphan_chunks_of:
  assumes dist: "distinct (map ej_id (xd_jobs db))" and j: "j \<in> set (xd_jobs db)"
  shows "chunks_of (snd (DeleteOrphanExportJobChunks db)) (ej_id j)
    = (if keeps_chunks (ej_status j) then chunks_of db (ej_id j) else [])"
proof -
  have "(\<exists>x \<in> set (xd_jobs db). ej_id x = ej_id j \<and> \<not> keeps_chunks (ej_status x)) \<longleftrightarrow> \<not> keeps_chunks (ej_status j)"
    by (rule ex_key [OF dist j])
  then have "filter (\<lambda>c. ch_job c = ej_id j \<and> \<not> (\<exists>x \<in> set (xd_jobs db). ej_id x = ch_job c \<and> \<not> keeps_chunks (ej_status x))) (xd_chunks db)
      = (if keeps_chunks (ej_status j) then filter (\<lambda>c. ch_job c = ej_id j) (xd_chunks db) else [])"
    by (auto simp: filter_empty_conv intro!: filter_cong)
  then show ?thesis
    by (simp add: DeleteOrphanExportJobChunks_def chunks_of_def Let_def conj_commute)
qed

lemma sweep_inv:
  assumes inv: "export_inv (sys db w)"
  shows "export_inv (sys (snd (DeleteOrphanExportJobChunks db)) w)"
proof (rule export_inv_update [OF inv, where p = "\<lambda>_. False" and f = id])
  have dist: "distinct (map ej_id (xd_jobs db))" using inv by (simp add: export_inv_def job_keys_ok_def)
  show "xd_jobs (snd (DeleteOrphanExportJobChunks db)) = update_where (\<lambda>_. False) id (xd_jobs db)"
    "xd_next_id (snd (DeleteOrphanExportJobChunks db)) = xd_next_id db"
    by (simp_all add: DeleteOrphanExportJobChunks_def update_where_def Let_def)
  show "ch_job ` set (xd_chunks (snd (DeleteOrphanExportJobChunks db))) \<subseteq> ej_id ` set (xd_jobs db)"
    using export_inv_fk(1) [OF inv] by (auto simp: DeleteOrphanExportJobChunks_def Let_def)
  fix j assume j: "j \<in> set (xd_jobs db)" and ok: "job_ok (ej_status j) (chunks_of db (ej_id j)) (w (ej_id j)) j"
  show "job_ok (ej_status (if False then id j else j)) (chunks_of (snd (DeleteOrphanExportJobChunks db)) (ej_id j))
      (w (ej_id j)) (if False then id j else j)"
    unfolding orphan_chunks_of [OF dist j]
    using ok by (cases "ej_status j") (auto simp: keeps_chunks_def)
qed (use export_inv_fk(2) [OF inv] in simp_all)

lemma janitor_inv:
  assumes "export_inv (sys db w)"
  shows "export_inv (sys (Janitor_tick jf t1 t2 t3 db) w)"
  using assms unfolding Janitor_tick_def janitor_step_def
  by (auto intro!: fail_timed_out_inv recover_inv expire_inv sweep_inv)

lemma users_inv:
  assumes "export_inv (sys db w)"
  shows "export_inv (sys (db\<lparr>xd_users := us, xd_vendors := vs, xd_branches := bs\<rparr>) w)"
proof -
  have "chunks_of (db\<lparr>xd_users := us, xd_vendors := vs, xd_branches := bs\<rparr>) = chunks_of db"
    by (simp add: chunks_of_def fun_eq_iff)
  with assms show ?thesis by (simp add: export_inv_def job_keys_ok_def jobs_ok_def)
qed

lemma export_op_inv:
  assumes inv: "export_inv s" and op: "export_op s t"
  shows "export_inv t"
  using op inv
proof cases
  case create
  then show ?thesis using inv create_inv by (metis snd_conv)
next
  case start
  then show ?thesis using inv service_start_inv by (metis snd_conv)
next
  case complete
  then show ?thesis using inv complete_inv by (metis snd_conv)
next
  case abort
  then show ?thesis using inv abort_inv by (metis snd_conv)
next
  case claim
  then show ?thesis using inv claim_inv(1) by blast
next
  case claim_lost
  then show ?thesis using inv claim_inv(2) by blast
next
  case chunk
  then show ?thesis using inv chunk_inv by blast
next
  case chunk_unsure
  then show ?thesis using inv chunk_inv by blast
next
  case progress
  then show ?thesis using inv progress_inv by (metis snd_conv)
next
  case succeed
  then show ?thesis using inv succeed_inv by blast
next
  case (succeed_unsure w jid ds now rows db n db')
  then show ?thesis using inv mark_succeeded_inv [of db w jid ds "Some Broken" now Retention rows] by simp
next
  case finish_failed
  then show ?thesis using inv finish_failed_inv by blast
next
  case janitor
  then show ?thesis using inv janitor_inv by blast
next
  case users
  then show ?thesis using inv users_inv by blast
qed

interpretation export_sys: invariant_system export_init export_op export_inv
proof
  show "export_init s \<Longrightarrow> export_inv s" for s
    by (auto simp: export_init_def export_inv_def job_keys_ok_def limits_ok_def jobs_ok_def MaxActivePerUser_def)
  show "export_inv s \<Longrightarrow> export_op s t \<Longrightarrow> export_inv t" for s t by (rule export_op_inv)
qed

end
