(* ===== verification/Export_Runs.thy ===== *)
theory Export_Runs
  imports Export_Correct
begin

text \<open>
  Runs of the export system: the status graph that every job follows, what a download reads from
  the stored chunks, and the effects of the audited transactions.
\<close>

section \<open>The status graph\<close>

inductive status_step :: "export_status \<Rightarrow> export_status \<Rightarrow> bool" where
  "status_step Queued Running"
| "status_step Running Queued"
| "status_step Running Succeeded"
| "status_step Running Failed"
| "status_step Succeeded Downloading"
| "status_step Succeeded Expired"
| "status_step Downloading Succeeded"
| "status_step Downloading Downloaded"

inductive_cases status_step_FailedE: "status_step Failed s"
inductive_cases status_step_DownloadedE: "status_step Downloaded s"
inductive_cases status_step_ExpiredE: "status_step Expired s"

lemma terminal_status:
  assumes "status_step\<^sup>*\<^sup>* st st'" "st \<in> {Failed, Downloaded, Expired}"
  shows "st' = st"
  using assms
  by (induction rule: converse_rtranclp_induct)
     (auto elim: status_step_FailedE status_step_DownloadedE status_step_ExpiredE)

text \<open>
  \<open>evolves js js'\<close>: every job of \<open>js\<close> is still in \<open>js'\<close>, with its identity, owner, parameters and file
  name, and its status has followed the graph.
\<close>

definition same_job :: "export_job \<Rightarrow> export_job \<Rightarrow> bool" where
  "same_job j j' \<longleftrightarrow> ej_id j' = ej_id j \<and> ej_requested_by j' = ej_requested_by j \<and> ej_kind j' = ej_kind j
     \<and> ej_entity j' = ej_entity j \<and> ej_params_hash j' = ej_params_hash j \<and> ej_file_name j' = ej_file_name j"

definition evolves :: "export_job list \<Rightarrow> export_job list \<Rightarrow> bool" where
  "evolves js js' \<longleftrightarrow> (\<forall>j \<in> set js. \<exists>j' \<in> set js'. same_job j j' \<and> status_step\<^sup>*\<^sup>* (ej_status j) (ej_status j'))"

lemma evolves_refl [simp]: "evolves js js"
  unfolding evolves_def same_job_def by auto

lemma evolves_trans:
  assumes "evolves a b" "evolves b c" shows "evolves a c"
  unfolding evolves_def
proof
  fix j assume "j \<in> set a"
  then obtain j1 where j1: "j1 \<in> set b" "same_job j j1" "status_step\<^sup>*\<^sup>* (ej_status j) (ej_status j1)"
    using assms(1) unfolding evolves_def by blast
  then obtain j2 where j2: "j2 \<in> set c" "same_job j1 j2" "status_step\<^sup>*\<^sup>* (ej_status j1) (ej_status j2)"
    using assms(2) unfolding evolves_def by blast
  have "same_job j j2" using j1(2) j2(2) by (simp add: same_job_def)
  moreover have "status_step\<^sup>*\<^sup>* (ej_status j) (ej_status j2)" using j1(3) j2(3) by (rule rtranclp_trans)
  ultimately show "\<exists>j' \<in> set c. same_job j j' \<and> status_step\<^sup>*\<^sup>* (ej_status j) (ej_status j')" using j2(1) by blast
qed

lemma evolves_update:
  assumes "\<And>j. j \<in> set js \<Longrightarrow> p j \<Longrightarrow> same_job j (f j) \<and> (ej_status (f j) = ej_status j \<or> status_step (ej_status j) (ej_status (f j)))"
  shows "evolves js (update_where p f js)"
  unfolding evolves_def
proof
  fix j assume j: "j \<in> set js"
  show "\<exists>j' \<in> set (update_where p f js). same_job j j' \<and> status_step\<^sup>*\<^sup>* (ej_status j) (ej_status j')"
  proof (cases "p j")
    case True
    then have "f j \<in> set (update_where p f js)" using j by (force simp: update_where_def)
    then show ?thesis using assms [OF j True] by (intro bexI [of _ "f j"]) auto
  next
    case False
    then have "j \<in> set (update_where p f js)" using j by (force simp: update_where_def)
    then show ?thesis by (intro bexI [of _ j]) (auto simp: same_job_def)
  qed
qed

lemma evolves_update_jobs:
  assumes "\<And>j. p j \<Longrightarrow> same_job j (f j) \<and> (ej_status (f j) = ej_status j \<or> status_step (ej_status j) (ej_status (f j)))"
  shows "evolves (xd_jobs db) (xd_jobs (snd (update_jobs p f db)))"
  using evolves_update assms by simp

lemma evolves_append [simp]: "evolves js (js @ new)"
  unfolding evolves_def same_job_def by auto

lemmas status_defs = same_job_def status_step.simps

text \<open>Each statement follows the graph.\<close>

lemma query_evolves:
  "evolves (xd_jobs db) (xd_jobs (snd (UpdateExportJobProgress rows jid db)))"
  "evolves (xd_jobs db) (xd_jobs (snd (MarkExportJobSucceeded now ret rows nb cs jid db)))"
  "evolves (xd_jobs db) (xd_jobs (snd (MarkExportJobFailed now msg jid db)))"
  "evolves (xd_jobs db) (xd_jobs (snd (ReleaseExportJob jid db)))"
  "evolves (xd_jobs db) (xd_jobs (snd (CompleteExportJobDownload now jid db)))"
  "evolves (xd_jobs db) (xd_jobs (snd (AbortExportJobDownload jid db)))"
  "evolves (xd_jobs db) (xd_jobs (snd (RecoverStaleDownloads now lease db)))"
  unfolding UpdateExportJobProgress_def MarkExportJobSucceeded_def MarkExportJobFailed_def ReleaseExportJob_def
    CompleteExportJobDownload_def AbortExportJobDownload_def RecoverStaleDownloads_def
  by (rule evolves_update_jobs; simp add: status_defs)+

lemma janitor_query_evolves:
  "evolves (xd_jobs db) (xd_jobs (snd (FailTimedOutExportJobs now msg tmo db)))"
  "evolves (xd_jobs db) (xd_jobs (snd (ExpireExportJobs now db)))"
  "evolves (xd_jobs db) (xd_jobs (snd (DeleteOrphanExportJobChunks db)))"
  unfolding FailTimedOutExportJobs_def ExpireExportJobs_def Let_def DeleteOrphanExportJobChunks_def
  by (auto intro!: evolves_update simp: status_defs timed_out_def past_retention_def)

lemma claim_evolves:
  assumes "ClaimNextExportJob now db = Some (j0, db')" and dist: "distinct (map ej_id (xd_jobs db))"
  shows "evolves (xd_jobs db) (xd_jobs db')"
proof -
  from assms(1) obtain q where q: "first_min ej_id (filter (\<lambda>j. ej_status j = Queued) (xd_jobs db)) = Some q"
    and db': "xd_jobs db' = update_where (\<lambda>j. ej_id j = ej_id q)
        (\<lambda>j. j\<lparr>ej_status := Running, ej_started_at := Some now\<rparr>) (xd_jobs db)"
    by (auto simp: ClaimNextExportJob_def split: option.splits)
  have q_in: "q \<in> set (xd_jobs db)" "ej_status q = Queued" using first_min_Some [OF q] by auto
  have "ej_status j = Queued" if "j \<in> set (xd_jobs db)" "ej_id j = ej_id q" for j
    using distinct_key_eq [OF dist that(1) q_in(1) that(2)] q_in(2) by simp
  then show ?thesis unfolding db' by (intro evolves_update) (simp add: status_defs)
qed

lemma start_evolves:
  assumes "StartExportJobDownload now jid uid db = Some (j, db')"
  shows "evolves (xd_jobs db) (xd_jobs db')"
proof -
  from assms have "xd_jobs db' = update_where (\<lambda>j. ej_id j = jid \<and> ej_requested_by j = uid \<and> ej_status j = Succeeded
                 \<and> (case ej_expires_at j of None \<Rightarrow> False | Some e \<Rightarrow> e > now))
      (\<lambda>j. j\<lparr>ej_status := Downloading, ej_download_started_at := Some now\<rparr>) (xd_jobs db)"
    by (auto simp: StartExportJobDownload_def Let_def)
  then show ?thesis by (simp only:) (rule evolves_update, simp add: status_defs)
qed

lemma audit_write_jobs: "audit_write flt e db = Some db' \<Longrightarrow> xd_jobs db' = xd_jobs db \<and> xd_chunks db' = xd_chunks db
    \<and> xd_audit db' = xd_audit db @ [e]"
  by (auto simp: audit_write_def split: if_splits)

lemma create_tx_cases:
  assumes "create_tx flt now a p vcode bcode h fname db = Inr (r, db')"
  obtains (existing) j where "r = (j, False)" "db' = db" "FindActiveExportJobByHash db (act_user_id a) h = Some j"
  | (created) j db1 spec where "r = (j, True)" "FindActiveExportJobByHash db (act_user_id a) h = None"
      "CountActiveExportJobs db (act_user_id a) < MaxActivePerUser" "KindSpecs (ep_kind p) = Some spec"
      "InsertExportJob now (act_user_id a) p vcode bcode h fname db = Some (j, db1)"
      "audit_write (flt XAudit) (job_audit ''export_requested'' j a (requestedAfter j a) (ks_ref spec)) db1 = Some db'"
  using assms by (auto simp: create_tx_def not_le split: if_splits option.splits)

lemma create_evolves:
  "evolves (xd_jobs db) (xd_jobs (snd (Service_Create sha marshal id flt now day a p db)))"
proof -
  have tx: "evolves (xd_jobs db) (xd_jobs s')" if "create_tx flt now a p vcode bcode h fname db = Inr (r, s')"
    for vcode bcode h fname r s'
    using that
  proof (cases rule: create_tx_cases)
    case (created j db1 spec)
    then have "xd_jobs s' = xd_jobs db @ [j]"
      by (auto simp: InsertExportJob_def Let_def dest!: audit_write_jobs split: if_splits)
    then show ?thesis by simp
  qed simp
  have "evolves (xd_jobs db) (xd_jobs (snd (run_in_tx c ce (create_tx flt now a p vcode bcode h fname) db)))"
    for c ce vcode bcode h fname
    using tx by (cases "create_tx flt now a p vcode bcode h fname db") (auto simp: run_in_tx_def)
  then show ?thesis by (auto simp: Service_Create_def split: sum.splits)
qed

lemma start_download_tx_cases:
  assumes "start_download_tx flt now a jid db = Inr (j, db')"
  obtains db1 spec where "StartExportJobDownload now jid (act_user_id a) db = Some (j, db1)"
      "KindSpecs (ej_kind j) = Some spec"
      "audit_write (flt XAudit) (job_audit (ks_action spec) j a
         (requestedAfter j a @ [(''row_count'', JNum (ej_row_count j))]) (ks_ref spec)) db1 = Some db'"
  using assms by (auto simp: start_download_tx_def split: if_splits option.splits)

lemma service_start_cases:
  obtains (refused) e where "Service_StartDownload env flt now a jid db = (Inl e, db)"
  | (rolled_back) e where "Service_StartDownload env flt now a jid db = (Inl e, env db)"
  | (claimed) pre role j db' where "Service_StartDownload env flt now a jid db = (Inr j, db')"
      "Service_Get flt a jid db = Inr pre" "GetActiveUserRole db (act_user_id a) = Some role"
      "allowed (ej_kind pre) role" "act_user_id a \<noteq> 0" "start_download_tx flt now a jid (env db) = Inr (j, db')"
proof (cases "\<exists>pre role. act_user_id a \<noteq> 0 \<and> Service_Get flt a jid db = Inr pre \<and> \<not> flt XGetRole
    \<and> GetActiveUserRole db (act_user_id a) = Some role \<and> allowed (ej_kind pre) role")
  case False
  then have "\<exists>e. Service_StartDownload env flt now a jid db = (Inl e, db)"
    unfolding Service_StartDownload_def by (auto split: sum.splits option.splits)
  then show ?thesis using that(1) by blast
next
  case True
  then obtain pre role where g: "act_user_id a \<noteq> 0" "Service_Get flt a jid db = Inr pre" "\<not> flt XGetRole"
      "GetActiveUserRole db (act_user_id a) = Some role" "allowed (ej_kind pre) role" by blast
  show ?thesis
  proof (rule run_in_tx_cases [of "\<not> flt XCommit" "DlErr ErrInternal" "start_download_tx flt now a jid" "env db"])
    fix e assume "run_in_tx (\<not> flt XCommit) (DlErr ErrInternal) (start_download_tx flt now a jid) (env db) = (Inl e, env db)"
    then show ?thesis using g that(2) by (cases e) (auto simp: Service_StartDownload_def)
  next
    fix j s' assume "start_download_tx flt now a jid (env db) = Inr (j, s')"
      "run_in_tx (\<not> flt XCommit) (DlErr ErrInternal) (start_download_tx flt now a jid) (env db) = (Inr j, s')"
    then show ?thesis using g that(3) by (auto simp: Service_StartDownload_def)
  qed
qed

lemma service_start_evolves:
  "evolves (xd_jobs db) (xd_jobs (snd (Service_StartDownload id flt now a jid db)))"
proof (rule service_start_cases [of id flt now a jid db])
  fix pre role j db'
  assume s: "Service_StartDownload id flt now a jid db = (Inr j, db')"
    and tx: "start_download_tx flt now a jid (id db) = Inr (j, db')"
  from tx obtain db1 spec where "StartExportJobDownload now jid (act_user_id a) db = Some (j, db1)" "xd_jobs db' = xd_jobs db1"
    by (cases rule: start_download_tx_cases) (auto dest: audit_write_jobs)
  then show ?thesis using start_evolves s by simp
qed simp_all

lemma store_transition_evolves:
  assumes "evolves (xd_jobs db) (xd_jobs (snd (upd db)))"
  shows "evolves (xd_jobs db) (xd_jobs (snd (store_transition flt jid upd db)))"
  using assms by (auto simp: store_transition_def Let_def split_beta)

lemma export_op_evolves:
  assumes inv: "export_inv s" and op: "export_op s t"
  shows "evolves (xd_jobs (es_db s)) (xd_jobs (es_db t))"
  using op
proof cases
  case (create sha marshal flt now day a p db r db' w)
  then show ?thesis using create_evolves [of db sha marshal flt now day a p] by simp
next
  case (start flt now a jid db r2 db' w)
  then show ?thesis using service_start_evolves [of db flt now a jid] by simp
next
  case (complete flt now jid db r3 db' w)
  then show ?thesis using query_evolves(5) [of db now jid]
    by (auto simp: Service_CompleteDownload_def run_in_tx_def complete_tx_def Let_def split_beta split: if_splits)
next
  case (abort flt jid db r3 db' w)
  then show ?thesis using query_evolves(6) [of db jid]
    by (auto simp: Service_AbortDownload_def Let_def split_beta split: if_splits)
next
  case (claim now db j db' w)
  then show ?thesis using inv claim_evolves by (auto simp: export_inv_def job_keys_ok_def)
next
  case (claim_lost now db j db' w)
  then show ?thesis using inv claim_evolves by (auto simp: export_inv_def job_keys_ok_def)
next
  case (chunk w jid ds d db db')
  then show ?thesis by (auto simp: InsertExportJobChunk_def split: if_splits)
next
  case (chunk_unsure w jid ds d db db')
  then show ?thesis by (auto simp: InsertExportJobChunk_def split: if_splits)
next
  case (progress flt ctxDone jid rows db r4 db' w)
  then show ?thesis using query_evolves(1) [of db rows jid]
    by (auto simp: worker_progress_def Let_def split_beta split: if_splits)
next
  case (succeed w jid ds flt now rows db r4 db' w')
  then show ?thesis
    using query_evolves(2) [of db now Retention rows "int (length (concat ds))" "int (length ds)" jid]
    by (auto simp: worker_succeed_def Let_def split_beta split: if_splits)
next
  case (succeed_unsure w jid ds now rows db n db')
  then show ?thesis
    using query_evolves(2) [of db now Retention rows "int (length (concat ds))" "int (length ds)" jid] by simp
next
  case (finish_failed w jid db flt now cancelled ctxDeadline e)
  then show ?thesis
    using store_transition_evolves [where upd = "ReleaseExportJob jid", OF query_evolves(4) [of db jid]]
      store_transition_evolves [where upd = "MarkExportJobFailed now (failureMessage ctxDeadline e) jid",
        OF query_evolves(3) [of db now "failureMessage ctxDeadline e" jid]]
    by (auto simp: worker_finish_failed_def store_Release_def store_MarkFailed_def)
next
  case (janitor db w jf t1 t2 t3)
  have step: "evolves (xd_jobs d) (xd_jobs (janitor_step b f d))" if "evolves (xd_jobs d) (xd_jobs (f d))" for b f d
    using that by (simp add: janitor_step_def)
  let ?d1 = "janitor_step (jf_fail jf) (\<lambda>d. snd (FailTimedOutExportJobs t1 ''Melewati batas waktu proses'' JobTimeout d)) db"
  let ?d2 = "janitor_step (jf_recover jf) (\<lambda>d. snd (RecoverStaleDownloads t2 DownloadLease d)) ?d1"
  let ?d3 = "janitor_step (jf_expire jf) (\<lambda>d. snd (ExpireExportJobs t3 d)) ?d2"
  have "evolves (xd_jobs db) (xd_jobs ?d1)" by (rule step) (rule janitor_query_evolves(1))
  moreover have "evolves (xd_jobs ?d1) (xd_jobs ?d2)" by (rule step) (rule query_evolves(7))
  moreover have "evolves (xd_jobs ?d2) (xd_jobs ?d3)" by (rule step) (rule janitor_query_evolves(2))
  moreover have "evolves (xd_jobs ?d3) (xd_jobs (Janitor_tick jf t1 t2 t3 db))"
    unfolding Janitor_tick_def by (rule step) (rule janitor_query_evolves(3))
  ultimately have "evolves (xd_jobs db) (xd_jobs (Janitor_tick jf t1 t2 t3 db))"
    using evolves_trans by blast
  then show ?thesis by (simp add: janitor)
next
  case users
  then show ?thesis by simp
qed

section \<open>Reading the chunks back\<close>

lemma GetExportJobChunk_of:
  "GetExportJobChunk db jid sq = map_option snd (find_row (\<lambda>c. fst c = sq) (chunks_of db jid))"
proof -
  have "map_option ch_data (find_row (\<lambda>c. ch_job c = jid \<and> ch_seq c = sq) cs)
      = map_option snd (find_row (\<lambda>c. fst c = sq) (map (\<lambda>c. (ch_seq c, ch_data c)) (filter (\<lambda>c. ch_job c = jid) cs)))" for cs
    by (induction cs) auto
  then show ?thesis by (simp add: GetExportJobChunk_def chunks_of_def)
qed

lemma find_numbered:
  "find_row (\<lambda>c. fst c = int k) (zip (map int [n..<n + length ds]) ds)
    = (if n \<le> k \<and> k < n + length ds then Some (int k, ds ! (k - n)) else None)"
proof (induction ds arbitrary: n)
  case (Cons d ds)
  have "[n..<n + length (d # ds)] = n # [Suc n..<Suc n + length ds]" by (simp add: upt_conv_Cons del: upt_Suc)
  then show ?case using Cons [of "Suc n"] by (auto simp: nth_Cons' Suc_diff_Suc not_less_eq_eq)
qed simp

lemma GetExportJobChunk_numbered:
  assumes "chunks_of db jid = numbered ds"
  shows "GetExportJobChunk db jid (int k) = (if k < length ds then Some (ds ! k) else None)"
  using find_numbered [of k 0 ds] unfolding GetExportJobChunk_of assms numbered_def by simp

lemma open_chunks_from_numbered:
  assumes cs: "chunks_of db jid = numbered ds" and "k + n \<le> length ds"
  shows "\<exists>m \<le> n. fst (open_chunks_from flt db jid (int k) n) = take m (drop k ds)
    \<and> (snd (open_chunks_from flt db jid (int k) n) = None \<longleftrightarrow> m = n)
    \<and> ((\<forall>c. \<not> flt c) \<longrightarrow> m = n)"
  using assms(2)
proof (induction n arbitrary: k)
  case (Suc n)
  have k: "k < length ds" using Suc.prems by simp
  then have get: "GetExportJobChunk db jid (int k) = Some (ds ! k)" using GetExportJobChunk_numbered [OF cs] by simp
  have drop: "drop k ds = ds ! k # drop (Suc k) ds" using k by (simp add: Cons_nth_drop_Suc)
  show ?case
  proof (cases "flt (XChunk (int k))")
    case True
    then show ?thesis by (intro exI [of _ 0]) auto
  next
    case False
    from Suc.IH [of "Suc k"] Suc.prems obtain m where m: "m \<le> n"
        "fst (open_chunks_from flt db jid (int (Suc k)) n) = take m (drop (Suc k) ds)"
        "snd (open_chunks_from flt db jid (int (Suc k)) n) = None \<longleftrightarrow> m = n" "(\<forall>c. \<not> flt c) \<longrightarrow> m = n" by (metis add_Suc_shift)
    have e: "int (Suc k) = int k + 1" by simp
    show ?thesis
      by (intro exI [of _ "Suc m"]) (use False get drop m in \<open>auto simp: e add.commute [of "int k" 1] split_beta Let_def\<close>)
  qed
qed auto

lemma stream_chunks_ok:
  "snd (stream_chunks sent k (ds, e)) \<Longrightarrow> fst (stream_chunks sent k (ds, e)) = concat ds \<and> e = None"
  by (induction ds arbitrary: k) (auto simp: split_beta Let_def split: if_splits)

lemma stream_chunks_all:
  "(\<forall>k. sent k) \<Longrightarrow> stream_chunks sent k (ds, None) = (concat ds, True)"
  by (induction ds arbitrary: k) auto

lemma find_row_in_jobs:
  assumes "distinct (map ej_id (xd_jobs db))" "j \<in> set (xd_jobs db)" "ej_requested_by j = uid"
  shows "GetExportJobForUser db (ej_id j) uid = Some j"
proof (cases "GetExportJobForUser db (ej_id j) uid")
  case None
  then show ?thesis using assms(2,3) unfolding GetExportJobForUser_def find_row_None by blast
next
  case (Some x)
  then have "x \<in> set (xd_jobs db)" "ej_id x = ej_id j"
    unfolding GetExportJobForUser_def by (auto dest: find_row_Some)
  then have "x = j" using distinct_key_eq [OF assms(1) _ assms(2)] by blast
  with Some show ?thesis by simp
qed

text \<open>What a claimed download finds: a succeeded job of the caller, its file complete.\<close>

lemma StartExportJobDownload_Some:
  assumes "StartExportJobDownload now jid uid db = Some (j, db')"
  shows "\<exists>j0 \<in> set (xd_jobs db). ej_id j0 = jid \<and> ej_requested_by j0 = uid \<and> ej_status j0 = Succeeded
    \<and> (\<exists>e. ej_expires_at j0 = Some e \<and> now < e)
    \<and> j = j0\<lparr>ej_status := Downloading, ej_download_started_at := Some now\<rparr>
    \<and> xd_chunks db' = xd_chunks db \<and> xd_audit db' = xd_audit db"
  using assms
  by (auto simp: StartExportJobDownload_def Let_def dest!: find_row_Some split: option.splits)

lemma claimed_download:
  assumes inv: "export_inv (sys db w)" and s: "Service_StartDownload id flt now a jid db = (Inr j, db1)"
  shows "\<exists>j0 ds. j0 \<in> set (xd_jobs db) \<and> ej_id j0 = jid \<and> ej_requested_by j0 = act_user_id a
      \<and> ej_status j0 = Succeeded \<and> j = j0\<lparr>ej_status := Downloading, ej_download_started_at := Some now\<rparr>
      \<and> chunks_of db jid = numbered ds \<and> chunks_of db1 jid = numbered ds
      \<and> ej_byte_size j = Some (int (length (concat ds))) \<and> ej_chunk_count j = Some (int (length ds))
      \<and> j \<in> set (xd_jobs db1) \<and> distinct (map ej_id (xd_jobs db1))"
proof (cases rule: service_start_cases [of id flt now a jid db])
  case (claimed pre role j' db')
  then have "start_download_tx flt now a jid db = Inr (j, db1)" using s by simp
  then obtain db2 spec where c0: "KindSpecs (ej_kind j) = Some spec"
    and c: "StartExportJobDownload now jid (act_user_id a) db = Some (j, db2)"
      "audit_write (flt XAudit) (job_audit (ks_action spec) j a
         (requestedAfter j a @ [(''row_count'', JNum (ej_row_count j))]) (ks_ref spec)) db2 = Some db1"
    by (rule start_download_tx_cases)
  from StartExportJobDownload_Some [OF c(1)] obtain j0 where j0: "j0 \<in> set (xd_jobs db)" "ej_id j0 = jid"
      "ej_requested_by j0 = act_user_id a" "ej_status j0 = Succeeded" "\<exists>e. ej_expires_at j0 = Some e \<and> now < e"
      "j = j0\<lparr>ej_status := Downloading, ej_download_started_at := Some now\<rparr>" "xd_chunks db2 = xd_chunks db" by blast
  have "job_ok (ej_status j0) (chunks_of db (ej_id j0)) (w (ej_id j0)) j0"
    using inv j0(1) by (simp add: export_inv_def jobs_ok_def)
  then obtain ds where ds: "chunks_of db jid = numbered ds" "ej_byte_size j0 = Some (int (length (concat ds)))"
      "ej_chunk_count j0 = Some (int (length ds))"
    using j0(2,4) by (auto simp: file_ready_def)
  have "chunks_of db1 jid = chunks_of db jid" using audit_write_jobs [OF c(2)] j0(7) by (simp add: chunks_of_def)
  moreover have "j \<in> set (xd_jobs db1)"
  proof -
    have "xd_jobs db2 = update_where (\<lambda>j. ej_id j = jid \<and> ej_requested_by j = act_user_id a \<and> ej_status j = Succeeded
                 \<and> (case ej_expires_at j of None \<Rightarrow> False | Some e \<Rightarrow> e > now))
      (\<lambda>j. j\<lparr>ej_status := Downloading, ej_download_started_at := Some now\<rparr>) (xd_jobs db)"
      using c(1) by (auto simp: StartExportJobDownload_def Let_def)
    then show ?thesis using audit_write_jobs [OF c(2)] j0 by (force simp: update_where_def)
  qed
  moreover have "export_inv (sys db1 w)" using service_start_inv [OF inv, of flt now a jid] s by simp
  then have "distinct (map ej_id (xd_jobs db1))" by (simp add: export_inv_def job_keys_ok_def)
  moreover have "ej_byte_size j = Some (int (length (concat ds)))" "ej_chunk_count j = Some (int (length ds))"
    using ds(2,3) j0(6) by simp_all
  ultimately show ?thesis using j0(1-4,6) ds(1) by (intro exI [of _ j0] exI [of _ ds]) simp
qed (use s in simp_all)

text \<open>Completing and aborting a download that nobody else has touched.\<close>

lemma complete_effect:
  assumes "j \<in> set (xd_jobs db)" "ej_id j = jid" "ej_status j = Downloading" "\<And>c. \<not> flt c"
  shows "chunks_of (snd (Service_CompleteDownload flt now jid db)) jid = []
    \<and> j\<lparr>ej_status := Downloaded, ej_downloaded_at := Some now\<rparr> \<in> set (xd_jobs (snd (Service_CompleteDownload flt now jid db)))"
proof -
  have "fst (CompleteExportJobDownload now jid db) \<noteq> 0"
    using assms(1-3) by (auto simp: CompleteExportJobDownload_def update_jobs_def filter_empty_conv)
  then have "snd (Service_CompleteDownload flt now jid db) = DeleteExportJobChunks jid (snd (CompleteExportJobDownload now jid db))"
    using assms(4) by (simp add: Service_CompleteDownload_def run_in_tx_def complete_tx_def Let_def split_beta)
  moreover have "j\<lparr>ej_status := Downloaded, ej_downloaded_at := Some now\<rparr> \<in> set (xd_jobs (snd (CompleteExportJobDownload now jid db)))"
    using assms(1-3) by (force simp: CompleteExportJobDownload_def update_where_def)
  ultimately show ?thesis by simp
qed

lemma abort_effect:
  assumes "j \<in> set (xd_jobs db)" "ej_id j = jid" "ej_status j = Downloading" "\<not> flt XAbort"
  shows "chunks_of (snd (Service_AbortDownload flt jid db)) = chunks_of db
    \<and> j\<lparr>ej_status := Succeeded\<rparr> \<in> set (xd_jobs (snd (Service_AbortDownload flt jid db)))"
proof -
  have "snd (Service_AbortDownload flt jid db) = snd (AbortExportJobDownload jid db)"
    using assms(4) by (simp add: Service_AbortDownload_def Let_def split_beta)
  moreover have "j\<lparr>ej_status := Succeeded\<rparr> \<in> set (xd_jobs (snd (AbortExportJobDownload jid db)))"
    using assms(1-3) by (force simp: AbortExportJobDownload_def update_where_def)
  ultimately show ?thesis by (simp add: AbortExportJobDownload_def)
qed

lemma OpenChunks_prefix:
  assumes "chunks_of db jid = numbered ds"
  shows "\<exists>m \<le> length ds. fst (Service_OpenChunks flt db jid (int (length ds))) = take m ds
    \<and> (snd (Service_OpenChunks flt db jid (int (length ds))) = None \<longrightarrow> m = length ds)"
proof (cases "int (length ds) > int32_max")
  case True
  then show ?thesis by (intro exI [of _ 0]) (simp add: Service_OpenChunks_def)
next
  case False
  obtain m where m: "m \<le> length ds" "fst (open_chunks_from flt db jid (int 0) (length ds)) = take m (drop 0 ds)"
      "snd (open_chunks_from flt db jid (int 0) (length ds)) = None \<longleftrightarrow> m = length ds"
    using open_chunks_from_numbered [OF assms, of 0 "length ds" flt] by (metis add_0 le_refl)
  show ?thesis by (intro exI [of _ m]) (use m False in \<open>simp add: Service_OpenChunks_def\<close>)
qed

end
