(* ===== verification/Csv.thy ===== *)
theory Csv
  imports Text
begin

text \<open>
  CSV text: the encoder and decoder of \<open>encoding/csv\<close> as the program uses them (comma or semicolon,
  \<open>\n\<close> line ends, no lazy quotes, no comments), the formula guard and the streaming writer of
  \<open>src/pkg/csvexport/writer.go\<close>, and the Unicode facts they rest on, on UTF-8 bytes.

  A decoder call maps the rest of the input to a record and the new rest; line numbers are carried
  along, as \<open>FieldPos\<close> and \<open>ParseError\<close> report them.
\<close>

abbreviation nl :: char where "nl \<equiv> CHR 0x0A"
abbreviation cr :: char where "cr \<equiv> CHR 0x0D"
abbreviation dquote :: char where "dquote \<equiv> CHR 0x22"
abbreviation apostrophe :: char where "apostrophe \<equiv> CHR 0x27"

abbreviation code :: "char \<Rightarrow> nat" where "code \<equiv> of_char"

section \<open>Unicode on bytes\<close>

text \<open>
  The length of the white space rune (\<open>unicode.IsSpace\<close>) at the front of a text, or 0; and the
  same for the last rune, on the reversed text.
\<close>

definition ascii_space :: "char \<Rightarrow> bool" where
  "ascii_space c \<longleftrightarrow> 9 \<le> code c \<and> code c \<le> 13 \<or> code c = 32"

definition space2 :: "nat \<Rightarrow> nat \<Rightarrow> bool" where
  "space2 a b \<longleftrightarrow> a = 0xC2 \<and> (b = 0x85 \<or> b = 0xA0)"

definition space3 :: "nat \<Rightarrow> nat \<Rightarrow> nat \<Rightarrow> bool" where
  "space3 a b c \<longleftrightarrow> a = 0xE1 \<and> b = 0x9A \<and> c = 0x80
     \<or> a = 0xE2 \<and> b = 0x80 \<and> (0x80 \<le> c \<and> c \<le> 0x8A \<or> c = 0xA8 \<or> c = 0xA9 \<or> c = 0xAF)
     \<or> a = 0xE2 \<and> b = 0x81 \<and> c = 0x9F
     \<or> a = 0xE3 \<and> b = 0x80 \<and> c = 0x80"

fun space_prefix :: "string \<Rightarrow> nat" where
  "space_prefix [] = 0"
| "space_prefix [a] = (if ascii_space a then 1 else 0)"
| "space_prefix [a, b] = (if ascii_space a then 1 else if space2 (code a) (code b) then 2 else 0)"
| "space_prefix (a # b # c # s) =
     (if ascii_space a then 1 else if space2 (code a) (code b) then 2
      else if space3 (code a) (code b) (code c) then 3 else 0)"

fun space_suffix :: "string \<Rightarrow> nat" where
  "space_suffix [] = 0"
| "space_suffix [a] = (if ascii_space a then 1 else 0)"
| "space_suffix [a, b] = (if ascii_space a then 1 else if space2 (code b) (code a) then 2 else 0)"
| "space_suffix (a # b # c # s) =
     (if ascii_space a then 1 else if space2 (code b) (code a) then 2
      else if space3 (code c) (code b) (code a) then 3 else 0)"

function trim_with :: "(string \<Rightarrow> nat) \<Rightarrow> string \<Rightarrow> string" where
  "trim_with f s = (if s = [] \<or> f s = 0 then s else trim_with f (drop (f s) s))"
  by pat_completeness auto
termination by (relation "measure (length \<circ> snd)") (auto intro: diff_less)

declare trim_with.simps [simp del]

definition TrimSpace :: "string \<Rightarrow> string" where
  "TrimSpace s = rev (trim_with space_suffix (rev (trim_with space_prefix s)))"

lemma trim_with_0: "f s = 0 \<Longrightarrow> trim_with f s = s"
  by (simp add: trim_with.simps)

lemma TrimSpace_plain:
  assumes "s \<noteq> []" and "\<forall>c \<in> set s. \<not> ascii_space c \<and> code c < 128"
  shows "TrimSpace s = s"
proof -
  have "space_prefix s = 0" using assms(2) [rule_format, of "hd s"] assms(1)
    by (cases s rule: space_prefix.cases) (auto simp: space2_def space3_def)
  moreover have "space_suffix (rev s) = 0" using assms(2) [rule_format, of "hd (rev s)"] assms(1)
    by (cases "rev s" rule: space_suffix.cases) (auto simp: hd_rev space2_def space3_def)
  ultimately show ?thesis by (simp add: TrimSpace_def trim_with_0)
qed

text \<open>
  \<open>utf8.DecodeRune\<close>: the length of the rune at the front of a text, or 0 where the bytes are not
  valid UTF-8.
\<close>

definition cont :: "char \<Rightarrow> bool" where "cont c \<longleftrightarrow> 0x80 \<le> code c \<and> code c \<le> 0xBF"

definition second_ok :: "nat \<Rightarrow> char \<Rightarrow> bool" where
  "second_ok a b \<longleftrightarrow> cont b \<and> (a = 0xE0 \<longrightarrow> 0xA0 \<le> code b) \<and> (a = 0xED \<longrightarrow> code b \<le> 0x9F)
     \<and> (a = 0xF0 \<longrightarrow> 0x90 \<le> code b) \<and> (a = 0xF4 \<longrightarrow> code b \<le> 0x8F)"

definition lead_size :: "nat \<Rightarrow> nat" where
  "lead_size n = (if n < 0x80 then 1 else if 0xC2 \<le> n \<and> n \<le> 0xDF then 2
     else if 0xE0 \<le> n \<and> n \<le> 0xEF then 3 else if 0xF0 \<le> n \<and> n \<le> 0xF4 then 4 else 0)"

fun rune_size :: "string \<Rightarrow> nat" where
  "rune_size [] = 0"
| "rune_size (a # s) =
     (let k = lead_size (code a) in
      if k \<le> 1 then k
      else if k - 1 \<le> length s \<and> second_ok (code a) (hd s) \<and> list_all cont (take (k - 1) s) then k else 0)"

function utf8_valid :: "string \<Rightarrow> bool" where
  "utf8_valid s = (if s = [] then True else if rune_size s = 0 then False
     else utf8_valid (drop (rune_size s) s))"
  by pat_completeness auto
termination by (relation "measure length") (auto intro: diff_less)

declare utf8_valid.simps [simp del]

text \<open>
  \<open>strings.ToLower\<close>, compared with ASCII text: beyond ASCII only the Kelvin sign (E2 84 AA) and the
  dotted capital I (C4 B0) have ASCII lower case forms; other runes are left as they are.
\<close>

fun lower_bytes :: "string \<Rightarrow> string" where
  "lower_bytes [] = []"
| "lower_bytes [a] = [ascii_lower a]"
| "lower_bytes [a, b] = (if code a = 0xC4 \<and> code b = 0xB0 then ''i'' else ascii_lower a # lower_bytes [b])"
| "lower_bytes (a # b # c # s) =
     (if code a = 0xC4 \<and> code b = 0xB0 then CHR ''i'' # lower_bytes (c # s)
      else if code a = 0xE2 \<and> code b = 0x84 \<and> code c = 0xAA then CHR ''k'' # lower_bytes s
      else ascii_lower a # lower_bytes (b # c # s))"

section \<open>Encoding\<close>

definition fieldNeedsQuotes :: "char \<Rightarrow> string \<Rightarrow> bool" where
  "fieldNeedsQuotes comma f \<longleftrightarrow> f \<noteq> [] \<and>
     (f = [CHR 0x5C, CHR ''.''] \<or> nl \<in> set f \<or> cr \<in> set f \<or> dquote \<in> set f \<or> comma \<in> set f \<or> space_prefix f \<noteq> 0)"

fun quote_body :: "string \<Rightarrow> string" where
  "quote_body [] = []"
| "quote_body (c # s) = (if c = dquote then dquote # dquote # quote_body s else c # quote_body s)"

definition csv_field :: "string \<Rightarrow> string" where
  "csv_field f = (if fieldNeedsQuotes CHR '','' f then dquote # quote_body f @ [dquote] else f)"

definition csv_record :: "string list \<Rightarrow> string" where
  "csv_record fs = join '','' (map csv_field fs) @ [nl]"

section \<open>Decoding\<close>

datatype csv_err = ErrBareQuote | ErrQuote

fun take_line :: "string \<Rightarrow> string \<times> string" where
  "take_line [] = ([], [])"
| "take_line (c # s) = (if c = nl then ([nl], s) else let (l, r) = take_line s in (c # l, r))"

definition readLine :: "string \<Rightarrow> (string \<times> string) option" where
  "readLine s = (if s = [] then None else
     (case take_line s of (l, r) \<Rightarrow>
        if last l = nl
        then Some (if 2 \<le> length l \<and> l ! (length l - 2) = cr then butlast (butlast l) @ [nl] else l, r)
        else Some (if last l = cr then butlast l else l, r)))"

fun split_at :: "char \<Rightarrow> string \<Rightarrow> (string \<times> string) option" where
  "split_at c [] = None"
| "split_at c (x # s) = (if x = c then Some ([], s) else map_option (\<lambda>(a, b). (x # a, b)) (split_at c s))"

definition strip_nl :: "string \<Rightarrow> string" where
  "strip_nl l = (if l \<noteq> [] \<and> last l = nl then butlast l else l)"

lemma take_line_append: "take_line s = (l, r) \<Longrightarrow> l @ r = s"
  by (induction s arbitrary: l r) (auto split: if_splits prod.splits)

lemma take_line_Nil: "take_line s = ([], r) \<Longrightarrow> s = []"
  by (cases s) (auto split: if_splits prod.splits)

lemma readLine_shorter [simp]: "readLine s = Some (l, r) \<Longrightarrow> length r < length s"
proof -
  assume a: "readLine s = Some (l, r)"
  obtain l' r' where t: "take_line s = (l', r')" by (cases "take_line s")
  have "s \<noteq> []" "r = r'" using a t by (auto simp: readLine_def split: if_splits)
  moreover have "length l' + length r' = length s" using take_line_append [OF t] by (metis length_append)
  moreover have "l' \<noteq> []" using t \<open>s \<noteq> []\<close> take_line_Nil by blast
  ultimately show ?thesis by (cases l') auto
qed

lemma split_at_Some: "split_at c s = Some (a, b) \<longleftrightarrow> s = a @ c # b \<and> c \<notin> set a"
  by (induction s arbitrary: a b) (auto simp: Cons_eq_append_conv)

lemma split_at_None: "split_at c s = None \<longleftrightarrow> c \<notin> set s"
  by (induction s) auto

text \<open>
  One record. \<open>q\<close> is \<open>None\<close> at the start of a field and the content so far inside quotes; \<open>n\<close> is the
  number of the line being read.
\<close>

type_synonym csv_pos = "nat \<times> string"

function parse_record ::
  "char \<Rightarrow> nat \<Rightarrow> string list \<Rightarrow> string option \<Rightarrow> string \<Rightarrow> string
   \<Rightarrow> (nat \<times> csv_err, string list \<times> csv_pos) result" where
  "parse_record comma n acc None line rest =
     (if line = [] \<or> hd line \<noteq> dquote
      then (case split_at comma line of
              Some (f, l') \<Rightarrow>
                if dquote \<in> set f then Inl (n, ErrBareQuote) else parse_record comma n (acc @ [f]) None l' rest
            | None \<Rightarrow>
                let f = strip_nl line in
                if dquote \<in> set f then Inl (n, ErrBareQuote) else Inr (acc @ [f], n, rest))
      else parse_record comma n acc (Some []) (tl line) rest)"
| "parse_record comma n acc (Some fld) line rest =
     (case split_at dquote line of
        Some (pre, l') \<Rightarrow>
          if l' \<noteq> [] \<and> hd l' = dquote then parse_record comma n acc (Some (fld @ pre @ [dquote])) (tl l') rest
          else if l' \<noteq> [] \<and> hd l' = comma then parse_record comma n (acc @ [fld @ pre]) None (tl l') rest
          else if strip_nl l' = [] then Inr (acc @ [fld @ pre], n, rest)
          else Inl (n, ErrQuote)
      | None \<Rightarrow>
          if line = [] then Inl (n, ErrQuote)
          else (case readLine rest of
                  None \<Rightarrow> Inl (n, ErrQuote)
                | Some (l, rest') \<Rightarrow>
                    parse_record comma (if l = [] then n else n + 1) acc (Some (fld @ line)) l rest'))"
  by pat_completeness auto
termination
  by (relation "measures [\<lambda>(_, _, _, _, _, rest). length rest, \<lambda>(_, _, _, _, line, _). length line]")
     (auto simp: split_at_Some)

declare parse_record.simps [simp del]

function next_line :: "csv_pos \<Rightarrow> (string \<times> csv_pos) option" where
  "next_line p = (case readLine (snd p) of
     None \<Rightarrow> None
   | Some (l, r) \<Rightarrow> if strip_nl l = [] then next_line (fst p + 1, r) else Some (l, fst p + 1, r))"
  by pat_completeness auto
termination by (relation "measure (length \<circ> snd)") auto

declare next_line.simps [simp del]

text \<open>\<open>Reader.Read\<close>: nothing at the end of the input, else the record with the line it starts on.\<close>

definition csv_read ::
  "char \<Rightarrow> csv_pos \<Rightarrow> (nat \<times> csv_err, nat \<times> string list \<times> csv_pos) result option" where
  "csv_read comma p = (case next_line p of
     None \<Rightarrow> None
   | Some (l, n, r) \<Rightarrow> Some (case parse_record comma n [] None l r of
        Inl e \<Rightarrow> Inl e | Inr (fs, p') \<Rightarrow> Inr (n, fs, p')))"

section \<open>The guarded writer\<close>

definition number_char :: "char \<Rightarrow> bool" where
  "number_char c \<longleftrightarrow> is_digit c \<or> c \<in> {CHR '' '', CHR ''('', CHR '')'', CHR ''.'', CHR ''-''}"

definition plainNumber :: "string \<Rightarrow> bool" where
  "plainNumber s = (let t = (if s \<noteq> [] \<and> (hd s = CHR ''+'' \<or> hd s = CHR ''-'') then tl s else s)
     in t \<noteq> [] \<and> is_digit (hd t) \<and> list_all number_char (tl t))"

definition CSVSafe :: "string \<Rightarrow> string" where
  "CSVSafe s = (if s = [] then s
     else if hd s \<in> {CHR ''='', CHR ''@'', CHR 0x09, cr} then apostrophe # s
     else if hd s \<in> {CHR ''+'', CHR ''-''} \<and> \<not> plainNumber s then apostrophe # s
     else s)"

definition UnCSVSafe :: "string \<Rightarrow> string" where
  "UnCSVSafe s = (if 2 \<le> length s \<and> hd s = apostrophe
       \<and> hd (tl s) \<in> {CHR ''='', CHR ''@'', CHR ''+'', CHR ''-'', CHR 0x09, cr}
     then tl s else s)"

definition BOM :: string where "BOM = [CHR 0xEF, CHR 0xBB, CHR 0xBF]"

definition Writer_Write :: "string list \<Rightarrow> string" where
  "Writer_Write cells = csv_record (map CSVSafe cells)"

text \<open>What a \<open>Writer\<close> has sent to its sink once it is flushed.\<close>

definition csv_file :: "string list \<Rightarrow> string list list \<Rightarrow> string" where
  "csv_file header rows = BOM @ csv_record header @ concat (map Writer_Write rows)"

end
