(* ===== verification/Export_Worker.thy ===== *)
theory Export_Worker
  imports Export_Runs Csv
begin

text \<open>
  One run of an export job by a worker: \<open>run\<close> and \<open>produce\<close> of
  \<open>src/backend-exq/internal/exportjob/worker.go\<close>, from the rows of the producer through the CSV writer,
  its buffer (\<open>bufio\<close>, 4096 bytes) and the \<open>ChunkWriter\<close> to the stored chunks.

  \<^item> The producer is given by what it emits: its header, the rows it emits before it ends, and the
    error it ends with, if any; no producer is registered for an unknown kind or entity.
  \<^item> \<open>worker_env\<close> says which calls fail, with which kind of error, and the times of the final updates.
  \<^item> The chunks a run has stored are added to the table at its end; nothing in between reads them.
\<close>

section \<open>Data\<close>

record worker_env =
  we_begin_fails :: bool
  we_chunk_fails :: "int \<Rightarrow> bool"
  we_progress_fails :: "int \<Rightarrow> bool"
  we_ctx_done :: "int \<Rightarrow> bool"
  we_mark_flt :: export_faults
  we_fail_flt :: export_faults
  we_cause :: "export_call \<Rightarrow> run_err"
  we_cancelled :: bool
  we_deadline :: bool
  we_mark_at :: timestamp
  we_fail_at :: timestamp

record run_stats =
  rs_rows :: int
  rs_bytes :: int
  rs_chunks :: int

type_synonym producer = "string list \<times> string list list \<times> run_err option"
type_synonym buffered = "bytes \<times> chunk_writer \<times> sink"

section \<open>The buffer\<close>

definition BufSize :: nat where "BufSize = 4096"

function bufio_write :: "(int \<Rightarrow> bool) \<Rightarrow> bytes \<Rightarrow> buffered \<Rightarrow> chunk_err option \<times> buffered" where
  "bufio_write ins t b = (case b of (buf, ws) \<Rightarrow>
     if length t \<le> BufSize - length buf then (None, buf @ t, ws)
     else let k = BufSize - length buf in
       (case chunk_write ins (buf @ take k t) ws of
          (Inl e, ws') \<Rightarrow> (Some e, buf, ws')
        | (Inr _, ws') \<Rightarrow> bufio_write ins (drop k t) ([], ws')))"
  by pat_completeness auto
termination
  by (relation "measure (\<lambda>(ins, t, b). length t + length (fst b))") (auto simp: BufSize_def)

declare bufio_write.simps [simp del]

definition bufio_flush :: "(int \<Rightarrow> bool) \<Rightarrow> buffered \<Rightarrow> chunk_err option \<times> chunk_writer \<times> sink" where
  "bufio_flush ins b = (case b of (buf, ws) \<Rightarrow>
     if buf = [] then (None, ws)
     else (case chunk_write ins buf ws of (Inl e, ws') \<Rightarrow> (Some e, ws') | (Inr _, ws') \<Rightarrow> (None, ws')))"

section \<open>Producing the file\<close>

definition chunk_cause :: "worker_env \<Rightarrow> chunk_err \<Rightarrow> run_err" where
  "chunk_cause en e = (case e of ErrFileTooLarge \<Rightarrow> REFileTooLarge | ErrInsertChunk k \<Rightarrow> we_cause en (XChunk k))"

definition worker_ins :: "worker_env \<Rightarrow> id64 \<Rightarrow> export_db \<Rightarrow> int \<Rightarrow> bool" where
  "worker_ins en jid db k \<longleftrightarrow> \<not> we_chunk_fails en k \<and> InsertExportJobChunk jid k [] db \<noteq> None"

definition progress_at :: "worker_env \<Rightarrow> id64 \<Rightarrow> int \<Rightarrow> export_db \<Rightarrow> run_err option \<times> export_db" where
  "progress_at en jid n db =
     (case worker_progress (\<lambda>_. we_progress_fails en n) (we_ctx_done en n) jid n db of
        (Inr _, db') \<Rightarrow> (None, db')
      | (Inl JobLost, db') \<Rightarrow> (Some REOther, db')
      | (Inl _, db') \<Rightarrow> (Some (we_cause en XUpdate), db'))"

fun emit_rows ::
  "worker_env \<Rightarrow> id64 \<Rightarrow> (int \<Rightarrow> bool) \<Rightarrow> string list list \<Rightarrow> int \<Rightarrow> buffered \<Rightarrow> export_db
   \<Rightarrow> run_err option \<times> int \<times> buffered \<times> export_db" where
  "emit_rows en jid ins [] n b db = (None, n, b, db)"
| "emit_rows en jid ins (r # rs) n b db =
     (if n \<ge> MaxRows then (Some RETooManyRows, n, b, db)
      else case bufio_write ins (Writer_Write r) b of
        (Some e, b') \<Rightarrow> (Some (chunk_cause en e), n, b', db)
      | (None, b') \<Rightarrow>
          if (n + 1) mod PageSize = 0
          then (case progress_at en jid (n + 1) db of
                  (Some e, db') \<Rightarrow> (Some e, n + 1, b', db')
                | (None, db') \<Rightarrow> emit_rows en jid ins rs (n + 1) b' db')
          else emit_rows en jid ins rs (n + 1) b' db)"

definition produce ::
  "worker_env \<Rightarrow> id64 \<Rightarrow> producer option \<Rightarrow> export_db \<Rightarrow> (run_err, run_stats) result \<times> sink \<times> export_db" where
  "produce en jid pr db =
     (case pr of
        None \<Rightarrow> (Inl REOther, [], db)
      | Some (header, rows, perr) \<Rightarrow>
          if we_begin_fails en then (Inl (we_cause en XBegin), [], db)
          else let ins = worker_ins en jid db in
           (case chunk_write ins BOM (NewChunkWriter ChunkSize MaxBytes, []) of
              (Inl e, w, s) \<Rightarrow> (Inl (chunk_cause en e), s, db)
            | (Inr _, ws) \<Rightarrow>
               (case bufio_write ins (csv_record header) ([], ws) of
                  (Some e, buf, w, s) \<Rightarrow> (Inl (chunk_cause en e), s, db)
                | (None, b) \<Rightarrow>
                   (case emit_rows en jid ins rows 0 b db of
                      (Some e, n, (buf, w, s), db') \<Rightarrow> (Inl e, s, db')
                    | (None, n, b', db') \<Rightarrow>
                       (case perr of
                          Some e \<Rightarrow> (Inl e, snd (snd b'), db')
                        | None \<Rightarrow>
                           (case bufio_flush ins b' of
                              (Some e, w, s) \<Rightarrow> (Inl (chunk_cause en e), s, db')
                            | (None, ws') \<Rightarrow>
                               (case chunk_close ins ws' of
                                  (Inl e, w, s) \<Rightarrow> (Inl (chunk_cause en e), s, db')
                                | (Inr _, w, s) \<Rightarrow>
                                    (Inr \<lparr>rs_rows = n, rs_bytes = chunk_bytes w, rs_chunks = chunk_count w\<rparr>, s, db'))))))))"

section \<open>A run\<close>

definition add_chunks :: "id64 \<Rightarrow> sink \<Rightarrow> export_db \<Rightarrow> export_db" where
  "add_chunks jid s db = db\<lparr>xd_chunks := xd_chunks db
     @ map (\<lambda>c. \<lparr>ch_job = jid, ch_seq = fst c, ch_data = snd c\<rparr>) s\<rparr>"

definition worker_fail :: "worker_env \<Rightarrow> id64 \<Rightarrow> run_err \<Rightarrow> export_db \<Rightarrow> export_db" where
  "worker_fail en jid e = worker_finish_failed (we_fail_flt en) (we_fail_at en) (we_cancelled en) (we_deadline en) jid e"

definition worker_run :: "worker_env \<Rightarrow> id64 \<Rightarrow> producer option \<Rightarrow> export_db \<Rightarrow> export_db" where
  "worker_run en jid pr db =
     (case produce en jid pr db of
        (Inl e, s, db1) \<Rightarrow> worker_fail en jid e (add_chunks jid s db1)
      | (Inr st, s, db1) \<Rightarrow>
         (case worker_succeed (we_mark_flt en) (we_mark_at en) jid (rs_rows st) (rs_bytes st) (rs_chunks st)
                 (add_chunks jid s db1) of
            (Inr _, db2) \<Rightarrow> db2
          | (Inl JobLost, db2) \<Rightarrow>
              worker_fail en jid (if we_mark_flt en XDeleteChunks then we_cause en XDeleteChunks else REOther) db2
          | (Inl _, db2) \<Rightarrow> worker_fail en jid (we_cause en XUpdate) db2))"

section \<open>Order of the stored chunks\<close>

definition in_order :: "(int \<Rightarrow> bool) \<Rightarrow> chunk_writer \<times> sink \<Rightarrow> bool" where
  "in_order ins ws \<longleftrightarrow> cw_seq (fst ws) = int (length (snd ws)) \<and> map fst (snd ws) = map int [0..<length (snd ws)]
     \<and> (\<forall>c \<in> set (snd ws). ins (fst c))"

lemma in_order_flush: "in_order ins ws \<Longrightarrow> in_order ins (snd (chunk_flush ins ws))"
  by (cases ws) (auto simp: chunk_flush_def in_order_def)

lemma in_order_upd [simp]:
  "in_order ins (w\<lparr>cw_buf := b\<rparr>, s) \<longleftrightarrow> in_order ins (w, s)" "in_order ins (w\<lparr>cw_err := e\<rparr>, s) \<longleftrightarrow> in_order ins (w, s)"
  "in_order ins (w\<lparr>cw_total := t\<rparr>, s) \<longleftrightarrow> in_order ins (w, s)"
  by (simp_all add: in_order_def)

lemma in_order_loop: "in_order ins ws \<Longrightarrow> in_order ins (snd (write_loop ins rest ws))"
proof (induction ins rest ws rule: write_loop.induct)
  case (1 ins rest ws)
  obtain w s where ws: "ws = (w, s)" by (cases ws)
  let ?n = "min (cw_chunk_size w - length (cw_buf w)) (length rest)"
  let ?w1 = "w\<lparr>cw_buf := cw_buf w @ take ?n rest\<rparr>"
  have w1: "in_order ins (?w1, s)" using "1.prems" ws by simp
  obtain e w2 s2 where f: "chunk_flush ins (?w1, s) = (e, w2, s2)" by (cases "chunk_flush ins (?w1, s)")
  have fl: "in_order ins (w2, s2)" using in_order_flush [OF w1] f by simp
  show ?case
  proof (cases "rest = [] \<or> ?n = 0")
    case True
    then show ?thesis using "1.prems" by (subst write_loop.simps) (auto simp: ws)
  next
    case False
    then have r: "rest \<noteq> []" "?n \<noteq> 0" by blast+
    have step: "write_loop ins rest ws =
       (if length (cw_buf ?w1) = cw_chunk_size w
        then (case chunk_flush ins (?w1, s) of
                 (Some e, w2, s2) \<Rightarrow> (Some e, w2, s2)
               | (None, w2, s2) \<Rightarrow> write_loop ins (drop ?n rest) (w2, s2))
        else write_loop ins (drop ?n rest) (?w1, s))"
      unfolding ws by (subst write_loop.simps) (simp only: Let_def prod.case r if_False simp_thms)
    show ?thesis
    proof (cases "length (cw_buf ?w1) = cw_chunk_size w")
      case True
      show ?thesis
      proof (cases e)
        case None
        have "in_order ins (snd (write_loop ins (drop ?n rest) (w2, s2)))"
          by (rule "1.IH"(1) [OF ws [symmetric] r(1) refl r(2) refl True f [symmetric] None refl fl])
        then show ?thesis unfolding step using True f None by simp
      next
        case (Some x)
        then show ?thesis unfolding step using True f fl by simp
      qed
    next
      case no: False
      have "in_order ins (snd (write_loop ins (drop ?n rest) (?w1, s)))"
        by (rule "1.IH"(2) [OF ws [symmetric] r(1) refl r(2) refl no w1])
      then show ?thesis unfolding step using no by simp
    qed
  qed
qed

lemma in_order_write: "in_order ins ws \<Longrightarrow> in_order ins (snd (chunk_write ins p ws))"
proof -
  assume a: "in_order ins ws"
  obtain w s where ws: "ws = (w, s)" by (cases ws)
  have "in_order ins (snd (write_loop ins p (w\<lparr>cw_total := cw_total w + int (length p)\<rparr>, s)))"
    by (rule in_order_loop) (use a ws in simp)
  then show ?thesis using a by (auto simp: ws chunk_write_def split: option.splits prod.splits)
qed

lemma in_order_close: "in_order ins ws \<Longrightarrow> in_order ins (snd (chunk_close ins ws))"
  using in_order_flush [of ins ws] by (cases ws) (auto simp: chunk_close_def split: option.splits prod.splits)

lemma in_order_bufio: "in_order ins (snd b) \<Longrightarrow> in_order ins (snd (snd (bufio_write ins t b)))"
proof (induction ins t b rule: bufio_write.induct)
  case (1 ins t b)
  obtain buf ws where b: "b = (buf, ws)" by (cases b)
  let ?k = "BufSize - length buf"
  obtain r ws' where w: "chunk_write ins (buf @ take ?k t) ws = (r, ws')" by (cases "chunk_write ins (buf @ take ?k t) ws")
  have ord: "in_order ins ws'" using in_order_write [of ins ws "buf @ take ?k t"] w "1.prems" b by simp
  show ?case
  proof (cases "length t \<le> ?k")
    case True
    then show ?thesis using "1.prems" by (subst bufio_write.simps) (simp add: b)
  next
    case False
    show ?thesis
    proof (cases r)
      case (Inl e)
      then show ?thesis using False w ord by (subst bufio_write.simps) (simp add: b Let_def)
    next
      case (Inr n)
      then have "in_order ins (snd (snd (bufio_write ins (drop ?k t) ([], ws'))))"
        using "1.IH" [OF b [symmetric] False refl w [symmetric]] ord by simp
      then show ?thesis using False w Inr by (subst bufio_write.simps) (simp add: b Let_def)
    qed
  qed
qed

lemma in_order_bufio_flush: "in_order ins (snd b) \<Longrightarrow> in_order ins (snd (bufio_flush ins b))"
  using in_order_write [of ins "snd b" "fst b"] by (cases b) (auto simp: bufio_flush_def split: sum.splits prod.splits)

end
