(* ===== verification/Export_Worker_Correct.thy ===== *)
theory Export_Worker_Correct
  imports Export_Worker
begin

text \<open>
  What a run stores and how it ends: the text that reaches the chunks, the limits, and the steps of
  the transition system that a run consists of.
\<close>

section \<open>The text that reaches the chunks\<close>

lemma bufio_write_ok:
  assumes "writer_inv csz maxb sent ws" "0 < csz" "length buf \<le> BufSize" "bufio_write ins t (buf, ws) = (e, buf', ws')"
  shows "case e of
      None \<Rightarrow> (\<exists>sent'. writer_inv csz maxb sent' ws' \<and> sent' @ buf' = sent @ buf @ t) \<and> length buf' \<le> BufSize
    | Some err \<Rightarrow> err = ErrFileTooLarge \<and> int (length (sent @ buf @ t)) > maxb \<or> (\<exists>k\<ge>0. \<not> ins k \<and> err = ErrInsertChunk k)"
  using assms(1,3,4)
proof (induction "length t + length buf" arbitrary: t buf ws sent rule: less_induct)
  case less
  let ?k = "BufSize - length buf"
  obtain w s where ws: "ws = (w, s)" by (cases ws)
  show ?case
  proof (cases "length t \<le> ?k")
    case True
    then have r: "e = None" "buf' = buf @ t" "ws' = ws" using less.prems(3) by (simp_all add: bufio_write.simps)
    have "length (buf @ t) \<le> BufSize" using True less.prems(2) by simp
    then show ?thesis using less.prems(1) unfolding r option.case by blast
  next
    case False
    obtain r w1 s1 where run: "chunk_write ins (buf @ take ?k t) (w, s) = (r, w1, s1)"
      by (cases "chunk_write ins (buf @ take ?k t) (w, s)")
    note st = chunk_write_step [OF less.prems(1) [unfolded ws] assms(2) run]
    show ?thesis
    proof (cases r)
      case (Inl err)
      then have "e = Some err" using less.prems(3) False run ws by (simp add: bufio_write.simps [of ins t] Let_def)
      then show ?thesis using st Inl by auto
    next
      case (Inr n)
      then have inv: "writer_inv csz maxb (sent @ buf @ take ?k t) (w1, s1)" using st by simp
      have rec: "bufio_write ins (drop ?k t) ([], w1, s1) = (e, buf', ws')"
        using less.prems(3) False run Inr ws by (simp add: bufio_write.simps [of ins t] Let_def)
      have "0 < BufSize" by (simp add: BufSize_def)
      then have "length (drop ?k t) + length ([] :: bytes) < length t + length buf" using False by auto
      from less.hyps [OF this inv _ rec] have ih: "case e of
          None \<Rightarrow> (\<exists>sent'. writer_inv csz maxb sent' ws' \<and> sent' @ buf' = (sent @ buf @ take ?k t) @ [] @ drop ?k t) \<and> length buf' \<le> BufSize
        | Some err \<Rightarrow> err = ErrFileTooLarge \<and> int (length ((sent @ buf @ take ?k t) @ [] @ drop ?k t)) > maxb \<or> (\<exists>k\<ge>0. \<not> ins k \<and> err = ErrInsertChunk k)"
        by simp
      have "(sent @ buf @ take ?k t) @ [] @ drop ?k t = sent @ buf @ t" by (simp only: append_assoc append_Nil append_take_drop_id)
      with ih show ?thesis by (simp only:)
    qed
  qed
qed

lemma bufio_flush_ok:
  assumes "writer_inv csz maxb sent ws" "0 < csz" "bufio_flush ins (buf, ws) = (e, ws')"
  shows "case e of
      None \<Rightarrow> writer_inv csz maxb (sent @ buf) ws'
    | Some err \<Rightarrow> err = ErrFileTooLarge \<and> int (length (sent @ buf)) > maxb \<or> (\<exists>k\<ge>0. \<not> ins k \<and> err = ErrInsertChunk k)"
proof -
  obtain w s where ws: "ws = (w, s)" by (cases ws)
  obtain r w1 s1 where run: "chunk_write ins buf (w, s) = (r, w1, s1)" by (cases "chunk_write ins buf (w, s)")
  note st = chunk_write_step [OF assms(1) [unfolded ws] assms(2) run]
  consider "buf = []" | err where "buf \<noteq> []" "r = Inl err" | m where "buf \<noteq> []" "r = Inr m" by (cases r) auto
  then show ?thesis
  proof cases
    case 1
    then show ?thesis using assms(1,3) by (simp add: bufio_flush_def)
  next
    case 2
    then have "e = Some err" using assms(3) run ws by (simp add: bufio_flush_def)
    then show ?thesis using st 2 by auto
  next
    case 3
    then have "e = None" "ws' = (w1, s1)" using assms(3) run ws by (simp_all add: bufio_flush_def)
    then show ?thesis using st 3 by simp
  qed
qed

abbreviation rows_text :: "string list list \<Rightarrow> bytes" where
  "rows_text rows \<equiv> concat (map Writer_Write rows)"

lemma emit_rows_ok:
  assumes "writer_inv csz maxb sent (snd b)" "0 < csz" "length (fst b) \<le> BufSize" "n \<le> MaxRows"
    "emit_rows en jid ins rows n b db = (None, n', b', db')"
  shows "n' = n + int (length rows) \<and> n' \<le> MaxRows \<and> length (fst b') \<le> BufSize
    \<and> (\<exists>sent'. writer_inv csz maxb sent' (snd b') \<and> sent' @ fst b' = sent @ fst b @ rows_text rows)"
  using assms
proof (induction rows arbitrary: n b db sent)
  case (Cons r rs)
  obtain buf ws where b: "b = (buf, ws)" by (cases b)
  obtain e buf1 ws1 where w: "bufio_write ins (Writer_Write r) (buf, ws) = (e, buf1, ws1)"
    by (cases "bufio_write ins (Writer_Write r) (buf, ws)")
  have lim: "n < MaxRows" and e: "e = None" using Cons.prems(5) w b by (auto split: if_splits option.splits)
  from bufio_write_ok [OF _ Cons.prems(2) _ w, of maxb sent] Cons.prems(1,3) b e obtain sent1 where
    s1: "writer_inv csz maxb sent1 ws1" "sent1 @ buf1 = sent @ buf @ Writer_Write r" "length buf1 \<le> BufSize" by auto
  obtain db1 where rec: "emit_rows en jid ins rs (n + 1) (buf1, ws1) db1 = (None, n', b', db')"
    using Cons.prems(5) w b e lim by (auto split: if_splits prod.splits option.splits)
  from Cons.IH [OF _ Cons.prems(2) _ _ rec, of sent1] s1 lim obtain sent' where
    "n' = n + 1 + int (length rs)" "n' \<le> MaxRows" "length (fst b') \<le> BufSize" "writer_inv csz maxb sent' (snd b')"
    and t: "sent' @ fst b' = sent1 @ buf1 @ rows_text rs" by auto
  moreover have "sent' @ fst b' = sent @ buf @ rows_text (r # rs)"
    unfolding t append_assoc [symmetric] s1(2) by simp
  ultimately show ?case using b by auto
qed auto

text \<open>A file that was produced is the CSV text of the rows, within the limits.\<close>

lemma produce_text:
  assumes "produce en jid pr db = (Inr st, s, db')"
  shows "\<exists>header rows. pr = Some (header, rows, None) \<and> chunked ChunkSize (csv_file header rows) s
    \<and> rs_rows st = int (length rows) \<and> rs_rows st \<le> MaxRows
    \<and> rs_bytes st = int (length (csv_file header rows)) \<and> rs_bytes st \<le> MaxBytes \<and> rs_chunks st = int (length s)"
proof -
  let ?ins = "worker_ins en jid db"
  have csz: "0 < ChunkSize" "0 \<le> MaxBytes" "0 \<le> MaxRows" by (simp_all add: ChunkSize_def MaxBytes_def MaxRows_def)
  obtain header rows where pr: "pr = Some (header, rows, None)"
    using assms by (auto simp: produce_def Let_def split: option.splits prod.splits if_splits sum.splits)
  obtain n0 w0 s0 where w0: "chunk_write ?ins BOM (NewChunkWriter ChunkSize MaxBytes, []) = (Inr n0, w0, s0)"
    using assms pr by (auto simp: produce_def Let_def split: prod.splits if_splits sum.splits)
  have inv0: "writer_inv ChunkSize MaxBytes BOM (w0, s0)"
    using chunk_write_step [OF NewChunkWriter_inv [OF csz(1,2)] csz(1) w0] by simp
  obtain buf1 ws1 where w1: "bufio_write ?ins (csv_record header) ([], w0, s0) = (None, buf1, ws1)"
    using assms pr w0 by (auto simp: produce_def Let_def split: prod.splits if_splits sum.splits option.splits)
  from bufio_write_ok [OF inv0 csz(1) _ w1] obtain sent1 where
    s1: "writer_inv ChunkSize MaxBytes sent1 ws1" "sent1 @ buf1 = BOM @ csv_record header" "length buf1 \<le> BufSize" by auto
  obtain n buf2 ws2 db2 where e: "emit_rows en jid ?ins rows 0 (buf1, ws1) db = (None, n, (buf2, ws2), db2)"
    using assms pr w0 w1 by (auto simp: produce_def Let_def split: prod.splits if_splits sum.splits option.splits)
  from emit_rows_ok [OF _ csz(1) _ csz(3) e, of MaxBytes sent1] s1 obtain sent2 where
    s2: "n = int (length rows)" "n \<le> MaxRows" "writer_inv ChunkSize MaxBytes sent2 ws2"
    and t2: "sent2 @ buf2 = sent1 @ buf1 @ rows_text rows" by auto
  have whole: "sent2 @ buf2 = csv_file header rows"
    unfolding t2 append_assoc [symmetric] s1(2) by (simp add: csv_file_def)
  obtain ws3 where f: "bufio_flush ?ins (buf2, ws2) = (None, ws3)"
    using assms pr w0 w1 e by (auto simp: produce_def Let_def split: prod.splits if_splits sum.splits option.splits)
  have inv3: "writer_inv ChunkSize MaxBytes (csv_file header rows) ws3"
    using bufio_flush_ok [OF s2(3) csz(1) f] whole by simp
  obtain w3 s3 where ws3: "ws3 = (w3, s3)" by (cases ws3)
  obtain u w4 where c: "chunk_close ?ins (w3, s3) = (Inr u, w4, s)"
    and st: "st = \<lparr>rs_rows = n, rs_bytes = chunk_bytes w4, rs_chunks = chunk_count w4\<rparr>"
    using assms pr w0 w1 e f ws3 by (auto simp: produce_def Let_def split: prod.splits if_splits sum.splits)
  from chunk_close_chunked [OF inv3 [unfolded ws3] csz(1) c] inv3 pr s2(1,2) st show ?thesis
    by (simp add: writer_inv_def)
qed

section \<open>A run without failing calls succeeds\<close>

definition running :: "id64 \<Rightarrow> export_db \<Rightarrow> bool" where
  "running jid db \<longleftrightarrow> (\<exists>j \<in> set (xd_jobs db). ej_id j = jid \<and> ej_status j = Running)"

definition no_worker_faults :: "worker_env \<Rightarrow> bool" where
  "no_worker_faults en \<longleftrightarrow> \<not> we_begin_fails en \<and> (\<forall>k. \<not> we_chunk_fails en k) \<and> (\<forall>n. \<not> we_progress_fails en n)
     \<and> (\<forall>c. \<not> we_mark_flt en c)"

lemma running_update:
  assumes "running jid db"
  shows "running jid (snd (UpdateExportJobProgress n jid db))" "fst (UpdateExportJobProgress n jid db) \<noteq> 0"
proof -
  obtain j where j: "j \<in> set (xd_jobs db)" "ej_id j = jid" "ej_status j = Running" using assms unfolding running_def by blast
  have "j\<lparr>ej_row_count := n\<rparr> \<in> set (update_where (\<lambda>j. ej_id j = jid \<and> ej_status j = Running) (\<lambda>j. j\<lparr>ej_row_count := n\<rparr>) (xd_jobs db))"
    using j unfolding update_where_def by force
  then show "running jid (snd (UpdateExportJobProgress n jid db))"
    unfolding running_def UpdateExportJobProgress_def update_jobs_simps by (rule rev_bexI) (use j(2,3) in simp)
  show "fst (UpdateExportJobProgress n jid db) \<noteq> 0"
    using j by (auto simp: UpdateExportJobProgress_def update_jobs_def filter_empty_conv)
qed

lemma progress_at_ok:
  assumes "running jid db" "no_worker_faults en"
  shows "fst (progress_at en jid n db) = None \<and> running jid (snd (progress_at en jid n db))"
proof -
  obtain m db1 where u: "UpdateExportJobProgress n jid db = (m, db1)" by (cases "UpdateExportJobProgress n jid db")
  have "m \<noteq> 0" "running jid db1" using running_update [OF assms(1), of n] u by simp_all
  moreover have "\<not> we_progress_fails en n" using assms(2) by (simp add: no_worker_faults_def)
  ultimately show ?thesis by (simp add: progress_at_def worker_progress_def u)
qed

lemma emit_rows_succeeds:
  assumes "writer_inv csz maxb sent (snd b)" "0 < csz" "length (fst b) \<le> BufSize" "\<forall>k\<ge>0. ins k"
    "n + int (length rows) \<le> MaxRows" "int (length (sent @ fst b @ rows_text rows)) \<le> maxb"
    "running jid db" "no_worker_faults en"
  shows "fst (emit_rows en jid ins rows n b db) = None"
  using assms(1,3,5-7)
proof (induction rows arbitrary: n b db sent)
  case (Cons r rs)
  obtain buf ws where b: "b = (buf, ws)" by (cases b)
  obtain e buf1 ws1 where w: "bufio_write ins (Writer_Write r) (buf, ws) = (e, buf1, ws1)"
    by (cases "bufio_write ins (Writer_Write r) (buf, ws)")
  from bufio_write_ok [OF _ assms(2) _ w, of maxb sent] Cons.prems(1,2,4) assms(4) b
  have e: "e = None" by (cases e) auto
  from bufio_write_ok [OF _ assms(2) _ w, of maxb sent] Cons.prems(1,2) b e obtain sent1 where
    s1: "writer_inv csz maxb sent1 ws1" "sent1 @ buf1 = sent @ buf @ Writer_Write r" "length buf1 \<le> BufSize" by auto
  have len: "length sent1 + length buf1 = length sent + length buf + length (Writer_Write r)"
    using arg_cong [OF s1(2), of length] by simp
  have rec: "fst (emit_rows en jid ins rs (n + 1) (buf1, ws1) d) = None" if "running jid d" for d
    by (rule Cons.IH [of sent1]) (use s1 len Cons.prems b that in auto)
  have p: "fst (progress_at en jid (n + 1) db) = None" "running jid (snd (progress_at en jid (n + 1) db))"
    using progress_at_ok [OF Cons.prems(5) assms(8)] by blast+
  show ?case using Cons.prems(3,5) w b e rec p by (auto simp: split_beta split: option.splits)
qed simp

lemma produce_succeeds:
  assumes "no_worker_faults en" "running jid db" "\<forall>k\<ge>0. InsertExportJobChunk jid k [] db \<noteq> None"
    "int (length rows) \<le> MaxRows" "int (length (csv_file header rows)) \<le> MaxBytes"
  shows "\<exists>st s db'. produce en jid (Some (header, rows, None)) db = (Inr st, s, db')"
proof -
  let ?ins = "worker_ins en jid db"
  have ins: "\<forall>k\<ge>0. ?ins k" using assms(1,3) by (simp add: worker_ins_def no_worker_faults_def)
  have csz: "0 < ChunkSize" "0 \<le> MaxBytes" by (simp_all add: ChunkSize_def MaxBytes_def)
  have starts: "\<not> we_begin_fails en" using assms(1) by (simp add: no_worker_faults_def)
  have size: "int (length BOM) + int (length (csv_record header)) + int (length (rows_text rows)) \<le> MaxBytes"
    using assms(5) by (simp add: csv_file_def)
  obtain r0 w0 s0 where w0: "chunk_write ?ins BOM (NewChunkWriter ChunkSize MaxBytes, []) = (r0, w0, s0)"
    by (cases "chunk_write ?ins BOM (NewChunkWriter ChunkSize MaxBytes, [])")
  note st0 = chunk_write_step [OF NewChunkWriter_inv [OF csz] csz(1) w0]
  obtain n0 where r0: "r0 = Inr n0" using st0 ins size by (cases r0) auto
  then have inv0: "writer_inv ChunkSize MaxBytes BOM (w0, s0)" using st0 by simp
  obtain e1 buf1 ws1 where w1: "bufio_write ?ins (csv_record header) ([], w0, s0) = (e1, buf1, ws1)"
    by (cases "bufio_write ?ins (csv_record header) ([], w0, s0)")
  note st1 = bufio_write_ok [OF inv0 csz(1) _ w1]
  have e1: "e1 = None" using st1 ins size by (cases e1) auto
  then obtain sent1 where s1: "writer_inv ChunkSize MaxBytes sent1 ws1" "sent1 @ buf1 = BOM @ csv_record header" "length buf1 \<le> BufSize"
    using st1 by auto
  have len1: "length sent1 + length buf1 = length BOM + length (csv_record header)"
    using arg_cong [OF s1(2), of length] by simp
  obtain e2 n buf2 ws2 db2 where e: "emit_rows en jid ?ins rows 0 (buf1, ws1) db = (e2, n, (buf2, ws2), db2)"
    by (cases "emit_rows en jid ?ins rows 0 (buf1, ws1) db") auto
  have "fst (emit_rows en jid ?ins rows 0 (buf1, ws1) db) = None"
    by (rule emit_rows_succeeds [where sent = sent1 and maxb = MaxBytes, OF _ csz(1) _ ins _ _ assms(2,1)])
       (use s1 assms(4) size len1 in auto)
  then have e2: "e2 = None" using e by simp
  from emit_rows_ok [OF _ csz(1) _ _ e [unfolded e2], of MaxBytes sent1] s1 obtain sent2 where
    s2: "writer_inv ChunkSize MaxBytes sent2 ws2" and t2: "sent2 @ buf2 = sent1 @ buf1 @ rows_text rows"
    by (auto simp: MaxRows_def)
  obtain e3 w3 s3 where f: "bufio_flush ?ins (buf2, ws2) = (e3, w3, s3)" by (cases "bufio_flush ?ins (buf2, ws2)")
  have "int (length (sent2 @ buf2)) \<le> MaxBytes" unfolding t2 using size len1 by simp
  then have e3: "e3 = None" using bufio_flush_ok [OF s2 csz(1) f] ins by (cases e3) auto
  then have inv3: "writer_inv ChunkSize MaxBytes (sent2 @ buf2) (w3, s3)" using bufio_flush_ok [OF s2 csz(1) f] by simp
  obtain r4 w4 s4 where c: "chunk_close ?ins (w3, s3) = (r4, w4, s4)" by (cases "chunk_close ?ins (w3, s3)")
  obtain u where "r4 = Inr u" using chunk_close_chunked [OF inv3 csz(1) c] ins by (cases r4) auto
  then show ?thesis using starts w0 r0 w1 e1 e e2 f e3 c by (simp add: produce_def Let_def)
qed

section \<open>The steps of a run\<close>

lemma progress_step: "export_op\<^sup>*\<^sup>* (sys db w) (sys (snd (progress_at en jid n db)) w)"
proof -
  obtain r db' where p: "worker_progress (\<lambda>_. we_progress_fails en n) (we_ctx_done en n) jid n db = (r, db')"
    by (cases "worker_progress (\<lambda>_. we_progress_fails en n) (we_ctx_done en n) jid n db")
  then have "snd (progress_at en jid n db) = db'"
    by (auto simp: progress_at_def split: sum.splits succeed_err.splits)
  then show ?thesis using export_op.progress [OF p] by auto
qed

lemma worker_progress_keeps:
  assumes "worker_progress flt cd jid n db = (r, db')"
  shows "xd_chunks db' = xd_chunks db \<and> map ej_id (xd_jobs db') = map ej_id (xd_jobs db) \<and> xd_users db' = xd_users db"
  using assms by (auto simp: worker_progress_def UpdateExportJobProgress_def update_jobs_def Let_def split: if_splits)

lemma progress_keeps:
  "xd_chunks (snd (progress_at en jid n db)) = xd_chunks db"
  "map ej_id (xd_jobs (snd (progress_at en jid n db))) = map ej_id (xd_jobs db)"
  "xd_users (snd (progress_at en jid n db)) = xd_users db"
  using worker_progress_keeps
  by (auto simp: progress_at_def split: prod.splits sum.splits succeed_err.splits)

lemma emit_rows_steps:
  assumes "emit_rows en jid ins rows n b db = (e, n', b', db')"
  shows "export_op\<^sup>*\<^sup>* (sys db w) (sys db' w) \<and> xd_chunks db' = xd_chunks db \<and> map ej_id (xd_jobs db') = map ej_id (xd_jobs db)
    \<and> xd_users db' = xd_users db \<and> (in_order ins (snd b) \<longrightarrow> in_order ins (snd b'))"
  using assms
proof (induction rows arbitrary: n b db)
  case (Cons r rs)
  obtain e1 b1 where w: "bufio_write ins (Writer_Write r) b = (e1, b1)" by (cases "bufio_write ins (Writer_Write r) b")
  have ord: "in_order ins (snd b) \<Longrightarrow> in_order ins (snd b1)" using in_order_bufio [of ins b "Writer_Write r"] w by simp
  obtain pe db1 where p: "progress_at en jid (n + 1) db = (pe, db1)" by (cases "progress_at en jid (n + 1) db")
  have ps: "export_op\<^sup>*\<^sup>* (sys db w) (sys db1 w)" "xd_chunks db1 = xd_chunks db" "map ej_id (xd_jobs db1) = map ej_id (xd_jobs db)"
      "xd_users db1 = xd_users db"
    using progress_step [of db w en jid "n + 1"] progress_keeps [of en jid "n + 1" db] p by simp_all
  consider "n \<ge> MaxRows" | "n < MaxRows" "e1 \<noteq> None" | "n < MaxRows" "e1 = None" "(n + 1) mod PageSize \<noteq> 0"
    | "n < MaxRows" "e1 = None" "(n + 1) mod PageSize = 0" "pe = None" | "n < MaxRows" "e1 = None" "(n + 1) mod PageSize = 0" "pe \<noteq> None"
    by fastforce
  then show ?case
  proof cases
    case 1
    then show ?thesis using Cons.prems by auto
  next
    case 2
    then show ?thesis using Cons.prems w ord by auto
  next
    case 3
    then have "emit_rows en jid ins rs (n + 1) b1 db = (e, n', b', db')" using Cons.prems w by simp
    from Cons.IH [OF this] ord show ?thesis by auto
  next
    case 4
    then have "emit_rows en jid ins rs (n + 1) b1 db1 = (e, n', b', db')" using Cons.prems w p by simp
    note ih = Cons.IH [OF this]
    have "export_op\<^sup>*\<^sup>* (sys db w) (sys db' w)" using ps(1) ih by (auto intro: rtranclp_trans)
    then show ?thesis using ih ps(2-4) ord by auto
  next
    case 5
    then have "b' = b1" "db' = db1" using Cons.prems w p by auto
    then show ?thesis using ps ord by simp
  qed
qed auto

lemma produce_steps:
  assumes "produce en jid pr db = (r, s, db')"
  shows "export_op\<^sup>*\<^sup>* (sys db w) (sys db' w) \<and> xd_chunks db' = xd_chunks db \<and> map ej_id (xd_jobs db') = map ej_id (xd_jobs db)
    \<and> xd_users db' = xd_users db \<and> (\<exists>cw. in_order (worker_ins en jid db) (cw, s))"
proof -
  let ?ins = "worker_ins en jid db"
  have new: "in_order ?ins (NewChunkWriter ChunkSize MaxBytes, [])" by (simp add: in_order_def NewChunkWriter_def)
  show ?thesis
  proof (cases "pr = None \<or> we_begin_fails en")
    case True
    then have "s = []" "db' = db" using assms by (auto simp: produce_def split: option.splits)
    then show ?thesis using new by (auto simp: in_order_def)
  next
    case False
    then obtain header rows perr where pr: "pr = Some (header, rows, perr)" and nb: "\<not> we_begin_fails en" by (cases pr) auto
    obtain r0 ws0 where w0: "chunk_write ?ins BOM (NewChunkWriter ChunkSize MaxBytes, []) = (r0, ws0)"
      by (cases "chunk_write ?ins BOM (NewChunkWriter ChunkSize MaxBytes, [])")
    have o0: "in_order ?ins ws0" using in_order_write [OF new, of BOM] w0 by simp
    obtain e1 b1 where w1: "bufio_write ?ins (csv_record header) ([], ws0) = (e1, b1)"
      by (cases "bufio_write ?ins (csv_record header) ([], ws0)")
    have o1: "in_order ?ins (snd b1)" using in_order_bufio [of ?ins "([], ws0)" "csv_record header"] w1 o0 by simp
    obtain e2 n b2 db2 where e: "emit_rows en jid ?ins rows 0 b1 db = (e2, n, b2, db2)"
      by (cases "emit_rows en jid ?ins rows 0 b1 db") auto
    note es = emit_rows_steps [OF e, of w]
    have o2: "in_order ?ins (snd b2)" using es o1 by blast
    obtain e3 ws3 where f: "bufio_flush ?ins b2 = (e3, ws3)" by (cases "bufio_flush ?ins b2")
    have o3: "in_order ?ins ws3" using in_order_bufio_flush [OF o2] f by simp
    obtain r4 ws4 where c: "chunk_close ?ins ws3 = (r4, ws4)" by (cases "chunk_close ?ins ws3")
    have o4: "in_order ?ins ws4" using in_order_close [OF o3] c by simp
    have "(db' = db \<or> db' = db2) \<and> (\<exists>x \<in> {ws0, snd b1, snd b2, ws3, ws4}. s = snd x)"
      using assms pr nb w0 w1 e f c
      by (cases r0; cases e1; cases e2; cases perr; cases e3; cases r4) (auto simp: produce_def Let_def split: prod.splits)
    moreover have "\<forall>x \<in> {ws0, snd b1, snd b2, ws3, ws4}. in_order ?ins x" using o0 o1 o2 o3 o4 by simp
    ultimately show ?thesis using es by (metis prod.collapse rtranclp.rtrancl_refl)
  qed
qed

text \<open>The stored chunks are steps of the worker that holds the job.\<close>

lemma InsertExportJobChunk_cong:
  assumes "xd_chunks db' = xd_chunks db" "map ej_id (xd_jobs db') = map ej_id (xd_jobs db)"
  shows "InsertExportJobChunk jid k d db' = None \<longleftrightarrow> InsertExportJobChunk jid k d' db = None"
proof -
  have "(\<exists>j \<in> set (xd_jobs db'). ej_id j = jid) \<longleftrightarrow> jid \<in> set (map ej_id (xd_jobs db'))" by auto
  also have "\<dots> \<longleftrightarrow> (\<exists>j \<in> set (xd_jobs db). ej_id j = jid)" unfolding assms(2) by auto
  finally show ?thesis using assms(1) unfolding InsertExportJobChunk_def by simp
qed

lemma add_chunks_steps:
  assumes "map fst s = map int [0..<length s]" "\<forall>c \<in> set s. InsertExportJobChunk jid (fst c) [] db \<noteq> None"
  shows "export_op\<^sup>*\<^sup>* (sys db (w(jid \<mapsto> Writing []))) (sys (add_chunks jid s db) (w(jid \<mapsto> Writing (map snd s))))"
  using assms
proof (induction s rule: rev_induct)
  case (snoc c s)
  have s: "map fst s = map int [0..<length s]" "fst c = int (length s)" using snoc.prems(1) by simp_all
  have ih: "export_op\<^sup>*\<^sup>* (sys db (w(jid \<mapsto> Writing []))) (sys (add_chunks jid s db) (w(jid \<mapsto> Writing (map snd s))))"
    by (rule snoc.IH) (use s snoc.prems(2) in simp_all)
  have fresh: "fst x \<noteq> int (length s)" if "x \<in> set s" for x
  proof -
    have "fst x \<in> set (map int [0..<length s])" unfolding s(1) [symmetric] using that by simp
    then show ?thesis by auto
  qed
  have "InsertExportJobChunk jid (fst c) [] db \<noteq> None" using snoc.prems(2) by simp
  then have ins: "\<not> (\<exists>x \<in> set (xd_chunks db). ch_job x = jid \<and> ch_seq x = int (length s))" "\<exists>j \<in> set (xd_jobs db). ej_id j = jid"
    unfolding s(2) InsertExportJobChunk_def by (auto split: if_splits)
  have "InsertExportJobChunk jid (int (length (map snd s))) (snd c) (add_chunks jid s db) = Some (add_chunks jid (s @ [c]) db)"
    using ins fresh s(2) unfolding InsertExportJobChunk_def add_chunks_def by auto
  from export_op.chunk [OF _ this, of "w(jid \<mapsto> Writing (map snd s))"]
  have "export_op (sys (add_chunks jid s db) (w(jid \<mapsto> Writing (map snd s))))
      (sys (add_chunks jid (s @ [c]) db) (w(jid \<mapsto> Writing (map snd (s @ [c])))))" by simp
  with ih show ?case by (rule rtranclp.rtrancl_into_rtrancl [where r = export_op])
qed (simp add: add_chunks_def)

lemma worker_fail_step:
  assumes "v jid \<noteq> None"
  shows "export_op (sys db v) (sys (worker_fail en jid e db) (v(jid := None)))"
  unfolding worker_fail_def using assms by (rule export_op.finish_failed)

lemma worker_run_steps:
  "export_op\<^sup>*\<^sup>* (sys db (w(jid \<mapsto> Writing []))) (sys (worker_run en jid pr db) (w(jid := None)))"
proof -
  obtain r s db1 where p: "produce en jid pr db = (r, s, db1)" by (cases "produce en jid pr db")
  note ps = produce_steps [OF p, of "w(jid \<mapsto> Writing [])"]
  obtain cw where ord: "in_order (worker_ins en jid db) (cw, s)" using ps by blast
  have same: "InsertExportJobChunk jid k [] db1 = None \<longleftrightarrow> InsertExportJobChunk jid k [] db = None" for k
    by (rule InsertExportJobChunk_cong) (use ps in blast)+
  have "\<forall>c \<in> set s. InsertExportJobChunk jid (fst c) [] db1 \<noteq> None"
    unfolding same using ord by (simp add: in_order_def worker_ins_def)
  then have "export_op\<^sup>*\<^sup>* (sys db1 (w(jid \<mapsto> Writing []))) (sys (add_chunks jid s db1) (w(jid \<mapsto> Writing (map snd s))))"
    using ord by (intro add_chunks_steps) (simp_all add: in_order_def)
  then have run: "export_op\<^sup>*\<^sup>* (sys db (w(jid \<mapsto> Writing []))) (sys (add_chunks jid s db1) (w(jid \<mapsto> Writing (map snd s))))"
    using ps rtranclp_trans [of export_op] by blast
  show ?thesis
  proof (cases r)
    case (Inl e)
    have "export_op (sys (add_chunks jid s db1) (w(jid \<mapsto> Writing (map snd s))))
        (sys (worker_fail en jid e (add_chunks jid s db1)) ((w(jid \<mapsto> Writing (map snd s)))(jid := None)))"
      by (rule worker_fail_step) simp
    then have "export_op (sys (add_chunks jid s db1) (w(jid \<mapsto> Writing (map snd s)))) (sys (worker_run en jid pr db) (w(jid := None)))"
      using p Inl by (simp add: worker_run_def)
    with run show ?thesis by (rule rtranclp.rtrancl_into_rtrancl [where r = export_op])
  next
    case (Inr st)
    let ?v = "w(jid \<mapsto> Writing (map snd s))"
    from produce_text [OF p [unfolded Inr]] have st: "rs_bytes st = int (length (concat (map snd s)))" "rs_chunks st = int (length (map snd s))"
      by (auto simp: chunked_def sink_bytes_def)
    obtain rw db2 where m: "worker_succeed (we_mark_flt en) (we_mark_at en) jid (rs_rows st) (rs_bytes st) (rs_chunks st)
        (add_chunks jid s db1) = (rw, db2)"
      by (cases "worker_succeed (we_mark_flt en) (we_mark_at en) jid (rs_rows st) (rs_bytes st) (rs_chunks st) (add_chunks jid s db1)")
    have op: "export_op (sys (add_chunks jid s db1) ?v) (sys db2 (if rw = Inr () then ?v(jid := None) else ?v(jid \<mapsto> Broken)))"
      by (rule export_op.succeed [OF _ m [unfolded st] refl]) simp
    have run2: "export_op\<^sup>*\<^sup>* (sys db (w(jid \<mapsto> Writing []))) (sys db2 (if rw = Inr () then ?v(jid := None) else ?v(jid \<mapsto> Broken)))"
      using run op by (rule rtranclp.rtrancl_into_rtrancl [where r = export_op])
    show ?thesis
    proof (cases rw)
      case R: (Inr u)
      then show ?thesis using run2 p Inr m by (simp add: worker_run_def)
    next
      case L: (Inl se)
      have "\<exists>e. worker_run en jid pr db = worker_fail en jid e db2"
        using p Inr m L by (cases se) (auto simp: worker_run_def)
      then obtain e where e: "worker_run en jid pr db = worker_fail en jid e db2" ..
      have "export_op (sys db2 (?v(jid \<mapsto> Broken))) (sys (worker_run en jid pr db) ((?v(jid \<mapsto> Broken))(jid := None)))"
        unfolding e by (rule worker_fail_step) simp
      moreover have "export_op\<^sup>*\<^sup>* (sys db (w(jid \<mapsto> Writing []))) (sys db2 (?v(jid \<mapsto> Broken)))" using run2 L by simp
      ultimately have "export_op\<^sup>*\<^sup>* (sys db (w(jid \<mapsto> Writing []))) (sys (worker_run en jid pr db) ((?v(jid \<mapsto> Broken))(jid := None)))"
        by (rule rtranclp.rtrancl_into_rtrancl [where r = export_op, rotated])
      then show ?thesis by simp
    qed
  qed
qed

end
