(* ===== verification/Export_Delivery.thy ===== *)
theory Export_Delivery
  imports Export_Worker_Correct
begin

text \<open>
  From a claimed job to the bytes at the client: when no call fails, the run of a worker stores the
  whole file and the download endpoint sends it.
\<close>

section \<open>The run\<close>

lemma progress_at_running:
  assumes "running jid db" shows "running jid (snd (progress_at en jid n db))"
proof -
  obtain m db1 where u: "UpdateExportJobProgress n jid db = (m, db1)" by (cases "UpdateExportJobProgress n jid db")
  have "running jid db1" using running_update(1) [OF assms, of n] u by simp
  then show ?thesis using assms u
    by (cases "we_progress_fails en n"; cases "we_ctx_done en n") (simp_all add: progress_at_def worker_progress_def)
qed

lemma emit_rows_running:
  assumes "running jid db" "emit_rows en jid ins rows n b db = (e, n', b', db')"
  shows "running jid db'"
  using assms
proof (induction rows arbitrary: n b db)
  case (Cons r rs)
  obtain e1 b1 where w: "bufio_write ins (Writer_Write r) b = (e1, b1)" by (cases "bufio_write ins (Writer_Write r) b")
  obtain pe db1 where p: "progress_at en jid (n + 1) db = (pe, db1)" by (cases "progress_at en jid (n + 1) db")
  have r1: "running jid db1" using progress_at_running [OF Cons.prems(1), of en "n + 1"] p by simp
  show ?case using Cons.prems Cons.IH r1 w p
    by (cases "n \<ge> MaxRows"; cases e1; cases "(n + 1) mod PageSize = 0"; cases pe) auto
qed auto

lemma produce_running:
  assumes "running jid db" "produce en jid pr db = (r, s, db')"
  shows "running jid db'"
proof (cases pr)
  case None
  then show ?thesis using assms by (simp add: produce_def)
next
  case (Some p)
  obtain header rows perr where p: "p = (header, rows, perr)" by (cases p) auto
  let ?ins = "worker_ins en jid db"
  obtain r0 ws0 where w0: "chunk_write ?ins BOM (NewChunkWriter ChunkSize MaxBytes, []) = (r0, ws0)"
    by (cases "chunk_write ?ins BOM (NewChunkWriter ChunkSize MaxBytes, [])")
  obtain e1 b1 where w1: "bufio_write ?ins (csv_record header) ([], ws0) = (e1, b1)"
    by (cases "bufio_write ?ins (csv_record header) ([], ws0)")
  obtain e2 n b2 db2 where e: "emit_rows en jid ?ins rows 0 b1 db = (e2, n, b2, db2)"
    by (cases "emit_rows en jid ?ins rows 0 b1 db") auto
  have "db' = db \<or> db' = db2" using assms(2) Some p w0 w1 e
    by (cases r0; cases e1; cases e2; cases perr) (auto simp: produce_def Let_def split: prod.splits if_splits option.splits sum.splits)
  then show ?thesis using assms(1) emit_rows_running [OF assms(1) e] by auto
qed

lemma chunks_of_add: "chunks_of (add_chunks jid s db) jid = chunks_of db jid @ s"
  by (simp add: chunks_of_def add_chunks_def comp_def filter_map)

lemma worker_succeed_ok:
  assumes "running jid db" "\<And>c. \<not> flt c"
  shows "fst (worker_succeed flt now jid rows nb cs db) = Inr ()"
    "snd (worker_succeed flt now jid rows nb cs db) = snd (MarkExportJobSucceeded now Retention rows nb cs jid db)"
proof -
  obtain j where j: "j \<in> set (xd_jobs db)" "ej_id j = jid" "ej_status j = Running" using assms(1) unfolding running_def by blast
  obtain n db1 where u: "MarkExportJobSucceeded now Retention rows nb cs jid db = (n, db1)"
    by (cases "MarkExportJobSucceeded now Retention rows nb cs jid db")
  have "fst (MarkExportJobSucceeded now Retention rows nb cs jid db) \<noteq> 0"
    using j by (auto simp: MarkExportJobSucceeded_def update_jobs_def filter_empty_conv)
  then have "n \<noteq> 0" using u by simp
  then show "fst (worker_succeed flt now jid rows nb cs db) = Inr ()"
    "snd (worker_succeed flt now jid rows nb cs db) = snd (MarkExportJobSucceeded now Retention rows nb cs jid db)"
    using assms(2) u by (simp_all add: worker_succeed_def)
qed

text \<open>The whole run, on a job that was just claimed.\<close>

lemma worker_run_ok:
  assumes "no_worker_faults en" "running jid db" "chunks_of db jid = []"
    and rows: "int (length rows) \<le> MaxRows" "int (length (csv_file header rows)) \<le> MaxBytes"
  shows "\<exists>s j. chunked ChunkSize (csv_file header rows) s
    \<and> chunks_of (worker_run en jid (Some (header, rows, None)) db) jid = s
    \<and> xd_users (worker_run en jid (Some (header, rows, None)) db) = xd_users db
    \<and> j \<in> set (xd_jobs (worker_run en jid (Some (header, rows, None)) db)) \<and> ej_id j = jid \<and> ej_status j = Succeeded
    \<and> ej_expires_at j = Some (we_mark_at en + Retention)"
proof -
  let ?pr = "Some (header, rows, None)"
  have noc: "\<not> (\<exists>c \<in> set (xd_chunks db). ch_job c = jid \<and> ch_seq c = k)" for k
    using assms(3) by (auto simp: chunks_of_def filter_empty_conv)
  have "\<exists>j \<in> set (xd_jobs db). ej_id j = jid" using assms(2) unfolding running_def by blast
  then have ins: "\<forall>k\<ge>0. InsertExportJobChunk jid k [] db \<noteq> None" using noc unfolding InsertExportJobChunk_def by auto
  from produce_succeeds [OF assms(1,2) ins rows] obtain st s db1 where
    p: "produce en jid ?pr db = (Inr st, s, db1)" by blast
  from produce_text [OF p] have ch: "chunked ChunkSize (csv_file header rows) s" by auto
  have keep: "xd_chunks db1 = xd_chunks db" "xd_users db1 = xd_users db" using produce_steps [OF p] by blast+
  let ?db2 = "add_chunks jid s db1"
  have run2: "running jid ?db2" using produce_running [OF assms(2) p] by (simp add: running_def add_chunks_def)
  have nf: "\<And>c. \<not> we_mark_flt en c" using assms(1) by (simp add: no_worker_faults_def)
  let ?m = "MarkExportJobSucceeded (we_mark_at en) Retention (rs_rows st) (rs_bytes st) (rs_chunks st) jid ?db2"
  have wr: "worker_run en jid ?pr db = snd ?m"
    using p worker_succeed_ok [where flt = "we_mark_flt en" and now = "we_mark_at en" and rows = "rs_rows st"
        and nb = "rs_bytes st" and cs = "rs_chunks st", OF run2 nf]
    by (simp add: worker_run_def split_beta split: sum.splits)
  obtain j where j: "j \<in> set (xd_jobs ?db2)" "ej_id j = jid" "ej_status j = Running" using run2 unfolding running_def by blast
  let ?j = "j\<lparr>ej_status := Succeeded, ej_finished_at := Some (we_mark_at en), ej_expires_at := Some (we_mark_at en + Retention),
      ej_row_count := rs_rows st, ej_byte_size := Some (rs_bytes st), ej_chunk_count := Some (rs_chunks st)\<rparr>"
  have "?j \<in> set (xd_jobs (snd ?m))"
    unfolding MarkExportJobSucceeded_def update_jobs_simps update_where_def set_map
    by (rule image_eqI [OF _ j(1)]) (use j(2,3) in simp)
  moreover have "chunks_of (snd ?m) jid = s"
    using chunks_of_add [of jid s db1] keep(1) assms(3) by (simp add: chunks_of_def MarkExportJobSucceeded_def)
  moreover have "xd_users (snd ?m) = xd_users db"
    using keep(2) by (simp add: MarkExportJobSucceeded_def update_jobs_def add_chunks_def)
  ultimately show ?thesis using ch j(2) unfolding wr by (intro exI [of _ s] exI [of _ ?j]) simp
qed

section \<open>The download\<close>

lemma KindSpecs_action: "KindSpecs k = Some spec \<Longrightarrow> ks_action spec \<noteq> []"
  by (auto simp: KindSpecs_def split: if_splits)

lemma start_download_succeeds:
  assumes dist: "distinct (map ej_id (xd_jobs db))" and j: "j \<in> set (xd_jobs db)" "ej_status j = Succeeded"
      "ej_expires_at j = Some e" "now < e" "0 < ej_id j"
    and a: "ej_requested_by j = act_user_id a" "act_user_id a \<noteq> 0" "GetActiveUserRole db (act_user_id a) = Some role" "allowed (ej_kind j) role"
    and flt: "\<And>c. \<not> flt c"
  shows "\<exists>db'. Service_StartDownload id flt now a (ej_id j) db
     = (Inr (j\<lparr>ej_status := Downloading, ej_download_started_at := Some now\<rparr>), db')"
proof -
  let ?p = "\<lambda>x. ej_id x = ej_id j \<and> ej_requested_by x = act_user_id a \<and> ej_status x = Succeeded
                 \<and> (case ej_expires_at x of None \<Rightarrow> False | Some e \<Rightarrow> e > now)"
  have get: "Service_Get flt a (ej_id j) db = Inr j"
    using find_row_in_jobs [OF dist j(1) a(1)] a(1,2) j(5) flt by (simp add: Service_Get_def)
  have pj: "?p j" using j a(1) by simp
  obtain x where x: "find_row ?p (xd_jobs db) = Some x" using pj j(1) find_row_None [of ?p "xd_jobs db"] by blast
  have "x = j" using find_row_Some [OF x] distinct_key_eq [OF dist _ j(1)] by blast
  then obtain db1 where st: "StartExportJobDownload now (ej_id j) (act_user_id a) db
      = Some (j\<lparr>ej_status := Downloading, ej_download_started_at := Some now\<rparr>, db1)"
    using x by (simp add: StartExportJobDownload_def Let_def)
  obtain spec where spec: "KindSpecs (ej_kind j) = Some spec" using a(4) by (auto simp: allowed_def split: option.splits)
  have "\<exists>db2. start_download_tx flt now a (ej_id j) db
      = Inr (j\<lparr>ej_status := Downloading, ej_download_started_at := Some now\<rparr>, db2)"
    using st spec KindSpecs_action [OF spec] a(2) flt
    by (simp add: start_download_tx_def audit_write_def job_audit_def audit_entry_def)
  then show ?thesis using get a(2-4) flt by (auto simp: Service_StartDownload_def run_in_tx_def)
qed

lemma OpenChunks_all:
  assumes "chunks_of db jid = numbered ds" "int (length ds) \<le> int32_max" "\<And>c. \<not> flt c"
  shows "Service_OpenChunks flt db jid (int (length ds)) = (ds, None)"
proof -
  obtain m where m: "fst (open_chunks_from flt db jid (int 0) (length ds)) = take m (drop 0 ds)"
      "snd (open_chunks_from flt db jid (int 0) (length ds)) = None \<longleftrightarrow> m = length ds" "m = length ds"
    using open_chunks_from_numbered [OF assms(1), of 0 "length ds" flt] assms(3) by auto
  then show ?thesis using assms(2) by (simp add: Service_OpenChunks_def prod_eq_iff)
qed

lemma chunked_count:
  assumes "chunked csz f s" shows "length s \<le> length f"
proof -
  have len: "\<forall>c \<in> set s. 0 < length (snd c)" and f: "f = concat (map snd s)" using assms by (auto simp: chunked_def sink_bytes_def)
  have "length s \<le> length (concat (map snd s))" using len
  proof (induction s)
    case (Cons c s)
    then have "0 < length (snd c)" "length s \<le> length (concat (map snd s))" by simp_all
    then show ?case unfolding list.map concat.simps length_append list.size by linarith
  qed simp
  then show ?thesis unfolding f .
qed

lemma numbered_map_snd: "map fst s = map int [0..<length s] \<Longrightarrow> numbered (map snd s) = s"
  unfolding numbered_def length_map by (metis zip_map_fst_snd)

lemma download_delivers:
  assumes inv: "export_inv (sys db w)" and j: "j \<in> set (xd_jobs db)" "ej_status j = Succeeded" "ej_expires_at j = Some e" "now < e" "0 < ej_id j"
    and a: "ej_requested_by j = act_user_id a" "act_user_id a \<noteq> 0" "GetActiveUserRole db (act_user_id a) = Some role" "allowed (ej_kind j) role"
    and flt: "\<And>c. \<not> flt c" and sent: "\<And>k. sent k" and ch: "chunked csz f (chunks_of db (ej_id j))" "int (length f) \<le> int32_max"
  shows "fst (ExportsHandler_Download flt sent now now' a (ej_id j) db) = DlFile (ej_file_name j) (int (length f)) f"
proof -
  have dist: "distinct (map ej_id (xd_jobs db))" using inv by (simp add: export_inv_def job_keys_ok_def)
  let ?jd = "j\<lparr>ej_status := Downloading, ej_download_started_at := Some now\<rparr>"
  from start_download_succeeds [where flt = flt, OF dist j a flt] obtain db1 where
    s: "Service_StartDownload id flt now a (ej_id j) db = (Inr ?jd, db1)" by blast
  from claimed_download [OF inv s] obtain ds where
    cs: "chunks_of db (ej_id j) = numbered ds" "chunks_of db1 (ej_id j) = numbered ds" and
    meta: "ej_byte_size ?jd = Some (int (length (concat ds)))" "ej_chunk_count ?jd = Some (int (length ds))" by blast
  have snd_num: "map snd (numbered ds) = ds" by (simp add: numbered_def)
  have f: "concat ds = f" using ch(1) cs(1) snd_num by (simp add: chunked_def sink_bytes_def)
  have "length ds \<le> length f" using chunked_count [OF ch(1)] unfolding cs(1) by (simp add: numbered_def)
  then have "Service_OpenChunks flt db1 (ej_id j) (int (length ds)) = (ds, None)"
    using ch(2) by (intro OpenChunks_all [OF cs(2) _ flt]) simp
  then show ?thesis using s meta f stream_chunks_all [of sent 0 ds] sent
    by (simp add: ExportsHandler_Download_def)
qed

end
