(* ===== verification/Export_Properties.thy ===== *)
theory Export_Properties
  imports Export_Runs
begin

text \<open>
  The properties of the export jobs, with witnesses on one export: an administrator asks for the
  vendor list, a worker stores it in two chunks, and the administrator downloads it.
\<close>

section \<open>A sample export\<close>

definition no_xfaults :: export_faults where "no_xfaults = (\<lambda>_. False)"

definition admin :: actor where
  "admin = \<lparr>act_user_id = 1, act_username = ''adm'', act_role = ''ADMIN'', act_ip = ''::1''\<rparr>"

definition sample_params :: export_params where
  "sample_params = \<lparr>ep_kind = ''master_data_global'', ep_entity = ''vendors'', ep_vendor_id = None,
     ep_branch_id = None, ep_status_filter = ''active'', ep_price_level = None, ep_report = None\<rparr>"

definition no_marshal :: "string \<Rightarrow> string \<Rightarrow> report_params \<Rightarrow> string" where
  "no_marshal = (\<lambda>_ _ _. [])"

definition sx0 :: export_db where
  "sx0 = \<lparr>xd_jobs = [], xd_chunks = [], xd_audit = [],
     xd_users = [\<lparr>eu_id = 1, eu_role = ''ADMIN'', eu_active = True, eu_deleted = False\<rparr>,
                 \<lparr>eu_id = 2, eu_role = ''ADMIN'', eu_active = False, eu_deleted = False\<rparr>],
     xd_vendors = [], xd_branches = [], xd_next_id = 1\<rparr>"

definition sx1 :: export_db where
  "sx1 = snd (Service_Create id no_marshal id no_xfaults 0 ''20260101'' admin sample_params sx0)"
definition sx2 :: export_db where "sx2 = snd (the (ClaimNextExportJob 10 sx1))"
definition sx3 :: export_db where "sx3 = the (InsertExportJobChunk 1 0 ''ab'' sx2)"
definition sx4 :: export_db where "sx4 = the (InsertExportJobChunk 1 1 ''c'' sx3)"
definition sx5 :: export_db where "sx5 = snd (worker_succeed no_xfaults 20 1 7 3 2 sx4)"
definition sx6 :: export_db where "sx6 = snd (Service_StartDownload id no_xfaults 30 admin 1 sx5)"
definition sx7 :: export_db where "sx7 = snd (Service_CompleteDownload no_xfaults 40 1 sx6)"

lemma sx1_run: "export_op (sys sx0 Map.empty) (sys sx1 Map.empty)"
  by (rule export_op.create [where r = "fst (Service_Create id no_marshal id no_xfaults 0 ''20260101'' admin sample_params sx0)"])
     (simp add: sx1_def)

lemma sx2_run: "export_op (sys sx1 Map.empty) (sys sx2 (Map.empty(1 \<mapsto> Writing [])))"
proof -
  have "ej_id (fst (the (ClaimNextExportJob 10 sx1))) = 1" "ClaimNextExportJob 10 sx1 \<noteq> None" by code_simp+
  moreover from this have "ClaimNextExportJob 10 sx1 = Some (fst (the (ClaimNextExportJob 10 sx1)), sx2)"
    by (simp add: sx2_def)
  ultimately show ?thesis using export_op.claim by metis
qed

lemma sx4_run:
  "export_op (sys sx2 (Map.empty(1 \<mapsto> Writing []))) (sys sx3 (Map.empty(1 \<mapsto> Writing [''ab''])))"
  "export_op (sys sx3 (Map.empty(1 \<mapsto> Writing [''ab'']))) (sys sx4 (Map.empty(1 \<mapsto> Writing [''ab'', ''c''])))"
proof -
  have "InsertExportJobChunk 1 0 ''ab'' sx2 \<noteq> None" by code_simp
  then have "InsertExportJobChunk 1 (int (length ([] :: bytes list))) ''ab'' sx2 = Some sx3" by (simp add: sx3_def)
  from export_op.chunk [OF _ this, of "Map.empty(1 \<mapsto> Writing [])"]
  show "export_op (sys sx2 (Map.empty(1 \<mapsto> Writing []))) (sys sx3 (Map.empty(1 \<mapsto> Writing [''ab''])))" by simp
  have "InsertExportJobChunk 1 1 ''c'' sx3 \<noteq> None" by code_simp
  then have "InsertExportJobChunk 1 (int (length [''ab''])) ''c'' sx3 = Some sx4" by (simp add: sx4_def)
  from export_op.chunk [OF _ this, of "Map.empty(1 \<mapsto> Writing [''ab''])"]
  show "export_op (sys sx3 (Map.empty(1 \<mapsto> Writing [''ab'']))) (sys sx4 (Map.empty(1 \<mapsto> Writing [''ab'', ''c''])))"
    by simp
qed

lemma sx5_run: "export_op (sys sx4 (Map.empty(1 \<mapsto> Writing [''ab'', ''c'']))) (sys sx5 Map.empty)"
proof -
  have ok: "fst (worker_succeed no_xfaults 20 1 7 (int (length (concat [''ab'', ''c'']))) (int (length [''ab'', ''c''])) sx4) = Inr ()"
    by code_simp
  have sx5: "snd (worker_succeed no_xfaults 20 1 7 (int (length (concat [''ab'', ''c'']))) (int (length [''ab'', ''c''])) sx4) = sx5"
    by (simp add: sx5_def)
  have run: "worker_succeed no_xfaults 20 1 7 (int (length (concat [''ab'', ''c'']))) (int (length [''ab'', ''c''])) sx4 = (Inr (), sx5)"
    by (rule prod_eqI) (simp_all only: ok sx5 fst_conv snd_conv)
  show ?thesis by (rule export_op.succeed [OF _ run]) auto
qed

lemma sx7_run:
  "export_op (sys sx5 Map.empty) (sys sx6 Map.empty)" "export_op (sys sx6 Map.empty) (sys sx7 Map.empty)"
  by (rule export_op.start [where rs = "fst (Service_StartDownload id no_xfaults 30 admin 1 sx5)"], simp add: sx6_def)
     (rule export_op.complete [where rc = "fst (Service_CompleteDownload no_xfaults 40 1 sx6)"], simp add: sx7_def)

lemma sx_reachable:
  "export_init (sys sx0 Map.empty)" "export_op\<^sup>*\<^sup>* (sys sx0 Map.empty) (sys sx1 Map.empty)"
  "export_op\<^sup>*\<^sup>* (sys sx0 Map.empty) (sys sx5 Map.empty)" "export_op\<^sup>*\<^sup>* (sys sx5 Map.empty) (sys sx7 Map.empty)"
  "export_op\<^sup>*\<^sup>* (sys sx0 Map.empty) (sys sx7 Map.empty)"
proof -
  show "export_init (sys sx0 Map.empty)" by (simp add: export_init_def sx0_def)
  show 1: "export_op\<^sup>*\<^sup>* (sys sx0 Map.empty) (sys sx1 Map.empty)" using sx1_run by (rule r_into_rtranclp [of export_op])
  from rtranclp.rtrancl_into_rtrancl [where r = export_op, OF 1 sx2_run]
  have "export_op\<^sup>*\<^sup>* (sys sx0 Map.empty) (sys sx2 (Map.empty(1 \<mapsto> Writing [])))" .
  from rtranclp.rtrancl_into_rtrancl [where r = export_op, OF this sx4_run(1)]
  have "export_op\<^sup>*\<^sup>* (sys sx0 Map.empty) (sys sx3 (Map.empty(1 \<mapsto> Writing [''ab''])))" .
  from rtranclp.rtrancl_into_rtrancl [where r = export_op, OF this sx4_run(2)]
  have "export_op\<^sup>*\<^sup>* (sys sx0 Map.empty) (sys sx4 (Map.empty(1 \<mapsto> Writing [''ab'', ''c''])))" .
  from rtranclp.rtrancl_into_rtrancl [where r = export_op, OF this sx5_run]
  show 5: "export_op\<^sup>*\<^sup>* (sys sx0 Map.empty) (sys sx5 Map.empty)" .
  show 7: "export_op\<^sup>*\<^sup>* (sys sx5 Map.empty) (sys sx7 Map.empty)"
    by (rule rtranclp.rtrancl_into_rtrancl [where r = export_op, OF r_into_rtranclp [of export_op, OF sx7_run(1)] sx7_run(2)])
  show "export_op\<^sup>*\<^sup>* (sys sx0 Map.empty) (sys sx7 Map.empty)" using 5 7 by (rule rtranclp_trans)
qed

lemma reachable_export_inv: "export_init s0 \<Longrightarrow> export_op\<^sup>*\<^sup>* s0 (sys db w) \<Longrightarrow> export_inv (sys db w)"
  by (rule export_sys.reachable_invar)

section \<open>Limits and lifecycle\<close>

text \<open>C5: in every reachable state, whatever the interleaving of requests, workers, downloads and the
  janitor and whatever calls fail, a user has at most three active exports, and at most one active
  export with the same parameters.\<close>

theorem export_limits_hold:
  assumes "export_init s0" and "export_op\<^sup>*\<^sup>* s0 (sys db w)"
  shows "CountActiveExportJobs db uid \<le> MaxActivePerUser
    \<and> length (filter (\<lambda>j. ej_requested_by j = uid \<and> ej_params_hash j = h \<and> active j) (xd_jobs db)) \<le> 1"
proof -
  have lim: "limits_ok (xd_jobs db)" using reachable_export_inv [OF assms] by (simp add: export_inv_def)
  have "length (filter (\<lambda>j. ej_requested_by j = uid \<and> ej_params_hash j = h \<and> active j) js) \<le> 1"
    if "distinct (map (\<lambda>j. (ej_requested_by j, ej_params_hash j)) (filter active js))" for js
  proof -
    have "filter (\<lambda>j. ej_requested_by j = uid \<and> ej_params_hash j = h \<and> active j) js
        = filter (\<lambda>j. (ej_requested_by j, ej_params_hash j) = (uid, h)) (filter active js)"
      by (induction js) auto
    also have "length \<dots> \<le> 1" by (rule distinct_key_filter [OF that])
    finally show ?thesis .
  qed
  with lim show ?thesis unfolding limits_ok_def CountActiveExportJobs_def by blast
qed

theorem export_limits_hold_witness: "CountActiveExportJobs sx1 1 \<le> MaxActivePerUser"
  using export_limits_hold [OF sx_reachable(1,2), of 1 "[]"] by simp

text \<open>C27: every job follows the documented status graph for ever: along any run a job keeps its
  identity, owner, parameters and file name, its status moves only along the graph, and a failed,
  downloaded or expired job never changes status again.\<close>

theorem export_status_follows_graph:
  assumes "export_init s0" and "export_op\<^sup>*\<^sup>* s0 s" and "export_op\<^sup>*\<^sup>* s t" and "j \<in> set (xd_jobs (es_db s))"
  shows "\<exists>j' \<in> set (xd_jobs (es_db t)). same_job j j' \<and> status_step\<^sup>*\<^sup>* (ej_status j) (ej_status j')
    \<and> (ej_status j \<in> {Failed, Downloaded, Expired} \<longrightarrow> ej_status j' = ej_status j)"
proof -
  have "export_inv s" using assms(1,2) by (rule export_sys.reachable_invar)
  with assms(3) have "evolves (xd_jobs (es_db s)) (xd_jobs (es_db t))"
    by (rule export_sys.run_preorder [where Q = "\<lambda>s t. evolves (xd_jobs (es_db s)) (xd_jobs (es_db t))"])
       (rule evolves_refl, erule (1) evolves_trans, erule (1) export_op_evolves)
  with assms(4) show ?thesis unfolding evolves_def using terminal_status by blast
qed

theorem export_status_follows_graph_witness:
  "\<exists>j' \<in> set (xd_jobs sx7). ej_id j' = 1 \<and> status_step\<^sup>*\<^sup>* Succeeded (ej_status j')"
proof -
  have j: "hd (xd_jobs sx5) \<in> set (xd_jobs (es_db (sys sx5 Map.empty)))"
    "ej_id (hd (xd_jobs sx5)) = 1" "ej_status (hd (xd_jobs sx5)) = Succeeded" by code_simp+
  from export_status_follows_graph [OF sx_reachable(1,3,4) j(1)] j(2,3) show ?thesis
    by (auto simp: same_job_def)
qed

section \<open>Requests\<close>

text \<open>What \<open>Create\<close> does, for any failing calls and any commits of other sessions before its
  transaction. A new job is queued for the caller, below the limit and with no active twin, together
  with its audit row and nothing else; a repeated request returns the caller's active job with the
  same parameters and writes nothing; an error writes nothing.\<close>

lemma Create_outcomes:
  assumes "Service_Create sha marshal env flt now day a p db = (r, db')"
  shows "case r of
      Inl e \<Rightarrow> db' = db \<or> db' = env db
    | Inr (j, False) \<Rightarrow> db' = env db \<and> j \<in> set (xd_jobs db') \<and> active j
        \<and> ej_requested_by j = act_user_id a \<and> ej_params_hash j = ParamsHash sha marshal p
    | Inr (j, True) \<Rightarrow>
        CountActiveExportJobs (env db) (act_user_id a) < MaxActivePerUser
      \<and> FindActiveExportJobByHash (env db) (act_user_id a) (ParamsHash sha marshal p) = None
      \<and> allowed (ep_kind p) (act_role a) \<and> ej_status j = Queued \<and> ej_requested_by j = act_user_id a
      \<and> ej_params_hash j = ParamsHash sha marshal p
      \<and> (\<exists>ref. db' = (env db)\<lparr>xd_jobs := xd_jobs (env db) @ [j], xd_next_id := xd_next_id (env db) + 1,
              xd_audit := xd_audit (env db) @ [job_audit ''export_requested'' j a (requestedAfter j a) ref]\<rparr>)"
proof (cases "act_user_id a = 0 \<or> \<not> allowed (ep_kind p) (act_role a) \<or> (\<exists>e. resolveScope flt db p = Inl e)")
  case True
  then have "\<exists>e. r = Inl e \<and> db' = db" using assms unfolding Service_Create_def by (auto split: if_splits)
  then show ?thesis by auto
next
  case False
  then obtain vcode bcode where sc: "resolveScope flt db p = Inr (vcode, bcode)"
    and al: "allowed (ep_kind p) (act_role a)" by (cases "resolveScope flt db p") auto
  let ?h = "ParamsHash sha marshal p" and ?fn = "FileName p (strOrEmpty vcode) (strOrEmpty bcode) day"
  have run: "run_in_tx (\<not> flt XCommit) ErrInternal (create_tx flt now a p vcode bcode ?h ?fn) (env db) = (r, db')"
    using assms False sc by (auto simp: Service_Create_def)
  show ?thesis
  proof (cases r)
    case (Inl e)
    then show ?thesis using run run_in_tx_error by fastforce
  next
    case (Inr res)
    then have tx: "create_tx flt now a p vcode bcode ?h ?fn (env db) = Inr (res, db')" using run_in_tx_ok [OF run [unfolded Inr]] by simp
    then show ?thesis
    proof (cases rule: create_tx_cases)
      case (existing j)
      then show ?thesis using Inr
        by (auto simp: FindActiveExportJobByHash_def dest: find_row_Some)
    next
      case (created j db1 spec)
      then show ?thesis using Inr al
        by (auto simp: InsertExportJob_def Let_def audit_write_def split: if_splits)
    qed
  qed
qed

lemma Create_outcomes_witness:
  "CountActiveExportJobs sx0 1 < MaxActivePerUser \<and> ej_status (hd (xd_jobs sx1)) = Queued"
proof -
  have "fst (Service_Create id no_marshal id no_xfaults 0 ''20260101'' admin sample_params sx0)
      = Inr (hd (xd_jobs sx1), True)" by code_simp
  then have "Service_Create id no_marshal id no_xfaults 0 ''20260101'' admin sample_params sx0
      = (Inr (hd (xd_jobs sx1), True), sx1)" by (simp add: prod_eq_iff sx1_def)
  from Create_outcomes [OF this] show ?thesis by (simp add: admin_def)
qed

section \<open>Downloads\<close>

text \<open>No byte leaves without an audit row and a current permission. A download is claimed only for
  the caller's own succeeded, unexpired job, only when the role the user holds now (active, not
  deleted) may see the kind, and the claim commits together with exactly one audit row; any refusal
  changes nothing.\<close>

lemma StartDownload_audited:
  assumes "Service_StartDownload env flt now a jid db = (r, db')"
  shows "case r of
      Inl e \<Rightarrow> db' = db \<or> db' = env db
    | Inr j \<Rightarrow> (\<exists>j0 role spec. j0 \<in> set (xd_jobs (env db)) \<and> ej_id j0 = jid
        \<and> ej_requested_by j0 = act_user_id a \<and> ej_status j0 = Succeeded \<and> (\<exists>e. ej_expires_at j0 = Some e \<and> now < e)
        \<and> j = j0\<lparr>ej_status := Downloading, ej_download_started_at := Some now\<rparr>
        \<and> (\<exists>pre. GetExportJobForUser db jid (act_user_id a) = Some pre \<and> allowed (ej_kind pre) role)
        \<and> GetActiveUserRole db (act_user_id a) = Some role \<and> KindSpecs (ej_kind j0) = Some spec
        \<and> xd_audit db' = xd_audit (env db) @ [job_audit (ks_action spec) j a
             (requestedAfter j a @ [(''row_count'', JNum (ej_row_count j))]) (ks_ref spec)])"
proof (cases rule: service_start_cases [of env flt now a jid db])
  case (claimed pre role j db1)
  then have r: "r = Inr j" "db' = db1" using assms by simp_all
  from claimed(6) obtain db2 spec where c: "StartExportJobDownload now jid (act_user_id a) (env db) = Some (j, db2)"
      "KindSpecs (ej_kind j) = Some spec" "audit_write (flt XAudit) (job_audit (ks_action spec) j a
         (requestedAfter j a @ [(''row_count'', JNum (ej_row_count j))]) (ks_ref spec)) db2 = Some db1"
    by (rule start_download_tx_cases)
  from StartExportJobDownload_Some [OF c(1)] obtain j0 where j0: "j0 \<in> set (xd_jobs (env db))" "ej_id j0 = jid"
      "ej_requested_by j0 = act_user_id a" "ej_status j0 = Succeeded" "\<exists>e. ej_expires_at j0 = Some e \<and> now < e"
      "j = j0\<lparr>ej_status := Downloading, ej_download_started_at := Some now\<rparr>" "xd_audit db2 = xd_audit (env db)" by blast
  have pre: "GetExportJobForUser db jid (act_user_id a) = Some pre"
    using claimed(2) by (auto simp: Service_Get_def split: if_splits option.splits)
  have "KindSpecs (ej_kind j0) = Some spec" using c(2) j0(6) by simp
  moreover have "xd_audit db' = xd_audit (env db) @ [job_audit (ks_action spec) j a
             (requestedAfter j a @ [(''row_count'', JNum (ej_row_count j))]) (ks_ref spec)]"
    using audit_write_jobs [OF c(3)] j0(7) r(2) by simp
  ultimately show ?thesis using j0(1-6) pre claimed(3,4) r(1) unfolding r(1) sum.case by blast
qed (use assms in auto)

lemma StartDownload_audited_witness: "length (xd_audit sx6) = Suc (length (xd_audit sx5))"
proof -
  have "isl (fst (Service_StartDownload id no_xfaults 30 admin 1 sx5)) = False" by code_simp
  then obtain j where "fst (Service_StartDownload id no_xfaults 30 admin 1 sx5) = Inr j"
    by (cases "fst (Service_StartDownload id no_xfaults 30 admin 1 sx5)") auto
  then have "Service_StartDownload id no_xfaults 30 admin 1 sx5 = (Inr j, sx6)"
    by (auto simp: sx6_def prod_eq_iff)
  from StartDownload_audited [OF this] show ?thesis by auto
qed

text \<open>Another user's job does not exist. For a job that is not the caller's, \<open>Get\<close> and
  \<open>StartDownload\<close> answer not-found, as for a job that is not there, and change nothing.\<close>

lemma foreign_job_hidden:
  assumes "act_user_id a \<noteq> 0" and "\<And>c. \<not> flt c"
    and "\<forall>j \<in> set (xd_jobs db). ej_id j = jid \<longrightarrow> ej_requested_by j \<noteq> act_user_id a"
  shows "Service_Get flt a jid db = Inl ErrNotFound
    \<and> Service_StartDownload env flt now a jid db = (Inl ErrNotFound, db)"
proof -
  have "GetExportJobForUser db jid (act_user_id a) = None"
    using assms(3) unfolding GetExportJobForUser_def find_row_None by blast
  then show ?thesis using assms(1,2) by (simp add: Service_Get_def Service_StartDownload_def)
qed

lemma foreign_job_hidden_witness:
  "Service_Get no_xfaults (admin\<lparr>act_user_id := 2\<rparr>) 1 sx5 = Inl ErrNotFound"
proof -
  have "\<forall>j \<in> set (xd_jobs sx5). ej_id j = 1 \<longrightarrow> ej_requested_by j \<noteq> 2" by code_simp
  then show ?thesis
    using foreign_job_hidden [of "admin\<lparr>act_user_id := 2\<rparr>" no_xfaults sx5 1 id 0]
    by (simp add: no_xfaults_def admin_def)
qed

text \<open>What a download that was not refused has claimed, and how it ends.\<close>

lemma Download_streams:
  assumes inv: "export_inv (sys db w)"
    and D: "ExportsHandler_Download flt sent now now' a jid db = (reply, db')"
  obtains (refused) e where "reply = DlRefused e"
  | (streamed) j0 j ds db1 st where "j0 \<in> set (xd_jobs db)" "ej_id j0 = jid" "ej_requested_by j0 = act_user_id a"
      "ej_status j0 = Succeeded" "j = j0\<lparr>ej_status := Downloading, ej_download_started_at := Some now\<rparr>"
      "chunks_of db jid = numbered ds" "chunks_of db1 jid = numbered ds" "j \<in> set (xd_jobs db1)"
      "st = stream_chunks sent 0 (Service_OpenChunks flt db1 jid (int (length ds)))"
      "(reply, db') = (if snd st then (DlFile (ej_file_name j) (int (length (concat ds))) (fst st),
            snd (Service_CompleteDownload flt now' jid db1))
          else (DlBroken (fst st), snd (Service_AbortDownload flt jid db1)))"
proof (cases "Service_StartDownload id flt now a jid db")
  case (Pair r db1)
  show ?thesis
  proof (cases r)
    case (Inl e)
    then have "reply = DlRefused e" using D Pair by (auto simp: ExportsHandler_Download_def)
    then show ?thesis by (rule refused)
  next
    case (Inr j)
    from claimed_download [OF inv Pair [unfolded Inr]] obtain j0 ds where
      j0: "j0 \<in> set (xd_jobs db)" "ej_id j0 = jid" "ej_requested_by j0 = act_user_id a" "ej_status j0 = Succeeded"
        "j = j0\<lparr>ej_status := Downloading, ej_download_started_at := Some now\<rparr>" and
      cs: "chunks_of db jid = numbered ds" "chunks_of db1 jid = numbered ds" and
      meta: "ej_byte_size j = Some (int (length (concat ds)))" "ej_chunk_count j = Some (int (length ds))" and
      j1: "j \<in> set (xd_jobs db1)" by blast
    let ?st = "stream_chunks sent 0 (Service_OpenChunks flt db1 jid (int (length ds)))"
    have "(reply, db') = (if snd ?st then (DlFile (ej_file_name j) (int (length (concat ds))) (fst ?st),
            snd (Service_CompleteDownload flt now' jid db1))
          else (DlBroken (fst ?st), snd (Service_AbortDownload flt jid db1)))"
      using D Pair Inr meta by (simp add: ExportsHandler_Download_def split_beta Let_def)
    then show ?thesis by (rule streamed [OF j0 cs j1 refl])
  qed
qed

lemma streamed_whole:
  assumes "chunks_of db1 jid = numbered ds"
    and "snd (stream_chunks sent 0 (Service_OpenChunks flt db1 jid (int (length ds))))"
  shows "fst (stream_chunks sent 0 (Service_OpenChunks flt db1 jid (int (length ds)))) = concat ds"
proof -
  let ?o = "Service_OpenChunks flt db1 jid (int (length ds))"
  from OpenChunks_prefix [OF assms(1), of flt] obtain m where "m \<le> length ds"
    and m: "fst ?o = take m ds" "snd ?o = None \<longrightarrow> m = length ds" by (elim exE conjE)
  have "fst (stream_chunks sent 0 ?o) = concat (fst ?o) \<and> snd ?o = None"
    using stream_chunks_ok [of sent 0 "fst ?o" "snd ?o"] assms(2) by simp
  then show ?thesis using m by simp
qed

text \<open>A download is exact. In a reachable state, when the download endpoint has sent a whole file, the
  bytes are the stored chunks of the caller's job in order, their number is the announced
  \<open>Content-Length\<close>, and the name is the job's; with no failing call the file is gone afterwards and
  the job is downloaded. When the stream breaks and the abort succeeds, the job is ready again with
  its chunks untouched.\<close>

lemma Download_exact:
  assumes "export_init s0" and "export_op\<^sup>*\<^sup>* s0 (sys db w)"
    and "ExportsHandler_Download flt sent now now' a jid db = (reply, db')"
  shows "case reply of
      DlRefused e \<Rightarrow> True
    | DlFile fname n out \<Rightarrow> out = concat (map snd (chunks_of db jid)) \<and> n = int (length out)
        \<and> (\<exists>j0 \<in> set (xd_jobs db). ej_id j0 = jid \<and> ej_requested_by j0 = act_user_id a
             \<and> ej_status j0 = Succeeded \<and> fname = ej_file_name j0)
        \<and> ((\<forall>c. \<not> flt c) \<longrightarrow> chunks_of db' jid = []
             \<and> (\<exists>j \<in> set (xd_jobs db'). ej_id j = jid \<and> ej_status j = Downloaded))
    | DlBroken out \<Rightarrow> \<not> flt XAbort \<longrightarrow> chunks_of db' jid = chunks_of db jid
        \<and> (\<exists>j \<in> set (xd_jobs db'). ej_id j = jid \<and> ej_status j = Succeeded)"
  using reachable_export_inv [OF assms(1,2)] assms(3)
proof (cases rule: Download_streams)
  case (refused e)
  then show ?thesis by simp
next
  case (streamed j0 j ds db1 st)
  have j: "ej_id j = jid" "ej_status j = Downloading" "ej_file_name j = ej_file_name j0"
    using streamed(2,5) by simp_all
  show ?thesis
  proof (cases "snd st")
    case True
    have out: "fst st = concat ds" using streamed_whole [OF streamed(7)] True streamed(9) by simp
    have whole: "concat (map snd (numbered ds)) = concat ds" by (simp add: numbered_def)
    have reply: "reply = DlFile (ej_file_name j0) (int (length (concat ds))) (concat ds)"
      "db' = snd (Service_CompleteDownload flt now' jid db1)"
      using True streamed(10) out j(3) by simp_all
    note eff = complete_effect [OF streamed(8) j(1,2), of flt now', folded reply(2)]
    have "\<exists>j \<in> set (xd_jobs db'). ej_id j = jid \<and> ej_status j = Downloaded" "chunks_of db' jid = []" if "\<forall>c. \<not> flt c"
    proof -
      have "j\<lparr>ej_status := Downloaded, ej_downloaded_at := Some now'\<rparr> \<in> set (xd_jobs db')" using eff that by blast
      then show "\<exists>j \<in> set (xd_jobs db'). ej_id j = jid \<and> ej_status j = Downloaded"
        by (rule rev_bexI) (use j(1) in simp)
      show "chunks_of db' jid = []" using eff that by blast
    qed
    then show ?thesis unfolding reply(1) download_reply.case streamed(6) whole using streamed(1-4) by blast
  next
    case False
    then have reply: "reply = DlBroken (fst st)" "db' = snd (Service_AbortDownload flt jid db1)"
      using streamed(10) by simp_all
    have "\<exists>j \<in> set (xd_jobs db'). ej_id j = jid \<and> ej_status j = Succeeded" "chunks_of db' jid = chunks_of db jid"
      if "\<not> flt XAbort"
    proof -
      note eff = abort_effect [where flt = flt, OF streamed(8) j(1,2) that, folded reply(2)]
      then have "j\<lparr>ej_status := Succeeded\<rparr> \<in> set (xd_jobs db')" by blast
      then show "\<exists>j \<in> set (xd_jobs db'). ej_id j = jid \<and> ej_status j = Succeeded"
        by (rule rev_bexI) (use j(1) in simp)
      show "chunks_of db' jid = chunks_of db jid" using eff streamed(6,7) by simp
    qed
    then show ?thesis unfolding reply(1) download_reply.case by blast
  qed
qed

lemma Download_exact_witness:
  "ExportsHandler_Download no_xfaults (\<lambda>_. True) 30 40 admin 1 sx5
     = (DlFile ''master-data-vendors-20260101.csv'' 3 (concat (map snd (chunks_of sx5 1))), sx7)"
proof -
  have f: "fst (ExportsHandler_Download no_xfaults (\<lambda>_. True) 30 40 admin 1 sx5)
      = DlFile ''master-data-vendors-20260101.csv'' 3 ''abc''" by code_simp
  have g: "snd (ExportsHandler_Download no_xfaults (\<lambda>_. True) 30 40 admin 1 sx5) = sx7" by code_simp
  have run: "ExportsHandler_Download no_xfaults (\<lambda>_. True) 30 40 admin 1 sx5
      = (DlFile ''master-data-vendors-20260101.csv'' 3 ''abc'', sx7)" by (simp add: prod_eq_iff f g)
  from Download_exact [OF sx_reachable(1,3) run] run show ?thesis by simp
qed

text \<open>C28: a file is downloaded once. After a job of a reachable state is downloaded or expired, in every
  later state its chunks are gone and a new download of it by its owner, whose current role allows
  the kind, answers \<open>ErrGone\<close> and changes nothing.\<close>

theorem Download_once:
  assumes "export_init s0" and "export_op\<^sup>*\<^sup>* s0 s" and "export_op\<^sup>*\<^sup>* s (sys db w)"
    and "j \<in> set (xd_jobs (es_db s))" and "ej_status j \<in> {Downloaded, Expired}"
    and "ej_requested_by j = act_user_id a" and "act_user_id a \<noteq> 0" and "0 < ej_id j"
    and "GetActiveUserRole db (act_user_id a) = Some role" and "allowed (ej_kind j) role" and "\<forall>c. \<not> flt c"
  shows "chunks_of db (ej_id j) = [] \<and> Service_StartDownload id flt now a (ej_id j) db = (Inl ErrGone, db)"
proof -
  have "export_inv s" using assms(1,2) by (rule export_sys.reachable_invar)
  with assms(3) have "evolves (xd_jobs (es_db s)) (xd_jobs (es_db (sys db w)))"
    by (rule export_sys.run_preorder [where Q = "\<lambda>s t. evolves (xd_jobs (es_db s)) (xd_jobs (es_db t))"])
       (rule evolves_refl, erule (1) evolves_trans, erule (1) export_op_evolves)
  then obtain j' where j': "j' \<in> set (xd_jobs db)" "same_job j j'" "ej_status j' = ej_status j"
    using assms(4,5) terminal_status unfolding evolves_def by (metis (no_types, lifting) export_sys.select_convs(1) insertCI insertE singletonD)
  have inv: "export_inv (sys db w)"
    using assms(1) rtranclp_trans [of export_op, OF assms(2,3)] by (rule export_sys.reachable_invar)
  have "job_ok (ej_status j') (chunks_of db (ej_id j')) (w (ej_id j')) j'"
    using inv j'(1) by (simp add: export_inv_def jobs_ok_def)
  then have empty: "chunks_of db (ej_id j) = []" using assms(5) j'(2,3) by (auto simp: same_job_def)
  have dist: "distinct (map ej_id (xd_jobs db))" using inv by (simp add: export_inv_def job_keys_ok_def)
  have get: "GetExportJobForUser db (ej_id j) (act_user_id a) = Some j'"
    using find_row_in_jobs [OF dist j'(1)] j'(2) assms(6) by (simp add: same_job_def)
  have "StartExportJobDownload now (ej_id j) (act_user_id a) db = None"
  proof (rule ccontr)
    assume "StartExportJobDownload now (ej_id j) (act_user_id a) db \<noteq> None"
    then obtain x db1 where "StartExportJobDownload now (ej_id j) (act_user_id a) db = Some (x, db1)" by auto
    from StartExportJobDownload_Some [OF this] obtain y where y: "y \<in> set (xd_jobs db)" "ej_id y = ej_id j" "ej_status y = Succeeded"
      by blast
    then have "y = j'" using distinct_key_eq [OF dist y(1) j'(1)] j'(2) by (simp add: same_job_def)
    with y(3) j'(3) assms(5) show False by auto
  qed
  then have "start_download_tx flt now a (ej_id j) db = Inl NotClaimed"
    using assms(11) by (simp add: start_download_tx_def)
  moreover have "Service_Get flt a (ej_id j) db = Inr j'"
    using get assms(6-8,11) j'(2) by (simp add: Service_Get_def same_job_def)
  moreover have "notClaimedReason flt now a (ej_id j) db = ErrGone"
    using get assms(5,6,11) j'(2,3) by (auto simp: notClaimedReason_def same_job_def)
  ultimately show ?thesis
    using empty assms(7,9-11) j'(2) by (simp add: Service_StartDownload_def run_in_tx_def same_job_def)
qed

theorem Download_once_witness:
  "Service_StartDownload id no_xfaults 50 admin 1 sx7 = (Inl ErrGone, sx7)"
proof -
  have j: "hd (xd_jobs sx7) \<in> set (xd_jobs (es_db (sys sx7 Map.empty)))" "ej_status (hd (xd_jobs sx7)) = Downloaded"
    "ej_requested_by (hd (xd_jobs sx7)) = 1" "ej_id (hd (xd_jobs sx7)) = 1"
    "GetActiveUserRole sx7 1 = Some ''ADMIN''" "allowed (ej_kind (hd (xd_jobs sx7))) ''ADMIN''" by code_simp+
  show ?thesis
    using Download_once [OF sx_reachable(1,5) rtranclp.rtrancl_refl [of export_op] j(1), of admin "''ADMIN''" no_xfaults 50] j(2-6)
    by (simp add: admin_def no_xfaults_def)
qed

section \<open>The janitor\<close>

definition no_janitor_faults :: janitor_faults where
  "no_janitor_faults = \<lparr>jf_fail = False, jf_recover = False, jf_expire = False, jf_sweep = False\<rparr>"

lemma RecoverStale_fresh:
  assumes "j \<in> set (xd_jobs (snd (RecoverStaleDownloads now lease db)))" "ej_status j = Downloading"
    "ej_download_started_at j = Some s"
  shows "now - s \<le> lease"
  using assms unfolding RecoverStaleDownloads_def update_jobs_simps
  by (cases rule: in_update_whereE) auto

lemma FailTimedOut_fresh:
  assumes "j \<in> set (xd_jobs (snd (FailTimedOutExportJobs now msg tmo db)))" "ej_status j = Running"
    "ej_started_at j = Some s"
  shows "now - s \<le> tmo"
proof -
  have "j \<in> set (update_where (timed_out now tmo)
      (\<lambda>j. j\<lparr>ej_status := Failed, ej_finished_at := Some now, ej_error_message := Some msg\<rparr>) (xd_jobs db))"
    using assms(1) by (simp add: FailTimedOutExportJobs_def Let_def delete_chunks_of_def)
  then show ?thesis using assms(2,3) by (cases rule: in_update_whereE) (auto simp: timed_out_def)
qed

lemma Expire_fresh:
  assumes "j \<in> set (xd_jobs (snd (ExpireExportJobs now db)))" "ej_status j = Succeeded" "ej_expires_at j = Some e"
  shows "now < e"
proof -
  have "j \<in> set (update_where (past_retention now)
      (\<lambda>j. j\<lparr>ej_status := Expired, ej_expired_at := Some now\<rparr>) (xd_jobs db))"
    using assms(1) by (simp add: ExpireExportJobs_def Let_def delete_chunks_of_def)
  then show ?thesis using assms(2,3) by (cases rule: in_update_whereE) (auto simp: past_retention_def)
qed

text \<open>What a later statement of the tick leaves of a running or a downloading job.\<close>

lemma Recover_keeps_running:
  assumes "j \<in> set (xd_jobs (snd (RecoverStaleDownloads now lease db)))" "ej_status j = Running"
  shows "j \<in> set (xd_jobs db)"
  using assms unfolding RecoverStaleDownloads_def update_jobs_simps by (cases rule: in_update_whereE) auto

lemma Expire_keeps:
  assumes "j \<in> set (xd_jobs (snd (ExpireExportJobs now db)))" "ej_status j \<noteq> Expired"
  shows "j \<in> set (xd_jobs db)"
proof -
  have "j \<in> set (update_where (past_retention now)
      (\<lambda>j. j\<lparr>ej_status := Expired, ej_expired_at := Some now\<rparr>) (xd_jobs db))"
    using assms(1) by (simp add: ExpireExportJobs_def Let_def delete_chunks_of_def)
  then show ?thesis using assms(2) by (cases rule: in_update_whereE) auto
qed

text \<open>What one tick of the janitor bounds when its statements succeed, in any reachable state:
  no job is left running longer than the job timeout or downloading longer than the lease, every
  file that is ready is within its retention, and no chunk is left of a job that is queued, failed,
  downloaded or expired.\<close>

lemma Janitor_tick_bounds:
  assumes "export_init s0" and "export_op\<^sup>*\<^sup>* s0 (sys db w)"
    and "j \<in> set (xd_jobs (Janitor_tick no_janitor_faults t1 t2 t3 db))"
  shows "case ej_status j of
      Running \<Rightarrow> (\<forall>s. ej_started_at j = Some s \<longrightarrow> t1 - s \<le> JobTimeout)
    | Downloading \<Rightarrow> (\<forall>s. ej_download_started_at j = Some s \<longrightarrow> t2 - s \<le> DownloadLease)
    | Succeeded \<Rightarrow> (\<exists>e. ej_expires_at j = Some e \<and> t3 < e)
    | _ \<Rightarrow> chunks_of (Janitor_tick no_janitor_faults t1 t2 t3 db) (ej_id j) = []"
proof -
  define d1 where "d1 = snd (FailTimedOutExportJobs t1 ''Melewati batas waktu proses'' JobTimeout db)"
  define d2 where "d2 = snd (RecoverStaleDownloads t2 DownloadLease d1)"
  define d3 where "d3 = snd (ExpireExportJobs t3 d2)"
  have tick: "Janitor_tick no_janitor_faults t1 t2 t3 db = snd (DeleteOrphanExportJobChunks d3)"
    by (simp add: Janitor_tick_def janitor_step_def no_janitor_faults_def d1_def d2_def d3_def)
  have j3: "j \<in> set (xd_jobs d3)" using assms(3) unfolding tick
    by (simp add: DeleteOrphanExportJobChunks_def Let_def)
  have "export_op\<^sup>*\<^sup>* s0 (sys (Janitor_tick no_janitor_faults t1 t2 t3 db) w)"
    by (rule rtranclp.rtrancl_into_rtrancl [where r = export_op, OF assms(2) export_op.janitor])
  then have inv: "export_inv (sys (Janitor_tick no_janitor_faults t1 t2 t3 db) w)"
    using assms(1) reachable_export_inv by blast
  have "xd_jobs (Janitor_tick no_janitor_faults t1 t2 t3 db) = xd_jobs d3"
    unfolding tick by (simp add: DeleteOrphanExportJobChunks_def Let_def)
  then have dist: "distinct (map ej_id (xd_jobs d3))" using inv by (simp add: export_inv_def job_keys_ok_def)
  have ok: "job_ok (ej_status j) (chunks_of (Janitor_tick no_janitor_faults t1 t2 t3 db) (ej_id j)) (w (ej_id j)) j"
    using inv assms(3) by (simp add: export_inv_def jobs_ok_def)
  note orphan = orphan_chunks_of [OF dist j3, folded tick]
  show ?thesis
  proof (cases "ej_status j")
    case Running
    have "j \<in> set (xd_jobs d1)"
      using Recover_keeps_running Expire_keeps [OF j3 [unfolded d3_def]] Running unfolding d2_def by simp
    then show ?thesis using FailTimedOut_fresh Running unfolding d1_def by simp
  next
    case Downloading
    have "j \<in> set (xd_jobs d2)" using Expire_keeps [OF j3 [unfolded d3_def]] Downloading by simp
    then show ?thesis using RecoverStale_fresh Downloading unfolding d2_def by simp
  next
    case Succeeded
    then show ?thesis using ok Expire_fresh [OF j3 [unfolded d3_def]] by (auto simp: file_ready_def)
  qed (use orphan in \<open>auto simp: keeps_chunks_def\<close>)
qed

lemma Janitor_tick_bounds_witness:
  "chunks_of (Janitor_tick no_janitor_faults 700000000000 700000000000 700000000000 sx5) 1 = []"
proof -
  let ?d = "Janitor_tick no_janitor_faults 700000000000 700000000000 700000000000 sx5"
  have j: "hd (xd_jobs ?d) \<in> set (xd_jobs ?d)" "ej_status (hd (xd_jobs ?d)) = Expired" "ej_id (hd (xd_jobs ?d)) = 1"
    by code_simp+
  from Janitor_tick_bounds [OF sx_reachable(1,3) j(1)] j(2,3) show ?thesis by simp
qed

text \<open>The lease is not checked when a download completes. A download whose lease the janitor has
  recovered still finds the job downloading when its owner has started it again, and then marks it
  downloaded and deletes the chunks that the second download is still reading, which breaks off.\<close>

lemma Complete_hits_other_download:
  "\<exists>db2 db3 db4 j.
     Janitor_tick no_janitor_faults (6 * minute) (6 * minute) (6 * minute) sx6 = db2
   \<and> Service_StartDownload id no_xfaults (7 * minute) admin 1 db2 = (Inr j, db3)
   \<and> Service_CompleteDownload no_xfaults (8 * minute) 1 db3 = (Inr (), db4)
   \<and> (\<exists>j4 \<in> set (xd_jobs db4). ej_id j4 = 1 \<and> ej_status j4 = Downloaded)
   \<and> Service_OpenChunks no_xfaults db4 1 2 = ([], Some ErrInternal)"
proof -
  define db2 where "db2 = Janitor_tick no_janitor_faults (6 * minute) (6 * minute) (6 * minute) sx6"
  define r3 where "r3 = Service_StartDownload id no_xfaults (7 * minute) admin 1 db2"
  define r4 where "r4 = Service_CompleteDownload no_xfaults (8 * minute) 1 (snd r3)"
  have "\<not> isl (fst r3)" unfolding r3_def db2_def by code_simp
  then obtain j where 3: "r3 = (Inr j, snd r3)" by (metis isl_def prod.collapse sum.exhaust_sel sum.disc(1))
  have "fst r4 = Inr ()" unfolding r4_def r3_def db2_def by code_simp
  then have 4: "r4 = (Inr (), snd r4)" by (simp add: prod_eq_iff)
  have 5: "\<exists>j4 \<in> set (xd_jobs (snd r4)). ej_id j4 = 1 \<and> ej_status j4 = Downloaded"
    unfolding r4_def r3_def db2_def by code_simp
  have 6: "Service_OpenChunks no_xfaults (snd r4) 1 2 = ([], Some ErrInternal)"
    unfolding r4_def r3_def db2_def by code_simp
  show ?thesis using db2_def 3 [unfolded r3_def] 4 [unfolded r4_def] 5 6 unfolding r3_def [symmetric] r4_def [symmetric]
    by (intro exI conjI) (auto simp: r3_def r4_def)
qed

section \<open>Parameters\<close>

text \<open>The parameters \<open>ParseParams\<close> accepts.\<close>

lemma ParseParams_fields:
  assumes "ParseParams kind entity v b st lvl = Inr p"
  shows "ep_report p = None" "ep_kind p = kind" "ep_entity p = entity" "ep_vendor_id p = v" "ep_branch_id p = b"
    "kind \<in> {''vendor'', ''cabang'', ''harga_paket'', ''master_data_global''}"
    "\<exists>ents. entitiesFor kind = Some ents \<and> entity \<in> set ents"
    "ep_status_filter p \<in> {''active'', ''disabled'', ''all''}"
    "ep_price_level p \<in> {None, Some ''vendor'', Some ''branch'', Some ''atm'', Some ''all''}"
  using assms
  by (auto simp: ParseParams_def Let_def entitiesFor_def split: option.splits if_splits)

definition name_char :: "char \<Rightarrow> bool" where
  "name_char c \<longleftrightarrow> (let n = (of_char c :: nat) in
     97 \<le> n \<and> n \<le> 122 \<or> 65 \<le> n \<and> n \<le> 90 \<or> 48 \<le> n \<and> n \<le> 57 \<or> c \<in> {CHR ''_'', CHR ''-'', CHR ''.''})"

lemma ParseParams_chars:
  assumes "ParseParams kind entity v b st lvl = Inr p"
  shows "list_all name_char kind" "list_all name_char entity" "list_all name_char (ep_status_filter p)"
    "list_all name_char (case ep_price_level p of None \<Rightarrow> [] | Some l \<Rightarrow> l)"
proof -
  show "list_all name_char kind" using ParseParams_fields(6) [OF assms] by (auto simp: name_char_def)
  obtain ents where ents: "entitiesFor kind = Some ents" "entity \<in> set ents"
    using ParseParams_fields(7) [OF assms] by blast
  have "\<forall>k \<in> {''vendor'', ''cabang'', ''harga_paket'', ''master_data_global''}.
      list_all (list_all name_char) (the (entitiesFor k))" by code_simp
  then have "list_all (list_all name_char) (the (entitiesFor kind))" using ParseParams_fields(6) [OF assms] by (rule bspec)
  then show "list_all name_char entity" using ents by (simp add: list_all_iff)
  show "list_all name_char (ep_status_filter p)" using ParseParams_fields(8) [OF assms] by (auto simp: name_char_def)
  show "list_all name_char (case ep_price_level p of None \<Rightarrow> [] | Some l \<Rightarrow> l)"
    using ParseParams_fields(9) [OF assms] by (auto simp: name_char_def)
qed

lemma name_char_no_bar: "list_all name_char s \<Longrightarrow> CHR ''|'' \<notin> set s"
  by (auto simp: list_all_iff name_char_def)

lemma idStr_no_bar: "CHR ''|'' \<notin> set (idStr v)"
  using FormatInt_chars [of "CHR ''|''"] by (auto simp: idStr_def is_digit_def split: option.splits)

lemma idStr_inj: "idStr v = idStr v' \<longleftrightarrow> v = v'"
  by (auto simp: idStr_def split: option.splits dest: sym)

lemma name_char_sanitize: "name_char (sanitize_char c)"
proof (cases "sanitize_char c = c")
  case True
  then show ?thesis unfolding sanitize_char_def name_char_def Let_def by (auto split: if_splits)
next
  case False
  then have "sanitize_char c = CHR ''_''" unfolding sanitize_char_def Let_def by presburger
  then show ?thesis by (simp add: name_char_def)
qed

lemma sanitize_chars: "c \<in> set (sanitize s) \<Longrightarrow> name_char c"
  by (induction s rule: sanitize.induct) (auto simp: Let_def name_char_sanitize split: if_splits)

text \<open>Two accepted requests with the same deduplication hash are the same request: the text that is
  hashed determines kind, entity, scope, status filter and price level, so hashes agree only for
  equal parameters, provided the hash function does not collide on the two texts.\<close>

lemma ParamsHash_injective:
  assumes "ParseParams k1 e1 v1 b1 s1 l1 = Inr p" and "ParseParams k2 e2 v2 b2 s2 l2 = Inr q"
    and "ParamsHash sha marshal p = ParamsHash sha marshal q"
    and "sha (params_text p) = sha (params_text q) \<Longrightarrow> params_text p = params_text q"
  shows "p = q"
proof -
  note f = ParseParams_fields [OF assms(1)] and g = ParseParams_fields [OF assms(2)]
  note cf = ParseParams_chars [OF assms(1), THEN name_char_no_bar]
    and cg = ParseParams_chars [OF assms(2), THEN name_char_no_bar]
  have eq: "params_text p = params_text q" using assms(3,4) f(1) g(1) by (simp add: ParamsHash_def)
  have "[ep_kind p, ep_entity p, idStr (ep_vendor_id p), idStr (ep_branch_id p), ep_status_filter p,
        (case ep_price_level p of None \<Rightarrow> [] | Some l \<Rightarrow> l)]
     = [ep_kind q, ep_entity q, idStr (ep_vendor_id q), idStr (ep_branch_id q), ep_status_filter q,
        (case ep_price_level q of None \<Rightarrow> [] | Some l \<Rightarrow> l)]"
    by (rule join_inj [where c = "CHR ''|''", OF _ _ _ eq [unfolded params_text_def]])
       (use cf cg f(2,3) g(2,3) idStr_no_bar in simp_all)
  moreover have "ep_price_level p = ep_price_level q"
    if "(case ep_price_level p of None \<Rightarrow> [] | Some l \<Rightarrow> l) = (case ep_price_level q of None \<Rightarrow> [] | Some l \<Rightarrow> l)"
    using that f(9) g(9) by auto
  ultimately show ?thesis using f(1) g(1) idStr_inj by (intro export_params.equality) auto
qed

lemma ParamsHash_injective_witness:
  "projr (ParseParams ''master_data_global'' ''vendors'' None None ''active'' []) = sample_params"
proof -
  let ?q = "projr (ParseParams ''master_data_global'' ''vendors'' None None ''active'' [])"
  have p: "ParseParams ''master_data_global'' ''vendors'' None None [] [] = Inr sample_params"
    and q: "ParseParams ''master_data_global'' ''vendors'' None None ''active'' [] = Inr ?q"
    and h: "ParamsHash id no_marshal ?q = ParamsHash id no_marshal sample_params" by code_simp+
  show ?thesis by (rule ParamsHash_injective [where sha = id, OF q p h]) simp
qed

text \<open>The file name that goes into the \<open>Content-Disposition\<close> header is safe: whatever the vendor and
  branch codes contain, the name of a master data export consists of letters, digits and \<open>_ - .\<close>
  only, so it has no quote, path separator or line break, and it ends in \<open>.csv\<close>.\<close>

lemma FileName_safe:
  assumes "ParseParams kind entity v b st lvl = Inr p" and "list_all is_digit day"
  shows "list_all name_char (FileName p vendorCode branchCode day)
    \<and> (\<exists>stem. FileName p vendorCode branchCode day = stem @ ''.csv'')"
proof -
  note f = ParseParams_fields [OF assms(1)]
  have e: "list_all name_char (ep_entity p)" using ParseParams_chars(2) [OF assms(1)] f(3) by simp
  have s: "list_all name_char (sanitize x)" for x using sanitize_chars by (simp add: list_all_iff)
  have d: "list_all name_char day" using assms(2) by (auto simp: list_all_iff is_digit_def name_char_def)
  have l: "list_all name_char ''vendor-''" "list_all name_char ''-''" "list_all name_char ''.csv''"
    "list_all name_char ''-cabang-''" "list_all name_char ''harga-paket-''" "list_all name_char ''master-data-''"
    by (simp_all add: name_char_def)
  have "list_all name_char (FileName p vendorCode branchCode day)"
    using f(1) e s d l by (simp only: FileName_def Let_def option.case list_all_append split: if_split) simp
  moreover have "\<exists>stem. FileName p vendorCode branchCode day = stem @ ''.csv''"
    using f(1) by (simp only: FileName_def Let_def option.case append_assoc [symmetric] split: if_split) blast
  ultimately show ?thesis ..
qed

end
