(* ===== verification/Delivery_Properties.thy ===== *)
theory Delivery_Properties
  imports Export_Delivery Export_Properties
begin

text \<open>The properties of a worker's run.\<close>

lemma fresh_chunks_insert:
  assumes "chunks_of db jid = []" "running jid db"
  shows "\<forall>k\<ge>0. InsertExportJobChunk jid k [] db \<noteq> None"
proof -
  have "\<not> (\<exists>c \<in> set (xd_chunks db). ch_job c = jid \<and> ch_seq c = k)" for k
    using assms(1) by (auto simp: chunks_of_def filter_empty_conv)
  moreover have "\<exists>j \<in> set (xd_jobs db). ej_id j = jid" using assms(2) unfolding running_def by blast
  ultimately show ?thesis unfolding InsertExportJobChunk_def by auto
qed

definition calm :: worker_env where
  "calm = \<lparr>we_begin_fails = False, we_chunk_fails = (\<lambda>_. False), we_progress_fails = (\<lambda>_. False), we_ctx_done = (\<lambda>_. False),
     we_mark_flt = no_xfaults, we_fail_flt = no_xfaults, we_cause = (\<lambda>_. REOther), we_cancelled = False, we_deadline = False,
     we_mark_at = 20, we_fail_at = 20\<rparr>"

lemma calm_ok: "no_worker_faults calm"
  by (simp add: no_worker_faults_def calm_def no_xfaults_def)

text \<open>The limits of a file are exact. When no call fails, a claimed job's file is produced exactly
  when the producer ends without an error, emits at most \<open>MaxRows\<close> rows and their CSV text is at most
  \<open>MaxBytes\<close> long; then the stored chunks are that text (the mark, the header, the rows in order), cut
  into full chunks, and the reported rows, bytes and chunks are its counts.\<close>

lemma produce_exact:
  assumes "running jid db" and "chunks_of db jid = []" and "no_worker_faults en"
  shows "case produce en jid (Some (header, rows, perr)) db of
      (Inl e, s, db') \<Rightarrow> perr \<noteq> None \<or> int (length rows) > MaxRows \<or> int (length (csv_file header rows)) > MaxBytes
    | (Inr st, s, db') \<Rightarrow> perr = None \<and> chunked ChunkSize (csv_file header rows) s
        \<and> rs_rows st = int (length rows) \<and> rs_rows st \<le> MaxRows
        \<and> rs_bytes st = int (length (csv_file header rows)) \<and> rs_bytes st \<le> MaxBytes \<and> rs_chunks st = int (length s)"
proof -
  obtain r s db' where p: "produce en jid (Some (header, rows, perr)) db = (r, s, db')"
    by (cases "produce en jid (Some (header, rows, perr)) db")
  show ?thesis
  proof (cases r)
    case (Inl e)
    have "perr \<noteq> None \<or> \<not> int (length rows) \<le> MaxRows \<or> \<not> int (length (csv_file header rows)) \<le> MaxBytes"
      using produce_succeeds [OF assms(3,1) fresh_chunks_insert [OF assms(2,1)], of rows header] p Inl by auto
    then show ?thesis using p Inl by auto
  next
    case (Inr st)
    then show ?thesis using produce_text [OF p [unfolded Inr]] p by auto
  qed
qed

lemma produce_exact_witness:
  "case produce calm 1 (Some ([''id'', ''code''], [[''1'', ''a'']], None)) sx2 of
     (Inl e, s, db') \<Rightarrow> False
   | (Inr st, s, db') \<Rightarrow> sink_bytes s = csv_file [''id'', ''code''] [[''1'', ''a'']] \<and> rs_rows st = 1"
proof -
  have h: "running 1 sx2" "chunks_of sx2 1 = []" unfolding running_def by code_simp+
  have "length (csv_file [''id'', ''code''] [[''1'', ''a'']]) \<le> 100" by code_simp
  then have l: "int (length (csv_file [''id'', ''code''] [[''1'', ''a'']])) \<le> MaxBytes" by (simp add: MaxBytes_def)
  have n: "int (length [[''1'', ''a'']]) \<le> MaxRows" by (simp add: MaxRows_def)
  from produce_exact [where header = "[''id'', ''code'']" and rows = "[[''1'', ''a'']]" and perr = None, OF h calm_ok] l n show ?thesis
    by (auto simp: chunked_def split: sum.splits prod.splits)
qed

text \<open>C29: the run of a worker, which writes its chunks, reports progress and ends the job in one way or
  another, is a sequence of steps of the transition system of the export jobs, whatever fails on the
  way; so every invariant of that system holds after it, and at its end the worker holds the job no
  more.\<close>

theorem worker_run_refines:
  "export_op\<^sup>*\<^sup>* (sys db (w(jid \<mapsto> Writing []))) (sys (worker_run en jid pr db) (w(jid := None)))"
  by (rule worker_run_steps)

end
