(* ===== verification/Csv_Import.thy ===== *)
theory Csv_Import
  imports Csv
begin

text \<open>
  The master data files: the entities of \<open>src/pkg/csvexport/entities.go\<close> with their headers, the cells
  of an exported row (\<open>src/pkg/csvexport/cells.go\<close>), and the reader of an uploaded file
  (\<open>readImportCSV\<close> of \<open>src/backend/internal/service/masterdata_import_csv.go\<close>).
\<close>

section \<open>Entities\<close>

record entity =
  en_name :: string
  en_header :: "string list"
  en_legacy_headers :: "string list list"
  en_legacy_fill :: "(string \<times> string) list"

definition KeepCurrentCell :: string where "KeepCurrentCell = ''<keep>''"
definition AssignmentSourceBranch :: string where "AssignmentSourceBranch = ''branch''"
definition PICRolesNone :: string where "PICRolesNone = ''none''"

definition importable :: "entity list" where
  "importable =
    [\<lparr>en_name = ''vendors'',
      en_header = [''id'', ''code'', ''name'', ''legal_name'', ''npwp'', ''contact_email'', ''contact_phone'', ''hq_address'', ''is_active''],
      en_legacy_headers = [], en_legacy_fill = []\<rparr>,
     \<lparr>en_name = ''vendor-branches'',
      en_header = [''id'', ''vendor_code'', ''branch_code'', ''branch_name'', ''region'', ''region_code'', ''category'', ''location_id'', ''is_active''],
      en_legacy_headers =
        [[''id'', ''vendor_code'', ''branch_code'', ''branch_name'', ''region'', ''region_code'', ''location_id'', ''is_active''],
         [''id'', ''vendor_code'', ''branch_code'', ''branch_name'', ''region'', ''location_id'', ''is_active'']],
      en_legacy_fill = [(''region_code'', KeepCurrentCell), (''category'', KeepCurrentCell)]\<rparr>,
     \<lparr>en_name = ''vendor-vaults'',
      en_header = [''id'', ''vendor_code'', ''branch_code'', ''vault_code'', ''category'', ''currency_code'', ''min_capacity_amount'',
        ''max_capacity_amount'', ''latitude'', ''longitude'', ''operating_hours'', ''location_id'', ''is_active''],
      en_legacy_headers = [], en_legacy_fill = []\<rparr>,
     \<lparr>en_name = ''vendor-pics'',
      en_header = [''id'', ''vendor_code'', ''branch_code'', ''name'', ''position'', ''phone'', ''email'', ''is_notification_recipient'',
        ''is_active'', ''roles''],
      en_legacy_headers =
        [[''id'', ''vendor_code'', ''branch_code'', ''name'', ''position'', ''phone'', ''email'', ''is_notification_recipient'', ''is_active'']],
      en_legacy_fill = [(''roles'', [])]\<rparr>,
     \<lparr>en_name = ''atms'',
      en_header = [''id'', ''terminal_id'', ''location_id'', ''machine_type'', ''brand'', ''model'', ''operation_hours'',
        ''deployment_type'', ''capacity_amount'', ''low_threshold_amount'', ''critical_threshold_amount'', ''blacklisted'',
        ''escrow_account'', ''priority_class'', ''is_active''],
      en_legacy_headers = [], en_legacy_fill = []\<rparr>,
     \<lparr>en_name = ''atm-assignments'',
      en_header = [''id'', ''terminal_id'', ''vendor_code'', ''branch_code'', ''package_source'', ''package_code'',
        ''effective_start_date'', ''effective_end_date'', ''is_active''],
      en_legacy_headers =
        [[''id'', ''terminal_id'', ''vendor_code'', ''branch_code'', ''package_code'', ''effective_start_date'', ''effective_end_date'', ''is_active'']],
      en_legacy_fill = [(''package_source'', AssignmentSourceBranch)]\<rparr>]"

definition exportOnly :: "entity list" where
  "exportOnly =
    [\<lparr>en_name = ''dsr-location-maps'',
      en_header = [''id'', ''vendor_code'', ''branch_code'', ''vault_code'', ''dsr_location'', ''is_active''],
      en_legacy_headers = [], en_legacy_fill = []\<rparr>,
     \<lparr>en_name = ''package-prices'',
      en_header = [''id'', ''vendor_code'', ''price_level'', ''branch_code'', ''terminal_id'', ''package'', ''package_code'', ''machine_group'',
        ''price_class'', ''tier_min'', ''tier_max'', ''base_price'', ''currency'', ''sla_note'', ''effective_start_date'', ''effective_end_date''],
      en_legacy_headers = [], en_legacy_fill = []\<rparr>]"

definition Lookup :: "string \<Rightarrow> entity option" where
  "Lookup name = find_row (\<lambda>e. en_name e = name) importable"

definition LookupExportOnly :: "string \<Rightarrow> entity option" where
  "LookupExportOnly name = find_row (\<lambda>e. en_name e = name) exportOnly"

definition WriteTemplate :: "string \<Rightarrow> string option" where
  "WriteTemplate name = map_option (\<lambda>e. csv_file (en_header e) []) (Lookup name)"

section \<open>Cells of an exported row\<close>

record vendor_row =
  vr_id :: id64
  vr_code :: string
  vr_name :: string
  vr_legal_name :: string
  vr_npwp :: string
  vr_contact_email :: string
  vr_contact_phone :: string
  vr_hq_address :: string
  vr_is_active :: bool

record vendor_branch_row =
  vb_id :: id64
  vb_vendor_code :: string
  vb_branch_code :: string
  vb_branch_name :: string
  vb_region :: string
  vb_region_code :: string
  vb_category :: string
  vb_location_id :: string
  vb_is_active :: bool

record vendor_vault_row =
  vv_id :: id64
  vv_vendor_code :: string
  vv_branch_code :: string
  vv_vault_code :: string
  vv_category :: string
  vv_currency_code :: string
  vv_min_capacity_amount :: string
  vv_max_capacity_amount :: string
  vv_latitude :: string
  vv_longitude :: string
  vv_operating_hours :: string
  vv_location_id :: string
  vv_is_active :: bool

record vendor_pic_row =
  vp_id :: id64
  vp_vendor_code :: string
  vp_branch_code :: string
  vp_name :: string
  vp_position :: string
  vp_phone :: string
  vp_email :: string
  vp_is_notification_recipient :: bool
  vp_is_active :: bool
  vp_roles :: "string list"

record atm_row =
  at_id :: id64
  at_terminal_id :: string
  at_location_id :: id64
  at_machine_type :: string
  at_brand :: string
  at_model :: string
  at_operation_hours :: string
  at_deployment_type :: string
  at_capacity_amount :: string
  at_low_threshold_amount :: string
  at_critical_threshold_amount :: string
  at_blacklisted :: bool
  at_escrow_account :: string
  at_priority_class :: string
  at_is_active :: bool

record atm_assignment_row =
  aa_id :: id64
  aa_terminal_id :: string
  aa_vendor_code :: string
  aa_branch_code :: string
  aa_package_source :: string
  aa_package_code :: string
  aa_effective_start_date :: string
  aa_effective_end_date :: string
  aa_is_active :: bool

definition PICRolesCell :: "string list \<Rightarrow> string" where
  "PICRolesCell roles = (if roles = [] then PICRolesNone else join '';'' roles)"

definition VendorCells :: "vendor_row \<Rightarrow> string list" where
  "VendorCells r = [FormatInt (vr_id r), vr_code r, vr_name r, vr_legal_name r, vr_npwp r, vr_contact_email r,
     vr_contact_phone r, vr_hq_address r, FormatBool (vr_is_active r)]"

definition VendorBranchCells :: "vendor_branch_row \<Rightarrow> string list" where
  "VendorBranchCells r = [FormatInt (vb_id r), vb_vendor_code r, vb_branch_code r, vb_branch_name r, vb_region r,
     vb_region_code r, vb_category r, vb_location_id r, FormatBool (vb_is_active r)]"

definition VendorVaultCells :: "vendor_vault_row \<Rightarrow> string list" where
  "VendorVaultCells r = [FormatInt (vv_id r), vv_vendor_code r, vv_branch_code r, vv_vault_code r, vv_category r,
     vv_currency_code r, vv_min_capacity_amount r, vv_max_capacity_amount r, vv_latitude r, vv_longitude r,
     vv_operating_hours r, vv_location_id r, FormatBool (vv_is_active r)]"

definition VendorPICCells :: "vendor_pic_row \<Rightarrow> string list" where
  "VendorPICCells r = [FormatInt (vp_id r), vp_vendor_code r, vp_branch_code r, vp_name r, vp_position r, vp_phone r,
     vp_email r, FormatBool (vp_is_notification_recipient r), FormatBool (vp_is_active r), PICRolesCell (vp_roles r)]"

definition ATMCells :: "atm_row \<Rightarrow> string list" where
  "ATMCells r = [FormatInt (at_id r), at_terminal_id r, FormatInt (at_location_id r), at_machine_type r, at_brand r,
     at_model r, at_operation_hours r, at_deployment_type r, at_capacity_amount r, at_low_threshold_amount r,
     at_critical_threshold_amount r, FormatBool (at_blacklisted r), at_escrow_account r, at_priority_class r,
     FormatBool (at_is_active r)]"

definition ATMAssignmentCells :: "atm_assignment_row \<Rightarrow> string list" where
  "ATMAssignmentCells r = [FormatInt (aa_id r), aa_terminal_id r, aa_vendor_code r, aa_branch_code r, aa_package_source r,
     aa_package_code r, aa_effective_start_date r, aa_effective_end_date r, FormatBool (aa_is_active r)]"

section \<open>Reading an upload\<close>

definition MasterDataImportMaxBytes :: nat where "MasterDataImportMaxBytes = 5242880"
definition MasterDataImportMaxRows :: nat where "MasterDataImportMaxRows = 2000"

text \<open>\<open>MsgCsv e\<close> is the message that quotes the decoder's error.\<close>

datatype import_message = Msg string | MsgCsv csv_err

record import_row_error =
  ie_row :: nat
  ie_field :: string
  ie_message :: import_message

record import_record =
  ir_line :: nat
  ir_cells :: "string list"

datatype import_err = ReadFailed | FileTooLarge | TooManyRows

definition cleanCell :: "string \<Rightarrow> string" where
  "cleanCell s = TrimSpace (UnCSVSafe s)"

definition cleanRecord :: "string list \<Rightarrow> string list \<times> bool" where
  "cleanRecord rec = (map cleanCell rec, list_all (\<lambda>c. cleanCell c = []) rec)"

text \<open>\<open>pick\<close> has a column number of the file per header column, \<open>None\<close> for \<open>-1\<close>.\<close>

fun index_of :: "string \<Rightarrow> string list \<Rightarrow> nat option" where
  "index_of x [] = None"
| "index_of x (y # ys) = (if y = x then Some 0 else map_option Suc (index_of x ys))"

definition legacyPick :: "string list \<Rightarrow> string list \<Rightarrow> nat option list" where
  "legacyPick full legacy = map (\<lambda>h. index_of h legacy) full"

definition fill_of :: "(string \<times> string) list \<Rightarrow> string \<Rightarrow> string" where
  "fill_of fill h = (case map_of fill h of None \<Rightarrow> [] | Some v \<Rightarrow> v)"

definition expandLegacy ::
  "string list \<Rightarrow> string list \<Rightarrow> nat option list \<Rightarrow> (string \<times> string) list \<Rightarrow> string list" where
  "expandLegacy cells header pick legacyFill =
     map (\<lambda>(h, from). case from of None \<Rightarrow> fill_of legacyFill h | Some i \<Rightarrow> cells ! i) (zip header pick)"

definition headerMatches :: "string list \<Rightarrow> string list \<Rightarrow> bool" where
  "headerMatches got want \<longleftrightarrow> length got = length want
     \<and> list_all2 (\<lambda>g w. lower_bytes (TrimSpace g) = w) got want"

function invalid_from :: "nat \<Rightarrow> string \<Rightarrow> (nat \<times> string) option" where
  "invalid_from line s =
     (if s = [] then None
      else if rune_size s = 0
      then Some (line, ''file bukan teks UTF-8 yang valid; simpan ulang dari Excel sebagai \"CSV UTF-8 (Comma delimited)\"'')
      else if code (hd s) = 0 then Some (line, ''file berisi karakter NUL (bukan file teks CSV)'')
      else invalid_from (if hd s = nl then line + 1 else line) (drop (rune_size s) s))"
  by pat_completeness auto
termination by (relation "measure (length \<circ> snd)") (auto intro: diff_less)

declare invalid_from.simps [simp del]

definition invalidText :: "string \<Rightarrow> (nat \<times> string) option" where
  "invalidText d = (if utf8_valid d \<and> list_all (\<lambda>c. code c \<noteq> 0) d then None else invalid_from 1 d)"

definition trim_bom :: "string \<Rightarrow> string" where
  "trim_bom d = (if take 3 d = BOM then drop 3 d else d)"

definition delimiter :: "string \<Rightarrow> char" where
  "delimiter d = (let firstLine = takeWhile (\<lambda>c. c \<noteq> nl) d in
     if count_list firstLine CHR '';'' > count_list firstLine CHR '','' then CHR '';'' else CHR '','')"

text \<open>The loop. The state before the header is \<open>None\<close>; after it, the legacy columns in use, if any.\<close>

definition header_mode ::
  "string list \<Rightarrow> string list list \<Rightarrow> string list \<Rightarrow> (nat option list \<times> nat) option option" where
  "header_mode header legacy rec =
     (if headerMatches rec header then Some None
      else map_option (\<lambda>l. Some (legacyPick header l, length l)) (find_row (headerMatches rec) legacy))"

definition import_cells ::
  "string list \<Rightarrow> (string \<times> string) list \<Rightarrow> (nat option list \<times> nat) option \<Rightarrow> string list \<Rightarrow> string list" where
  "import_cells header legacyFill mode cells =
     (case mode of
        None \<Rightarrow> cells
      | Some (pick, n) \<Rightarrow> if length cells = n then expandLegacy cells header pick legacyFill else cells)"

lemma parse_record_rest: "parse_record comma n acc q l r = Inr (fs, n', r') \<Longrightarrow> length r' \<le> length r"
proof (induction comma n acc q l r arbitrary: fs n' r' rule: parse_record.induct)
  case (1 comma n acc line rest)
  show ?case
  proof (cases "line = [] \<or> hd line \<noteq> dquote")
    case True
    show ?thesis
    proof (cases "split_at comma line")
      case None
      then show ?thesis using True 1(3) by (simp add: parse_record.simps(1) Let_def split: if_splits)
    next
      case (Some fl)
      then show ?thesis using True 1(1) [OF True Some] 1(3)
        by (cases fl) (simp add: parse_record.simps(1) [of comma n acc line] split: if_splits)
    qed
  next
    case False
    then show ?thesis using 1(2) [OF False] 1(3) by (simp add: parse_record.simps(1) [of comma n acc line])
  qed
next
  case (2 comma n acc fld line rest)
  show ?case
  proof (cases "split_at dquote line")
    case (Some pl)
    then show ?thesis using 2(2,3) [OF Some] 2(4)
      by (cases pl) (auto simp: parse_record.simps(2) [of comma n acc fld line] split: if_splits)
  next
    case None
    show ?thesis
    proof (cases "readLine rest")
      case N: None
      then show ?thesis using None 2(4) by (simp add: parse_record.simps(2) split: if_splits)
    next
      case S: (Some lr)
      obtain l' r1 where lr: "lr = (l', r1)" by (cases lr)
      show ?thesis
      proof (cases "line = []")
        case True
        then show ?thesis using None 2(4) by (simp add: parse_record.simps(2))
      next
        case False
        then have "length r' \<le> length r1"
          using 2(1) [OF None False S, of l' r1] 2(4) None S lr by (simp add: parse_record.simps(2) [of comma n acc fld line])
        then show ?thesis using readLine_shorter [OF S [unfolded lr]] by linarith
      qed
    qed
  qed
qed

lemma next_line_shorter: "next_line p = Some (l, n, r) \<Longrightarrow> length r < length (snd p)"
proof (induction p rule: next_line.induct)
  case (1 p)
  show ?case
  proof (cases "readLine (snd p)")
    case None
    then show ?thesis using 1(2) by (simp add: next_line.simps [of p])
  next
    case (Some lr)
    obtain l' r1 where lr: "lr = (l', r1)" by (cases lr)
    have shorter: "length r1 < length (snd p)" using Some lr by simp
    show ?thesis
    proof (cases "strip_nl l' = []")
      case True
      have "length r < length (snd (fst p + 1, r1))"
        by (rule 1(1) [OF Some lr [symmetric] True]) (use 1(2) Some lr True in \<open>simp add: next_line.simps [of p]\<close>)
      then show ?thesis using shorter by simp
    next
      case False
      then show ?thesis using 1(2) Some lr shorter by (simp add: next_line.simps [of p])
    qed
  qed
qed

lemma csv_read_shorter:
  assumes "csv_read comma p = Some (Inr (k, fs, p'))"
  shows "length (snd p') < length (snd p)"
proof -
  obtain l n r where n: "next_line p = Some (l, n, r)" using assms
    by (cases "next_line p") (auto simp: csv_read_def)
  then have "parse_record comma n [] None l r = Inr (fs, p')" using assms
    by (cases "parse_record comma n [] None l r") (auto simp: csv_read_def)
  then have "length (snd p') \<le> length r" using parse_record_rest by (metis prod.collapse)
  with next_line_shorter [OF n] show ?thesis by simp
qed

function import_rows ::
  "char \<Rightarrow> string list \<Rightarrow> (string \<times> string) list \<Rightarrow> (nat option list \<times> nat) option \<Rightarrow> import_record list \<Rightarrow> csv_pos
   \<Rightarrow> (import_err, import_record list \<times> import_row_error list) result" where
  "import_rows comma header legacyFill mode recs p =
     (case csv_read comma p of
        None \<Rightarrow> Inr (recs, [])
      | Some (Inl (line, e)) \<Rightarrow> Inr ([], [\<lparr>ie_row = line, ie_field = ''file'', ie_message = MsgCsv e\<rparr>])
      | Some (Inr (line, rec, p')) \<Rightarrow>
          let (cells, empty) = cleanRecord rec in
          if empty then import_rows comma header legacyFill mode recs p'
          else if length recs \<ge> MasterDataImportMaxRows then Inl TooManyRows
          else import_rows comma header legacyFill mode
                 (recs @ [\<lparr>ir_line = line, ir_cells = import_cells header legacyFill mode cells\<rparr>]) p')"
  by pat_completeness auto
termination
  by (relation "measure (\<lambda>(_, _, _, _, _, p). length (snd p))") (auto dest: csv_read_shorter)

declare import_rows.simps [simp del]

definition readImportCSV ::
  "string option \<Rightarrow> string list \<Rightarrow> string list list \<Rightarrow> (string \<times> string) list
   \<Rightarrow> (import_err, import_record list \<times> import_row_error list) result" where
  "readImportCSV body header legacy legacyFill =
     (case body of
        None \<Rightarrow> Inl ReadFailed
      | Some data0 \<Rightarrow>
          if length data0 > MasterDataImportMaxBytes then Inl FileTooLarge
          else let d = trim_bom data0 in
            (case invalidText d of
               Some (line, m) \<Rightarrow> Inr ([], [\<lparr>ie_row = line, ie_field = ''file'', ie_message = Msg m\<rparr>])
             | None \<Rightarrow>
                let comma = delimiter d in
                (case csv_read comma (0, d) of
                   None \<Rightarrow> Inr ([], [\<lparr>ie_row = 1, ie_field = ''header'', ie_message = Msg ''file kosong''\<rparr>])
                 | Some (Inl (line, e)) \<Rightarrow> Inr ([], [\<lparr>ie_row = line, ie_field = ''file'', ie_message = MsgCsv e\<rparr>])
                 | Some (Inr (_, rec, p)) \<Rightarrow>
                     (case header_mode header legacy rec of
                        None \<Rightarrow> Inr ([], [\<lparr>ie_row = 1, ie_field = ''header'',
                          ie_message = Msg (''kolom header tidak sesuai; diharapkan persis: '' @ join '','' header)\<rparr>])
                      | Some mode \<Rightarrow> import_rows comma header legacyFill mode [] p))))"

end
