(* ===== verification/Csv_Correct.thy ===== *)
theory Csv_Correct
  imports Csv_Import
begin

text \<open>
  The decoder inverts the encoder: a record that was written is read back, whatever its fields
  contain, except that the decoder turns a carriage return before a line feed into the line feed
  alone. The lemmas follow the decoder through the lines of a record.
\<close>

section \<open>Texts without CR LF\<close>

fun no_crnl :: "string \<Rightarrow> bool" where
  "no_crnl (c # d # s) = (\<not> (c = cr \<and> d = nl) \<and> no_crnl (d # s))"
| "no_crnl [] = True"
| "no_crnl [c] = True"

lemma no_crnl_append:
  "no_crnl (a @ b) \<longleftrightarrow> no_crnl a \<and> no_crnl b \<and> \<not> (a \<noteq> [] \<and> b \<noteq> [] \<and> last a = cr \<and> hd b = nl)"
proof (induction a rule: no_crnl.induct)
  case (3 c)
  then show ?case by (cases b) auto
qed auto

lemma no_crnl_quote_body: "no_crnl f \<Longrightarrow> no_crnl (quote_body f)"
proof (induction f rule: no_crnl.induct)
  case (1 c d s)
  then show ?case by auto
qed auto

lemma no_crnl_plain: "cr \<notin> set s \<Longrightarrow> no_crnl s"
  by (induction s rule: no_crnl.induct) auto

lemma unquoted:
  assumes "\<not> fieldNeedsQuotes CHR '','' f"
  shows "nl \<notin> set f" "cr \<notin> set f" "dquote \<notin> set f" "CHR '','' \<notin> set f"
  using assms by (auto simp: fieldNeedsQuotes_def)

lemma csv_field_ends:
  "csv_field f \<noteq> [] \<Longrightarrow> last (csv_field f) \<noteq> cr \<and> hd (csv_field f) \<noteq> nl"
proof (cases "fieldNeedsQuotes CHR '','' f")
  case False
  assume "csv_field f \<noteq> []"
  then have f: "csv_field f = f" "f \<noteq> []" using False by (simp_all add: csv_field_def)
  show ?thesis unfolding f(1) using unquoted(1,2) [OF False] hd_in_set [OF f(2)] last_in_set [OF f(2)] by metis
qed (simp add: csv_field_def)

lemma no_crnl_field: "no_crnl f \<Longrightarrow> no_crnl (csv_field f)"
  using no_crnl_plain unquoted(2)
  by (auto simp: csv_field_def no_crnl_append no_crnl_quote_body no_crnl_append [of "[dquote]", simplified])

lemma no_crnl_fields:
  assumes "\<forall>f \<in> set fs. no_crnl f" "no_crnl u"
  shows "no_crnl (join '','' (map csv_field fs) @ nl # u)"
  using assms(1)
proof (induction fs rule: induct_list012)
  case 1
  then show ?case using assms(2) no_crnl_append [of "[nl]" u] by simp
next
  case (2 f)
  then show ?case using assms(2) no_crnl_append [of "[nl]" u] no_crnl_field [of f] csv_field_ends [of f]
    by (auto simp: no_crnl_append)
next
  case (3 f g fs)
  then have "no_crnl (join '','' (map csv_field (g # fs)) @ nl # u)" by simp
  then have "no_crnl ('','' @ join '','' (map csv_field (g # fs)) @ nl # u)"
    using no_crnl_append [of "'',''"] by simp
  moreover have "no_crnl (csv_field f)" using 3(3) no_crnl_field by simp
  ultimately show ?case
    using no_crnl_append [of "csv_field f" "'','' @ join '','' (map csv_field (g # fs)) @ nl # u"] by simp
qed

section \<open>Lines\<close>

lemma take_line_Cons [simp]:
  "c \<noteq> nl \<Longrightarrow> take_line (c # s) = (c # fst (take_line s), snd (take_line s))"
  by (simp add: split_beta)

lemma take_line_nl [simp]: "take_line (nl # s) = ([nl], s)"
  by simp

declare take_line.simps(2) [simp del]

lemma take_line_prefix:
  "nl \<notin> set a \<Longrightarrow> take_line (a @ s) = (a @ fst (take_line s), snd (take_line s))"
  by (induction a) auto

lemma fst_take_line_not_Nil: "s \<noteq> [] \<Longrightarrow> fst (take_line s) \<noteq> []"
  by (cases s; cases "hd s = nl") auto

lemma take_line_last: "nl \<in> set s \<Longrightarrow> fst (take_line s) \<noteq> [] \<and> last (fst (take_line s)) = nl"
proof (induction s)
  case (Cons c s)
  then show ?case by (cases "c = nl") auto
qed simp

lemma take_line_no_crnl: "no_crnl s \<Longrightarrow> no_crnl (fst (take_line s))"
  using no_crnl_append take_line_append by (metis prod.collapse)

lemma crnl_at_end:
  assumes "2 \<le> length l" "l ! (length l - 2) = cr" "last l = nl" shows "\<not> no_crnl l"
proof -
  obtain a x y where l: "l = a @ [x, y]"
    using assms(1) by (metis append_butlast_last_id append_Cons append_Nil append_assoc length_0_conv length_append_singleton
        not_less_eq_eq numeral_2_eq_2 le_zero_eq nat.distinct(1))
  then show ?thesis using assms by (simp add: no_crnl_append nth_append)
qed

lemma readLine_plain:
  assumes "nl \<in> set s" "no_crnl s"
  shows "readLine s = Some (take_line s)"
proof -
  obtain l r where t: "take_line s = (l, r)" by (cases "take_line s")
  have "last l = nl" "l \<noteq> []" using take_line_last [OF assms(1)] t by simp_all
  moreover have "\<not> (2 \<le> length l \<and> l ! (length l - 2) = cr)"
    using take_line_no_crnl [OF assms(2)] t crnl_at_end calculation(1) by fastforce
  moreover have "s \<noteq> []" using assms(1) by auto
  ultimately show ?thesis using t by (auto simp: readLine_def)
qed

section \<open>Fields\<close>

text \<open>Inside quotes, one ordinary character.\<close>

lemma parse_quoted_char:
  assumes "x \<noteq> dquote" "line \<noteq> []"
  shows "parse_record comma n acc (Some fld) (x # line) rest = parse_record comma n acc (Some (fld @ [x])) line rest"
  using assms by (auto simp: parse_record.simps(2) split: option.splits)

text \<open>Inside quotes, a whole body up to its closing quote.\<close>

definition newlines :: "string \<Rightarrow> nat" where "newlines s = count_list s nl"

lemma newlines_simps [simp]: "newlines [] = 0" "newlines (c # s) = (if c = nl then Suc (newlines s) else newlines s)"
  by (simp_all add: newlines_def)

lemma parse_quoted_body:
  assumes "nl \<in> set u" "no_crnl (quote_body f @ dquote # u)"
  shows "parse_record comma n acc (Some fld) (fst (take_line (quote_body f @ dquote # u)))
           (snd (take_line (quote_body f @ dquote # u)))
    = parse_record comma (n + newlines f) acc (Some (fld @ f)) (fst (take_line (dquote # u))) (snd (take_line (dquote # u)))"
  using assms(2)
proof (induction f arbitrary: n fld)
  case (Cons x f)
  let ?t = "quote_body f @ dquote # u"
  have t: "?t \<noteq> []" "nl \<in> set ?t" using assms(1) by simp_all
  consider "x = dquote" | "x = nl" | "x \<noteq> dquote" "x \<noteq> nl" by blast
  then show ?case
  proof cases
    case 1
    then have "no_crnl ?t" using Cons.prems no_crnl_append [of "[dquote, dquote]" ?t] by simp
    from Cons.IH [OF this, of n "fld @ [dquote]"] 1 show ?thesis
      by (subst parse_record.simps(2)) simp
  next
    case 2
    then have ok: "no_crnl ?t" using Cons.prems no_crnl_append [of "[nl]" ?t] by simp
    have "parse_record comma n acc (Some fld) [nl] ?t
        = parse_record comma (n + 1) acc (Some (fld @ [nl])) (fst (take_line ?t)) (snd (take_line ?t))"
      by (subst parse_record.simps(2))
         (simp add: readLine_plain [OF t(2) ok] split_beta fst_take_line_not_Nil [OF t(1)])
    with Cons.IH [OF ok, of "n + 1" "fld @ [nl]"] 2 show ?thesis by simp
  next
    case 3
    then have ok: "no_crnl ?t" using Cons.prems no_crnl_append [of "[x]" ?t] by simp
    have "parse_record comma n acc (Some fld) (x # fst (take_line ?t)) (snd (take_line ?t))
        = parse_record comma n acc (Some (fld @ [x])) (fst (take_line ?t)) (snd (take_line ?t))"
      by (rule parse_quoted_char [OF 3(1) fst_take_line_not_Nil [OF t(1)]])
    with Cons.IH [OF ok, of n "fld @ [x]"] 3 show ?thesis by simp
  qed
qed simp

text \<open>A field followed by a comma, and the last field of a record.\<close>

abbreviation parse_at :: "nat \<Rightarrow> string list \<Rightarrow> string \<Rightarrow> (nat \<times> csv_err, string list \<times> csv_pos) result" where
  "parse_at n acc t \<equiv> parse_record CHR '','' n acc None (fst (take_line t)) (snd (take_line t))"

lemma parse_field_comma:
  assumes "nl \<in> set u" "no_crnl (csv_field f @ CHR '','' # u)"
  shows "parse_at n acc (csv_field f @ CHR '','' # u) = parse_at (n + newlines f) (acc @ [f]) u"
proof (cases "fieldNeedsQuotes CHR '','' f")
  case True
  let ?u = "CHR '','' # u"
  have f: "csv_field f @ ?u = dquote # quote_body f @ dquote # ?u" using True by (simp add: csv_field_def)
  have "no_crnl (quote_body f @ dquote # ?u)" using assms(2) no_crnl_append [of "[dquote]"] unfolding f by simp
  from parse_quoted_body [OF _ this, of "CHR '',''" n acc "[]"] assms(1)
  have "parse_record CHR '','' n acc (Some []) (fst (take_line (quote_body f @ dquote # ?u))) (snd (take_line (quote_body f @ dquote # ?u)))
      = parse_at (n + newlines f) (acc @ [f]) u"
    by (simp add: parse_record.simps(2) [of _ _ acc f])
  then show ?thesis unfolding f by (subst parse_record.simps(1)) simp
next
  case False
  note uq = unquoted [OF False]
  have f: "csv_field f = f" using False by (simp add: csv_field_def)
  have t: "take_line (f @ CHR '','' # u) = (f @ CHR '','' # fst (take_line u), snd (take_line u))"
    using take_line_prefix [OF uq(1)] by simp
  have hd: "hd (f @ CHR '','' # fst (take_line u)) \<noteq> dquote" using uq(3) by (cases f) auto
  have "split_at CHR '','' (f @ CHR '','' # fst (take_line u)) = Some (f, fst (take_line u))"
    using uq(4) by (simp add: split_at_Some)
  moreover have "newlines f = 0" using uq(1) by (simp add: newlines_def)
  ultimately show ?thesis unfolding f t using uq(3) hd
    by (subst parse_record.simps(1)) simp
qed

lemma parse_field_last:
  assumes "no_crnl (csv_field f @ nl # u)"
  shows "parse_at n acc (csv_field f @ nl # u) = Inr (acc @ [f], n + newlines f, u)"
proof (cases "fieldNeedsQuotes CHR '','' f")
  case True
  let ?u = "nl # u"
  have f: "csv_field f @ ?u = dquote # quote_body f @ dquote # ?u" using True by (simp add: csv_field_def)
  have "no_crnl (quote_body f @ dquote # ?u)" using assms no_crnl_append [of "[dquote]"] unfolding f by simp
  from parse_quoted_body [OF _ this, of "CHR '',''" n acc "[]"]
  have "parse_record CHR '','' n acc (Some []) (fst (take_line (quote_body f @ dquote # ?u))) (snd (take_line (quote_body f @ dquote # ?u)))
      = Inr (acc @ [f], n + newlines f, u)"
    by (simp add: parse_record.simps(2) [of _ _ acc f] strip_nl_def)
  then show ?thesis unfolding f by (subst parse_record.simps(1)) simp
next
  case False
  note uq = unquoted [OF False]
  have f: "csv_field f = f" using False by (simp add: csv_field_def)
  have t: "take_line (f @ nl # u) = (f @ [nl], u)" using take_line_prefix [OF uq(1), of "nl # u"] by simp
  have hd: "hd (f @ [nl]) \<noteq> dquote" using uq(3) by (cases f) auto
  have "split_at CHR '','' (f @ [nl]) = None" using uq(4) by (simp add: split_at_None)
  moreover have "newlines f = 0" using uq(1) by (simp add: newlines_def)
  ultimately show ?thesis unfolding f t using uq(3) hd
    by (subst parse_record.simps(1)) (simp add: strip_nl_def)
qed

section \<open>Records\<close>

definition record_lines :: "string list \<Rightarrow> nat" where
  "record_lines fs = sum_list (map newlines fs)"

lemma parse_fields:
  assumes "fs \<noteq> []" "no_crnl (join '','' (map csv_field fs) @ nl # u)"
  shows "parse_at n acc (join '','' (map csv_field fs) @ nl # u) = Inr (acc @ fs, n + record_lines fs, u)"
  using assms
proof (induction fs arbitrary: n acc rule: induct_list012)
  case (2 f)
  then show ?case using parse_field_last [of f u n acc] by (simp add: record_lines_def)
next
  case (3 f g fs)
  let ?u = "join '','' (map csv_field (g # fs)) @ nl # u"
  have eq: "join '','' (map csv_field (f # g # fs)) @ nl # u = csv_field f @ CHR '','' # ?u" by simp
  have "no_crnl ?u" using 3(4) no_crnl_append [of "csv_field f @ '',''" ?u] unfolding eq by simp
  then have ih: "parse_at (n + newlines f) (acc @ [f]) ?u = Inr ((acc @ [f]) @ g # fs, n + newlines f + record_lines (g # fs), u)"
    by (intro 3(2)) simp_all
  have "parse_at n acc (csv_field f @ CHR '','' # ?u) = parse_at (n + newlines f) (acc @ [f]) ?u"
    using 3(4) unfolding eq by (intro parse_field_comma) simp_all
  then show ?case unfolding eq ih by (simp add: record_lines_def)
qed simp

lemma record_not_blank:
  assumes "2 \<le> length fs"
  shows "hd (join '','' (map csv_field fs) @ nl # u) \<noteq> nl"
proof -
  obtain f g fs' where fs: "fs = f # g # fs'" using assms by (cases fs; cases "tl fs") auto
  show ?thesis unfolding fs using csv_field_ends [of f] by (cases "csv_field f") auto
qed

text \<open>One record of at least two fields is read back.\<close>

lemma csv_read_record:
  assumes "2 \<le> length fs" "\<forall>f \<in> set fs. no_crnl f" "no_crnl u"
  shows "csv_read CHR '','' (n, csv_record fs @ u) = Some (Inr (n + 1, fs, n + 1 + record_lines fs, u))"
proof -
  let ?t = "join '','' (map csv_field fs) @ nl # u"
  have ok: "no_crnl ?t" using assms(2,3) by (rule no_crnl_fields)
  have line: "readLine ?t = Some (take_line ?t)" by (rule readLine_plain [OF _ ok]) simp
  obtain c s where cs: "?t = c # s" by (cases ?t) auto
  then have c: "c \<noteq> nl" using record_not_blank [OF assms(1), of u] by simp
  have "nl \<in> set (c # s)" unfolding cs [symmetric] by simp
  then have "s \<noteq> []" using c by auto
  then have "strip_nl (fst (take_line ?t)) \<noteq> []" unfolding cs using c fst_take_line_not_Nil [of s] by (simp add: strip_nl_def)
  then have "next_line (n, ?t) = Some (fst (take_line ?t), n + 1, snd (take_line ?t))"
    using line by (subst next_line.simps) (simp add: split_beta)
  moreover have "fs \<noteq> []" using assms(1) by auto
  ultimately show ?thesis using parse_fields [OF _ ok, of "n + 1" "[]"]
    by (simp add: csv_read_def csv_record_def)
qed

end
