(* ===== verification/Csv_Roundtrip.thy ===== *)
theory Csv_Roundtrip
  imports Csv_Correct
begin

text \<open>
  From an exported master data file back through the importer: validity of the text, the header, the
  guard, and the rows.
\<close>

section \<open>Valid text\<close>

lemma rune_size_le: "rune_size s \<le> length s"
  by (cases s) (auto simp: Let_def)

lemma rune_size_append:
  assumes "rune_size s \<noteq> 0" shows "rune_size (s @ t) = rune_size s"
proof -
  obtain a u where s: "s = a # u" using assms by (cases s) auto
  show ?thesis
  proof (cases "lead_size (code a) \<le> 1")
    case True
    then show ?thesis by (simp add: s)
  next
    case False
    then have len: "lead_size (code a) - 1 \<le> length u" using assms by (auto simp: s Let_def split: if_splits)
    then have "take (lead_size (code a) - 1) (u @ t) = take (lead_size (code a) - 1) u" "hd (u @ t) = hd u"
      using False by (auto simp: hd_append)
    then show ?thesis using len unfolding s append_Cons rune_size.simps Let_def by simp
  qed
qed

lemma rune_size_take:
  assumes "rune_size s \<noteq> 0" shows "rune_size (take (rune_size s) s) = rune_size s"
proof -
  obtain a u where s: "s = a # u" using assms by (cases s) auto
  show ?thesis
  proof (cases "lead_size (code a) \<le> 1")
    case True
    then show ?thesis using assms by (simp add: s take_Cons')
  next
    case False
    then obtain k where k: "lead_size (code a) = Suc (Suc k)" by (cases "lead_size (code a)"; cases "lead_size (code a) - 1") auto
    then show ?thesis using assms by (cases u) (auto simp: s Let_def split: if_splits)
  qed
qed

lemma utf8_valid_Nil [simp]: "utf8_valid []"
  by (simp add: utf8_valid.simps)

lemma utf8_valid_append:
  assumes "utf8_valid s" "utf8_valid t" shows "utf8_valid (s @ t)"
  using assms(1)
proof (induction s rule: utf8_valid.induct)
  case (1 s)
  show ?case
  proof (cases "s = []")
    case False
    then have r: "rune_size s \<noteq> 0" "utf8_valid (drop (rune_size s) s)" using 1(2) by (simp_all add: utf8_valid.simps [of s] split: if_splits)
    have "utf8_valid (drop (rune_size s) s @ t)" by (rule 1(1) [OF False r])
    then show ?thesis using False r(1) rune_size_le [of s]
      by (subst utf8_valid.simps) (simp add: rune_size_append)
  qed (use assms(2) in simp)
qed

lemma utf8_valid_ascii: "code c < 128 \<Longrightarrow> utf8_valid (c # s) \<longleftrightarrow> utf8_valid s"
  by (subst utf8_valid.simps) (simp add: lead_size_def)

lemma quote_body_append: "quote_body (s @ t) = quote_body s @ quote_body t"
  by (induction s) auto

lemma quote_body_plain: "dquote \<notin> set s \<Longrightarrow> quote_body s = s"
  by (induction s) auto

text \<open>A rune is one ASCII byte or several bytes beyond ASCII.\<close>

lemma rune_cases:
  assumes "rune_size s \<noteq> 0"
  obtains (ascii) c t where "s = c # t" "code c < 128" "rune_size s = 1"
  | (wide) "dquote \<notin> set (take (rune_size s) s)" "list_all (\<lambda>c. 128 \<le> code c) (take (rune_size s) s)"
proof -
  obtain c t where s: "s = c # t" using assms by (cases s) auto
  show thesis
  proof (cases "code c < 128")
    case True
    then show thesis using that(1) s by (simp add: lead_size_def)
  next
    case False
    have "list_all (\<lambda>c. 128 \<le> code c) (take (rune_size s) s)"
    proof (cases "lead_size (code c) \<le> 1")
      case True
      then show ?thesis using False s assms by (simp add: lead_size_def split: if_splits)
    next
      case L: False
      then have "list_all cont (take (rune_size s - 1) t)" using s assms by (auto simp: Let_def split: if_splits)
      then have "list_all (\<lambda>c. 128 \<le> code c) (take (rune_size s - 1) t)"
        by (rule list.pred_mono_strong) (simp add: cont_def)
      then show ?thesis using False assms unfolding s take_Cons' by simp
    qed
    moreover from this have "dquote \<notin> set (take (rune_size s) s)" by (auto simp: list_all_iff)
    ultimately show thesis by (rule that(2) [rotated])
  qed
qed

lemma utf8_valid_quote_body: "utf8_valid s \<Longrightarrow> utf8_valid (quote_body s)"
proof (induction s rule: utf8_valid.induct)
  case (1 s)
  show ?case
  proof (cases "s = []")
    case False
    then have r: "rune_size s \<noteq> 0" "utf8_valid (drop (rune_size s) s)" using 1(2) by (simp_all add: utf8_valid.simps [of s] split: if_splits)
    have ih: "utf8_valid (quote_body (drop (rune_size s) s))" by (rule 1(1) [OF False r])
    show ?thesis
      using r(1)
    proof (cases rule: rune_cases)
      case (ascii c t)
      then show ?thesis using ih by (simp add: utf8_valid_ascii)
    next
      case wide
      have split: "quote_body s = take (rune_size s) s @ quote_body (drop (rune_size s) s)"
        using quote_body_append [of "take (rune_size s) s" "drop (rune_size s) s"] quote_body_plain [OF wide(1)] by simp
      note size = rune_size_take [OF r(1)]
      have "utf8_valid (take (rune_size s) s)"
        using size r(1) rune_size_le [of s] by (subst utf8_valid.simps) simp
      then show ?thesis unfolding split using ih by (rule utf8_valid_append)
    qed
  qed simp
qed

definition text_ok :: "string \<Rightarrow> bool" where
  "text_ok s \<longleftrightarrow> utf8_valid s \<and> list_all (\<lambda>c. code c \<noteq> 0) s"

lemma text_ok_append: "text_ok s \<Longrightarrow> text_ok t \<Longrightarrow> text_ok (s @ t)"
  by (simp add: text_ok_def utf8_valid_append)

lemma text_ok_ascii: "0 < code c \<Longrightarrow> code c < 128 \<Longrightarrow> text_ok (c # s) \<longleftrightarrow> text_ok s"
  by (simp add: text_ok_def utf8_valid_ascii)

lemma text_ok_Nil [simp]: "text_ok []"
  by (simp add: text_ok_def)

lemma text_ok_quote_body: "text_ok s \<Longrightarrow> text_ok (quote_body s)"
proof -
  have "set (quote_body s) \<subseteq> insert dquote (set s)" by (induction s) auto
  then show "text_ok s \<Longrightarrow> text_ok (quote_body s)"
    by (auto simp: text_ok_def utf8_valid_quote_body list_all_iff)
qed

lemma text_ok_field: "text_ok f \<Longrightarrow> text_ok (csv_field f)"
  by (simp add: csv_field_def text_ok_ascii text_ok_append text_ok_quote_body)

lemma text_ok_join: "\<forall>f \<in> set fs. text_ok f \<Longrightarrow> text_ok (join '','' fs)"
  by (induction fs rule: induct_list012) (auto simp: text_ok_append text_ok_ascii)

lemma text_ok_record: "\<forall>f \<in> set fs. text_ok f \<Longrightarrow> text_ok (csv_record fs)"
  by (simp add: csv_record_def text_ok_append text_ok_join text_ok_field text_ok_ascii)

section \<open>The guard\<close>

definition guarded :: "string \<Rightarrow> bool" where
  "guarded s \<longleftrightarrow> s = [] \<or> hd s \<noteq> apostrophe"

lemma UnCSVSafe_CSVSafe: "guarded s \<Longrightarrow> UnCSVSafe (CSVSafe s) = s"
  by (cases s) (auto simp: CSVSafe_def UnCSVSafe_def guarded_def)

lemma CSVSafe_cases: "CSVSafe s = s \<or> CSVSafe s = apostrophe # s"
  by (simp add: CSVSafe_def)

lemma CSVSafe_text:
  "no_crnl s \<Longrightarrow> no_crnl (CSVSafe s)" "text_ok s \<Longrightarrow> text_ok (CSVSafe s)" "newlines (CSVSafe s) = newlines s"
  using CSVSafe_cases [of s] no_crnl_append [of "[apostrophe]" s] by (auto simp: text_ok_ascii)

text \<open>The cells the importer gives back unchanged.\<close>

definition cell_ok :: "string \<Rightarrow> bool" where
  "cell_ok c \<longleftrightarrow> text_ok c \<and> no_crnl c \<and> guarded c \<and> TrimSpace c = c"

lemma cleanCell_CSVSafe: "cell_ok c \<Longrightarrow> cleanCell (CSVSafe c) = c"
  by (simp add: cell_ok_def cleanCell_def UnCSVSafe_CSVSafe)

lemma cleanRecord_CSVSafe:
  assumes "\<forall>c \<in> set r. cell_ok c"
  shows "cleanRecord (map CSVSafe r) = (r, list_all (\<lambda>c. c = []) r)"
  using assms by (induction r) (auto simp: cleanRecord_def cleanCell_CSVSafe)

lemma record_lines_CSVSafe: "record_lines (map CSVSafe r) = record_lines r"
  by (simp add: record_lines_def CSVSafe_text(3) comp_def)

section \<open>Rows\<close>

definition row_ok :: "nat \<Rightarrow> string list \<Rightarrow> bool" where
  "row_ok n r \<longleftrightarrow> length r = n \<and> (\<exists>c \<in> set r. c \<noteq> []) \<and> (\<forall>c \<in> set r. cell_ok c)"

fun numbered_rows :: "(string list \<Rightarrow> string list) \<Rightarrow> nat \<Rightarrow> string list list \<Rightarrow> import_record list" where
  "numbered_rows f n [] = []"
| "numbered_rows f n (r # rs) =
     \<lparr>ir_line = n + 1, ir_cells = f r\<rparr> # numbered_rows f (n + 1 + record_lines r) rs"

lemma numbered_rows_cells: "map ir_cells (numbered_rows f n rs) = map f rs"
  by (induction rs arbitrary: n) auto

lemma rows_no_crnl:
  assumes "\<forall>r \<in> set rs. \<forall>c \<in> set r. cell_ok c" shows "no_crnl (concat (map Writer_Write rs))"
  using assms
proof (induction rs)
  case (Cons r rs)
  then have "\<forall>f \<in> set (map CSVSafe r). no_crnl f" by (auto simp: cell_ok_def CSVSafe_text)
  from no_crnl_fields [OF this] Cons show ?case by (simp add: Writer_Write_def csv_record_def)
qed simp

lemma import_rows_read:
  assumes "2 \<le> n" "\<forall>r \<in> set rs. row_ok n r" "length recs + length rs \<le> MasterDataImportMaxRows"
  shows "import_rows CHR '','' header fill mode recs (k, concat (map Writer_Write rs))
    = Inr (recs @ numbered_rows (import_cells header fill mode) k rs, [])"
  using assms(2,3)
proof (induction rs arbitrary: recs k)
  case Nil
  then show ?case by (simp add: import_rows.simps csv_read_def next_line.simps readLine_def)
next
  case (Cons r rs)
  let ?u = "concat (map Writer_Write rs)"
  have r: "length r = n" "\<exists>c \<in> set r. c \<noteq> []" "\<forall>c \<in> set r. cell_ok c" using Cons.prems(1) by (simp_all add: row_ok_def)
  have "\<forall>r \<in> set rs. \<forall>c \<in> set r. cell_ok c" using Cons.prems(1) by (simp add: row_ok_def)
  then have u: "no_crnl ?u" by (rule rows_no_crnl)
  have "\<forall>f \<in> set (map CSVSafe r). no_crnl f" using r(3) by (auto simp: cell_ok_def CSVSafe_text)
  from csv_read_record [OF _ this u, of k] assms(1) r(1)
  have read: "csv_read CHR '','' (k, concat (map Writer_Write (r # rs)))
      = Some (Inr (k + 1, map CSVSafe r, k + 1 + record_lines r, ?u))"
    by (simp add: Writer_Write_def record_lines_CSVSafe)
  have clean: "cleanRecord (map CSVSafe r) = (r, False)"
    using cleanRecord_CSVSafe [OF r(3)] r(2) by (auto simp: list_all_iff)
  have "import_rows CHR '','' header fill mode recs (k, concat (map Writer_Write (r # rs)))
      = import_rows CHR '','' header fill mode
          (recs @ [\<lparr>ir_line = k + 1, ir_cells = import_cells header fill mode r\<rparr>]) (k + 1 + record_lines r, ?u)"
    using Cons.prems(2) by (subst import_rows.simps) (simp only: read option.case sum.case prod.case clean Let_def, simp)
  also have "\<dots> = Inr ((recs @ [\<lparr>ir_line = k + 1, ir_cells = import_cells header fill mode r\<rparr>])
      @ numbered_rows (import_cells header fill mode) (k + 1 + record_lines r) rs, [])"
    by (rule Cons.IH) (use Cons.prems in simp_all)
  finally show ?case by simp
qed

section \<open>Headers\<close>

definition name_text :: "string \<Rightarrow> bool" where
  "name_text h \<longleftrightarrow> h \<noteq> [] \<and> list_all (\<lambda>c. 97 \<le> code c \<and> code c \<le> 122 \<or> c = CHR ''_'') h"

lemma name_text_facts:
  assumes "name_text h"
  shows "csv_field h = h" "text_ok h" "no_crnl h" "newlines h = 0" "CHR '';'' \<notin> set h" "nl \<notin> set h"
proof -
  have cs: "97 \<le> code c \<and> code c \<le> 122 \<or> c = CHR ''_''" if "c \<in> set h" for c
    using assms that by (auto simp: name_text_def list_all_iff)
  have ns: "c \<notin> set h" if "code c < 95" for c using cs [of c] that by auto
  show "CHR '';'' \<notin> set h" "nl \<notin> set h" by (rule ns; simp)+
  then show "newlines h = 0" by (simp add: newlines_def)
  have "cr \<notin> set h" by (rule ns) simp
  then show "no_crnl h" by (rule no_crnl_plain)
  have "\<not> ascii_space (hd h)" "code (hd h) < 128" using cs [of "hd h"] assms by (auto simp: name_text_def ascii_space_def)
  then have "space_prefix h = 0" by (cases h rule: space_prefix.cases) (auto simp: space2_def space3_def)
  moreover have "dquote \<notin> set h" "CHR '','' \<notin> set h" "cr \<notin> set h" "nl \<notin> set h" "CHR ''.'' \<notin> set h" by (rule ns; simp)+
  ultimately show "csv_field h = h" by (auto simp: csv_field_def fieldNeedsQuotes_def)
  have "list_all (\<lambda>c. 0 < code c \<and> code c < 128) h" using cs by (fastforce simp: list_all_iff)
  then show "text_ok h" by (induction h) (auto simp: text_ok_ascii)
qed

lemma header_facts:
  assumes "\<forall>h \<in> set hs. name_text h" "hs \<noteq> []"
  shows "delimiter (csv_record hs @ u) = CHR '',''"
proof -
  have "map csv_field hs = hs" using assms(1) by (intro map_idI) (simp add: name_text_facts)
  moreover have "CHR '';'' \<notin> set (join '','' hs) \<and> nl \<notin> set (join '','' hs)" using assms(1)
    by (induction hs rule: induct_list012) (auto simp: name_text_facts)
  moreover from this have "takeWhile (\<lambda>c. c \<noteq> nl) (join '','' hs @ nl # u) = join '','' hs"
    by (subst takeWhile_append2) auto
  ultimately show ?thesis by (simp add: delimiter_def csv_record_def)
qed

text \<open>A header cell that is a column name matches that name only.\<close>

lemma name_text_trim: "name_text h \<Longrightarrow> TrimSpace h = h"
  by (rule TrimSpace_plain) (auto simp: name_text_def list_all_iff ascii_space_def)

lemma lower_bytes_plain:
  assumes "\<forall>c \<in> set h. code c < 128 \<and> \<not> (65 \<le> code c \<and> code c \<le> 90)" shows "lower_bytes h = h"
  using assms by (induction h rule: lower_bytes.induct) (auto simp: ascii_lower_def)

lemma name_text_lower: "name_text h \<Longrightarrow> lower_bytes h = h"
  by (rule lower_bytes_plain) (auto simp: name_text_def list_all_iff)

lemma headerMatches_names: "list_all name_text hs \<Longrightarrow> headerMatches hs ws \<longleftrightarrow> hs = ws"
proof -
  assume hs: "list_all name_text hs"
  have "list_all2 (\<lambda>g w. lower_bytes (TrimSpace g) = w) hs ws \<longleftrightarrow> hs = ws"
    using hs by (induction hs arbitrary: ws) (auto simp: list_all2_Cons1 name_text_trim name_text_lower)
  then show ?thesis by (auto simp: headerMatches_def)
qed

lemma header_mode_names:
  assumes "list_all name_text hs"
  shows "header_mode hs legacy hs = Some None"
    "hs \<in> set legacy \<Longrightarrow> hs \<noteq> header \<Longrightarrow> header_mode header legacy hs = Some (Some (legacyPick header hs, length hs))"
proof -
  have "headerMatches hs = (=) hs" by (simp add: fun_eq_iff headerMatches_names [OF assms])
  moreover have "find_row ((=) hs) legacy = Some hs" if "hs \<in> set legacy" using that by (induction legacy) auto
  ultimately show "hs \<in> set legacy \<Longrightarrow> hs \<noteq> header \<Longrightarrow> header_mode header legacy hs = Some (Some (legacyPick header hs, length hs))"
    by (simp add: header_mode_def)
qed (simp add: header_mode_def headerMatches_names assms)

end
