(* ===== verification/Csv_Properties.thy ===== *)
theory Csv_Properties
  imports Csv_Roundtrip
begin

text \<open>The properties of the master data files.\<close>

lemma importable_names:
  "\<forall>e \<in> set importable. list_all (\<lambda>l. list_all name_text l \<and> 2 \<le> length l) (en_header e # en_legacy_headers e)"
  by (simp add: importable_def name_text_def)

lemma importable_legacy: "\<forall>e \<in> set importable. en_header e \<notin> set (en_legacy_headers e)"
  by (simp add: importable_def)

lemma importable_headers:
  assumes "e \<in> set importable"
  shows "list_all name_text (en_header e)" "2 \<le> length (en_header e)"
    "header_mode (en_header e) (en_legacy_headers e) (en_header e) = Some None"
    "l \<in> set (en_legacy_headers e) \<Longrightarrow> list_all name_text l"
    "l \<in> set (en_legacy_headers e) \<Longrightarrow> 2 \<le> length l"
    "l \<in> set (en_legacy_headers e) \<Longrightarrow>
       header_mode (en_header e) (en_legacy_headers e) l = Some (Some (legacyPick (en_header e) l, length l))"
proof -
  have n: "list_all (\<lambda>l. list_all name_text l \<and> 2 \<le> length l) (en_header e # en_legacy_headers e)"
    using importable_names assms by (rule bspec)
  then show h: "list_all name_text (en_header e)" "2 \<le> length (en_header e)" by simp_all
  show "header_mode (en_header e) (en_legacy_headers e) (en_header e) = Some None" by (rule header_mode_names(1) [OF h(1)])
  assume l: "l \<in> set (en_legacy_headers e)"
  then show ln: "list_all name_text l" "2 \<le> length l" using n by (simp_all add: list_all_iff)
  have "en_header e \<notin> set (en_legacy_headers e)" using importable_legacy assms by (rule bspec)
  then have "l \<noteq> en_header e" using l by blast
  then show "header_mode (en_header e) (en_legacy_headers e) l = Some (Some (legacyPick (en_header e) l, length l))"
    by (rule header_mode_names(2) [OF ln(1) l])
qed

text \<open>Reading a file with a known header line.\<close>

lemma read_known_header:
  assumes hs: "list_all name_text hs" "2 \<le> length hs"
    and mode: "header_mode header legacy hs = Some mode"
    and rows: "\<forall>r \<in> set rows. row_ok (length hs) r" "length rows \<le> MasterDataImportMaxRows"
    and bytes: "length (csv_file hs rows) \<le> MasterDataImportMaxBytes"
  shows "readImportCSV (Some (csv_file hs rows)) header legacy fill
    = Inr (numbered_rows (import_cells header fill mode) 1 rows, [])"
proof -
  let ?u = "concat (map Writer_Write rows)"
  have names: "\<forall>h \<in> set hs. name_text h" using hs(1) by (simp add: list_all_iff)
  have cells: "\<forall>r \<in> set rows. \<forall>c \<in> set r. cell_ok c" using rows(1) by (simp add: row_ok_def)
  have "text_ok (Writer_Write r)" if "r \<in> set rows" for r
    using cells that unfolding Writer_Write_def by (intro text_ok_record) (auto simp: cell_ok_def CSVSafe_text)
  then have "text_ok ?u" by (induction rows) (auto intro: text_ok_append)
  moreover have "text_ok (csv_record hs)" using names by (intro text_ok_record) (simp add: name_text_facts)
  ultimately have "text_ok (csv_record hs @ ?u)" by (rule text_ok_append [rotated])
  then have valid: "invalidText (csv_record hs @ ?u) = None" unfolding text_ok_def invalidText_def by simp
  have "\<forall>h \<in> set hs. no_crnl h" using names by (simp add: name_text_facts)
  moreover have "record_lines hs = 0" using names by (simp add: record_lines_def name_text_facts)
  ultimately have head: "csv_read CHR '','' (0, csv_record hs @ ?u) = Some (Inr (1, hs, 1, ?u))"
    using csv_read_record [OF hs(2) _ rows_no_crnl [OF cells], of 0] by simp
  have "import_rows CHR '','' header fill mode [] (1, ?u) = Inr ([] @ numbered_rows (import_cells header fill mode) 1 rows, [])"
    by (rule import_rows_read [OF hs(2) rows(1)]) (use rows(2) in simp)
  moreover have "delimiter (csv_record hs @ ?u) = CHR '',''" by (rule header_facts [OF names]) (use hs(2) in auto)
  moreover have "trim_bom (csv_file hs rows) = csv_record hs @ ?u" by (simp add: csv_file_def trim_bom_def BOM_def)
  ultimately show ?thesis using bytes valid head mode by (simp add: readImportCSV_def Let_def)
qed

lemma import_written:
  assumes "e \<in> set importable" and "\<forall>r \<in> set rows. row_ok (length (en_header e)) r"
    and "length rows \<le> MasterDataImportMaxRows" and "length (csv_file (en_header e) rows) \<le> MasterDataImportMaxBytes"
  shows "\<exists>recs. readImportCSV (Some (csv_file (en_header e) rows)) (en_header e) (en_legacy_headers e) (en_legacy_fill e)
      = Inr (recs, []) \<and> map ir_cells recs = rows"
proof -
  note h = importable_headers(1-3) [OF assms(1)]
  have "import_cells (en_header e) (en_legacy_fill e) None = id" by (simp add: import_cells_def fun_eq_iff)
  with read_known_header [OF h assms(2-4)] show ?thesis by (simp add: numbered_rows_cells)
qed

text \<open>C30: exporting and importing is the identity. For every importable entity, a file written with the
  entity's header is read by the importer without an error as exactly the rows that were written, in
  order, whatever their cells contain (formulas, quotes, separators, line breaks, non-ASCII text), as
  long as the cells are valid text with no surrounding white space, no leading apostrophe and no CR
  LF, each row has a non-empty cell, and the file is within the importer's limits.\<close>

theorem csv_export_import:
  assumes "e \<in> set importable" and "\<forall>r \<in> set rows. row_ok (length (en_header e)) r"
    and "length rows \<le> MasterDataImportMaxRows" and "length (csv_file (en_header e) rows) \<le> MasterDataImportMaxBytes"
  shows "\<exists>recs. readImportCSV (Some (csv_file (en_header e) rows)) (en_header e) (en_legacy_headers e) (en_legacy_fill e)
      = Inr (recs, []) \<and> map ir_cells recs = rows"
  using assms by (rule import_written)

definition sample_vendor_rows :: "string list list" where
  "sample_vendor_rows = [[''1'', ''V1'', ''=SUM(A1)'', [dquote, CHR ''x'', nl, CHR ''y''], ''a,b'', [], ''+62 812'', ''-x'', ''true'']]"

theorem csv_export_import_witness:
  "\<exists>recs. readImportCSV (Some (csv_file (en_header (hd importable)) sample_vendor_rows)) (en_header (hd importable))
      (en_legacy_headers (hd importable)) (en_legacy_fill (hd importable)) = Inr (recs, []) \<and> map ir_cells recs = sample_vendor_rows"
proof -
  have "hd importable \<in> set importable" by (simp add: importable_def)
  moreover have "\<forall>r \<in> set sample_vendor_rows. row_ok (length (en_header (hd importable))) r" by code_simp
  moreover have "length sample_vendor_rows \<le> MasterDataImportMaxRows"
    by (simp add: sample_vendor_rows_def MasterDataImportMaxRows_def)
  moreover have "length (csv_file (en_header (hd importable)) sample_vendor_rows) \<le> 1000" by code_simp
  then have "length (csv_file (en_header (hd importable)) sample_vendor_rows) \<le> MasterDataImportMaxBytes"
    by (simp add: MasterDataImportMaxBytes_def)
  ultimately show ?thesis by (rule csv_export_import)
qed

text \<open>An old file is read in the new column order. A file with one of an entity's legacy headers is
  accepted, and each of its rows becomes a row of the current header in which every column has the
  cell of the column of that name in the file, or the documented fill value where the file has no
  such column.\<close>

lemma legacy_file_expands:
  assumes "e \<in> set importable" and "l \<in> set (en_legacy_headers e)" and "\<forall>r \<in> set rows. row_ok (length l) r"
    and "length rows \<le> MasterDataImportMaxRows" and "length (csv_file l rows) \<le> MasterDataImportMaxBytes"
  shows "\<exists>recs. readImportCSV (Some (csv_file l rows)) (en_header e) (en_legacy_headers e) (en_legacy_fill e)
      = Inr (recs, []) \<and> map ir_cells recs
      = map (\<lambda>r. map (\<lambda>h. case index_of h l of None \<Rightarrow> fill_of (en_legacy_fill e) h | Some i \<Rightarrow> r ! i) (en_header e)) rows"
proof -
  let ?c = "\<lambda>r. import_cells (en_header e) (en_legacy_fill e) (Some (legacyPick (en_header e) l, length l)) r"
  note h = importable_headers(4-6) [OF assms(1,2)]
  have pick: "zip hs (map f hs) = map (\<lambda>h. (h, f h)) hs" for hs :: "string list" and f :: "string \<Rightarrow> nat option"
    by (induction hs) auto
  have "?c r = map (\<lambda>h. case index_of h l of None \<Rightarrow> fill_of (en_legacy_fill e) h | Some i \<Rightarrow> r ! i) (en_header e)"
    if "r \<in> set rows" for r
    using assms(3) that by (simp add: import_cells_def expandLegacy_def legacyPick_def row_ok_def pick)
  then have "map ?c rows = map (\<lambda>r. map (\<lambda>h. case index_of h l of None \<Rightarrow> fill_of (en_legacy_fill e) h | Some i \<Rightarrow> r ! i) (en_header e)) rows"
    by simp
  then show ?thesis using read_known_header [OF h assms(3-5)] by (simp add: numbered_rows_cells)
qed

lemma legacy_file_expands_witness:
  "\<exists>recs. readImportCSV (Some (csv_file (hd (en_legacy_headers (importable ! 3))) [[''1'', ''V1'', ''B1'', ''Ann'', [], [], [], ''true'', ''true'']]))
      (en_header (importable ! 3)) (en_legacy_headers (importable ! 3)) (en_legacy_fill (importable ! 3)) = Inr (recs, [])
    \<and> map ir_cells recs = [[''1'', ''V1'', ''B1'', ''Ann'', [], [], [], ''true'', ''true'', []]]"
proof -
  let ?e = "importable ! 3" and ?rows = "[[''1'', ''V1'', ''B1'', ''Ann'', [], [], [], ''true'', ''true'']]"
  have e: "?e \<in> set importable" by (simp add: importable_def)
  have l: "hd (en_legacy_headers ?e) \<in> set (en_legacy_headers ?e)" by (simp add: importable_def)
  have r: "\<forall>r \<in> set ?rows. row_ok (length (hd (en_legacy_headers ?e))) r" by code_simp
  have "length (csv_file (hd (en_legacy_headers ?e)) ?rows) \<le> 1000" by code_simp
  then have n: "length ?rows \<le> MasterDataImportMaxRows" "length (csv_file (hd (en_legacy_headers ?e)) ?rows) \<le> MasterDataImportMaxBytes"
    by (simp_all add: MasterDataImportMaxBytes_def MasterDataImportMaxRows_def)
  have m: "map (\<lambda>r. map (\<lambda>h. case index_of h (hd (en_legacy_headers ?e)) of None \<Rightarrow> fill_of (en_legacy_fill ?e) h | Some i \<Rightarrow> r ! i)
      (en_header ?e)) ?rows = [[''1'', ''V1'', ''B1'', ''Ann'', [], [], [], ''true'', ''true'', []]]" by code_simp
  from legacy_file_expands [OF e l r n] show ?thesis unfolding m .
qed


end
