(* ===== verification/Redis.thy ===== *)
theory Redis
  imports Prelude
begin

text \<open>
  Redis and its two clients: the login rate limiter (\<open>src/pkg/middleware/rate_limiter.go\<close>) and the
  blacklist of refresh tokens (\<open>src/pkg/auth/token_blacklist.go\<close>).

  The store maps a key to its integer value and its expiry; a key whose expiry has passed is
  absent. \<open>redis_get\<close>, \<open>redis_incr\<close>, ... are the commands the clients send, with the client's
  rounding of durations: \<open>EXPIRE\<close> counts whole seconds, \<open>SET .. PX\<close> whole milliseconds, and a
  positive duration below the unit counts as one unit. \<open>redis_faults\<close> says which commands fail.
\<close>

section \<open>The store and its commands\<close>

abbreviation millisecond :: int where "millisecond \<equiv> 1000000"

type_synonym redis = "string \<Rightarrow> (int \<times> timestamp option) option"

datatype redis_call =
    RGet string | RIncr string | RExpire string | RTTL string | RDel string | RSet string
  | RExists string

type_synonym redis_faults = "redis_call \<Rightarrow> bool"

definition redis_entry :: "redis \<Rightarrow> timestamp \<Rightarrow> string \<Rightarrow> (int \<times> timestamp option) option" where
  "redis_entry r now k =
     (case r k of
        None \<Rightarrow> None
      | Some (v, None) \<Rightarrow> Some (v, None)
      | Some (v, Some x) \<Rightarrow> if now < x then Some (v, Some x) else None)"

definition redis_get :: "redis \<Rightarrow> timestamp \<Rightarrow> string \<Rightarrow> int option" where
  "redis_get r now k = map_option fst (redis_entry r now k)"

definition redis_incr :: "redis \<Rightarrow> timestamp \<Rightarrow> string \<Rightarrow> int \<times> redis" where
  "redis_incr r now k =
     (case redis_entry r now k of
        None \<Rightarrow> (1, r(k \<mapsto> (1, None)))
      | Some (v, x) \<Rightarrow> (v + 1, r(k \<mapsto> (v + 1, x))))"

definition whole_units :: "int \<Rightarrow> int \<Rightarrow> int" where
  "whole_units unit d = (if 0 < d \<and> d < unit then 1 else d div unit)"

definition redis_expire :: "redis \<Rightarrow> timestamp \<Rightarrow> string \<Rightarrow> int \<Rightarrow> redis" where
  "redis_expire r now k d =
     (case redis_entry r now k of
        None \<Rightarrow> r
      | Some (v, _) \<Rightarrow> r(k \<mapsto> (v, Some (now + whole_units second d * second))))"

definition redis_set :: "redis \<Rightarrow> timestamp \<Rightarrow> string \<Rightarrow> int \<Rightarrow> int \<Rightarrow> redis" where
  "redis_set r now k v ttl =
     r(k \<mapsto> (v, if ttl > 0 then Some (now + whole_units millisecond ttl * millisecond) else None))"

definition redis_del :: "redis \<Rightarrow> string \<Rightarrow> redis" where
  "redis_del r k = r(k := None)"

text \<open>\<open>TTL\<close>: -2 without the key, -1 without an expiry, otherwise seconds, rounded to the nearest.\<close>

definition redis_ttl :: "redis \<Rightarrow> timestamp \<Rightarrow> string \<Rightarrow> int" where
  "redis_ttl r now k =
     (case redis_entry r now k of
        None \<Rightarrow> - 2
      | Some (_, None) \<Rightarrow> - 1
      | Some (_, Some x) \<Rightarrow> ((x - now) div millisecond + 500) div 1000)"

section \<open>Rate limiter\<close>

record rate_limit_config =
  MaxPerUsername :: int
  MaxPerIP :: int
  Window :: int

datatype limiter_err = RateLimited int | LimiterUnavailable

definition usernameKey :: "string \<Rightarrow> string" where
  "usernameKey username = ''rate:login:user:'' @ username"

definition ipKey :: "string \<Rightarrow> string" where
  "ipKey ip = ''rate:login:ip:'' @ ip"

definition getTTL :: "rate_limit_config \<Rightarrow> redis_faults \<Rightarrow> timestamp \<Rightarrow> redis \<Rightarrow> string
    \<Rightarrow> limiter_err + int" where
  "getTTL cfg flt now r key =
     (if flt (RTTL key) then Inl LimiterUnavailable
      else let ttl = redis_ttl r now key in
           if ttl < 0 then Inr (go_div (Window cfg) second) else Inr ttl)"

definition Check :: "rate_limit_config \<Rightarrow> redis_faults \<Rightarrow> timestamp \<Rightarrow> redis \<Rightarrow> string \<Rightarrow> string
    \<Rightarrow> limiter_err option" where
  "Check cfg flt now r username ip =
     (let userKey = usernameKey username; ipKeyStr = ipKey ip;
          count = (\<lambda>k. case redis_get r now k of None \<Rightarrow> 0 | Some v \<Rightarrow> v);
          refuse = (\<lambda>k. case getTTL cfg flt now r k of
                           Inl e \<Rightarrow> Some LimiterUnavailable
                         | Inr retryAfter \<Rightarrow> Some (RateLimited retryAfter))
      in if flt (RGet userKey) then Some LimiterUnavailable
         else if count userKey \<ge> MaxPerUsername cfg then refuse userKey
         else if flt (RGet ipKeyStr) then Some LimiterUnavailable
         else if count ipKeyStr \<ge> MaxPerIP cfg then refuse ipKeyStr
         else None)"

definition incrementWithTTL :: "rate_limit_config \<Rightarrow> redis_faults \<Rightarrow> timestamp \<Rightarrow> redis \<Rightarrow> string
    \<Rightarrow> bool \<times> redis" where
  "incrementWithTTL cfg flt now r key =
     (if flt (RIncr key) then (False, r)
      else case redis_incr r now key of (val, r') \<Rightarrow>
           if val = 1 then
             (if flt (RExpire key) then (False, r') else (True, redis_expire r' now key (Window cfg)))
           else (True, r'))"

definition IncrementFailed :: "rate_limit_config \<Rightarrow> redis_faults \<Rightarrow> timestamp \<Rightarrow> redis \<Rightarrow> string \<Rightarrow> string
    \<Rightarrow> limiter_err option \<times> redis" where
  "IncrementFailed cfg flt now r username ip =
     (case incrementWithTTL cfg flt now r (usernameKey username) of
        (False, r') \<Rightarrow> (Some LimiterUnavailable, r')
      | (True, r') \<Rightarrow>
          (case incrementWithTTL cfg flt now r' (ipKey ip) of
             (False, r'') \<Rightarrow> (Some LimiterUnavailable, r'')
           | (True, r'') \<Rightarrow> (None, r'')))"

definition ResetUsername :: "redis_faults \<Rightarrow> redis \<Rightarrow> string \<Rightarrow> limiter_err option \<times> redis" where
  "ResetUsername flt r username =
     (let userKey = usernameKey username in
      if flt (RDel userKey) then (Some LimiterUnavailable, r) else (None, redis_del r userKey))"

section \<open>Blacklist of refresh tokens\<close>

definition blacklistKey :: "string \<Rightarrow> string" where
  "blacklistKey jti = ''blacklist:jti:'' @ jti"

definition blacklist_add :: "redis_faults \<Rightarrow> timestamp \<Rightarrow> redis \<Rightarrow> string \<Rightarrow> int \<Rightarrow> bool \<times> redis" where
  "blacklist_add flt now r jti ttl =
     (let key = blacklistKey jti in
      if flt (RSet key) then (False, r) else (True, redis_set r now key 1 ttl))"

text \<open>\<open>None\<close> is the failing command.\<close>

definition IsBlacklisted :: "redis_faults \<Rightarrow> timestamp \<Rightarrow> redis \<Rightarrow> string \<Rightarrow> bool option" where
  "IsBlacklisted flt now r jti =
     (let key = blacklistKey jti in
      if flt (RExists key) then None else Some (redis_get r now key \<noteq> None))"

section \<open>Facts\<close>

lemmas redis_defs = redis_entry_def redis_get_def redis_incr_def redis_expire_def redis_set_def
  redis_del_def redis_ttl_def

lemma keys_apart [simp]:
  "usernameKey u \<noteq> ipKey i" "ipKey i \<noteq> usernameKey u"
  "blacklistKey j \<noteq> usernameKey u" "usernameKey u \<noteq> blacklistKey j"
  "blacklistKey j \<noteq> ipKey i" "ipKey i \<noteq> blacklistKey j"
  "blacklistKey j = blacklistKey j' \<longleftrightarrow> j = j'" "usernameKey u = usernameKey u' \<longleftrightarrow> u = u'"
  "ipKey i = ipKey i' \<longleftrightarrow> i = i'"
  by (simp_all add: usernameKey_def ipKey_def blacklistKey_def)

text \<open>The limiter touches only its own two keys.\<close>

lemma incrementWithTTL_other:
  "incrementWithTTL cfg flt now r k = (b, r') \<Longrightarrow> k' \<noteq> k \<Longrightarrow> r' k' = r k'"
  by (auto simp: incrementWithTTL_def redis_defs split: if_splits option.splits prod.splits)

lemma IncrementFailed_other:
  assumes "IncrementFailed cfg flt now r u ip = (e, r')" and "k \<noteq> usernameKey u" "k \<noteq> ipKey ip"
  shows "r' k = r k"
proof -
  obtain b r1 where 1: "incrementWithTTL cfg flt now r (usernameKey u) = (b, r1)" by fastforce
  obtain b' r2 where 2: "incrementWithTTL cfg flt now r1 (ipKey ip) = (b', r2)" by fastforce
  have "r1 k = r k" "r2 k = r1 k"
    using incrementWithTTL_other [OF 1 assms(2)] incrementWithTTL_other [OF 2 assms(3)] by simp_all
  moreover have "r' = r1 \<or> r' = r2"
    using assms(1) 1 2 by (auto simp: IncrementFailed_def split: bool.splits)
  ultimately show ?thesis by auto
qed

lemma ResetUsername_other: "ResetUsername flt r u = (e, r') \<Longrightarrow> k \<noteq> usernameKey u \<Longrightarrow> r' k = r k"
  by (auto simp: ResetUsername_def Let_def redis_del_def split: if_splits)

text \<open>A rounded duration falls short of the true one by less than the unit.\<close>

lemma whole_units_covers:
  assumes "0 < unit" "0 < d"
  shows "d < whole_units unit d * unit + unit"
proof (cases "d < unit")
  case True
  then show ?thesis using assms by (simp add: whole_units_def)
next
  case False
  have "d = d div unit * unit + d mod unit" by (simp add: div_mult_mod_eq)
  moreover have "d mod unit < unit" using assms by simp
  moreover have "whole_units unit d * unit = d div unit * unit" using False by (simp add: whole_units_def)
  ultimately show ?thesis by linarith
qed

lemma blacklist_add_redis:
  assumes "blacklist_add flt now r jti ttl = (True, r')" and "0 < ttl"
  obtains x where "r' = r(blacklistKey jti \<mapsto> (1, Some x))" "now + ttl < x + millisecond"
  using assms whole_units_covers [of millisecond ttl]
  by (auto simp: blacklist_add_def redis_set_def Let_def split: if_splits)

end
