(* ===== verification/Auth.thy ===== *)
theory Auth
  imports Redis Csv
begin

text \<open>
  Authentication: packages \<open>src/pkg/auth\<close> and \<open>src/backend/internal/auth\<close> over the queries of
  \<open>src/backend/internal/db/auth.sql.go\<close>.

  \<^item> \<open>auth_st\<close> holds the tables \<open>users\<close>, \<open>roles\<close>, \<open>vendors\<close>, \<open>vendor_branches\<close> and
    \<open>audit_logs\<close> and the Redis store. Queries carry sqlc's names, \<open>AuthRepository_*\<close> are the methods
    of \<open>auth_repository.go\<close>; \<open>auth_faults\<close> says which calls fail.
  \<^item> \<open>auth_ext\<close> is code outside the repository: bcrypt, the JWT library with the signing key, Unicode
    classes beyond ASCII, the mail address parser. A token's payload is the set of claims both
    claim structs decode from, an absent claim being the zero value.
  \<^item> \<open>Login\<close> is the login flow, \<open>AuthHandler_*\<close> the endpoints of \<open>auth_handler.go\<close>; \<open>ChangePassword\<close>,
    \<open>SetInitialPassword\<close>, \<open>Deactivate\<close> and \<open>Reactivate\<close> are the account services.
  An operation reads the clock once (\<open>now\<close>); \<open>jti\<close> is the identifier \<open>uuid.New\<close> gives and \<open>salt\<close> the
  randomness bcrypt draws. Columns \<open>created_at\<close> and \<open>updated_at\<close> are left out: nothing here reads them.
\<close>

section \<open>Tables\<close>

record user_row =
  us_id :: id64
  us_role_id :: id64
  us_employee_id :: "string option"
  us_username :: string
  us_full_name :: string
  us_email :: string
  us_is_karyawan :: bool
  us_auth_source :: string
  us_password_hash :: "string option"
  us_vendor_id :: "id64 option"
  us_is_active :: bool
  us_last_login_at :: "timestamp option"
  us_deleted_at :: "timestamp option"
  us_vendor_branch_id :: "id64 option"
  us_supervisor_id :: "id64 option"
  us_approval_level :: "int option"
  us_password_changed_at :: "timestamp option"
  us_must_change_password :: bool
  us_failed_login_attempts :: int
  us_locked_until :: "timestamp option"

record role_row =
  ro_id :: id64
  ro_role :: string

record vendor_node =
  vn_id :: id64
  vn_name :: string
  vn_deleted_at :: "timestamp option"

record branch_node =
  bn_id :: id64
  bn_vendor_id :: id64
  bn_branch_name :: string
  bn_is_active :: bool

record auth_st =
  au_users :: "user_row list"
  au_roles :: "role_row list"
  au_vendors :: "vendor_node list"
  au_branches :: "branch_node list"
  au_audit :: "audit_row list"
  au_redis :: redis
  au_next_id :: id64

datatype auth_err =
    ErrInvalidCredentials | ErrAccountInactive | ErrPortalMismatch | ErrUnsupportedAuthSource
  | ErrLDAPNotConfigured | RateLimitError int | ErrServiceUnavailable | ErrTokenExpired
  | ErrTokenInvalid | ErrPasswordExpired | ErrAccountLocked | ErrChangeNotAllowed
  | ErrPasswordUnchanged | ErrUserNotFound | ValidationError string string
  | AuditFailed            \<comment> \<open>write audit log: ...\<close>
  | DbFailure              \<comment> \<open>a failing statement, unmapped\<close>

datatype auth_call =
    AFindByUsername | AFindByEmail | AFindByID | AGetProfile | AUpdateLastLogin | AMarkExpired
  | AIncrementFailed | ALockAccount | AResetLockout | ASetPassword | ASetInitialPassword
  | ADeactivate | AReactivate | AAudit | AAdminGet | AAdminCreate | AAdminUpdate
  | AAdminFind string | AAdminRole | AAdminVendor | AAdminBranch | AAdminSupervisor
  | ARedis redis_call

type_synonym auth_faults = "auth_call \<Rightarrow> bool"

abbreviation redis_flt :: "auth_faults \<Rightarrow> redis_faults" where
  "redis_flt flt \<equiv> (\<lambda>c. flt (ARedis c))"

section \<open>Queries\<close>

record user_record =
  ur_ID :: id64
  ur_Username :: string
  ur_FullName :: string
  ur_Email :: string
  ur_PasswordHash :: "string option"
  ur_AuthSource :: string
  ur_RoleID :: id64
  ur_Role :: string
  ur_IsKaryawan :: bool
  ur_VendorID :: "id64 option"
  ur_IsActive :: bool
  ur_DeletedAt :: "timestamp option"
  ur_SupervisorID :: "id64 option"
  ur_ApprovalLevel :: "int option"
  ur_PasswordChangedAt :: "timestamp option"
  ur_FailedLoginAttempts :: int
  ur_LockedUntil :: "timestamp option"
  ur_MustChangePassword :: bool
  ur_VendorName :: "string option"
  ur_VendorBranchID :: "id64 option"
  ur_VendorBranchName :: "string option"

definition role_name :: "auth_st \<Rightarrow> id64 \<Rightarrow> string option" where
  "role_name st rid = map_option ro_role (find_row (\<lambda>r. ro_id r = rid) (au_roles st))"

text \<open>The columns the three lookups select, joined with the role.\<close>

definition user_record_of :: "auth_st \<Rightarrow> user_row \<Rightarrow> user_record option" where
  "user_record_of st u = map_option (\<lambda>role.
     \<lparr>ur_ID = us_id u, ur_Username = us_username u, ur_FullName = us_full_name u,
      ur_Email = us_email u, ur_PasswordHash = us_password_hash u,
      ur_AuthSource = us_auth_source u, ur_RoleID = us_role_id u, ur_Role = role,
      ur_IsKaryawan = us_is_karyawan u, ur_VendorID = us_vendor_id u,
      ur_IsActive = us_is_active u, ur_DeletedAt = us_deleted_at u,
      ur_SupervisorID = us_supervisor_id u, ur_ApprovalLevel = us_approval_level u,
      ur_PasswordChangedAt = us_password_changed_at u,
      ur_FailedLoginAttempts = us_failed_login_attempts u, ur_LockedUntil = us_locked_until u,
      ur_MustChangePassword = us_must_change_password u,
      ur_VendorName = None, ur_VendorBranchID = None, ur_VendorBranchName = None\<rparr>)
     (role_name st (us_role_id u))"

definition FindUserByEmail :: "auth_st \<Rightarrow> string \<Rightarrow> user_record option" where
  "FindUserByEmail st email =
     Option.bind (find_row (\<lambda>u. us_email u = email \<and> us_deleted_at u = None) (au_users st))
       (user_record_of st)"

definition FindUserByUsername :: "auth_st \<Rightarrow> string \<Rightarrow> user_record option" where
  "FindUserByUsername st username =
     Option.bind (find_row (\<lambda>u. us_username u = username \<and> us_deleted_at u = None) (au_users st))
       (user_record_of st)"

definition FindUserByID :: "auth_st \<Rightarrow> id64 \<Rightarrow> user_record option" where
  "FindUserByID st uid =
     Option.bind (find_row (\<lambda>u. us_id u = uid \<and> us_deleted_at u = None) (au_users st))
       (user_record_of st)"

definition vendor_name :: "auth_st \<Rightarrow> id64 option \<Rightarrow> string option" where
  "vendor_name st vid =
     Option.bind vid (\<lambda>v. map_option vn_name (find_row (\<lambda>r. vn_id r = v) (au_vendors st)))"

definition branch_name :: "auth_st \<Rightarrow> id64 option \<Rightarrow> string option" where
  "branch_name st bid =
     Option.bind bid (\<lambda>b. map_option bn_branch_name (find_row (\<lambda>r. bn_id r = b) (au_branches st)))"

definition GetUserProfile :: "auth_st \<Rightarrow> id64 \<Rightarrow> user_record option" where
  "GetUserProfile st uid =
     Option.bind (find_row (\<lambda>u. us_id u = uid \<and> us_deleted_at u = None) (au_users st))
       (\<lambda>u. map_option (\<lambda>role.
          \<lparr>ur_ID = us_id u, ur_Username = us_username u, ur_FullName = us_full_name u,
           ur_Email = us_email u, ur_PasswordHash = None, ur_AuthSource = [], ur_RoleID = 0,
           ur_Role = role, ur_IsKaryawan = us_is_karyawan u, ur_VendorID = us_vendor_id u,
           ur_IsActive = False, ur_DeletedAt = None, ur_SupervisorID = us_supervisor_id u,
           ur_ApprovalLevel = us_approval_level u, ur_PasswordChangedAt = None,
           ur_FailedLoginAttempts = 0, ur_LockedUntil = None, ur_MustChangePassword = False,
           ur_VendorName = vendor_name st (us_vendor_id u),
           ur_VendorBranchID = us_vendor_branch_id u,
           ur_VendorBranchName = branch_name st (us_vendor_branch_id u)\<rparr>)
          (role_name st (us_role_id u)))"

definition update_user :: "id64 \<Rightarrow> (user_row \<Rightarrow> user_row) \<Rightarrow> auth_st \<Rightarrow> auth_st" where
  "update_user uid f st = st\<lparr>au_users := update_where (\<lambda>u. us_id u = uid) f (au_users st)\<rparr>"

definition UpdateLastLogin :: "timestamp \<Rightarrow> id64 \<Rightarrow> auth_st \<Rightarrow> auth_st" where
  "UpdateLastLogin now uid = update_user uid (\<lambda>u. u\<lparr>us_last_login_at := Some now\<rparr>)"

definition MarkPasswordExpired :: "id64 \<Rightarrow> auth_st \<Rightarrow> auth_st" where
  "MarkPasswordExpired uid = update_user uid (\<lambda>u. u\<lparr>us_must_change_password := True\<rparr>)"

text \<open>
  The new count, or \<open>None\<close> when no row has the id or the \<open>integer\<close> column would overflow.
\<close>

definition IncrementFailedLogin :: "id64 \<Rightarrow> auth_st \<Rightarrow> (int \<times> auth_st) option" where
  "IncrementFailedLogin uid st =
     (case find_row (\<lambda>u. us_id u = uid) (au_users st) of
        None \<Rightarrow> None
      | Some u \<Rightarrow>
          if us_failed_login_attempts u \<ge> int32_max then None
          else Some (us_failed_login_attempts u + 1,
                 update_user uid (\<lambda>u. u\<lparr>us_failed_login_attempts := us_failed_login_attempts u + 1\<rparr>) st))"

definition LockAccount :: "id64 \<Rightarrow> timestamp \<Rightarrow> auth_st \<Rightarrow> auth_st" where
  "LockAccount uid until = update_user uid (\<lambda>u. u\<lparr>us_locked_until := Some until\<rparr>)"

definition ResetLockout :: "id64 \<Rightarrow> auth_st \<Rightarrow> auth_st" where
  "ResetLockout uid =
     update_user uid (\<lambda>u. u\<lparr>us_failed_login_attempts := 0, us_locked_until := None\<rparr>)"

definition SetPassword :: "timestamp \<Rightarrow> id64 \<Rightarrow> string \<Rightarrow> auth_st \<Rightarrow> auth_st" where
  "SetPassword now uid hash = update_user uid (\<lambda>u. u\<lparr>us_password_hash := Some hash,
     us_password_changed_at := Some now, us_must_change_password := False,
     us_failed_login_attempts := 0, us_locked_until := None\<rparr>)"

definition SetInitialPassword_query :: "timestamp \<Rightarrow> id64 \<Rightarrow> string \<Rightarrow> auth_st \<Rightarrow> auth_st" where
  "SetInitialPassword_query now uid hash = update_user uid (\<lambda>u. u\<lparr>us_password_hash := Some hash,
     us_password_changed_at := Some now, us_must_change_password := True,
     us_failed_login_attempts := 0, us_locked_until := None\<rparr>)"

definition DeactivateUser :: "timestamp \<Rightarrow> id64 \<Rightarrow> auth_st \<Rightarrow> auth_st" where
  "DeactivateUser now uid =
     update_user uid (\<lambda>u. u\<lparr>us_is_active := False, us_deleted_at := Some now\<rparr>)"

definition ReactivateUser :: "id64 \<Rightarrow> auth_st \<Rightarrow> auth_st" where
  "ReactivateUser uid = update_user uid (\<lambda>u. u\<lparr>us_is_active := True, us_deleted_at := None\<rparr>)"

text \<open>\<open>audit.Writer.Write\<close> on the pool: a statement of its own, after the change it reports.\<close>

definition write_audit :: "auth_faults \<Rightarrow> audit_row \<Rightarrow> auth_st \<Rightarrow> (auth_err option \<times> auth_st)" where
  "write_audit flt e st =
     (if flt AAudit then (Some AuditFailed, st) else (None, st\<lparr>au_audit := au_audit st @ [e]\<rparr>))"

section \<open>Repository\<close>

definition AuthRepository_FindByEmail :: "auth_faults \<Rightarrow> auth_st \<Rightarrow> string \<Rightarrow> auth_err + user_record option" where
  "AuthRepository_FindByEmail flt st email =
     (if flt AFindByEmail then Inl DbFailure else Inr (FindUserByEmail st email))"

definition AuthRepository_FindByUsername :: "auth_faults \<Rightarrow> auth_st \<Rightarrow> string \<Rightarrow> auth_err + user_record option" where
  "AuthRepository_FindByUsername flt st username =
     (if flt AFindByUsername then Inl DbFailure else Inr (FindUserByUsername st username))"

definition AuthRepository_FindByID :: "auth_faults \<Rightarrow> auth_st \<Rightarrow> id64 \<Rightarrow> auth_err + user_record option" where
  "AuthRepository_FindByID flt st uid =
     (if flt AFindByID then Inl DbFailure else Inr (FindUserByID st uid))"

definition AuthRepository_GetUserProfile :: "auth_faults \<Rightarrow> auth_st \<Rightarrow> id64 \<Rightarrow> auth_err + user_record option" where
  "AuthRepository_GetUserProfile flt st uid =
     (if flt AGetProfile then Inl DbFailure else Inr (GetUserProfile st uid))"

definition AuthRepository_IncrementFailedLogin ::
  "auth_faults \<Rightarrow> id64 \<Rightarrow> auth_st \<Rightarrow> (auth_err + int) \<times> auth_st" where
  "AuthRepository_IncrementFailedLogin flt uid st =
     (if flt AIncrementFailed then (Inl DbFailure, st)
      else case IncrementFailedLogin uid st of
             None \<Rightarrow> (Inl DbFailure, st)
           | Some (n, st') \<Rightarrow> (Inr n, st'))"

text \<open>A statement whose error the caller drops: applied unless it fails.\<close>

definition best_effort :: "bool \<Rightarrow> ('s \<Rightarrow> 's) \<Rightarrow> 's \<Rightarrow> 's" where
  "best_effort fails f st = (if fails then st else f st)"

section \<open>Password and lockout policies\<close>

definition MaxFailedLogins :: int where "MaxFailedLogins = 3"
definition LockoutDuration :: int where "LockoutDuration = 30 * minute"

definition IsLocked :: "timestamp option \<Rightarrow> timestamp \<Rightarrow> bool" where
  "IsLocked lockedUntil now = (case lockedUntil of None \<Rightarrow> False | Some u \<Rightarrow> now < u)"

definition PasswordMaxAgeDays :: int where "PasswordMaxAgeDays = 90"
definition PasswordWarnDays :: int where "PasswordWarnDays = 7"

definition PasswordExpiry :: "timestamp option \<Rightarrow> timestamp \<Rightarrow> bool \<times> int" where
  "PasswordExpiry changedAt now =
     (case changedAt of
        None \<Rightarrow> (False, PasswordMaxAgeDays)
      | Some c \<Rightarrow> let ageDays = go_div (time_sub now c) (24 * hour);
                       daysLeft = PasswordMaxAgeDays - ageDays
                  in (daysLeft < 0, daysLeft))"

definition InPasswordWarningWindow :: "int \<Rightarrow> bool" where
  "InPasswordWarningWindow daysLeft \<longleftrightarrow> daysLeft \<ge> 0 \<and> daysLeft \<le> PasswordWarnDays"

definition isLocalAuthSource :: "string \<Rightarrow> bool" where
  "isLocalAuthSource s \<longleftrightarrow> s = ''local'' \<or> s = ''local_dev''"

section \<open>External code\<close>

record jwt_payload =
  jp_id :: int
  jp_username :: string
  jp_role :: string
  jp_is_karyawan :: bool
  jp_vendor_id :: "id64 option"
  jp_supervisor_id :: "id64 option"
  jp_approval_level :: "int option"
  jp_jti :: string
  jp_iat :: "timestamp option"
  jp_exp :: "timestamp option"
  jp_nbf :: "timestamp option"

record auth_ext =
  jwt_encode :: "jwt_payload \<Rightarrow> string option"
  jwt_decode :: "string \<Rightarrow> jwt_payload option"
  jwt_peek :: "string \<Rightarrow> jwt_payload option"
  bcrypt_matches :: "string \<Rightarrow> string \<Rightarrow> bool"
  bcrypt_hash :: "string \<Rightarrow> string \<Rightarrow> string option"
  uni_letter :: "string \<Rightarrow> bool"
  uni_digit :: "string \<Rightarrow> bool"
  mail_ok :: "string \<Rightarrow> bool"

text \<open>
  \<open>jwt.ParseWithClaims\<close>: the signature and the signing method are checked while decoding, then
  \<open>exp\<close> and \<open>nbf\<close> where present.
\<close>

definition jwt_parse :: "auth_ext \<Rightarrow> timestamp \<Rightarrow> string \<Rightarrow> auth_err + jwt_payload" where
  "jwt_parse ext now tok =
     (case jwt_decode ext tok of
        None \<Rightarrow> Inl ErrTokenInvalid
      | Some p \<Rightarrow>
          if (case jp_exp p of None \<Rightarrow> False | Some e \<Rightarrow> \<not> now < e) then Inl ErrTokenExpired
          else if (case jp_nbf p of None \<Rightarrow> False | Some b \<Rightarrow> now < b) then Inl ErrTokenInvalid
          else Inr p)"

text \<open>\<open>jwt.NewNumericDate\<close> drops the fraction of a second.\<close>

definition NewNumericDate :: "timestamp \<Rightarrow> timestamp option" where
  "NewNumericDate t = Some (t div second * second)"

section \<open>Password strength\<close>

definition MinPasswordLength :: nat where "MinPasswordLength = 8"
definition MaxPasswordLength :: nat where "MaxPasswordLength = 255"

text \<open>The runes a \<open>range\<close> loop over a string visits; a byte that starts no rune is visited alone.\<close>

function runes :: "string \<Rightarrow> string list" where
  "runes s = (if s = [] then []
     else take (max 1 (rune_size s)) s # runes (drop (max 1 (rune_size s)) s))"
  by pat_completeness auto
termination by (relation "measure length") auto

declare runes.simps [simp del]

definition ascii_letter :: "char \<Rightarrow> bool" where
  "ascii_letter c \<longleftrightarrow> (65 \<le> code c \<and> code c \<le> 90) \<or> (97 \<le> code c \<and> code c \<le> 122)"

definition rune_is_letter :: "auth_ext \<Rightarrow> string \<Rightarrow> bool" where
  "rune_is_letter ext r = (case r of [c] \<Rightarrow> ascii_letter c | _ \<Rightarrow> uni_letter ext r)"

definition rune_is_digit :: "auth_ext \<Rightarrow> string \<Rightarrow> bool" where
  "rune_is_digit ext r = (case r of [c] \<Rightarrow> 48 \<le> code c \<and> code c \<le> 57 | _ \<Rightarrow> uni_digit ext r)"

definition ValidatePasswordStrength :: "auth_ext \<Rightarrow> string \<Rightarrow> auth_err option" where
  "ValidatePasswordStrength ext password =
     (if length password < MinPasswordLength then
        Some (ValidationError ''new_password'' ''minimal 8 karakter'')
      else if length password > MaxPasswordLength then
        Some (ValidationError ''new_password'' ''maksimal 255 karakter'')
      else let rs = runes password;
               hasLetter = list_ex (rune_is_letter ext) rs;
               hasDigit = list_ex (\<lambda>r. \<not> rune_is_letter ext r \<and> rune_is_digit ext r) rs
           in if \<not> hasLetter \<or> \<not> hasDigit then
                Some (ValidationError ''new_password'' ''harus mengandung huruf dan angka'')
              else None)"

section \<open>Tokens\<close>

record token_config =
  AccessTokenExpiry :: int
  SessionMaxLifetime :: int

record auth_identity =
  ai_UserID :: id64
  ai_Username :: string
  ai_Role :: string
  ai_IsKaryawan :: bool
  ai_VendorID :: "id64 option"
  ai_SupervisorID :: "id64 option"
  ai_ApprovalLevel :: "int option"

text \<open>Go's zero \<open>time.Time\<close>, the start of year 1.\<close>

definition zero_time :: timestamp where "zero_time = - (62135596800 * second)"

definition effectiveDeadline :: "token_config \<Rightarrow> timestamp \<Rightarrow> timestamp \<Rightarrow> timestamp" where
  "effectiveDeadline cfg now inherited =
     (let mx = now + SessionMaxLifetime cfg in
      if inherited = zero_time \<or> inherited > mx then mx else inherited)"

definition minTime :: "timestamp \<Rightarrow> timestamp \<Rightarrow> timestamp" where
  "minTime a b = (if b < a then b else a)"

definition access_payload :: "token_config \<Rightarrow> auth_identity \<Rightarrow> timestamp \<Rightarrow> timestamp \<Rightarrow> jwt_payload" where
  "access_payload cfg idn now deadline =
     \<lparr>jp_id = ai_UserID idn, jp_username = ai_Username idn, jp_role = ai_Role idn,
      jp_is_karyawan = ai_IsKaryawan idn, jp_vendor_id = ai_VendorID idn,
      jp_supervisor_id = ai_SupervisorID idn, jp_approval_level = ai_ApprovalLevel idn,
      jp_jti = [], jp_iat = NewNumericDate now,
      jp_exp = NewNumericDate (minTime (now + AccessTokenExpiry cfg) deadline), jp_nbf = None\<rparr>"

definition generateAccessToken ::
  "auth_ext \<Rightarrow> token_config \<Rightarrow> auth_identity \<Rightarrow> timestamp \<Rightarrow> timestamp \<Rightarrow> string option" where
  "generateAccessToken ext cfg idn now deadline = jwt_encode ext (access_payload cfg idn now deadline)"

definition refresh_payload :: "auth_identity \<Rightarrow> string \<Rightarrow> timestamp \<Rightarrow> timestamp \<Rightarrow> jwt_payload" where
  "refresh_payload idn jti now deadline =
     \<lparr>jp_id = ai_UserID idn, jp_username = [], jp_role = [], jp_is_karyawan = False,
      jp_vendor_id = None, jp_supervisor_id = None, jp_approval_level = None,
      jp_jti = jti, jp_iat = NewNumericDate now, jp_exp = NewNumericDate deadline, jp_nbf = None\<rparr>"

definition generateRefreshToken ::
  "auth_ext \<Rightarrow> auth_identity \<Rightarrow> string \<Rightarrow> timestamp \<Rightarrow> timestamp \<Rightarrow> string option" where
  "generateRefreshToken ext idn jti now deadline = jwt_encode ext (refresh_payload idn jti now deadline)"

definition RotateTokenPair ::
  "auth_ext \<Rightarrow> token_config \<Rightarrow> auth_identity option \<Rightarrow> timestamp \<Rightarrow> timestamp \<Rightarrow> string
    \<Rightarrow> (string \<times> string) option" where
  "RotateTokenPair ext cfg identity deadline now jti =
     (case identity of
        None \<Rightarrow> None
      | Some idn \<Rightarrow>
          let deadline' = effectiveDeadline cfg now deadline in
          (case generateAccessToken ext cfg idn now deadline' of
             None \<Rightarrow> None
           | Some accessToken \<Rightarrow>
               (case generateRefreshToken ext idn jti now deadline' of
                  None \<Rightarrow> None
                | Some refreshToken \<Rightarrow> Some (accessToken, refreshToken))))"

definition GenerateTokenPair ::
  "auth_ext \<Rightarrow> token_config \<Rightarrow> auth_identity option \<Rightarrow> timestamp \<Rightarrow> string \<Rightarrow> (string \<times> string) option" where
  "GenerateTokenPair ext cfg identity now jti = RotateTokenPair ext cfg identity zero_time now jti"

definition ValidateAccessToken :: "auth_ext \<Rightarrow> timestamp \<Rightarrow> string \<Rightarrow> auth_err + jwt_payload" where
  "ValidateAccessToken ext now tok =
     (case jwt_parse ext now tok of
        Inl e \<Rightarrow> Inl e
      | Inr claims \<Rightarrow>
          if jp_id claims = 0 then Inl ErrTokenInvalid
          else if jp_username claims = [] then Inl ErrTokenInvalid
          else if jp_role claims = [] then Inl ErrTokenInvalid
          else Inr claims)"

definition ValidateRefreshToken ::
  "auth_ext \<Rightarrow> redis_faults \<Rightarrow> timestamp \<Rightarrow> redis \<Rightarrow> string \<Rightarrow> auth_err + jwt_payload" where
  "ValidateRefreshToken ext flt now r tok =
     (case jwt_parse ext now tok of
        Inl e \<Rightarrow> Inl e
      | Inr claims \<Rightarrow>
          if jp_id claims = 0 then Inl ErrTokenInvalid
          else if jp_jti claims = [] then Inl ErrTokenInvalid
          else (case IsBlacklisted flt now r (jp_jti claims) of
                  None \<Rightarrow> Inl ErrServiceUnavailable
                | Some True \<Rightarrow> Inl ErrTokenExpired
                | Some False \<Rightarrow> Inr claims))"

definition BlacklistRefreshToken ::
  "auth_ext \<Rightarrow> redis_faults \<Rightarrow> timestamp \<Rightarrow> redis \<Rightarrow> string \<Rightarrow> bool \<times> redis" where
  "BlacklistRefreshToken ext flt now r tok =
     (case jwt_parse ext now tok of
        Inl _ \<Rightarrow> (True, r)
      | Inr claims \<Rightarrow>
          if jp_jti claims = [] then (True, r)
          else (case jp_exp claims of
                  None \<Rightarrow> (True, r)
                | Some e \<Rightarrow>
                    let remaining = time_sub e now in
                    if remaining \<le> 0 then (True, r)
                    else blacklist_add flt now r (jp_jti claims) remaining))"

definition RefreshDeadline :: "auth_ext \<Rightarrow> string \<Rightarrow> timestamp" where
  "RefreshDeadline ext tok =
     (case jwt_peek ext tok of
        None \<Rightarrow> zero_time
      | Some p \<Rightarrow> (case jp_exp p of None \<Rightarrow> zero_time | Some e \<Rightarrow> e))"

end
