(* ===== verification/Auth_Service.thy ===== *)
theory Auth_Service
  imports Auth
begin

text \<open>
  The services over the authentication tables: the login flow (\<open>service.go\<close>, \<open>local_provider.go\<close>),
  self-service and admin password changes, soft deletion, the endpoints of \<open>auth_handler.go\<close> and the
  middleware of \<open>src/pkg/middleware\<close> that authenticates a request.
\<close>

section \<open>Credential verification\<close>

datatype provider = LocalProvider

definition Supports :: "provider \<Rightarrow> string \<Rightarrow> bool" where
  "Supports p authSource \<longleftrightarrow> (case p of LocalProvider \<Rightarrow> authSource = ''local'' \<or> authSource = ''local_dev'')"

definition identity_of :: "user_record \<Rightarrow> auth_identity" where
  "identity_of u = \<lparr>ai_UserID = ur_ID u, ai_Username = ur_Username u, ai_Role = ur_Role u,
     ai_IsKaryawan = ur_IsKaryawan u, ai_VendorID = ur_VendorID u,
     ai_SupervisorID = ur_SupervisorID u, ai_ApprovalLevel = ur_ApprovalLevel u\<rparr>"

definition Authenticate :: "auth_ext \<Rightarrow> auth_faults \<Rightarrow> provider \<Rightarrow> auth_st \<Rightarrow> string \<Rightarrow> string
    \<Rightarrow> auth_err + auth_identity" where
  "Authenticate ext flt p st username password = (case p of LocalProvider \<Rightarrow>
     (case AuthRepository_FindByUsername flt st username of
        Inl e \<Rightarrow> Inl e
      | Inr None \<Rightarrow> Inl ErrInvalidCredentials
      | Inr (Some user) \<Rightarrow>
          (case ur_PasswordHash user of
             None \<Rightarrow> Inl ErrInvalidCredentials
           | Some hash \<Rightarrow> if bcrypt_matches ext hash password then Inr (identity_of user)
                           else Inl ErrInvalidCredentials)))"

section \<open>Login\<close>

record auth_config =
  ac_tokens :: token_config
  ac_limits :: rate_limit_config
  ac_providers :: "provider list"

record login_request =
  lq_Email :: string
  lq_Password :: string
  lq_PortalType :: string
  lq_IP :: ip_addr

record user_profile =
  up_ID :: id64
  up_Username :: string
  up_FullName :: string
  up_Email :: string
  up_Role :: string
  up_IsKaryawan :: bool
  up_VendorID :: "id64 option"

record login_response =
  lp_AccessToken :: string
  lp_User :: user_profile
  lp_PasswordDaysLeft :: "int option"
  lp_MustChangePassword :: bool

definition profile_of :: "user_record \<Rightarrow> user_profile" where
  "profile_of u = \<lparr>up_ID = ur_ID u, up_Username = ur_Username u, up_FullName = ur_FullName u,
     up_Email = ur_Email u, up_Role = ur_Role u, up_IsKaryawan = ur_IsKaryawan u,
     up_VendorID = ur_VendorID u\<rparr>"

definition validateInput :: "login_request \<Rightarrow> auth_err option" where
  "validateInput req =
     (if TrimSpace (lq_Email req) = [] then Some (ValidationError ''email'' ''wajib diisi'')
      else if length (lq_Email req) > 255 then Some (ValidationError ''email'' ''maksimal 255 karakter'')
      else if CHR ''@'' \<notin> set (lq_Email req) then
        Some (ValidationError ''email'' ''format email tidak valid'')
      else if TrimSpace (lq_Password req) = [] then Some (ValidationError ''password'' ''wajib diisi'')
      else if length (lq_Password req) > 255 then
        Some (ValidationError ''password'' ''maksimal 255 karakter'')
      else if lq_PortalType req \<noteq> ''company'' \<and> lq_PortalType req \<noteq> ''vendor'' then
        Some (ValidationError ''X-Portal-Type'' 
          (''harus bernilai '' @ [CHR 0x27] @ ''company'' @ [CHR 0x27] @ '' atau '' @ [CHR 0x27]
             @ ''vendor'' @ [CHR 0x27]))
      else None)"

fun selectProvider :: "provider list \<Rightarrow> string \<Rightarrow> auth_err + provider" where
  "selectProvider [] authSource =
     (if authSource = ''ldap'' then Inl ErrLDAPNotConfigured else Inl ErrUnsupportedAuthSource)"
| "selectProvider (p # ps) authSource =
     (if Supports p authSource then Inr p else selectProvider ps authSource)"

definition validatePortalAccess :: "user_record \<Rightarrow> string \<Rightarrow> auth_err option" where
  "validatePortalAccess user portalType =
     (if ur_IsKaryawan user \<and> portalType = ''vendor'' then Some ErrPortalMismatch
      else if \<not> ur_IsKaryawan user \<and> portalType = ''company'' then Some ErrPortalMismatch
      else None)"

fun limiter_auth_err :: "limiter_err \<Rightarrow> auth_err" where
  "limiter_auth_err (RateLimited n) = RateLimitError n"
| "limiter_auth_err LimiterUnavailable = ErrServiceUnavailable"

text \<open>Rejected credentials: the rate limiter counts them and, for a local account, the lockout does.\<close>

definition login_rejected ::
  "auth_config \<Rightarrow> auth_faults \<Rightarrow> timestamp \<Rightarrow> login_request \<Rightarrow> user_record \<Rightarrow> auth_st \<Rightarrow> auth_st" where
  "login_rejected cfg flt now req user st =
     (let st1 = st\<lparr>au_redis := snd (IncrementFailed (ac_limits cfg) (redis_flt flt) now (au_redis st)
                                       (lq_Email req) (lq_IP req))\<rparr> in
      if isLocalAuthSource (ur_AuthSource user) then
        (case AuthRepository_IncrementFailedLogin flt (ur_ID user) st1 of
           (Inl _, st2) \<Rightarrow> st2
         | (Inr newCount, st2) \<Rightarrow>
             if newCount \<ge> MaxFailedLogins
             then best_effort (flt ALockAccount) (LockAccount (ur_ID user) (now + LockoutDuration)) st2
             else st2)
      else st1)"

text \<open>Steps 7 and 8: the tokens, then the three updates whose errors are dropped.\<close>

definition login_tokens ::
  "auth_ext \<Rightarrow> auth_config \<Rightarrow> auth_faults \<Rightarrow> timestamp \<Rightarrow> string \<Rightarrow> login_request \<Rightarrow> user_record
    \<Rightarrow> int option \<Rightarrow> auth_st \<Rightarrow> (auth_err + login_response \<times> string) \<times> auth_st" where
  "login_tokens ext cfg flt now jti req user daysLeft st =
     (case GenerateTokenPair ext (ac_tokens cfg) (Some (identity_of user)) now jti of
        None \<Rightarrow> (Inl ErrServiceUnavailable, st)
      | Some (accessToken, refreshToken) \<Rightarrow>
          let st1 = best_effort (flt AUpdateLastLogin) (UpdateLastLogin now (ur_ID user)) st;
              st2 = st1\<lparr>au_redis := snd (ResetUsername (redis_flt flt) (au_redis st1) (lq_Email req))\<rparr>;
              st3 = best_effort (flt AResetLockout) (ResetLockout (ur_ID user)) st2
          in (Inr (\<lparr>lp_AccessToken = accessToken, lp_User = profile_of user,
                    lp_PasswordDaysLeft = daysLeft,
                    lp_MustChangePassword = ur_MustChangePassword user\<rparr>, refreshToken), st3))"

text \<open>Steps 5c and 6, once the credentials are accepted.\<close>

definition login_accepted ::
  "auth_ext \<Rightarrow> auth_config \<Rightarrow> auth_faults \<Rightarrow> timestamp \<Rightarrow> string \<Rightarrow> login_request \<Rightarrow> user_record
    \<Rightarrow> auth_st \<Rightarrow> (auth_err + login_response \<times> string) \<times> auth_st" where
  "login_accepted ext cfg flt now jti req user st =
     (let localAccount = isLocalAuthSource (ur_AuthSource user);
          (expired, daysLeft) = PasswordExpiry (ur_PasswordChangedAt user) now
      in if localAccount \<and> expired then
           (Inl ErrPasswordExpired, best_effort (flt AMarkExpired) (MarkPasswordExpired (ur_ID user)) st)
         else (case validatePortalAccess user (lq_PortalType req) of
                 Some e \<Rightarrow> (Inl e, st)
               | None \<Rightarrow> login_tokens ext cfg flt now jti req user
                   (if localAccount \<and> InPasswordWarningWindow daysLeft then Some daysLeft else None) st))"

definition Login ::
  "auth_ext \<Rightarrow> auth_config \<Rightarrow> auth_faults \<Rightarrow> timestamp \<Rightarrow> string \<Rightarrow> login_request \<Rightarrow> auth_st
    \<Rightarrow> (auth_err + login_response \<times> string) \<times> auth_st" where
  "Login ext cfg flt now jti req st =
     (case validateInput req of
        Some e \<Rightarrow> (Inl e, st)
      | None \<Rightarrow>
     (case Check (ac_limits cfg) (redis_flt flt) now (au_redis st) (lq_Email req) (lq_IP req) of
        Some e \<Rightarrow> (Inl (limiter_auth_err e), st)
      | None \<Rightarrow>
     (case AuthRepository_FindByEmail flt st (lq_Email req) of
        Inl _ \<Rightarrow> (Inl ErrServiceUnavailable, st)
      | Inr None \<Rightarrow> (Inl ErrInvalidCredentials, st)
      | Inr (Some user) \<Rightarrow>
          if ur_DeletedAt user \<noteq> None then (Inl ErrInvalidCredentials, st)
          else if \<not> ur_IsActive user then (Inl ErrAccountInactive, st)
          else if isLocalAuthSource (ur_AuthSource user) \<and> IsLocked (ur_LockedUntil user) now
          then (Inl ErrAccountLocked, st)
          else (case selectProvider (ac_providers cfg) (ur_AuthSource user) of
                  Inl e \<Rightarrow> (Inl e, st)
                | Inr provider \<Rightarrow>
                    (case Authenticate ext flt provider st (ur_Username user) (lq_Password req) of
                       Inl _ \<Rightarrow> (Inl ErrInvalidCredentials, login_rejected cfg flt now req user st)
                     | Inr _ \<Rightarrow> login_accepted ext cfg flt now jti req user st)))))"

section \<open>Password changes and soft deletion\<close>

definition ChangePassword ::
  "auth_ext \<Rightarrow> auth_faults \<Rightarrow> timestamp \<Rightarrow> string \<Rightarrow> id64 \<Rightarrow> string \<Rightarrow> string \<Rightarrow> ip_addr \<Rightarrow> auth_st
    \<Rightarrow> auth_err option \<times> auth_st" where
  "ChangePassword ext flt now salt userID oldPassword newPassword ip st =
     (case AuthRepository_FindByID flt st userID of
        Inl _ \<Rightarrow> (Some ErrServiceUnavailable, st)
      | Inr None \<Rightarrow> (Some ErrInvalidCredentials, st)
      | Inr (Some user) \<Rightarrow>
          if \<not> isLocalAuthSource (ur_AuthSource user) then (Some ErrChangeNotAllowed, st)
          else if (case ur_PasswordHash user of None \<Rightarrow> True | Some h \<Rightarrow> \<not> bcrypt_matches ext h oldPassword)
          then (Some ErrInvalidCredentials, st)
          else if newPassword = oldPassword then (Some ErrPasswordUnchanged, st)
          else (case ValidatePasswordStrength ext newPassword of
                  Some e \<Rightarrow> (Some e, st)
                | None \<Rightarrow>
                    (case bcrypt_hash ext salt newPassword of
                       None \<Rightarrow> (Some ErrServiceUnavailable, st)
                     | Some newHash \<Rightarrow>
                         if flt ASetPassword then (Some ErrServiceUnavailable, st)
                         else write_audit flt (audit_entry userID ''password_change'' ''user'' userID None None ip)
                                (SetPassword now userID newHash st))))"

definition SetInitialPassword ::
  "auth_ext \<Rightarrow> auth_faults \<Rightarrow> timestamp \<Rightarrow> string \<Rightarrow> id64 \<Rightarrow> id64 \<Rightarrow> string \<Rightarrow> ip_addr \<Rightarrow> auth_st
    \<Rightarrow> auth_err option \<times> auth_st" where
  "SetInitialPassword ext flt now salt actorID targetID newPassword ip st =
     (case AuthRepository_FindByID flt st targetID of
        Inl _ \<Rightarrow> (Some ErrServiceUnavailable, st)
      | Inr None \<Rightarrow> (Some ErrUserNotFound, st)
      | Inr (Some target) \<Rightarrow>
          if \<not> isLocalAuthSource (ur_AuthSource target) then (Some ErrChangeNotAllowed, st)
          else (case ValidatePasswordStrength ext newPassword of
                  Some e \<Rightarrow> (Some e, st)
                | None \<Rightarrow>
                    (case bcrypt_hash ext salt newPassword of
                       None \<Rightarrow> (Some ErrServiceUnavailable, st)
                     | Some newHash \<Rightarrow>
                         if flt ASetInitialPassword then (Some ErrServiceUnavailable, st)
                         else write_audit flt
                                (audit_entry actorID ''initial_password_set'' ''user'' targetID None None ip)
                                (SetInitialPassword_query now targetID newHash st))))"

definition Deactivate ::
  "auth_faults \<Rightarrow> timestamp \<Rightarrow> id64 \<Rightarrow> id64 \<Rightarrow> ip_addr \<Rightarrow> auth_st \<Rightarrow> auth_err option \<times> auth_st" where
  "Deactivate flt now actorID targetID ip st =
     (case AuthRepository_FindByID flt st targetID of
        Inl _ \<Rightarrow> (Some ErrServiceUnavailable, st)
      | Inr None \<Rightarrow> (Some ErrUserNotFound, st)
      | Inr (Some _) \<Rightarrow>
          if flt ADeactivate then (Some ErrServiceUnavailable, st)
          else write_audit flt (audit_entry actorID ''user_deactivated'' ''user'' targetID None None ip)
                 (DeactivateUser now targetID st))"

definition Reactivate ::
  "auth_faults \<Rightarrow> id64 \<Rightarrow> id64 \<Rightarrow> ip_addr \<Rightarrow> auth_st \<Rightarrow> auth_err option \<times> auth_st" where
  "Reactivate flt actorID targetID ip st =
     (if flt AReactivate then (Some ErrServiceUnavailable, st)
      else write_audit flt (audit_entry actorID ''user_reactivated'' ''user'' targetID None None ip)
             (ReactivateUser targetID st))"

section \<open>Endpoints\<close>

text \<open>
  A reply is a status with an error code, or the data of a success; \<open>Crashed\<close> is a handler that
  panics. The cookie is what the reply does to the browser's refresh token.
\<close>

datatype cookie = CookieUntouched | CookieSet string int | CookieCleared

datatype auth_reply =
    AuthError nat string
  | AuthInvalid string string
  | AuthTooMany int
  | AuthLogin login_response
  | AuthMe user_record
  | AuthOK
  | Crashed

definition setRefreshCookie :: "timestamp \<Rightarrow> string \<Rightarrow> timestamp \<Rightarrow> cookie" where
  "setRefreshCookie now tok deadline = CookieSet tok (max (go_div (time_sub deadline now) second) 0)"

definition handleAuthError :: "auth_err \<Rightarrow> auth_reply" where
  "handleAuthError e = (case e of
     ValidationError field msg \<Rightarrow> AuthInvalid field msg
   | RateLimitError n \<Rightarrow> AuthTooMany n
   | ErrInvalidCredentials \<Rightarrow> AuthError 401 ''unauthorized''
   | ErrAccountInactive \<Rightarrow> AuthError 403 ''account_inactive''
   | ErrPortalMismatch \<Rightarrow> AuthError 403 ''portal_mismatch''
   | ErrPasswordExpired \<Rightarrow> AuthError 403 ''password_expired''
   | ErrAccountLocked \<Rightarrow> AuthError 403 ''account_locked''
   | ErrLDAPNotConfigured \<Rightarrow> AuthError 503 ''service_unavailable''
   | ErrServiceUnavailable \<Rightarrow> AuthError 503 ''service_unavailable''
   | _ \<Rightarrow> AuthError 500 ''internal_error'')"

definition handleChangePasswordError :: "auth_err \<Rightarrow> auth_reply" where
  "handleChangePasswordError e = (case e of
     ValidationError field msg \<Rightarrow> AuthInvalid field msg
   | ErrInvalidCredentials \<Rightarrow> AuthError 401 ''unauthorized''
   | ErrChangeNotAllowed \<Rightarrow> AuthError 403 ''change_not_allowed''
   | ErrPasswordUnchanged \<Rightarrow> AuthError 400 ''password_unchanged''
   | ErrServiceUnavailable \<Rightarrow> AuthError 503 ''service_unavailable''
   | _ \<Rightarrow> AuthError 500 ''internal_error'')"

definition AuthHandler_Login ::
  "auth_ext \<Rightarrow> auth_config \<Rightarrow> auth_faults \<Rightarrow> timestamp \<Rightarrow> string \<Rightarrow> login_request \<Rightarrow> auth_st
    \<Rightarrow> (auth_reply \<times> cookie) \<times> auth_st" where
  "AuthHandler_Login ext cfg flt now jti req st =
     (case Login ext cfg flt now jti req st of
        (Inl e, st') \<Rightarrow> ((handleAuthError e, CookieUntouched), st')
      | (Inr (resp, refreshToken), st') \<Rightarrow>
          ((AuthLogin resp, setRefreshCookie now refreshToken (RefreshDeadline ext refreshToken)), st'))"

definition refresh_identity :: "user_record \<Rightarrow> auth_identity" where
  "refresh_identity u = \<lparr>ai_UserID = ur_ID u, ai_Username = ur_Username u, ai_Role = ur_Role u,
     ai_IsKaryawan = ur_IsKaryawan u, ai_VendorID = ur_VendorID u,
     ai_SupervisorID = None, ai_ApprovalLevel = None\<rparr>"

definition AuthHandler_Refresh ::
  "auth_ext \<Rightarrow> auth_config \<Rightarrow> auth_faults \<Rightarrow> timestamp \<Rightarrow> string \<Rightarrow> string option \<Rightarrow> auth_st
    \<Rightarrow> (auth_reply \<times> cookie) \<times> auth_st" where
  "AuthHandler_Refresh ext cfg flt now jti cookie st =
     (case cookie of
        None \<Rightarrow> ((AuthError 401 ''unauthorized'', CookieUntouched), st)
      | Some tok \<Rightarrow>
     (if tok = [] then ((AuthError 401 ''unauthorized'', CookieUntouched), st)
      else case ValidateRefreshToken ext (redis_flt flt) now (au_redis st) tok of
        Inl e \<Rightarrow> ((AuthError 401 ''unauthorized'',
                    if e \<noteq> ErrServiceUnavailable then CookieCleared else CookieUntouched), st)
      | Inr claims \<Rightarrow>
          let st1 = st\<lparr>au_redis := snd (BlacklistRefreshToken ext (redis_flt flt) now (au_redis st) tok)\<rparr> in
          (case AuthRepository_GetUserProfile flt st1 (jp_id claims) of
             Inl _ \<Rightarrow> ((AuthError 401 ''unauthorized'', CookieUntouched), st1)
           | Inr None \<Rightarrow> ((AuthError 401 ''unauthorized'', CookieUntouched), st1)
           | Inr (Some user) \<Rightarrow>
               (case jp_exp claims of
                  None \<Rightarrow> ((Crashed, CookieUntouched), st1)
                | Some deadline \<Rightarrow>
                    (case RotateTokenPair ext (ac_tokens cfg) (Some (refresh_identity user)) deadline now jti of
                       None \<Rightarrow> ((AuthError 503 ''service_unavailable'', CookieUntouched), st1)
                     | Some (accessToken, refreshTokenNew) \<Rightarrow>
                         ((AuthLogin \<lparr>lp_AccessToken = accessToken, lp_User = profile_of user,
                             lp_PasswordDaysLeft = None, lp_MustChangePassword = False\<rparr>,
                           setRefreshCookie now refreshTokenNew (RefreshDeadline ext refreshTokenNew)), st1))))))"

definition AuthHandler_Logout ::
  "auth_ext \<Rightarrow> auth_faults \<Rightarrow> timestamp \<Rightarrow> string option \<Rightarrow> auth_st \<Rightarrow> (auth_reply \<times> cookie) \<times> auth_st" where
  "AuthHandler_Logout ext flt now cookie st =
     (let st1 = (case cookie of
                   None \<Rightarrow> st
                 | Some tok \<Rightarrow> if tok = [] then st
                     else st\<lparr>au_redis := snd (BlacklistRefreshToken ext (redis_flt flt) now (au_redis st) tok)\<rparr>)
      in ((AuthOK, CookieCleared), st1))"

definition AuthHandler_Me :: "auth_faults \<Rightarrow> auth_st \<Rightarrow> jwt_payload option \<Rightarrow> auth_reply" where
  "AuthHandler_Me flt st authCtx =
     (case authCtx of
        None \<Rightarrow> AuthError 401 ''unauthorized''
      | Some c \<Rightarrow>
          (case AuthRepository_GetUserProfile flt st (jp_id c) of
             Inl _ \<Rightarrow> AuthError 503 ''service_unavailable''
           | Inr None \<Rightarrow> AuthError 401 ''unauthorized''
           | Inr (Some user) \<Rightarrow> AuthMe user))"

definition AuthHandler_ChangePassword ::
  "auth_ext \<Rightarrow> auth_faults \<Rightarrow> timestamp \<Rightarrow> string \<Rightarrow> jwt_payload option \<Rightarrow> string \<Rightarrow> string \<Rightarrow> ip_addr
    \<Rightarrow> auth_st \<Rightarrow> auth_reply \<times> auth_st" where
  "AuthHandler_ChangePassword ext flt now salt authCtx oldPassword newPassword ip st =
     (case authCtx of
        None \<Rightarrow> (AuthError 401 ''unauthorized'', st)
      | Some c \<Rightarrow>
          (case ChangePassword ext flt now salt (jp_id c) oldPassword newPassword ip st of
             (Some e, st') \<Rightarrow> (handleChangePasswordError e, st')
           | (None, st') \<Rightarrow> (AuthOK, st')))"

section \<open>Request authentication\<close>

text \<open>\<open>RequireAuth\<close>: the claims handed to the next handler, or \<open>None\<close> for a 401.\<close>

fun split2 :: "char \<Rightarrow> string \<Rightarrow> string list" where
  "split2 c [] = [[]]"
| "split2 c (x # xs) = (if x = c then [[], xs]
     else (case split2 c xs of [] \<Rightarrow> [[x]] | p # ps \<Rightarrow> (x # p) # ps))"

definition RequireAuth :: "auth_ext \<Rightarrow> timestamp \<Rightarrow> string \<Rightarrow> jwt_payload option" where
  "RequireAuth ext now authHeader =
     (if authHeader = [] then None
      else (case split2 (CHR '' '') authHeader of
              [scheme, tok] \<Rightarrow>
                if \<not> equal_fold scheme ''Bearer'' \<or> tok = [] then None
                else (case ValidateAccessToken ext now tok of Inl _ \<Rightarrow> None | Inr claims \<Rightarrow> Some claims)
            | _ \<Rightarrow> None))"

datatype guard_result = GuardPass | GuardUnauthorized | GuardForbidden

definition RequireRoles :: "string list \<Rightarrow> jwt_payload option \<Rightarrow> guard_result" where
  "RequireRoles allowed authCtx =
     (case authCtx of
        None \<Rightarrow> GuardUnauthorized
      | Some c \<Rightarrow> if allowed = [] then GuardPass
                   else if list_ex (\<lambda>role. equal_fold (jp_role c) role) allowed then GuardPass
                   else GuardForbidden)"

text \<open>
  \<open>TrustedRealIP\<close>, with the trusted prefixes as predicates. \<open>netip\<close> is the standard library's address
  type: \<open>ParseAddrPort\<close> (its address), \<open>ParseAddr\<close>, \<open>Unmap\<close> and \<open>String\<close>. \<open>None\<close> of \<open>clientFromXFF\<close> keeps
  the connection's address.
\<close>

record 'a netip =
  ParseAddrPort :: "string \<Rightarrow> 'a option"
  ParseAddr :: "string \<Rightarrow> 'a option"
  Unmap :: "'a \<Rightarrow> 'a"
  addr_text :: "'a \<Rightarrow> string"

definition parseRemoteAddr :: "'a netip \<Rightarrow> string \<Rightarrow> 'a option" where
  "parseRemoteAddr nip s =
     (case ParseAddrPort nip s of
        Some a \<Rightarrow> Some (Unmap nip a)
      | None \<Rightarrow> map_option (Unmap nip) (ParseAddr nip s))"

fun xff_walk :: "'a netip \<Rightarrow> ('a \<Rightarrow> bool) \<Rightarrow> string list \<Rightarrow> 'a option" where
  "xff_walk nip trusted [] = None"
| "xff_walk nip trusted (h # hs) =
     (case ParseAddr nip (TrimSpace h) of
        None \<Rightarrow> None
      | Some a \<Rightarrow> if \<not> trusted (Unmap nip a) then Some (Unmap nip a) else xff_walk nip trusted hs)"

fun split_all :: "char \<Rightarrow> string \<Rightarrow> string list" where
  "split_all c [] = [[]]"
| "split_all c (x # xs) = (if x = c then [] # split_all c xs
     else (case split_all c xs of [] \<Rightarrow> [[x]] | p # ps \<Rightarrow> (x # p) # ps))"

definition clientFromXFF :: "'a netip \<Rightarrow> ('a \<Rightarrow> bool) \<Rightarrow> string list \<Rightarrow> 'a option" where
  "clientFromXFF nip trusted values =
     xff_walk nip trusted (rev (split_all (CHR '','') (join '','' values)))"

definition TrustedRealIP :: "'a netip \<Rightarrow> ('a \<Rightarrow> bool) list \<Rightarrow> string list \<Rightarrow> string \<Rightarrow> string" where
  "TrustedRealIP nip prefixes values remoteAddr =
     (let trusted = (\<lambda>a. list_ex (\<lambda>p. p a) prefixes) in
      if prefixes = [] then remoteAddr
      else case parseRemoteAddr nip remoteAddr of
             None \<Rightarrow> remoteAddr
           | Some remote \<Rightarrow>
               if \<not> trusted remote then remoteAddr
               else (case clientFromXFF nip trusted values of
                       None \<Rightarrow> remoteAddr
                     | Some ip \<Rightarrow> addr_text nip ip))"

text \<open>
  A client cannot choose the address it is seen under: whatever it sends, a connection that does not
  come from a trusted proxy keeps its own, and entries left of the first untrusted hop from the right
  (those the client can forge) do not matter.
\<close>

lemma untrusted_connection_keeps_address:
  assumes "parseRemoteAddr nip remoteAddr = Some a" "\<not> list_ex (\<lambda>p. p a) prefixes"
  shows "TrustedRealIP nip prefixes values remoteAddr = remoteAddr"
  using assms by (simp add: TrustedRealIP_def)

lemma forged_hops_ignored:
  assumes "xff_walk nip trusted hops = Some a"
  shows "xff_walk nip trusted (hops @ forged) = Some a"
  using assms by (induction hops) (auto split: option.splits)

end
