(* ===== verification/User_Admin.thy ===== *)
theory User_Admin
  imports Auth_Service
begin

text \<open>
  Administration of users: \<open>src/backend/internal/auth/user_admin.go\<close> over the queries of
  \<open>users_admin.sql.go\<close>, the roles of the vendor portal (\<open>vendorrole\<close>) and the endpoints of
  \<open>admin_user_handler.go\<close> that change state.

  The service checks references and uniqueness first and then writes with one statement. What the
  checks read is the argument \<open>view\<close>, what the statement meets is the state: other sessions may
  have written in between. The constraints of the schema are checked by the statement.
\<close>

section \<open>Roles of the vendor portal\<close>

definition VendorUser :: string where "VendorUser = ''VENDOR-USER''"
definition ATMUser :: string where "ATMUser = ''VENDOR-ATM-USER''"
definition VaultUser :: string where "VaultUser = ''VENDOR-VAULT-USER''"

definition IsVendor :: "string \<Rightarrow> bool" where
  "IsVendor role \<longleftrightarrow> role = VendorUser \<or> role = ATMUser \<or> role = VaultUser"

definition PartyRoles :: "string \<Rightarrow> string list" where
  "PartyRoles role =
     (if role = VendorUser then [''replenish'', ''vault'']
      else if role = ATMUser then [''replenish'']
      else if role = VaultUser then [''vault''] else [])"

definition ForParty :: "string \<Rightarrow> string list" where
  "ForParty partyRole =
     (if partyRole = ''replenish'' then [VendorUser, ATMUser]
      else if partyRole = ''vault'' then [VendorUser, VaultUser] else [])"

section \<open>Requests, rows and errors\<close>

record create_user_request =
  cu_Username :: string
  cu_FullName :: string
  cu_Email :: string
  cu_Role :: string
  cu_IsKaryawan :: bool
  cu_AuthSource :: string
  cu_TemporaryPassword :: string
  cu_EmployeeID :: string
  cu_VendorID :: "id64 option"
  cu_VendorBranchID :: "id64 option"
  cu_SupervisorID :: "id64 option"
  cu_ApprovalLevel :: "int option"

record update_user_request =
  uu_Username :: "string option"
  uu_AuthSource :: "string option"
  uu_FullName :: string
  uu_Email :: string
  uu_Role :: string
  uu_IsKaryawan :: bool
  uu_EmployeeID :: string
  uu_VendorID :: "id64 option"
  uu_VendorBranchID :: "id64 option"
  uu_VendorBranchIDSet :: bool
  uu_SupervisorID :: "id64 option"
  uu_ApprovalLevel :: "int option"

datatype admin_err =
    ErrImmutableField | ErrSelfSupervision | ErrLdapFieldsNotAllowed | ErrActorNotAllowed
  | ConflictError string | ReferenceError string string | AdminAuth auth_err
  | AdminDb string      \<comment> \<open>a wrapped database error, by what it was doing\<close>

datatype pg_err = PgUnique string | PgForeignKey string | PgCheck string | PgNoRows | PgFailed

section \<open>Queries\<close>

text \<open>
  The constraints of \<open>users\<close>: \<open>users_supervisor_not_self_chk\<close>, the unique keys and the foreign keys;
  \<open>users_vendor_branch_owner_fk\<close> compares only when both columns are set.
\<close>

definition user_violation :: "auth_st \<Rightarrow> user_row list \<Rightarrow> user_row \<Rightarrow> pg_err option" where
  "user_violation st others u =
     (if us_supervisor_id u = Some (us_id u) then Some (PgCheck ''users_supervisor_not_self_chk'')
      else if list_ex (\<lambda>w. us_email w = us_email u) others then Some (PgUnique ''users_email_key'')
      else if us_employee_id u \<noteq> None \<and> list_ex (\<lambda>w. us_employee_id w = us_employee_id u) others
      then Some (PgUnique ''users_employee_id_key'')
      else if list_ex (\<lambda>w. us_username w = us_username u) others then Some (PgUnique ''users_username_key'')
      else if \<not> list_ex (\<lambda>r. ro_id r = us_role_id u) (au_roles st) then Some (PgForeignKey ''users_role_fk'')
      else if (case us_supervisor_id u of None \<Rightarrow> False | Some s \<Rightarrow> \<not> list_ex (\<lambda>w. us_id w = s) others)
      then Some (PgForeignKey ''users_supervisor_fk'')
      else if (case us_vendor_branch_id u of None \<Rightarrow> False
               | Some b \<Rightarrow> \<not> list_ex (\<lambda>r. bn_id r = b) (au_branches st))
      then Some (PgForeignKey ''users_vendor_branch_fk'')
      else if (case us_vendor_id u of None \<Rightarrow> False | Some v \<Rightarrow> \<not> list_ex (\<lambda>r. vn_id r = v) (au_vendors st))
      then Some (PgForeignKey ''users_vendor_fk'')
      else (case (us_vendor_branch_id u, us_vendor_id u) of
              (Some b, Some v) \<Rightarrow>
                if list_ex (\<lambda>r. bn_id r = b \<and> bn_vendor_id r = v) (au_branches st) then None
                else Some (PgForeignKey ''users_vendor_branch_owner_fk'')
            | _ \<Rightarrow> None))"

definition CreateUserAdmin :: "user_row \<Rightarrow> auth_st \<Rightarrow> pg_err + user_row \<times> auth_st" where
  "CreateUserAdmin row st =
     (let u = row\<lparr>us_id := au_next_id st\<rparr> in
      case user_violation st (au_users st) u of
        Some e \<Rightarrow> Inl e
      | None \<Rightarrow> Inr (u, st\<lparr>au_users := au_users st @ [u], au_next_id := au_next_id st + 1\<rparr>))"

definition UpdateUserAdmin :: "id64 \<Rightarrow> (user_row \<Rightarrow> user_row) \<Rightarrow> auth_st \<Rightarrow> pg_err + user_row \<times> auth_st" where
  "UpdateUserAdmin uid f st =
     (case find_row (\<lambda>u. us_id u = uid \<and> us_deleted_at u = None) (au_users st) of
        None \<Rightarrow> Inl PgNoRows
      | Some old \<Rightarrow>
          (case user_violation st (filter (\<lambda>u. us_id u \<noteq> uid) (au_users st)) (f old) of
             Some e \<Rightarrow> Inl e
           | None \<Rightarrow> Inr (f old, update_user uid f st)))"

definition GetUserAdminByID :: "auth_st \<Rightarrow> id64 \<Rightarrow> user_row option" where
  "GetUserAdminByID st uid =
     find_row (\<lambda>u. us_id u = uid \<and> role_name st (us_role_id u) \<noteq> None) (au_users st)"

definition FindUserAdminByUsername :: "auth_st \<Rightarrow> string \<Rightarrow> id64 option" where
  "FindUserAdminByUsername st v = map_option us_id (find_row (\<lambda>u. us_username u = v) (au_users st))"

definition FindUserAdminByEmail :: "auth_st \<Rightarrow> string \<Rightarrow> id64 option" where
  "FindUserAdminByEmail st v = map_option us_id (find_row (\<lambda>u. us_email u = v) (au_users st))"

definition FindUserAdminByEmailExcludingID :: "auth_st \<Rightarrow> string \<Rightarrow> id64 \<Rightarrow> id64 option" where
  "FindUserAdminByEmailExcludingID st v uid =
     map_option us_id (find_row (\<lambda>u. us_email u = v \<and> us_id u \<noteq> uid) (au_users st))"

definition FindUserAdminByEmployeeID :: "auth_st \<Rightarrow> string \<Rightarrow> id64 option" where
  "FindUserAdminByEmployeeID st v =
     map_option us_id (find_row (\<lambda>u. us_employee_id u = Some v) (au_users st))"

definition FindUserAdminByEmployeeIDExcludingID :: "auth_st \<Rightarrow> string \<Rightarrow> id64 \<Rightarrow> id64 option" where
  "FindUserAdminByEmployeeIDExcludingID st v uid =
     map_option us_id (find_row (\<lambda>u. us_employee_id u = Some v \<and> us_id u \<noteq> uid) (au_users st))"

definition GetRoleByName :: "auth_st \<Rightarrow> string \<Rightarrow> role_row option" where
  "GetRoleByName st role = find_row (\<lambda>r. ro_role r = role) (au_roles st)"

definition VendorExistsAdmin :: "auth_st \<Rightarrow> id64 \<Rightarrow> bool" where
  "VendorExistsAdmin st vid \<longleftrightarrow> list_ex (\<lambda>v. vn_id v = vid \<and> vn_deleted_at v = None) (au_vendors st)"

definition UserAdminExists :: "auth_st \<Rightarrow> id64 \<Rightarrow> bool" where
  "UserAdminExists st uid \<longleftrightarrow> list_ex (\<lambda>u. us_id u = uid \<and> us_deleted_at u = None) (au_users st)"

definition VendorBranchBelongsToVendor :: "auth_st \<Rightarrow> id64 \<Rightarrow> id64 \<Rightarrow> bool" where
  "VendorBranchBelongsToVendor st branchID vendorID \<longleftrightarrow>
     list_ex (\<lambda>b. bn_id b = branchID \<and> bn_vendor_id b = vendorID \<and> bn_is_active b) (au_branches st)"

section \<open>Checks\<close>

definition isUserAdminActor :: "string \<Rightarrow> bool" where
  "isUserAdminActor role \<longleftrightarrow>
     list_ex (\<lambda>allowed. equal_fold (TrimSpace role) allowed) [''APPACCESS'', ''ADMIN'']"

abbreviation invalid_field :: "string \<Rightarrow> string \<Rightarrow> admin_err" where
  "invalid_field field msg \<equiv> AdminAuth (ValidationError field msg)"

definition validateProfile :: "auth_ext \<Rightarrow> string \<Rightarrow> string \<Rightarrow> string \<Rightarrow> admin_err option" where
  "validateProfile ext fullName email role =
     (if fullName = [] then Some (invalid_field ''full_name'' ''wajib diisi'')
      else if email = [] then Some (invalid_field ''email'' ''wajib diisi'')
      else if \<not> mail_ok ext email then Some (invalid_field ''email'' ''format email tidak valid'')
      else if role = [] then Some (invalid_field ''role'' ''wajib diisi'')
      else None)"

definition vendorFields :: "string \<Rightarrow> string \<Rightarrow> id64 option \<Rightarrow> id64 option \<Rightarrow> admin_err option" where
  "vendorFields role authSource vendorID branchID =
     (if \<not> IsVendor role then
        (if branchID \<noteq> None then Some (ReferenceError ''vendor_branch_id'' ''hanya untuk role vendor'') else None)
      else if authSource \<noteq> ''local'' then
        Some (invalid_field ''auth_source'' ''harus local untuk role vendor'')
      else if vendorID = None then
        Some (invalid_field ''vendor_id'' ''wajib diisi untuk role vendor'')
      else None)"

definition checkVendorBranch ::
  "auth_faults \<Rightarrow> auth_st \<Rightarrow> id64 option \<Rightarrow> id64 option \<Rightarrow> admin_err option" where
  "checkVendorBranch flt view vendorID branchID =
     (case branchID of
        None \<Rightarrow> None
      | Some b \<Rightarrow>
          (case vendorID of
             None \<Rightarrow> Some (ReferenceError ''vendor_branch_id'' ''membutuhkan vendor_id'')
           | Some v \<Rightarrow>
               if flt AAdminBranch then Some (AdminDb ''checking vendor branch reference'')
               else if \<not> VendorBranchBelongsToVendor view b v
               then Some (ReferenceError ''vendor_branch_id'' ''bukan cabang aktif milik vendor'')
               else None))"

definition remapPasswordFieldError :: "auth_err \<Rightarrow> admin_err" where
  "remapPasswordFieldError e =
     (case e of ValidationError _ msg \<Rightarrow> invalid_field ''temporary_password'' msg | _ \<Rightarrow> AdminAuth e)"

definition localCredentials ::
  "auth_ext \<Rightarrow> string \<Rightarrow> string \<Rightarrow> id64 option \<Rightarrow> string \<Rightarrow> admin_err + string option" where
  "localCredentials ext salt authSource vendorID temporaryPassword =
     (if authSource = ''ldap'' then
        (if vendorID \<noteq> None \<or> temporaryPassword \<noteq> [] then Inl ErrLdapFieldsNotAllowed else Inr None)
      else if authSource = ''local'' then
        (if vendorID = None then Inl (invalid_field ''vendor_id'' ''wajib diisi untuk auth_source local'')
         else if temporaryPassword = [] then
           Inl (invalid_field ''temporary_password'' ''wajib diisi untuk auth_source local'')
         else (case ValidatePasswordStrength ext temporaryPassword of
                 Some e \<Rightarrow> Inl (remapPasswordFieldError e)
               | None \<Rightarrow> (case bcrypt_hash ext salt temporaryPassword of
                             None \<Rightarrow> Inl (AdminAuth ErrServiceUnavailable)
                           | Some hash \<Rightarrow> Inr (Some hash))))
      else Inl (invalid_field ''auth_source'' ''harus ldap atau local''))"

definition uniqueness :: "string \<Rightarrow> auth_faults \<Rightarrow> id64 option \<Rightarrow> admin_err option" where
  "uniqueness field flt existing =
     (if flt (AAdminFind field) then Some (AdminDb (''checking '' @ field @ '' uniqueness''))
      else if existing \<noteq> None then Some (ConflictError field) else None)"

definition resolveReferences ::
  "auth_faults \<Rightarrow> auth_st \<Rightarrow> string \<Rightarrow> id64 option \<Rightarrow> id64 option \<Rightarrow> admin_err + id64" where
  "resolveReferences flt view role vendorID supervisorID =
     (if flt AAdminRole then Inl (AdminDb ''resolving role'')
      else case GetRoleByName view role of
             None \<Rightarrow> Inl (ReferenceError ''role'' ''tidak ditemukan'')
           | Some roleRow \<Rightarrow>
               if vendorID \<noteq> None \<and> flt AAdminVendor then Inl (AdminDb ''checking vendor reference'')
               else if (case vendorID of None \<Rightarrow> False | Some v \<Rightarrow> \<not> VendorExistsAdmin view v)
               then Inl (ReferenceError ''vendor_id'' ''tidak ditemukan'')
               else if supervisorID \<noteq> None \<and> flt AAdminSupervisor
               then Inl (AdminDb ''checking supervisor reference'')
               else if (case supervisorID of None \<Rightarrow> False | Some s \<Rightarrow> \<not> UserAdminExists view s)
               then Inl (ReferenceError ''supervisor_id'' ''tidak ditemukan'')
               else Inr (ro_id roleRow))"

definition conflictFieldFromPgError :: "pg_err \<Rightarrow> string option" where
  "conflictFieldFromPgError e =
     (case e of
        PgUnique c \<Rightarrow> Some (if c = ''users_username_key'' then ''username''
                              else if c = ''users_email_key'' then ''email''
                              else if c = ''users_employee_id_key'' then ''employee_id'' else ''unknown'')
      | _ \<Rightarrow> None)"

definition nilIfEmpty :: "string \<Rightarrow> string option" where
  "nilIfEmpty s = (if s = [] then None else Some s)"

section \<open>Create and Update\<close>

text \<open>The audited image of a user: the returned columns, which do not include the password hash.\<close>

definition json_user :: "auth_st \<Rightarrow> user_row \<Rightarrow> json" where
  "json_user st u = JObj
     [(''id'', JNum (us_id u)), (''username'', JStr (us_username u)), (''full_name'', JStr (us_full_name u)),
      (''email'', JStr (us_email u)), (''role_id'', JNum (us_role_id u)),
      (''is_karyawan'', JBool (us_is_karyawan u)), (''auth_source'', JStr (us_auth_source u)),
      (''employee_id'', json_opt JStr (us_employee_id u)), (''vendor_id'', json_opt JNum (us_vendor_id u)),
      (''vendor_branch_id'', json_opt JNum (us_vendor_branch_id u)),
      (''vendor_branch_name'', json_opt JStr (branch_name st (us_vendor_branch_id u))),
      (''is_active'', JBool (us_is_active u)), (''deleted_at'', json_opt JNum (us_deleted_at u)),
      (''supervisor_id'', json_opt JNum (us_supervisor_id u)),
      (''approval_level'', json_opt JNum (us_approval_level u)),
      (''last_login_at'', json_opt JNum (us_last_login_at u))]"

text \<open>The row read before an update carries the role's name as well.\<close>

definition json_user_before :: "auth_st \<Rightarrow> user_row \<Rightarrow> json" where
  "json_user_before st u = (case json_user st u of
     JObj kvs \<Rightarrow> JObj (take 4 kvs @ [(''role'', json_opt JStr (role_name st (us_role_id u)))] @ drop 4 kvs)
   | j \<Rightarrow> j)"

definition new_user :: "create_user_request \<Rightarrow> id64 \<Rightarrow> string option \<Rightarrow> user_row" where
  "new_user req roleID passwordHash =
     \<lparr>us_id = 0, us_role_id = roleID, us_employee_id = nilIfEmpty (TrimSpace (cu_EmployeeID req)),
      us_username = TrimSpace (cu_Username req), us_full_name = TrimSpace (cu_FullName req),
      us_email = TrimSpace (cu_Email req), us_is_karyawan = cu_IsKaryawan req,
      us_auth_source = TrimSpace (cu_AuthSource req), us_password_hash = passwordHash,
      us_vendor_id = cu_VendorID req, us_is_active = True, us_last_login_at = None,
      us_deleted_at = None, us_vendor_branch_id = cu_VendorBranchID req,
      us_supervisor_id = cu_SupervisorID req, us_approval_level = cu_ApprovalLevel req,
      us_password_changed_at = None, us_must_change_password = (passwordHash \<noteq> None),
      us_failed_login_attempts = 0, us_locked_until = None\<rparr>"

text \<open>The checks of \<open>Create\<close>, in order: the role's id and the password hash, or the first error.\<close>

definition create_checks ::
  "auth_ext \<Rightarrow> auth_faults \<Rightarrow> string \<Rightarrow> string \<Rightarrow> create_user_request \<Rightarrow> auth_st \<Rightarrow> admin_err + id64 \<times> string option" where
  "create_checks ext flt salt actorRole req view =
     (let username = TrimSpace (cu_Username req); email = TrimSpace (cu_Email req);
          role = TrimSpace (cu_Role req); authSource = TrimSpace (cu_AuthSource req);
          employeeID = TrimSpace (cu_EmployeeID req) in
      if \<not> isUserAdminActor actorRole then Inl ErrActorNotAllowed
      else if username = [] then Inl (invalid_field ''username'' ''wajib diisi'')
      else case validateProfile ext (TrimSpace (cu_FullName req)) email role of Some e \<Rightarrow> Inl e | None \<Rightarrow>
      (case vendorFields role authSource (cu_VendorID req) (cu_VendorBranchID req) of Some e \<Rightarrow> Inl e | None \<Rightarrow>
      (case localCredentials ext salt authSource (cu_VendorID req) (cu_TemporaryPassword req) of
         Inl e \<Rightarrow> Inl e
       | Inr passwordHash \<Rightarrow>
      (case uniqueness ''username'' flt (FindUserAdminByUsername view username) of Some e \<Rightarrow> Inl e | None \<Rightarrow>
      (case uniqueness ''email'' flt (FindUserAdminByEmail view email) of Some e \<Rightarrow> Inl e | None \<Rightarrow>
      (case (if employeeID = [] then None
             else uniqueness ''employee_id'' flt (FindUserAdminByEmployeeID view employeeID)) of Some e \<Rightarrow> Inl e | None \<Rightarrow>
      (case resolveReferences flt view role (cu_VendorID req) (cu_SupervisorID req) of
         Inl e \<Rightarrow> Inl e
       | Inr roleID \<Rightarrow>
      (case checkVendorBranch flt view (cu_VendorID req) (cu_VendorBranchID req) of
         Some e \<Rightarrow> Inl e
       | None \<Rightarrow> Inr (roleID, passwordHash)))))))))"

definition UserAdminService_Create ::
  "auth_ext \<Rightarrow> auth_faults \<Rightarrow> string \<Rightarrow> id64 \<Rightarrow> string \<Rightarrow> create_user_request \<Rightarrow> ip_addr \<Rightarrow> auth_st \<Rightarrow> auth_st
    \<Rightarrow> (admin_err + user_row) \<times> auth_st" where
  "UserAdminService_Create ext flt salt actorID actorRole req ip view st =
     (case create_checks ext flt salt actorRole req view of
        Inl e \<Rightarrow> (Inl e, st)
      | Inr (roleID, passwordHash) \<Rightarrow>
          (case (if flt AAdminCreate then Inl PgFailed
                 else CreateUserAdmin (new_user req roleID passwordHash) st) of
             Inl e \<Rightarrow> (Inl (case conflictFieldFromPgError e of
                               Some field \<Rightarrow> ConflictError field
                             | None \<Rightarrow> AdminDb ''creating user''), st)
           | Inr (created, st1) \<Rightarrow>
               (case write_audit flt (audit_entry actorID ''user_created'' ''user'' (us_id created) None
                       (Some (json_user st1 created)) ip) st1 of
                  (Some e, st2) \<Rightarrow> (Inl (AdminAuth e), st2)
                | (None, st2) \<Rightarrow> (Inr created, st2))))"

definition changesImmutable :: "update_user_request \<Rightarrow> user_row \<Rightarrow> bool" where
  "changesImmutable req before \<longleftrightarrow>
     (case uu_Username req of None \<Rightarrow> False | Some v \<Rightarrow> TrimSpace v \<noteq> us_username before)
   \<or> (case uu_AuthSource req of None \<Rightarrow> False | Some v \<Rightarrow> TrimSpace v \<noteq> us_auth_source before)"

definition uniqueOnUpdate ::
  "auth_faults \<Rightarrow> auth_st \<Rightarrow> id64 \<Rightarrow> user_row \<Rightarrow> string \<Rightarrow> string \<Rightarrow> admin_err option" where
  "uniqueOnUpdate flt view uid before email employeeID =
     (case (if email \<noteq> us_email before
            then uniqueness ''email'' flt (FindUserAdminByEmailExcludingID view email uid) else None) of
        Some e \<Rightarrow> Some e
      | None \<Rightarrow>
          if employeeID \<noteq> [] \<and> us_employee_id before \<noteq> Some employeeID
          then uniqueness ''employee_id'' flt (FindUserAdminByEmployeeIDExcludingID view employeeID uid)
          else None)"

definition mapUserUpdateError :: "pg_err \<Rightarrow> admin_err" where
  "mapUserUpdateError e =
     (if e = PgNoRows then AdminAuth ErrUserNotFound
      else case conflictFieldFromPgError e of
             Some field \<Rightarrow> ConflictError field
           | None \<Rightarrow> AdminDb ''updating user'')"

definition update_columns :: "update_user_request \<Rightarrow> id64 \<Rightarrow> id64 option \<Rightarrow> user_row \<Rightarrow> user_row" where
  "update_columns req roleID branchID u =
     u\<lparr>us_full_name := TrimSpace (uu_FullName req), us_email := TrimSpace (uu_Email req),
       us_role_id := roleID, us_is_karyawan := uu_IsKaryawan req,
       us_employee_id := nilIfEmpty (TrimSpace (uu_EmployeeID req)), us_vendor_id := uu_VendorID req,
       us_vendor_branch_id := branchID, us_supervisor_id := uu_SupervisorID req,
       us_approval_level := uu_ApprovalLevel req\<rparr>"

text \<open>The checks of \<open>Update\<close>: the row as it was, the role's id and the branch to write.\<close>

definition update_checks ::
  "auth_ext \<Rightarrow> auth_faults \<Rightarrow> string \<Rightarrow> id64 \<Rightarrow> update_user_request \<Rightarrow> auth_st
    \<Rightarrow> admin_err + user_row \<times> id64 \<times> id64 option" where
  "update_checks ext flt actorRole uid req view =
     (if \<not> isUserAdminActor actorRole then Inl ErrActorNotAllowed
      else if flt AAdminGet then Inl (AdminDb ''loading user'')
      else case GetUserAdminByID view uid of
        None \<Rightarrow> Inl (AdminAuth ErrUserNotFound)
      | Some before \<Rightarrow>
      (let email = TrimSpace (uu_Email req); role = TrimSpace (uu_Role req);
           branchID = (if uu_VendorBranchIDSet req then uu_VendorBranchID req else us_vendor_branch_id before) in
       if us_deleted_at before \<noteq> None then Inl (AdminAuth ErrUserNotFound)
       else if changesImmutable req before then Inl ErrImmutableField
       else case validateProfile ext (TrimSpace (uu_FullName req)) email role of Some e \<Rightarrow> Inl e | None \<Rightarrow>
       (case vendorFields role (us_auth_source before) (uu_VendorID req) branchID of Some e \<Rightarrow> Inl e | None \<Rightarrow>
       (if uu_SupervisorID req = Some uid then Inl ErrSelfSupervision
        else case uniqueOnUpdate flt view uid before email (TrimSpace (uu_EmployeeID req)) of Some e \<Rightarrow> Inl e | None \<Rightarrow>
       (case resolveReferences flt view role (uu_VendorID req) (uu_SupervisorID req) of
          Inl e \<Rightarrow> Inl e
        | Inr roleID \<Rightarrow>
       (case (if branchID \<noteq> us_vendor_branch_id before \<or> uu_VendorID req \<noteq> us_vendor_id before
              then checkVendorBranch flt view (uu_VendorID req) branchID else None) of
          Some e \<Rightarrow> Inl e
        | None \<Rightarrow> Inr (before, roleID, branchID)))))))"

definition UserAdminService_Update ::
  "auth_ext \<Rightarrow> auth_faults \<Rightarrow> id64 \<Rightarrow> string \<Rightarrow> id64 \<Rightarrow> update_user_request \<Rightarrow> ip_addr \<Rightarrow> auth_st \<Rightarrow> auth_st
    \<Rightarrow> (admin_err + user_row) \<times> auth_st" where
  "UserAdminService_Update ext flt actorID actorRole uid req ip view st =
     (case update_checks ext flt actorRole uid req view of
        Inl e \<Rightarrow> (Inl e, st)
      | Inr (before, roleID, branchID) \<Rightarrow>
          (case (if flt AAdminUpdate then Inl PgFailed
                 else UpdateUserAdmin uid (update_columns req roleID branchID) st) of
             Inl e \<Rightarrow> (Inl (mapUserUpdateError e), st)
           | Inr (updated, st1) \<Rightarrow>
               (case write_audit flt (audit_entry actorID ''user_updated'' ''user'' uid
                       (Some (json_user_before view before)) (Some (json_user st1 updated)) ip) st1 of
                  (Some e, st2) \<Rightarrow> (Inl (AdminAuth e), st2)
                | (None, st2) \<Rightarrow> (Inr updated, st2))))"

section \<open>Endpoints\<close>

definition handleUserAdminError :: "admin_err \<Rightarrow> auth_reply" where
  "handleUserAdminError e = (case e of
     ErrActorNotAllowed \<Rightarrow> AuthError 403 ''forbidden''
   | AdminAuth (ValidationError field msg) \<Rightarrow> AuthInvalid field msg
   | ConflictError _ \<Rightarrow> AuthError 409 ''conflict''
   | ReferenceError _ _ \<Rightarrow> AuthError 400 ''invalid_reference''
   | AdminAuth ErrUserNotFound \<Rightarrow> AuthError 404 ''not_found''
   | ErrImmutableField \<Rightarrow> AuthError 400 ''bad_request''
   | ErrSelfSupervision \<Rightarrow> AuthError 400 ''bad_request''
   | ErrLdapFieldsNotAllowed \<Rightarrow> AuthError 400 ''bad_request''
   | _ \<Rightarrow> AuthError 500 ''internal_error'')"

definition handleSetInitialPasswordError :: "auth_err \<Rightarrow> auth_reply" where
  "handleSetInitialPasswordError e = (case e of
     ValidationError field msg \<Rightarrow> AuthInvalid field msg
   | ErrUserNotFound \<Rightarrow> AuthError 404 ''not_found''
   | ErrChangeNotAllowed \<Rightarrow> AuthError 403 ''change_not_allowed''
   | ErrServiceUnavailable \<Rightarrow> AuthError 503 ''service_unavailable''
   | _ \<Rightarrow> AuthError 500 ''internal_error'')"

definition AdminUserHandler_Disable ::
  "auth_faults \<Rightarrow> timestamp \<Rightarrow> jwt_payload option \<Rightarrow> id64 \<Rightarrow> ip_addr \<Rightarrow> auth_st \<Rightarrow> auth_reply \<times> auth_st" where
  "AdminUserHandler_Disable flt now authCtx uid ip st =
     (case authCtx of
        None \<Rightarrow> (AuthError 401 ''unauthorized'', st)
      | Some c \<Rightarrow>
          if uid = jp_id c then (AuthError 400 ''self_disable_forbidden'', st)
          else if flt AAdminGet then (AuthError 500 ''internal_error'', st)
          else if GetUserAdminByID st uid = None then (AuthError 404 ''not_found'', st)
          else (case Deactivate flt now (jp_id c) uid ip st of
                  (Some _, st') \<Rightarrow> (AuthError 500 ''internal_error'', st')
                | (None, st') \<Rightarrow> (AuthOK, st')))"

definition AdminUserHandler_Enable ::
  "auth_faults \<Rightarrow> jwt_payload option \<Rightarrow> id64 \<Rightarrow> ip_addr \<Rightarrow> auth_st \<Rightarrow> auth_reply \<times> auth_st" where
  "AdminUserHandler_Enable flt authCtx uid ip st =
     (case authCtx of
        None \<Rightarrow> (AuthError 401 ''unauthorized'', st)
      | Some c \<Rightarrow>
          if flt AAdminGet then (AuthError 500 ''internal_error'', st)
          else if GetUserAdminByID st uid = None then (AuthError 404 ''not_found'', st)
          else (case Reactivate flt (jp_id c) uid ip st of
                  (Some _, st') \<Rightarrow> (AuthError 500 ''internal_error'', st')
                | (None, st') \<Rightarrow> (AuthOK, st')))"

definition AdminUserHandler_SetInitialPassword ::
  "auth_ext \<Rightarrow> auth_faults \<Rightarrow> timestamp \<Rightarrow> string \<Rightarrow> jwt_payload option \<Rightarrow> id64 \<Rightarrow> string \<Rightarrow> ip_addr \<Rightarrow> auth_st
    \<Rightarrow> auth_reply \<times> auth_st" where
  "AdminUserHandler_SetInitialPassword ext flt now salt authCtx uid newPassword ip st =
     (case authCtx of
        None \<Rightarrow> (AuthError 401 ''unauthorized'', st)
      | Some c \<Rightarrow>
          (case SetInitialPassword ext flt now salt (jp_id c) uid newPassword ip st of
             (Some e, st') \<Rightarrow> (handleSetInitialPasswordError e, st')
           | (None, st') \<Rightarrow> (AuthOK, st')))"

section \<open>Runs\<close>

text \<open>
  The operations that change the state, each with the calls of it that fail. \<open>auth_run\<close> executes a
  sequence of operations with their times. \<open>Create\<close> may have checked against other contents of
  \<open>users\<close> than those it writes to; every other operation runs as a whole.
\<close>

datatype auth_op =
    OpLogin auth_faults string login_request
  | OpRefresh auth_faults string "string option"
  | OpLogout auth_faults "string option"
  | OpChangePassword auth_faults string id64 string string ip_addr
  | OpSetInitialPassword auth_faults string id64 id64 string ip_addr
  | OpDeactivate auth_faults id64 id64 ip_addr
  | OpReactivate auth_faults id64 id64 ip_addr
  | OpCreate auth_faults string id64 string create_user_request ip_addr "user_row list"
  | OpUpdate auth_faults id64 string id64 update_user_request ip_addr

fun auth_exec :: "auth_ext \<Rightarrow> auth_config \<Rightarrow> timestamp \<Rightarrow> auth_op \<Rightarrow> auth_st \<Rightarrow> auth_st" where
  "auth_exec ext cfg t (OpLogin flt jti req) st = snd (Login ext cfg flt t jti req st)"
| "auth_exec ext cfg t (OpRefresh flt jti tok) st = snd (AuthHandler_Refresh ext cfg flt t jti tok st)"
| "auth_exec ext cfg t (OpLogout flt tok) st = snd (AuthHandler_Logout ext flt t tok st)"
| "auth_exec ext cfg t (OpChangePassword flt salt uid old new ip) st =
     snd (ChangePassword ext flt t salt uid old new ip st)"
| "auth_exec ext cfg t (OpSetInitialPassword flt salt act uid new ip) st =
     snd (SetInitialPassword ext flt t salt act uid new ip st)"
| "auth_exec ext cfg t (OpDeactivate flt act uid ip) st = snd (Deactivate flt t act uid ip st)"
| "auth_exec ext cfg t (OpReactivate flt act uid ip) st = snd (Reactivate flt act uid ip st)"
| "auth_exec ext cfg t (OpCreate flt salt act role req ip seen) st =
     snd (UserAdminService_Create ext flt salt act role req ip (st\<lparr>au_users := seen\<rparr>) st)"
| "auth_exec ext cfg t (OpUpdate flt act role uid req ip) st =
     snd (UserAdminService_Update ext flt act role uid req ip st st)"

fun auth_run :: "auth_ext \<Rightarrow> auth_config \<Rightarrow> (timestamp \<times> auth_op) list \<Rightarrow> auth_st \<Rightarrow> auth_st" where
  "auth_run ext cfg [] st = st"
| "auth_run ext cfg ((t, op) # ops) st = auth_run ext cfg ops (auth_exec ext cfg t op st)"

end
