(* ===== verification/Auth_Correct.thy ===== *)
theory Auth_Correct
  imports User_Admin
begin

text \<open>
  What the operations leave of the state: \<open>touched R\<close> says that every row of \<open>users\<close> is related to
  its successor by \<open>R\<close> and that nothing else but the audit trail and Redis moved. One lemma per
  operation gives \<open>touched\<close> from the updates the operation makes; the invariants instantiate \<open>R\<close>.
\<close>

section \<open>Row updates\<close>

lemmas user_updates = UpdateLastLogin_def MarkPasswordExpired_def LockAccount_def ResetLockout_def
  SetPassword_def SetInitialPassword_query_def DeactivateUser_def ReactivateUser_def

definition touched :: "(user_row \<Rightarrow> user_row \<Rightarrow> bool) \<Rightarrow> auth_st \<Rightarrow> auth_st \<Rightarrow> bool" where
  "touched R st st' \<longleftrightarrow> list_all2 R (au_users st) (au_users st') \<and> au_roles st' = au_roles st
     \<and> au_vendors st' = au_vendors st \<and> au_branches st' = au_branches st
     \<and> au_next_id st' = au_next_id st"

locale row_relation =
  fixes R :: "user_row \<Rightarrow> user_row \<Rightarrow> bool"
  assumes refl_R: "R u u"
    and trans_R: "R u v \<Longrightarrow> R v w \<Longrightarrow> R u w"
begin

lemma touched_refl: "touched R st st"
  by (simp add: touched_def list.rel_refl refl_R)

lemma touched_trans: "touched R st st1 \<Longrightarrow> touched R st1 st2 \<Longrightarrow> touched R st st2"
  unfolding touched_def using list_all2_trans [of R R R] trans_R by metis

lemma touched_same_users:
  "au_users st' = au_users st \<Longrightarrow> au_roles st' = au_roles st \<Longrightarrow> au_vendors st' = au_vendors st
   \<Longrightarrow> au_branches st' = au_branches st \<Longrightarrow> au_next_id st' = au_next_id st \<Longrightarrow> touched R st st'"
  by (simp add: touched_def list.rel_refl refl_R)

lemma touched_redis: "touched R st (st\<lparr>au_redis := r\<rparr>)" "touched R st (st\<lparr>au_audit := a\<rparr>)"
  by (rule touched_same_users; simp)+

lemma touched_update_user:
  "(\<And>u. u \<in> set (au_users st) \<Longrightarrow> us_id u = uid \<Longrightarrow> R u (f u)) \<Longrightarrow> touched R st (update_user uid f st)"
  by (simp add: touched_def update_user_def update_where_def list_all2_map2 list.rel_refl refl_R
      list_all2_same)

lemma touched_best_effort: "touched R st (f st) \<Longrightarrow> touched R st (best_effort b f st)"
  by (simp add: best_effort_def touched_refl)

lemma touched_write_audit: "touched R st st1 \<Longrightarrow> touched R st (snd (write_audit flt e st1))"
  by (rule touched_trans) (auto simp: write_audit_def touched_refl touched_redis)

end

text \<open>Reading a row back from a lookup.\<close>

lemma user_record_of_Some:
  "user_record_of st u = Some r \<Longrightarrow> ur_ID r = us_id u \<and> ur_Username r = us_username u
   \<and> ur_Email r = us_email u \<and> ur_AuthSource r = us_auth_source u \<and> ur_IsActive r = us_is_active u
   \<and> ur_DeletedAt r = us_deleted_at u \<and> ur_LockedUntil r = us_locked_until u
   \<and> ur_PasswordHash r = us_password_hash u \<and> ur_IsKaryawan r = us_is_karyawan u
   \<and> ur_PasswordChangedAt r = us_password_changed_at u \<and> ur_MustChangePassword r = us_must_change_password u
   \<and> ur_FailedLoginAttempts r = us_failed_login_attempts u
   \<and> role_name st (us_role_id u) = Some (ur_Role r)"
  by (auto simp: user_record_of_def)

lemma FindUserByEmail_Some:
  assumes "FindUserByEmail st email = Some r"
  obtains u where "u \<in> set (au_users st)" "us_email u = email" "us_deleted_at u = None"
    "user_record_of st u = Some r"
  using assms unfolding FindUserByEmail_def by (auto dest: find_row_Some elim!: bind_eq_Some_conv [THEN iffD1, elim_format])

lemma FindUserByUsername_Some:
  assumes "FindUserByUsername st name = Some r"
  obtains u where "u \<in> set (au_users st)" "us_username u = name" "us_deleted_at u = None"
    "user_record_of st u = Some r"
  using assms unfolding FindUserByUsername_def by (auto dest: find_row_Some elim!: bind_eq_Some_conv [THEN iffD1, elim_format])

lemma FindUserByID_Some:
  assumes "FindUserByID st uid = Some r"
  obtains u where "u \<in> set (au_users st)" "us_id u = uid" "us_deleted_at u = None"
    "user_record_of st u = Some r"
  using assms unfolding FindUserByID_def by (auto dest: find_row_Some elim!: bind_eq_Some_conv [THEN iffD1, elim_format])

section \<open>Operations as updates\<close>

text \<open>
  A login touches at most the row its lookup found, and only once the account has passed the
  checks before the password.
\<close>

definition login_admits :: "timestamp \<Rightarrow> user_record \<Rightarrow> bool" where
  "login_admits now user \<longleftrightarrow> ur_DeletedAt user = None \<and> ur_IsActive user
     \<and> \<not> (isLocalAuthSource (ur_AuthSource user) \<and> IsLocked (ur_LockedUntil user) now)"

lemma Login_cases:
  obtains (refused) e where "Login ext cfg flt now jti req st = (Inl e, st)"
  | (rejected) user p e where "FindUserByEmail st (lq_Email req) = Some user" "login_admits now user"
      "selectProvider (ac_providers cfg) (ur_AuthSource user) = Inr p"
      "Authenticate ext flt p st (ur_Username user) (lq_Password req) = Inl e"
      "Login ext cfg flt now jti req st = (Inl ErrInvalidCredentials, login_rejected cfg flt now req user st)"
  | (accepted) user p idn where "FindUserByEmail st (lq_Email req) = Some user" "login_admits now user"
      "selectProvider (ac_providers cfg) (ur_AuthSource user) = Inr p"
      "Authenticate ext flt p st (ur_Username user) (lq_Password req) = Inr idn"
      "validateInput req = None"
      "Check (ac_limits cfg) (redis_flt flt) now (au_redis st) (lq_Email req) (lq_IP req) = None"
      "Login ext cfg flt now jti req st = login_accepted ext cfg flt now jti req user st"
proof (cases "validateInput req = None
    \<and> Check (ac_limits cfg) (redis_flt flt) now (au_redis st) (lq_Email req) (lq_IP req) = None
    \<and> \<not> flt AFindByEmail")
  case False
  then have "\<exists>e. Login ext cfg flt now jti req st = (Inl e, st)"
    by (auto simp: Login_def AuthRepository_FindByEmail_def split: option.splits)
  then show ?thesis using refused by blast
next
  case True
  then have v: "validateInput req = None"
    "Check (ac_limits cfg) (redis_flt flt) now (au_redis st) (lq_Email req) (lq_IP req) = None"
    "\<not> flt AFindByEmail" by simp_all
  show ?thesis
  proof (cases "FindUserByEmail st (lq_Email req)")
    case None
    then show ?thesis using refused v by (simp add: Login_def AuthRepository_FindByEmail_def)
  next
    case (Some user)
    show ?thesis
    proof (cases "login_admits now user")
      case False
      then show ?thesis using refused v Some
        by (cases "ur_DeletedAt user = None"; cases "ur_IsActive user")
           (simp_all add: Login_def AuthRepository_FindByEmail_def login_admits_def)
    next
      case adm: True
      then have a: "ur_DeletedAt user = None" "ur_IsActive user"
        "\<not> (isLocalAuthSource (ur_AuthSource user) \<and> IsLocked (ur_LockedUntil user) now)"
        by (simp_all add: login_admits_def)
      have L: "Login ext cfg flt now jti req st =
          (case selectProvider (ac_providers cfg) (ur_AuthSource user) of
             Inl e \<Rightarrow> (Inl e, st)
           | Inr provider \<Rightarrow>
               (case Authenticate ext flt provider st (ur_Username user) (lq_Password req) of
                  Inl _ \<Rightarrow> (Inl ErrInvalidCredentials, login_rejected cfg flt now req user st)
                | Inr _ \<Rightarrow> login_accepted ext cfg flt now jti req user st))"
        unfolding Login_def AuthRepository_FindByEmail_def using v Some a by auto
      show ?thesis
      proof (cases "selectProvider (ac_providers cfg) (ur_AuthSource user)")
        case (Inl e)
        then show ?thesis using refused L by simp
      next
        case (Inr p)
        then show ?thesis using L rejected [OF Some adm Inr] accepted [OF Some adm Inr _ v(1,2)]
          by (cases "Authenticate ext flt p st (ur_Username user) (lq_Password req)") simp_all
      qed
    qed
  qed
qed

text \<open>The updates a login makes to a row of the account it found.\<close>

definition login_updates :: "(user_row \<Rightarrow> user_row \<Rightarrow> bool) \<Rightarrow> id64 \<Rightarrow> bool" where
  "login_updates R uid \<longleftrightarrow> (\<forall>u. us_id u = uid \<longrightarrow>
     (\<forall>x. R u (u\<lparr>us_last_login_at := x\<rparr>)) \<and> R u (u\<lparr>us_must_change_password := True\<rparr>)
   \<and> R u (u\<lparr>us_failed_login_attempts := us_failed_login_attempts u + 1\<rparr>)
   \<and> (\<forall>x. R u (u\<lparr>us_locked_until := x\<rparr>))
   \<and> R u (u\<lparr>us_failed_login_attempts := 0, us_locked_until := None\<rparr>))"

context row_relation
begin

lemma login_rejected_touched:
  assumes "login_updates R (ur_ID user)"
  shows "touched R st (login_rejected cfg flt now req user st)"
proof -
  define st1 where "st1 = st\<lparr>au_redis := snd (IncrementFailed (ac_limits cfg) (redis_flt flt) now
    (au_redis st) (lq_Email req) (lq_IP req))\<rparr>"
  have 1: "touched R st st1" unfolding st1_def by (rule touched_redis)
  have inc: "touched R st1 (snd (AuthRepository_IncrementFailedLogin flt (ur_ID user) st1))"
    using assms by (auto simp: AuthRepository_IncrementFailedLogin_def IncrementFailedLogin_def
        login_updates_def split: option.splits intro: touched_refl touched_update_user)
  have lock: "touched R s (best_effort b (LockAccount (ur_ID user) x) s)" for b x s
    using assms by (auto simp: LockAccount_def login_updates_def intro!: touched_best_effort touched_update_user)
  have "touched R st1 (login_rejected cfg flt now req user st)"
    unfolding login_rejected_def Let_def st1_def [symmetric]
    using inc lock touched_refl touched_trans
    by (auto split: prod.splits sum.splits)
  with 1 show ?thesis by (rule touched_trans)
qed

lemma login_accepted_touched:
  assumes "login_updates R (ur_ID user)"
  shows "touched R st (snd (login_accepted ext cfg flt now jti req user st))"
proof -
  have u: "touched R s (best_effort b (UpdateLastLogin now (ur_ID user)) s)"
    "touched R s (best_effort b (MarkPasswordExpired (ur_ID user)) s)"
    "touched R s (best_effort b (ResetLockout (ur_ID user)) s)" for s b
    using assms by (auto simp: user_updates login_updates_def intro!: touched_best_effort touched_update_user)
  have "touched R st (snd (login_tokens ext cfg flt now jti req user d st))" for d
  proof (cases "GenerateTokenPair ext (ac_tokens cfg) (Some (identity_of user)) now jti")
    case None
    then show ?thesis by (simp add: login_tokens_def touched_refl)
  next
    case (Some ar)
    then show ?thesis
      by (cases ar) (simp add: login_tokens_def Let_def
          touched_trans [OF touched_trans [OF u(1) touched_redis(1)] u(3)])
  qed
  then show ?thesis
    by (auto simp: login_accepted_def Let_def u touched_refl split: prod.splits option.splits)
qed

lemma Login_touched:
  assumes "\<And>user. FindUserByEmail st (lq_Email req) = Some user \<Longrightarrow> login_admits now user
    \<Longrightarrow> login_updates R (ur_ID user)"
  shows "touched R st (snd (Login ext cfg flt now jti req st))"
proof (cases rule: Login_cases [of ext cfg flt now jti req st])
  case (refused e)
  then show ?thesis by (simp add: touched_refl)
next
  case (rejected user p e)
  then show ?thesis using login_rejected_touched assms by simp
next
  case (accepted user p idn)
  then show ?thesis using login_accepted_touched assms by simp
qed

lemma Refresh_touched: "touched R st (snd (AuthHandler_Refresh ext cfg flt now jti tok st))"
  by (auto simp: AuthHandler_Refresh_def Let_def touched_refl touched_redis
      split: option.splits sum.splits prod.splits)

lemma Logout_touched: "touched R st (snd (AuthHandler_Logout ext flt now tok st))"
  by (auto simp: AuthHandler_Logout_def Let_def touched_refl touched_redis split: option.splits)

lemma ChangePassword_touched:
  assumes "\<And>user u h. FindUserByID st uid = Some user \<Longrightarrow> isLocalAuthSource (ur_AuthSource user)
    \<Longrightarrow> u \<in> set (au_users st) \<Longrightarrow> us_id u = uid \<Longrightarrow> R u (u\<lparr>us_password_hash := Some h, us_password_changed_at := Some now,
          us_must_change_password := False, us_failed_login_attempts := 0, us_locked_until := None\<rparr>)"
  shows "touched R st (snd (ChangePassword ext flt now salt uid old new ip st))"
  using assms
  by (auto simp: ChangePassword_def AuthRepository_FindByID_def SetPassword_def touched_refl
      split: option.splits sum.splits if_splits intro!: touched_write_audit touched_update_user)

lemma SetInitialPassword_touched:
  assumes "\<And>user u h. FindUserByID st uid = Some user \<Longrightarrow> isLocalAuthSource (ur_AuthSource user)
    \<Longrightarrow> u \<in> set (au_users st) \<Longrightarrow> us_id u = uid \<Longrightarrow> R u (u\<lparr>us_password_hash := Some h, us_password_changed_at := Some now,
          us_must_change_password := True, us_failed_login_attempts := 0, us_locked_until := None\<rparr>)"
  shows "touched R st (snd (SetInitialPassword ext flt now salt act uid new ip st))"
  using assms
  by (auto simp: SetInitialPassword_def AuthRepository_FindByID_def SetInitialPassword_query_def touched_refl
      split: option.splits sum.splits if_splits intro!: touched_write_audit touched_update_user)

lemma Deactivate_touched:
  assumes "\<And>u. us_id u = uid \<Longrightarrow> R u (u\<lparr>us_is_active := False, us_deleted_at := Some now\<rparr>)"
  shows "touched R st (snd (Deactivate flt now act uid ip st))"
  using assms
  by (auto simp: Deactivate_def AuthRepository_FindByID_def DeactivateUser_def touched_refl
      split: option.splits sum.splits if_splits intro!: touched_write_audit touched_update_user)

lemma Reactivate_touched:
  assumes "\<And>u. us_id u = uid \<Longrightarrow> R u (u\<lparr>us_is_active := True, us_deleted_at := None\<rparr>)"
  shows "touched R st (snd (Reactivate flt act uid ip st))"
  using assms
  by (auto simp: Reactivate_def ReactivateUser_def touched_refl intro!: touched_write_audit touched_update_user)

end

end
