(* ===== verification/Auth_Runs.thy ===== *)
theory Auth_Runs
  imports Auth_Correct
begin

text \<open>
  Invariants of runs of the authentication operations: the shape of the \<open>users\<close> table, a deleted
  account, a locked account and a blacklisted token.
\<close>

section \<open>The users table\<close>

definition user_ok :: "auth_st \<Rightarrow> user_row \<Rightarrow> bool" where
  "user_ok st u \<longleftrightarrow>
     0 \<le> us_failed_login_attempts u \<and> us_id u < au_next_id st
   \<and> (us_auth_source u = ''ldap'' \<longrightarrow> us_password_hash u = None)
   \<and> us_supervisor_id u \<noteq> Some (us_id u)
   \<and> (\<forall>s. us_supervisor_id u = Some s \<longrightarrow> s \<in> us_id ` set (au_users st))
   \<and> (\<exists>role. role_name st (us_role_id u) = Some role
        \<and> (IsVendor role \<longrightarrow> us_auth_source u = ''local'' \<and> us_vendor_id u \<noteq> None)
        \<and> (us_vendor_branch_id u \<noteq> None \<longrightarrow> IsVendor role))
   \<and> (\<forall>b. us_vendor_branch_id u = Some b \<longrightarrow>
        (\<exists>v. us_vendor_id u = Some v \<and> list_ex (\<lambda>r. bn_id r = b \<and> bn_vendor_id r = v) (au_branches st)))"

text \<open>A nullable column without duplicates among its non-null values.\<close>

definition unique_by :: "(user_row \<Rightarrow> string option) \<Rightarrow> user_row list \<Rightarrow> bool" where
  "unique_by k us \<longleftrightarrow> (\<forall>u \<in> set us. \<forall>v \<in> set us. k u \<noteq> None \<longrightarrow> k u = k v \<longrightarrow> us_id u = us_id v)"

abbreviation email_key :: "user_row \<Rightarrow> string option" where "email_key u \<equiv> Some (us_email u)"
abbreviation username_key :: "user_row \<Rightarrow> string option" where "username_key u \<equiv> Some (us_username u)"

definition users_ok :: "auth_st \<Rightarrow> bool" where
  "users_ok st \<longleftrightarrow> distinct (map ro_id (au_roles st))
     \<and> distinct (map us_id (au_users st)) \<and> unique_by email_key (au_users st)
     \<and> unique_by username_key (au_users st) \<and> unique_by us_employee_id (au_users st)
     \<and> (\<forall>u \<in> set (au_users st). user_ok st u)"

lemma users_okD:
  assumes "users_ok st"
  shows "distinct (map ro_id (au_roles st))" "distinct (map us_id (au_users st))"
    "unique_by email_key (au_users st)" "unique_by username_key (au_users st)"
    "unique_by us_employee_id (au_users st)" "u \<in> set (au_users st) \<Longrightarrow> user_ok st u"
  using assms by (simp_all add: users_ok_def)

lemma users_okI:
  assumes "distinct (map ro_id (au_roles st))" "distinct (map us_id (au_users st))"
    "unique_by email_key (au_users st)" "unique_by username_key (au_users st)"
    "unique_by us_employee_id (au_users st)" "\<And>u. u \<in> set (au_users st) \<Longrightarrow> user_ok st u"
  shows "users_ok st"
  using assms by (simp add: users_ok_def)

text \<open>Columns an operation other than \<open>Create\<close> and \<open>Update\<close> keeps.\<close>

definition account_kept :: "user_row \<Rightarrow> user_row \<Rightarrow> bool" where
  "account_kept u u' \<longleftrightarrow>
     us_id u' = us_id u \<and> us_role_id u' = us_role_id u \<and> us_employee_id u' = us_employee_id u
   \<and> us_username u' = us_username u \<and> us_email u' = us_email u \<and> us_auth_source u' = us_auth_source u
   \<and> us_vendor_id u' = us_vendor_id u \<and> us_vendor_branch_id u' = us_vendor_branch_id u
   \<and> us_supervisor_id u' = us_supervisor_id u
   \<and> (us_auth_source u = ''ldap'' \<longrightarrow> us_password_hash u = None \<longrightarrow> us_password_hash u' = None)
   \<and> (0 \<le> us_failed_login_attempts u \<longrightarrow> 0 \<le> us_failed_login_attempts u')"

interpretation kept: row_relation account_kept
  by unfold_locales (simp_all add: account_kept_def)

lemma list_all2_map_eq:
  assumes "list_all2 R xs ys" and "\<And>x y. R x y \<Longrightarrow> k y = k x"
  shows "map k ys = map k xs"
  using assms(1) by (induction rule: list_all2_induct) (simp_all add: assms(2))

lemma touched_row:
  assumes "touched R st st'" and "u' \<in> set (au_users st')"
  obtains u where "u \<in> set (au_users st)" "R u u'"
  using assms unfolding touched_def list_all2_iff
  by (metis (no_types, lifting) case_prodD in_set_impl_in_set_zip2 set_zip_leftD)

lemma touched_row_after:
  assumes "touched R st st'" and "u \<in> set (au_users st)"
  obtains u' where "u' \<in> set (au_users st')" "R u u'"
  using assms unfolding touched_def list_all2_iff
  by (metis (no_types, lifting) case_prodD in_set_impl_in_set_zip1 set_zip_rightD)

lemma unique_byD:
  assumes "unique_by k us" "a \<in> set us" "b \<in> set us" "k a \<noteq> None" "k a = k b"
  shows "us_id a = us_id b"
  by (rule mp [OF mp [OF bspec [OF bspec [OF assms(1) [unfolded unique_by_def] assms(2)] assms(3)]
        assms(4)] assms(5)])

lemma unique_byI:
  assumes "\<And>a b. a \<in> set us \<Longrightarrow> b \<in> set us \<Longrightarrow> k a \<noteq> None \<Longrightarrow> k a = k b \<Longrightarrow> us_id a = us_id b"
  shows "unique_by k us"
  unfolding unique_by_def by (intro ballI impI) (rule assms)

lemma unique_by_touched:
  assumes t: "touched R st st'" and k: "\<And>u u'. R u u' \<Longrightarrow> k u' = k u \<and> us_id u' = us_id u"
    and u: "unique_by k (au_users st)"
  shows "unique_by k (au_users st')"
proof (rule unique_byI)
  fix a b assume ab: "a \<in> set (au_users st')" "b \<in> set (au_users st')" "k a \<noteq> None" "k a = k b"
  obtain a0 where a0: "a0 \<in> set (au_users st)" "R a0 a" using touched_row [OF t ab(1)] .
  obtain b0 where b0: "b0 \<in> set (au_users st)" "R b0 b" using touched_row [OF t ab(2)] .
  note ka = k [OF a0(2)] and kb = k [OF b0(2)]
  have "us_id a0 = us_id b0"
    by (rule unique_byD [OF u a0(1) b0(1)]) (use ab(3,4) ka kb in simp_all)
  then show "us_id a = us_id b" using ka kb by simp
qed

lemma unique_by_insert:
  assumes u: "unique_by k us" and new: "\<And>w. w \<in> set us \<Longrightarrow> k x \<noteq> None \<Longrightarrow> k w \<noteq> k x"
  shows "unique_by k (us @ [x])"
proof (rule unique_byI)
  fix a b assume ab: "a \<in> set (us @ [x])" "b \<in> set (us @ [x])" "k a \<noteq> None" "k a = k b"
  consider "a = x" "b = x" | "a = x" "b \<in> set us" | "b = x" "a \<in> set us" | "a \<in> set us" "b \<in> set us"
    using ab(1,2) by auto
  then show "us_id a = us_id b"
  proof cases
    case 2
    then show ?thesis using new [of b] ab(3,4) by simp
  next
    case 3
    then show ?thesis using new [of a] ab(3,4) by simp
  next
    case 4
    show ?thesis by (rule unique_byD [OF u 4 ab(3,4)])
  qed simp
qed

lemma unique_by_replace:
  assumes u: "unique_by k us" and rows: "set us' = insert x' (set us - {x})" and ident: "us_id x' = us_id x"
    and new: "\<And>w. w \<in> set us \<Longrightarrow> us_id w \<noteq> us_id x \<Longrightarrow> k x' \<noteq> None \<Longrightarrow> k w \<noteq> k x'"
  shows "unique_by k us'"
proof (rule unique_byI)
  fix a b assume ab: "a \<in> set us'" "b \<in> set us'" "k a \<noteq> None" "k a = k b"
  consider "a = x'" "b = x'" | "a = x'" "b \<in> set us" | "b = x'" "a \<in> set us" | "a \<in> set us" "b \<in> set us"
    using ab(1,2) unfolding rows by blast
  then show "us_id a = us_id b"
  proof cases
    case 2
    then show ?thesis using new [of b] ab(3,4) ident by (cases "us_id b = us_id x") simp_all
  next
    case 3
    then show ?thesis using new [of a] ab(3,4) ident by (cases "us_id a = us_id x") simp_all
  next
    case 4
    show ?thesis by (rule unique_byD [OF u 4 ab(3,4)])
  qed simp
qed

lemma users_ok_touched:
  assumes t: "touched account_kept st st'" and ok: "users_ok st"
  shows "users_ok st'"
proof -
  have l: "list_all2 account_kept (au_users st) (au_users st')"
    and same: "au_roles st' = au_roles st" "au_branches st' = au_branches st"
      "au_next_id st' = au_next_id st"
    using t by (simp_all add: touched_def)
  have m: "map us_id (au_users st') = map us_id (au_users st)"
    by (rule list_all2_map_eq [OF l]) (simp add: account_kept_def)
  have un: "unique_by email_key (au_users st')"
    by (rule unique_by_touched [OF t _ users_okD(3) [OF ok]]) (simp add: account_kept_def)
  have un': "unique_by username_key (au_users st')"
    by (rule unique_by_touched [OF t _ users_okD(4) [OF ok]]) (simp add: account_kept_def)
  have un'': "unique_by us_employee_id (au_users st')"
    by (rule unique_by_touched [OF t _ users_okD(5) [OF ok]]) (simp add: account_kept_def)
  have ids: "us_id ` set (au_users st') = us_id ` set (au_users st)"
    using arg_cong [OF m, of set] by simp
  have "user_ok st' u'" if in': "u' \<in> set (au_users st')" for u'
  proof -
    obtain u where u: "u \<in> set (au_users st)" and k: "account_kept u u'"
      using touched_row [OF t in'] .
    have "user_ok st u" using ok u by (simp add: users_ok_def)
    then show ?thesis using k unfolding user_ok_def ids role_name_def same account_kept_def by simp
  qed
  then show ?thesis using users_okD(1,2) [OF ok] un un' un'' by (auto simp: same m intro!: users_okI)
qed

section \<open>Create and Update\<close>

lemma GetRoleByName_name:
  assumes "distinct (map ro_id (au_roles st))" and "GetRoleByName st role = Some r"
  shows "role_name st (ro_id r) = Some role"
proof -
  have "r \<in> set (au_roles st)" "ro_role r = role"
    using find_row_Some [OF assms(2) [unfolded GetRoleByName_def]] by simp_all
  then show ?thesis using find_row_key [of ro_id "au_roles st" r] assms(1) by (simp add: role_name_def)
qed

lemma create_checks_ok:
  assumes "create_checks ext flt salt actorRole req view = Inr (roleID, h)"
  shows "vendorFields (TrimSpace (cu_Role req)) (TrimSpace (cu_AuthSource req)) (cu_VendorID req) (cu_VendorBranchID req) = None"
    and "localCredentials ext salt (TrimSpace (cu_AuthSource req)) (cu_VendorID req) (cu_TemporaryPassword req) = Inr h"
    and "resolveReferences flt view (TrimSpace (cu_Role req)) (cu_VendorID req) (cu_SupervisorID req) = Inr roleID"
    and "isUserAdminActor actorRole"
  using assms unfolding create_checks_def Let_def
  by (auto split: if_splits option.splits sum.splits)

lemma update_checks_ok:
  assumes "update_checks ext flt actorRole uid req view = Inr (before, roleID, branchID)"
  shows "GetUserAdminByID view uid = Some before"
    and "vendorFields (TrimSpace (uu_Role req)) (us_auth_source before) (uu_VendorID req) branchID = None"
    and "resolveReferences flt view (TrimSpace (uu_Role req)) (uu_VendorID req) (uu_SupervisorID req) = Inr roleID"
    and "us_deleted_at before = None" and "isUserAdminActor actorRole"
  using assms unfolding update_checks_def Let_def
  by (auto split: if_splits option.splits sum.splits)

lemma resolveReferences_role:
  "resolveReferences flt view role v s = Inr roleID \<Longrightarrow> \<exists>r. GetRoleByName view role = Some r \<and> roleID = ro_id r"
  by (auto simp: resolveReferences_def split: if_splits option.splits)

text \<open>A row the schema accepts, with consistent vendor fields, is well formed.\<close>

lemma user_violation_None:
  assumes "user_violation st others u = None"
  shows "us_supervisor_id u \<noteq> Some (us_id u)" "w \<in> set others \<Longrightarrow> us_email w \<noteq> us_email u"
    "w \<in> set others \<Longrightarrow> us_username w \<noteq> us_username u"
    "w \<in> set others \<Longrightarrow> us_employee_id u \<noteq> None \<Longrightarrow> us_employee_id w \<noteq> us_employee_id u"
    "us_supervisor_id u = Some s \<Longrightarrow> s \<in> us_id ` set others"
    "us_vendor_branch_id u = Some b \<Longrightarrow> us_vendor_id u = Some v \<Longrightarrow>
       list_ex (\<lambda>r. bn_id r = b \<and> bn_vendor_id r = v) (au_branches st)"
  using assms unfolding user_violation_def
  by (auto simp: list_ex_iff image_iff split: if_splits option.splits)

lemma vendorFields_None:
  assumes "vendorFields role src v b = None"
  shows "IsVendor role \<Longrightarrow> src = ''local'' \<and> v \<noteq> None" "b \<noteq> None \<Longrightarrow> IsVendor role"
  using assms by (auto simp: vendorFields_def split: if_splits)

lemma write_audit_state:
  obtains e' a where "write_audit flt e st = (e', st\<lparr>au_audit := a\<rparr>)"
proof (cases "flt AAudit")
  case True
  then have "write_audit flt e st = (Some AuditFailed, st\<lparr>au_audit := au_audit st\<rparr>)"
    by (simp add: write_audit_def)
  then show ?thesis by (rule that)
next
  case False
  then show ?thesis using that by (simp add: write_audit_def)
qed

lemma Create_cases:
  obtains (unchanged) r where "UserAdminService_Create ext flt salt act role req ip view st = (r, st)"
  | (created) roleID h u r a where "create_checks ext flt salt role req view = Inr (roleID, h)"
      "u = (new_user req roleID h)\<lparr>us_id := au_next_id st\<rparr>"
      "user_violation st (au_users st) u = None"
      "UserAdminService_Create ext flt salt act role req ip view st =
         (r, st\<lparr>au_users := au_users st @ [u], au_next_id := au_next_id st + 1, au_audit := a\<rparr>)"
proof (cases "create_checks ext flt salt role req view")
  case (Inl e)
  then show ?thesis using unchanged by (simp add: UserAdminService_Create_def)
next
  case (Inr rh)
  obtain roleID h where rh: "rh = (roleID, h)" by fastforce
  define u where "u = (new_user req roleID h)\<lparr>us_id := au_next_id st\<rparr>"
  show ?thesis
  proof (cases "flt AAdminCreate \<or> user_violation st (au_users st) u \<noteq> None")
    case True
    then have "\<exists>e. (if flt AAdminCreate then Inl PgFailed else CreateUserAdmin (new_user req roleID h) st) = Inl e"
      using u_def by (auto simp: CreateUserAdmin_def Let_def)
    then obtain e where
      "(if flt AAdminCreate then Inl PgFailed else CreateUserAdmin (new_user req roleID h) st) = Inl e" ..
    then show ?thesis using unchanged Inr rh by (simp add: UserAdminService_Create_def)
  next
    case False
    then have v: "user_violation st (au_users st) u = None" by simp
    have C: "CreateUserAdmin (new_user req roleID h) st =
        Inr (u, st\<lparr>au_users := au_users st @ [u], au_next_id := au_next_id st + 1\<rparr>)"
      unfolding CreateUserAdmin_def Let_def u_def [symmetric] using v by simp
    have "UserAdminService_Create ext flt salt act role req ip view st =
      (case write_audit flt (audit_entry act ''user_created'' ''user'' (us_id u) None
           (Some (json_user (st\<lparr>au_users := au_users st @ [u], au_next_id := au_next_id st + 1\<rparr>) u)) ip)
           (st\<lparr>au_users := au_users st @ [u], au_next_id := au_next_id st + 1\<rparr>) of
         (Some e, st2) \<Rightarrow> (Inl (AdminAuth e), st2) | (None, st2) \<Rightarrow> (Inr u, st2))"
      using False Inr rh C by (simp add: UserAdminService_Create_def)
    moreover obtain e' a where "write_audit flt (audit_entry act ''user_created'' ''user'' (us_id u) None
           (Some (json_user (st\<lparr>au_users := au_users st @ [u], au_next_id := au_next_id st + 1\<rparr>) u)) ip)
           (st\<lparr>au_users := au_users st @ [u], au_next_id := au_next_id st + 1\<rparr>)
         = (e', (st\<lparr>au_users := au_users st @ [u], au_next_id := au_next_id st + 1\<rparr>)\<lparr>au_audit := a\<rparr>)"
      by (rule write_audit_state)
    ultimately have "\<exists>r. UserAdminService_Create ext flt salt act role req ip view st =
         (r, st\<lparr>au_users := au_users st @ [u], au_next_id := au_next_id st + 1, au_audit := a\<rparr>)"
      by (cases e') simp_all
    then show ?thesis using created [OF Inr [unfolded rh] u_def v] by blast
  qed
qed

lemma Create_users_ok:
  assumes ok: "users_ok st" and roles: "au_roles view = au_roles st"
  shows "users_ok (snd (UserAdminService_Create ext flt salt act role req ip view st))"
proof (cases rule: Create_cases [of ext flt salt act role req ip view st])
  case (unchanged r)
  then show ?thesis using ok by simp
next
  case (created roleID h u r a)
  let ?st' = "st\<lparr>au_users := au_users st @ [u], au_next_id := au_next_id st + 1, au_audit := a\<rparr>"
  note v = user_violation_None [OF created(3)] and c = create_checks_ok [OF created(1)]
  have dr: "distinct (map ro_id (au_roles st))" using ok by (simp add: users_ok_def)
  obtain rr where rr: "GetRoleByName st (TrimSpace (cu_Role req)) = Some rr" "roleID = ro_id rr"
    using resolveReferences_role [OF c(3)] roles by (auto simp: GetRoleByName_def)
  have name: "role_name st roleID = Some (TrimSpace (cu_Role req))"
    unfolding rr(2) by (rule GetRoleByName_name [OF dr rr(1)])
  have old: "user_ok st w" if "w \<in> set (au_users st)" for w using ok that by (simp add: users_ok_def)
  have fresh: "us_id u \<notin> us_id ` set (au_users st)"
    using old created(2) by (force simp: user_ok_def)
  have old': "user_ok ?st' w" if "w \<in> set (au_users st)" for w
    using old [OF that] by (auto simp: user_ok_def role_name_def)
  have hash: "us_auth_source u = ''ldap'' \<Longrightarrow> us_password_hash u = None"
    using c(2) created(2) by (auto simp: new_user_def localCredentials_def split: if_splits)
  have "user_ok ?st' u"
    unfolding user_ok_def
    using created(2) v(1,5,6) vendorFields_None [OF c(1)] name hash
    by (auto simp: new_user_def role_name_def)
  moreover have "unique_by email_key (au_users st @ [u])"
    by (rule unique_by_insert [OF users_okD(3) [OF ok]]) (use v(2) in simp)
  moreover have "unique_by username_key (au_users st @ [u])"
    by (rule unique_by_insert [OF users_okD(4) [OF ok]]) (use v(3) in simp)
  moreover have "unique_by us_employee_id (au_users st @ [u])"
    by (rule unique_by_insert [OF users_okD(5) [OF ok]]) (use v(4) in simp)
  ultimately have "users_ok ?st'"
    using users_okD(1,2) [OF ok] fresh old' by (auto intro!: users_okI)
  then show ?thesis using created(4) by simp
qed

lemma Update_cases:
  obtains (unchanged) r where "UserAdminService_Update ext flt act role uid req ip view st = (r, st)"
  | (updated) "before" roleID branchID old r a where
      "update_checks ext flt role uid req view = Inr (before, roleID, branchID)"
      "find_row (\<lambda>u. us_id u = uid \<and> us_deleted_at u = None) (au_users st) = Some old"
      "user_violation st (filter (\<lambda>u. us_id u \<noteq> uid) (au_users st)) (update_columns req roleID branchID old) = None"
      "UserAdminService_Update ext flt act role uid req ip view st =
         (r, (update_user uid (update_columns req roleID branchID) st)\<lparr>au_audit := a\<rparr>)"
proof (cases "update_checks ext flt role uid req view")
  case (Inl e)
  then show ?thesis using unchanged by (simp add: UserAdminService_Update_def)
next
  case (Inr c)
  obtain bef roleID branchID where c: "c = (bef, roleID, branchID)" by (metis prod_cases3)
  let ?f = "update_columns req roleID branchID"
  show ?thesis
  proof (cases "if flt AAdminUpdate then Inl PgFailed else UpdateUserAdmin uid ?f st")
    case (Inl e)
    then show ?thesis using unchanged Inr c by (simp add: UserAdminService_Update_def)
  next
    case ok: (Inr us)
    then obtain old where old: "find_row (\<lambda>u. us_id u = uid \<and> us_deleted_at u = None) (au_users st) = Some old"
      and v: "user_violation st (filter (\<lambda>u. us_id u \<noteq> uid) (au_users st)) (?f old) = None"
      and us: "us = (?f old, update_user uid ?f st)"
      by (auto simp: UpdateUserAdmin_def split: if_splits option.splits)
    have nf: "\<not> flt AAdminUpdate" "UpdateUserAdmin uid ?f st = Inr (?f old, update_user uid ?f st)"
      using ok us by (auto split: if_splits)
    obtain e' a where w: "write_audit flt (audit_entry act ''user_updated'' ''user'' uid
        (Some (json_user_before view bef)) (Some (json_user (update_user uid ?f st) (?f old))) ip)
        (update_user uid ?f st) = (e', (update_user uid ?f st)\<lparr>au_audit := a\<rparr>)"
      by (rule write_audit_state)
    have "\<exists>r. UserAdminService_Update ext flt act role uid req ip view st =
        (r, (update_user uid ?f st)\<lparr>au_audit := a\<rparr>)"
      unfolding UserAdminService_Update_def Inr c using w nf by (cases e') simp_all
    then show ?thesis using updated [OF Inr [unfolded c] old v] by blast
  qed
qed

lemma Update_users_ok:
  assumes ok: "users_ok st"
  shows "users_ok (snd (UserAdminService_Update ext flt act role uid req ip st st))"
proof (cases rule: Update_cases [of ext flt act role uid req ip st st])
  case (unchanged r)
  then show ?thesis using ok by simp
next
  case (updated bef roleID branchID old r a)
  let ?f = "update_columns req roleID branchID"
  let ?st' = "(update_user uid ?f st)\<lparr>au_audit := a\<rparr>"
  note v = user_violation_None [OF updated(3)] and c = update_checks_ok [OF updated(1)]
  have di: "distinct (map us_id (au_users st))" and dr: "distinct (map ro_id (au_roles st))"
    using ok by (simp_all add: users_ok_def)
  have old: "old \<in> set (au_users st)" "us_id old = uid" using find_row_Some [OF updated(2)] by simp_all
  have bef: "bef = old"
    using find_row_Some [OF c(1) [unfolded GetUserAdminByID_def]] old distinct_key_eq [OF di] by auto
  obtain rr where rr: "GetRoleByName st (TrimSpace (uu_Role req)) = Some rr" "roleID = ro_id rr"
    using resolveReferences_role [OF c(3)] by auto
  have name: "role_name st roleID = Some (TrimSpace (uu_Role req))"
    unfolding rr(2) by (rule GetRoleByName_name [OF dr rr(1)])
  have rows: "set (au_users ?st') = insert (?f old) (set (au_users st) - {old})"
    using set_update_where_key [OF di old(1), of ?f] old(2) by (simp add: update_user_def)
  have ids: "map us_id (au_users ?st') = map us_id (au_users st)"
    by (simp add: update_user_def update_where_def update_columns_def)
  then have idset: "us_id ` set (au_users ?st') = us_id ` set (au_users st)"
    by (metis list.set_map)
  have okw: "user_ok st w" if "w \<in> set (au_users st)" for w using ok that by (simp add: users_ok_def)
  have same: "au_roles ?st' = au_roles st" "au_branches ?st' = au_branches st" "au_next_id ?st' = au_next_id st"
    by (simp_all add: update_user_def)
  have new: "user_ok ?st' (?f old)"
    using okw [OF old(1)] v(1,5,6) vendorFields_None [OF c(2)] name bef
    unfolding user_ok_def idset role_name_def same
    by (auto simp: update_columns_def)
  have "user_ok ?st' w" if "w \<in> set (au_users st)" for w
    using okw [OF that] unfolding user_ok_def idset role_name_def same .
  then have all: "\<forall>w \<in> set (au_users ?st'). user_ok ?st' w" using new unfolding rows by blast
  have fid: "us_id (?f old) = us_id old" by (simp add: update_columns_def)
  have w: "w \<in> set (filter (\<lambda>u. us_id u \<noteq> uid) (au_users st))"
    if "w \<in> set (au_users st)" "us_id w \<noteq> us_id old" for w using that old(2) by simp
  have "unique_by email_key (au_users ?st')"
    by (rule unique_by_replace [OF users_okD(3) [OF ok] rows fid]) (use v(2) [OF w] in simp)
  moreover have "unique_by username_key (au_users ?st')"
    by (rule unique_by_replace [OF users_okD(4) [OF ok] rows fid]) (use v(3) [OF w] in simp)
  moreover have "unique_by us_employee_id (au_users ?st')"
    by (rule unique_by_replace [OF users_okD(5) [OF ok] rows fid]) (use v(4) [OF w] in simp)
  ultimately have "users_ok ?st'"
    using users_okD(1,2) [OF ok] all ids same by (auto simp del: select_convs simp: same ids intro!: users_okI)
  then show ?thesis using updated(4) by simp
qed

section \<open>Runs\<close>

context row_relation
begin

lemma Update_touched:
  assumes "\<And>u roleID branchID. us_id u = uid \<Longrightarrow> R u (update_columns req roleID branchID u)"
  shows "touched R st (snd (UserAdminService_Update ext flt act role uid req ip view st))"
proof (cases rule: Update_cases [of ext flt act role uid req ip view st])
  case (unchanged r)
  then show ?thesis by (simp add: touched_refl)
next
  case (updated bef roleID branchID old r a)
  have "touched R st (update_user uid (update_columns req roleID branchID) st)"
    by (rule touched_update_user) (rule assms)
  then show ?thesis using updated(4) touched_trans [OF _ touched_redis(2)] by simp
qed

end

lemma run_invariant:
  assumes "P st" and "list_all (\<lambda>(t, op). ok t op) ops"
    and "\<And>t op st. P st \<Longrightarrow> ok t op \<Longrightarrow> P (auth_exec ext cfg t op st)"
  shows "P (auth_run ext cfg ops st)"
  using assms(1,2)
proof (induction ops arbitrary: st)
  case (Cons x ops)
  obtain t op where x: "x = (t, op)" by fastforce
  show ?case using Cons.IH [OF assms(3) [OF Cons.prems(1)]] Cons.prems(2) by (simp add: x)
qed simp

lemma login_updates_kept: "login_updates account_kept uid"
  by (simp add: login_updates_def account_kept_def)

lemma local_not_ldap: "isLocalAuthSource s \<Longrightarrow> s \<noteq> ''ldap''"
  by (auto simp: isLocalAuthSource_def)

lemma found_local_row:
  assumes "users_ok st" "FindUserByID st uid = Some user" "isLocalAuthSource (ur_AuthSource user)"
    "u \<in> set (au_users st)" "us_id u = uid"
  shows "us_auth_source u \<noteq> ''ldap''"
proof -
  obtain w where w: "w \<in> set (au_users st)" "us_id w = uid" "user_record_of st w = Some user"
    using FindUserByID_Some [OF assms(2)] by metis
  have "w = u" using distinct_key_eq [OF users_okD(2) [OF assms(1)] w(1) assms(4)] w(2) assms(5) by simp
  then show ?thesis using user_record_of_Some [OF w(3)] assms(3) local_not_ldap by auto
qed

lemma exec_users_ok:
  assumes ok: "users_ok st"
  shows "users_ok (auth_exec ext cfg t op st)"
proof (cases op)
  case (OpLogin flt jti req)
  then show ?thesis
    using users_ok_touched [OF kept.Login_touched ok] login_updates_kept by simp
next
  case (OpRefresh flt jti tok)
  then show ?thesis using users_ok_touched [OF kept.Refresh_touched ok] by simp
next
  case (OpLogout flt tok)
  then show ?thesis using users_ok_touched [OF kept.Logout_touched ok] by simp
next
  case (OpChangePassword flt salt uid old new ip)
  have "touched account_kept st (snd (ChangePassword ext flt t salt uid old new ip st))"
    by (rule kept.ChangePassword_touched)
      (use found_local_row [OF ok] in \<open>simp add: account_kept_def\<close>)
  then show ?thesis using OpChangePassword users_ok_touched [OF _ ok] by simp
next
  case (OpSetInitialPassword flt salt act uid new ip)
  have "touched account_kept st (snd (SetInitialPassword ext flt t salt act uid new ip st))"
    by (rule kept.SetInitialPassword_touched)
      (use found_local_row [OF ok] in \<open>simp add: account_kept_def\<close>)
  then show ?thesis using OpSetInitialPassword users_ok_touched [OF _ ok] by simp
next
  case (OpDeactivate flt act uid ip)
  have "touched account_kept st (snd (Deactivate flt t act uid ip st))"
    by (rule kept.Deactivate_touched) (simp add: account_kept_def)
  then show ?thesis using OpDeactivate users_ok_touched [OF _ ok] by simp
next
  case (OpReactivate flt act uid ip)
  have "touched account_kept st (snd (Reactivate flt act uid ip st))"
    by (rule kept.Reactivate_touched) (simp add: account_kept_def)
  then show ?thesis using OpReactivate users_ok_touched [OF _ ok] by simp
next
  case (OpCreate flt salt act role req ip seen)
  then show ?thesis using Create_users_ok [OF ok] by simp
next
  case (OpUpdate flt act role uid req ip)
  then show ?thesis using Update_users_ok [OF ok] by simp
qed

lemma run_users_ok: "users_ok st \<Longrightarrow> users_ok (auth_run ext cfg ops st)"
  by (rule run_invariant [where ok = "\<lambda>_ _. True"]) (auto simp: list_all_iff intro: exec_users_ok)

section \<open>A deleted account\<close>

definition stays_deleted :: "id64 \<Rightarrow> user_row \<Rightarrow> user_row \<Rightarrow> bool" where
  "stays_deleted uid u u' \<longleftrightarrow> us_id u' = us_id u
     \<and> (us_id u = uid \<longrightarrow> us_deleted_at u \<noteq> None \<longrightarrow> us_deleted_at u' \<noteq> None)"

interpretation gone: row_relation "stays_deleted uid"
  by unfold_locales (auto simp: stays_deleted_def)

definition deleted :: "id64 \<Rightarrow> auth_st \<Rightarrow> bool" where
  "deleted uid st \<longleftrightarrow> (\<exists>u \<in> set (au_users st). us_id u = uid \<and> us_deleted_at u \<noteq> None)"

fun reactivates :: "id64 \<Rightarrow> auth_op \<Rightarrow> bool" where
  "reactivates uid (OpReactivate _ _ target _) \<longleftrightarrow> target = uid"
| "reactivates uid _ \<longleftrightarrow> False"

lemma deleted_touched:
  assumes "touched (stays_deleted uid) st st'" "deleted uid st"
  shows "deleted uid st'"
proof -
  obtain u where u: "u \<in> set (au_users st)" "us_id u = uid" "us_deleted_at u \<noteq> None"
    using assms(2) by (auto simp: deleted_def)
  obtain u' where "u' \<in> set (au_users st')" "stays_deleted uid u u'"
    using touched_row_after [OF assms(1) u(1)] .
  then show ?thesis using u by (auto simp: deleted_def stays_deleted_def)
qed

lemma login_updates_deleted: "login_updates (stays_deleted uid) x"
  by (simp add: login_updates_def stays_deleted_def)

lemma exec_deleted:
  assumes d: "deleted uid st" and n: "\<not> reactivates uid op"
  shows "deleted uid (auth_exec ext cfg t op st)"
proof (cases op)
  case (OpLogin flt jti req)
  then show ?thesis
    using deleted_touched [OF gone.Login_touched d] login_updates_deleted by simp
next
  case (OpRefresh flt jti tok)
  then show ?thesis using deleted_touched [OF gone.Refresh_touched d] by simp
next
  case (OpLogout flt tok)
  then show ?thesis using deleted_touched [OF gone.Logout_touched d] by simp
next
  case (OpChangePassword flt salt x old new ip)
  have "touched (stays_deleted uid) st (snd (ChangePassword ext flt t salt x old new ip st))"
    by (rule gone.ChangePassword_touched) (simp add: stays_deleted_def)
  then show ?thesis using OpChangePassword deleted_touched [OF _ d] by simp
next
  case (OpSetInitialPassword flt salt act x new ip)
  have "touched (stays_deleted uid) st (snd (SetInitialPassword ext flt t salt act x new ip st))"
    by (rule gone.SetInitialPassword_touched) (simp add: stays_deleted_def)
  then show ?thesis using OpSetInitialPassword deleted_touched [OF _ d] by simp
next
  case (OpDeactivate flt act x ip)
  have "touched (stays_deleted uid) st (snd (Deactivate flt t act x ip st))"
    by (rule gone.Deactivate_touched) (simp add: stays_deleted_def)
  then show ?thesis using OpDeactivate deleted_touched [OF _ d] by simp
next
  case (OpReactivate flt act x ip)
  have "touched (stays_deleted uid) st (snd (Reactivate flt act x ip st))"
    by (rule gone.Reactivate_touched) (use n OpReactivate in \<open>auto simp: stays_deleted_def\<close>)
  then show ?thesis using OpReactivate deleted_touched [OF _ d] by simp
next
  case (OpCreate flt salt act role req ip seen)
  show ?thesis unfolding OpCreate auth_exec.simps
    using d by (cases rule: Create_cases [of ext flt salt act role req ip "st\<lparr>au_users := seen\<rparr>" st])
      (auto simp: deleted_def)
next
  case (OpUpdate flt act role x req ip)
  have "touched (stays_deleted uid) st (snd (UserAdminService_Update ext flt act role x req ip st st))"
    by (rule gone.Update_touched) (simp add: stays_deleted_def update_columns_def)
  then show ?thesis using OpUpdate deleted_touched [OF _ d] by simp
qed

lemma deleted_not_found:
  assumes ok: "users_ok st" and d: "deleted uid st"
  shows "GetUserProfile st uid = None" "FindUserByID st uid = None"
    "FindUserByEmail st email = Some user \<Longrightarrow> ur_ID user \<noteq> uid"
proof -
  have gone: "us_deleted_at u \<noteq> None" if "u \<in> set (au_users st)" "us_id u = uid" for u
  proof -
    obtain w where w: "w \<in> set (au_users st)" "us_id w = uid" "us_deleted_at w \<noteq> None"
      using d by (auto simp: deleted_def)
    have "u = w" using distinct_key_eq [OF users_okD(2) [OF ok] that(1) w(1)] that(2) w(2) by simp
    then show ?thesis using w(3) by simp
  qed
  have "find_row (\<lambda>u. us_id u = uid \<and> us_deleted_at u = None) (au_users st) = None"
    unfolding find_row_None using gone by blast
  then show "GetUserProfile st uid = None" "FindUserByID st uid = None"
    by (simp_all add: GetUserProfile_def FindUserByID_def)
  assume "FindUserByEmail st email = Some user"
  then show "ur_ID user \<noteq> uid"
    using gone user_record_of_Some by (elim FindUserByEmail_Some) metis
qed

end
