(* ===== verification/Auth_Sessions.thy ===== *)
theory Auth_Sessions
  imports Auth_Runs
begin

text \<open>
  Locked accounts, revoked refresh tokens and the lifetime of sessions.

  \<open>revocation_list\<close> is the contract the token service has with its blacklist: what was added is found
  until its time runs out. It is proved for \<open>RedisTokenBlacklist\<close>.
\<close>

section \<open>A locked account\<close>

definition stays_locked :: "id64 \<Rightarrow> timestamp \<Rightarrow> user_row \<Rightarrow> user_row \<Rightarrow> bool" where
  "stays_locked uid until u u' \<longleftrightarrow> us_id u' = us_id u
     \<and> (us_id u = uid \<longrightarrow> us_locked_until u = Some until \<longrightarrow> isLocalAuthSource (us_auth_source u) \<longrightarrow>
          us_locked_until u' = Some until \<and> isLocalAuthSource (us_auth_source u'))"

interpretation barred: row_relation "stays_locked uid until"
  by unfold_locales (auto simp: stays_locked_def)

definition locked :: "id64 \<Rightarrow> timestamp \<Rightarrow> auth_st \<Rightarrow> bool" where
  "locked uid until st \<longleftrightarrow>
     (\<exists>u \<in> set (au_users st). us_id u = uid \<and> us_locked_until u = Some until
        \<and> isLocalAuthSource (us_auth_source u))"

fun resets_password :: "id64 \<Rightarrow> auth_op \<Rightarrow> bool" where
  "resets_password uid (OpChangePassword _ _ target _ _ _) \<longleftrightarrow> target = uid"
| "resets_password uid (OpSetInitialPassword _ _ _ target _ _) \<longleftrightarrow> target = uid"
| "resets_password uid _ \<longleftrightarrow> False"

lemma locked_touched:
  assumes "touched (stays_locked uid until) st st'" "locked uid until st"
  shows "locked uid until st'"
proof -
  obtain u where u: "u \<in> set (au_users st)" "us_id u = uid" "us_locked_until u = Some until"
    "isLocalAuthSource (us_auth_source u)"
    using assms(2) by (auto simp: locked_def)
  obtain u' where "u' \<in> set (au_users st')" "stays_locked uid until u u'"
    using touched_row_after [OF assms(1) u(1)] .
  then show ?thesis using u by (auto simp: locked_def stays_locked_def)
qed

lemma locked_row:
  assumes "users_ok st" "locked uid until st" "u \<in> set (au_users st)" "us_id u = uid"
  shows "us_locked_until u = Some until" "isLocalAuthSource (us_auth_source u)"
proof -
  obtain w where w: "w \<in> set (au_users st)" "us_id w = uid" "us_locked_until w = Some until"
    "isLocalAuthSource (us_auth_source w)"
    using assms(2) by (auto simp: locked_def)
  have "u = w" using distinct_key_eq [OF users_okD(2) [OF assms(1)] assms(3) w(1)] assms(4) w(2) by simp
  then show "us_locked_until u = Some until" "isLocalAuthSource (us_auth_source u)" using w by simp_all
qed

lemma locked_not_admitted:
  assumes "users_ok st" "locked uid until st" "now < until"
    "FindUserByEmail st email = Some user" "ur_ID user = uid"
  shows "\<not> login_admits now user"
proof -
  obtain u where u: "u \<in> set (au_users st)" "user_record_of st u = Some user"
    using FindUserByEmail_Some [OF assms(4)] by metis
  note r = user_record_of_Some [OF u(2)]
  have "us_id u = uid" using r assms(5) by simp
  from locked_row [OF assms(1,2) u(1) this] show ?thesis
    using r assms(3) by (simp add: login_admits_def IsLocked_def)
qed

lemma exec_locked:
  assumes ok: "users_ok st" and l: "locked uid until st" and n: "\<not> resets_password uid op" and t: "t < until"
  shows "locked uid until (auth_exec ext cfg t op st)"
proof (cases op)
  case (OpLogin flt jti req)
  have "touched (stays_locked uid until) st (snd (Login ext cfg flt t jti req st))"
  proof (rule barred.Login_touched)
    fix user assume f: "FindUserByEmail st (lq_Email req) = Some user" "login_admits t user"
    then have "ur_ID user \<noteq> uid" using locked_not_admitted [OF ok l t] by blast
    then show "login_updates (stays_locked uid until) (ur_ID user)"
      by (simp add: login_updates_def stays_locked_def)
  qed
  then show ?thesis using OpLogin locked_touched [OF _ l] by simp
next
  case (OpRefresh flt jti tok)
  then show ?thesis using locked_touched [OF barred.Refresh_touched l] by simp
next
  case (OpLogout flt tok)
  then show ?thesis using locked_touched [OF barred.Logout_touched l] by simp
next
  case (OpChangePassword flt salt x old new ip)
  have "touched (stays_locked uid until) st (snd (ChangePassword ext flt t salt x old new ip st))"
    by (rule barred.ChangePassword_touched) (use n OpChangePassword in \<open>auto simp: stays_locked_def\<close>)
  then show ?thesis using OpChangePassword locked_touched [OF _ l] by simp
next
  case (OpSetInitialPassword flt salt act x new ip)
  have "touched (stays_locked uid until) st (snd (SetInitialPassword ext flt t salt act x new ip st))"
    by (rule barred.SetInitialPassword_touched) (use n OpSetInitialPassword in \<open>auto simp: stays_locked_def\<close>)
  then show ?thesis using OpSetInitialPassword locked_touched [OF _ l] by simp
next
  case (OpDeactivate flt act x ip)
  have "touched (stays_locked uid until) st (snd (Deactivate flt t act x ip st))"
    by (rule barred.Deactivate_touched) (simp add: stays_locked_def)
  then show ?thesis using OpDeactivate locked_touched [OF _ l] by simp
next
  case (OpReactivate flt act x ip)
  have "touched (stays_locked uid until) st (snd (Reactivate flt act x ip st))"
    by (rule barred.Reactivate_touched) (simp add: stays_locked_def)
  then show ?thesis using OpReactivate locked_touched [OF _ l] by simp
next
  case (OpCreate flt salt act role req ip seen)
  show ?thesis unfolding OpCreate auth_exec.simps
    using l by (cases rule: Create_cases [of ext flt salt act role req ip "st\<lparr>au_users := seen\<rparr>" st])
      (auto simp: locked_def)
next
  case (OpUpdate flt act role x req ip)
  have "touched (stays_locked uid until) st (snd (UserAdminService_Update ext flt act role x req ip st st))"
    by (rule barred.Update_touched) (simp add: stays_locked_def update_columns_def)
  then show ?thesis using OpUpdate locked_touched [OF _ l] by simp
qed

lemma run_locked:
  assumes "users_ok st" "locked uid until st"
    and "list_all (\<lambda>(t, op). t < until \<and> \<not> resets_password uid op) ops"
  shows "users_ok (auth_run ext cfg ops st) \<and> locked uid until (auth_run ext cfg ops st)"
  by (rule run_invariant [where ok = "\<lambda>t op. t < until \<and> \<not> resets_password uid op"])
    (use assms exec_users_ok exec_locked in auto)

lemma run_deleted:
  assumes "users_ok st" "deleted uid st" and "list_all (\<lambda>(t, op). \<not> reactivates uid op) ops"
  shows "users_ok (auth_run ext cfg ops st) \<and> deleted uid (auth_run ext cfg ops st)"
  by (rule run_invariant [where ok = "\<lambda>t op. \<not> reactivates uid op"])
    (use assms exec_users_ok exec_deleted in auto)

text \<open>Nobody logs in to a locked account.\<close>

lemma Login_user:
  assumes "Login ext cfg flt now jti req st = (Inr (resp, tok), st')"
  obtains user p idn where "FindUserByEmail st (lq_Email req) = Some user" "login_admits now user"
    "lp_User resp = profile_of user" "selectProvider (ac_providers cfg) (ur_AuthSource user) = Inr p"
    "Authenticate ext flt p st (ur_Username user) (lq_Password req) = Inr idn"
    "login_accepted ext cfg flt now jti req user st = (Inr (resp, tok), st')"
proof (cases rule: Login_cases [of ext cfg flt now jti req st])
  case (accepted user p idn)
  then have L: "login_accepted ext cfg flt now jti req user st = (Inr (resp, tok), st')"
    using assms by simp
  then have "lp_User resp = profile_of user"
    by (auto simp: login_accepted_def login_tokens_def Let_def split: prod.splits option.splits if_splits)
  then show ?thesis using that accepted L by blast
qed (use assms in auto)

lemma locked_no_login:
  assumes "users_ok st" "locked uid until st" "now < until"
    and "Login ext cfg flt now jti req st = (Inr (resp, tok), st')"
  shows "up_ID (lp_User resp) \<noteq> uid"
  using Login_user [OF assms(4)] locked_not_admitted [OF assms(1-3)] by (metis profile_of_def user_profile.select_convs(1))

section \<open>Revoked tokens\<close>

locale revocation_list =
  fixes add :: "timestamp \<Rightarrow> 'r \<Rightarrow> string \<Rightarrow> int \<Rightarrow> 'r"
    and revoked :: "timestamp \<Rightarrow> 'r \<Rightarrow> string \<Rightarrow> bool"
    and slack :: int
  assumes add_revokes: "0 < ttl \<Longrightarrow> t + slack \<le> now + ttl \<Longrightarrow> revoked t (add now r j ttl) j"
    and add_keeps: "j \<noteq> j' \<Longrightarrow> revoked t (add now r j' ttl) j = revoked t r j"
begin

definition revoked_until :: "'r \<Rightarrow> string \<Rightarrow> timestamp \<Rightarrow> bool" where
  "revoked_until r j e \<longleftrightarrow> (\<forall>t. t + slack \<le> e \<longrightarrow> revoked t r j)"

lemma add_until: "now < e \<Longrightarrow> revoked_until (add now r j (e - now)) j e"
  by (simp add: revoked_until_def add_revokes)

lemma later_add_until:
  assumes "revoked_until r j e" and "j' = j \<Longrightarrow> now < e' \<and> e \<le> e'"
  shows "revoked_until (add now r j' (e' - now)) j e"
  unfolding revoked_until_def
proof (intro allI impI)
  fix t assume t: "t + slack \<le> e"
  show "revoked t (add now r j' (e' - now)) j"
  proof (cases "j' = j")
    case True
    then show ?thesis using assms(2) t by (simp add: add_revokes)
  next
    case False
    then show ?thesis using add_keeps [of j j'] assms(1) t by (simp add: revoked_until_def)
  qed
qed

end

definition redis_add :: "timestamp \<Rightarrow> redis \<Rightarrow> string \<Rightarrow> int \<Rightarrow> redis" where
  "redis_add now r j ttl = redis_set r now (blacklistKey j) 1 ttl"

definition redis_revoked :: "timestamp \<Rightarrow> redis \<Rightarrow> string \<Rightarrow> bool" where
  "redis_revoked t r j \<longleftrightarrow> redis_get r t (blacklistKey j) \<noteq> None"

interpretation bl: revocation_list redis_add redis_revoked millisecond
proof
  fix ttl t now r j assume "0 < (ttl :: int)" and t: "t + millisecond \<le> now + ttl"
  then have "now + ttl < now + whole_units millisecond ttl * millisecond + millisecond"
    using whole_units_covers [of millisecond ttl] by linarith
  then show "redis_revoked t (redis_add now r j ttl) j"
    using t \<open>0 < ttl\<close> by (simp add: redis_revoked_def redis_add_def redis_set_def redis_get_def redis_entry_def)
next
  fix j j' :: string and t now r ttl assume "j \<noteq> j'"
  then show "redis_revoked t (redis_add now r j' ttl) j = redis_revoked t r j"
    by (simp add: redis_revoked_def redis_add_def redis_set_def redis_get_def redis_entry_def)
qed

lemma revoked_cong:
  assumes "r' (blacklistKey j) = r (blacklistKey j)"
  shows "bl.revoked_until r' j e = bl.revoked_until r j e"
  using assms by (simp add: bl.revoked_until_def redis_revoked_def redis_get_def redis_entry_def)

lemma BlacklistRefreshToken_cases:
  obtains (unchanged) "snd (BlacklistRefreshToken ext flt now r tok) = r"
  | (added) p e where "jwt_decode ext tok = Some p" "jp_exp p = Some e" "now < e"
      "snd (BlacklistRefreshToken ext flt now r tok) = redis_add now r (jp_jti p) (time_sub e now)"
proof (cases "jwt_decode ext tok")
  case None
  then have "snd (BlacklistRefreshToken ext flt now r tok) = r"
    by (simp add: BlacklistRefreshToken_def jwt_parse_def)
  then show ?thesis by (rule unchanged)
next
  case (Some p)
  show ?thesis
  proof (cases "jp_exp p")
    case None
    then have "snd (BlacklistRefreshToken ext flt now r tok) = r"
      by (simp add: BlacklistRefreshToken_def jwt_parse_def Some split: sum.splits)
    then show ?thesis by (rule unchanged)
  next
    case e: (Some e)
    have "snd (BlacklistRefreshToken ext flt now r tok) = r \<or>
      now < e \<and> snd (BlacklistRefreshToken ext flt now r tok) = redis_add now r (jp_jti p) (time_sub e now)"
      by (simp add: BlacklistRefreshToken_def jwt_parse_def blacklist_add_def redis_add_def Let_def Some e
          split: sum.splits)
    then show ?thesis using unchanged added [OF Some e] by blast
  qed
qed

text \<open>
  Two accepted tokens with one identifier are the same grant: \<open>uuid.New\<close> does not repeat and only
  the service signs.
\<close>

definition jti_identifies :: "auth_ext \<Rightarrow> bool" where
  "jti_identifies ext \<longleftrightarrow> (\<forall>tok tok' p p'. jwt_decode ext tok = Some p \<longrightarrow> jwt_decode ext tok' = Some p' \<longrightarrow>
     jp_jti p \<noteq> [] \<longrightarrow> jp_jti p' = jp_jti p \<longrightarrow> jp_exp p' = jp_exp p)"

lemma time_sub_exact: "now < e \<Longrightarrow> e - now \<le> int64_max \<Longrightarrow> time_sub e now = e - now"
  by (simp add: time_sub_def Let_def int64_min_def)

lemma Blacklist_keeps:
  assumes ident: "jti_identifies ext" and tok: "jwt_decode ext tok = Some p" "jp_jti p \<noteq> []" "jp_exp p = Some e"
    and r: "bl.revoked_until r (jp_jti p) e" and t: "e - now \<le> int64_max"
  shows "bl.revoked_until (snd (BlacklistRefreshToken ext flt now r tok')) (jp_jti p) e"
proof (cases rule: BlacklistRefreshToken_cases [of ext flt now r tok'])
  case unchanged
  then show ?thesis using r by simp
next
  case (added p' e')
  have same: "e' = e" if "jp_jti p' = jp_jti p"
    using ident tok added(1,2) that unfolding jti_identifies_def by (metis option.inject)
  show ?thesis
  proof (cases "jp_jti p' = jp_jti p")
    case True
    then show ?thesis
      using bl.later_add_until [OF r, of "jp_jti p'" now e'] added same time_sub_exact [of now e] t by simp
  next
    case False
    have "snd (BlacklistRefreshToken ext flt now r tok') (blacklistKey (jp_jti p)) = r (blacklistKey (jp_jti p))"
      unfolding added(4) using False by (simp add: redis_add_def redis_set_def)
    then show ?thesis using r revoked_cong by metis
  qed
qed

lemma au_redis_update_user [simp]: "au_redis (update_user uid f st) = au_redis st"
  by (simp add: update_user_def)

lemma au_redis_write_audit [simp]: "au_redis (snd (write_audit flt e st)) = au_redis st"
  by (simp add: write_audit_def)

lemma au_redis_best_effort: "au_redis (f st) = au_redis st \<Longrightarrow> au_redis (best_effort b f st) = au_redis st"
  by (simp add: best_effort_def)

lemma login_rejected_redis:
  "au_redis (login_rejected cfg flt now req user st) (blacklistKey j) = au_redis st (blacklistKey j)"
proof -
  let ?r = "snd (IncrementFailed (ac_limits cfg) (redis_flt flt) now (au_redis st) (lq_Email req) (lq_IP req))"
  have inc: "au_redis (snd (AuthRepository_IncrementFailedLogin flt uid s)) = au_redis s" for uid s
    by (auto simp: AuthRepository_IncrementFailedLogin_def IncrementFailedLogin_def split: option.splits)
  have inc': "au_redis st2 = au_redis s" if "AuthRepository_IncrementFailedLogin flt uid s = (x, st2)" for uid s x st2
    using inc [of uid s] that by simp
  have lock: "au_redis (best_effort b (LockAccount uid x) s) = au_redis s" for b uid x s
    by (simp add: au_redis_best_effort LockAccount_def)
  have "au_redis (login_rejected cfg flt now req user st) = ?r"
    by (auto simp: login_rejected_def Let_def lock inc' split: prod.splits sum.splits dest!: inc')
  moreover have "?r (blacklistKey j) = au_redis st (blacklistKey j)"
    by (rule IncrementFailed_other [OF surjective_pairing]) simp_all
  ultimately show ?thesis by simp
qed

lemma login_accepted_redis:
  "au_redis (snd (login_accepted ext cfg flt now jti req user st)) (blacklistKey j) = au_redis st (blacklistKey j)"
proof -
  have b: "au_redis (best_effort b (UpdateLastLogin now uid) s) = au_redis s"
    "au_redis (best_effort b (MarkPasswordExpired uid) s) = au_redis s"
    "au_redis (best_effort b (ResetLockout uid) s) = au_redis s" for b uid s
    by (simp_all add: au_redis_best_effort user_updates)
  have "snd (ResetUsername (redis_flt flt) r u) (blacklistKey j) = r (blacklistKey j)" for r u
    by (rule ResetUsername_other [OF surjective_pairing]) simp
  then show ?thesis
    by (auto simp: login_accepted_def login_tokens_def Let_def b split: prod.splits option.splits)
qed

lemma Login_redis:
  "au_redis (snd (Login ext cfg flt now jti req st)) (blacklistKey j) = au_redis st (blacklistKey j)"
  by (cases rule: Login_cases [of ext cfg flt now jti req st])
    (simp_all add: login_rejected_redis login_accepted_redis)

lemma Refresh_redis:
  "au_redis (snd (AuthHandler_Refresh ext cfg flt now jti tok st)) = au_redis st
   \<or> (\<exists>t. tok = Some t \<and> au_redis (snd (AuthHandler_Refresh ext cfg flt now jti tok st))
          = snd (BlacklistRefreshToken ext (redis_flt flt) now (au_redis st) t))"
  by (auto simp: AuthHandler_Refresh_def Let_def split: option.splits sum.splits prod.splits)

lemma Logout_redis:
  "au_redis (snd (AuthHandler_Logout ext flt now tok st)) = au_redis st
   \<or> (\<exists>t. tok = Some t \<and> au_redis (snd (AuthHandler_Logout ext flt now tok st))
          = snd (BlacklistRefreshToken ext (redis_flt flt) now (au_redis st) t))"
  by (auto simp: AuthHandler_Logout_def Let_def split: option.splits)

lemma account_redis:
  "au_redis (snd (ChangePassword ext flt now salt uid old new ip st)) = au_redis st"
  "au_redis (snd (SetInitialPassword ext flt now salt act uid new ip st)) = au_redis st"
  "au_redis (snd (Deactivate flt now act uid ip st)) = au_redis st"
  "au_redis (snd (Reactivate flt act uid ip st)) = au_redis st"
  by (auto simp: ChangePassword_def SetInitialPassword_def Deactivate_def Reactivate_def user_updates
      split: option.splits sum.splits)

lemma admin_redis:
  "au_redis (snd (UserAdminService_Create ext flt salt act role creq ip view st)) = au_redis st"
  "au_redis (snd (UserAdminService_Update ext flt act role uid req ip view st)) = au_redis st"
proof -
  show "au_redis (snd (UserAdminService_Create ext flt salt act role creq ip view st)) = au_redis st"
    by (cases rule: Create_cases [of ext flt salt act role creq ip view st]) simp_all
  show "au_redis (snd (UserAdminService_Update ext flt act role uid req ip view st)) = au_redis st"
    by (cases rule: Update_cases [of ext flt act role uid req ip view st]) simp_all
qed

lemma exec_revoked:
  assumes ident: "jti_identifies ext" and tok: "jwt_decode ext tok = Some p" "jp_jti p \<noteq> []" "jp_exp p = Some e"
    and r: "bl.revoked_until (au_redis st) (jp_jti p) e" and t: "e - t \<le> int64_max"
  shows "bl.revoked_until (au_redis (auth_exec ext cfg t op st)) (jp_jti p) e"
proof (cases op)
  case (OpLogin flt jti req)
  have "bl.revoked_until (au_redis (snd (Login ext cfg flt t jti req st))) (jp_jti p) e"
    using r Login_redis revoked_cong [where r = "au_redis st"
        and r' = "au_redis (snd (Login ext cfg flt t jti req st))" and j = "jp_jti p"] by blast
  then show ?thesis using OpLogin by simp
next
  case (OpRefresh flt jti tok')
  then show ?thesis using Refresh_redis [of ext cfg flt t jti tok' st] r Blacklist_keeps [OF ident tok r t] by auto
next
  case (OpLogout flt tok')
  then show ?thesis using Logout_redis [of ext flt t tok' st] r Blacklist_keeps [OF ident tok r t] by auto
qed (use r in \<open>simp_all add: account_redis admin_redis\<close>)

lemma run_revoked:
  assumes "jti_identifies ext" and "jwt_decode ext tok = Some p" "jp_jti p \<noteq> []" "jp_exp p = Some e"
    and "bl.revoked_until (au_redis st) (jp_jti p) e" and "list_all (\<lambda>(t, op). e - t \<le> int64_max) ops"
  shows "bl.revoked_until (au_redis (auth_run ext cfg ops st)) (jp_jti p) e"
  by (rule run_invariant [where ok = "\<lambda>t op. e - t \<le> int64_max"])
    (use assms exec_revoked [OF assms(1-4)] in auto)

section \<open>Session lifetime\<close>

text \<open>
  What the JWT library promises: a token it signed is not empty and decodes to the claims it was given, verified or
  not. The claims a service signs have whole-second times.
\<close>

definition whole_seconds :: "jwt_payload \<Rightarrow> bool" where
  "whole_seconds p \<longleftrightarrow> (\<forall>t \<in> set_option (jp_iat p) \<union> set_option (jp_exp p) \<union> set_option (jp_nbf p). t mod second = 0)"

definition jwt_sound :: "auth_ext \<Rightarrow> bool" where
  "jwt_sound ext \<longleftrightarrow> (\<forall>p tok. whole_seconds p \<longrightarrow> jwt_encode ext p = Some tok \<longrightarrow>
     tok \<noteq> [] \<and> jwt_decode ext tok = Some p \<and> jwt_peek ext tok = Some p)"

lemma payload_whole_seconds:
  "whole_seconds (access_payload cfg idn now d)" "whole_seconds (refresh_payload idn jti now d)"
  by (simp_all add: whole_seconds_def access_payload_def refresh_payload_def NewNumericDate_def)

lemma RotateTokenPair_tokens:
  assumes "jwt_sound ext" and "RotateTokenPair ext cfg (Some idn) deadline now jti = Some (acc, ref)"
  shows "jwt_decode ext acc = Some (access_payload cfg idn now (effectiveDeadline cfg now deadline))"
    and "jwt_decode ext ref = Some (refresh_payload idn jti now (effectiveDeadline cfg now deadline))"
    and "jwt_peek ext ref = Some (refresh_payload idn jti now (effectiveDeadline cfg now deadline))"
    and "acc \<noteq> []"
proof -
  have "jwt_encode ext (access_payload cfg idn now (effectiveDeadline cfg now deadline)) = Some acc"
    "jwt_encode ext (refresh_payload idn jti now (effectiveDeadline cfg now deadline)) = Some ref"
    using assms(2) by (auto simp: RotateTokenPair_def generateAccessToken_def generateRefreshToken_def Let_def
        split: option.splits)
  note enc = this
  have law: "tok \<noteq> [] \<and> jwt_decode ext tok = Some p \<and> jwt_peek ext tok = Some p"
    if "whole_seconds p" "jwt_encode ext p = Some tok" for p tok
    using assms(1) that by (simp add: jwt_sound_def)
  note a = law [OF payload_whole_seconds(1) enc(1)] and r = law [OF payload_whole_seconds(2) enc(2)]
  show "jwt_decode ext acc = Some (access_payload cfg idn now (effectiveDeadline cfg now deadline))"
    "jwt_decode ext ref = Some (refresh_payload idn jti now (effectiveDeadline cfg now deadline))"
    "jwt_peek ext ref = Some (refresh_payload idn jti now (effectiveDeadline cfg now deadline))"
    "acc \<noteq> []"
    using a r by simp_all
qed

lemma trunc_le: "(t :: int) div second * second \<le> t"
  using div_mult_mod_eq [of t second] pos_mod_sign [of second t] by linarith

lemma trunc_mono: "(s :: int) \<le> t \<Longrightarrow> s div second * second \<le> t div second * second"
  by (simp add: zdiv_mono1)

text \<open>
  The tokens of a session that a login at \<open>t0\<close> started: refresh and access token, in pairs. The
  clock shows a time after 1970.
\<close>

inductive session :: "auth_ext \<Rightarrow> auth_config \<Rightarrow> timestamp \<Rightarrow> string \<Rightarrow> string \<Rightarrow> bool"
  for ext cfg t0 where
  started: "Login ext cfg flt t0 jti req st = (Inr (resp, ref), st')
    \<Longrightarrow> session ext cfg t0 ref (lp_AccessToken resp)"
| rotated: "session ext cfg t0 ref acc \<Longrightarrow> 0 \<le> now
    \<Longrightarrow> AuthHandler_Refresh ext cfg flt now jti (Some ref) st = ((AuthLogin resp, CookieSet ref' n), st')
    \<Longrightarrow> session ext cfg t0 ref' (lp_AccessToken resp)"

definition expires_by :: "auth_ext \<Rightarrow> timestamp \<Rightarrow> string \<Rightarrow> bool" where
  "expires_by ext d tok \<longleftrightarrow> (\<exists>p e. jwt_decode ext tok = Some p \<and> jp_exp p = Some e \<and> e \<le> d)"

lemma Login_tokens:
  assumes "Login ext cfg flt now jti req st = (Inr (resp, ref), st')"
  obtains user where "FindUserByEmail st (lq_Email req) = Some user"
    "RotateTokenPair ext (ac_tokens cfg) (Some (identity_of user)) zero_time now jti
       = Some (lp_AccessToken resp, ref)"
proof -
  obtain user p idn where u: "FindUserByEmail st (lq_Email req) = Some user"
    "login_accepted ext cfg flt now jti req user st = (Inr (resp, ref), st')"
    using Login_user [OF assms] by metis
  then have "RotateTokenPair ext (ac_tokens cfg) (Some (identity_of user)) zero_time now jti
      = Some (lp_AccessToken resp, ref)"
    by (auto simp: login_accepted_def login_tokens_def GenerateTokenPair_def Let_def
        split: prod.splits option.splits if_splits)
  with u(1) show ?thesis by (rule that)
qed

lemma Refresh_tokens:
  assumes "AuthHandler_Refresh ext cfg flt now jti (Some tok) st = ((AuthLogin resp, c), st')"
  obtains p e user ref where "ValidateRefreshToken ext (redis_flt flt) now (au_redis st) tok = Inr p"
    "jp_exp p = Some e" "GetUserProfile st (jp_id p) = Some user" "lp_User resp = profile_of user"
    "RotateTokenPair ext (ac_tokens cfg) (Some (refresh_identity user)) e now jti = Some (lp_AccessToken resp, ref)"
    "c = setRefreshCookie now ref (RefreshDeadline ext ref)"
    "st' = st\<lparr>au_redis := snd (BlacklistRefreshToken ext (redis_flt flt) now (au_redis st) tok)\<rparr>"
proof -
  let ?st1 = "st\<lparr>au_redis := snd (BlacklistRefreshToken ext (redis_flt flt) now (au_redis st) tok)\<rparr>"
  have prof: "GetUserProfile ?st1 uid = GetUserProfile st uid" for uid
    by (simp add: GetUserProfile_def role_name_def vendor_name_def branch_name_def)
  show ?thesis
    using assms that
    by (auto simp: AuthHandler_Refresh_def AuthRepository_GetUserProfile_def prof Let_def
        split: option.splits sum.splits if_splits prod.splits)
qed

lemma ValidateRefreshToken_decode:
  "ValidateRefreshToken ext flt now r tok = Inr p \<Longrightarrow> jwt_decode ext tok = Some p \<and> jp_jti p \<noteq> [] \<and> jp_id p \<noteq> 0
     \<and> (\<forall>e. jp_exp p = Some e \<longrightarrow> now < e)"
  by (auto simp: ValidateRefreshToken_def jwt_parse_def split: sum.splits option.splits bool.splits if_splits)

lemma expired_rejected:
  assumes "expires_by ext d tok" "d \<le> now"
  shows "ValidateRefreshToken ext flt now r tok = Inl ErrTokenExpired"
    and "ValidateAccessToken ext now tok = Inl ErrTokenExpired"
  using assms by (auto simp: expires_by_def ValidateRefreshToken_def ValidateAccessToken_def jwt_parse_def)

lemma session_expires:
  assumes sound: "jwt_sound ext" and s: "session ext cfg t0 ref acc"
  shows "expires_by ext (t0 + SessionMaxLifetime (ac_tokens cfg)) ref
       \<and> expires_by ext (t0 + SessionMaxLifetime (ac_tokens cfg)) acc"
  using s
proof induction
  case (started flt jti req st resp ref st')
  obtain user where "RotateTokenPair ext (ac_tokens cfg) (Some (identity_of user)) zero_time t0 jti
      = Some (lp_AccessToken resp, ref)"
    using Login_tokens [OF started] by metis
  note t = RotateTokenPair_tokens [OF sound this]
  let ?d = "t0 + SessionMaxLifetime (ac_tokens cfg)"
  have "minTime x ?d div second * second \<le> ?d" for x
    using trunc_le [of "minTime x ?d"] by (simp add: minTime_def split: if_splits)
  then show ?case using t trunc_le [of ?d]
    by (simp add: expires_by_def access_payload_def refresh_payload_def NewNumericDate_def effectiveDeadline_def)
next
  case (rotated ref acc now flt jti st resp ref' n st')
  let ?d = "t0 + SessionMaxLifetime (ac_tokens cfg)"
  obtain p e user r where v: "ValidateRefreshToken ext (redis_flt flt) now (au_redis st) ref = Inr p"
    and e: "jp_exp p = Some e"
    and rot: "RotateTokenPair ext (ac_tokens cfg) (Some (refresh_identity user)) e now jti
        = Some (lp_AccessToken resp, r)"
    and c: "CookieSet ref' n = setRefreshCookie now r (RefreshDeadline ext r)"
    using Refresh_tokens [OF rotated(3)] by metis
  have r: "r = ref'" using c by (simp add: setRefreshCookie_def)
  have "e \<le> ?d" using rotated.IH ValidateRefreshToken_decode [OF v] e by (auto simp: expires_by_def)
  moreover have "e \<noteq> zero_time"
    using ValidateRefreshToken_decode [OF v] e rotated(2) by (auto simp: zero_time_def)
  ultimately have le: "effectiveDeadline (ac_tokens cfg) now e \<le> ?d"
    by (auto simp: effectiveDeadline_def Let_def)
  have "minTime x (effectiveDeadline (ac_tokens cfg) now e) \<le> ?d" for x
    using le by (simp add: minTime_def)
  then show ?case using RotateTokenPair_tokens [OF sound rot] r le
    by (auto simp: expires_by_def access_payload_def refresh_payload_def NewNumericDate_def
        intro: order_trans [OF trunc_le])
qed

end
