(* ===== verification/Auth_Properties.thy ===== *)
theory Auth_Properties
  imports Auth_Sessions
begin

text \<open>
  The properties of authentication: who can log in, lockout, sessions, revocation and the users
  table. The examples use a company with one internal user and one JWT library that knows the
  tokens of one session.
\<close>

section \<open>Lemmas\<close>

lemma selectProvider_local:
  assumes "selectProvider ps src = Inr p"
  shows "p = LocalProvider \<and> isLocalAuthSource src"
  using assms
  by (induction ps) (auto simp: Supports_def isLocalAuthSource_def split: if_splits provider.splits)

lemma Authenticate_row:
  assumes ok: "users_ok st" and u: "u \<in> set (au_users st)" "us_username u = name"
    and a: "Authenticate ext flt p st name pw = Inr idn"
  shows "\<exists>h. us_password_hash u = Some h \<and> bcrypt_matches ext h pw"
proof -
  obtain user where f: "FindUserByUsername st name = Some user"
    and h: "\<exists>h. ur_PasswordHash user = Some h \<and> bcrypt_matches ext h pw"
    using a by (auto simp: Authenticate_def AuthRepository_FindByUsername_def
        split: provider.splits option.splits if_splits)
  obtain w where w: "w \<in> set (au_users st)" "us_username w = name" "user_record_of st w = Some user"
    using FindUserByUsername_Some [OF f] by metis
  have "us_id w = us_id u" by (rule unique_byD [OF users_okD(4) [OF ok] w(1) u(1)]) (use w(2) u(2) in simp_all)
  then have "w = u" using distinct_key_eq [OF users_okD(2) [OF ok] w(1) u(1)] by simp
  then show ?thesis using h user_record_of_Some [OF w(3)] by simp
qed

lemma update_user_row:
  "u \<in> set (au_users st) \<Longrightarrow> us_id u = uid \<Longrightarrow> f u \<in> set (au_users (update_user uid f st))"
  by (force simp: update_user_def update_where_def)

lemma login_accepted_ok:
  assumes "login_accepted ext cfg flt now jti req user st = (Inr (resp, ref), st')"
  shows "isLocalAuthSource (ur_AuthSource user) \<Longrightarrow> \<not> fst (PasswordExpiry (ur_PasswordChangedAt user) now)"
    and "validatePortalAccess user (lq_PortalType req) = None"
    and "\<exists>d. login_tokens ext cfg flt now jti req user d st = (Inr (resp, ref), st')"
  using assms by (auto simp: login_accepted_def Let_def split: prod.splits option.splits if_splits)

lemma login_tokens_reset:
  assumes "login_tokens ext cfg flt now jti req user d st = (Inr (resp, ref), st')"
    and "u \<in> set (au_users st)" "us_id u = ur_ID user"
  shows "\<exists>u' \<in> set (au_users st'). us_id u' = us_id u
    \<and> (flt AResetLockout \<or> us_failed_login_attempts u' = 0 \<and> us_locked_until u' = None)"
proof -
  define st1 where "st1 = best_effort (flt AUpdateLastLogin) (UpdateLastLogin now (ur_ID user)) st"
  define st2 where "st2 = st1\<lparr>au_redis := snd (ResetUsername (redis_flt flt) (au_redis st1) (lq_Email req))\<rparr>"
  have st': "st' = best_effort (flt AResetLockout) (ResetLockout (ur_ID user)) st2"
    using assms(1) by (auto simp: login_tokens_def st1_def st2_def Let_def split: option.splits)
  obtain u1 where u1: "u1 \<in> set (au_users st1)" "us_id u1 = us_id u"
  proof (cases "flt AUpdateLastLogin")
    case True
    then show ?thesis using that assms(2) by (simp add: st1_def best_effort_def)
  next
    case False
    then show ?thesis
      using that [of "u\<lparr>us_last_login_at := Some now\<rparr>"] update_user_row [OF assms(2,3), of "\<lambda>u. u\<lparr>us_last_login_at := Some now\<rparr>"]
      by (simp add: st1_def best_effort_def UpdateLastLogin_def)
  qed
  then have u2: "u1 \<in> set (au_users st2)" "us_id u1 = ur_ID user" using assms(3) by (simp_all add: st2_def)
  show ?thesis
  proof (cases "flt AResetLockout")
    case True
    then show ?thesis using u2 u1(2) st' by (auto simp: best_effort_def)
  next
    case False
    then show ?thesis
      using update_user_row [OF u2, of "\<lambda>u. u\<lparr>us_failed_login_attempts := 0, us_locked_until := None\<rparr>"] st' u1(2)
      by (auto simp: best_effort_def ResetLockout_def intro: bexI [rotated])
  qed
qed

section \<open>The example\<close>

definition demo_user :: user_row where
  "demo_user = \<lparr>us_id = 7, us_role_id = 1, us_employee_id = Some ''E7'', us_username = ''ani'',
     us_full_name = ''Ani'', us_email = ''a@b'', us_is_karyawan = True, us_auth_source = ''local'',
     us_password_hash = Some ''h'', us_vendor_id = None, us_is_active = True, us_last_login_at = None,
     us_deleted_at = None, us_vendor_branch_id = None, us_supervisor_id = None, us_approval_level = None,
     us_password_changed_at = None, us_must_change_password = False, us_failed_login_attempts = 2,
     us_locked_until = None\<rparr>"

definition demo_st :: auth_st where
  "demo_st = \<lparr>au_users = [demo_user], au_roles = [\<lparr>ro_id = 1, ro_role = ''ATM-USER''\<rparr>], au_vendors = [],
     au_branches = [], au_audit = [], au_redis = Map.empty, au_next_id = 8\<rparr>"

definition demo_cfg :: auth_config where
  "demo_cfg = \<lparr>ac_tokens = \<lparr>AccessTokenExpiry = 15 * minute, SessionMaxLifetime = 8 * hour\<rparr>,
     ac_limits = \<lparr>MaxPerUsername = 5, MaxPerIP = 20, Window = 15 * minute\<rparr>,
     ac_providers = [LocalProvider]\<rparr>"

definition demo_req :: "string \<Rightarrow> login_request" where
  "demo_req pw = \<lparr>lq_Email = ''a@b'', lq_Password = pw, lq_PortalType = ''company'', lq_IP = ''10.0.0.1''\<rparr>"

definition demo_identity :: auth_identity where
  "demo_identity = \<lparr>ai_UserID = 7, ai_Username = ''ani'', ai_Role = ''ATM-USER'', ai_IsKaryawan = True,
     ai_VendorID = None, ai_SupervisorID = None, ai_ApprovalLevel = None\<rparr>"

text \<open>A login at second 1000 and a refresh at second 1060, in a session that ends eight hours after.\<close>

definition demo_payloads :: "(string \<times> jwt_payload) list" where
  "demo_payloads = (let d = 1000 * second + 8 * hour in
     [(''acc0'', access_payload (ac_tokens demo_cfg) demo_identity (1000 * second) d),
      (''ref0'', refresh_payload demo_identity ''j0'' (1000 * second) d),
      (''acc1'', access_payload (ac_tokens demo_cfg) demo_identity (1060 * second) d),
      (''ref1'', refresh_payload demo_identity ''j1'' (1060 * second) d)])"

definition demo_ext :: auth_ext where
  "demo_ext = \<lparr>jwt_encode = (\<lambda>p. map_option fst (find_row (\<lambda>x. snd x = p) demo_payloads)),
     jwt_decode = map_of demo_payloads, jwt_peek = map_of demo_payloads,
     bcrypt_matches = (\<lambda>h pw. h = ''h'' \<and> pw = ''rahasia1''), bcrypt_hash = (\<lambda>salt pw. Some ''h2''),
     uni_letter = (\<lambda>_. False), uni_digit = (\<lambda>_. False), mail_ok = (\<lambda>_. True)\<rparr>"

lemmas demo_defs = demo_user_def demo_st_def demo_cfg_def demo_req_def demo_identity_def demo_payloads_def
  demo_ext_def

lemma demo_users_ok: "users_ok demo_st"
  by (simp add: users_ok_def user_ok_def unique_by_def role_name_def IsVendor_def VendorUser_def ATMUser_def
      VaultUser_def demo_defs)

lemma demo_decode:
  "jwt_decode demo_ext tok = Some p \<longleftrightarrow> map_of demo_payloads tok = Some p"
  "jwt_encode demo_ext p = Some tok \<Longrightarrow> map_of demo_payloads tok = Some p"
  by (auto simp: demo_ext_def demo_payloads_def Let_def find_row_simps split: if_splits)

lemma demo_jwt_sound: "jwt_sound demo_ext"
proof -
  have "tok \<noteq> []" if "map_of demo_payloads tok = Some p" for tok p
    using that by (auto simp: demo_payloads_def Let_def split: if_splits)
  moreover have "jwt_peek demo_ext = map_of demo_payloads" "jwt_decode demo_ext = map_of demo_payloads"
    by (simp_all add: demo_ext_def)
  ultimately show ?thesis using demo_decode(2) by (auto simp: jwt_sound_def)
qed

lemma demo_jti_identifies: "jti_identifies demo_ext"
  unfolding jti_identifies_def demo_decode(1) demo_payloads_def
  by (auto simp: Let_def access_payload_def refresh_payload_def split: if_splits)

lemma demo_lookup:
  "FindUserByEmail demo_st ''a@b'' = user_record_of demo_st demo_user"
  "FindUserByUsername demo_st ''ani'' = user_record_of demo_st demo_user"
  by (simp_all add: FindUserByEmail_def FindUserByUsername_def demo_st_def demo_user_def)

lemma demo_input: "pw \<in> {''rahasia1'', ''salah123''} \<Longrightarrow> validateInput (demo_req pw) = None"
  by (auto simp: validateInput_def demo_req_def) (code_simp)+

lemma demo_selects:
  "lq_Email (demo_req pw) = ''a@b''" "lq_Password (demo_req pw) = pw" "lq_PortalType (demo_req pw) = ''company''"
  "lq_IP (demo_req pw) = ''10.0.0.1''" "ac_providers demo_cfg = [LocalProvider]"
  by (simp_all add: demo_req_def demo_cfg_def)

lemma demo_account:
  "us_id demo_user = 7" "us_email demo_user = ''a@b''" "us_deleted_at demo_user = None" "us_is_active demo_user"
  "us_auth_source demo_user = ''local''" "us_locked_until demo_user = None" "us_failed_login_attempts demo_user = 2"
  "us_password_hash demo_user = Some ''h''" "au_users demo_st = [demo_user]"
  "bcrypt_matches demo_ext h pw = (h = ''h'' \<and> pw = ''rahasia1'')"
  by (simp_all add: demo_user_def demo_st_def demo_ext_def)

lemma demo_check:
  "Check (ac_limits demo_cfg) (\<lambda>_. False) t (au_redis demo_st) e i = None"
  by (simp add: Check_def redis_get_def redis_entry_def demo_cfg_def demo_st_def)

lemma demo_tokens:
  "GenerateTokenPair demo_ext (ac_tokens demo_cfg) (Some demo_identity) (1000 * second) ''j0'' = Some (''acc0'', ''ref0'')"
  by (simp add: GenerateTokenPair_def RotateTokenPair_def effectiveDeadline_def generateAccessToken_def
      generateRefreshToken_def demo_ext_def demo_payloads_def demo_cfg_def Let_def access_payload_def refresh_payload_def)

lemma demo_login:
  "\<exists>resp st'. Login demo_ext demo_cfg (\<lambda>_. False) (1000 * second) ''j0'' (demo_req ''rahasia1'') demo_st
     = (Inr (resp, ''ref0''), st') \<and> lp_AccessToken resp = ''acc0'' \<and> up_ID (lp_User resp) = 7
     \<and> up_Username (lp_User resp) = ''ani'' \<and> up_Role (lp_User resp) = ''ATM-USER''"
proof -
  obtain user where u: "user_record_of demo_st demo_user = Some user"
    and f: "ur_ID user = 7" "ur_DeletedAt user = None" "ur_IsActive user" "ur_LockedUntil user = None"
      "ur_AuthSource user = ''local''" "ur_Username user = ''ani''" "ur_PasswordHash user = Some ''h''"
      "ur_PasswordChangedAt user = None" "ur_IsKaryawan user" "ur_Role user = ''ATM-USER''" "identity_of user = demo_identity"
    by (simp add: user_record_of_def role_name_def demo_st_def demo_user_def identity_of_def demo_identity_def)
  have "Authenticate demo_ext (\<lambda>_. False) LocalProvider demo_st ''ani'' ''rahasia1'' = Inr demo_identity"
    using u f by (simp add: Authenticate_def AuthRepository_FindByUsername_def demo_lookup demo_ext_def)
  then have "Login demo_ext demo_cfg (\<lambda>_. False) (1000 * second) ''j0'' (demo_req ''rahasia1'') demo_st
      = login_accepted demo_ext demo_cfg (\<lambda>_. False) (1000 * second) ''j0'' (demo_req ''rahasia1'') user demo_st"
    using u f unfolding Login_def
    by (simp add: demo_input demo_check AuthRepository_FindByEmail_def demo_lookup demo_selects IsLocked_def
        Supports_def)
  then show ?thesis
    using f demo_tokens
    by (simp add: login_accepted_def login_tokens_def PasswordExpiry_def validatePortalAccess_def profile_of_def
        demo_selects Let_def)
qed

section \<open>Who can log in\<close>

text \<open>
  C21: A login that succeeds was made with the email of an account that is active, not deleted, not
  locked, authenticated in the database and with an unexpired password, with the password of that
  account and from the portal of its kind; the response names that account, and its counter of
  failures and its lock are cleared, unless that statement fails.
\<close>

theorem Login_grants:
  assumes ok: "users_ok st" and L: "Login ext cfg flt now jti req st = (Inr (resp, ref), st')"
  shows "\<exists>u \<in> set (au_users st). us_email u = lq_Email req \<and> up_ID (lp_User resp) = us_id u
     \<and> us_deleted_at u = None \<and> us_is_active u \<and> isLocalAuthSource (us_auth_source u)
     \<and> \<not> IsLocked (us_locked_until u) now \<and> \<not> fst (PasswordExpiry (us_password_changed_at u) now)
     \<and> (\<exists>h. us_password_hash u = Some h \<and> bcrypt_matches ext h (lq_Password req))
     \<and> lq_PortalType req = (if us_is_karyawan u then ''company'' else ''vendor'')
     \<and> (\<exists>u' \<in> set (au_users st'). us_id u' = us_id u
          \<and> (flt AResetLockout \<or> us_failed_login_attempts u' = 0 \<and> us_locked_until u' = None))"
proof (cases rule: Login_cases [of ext cfg flt now jti req st])
  case (accepted user p idn)
  obtain u where u: "u \<in> set (au_users st)" "us_email u = lq_Email req" "us_deleted_at u = None"
    "user_record_of st u = Some user"
    using FindUserByEmail_Some [OF accepted(1)] by metis
  note r = user_record_of_Some [OF u(4)]
  have loc: "isLocalAuthSource (us_auth_source u)" using selectProvider_local [OF accepted(3)] r by simp
  have A: "login_accepted ext cfg flt now jti req user st = (Inr (resp, ref), st')"
    using L accepted(7) by simp
  note a = login_accepted_ok [OF A]
  obtain d where T: "login_tokens ext cfg flt now jti req user d st = (Inr (resp, ref), st')" using a(3) ..
  have "up_ID (lp_User resp) = us_id u"
    using T r by (auto simp: login_tokens_def profile_of_def Let_def split: option.splits)
  moreover have "lq_PortalType req = ''company'' \<or> lq_PortalType req = ''vendor''"
    using accepted(5) by (auto simp: validateInput_def split: if_splits)
  then have "lq_PortalType req = (if us_is_karyawan u then ''company'' else ''vendor'')"
    using a(2) r by (auto simp: validatePortalAccess_def split: if_splits)
  moreover have "\<exists>h. us_password_hash u = Some h \<and> bcrypt_matches ext h (lq_Password req)"
    using Authenticate_row [OF ok u(1) _ accepted(4)] r by simp
  moreover have "us_is_active u" "\<not> IsLocked (us_locked_until u) now"
    using accepted(2) r loc by (simp_all add: login_admits_def)
  moreover have "\<not> fst (PasswordExpiry (us_password_changed_at u) now)" using a(1) r loc by simp
  moreover note login_tokens_reset [OF T u(1)]
  ultimately show ?thesis using u loc r by (intro bexI [OF _ u(1)]) simp
qed (use L in auto)

theorem Login_grants_witness:
  "\<exists>resp st' u. Login demo_ext demo_cfg (\<lambda>_. False) (1000 * second) ''j0'' (demo_req ''rahasia1'') demo_st
       = (Inr (resp, ''ref0''), st')
     \<and> u \<in> set (au_users demo_st) \<and> us_email u = ''a@b'' \<and> \<not> IsLocked (us_locked_until u) (1000 * second)"
proof -
  obtain resp st' where L: "Login demo_ext demo_cfg (\<lambda>_. False) (1000 * second) ''j0'' (demo_req ''rahasia1'') demo_st
     = (Inr (resp, ''ref0''), st')" using demo_login by blast
  from Login_grants [OF demo_users_ok L] show ?thesis using L demo_selects(1) by auto
qed

section \<open>Lockout\<close>

lemma login_rejected_users:
  assumes "find_row (\<lambda>u. us_id u = ur_ID user) (au_users st) = Some u"
    and "isLocalAuthSource (ur_AuthSource user)" and "us_failed_login_attempts u < int32_max"
    and "\<not> flt AIncrementFailed" "\<not> flt ALockAccount"
    and same: "\<And>w. w \<in> set (au_users st) \<Longrightarrow> us_id w = ur_ID user \<Longrightarrow> w = u"
  shows "au_users (login_rejected cfg flt now req user st) =
    update_where (\<lambda>w. us_id w = ur_ID user)
      (\<lambda>w. w\<lparr>us_failed_login_attempts := us_failed_login_attempts w + 1,
             us_locked_until := (if us_failed_login_attempts w + 1 \<ge> MaxFailedLogins
                                 then Some (now + LockoutDuration) else us_locked_until w)\<rparr>) (au_users st)"
  using assms(1-5)
  by (auto simp: login_rejected_def Let_def AuthRepository_IncrementFailedLogin_def IncrementFailedLogin_def
      update_user_def best_effort_def LockAccount_def update_where_def comp_def dest!: same intro!: map_cong)

lemma find_row_id:
  assumes "users_ok st" "u \<in> set (au_users st)"
  shows "find_row (\<lambda>w. us_id w = us_id u) (au_users st) = Some u"
  using find_row_key [OF users_okD(2) [OF assms(1)] assms(2)] by simp

lemma find_row_unique:
  assumes "u \<in> set rs" "p u" "\<And>w. w \<in> set rs \<Longrightarrow> p w \<Longrightarrow> w = u"
  shows "find_row p rs = Some u"
proof (cases "find_row p rs")
  case None
  then show ?thesis using assms(1,2) by (simp add: find_row_None)
next
  case (Some w)
  then show ?thesis using find_row_Some [OF Some] assms(3) by simp
qed

lemma find_row_live:
  assumes ok: "users_ok st" and u: "u \<in> set (au_users st)" "us_deleted_at u = None"
  shows "find_row (\<lambda>w. us_email w = us_email u \<and> us_deleted_at w = None) (au_users st) = Some u"
    and "find_row (\<lambda>w. us_username w = us_username u \<and> us_deleted_at w = None) (au_users st) = Some u"
proof -
  have same: "w = u" if "w \<in> set (au_users st)" "us_email w = us_email u \<or> us_username w = us_username u" for w
  proof -
    have "us_id w = us_id u"
      using unique_byD [OF users_okD(3) [OF ok] that(1) u(1)] unique_byD [OF users_okD(4) [OF ok] that(1) u(1)] that(2)
      by auto
    then show ?thesis using distinct_key_eq [OF users_okD(2) [OF ok] that(1) u(1)] by simp
  qed
  show "find_row (\<lambda>w. us_email w = us_email u \<and> us_deleted_at w = None) (au_users st) = Some u"
    "find_row (\<lambda>w. us_username w = us_username u \<and> us_deleted_at w = None) (au_users st) = Some u"
    by (rule find_row_unique [OF u(1)]; use u(2) same in simp)+
qed

text \<open>
  A wrong password for a local account that may log in is answered as invalid credentials,
  adds one to the account's counter and, from the third on, locks the account for thirty minutes;
  no other row and no other column of \<open>users\<close> changes. The counter is not reset when a lock runs
  out: an account whose earlier lock has expired is locked again by its first wrong password.
\<close>

lemma failed_login_counts:
  assumes ok: "users_ok st" and u: "u \<in> set (au_users st)" and email: "us_email u = lq_Email req"
    and live: "us_deleted_at u = None" "us_is_active u" "isLocalAuthSource (us_auth_source u)"
      "\<not> IsLocked (us_locked_until u) now"
    and few: "us_failed_login_attempts u < int32_max"
    and wrong: "case us_password_hash u of None \<Rightarrow> True | Some h \<Rightarrow> \<not> bcrypt_matches ext h (lq_Password req)"
    and input: "validateInput req = None"
      "Check (ac_limits cfg) (\<lambda>_. False) now (au_redis st) (lq_Email req) (lq_IP req) = None"
    and prov: "ac_providers cfg = [LocalProvider]"
  shows "fst (Login ext cfg (\<lambda>_. False) now jti req st) = Inl ErrInvalidCredentials
    \<and> au_users (snd (Login ext cfg (\<lambda>_. False) now jti req st)) =
        update_where (\<lambda>w. us_id w = us_id u)
          (\<lambda>w. w\<lparr>us_failed_login_attempts := us_failed_login_attempts w + 1,
                 us_locked_until := (if us_failed_login_attempts w + 1 \<ge> 3
                                     then Some (now + 30 * minute) else us_locked_until w)\<rparr>) (au_users st)"
proof -
  have "role_name st (us_role_id u) \<noteq> None" using users_okD(6) [OF ok u] by (auto simp: user_ok_def)
  then obtain user where rec: "user_record_of st u = Some user" by (auto simp: user_record_of_def)
  note r = user_record_of_Some [OF rec]
  have f: "FindUserByEmail st (lq_Email req) = Some user"
    unfolding FindUserByEmail_def email [symmetric] using find_row_live(1) [OF ok u live(1)] rec by simp
  have n: "FindUserByUsername st (us_username u) = Some user"
    unfolding FindUserByUsername_def using find_row_live(2) [OF ok u live(1)] rec by simp
  have "\<exists>e. Authenticate ext (\<lambda>_. False) LocalProvider st (us_username u) (lq_Password req) = Inl e"
    using n wrong r by (auto simp: Authenticate_def AuthRepository_FindByUsername_def split: option.splits)
  moreover have "Supports LocalProvider (ur_AuthSource user)"
    using live(3) r by (simp add: Supports_def isLocalAuthSource_def)
  ultimately have L: "Login ext cfg (\<lambda>_. False) now jti req st
      = (Inl ErrInvalidCredentials, login_rejected cfg (\<lambda>_. False) now req user st)"
    unfolding Login_def using input f live r by (auto simp: AuthRepository_FindByEmail_def prov)
  have id: "ur_ID user = us_id u" using r by simp
  have "au_users (login_rejected cfg (\<lambda>_. False) now req user st) =
    update_where (\<lambda>w. us_id w = ur_ID user)
      (\<lambda>w. w\<lparr>us_failed_login_attempts := us_failed_login_attempts w + 1,
             us_locked_until := (if us_failed_login_attempts w + 1 \<ge> MaxFailedLogins
                                 then Some (now + LockoutDuration) else us_locked_until w)\<rparr>) (au_users st)"
  proof (rule login_rejected_users)
    show "find_row (\<lambda>u. us_id u = ur_ID user) (au_users st) = Some u" unfolding id by (rule find_row_id [OF ok u])
    show "isLocalAuthSource (ur_AuthSource user)" using live(3) r by simp
    show "w = u" if "w \<in> set (au_users st)" "us_id w = ur_ID user" for w
      using distinct_key_eq [OF users_okD(2) [OF ok] that(1) u] that(2) id by simp
  qed (use few in simp_all)
  then show ?thesis unfolding L id MaxFailedLogins_def LockoutDuration_def by simp
qed

lemma failed_login_counts_witness:
  "fst (Login demo_ext demo_cfg (\<lambda>_. False) (1000 * second) ''j0'' (demo_req ''salah123'') demo_st)
       = Inl ErrInvalidCredentials
   \<and> au_users (snd (Login demo_ext demo_cfg (\<lambda>_. False) (1000 * second) ''j0'' (demo_req ''salah123'') demo_st))
       = [demo_user\<lparr>us_failed_login_attempts := 3, us_locked_until := Some (2800 * second)\<rparr>]"
proof -
  have "demo_user \<in> set (au_users demo_st)" by (simp add: demo_st_def)
  then have "fst (Login demo_ext demo_cfg (\<lambda>_. False) (1000 * second) ''j0'' (demo_req ''salah123'') demo_st)
       = Inl ErrInvalidCredentials
    \<and> au_users (snd (Login demo_ext demo_cfg (\<lambda>_. False) (1000 * second) ''j0'' (demo_req ''salah123'') demo_st)) =
        update_where (\<lambda>w. us_id w = us_id demo_user)
          (\<lambda>w. w\<lparr>us_failed_login_attempts := us_failed_login_attempts w + 1,
                 us_locked_until := (if us_failed_login_attempts w + 1 \<ge> 3
                                     then Some (1000 * second + 30 * minute) else us_locked_until w)\<rparr>) (au_users demo_st)"
    by (rule failed_login_counts [OF demo_users_ok])
      (simp_all add: demo_input demo_check demo_selects demo_account isLocalAuthSource_def IsLocked_def int32_max_def)
  then show ?thesis by (simp add: demo_account)
qed

text \<open>
  C6: While an account is locked nobody logs in to it, with whatever password: from any state in which
  the account is locked until some time, after any sequence of operations before that time that
  does not change or set its password, a login before that time does not open it, and it is still
  locked.
\<close>

theorem lockout_blocks:
  assumes "users_ok st" "locked uid until st"
    and "list_all (\<lambda>(t, op). t < until \<and> \<not> resets_password uid op) ops" and "now < until"
  shows "locked uid until (auth_run ext cfg ops st)
    \<and> (\<forall>flt jti req resp ref st'.
         Login ext cfg flt now jti req (auth_run ext cfg ops st) = (Inr (resp, ref), st') \<longrightarrow> up_ID (lp_User resp) \<noteq> uid)"
  using run_locked [OF assms(1-3)] locked_no_login [OF _ _ assms(4)] by blast

definition demo_locked :: auth_st where
  "demo_locked = demo_st\<lparr>au_users := [demo_user\<lparr>us_failed_login_attempts := 3, us_locked_until := Some (2800 * second)\<rparr>]\<rparr>"

lemma demo_locked_ok: "users_ok demo_locked" "locked 7 (2800 * second) demo_locked"
  by (simp_all add: demo_locked_def users_ok_def user_ok_def unique_by_def role_name_def IsVendor_def VendorUser_def
      ATMUser_def VaultUser_def locked_def isLocalAuthSource_def demo_defs)

theorem lockout_blocks_witness:
  "locked 7 (2800 * second) (auth_run demo_ext demo_cfg
     [(1001 * second, OpLogin (\<lambda>_. False) ''j0'' (demo_req ''rahasia1'')), (1002 * second, OpLogout (\<lambda>_. False) None)]
     demo_locked)"
  using lockout_blocks [OF demo_locked_ok,
      of "[(1001 * second, OpLogin (\<lambda>_. False) ''j0'' (demo_req ''rahasia1'')), (1002 * second, OpLogout (\<lambda>_. False) None)]"
        "1003 * second"]
  by simp

section \<open>Accounts\<close>

text \<open>
  C24: Every sequence of operations keeps the \<open>users\<close> table well formed: ids, emails, usernames and
  employee numbers are unique, a supervisor is another existing user, the role exists, an account of
  LDAP has no password, an account with a role of the vendor portal is local and has a vendor, and a
  branch is set only for such a role and belongs to that vendor. \<open>Create\<close> keeps this whatever its
  checks read of \<open>users\<close>.
\<close>

theorem users_table_wellformed:
  assumes "users_ok st"
  shows "users_ok (auth_run ext cfg ops st)"
  using assms by (rule run_users_ok)

theorem users_table_wellformed_witness:
  "users_ok (auth_run demo_ext demo_cfg
     [(1000 * second, OpLogin (\<lambda>_. False) ''j0'' (demo_req ''rahasia1'')),
      (1001 * second, OpDeactivate (\<lambda>_. False) 3 7 ''10.0.0.1'')] demo_st)"
  by (rule users_table_wellformed [OF demo_users_ok])

lemma GetUserProfile_id:
  assumes "GetUserProfile st uid = Some user"
  shows "ur_ID user = uid"
proof -
  obtain u where "find_row (\<lambda>u. us_id u = uid \<and> us_deleted_at u = None) (au_users st) = Some u" "ur_ID user = us_id u"
    using assms by (auto simp: GetUserProfile_def bind_eq_Some_conv)
  then show ?thesis using find_row_Some by fastforce
qed

text \<open>
  Once an account is deactivated, and until it is reactivated, nobody logs in to it, no refresh
  token of it is renewed and its password cannot be changed, whatever operations run in between.
\<close>

lemma deactivated_kept_out:
  assumes ok: "users_ok st" and d: "Deactivate flt0 t act uid ip st = (None, st1)"
    and ops: "list_all (\<lambda>(t, op). \<not> reactivates uid op) ops" and st2: "st2 = auth_run ext cfg ops st1"
  shows "(\<forall>flt now jti req resp ref st'. Login ext cfg flt now jti req st2 = (Inr (resp, ref), st')
            \<longrightarrow> up_ID (lp_User resp) \<noteq> uid)
    \<and> (\<forall>flt now jti tok resp c st'. AuthHandler_Refresh ext cfg flt now jti (Some tok) st2 = ((AuthLogin resp, c), st')
            \<longrightarrow> up_ID (lp_User resp) \<noteq> uid)
    \<and> (\<forall>flt now salt old new ip'. snd (ChangePassword ext flt now salt uid old new ip' st2) = st2)"
proof -
  have st1: "users_ok st1"
    using exec_users_ok [OF ok, of ext cfg t "OpDeactivate flt0 act uid ip"] d by simp
  obtain user where "FindUserByID st uid = Some user" and w: "write_audit flt0
      (audit_entry act ''user_deactivated'' ''user'' uid None None ip) (DeactivateUser t uid st) = (None, st1)"
    using d by (auto simp: Deactivate_def AuthRepository_FindByID_def split: option.splits if_splits)
  then obtain u where u: "u \<in> set (au_users st)" "us_id u = uid" using FindUserByID_Some by metis
  have "au_users st1 = au_users (DeactivateUser t uid st)"
    using w by (auto simp: write_audit_def split: if_splits)
  then have "deleted uid st1"
    using update_user_row [OF u, of "\<lambda>u. u\<lparr>us_is_active := False, us_deleted_at := Some t\<rparr>"] u(2)
    by (auto simp: deleted_def DeactivateUser_def intro!: bexI [rotated])
  with run_deleted [OF st1 _ ops] have r: "users_ok st2" "deleted uid st2" by (simp_all add: st2)
  note gone = deleted_not_found [OF r]
  have a: "up_ID (lp_User resp) \<noteq> uid"
    if "Login ext cfg flt now jti req st2 = (Inr (resp, ref), st')" for flt now jti req resp ref st'
    using Login_user [OF that] gone(3) by (metis profile_of_def user_profile.select_convs(1))
  have b: "up_ID (lp_User resp) \<noteq> uid"
    if R: "AuthHandler_Refresh ext cfg flt now jti (Some tok) st2 = ((AuthLogin resp, c), st')" for flt now jti tok resp c st'
  proof (rule Refresh_tokens [OF R])
    fix p user assume f: "GetUserProfile st2 (jp_id p) = Some user" and l: "lp_User resp = profile_of user"
    have "ur_ID user = jp_id p" by (rule GetUserProfile_id [OF f])
    moreover have "jp_id p \<noteq> uid" using f gone(1) by (cases "jp_id p = uid") simp_all
    ultimately show ?thesis by (simp add: l profile_of_def)
  qed
  have c: "snd (ChangePassword ext flt now salt uid old new ip' st2) = st2" for flt now salt old new ip'
    using gone(2) by (simp add: ChangePassword_def AuthRepository_FindByID_def)
  show ?thesis by (intro conjI allI impI) (erule a, erule b, rule c)
qed

definition demo_deactivated :: auth_st where
  "demo_deactivated = snd (Deactivate (\<lambda>_. False) (1000 * second) 3 7 ''10.0.0.1'' demo_st)"

lemma deactivated_kept_out_witness:
  "snd (ChangePassword demo_ext (\<lambda>_. False) 0 ''s'' 7 ''rahasia1'' ''rahasia22'' ''10.0.0.1''
          (auth_run demo_ext demo_cfg [(1001 * second, OpLogin (\<lambda>_. False) ''j0'' (demo_req ''rahasia1''))] demo_deactivated))
   = auth_run demo_ext demo_cfg [(1001 * second, OpLogin (\<lambda>_. False) ''j0'' (demo_req ''rahasia1''))] demo_deactivated"
proof -
  have "Deactivate (\<lambda>_. False) (1000 * second) 3 7 ''10.0.0.1'' demo_st = (None, demo_deactivated)"
    by (simp add: demo_deactivated_def Deactivate_def AuthRepository_FindByID_def FindUserByID_def user_record_of_def
        role_name_def write_audit_def demo_defs)
  from deactivated_kept_out [OF demo_users_ok this _ refl,
      of "[(1001 * second, OpLogin (\<lambda>_. False) ''j0'' (demo_req ''rahasia1''))]" demo_ext demo_cfg]
  show ?thesis by simp
qed

section \<open>Sessions\<close>

text \<open>
  C22: However often a session is refreshed, it ends at the latest \<open>SessionMaxLifetime\<close> after the
  login that started it: from then on every refresh token and every access token issued in it is
  rejected as expired, and a refresh request with it is answered with 401. This rests on what
  the JWT library promises: signed claims are read back unchanged.
\<close>

theorem session_ends_on_time:
  assumes "jwt_sound ext" and "session ext cfg t0 ref acc" and "t0 + SessionMaxLifetime (ac_tokens cfg) \<le> now"
  shows "ValidateRefreshToken ext flt now r ref = Inl ErrTokenExpired
    \<and> ValidateAccessToken ext now acc = Inl ErrTokenExpired
    \<and> fst (fst (AuthHandler_Refresh ext cfg flt' now jti (Some ref) st)) = AuthError 401 ''unauthorized''"
proof -
  note e = session_expires [OF assms(1,2)]
  have v: "ValidateRefreshToken ext f now r' ref = Inl ErrTokenExpired" for f r'
    by (rule expired_rejected(1) [OF conjunct1 [OF e] assms(3)])
  have "ValidateAccessToken ext now acc = Inl ErrTokenExpired"
    by (rule expired_rejected(2) [OF conjunct2 [OF e] assms(3)])
  then show ?thesis using v by (simp add: AuthHandler_Refresh_def)
qed

theorem session_ends_on_time_witness:
  "ValidateAccessToken demo_ext (1000 * second + 8 * hour) ''acc0'' = Inl ErrTokenExpired"
proof -
  obtain resp st' where "Login demo_ext demo_cfg (\<lambda>_. False) (1000 * second) ''j0'' (demo_req ''rahasia1'') demo_st
     = (Inr (resp, ''ref0''), st')" "lp_AccessToken resp = ''acc0''" using demo_login by blast
  then have "session demo_ext demo_cfg (1000 * second) ''ref0'' ''acc0''" using session.started by metis
  from session_ends_on_time [OF demo_jwt_sound this, of "1000 * second + 8 * hour"]
  show ?thesis by (simp add: demo_cfg_def)
qed

lemma revoked_rejected:
  assumes "jwt_decode ext tok = Some p" "jp_exp p = Some e" "bl.revoked_until r (jp_jti p) e"
    and "now + millisecond \<le> e \<or> e \<le> now"
  shows "\<exists>err. ValidateRefreshToken ext flt now r tok = Inl err"
proof (cases "e \<le> now")
  case True
  then show ?thesis using assms(1,2) by (simp add: ValidateRefreshToken_def jwt_parse_def)
next
  case False
  then have "redis_revoked now r (jp_jti p)"
    using assms(3,4) unfolding bl.revoked_until_def by blast
  then show ?thesis using assms(1,2)
    by (auto simp: ValidateRefreshToken_def jwt_parse_def IsBlacklisted_def redis_revoked_def Let_def
        split: sum.splits)
qed

text \<open>
  C23: A refresh token works once: when a refresh request with it has succeeded and the command that
  blacklists it did not fail, the token is rejected after any further sequence of operations, at
  every later time but the last millisecond before it expires, where Redis has already dropped
  the entry. This rests on identifiers not repeating.
\<close>

theorem refresh_single_use:
  assumes ident: "jti_identifies ext" and dec: "jwt_decode ext tok = Some p" and e: "jp_exp p = Some e"
    and R: "AuthHandler_Refresh ext cfg flt0 t0 jti (Some tok) st = ((AuthLogin resp, c), st1)"
    and sent: "\<not> flt0 (ARedis (RSet (blacklistKey (jp_jti p))))"
    and range: "e - t0 \<le> int64_max"
    and later: "list_all (\<lambda>(t, op). t0 \<le> t) ops" and time: "now + millisecond \<le> e \<or> e \<le> now"
  shows "\<exists>err. ValidateRefreshToken ext flt now (au_redis (auth_run ext cfg ops st1)) tok = Inl err"
proof (rule Refresh_tokens [OF R])
  fix p' assume v: "ValidateRefreshToken ext (redis_flt flt0) t0 (au_redis st) tok = Inr p'"
    and st1: "st1 = st\<lparr>au_redis := snd (BlacklistRefreshToken ext (redis_flt flt0) t0 (au_redis st) tok)\<rparr>"
  note d = ValidateRefreshToken_decode [OF v]
  have p': "p' = p" using d dec by simp
  have jti: "jp_jti p \<noteq> []" and t: "t0 < e" using d e p' by simp_all
  have parse: "jwt_parse ext t0 tok = Inr p"
    using v p' by (auto simp: ValidateRefreshToken_def split: sum.splits if_splits option.splits bool.splits)
  have "au_redis st1 = redis_add t0 (au_redis st) (jp_jti p) (e - t0)"
    using parse jti e t sent time_sub_exact [OF t range]
    by (simp add: st1 BlacklistRefreshToken_def blacklist_add_def redis_add_def Let_def)
  then have "bl.revoked_until (au_redis st1) (jp_jti p) e" using bl.add_until [OF t] by simp
  moreover have "list_all (\<lambda>(t, op). e - t \<le> int64_max) ops"
    using later range by (auto simp: list_all_iff)
  ultimately have "bl.revoked_until (au_redis (auth_run ext cfg ops st1)) (jp_jti p) e"
    by (intro run_revoked [OF ident dec jti e])
  then show ?thesis by (rule revoked_rejected [OF dec e _ time])
qed

lemma demo_refresh:
  "\<exists>resp c st1. AuthHandler_Refresh demo_ext demo_cfg (\<lambda>_. False) (1060 * second) ''j1'' (Some ''ref0'') demo_st
     = ((AuthLogin resp, c), st1)"
proof -
  let ?d = "1000 * second + 8 * hour"
  let ?p = "refresh_payload demo_identity ''j0'' (1000 * second) ?d"
  have dec: "jwt_decode demo_ext ''ref0'' = Some ?p" by (simp add: demo_ext_def demo_payloads_def Let_def)
  have f: "jp_id ?p = 7" "jp_jti ?p = ''j0''" "jp_exp ?p = Some ?d" "jp_nbf ?p = None"
    by (simp_all add: refresh_payload_def demo_identity_def NewNumericDate_def)
  have v: "ValidateRefreshToken demo_ext (\<lambda>_. False) (1060 * second) (au_redis demo_st) ''ref0'' = Inr ?p"
    using dec f by (simp add: ValidateRefreshToken_def jwt_parse_def IsBlacklisted_def redis_get_def redis_entry_def
        demo_st_def)
  obtain user where u: "\<And>r. GetUserProfile (demo_st\<lparr>au_redis := r\<rparr>) 7 = Some user" "refresh_identity user = demo_identity"
    by (simp add: GetUserProfile_def role_name_def vendor_name_def branch_name_def refresh_identity_def demo_identity_def
        demo_st_def demo_user_def)
  have "RotateTokenPair demo_ext (ac_tokens demo_cfg) (Some demo_identity) ?d (1060 * second) ''j1'' = Some (''acc1'', ''ref1'')"
    by (simp add: RotateTokenPair_def effectiveDeadline_def generateAccessToken_def generateRefreshToken_def demo_ext_def
        demo_payloads_def demo_cfg_def Let_def access_payload_def refresh_payload_def zero_time_def minTime_def NewNumericDate_def)
  then show ?thesis using v f u
    by (simp add: AuthHandler_Refresh_def AuthRepository_GetUserProfile_def Let_def)
qed

theorem refresh_single_use_witness:
  "\<exists>resp c st1 err.
     AuthHandler_Refresh demo_ext demo_cfg (\<lambda>_. False) (1060 * second) ''j1'' (Some ''ref0'') demo_st = ((AuthLogin resp, c), st1)
   \<and> ValidateRefreshToken demo_ext (\<lambda>_. False) (1070 * second)
       (au_redis (auth_run demo_ext demo_cfg [(1065 * second, OpLogout (\<lambda>_. False) (Some ''ref0''))] st1)) ''ref0'' = Inl err"
proof -
  let ?p = "refresh_payload demo_identity ''j0'' (1000 * second) (1000 * second + 8 * hour)"
  obtain resp c st1 where R: "AuthHandler_Refresh demo_ext demo_cfg (\<lambda>_. False) (1060 * second) ''j1'' (Some ''ref0'') demo_st
     = ((AuthLogin resp, c), st1)" using demo_refresh by blast
  have "\<exists>err. ValidateRefreshToken demo_ext (\<lambda>_. False) (1070 * second)
       (au_redis (auth_run demo_ext demo_cfg [(1065 * second, OpLogout (\<lambda>_. False) (Some ''ref0''))] st1)) ''ref0'' = Inl err"
    by (rule refresh_single_use [OF demo_jti_identifies _ _ R, where p = ?p and e = "1000 * second + 8 * hour"])
      (simp_all add: demo_ext_def demo_payloads_def Let_def refresh_payload_def NewNumericDate_def int64_max_def)
  then show ?thesis using R by blast
qed

lemma bearer_split: "split2 (CHR '' '') (''Bearer '' @ tok) = [''Bearer'', tok]"
  by simp

text \<open>
  Until the access token expires, a request that carries it is served with the identity of the
  account that logged in, and the two kinds of token are not interchangeable: the refresh token
  does not authenticate a request and the access token is not accepted for a refresh.
\<close>

lemma access_token_identifies:
  assumes sound: "jwt_sound ext" and L: "Login ext cfg flt now jti req st = (Inr (resp, ref), st')"
    and t: "t < minTime (now + AccessTokenExpiry (ac_tokens cfg)) (now + SessionMaxLifetime (ac_tokens cfg)) div second * second"
    and some: "up_ID (lp_User resp) \<noteq> 0" "up_Username (lp_User resp) \<noteq> []" "up_Role (lp_User resp) \<noteq> []"
  shows "(\<exists>c. RequireAuth ext t (''Bearer '' @ lp_AccessToken resp) = Some c
           \<and> jp_id c = up_ID (lp_User resp) \<and> jp_username c = up_Username (lp_User resp)
           \<and> jp_role c = up_Role (lp_User resp) \<and> jp_is_karyawan c = up_IsKaryawan (lp_User resp)
           \<and> jp_vendor_id c = up_VendorID (lp_User resp))
    \<and> RequireAuth ext t (''Bearer '' @ ref) = None
    \<and> (\<exists>e. ValidateRefreshToken ext flt' t r (lp_AccessToken resp) = Inl e)"
proof -
  obtain user where f: "FindUserByEmail st (lq_Email req) = Some user"
    and rot: "RotateTokenPair ext (ac_tokens cfg) (Some (identity_of user)) zero_time now jti = Some (lp_AccessToken resp, ref)"
    using Login_tokens [OF L] .
  have prof: "lp_User resp = profile_of user"
    using Login_user [OF L] f by (metis option.inject)
  let ?a = "access_payload (ac_tokens cfg) (identity_of user) now (now + SessionMaxLifetime (ac_tokens cfg))"
  let ?r = "refresh_payload (identity_of user) jti now (now + SessionMaxLifetime (ac_tokens cfg))"
  note tok = RotateTokenPair_tokens [OF sound rot]
  have da: "jwt_decode ext (lp_AccessToken resp) = Some ?a" and dr: "jwt_decode ext ref = Some ?r"
    using tok(1,2) by (simp_all add: effectiveDeadline_def)
  have pa: "jwt_parse ext t (lp_AccessToken resp) = Inr ?a"
    using t by (simp add: jwt_parse_def da access_payload_def NewNumericDate_def)
  have va: "ValidateAccessToken ext t (lp_AccessToken resp) = Inr ?a"
    using some by (simp add: ValidateAccessToken_def pa prof profile_of_def access_payload_def identity_of_def)
  have vr: "\<exists>e. ValidateAccessToken ext t ref = Inl e"
    by (auto simp: ValidateAccessToken_def jwt_parse_def dr refresh_payload_def split: option.splits)
  have vf: "\<exists>e. ValidateRefreshToken ext flt' t r (lp_AccessToken resp) = Inl e"
    by (simp add: ValidateRefreshToken_def pa access_payload_def)
  have "RequireAuth ext t (''Bearer '' @ lp_AccessToken resp) = Some ?a"
    using va tok(4) unfolding RequireAuth_def bearer_split by simp
  moreover have "RequireAuth ext t (''Bearer '' @ ref) = None"
    using vr unfolding RequireAuth_def bearer_split by auto
  ultimately show ?thesis using vf by (simp add: prof profile_of_def access_payload_def identity_of_def)
qed

lemma access_token_identifies_witness:
  "\<exists>c. RequireAuth demo_ext (1100 * second) (''Bearer '' @ ''acc0'') = Some c \<and> jp_id c = 7 \<and> jp_role c = ''ATM-USER''"
proof -
  obtain resp st' where L: "Login demo_ext demo_cfg (\<lambda>_. False) (1000 * second) ''j0'' (demo_req ''rahasia1'') demo_st
     = (Inr (resp, ''ref0''), st')" "lp_AccessToken resp = ''acc0''" "up_ID (lp_User resp) = 7"
    "up_Username (lp_User resp) = ''ani''" "up_Role (lp_User resp) = ''ATM-USER''"
    using demo_login by blast
  have "1100 * second < minTime (1000 * second + AccessTokenExpiry (ac_tokens demo_cfg))
      (1000 * second + SessionMaxLifetime (ac_tokens demo_cfg)) div second * second"
    by (simp add: demo_cfg_def minTime_def)
  from access_token_identifies [OF demo_jwt_sound L(1) this] show ?thesis using L(2-5) by auto
qed

section \<open>Rate limiting\<close>

text \<open>Rejected logins for one name, each at its time and from its address, with every command answered.\<close>

fun rejected_logins :: "rate_limit_config \<Rightarrow> string \<Rightarrow> (timestamp \<times> string) list \<Rightarrow> redis \<Rightarrow> redis" where
  "rejected_logins cfg name [] r = r"
| "rejected_logins cfg name ((t, ip) # xs) r =
     rejected_logins cfg name xs (snd (IncrementFailed cfg (\<lambda>_. False) t r name ip))"

lemma IncrementFailed_unbounded:
  assumes "r (usernameKey name) = Some (v, None)" "1 \<le> v"
  shows "snd (IncrementFailed cfg (\<lambda>_. False) t r name ip) (usernameKey name) = Some (v + 1, None)"
proof -
  have 1: "incrementWithTTL cfg (\<lambda>_. False) t r (usernameKey name) = (True, r(usernameKey name \<mapsto> (v + 1, None)))"
    using assms by (simp add: incrementWithTTL_def redis_incr_def redis_entry_def)
  obtain b r2 where 2: "incrementWithTTL cfg (\<lambda>_. False) t (r(usernameKey name \<mapsto> (v + 1, None))) (ipKey ip) = (b, r2)"
    by fastforce
  have "r2 (usernameKey name) = Some (v + 1, None)" using incrementWithTTL_other [OF 2] by simp
  then show ?thesis using 1 2 by (cases b) (simp_all add: IncrementFailed_def)
qed

lemma rejected_logins_unbounded:
  assumes "r (usernameKey name) = Some (v, None)" "1 \<le> v"
  shows "rejected_logins cfg name xs r (usernameKey name) = Some (v + int (length xs), None)"
  using assms
proof (induction xs arbitrary: r v)
  case (Cons x xs)
  obtain t ip where x: "x = (t, ip)" by fastforce
  show ?case 
    using Cons.IH [where r = "snd (IncrementFailed cfg (\<lambda>_. False) t r name ip)" and v = "v + 1"]
      IncrementFailed_unbounded [where r = r and v = v and name = name] Cons.prems by (simp add: x)
qed simp

text \<open>
  When the command that sets the expiry of a new counter fails, the counter never expires: after
  \<open>MaxPerUsername\<close> rejected logins every later login with that email, at any time and with the right
  password, is refused, and the client is told to wait one window.
\<close>

lemma limiter_counter_never_expires:
  assumes new: "redis_entry r t0 (usernameKey name) = None"
    and fault: "\<not> flt (RIncr (usernameKey name))" "flt (RExpire (usernameKey name))"
    and many: "MaxPerUsername cfg \<le> int (length xs) + 1"
  shows "Check cfg (\<lambda>_. False) now (rejected_logins cfg name xs (snd (IncrementFailed cfg flt t0 r name ip0))) name ip
       = Some (RateLimited (go_div (Window cfg) second))"
proof -
  have "snd (IncrementFailed cfg flt t0 r name ip0) (usernameKey name) = Some (1, None)"
    using new fault by (simp add: IncrementFailed_def incrementWithTTL_def redis_incr_def)
  then have "rejected_logins cfg name xs (snd (IncrementFailed cfg flt t0 r name ip0)) (usernameKey name)
      = Some (1 + int (length xs), None)"
    by (intro rejected_logins_unbounded) simp_all
  then show ?thesis using many
    by (simp add: Check_def getTTL_def redis_get_def redis_ttl_def redis_entry_def Let_def)
qed

end
