(* ===== verification/Tx.thy ===== *)
theory Tx
  imports Prelude
begin

text \<open>
  Bodies of transactions built from statements. A body is a \<open>('s, 'e, 'a) tx\<close> of the prelude; the
  combinators here are Go's control flow between statements: sequencing with the early return on an
  error, guards, reads, writes, loops and the failure a statement may meet.

  \<^item> \<open>wp m s Q\<close>: whenever the body succeeds from \<open>s\<close>, its value and the state it leaves satisfy \<open>Q\<close>.
    The collection \<open>wp_simps\<close> computes it along a body.
  \<^item> \<open>stays R m\<close>: the body only takes steps of the relation \<open>R\<close>. The locale \<open>tx_frame\<close> gives its rules
    for every preorder; tables left alone and invariants kept are two of its instances.
\<close>

named_theorems wp_simps \<open>weakest preconditions along a body\<close>
named_theorems stays_intros \<open>one rule per statement that only takes steps of a relation\<close>

section \<open>Statements\<close>

definition tx_ret :: "'a \<Rightarrow> ('s, 'e, 'a) tx" where
  "tx_ret a s = Inr (a, s)"

definition tx_fail :: "'e \<Rightarrow> ('s, 'e, 'a) tx" where
  "tx_fail e s = Inl e"

definition tx_bind :: "('s, 'e, 'a) tx \<Rightarrow> ('a \<Rightarrow> ('s, 'e, 'b) tx) \<Rightarrow> ('s, 'e, 'b) tx" where
  "tx_bind m f s = (case m s of Inl e \<Rightarrow> Inl e | Inr (a, s') \<Rightarrow> f a s')"

definition tx_then :: "('s, 'e, 'a) tx \<Rightarrow> ('s, 'e, 'b) tx \<Rightarrow> ('s, 'e, 'b) tx" where
  "tx_then m n = tx_bind m (\<lambda>_. n)"

definition tx_read :: "('s \<Rightarrow> 'a) \<Rightarrow> ('s, 'e, 'a) tx" where
  "tx_read f s = Inr (f s, s)"

definition tx_write :: "('s \<Rightarrow> 's) \<Rightarrow> ('s, 'e, unit) tx" where
  "tx_write f s = Inr ((), f s)"

text \<open>\<open>if !ok { return err }\<close>, and the same for an error found by a pure check.\<close>

definition tx_guard :: "bool \<Rightarrow> 'e \<Rightarrow> ('s, 'e, unit) tx" where
  "tx_guard ok e = (if ok then tx_ret () else tx_fail e)"

definition tx_check :: "'e option \<Rightarrow> ('s, 'e, unit) tx" where
  "tx_check c = (case c of None \<Rightarrow> tx_ret () | Some e \<Rightarrow> tx_fail e)"

definition tx_lift :: "'e + 'a \<Rightarrow> ('s, 'e, 'a) tx" where
  "tx_lift r = (case r of Inl e \<Rightarrow> tx_fail e | Inr a \<Rightarrow> tx_ret a)"

text \<open>A read that must find a row.\<close>

definition tx_get :: "'e \<Rightarrow> ('s \<Rightarrow> 'a option) \<Rightarrow> ('s, 'e, 'a) tx" where
  "tx_get e f s = (case f s of None \<Rightarrow> Inl e | Some a \<Rightarrow> Inr (a, s))"

definition tx_when :: "bool \<Rightarrow> ('s, 'e, unit) tx \<Rightarrow> ('s, 'e, unit) tx" where
  "tx_when c m = (if c then m else tx_ret ())"

text \<open>A statement that the database may refuse to run.\<close>

definition tx_stmt :: "bool \<Rightarrow> 'e \<Rightarrow> ('s, 'e, 'a) tx \<Rightarrow> ('s, 'e, 'a) tx" where
  "tx_stmt fails e m = (if fails then tx_fail e else m)"

text \<open>\<open>for _, x := range xs\<close>, for the effects and with the results appended.\<close>

fun tx_each :: "('x \<Rightarrow> ('s, 'e, unit) tx) \<Rightarrow> 'x list \<Rightarrow> ('s, 'e, unit) tx" where
  "tx_each f [] = tx_ret ()"
| "tx_each f (x # xs) = tx_then (f x) (tx_each f xs)"

fun tx_map :: "('x \<Rightarrow> ('s, 'e, 'a) tx) \<Rightarrow> 'x list \<Rightarrow> ('s, 'e, 'a list) tx" where
  "tx_map f [] = tx_ret []"
| "tx_map f (x # xs) = tx_bind (f x) (\<lambda>a. tx_bind (tx_map f xs) (\<lambda>as. tx_ret (a # as)))"

lemmas tx_defs = tx_ret_def tx_fail_def tx_bind_def tx_then_def tx_read_def tx_write_def tx_guard_def
  tx_check_def tx_lift_def tx_get_def tx_when_def tx_stmt_def

section \<open>Weakest preconditions\<close>

definition wp :: "('s, 'e, 'a) tx \<Rightarrow> 's \<Rightarrow> ('a \<Rightarrow> 's \<Rightarrow> bool) \<Rightarrow> bool" where
  "wp m s Q \<longleftrightarrow> (\<forall>a t. m s = Inr (a, t) \<longrightarrow> Q a t)"

lemma wpI: "(\<And>a t. m s = Inr (a, t) \<Longrightarrow> Q a t) \<Longrightarrow> wp m s Q"
  by (simp add: wp_def)

lemma wpD: "wp m s Q \<Longrightarrow> m s = Inr (a, t) \<Longrightarrow> Q a t"
  by (simp add: wp_def)

lemma wp_mono: "wp m s P \<Longrightarrow> (\<And>a t. P a t \<Longrightarrow> Q a t) \<Longrightarrow> wp m s Q"
  by (simp add: wp_def)

lemma wp_conj: "wp m s P \<Longrightarrow> wp m s Q \<Longrightarrow> wp m s (\<lambda>a t. P a t \<and> Q a t)"
  by (simp add: wp_def)

lemma wp_basic [wp_simps]:
  "wp (tx_ret a) s Q1 = Q1 a s"
  "wp (tx_fail e) s Q2"
  "wp (tx_bind m f) s Q3 = wp m s (\<lambda>a t. wp (f a) t Q3)"
  "wp (tx_then m' n) s Q4 = wp m' s (\<lambda>_ t. wp n t Q4)"
  "wp (tx_read g) s Q5 = Q5 (g s) s"
  "wp (tx_write h) s P = P () (h s)"
  "wp (tx_guard ok e) s P = (ok \<longrightarrow> P () s)"
  "wp (tx_when c k) s P = (if c then wp k s P else P () s)"
  "wp (tx_stmt fails e m'') s Q6 = (fails \<or> wp m'' s Q6)"
  by (auto simp: wp_def tx_defs split: sum.splits prod.splits)

lemma wp_options [wp_simps]:
  "wp (tx_check c) s P = (c = None \<longrightarrow> P () s)"
  "wp (tx_lift r) s Q1 = (\<forall>a. r = Inr a \<longrightarrow> Q1 a s)"
  "wp (tx_get e f) s Q2 = (\<forall>a. f s = Some a \<longrightarrow> Q2 a s)"
  by (auto simp: wp_def tx_defs split: option.splits sum.splits)

lemma wp_if [wp_simps]: "wp (if c then m else n) s Q = (if c then wp m s Q else wp n s Q)"
  by simp

text \<open>A loop keeps what each of its rounds keeps.\<close>

lemma wp_each:
  assumes "P s" and "\<And>x u. x \<in> set xs \<Longrightarrow> P u \<Longrightarrow> wp (f x) u (\<lambda>_. P)"
  shows "wp (tx_each f xs) s (\<lambda>_. P)"
  using assms
proof (induction xs arbitrary: s)
  case (Cons x xs)
  have "wp (f x) s (\<lambda>_. P)" using Cons.prems by simp
  then have "wp (f x) s (\<lambda>_ t. wp (tx_each f xs) t (\<lambda>_. P))"
    by (rule wp_mono) (rule Cons.IH, use Cons.prems(2) in simp_all)
  then show ?case by (simp add: wp_simps)
qed (simp add: wp_simps)

lemma wp_map:
  assumes "P s" and "\<And>x u. x \<in> set xs \<Longrightarrow> P u \<Longrightarrow> wp (f x) u (\<lambda>_. P)"
  shows "wp (tx_map f xs) s (\<lambda>_. P)"
  using assms
proof (induction xs arbitrary: s)
  case (Cons x xs)
  have "wp (f x) s (\<lambda>_. P)" using Cons.prems by simp
  then have "wp (f x) s (\<lambda>_ t. wp (tx_map f xs) t (\<lambda>_. P))"
    by (rule wp_mono) (rule Cons.IH, use Cons.prems(2) in simp_all)
  then show ?case by (simp add: wp_simps)
qed (simp add: wp_simps)

section \<open>Frames\<close>

definition stays :: "('s \<Rightarrow> 's \<Rightarrow> bool) \<Rightarrow> ('s, 'e, 'a) tx \<Rightarrow> bool" where
  "stays R m \<longleftrightarrow> (\<forall>s a t. m s = Inr (a, t) \<longrightarrow> R s t)"

lemma staysI: "(\<And>s a t. m s = Inr (a, t) \<Longrightarrow> R s t) \<Longrightarrow> stays R m"
  by (simp add: stays_def)

lemma staysD: "stays R m \<Longrightarrow> m s = Inr (a, t) \<Longrightarrow> R s t"
  by (simp add: stays_def)

lemma stays_wp: "stays R m \<Longrightarrow> wp m s (\<lambda>_. R s)"
  by (auto simp: stays_def wp_def)

lemma stays_mono: "stays R m \<Longrightarrow> (\<And>s t. R s t \<Longrightarrow> R' s t) \<Longrightarrow> stays R' m"
  by (simp add: stays_def)

text \<open>What the body keeps of a state can be carried past it.\<close>

lemma wp_stays: "stays R m \<Longrightarrow> (\<And>a t. R s t \<Longrightarrow> Q a t) \<Longrightarrow> wp m s Q"
  by (auto simp: stays_def wp_def)

lemma wp_conj_stays: "wp m s P \<Longrightarrow> stays R m \<Longrightarrow> (\<And>a t. P a t \<Longrightarrow> R s t \<Longrightarrow> Q a t) \<Longrightarrow> wp m s Q"
  by (auto simp: stays_def wp_def)

lemma run_in_tx_stays:
  assumes "stays R m" and "\<And>s. R s s"
  shows "R s (snd (run_in_tx c ce m s))"
  by (rule run_in_tx_cases [of c ce m s]) (use assms in \<open>auto dest: staysD\<close>)

lemma run_in_tx_wp:
  assumes "run_in_tx c ce m s = (r, s')" and "wp m s (\<lambda>_ t. P t)" and "P s"
  shows "P s'"
  by (rule run_in_tx_cases [of c ce m s]) (use assms in \<open>auto dest: wpD\<close>)

locale tx_frame =
  fixes R :: "'s \<Rightarrow> 's \<Rightarrow> bool"
  assumes refl_R: "R s s" and trans_R: "R s t \<Longrightarrow> R t u \<Longrightarrow> R s u"
begin

lemma st_basic [stays_intros]:
  "stays R (tx_ret a)" "stays R (tx_fail e)" "stays R (tx_read f)" "stays R (tx_guard ok e)"
  "stays R (tx_check c)" "stays R (tx_lift r)" "stays R (tx_get e g)"
  by (auto simp: stays_def tx_defs refl_R split: option.splits sum.splits if_splits)

lemma st_bind [stays_intros]:
  "stays R m \<Longrightarrow> (\<And>a. stays R (f a)) \<Longrightarrow> stays R (tx_bind m f)"
  unfolding stays_def tx_bind_def by (fastforce split: sum.splits prod.splits intro: trans_R)

lemma st_then [stays_intros]: "stays R m \<Longrightarrow> stays R n \<Longrightarrow> stays R (tx_then m n)"
  unfolding tx_then_def by (rule st_bind)

lemma st_write: "(\<And>s. R s (h s)) \<Longrightarrow> stays R (tx_write h)"
  by (simp add: stays_def tx_write_def)

lemma st_when [stays_intros]: "stays R k \<Longrightarrow> stays R (tx_when c k)"
  by (auto simp: tx_when_def stays_def tx_ret_def refl_R)

lemma st_stmt [stays_intros]: "stays R m \<Longrightarrow> stays R (tx_stmt fails e m)"
  by (auto simp: tx_stmt_def stays_def tx_fail_def)

lemma st_if [stays_intros]: "stays R m \<Longrightarrow> stays R n \<Longrightarrow> stays R (if c then m else n)"
  by simp

lemma st_option [stays_intros]:
  "stays R m \<Longrightarrow> (\<And>a. stays R (f a)) \<Longrightarrow> stays R (case x of None \<Rightarrow> m | Some a \<Rightarrow> f a)"
  by (simp split: option.splits)

lemma st_sum [stays_intros]:
  "(\<And>a. stays R (f a)) \<Longrightarrow> (\<And>b. stays R (g b)) \<Longrightarrow> stays R (case x of Inl a \<Rightarrow> f a | Inr b \<Rightarrow> g b)"
  by (simp split: sum.splits)

lemma st_prod [stays_intros]: "(\<And>a b. stays R (f a b)) \<Longrightarrow> stays R (case x of (a, b) \<Rightarrow> f a b)"
  by (simp split: prod.splits)

lemma st_let [stays_intros]: "(\<And>x. stays R (f x)) \<Longrightarrow> stays R (let x = v in f x)"
  by (simp add: Let_def)

lemma st_each [stays_intros]: "(\<And>x. stays R (f x)) \<Longrightarrow> stays R (tx_each f xs)"
  by (induction xs) (auto intro: st_basic st_then)

lemma st_map [stays_intros]: "(\<And>x. stays R (f x)) \<Longrightarrow> stays R (tx_map f xs)"
  by (induction xs) (auto intro!: st_basic st_bind)

end

text \<open>What a body leaves alone: a component \<open>f\<close> of the state.\<close>

interpretation same: tx_frame "\<lambda>s t. f t = f s" for f :: "'s \<Rightarrow> 'v"
  by unfold_locales auto

text \<open>A property of the state, once it holds.\<close>

interpretation kept: tx_frame "\<lambda>s t. P s \<longrightarrow> P t" for P :: "'s \<Rightarrow> bool"
  by unfold_locales auto

text \<open>A list that only grows at its end.\<close>

definition extends :: "'x list \<Rightarrow> 'x list \<Rightarrow> bool" where
  "extends xs ys \<longleftrightarrow> (\<exists>zs. ys = xs @ zs)"

lemma extends_refl [simp]: "extends xs xs" by (simp add: extends_def)

lemma extends_append [simp]: "extends xs (xs @ zs)" by (simp add: extends_def)

lemma extends_trans: "extends xs ys \<Longrightarrow> extends ys zs \<Longrightarrow> extends xs zs"
  by (auto simp: extends_def)

lemma extendsD: "extends xs ys \<Longrightarrow> x \<in> set xs \<Longrightarrow> x \<in> set ys"
  by (auto simp: extends_def)

interpretation grows: tx_frame "\<lambda>s t. extends (f s) (f t)" for f :: "'s \<Rightarrow> 'x list"
  by unfold_locales (auto intro: extends_trans)

end
