(* ===== verification/Notify.thy ===== *)
theory Notify
  imports Tx Auth
begin

text \<open>
  Notifications: package \<open>src/backend/internal/notification\<close> over the queries of
  \<open>notifications.sql.go\<close>. \<open>Send\<close> writes inside the caller's transaction; the email outbox is emptied by
  \<open>Worker_tick\<close>; \<open>Notifications_*\<close> are the methods of \<open>repository.go\<close>.

  \<open>notif_ext\<close> is the mail address parser (the address it found, or nothing) and lower-casing;
  \<open>nfaults\<close> says which statements fail, by their query name. In a loop a failing statement ends the
  transaction in whichever round it happens, so one answer per statement covers every run.
\<close>

section \<open>Tables\<close>

record pic_row =
  pc_vendor_id :: id64
  pc_vendor_branch_id :: "id64 option"
  pc_email :: "string option"
  pc_is_notification_recipient :: bool
  pc_is_active :: bool
  pc_deleted_at :: "timestamp option"
  pc_roles :: "string list"

record notification_row =
  nt_id :: id64
  nt_recipient_user_id :: id64
  nt_type :: string
  nt_title :: string
  nt_body :: string
  nt_link :: "string option"
  nt_entity_type :: "string option"
  nt_entity_id :: "id64 option"
  nt_is_read :: bool
  nt_read_at :: "timestamp option"
  nt_created_at :: timestamp

record email_row =
  em_id :: id64
  em_notification_id :: "id64 option"
  em_to_address :: string
  em_subject :: string
  em_body :: string
  em_status :: string
  em_attempts :: int
  em_last_error :: "string option"
  em_next_attempt_at :: timestamp
  em_sent_at :: "timestamp option"
  em_created_at :: timestamp

record notif_st =
  nf_users :: "user_row list"
  nf_roles :: "role_row list"
  nf_branches :: "branch_node list"
  nf_pics :: "pic_row list"
  nf_notifications :: "notification_row list"
  nf_emails :: "email_row list"
  nf_next_id :: id64
  nf_next_email :: id64

record notif_ext =
  ParseAddress :: "string \<Rightarrow> string option"
  ToLower :: "string \<Rightarrow> string"

datatype notif_err = ErrInvalidMessage string | NotifDb string

type_synonym nfaults = "string \<Rightarrow> bool"

abbreviation nquery :: "nfaults \<Rightarrow> string \<Rightarrow> string \<Rightarrow> ('s, notif_err, 'a) tx \<Rightarrow> ('s, notif_err, 'a) tx" where
  "nquery flt q what m \<equiv> tx_stmt (flt q) (NotifDb what) m"

section \<open>Messages\<close>

record message =
  msg_Type :: string
  msg_Title :: string
  msg_Body :: string
  msg_Link :: string
  msg_EntityType :: string
  msg_EntityID :: "id64 option"
  msg_Email :: bool

record party_target =
  vt_BranchID :: id64
  vt_UserRoles :: "string list"
  vt_PicRole :: string

record recipients =
  rc_UserIDs :: "id64 list"
  rc_Roles :: "string list"
  rc_VendorIDs :: "id64 list"
  rc_VendorParties :: "party_target list"

definition maxTitleLen :: nat where "maxTitleLen = 120"
definition maxBodyLen :: nat where "maxBodyLen = 1000"

definition emailFooter :: string where
  "emailFooter = [nl, nl] @ ''--'' @ [nl]
     @ ''Pesan otomatis CROWN Cash Management System. Mohon tidak membalas email ini.''"

definition validate_message :: "message \<Rightarrow> notif_err option" where
  "validate_message msg =
     (if TrimSpace (msg_Type msg) = [] then Some (ErrInvalidMessage ''empty type'')
      else if TrimSpace (msg_Title msg) = [] then Some (ErrInvalidMessage ''empty title'')
      else if length (runes (msg_Title msg)) > maxTitleLen then Some (ErrInvalidMessage ''title longer than 120'')
      else if length (runes (msg_Body msg)) > maxBodyLen then Some (ErrInvalidMessage ''body longer than 1000'')
      else if msg_Link msg \<noteq> [] \<and> (take 1 (msg_Link msg) \<noteq> ''/'' \<or> take 2 (msg_Link msg) = ''//'')
      then Some (ErrInvalidMessage ''link must be an in-app path'')
      else None)"

definition normalizeEmail :: "notif_ext \<Rightarrow> string \<Rightarrow> string option" where
  "normalizeEmail ext raw =
     (let addr = ToLower ext (TrimSpace raw) in
      if ParseAddress ext addr = Some addr then Some addr else None)"

definition optional_text :: "string \<Rightarrow> string option" where
  "optional_text s = (if s = [] then None else Some s)"

section \<open>Queries\<close>

definition active_user :: "user_row \<Rightarrow> bool" where
  "active_user u \<longleftrightarrow> us_is_active u \<and> us_deleted_at u = None"

definition user_has_role :: "role_row list \<Rightarrow> user_row \<Rightarrow> (string \<Rightarrow> bool) \<Rightarrow> bool" where
  "user_has_role roles u p \<longleftrightarrow> list_ex (\<lambda>r. ro_id r = us_role_id u \<and> p (ro_role r)) roles"

definition recipient_of :: "user_row \<Rightarrow> id64 \<times> string" where
  "recipient_of u = (us_id u, us_email u)"

definition ListActiveUserRecipientsByIDs :: "notif_st \<Rightarrow> id64 list \<Rightarrow> (id64 \<times> string) list" where
  "ListActiveUserRecipientsByIDs st ids =
     map recipient_of (filter (\<lambda>u. us_id u \<in> set ids \<and> active_user u) (nf_users st))"

definition ListActiveUserRecipientsByRoles :: "notif_st \<Rightarrow> string list \<Rightarrow> (id64 \<times> string) list" where
  "ListActiveUserRecipientsByRoles st rs =
     map recipient_of (filter (\<lambda>u. user_has_role (nf_roles st) u (\<lambda>r. r \<in> set rs) \<and> active_user u) (nf_users st))"

definition ListActiveUserRecipientsByVendors :: "notif_st \<Rightarrow> id64 list \<Rightarrow> (id64 \<times> string) list" where
  "ListActiveUserRecipientsByVendors st vs =
     map recipient_of (filter (\<lambda>u. (\<exists>v \<in> set vs. us_vendor_id u = Some v) \<and> active_user u) (nf_users st))"

definition pic_reachable :: "pic_row \<Rightarrow> bool" where
  "pic_reachable p \<longleftrightarrow> pc_is_notification_recipient p \<and> pc_is_active p \<and> pc_deleted_at p = None
     \<and> (case pc_email p of None \<Rightarrow> False | Some e \<Rightarrow> list_ex (\<lambda>c. c \<noteq> CHR '' '') e)"

definition pic_email :: "pic_row \<Rightarrow> string" where
  "pic_email p = (case pc_email p of None \<Rightarrow> [] | Some e \<Rightarrow> e)"

definition ListVendorNotificationPicEmails :: "notif_st \<Rightarrow> id64 list \<Rightarrow> string list" where
  "ListVendorNotificationPicEmails st vs =
     map pic_email (filter (\<lambda>p. pc_vendor_id p \<in> set vs \<and> pic_reachable p) (nf_pics st))"

text \<open>Users and contacts of the branch's vendor, bound to the branch or to no branch.\<close>

definition branch_covers :: "branch_node \<Rightarrow> id64 \<Rightarrow> id64 option \<Rightarrow> id64 option \<Rightarrow> bool" where
  "branch_covers b branchID vendor branch \<longleftrightarrow> bn_id b = branchID \<and> vendor = Some (bn_vendor_id b)
     \<and> (branch = None \<or> branch = Some (bn_id b))"

definition ListActiveUserRecipientsByVendorBranches ::
  "notif_st \<Rightarrow> id64 \<Rightarrow> string list \<Rightarrow> (id64 \<times> string) list" where
  "ListActiveUserRecipientsByVendorBranches st branchID rs =
     map recipient_of (filter (\<lambda>u. list_ex (\<lambda>b. branch_covers b branchID (us_vendor_id u) (us_vendor_branch_id u))
            (nf_branches st)
          \<and> user_has_role (nf_roles st) u (\<lambda>r. r \<in> set rs) \<and> active_user u) (nf_users st))"

definition ListVendorBranchNotificationPicEmails :: "notif_st \<Rightarrow> id64 \<Rightarrow> string \<Rightarrow> string list" where
  "ListVendorBranchNotificationPicEmails st branchID picRole =
     map pic_email (filter (\<lambda>p. list_ex (\<lambda>b. branch_covers b branchID (Some (pc_vendor_id p)) (pc_vendor_branch_id p))
            (nf_branches st)
          \<and> picRole \<in> set (pc_roles p) \<and> pic_reachable p) (nf_pics st))"

definition InsertNotification :: "timestamp \<Rightarrow> message \<Rightarrow> id64 \<Rightarrow> (notif_st, notif_err, id64) tx" where
  "InsertNotification now msg user st =
     (let nid = nf_next_id st;
          row = \<lparr>nt_id = nid, nt_recipient_user_id = user, nt_type = msg_Type msg, nt_title = msg_Title msg,
                 nt_body = msg_Body msg, nt_link = optional_text (msg_Link msg),
                 nt_entity_type = optional_text (msg_EntityType msg), nt_entity_id = msg_EntityID msg,
                 nt_is_read = False, nt_read_at = None, nt_created_at = now\<rparr>
      in Inr (nid, st\<lparr>nf_notifications := nf_notifications st @ [row], nf_next_id := nid + 1\<rparr>))"

definition InsertNotificationEmail ::
  "timestamp \<Rightarrow> id64 option \<Rightarrow> string \<Rightarrow> string \<Rightarrow> string \<Rightarrow> string \<Rightarrow> (notif_st, notif_err, unit) tx" where
  "InsertNotificationEmail now nid addr subject body status =
     tx_write (\<lambda>st. st\<lparr>nf_emails := nf_emails st @
        [\<lparr>em_id = nf_next_email st, em_notification_id = nid, em_to_address = addr, em_subject = subject,
          em_body = body, em_status = status, em_attempts = 0, em_last_error = None, em_next_attempt_at = now,
          em_sent_at = None, em_created_at = now\<rparr>], nf_next_email := nf_next_email st + 1\<rparr>)"

section \<open>Send\<close>

text \<open>
  \<open>resolveUsers\<close>: the map from user to address keeps the first address of a user; the users come out
  in the order of their ids.
\<close>

fun add_recipients :: "(id64 \<times> string) list \<Rightarrow> (id64 \<times> string) list \<Rightarrow> (id64 \<times> string) list" where
  "add_recipients byID [] = byID"
| "add_recipients byID (r # rows) =
     add_recipients (if fst r \<in> set (map fst byID) then byID else byID @ [r]) rows"

definition recipient_rows :: "nfaults \<Rightarrow> recipients \<Rightarrow> (notif_st, notif_err, (id64 \<times> string) list) tx" where
  "recipient_rows flt to =
     tx_bind (if rc_UserIDs to = [] then tx_ret []
       else nquery flt ''ListActiveUserRecipientsByIDs'' ''list recipients by id''
         (tx_read (\<lambda>st. ListActiveUserRecipientsByIDs st (rc_UserIDs to)))) (\<lambda>byIDs.
     tx_bind (if rc_Roles to = [] then tx_ret []
       else nquery flt ''ListActiveUserRecipientsByRoles'' ''list recipients by role''
         (tx_read (\<lambda>st. ListActiveUserRecipientsByRoles st (rc_Roles to)))) (\<lambda>byRoles.
     tx_bind (if rc_VendorIDs to = [] then tx_ret []
       else nquery flt ''ListActiveUserRecipientsByVendors'' ''list recipients by vendor''
         (tx_read (\<lambda>st. ListActiveUserRecipientsByVendors st (rc_VendorIDs to)))) (\<lambda>byVendors.
     tx_bind (tx_map (\<lambda>p. nquery flt ''ListActiveUserRecipientsByVendorBranches'' ''list recipients by vendor party''
         (tx_read (\<lambda>st. ListActiveUserRecipientsByVendorBranches st (vt_BranchID p) (vt_UserRoles p))))
         (rc_VendorParties to)) (\<lambda>byParties.
     tx_ret (byIDs @ byRoles @ byVendors @ concat byParties)))))"

definition resolveUsers :: "nfaults \<Rightarrow> recipients \<Rightarrow> (notif_st, notif_err, (id64 \<times> string) list) tx" where
  "resolveUsers flt to =
     tx_bind (recipient_rows flt to) (\<lambda>rows. tx_ret (sort_key fst (add_recipients [] rows)))"

text \<open>\<open>queueEmail\<close>, with the addresses already queued by this message.\<close>

definition queueEmail ::
  "notif_ext \<Rightarrow> bool \<Rightarrow> nfaults \<Rightarrow> timestamp \<Rightarrow> id64 option \<Rightarrow> string \<Rightarrow> message \<Rightarrow> string list
    \<Rightarrow> (notif_st, notif_err, string list) tx" where
  "queueEmail ext smtpEnabled flt now nid raw msg seen =
     (case normalizeEmail ext raw of
        None \<Rightarrow> tx_ret seen
      | Some addr \<Rightarrow>
          if addr \<in> set seen then tx_ret seen
          else tx_then (nquery flt ''InsertNotificationEmail'' ''insert notification email''
                 (InsertNotificationEmail now nid addr (msg_Title msg) (msg_Body msg @ emailFooter)
                    (if smtpEnabled then ''pending'' else ''skipped'')))
               (tx_ret (addr # seen)))"

fun send_users ::
  "notif_ext \<Rightarrow> bool \<Rightarrow> nfaults \<Rightarrow> timestamp \<Rightarrow> message \<Rightarrow> (id64 \<times> string) list \<Rightarrow> string list
    \<Rightarrow> (notif_st, notif_err, string list) tx" where
  "send_users ext smtpEnabled flt now msg [] seen = tx_ret seen"
| "send_users ext smtpEnabled flt now msg (u # us) seen =
     tx_bind (nquery flt ''InsertNotification'' ''insert notification'' (InsertNotification now msg (fst u))) (\<lambda>nid.
     tx_bind (if msg_Email msg then queueEmail ext smtpEnabled flt now (Some nid) (snd u) msg seen
              else tx_ret seen) (\<lambda>seen'.
     send_users ext smtpEnabled flt now msg us seen'))"

fun send_pics ::
  "notif_ext \<Rightarrow> bool \<Rightarrow> nfaults \<Rightarrow> timestamp \<Rightarrow> message \<Rightarrow> string list \<Rightarrow> string list
    \<Rightarrow> (notif_st, notif_err, unit) tx" where
  "send_pics ext smtpEnabled flt now msg [] seen = tx_ret ()"
| "send_pics ext smtpEnabled flt now msg (a # as) seen =
     tx_bind (queueEmail ext smtpEnabled flt now None a msg seen) (\<lambda>seen'.
     send_pics ext smtpEnabled flt now msg as seen')"

definition pic_emails :: "nfaults \<Rightarrow> message \<Rightarrow> recipients \<Rightarrow> (notif_st, notif_err, string list) tx" where
  "pic_emails flt msg to =
     tx_bind (if msg_Email msg \<and> rc_VendorIDs to \<noteq> []
       then nquery flt ''ListVendorNotificationPicEmails'' ''list vendor pic emails''
         (tx_read (\<lambda>st. ListVendorNotificationPicEmails st (rc_VendorIDs to)))
       else tx_ret []) (\<lambda>byVendors.
     tx_bind (if msg_Email msg
       then tx_map (\<lambda>p. nquery flt ''ListVendorBranchNotificationPicEmails'' ''list vendor party pic emails''
         (tx_read (\<lambda>st. ListVendorBranchNotificationPicEmails st (vt_BranchID p) (vt_PicRole p)))) (rc_VendorParties to)
       else tx_ret []) (\<lambda>byParties.
     tx_ret (byVendors @ concat byParties)))"

definition Send ::
  "notif_ext \<Rightarrow> bool \<Rightarrow> nfaults \<Rightarrow> timestamp \<Rightarrow> message \<Rightarrow> recipients \<Rightarrow> (notif_st, notif_err, unit) tx" where
  "Send ext smtpEnabled flt now msg to =
     tx_then (tx_check (validate_message msg))
     (tx_bind (resolveUsers flt to) (\<lambda>users.
      tx_bind (pic_emails flt msg to) (\<lambda>picEmails.
      if users = [] \<and> picEmails = [] then tx_ret ()
      else tx_bind (send_users ext smtpEnabled flt now msg users []) (\<lambda>seen.
           send_pics ext smtpEnabled flt now msg picEmails seen))))"

section \<open>The recipient's list\<close>

definition MarkNotificationRead :: "timestamp \<Rightarrow> id64 \<Rightarrow> id64 \<Rightarrow> notif_st \<Rightarrow> bool \<times> notif_st" where
  "MarkNotificationRead now nid user st =
     (list_ex (\<lambda>n. nt_id n = nid \<and> nt_recipient_user_id n = user) (nf_notifications st),
      st\<lparr>nf_notifications := update_where (\<lambda>n. nt_id n = nid \<and> nt_recipient_user_id n = user)
           (\<lambda>n. n\<lparr>nt_is_read := True,
                  nt_read_at := (case nt_read_at n of None \<Rightarrow> Some now | Some t \<Rightarrow> Some t)\<rparr>)
           (nf_notifications st)\<rparr>)"

definition MarkAllNotificationsRead :: "timestamp \<Rightarrow> id64 \<Rightarrow> notif_st \<Rightarrow> nat \<times> notif_st" where
  "MarkAllNotificationsRead now user st =
     (let p = \<lambda>n. nt_recipient_user_id n = user \<and> \<not> nt_is_read n in
      (length (filter p (nf_notifications st)),
       st\<lparr>nf_notifications := update_where p (\<lambda>n. n\<lparr>nt_is_read := True, nt_read_at := Some now\<rparr>)
            (nf_notifications st)\<rparr>))"

definition of_user :: "id64 \<Rightarrow> bool \<Rightarrow> notification_row \<Rightarrow> bool" where
  "of_user user unreadOnly n \<longleftrightarrow> nt_recipient_user_id n = user \<and> (unreadOnly \<longrightarrow> \<not> nt_is_read n)"

definition CountUnreadNotifications :: "notif_st \<Rightarrow> id64 \<Rightarrow> nat" where
  "CountUnreadNotifications st user =
     length (filter (\<lambda>n. nt_recipient_user_id n = user \<and> \<not> nt_is_read n) (nf_notifications st))"

definition CountNotificationsForUser :: "notif_st \<Rightarrow> id64 \<Rightarrow> bool \<Rightarrow> nat" where
  "CountNotificationsForUser st user unreadOnly = length (filter (of_user user unreadOnly) (nf_notifications st))"

definition ListNotificationsForUser :: "notif_st \<Rightarrow> id64 \<Rightarrow> bool \<Rightarrow> nat \<Rightarrow> nat \<Rightarrow> notification_row list" where
  "ListNotificationsForUser st user unreadOnly limit offset =
     take limit (drop offset (rev (sort_key nt_created_at (sort_key nt_id
       (filter (of_user user unreadOnly) (nf_notifications st))))))"

definition Notifications_MarkRead ::
  "nfaults \<Rightarrow> timestamp \<Rightarrow> id64 \<Rightarrow> id64 \<Rightarrow> notif_st \<Rightarrow> (notif_err + bool) \<times> notif_st" where
  "Notifications_MarkRead flt now nid user st =
     (if flt ''MarkNotificationRead'' then (Inl (NotifDb ''mark notification read''), st)
      else case MarkNotificationRead now nid user st of (found, st') \<Rightarrow> (Inr found, st'))"

definition Notifications_MarkAllRead ::
  "nfaults \<Rightarrow> timestamp \<Rightarrow> id64 \<Rightarrow> notif_st \<Rightarrow> (notif_err + nat) \<times> notif_st" where
  "Notifications_MarkAllRead flt now user st =
     (if flt ''MarkAllNotificationsRead'' then (Inl (NotifDb ''mark all''), st)
      else case MarkAllNotificationsRead now user st of (n, st') \<Rightarrow> (Inr n, st'))"

definition Notifications_UnreadCount :: "nfaults \<Rightarrow> notif_st \<Rightarrow> id64 \<Rightarrow> notif_err + nat" where
  "Notifications_UnreadCount flt replica user =
     (if flt ''CountUnreadNotifications'' then Inl (NotifDb ''unread count'')
      else Inr (CountUnreadNotifications replica user))"

definition Notifications_List ::
  "nfaults \<Rightarrow> notif_st \<Rightarrow> id64 \<Rightarrow> bool \<Rightarrow> nat \<Rightarrow> nat \<Rightarrow> notif_err + notification_row list \<times> nat" where
  "Notifications_List flt replica user unreadOnly page pageSize =
     (if flt ''ListNotificationsForUser'' then Inl (NotifDb ''list notifications'')
      else if flt ''CountNotificationsForUser'' then Inl (NotifDb ''count notifications'')
      else Inr (ListNotificationsForUser replica user unreadOnly pageSize ((page - 1) * pageSize),
                CountNotificationsForUser replica user unreadOnly))"

section \<open>The email worker\<close>

definition batchSize :: nat where "batchSize = 50"
definition retention :: int where "retention = 90 * 24 * hour"
definition purgeEvery :: int where "purgeEvery = 24 * hour"
definition maxLastErrLen :: nat where "maxLastErrLen = 500"
definition retryBackoff :: "int list" where "retryBackoff = [minute, 5 * minute, 15 * minute]"

definition truncateRunes :: "string \<Rightarrow> nat \<Rightarrow> string" where
  "truncateRunes s n = (if length (runes s) \<le> n then s else concat (take n (runes s)))"

text \<open>\<open>ClaimPendingNotificationEmails\<close>: rows locked by another instance are skipped.\<close>

definition ClaimPendingNotificationEmails ::
  "(id64 \<Rightarrow> bool) \<Rightarrow> timestamp \<Rightarrow> nat \<Rightarrow> notif_st \<Rightarrow> email_row list" where
  "ClaimPendingNotificationEmails skip now limit st =
     take limit (sort_key em_next_attempt_at (sort_key em_id
       (filter (\<lambda>e. em_status e = ''pending'' \<and> em_next_attempt_at e \<le> now \<and> \<not> skip (em_id e)) (nf_emails st))))"

definition update_email :: "id64 \<Rightarrow> (email_row \<Rightarrow> email_row) \<Rightarrow> notif_st \<Rightarrow> notif_st" where
  "update_email eid f st = st\<lparr>nf_emails := update_where (\<lambda>e. em_id e = eid) f (nf_emails st)\<rparr>"

definition MarkNotificationEmailSent :: "timestamp \<Rightarrow> id64 \<Rightarrow> notif_st \<Rightarrow> notif_st" where
  "MarkNotificationEmailSent now eid = update_email eid (\<lambda>e. e\<lparr>em_status := ''sent'', em_sent_at := Some now,
     em_attempts := em_attempts e + 1, em_last_error := None\<rparr>)"

definition MarkNotificationEmailRetry :: "id64 \<Rightarrow> string \<Rightarrow> timestamp \<Rightarrow> notif_st \<Rightarrow> notif_st" where
  "MarkNotificationEmailRetry eid err next = update_email eid (\<lambda>e. e\<lparr>em_attempts := em_attempts e + 1,
     em_last_error := Some err, em_next_attempt_at := next\<rparr>)"

definition MarkNotificationEmailFailed :: "id64 \<Rightarrow> string \<Rightarrow> notif_st \<Rightarrow> notif_st" where
  "MarkNotificationEmailFailed eid err = update_email eid (\<lambda>e. e\<lparr>em_status := ''failed'',
     em_attempts := em_attempts e + 1, em_last_error := Some err\<rparr>)"

text \<open>\<open>mailer\<close> gives the error text of a delivery, if it fails.\<close>

definition deliver ::
  "(email_row \<Rightarrow> string option) \<Rightarrow> nfaults \<Rightarrow> timestamp \<Rightarrow> timestamp \<Rightarrow> email_row \<Rightarrow> (notif_st, notif_err, unit) tx" where
  "deliver mailer flt txnow now r =
     (case mailer r of
        None \<Rightarrow> nquery flt ''MarkNotificationEmailSent'' ''mark email sent''
                  (tx_write (MarkNotificationEmailSent txnow (em_id r)))
      | Some err \<Rightarrow>
          let lastErr = truncateRunes err maxLastErrLen; attempt = em_attempts r + 1 in
          if attempt > int (length retryBackoff)
          then nquery flt ''MarkNotificationEmailFailed'' ''mark email failed''
                 (tx_write (MarkNotificationEmailFailed (em_id r) lastErr))
          else nquery flt ''MarkNotificationEmailRetry'' ''mark email retry''
                 (tx_write (MarkNotificationEmailRetry (em_id r) lastErr (now + retryBackoff ! nat (attempt - 1)))))"

definition sendBatch ::
  "(email_row \<Rightarrow> string option) \<Rightarrow> nfaults \<Rightarrow> (id64 \<Rightarrow> bool) \<Rightarrow> timestamp \<Rightarrow> timestamp \<Rightarrow> (notif_st, notif_err, unit) tx" where
  "sendBatch mailer flt skip txnow now =
     tx_bind (nquery flt ''ClaimPendingNotificationEmails'' ''claim pending emails''
       (tx_read (ClaimPendingNotificationEmails skip txnow batchSize)))
       (tx_each (deliver mailer flt txnow now))"

definition purge :: "nfaults \<Rightarrow> timestamp \<Rightarrow> (notif_st, notif_err, unit) tx" where
  "purge flt now =
     (let cutoff = now - retention in
      tx_then (nquery flt ''DeleteOldNotificationEmails'' ''purge notification emails''
        (tx_write (\<lambda>st. st\<lparr>nf_emails := filter (\<lambda>e. \<not> (em_created_at e < cutoff
            \<and> em_status e \<in> {''sent'', ''failed'', ''skipped''})) (nf_emails st)\<rparr>)))
      (nquery flt ''DeleteOldNotifications'' ''purge notifications''
        (tx_write (\<lambda>st.
           let gone = map nt_id (filter (\<lambda>n. nt_created_at n < cutoff) (nf_notifications st)) in
           st\<lparr>nf_notifications := filter (\<lambda>n. \<not> nt_created_at n < cutoff) (nf_notifications st),
              nf_emails := update_where (\<lambda>e. \<exists>i \<in> set gone. em_notification_id e = Some i)
                (\<lambda>e. e\<lparr>em_notification_id := None\<rparr>) (nf_emails st)\<rparr>))))"

text \<open>One tick; the second component is the time of the last purge. \<open>mailer\<close> is \<open>None\<close> without SMTP.\<close>

definition Worker_tick ::
  "(email_row \<Rightarrow> string option) option \<Rightarrow> nfaults \<Rightarrow> (id64 \<Rightarrow> bool) \<Rightarrow> bool \<Rightarrow> timestamp \<Rightarrow> timestamp
    \<Rightarrow> notif_st \<times> timestamp \<Rightarrow> notif_st \<times> timestamp" where
  "Worker_tick mailer flt skip commit txnow now w =
     (let (st, lastPurge) = w;
          st1 = (case mailer of
                   None \<Rightarrow> st
                 | Some m \<Rightarrow> snd (run_in_tx commit (NotifDb ''commit'') (sendBatch m flt skip txnow now) st))
      in if time_sub now lastPurge < purgeEvery then (st1, lastPurge)
         else (case run_in_tx commit (NotifDb ''commit'') (purge flt now) st1 of
                 (Inl _, st2) \<Rightarrow> (st2, lastPurge)
               | (Inr _, st2) \<Rightarrow> (st2, now)))"

end
