(* ===== verification/Vendor_Db.thy ===== *)
theory Vendor_Db
  imports Notify User_Admin Text "HOL-Library.Char_ord" "HOL-Library.List_Lexorder"
begin

text \<open>
  The tables of the replenishment requests sent to vendors and the statements on them:
  \<open>vendor_request.sql.go\<close>, \<open>vault_plans.sql.go\<close>, \<open>vault_allocations.sql.go\<close>, \<open>vault_tickets.sql.go\<close>,
  \<open>vendor_parties.sql.go\<close>, \<open>vendor_realizations.sql.go\<close> and \<open>atm_visit_quota.sql.go\<close>, with the
  constraints the migrations put on the tables.

  \<^item> \<open>vdb\<close> is the database as these components see it; \<open>rd_master\<close> are the tables they only read,
    \<open>rd_notif\<close> the tables of the notifications. Identity columns draw from \<open>rd_ids\<close> (a rolled back
    draw is drawn again). The columns \<open>updated_at\<close> are left out: nothing here reads them.
  \<^item> \<open>venv\<close> is what surrounds one operation: which statements fail (\<open>ve_flt\<close>, by query name), the
    transaction's time, the calendar day in Jakarta, whether the commit succeeds, and the notifier.
    \<open>ve_clk\<close> gives the successive readings of \<open>clock_timestamp()\<close>, counted in \<open>rd_ticks\<close>.
  \<^item> Calendar days are integers counted from 1 January of year 1, which is Go's zero time.
  \<^item> Text is ordered bytewise, also where the database sorts.
\<close>

type_synonym day = int

section \<open>Rows\<close>

record vreq =
  vr_id :: id64
  vr_request_number :: string
  vr_forecast_date :: day
  vr_status :: string
  vr_notes :: "string option"
  vr_created_by :: id64
  vr_approved_by :: "id64 option"
  vr_rejected_by :: "id64 option"
  vr_rejection_reason :: "string option"
  vr_created_at :: timestamp
  vr_submitted_at :: "timestamp option"
  vr_approved_at :: "timestamp option"
  vr_rejected_at :: "timestamp option"
  vr_is_canceled :: bool
  vr_request_category :: "string option"
  vr_replenish_date :: "day option"
  vr_is_manual :: bool
  vr_vendor_id :: "id64 option"
  vr_cancellation_reason :: "string option"
  vr_completion_submitted_by :: "id64 option"
  vr_completion_submitted_at :: "timestamp option"
  vr_completion_approved_by :: "id64 option"
  vr_completion_approved_at :: "timestamp option"
  vr_completion_rejected_by :: "id64 option"
  vr_completion_rejected_at :: "timestamp option"
  vr_completion_rejection_reason :: "string option"
  vr_region_code :: "string option"
  vr_vault_flow :: bool
  vr_vault_reviewed_by :: "id64 option"
  vr_vault_reviewed_at :: "timestamp option"
  vr_vault_rejection_reason :: "string option"
  vr_vendor_sent :: bool
  vr_sent_at :: "timestamp option"
  vr_vendor_accepted_at :: "timestamp option"

record vitem =
  vi_id :: id64
  vi_vendor_request_id :: id64
  vi_terminal_id :: string
  vi_periode_pred :: day
  vi_denom :: int
  vi_amount_replenish :: int
  vi_amount_refund :: int
  vi_brand :: "string option"
  vi_lokasi_atm :: "string option"

record seq_row =
  sq_vendor_id :: id64
  sq_region_code :: string
  sq_seq_date :: day
  sq_last_seq :: int

record ticket =
  tk_id :: id64
  tk_request_number :: string
  tk_terminal_id :: string
  tk_denom_code :: string
  tk_replenish_date :: day
  tk_seq :: int
  tk_ticket_number :: string
  tk_is_active :: bool
  tk_deactivated_at :: "timestamp option"
  tk_result :: "string option"

record vplan =
  vp_id :: id64
  vp_vendor_request_id :: id64
  vp_acm_area_id :: id64
  vp_status :: string
  vp_submitted_by :: "id64 option"
  vp_submitted_at :: "timestamp option"
  vp_approved_by :: "id64 option"
  vp_approved_at :: "timestamp option"
  vp_rejected_by :: "id64 option"
  vp_rejected_at :: "timestamp option"
  vp_rejection_reason :: "string option"
  vp_buffer_reason :: "string option"

type_synonym denom_amounts = "(int \<times> int) list"

record valloc =
  va_id :: id64
  va_vault_plan_id :: id64
  va_vendor_request_id :: id64
  va_vendor_vault_id :: id64
  va_vault_branch_id :: id64
  va_tier :: int
  va_is_urgent :: bool
  va_urgent_reason :: "string option"
  va_saldo_snapshot :: "denom_amounts option"
  va_capacity_snapshot :: "denom_amounts option"
  va_capacity_warning :: bool

record valloc_amount =
  vm_allocation_id :: id64
  vm_denom :: int
  vm_amount :: int

record vault_ticket =
  vk_id :: id64
  vk_vendor_request_id :: id64
  vk_vendor_vault_id :: id64
  vk_replenish_date :: day
  vk_seq :: int
  vk_ticket_number :: string
  vk_is_active :: bool
  vk_deactivated_at :: "timestamp option"

record quota_row =
  qt_atm_id :: id64
  qt_package_code :: string
  qt_quota_total :: int
  qt_remaining :: int
  qt_reset_at :: timestamp
  qt_reset_by :: "id64 option"

record visit_row =
  vs_id :: id64
  vs_atm_id :: id64
  vs_vendor_request_id :: id64
  vs_quota_known :: bool
  vs_is_over_quota :: bool
  vs_created_at :: timestamp
  vs_cancelled_at :: "timestamp option"
  vs_cancelled_by :: "id64 option"
  vs_cancel_reason :: "string option"

record realization_row =
  rz_id :: id64
  rz_ticket_id :: id64
  rz_vendor_request_id :: id64
  rz_realized_date :: "day option"
  rz_submitted_by :: id64
  rz_submitted_at :: timestamp

record realization_amount =
  ra_realization_id :: id64
  ra_denom :: int
  ra_amount :: int

text \<open>The snapshot a vendor sees (\<open>vendor_party.go\<close>); the \<open>jsonb\<close> column holds this value.\<close>

record party_branch =
  pb_ID :: id64
  pb_Code :: string
  pb_Name :: string
  pb_VendorID :: id64
  pb_VendorName :: string

record party_atm =
  pa_TerminalID :: string
  pa_Lokasi :: string
  pa_TicketNumber :: string
  pa_Denoms :: denom_amounts

record party_vault =
  pv_TicketNumber :: string
  pv_VaultID :: id64
  pv_VaultCode :: string
  pv_VaultAddress :: string
  pv_Branch :: party_branch
  pv_Denoms :: denom_amounts

record party_content =
  pt_Role :: string
  pt_Branch :: party_branch
  pt_Atms :: "party_atm list"
  pt_Vaults :: "party_vault list"
  pt_ReplenishBranches :: "party_branch list"
  pt_Totals :: denom_amounts
  pt_Currency :: string

record party =
  py_id :: id64
  py_vendor_request_id :: id64
  py_vendor_branch_id :: id64
  py_role :: string
  py_status :: string
  py_content :: party_content
  py_sent_at :: timestamp
  py_decided_by :: "id64 option"
  py_decided_at :: "timestamp option"
  py_rejection_reason :: "string option"

record party_event =
  pe_party_id :: id64
  pe_event :: string
  pe_actor_id :: id64
  pe_reason :: "string option"
  pe_content :: "party_content option"
  pe_created_at :: timestamp

section \<open>Reference data\<close>

record atm_node =
  an_id :: id64
  an_terminal_id :: string
  an_price_machine_group :: "string option"

record atm_package =
  ap_id :: id64
  ap_atm_id :: id64
  ap_vendor_package_id :: "id64 option"
  ap_vendor_branch_id :: "id64 option"
  ap_package :: "string option"
  ap_is_active :: bool
  ap_effective_start_date :: day
  ap_effective_end_date :: "day option"

record branch_package =
  bp_id :: id64
  bp_vendor_branch_id :: id64
  bp_package_code :: string

record package_frequency =
  pf_package_code :: string
  pf_machine_group :: string
  pf_cr_frequency :: int

record vbranch =
  vb_id :: id64
  vb_vendor_id :: id64
  vb_branch_code :: string
  vb_branch_name :: string
  vb_region_code :: "string option"
  vb_category :: string
  vb_is_active :: bool
  vb_location_id :: "id64 option"

record vvendor =
  vd_id :: id64
  vd_code :: string
  vd_name :: string
  vd_request_prefix :: "string option"

record vvault =
  vv_id :: id64
  vv_vendor_branch_id :: id64
  vv_vault_code :: string
  vv_category :: string
  vv_is_active :: bool
  vv_deleted_at :: "timestamp option"
  vv_location_id :: "id64 option"

record forecast_row =
  fc_terminal_id :: string
  fc_periode_pred :: day
  fc_denom :: int
  fc_amount_replenish :: int
  fc_amount_refund :: int

record acm_area =
  aa_id :: id64
  aa_name :: string
  aa_is_active :: bool

text \<open>A \<open>saldo_akhir\<close> row of a completed daily report, per vault, in hundredths of a rupiah.\<close>

record saldo_source =
  ss_report_date :: day
  ss_vendor_vault_id :: id64
  ss_denoms :: "(int \<times> int option) list"

record master =
  md_atms :: "atm_node list"
  md_atm_packages :: "atm_package list"
  md_branch_packages :: "branch_package list"
  md_frequencies :: "package_frequency list"
  md_branches :: "vbranch list"
  md_vendors :: "vvendor list"
  md_vaults :: "vvault list"
  md_locations :: "(id64 \<times> string) list"
  md_forecast :: "forecast_row list"
  md_areas :: "acm_area list"
  md_area_regions :: "(id64 \<times> string) list"
  md_area_members :: "(id64 \<times> id64) list"
  md_users :: "user_row list"
  md_roles :: "role_row list"
  md_saldo :: "saldo_source list"

record vdb =
  rd_requests :: "vreq list"
  rd_items :: "vitem list"
  rd_seq :: "seq_row list"
  rd_tickets :: "ticket list"
  rd_plans :: "vplan list"
  rd_allocs :: "valloc list"
  rd_amounts :: "valloc_amount list"
  rd_vtickets :: "vault_ticket list"
  rd_parties :: "party list"
  rd_events :: "party_event list"
  rd_quotas :: "quota_row list"
  rd_visits :: "visit_row list"
  rd_realizations :: "realization_row list"
  rd_real_amounts :: "realization_amount list"
  rd_audit :: "audit_row list"
  rd_notif :: notif_st
  rd_master :: master
  rd_ids :: "string \<Rightarrow> id64"
  rd_ticks :: nat

section \<open>Errors and the surroundings of an operation\<close>

record item_input =
  ii_TerminalID :: string
  ii_PeriodePred :: day
  ii_Denom :: int
  ii_AmountReplenish :: int
  ii_Brand :: string
  ii_LokasiATM :: string

datatype vr_err =
    ErrNotFound | ErrInvalidTransition | ErrNotCreator | ErrNotChecker | ErrNotAuthorized
  | ErrSelfApproval | ErrEmptyItems | ErrRejectReasonEmpty | ErrCancelReasonEmpty
  | InvalidItemsError "item_input list" | ErrDuplicateItems | ErrNumberExhausted | ErrNumberGeneration
  | ErrAlreadyCanceled | ErrCompletionReasonEmpty | ErrCompletionByVendor | ErrVaultPlanNotFound
  | ErrVendorOrderNotFound | ErrAtmNotFound | ErrQuotaUnknown | ErrVisitNotFound
  | ErrVisitNotCancelable | ErrCancelVisitReason
  | InvalidField string string     \<comment> \<open>\<open>ValidationError{Field, Message}\<close>\<close>
  | VrNotify notif_err             \<comment> \<open>the error of a notification\<close>
  | VrPg string pg_err             \<comment> \<open>a constraint of the database, by what the statement was doing\<close>
  | VrDb string                    \<comment> \<open>a failing statement, by what it was doing\<close>

record venv =
  ve_flt :: "string \<Rightarrow> bool"
  ve_now :: timestamp
  ve_today :: day
  ve_clk :: "nat \<Rightarrow> timestamp"
  ve_commit :: bool
  ve_notifier :: "bool option"     \<comment> \<open>nil, or a notifier with or without SMTP\<close>
  ve_ext :: notif_ext

type_synonym 'a vtx = "(vdb, vr_err, 'a) tx"

abbreviation query :: "venv \<Rightarrow> string \<Rightarrow> string \<Rightarrow> 'a vtx \<Rightarrow> 'a vtx" where
  "query v q what m \<equiv> tx_stmt (ve_flt v q) (VrDb what) m"

text \<open>\<open>GENERATED AS IDENTITY\<close>, and \<open>clock_timestamp()\<close>.\<close>

definition fresh_id :: "string \<Rightarrow> id64 vtx" where
  "fresh_id table s = Inr (rd_ids s table, s\<lparr>rd_ids := (rd_ids s)(table := rd_ids s table + 1)\<rparr>)"

definition clock_timestamp :: "venv \<Rightarrow> timestamp vtx" where
  "clock_timestamp v s = Inr (ve_clk v (rd_ticks s), s\<lparr>rd_ticks := rd_ticks s + 1\<rparr>)"

definition write_log :: "venv \<Rightarrow> audit_row \<Rightarrow> unit vtx" where
  "write_log v e = query v ''CreateAuditLog'' ''write audit log''
     (tx_write (\<lambda>s. s\<lparr>rd_audit := rd_audit s @ [e]\<rparr>))"

text \<open>
  \<open>Notifier.Send\<close> inside the caller's transaction: the users, roles and branches it reads are the ones
  of \<open>rd_master\<close>.
\<close>

definition notif_view :: "vdb \<Rightarrow> notif_st" where
  "notif_view s = (rd_notif s)\<lparr>nf_users := md_users (rd_master s), nf_roles := md_roles (rd_master s),
     nf_branches := map (\<lambda>b. \<lparr>bn_id = vb_id b, bn_vendor_id = vb_vendor_id b,
       bn_branch_name = vb_branch_name b, bn_is_active = vb_is_active b\<rparr>) (md_branches (rd_master s))\<rparr>"

definition notify :: "venv \<Rightarrow> message \<Rightarrow> recipients \<Rightarrow> unit vtx" where
  "notify v msg to s =
     (case ve_notifier v of
        None \<Rightarrow> Inr ((), s)
      | Some smtp \<Rightarrow>
          (case Send (ve_ext v) smtp (ve_flt v) (ve_now v) msg to (notif_view s) of
             Inl e \<Rightarrow> Inl (VrNotify e)
           | Inr (_, n) \<Rightarrow> Inr ((), s\<lparr>rd_notif := n\<rparr>)))"

section \<open>Numbers and dates\<close>

definition in_int64 :: "int \<Rightarrow> bool" where
  "in_int64 x \<longleftrightarrow> int64_min \<le> x \<and> x \<le> int64_max"

definition wrap64 :: "int \<Rightarrow> int" where
  "wrap64 x = (x + 2 ^ 63) mod 2 ^ 64 - 2 ^ 63"

lemma wrap64_id: "in_int64 x \<Longrightarrow> wrap64 x = x"
  by (simp add: wrap64_def in_int64_def int64_min_def int64_max_def)

text \<open>\<open>time.Time.Date\<close> for a calendar day: year, month, day of the month.\<close>

definition civil :: "day \<Rightarrow> int \<times> int \<times> int" where
  "civil d =
     (let z = d + 306; era = z div 146097; doe = z mod 146097;
          yoe = (doe - doe div 1460 + doe div 36524 - doe div 146096) div 365;
          doy = doe - (365 * yoe + yoe div 4 - yoe div 100);
          mp = (5 * doy + 2) div 153;
          mday = doy - (153 * mp + 2) div 5 + 1;
          m = (if mp < 10 then mp + 3 else mp - 9);
          y = yoe + era * 400 + (if m \<le> 2 then 1 else 0)
      in (y, m, mday))"

text \<open>\<open>%0nd\<close> and \<open>lpad(.., n, '0')\<close> for a number of at most \<open>n\<close> digits; the layouts of dates.\<close>

definition pad_left :: "nat \<Rightarrow> string \<Rightarrow> string" where
  "pad_left n s = replicate (n - length s) CHR ''0'' @ s"

definition zero_padded :: "nat \<Rightarrow> int \<Rightarrow> string" where
  "zero_padded n i = pad_left n (FormatInt i)"

definition date_compact :: "day \<Rightarrow> string" where
  "date_compact d = (case civil d of (y, m, mday) \<Rightarrow> zero_padded 4 y @ zero_padded 2 m @ zero_padded 2 mday)"

definition date_iso :: "day \<Rightarrow> string" where
  "date_iso d = (case civil d of (y, m, mday) \<Rightarrow>
     zero_padded 4 y @ ''-'' @ zero_padded 2 m @ ''-'' @ zero_padded 2 mday)"

text \<open>\<open>created_at AT TIME ZONE 'Asia/Jakarta'\<close>: timestamps count nanoseconds from day 0 in UTC.\<close>

definition jakarta_day :: "timestamp \<Rightarrow> day" where
  "jakarta_day t = (t + 7 * hour) div (24 * hour)"

text \<open>Reading a Go map, with the zero value for a missing key; the last entry of a key wins.\<close>

definition go_get :: "'v \<Rightarrow> ('k \<times> 'v) list \<Rightarrow> 'k \<Rightarrow> 'v" where
  "go_get zero m k = (case map_of (rev m) k of None \<Rightarrow> zero | Some v \<Rightarrow> v)"

definition go_has :: "('k \<times> 'v) list \<Rightarrow> 'k \<Rightarrow> bool" where
  "go_has m k \<longleftrightarrow> map_of (rev m) k \<noteq> None"

definition sortedKeys :: "(string \<times> 'v) list \<Rightarrow> string list" where
  "sortedKeys m = sort (remdups (map fst m))"

section \<open>Vendor requests\<close>

definition GetVendorRequest :: "id64 \<Rightarrow> vdb \<Rightarrow> vreq option" where
  "GetVendorRequest rid s = find_row (\<lambda>r. vr_id r = rid) (rd_requests s)"

definition GetVendorRequestForUpdate :: "venv \<Rightarrow> id64 \<Rightarrow> vreq vtx" where
  "GetVendorRequestForUpdate v rid =
     query v ''GetVendorRequestForUpdate'' ''load vendor request'' (tx_get ErrNotFound (GetVendorRequest rid))"

definition update_request :: "id64 \<Rightarrow> (vreq \<Rightarrow> vreq) \<Rightarrow> vdb \<Rightarrow> vdb" where
  "update_request rid f s = s\<lparr>rd_requests := update_where (\<lambda>r. vr_id r = rid) f (rd_requests s)\<rparr>"

definition draft_request ::
  "venv \<Rightarrow> id64 \<Rightarrow> string \<Rightarrow> day \<Rightarrow> day \<Rightarrow> string option \<Rightarrow> bool \<Rightarrow> id64 \<Rightarrow> string \<Rightarrow> string option \<Rightarrow> id64 \<Rightarrow> vreq" where
  "draft_request v rid number forecastDate replenishDate category isManual vendorID regionCode notes createdBy =
     \<lparr>vr_id = rid, vr_request_number = number, vr_forecast_date = forecastDate, vr_status = ''draft'',
      vr_notes = notes, vr_created_by = createdBy, vr_approved_by = None, vr_rejected_by = None,
      vr_rejection_reason = None, vr_created_at = ve_now v, vr_submitted_at = None, vr_approved_at = None,
      vr_rejected_at = None, vr_is_canceled = False, vr_request_category = category,
      vr_replenish_date = Some replenishDate, vr_is_manual = isManual, vr_vendor_id = Some vendorID,
      vr_cancellation_reason = None, vr_completion_submitted_by = None, vr_completion_submitted_at = None,
      vr_completion_approved_by = None, vr_completion_approved_at = None, vr_completion_rejected_by = None,
      vr_completion_rejected_at = None, vr_completion_rejection_reason = None, vr_region_code = Some regionCode,
      vr_vault_flow = False, vr_vault_reviewed_by = None, vr_vault_reviewed_at = None,
      vr_vault_rejection_reason = None, vr_vendor_sent = False, vr_sent_at = None, vr_vendor_accepted_at = None\<rparr>"

text \<open>\<open>CreateVendorRequest\<close>, with \<open>vendor_requests_number_uq\<close>.\<close>

definition CreateVendorRequest :: "(id64 \<Rightarrow> vreq) \<Rightarrow> (vdb, pg_err, vreq) tx" where
  "CreateVendorRequest mk s =
     (let rid = rd_ids s ''vendor_requests''; r = mk rid in
      if list_ex (\<lambda>x. vr_request_number x = vr_request_number r) (rd_requests s)
      then Inl (PgUnique ''vendor_requests_number_uq'')
      else Inr (r, s\<lparr>rd_requests := rd_requests s @ [r],
                    rd_ids := (rd_ids s)(''vendor_requests'' := rid + 1)\<rparr>))"

text \<open>\<open>CASE WHEN status = .. THEN now() ELSE column END\<close>.\<close>

definition stamp :: "bool \<Rightarrow> 'a \<Rightarrow> 'a \<Rightarrow> 'a" where
  "stamp c new old = (if c then new else old)"

definition status_row :: "venv \<Rightarrow> string \<Rightarrow> id64 option \<Rightarrow> string option \<Rightarrow> vreq \<Rightarrow> vreq" where
  "status_row v status actorID reason r = r\<lparr>
     vr_status := status,
     vr_submitted_at := stamp (status = ''pending_approval'') (Some (ve_now v)) (vr_submitted_at r),
     vr_approved_at := stamp (status = ''approved'' \<or> status = ''vault_assignment'') (Some (ve_now v)) (vr_approved_at r),
     vr_approved_by := stamp (status = ''approved'' \<or> status = ''vault_assignment'') actorID (vr_approved_by r),
     vr_vault_flow := vr_vault_flow r \<or> status = ''vault_assignment'',
     vr_vendor_sent := vr_vendor_sent r \<or> status = ''sent_to_vendor'',
     vr_sent_at := stamp (status = ''sent_to_vendor'') (Some (ve_now v)) (vr_sent_at r),
     vr_vendor_accepted_at := stamp (status = ''vendor_accepted'') (Some (ve_now v)) (vr_vendor_accepted_at r),
     vr_rejected_at := stamp (status = ''rejected'') (Some (ve_now v)) (vr_rejected_at r),
     vr_rejected_by := stamp (status = ''rejected'') actorID (vr_rejected_by r),
     vr_rejection_reason := stamp (status = ''rejected'') reason (vr_rejection_reason r)\<rparr>"

definition UpdateVendorRequestStatus ::
  "venv \<Rightarrow> string \<Rightarrow> id64 option \<Rightarrow> string option \<Rightarrow> id64 \<Rightarrow> vdb \<Rightarrow> vdb" where
  "UpdateVendorRequestStatus v status actorID reason rid = update_request rid (status_row v status actorID reason)"

definition cancelled_row :: "string \<Rightarrow> vreq \<Rightarrow> vreq" where
  "cancelled_row reason r = r\<lparr>vr_status := ''cancelled'',
     vr_is_canceled := True, vr_cancellation_reason := Some reason\<rparr>"

definition SoftCancelVendorRequest :: "string \<Rightarrow> id64 \<Rightarrow> vdb \<Rightarrow> vdb" where
  "SoftCancelVendorRequest reason rid = update_request rid (cancelled_row reason)"

definition returned :: "string \<Rightarrow> bool" where
  "returned status \<longleftrightarrow> status = ''approved'' \<or> status = ''ready'' \<or> status = ''vendor_accepted''"

definition completion_row :: "venv \<Rightarrow> string \<Rightarrow> id64 \<Rightarrow> string option \<Rightarrow> vreq \<Rightarrow> vreq" where
  "completion_row v status actorID reason r = r\<lparr>
     vr_status := status,
     vr_completion_submitted_by := stamp (status = ''completion_pending'') (Some actorID) (vr_completion_submitted_by r),
     vr_completion_submitted_at := stamp (status = ''completion_pending'') (Some (ve_now v)) (vr_completion_submitted_at r),
     vr_completion_approved_by := stamp (status = ''completed'') (Some actorID) (vr_completion_approved_by r),
     vr_completion_approved_at := stamp (status = ''completed'') (Some (ve_now v)) (vr_completion_approved_at r),
     vr_completion_rejected_by := (if returned status then Some actorID
        else if status = ''completion_pending'' then None else vr_completion_rejected_by r),
     vr_completion_rejected_at := (if returned status then Some (ve_now v)
        else if status = ''completion_pending'' then None else vr_completion_rejected_at r),
     vr_completion_rejection_reason := (if returned status then reason
        else if status = ''completion_pending'' then None else vr_completion_rejection_reason r)\<rparr>"

definition UpdateVendorRequestCompletion ::
  "venv \<Rightarrow> string \<Rightarrow> id64 \<Rightarrow> string option \<Rightarrow> id64 \<Rightarrow> vdb \<Rightarrow> vdb" where
  "UpdateVendorRequestCompletion v status actorID reason rid = update_request rid (completion_row v status actorID reason)"

definition review_row :: "venv \<Rightarrow> string \<Rightarrow> id64 \<Rightarrow> string option \<Rightarrow> vreq \<Rightarrow> vreq" where
  "review_row v status actorID reason r = r\<lparr>
     vr_status := status, vr_vault_reviewed_by := Some actorID, vr_vault_reviewed_at := Some (ve_now v),
     vr_vault_rejection_reason := reason,
     vr_vendor_sent := vr_vendor_sent r \<or> status = ''sent_to_vendor'',
     vr_sent_at := stamp (status = ''sent_to_vendor'') (Some (ve_now v)) (vr_sent_at r)\<rparr>"

definition SetVendorRequestVaultReview ::
  "venv \<Rightarrow> string \<Rightarrow> id64 \<Rightarrow> string option \<Rightarrow> id64 \<Rightarrow> vdb \<Rightarrow> vdb" where
  "SetVendorRequestVaultReview v status actorID reason rid = update_request rid (review_row v status actorID reason)"

definition SetVendorRequestStatusOnly :: "string \<Rightarrow> id64 \<Rightarrow> vdb \<Rightarrow> vdb" where
  "SetVendorRequestStatusOnly status rid = update_request rid (\<lambda>r. r\<lparr>vr_status := status\<rparr>)"

section \<open>Items and request numbers\<close>

definition ListVendorRequestItems :: "id64 \<Rightarrow> vdb \<Rightarrow> vitem list" where
  "ListVendorRequestItems rid s = sort_key vi_id (filter (\<lambda>i. vi_vendor_request_id i = rid) (rd_items s))"

definition ListDistinctRequestTerminals :: "id64 \<Rightarrow> vdb \<Rightarrow> string list" where
  "ListDistinctRequestTerminals rid s =
     sort (remdups (map vi_terminal_id (filter (\<lambda>i. vi_vendor_request_id i = rid) (rd_items s))))"

definition item_violation :: "vitem list \<Rightarrow> vitem \<Rightarrow> pg_err option" where
  "item_violation items i =
     (if vi_denom i \<le> 0 then Some (PgCheck ''vendor_request_items_denom_chk'')
      else if vi_amount_refund i < 0 then Some (PgCheck ''vendor_request_items_refund_chk'')
      else if vi_amount_replenish i < 0 then Some (PgCheck ''vendor_request_items_replenish_chk'')
      else if list_ex (\<lambda>x. vi_vendor_request_id x = vi_vendor_request_id i \<and> vi_terminal_id x = vi_terminal_id i
                \<and> vi_periode_pred x = vi_periode_pred i \<and> vi_denom x = vi_denom i) items
      then Some (PgUnique ''vendor_request_items_uq'') else None)"

definition InsertVendorRequestItem ::
  "id64 \<Rightarrow> item_input \<Rightarrow> int \<Rightarrow> string option \<Rightarrow> string option \<Rightarrow> unit vtx" where
  "InsertVendorRequestItem rid it refund brand lokasi =
     tx_bind (fresh_id ''vendor_request_items'') (\<lambda>iid.
     let i = \<lparr>vi_id = iid, vi_vendor_request_id = rid, vi_terminal_id = ii_TerminalID it,
              vi_periode_pred = ii_PeriodePred it, vi_denom = ii_Denom it,
              vi_amount_replenish = ii_AmountReplenish it, vi_amount_refund = refund,
              vi_brand = brand, vi_lokasi_atm = lokasi\<rparr> in
     tx_bind (tx_read rd_items) (\<lambda>items.
     tx_then (tx_check (map_option (VrPg ''insert item'') (item_violation items i)))
       (tx_write (\<lambda>s. s\<lparr>rd_items := rd_items s @ [i]\<rparr>))))"

definition DeleteVendorRequestItems :: "id64 \<Rightarrow> vdb \<Rightarrow> vdb" where
  "DeleteVendorRequestItems rid s = s\<lparr>rd_items := filter (\<lambda>i. vi_vendor_request_id i \<noteq> rid) (rd_items s)\<rparr>"

text \<open>\<open>NextRequestNumberSeq\<close>: an upsert with \<open>vendor_request_number_seq_last_chk\<close>.\<close>

definition NextRequestNumberSeq :: "id64 \<Rightarrow> string \<Rightarrow> day \<Rightarrow> (vdb, pg_err, int) tx" where
  "NextRequestNumberSeq vendorID regionCode d s =
     (let p = \<lambda>q. sq_vendor_id q = vendorID \<and> sq_region_code q = regionCode \<and> sq_seq_date q = d in
      case find_row p (rd_seq s) of
        None \<Rightarrow> Inr (1, s\<lparr>rd_seq := rd_seq s @ [\<lparr>sq_vendor_id = vendorID, sq_region_code = regionCode,
                        sq_seq_date = d, sq_last_seq = 1\<rparr>]\<rparr>)
      | Some q \<Rightarrow>
          if sq_last_seq q + 1 > 999 then Inl (PgCheck ''vendor_request_number_seq_last_chk'')
          else Inr (sq_last_seq q + 1,
                    s\<lparr>rd_seq := update_where p (\<lambda>q. q\<lparr>sq_last_seq := sq_last_seq q + 1\<rparr>) (rd_seq s)\<rparr>))"

definition ForecastRowExists :: "string \<Rightarrow> day \<Rightarrow> int \<Rightarrow> vdb \<Rightarrow> forecast_row option" where
  "ForecastRowExists terminalID d denom s =
     find_row (\<lambda>f. fc_terminal_id f = terminalID \<and> fc_periode_pred f = d \<and> fc_denom f = denom)
       (md_forecast (rd_master s))"

definition GetVendorForRequestNumber :: "id64 \<Rightarrow> vdb \<Rightarrow> vvendor option" where
  "GetVendorForRequestNumber vendorID s = find_row (\<lambda>d. vd_id d = vendorID) (md_vendors (rd_master s))"

section \<open>The vendor that manages an ATM\<close>

definition package_valid :: "day \<Rightarrow> atm_node \<Rightarrow> atm_package \<Rightarrow> bool" where
  "package_valid d a p \<longleftrightarrow> ap_atm_id p = an_id a \<and> ap_is_active p \<and> ap_effective_start_date p \<le> d
     \<and> (case ap_effective_end_date p of None \<Rightarrow> True | Some e \<Rightarrow> d \<le> e)"

definition package_branch :: "master \<Rightarrow> atm_package \<Rightarrow> id64 option" where
  "package_branch md p =
     (case Option.bind (ap_vendor_package_id p) (\<lambda>i. find_row (\<lambda>b. bp_id b = i) (md_branch_packages md)) of
        Some b \<Rightarrow> Some (bp_vendor_branch_id b)
      | None \<Rightarrow> ap_vendor_branch_id p)"

text \<open>
  The latest valid package. Every query but \<open>GetActiveVendorForTerminal\<close> breaks ties by the higher id;
  that one leaves the choice among the latest to the database, here \<open>pick\<close>.
\<close>

definition latest_package :: "day \<Rightarrow> master \<Rightarrow> atm_node \<Rightarrow> atm_package option" where
  "latest_package d md a =
     first_min (\<lambda>p. - ap_effective_start_date p)
       (rev (sort_key ap_id (filter (package_valid d a) (md_atm_packages md))))"

definition any_latest_package ::
  "(atm_package list \<Rightarrow> atm_package list) \<Rightarrow> day \<Rightarrow> master \<Rightarrow> atm_node \<Rightarrow> atm_package option" where
  "any_latest_package pick d md a =
     first_min (\<lambda>p. - ap_effective_start_date p) (pick (filter (package_valid d a) (md_atm_packages md)))"

definition branch_by_id :: "master \<Rightarrow> id64 option \<Rightarrow> vbranch option" where
  "branch_by_id md bid = Option.bind bid (\<lambda>i. find_row (\<lambda>b. vb_id b = i) (md_branches md))"

definition vendor_by_id :: "master \<Rightarrow> id64 \<Rightarrow> vvendor option" where
  "vendor_by_id md i = find_row (\<lambda>d. vd_id d = i) (md_vendors md)"

definition GetActiveVendorForTerminal :: "string \<Rightarrow> day \<Rightarrow> vdb \<Rightarrow> (id64 \<times> string \<times> string option) option" where
  "GetActiveVendorForTerminal terminalID d s =
     (let md = rd_master s in
      Option.bind (find_row (\<lambda>a. an_terminal_id a = terminalID) (md_atms md)) (\<lambda>a.
      Option.bind (any_latest_package (\<lambda>ps. ps) d md a) (\<lambda>p.
      Option.bind (branch_by_id md (package_branch md p)) (\<lambda>b.
      map_option (\<lambda>w. (vd_id w, vb_branch_code b, vb_region_code b)) (vendor_by_id md (vb_vendor_id b))))))"

definition replenish_branch :: "string \<Rightarrow> day option \<Rightarrow> master \<Rightarrow> (vbranch \<times> vvendor) option" where
  "replenish_branch terminalID d md =
     Option.bind d (\<lambda>day.
     Option.bind (find_row (\<lambda>a. an_terminal_id a = terminalID) (md_atms md)) (\<lambda>a.
     Option.bind (latest_package day md a) (\<lambda>p.
     Option.bind (branch_by_id md (package_branch md p)) (\<lambda>b.
     map_option (Pair b) (vendor_by_id md (vb_vendor_id b))))))"

section \<open>Replenish tickets\<close>

definition ListVendorRequestTickets :: "string \<Rightarrow> vdb \<Rightarrow> ticket list" where
  "ListVendorRequestTickets number s =
     sort_key tk_terminal_id (sort_key tk_id (filter (\<lambda>t. tk_request_number t = number) (rd_tickets s)))"

definition ListActiveVendorRequestTickets :: "string \<Rightarrow> vdb \<Rightarrow> ticket list" where
  "ListActiveVendorRequestTickets number s =
     sort_key tk_terminal_id (filter (\<lambda>t. tk_request_number t = number \<and> tk_is_active t) (rd_tickets s))"

definition denom_code_ok :: "string \<Rightarrow> bool" where
  "denom_code_ok c \<longleftrightarrow> c = ''MIX''
     \<or> length c \<ge> 2 \<and> last c = CHR ''K'' \<and> list_all is_digit (butlast c) \<and> hd c \<noteq> CHR ''0''"

definition ticket_violation :: "ticket list \<Rightarrow> ticket \<Rightarrow> pg_err option" where
  "ticket_violation others t =
     (if \<not> denom_code_ok (tk_denom_code t) then Some (PgCheck ''vendor_request_tickets_denom_code_check'')
      else if tk_seq t < 1 \<or> tk_seq t > 999 then Some (PgCheck ''vendor_request_tickets_seq_chk'')
      else if list_ex (\<lambda>x. tk_ticket_number x = tk_ticket_number t) others
      then Some (PgUnique ''vendor_request_tickets_number_uq'')
      else if list_ex (\<lambda>x. tk_terminal_id x = tk_terminal_id t \<and> tk_replenish_date x = tk_replenish_date t
                \<and> tk_seq x = tk_seq t) others then Some (PgUnique ''vendor_request_tickets_seq_uq'')
      else if list_ex (\<lambda>x. tk_request_number x = tk_request_number t \<and> tk_terminal_id x = tk_terminal_id t
                \<and> tk_denom_code x = tk_denom_code t) others then Some (PgUnique ''vendor_request_tickets_code_uq'')
      else if tk_is_active t \<and> list_ex (\<lambda>x. tk_request_number x = tk_request_number t
                \<and> tk_terminal_id x = tk_terminal_id t \<and> tk_is_active x) others
      then Some (PgUnique ''vendor_request_tickets_active_uq'') else None)"

definition next_ticket_seq :: "ticket list \<Rightarrow> string \<Rightarrow> day \<Rightarrow> int" where
  "next_ticket_seq ts terminalID d =
     fold max (map tk_seq (filter (\<lambda>t. tk_terminal_id t = terminalID \<and> tk_replenish_date t = d) ts)) 0 + 1"

definition ticket_number :: "string \<Rightarrow> string \<Rightarrow> day \<Rightarrow> int \<Rightarrow> string" where
  "ticket_number terminalID dcode d seq =
     terminalID @ ''_'' @ dcode @ ''_'' @ date_compact d @ ''_'' @ zero_padded 3 seq"

definition IssueVendorRequestTicket :: "string \<Rightarrow> string \<Rightarrow> string \<Rightarrow> day \<Rightarrow> (vdb, pg_err, string) tx" where
  "IssueVendorRequestTicket number terminalID dcode d s =
     (let seq = next_ticket_seq (rd_tickets s) terminalID d;
          t = \<lparr>tk_id = rd_ids s ''vendor_request_tickets'', tk_request_number = number,
               tk_terminal_id = terminalID, tk_denom_code = dcode, tk_replenish_date = d, tk_seq = seq,
               tk_ticket_number = ticket_number terminalID dcode d seq, tk_is_active = True,
               tk_deactivated_at = None, tk_result = None\<rparr>
      in case ticket_violation (rd_tickets s) t of
           Some e \<Rightarrow> Inl e
         | None \<Rightarrow> Inr (tk_ticket_number t, s\<lparr>rd_tickets := rd_tickets s @ [t],
             rd_ids := (rd_ids s)(''vendor_request_tickets'' := tk_id t + 1)\<rparr>))"

definition activate_ticket :: "venv \<Rightarrow> bool \<Rightarrow> ticket \<Rightarrow> ticket" where
  "activate_ticket v active t = t\<lparr>tk_is_active := active,
     tk_deactivated_at := (if active then None else Some (ve_now v)),
     tk_result := (if active then tk_result t else None)\<rparr>"

text \<open>\<open>SetVendorRequestTicketActive\<close>; reactivation meets the partial unique index.\<close>

definition SetVendorRequestTicketActive :: "venv \<Rightarrow> id64 \<Rightarrow> bool \<Rightarrow> (vdb, pg_err, string) tx" where
  "SetVendorRequestTicketActive v tid active s =
     (case find_row (\<lambda>t. tk_id t = tid) (rd_tickets s) of
        None \<Rightarrow> Inl PgNoRows
      | Some t \<Rightarrow>
          if active \<and> list_ex (\<lambda>x. tk_id x \<noteq> tid \<and> tk_request_number x = tk_request_number t
               \<and> tk_terminal_id x = tk_terminal_id t \<and> tk_is_active x) (rd_tickets s)
          then Inl (PgUnique ''vendor_request_tickets_active_uq'')
          else Inr (tk_ticket_number t, s\<lparr>rd_tickets :=
                 update_where (\<lambda>t. tk_id t = tid) (activate_ticket v active) (rd_tickets s)\<rparr>))"

definition SetVendorRequestTicketResult :: "string \<Rightarrow> string \<Rightarrow> string \<Rightarrow> (vdb, pg_err, id64) tx" where
  "SetVendorRequestTicketResult number terminalID res s =
     (let p = \<lambda>t. tk_request_number t = number \<and> tk_terminal_id t = terminalID \<and> tk_is_active t in
      case find_row p (rd_tickets s) of
        None \<Rightarrow> Inl PgNoRows
      | Some t \<Rightarrow> Inr (tk_id t, s\<lparr>rd_tickets := update_where p (\<lambda>t. t\<lparr>tk_result := Some res\<rparr>) (rd_tickets s)\<rparr>))"

text \<open>The error of a statement, wrapped by the caller.\<close>

definition pg_stmt :: "venv \<Rightarrow> string \<Rightarrow> string \<Rightarrow> (vdb, pg_err, 'a) tx \<Rightarrow> 'a vtx" where
  "pg_stmt v q what m = query v q what (\<lambda>s. case m s of Inl e \<Rightarrow> Inl (VrPg what e) | Inr r \<Rightarrow> Inr r)"

lemma wp_pg_stmt [wp_simps]: "wp (pg_stmt v q what m) s Q = (ve_flt v q \<or> wp m s Q)"
  by (auto simp: pg_stmt_def wp_simps) (auto simp: wp_def split: sum.splits)

end
