(* ===== verification/Vendor_Ticket.thy ===== *)
theory Vendor_Ticket
  imports Vendor_Db
begin

text \<open>
  Replenish tickets and the region of a request: \<open>src/backend/internal/service/vendor_request_ticket.go\<close>.
  One active ticket per request and ATM; \<open>planTickets\<close> is the pure difference between the tickets of a
  request and the ATMs it now has, \<open>applyTicketPlan\<close> writes it. A Go map is an association list.
\<close>

section \<open>Resolved items\<close>

record resolved_item =
  rs_input :: item_input
  rs_amountRefund :: int
  rs_overridden :: bool

section \<open>One region per request\<close>

definition go_set :: "'k \<Rightarrow> 'v \<Rightarrow> ('k \<times> 'v) list \<Rightarrow> ('k \<times> 'v) list" where
  "go_set k v m = filter (\<lambda>e. fst e \<noteq> k) m @ [(k, v)]"

text \<open>The managing branch of an ATM: its code and the region code, if it has one.\<close>

type_synonym branch_region = "string \<times> string option"

definition region_codes :: "(string \<times> branch_region) list \<Rightarrow> string list" where
  "region_codes atms = sort (remdups (List.map_filter (\<lambda>(_, _, c). c) atms))"

definition terminals_of_region :: "(string \<times> branch_region) list \<Rightarrow> string \<Rightarrow> string list" where
  "terminals_of_region atms dcode = sort (map fst (filter (\<lambda>(_, _, c). c = Some dcode) atms))"

definition singleRegion :: "(string \<times> branch_region) list \<Rightarrow> string \<Rightarrow> vr_err + string" where
  "singleRegion atms want =
     (let noCode = sort (remdups (map (\<lambda>(_, b, _). b) (filter (\<lambda>(_, _, c). c = None) atms)));
          codes = region_codes atms
      in if noCode \<noteq> []
         then Inl (InvalidField ''items'' (''region vendor cabang '' @ join '', '' noCode @ '' belum punya kode region''))
         else if length codes = 1 \<and> (want = [] \<or> hd codes = want) then Inr (hd codes)
         else Inl (InvalidField ''items''
           (''ATM dalam satu request harus dari region vendor yang sama: '' @
            join ''; '' ((if want \<noteq> [] then [''request '' @ want] else [])
              @ map (\<lambda>c. c @ '': '' @ join '','' (terminals_of_region atms c)) codes))))"

section \<open>Wanted tickets\<close>

definition denomCode :: "int list \<Rightarrow> string" where
  "denomCode denoms = (case denoms of [d] \<Rightarrow> FormatInt (go_div d 1000) @ ''K'' | _ \<Rightarrow> ''MIX'')"

definition item_terminals :: "resolved_item list \<Rightarrow> string list" where
  "item_terminals items = remdups (map (\<lambda>r. ii_TerminalID (rs_input r)) items)"

definition denoms_of :: "resolved_item list \<Rightarrow> string \<Rightarrow> int list" where
  "denoms_of items t =
     remdups (map (\<lambda>r. ii_Denom (rs_input r)) (filter (\<lambda>r. ii_TerminalID (rs_input r) = t) items))"

definition wantedCodes :: "resolved_item list \<Rightarrow> (string \<times> string) list" where
  "wantedCodes items = map (\<lambda>t. (t, denomCode (denoms_of items t))) (item_terminals items)"

section \<open>The plan\<close>

record ticket_plan =
  tp_Deactivate :: "id64 list"
  tp_Reactivate :: "id64 list"
  tp_Issue :: "(string \<times> string) list"

definition ticket_key :: "string \<Rightarrow> string \<Rightarrow> string" where
  "ticket_key terminal dcode = terminal @ ''|'' @ dcode"

definition ticket_wanted :: "(string \<times> string) list \<Rightarrow> ticket \<Rightarrow> bool" where
  "ticket_wanted want t \<longleftrightarrow> go_get [] want (tk_terminal_id t) = tk_denom_code t"

definition active_codes :: "ticket list \<Rightarrow> (string \<times> string) list \<Rightarrow> (string \<times> string) list" where
  "active_codes existing want =
     map (\<lambda>t. (tk_terminal_id t, tk_denom_code t)) (filter (\<lambda>t. tk_is_active t \<and> ticket_wanted want t) existing)"

definition inactive_tickets :: "ticket list \<Rightarrow> (string \<times> id64) list" where
  "inactive_tickets existing =
     map (\<lambda>t. (ticket_key (tk_terminal_id t) (tk_denom_code t), tk_id t)) (filter (\<lambda>t. \<not> tk_is_active t) existing)"

definition missing_codes :: "ticket list \<Rightarrow> (string \<times> string) list \<Rightarrow> (string \<times> string) list" where
  "missing_codes existing want =
     filter (\<lambda>(t, c). go_get [] (active_codes existing want) t \<noteq> c)
       (map (\<lambda>t. (t, go_get [] want t)) (sortedKeys want))"

definition planTickets :: "ticket list \<Rightarrow> (string \<times> string) list \<Rightarrow> ticket_plan" where
  "planTickets existing want =
     (let inactive = inactive_tickets existing; missing = missing_codes existing want in
      \<lparr>tp_Deactivate = map tk_id (filter (\<lambda>t. tk_is_active t \<and> \<not> ticket_wanted want t) existing),
       tp_Reactivate = List.map_filter (\<lambda>(t, c). map_of (rev inactive) (ticket_key t c)) missing,
       tp_Issue = filter (\<lambda>(t, c). \<not> go_has inactive (ticket_key t c)) missing\<rparr>)"

section \<open>Writing the plan\<close>

record ticket_audit =
  ta_Added :: "(string \<times> string) list"
  ta_Deactivated :: "string list"
  ta_Reactivated :: "string list"

definition json_tickets :: "(string \<times> string) list \<Rightarrow> json" where
  "json_tickets added = JArr (map (\<lambda>(t, n). JObj [(''terminal_id'', JStr t), (''ticket_number'', JStr n)]) added)"

definition addTo :: "ticket_audit \<Rightarrow> (string \<times> json) list" where
  "addTo a =
     (if ta_Added a \<noteq> [] then [(''tickets_added'', json_tickets (ta_Added a))] else [])
     @ (if ta_Deactivated a \<noteq> [] then [(''tickets_deactivated'', JArr (map JStr (ta_Deactivated a)))] else [])
     @ (if ta_Reactivated a \<noteq> [] then [(''tickets_reactivated'', JArr (map JStr (ta_Reactivated a)))] else [])"

definition issue_ticket :: "venv \<Rightarrow> string \<Rightarrow> day \<Rightarrow> string \<times> string \<Rightarrow> (string \<times> string) vtx" where
  "issue_ticket v number d it =
     tx_then (query v ''LockTicketSeq'' ''lock ticket seq'' (tx_ret ()))
     (query v ''IssueVendorRequestTicket'' ''issue ticket''
       (\<lambda>s. case IssueVendorRequestTicket number (fst it) (snd it) d s of
          Inr (n, s') \<Rightarrow> Inr ((fst it, n), s')
        | Inl e \<Rightarrow> Inl (if e = PgCheck ''vendor_request_tickets_seq_chk''
              then InvalidField ''items'' (''nomor tiket ATM '' @ fst it @ '' tanggal '' @ date_compact d
                @ '' sudah mencapai 999'')
              else VrPg ''issue ticket'' e)))"

definition applyTicketPlan :: "venv \<Rightarrow> string \<Rightarrow> day \<Rightarrow> ticket_plan \<Rightarrow> ticket_audit vtx" where
  "applyTicketPlan v number d p =
     tx_bind (tx_map (\<lambda>tid. pg_stmt v ''SetVendorRequestTicketActive'' ''deactivate ticket''
       (SetVendorRequestTicketActive v tid False)) (tp_Deactivate p)) (\<lambda>deactivated.
     tx_bind (tx_map (\<lambda>tid. pg_stmt v ''SetVendorRequestTicketActive'' ''reactivate ticket''
       (SetVendorRequestTicketActive v tid True)) (tp_Reactivate p)) (\<lambda>reactivated.
     tx_bind (tx_map (issue_ticket v number d) (tp_Issue p)) (\<lambda>added.
     tx_ret \<lparr>ta_Added = added, ta_Deactivated = deactivated, ta_Reactivated = reactivated\<rparr>)))"

definition ticketDate :: "vreq \<Rightarrow> day" where
  "ticketDate req = (case vr_replenish_date req of Some d \<Rightarrow> d | None \<Rightarrow> jakarta_day (vr_created_at req))"

end
