(* ===== verification/Vendor_State.thy ===== *)
theory Vendor_State
  imports Vendor_Ticket
begin

text \<open>
  The state machine of a vendor request (\<open>vendor_request.go\<close>): statuses are the texts of the column,
  \<open>transitions\<close> is the table of the code, \<open>checkActor\<close> who may take a step. Then the checks of a
  payload that need no state (\<open>vendor_request_actions.go\<close>, \<open>vendor_request_create.go\<close>).
\<close>

section \<open>Who acts\<close>

record vr_actor =
  ac_UserID :: id64
  ac_Role :: string
  ac_IP :: ip_addr

definition checkerRoles :: "string list" where
  "checkerRoles = [''ADMIN'', ''ATM-SPV'', ''BRANCH-ATM-SPV'']"

definition roleIn :: "string \<Rightarrow> string list \<Rightarrow> bool" where
  "roleIn role rs \<longleftrightarrow> list_ex (\<lambda>r. equal_fold role r) rs"

definition isChecker :: "string \<Rightarrow> bool" where
  "isChecker role = roleIn role checkerRoles"

section \<open>The transition table\<close>

datatype vr_action =
    ActionSubmit | ActionApprove | ActionReject | ActionRevise | ActionCancel
  | ActionSubmitCompletion | ActionApproveCompletion | ActionRejectCompletion
  | ActionVaultReady | ActionVaultApprove | ActionVaultReject | ActionVendorReturn

fun action_name :: "vr_action \<Rightarrow> string" where
  "action_name ActionSubmit = ''submit''"
| "action_name ActionApprove = ''approve''"
| "action_name ActionReject = ''reject''"
| "action_name ActionRevise = ''revise''"
| "action_name ActionCancel = ''cancel''"
| "action_name ActionSubmitCompletion = ''submit_completion''"
| "action_name ActionApproveCompletion = ''approve_completion''"
| "action_name ActionRejectCompletion = ''reject_completion''"
| "action_name ActionVaultReady = ''vault_ready''"
| "action_name ActionVaultApprove = ''vault_approve''"
| "action_name ActionVaultReject = ''vault_reject''"
| "action_name ActionVendorReturn = ''vendor_return''"

definition transitions :: "(string \<times> (vr_action \<times> string) list) list" where
  "transitions =
    [(''draft'', [(ActionSubmit, ''pending_approval''), (ActionCancel, ''cancelled'')]),
     (''pending_approval'', [(ActionApprove, ''vault_assignment''), (ActionReject, ''rejected''),
        (ActionCancel, ''cancelled'')]),
     (''rejected'', [(ActionRevise, ''draft'')]),
     (''vault_assignment'', [(ActionVaultReady, ''vault_review''), (ActionCancel, ''cancelled'')]),
     (''vault_review'', [(ActionVaultApprove, ''sent_to_vendor''), (ActionVaultReject, ''vault_assignment''),
        (ActionCancel, ''cancelled'')]),
     (''ready'', [(ActionCancel, ''cancelled''), (ActionSubmitCompletion, ''completion_pending'')]),
     (''sent_to_vendor'', [(ActionCancel, ''cancelled'')]),
     (''vendor_accepted'', [(ActionCancel, ''cancelled''), (ActionSubmitCompletion, ''completion_pending'')]),
     (''vendor_rejected'', [(ActionCancel, ''cancelled''), (ActionVendorReturn, ''rejected'')]),
     (''approved'', [(ActionCancel, ''cancelled''), (ActionSubmitCompletion, ''completion_pending'')]),
     (''completion_pending'', [(ActionApproveCompletion, ''completed''), (ActionRejectCompletion, ''approved'')])]"

definition nextState :: "string \<Rightarrow> vr_action \<Rightarrow> string option" where
  "nextState cur a = Option.bind (map_of transitions cur) (\<lambda>m. map_of m a)"

definition checkActor :: "vr_actor \<Rightarrow> vreq \<Rightarrow> vr_action \<Rightarrow> vr_err option" where
  "checkActor actor req a =
     (let creator = (ac_UserID actor = vr_created_by req); checker = isChecker (ac_Role actor) in
      case a of
        ActionSubmit \<Rightarrow> if \<not> creator then Some ErrNotCreator else None
      | ActionRevise \<Rightarrow> if \<not> creator then Some ErrNotCreator else None
      | ActionApprove \<Rightarrow> if \<not> checker then Some ErrNotChecker else if creator then Some ErrSelfApproval else None
      | ActionReject \<Rightarrow> if \<not> checker then Some ErrNotChecker else if creator then Some ErrSelfApproval else None
      | ActionVendorReturn \<Rightarrow> if \<not> checker then Some ErrNotChecker else if creator then Some ErrSelfApproval else None
      | ActionCancel \<Rightarrow>
          if vr_status req = ''draft'' then (if \<not> creator then Some ErrNotCreator else None)
          else if vr_status req \<in> {''approved'', ''vault_assignment'', ''vault_review'', ''ready'', ''sent_to_vendor'',
              ''vendor_accepted'', ''vendor_rejected''}
          then (if \<not> checker then Some ErrNotChecker else None)
          else (if \<not> creator \<and> \<not> (checker \<and> \<not> creator) then Some ErrNotAuthorized else None)
      | _ \<Rightarrow> None)"

lemma nextState_simps [simp]:
  "nextState ''cancelled'' a = None" "nextState ''completed'' a = None"
  by (simp_all add: nextState_def transitions_def)

text \<open>Every step of the table, by its action.\<close>

lemma nextState_cases:
  assumes "nextState cur a = Some to"
  shows "(a = ActionSubmit \<longrightarrow> cur = ''draft'' \<and> to = ''pending_approval'')
    \<and> (a = ActionApprove \<longrightarrow> cur = ''pending_approval'' \<and> to = ''vault_assignment'')
    \<and> (a = ActionReject \<longrightarrow> cur = ''pending_approval'' \<and> to = ''rejected'')
    \<and> (a = ActionRevise \<longrightarrow> cur = ''rejected'' \<and> to = ''draft'')
    \<and> (a = ActionCancel \<longrightarrow> to = ''cancelled'')
    \<and> (a = ActionSubmitCompletion \<longrightarrow> cur \<in> {''ready'', ''vendor_accepted'', ''approved''} \<and> to = ''completion_pending'')
    \<and> (a = ActionApproveCompletion \<longrightarrow> cur = ''completion_pending'' \<and> to = ''completed'')
    \<and> (a = ActionRejectCompletion \<longrightarrow> cur = ''completion_pending'' \<and> to = ''approved'')
    \<and> (a = ActionVaultReady \<longrightarrow> cur = ''vault_assignment'' \<and> to = ''vault_review'')
    \<and> (a = ActionVaultApprove \<longrightarrow> cur = ''vault_review'' \<and> to = ''sent_to_vendor'')
    \<and> (a = ActionVaultReject \<longrightarrow> cur = ''vault_review'' \<and> to = ''vault_assignment'')
    \<and> (a = ActionVendorReturn \<longrightarrow> cur = ''vendor_rejected'' \<and> to = ''rejected'')"
  using assms by (cases a) (auto simp: nextState_def transitions_def split: if_splits)

section \<open>Reasons\<close>

definition reason_bytes :: "vr_err \<Rightarrow> string \<Rightarrow> string \<Rightarrow> vr_err + string" where
  "reason_bytes emptyErr field reason =
     (let trimmed = TrimSpace reason in
      if trimmed = [] then Inl emptyErr
      else if length trimmed > 500 then Inl (InvalidField field ''maksimal 500 karakter'')
      else Inr trimmed)"

definition checkReason :: "string \<Rightarrow> string \<Rightarrow> vr_err + string" where
  "checkReason reason field =
     (let r = TrimSpace reason in
      if r = [] then Inl ErrRejectReasonEmpty
      else if length (runes r) > 500 then Inl (InvalidField field ''maksimal 500 karakter'')
      else Inr r)"

section \<open>Items\<close>

definition item_key :: "item_input \<Rightarrow> string" where
  "item_key it = ii_TerminalID it @ ''|'' @ date_iso (ii_PeriodePred it) @ ''|'' @ FormatInt (ii_Denom it)"

fun first_duplicate :: "'a list \<Rightarrow> 'a list \<Rightarrow> bool" where
  "first_duplicate seen [] = False"
| "first_duplicate seen (k # ks) = (k \<in> set seen \<or> first_duplicate (k # seen) ks)"

definition validateItemsPayload :: "item_input list \<Rightarrow> string \<Rightarrow> nat \<Rightarrow> vr_err option" where
  "validateItemsPayload items notes maxItems =
     (if items = [] then Some ErrEmptyItems
      else if maxItems > 0 \<and> length items > maxItems
      then Some (InvalidField ''items'' (''maksimal '' @ nat_text maxItems @ '' item''))
      else if length notes > 500 then Some (InvalidField ''notes'' ''maksimal 500 karakter'')
      else if first_duplicate [] (map item_key items) then Some ErrDuplicateItems
      else None)"

fun resolve_loop ::
  "venv \<Rightarrow> item_input list \<Rightarrow> resolved_item list \<Rightarrow> item_input list \<Rightarrow> resolved_item list vtx" where
  "resolve_loop v [] resolved invalid =
     (if invalid \<noteq> [] then tx_fail (InvalidItemsError invalid) else tx_ret resolved)"
| "resolve_loop v (it # items) resolved invalid =
     tx_bind (query v ''ForecastRowExists'' ''check forecast row''
       (tx_read (ForecastRowExists (ii_TerminalID it) (ii_PeriodePred it) (ii_Denom it)))) (\<lambda>row.
     case row of
       None \<Rightarrow> resolve_loop v items resolved (invalid @ [it])
     | Some f \<Rightarrow> resolve_loop v items (resolved @ [\<lparr>rs_input = it, rs_amountRefund = fc_amount_refund f,
                    rs_overridden = (ii_AmountReplenish it \<noteq> fc_amount_replenish f)\<rparr>]) invalid)"

definition resolveItems :: "venv \<Rightarrow> item_input list \<Rightarrow> resolved_item list vtx" where
  "resolveItems v items = resolve_loop v items [] []"

definition validateReplenishDate :: "venv \<Rightarrow> day \<Rightarrow> vr_err option" where
  "validateReplenishDate v d =
     (if d = 0 then Some (InvalidField ''replenish_date'' ''wajib diisi'')
      else if d < ve_today v then Some (InvalidField ''replenish_date'' ''tidak boleh sebelum hari ini'')
      else None)"

definition validateCategoryDateConsistency :: "venv \<Rightarrow> string \<Rightarrow> day \<Rightarrow> vr_err option" where
  "validateCategoryDateConsistency v category d =
     (if category = ''planned'' then
        (if d \<noteq> ve_today v + 1 then Some (InvalidField ''replenish_date'' ''kategori planned wajib H+1'') else None)
      else if category = ''emergency'' then
        (if d \<noteq> ve_today v then Some (InvalidField ''replenish_date'' ''kategori emergency wajib H+0'') else None)
      else if category = ''additional'' then
        (if d \<noteq> ve_today v \<and> d \<noteq> ve_today v + 1 \<and> d \<noteq> ve_today v + 2
         then Some (InvalidField ''replenish_date'' ''kategori additional wajib H+0, H+1, atau H+2'') else None)
      else Some (InvalidField ''request_category'' ''harus salah satu dari: planned, emergency, additional''))"

fun acceptItems :: "item_input list \<Rightarrow> day \<Rightarrow> vr_err + resolved_item list" where
  "acceptItems [] replenishDate = Inr []"
| "acceptItems (it # items) replenishDate =
     (if length (ii_TerminalID it) < 1 \<or> length (ii_TerminalID it) > 64
      then Inl (InvalidField ''terminal_id'' ''harus 1-64 karakter'')
      else if ii_Denom it \<le> 0 then Inl (InvalidField ''denom'' ''harus lebih besar dari 0'')
      else if ii_AmountReplenish it \<le> 0 then Inl (InvalidField ''amount_replenish'' ''harus lebih besar dari 0'')
      else (case acceptItems items replenishDate of
              Inl e \<Rightarrow> Inl e
            | Inr rs \<Rightarrow> Inr (\<lparr>rs_input = (if ii_PeriodePred it = 0 then it\<lparr>ii_PeriodePred := replenishDate\<rparr> else it),
                rs_amountRefund = 0, rs_overridden = False\<rparr> # rs)))"

fun single_vendor_loop ::
  "venv \<Rightarrow> id64 \<Rightarrow> resolved_item list \<Rightarrow> string list \<Rightarrow> (string \<times> branch_region) list
    \<Rightarrow> (string list \<times> (string \<times> branch_region) list) vtx" where
  "single_vendor_loop v vendorID [] mismatched atms = tx_ret (mismatched, atms)"
| "single_vendor_loop v vendorID (r # rs) mismatched atms =
     tx_bind (query v ''GetActiveVendorForTerminal'' ''resolve active vendor''
       (tx_read (GetActiveVendorForTerminal (ii_TerminalID (rs_input r)) (ii_PeriodePred (rs_input r))))) (\<lambda>found.
     let t = ii_TerminalID (rs_input r) in
     case found of
       None \<Rightarrow> single_vendor_loop v vendorID rs (mismatched @ [t]) atms
     | Some (vendor, branchCode, regionCode) \<Rightarrow>
         single_vendor_loop v vendorID rs (if vendor \<noteq> vendorID then mismatched @ [t] else mismatched)
           (go_set t (branchCode, regionCode) atms))"

definition validateItemsSingleVendor ::
  "venv \<Rightarrow> id64 \<Rightarrow> resolved_item list \<Rightarrow> (string \<times> branch_region) list vtx" where
  "validateItemsSingleVendor v vendorID resolved =
     tx_bind (single_vendor_loop v vendorID resolved [] []) (\<lambda>(mismatched, atms).
     if mismatched \<noteq> []
     then tx_fail (InvalidField ''items'' (''item tidak sesuai dengan vendor yang dipilih: '' @ join '', '' mismatched))
     else tx_ret atms)"

definition stringPtrOrNil :: "string \<Rightarrow> string option" where
  "stringPtrOrNil s = (if s = [] then None else Some s)"

end
