(* ===== verification/Vendor_Party.thy ===== *)
theory Vendor_Party
  imports Vendor_State "HOL-Library.AList"
begin

text \<open>
  The vendor parties of a request (\<open>src/backend/internal/service/vendor_party.go\<close>) over the queries of
  \<open>vendor_parties.sql.go\<close>: one party per request, vendor branch and role, whose content is the
  snapshot the vendor sees. \<open>syncVendorParties\<close> brings the parties in line with a request that is sent,
  \<open>cancelVendorParties\<close> tells them of a cancellation.

  A Go map keyed by party is an association list in order of first insertion; every use of one sorts
  its keys first.
\<close>

section \<open>What the parties are built from\<close>

record atm_order =
  ao_terminal_id :: string
  ao_lokasi_atm :: string
  ao_ticket_number :: "string option"
  ao_denom :: int
  ao_amount :: int
  ao_branch :: vbranch
  ao_vendor :: vvendor

record vault_order =
  wo_vendor_vault_id :: id64
  wo_vault_code :: string
  wo_ticket_number :: "string option"
  wo_branch :: vbranch
  wo_vendor :: vvendor
  wo_address :: string
  wo_denom :: int
  wo_amount :: int

definition order_keys :: "vitem list \<Rightarrow> (string \<times> int) list" where
  "order_keys items = sort_key fst (sort_key snd (remdups (map (\<lambda>i. (vi_terminal_id i, vi_denom i)) items)))"

definition order_group :: "vitem list \<Rightarrow> string \<times> int \<Rightarrow> vitem list" where
  "order_group items k = filter (\<lambda>i. vi_terminal_id i = fst k \<and> vi_denom i = snd k) items"

definition active_ticket_number :: "string \<Rightarrow> string \<Rightarrow> vdb \<Rightarrow> string option" where
  "active_ticket_number number t s =
     map_option tk_ticket_number (find_row (\<lambda>x. tk_request_number x = number \<and> tk_terminal_id x = t
       \<and> tk_is_active x) (rd_tickets s))"

definition ListRequestPartyAtmRows :: "id64 \<Rightarrow> vdb \<Rightarrow> atm_order list" where
  "ListRequestPartyAtmRows rid s =
     (case GetVendorRequest rid s of
        None \<Rightarrow> []
      | Some req \<Rightarrow>
          let items = filter (\<lambda>i. vi_vendor_request_id i = rid) (rd_items s) in
          List.map_filter (\<lambda>k.
            map_option (\<lambda>(b, w).
              \<lparr>ao_terminal_id = fst k,
               ao_lokasi_atm = fold max (List.map_filter vi_lokasi_atm (order_group items k)) [],
               ao_ticket_number = active_ticket_number (vr_request_number req) (fst k) s,
               ao_denom = snd k, ao_amount = sum_list (map vi_amount_replenish (order_group items k)),
               ao_branch = b, ao_vendor = w\<rparr>)
              (replenish_branch (fst k) (vr_replenish_date req) (rd_master s)))
            (order_keys items))"

definition vault_by_id :: "master \<Rightarrow> id64 \<Rightarrow> vvault option" where
  "vault_by_id md i = find_row (\<lambda>x. vv_id x = i) (md_vaults md)"

definition vault_address :: "master \<Rightarrow> vvault \<Rightarrow> vbranch \<Rightarrow> string" where
  "vault_address md w b =
     (case (case vv_location_id w of Some l \<Rightarrow> Some l | None \<Rightarrow> vb_location_id b) of
        None \<Rightarrow> [] | Some l \<Rightarrow> (case map_of (md_locations md) l of None \<Rightarrow> [] | Some a \<Rightarrow> a))"

definition live_plan :: "vplan \<Rightarrow> bool" where
  "live_plan p \<longleftrightarrow> vp_status p \<noteq> ''cancelled''"

definition vault_order_of :: "vdb \<Rightarrow> valloc \<times> valloc_amount \<Rightarrow> vault_order option" where
  "vault_order_of s am =
     (case am of (a, m) \<Rightarrow>
      let md = rd_master s in
      Option.bind (vault_by_id md (va_vendor_vault_id a)) (\<lambda>w.
      Option.bind (branch_by_id md (Some (va_vault_branch_id a))) (\<lambda>b.
      map_option (\<lambda>d. \<lparr>wo_vendor_vault_id = va_vendor_vault_id a, wo_vault_code = vv_vault_code w,
          wo_ticket_number = map_option vk_ticket_number (find_row (\<lambda>t.
             vk_vendor_request_id t = va_vendor_request_id a \<and> vk_vendor_vault_id t = va_vendor_vault_id a
             \<and> vk_is_active t) (rd_vtickets s)),
          wo_branch = b, wo_vendor = d, wo_address = vault_address md w b,
          wo_denom = vm_denom m, wo_amount = vm_amount m\<rparr>) (vendor_by_id md (vb_vendor_id b)))))"

definition ListRequestPartyVaultRows :: "id64 \<Rightarrow> vdb \<Rightarrow> vault_order list" where
  "ListRequestPartyVaultRows rid s =
     sort_key (\<lambda>w. vb_branch_code (wo_branch w)) (sort_key wo_vault_code (sort_key wo_denom
       (List.map_filter (vault_order_of s)
         (concat (map (\<lambda>a. map (Pair a) (filter (\<lambda>m. vm_allocation_id m = va_id a) (rd_amounts s)))
           (filter (\<lambda>a. va_vendor_request_id a = rid
              \<and> list_ex (\<lambda>p. vp_id p = va_vault_plan_id a \<and> live_plan p) (rd_plans s)) (rd_allocs s)))))))"

section \<open>Contents\<close>

definition partyRoleReplenish :: string where "partyRoleReplenish = ''replenish''"
definition partyRoleVault :: string where "partyRoleVault = ''vault''"
definition vendorPartyEntity :: string where "vendorPartyEntity = ''vendor_request_vendor_party''"
definition currencyIDR :: string where "currencyIDR = ''IDR''"

type_synonym party_key = "id64 \<times> string"
type_synonym party_map = "(party_key \<times> party_content) list"

definition branch_ref :: "vbranch \<Rightarrow> vvendor \<Rightarrow> party_branch" where
  "branch_ref b d = \<lparr>pb_ID = vb_id b, pb_Code = vb_branch_code b, pb_Name = vb_branch_name b,
     pb_VendorID = vd_id d, pb_VendorName = vd_name d\<rparr>"

definition newPartyContent :: "string \<Rightarrow> party_branch \<Rightarrow> party_content" where
  "newPartyContent role self = \<lparr>pt_Role = role, pt_Branch = self, pt_Atms = [], pt_Vaults = [],
     pt_ReplenishBranches = [], pt_Totals = [], pt_Currency = currencyIDR\<rparr>"

definition text_or_empty :: "string option \<Rightarrow> string" where
  "text_or_empty s = (case s of None \<Rightarrow> [] | Some t \<Rightarrow> t)"

fun requestVaults_from :: "party_vault list \<Rightarrow> vault_order list \<Rightarrow> party_vault list" where
  "requestVaults_from out [] = out"
| "requestVaults_from out (r # rs) =
     (let new = \<lparr>pv_TicketNumber = text_or_empty (wo_ticket_number r), pv_VaultID = wo_vendor_vault_id r,
                 pv_VaultCode = wo_vault_code r, pv_VaultAddress = wo_address r,
                 pv_Branch = branch_ref (wo_branch r) (wo_vendor r), pv_Denoms = []\<rparr>;
          out' = (if out = [] \<or> pv_VaultID (last out) \<noteq> wo_vendor_vault_id r then out @ [new] else out);
          w = last out'
      in requestVaults_from
           (butlast out' @ [w\<lparr>pv_Denoms := pv_Denoms w @ [(wo_denom r, wo_amount r)]\<rparr>]) rs)"

definition requestVaults :: "vault_order list \<Rightarrow> party_vault list" where
  "requestVaults rows = requestVaults_from [] rows"

fun addDenom :: "denom_amounts \<Rightarrow> int \<Rightarrow> int \<Rightarrow> denom_amounts" where
  "addDenom [] denom amount = [(denom, amount)]"
| "addDenom ((d, a) # totals) denom amount =
     (if d = denom then (d, wrap64 (a + amount)) # totals else (d, a) # addDenom totals denom amount)"

definition add_atm_row :: "party_content \<Rightarrow> atm_order \<Rightarrow> party_content" where
  "add_atm_row c r =
     (let atms = pt_Atms c;
          atms' = (if atms = [] \<or> pa_TerminalID (last atms) \<noteq> ao_terminal_id r
                   then atms @ [\<lparr>pa_TerminalID = ao_terminal_id r, pa_Lokasi = ao_lokasi_atm r,
                          pa_TicketNumber = text_or_empty (ao_ticket_number r), pa_Denoms = []\<rparr>]
                   else atms);
          a = last atms'
      in c\<lparr>pt_Atms := butlast atms' @ [a\<lparr>pa_Denoms := pa_Denoms a @ [(ao_denom r, ao_amount r)]\<rparr>],
           pt_Totals := addDenom (pt_Totals c) (ao_denom r) (ao_amount r)\<rparr>)"

definition replenish_key :: "atm_order \<Rightarrow> party_key" where
  "replenish_key r = (vb_id (ao_branch r), partyRoleReplenish)"

fun build_replenish :: "party_vault list \<Rightarrow> party_map \<Rightarrow> atm_order list \<Rightarrow> party_map" where
  "build_replenish vaults out [] = out"
| "build_replenish vaults out (r # rs) =
     (let k = replenish_key r;
          c = (case map_of out k of
                 Some c \<Rightarrow> c
               | None \<Rightarrow> (newPartyContent partyRoleReplenish (branch_ref (ao_branch r) (ao_vendor r)))
                           \<lparr>pt_Vaults := vaults\<rparr>)
      in build_replenish vaults (AList.update k (add_atm_row c r) out) rs)"

definition vault_key :: "party_vault \<Rightarrow> party_key" where
  "vault_key w = (pb_ID (pv_Branch w), partyRoleVault)"

definition add_denoms :: "denom_amounts \<Rightarrow> denom_amounts \<Rightarrow> denom_amounts" where
  "add_denoms totals ds = foldl (\<lambda>t (d, a). addDenom t d a) totals ds"

fun build_vault :: "party_branch list \<Rightarrow> party_map \<Rightarrow> party_vault list \<Rightarrow> party_map" where
  "build_vault rbs out [] = out"
| "build_vault rbs out (w # ws) =
     (let k = vault_key w;
          c = (case map_of out k of
                 Some c \<Rightarrow> c
               | None \<Rightarrow> (newPartyContent partyRoleVault (pv_Branch w))\<lparr>pt_ReplenishBranches := rbs\<rparr>)
      in build_vault rbs (AList.update k
           (c\<lparr>pt_Vaults := pt_Vaults c @ [w], pt_Totals := add_denoms (pt_Totals c) (pv_Denoms w)\<rparr>) out) ws)"

definition buildPartyContents :: "atm_order list \<Rightarrow> vault_order list \<Rightarrow> party_map" where
  "buildPartyContents atms vaultRows =
     (let vaults = requestVaults vaultRows;
          out1 = build_replenish vaults [] atms;
          rbs = sort_key pb_Code (map (pt_Branch \<circ> snd) out1);
          out2 = build_vault rbs out1 vaults
      in map (\<lambda>(k, c). (k, c\<lparr>pt_Totals := sort_key fst (pt_Totals c)\<rparr>)) out2)"

section \<open>Statements on parties\<close>

definition LockVendorPartiesForRequest :: "id64 \<Rightarrow> vdb \<Rightarrow> party list" where
  "LockVendorPartiesForRequest rid s = sort_key py_id (filter (\<lambda>p. py_vendor_request_id p = rid) (rd_parties s))"

definition same_party :: "party \<Rightarrow> party \<Rightarrow> bool" where
  "same_party p q \<longleftrightarrow> py_vendor_request_id p = py_vendor_request_id q
     \<and> py_vendor_branch_id p = py_vendor_branch_id q \<and> py_role p = py_role q"

definition InsertVendorParty :: "venv \<Rightarrow> id64 \<Rightarrow> party_key \<Rightarrow> party_content \<Rightarrow> (vdb, pg_err, party) tx" where
  "InsertVendorParty v rid k c s =
     (let p = \<lparr>py_id = rd_ids s ''vendor_request_vendor_parties'', py_vendor_request_id = rid,
               py_vendor_branch_id = fst k, py_role = snd k, py_status = ''pending'', py_content = c,
               py_sent_at = ve_now v, py_decided_by = None, py_decided_at = None, py_rejection_reason = None\<rparr>
      in if list_ex (same_party p) (rd_parties s) then Inl (PgUnique ''vendor_request_vendor_parties_uq'')
         else Inr (p, s\<lparr>rd_parties := rd_parties s @ [p],
                rd_ids := (rd_ids s)(''vendor_request_vendor_parties'' := py_id p + 1)\<rparr>))"

definition update_party :: "(party \<Rightarrow> bool) \<Rightarrow> (party \<Rightarrow> party) \<Rightarrow> (vdb, pg_err, party) tx" where
  "update_party sel f s =
     (case find_row sel (rd_parties s) of
        None \<Rightarrow> Inl PgNoRows
      | Some p \<Rightarrow> Inr (f p, s\<lparr>rd_parties := update_where sel f (rd_parties s)\<rparr>))"

definition ResendVendorParty :: "venv \<Rightarrow> party_content \<Rightarrow> id64 \<Rightarrow> (vdb, pg_err, party) tx" where
  "ResendVendorParty v c pid = update_party (\<lambda>p. py_id p = pid)
     (\<lambda>p. p\<lparr>py_status := ''pending'', py_content := c, py_sent_at := ve_now v,
            py_decided_by := None, py_decided_at := None, py_rejection_reason := None\<rparr>)"

definition WithdrawVendorParty :: "id64 \<Rightarrow> (vdb, pg_err, party) tx" where
  "WithdrawVendorParty pid = update_party (\<lambda>p. py_id p = pid)
     (\<lambda>p. p\<lparr>py_status := ''withdrawn'', py_decided_by := None, py_decided_at := None, py_rejection_reason := None\<rparr>)"

definition DecideVendorParty :: "venv \<Rightarrow> string \<Rightarrow> id64 \<Rightarrow> string option \<Rightarrow> id64 \<Rightarrow> (vdb, pg_err, party) tx" where
  "DecideVendorParty v status decidedBy reason pid =
     update_party (\<lambda>p. py_id p = pid \<and> py_status p = ''pending'')
     (\<lambda>p. p\<lparr>py_status := status, py_decided_by := Some decidedBy, py_decided_at := Some (ve_now v),
            py_rejection_reason := reason\<rparr>)"

definition InsertVendorPartyEvent ::
  "venv \<Rightarrow> id64 \<Rightarrow> string \<Rightarrow> id64 \<Rightarrow> string option \<Rightarrow> party_content option \<Rightarrow> unit vtx" where
  "InsertVendorPartyEvent v pid event actorID reason content =
     query v ''InsertVendorPartyEvent'' ''insert party event''
       (tx_write (\<lambda>s. s\<lparr>rd_events := rd_events s @ [\<lparr>pe_party_id = pid, pe_event = event,
          pe_actor_id = actorID, pe_reason = reason, pe_content = content, pe_created_at = ve_now v\<rparr>]\<rparr>))"

section \<open>Notices\<close>

record party_notice =
  pn_partyID :: id64
  pn_branchID :: id64
  pn_role :: string
  pn_event :: string

definition notice_of :: "party \<Rightarrow> string \<Rightarrow> party_notice" where
  "notice_of p event = \<lparr>pn_partyID = py_id p, pn_branchID = py_vendor_branch_id p, pn_role = py_role p,
     pn_event = event\<rparr>"

definition partyNoticeText :: "string \<Rightarrow> string \<Rightarrow> string \<Rightarrow> (string \<times> string) option" where
  "partyNoticeText event number d =
     (let req = ''Request '' @ number @ '' ('' @ d @ '') '' in
      if event = ''sent'' then Some (''Request replenish baru'',
        req @ ''dikirim ke branch Anda. Mohon terima atau tolak.'')
      else if event = ''resent'' then Some (''Request replenish diperbarui'',
        req @ ''dikirim ulang ke branch Anda. Mohon terima atau tolak lagi.'')
      else if event = ''withdrawn'' then Some (''Request replenish ditarik'',
        req @ ''tidak lagi ditujukan ke branch Anda.'')
      else if event = ''cancelled'' then Some (''Request replenish dibatalkan'',
        req @ ''dibatalkan oleh CIMB Niaga.'')
      else None)"

definition no_recipients :: recipients where
  "no_recipients = \<lparr>rc_UserIDs = [], rc_Roles = [], rc_VendorIDs = [], rc_VendorParties = []\<rparr>"

definition notifyParties :: "venv \<Rightarrow> vreq \<Rightarrow> party_notice list \<Rightarrow> unit vtx" where
  "notifyParties v req notices =
     (if ve_notifier v = None then tx_ret ()
      else let d = (case vr_replenish_date req of Some x \<Rightarrow> date_iso x | None \<Rightarrow> ''-'') in
       tx_each (\<lambda>nt.
         case partyNoticeText (pn_event nt) (vr_request_number req) d of
           None \<Rightarrow> tx_fail (VrDb ''no notification text for party event'')
         | Some (title, body) \<Rightarrow>
             notify v \<lparr>msg_Type = ''vendor_order.'' @ pn_event nt, msg_Title = title, msg_Body = body,
                msg_Link = ''/orders/'' @ FormatInt (pn_partyID nt), msg_EntityType = vendorPartyEntity,
                msg_EntityID = Some (pn_partyID nt), msg_Email = True\<rparr>
              (no_recipients\<lparr>rc_VendorParties := [\<lparr>vt_BranchID = pn_branchID nt,
                vt_UserRoles = ForParty (pn_role nt), vt_PicRole = pn_role nt\<rparr>]\<rparr>)) notices)"

definition auditParties :: "party_notice list \<Rightarrow> json" where
  "auditParties notices = JArr (map (\<lambda>nt. JObj [(''party_id'', JNum (pn_partyID nt)),
     (''vendor_branch_id'', JNum (pn_branchID nt)), (''event'', JStr (pn_event nt))]) notices)"

section \<open>Synchronisation and cancellation\<close>

definition reapprovedSinceSent :: "vreq \<Rightarrow> party list \<Rightarrow> bool" where
  "reapprovedSinceSent req parties =
     (case vr_approved_at req of
        None \<Rightarrow> False
      | Some t \<Rightarrow> parties \<noteq> [] \<and> list_all (\<lambda>p. t > py_sent_at p) parties)"

definition record_event :: "venv \<Rightarrow> id64 \<Rightarrow> party \<Rightarrow> string \<Rightarrow> party_content option \<Rightarrow> party_notice list vtx" where
  "record_event v actorID p event content =
     tx_then (InsertVendorPartyEvent v (py_id p) event actorID None content) (tx_ret [notice_of p event])"

definition refreshParty ::
  "venv \<Rightarrow> id64 \<Rightarrow> bool \<Rightarrow> party \<Rightarrow> party_content option \<Rightarrow> party_notice list vtx" where
  "refreshParty v actorID forceAll p wanted =
     (case wanted of
        None \<Rightarrow>
          if py_status p = ''withdrawn'' then tx_ret []
          else tx_bind (pg_stmt v ''WithdrawVendorParty'' ''withdraw party'' (WithdrawVendorParty (py_id p)))
                 (\<lambda>w. record_event v actorID w ''withdrawn'' None)
      | Some fresh \<Rightarrow>
          if py_content p = fresh \<and> (py_status p = ''accepted'' \<or> py_status p = ''pending'') \<and> \<not> forceAll
          then tx_ret []
          else tx_bind (pg_stmt v ''ResendVendorParty'' ''resend party'' (ResendVendorParty v fresh (py_id p)))
                 (\<lambda>r. record_event v actorID r ''resent'' (Some fresh)))"

definition party_key_of :: "party \<Rightarrow> party_key" where
  "party_key_of p = (py_vendor_branch_id p, py_role p)"

definition newPartyKeys :: "party_map \<Rightarrow> party_key list \<Rightarrow> party_key list" where
  "newPartyKeys built seen = sort_key fst (sort_key snd (filter (\<lambda>k. k \<notin> set seen) (map fst built)))"

definition insert_party :: "venv \<Rightarrow> id64 \<Rightarrow> id64 \<Rightarrow> party_map \<Rightarrow> party_key \<Rightarrow> party_notice list vtx" where
  "insert_party v actorID rid built k =
     (case map_of built k of
        None \<Rightarrow> tx_ret []
      | Some fresh \<Rightarrow>
          tx_bind (pg_stmt v ''InsertVendorParty'' ''insert party'' (InsertVendorParty v rid k fresh))
            (\<lambda>p. record_event v actorID p ''sent'' (Some fresh)))"

definition sums_fit :: "atm_order list \<Rightarrow> bool" where
  "sums_fit rows \<longleftrightarrow> list_all (\<lambda>r. in_int64 (ao_amount r)) rows"

definition syncVendorParties :: "venv \<Rightarrow> id64 \<Rightarrow> vreq \<Rightarrow> party_notice list vtx" where
  "syncVendorParties v actorID req =
     tx_bind (query v ''ListRequestPartyAtmRows'' ''list party atm rows''
       (tx_read (ListRequestPartyAtmRows (vr_id req)))) (\<lambda>atms.
     tx_then (tx_guard (sums_fit atms) (VrDb ''list party atm rows''))
     (tx_bind (query v ''ListRequestPartyVaultRows'' ''list party vault rows''
       (tx_read (ListRequestPartyVaultRows (vr_id req)))) (\<lambda>vaults.
     tx_then (tx_guard (vaults \<noteq> []) (VrDb ''request has no vault allocations to send''))
     (let built = buildPartyContents atms vaults in
     tx_bind (query v ''LockVendorPartiesForRequest'' ''lock parties''
       (tx_read (LockVendorPartiesForRequest (vr_id req)))) (\<lambda>existing.
     let forceAll = reapprovedSinceSent req existing;
         seen = filter (\<lambda>k. k \<in> set (map fst built)) (map party_key_of existing) in
     tx_bind (tx_map (\<lambda>p. refreshParty v actorID forceAll p (map_of built (party_key_of p))) existing) (\<lambda>refreshed.
     tx_bind (tx_map (insert_party v actorID (vr_id req) built) (newPartyKeys built seen)) (\<lambda>inserted.
     tx_ret (concat refreshed @ concat inserted))))))))"

definition cancelVendorParties :: "venv \<Rightarrow> vr_actor \<Rightarrow> vreq \<Rightarrow> unit vtx" where
  "cancelVendorParties v actor req =
     tx_bind (query v ''LockVendorPartiesForRequest'' ''lock parties''
       (tx_read (LockVendorPartiesForRequest (vr_id req)))) (\<lambda>parties.
     let told = filter (\<lambda>p. py_status p \<noteq> ''withdrawn'') parties in
     tx_then (tx_each (\<lambda>p. InsertVendorPartyEvent v (py_id p) ''cancelled'' (ac_UserID actor) None None) told)
       (notifyParties v req (map (\<lambda>p. notice_of p ''cancelled'') told)))"

end
