(* ===== verification/Vault_Plan_Create.thy ===== *)
theory Vault_Plan_Create
  imports Vendor_Party
begin

text \<open>
  The vault plan of a request: its statements (\<open>vault_plans.sql.go\<close>, \<open>vault_allocations.sql.go\<close>) and
  \<open>vault_plan_create.go\<close>, which opens a plan when a request is approved and reopens it when the
  request is approved again.
\<close>

section \<open>Statements on plans\<close>

definition vaultPlanEntity :: string where "vaultPlanEntity = ''vendor_request_vault_plan''"

definition planDraft :: string where "planDraft = ''draft''"
definition planPending :: string where "planPending = ''pending_acm_approval''"
definition planAcmApproved :: string where "planAcmApproved = ''acm_approved''"

definition update_plans :: "(vplan \<Rightarrow> bool) \<Rightarrow> (vplan \<Rightarrow> vplan) \<Rightarrow> vdb \<Rightarrow> vdb" where
  "update_plans sel f s = s\<lparr>rd_plans := update_where sel f (rd_plans s)\<rparr>"

definition CancelVaultPlansForRequest :: "id64 \<Rightarrow> vdb \<Rightarrow> vdb" where
  "CancelVaultPlansForRequest rid =
     update_plans (\<lambda>p. vp_vendor_request_id p = rid \<and> live_plan p) (\<lambda>p. p\<lparr>vp_status := ''cancelled''\<rparr>)"

definition ResetVaultPlansToDraft :: "id64 \<Rightarrow> vdb \<Rightarrow> vdb" where
  "ResetVaultPlansToDraft rid =
     update_plans (\<lambda>p. vp_vendor_request_id p = rid \<and> live_plan p)
       (\<lambda>p. p\<lparr>vp_status := ''draft'', vp_approved_by := None, vp_approved_at := None\<rparr>)"

definition SetVaultPlanStatus :: "venv \<Rightarrow> string \<Rightarrow> id64 \<Rightarrow> string option \<Rightarrow> id64 \<Rightarrow> vdb \<Rightarrow> vdb" where
  "SetVaultPlanStatus v status actorID reason pid = update_plans (\<lambda>p. vp_id p = pid) (\<lambda>p. p\<lparr>
     vp_status := status,
     vp_submitted_by := stamp (status = planPending) (Some actorID) (vp_submitted_by p),
     vp_submitted_at := stamp (status = planPending) (Some (ve_now v)) (vp_submitted_at p),
     vp_approved_by := (if status = planAcmApproved then Some actorID
        else if status = planDraft then None else vp_approved_by p),
     vp_approved_at := (if status = planAcmApproved then Some (ve_now v)
        else if status = planDraft then None else vp_approved_at p),
     vp_rejected_by := stamp (reason \<noteq> None) (Some actorID) (vp_rejected_by p),
     vp_rejected_at := stamp (reason \<noteq> None) (Some (ve_now v)) (vp_rejected_at p),
     vp_rejection_reason := stamp (reason \<noteq> None) reason (vp_rejection_reason p)\<rparr>)"

definition SetVaultPlanBufferReason :: "string option \<Rightarrow> id64 \<Rightarrow> vdb \<Rightarrow> vdb" where
  "SetVaultPlanBufferReason reason pid = update_plans (\<lambda>p. vp_id p = pid) (\<lambda>p. p\<lparr>vp_buffer_reason := reason\<rparr>)"

definition area_by_id :: "master \<Rightarrow> id64 \<Rightarrow> acm_area option" where
  "area_by_id md i = find_row (\<lambda>a. aa_id a = i) (md_areas md)"

definition area_name :: "master \<Rightarrow> id64 \<Rightarrow> string" where
  "area_name md i = (case area_by_id md i of None \<Rightarrow> [] | Some a \<Rightarrow> aa_name a)"

definition ListVaultPlansForRequest :: "id64 \<Rightarrow> vdb \<Rightarrow> vplan list" where
  "ListVaultPlansForRequest rid s =
     sort_key (\<lambda>p. area_name (rd_master s) (vp_acm_area_id p))
       (filter (\<lambda>p. vp_vendor_request_id p = rid \<and> live_plan p
          \<and> area_by_id (rd_master s) (vp_acm_area_id p) \<noteq> None) (rd_plans s))"

text \<open>The plans another branch's rejection sends back to draft.\<close>

definition returned_plan :: "id64 \<Rightarrow> id64 \<Rightarrow> vdb \<Rightarrow> vplan \<Rightarrow> bool" where
  "returned_plan rid branchID s p \<longleftrightarrow> vp_vendor_request_id p = rid \<and> live_plan p
     \<and> list_ex (\<lambda>a. va_vault_plan_id a = vp_id p \<and> va_vendor_request_id a = rid
          \<and> va_vault_branch_id a = branchID) (rd_allocs s)"

definition ReturnVaultPlansForVaultBranch ::
  "venv \<Rightarrow> id64 \<Rightarrow> string \<Rightarrow> id64 \<Rightarrow> id64 \<Rightarrow> (vdb, vr_err, vplan list) tx" where
  "ReturnVaultPlansForVaultBranch v actorID reason rid branchID s =
     Inr (filter (returned_plan rid branchID s) (rd_plans s),
          update_plans (returned_plan rid branchID s) (\<lambda>p. p\<lparr>vp_status := ''draft'', vp_approved_by := None,
            vp_approved_at := None, vp_rejected_by := Some actorID, vp_rejected_at := Some (ve_now v),
            vp_rejection_reason := Some reason\<rparr>) s)"

definition ListAcmAreaMemberIDsByRole :: "id64 list \<Rightarrow> string \<Rightarrow> vdb \<Rightarrow> id64 list" where
  "ListAcmAreaMemberIDsByRole areas role s =
     remdups (map snd (filter (\<lambda>m. fst m \<in> set areas
       \<and> list_ex (\<lambda>u. us_id u = snd m \<and> active_user u
            \<and> user_has_role (md_roles (rd_master s)) u (\<lambda>r. r = role)) (md_users (rd_master s)))
       (md_area_members (rd_master s))))"

text \<open>\<open>CreateMissingVaultPlansByRegion\<close>: at most one live plan per request, one per request and area.\<close>

definition plan_wanted :: "id64 option \<Rightarrow> vdb \<Rightarrow> vreq \<Rightarrow> bool" where
  "plan_wanted requestID s r \<longleftrightarrow> vr_status r = ''vault_assignment''
     \<and> (case requestID of None \<Rightarrow> True | Some i \<Rightarrow> vr_id r = i)
     \<and> \<not> list_ex (\<lambda>p. vp_vendor_request_id p = vr_id r \<and> live_plan p) (rd_plans s)"

definition plan_areas :: "master \<Rightarrow> vreq \<Rightarrow> id64 list" where
  "plan_areas md r = map fst (filter (\<lambda>ar. Some (snd ar) = vr_region_code r
     \<and> list_ex (\<lambda>a. aa_id a = fst ar \<and> aa_is_active a) (md_areas md)) (md_area_regions md))"

definition draft_plan :: "id64 \<Rightarrow> id64 \<Rightarrow> id64 \<Rightarrow> vplan" where
  "draft_plan pid rid area = \<lparr>vp_id = pid, vp_vendor_request_id = rid, vp_acm_area_id = area,
     vp_status = ''draft'', vp_submitted_by = None, vp_submitted_at = None, vp_approved_by = None,
     vp_approved_at = None, vp_rejected_by = None, vp_rejected_at = None, vp_rejection_reason = None,
     vp_buffer_reason = None\<rparr>"

definition plan_conflict :: "vplan list \<Rightarrow> id64 \<Rightarrow> id64 \<Rightarrow> bool" where
  "plan_conflict ps rid area \<longleftrightarrow>
     list_ex (\<lambda>p. vp_vendor_request_id p = rid \<and> (vp_acm_area_id p = area \<or> live_plan p)) ps"

fun insert_plans :: "(id64 \<times> id64) list \<Rightarrow> vplan list vtx" where
  "insert_plans [] = tx_ret []"
| "insert_plans ((rid, area) # rest) =
     tx_bind (tx_read (\<lambda>s. plan_conflict (rd_plans s) rid area)) (\<lambda>conflict.
     if conflict then insert_plans rest
     else tx_bind (fresh_id ''vendor_request_vault_plans'') (\<lambda>pid.
          tx_then (tx_write (\<lambda>s. s\<lparr>rd_plans := rd_plans s @ [draft_plan pid rid area]\<rparr>))
          (tx_bind (insert_plans rest) (\<lambda>ps. tx_ret (draft_plan pid rid area # ps)))))"

definition CreateMissingVaultPlansByRegion :: "id64 option \<Rightarrow> vplan list vtx" where
  "CreateMissingVaultPlansByRegion requestID =
     tx_bind (tx_read (\<lambda>s. concat (map (\<lambda>r. map (Pair (vr_id r)) (plan_areas (rd_master s) r))
       (filter (plan_wanted requestID s) (rd_requests s))))) insert_plans"

section \<open>Opening and reopening plans\<close>

definition plan_message :: "string \<Rightarrow> string \<Rightarrow> string \<Rightarrow> id64 \<Rightarrow> message" where
  "plan_message mtype title body pid = \<lparr>msg_Type = mtype, msg_Title = title, msg_Body = body,
     msg_Link = ''/cit/vault-plans/'' @ FormatInt pid, msg_EntityType = vaultPlanEntity,
     msg_EntityID = Some pid, msg_Email = True\<rparr>"

definition notify_area_users :: "venv \<Rightarrow> id64 \<Rightarrow> message \<Rightarrow> unit vtx" where
  "notify_area_users v area msg =
     (if ve_notifier v = None then tx_ret ()
      else tx_bind (query v ''ListAcmAreaMemberIDsByRole'' ''list acm area members''
             (tx_read (ListAcmAreaMemberIDsByRole [area] ''ACM-USER''))) (\<lambda>users.
           if users = [] then tx_ret () else notify v msg (no_recipients\<lparr>rc_UserIDs := users\<rparr>)))"

definition createVaultPlans :: "venv \<Rightarrow> vr_actor \<Rightarrow> id64 option \<Rightarrow> unit vtx" where
  "createVaultPlans v actor requestID =
     tx_bind (query v ''CreateMissingVaultPlansByRegion'' ''create vault plans''
       (CreateMissingVaultPlansByRegion requestID)) (\<lambda>created.
     tx_each (\<lambda>p.
       tx_then (write_log v (audit_entry (ac_UserID actor) ''vault_plan_created'' vaultPlanEntity (vp_id p) None
         (Some (JObj [(''vendor_request_id'', JNum (vp_vendor_request_id p)),
            (''acm_area_id'', JNum (vp_acm_area_id p)), (''status'', JStr ''draft'')])) (ac_IP actor)))
       (notify_area_users v (vp_acm_area_id p)
         (plan_message ''vault_plan.assignment_needed'' ''Penetapan vault diperlukan''
            ''Ada Vendor Request yang menunggu pembagian nominal ke vault di area Anda.'' (vp_id p)))) created)"

definition resetVaultPlansForReapproval :: "venv \<Rightarrow> vr_actor \<Rightarrow> vreq \<Rightarrow> unit vtx" where
  "resetVaultPlansForReapproval v actor req =
     tx_bind (query v ''ListVaultPlansForRequest'' ''list plans''
       (tx_read (ListVaultPlansForRequest (vr_id req)))) (\<lambda>plans.
     tx_then (query v ''ResetVaultPlansToDraft'' ''reopen vault plans''
       (tx_write (ResetVaultPlansToDraft (vr_id req))))
     (tx_each (\<lambda>p.
       tx_then (tx_when (vp_status p \<noteq> planDraft)
         (write_log v (audit_entry (ac_UserID actor) ''vault_plan_reset'' vaultPlanEntity (vp_id p)
           (Some (JObj [(''status'', JStr (vp_status p))]))
           (Some (JObj [(''status'', JStr planDraft), (''reason'', JStr ''request re-approved after edit'')]))
           (ac_IP actor))))
       (notify_area_users v (vp_acm_area_id p)
         (plan_message ''vault_plan.assignment_needed'' ''Penetapan vault perlu ditinjau ulang''
            (''Request '' @ vr_request_number req @ '' diedit dan disetujui ulang; tinjau penetapan vault area Anda.'')
            (vp_id p)))) plans))"

end
