(* ===== verification/Vault_Alloc.thy ===== *)
theory Vault_Alloc
  imports Vault_Plan_Create
begin

text \<open>
  Allocating a request's order to vaults, the pure part: \<open>vault_capacity.go\<close>, \<open>vault_allocation.go\<close> and
  \<open>planVaultTickets\<close> of \<open>vault_ticket.go\<close>. Amounts are whole rupiah in 64 bits. A map from
  denominations to amounts has one entry per denomination; the map of an input line is given in the
  order the loop over it visits its keys.
\<close>

section \<open>Numbers in text\<close>

text \<open>\<open>strconv.ParseInt(s, 10, bits)\<close>: an optional sign, digits, and a value that fits.\<close>

definition parse_digits :: "string \<Rightarrow> int option" where
  "parse_digits s = (if s \<noteq> [] \<and> list_all is_digit s then Some (int (text_value s)) else None)"

definition ParseInt :: "nat \<Rightarrow> string \<Rightarrow> int option" where
  "ParseInt bits s =
     (case (case s of [] \<Rightarrow> None
            | c # cs \<Rightarrow> if c = CHR ''-'' then map_option uminus (parse_digits cs)
                       else if c = CHR ''+'' then parse_digits cs else parse_digits s) of
        None \<Rightarrow> None
      | Some n \<Rightarrow> if - (2 ^ (bits - 1)) \<le> n \<and> n < 2 ^ (bits - 1) then Some n else None)"

text \<open>\<open>%q\<close>: quotes and backslashes are escaped; text without control characters is kept.\<close>

definition quoted :: "string \<Rightarrow> string" where
  "quoted s = [CHR 0x22] @ concat (map (\<lambda>c. if c = CHR 0x22 \<or> c = CHR 0x5C then [CHR 0x5C, c] else [c]) s) @ [CHR 0x22]"

section \<open>Capacity\<close>

definition capacityWarning :: "denom_amounts \<Rightarrow> bool \<Rightarrow> denom_amounts \<Rightarrow> bool" where
  "capacityWarning capacity known need \<longleftrightarrow>
     \<not> known \<or> list_ex (\<lambda>(denom, amt). amt > 0 \<and> go_get 0 capacity denom < amt) need"

definition coverage :: "denom_amounts \<Rightarrow> denom_amounts \<Rightarrow> int" where
  "coverage capacity need = foldl (\<lambda>t (denom, _). wrap64 (t + go_get 0 capacity denom)) 0 need"

definition vaultTier :: "id64 \<Rightarrow> string \<Rightarrow> id64 \<Rightarrow> string option \<Rightarrow> int" where
  "vaultTier candVendorID candRegion reqVendorID reqRegion =
     (if reqRegion \<noteq> Some candRegion then 3
      else if candVendorID = reqVendorID then 1 else 2)"

definition amountsJSON :: "denom_amounts \<Rightarrow> (string \<times> string) list" where
  "amountsJSON a = map (\<lambda>(denom, amt). (FormatInt denom, FormatInt amt)) a"

record vault_saldo =
  vsd_unknown :: bool
  vsd_amounts :: denom_amounts

definition vaultCapacity :: "vault_saldo \<Rightarrow> denom_amounts \<Rightarrow> denom_amounts option" where
  "vaultCapacity s allocated =
     (if vsd_unknown s then None
      else Some (map (\<lambda>(d, a). (d, wrap64 (a - go_get 0 allocated d))) (vsd_amounts s)))"

fun allocatedByVault :: "(id64 \<times> denom_amounts) list \<Rightarrow> (id64 \<times> int \<times> int) list \<Rightarrow> (id64 \<times> denom_amounts) list" where
  "allocatedByVault out [] = out"
| "allocatedByVault out ((vault, denom, amount) # rows) =
     (let m = (case map_of out vault of None \<Rightarrow> [] | Some x \<Rightarrow> x) in
      allocatedByVault (AList.update vault (AList.update denom (wrap64 (go_get 0 m denom + amount)) m) out) rows)"

section \<open>Allocation lines\<close>

definition allocationDenoms :: "int list" where
  "allocationDenoms = [100000, 50000, 20000, 10000, 5000, 2000, 1000]"

definition reasonMinLen :: nat where "reasonMinLen = 10"
definition reasonMaxLen :: nat where "reasonMaxLen = 500"

record alloc_input =
  li_VendorVaultID :: id64
  li_Amounts :: "(string \<times> string) list"
  li_IsUrgent :: bool
  li_UrgentReason :: "string option"

record candidate_vault =
  cv_vendor_vault_id :: id64
  cv_vault_code :: string
  cv_category :: string
  cv_vendor_branch_id :: id64
  cv_branch_code :: string
  cv_branch_name :: string
  cv_region_code :: string
  cv_vendor_id :: id64
  cv_vendor_name :: string

record alloc_line =
  ll_vault :: candidate_vault
  ll_tier :: int
  ll_amounts :: denom_amounts
  ll_isUrgent :: bool
  ll_urgentReason :: "string option"

definition allocErr :: "string \<Rightarrow> vr_err" where
  "allocErr msg = InvalidField ''allocations'' msg"

definition isAllocationDenom :: "int \<Rightarrow> bool" where
  "isAllocationDenom d \<longleftrightarrow> d \<in> set allocationDenoms"

definition parse_amount :: "string \<Rightarrow> string \<times> string \<Rightarrow> vr_err + int \<times> int" where
  "parse_amount vaultCode kr =
     (case kr of (key, raw) \<Rightarrow>
      case ParseInt 32 key of
        None \<Rightarrow> Inl (allocErr (''vault '' @ vaultCode @ '': pecahan '' @ quoted key @ '' tidak dikenal''))
      | Some d \<Rightarrow>
          if \<not> isAllocationDenom d
          then Inl (allocErr (''vault '' @ vaultCode @ '': pecahan '' @ quoted key @ '' tidak dikenal''))
          else case ParseInt 64 (TrimSpace raw) of
            None \<Rightarrow> Inl (allocErr (''vault '' @ vaultCode @ '': nominal '' @ key @ '' harus bilangan bulat rupiah''))
          | Some amt \<Rightarrow>
              if amt \<le> 0 then Inl (allocErr (''vault '' @ vaultCode @ '': nominal '' @ key @ '' harus lebih dari 0''))
              else if amt mod d \<noteq> 0
              then Inl (allocErr (''vault '' @ vaultCode @ '': nominal '' @ key @ '' harus kelipatan Rp'' @ FormatInt d))
              else Inr (d, amt))"

fun parse_amounts :: "string \<Rightarrow> denom_amounts \<Rightarrow> (string \<times> string) list \<Rightarrow> vr_err + denom_amounts" where
  "parse_amounts vaultCode out [] = Inr out"
| "parse_amounts vaultCode out (kr # rest) =
     (case parse_amount vaultCode kr of
        Inl e \<Rightarrow> Inl e
      | Inr (d, amt) \<Rightarrow> parse_amounts vaultCode (AList.update d amt out) rest)"

definition parseAllocationAmounts :: "string \<Rightarrow> (string \<times> string) list \<Rightarrow> vr_err + denom_amounts" where
  "parseAllocationAmounts vaultCode amounts =
     (case parse_amounts vaultCode [] amounts of
        Inl e \<Rightarrow> Inl e
      | Inr [] \<Rightarrow> Inl (allocErr (''vault '' @ vaultCode @ '': isi minimal satu nominal''))
      | Inr out \<Rightarrow> Inr out)"

definition bad_length :: "string \<Rightarrow> bool" where
  "bad_length r \<longleftrightarrow> length (runes r) < reasonMinLen \<or> length (runes r) > reasonMaxLen"

definition urgentReason :: "string \<Rightarrow> bool \<Rightarrow> string option \<Rightarrow> vr_err + string option" where
  "urgentReason vaultCode isUrgent reason =
     (let r = TrimSpace (text_or_empty reason) in
      if \<not> isUrgent
      then (if r \<noteq> [] then Inl (allocErr (''vault '' @ vaultCode @ '': alasan urgent hanya diisi bila urgent''))
            else Inr None)
      else if bad_length r then Inl (allocErr (''vault '' @ vaultCode @ '': alasan urgent wajib 10-500 karakter''))
      else Inr (Some r))"

definition allocation_line :: "candidate_vault \<Rightarrow> alloc_input \<Rightarrow> id64 \<times> string option \<Rightarrow> vr_err + alloc_line" where
  "allocation_line w l req =
     (case parseAllocationAmounts (cv_vault_code w) (li_Amounts l) of
        Inl e \<Rightarrow> Inl e
      | Inr amounts \<Rightarrow>
          (case urgentReason (cv_vault_code w) (li_IsUrgent l) (li_UrgentReason l) of
             Inl e \<Rightarrow> Inl e
           | Inr reason \<Rightarrow>
               let tier = vaultTier (cv_vendor_id w) (cv_region_code w) (fst req) (snd req) in
               if tier = 3 \<and> \<not> li_IsUrgent l
               then Inl (allocErr (''vault '' @ cv_vault_code w @ '' beda region hanya boleh sebagai urgent''))
               else Inr \<lparr>ll_vault = w, ll_tier = tier, ll_amounts = amounts, ll_isUrgent = li_IsUrgent l,
                         ll_urgentReason = reason\<rparr>))"

fun allocation_lines ::
  "(id64 \<times> candidate_vault) list \<Rightarrow> id64 \<times> string option \<Rightarrow> id64 list \<Rightarrow> alloc_input list \<Rightarrow> vr_err + alloc_line list" where
  "allocation_lines eligible req seen [] = Inr []"
| "allocation_lines eligible req seen (l # ls) =
     (case map_of eligible (li_VendorVaultID l) of
        None \<Rightarrow> Inl (allocErr (''vault '' @ FormatInt (li_VendorVaultID l)
                  @ '' tidak aktif / bukan CASH-ATM_CASH / branch tidak aktif atau tanpa kode region''))
      | Some w \<Rightarrow>
          if li_VendorVaultID l \<in> set seen
          then Inl (allocErr (''vault '' @ cv_vault_code w @ '' dipilih lebih dari sekali''))
          else (case allocation_line w l req of
                  Inl e \<Rightarrow> Inl e
                | Inr line \<Rightarrow>
                    (case allocation_lines eligible req (li_VendorVaultID l # seen) ls of
                       Inl e \<Rightarrow> Inl e | Inr rest \<Rightarrow> Inr (line # rest))))"

definition validateAllocationLines ::
  "alloc_input list \<Rightarrow> (id64 \<times> candidate_vault) list \<Rightarrow> id64 \<times> string option \<Rightarrow> vr_err + alloc_line list" where
  "validateAllocationLines ins eligible req = allocation_lines eligible req [] ins"

section \<open>Totals and coverage\<close>

definition add_amount :: "int \<times> int \<Rightarrow> denom_amounts \<Rightarrow> denom_amounts" where
  "add_amount da m = (case da of (d, a) \<Rightarrow> AList.update d (wrap64 (go_get 0 m d + a)) m)"

definition allocationTotals :: "alloc_line list \<Rightarrow> denom_amounts" where
  "allocationTotals ls = fold (\<lambda>l m. fold add_amount (ll_amounts l) m) ls []"

definition denomLabel :: "int \<Rightarrow> string" where
  "denomLabel d = (if d \<ge> 1000 \<and> d mod 1000 = 0 then FormatInt (d div 1000) @ ''K'' else FormatInt d)"

fun first_short :: "denom_amounts \<Rightarrow> denom_amounts \<Rightarrow> int list \<Rightarrow> (int \<times> int) option" where
  "first_short order allocated [] = None"
| "first_short order allocated (d # ds) =
     (let short = wrap64 (go_get 0 order d - go_get 0 allocated d) in
      if short > 0 then Some (d, short) else first_short order allocated ds)"

definition checkCoverage :: "denom_amounts \<Rightarrow> denom_amounts \<Rightarrow> string option \<Rightarrow> vr_err + string option" where
  "checkCoverage order allocated bufferReason =
     (case first_short order allocated allocationDenoms of
        Some (d, short) \<Rightarrow> Inl (allocErr (''alokasi '' @ denomLabel d @ '' kurang Rp'' @ FormatInt short @ '' dari order''))
      | None \<Rightarrow>
          if \<not> list_ex (\<lambda>(d, a). a > go_get 0 order d) allocated then Inr None
          else let r = TrimSpace (text_or_empty bufferReason) in
               if bad_length r
               then Inl (allocErr ''alokasi melebihi order (buffer): alasan wajib 10-500 karakter'')
               else Inr (Some r))"

definition optionalReason :: "string option \<Rightarrow> string \<Rightarrow> vr_err + string option" where
  "optionalReason r field =
     (let t = TrimSpace (text_or_empty r) in
      if t = [] then Inr None
      else if bad_length t then Inl (InvalidField field ''wajib 10-500 karakter'')
      else Inr (Some t))"

section \<open>Candidates\<close>

record vault_option =
  vo2_VendorVaultID :: id64
  vo2_VaultCode :: string
  vo2_Category :: string
  vo2_Tier :: int
  vo2_SaldoKnown :: bool
  vo2_Saldo :: "denom_amounts option"
  vo2_Capacity :: "denom_amounts option"
  vo2_coverage :: int

record branch_option =
  bo_VendorBranchID :: id64
  bo_BranchCode :: string
  bo_BranchName :: string
  bo_VendorID :: id64
  bo_VendorName :: string
  bo_RegionCode :: string
  bo_Tier :: int
  bo_Vaults :: "vault_option list"

definition vaultLess :: "vault_option \<Rightarrow> vault_option \<Rightarrow> bool" where
  "vaultLess a b =
     (if vo2_SaldoKnown a \<noteq> vo2_SaldoKnown b then vo2_SaldoKnown a
      else if vo2_coverage a \<noteq> vo2_coverage b then vo2_coverage a > vo2_coverage b
      else vo2_VaultCode a < vo2_VaultCode b)"

text \<open>\<open>sort.SliceStable\<close>: a stable insertion by the given order.\<close>

fun insert_less :: "('a \<Rightarrow> 'a \<Rightarrow> bool) \<Rightarrow> 'a \<Rightarrow> 'a list \<Rightarrow> 'a list" where
  "insert_less lt x [] = [x]"
| "insert_less lt x (y # ys) = (if lt y x then y # insert_less lt x ys else x # y # ys)"

definition SliceStable :: "('a \<Rightarrow> 'a \<Rightarrow> bool) \<Rightarrow> 'a list \<Rightarrow> 'a list" where
  "SliceStable lt xs = foldr (insert_less lt) xs []"

definition branch_less :: "branch_option \<Rightarrow> branch_option \<Rightarrow> bool" where
  "branch_less a b =
     (if bo_Tier a \<noteq> bo_Tier b then bo_Tier a < bo_Tier b
      else let va = hd (bo_Vaults a); vb = hd (bo_Vaults b) in
        if vo2_SaldoKnown va \<noteq> vo2_SaldoKnown vb \<or> vo2_coverage va \<noteq> vo2_coverage vb then vaultLess va vb
        else bo_BranchCode a < bo_BranchCode b)"

definition groupVaultOptions :: "branch_option list \<Rightarrow> branch_option list" where
  "groupVaultOptions branches =
     SliceStable branch_less (map (\<lambda>b. b\<lparr>bo_Vaults := SliceStable vaultLess (bo_Vaults b)\<rparr>) branches)"

section \<open>Vault tickets\<close>

record vault_ticket_plan =
  vt_Keep :: "string list"
  vt_Deactivate :: "id64 list"
  vt_Reactivate :: "id64 list"
  vt_Issue :: "id64 list"

definition planVaultTickets :: "vault_ticket list \<Rightarrow> id64 list \<Rightarrow> vault_ticket_plan" where
  "planVaultTickets existing wanted =
     (let active = filter vk_is_active existing;
          kept = filter (\<lambda>t. vk_vendor_vault_id t \<in> set wanted) active;
          inactive = map (\<lambda>t. (vk_vendor_vault_id t, vk_id t)) (filter (\<lambda>t. \<not> vk_is_active t) existing);
          missing = filter (\<lambda>w. w \<notin> vk_vendor_vault_id ` set kept) (sort (remdups wanted))
      in \<lparr>vt_Keep = map vk_ticket_number kept,
          vt_Deactivate = map vk_id (filter (\<lambda>t. vk_vendor_vault_id t \<notin> set wanted) active),
          vt_Reactivate = List.map_filter (map_of (rev inactive)) missing,
          vt_Issue = filter (\<lambda>w. \<not> go_has inactive w) missing\<rparr>)"

end
