(* ===== verification/Vendor_Request.thy ===== *)
theory Vendor_Request
  imports Vault_Plan_Create
begin

text \<open>
  The vendor request service: creation with its request number (\<open>vendor_request_create.go\<close>), the
  edit of a draft, the steps of the state machine and the soft cancellation
  (\<open>vendor_request_actions.go\<close>), the detail and the audit trail (\<open>vendor_request_queries.go\<close>).

  Each operation is one transaction followed by the read of the detail on the pool; \<open>*_body\<close> is the
  body of the transaction.
\<close>

section \<open>The detail of a request\<close>

record atm_status =
  st_TerminalID :: string
  st_TicketNumber :: string
  st_CompletionResult :: "string option"
  st_VisitRemaining :: "int option"
  st_VisitQuotaTotal :: "int option"
  st_IsOverQuota :: bool
  st_RealizedDate :: "day option"
  st_RealizedAmounts :: denom_amounts

record user_ref =
  uf_ID :: id64
  uf_FullName :: string

record vr_detail =
  de_row :: vreq
  de_CreatedBy :: user_ref
  de_ApprovedBy :: "user_ref option"
  de_RejectedBy :: "user_ref option"
  de_CompletionSubmittedBy :: "user_ref option"
  de_CompletionApprovedBy :: "user_ref option"
  de_CompletionRejectedBy :: "user_ref option"
  de_Items :: "(vitem \<times> string) list"
  de_TotalAmount :: int
  de_Atms :: "atm_status list"

definition user_full_name :: "vdb \<Rightarrow> id64 \<Rightarrow> string option" where
  "user_full_name s uid = map_option us_full_name (find_row (\<lambda>u. us_id u = uid) (md_users (rd_master s)))"

definition userRefOrNil :: "vdb \<Rightarrow> id64 option \<Rightarrow> user_ref option" where
  "userRefOrNil s uid = map_option (\<lambda>i. \<lparr>uf_ID = i, uf_FullName = text_or_empty (user_full_name s i)\<rparr>) uid"

text \<open>The header joined with its users; no row when the creator has none.\<close>

definition GetVendorRequestDetail :: "id64 \<Rightarrow> vdb \<Rightarrow> (vreq \<times> string) option" where
  "GetVendorRequestDetail rid s =
     Option.bind (GetVendorRequest rid s) (\<lambda>r. map_option (Pair r) (user_full_name s (vr_created_by r)))"

definition mapDetail :: "vdb \<Rightarrow> vreq \<times> string \<Rightarrow> vitem list \<Rightarrow> vr_detail" where
  "mapDetail s h items = (case h of (r, name) \<Rightarrow>
     \<lparr>de_row = r, de_CreatedBy = \<lparr>uf_ID = vr_created_by r, uf_FullName = name\<rparr>,
      de_ApprovedBy = userRefOrNil s (vr_approved_by r), de_RejectedBy = userRefOrNil s (vr_rejected_by r),
      de_CompletionSubmittedBy = userRefOrNil s (vr_completion_submitted_by r),
      de_CompletionApprovedBy = userRefOrNil s (vr_completion_approved_by r),
      de_CompletionRejectedBy = userRefOrNil s (vr_completion_rejected_by r),
      de_Items = map (\<lambda>i. (i, [])) items,
      de_TotalAmount = foldl (\<lambda>t i. wrap64 (t + vi_amount_replenish i)) 0 items, de_Atms = []\<rparr>)"

definition atm_by_terminal :: "master \<Rightarrow> string \<Rightarrow> atm_node option" where
  "atm_by_terminal md t = find_row (\<lambda>a. an_terminal_id a = t) (md_atms md)"

definition ListRequestVisitInfo :: "id64 \<Rightarrow> vdb \<Rightarrow> (string \<times> int option \<times> int option \<times> bool) list" where
  "ListRequestVisitInfo rid s =
     map (\<lambda>t.
       let atm = atm_by_terminal (rd_master s) t;
           q = Option.bind atm (\<lambda>a. find_row (\<lambda>x. qt_atm_id x = an_id a) (rd_quotas s));
           w = Option.bind atm (\<lambda>a. find_row (\<lambda>x. vs_atm_id x = an_id a \<and> vs_vendor_request_id x = rid) (rd_visits s))
       in (t, map_option qt_remaining q, map_option qt_quota_total q,
           (case w of None \<Rightarrow> False | Some x \<Rightarrow> vs_is_over_quota x \<and> vs_cancelled_at x = None)))
       (ListDistinctRequestTerminals rid s)"

record realization_line =
  rl_terminal_id :: string
  rl_ticket_number :: string
  rl_result :: "string option"
  rl_realized_date :: "day option"
  rl_submitted_at :: timestamp
  rl_submitted_by_name :: string
  rl_amount :: "(int \<times> int) option"

definition realization_lines :: "vdb \<Rightarrow> realization_row \<Rightarrow> realization_line list" where
  "realization_lines s r =
     (case (find_row (\<lambda>t. tk_id t = rz_ticket_id r \<and> tk_is_active t) (rd_tickets s),
            user_full_name s (rz_submitted_by r)) of
        (Some t, Some name) \<Rightarrow>
          let line = (\<lambda>am. \<lparr>rl_terminal_id = tk_terminal_id t, rl_ticket_number = tk_ticket_number t,
                rl_result = tk_result t, rl_realized_date = rz_realized_date r,
                rl_submitted_at = rz_submitted_at r, rl_submitted_by_name = name, rl_amount = am\<rparr>);
              ams = rev (sort_key ra_denom (filter (\<lambda>a. ra_realization_id a = rz_id r) (rd_real_amounts s)))
          in if ams = [] then [line None] else map (\<lambda>a. line (Some (ra_denom a, ra_amount a))) ams
      | _ \<Rightarrow> [])"

definition ListVendorRealizationsForRequest :: "id64 \<Rightarrow> vdb \<Rightarrow> realization_line list" where
  "ListVendorRealizationsForRequest rid s =
     sort_key rl_terminal_id (concat (map (realization_lines s)
       (filter (\<lambda>r. rz_vendor_request_id r = rid) (rd_realizations s))))"

record realization_view =
  rw_TerminalID :: string
  rw_TicketNumber :: string
  rw_Result :: "string option"
  rw_RealizedDate :: "day option"
  rw_Amounts :: denom_amounts
  rw_SubmittedAt :: timestamp
  rw_SubmittedByName :: string

fun realizationViews_from :: "(string \<times> realization_view) list \<Rightarrow> realization_line list
    \<Rightarrow> (string \<times> realization_view) list" where
  "realizationViews_from out [] = out"
| "realizationViews_from out (r # rs) =
     (let w = (case map_of out (rl_terminal_id r) of
                 Some w \<Rightarrow> w
               | None \<Rightarrow> \<lparr>rw_TerminalID = rl_terminal_id r, rw_TicketNumber = rl_ticket_number r,
                    rw_Result = rl_result r, rw_RealizedDate = rl_realized_date r, rw_Amounts = [],
                    rw_SubmittedAt = rl_submitted_at r, rw_SubmittedByName = rl_submitted_by_name r\<rparr>);
          w' = (case rl_amount r of None \<Rightarrow> w | Some am \<Rightarrow> w\<lparr>rw_Amounts := rw_Amounts w @ [am]\<rparr>)
      in realizationViews_from (AList.update (rl_terminal_id r) w' out) rs)"

definition realizationViews :: "realization_line list \<Rightarrow> (string \<times> realization_view) list" where
  "realizationViews rows = realizationViews_from [] rows"

definition requestAtmStatuses :: "venv \<Rightarrow> id64 \<Rightarrow> ticket list \<Rightarrow> atm_status list vtx" where
  "requestAtmStatuses v rid tickets =
     tx_bind (query v ''ListRequestVisitInfo'' ''list visit info'' (tx_read (ListRequestVisitInfo rid))) (\<lambda>rows.
     tx_bind (query v ''ListVendorRealizationsForRequest'' ''list realizations''
       (tx_read (ListVendorRealizationsForRequest rid))) (\<lambda>reports.
     let byTerminal = map (\<lambda>t. (tk_terminal_id t, t)) tickets; views = realizationViews reports in
     tx_ret (map (\<lambda>(t, remaining, total, over).
       let k = map_of (rev byTerminal) t; w = map_of views t in
       \<lparr>st_TerminalID = t,
        st_TicketNumber = (case k of None \<Rightarrow> [] | Some x \<Rightarrow> tk_ticket_number x),
        st_CompletionResult = (case k of None \<Rightarrow> None | Some x \<Rightarrow> tk_result x),
        st_VisitRemaining = remaining, st_VisitQuotaTotal = total, st_IsOverQuota = over,
        st_RealizedDate = (case w of None \<Rightarrow> None | Some x \<Rightarrow> rw_RealizedDate x),
        st_RealizedAmounts = (case w of None \<Rightarrow> [] | Some x \<Rightarrow> rw_Amounts x)\<rparr>) rows)))"

definition VendorRequest_Get :: "venv \<Rightarrow> id64 \<Rightarrow> vr_detail vtx" where
  "VendorRequest_Get v rid =
     tx_bind (query v ''GetVendorRequestDetail'' ''get vendor request''
       (tx_get ErrNotFound (GetVendorRequestDetail rid))) (\<lambda>header.
     tx_bind (query v ''ListVendorRequestItems'' ''list items'' (tx_read (ListVendorRequestItems rid))) (\<lambda>items.
     tx_bind (query v ''ListActiveVendorRequestTickets'' ''list tickets''
       (tx_read (ListActiveVendorRequestTickets (vr_request_number (fst header))))) (\<lambda>tickets.
     tx_bind (tx_read (\<lambda>s. mapDetail s header items)) (\<lambda>detail.
     let numbers = map (\<lambda>t. (tk_terminal_id t, tk_ticket_number t)) tickets in
     tx_bind (requestAtmStatuses v rid tickets) (\<lambda>atms.
     tx_ret (detail\<lparr>de_Items := map (\<lambda>(i, _). (i, go_get [] numbers (vi_terminal_id i))) (de_Items detail),
       de_Atms := atms\<rparr>))))))"

text \<open>One transaction, and the detail read after the commit.\<close>

definition begin_tx :: "venv \<Rightarrow> unit vtx" where
  "begin_tx v = query v ''BeginTx'' ''begin tx'' (tx_ret ())"

definition in_tx :: "venv \<Rightarrow> string \<Rightarrow> 'a vtx \<Rightarrow> vdb \<Rightarrow> (vr_err + 'a) \<times> vdb" where
  "in_tx v what body s = run_in_tx (ve_commit v) (VrDb what) (tx_then (begin_tx v) body) s"

definition then_read :: "('a \<Rightarrow> 'b vtx) \<Rightarrow> (vr_err + 'a) \<times> vdb \<Rightarrow> (vr_err + 'b) \<times> vdb" where
  "then_read get r =
     (case r of (Inl e, s) \<Rightarrow> (Inl e, s)
      | (Inr a, s) \<Rightarrow> (case get a s of Inl e \<Rightarrow> (Inl e, s) | Inr (b, _) \<Rightarrow> (Inr b, s)))"

lemma then_read_state [simp]: "snd (then_read get r) = snd r"
  by (cases r; cases "fst r") (auto simp: then_read_def split: sum.splits)

section \<open>Audit trail\<close>

definition extractState :: "json option \<Rightarrow> string option" where
  "extractState raw = (case raw of
     Some (JObj m) \<Rightarrow> (case map_of m ''state'' of Some (JStr v) \<Rightarrow> Some v | _ \<Rightarrow> None)
   | _ \<Rightarrow> None)"

definition extractMetadata :: "json option \<Rightarrow> (string \<times> json) list" where
  "extractMetadata raw = (case raw of Some (JObj m) \<Rightarrow> filter (\<lambda>e. fst e \<noteq> ''state'') m | _ \<Rightarrow> [])"

record vr_audit_entry =
  ae_row :: audit_row
  ae_PreviousState :: "string option"
  ae_NewState :: "string option"
  ae_Metadata :: "(string \<times> json) list"

definition audit_entry_of :: "audit_row \<Rightarrow> vr_audit_entry" where
  "audit_entry_of r = \<lparr>ae_row = r, ae_PreviousState = extractState (al_before r),
     ae_NewState = extractState (al_after r), ae_Metadata = extractMetadata (al_after r)\<rparr>"

definition ListAuditLogsByEntity :: "string \<Rightarrow> id64 \<Rightarrow> vdb \<Rightarrow> audit_row list" where
  "ListAuditLogsByEntity etype eid s =
     filter (\<lambda>r. al_entity_type r = etype \<and> al_entity_id r = eid) (rd_audit s)"

definition VendorRequest_AuditLog :: "venv \<Rightarrow> id64 \<Rightarrow> vr_audit_entry list vtx" where
  "VendorRequest_AuditLog v rid =
     tx_bind (query v ''GetVendorRequest'' ''check vendor request exists''
       (tx_get ErrNotFound (GetVendorRequest rid))) (\<lambda>_.
     tx_bind (query v ''ListAuditLogsByEntity'' ''list audit log''
       (tx_read (ListAuditLogsByEntity ''vendor_request'' rid))) (\<lambda>rows.
     tx_ret (map audit_entry_of rows)))"

definition state_json :: "string \<Rightarrow> json" where
  "state_json st = JObj [(''state'', JStr st)]"

definition request_log ::
  "venv \<Rightarrow> vr_actor \<Rightarrow> string \<Rightarrow> id64 \<Rightarrow> json option \<Rightarrow> (string \<times> json) list \<Rightarrow> unit vtx" where
  "request_log v actor action rid before after =
     write_log v (audit_entry (ac_UserID actor) action ''vendor_request'' rid before (Some (JObj after)) (ac_IP actor))"

section \<open>Request numbers\<close>

text \<open>
  \<open>strings.ToUpper\<close> with everything but \<open>A-Z\<close> and \<open>0-9\<close> dropped: beyond ASCII only the dotless i (C4 B1)
  and the long s (C5 BF) have ASCII upper case forms.
\<close>

definition kept_upper :: "char \<Rightarrow> string" where
  "kept_upper c = (let u = ascii_upper c in
     if 65 \<le> (of_char u :: nat) \<and> (of_char u :: nat) \<le> 90 \<or> is_digit u then [u] else [])"

fun strip_upper :: "string \<Rightarrow> string" where
  "strip_upper [] = []"
| "strip_upper [a] = kept_upper a"
| "strip_upper (a # b # cs) =
     (if a = CHR 0xC4 \<and> b = CHR 0xB1 then CHR ''I'' # strip_upper cs
      else if a = CHR 0xC5 \<and> b = CHR 0xBF then CHR ''S'' # strip_upper cs
      else kept_upper a @ strip_upper (b # cs))"

definition fallbackVendorPrefix :: "string \<Rightarrow> string" where
  "fallbackVendorPrefix vendorCode =
     (let stripped = strip_upper vendorCode in
      if length stripped \<ge> 3 then take 3 stripped else stripped @ replicate (3 - length stripped) CHR ''X'')"

definition resolveVendorPrefix :: "venv \<Rightarrow> id64 \<Rightarrow> string vtx" where
  "resolveVendorPrefix v vendorID =
     tx_bind (query v ''GetVendorForRequestNumber'' ''get vendor for request number''
       (tx_get (VrPg ''get vendor for request number'' PgNoRows) (GetVendorForRequestNumber vendorID))) (\<lambda>d.
     tx_ret (case vd_request_prefix d of Some p \<Rightarrow> p | None \<Rightarrow> fallbackVendorPrefix (vd_code d)))"

record create_input =
  ci_ForecastDate :: day
  ci_ReplenishDate :: day
  ci_RequestCategory :: string
  ci_IsManual :: bool
  ci_VendorID :: id64
  ci_Notes :: string
  ci_Items :: "item_input list"

definition categoryOrNil :: "create_input \<Rightarrow> string option" where
  "categoryOrNil inp = (if ci_RequestCategory inp \<in> {''planned'', ''emergency'', ''additional''}
     then Some (ci_RequestCategory inp) else None)"

definition request_number :: "string \<Rightarrow> string \<Rightarrow> string \<Rightarrow> int \<Rightarrow> string" where
  "request_number prefix regionCode dateSeg seq =
     ''REP-'' @ prefix @ ''-'' @ regionCode @ ''-'' @ dateSeg @ ''-'' @ zero_padded 3 seq"

datatype attempt_err = AttemptExhausted | AttemptPg pg_err | AttemptDb string

text \<open>One attempt in its own savepoint: an attempt that fails leaves the state as it found it.\<close>

definition attemptCreateWithNumber ::
  "venv \<Rightarrow> create_input \<Rightarrow> string \<Rightarrow> string \<Rightarrow> vr_actor \<Rightarrow> vdb \<Rightarrow> attempt_err + vreq \<times> vdb" where
  "attemptCreateWithNumber v inp prefix regionCode actor s =
     (if ve_flt v ''BeginSavepoint'' then Inl (AttemptDb ''begin savepoint'')
      else if ve_flt v ''NextRequestNumberSeq'' then Inl (AttemptDb ''next request number seq'')
      else case NextRequestNumberSeq (ci_VendorID inp) regionCode (ci_ReplenishDate inp) s of
        Inl e \<Rightarrow> Inl (if e = PgCheck ''vendor_request_number_seq_last_chk'' then AttemptExhausted
                       else AttemptPg e)
      | Inr (seq, s1) \<Rightarrow>
          if seq > 999 then Inl AttemptExhausted
          else if ve_flt v ''CreateVendorRequest'' then Inl (AttemptDb ''create'')
          else (case CreateVendorRequest (\<lambda>rid. draft_request v rid
                  (request_number prefix regionCode (date_compact (ci_ReplenishDate inp)) seq)
                  (ci_ForecastDate inp) (ci_ReplenishDate inp) (categoryOrNil inp) (ci_IsManual inp)
                  (ci_VendorID inp) regionCode (stringPtrOrNil (ci_Notes inp)) (ac_UserID actor)) s1 of
                  Inl e \<Rightarrow> Inl (AttemptPg e)
                | Inr (r, s2) \<Rightarrow>
                    if ve_flt v ''CommitSavepoint'' then Inl (AttemptDb ''commit savepoint'') else Inr (r, s2)))"

fun retry_number ::
  "nat \<Rightarrow> venv \<Rightarrow> create_input \<Rightarrow> string \<Rightarrow> string \<Rightarrow> vr_actor \<Rightarrow> vreq vtx" where
  "retry_number 0 v inp prefix regionCode actor s = Inl ErrNumberGeneration"
| "retry_number (Suc n) v inp prefix regionCode actor s =
     (case attemptCreateWithNumber v inp prefix regionCode actor s of
        Inr (r, s') \<Rightarrow> Inr (r, s')
      | Inl AttemptExhausted \<Rightarrow> Inl ErrNumberExhausted
      | Inl (AttemptPg (PgUnique _)) \<Rightarrow> retry_number n v inp prefix regionCode actor s
      | Inl (AttemptPg e) \<Rightarrow> Inl (VrPg ''create vendor request'' e)
      | Inl (AttemptDb e) \<Rightarrow> Inl (VrDb ''create vendor request''))"

definition maxAttempts :: nat where "maxAttempts = 5"

definition createWithRetryingNumber :: "venv \<Rightarrow> create_input \<Rightarrow> string \<Rightarrow> vr_actor \<Rightarrow> vreq vtx" where
  "createWithRetryingNumber v inp regionCode actor =
     tx_bind (resolveVendorPrefix v (ci_VendorID inp)) (\<lambda>prefix.
       retry_number maxAttempts v inp prefix regionCode actor)"

section \<open>Create and UpdateItems\<close>

definition insert_items :: "venv \<Rightarrow> id64 \<Rightarrow> bool \<Rightarrow> resolved_item list \<Rightarrow> unit vtx" where
  "insert_items v rid manual resolved =
     tx_each (\<lambda>r. query v ''InsertVendorRequestItem'' ''insert item''
       (InsertVendorRequestItem rid (rs_input r) (rs_amountRefund r)
          (if manual then stringPtrOrNil (ii_Brand (rs_input r)) else None)
          (if manual then stringPtrOrNil (ii_LokasiATM (rs_input r)) else None))) resolved"

definition overrides :: "resolved_item list \<Rightarrow> (string \<times> json) list" where
  "overrides resolved =
     (let os = map (\<lambda>r. ii_TerminalID (rs_input r)) (filter rs_overridden resolved) in
      if os = [] then [] else [(''amount_overrides'', JArr (map JStr os))])"

definition vendor_create_checks :: "venv \<Rightarrow> create_input \<Rightarrow> vr_err option" where
  "vendor_create_checks v inp =
     (case validateItemsPayload (ci_Items inp) (ci_Notes inp) 0 of
        Some e \<Rightarrow> Some e
      | None \<Rightarrow>
          if ci_VendorID inp \<le> 0 then Some (InvalidField ''vendor_id'' ''wajib diisi'')
          else (case validateReplenishDate v (ci_ReplenishDate inp) of
                  Some e \<Rightarrow> Some e
                | None \<Rightarrow> validateCategoryDateConsistency v (ci_RequestCategory inp) (ci_ReplenishDate inp)))"

definition create_in_region ::
  "venv \<Rightarrow> vr_actor \<Rightarrow> create_input \<Rightarrow> resolved_item list \<Rightarrow> string \<Rightarrow> id64 vtx" where
  "create_in_region v actor inp resolved regionCode =
     tx_bind (createWithRetryingNumber v inp regionCode actor) (\<lambda>req.
     tx_then (insert_items v (vr_id req) True resolved)
     (tx_bind (applyTicketPlan v (vr_request_number req) (ci_ReplenishDate inp)
        (planTickets [] (wantedCodes resolved))) (\<lambda>tickets.
     tx_then (request_log v actor ''create'' (vr_id req) None
        ([(''state'', JStr ''draft''), (''is_manual'', JBool (ci_IsManual inp)),
          (''request_category'', JStr (ci_RequestCategory inp)), (''region_code'', JStr regionCode),
          (''tickets'', json_tickets (ta_Added tickets))] @ overrides resolved))
     (tx_ret (vr_id req)))))"

definition VendorRequest_Create_body :: "venv \<Rightarrow> vr_actor \<Rightarrow> create_input \<Rightarrow> id64 vtx" where
  "VendorRequest_Create_body v actor inp =
     tx_bind (if ci_RequestCategory inp = ''emergency'' \<or> ci_RequestCategory inp = ''additional''
              then tx_lift (acceptItems (ci_Items inp) (ci_ReplenishDate inp))
              else resolveItems v (ci_Items inp)) (\<lambda>resolved.
     tx_bind (validateItemsSingleVendor v (ci_VendorID inp) resolved) (\<lambda>atms.
     tx_bind (tx_lift (singleRegion atms [])) (\<lambda>regionCode.
     create_in_region v actor inp resolved regionCode)))"

definition VendorRequest_Create ::
  "venv \<Rightarrow> vr_actor \<Rightarrow> create_input \<Rightarrow> vdb \<Rightarrow> (vr_err + vr_detail) \<times> vdb" where
  "VendorRequest_Create v actor inp s =
     (case vendor_create_checks v inp of
        Some e \<Rightarrow> (Inl e, s)
      | None \<Rightarrow> then_read (VendorRequest_Get v)
          (in_tx v ''commit create vendor request'' (VendorRequest_Create_body v actor inp) s))"

definition VendorRequest_UpdateItems_body :: "venv \<Rightarrow> vr_actor \<Rightarrow> id64 \<Rightarrow> item_input list \<Rightarrow> id64 vtx" where
  "VendorRequest_UpdateItems_body v actor rid items =
     tx_bind (GetVendorRequestForUpdate v rid) (\<lambda>req.
     tx_then (tx_guard (vr_status req = ''draft'') ErrInvalidTransition)
     (tx_then (tx_guard (ac_UserID actor = vr_created_by req) ErrNotCreator)
     (tx_bind (resolveItems v items) (\<lambda>resolved.
     tx_then (case (vr_region_code req, vr_vendor_id req) of
         (Some region, Some vendorID) \<Rightarrow>
           tx_bind (validateItemsSingleVendor v vendorID resolved) (\<lambda>atms.
             tx_bind (tx_lift (singleRegion atms region)) (\<lambda>_. tx_ret ()))
       | _ \<Rightarrow> tx_ret ())
     (tx_then (query v ''DeleteVendorRequestItems'' ''delete existing items'' (tx_write (DeleteVendorRequestItems rid)))
     (tx_then (insert_items v rid False resolved)
     (tx_bind (query v ''ListVendorRequestTickets'' ''list tickets''
        (tx_read (ListVendorRequestTickets (vr_request_number req)))) (\<lambda>existing.
     tx_bind (applyTicketPlan v (vr_request_number req) (ticketDate req)
        (planTickets existing (wantedCodes resolved))) (\<lambda>tickets.
     tx_then (request_log v actor ''update_items'' rid (Some (state_json (vr_status req)))
        ([(''state'', JStr (vr_status req)), (''items_added'', JNum (int (length resolved))),
          (''items_removed'', JNum 0), (''items_modified'', JNum 0)] @ overrides resolved @ addTo tickets))
     (tx_ret rid))))))))))"

definition VendorRequest_UpdateItems ::
  "venv \<Rightarrow> vr_actor \<Rightarrow> id64 \<Rightarrow> item_input list \<Rightarrow> vdb \<Rightarrow> (vr_err + vr_detail) \<times> vdb" where
  "VendorRequest_UpdateItems v actor rid items s =
     (case validateItemsPayload items [] 1000 of
        Some e \<Rightarrow> (Inl e, s)
      | None \<Rightarrow> then_read (VendorRequest_Get v)
          (in_tx v ''commit update items'' (VendorRequest_UpdateItems_body v actor rid items) s))"

section \<open>Steps of the state machine\<close>

record transition_opts =
  to_action :: vr_action
  to_auditAction :: string
  to_rejectionReason :: string
  to_requireItems :: bool

definition carries_reason :: "vr_action \<Rightarrow> bool" where
  "carries_reason a \<longleftrightarrow> a = ActionReject \<or> a = ActionVendorReturn"

definition request_message :: "string \<Rightarrow> string \<Rightarrow> string \<Rightarrow> id64 \<Rightarrow> message" where
  "request_message mtype title body rid = \<lparr>msg_Type = mtype, msg_Title = title, msg_Body = body,
     msg_Link = ''/replenishment/vendor-requests/'' @ FormatInt rid, msg_EntityType = ''vendor_request'',
     msg_EntityID = Some rid, msg_Email = True\<rparr>"

definition transition_body :: "venv \<Rightarrow> vr_actor \<Rightarrow> id64 \<Rightarrow> transition_opts \<Rightarrow> id64 vtx" where
  "transition_body v actor rid opts =
     tx_bind (GetVendorRequestForUpdate v rid) (\<lambda>req.
     tx_bind (tx_get ErrInvalidTransition (\<lambda>_. nextState (vr_status req) (to_action opts))) (\<lambda>newStatus.
     tx_then (tx_check (checkActor actor req (to_action opts)))
     (tx_then (tx_when (to_requireItems opts)
        (tx_bind (query v ''ListVendorRequestItems'' ''list items'' (tx_read (ListVendorRequestItems rid)))
          (\<lambda>items. tx_guard (items \<noteq> []) ErrEmptyItems)))
     (tx_then (query v ''UpdateVendorRequestStatus'' ''update vendor request status''
        (tx_write (UpdateVendorRequestStatus v newStatus (Some (ac_UserID actor))
           (if carries_reason (to_action opts) then Some (to_rejectionReason opts) else None) rid)))
     (tx_then (request_log v actor (to_auditAction opts) rid (Some (state_json (vr_status req)))
        ((''state'', JStr newStatus) # (if carries_reason (to_action opts)
           then [(''rejection_reason'', JStr (to_rejectionReason opts))] else [])))
     (tx_then (tx_when (newStatus = ''vault_assignment'' \<and> to_action opts = ActionApprove)
        (tx_then (resetVaultPlansForReapproval v actor req) (createVaultPlans v actor (Some rid))))
     (tx_then (tx_when (to_action opts = ActionVendorReturn)
        (notify v (request_message ''vendor_request.vendor_returned'' ''Request dikembalikan untuk revisi''
             (''Request '' @ vr_request_number req @ '' ditolak branch replenish dan dikembalikan: ''
               @ to_rejectionReason opts) rid)
           (no_recipients\<lparr>rc_UserIDs := [vr_created_by req]\<rparr>)))
     (tx_ret rid))))))))"

definition transition ::
  "venv \<Rightarrow> vr_actor \<Rightarrow> id64 \<Rightarrow> transition_opts \<Rightarrow> vdb \<Rightarrow> (vr_err + vr_detail) \<times> vdb" where
  "transition v actor rid opts s =
     then_read (VendorRequest_Get v)
       (in_tx v ''commit vendor request transition'' (transition_body v actor rid opts) s)"

definition opts_of :: "vr_action \<Rightarrow> string \<Rightarrow> transition_opts" where
  "opts_of a reason = \<lparr>to_action = a, to_auditAction = action_name a, to_rejectionReason = reason,
     to_requireItems = (a = ActionSubmit)\<rparr>"

definition VendorRequest_Submit :: "venv \<Rightarrow> vr_actor \<Rightarrow> id64 \<Rightarrow> vdb \<Rightarrow> (vr_err + vr_detail) \<times> vdb" where
  "VendorRequest_Submit v actor rid = transition v actor rid (opts_of ActionSubmit [])"

definition VendorRequest_Approve :: "venv \<Rightarrow> vr_actor \<Rightarrow> id64 \<Rightarrow> vdb \<Rightarrow> (vr_err + vr_detail) \<times> vdb" where
  "VendorRequest_Approve v actor rid = transition v actor rid (opts_of ActionApprove [])"

definition VendorRequest_Revise :: "venv \<Rightarrow> vr_actor \<Rightarrow> id64 \<Rightarrow> vdb \<Rightarrow> (vr_err + vr_detail) \<times> vdb" where
  "VendorRequest_Revise v actor rid = transition v actor rid (opts_of ActionRevise [])"

definition VendorRequest_Reject ::
  "venv \<Rightarrow> vr_actor \<Rightarrow> id64 \<Rightarrow> string \<Rightarrow> vdb \<Rightarrow> (vr_err + vr_detail) \<times> vdb" where
  "VendorRequest_Reject v actor rid reason s =
     (case reason_bytes ErrRejectReasonEmpty ''rejection_reason'' reason of
        Inl e \<Rightarrow> (Inl e, s) | Inr trimmed \<Rightarrow> transition v actor rid (opts_of ActionReject trimmed) s)"

definition VendorRequest_VendorReturn ::
  "venv \<Rightarrow> vr_actor \<Rightarrow> id64 \<Rightarrow> string \<Rightarrow> vdb \<Rightarrow> (vr_err + vr_detail) \<times> vdb" where
  "VendorRequest_VendorReturn v actor rid reason s =
     (case checkReason reason ''rejection_reason'' of
        Inl e \<Rightarrow> (Inl e, s) | Inr trimmed \<Rightarrow> transition v actor rid (opts_of ActionVendorReturn trimmed) s)"

definition VendorRequest_Cancel_body :: "venv \<Rightarrow> vr_actor \<Rightarrow> id64 \<Rightarrow> string \<Rightarrow> id64 vtx" where
  "VendorRequest_Cancel_body v actor rid trimmed =
     tx_bind (GetVendorRequestForUpdate v rid) (\<lambda>req.
     tx_then (tx_guard (\<not> vr_is_canceled req) ErrAlreadyCanceled)
     (tx_bind (tx_get ErrInvalidTransition (\<lambda>_. nextState (vr_status req) ActionCancel)) (\<lambda>_.
     tx_then (tx_check (checkActor actor req ActionCancel))
     (tx_then (query v ''SoftCancelVendorRequest'' ''soft cancel vendor request''
        (tx_write (SoftCancelVendorRequest trimmed rid)))
     (tx_then (query v ''CancelVaultPlansForRequest'' ''cancel vault plans''
        (tx_write (CancelVaultPlansForRequest rid)))
     (tx_then (cancelVendorParties v actor req)
     (tx_then (request_log v actor ''cancel'' rid
        (Some (JObj [(''state'', JStr (vr_status req)), (''is_canceled'', JBool False)]))
        [(''state'', JStr ''cancelled''), (''is_canceled'', JBool True), (''reason'', JStr trimmed)])
     (tx_ret rid))))))))"

definition VendorRequest_Cancel ::
  "venv \<Rightarrow> vr_actor \<Rightarrow> id64 \<Rightarrow> string \<Rightarrow> vdb \<Rightarrow> (vr_err + vr_detail) \<times> vdb" where
  "VendorRequest_Cancel v actor rid reason s =
     (case reason_bytes ErrCancelReasonEmpty ''cancellation_reason'' reason of
        Inl e \<Rightarrow> (Inl e, s)
      | Inr trimmed \<Rightarrow> then_read (VendorRequest_Get v)
          (in_tx v ''commit cancel vendor request'' (VendorRequest_Cancel_body v actor rid trimmed) s))"

end
