(* ===== verification/Vault_Plan.thy ===== *)
theory Vault_Plan
  imports Vault_Alloc Vendor_Request
begin

text \<open>
  The vault plan of a request: the service of \<open>vault_plan.go\<close> and \<open>vault_plan_actions.go\<close>, the tickets of
  \<open>vault_ticket.go\<close>, over the queries of \<open>vault_plans.sql.go\<close>, \<open>vault_allocations.sql.go\<close> and
  \<open>vault_tickets.sql.go\<close>. An ACM user allocates the order to vaults and submits, an ACM supervisor of the
  area approves or rejects, a checker reviews the whole request, which sends it to the vendors.
\<close>

section \<open>Queries\<close>

record plan_row =
  pl_plan :: vplan
  pl_request_number :: string
  pl_replenish_date :: "day option"
  pl_vendor_id :: "id64 option"
  pl_region_code :: "string option"
  pl_request_status :: string
  pl_area_name :: string

definition plan_by_id :: "id64 \<Rightarrow> vdb \<Rightarrow> vplan option" where
  "plan_by_id pid s = find_row (\<lambda>p. vp_id p = pid) (rd_plans s)"

definition GetVaultPlan :: "id64 \<Rightarrow> vdb \<Rightarrow> plan_row option" where
  "GetVaultPlan pid s =
     Option.bind (plan_by_id pid s) (\<lambda>p.
     Option.bind (GetVendorRequest (vp_vendor_request_id p) s) (\<lambda>r.
     map_option (\<lambda>a. \<lparr>pl_plan = p, pl_request_number = vr_request_number r, pl_replenish_date = vr_replenish_date r,
        pl_vendor_id = vr_vendor_id r, pl_region_code = vr_region_code r, pl_request_status = vr_status r,
        pl_area_name = aa_name a\<rparr>) (area_by_id (rd_master s) (vp_acm_area_id p))))"

definition IsAcmAreaMember :: "id64 \<Rightarrow> id64 \<Rightarrow> vdb \<Rightarrow> bool" where
  "IsAcmAreaMember area uid s \<longleftrightarrow> (area, uid) \<in> set (md_area_members (rd_master s))"

definition ListRequestOrderTotals :: "id64 \<Rightarrow> vdb \<Rightarrow> denom_amounts" where
  "ListRequestOrderTotals rid s =
     (let items = filter (\<lambda>i. vi_vendor_request_id i = rid) (rd_items s) in
      map (\<lambda>d. (d, sum_list (map vi_amount_replenish (filter (\<lambda>i. vi_denom i = d) items))))
        (rev (sort (remdups (map vi_denom items)))))"

definition candidate_of :: "master \<Rightarrow> vvault \<Rightarrow> candidate_vault option" where
  "candidate_of md w =
     Option.bind (branch_by_id md (Some (vv_vendor_branch_id w))) (\<lambda>b.
     Option.bind (vendor_by_id md (vb_vendor_id b)) (\<lambda>d.
     Option.bind (vb_region_code b) (\<lambda>region.
     if vv_is_active w \<and> vv_deleted_at w = None \<and> vv_category w \<in> {''CASH'', ''ATM_CASH''}
        \<and> vb_is_active b \<and> vb_category b \<in> {''CASH'', ''ATM_CASH''}
     then Some \<lparr>cv_vendor_vault_id = vv_id w, cv_vault_code = vv_vault_code w, cv_category = vv_category w,
       cv_vendor_branch_id = vb_id b, cv_branch_code = vb_branch_code b, cv_branch_name = vb_branch_name b,
       cv_region_code = region, cv_vendor_id = vb_vendor_id b, cv_vendor_name = vd_name d\<rparr>
     else None)))"

definition ListVaultCandidateVaults :: "id64 list option \<Rightarrow> vdb \<Rightarrow> candidate_vault list" where
  "ListVaultCandidateVaults ids s =
     sort_key cv_vendor_name (sort_key cv_branch_code (sort_key cv_vault_code
       (filter (\<lambda>c. case ids of None \<Rightarrow> True | Some xs \<Rightarrow> cv_vendor_vault_id c \<in> set xs)
         (List.map_filter (candidate_of (rd_master s)) (md_vaults (rd_master s))))))"

record alloc_view =
  aw_alloc :: valloc
  aw_vault_code :: string
  aw_vault_category :: string
  aw_branch :: vbranch
  aw_vendor_name :: string
  aw_ticket_number :: "string option"

definition alloc_view_of :: "vdb \<Rightarrow> valloc \<Rightarrow> alloc_view option" where
  "alloc_view_of s a =
     (let md = rd_master s in
      Option.bind (vault_by_id md (va_vendor_vault_id a)) (\<lambda>w.
      Option.bind (branch_by_id md (Some (va_vault_branch_id a))) (\<lambda>b.
      map_option (\<lambda>d. \<lparr>aw_alloc = a, aw_vault_code = vv_vault_code w, aw_vault_category = vv_category w,
         aw_branch = b, aw_vendor_name = vd_name d,
         aw_ticket_number = map_option vk_ticket_number (find_row (\<lambda>t.
            vk_vendor_request_id t = va_vendor_request_id a \<and> vk_vendor_vault_id t = va_vendor_vault_id a
            \<and> vk_is_active t) (rd_vtickets s))\<rparr>) (vendor_by_id md (vb_vendor_id b)))))"

definition ListVaultPlanAllocations :: "id64 \<Rightarrow> vdb \<Rightarrow> alloc_view list" where
  "ListVaultPlanAllocations pid s =
     sort_key (\<lambda>a. va_tier (aw_alloc a)) (sort_key (\<lambda>a. vb_branch_code (aw_branch a)) (sort_key aw_vault_code
       (List.map_filter (alloc_view_of s) (filter (\<lambda>a. va_vault_plan_id a = pid) (rd_allocs s)))))"

definition ListVaultPlanAllocationAmounts :: "id64 \<Rightarrow> vdb \<Rightarrow> valloc_amount list" where
  "ListVaultPlanAllocationAmounts pid s =
     sort_key vm_allocation_id (rev (sort_key vm_denom
       (filter (\<lambda>m. list_ex (\<lambda>a. va_id a = vm_allocation_id m \<and> va_vault_plan_id a = pid) (rd_allocs s)) (rd_amounts s))))"

definition ClearVaultPlanAllocations :: "id64 \<Rightarrow> vdb \<Rightarrow> vdb" where
  "ClearVaultPlanAllocations pid s =
     s\<lparr>rd_amounts := filter (\<lambda>m. \<not> list_ex (\<lambda>a. va_id a = vm_allocation_id m \<and> va_vault_plan_id a = pid) (rd_allocs s))
          (rd_amounts s),
       rd_allocs := filter (\<lambda>a. va_vault_plan_id a \<noteq> pid) (rd_allocs s)\<rparr>"

text \<open>The constraints of the allocation tables.\<close>

definition alloc_violation :: "vdb \<Rightarrow> valloc \<Rightarrow> pg_err option" where
  "alloc_violation s a =
     (if va_tier a < 1 \<or> va_tier a > 3 then Some (PgCheck ''vendor_request_vault_allocations_tier_chk'')
      else if \<not> list_ex (\<lambda>w. vv_id w = va_vendor_vault_id a \<and> vv_vendor_branch_id w = va_vault_branch_id a)
              (md_vaults (rd_master s)) then Some (PgForeignKey ''vendor_request_vault_allocations_vault_fk'')
      else if list_ex (\<lambda>x. va_vault_plan_id x = va_vault_plan_id a \<and> va_vendor_vault_id x = va_vendor_vault_id a)
              (rd_allocs s) then Some (PgUnique ''vendor_request_vault_allocations_vault_uq'')
      else if (case va_urgent_reason a of None \<Rightarrow> va_is_urgent a | Some r \<Rightarrow> \<not> va_is_urgent a \<or> bad_length r)
      then Some (PgCheck ''vendor_request_vault_allocations_urgent_chk'')
      else if va_tier a \<ge> 3 \<and> \<not> va_is_urgent a then Some (PgCheck ''vendor_request_vault_allocations_tier3_chk'')
      else None)"

definition InsertVaultAllocation :: "id64 \<Rightarrow> id64 \<Rightarrow> alloc_line \<Rightarrow> (vdb, pg_err, id64) tx" where
  "InsertVaultAllocation pid rid l s =
     (let aid = rd_ids s ''vendor_request_vault_allocations'';
          a = \<lparr>va_id = aid, va_vault_plan_id = pid, va_vendor_request_id = rid,
               va_vendor_vault_id = cv_vendor_vault_id (ll_vault l), va_vault_branch_id = cv_vendor_branch_id (ll_vault l),
               va_tier = ll_tier l, va_is_urgent = ll_isUrgent l, va_urgent_reason = ll_urgentReason l,
               va_saldo_snapshot = None, va_capacity_snapshot = None, va_capacity_warning = False\<rparr>
      in case alloc_violation s a of
           Some e \<Rightarrow> Inl e
         | None \<Rightarrow> Inr (aid, s\<lparr>rd_allocs := rd_allocs s @ [a],
                rd_ids := (rd_ids s)(''vendor_request_vault_allocations'' := aid + 1)\<rparr>))"

definition InsertVaultAllocationAmount :: "id64 \<Rightarrow> int \<times> int \<Rightarrow> (vdb, pg_err, unit) tx" where
  "InsertVaultAllocationAmount aid da s =
     (case da of (denom, amount) \<Rightarrow>
      if denom \<notin> set allocationDenoms then Inl (PgCheck ''vendor_request_vault_allocation_amounts_denom_chk'')
      else if amount \<le> 0 \<or> amount mod denom \<noteq> 0 then Inl (PgCheck ''vendor_request_vault_allocation_amounts_amount_chk'')
      else if list_ex (\<lambda>m. vm_allocation_id m = aid \<and> vm_denom m = denom) (rd_amounts s)
      then Inl (PgUnique ''vendor_request_vault_allocation_amounts_pkey'')
      else Inr ((), s\<lparr>rd_amounts := rd_amounts s @ [\<lparr>vm_allocation_id = aid, vm_denom = denom, vm_amount = amount\<rparr>]\<rparr>))"

definition UpdateVaultAllocationSnapshot ::
  "id64 \<Rightarrow> denom_amounts option \<Rightarrow> denom_amounts option \<Rightarrow> bool \<Rightarrow> vdb \<Rightarrow> vdb" where
  "UpdateVaultAllocationSnapshot aid saldo capacity warning s =
     s\<lparr>rd_allocs := update_where (\<lambda>a. va_id a = aid)
        (\<lambda>a. a\<lparr>va_saldo_snapshot := saldo, va_capacity_snapshot := capacity, va_capacity_warning := warning\<rparr>) (rd_allocs s)\<rparr>"

definition saldo_cell :: "int \<Rightarrow> saldo_source \<Rightarrow> int option" where
  "saldo_cell d r = Option.bind (map_of (ss_denoms r) d) id"

text \<open>The reported balance of a vault: unknown without rows or with an empty cell; truncated to rupiah.\<close>

definition saldo_row :: "saldo_source list \<Rightarrow> vault_saldo" where
  "saldo_row rows =
     \<lparr>vsd_unknown = (rows = [] \<or> list_ex (\<lambda>r. list_ex (\<lambda>d. saldo_cell d r = None) allocationDenoms) rows),
      vsd_amounts = map (\<lambda>d. (d, go_div (sum_list (List.map_filter (saldo_cell d) rows)) 100)) allocationDenoms\<rparr>"

definition ListVaultSaldo :: "id64 list \<Rightarrow> day option \<Rightarrow> vdb \<Rightarrow> (id64 \<times> vault_saldo) list" where
  "ListVaultSaldo ids d s =
     map (\<lambda>w. (vv_id w, saldo_row (filter (\<lambda>r. Some (ss_report_date r) = d \<and> ss_vendor_vault_id r = vv_id w)
         (md_saldo (rd_master s)))))
       (filter (\<lambda>w. vv_id w \<in> set ids) (md_vaults (rd_master s)))"

definition counted_request :: "vreq \<Rightarrow> bool" where
  "counted_request r \<longleftrightarrow> vr_vault_flow r \<and> \<not> vr_is_canceled r \<and> vr_status r \<noteq> ''cancelled'' \<and> vr_status r \<noteq> ''rejected''"

definition other_alloc :: "day option \<Rightarrow> id64 \<Rightarrow> vdb \<Rightarrow> valloc \<Rightarrow> bool" where
  "other_alloc d pid s a \<longleftrightarrow> va_vault_plan_id a \<noteq> pid
     \<and> list_ex (\<lambda>p. vp_id p = va_vault_plan_id a \<and> live_plan p) (rd_plans s)
     \<and> (case GetVendorRequest (va_vendor_request_id a) s of
          None \<Rightarrow> False
        | Some r \<Rightarrow> d \<noteq> None \<and> vr_replenish_date r = d \<and> counted_request r)"

definition other_amounts :: "day option \<Rightarrow> id64 \<Rightarrow> vdb \<Rightarrow> (id64 \<times> int \<times> int) list" where
  "other_amounts d pid s =
     concat (map (\<lambda>a. map (\<lambda>m. (va_vendor_vault_id a, vm_denom m, vm_amount m))
         (filter (\<lambda>m. vm_allocation_id m = va_id a) (rd_amounts s)))
       (filter (other_alloc d pid s) (rd_allocs s)))"

definition ListVaultAllocatedTotals :: "day option \<Rightarrow> id64 \<Rightarrow> vdb \<Rightarrow> (id64 \<times> int \<times> int) list" where
  "ListVaultAllocatedTotals d pid s =
     (let rows = other_amounts d pid s in
      map (\<lambda>(w, denom). (w, denom, sum_list (map (snd \<circ> snd) (filter (\<lambda>r. fst r = w \<and> fst (snd r) = denom) rows))))
        (remdups (map (\<lambda>(w, denom, _). (w, denom)) rows)))"

section \<open>Vault tickets\<close>

definition ListVaultTicketsForRequest :: "id64 \<Rightarrow> vdb \<Rightarrow> vault_ticket list" where
  "ListVaultTicketsForRequest rid s =
     sort_key (\<lambda>t. \<not> vk_is_active t) (sort_key (\<lambda>t. case vault_by_id (rd_master s) (vk_vendor_vault_id t) of
         None \<Rightarrow> [] | Some w \<Rightarrow> vv_vault_code w)
       (sort_key vk_id (filter (\<lambda>t. vk_vendor_request_id t = rid
          \<and> vault_by_id (rd_master s) (vk_vendor_vault_id t) \<noteq> None) (rd_vtickets s))))"

definition SetVaultTicketActive :: "venv \<Rightarrow> bool \<Rightarrow> id64 \<Rightarrow> (vdb, pg_err, string) tx" where
  "SetVaultTicketActive v active tid s =
     (case find_row (\<lambda>t. vk_id t = tid) (rd_vtickets s) of
        None \<Rightarrow> Inl PgNoRows
      | Some t \<Rightarrow> Inr (vk_ticket_number t, s\<lparr>rd_vtickets := update_where (\<lambda>t. vk_id t = tid)
           (\<lambda>t. t\<lparr>vk_is_active := active, vk_deactivated_at := (if active then None else Some (ve_now v))\<rparr>) (rd_vtickets s)\<rparr>))"

definition next_vault_seq :: "vault_ticket list \<Rightarrow> id64 \<Rightarrow> day \<Rightarrow> int" where
  "next_vault_seq ts w d =
     fold max (map vk_seq (filter (\<lambda>t. vk_vendor_vault_id t = w \<and> vk_replenish_date t = d) ts)) 0 + 1"

definition vault_ticket_violation :: "vault_ticket list \<Rightarrow> vault_ticket \<Rightarrow> pg_err option" where
  "vault_ticket_violation others t =
     (if vk_seq t < 1 \<or> vk_seq t > 999 then Some (PgCheck ''vendor_request_vault_tickets_seq_chk'')
      else if list_ex (\<lambda>x. vk_ticket_number x = vk_ticket_number t) others
      then Some (PgUnique ''vendor_request_vault_tickets_number_uq'')
      else if list_ex (\<lambda>x. vk_vendor_vault_id x = vk_vendor_vault_id t \<and> vk_replenish_date x = vk_replenish_date t
              \<and> vk_seq x = vk_seq t) others then Some (PgUnique ''vendor_request_vault_tickets_seq_uq'')
      else if list_ex (\<lambda>x. vk_vendor_request_id x = vk_vendor_request_id t \<and> vk_vendor_vault_id x = vk_vendor_vault_id t)
              others then Some (PgUnique ''vendor_request_vault_tickets_pair_uq'')
      else None)"

text \<open>A request without a date fails the \<open>NOT NULL\<close> of the column.\<close>

definition IssueVaultTicket :: "id64 \<Rightarrow> day option \<Rightarrow> id64 \<Rightarrow> (vdb, pg_err, string) tx" where
  "IssueVaultTicket rid d w s =
     (case (vault_by_id (rd_master s) w, d) of
        (None, _) \<Rightarrow> Inl PgNoRows
      | (Some _, None) \<Rightarrow> Inl PgFailed
      | (Some x, Some day) \<Rightarrow>
          let seq = next_vault_seq (rd_vtickets s) w day; tid = rd_ids s ''vendor_request_vault_tickets'';
              t = \<lparr>vk_id = tid, vk_vendor_request_id = rid, vk_vendor_vault_id = w, vk_replenish_date = day, vk_seq = seq,
                   vk_ticket_number = vv_vault_code x @ ''_'' @ date_compact day @ ''_'' @ zero_padded 3 seq,
                   vk_is_active = True, vk_deactivated_at = None\<rparr>
          in case vault_ticket_violation (rd_vtickets s) t of
               Some e \<Rightarrow> Inl e
             | None \<Rightarrow> Inr (vk_ticket_number t, s\<lparr>rd_vtickets := rd_vtickets s @ [t],
                    rd_ids := (rd_ids s)(''vendor_request_vault_tickets'' := tid + 1)\<rparr>))"

record vault_ticket_audit =
  vu_Issued :: "string list"
  vu_Kept :: "string list"
  vu_Reactivated :: "string list"
  vu_Deactivated :: "string list"

definition issue_vault_ticket :: "venv \<Rightarrow> id64 \<Rightarrow> day option \<Rightarrow> id64 \<Rightarrow> string vtx" where
  "issue_vault_ticket v rid d w =
     tx_then (query v ''LockVaultTicketSeq'' ''lock vault ticket seq'' (tx_ret ()))
     (query v ''IssueVaultTicket'' ''issue vault ticket''
       (\<lambda>s. case IssueVaultTicket rid d w s of
          Inr r \<Rightarrow> Inr r
        | Inl e \<Rightarrow> Inl (if e = PgCheck ''vendor_request_vault_tickets_seq_chk''
              then allocErr (''nomor tiket vault '' @ FormatInt w @ '' tanggal ''
                @ (case d of None \<Rightarrow> ''00010101'' | Some x \<Rightarrow> date_compact x) @ '' sudah mencapai 999'')
              else VrPg ''issue vault ticket'' e)))"

definition applyVaultTickets :: "venv \<Rightarrow> id64 \<Rightarrow> day option \<Rightarrow> vault_ticket_plan \<Rightarrow> vault_ticket_audit vtx" where
  "applyVaultTickets v rid d p =
     tx_bind (tx_map (\<lambda>tid. pg_stmt v ''SetVaultTicketActive'' ''deactivate vault ticket''
       (SetVaultTicketActive v False tid)) (vt_Deactivate p)) (\<lambda>deactivated.
     tx_bind (tx_map (\<lambda>tid. pg_stmt v ''SetVaultTicketActive'' ''reactivate vault ticket''
       (SetVaultTicketActive v True tid)) (vt_Reactivate p)) (\<lambda>reactivated.
     tx_bind (tx_map (issue_vault_ticket v rid d) (vt_Issue p)) (\<lambda>issued.
     tx_ret \<lparr>vu_Issued = issued, vu_Kept = vt_Keep p, vu_Reactivated = reactivated, vu_Deactivated = deactivated\<rparr>)))"

definition syncVaultTickets :: "venv \<Rightarrow> vreq \<Rightarrow> alloc_line list \<Rightarrow> vault_ticket_audit vtx" where
  "syncVaultTickets v req ls =
     tx_bind (query v ''ListVaultTicketsForRequest'' ''list vault tickets''
       (tx_read (ListVaultTicketsForRequest (vr_id req)))) (\<lambda>existing.
     applyVaultTickets v (vr_id req) (vr_replenish_date req)
       (planVaultTickets existing (map (\<lambda>l. cv_vendor_vault_id (ll_vault l)) ls)))"

section \<open>Reading a plan\<close>

definition hasRole :: "vr_actor \<Rightarrow> string \<Rightarrow> bool" where
  "hasRole actor role = equal_fold (ac_Role actor) role"

definition planFor :: "venv \<Rightarrow> vr_actor \<Rightarrow> id64 \<Rightarrow> plan_row vtx" where
  "planFor v actor pid =
     tx_bind (query v ''GetVaultPlan'' ''load vault plan'' (tx_get ErrVaultPlanNotFound (GetVaultPlan pid))) (\<lambda>p.
     if hasRole actor ''ADMIN'' then tx_ret p
     else tx_bind (query v ''IsAcmAreaMember'' ''check area membership''
            (tx_read (IsAcmAreaMember (vp_acm_area_id (pl_plan p)) (ac_UserID actor)))) (\<lambda>member.
          if member then tx_ret p else tx_fail ErrVaultPlanNotFound))"

text \<open>A sum that no longer fits \<open>bigint\<close> fails the query.\<close>

definition orderTotals :: "venv \<Rightarrow> id64 \<Rightarrow> denom_amounts vtx" where
  "orderTotals v rid =
     tx_bind (query v ''ListRequestOrderTotals'' ''list order totals'' (tx_read (ListRequestOrderTotals rid))) (\<lambda>rows.
     tx_then (tx_guard (list_all (in_int64 \<circ> snd) rows) (VrDb ''list order totals'')) (tx_ret rows))"

definition amounts_of :: "valloc_amount list \<Rightarrow> id64 \<Rightarrow> denom_amounts" where
  "amounts_of ms aid = map (\<lambda>m. (vm_denom m, vm_amount m)) (filter (\<lambda>m. vm_allocation_id m = aid) ms)"

definition planAllocations :: "venv \<Rightarrow> id64 \<Rightarrow> (alloc_view \<times> denom_amounts) list vtx" where
  "planAllocations v pid =
     tx_bind (query v ''ListVaultPlanAllocations'' ''list allocations'' (tx_read (ListVaultPlanAllocations pid))) (\<lambda>rows.
     tx_bind (query v ''ListVaultPlanAllocationAmounts'' ''list allocation amounts''
       (tx_read (ListVaultPlanAllocationAmounts pid))) (\<lambda>ms.
     tx_ret (map (\<lambda>a. (a, amounts_of ms (va_id (aw_alloc a)))) rows)))"

record plan_atm =
  pm_TerminalID :: string
  pm_Branch :: vbranch
  pm_Vendor :: vvendor
  pm_Order :: denom_amounts

definition item_orders :: "vitem list \<Rightarrow> string \<Rightarrow> denom_amounts" where
  "item_orders items t = fold (\<lambda>i m. add_amount (vi_denom i, vi_amount_replenish i) m)
     (filter (\<lambda>i. vi_terminal_id i = t) items) []"

definition ListVaultPlanAtms :: "id64 \<Rightarrow> vdb \<Rightarrow> (string \<times> vbranch \<times> vvendor) list" where
  "ListVaultPlanAtms rid s =
     (case GetVendorRequest rid s of
        None \<Rightarrow> []
      | Some r \<Rightarrow> List.map_filter (\<lambda>t. map_option (Pair t) (replenish_branch t (vr_replenish_date r) (rd_master s)))
          (ListDistinctRequestTerminals rid s))"

definition planAtms :: "venv \<Rightarrow> id64 \<Rightarrow> plan_atm list vtx" where
  "planAtms v rid =
     tx_bind (query v ''ListVaultPlanAtms'' ''list plan atms'' (tx_read (ListVaultPlanAtms rid))) (\<lambda>atms.
     tx_bind (query v ''ListVendorRequestItems'' ''list request items'' (tx_read (ListVendorRequestItems rid))) (\<lambda>items.
     tx_ret (map (\<lambda>(t, b, d). \<lparr>pm_TerminalID = t, pm_Branch = b, pm_Vendor = d, pm_Order = item_orders items t\<rparr>) atms)))"

record plan_detail =
  pd_Plan :: plan_row
  pd_Atms :: "plan_atm list"
  pd_OrderTotals :: denom_amounts
  pd_Allocations :: "(alloc_view \<times> denom_amounts) list"
  pd_Tickets :: "vault_ticket list"

definition detailOf :: "venv \<Rightarrow> plan_row \<Rightarrow> plan_detail vtx" where
  "detailOf v p =
     (let rid = vp_vendor_request_id (pl_plan p) in
      tx_bind (planAtms v rid) (\<lambda>atms.
      tx_bind (orderTotals v rid) (\<lambda>order.
      tx_bind (planAllocations v (vp_id (pl_plan p))) (\<lambda>rows.
      tx_bind (query v ''ListVaultTicketsForRequest'' ''list vault tickets''
        (tx_read (ListVaultTicketsForRequest rid))) (\<lambda>tickets.
      tx_ret \<lparr>pd_Plan = p, pd_Atms = atms, pd_OrderTotals = order, pd_Allocations = rows, pd_Tickets = tickets\<rparr>)))))"

definition VaultPlan_Get :: "venv \<Rightarrow> vr_actor \<Rightarrow> id64 \<Rightarrow> plan_detail vtx" where
  "VaultPlan_Get v actor pid = tx_bind (planFor v actor pid) (detailOf v)"

definition VaultPlan_ForRequest :: "venv \<Rightarrow> id64 \<Rightarrow> plan_detail option vtx" where
  "VaultPlan_ForRequest v rid =
     tx_bind (query v ''ListVaultPlansForRequest'' ''list plans of request'' (tx_read (ListVaultPlansForRequest rid))) (\<lambda>plans.
     case plans of
       [] \<Rightarrow> tx_ret None
     | p # _ \<Rightarrow>
         tx_bind (query v ''GetVaultPlan'' ''load vault plan''
           (tx_get (VrPg ''load vault plan'' PgNoRows) (GetVaultPlan (vp_id p)))) (\<lambda>row.
         tx_bind (detailOf v row) (\<lambda>d. tx_ret (Some d))))"

definition VaultPlan_Audit :: "venv \<Rightarrow> vr_actor \<Rightarrow> id64 \<Rightarrow> vr_audit_entry list vtx" where
  "VaultPlan_Audit v actor pid =
     tx_bind (planFor v actor pid) (\<lambda>_.
     tx_bind (query v ''ListAuditLogsByEntity'' ''list audit log''
       (tx_read (ListAuditLogsByEntity vaultPlanEntity pid))) (\<lambda>rows.
     tx_ret (map audit_entry_of rows)))"

end
