(* ===== verification/Vault_Plan_Actions.thy ===== *)
theory Vault_Plan_Actions
  imports Vault_Plan
begin

text \<open>
  The candidates of a plan and the actions on it: saving allocations, submitting, the supervisor's
  decision and the review of the whole request (\<open>vault_plan.go\<close>, \<open>vault_plan_actions.go\<close>).
\<close>

section \<open>Capacity of the vaults\<close>

record vault_metrics =
  me_saldo :: "(id64 \<times> vault_saldo) list"
  me_allocated :: "(id64 \<times> denom_amounts) list"

definition loadVaultMetrics :: "venv \<Rightarrow> plan_row \<Rightarrow> id64 list \<Rightarrow> vault_metrics vtx" where
  "loadVaultMetrics v p ids =
     tx_bind (if ids = [] then tx_ret []
       else query v ''ListVaultSaldo'' ''list vault saldo'' (tx_read (ListVaultSaldo ids (pl_replenish_date p)))) (\<lambda>saldo.
     tx_bind (query v ''ListVaultAllocatedTotals'' ''list vault allocated totals''
       (tx_read (ListVaultAllocatedTotals (pl_replenish_date p) (vp_id (pl_plan p))))) (\<lambda>alloc.
     tx_then (tx_guard (list_all (in_int64 \<circ> snd \<circ> snd) alloc) (VrDb ''list vault allocated totals''))
     (tx_ret \<lparr>me_saldo = saldo, me_allocated = allocatedByVault [] alloc\<rparr>)))"

definition metrics_capacity :: "vault_metrics \<Rightarrow> id64 \<Rightarrow> vault_saldo \<times> denom_amounts option" where
  "metrics_capacity m w =
     (let s = (case map_of (me_saldo m) w of Some s \<Rightarrow> s | None \<Rightarrow> \<lparr>vsd_unknown = True, vsd_amounts = []\<rparr>);
          allocated = (case map_of (me_allocated m) w of Some a \<Rightarrow> a | None \<Rightarrow> [])
      in (s, vaultCapacity s allocated))"

definition option_of :: "vault_metrics \<Rightarrow> denom_amounts \<Rightarrow> candidate_vault \<times> int \<Rightarrow> vault_option" where
  "option_of m order ct =
     (case ct of (c, tier) \<Rightarrow>
      case metrics_capacity m (cv_vendor_vault_id c) of (saldo, capa) \<Rightarrow>
      \<lparr>vo2_VendorVaultID = cv_vendor_vault_id c, vo2_VaultCode = cv_vault_code c, vo2_Category = cv_category c,
       vo2_Tier = tier, vo2_SaldoKnown = (capa \<noteq> None),
       vo2_Saldo = (if capa \<noteq> None then Some (vsd_amounts saldo) else None), vo2_Capacity = capa,
       vo2_coverage = coverage (case capa of None \<Rightarrow> [] | Some x \<Rightarrow> x) order\<rparr>)"

fun add_option :: "vault_metrics \<Rightarrow> denom_amounts \<Rightarrow> (id64 \<times> branch_option) list \<Rightarrow> (candidate_vault \<times> int) list
    \<Rightarrow> (id64 \<times> branch_option) list" where
  "add_option m order out [] = out"
| "add_option m order out ((c, tier) # cs) =
     (let b = (case map_of out (cv_vendor_branch_id c) of
                 Some b \<Rightarrow> b
               | None \<Rightarrow> \<lparr>bo_VendorBranchID = cv_vendor_branch_id c, bo_BranchCode = cv_branch_code c,
                    bo_BranchName = cv_branch_name c, bo_VendorID = cv_vendor_id c, bo_VendorName = cv_vendor_name c,
                    bo_RegionCode = cv_region_code c, bo_Tier = tier, bo_Vaults = []\<rparr>)
      in add_option m order (AList.update (cv_vendor_branch_id c)
           (b\<lparr>bo_Vaults := bo_Vaults b @ [option_of m order (c, tier)]\<rparr>) out) cs)"

definition tiered :: "plan_row \<Rightarrow> bool \<Rightarrow> candidate_vault list \<Rightarrow> (candidate_vault \<times> int) list" where
  "tiered p urgent vaults =
     filter (\<lambda>(_, tier). \<not> (tier = 3 \<and> \<not> urgent))
       (map (\<lambda>c. (c, vaultTier (cv_vendor_id c) (cv_region_code c)
            (case pl_vendor_id p of None \<Rightarrow> 0 | Some i \<Rightarrow> i) (pl_region_code p))) vaults)"

definition VaultPlan_Candidates :: "venv \<Rightarrow> vr_actor \<Rightarrow> id64 \<Rightarrow> bool \<Rightarrow> branch_option list vtx" where
  "VaultPlan_Candidates v actor pid urgent =
     tx_bind (planFor v actor pid) (\<lambda>p.
     tx_bind (query v ''ListVaultCandidateVaults'' ''list vault candidates''
       (tx_read (ListVaultCandidateVaults None))) (\<lambda>vaults.
     tx_bind (orderTotals v (vp_vendor_request_id (pl_plan p))) (\<lambda>order.
     tx_bind (loadVaultMetrics v p (map (cv_vendor_vault_id \<circ> fst) (tiered p urgent vaults))) (\<lambda>m.
     tx_ret (groupVaultOptions (map snd (add_option m order [] (tiered p urgent vaults))))))))"

definition refreshAllocationSnapshots :: "venv \<Rightarrow> plan_row \<Rightarrow> unit vtx" where
  "refreshAllocationSnapshots v p =
     tx_bind (planAllocations v (vp_id (pl_plan p))) (\<lambda>rows.
     tx_bind (loadVaultMetrics v p (map (\<lambda>(a, _). va_vendor_vault_id (aw_alloc a)) rows)) (\<lambda>m.
     tx_each (\<lambda>(a, need).
       case metrics_capacity m (va_vendor_vault_id (aw_alloc a)) of (saldo, capa) \<Rightarrow>
       query v ''UpdateVaultAllocationSnapshot'' ''update snapshot''
         (tx_write (UpdateVaultAllocationSnapshot (va_id (aw_alloc a))
            (if capa \<noteq> None then Some (vsd_amounts saldo) else None) capa
            (capacityWarning (case capa of None \<Rightarrow> [] | Some x \<Rightarrow> x) (capa \<noteq> None) need)))) rows))"

section \<open>The shared transaction\<close>

definition lock_plan_request :: "venv \<Rightarrow> id64 \<Rightarrow> vreq vtx" where
  "lock_plan_request v rid = query v ''GetVendorRequestForUpdate'' ''lock vendor request''
     (tx_get (VrPg ''lock vendor request'' PgNoRows) (GetVendorRequest rid))"

definition plan_body ::
  "venv \<Rightarrow> vr_actor \<Rightarrow> id64 \<Rightarrow> (plan_row \<Rightarrow> vreq \<Rightarrow> unit vtx) \<Rightarrow> unit vtx" where
  "plan_body v actor pid fn =
     tx_bind (planFor v actor pid) (\<lambda>p.
     tx_bind (lock_plan_request v (vp_vendor_request_id (pl_plan p))) (\<lambda>req.
     tx_bind (query v ''LockVaultPlan'' ''lock vault plan''
       (tx_get (VrPg ''lock vault plan'' PgNoRows) (plan_by_id pid))) (\<lambda>locked.
     fn (p\<lparr>pl_plan := (pl_plan p)\<lparr>vp_status := vp_status locked, vp_submitted_by := vp_submitted_by locked,
           vp_buffer_reason := vp_buffer_reason locked\<rparr>\<rparr>) req)))"

definition planTx ::
  "venv \<Rightarrow> vr_actor \<Rightarrow> id64 \<Rightarrow> string \<Rightarrow> (plan_row \<Rightarrow> vreq \<Rightarrow> unit vtx) \<Rightarrow> vdb \<Rightarrow> (vr_err + unit) \<times> vdb" where
  "planTx v actor pid role fn s =
     (if \<not> hasRole actor role then (Inl ErrNotAuthorized, s)
      else in_tx v ''commit'' (plan_body v actor pid fn) s)"

definition plan_log :: "venv \<Rightarrow> vr_actor \<Rightarrow> vplan \<Rightarrow> string \<Rightarrow> string \<Rightarrow> string \<Rightarrow> (string \<times> json) list \<Rightarrow> unit vtx" where
  "plan_log v actor p action st_from st_to extra =
     write_log v (audit_entry (ac_UserID actor) action vaultPlanEntity (vp_id p)
       (Some (state_json st_from)) (Some (JObj ((''state'', JStr st_to) # extra))) (ac_IP actor))"

definition plan_notify :: "venv \<Rightarrow> id64 list \<Rightarrow> string \<Rightarrow> id64 list \<Rightarrow> message \<Rightarrow> unit vtx" where
  "plan_notify v areas role extra msg =
     (if ve_notifier v = None then tx_ret ()
      else tx_bind (if areas = [] then tx_ret []
             else query v ''ListAcmAreaMemberIDsByRole'' ''list acm area members''
                    (tx_read (ListAcmAreaMemberIDsByRole areas role))) (\<lambda>ids.
           if extra @ ids = [] then tx_ret () else notify v msg (no_recipients\<lparr>rc_UserIDs := extra @ ids\<rparr>)))"

section \<open>SaveAllocations\<close>

definition checkAllocationLines :: "venv \<Rightarrow> plan_row \<Rightarrow> alloc_input list \<Rightarrow> alloc_line list vtx" where
  "checkAllocationLines v p ins =
     tx_bind (query v ''ListVaultCandidateVaults'' ''list eligible vaults''
       (tx_read (ListVaultCandidateVaults (Some (map li_VendorVaultID ins))))) (\<lambda>rows.
     tx_lift (validateAllocationLines ins (map (\<lambda>r. (cv_vendor_vault_id r, r)) rows)
       (case pl_vendor_id p of None \<Rightarrow> 0 | Some i \<Rightarrow> i, pl_region_code p)))"

definition insertAllocation :: "venv \<Rightarrow> plan_row \<Rightarrow> alloc_line \<Rightarrow> unit vtx" where
  "insertAllocation v p l =
     tx_bind (pg_stmt v ''InsertVaultAllocation'' ''insert allocation''
       (InsertVaultAllocation (vp_id (pl_plan p)) (vp_vendor_request_id (pl_plan p)) l)) (\<lambda>aid.
     tx_each (\<lambda>da. pg_stmt v ''InsertVaultAllocationAmount'' ''insert allocation amount''
       (InsertVaultAllocationAmount aid da)) (ll_amounts l))"

definition line_json :: "alloc_line \<Rightarrow> json" where
  "line_json l = JObj [(''vendor_vault_id'', JNum (cv_vendor_vault_id (ll_vault l))),
     (''vault_code'', JStr (cv_vault_code (ll_vault l))), (''tier'', JNum (ll_tier l)),
     (''amounts'', JObj (map (\<lambda>(d, a). (d, JStr a)) (amountsJSON (ll_amounts l)))),
     (''is_urgent'', JBool (ll_isUrgent l)), (''urgent_reason'', json_opt JStr (ll_urgentReason l))]"

definition plan_open :: "plan_row \<Rightarrow> vreq \<Rightarrow> string \<Rightarrow> unit vtx" where
  "plan_open p req status =
     tx_guard (vp_status (pl_plan p) = status \<and> vr_status req = ''vault_assignment'') ErrInvalidTransition"

definition save_allocations_fn ::
  "venv \<Rightarrow> vr_actor \<Rightarrow> alloc_input list \<Rightarrow> string option \<Rightarrow> plan_row \<Rightarrow> vreq \<Rightarrow> unit vtx" where
  "save_allocations_fn v actor ins bufferReason p req =
     tx_then (plan_open p req planDraft)
     (tx_bind (checkAllocationLines v p ins) (\<lambda>ls.
     tx_bind (tx_lift (optionalReason bufferReason ''buffer_reason'')) (\<lambda>buffer.
     tx_then (query v ''ClearVaultPlanAllocations'' ''clear allocations''
       (tx_write (ClearVaultPlanAllocations (vp_id (pl_plan p)))))
     (tx_then (tx_each (insertAllocation v p) ls)
     (tx_then (query v ''SetVaultPlanBufferReason'' ''save buffer reason''
       (tx_write (SetVaultPlanBufferReason buffer (vp_id (pl_plan p)))))
     (tx_then (refreshAllocationSnapshots v p)
     (plan_log v actor (pl_plan p) ''vault_allocations_saved'' (vp_status (pl_plan p)) (vp_status (pl_plan p))
       [(''allocations'', JArr (map line_json ls)), (''buffer_reason'', json_opt JStr buffer)])))))))"

definition VaultPlan_SaveAllocations ::
  "venv \<Rightarrow> vr_actor \<Rightarrow> id64 \<Rightarrow> alloc_input list \<Rightarrow> string option \<Rightarrow> vdb \<Rightarrow> (vr_err + plan_detail) \<times> vdb" where
  "VaultPlan_SaveAllocations v actor pid ins bufferReason s =
     then_read (\<lambda>_. VaultPlan_Get v actor pid)
       (planTx v actor pid ''ACM-USER'' (save_allocations_fn v actor ins bufferReason) s)"

section \<open>Submit\<close>

definition storedAllocationLines :: "venv \<Rightarrow> id64 \<Rightarrow> alloc_input list vtx" where
  "storedAllocationLines v pid =
     tx_bind (planAllocations v pid) (\<lambda>rows.
     tx_ret (map (\<lambda>(a, amounts). \<lparr>li_VendorVaultID = va_vendor_vault_id (aw_alloc a), li_Amounts = amountsJSON amounts,
        li_IsUrgent = va_is_urgent (aw_alloc a), li_UrgentReason = va_urgent_reason (aw_alloc a)\<rparr>) rows))"

definition tickets_json :: "vault_ticket_audit \<Rightarrow> json" where
  "tickets_json t = JObj [(''issued'', JArr (map JStr (vu_Issued t))), (''kept'', JArr (map JStr (vu_Kept t))),
     (''reactivated'', JArr (map JStr (vu_Reactivated t))), (''deactivated'', JArr (map JStr (vu_Deactivated t)))]"

definition set_plan_status :: "venv \<Rightarrow> string \<Rightarrow> string \<Rightarrow> vr_actor \<Rightarrow> string option \<Rightarrow> id64 \<Rightarrow> unit vtx" where
  "set_plan_status v what status actor reason pid =
     query v ''SetVaultPlanStatus'' what (tx_write (SetVaultPlanStatus v status (ac_UserID actor) reason pid))"

definition submit_plan_fn :: "venv \<Rightarrow> vr_actor \<Rightarrow> plan_row \<Rightarrow> vreq \<Rightarrow> unit vtx" where
  "submit_plan_fn v actor p req =
     (let pid = vp_id (pl_plan p) in
      tx_then (plan_open p req planDraft)
      (tx_bind (storedAllocationLines v pid) (\<lambda>stored.
      tx_then (tx_guard (stored \<noteq> []) (allocErr ''pilih minimal satu vault''))
      (tx_bind (checkAllocationLines v p stored) (\<lambda>ls.
      tx_bind (orderTotals v (vp_vendor_request_id (pl_plan p))) (\<lambda>order.
      tx_bind (tx_lift (checkCoverage order (allocationTotals ls) (vp_buffer_reason (pl_plan p)))) (\<lambda>buffer.
      tx_then (query v ''SetVaultPlanBufferReason'' ''save buffer reason'' (tx_write (SetVaultPlanBufferReason buffer pid)))
      (tx_then (refreshAllocationSnapshots v p)
      (tx_bind (syncVaultTickets v req ls) (\<lambda>tickets.
      tx_then (set_plan_status v ''submit vault plan'' planPending actor None pid)
      (tx_then (plan_log v actor (pl_plan p) ''submit'' (vp_status (pl_plan p)) planPending
        [(''vault_tickets'', tickets_json tickets), (''buffer_reason'', json_opt JStr buffer)])
      (plan_notify v [vp_acm_area_id (pl_plan p)] ''ACM-SPV'' []
        (plan_message ''vault_plan.submitted'' ''Penetapan vault menunggu persetujuan''
          (''Penetapan vault '' @ pl_request_number p @ '' (area '' @ pl_area_name p
            @ '') diajukan dan menunggu persetujuan Anda.'') pid)))))))))))))"

definition VaultPlan_Submit :: "venv \<Rightarrow> vr_actor \<Rightarrow> id64 \<Rightarrow> vdb \<Rightarrow> (vr_err + plan_detail) \<times> vdb" where
  "VaultPlan_Submit v actor pid s =
     then_read (\<lambda>_. VaultPlan_Get v actor pid) (planTx v actor pid ''ACM-USER'' (submit_plan_fn v actor) s)"

section \<open>The supervisor's decision\<close>

definition approve_plan_fn :: "venv \<Rightarrow> vr_actor \<Rightarrow> plan_row \<Rightarrow> vreq \<Rightarrow> unit vtx" where
  "approve_plan_fn v actor p req =
     tx_then (plan_open p req planPending)
     (tx_then (tx_guard (vp_submitted_by (pl_plan p) \<noteq> Some (ac_UserID actor)) ErrSelfApproval)
     (tx_then (set_plan_status v ''approve vault plan'' planAcmApproved actor None (vp_id (pl_plan p)))
     (tx_then (plan_log v actor (pl_plan p) ''approve'' (vp_status (pl_plan p)) planAcmApproved [])
     (tx_bind (tx_get ErrInvalidTransition (\<lambda>_. nextState (vr_status req) ActionVaultReady)) (\<lambda>next.
     tx_then (query v ''SetVendorRequestStatusOnly'' ''move request''
       (tx_write (SetVendorRequestStatusOnly next (vr_id req))))
     (request_log v actor (action_name ActionVaultReady) (vr_id req) (Some (state_json (vr_status req)))
       [(''state'', JStr next)]))))))"

definition VaultPlan_Approve :: "venv \<Rightarrow> vr_actor \<Rightarrow> id64 \<Rightarrow> vdb \<Rightarrow> (vr_err + plan_detail) \<times> vdb" where
  "VaultPlan_Approve v actor pid s =
     then_read (\<lambda>_. VaultPlan_Get v actor pid) (planTx v actor pid ''ACM-SPV'' (approve_plan_fn v actor) s)"

definition reject_plan_fn :: "venv \<Rightarrow> vr_actor \<Rightarrow> string \<Rightarrow> plan_row \<Rightarrow> vreq \<Rightarrow> unit vtx" where
  "reject_plan_fn v actor r p req =
     tx_then (plan_open p req planPending)
     (tx_then (tx_guard (vp_submitted_by (pl_plan p) \<noteq> Some (ac_UserID actor)) ErrSelfApproval)
     (tx_then (set_plan_status v ''reject vault plan'' planDraft actor (Some r) (vp_id (pl_plan p)))
     (tx_then (plan_log v actor (pl_plan p) ''reject'' (vp_status (pl_plan p)) planDraft [(''rejection_reason'', JStr r)])
     (plan_notify v [vp_acm_area_id (pl_plan p)] ''ACM-USER'' []
       (plan_message ''vault_plan.rejected'' ''Penetapan vault ditolak ACM-SPV''
         (''Penetapan vault '' @ pl_request_number p @ '' (area '' @ pl_area_name p @ '') ditolak: '' @ r)
         (vp_id (pl_plan p)))))))"

definition VaultPlan_Reject :: "venv \<Rightarrow> vr_actor \<Rightarrow> id64 \<Rightarrow> string \<Rightarrow> vdb \<Rightarrow> (vr_err + plan_detail) \<times> vdb" where
  "VaultPlan_Reject v actor pid reason s =
     (case checkReason reason ''rejection_reason'' of
        Inl e \<Rightarrow> (Inl e, s)
      | Inr r \<Rightarrow> then_read (\<lambda>_. VaultPlan_Get v actor pid)
          (planTx v actor pid ''ACM-SPV'' (reject_plan_fn v actor r) s))"

section \<open>The review of the request\<close>

definition plannedBy :: "vplan list \<Rightarrow> id64 \<Rightarrow> bool" where
  "plannedBy plans uid \<longleftrightarrow> list_ex (\<lambda>p. (case vp_submitted_by p of None \<Rightarrow> 0 | Some u \<Rightarrow> u) = uid
     \<or> (case vp_approved_by p of None \<Rightarrow> 0 | Some u \<Rightarrow> u) = uid) plans"

definition notifyReviewed :: "venv \<Rightarrow> vreq \<Rightarrow> vplan list \<Rightarrow> string option \<Rightarrow> unit vtx" where
  "notifyReviewed v req plans reason =
     (let title = (if reason = None then ''Penetapan vault disetujui tim ATM'' else ''Penetapan vault ditolak tim ATM'');
          body = (case reason of
                    None \<Rightarrow> ''Penetapan vault '' @ vr_request_number req @ '' disetujui; request dikirim ke vendor.''
                  | Some r \<Rightarrow> ''Penetapan vault '' @ vr_request_number req @ '' ditolak: '' @ r)
      in tx_then (tx_each (\<lambda>p. plan_notify v [vp_acm_area_id p] ''ACM-USER'' []
             (plan_message ''vault_plan.reviewed'' title body (vp_id p))) plans)
           (plan_notify v [] [] [vr_created_by req]
             (request_message ''vault_plan.reviewed'' title body (vr_id req))))"

definition review_body :: "venv \<Rightarrow> vr_actor \<Rightarrow> id64 \<Rightarrow> string option \<Rightarrow> unit vtx" where
  "review_body v actor rid reason =
     (let a = (if reason = None then ActionVaultApprove else ActionVaultReject) in
      tx_bind (GetVendorRequestForUpdate v rid) (\<lambda>req.
      tx_bind (tx_get ErrInvalidTransition (\<lambda>_. nextState (vr_status req) a)) (\<lambda>next.
      tx_then (tx_guard (\<not> vr_is_canceled req) ErrInvalidTransition)
      (tx_bind (query v ''ListVaultPlansForRequest'' ''list plans of request'' (tx_read (ListVaultPlansForRequest rid))) (\<lambda>plans.
      tx_then (tx_guard (\<not> plannedBy plans (ac_UserID actor)) ErrSelfApproval)
      (tx_then (tx_when (reason \<noteq> None) (query v ''ResetVaultPlansToDraft'' ''reset plans of request''
        (tx_write (ResetVaultPlansToDraft rid))))
      (tx_then (query v ''SetVendorRequestVaultReview'' ''review vendor request''
        (tx_write (SetVendorRequestVaultReview v next (ac_UserID actor) reason rid)))
      (tx_bind (if reason = None then syncVendorParties v (ac_UserID actor) req else tx_ret []) (\<lambda>notices.
      tx_then (request_log v actor (action_name a) rid (Some (state_json (vr_status req)))
        ((''state'', JStr next) # (case reason of None \<Rightarrow> [(''vendor_parties'', auditParties notices)]
           | Some r \<Rightarrow> [(''rejection_reason'', JStr r)])))
      (tx_then (notifyParties v req notices)
      (notifyReviewed v req plans reason)))))))))))"

definition VaultPlan_ReviewRequest ::
  "venv \<Rightarrow> vr_actor \<Rightarrow> id64 \<Rightarrow> bool \<Rightarrow> string \<Rightarrow> vdb \<Rightarrow> (vr_err + unit) \<times> vdb" where
  "VaultPlan_ReviewRequest v actor rid approve reason s =
     (if \<not> isChecker (ac_Role actor) then (Inl ErrNotChecker, s)
      else if approve then in_tx v ''commit'' (review_body v actor rid None) s
      else case checkReason reason ''vault_rejection_reason'' of
        Inl e \<Rightarrow> (Inl e, s)
      | Inr r \<Rightarrow> in_tx v ''commit'' (review_body v actor rid (Some r)) s)"

end
