(* ===== verification/Visit_Quota.thy ===== *)
theory Visit_Quota
  imports Vendor_Request
begin

text \<open>
  Visit quotas per ATM (\<open>src/backend/internal/service/atm_visit_quota.go\<close>) over the queries of
  \<open>atm_visit_quota.sql.go\<close>: a counted visit takes one from the ATM's quota row, a cancelled visit of the
  current period gives it back, a reset starts a new period.
\<close>

section \<open>Queries\<close>

record atm_quota =
  aq_atm_id :: id64
  aq_terminal_id :: string
  aq_package_code :: "string option"
  aq_vendor_package_label :: "string option"
  aq_cr_frequency :: "int option"

definition package_code_of :: "master \<Rightarrow> atm_package \<Rightarrow> string option" where
  "package_code_of md p = Option.bind (ap_vendor_package_id p)
     (\<lambda>i. map_option bp_package_code (find_row (\<lambda>b. bp_id b = i) (md_branch_packages md)))"

definition frequency_of :: "master \<Rightarrow> string option \<Rightarrow> string option \<Rightarrow> int option" where
  "frequency_of md label grp =
     (case (label, grp) of
        (Some l, Some g) \<Rightarrow> map_option pf_cr_frequency
           (find_row (\<lambda>f. pf_package_code f = l \<and> pf_machine_group f = g) (md_frequencies md))
      | _ \<Rightarrow> None)"

definition packageLabel :: "string option \<Rightarrow> string option \<Rightarrow> string option" where
  "packageLabel branchCode vendorLabel = (if branchCode \<noteq> None then branchCode else vendorLabel)"

definition atm_quota_of :: "master \<Rightarrow> atm_node \<Rightarrow> atm_package option \<Rightarrow> atm_quota" where
  "atm_quota_of md a p =
     (let c = Option.bind p (package_code_of md); l = Option.bind p ap_package in
      \<lparr>aq_atm_id = an_id a, aq_terminal_id = an_terminal_id a, aq_package_code = c, aq_vendor_package_label = l,
       aq_cr_frequency = frequency_of md (packageLabel c l) (an_price_machine_group a)\<rparr>)"

definition ResolveAtmQuota :: "day \<Rightarrow> string \<Rightarrow> vdb \<Rightarrow> atm_quota option" where
  "ResolveAtmQuota d terminalID s =
     map_option (\<lambda>a. atm_quota_of (rd_master s) a (latest_package d (rd_master s) a))
       (atm_by_terminal (rd_master s) terminalID)"

definition ListAtmsForVendorQuotaReset :: "day \<Rightarrow> id64 \<Rightarrow> vdb \<Rightarrow> atm_quota list" where
  "ListAtmsForVendorQuotaReset d vendorID s =
     (let md = rd_master s in
      List.map_filter (\<lambda>a. Option.bind (latest_package d md a) (\<lambda>p.
          case branch_by_id md (package_branch md p) of
            Some b \<Rightarrow> if vb_vendor_id b = vendorID then Some (atm_quota_of md a (Some p)) else None
          | None \<Rightarrow> None))
        (sort_key an_terminal_id (md_atms md)))"

definition GetAtmVisitQuotaForUpdate :: "id64 \<Rightarrow> vdb \<Rightarrow> quota_row option" where
  "GetAtmVisitQuotaForUpdate atm s = find_row (\<lambda>q. qt_atm_id q = atm) (rd_quotas s)"

text \<open>\<open>ON CONFLICT (atm_id) DO NOTHING\<close>, with \<open>atm_visit_quotas_total_chk\<close>.\<close>

definition EnsureAtmVisitQuota :: "venv \<Rightarrow> id64 \<Rightarrow> string \<Rightarrow> int \<Rightarrow> unit vtx" where
  "EnsureAtmVisitQuota v atm label quotaTotal =
     tx_then (tx_guard (quotaTotal > 0) (VrPg ''ensure kuota'' (PgCheck ''atm_visit_quotas_total_chk'')))
     (tx_bind (clock_timestamp v) (\<lambda>t.
      tx_write (\<lambda>s. if GetAtmVisitQuotaForUpdate atm s \<noteq> None then s
        else s\<lparr>rd_quotas := rd_quotas s @ [\<lparr>qt_atm_id = atm, qt_package_code = label, qt_quota_total = quotaTotal,
               qt_remaining = quotaTotal, qt_reset_at = t, qt_reset_by = None\<rparr>]\<rparr>)))"

definition update_quota :: "id64 \<Rightarrow> (quota_row \<Rightarrow> quota_row) \<Rightarrow> vdb \<Rightarrow> vdb" where
  "update_quota atm f s = s\<lparr>rd_quotas := update_where (\<lambda>q. qt_atm_id q = atm) f (rd_quotas s)\<rparr>"

definition AdjustAtmVisitQuota :: "int \<Rightarrow> id64 \<Rightarrow> (vdb, pg_err, quota_row) tx" where
  "AdjustAtmVisitQuota delta atm s =
     (case GetAtmVisitQuotaForUpdate atm s of
        None \<Rightarrow> Inl PgNoRows
      | Some q \<Rightarrow> Inr (q\<lparr>qt_remaining := qt_remaining q + delta\<rparr>,
                       update_quota atm (\<lambda>q. q\<lparr>qt_remaining := qt_remaining q + delta\<rparr>) s))"

definition ResetAtmVisitQuota :: "venv \<Rightarrow> id64 \<Rightarrow> string \<Rightarrow> int \<Rightarrow> id64 \<Rightarrow> quota_row vtx" where
  "ResetAtmVisitQuota v atm label quotaTotal resetBy =
     tx_then (tx_guard (quotaTotal > 0) (VrPg ''reset kuota'' (PgCheck ''atm_visit_quotas_total_chk'')))
     (tx_bind (clock_timestamp v) (\<lambda>t.
      let q = \<lparr>qt_atm_id = atm, qt_package_code = label, qt_quota_total = quotaTotal, qt_remaining = quotaTotal,
               qt_reset_at = t, qt_reset_by = Some resetBy\<rparr> in
      tx_then (tx_write (\<lambda>s. if GetAtmVisitQuotaForUpdate atm s \<noteq> None then update_quota atm (\<lambda>_. q) s
                 else s\<lparr>rd_quotas := rd_quotas s @ [q]\<rparr>))
        (tx_ret q)))"

text \<open>\<open>ON CONFLICT (vendor_request_id, atm_id) DO NOTHING RETURNING *\<close>: no row for a second visit.\<close>

definition InsertAtmVisit :: "venv \<Rightarrow> id64 \<Rightarrow> id64 \<Rightarrow> bool \<Rightarrow> id64 option vtx" where
  "InsertAtmVisit v atm rid quotaKnown =
     tx_bind (clock_timestamp v) (\<lambda>t.
     tx_bind (tx_read (\<lambda>s. list_ex (\<lambda>x. vs_vendor_request_id x = rid \<and> vs_atm_id x = atm) (rd_visits s))) (\<lambda>dup.
     if dup then tx_ret None
     else tx_bind (fresh_id ''atm_visits'') (\<lambda>vid.
          tx_then (tx_write (\<lambda>s. s\<lparr>rd_visits := rd_visits s @ [\<lparr>vs_id = vid, vs_atm_id = atm,
             vs_vendor_request_id = rid, vs_quota_known = quotaKnown, vs_is_over_quota = False,
             vs_created_at = t, vs_cancelled_at = None, vs_cancelled_by = None, vs_cancel_reason = None\<rparr>]\<rparr>))
          (tx_ret (Some vid)))))"

definition update_visit :: "(visit_row \<Rightarrow> bool) \<Rightarrow> (visit_row \<Rightarrow> visit_row) \<Rightarrow> vdb \<Rightarrow> vdb" where
  "update_visit sel f s = s\<lparr>rd_visits := update_where sel f (rd_visits s)\<rparr>"

definition MarkAtmVisitOverQuota :: "id64 \<Rightarrow> vdb \<Rightarrow> vdb" where
  "MarkAtmVisitOverQuota vid = update_visit (\<lambda>x. vs_id x = vid) (\<lambda>x. x\<lparr>vs_is_over_quota := True\<rparr>)"

definition GetAtmVisitForUpdate :: "id64 \<Rightarrow> vdb \<Rightarrow> visit_row option" where
  "GetAtmVisitForUpdate vid s = find_row (\<lambda>x. vs_id x = vid) (rd_visits s)"

definition CancelAtmVisit :: "venv \<Rightarrow> id64 \<Rightarrow> string \<Rightarrow> id64 \<Rightarrow> vdb \<Rightarrow> vdb" where
  "CancelAtmVisit v cancelledBy reason vid =
     update_visit (\<lambda>x. vs_id x = vid \<and> vs_cancelled_at x = None)
       (\<lambda>x. x\<lparr>vs_cancelled_at := Some (ve_now v), vs_cancelled_by := Some cancelledBy, vs_cancel_reason := Some reason\<rparr>)"

section \<open>Counting a visit\<close>

definition visitSisa :: "int \<Rightarrow> int \<times> int" where
  "visitSisa remaining = (if remaining < 0 then (0, - remaining) else (remaining, 0))"

record visit_outcome =
  vo_TerminalID :: string
  vo_Recorded :: bool
  vo_QuotaKnown :: bool
  vo_OverQuota :: bool
  vo_Remaining :: "int option"
  vo_Skipped :: string

definition outcome_of :: "string \<Rightarrow> visit_outcome" where
  "outcome_of t = \<lparr>vo_TerminalID = t, vo_Recorded = False, vo_QuotaKnown = False, vo_OverQuota = False,
     vo_Remaining = None, vo_Skipped = []\<rparr>"

definition count_visit :: "venv \<Rightarrow> id64 \<Rightarrow> string \<Rightarrow> id64 \<Rightarrow> bool \<Rightarrow> visit_outcome vtx" where
  "count_visit v rid terminalID atm quotaKnown =
     (let out = (outcome_of terminalID)\<lparr>vo_QuotaKnown := quotaKnown\<rparr> in
      tx_bind (query v ''InsertAtmVisit'' ''insert visit'' (InsertAtmVisit v atm rid quotaKnown)) (\<lambda>inserted.
      case inserted of
        None \<Rightarrow> tx_ret (out\<lparr>vo_Skipped := ''already_recorded''\<rparr>)
      | Some vid \<Rightarrow>
          if \<not> quotaKnown then tx_ret (out\<lparr>vo_Recorded := True\<rparr>)
          else tx_bind (pg_stmt v ''AdjustAtmVisitQuota'' ''decrement kuota'' (AdjustAtmVisitQuota (-1) atm)) (\<lambda>q.
               if qt_remaining q < 0
               then tx_then (query v ''MarkAtmVisitOverQuota'' ''mark over quota'' (tx_write (MarkAtmVisitOverQuota vid)))
                      (tx_ret (out\<lparr>vo_Recorded := True, vo_Remaining := Some (qt_remaining q), vo_OverQuota := True\<rparr>))
               else tx_ret (out\<lparr>vo_Recorded := True, vo_Remaining := Some (qt_remaining q)\<rparr>))))"

definition recordVisit :: "venv \<Rightarrow> id64 \<Rightarrow> string \<Rightarrow> day \<Rightarrow> visit_outcome vtx" where
  "recordVisit v rid terminalID asOf =
     tx_bind (query v ''ResolveAtmQuota'' ''resolve kuota'' (tx_read (ResolveAtmQuota asOf terminalID))) (\<lambda>found.
     case found of
       None \<Rightarrow> tx_ret ((outcome_of terminalID)\<lparr>vo_Skipped := ''atm_not_found''\<rparr>)
     | Some atm \<Rightarrow>
         tx_then (case (packageLabel (aq_package_code atm) (aq_vendor_package_label atm), aq_cr_frequency atm) of
             (Some label, Some freq) \<Rightarrow>
               query v ''EnsureAtmVisitQuota'' ''ensure kuota'' (EnsureAtmVisitQuota v (aq_atm_id atm) label freq)
           | _ \<Rightarrow> tx_ret ())
         (tx_bind (query v ''GetAtmVisitQuotaForUpdate'' ''lock kuota''
            (tx_read (GetAtmVisitQuotaForUpdate (aq_atm_id atm)))) (\<lambda>q.
          count_visit v rid terminalID (aq_atm_id atm) (q \<noteq> None))))"

section \<open>Resets and cancelled visits\<close>

text \<open>\<open>withTx\<close>: the role check, then one transaction.\<close>

definition quota_tx :: "venv \<Rightarrow> vr_actor \<Rightarrow> 'a vtx \<Rightarrow> vdb \<Rightarrow> (vr_err + 'a) \<times> vdb" where
  "quota_tx v actor body s =
     (if \<not> isChecker (ac_Role actor) then (Inl ErrNotChecker, s) else in_tx v ''commit'' body s)"

definition quota_json :: "quota_row \<Rightarrow> (string \<times> json) list" where
  "quota_json q = [(''package_code'', JStr (qt_package_code q)), (''quota_total'', JNum (qt_quota_total q)),
     (''remaining'', JNum (qt_remaining q))]"

definition resetOne :: "venv \<Rightarrow> vr_actor \<Rightarrow> id64 \<Rightarrow> string \<Rightarrow> string \<Rightarrow> int \<Rightarrow> unit vtx" where
  "resetOne v actor atm terminalID label quotaTotal =
     tx_bind (query v ''GetAtmVisitQuotaForUpdate'' ''lock kuota'' (tx_read (GetAtmVisitQuotaForUpdate atm))) (\<lambda>old.
     tx_bind (query v ''ResetAtmVisitQuota'' ''reset kuota''
        (ResetAtmVisitQuota v atm label quotaTotal (ac_UserID actor))) (\<lambda>q.
     write_log v (audit_entry (ac_UserID actor) ''reset'' ''atm_visit_quota'' atm
       (map_option (\<lambda>q0. JObj (quota_json q0)) old)
       (Some (JObj ((''terminal_id'', JStr terminalID) # quota_json q))) (ac_IP actor))))"

definition quota_target :: "atm_quota \<Rightarrow> (string \<times> int) option" where
  "quota_target a = (case (packageLabel (aq_package_code a) (aq_vendor_package_label a), aq_cr_frequency a) of
     (Some label, Some freq) \<Rightarrow> Some (label, freq) | _ \<Rightarrow> None)"

definition ResetATM_body :: "venv \<Rightarrow> vr_actor \<Rightarrow> string \<Rightarrow> unit vtx" where
  "ResetATM_body v actor terminalID =
     tx_bind (query v ''ResolveAtmQuota'' ''resolve kuota''
        (tx_get ErrAtmNotFound (ResolveAtmQuota (ve_today v) terminalID))) (\<lambda>atm.
     case quota_target atm of
       None \<Rightarrow> tx_fail ErrQuotaUnknown
     | Some (label, freq) \<Rightarrow> resetOne v actor (aq_atm_id atm) terminalID label freq)"

fun reset_loop :: "venv \<Rightarrow> vr_actor \<Rightarrow> nat \<times> nat \<Rightarrow> atm_quota list \<Rightarrow> (nat \<times> nat) vtx" where
  "reset_loop v actor res [] = tx_ret res"
| "reset_loop v actor (resets, skipped) (a # as) =
     (case quota_target a of
        None \<Rightarrow> reset_loop v actor (resets, skipped + 1) as
      | Some (label, freq) \<Rightarrow>
          tx_then (resetOne v actor (aq_atm_id a) (aq_terminal_id a) label freq)
            (reset_loop v actor (resets + 1, skipped) as))"

definition ResetVendor_body :: "venv \<Rightarrow> vr_actor \<Rightarrow> id64 \<Rightarrow> (nat \<times> nat) vtx" where
  "ResetVendor_body v actor vendorID =
     tx_bind (query v ''ListAtmsForVendorQuotaReset'' ''list ATMs of vendor''
       (tx_read (ListAtmsForVendorQuotaReset (ve_today v) vendorID))) (reset_loop v actor (0, 0))"

definition AtmVisitQuota_ResetVendor :: "venv \<Rightarrow> vr_actor \<Rightarrow> id64 \<Rightarrow> vdb \<Rightarrow> (vr_err + nat \<times> nat) \<times> vdb" where
  "AtmVisitQuota_ResetVendor v actor vendorID = quota_tx v actor (ResetVendor_body v actor vendorID)"

definition CancelVisit_body :: "venv \<Rightarrow> vr_actor \<Rightarrow> id64 \<Rightarrow> string \<Rightarrow> unit vtx" where
  "CancelVisit_body v actor visitID trimmed =
     tx_bind (query v ''GetAtmVisitForUpdate'' ''load visit''
        (tx_get ErrVisitNotFound (GetAtmVisitForUpdate visitID))) (\<lambda>visit.
     tx_then (tx_guard (vs_cancelled_at visit = None) ErrVisitNotCancelable)
     (tx_bind (if vs_quota_known visit
        then tx_bind (query v ''GetAtmVisitQuotaForUpdate'' ''lock kuota''
               (tx_get (VrPg ''lock kuota'' PgNoRows) (GetAtmVisitQuotaForUpdate (vs_atm_id visit)))) (\<lambda>q.
             tx_then (tx_guard (\<not> vs_created_at visit < qt_reset_at q) ErrVisitNotCancelable)
             (tx_bind (pg_stmt v ''AdjustAtmVisitQuota'' ''restore kuota''
                (AdjustAtmVisitQuota 1 (vs_atm_id visit))) (\<lambda>adj. tx_ret (Some (qt_remaining adj)))))
        else tx_ret None) (\<lambda>remaining.
     tx_then (query v ''CancelAtmVisit'' ''cancel visit'' (tx_write (CancelAtmVisit v (ac_UserID actor) trimmed visitID)))
     (write_log v (audit_entry (ac_UserID actor) ''cancel'' ''atm_visit'' visitID
        (Some (JObj [(''cancelled'', JBool False)]))
        (Some (JObj [(''cancelled'', JBool True), (''reason'', JStr trimmed), (''atm_id'', JNum (vs_atm_id visit)),
           (''remaining'', json_opt JNum remaining)])) (ac_IP actor))))))"

definition AtmVisitQuota_CancelVisit ::
  "venv \<Rightarrow> vr_actor \<Rightarrow> id64 \<Rightarrow> string \<Rightarrow> vdb \<Rightarrow> (vr_err + unit) \<times> vdb" where
  "AtmVisitQuota_CancelVisit v actor visitID reason s =
     (case reason_bytes ErrCancelVisitReason ''reason'' reason of
        Inl e \<Rightarrow> (Inl e, s)
      | Inr trimmed \<Rightarrow> quota_tx v actor (CancelVisit_body v actor visitID trimmed) s)"

section \<open>The ATM's view\<close>

record visit_quota_view =
  qv_TerminalID :: string
  qv_Quota :: "quota_row option"
  qv_Sisa :: int
  qv_Kelebihan :: int
  qv_CurrentPackageCode :: "string option"
  qv_CurrentQuota :: "int option"
  qv_Visits :: "visit_row list"

definition ListAtmVisitsSince :: "id64 \<Rightarrow> timestamp \<Rightarrow> vdb \<Rightarrow> visit_row list" where
  "ListAtmVisitsSince atm since s =
     rev (sort_key vs_created_at (sort_key vs_id
       (filter (\<lambda>x. vs_atm_id x = atm \<and> vs_created_at x \<ge> since
          \<and> GetVendorRequest (vs_vendor_request_id x) s \<noteq> None) (rd_visits s))))"

text \<open>\<open>time.Unix(0, 0)\<close>, in nanoseconds from day 0.\<close>

definition unix_epoch :: timestamp where "unix_epoch = 719162 * (24 * hour)"

definition AtmVisitQuota_Get :: "venv \<Rightarrow> string \<Rightarrow> visit_quota_view vtx" where
  "AtmVisitQuota_Get v terminalID =
     tx_bind (query v ''ResolveAtmQuota'' ''resolve kuota''
        (tx_get ErrAtmNotFound (ResolveAtmQuota (ve_today v) terminalID))) (\<lambda>atm.
     tx_bind (query v ''GetAtmVisitQuotaByAtm'' ''get kuota''
        (tx_read (GetAtmVisitQuotaForUpdate (aq_atm_id atm)))) (\<lambda>q.
     let sisa = (case q of None \<Rightarrow> (0, 0) | Some x \<Rightarrow> visitSisa (qt_remaining x));
         since = (case q of None \<Rightarrow> unix_epoch | Some x \<Rightarrow> qt_reset_at x) in
     tx_bind (query v ''ListAtmVisitsSince'' ''list visits''
        (tx_read (ListAtmVisitsSince (aq_atm_id atm) since))) (\<lambda>rows.
     tx_ret \<lparr>qv_TerminalID = terminalID, qv_Quota = q, qv_Sisa = fst sisa, qv_Kelebihan = snd sisa,
       qv_CurrentPackageCode = packageLabel (aq_package_code atm) (aq_vendor_package_label atm),
       qv_CurrentQuota = aq_cr_frequency atm, qv_Visits = rows\<rparr>)))"

definition AtmVisitQuota_ResetATM ::
  "venv \<Rightarrow> vr_actor \<Rightarrow> string \<Rightarrow> vdb \<Rightarrow> (vr_err + visit_quota_view) \<times> vdb" where
  "AtmVisitQuota_ResetATM v actor terminalID s =
     then_read (\<lambda>_. AtmVisitQuota_Get v terminalID) (quota_tx v actor (ResetATM_body v actor terminalID) s)"

end
