(* ===== verification/Vendor_Completion.thy ===== *)
theory Vendor_Completion
  imports Visit_Quota
begin

text \<open>
  The completion report of a request (\<open>src/backend/internal/service/vendor_request_completion.go\<close>): the
  maker reports one result per ATM, the checker approves it, which counts the visits, or sends it
  back. \<open>runCompletionTx\<close> is the shared transaction; the vendor's report (theory \<open>Vendor_Order\<close>) runs it too.
\<close>

section \<open>Who reports and what a report is\<close>

definition completionMakerRoles :: "string list" where
  "completionMakerRoles = [''ADMIN'', ''ATM-USER'', ''BRANCH-ATM-USER'']"

definition completionSuccess :: string where "completionSuccess = ''success''"
definition completionFailed :: string where "completionFailed = ''failed''"

type_synonym completion_result = "string \<times> string"    \<comment> \<open>terminal and result\<close>

definition checkCompletionActor :: "vr_actor \<Rightarrow> vreq \<Rightarrow> vr_action \<Rightarrow> vr_err option" where
  "checkCompletionActor actor req a =
     (case a of
        ActionSubmitCompletion \<Rightarrow>
          if vr_vendor_sent req
          then (if \<not> IsVendor (ac_Role actor) then Some ErrCompletionByVendor else None)
          else (if \<not> roleIn (ac_Role actor) completionMakerRoles then Some ErrNotAuthorized else None)
      | ActionApproveCompletion \<Rightarrow>
          if \<not> isChecker (ac_Role actor) then Some ErrNotChecker
          else if vr_completion_submitted_by req = Some (ac_UserID actor) then Some ErrSelfApproval else None
      | ActionRejectCompletion \<Rightarrow>
          if \<not> isChecker (ac_Role actor) then Some ErrNotChecker
          else if vr_completion_submitted_by req = Some (ac_UserID actor) then Some ErrSelfApproval else None
      | _ \<Rightarrow> None)"

fun completion_rows :: "string list \<Rightarrow> string list \<Rightarrow> completion_result list \<Rightarrow> vr_err + string list" where
  "completion_rows want seen [] = Inr seen"
| "completion_rows want seen ((t, res) # rs) =
     (if res \<noteq> completionSuccess \<and> res \<noteq> completionFailed
      then Inl (InvalidField ''results'' (''hasil ATM '' @ t @ '' harus success atau failed''))
      else if t \<notin> set want then Inl (InvalidField ''results'' (''ATM '' @ t @ '' bukan bagian dari request ini''))
      else if t \<in> set seen then Inl (InvalidField ''results'' (''ATM '' @ t @ '' muncul lebih dari sekali''))
      else completion_rows want (t # seen) rs)"

definition validateCompletionResults :: "string list \<Rightarrow> completion_result list \<Rightarrow> vr_err option" where
  "validateCompletionResults terminals results =
     (case completion_rows terminals [] results of
        Inl e \<Rightarrow> Some e
      | Inr seen \<Rightarrow>
          if length seen \<noteq> length (remdups terminals)
          then Some (InvalidField ''results'' ''setiap ATM di request wajib diberi hasil berhasil/gagal'')
          else None)"

section \<open>The shared transaction\<close>

definition completion_status :: "vreq \<Rightarrow> vr_action \<Rightarrow> string \<Rightarrow> string" where
  "completion_status req a next =
     (if a = ActionRejectCompletion \<and> vr_vendor_sent req then ''vendor_accepted''
      else if a = ActionRejectCompletion \<and> vr_vault_flow req then ''ready''
      else next)"

definition completion_body ::
  "venv \<Rightarrow> vr_actor \<Rightarrow> id64 \<Rightarrow> vr_action \<Rightarrow> (vreq \<Rightarrow> string \<Rightarrow> ((string \<times> json) list \<times> 'a) vtx) \<Rightarrow> 'a vtx" where
  "completion_body v actor rid a apply_fn =
     tx_bind (GetVendorRequestForUpdate v rid) (\<lambda>req.
     tx_then (tx_guard (\<not> vr_is_canceled req) ErrInvalidTransition)
     (tx_bind (tx_get ErrInvalidTransition (\<lambda>_. nextState (vr_status req) a)) (\<lambda>next.
     let newStatus = completion_status req a next in
     tx_then (tx_check (checkCompletionActor actor req a))
     (tx_bind (apply_fn req newStatus) (\<lambda>(after, res).
     tx_then (request_log v actor (action_name a) rid (Some (state_json (vr_status req)))
       (after @ [(''state'', JStr newStatus)]))
     (tx_ret res))))))"

definition runCompletionTx ::
  "venv \<Rightarrow> vr_actor \<Rightarrow> id64 \<Rightarrow> vr_action \<Rightarrow> (vreq \<Rightarrow> string \<Rightarrow> ((string \<times> json) list \<times> 'a) vtx)
    \<Rightarrow> vdb \<Rightarrow> (vr_err + 'a) \<times> vdb" where
  "runCompletionTx v actor rid a apply_fn = in_tx v ''commit vendor request'' (completion_body v actor rid a apply_fn)"

section \<open>SubmitCompletion\<close>

definition save_result :: "venv \<Rightarrow> vreq \<Rightarrow> completion_result \<Rightarrow> id64 vtx" where
  "save_result v req r =
     pg_stmt v ''SetVendorRequestTicketResult'' ''save result''
       (SetVendorRequestTicketResult (vr_request_number req) (fst r) (snd r))"

definition set_completion :: "venv \<Rightarrow> string \<Rightarrow> id64 \<Rightarrow> string option \<Rightarrow> id64 \<Rightarrow> unit vtx" where
  "set_completion v status actorID reason rid =
     query v ''UpdateVendorRequestCompletion'' ''update vendor request''
       (tx_write (UpdateVendorRequestCompletion v status actorID reason rid))"

definition submit_completion_apply ::
  "venv \<Rightarrow> vr_actor \<Rightarrow> id64 \<Rightarrow> completion_result list \<Rightarrow> vreq \<Rightarrow> string \<Rightarrow> ((string \<times> json) list \<times> unit) vtx" where
  "submit_completion_apply v actor rid results req newStatus =
     tx_bind (query v ''ListDistinctRequestTerminals'' ''list terminals''
       (tx_read (ListDistinctRequestTerminals rid))) (\<lambda>terminals.
     tx_then (tx_check (validateCompletionResults terminals results))
     (tx_then (tx_each (\<lambda>r. tx_bind (save_result v req r) (\<lambda>_. tx_ret ())) results)
     (tx_then (set_completion v newStatus (ac_UserID actor) None rid)
     (tx_ret ([(''results'', JObj (map (\<lambda>(t, res). (t, JStr res)) results))], ())))))"

definition VendorRequest_SubmitCompletion ::
  "venv \<Rightarrow> vr_actor \<Rightarrow> id64 \<Rightarrow> completion_result list \<Rightarrow> vdb \<Rightarrow> (vr_err + vr_detail) \<times> vdb" where
  "VendorRequest_SubmitCompletion v actor rid results s =
     (if IsVendor (ac_Role actor) then (Inl ErrNotAuthorized, s)
      else then_read (\<lambda>_. VendorRequest_Get v rid)
        (runCompletionTx v actor rid ActionSubmitCompletion (submit_completion_apply v actor rid results) s))"

section \<open>Notices about a report\<close>

definition overQuotaListMax :: nat where "overQuotaListMax = 20"

definition overQuotaNotification :: "vreq \<Rightarrow> string list \<Rightarrow> message \<times> recipients" where
  "overQuotaNotification req terminals =
     (let listed = (if length terminals > overQuotaListMax then take overQuotaListMax terminals else terminals);
          suffix = (if length terminals > overQuotaListMax
                    then '' dan '' @ nat_text (length terminals - overQuotaListMax) @ '' ATM lainnya'' else [])
      in (request_message ''visit_quota.over_quota'' ''Kelebihan kuota kunjungan''
            (''Vendor request '' @ vr_request_number req @ '': ATM '' @ join '', '' listed @ suffix
              @ '' melebihi kuota kunjungan replenish.'') (vr_id req),
          no_recipients\<lparr>rc_Roles := [''ATM-SPV''],
            rc_UserIDs := (case vr_completion_submitted_by req of None \<Rightarrow> [] | Some u \<Rightarrow> [u])\<rparr>))"

text \<open>\<open>ORDER BY p.role, b.branch_name, p.id\<close>, over the parties whose branch and vendor are known.\<close>

definition party_vendor :: "vdb \<Rightarrow> party \<Rightarrow> (vbranch \<times> vvendor) option" where
  "party_vendor s p =
     Option.bind (branch_by_id (rd_master s) (Some (py_vendor_branch_id p))) (\<lambda>b.
       map_option (Pair b) (vendor_by_id (rd_master s) (vb_vendor_id b)))"

definition ListVendorPartiesForRequest :: "id64 \<Rightarrow> vdb \<Rightarrow> (party \<times> vbranch \<times> vvendor) list" where
  "ListVendorPartiesForRequest rid s =
     sort_key (\<lambda>x. py_role (fst x)) (sort_key (\<lambda>x. vb_branch_name (fst (snd x)))
       (List.map_filter (\<lambda>p. map_option (Pair p) (party_vendor s p))
         (LockVendorPartiesForRequest rid s)))"

definition live_replenish :: "party \<Rightarrow> bool" where
  "live_replenish p \<longleftrightarrow> py_role p = partyRoleReplenish \<and> py_status p \<noteq> ''withdrawn''"

definition decision_message :: "vreq \<Rightarrow> string \<Rightarrow> party option \<Rightarrow> message" where
  "decision_message req reason p =
     (let link = (case p of None \<Rightarrow> [] | Some x \<Rightarrow> ''/orders/'' @ FormatInt (py_id x));
          etype = (case p of None \<Rightarrow> [] | Some x \<Rightarrow> vendorPartyEntity);
          eid = map_option py_id p
      in if reason = []
         then \<lparr>msg_Type = ''vendor_order.realization_approved'', msg_Title = ''Laporan realisasi disetujui'',
           msg_Body = ''Laporan realisasi request '' @ vr_request_number req @ '' disetujui CIMB Niaga.'',
           msg_Link = link, msg_EntityType = etype, msg_EntityID = eid, msg_Email = True\<rparr>
         else \<lparr>msg_Type = ''vendor_order.realization_rejected'', msg_Title = ''Laporan realisasi ditolak'',
           msg_Body = ''Laporan realisasi request '' @ vr_request_number req @ '' ditolak: '' @ reason
             @ ''. Mohon lapor ulang.'',
           msg_Link = link, msg_EntityType = etype, msg_EntityID = eid, msg_Email = True\<rparr>)"

definition notifyRealizationDecision :: "venv \<Rightarrow> vreq \<Rightarrow> string \<Rightarrow> unit vtx" where
  "notifyRealizationDecision v req reason =
     (case vr_completion_submitted_by req of
        None \<Rightarrow> tx_ret ()
      | Some maker \<Rightarrow>
          if ve_notifier v = None \<or> \<not> vr_vendor_sent req then tx_ret ()
          else tx_bind (query v ''ListVendorPartiesForRequest'' ''list parties of request''
                 (tx_read (ListVendorPartiesForRequest (vr_id req)))) (\<lambda>parties.
               notify v (decision_message req reason (find_row live_replenish (map fst parties)))
                 (no_recipients\<lparr>rc_UserIDs := [maker]\<rparr>)))"

section \<open>ApproveCompletion and RejectCompletion\<close>

definition visit_json :: "visit_outcome \<Rightarrow> json" where
  "visit_json o1 = JObj ([(''terminal_id'', JStr (vo_TerminalID o1)), (''recorded'', JBool (vo_Recorded o1)),
     (''quota_known'', JBool (vo_QuotaKnown o1)), (''over_quota'', JBool (vo_OverQuota o1))]
     @ (case vo_Remaining o1 of None \<Rightarrow> [] | Some n \<Rightarrow> [(''remaining'', JNum n)])
     @ (if vo_Skipped o1 = [] then [] else [(''skipped'', JStr (vo_Skipped o1))]))"

definition reported_success :: "ticket list \<Rightarrow> ticket list" where
  "reported_success results = filter (\<lambda>r. tk_result r = Some completionSuccess) results"

definition over_quota_terminals :: "visit_outcome list \<Rightarrow> string list" where
  "over_quota_terminals visits = map vo_TerminalID (filter vo_OverQuota visits)"

definition approve_completion_apply ::
  "venv \<Rightarrow> vr_actor \<Rightarrow> id64 \<Rightarrow> vreq \<Rightarrow> string \<Rightarrow> ((string \<times> json) list \<times> string list) vtx" where
  "approve_completion_apply v actor rid req newStatus =
     tx_bind (query v ''ListActiveVendorRequestTickets'' ''list results''
       (tx_read (ListActiveVendorRequestTickets (vr_request_number req)))) (\<lambda>results.
     tx_bind (tx_map (\<lambda>r. recordVisit v rid (tk_terminal_id r) (ve_today v)) (reported_success results)) (\<lambda>visits.
     let overQuota = over_quota_terminals visits; note1 = overQuotaNotification req overQuota in
     tx_then (tx_when (overQuota \<noteq> []) (notify v (fst note1) (snd note1)))
     (tx_then (notifyRealizationDecision v req [])
     (tx_then (set_completion v newStatus (ac_UserID actor) None rid)
     (tx_ret ([(''visits'', JArr (map visit_json visits)),
               (''over_quota_terminals'', JArr (map JStr overQuota))], overQuota))))))"

definition VendorRequest_ApproveCompletion ::
  "venv \<Rightarrow> vr_actor \<Rightarrow> id64 \<Rightarrow> vdb \<Rightarrow> (vr_err + vr_detail \<times> string list) \<times> vdb" where
  "VendorRequest_ApproveCompletion v actor rid s =
     then_read (\<lambda>overQuota. tx_bind (VendorRequest_Get v rid) (\<lambda>detail. tx_ret (detail, overQuota)))
       (runCompletionTx v actor rid ActionApproveCompletion (approve_completion_apply v actor rid) s)"

definition reject_completion_apply ::
  "venv \<Rightarrow> vr_actor \<Rightarrow> id64 \<Rightarrow> string \<Rightarrow> vreq \<Rightarrow> string \<Rightarrow> ((string \<times> json) list \<times> unit) vtx" where
  "reject_completion_apply v actor rid trimmed req newStatus =
     tx_then (set_completion v newStatus (ac_UserID actor) (Some trimmed) rid)
     (tx_then (notifyRealizationDecision v req trimmed)
     (tx_ret ([(''reason'', JStr trimmed)], ())))"

definition VendorRequest_RejectCompletion ::
  "venv \<Rightarrow> vr_actor \<Rightarrow> id64 \<Rightarrow> string \<Rightarrow> vdb \<Rightarrow> (vr_err + vr_detail) \<times> vdb" where
  "VendorRequest_RejectCompletion v actor rid reason s =
     (case reason_bytes ErrCompletionReasonEmpty ''reason'' reason of
        Inl e \<Rightarrow> (Inl e, s)
      | Inr trimmed \<Rightarrow> then_read (\<lambda>_. VendorRequest_Get v rid)
          (runCompletionTx v actor rid ActionRejectCompletion (reject_completion_apply v actor rid trimmed) s))"

end
