(* ===== verification/Vendor_Order.thy ===== *)
theory Vendor_Order
  imports Vendor_Completion
begin

text \<open>
  The vendor portal's side of a request: \<open>vendor_order.go\<close>, \<open>vendor_order_realization.go\<close> and
  \<open>replenish_realization_rules.go\<close>. A vendor user reaches the parties of the branches in its scope and
  nothing else; deciding a party moves the request, and the replenish party reports the realization.
\<close>

section \<open>Scope\<close>

record vendor_actor =
  xa_Actor :: vr_actor
  xa_ClaimVendorID :: "id64 option"

record vendor_scope =
  sc_vendorID :: id64
  sc_branchID :: "id64 option"
  sc_partyRoles :: "string list"

definition vendorRejectMinLen :: nat where "vendorRejectMinLen = 10"
definition vendorRejectMaxLen :: nat where "vendorRejectMaxLen = 500"
definition vendorOrderMaxPageSize :: int where "vendorOrderMaxPageSize = 100"

definition GetUserVendorScope :: "id64 \<Rightarrow> vdb \<Rightarrow> (id64 option \<times> id64 option \<times> string) option" where
  "GetUserVendorScope uid s =
     Option.bind (find_row (\<lambda>u. us_id u = uid \<and> active_user u) (md_users (rd_master s))) (\<lambda>u.
       map_option (\<lambda>r. (us_vendor_id u, us_vendor_branch_id u, ro_role r))
         (find_row (\<lambda>r. ro_id r = us_role_id u) (md_roles (rd_master s))))"

definition scope :: "venv \<Rightarrow> vendor_actor \<Rightarrow> vendor_scope vtx" where
  "scope v va =
     (let roles = PartyRoles (ac_Role (xa_Actor va)) in
      if roles = [] then tx_fail ErrNotAuthorized
      else tx_bind (query v ''GetUserVendorScope'' ''load vendor scope''
             (tx_get ErrNotAuthorized (GetUserVendorScope (ac_UserID (xa_Actor va))))) (\<lambda>(vendorID, branchID, role).
           case (vendorID, xa_ClaimVendorID va) of
             (Some own, Some claim) \<Rightarrow>
               if role \<noteq> ac_Role (xa_Actor va) \<or> own \<noteq> claim then tx_fail ErrNotAuthorized
               else tx_ret \<lparr>sc_vendorID = own, sc_branchID = branchID, sc_partyRoles = roles\<rparr>
           | _ \<Rightarrow> tx_fail ErrNotAuthorized))"

text \<open>The condition every query of the portal carries.\<close>

definition in_scope :: "vendor_scope \<Rightarrow> vbranch \<Rightarrow> party \<Rightarrow> bool" where
  "in_scope sc b p \<longleftrightarrow> vb_vendor_id b = sc_vendorID sc
     \<and> (case sc_branchID sc of None \<Rightarrow> True | Some i \<Rightarrow> py_vendor_branch_id p = i)
     \<and> py_role p \<in> set (sc_partyRoles sc)"

record vendor_order =
  oo_party :: party
  oo_branch :: vbranch
  oo_request :: vreq

definition order_of :: "vdb \<Rightarrow> party \<Rightarrow> vendor_order option" where
  "order_of s p =
     Option.bind (branch_by_id (rd_master s) (Some (py_vendor_branch_id p))) (\<lambda>b.
       map_option (\<lambda>r. \<lparr>oo_party = p, oo_branch = b, oo_request = r\<rparr>) (GetVendorRequest (py_vendor_request_id p) s))"

definition party_by_id :: "id64 \<Rightarrow> vdb \<Rightarrow> party option" where
  "party_by_id pid s = find_row (\<lambda>p. py_id p = pid) (rd_parties s)"

definition GetVendorOrder :: "vendor_scope \<Rightarrow> id64 \<Rightarrow> vdb \<Rightarrow> vendor_order option" where
  "GetVendorOrder sc pid s =
     (case Option.bind (party_by_id pid s) (order_of s) of
        None \<Rightarrow> None
      | Some x \<Rightarrow> if in_scope sc (oo_branch x) (oo_party x) then Some x else None)"

definition getScoped :: "venv \<Rightarrow> vendor_scope \<Rightarrow> id64 \<Rightarrow> vendor_order vtx" where
  "getScoped v sc pid =
     query v ''GetVendorOrder'' ''get vendor order'' (tx_get ErrVendorOrderNotFound (GetVendorOrder sc pid))"

section \<open>Reading orders\<close>

record order_summary =
  os_ID :: id64
  os_Role :: string
  os_Status :: string
  os_RequestNumber :: string
  os_ReplenishDate :: "day option"
  os_RequestStatus :: string
  os_IsCanceled :: bool
  os_BranchID :: id64
  os_BranchCode :: string
  os_BranchName :: string
  os_AtmCount :: nat
  os_VaultCount :: nat
  os_Totals :: denom_amounts
  os_Currency :: string
  os_SentAt :: timestamp
  os_DecidedAt :: "timestamp option"
  os_CanDecide :: bool

definition summary :: "vendor_order \<Rightarrow> order_summary" where
  "summary x =
     (let p = oo_party x; b = oo_branch x; r = oo_request x; c = py_content p in
      \<lparr>os_ID = py_id p, os_Role = py_role p, os_Status = py_status p, os_RequestNumber = vr_request_number r,
       os_ReplenishDate = vr_replenish_date r, os_RequestStatus = vr_status r, os_IsCanceled = vr_is_canceled r,
       os_BranchID = py_vendor_branch_id p, os_BranchCode = vb_branch_code b, os_BranchName = vb_branch_name b,
       os_AtmCount = length (pt_Atms c), os_VaultCount = length (pt_Vaults c), os_Totals = pt_Totals c,
       os_Currency = currencyIDR, os_SentAt = py_sent_at p, os_DecidedAt = py_decided_at p,
       os_CanDecide = (py_status p = ''pending'' \<and> vr_status r = ''sent_to_vendor'' \<and> \<not> vr_is_canceled r)\<rparr>)"

record order_filter =
  of_PartyStatus :: string
  of_RequestStatus :: string
  of_From :: "day option"
  of_To :: "day option"
  of_Page :: int
  of_PageSize :: int

definition order_matches :: "order_filter \<Rightarrow> vendor_scope \<Rightarrow> vendor_order \<Rightarrow> bool" where
  "order_matches f sc x \<longleftrightarrow> in_scope sc (oo_branch x) (oo_party x)
     \<and> (of_PartyStatus f = [] \<or> py_status (oo_party x) = of_PartyStatus f)
     \<and> (of_RequestStatus f = [] \<or> vr_status (oo_request x) = of_RequestStatus f)
     \<and> (case of_From f of None \<Rightarrow> True
        | Some d \<Rightarrow> (case vr_replenish_date (oo_request x) of None \<Rightarrow> False | Some e \<Rightarrow> d \<le> e))
     \<and> (case of_To f of None \<Rightarrow> True
        | Some d \<Rightarrow> (case vr_replenish_date (oo_request x) of None \<Rightarrow> False | Some e \<Rightarrow> e \<le> d))"

text \<open>\<open>ORDER BY replenish_date DESC NULLS LAST, id DESC\<close>.\<close>

definition matching_orders :: "order_filter \<Rightarrow> vendor_scope \<Rightarrow> vdb \<Rightarrow> vendor_order list" where
  "matching_orders f sc s =
     sort_key (\<lambda>x. vr_replenish_date (oo_request x) = None)
       (sort_key (\<lambda>x. case vr_replenish_date (oo_request x) of None \<Rightarrow> 0 | Some d \<Rightarrow> - d)
         (rev (sort_key (\<lambda>x. py_id (oo_party x))
           (filter (order_matches f sc) (List.map_filter (order_of s) (rd_parties s))))))"

definition page_of :: "order_filter \<Rightarrow> int \<times> int" where
  "page_of f = (if of_Page f < 1 then 1 else of_Page f,
     if of_PageSize f < 1 \<or> of_PageSize f > vendorOrderMaxPageSize then 20 else of_PageSize f)"

definition VendorOrder_List :: "venv \<Rightarrow> vendor_actor \<Rightarrow> order_filter \<Rightarrow> (order_summary list \<times> nat \<times> int \<times> int) vtx" where
  "VendorOrder_List v va f =
     tx_bind (scope v va) (\<lambda>sc.
     case page_of f of (page, pageSize) \<Rightarrow>
     tx_bind (query v ''ListVendorOrders'' ''list vendor orders''
       (tx_read (\<lambda>s. take (nat pageSize) (drop (nat ((page - 1) * pageSize)) (matching_orders f sc s))))) (\<lambda>rows.
     tx_bind (query v ''CountVendorOrders'' ''count vendor orders''
       (tx_read (\<lambda>s. length (matching_orders f sc s)))) (\<lambda>n.
     tx_ret (map summary rows, n, page, pageSize))))"

record order_detail =
  od_Summary :: order_summary
  od_RejectionReason :: "string option"
  od_Content :: party_content
  od_Realizations :: "realization_view list"
  od_CanReport :: bool
  od_CompletionRejectionReason :: "string option"

definition sortedRealizations :: "(string \<times> realization_view) list \<Rightarrow> realization_view list" where
  "sortedRealizations m = List.map_filter (map_of m) (sortedKeys m)"

definition loadRealization :: "venv \<Rightarrow> order_detail \<Rightarrow> id64 \<Rightarrow> order_detail vtx" where
  "loadRealization v d rid =
     (if os_Role (od_Summary d) \<noteq> partyRoleReplenish then tx_ret (d\<lparr>od_Realizations := []\<rparr>)
      else tx_bind (query v ''GetVendorRequest'' ''load vendor request''
             (tx_get (VrPg ''load vendor request'' PgNoRows) (GetVendorRequest rid))) (\<lambda>req.
           tx_bind (query v ''ListVendorRealizationsForRequest'' ''list realizations''
             (tx_read (ListVendorRealizationsForRequest rid))) (\<lambda>rows.
           tx_ret (d\<lparr>od_Realizations := sortedRealizations (realizationViews rows),
             od_CompletionRejectionReason := vr_completion_rejection_reason req,
             od_CanReport := (vr_vendor_sent req \<and> \<not> vr_is_canceled req \<and> vr_status req = ''vendor_accepted'')\<rparr>))))"

definition VendorOrder_Get :: "venv \<Rightarrow> vendor_actor \<Rightarrow> id64 \<Rightarrow> order_detail vtx" where
  "VendorOrder_Get v va pid =
     tx_bind (scope v va) (\<lambda>sc.
     tx_bind (getScoped v sc pid) (\<lambda>x.
     loadRealization v \<lparr>od_Summary = summary x, od_RejectionReason = py_rejection_reason (oo_party x),
       od_Content = py_content (oo_party x), od_Realizations = [], od_CanReport = False,
       od_CompletionRejectionReason = None\<rparr> (py_vendor_request_id (oo_party x))))"

section \<open>Deciding a party\<close>

text \<open>\<open>after[k] = v\<close> over the extra keys; \<open>Link\<close>, entity and \<open>Email\<close> are set here.\<close>

definition moveRequest ::
  "venv \<Rightarrow> vendor_actor \<Rightarrow> vreq \<Rightarrow> string \<Rightarrow> (string \<times> json) list \<Rightarrow> string \<times> string \<times> string \<Rightarrow> recipients \<Rightarrow> unit vtx" where
  "moveRequest v va req status extra msg to =
     (case msg of (mtype, title, body) \<Rightarrow>
     tx_then (query v ''UpdateVendorRequestStatus'' ''move request''
       (tx_write (UpdateVendorRequestStatus v status None None (vr_id req))))
     (tx_then (request_log v (xa_Actor va) (''vendor_'' @ status) (vr_id req) (Some (state_json (vr_status req)))
       ((''state'', JStr status) # extra))
     (notify v (request_message mtype title body (vr_id req)) to)))"

definition afterAccept :: "venv \<Rightarrow> vendor_actor \<Rightarrow> vreq \<Rightarrow> unit vtx" where
  "afterAccept v va req =
     tx_bind (query v ''LockVendorPartiesForRequest'' ''lock parties of request''
       (tx_read (LockVendorPartiesForRequest (vr_id req)))) (\<lambda>parties.
     if list_ex (\<lambda>p. py_status p \<noteq> ''accepted'' \<and> py_status p \<noteq> ''withdrawn'') parties then tx_ret ()
     else moveRequest v va req ''vendor_accepted'' []
        (''vendor_order.all_accepted'', ''Request diterima semua vendor'',
         ''Request '' @ vr_request_number req @ '' sudah diterima semua branch vendor.'')
        (no_recipients\<lparr>rc_Roles := [''ATM-SPV''], rc_UserIDs := [vr_created_by req]\<rparr>))"

definition area_acm :: "venv \<Rightarrow> id64 \<Rightarrow> id64 list vtx" where
  "area_acm v area =
     tx_bind (query v ''ListAcmAreaMemberIDsByRole'' ''list acm area members''
       (tx_read (ListAcmAreaMemberIDsByRole [area] ''ACM-USER''))) (\<lambda>users.
     tx_bind (query v ''ListAcmAreaMemberIDsByRole'' ''list acm area members''
       (tx_read (ListAcmAreaMemberIDsByRole [area] ''ACM-SPV''))) (\<lambda>supervisors.
     tx_ret (users @ supervisors)))"

definition notify_vault_rejected :: "venv \<Rightarrow> vreq \<Rightarrow> string \<Rightarrow> vplan \<Rightarrow> unit vtx" where
  "notify_vault_rejected v req reason p =
     tx_bind (area_acm v (vp_acm_area_id p)) (\<lambda>users.
     if users = [] then tx_ret ()
     else notify v (plan_message ''vendor_order.vault_rejected'' ''Vault ditolak vendor''
            (''Branch vault menolak request '' @ vr_request_number req @ '': '' @ reason @ ''. Pilih vault lain.'')
            (vp_id p))
          (no_recipients\<lparr>rc_UserIDs := users\<rparr>))"

definition afterVaultReject :: "venv \<Rightarrow> vendor_actor \<Rightarrow> vreq \<Rightarrow> party \<Rightarrow> string \<Rightarrow> unit vtx" where
  "afterVaultReject v va req p reason =
     tx_bind (query v ''ReturnVaultPlansForVaultBranch'' ''return plans of request''
       (ReturnVaultPlansForVaultBranch v (ac_UserID (xa_Actor va)) reason (vr_id req) (py_vendor_branch_id p))) (\<lambda>plans.
     tx_then (query v ''SetVendorRequestStatusOnly'' ''move request''
       (tx_write (SetVendorRequestStatusOnly ''vault_assignment'' (vr_id req))))
     (tx_then (request_log v (xa_Actor va) ''vendor_vault_reject'' (vr_id req) (Some (state_json (vr_status req)))
       [(''state'', JStr ''vault_assignment''), (''rejected_party_id'', JNum (py_id p)),
        (''plans_to_draft'', JArr (map (\<lambda>x. JNum (vp_id x)) plans)), (''rejection_reason'', JStr reason)])
     (if ve_notifier v = None then tx_ret () else tx_each (notify_vault_rejected v req reason) plans)))"

definition afterDecision :: "venv \<Rightarrow> vendor_actor \<Rightarrow> vendor_order \<Rightarrow> vreq \<Rightarrow> party \<Rightarrow> string option \<Rightarrow> unit vtx" where
  "afterDecision v va scoped req p reason =
     (case reason of
        None \<Rightarrow> afterAccept v va req
      | Some r \<Rightarrow>
          if py_role p = partyRoleVault then afterVaultReject v va req p r
          else moveRequest v va req ''vendor_rejected''
                 [(''rejected_party_id'', JNum (py_id p)), (''rejection_reason'', JStr r)]
                 (''vendor_order.replenish_rejected'', ''Request ditolak branch replenish'',
                  ''Request '' @ vr_request_number req @ '' ditolak '' @ vb_branch_name (oo_branch scoped) @ '': '' @ r)
                 (no_recipients\<lparr>rc_Roles := [''ATM-SPV'', ''BRANCH-ATM-SPV''], rc_UserIDs := [vr_created_by req]\<rparr>))"

definition lock_request :: "venv \<Rightarrow> id64 \<Rightarrow> vreq vtx" where
  "lock_request v rid = query v ''GetVendorRequestForUpdate'' ''lock vendor request''
     (tx_get (VrPg ''lock vendor request'' PgNoRows) (GetVendorRequest rid))"

text \<open>The decision itself, once request and party are locked.\<close>

definition recordDecision :: "venv \<Rightarrow> vendor_actor \<Rightarrow> vendor_order \<Rightarrow> vreq \<Rightarrow> party \<Rightarrow> string option \<Rightarrow> unit vtx" where
  "recordDecision v va scoped req p reason =
     tx_then (tx_guard (\<not> (vr_is_canceled req \<or> vr_status req \<noteq> ''sent_to_vendor'' \<or> py_status p \<noteq> ''pending''))
       ErrInvalidTransition)
     (let status = (if reason = None then ''accepted'' else ''rejected'') in
     tx_bind (pg_stmt v ''DecideVendorParty'' ''decide party''
       (DecideVendorParty v status (ac_UserID (xa_Actor va)) reason (py_id p))) (\<lambda>decided.
     tx_then (InsertVendorPartyEvent v (py_id p) status (ac_UserID (xa_Actor va)) reason (Some (py_content decided)))
     (tx_then (write_log v (audit_entry (ac_UserID (xa_Actor va)) (''vendor_'' @ status) vendorPartyEntity (py_id p)
        (Some (JObj [(''status'', JStr (py_status p))]))
        (Some (JObj ([(''status'', JStr status), (''role'', JStr (py_role p)),
           (''vendor_branch_id'', JNum (py_vendor_branch_id p))]
           @ (case reason of None \<Rightarrow> [] | Some r \<Rightarrow> [(''rejection_reason'', JStr r)]))))
        (ac_IP (xa_Actor va))))
     (afterDecision v va scoped req p reason))))"

definition decide_body :: "venv \<Rightarrow> vendor_actor \<Rightarrow> id64 \<Rightarrow> string option \<Rightarrow> unit vtx" where
  "decide_body v va pid reason =
     tx_bind (scope v va) (\<lambda>sc.
     tx_bind (getScoped v sc pid) (\<lambda>scoped.
     tx_bind (lock_request v (py_vendor_request_id (oo_party scoped))) (\<lambda>req.
     tx_bind (query v ''LockVendorParty'' ''lock party''
       (tx_get (VrPg ''lock party'' PgNoRows) (party_by_id pid))) (\<lambda>p.
     recordDecision v va scoped req p reason))))"

definition decide :: "venv \<Rightarrow> vendor_actor \<Rightarrow> id64 \<Rightarrow> string option \<Rightarrow> vdb \<Rightarrow> (vr_err + unit) \<times> vdb" where
  "decide v va pid reason = in_tx v ''commit'' (decide_body v va pid reason)"

definition VendorOrder_Accept :: "venv \<Rightarrow> vendor_actor \<Rightarrow> id64 \<Rightarrow> vdb \<Rightarrow> (vr_err + order_detail) \<times> vdb" where
  "VendorOrder_Accept v va pid s = then_read (\<lambda>_. VendorOrder_Get v va pid) (decide v va pid None s)"

definition bounded_reason :: "string \<Rightarrow> string \<Rightarrow> vr_err + string" where
  "bounded_reason field reason =
     (let r = TrimSpace reason; n = length (runes r) in
      if n < vendorRejectMinLen \<or> n > vendorRejectMaxLen
      then Inl (InvalidField field ''alasan 10-500 karakter'') else Inr r)"

definition VendorOrder_Reject ::
  "venv \<Rightarrow> vendor_actor \<Rightarrow> id64 \<Rightarrow> string \<Rightarrow> vdb \<Rightarrow> (vr_err + order_detail) \<times> vdb" where
  "VendorOrder_Reject v va pid reason s =
     (case bounded_reason ''reason'' reason of
        Inl e \<Rightarrow> (Inl e, s)
      | Inr r \<Rightarrow> then_read (\<lambda>_. VendorOrder_Get v va pid) (decide v va pid (Some r) s))"

end
