(* ===== verification/Vendor_Realization.thy ===== *)
theory Vendor_Realization
  imports Vendor_Order
begin

text \<open>
  The vendor's realization report: the checks of \<open>replenish_realization_rules.go\<close>, the queries of
  \<open>vendor_realizations.sql.go\<close> and \<open>SubmitRealization\<close> of \<open>vendor_order_realization.go\<close>. A Go map from
  denominations to amounts is an association list with one entry per denomination.
\<close>

section \<open>Rules\<close>

definition realizationEarliestDays :: int where "realizationEarliestDays = 7"

record realization_input =
  ri_TerminalID :: string
  ri_Result :: string
  ri_RealizedDate :: "day option"
  ri_Amounts :: denom_amounts

record ticket_order =
  to_TicketID :: id64
  to_ScheduledDate :: day
  to_Orders :: denom_amounts

definition no_ticket :: ticket_order where
  "no_ticket = \<lparr>to_TicketID = 0, to_ScheduledDate = 0, to_Orders = []\<rparr>"

definition sorted_denoms :: "denom_amounts \<Rightarrow> int list" where
  "sorted_denoms m = sort (remdups (map fst m))"

definition realization_err :: "string \<Rightarrow> vr_err" where
  "realization_err msg = InvalidField ''realizations'' msg"

fun amount_rows :: "ticket_order \<Rightarrow> realization_input \<Rightarrow> bool \<Rightarrow> int list \<Rightarrow> vr_err option" where
  "amount_rows t r anyFilled [] =
     (if anyFilled then None
      else Some (realization_err (''ATM '' @ ri_TerminalID r @ '' berhasil: isi minimal satu nominal'')))"
| "amount_rows t r anyFilled (denom # ds) =
     (let amount = go_get 0 (ri_Amounts r) denom in
      if \<not> go_has (to_Orders t) denom
      then Some (realization_err (''pecahan '' @ FormatInt denom @ '' bukan bagian order ATM '' @ ri_TerminalID r))
      else if amount < 0 \<or> amount mod denom \<noteq> 0
      then Some (realization_err (''nominal pecahan '' @ FormatInt denom @ '' ATM '' @ ri_TerminalID r
             @ '' harus kelipatan '' @ FormatInt denom @ '' dan tidak negatif''))
      else amount_rows t r (anyFilled \<or> amount > 0) ds)"

definition validateRealizationRow :: "ticket_order \<Rightarrow> realization_input \<Rightarrow> day \<Rightarrow> vr_err option" where
  "validateRealizationRow t r today =
     (if ri_Result r = completionFailed
      then (if ri_RealizedDate r \<noteq> None \<or> ri_Amounts r \<noteq> []
            then Some (realization_err (''ATM '' @ ri_TerminalID r @ '' gagal: tanggal dan nominal harus kosong''))
            else None)
      else case ri_RealizedDate r of
        None \<Rightarrow> Some (realization_err (''tanggal realisasi ATM '' @ ri_TerminalID r @ '' wajib diisi''))
      | Some d \<Rightarrow>
          if d > today
          then Some (realization_err (''tanggal realisasi ATM '' @ ri_TerminalID r @ '' tidak boleh setelah hari ini''))
          else if d < to_ScheduledDate t - realizationEarliestDays
          then Some (realization_err (''tanggal realisasi ATM '' @ ri_TerminalID r @ '' paling awal 7 hari sebelum jadwal''))
          else amount_rows t r False (sorted_denoms (ri_Amounts r)))"

fun first_error :: "('a \<Rightarrow> vr_err option) \<Rightarrow> 'a list \<Rightarrow> vr_err option" where
  "first_error f [] = None"
| "first_error f (x # xs) = (case f x of Some e \<Rightarrow> Some e | None \<Rightarrow> first_error f xs)"

definition ticket_for :: "(string \<times> ticket_order) list \<Rightarrow> string \<Rightarrow> ticket_order" where
  "ticket_for tickets t = (case map_of tickets t of None \<Rightarrow> no_ticket | Some x \<Rightarrow> x)"

definition validateRealization ::
  "(string \<times> ticket_order) list \<Rightarrow> realization_input list \<Rightarrow> day \<Rightarrow> vr_err option" where
  "validateRealization tickets rows today =
     (case validateCompletionResults (sortedKeys tickets) (map (\<lambda>r. (ri_TerminalID r, ri_Result r)) rows) of
        Some e \<Rightarrow> Some e
      | None \<Rightarrow> first_error (\<lambda>r. validateRealizationRow (ticket_for tickets (ri_TerminalID r)) r today) rows)"

section \<open>Queries\<close>

record ticket_order_row =
  tr_ticket_id :: id64
  tr_terminal_id :: string
  tr_replenish_date :: day
  tr_denom :: int
  tr_order_amount :: int

definition ticket_denoms :: "vitem list \<Rightarrow> string \<Rightarrow> int list" where
  "ticket_denoms items t = rev (sort (remdups (map vi_denom (filter (\<lambda>i. vi_terminal_id i = t) items))))"

definition ListRequestTicketOrders :: "id64 \<Rightarrow> vdb \<Rightarrow> ticket_order_row list" where
  "ListRequestTicketOrders rid s =
     (case GetVendorRequest rid s of
        None \<Rightarrow> []
      | Some req \<Rightarrow>
          let items = filter (\<lambda>i. vi_vendor_request_id i = rid) (rd_items s) in
          concat (map (\<lambda>t. map (\<lambda>d.
              \<lparr>tr_ticket_id = tk_id t, tr_terminal_id = tk_terminal_id t, tr_replenish_date = tk_replenish_date t,
               tr_denom = d, tr_order_amount = sum_list (map vi_amount_replenish (order_group items (tk_terminal_id t, d)))\<rparr>)
              (ticket_denoms items (tk_terminal_id t)))
            (ListActiveVendorRequestTickets (vr_request_number req) s)))"

definition UpsertVendorRealization :: "venv \<Rightarrow> id64 \<Rightarrow> id64 \<Rightarrow> day option \<Rightarrow> id64 \<Rightarrow> id64 vtx" where
  "UpsertVendorRealization v ticketID rid realized submittedBy =
     tx_bind (tx_read (\<lambda>s. find_row (\<lambda>r. rz_ticket_id r = ticketID) (rd_realizations s))) (\<lambda>old.
     case old of
       Some r \<Rightarrow>
         tx_then (tx_write (\<lambda>s. s\<lparr>rd_realizations := update_where (\<lambda>r. rz_ticket_id r = ticketID)
            (\<lambda>r. r\<lparr>rz_realized_date := realized, rz_submitted_by := submittedBy, rz_submitted_at := ve_now v\<rparr>)
            (rd_realizations s)\<rparr>)) (tx_ret (rz_id r))
     | None \<Rightarrow>
         tx_bind (fresh_id ''vendor_request_realizations'') (\<lambda>zid.
         tx_then (tx_write (\<lambda>s. s\<lparr>rd_realizations := rd_realizations s @ [\<lparr>rz_id = zid, rz_ticket_id = ticketID,
            rz_vendor_request_id = rid, rz_realized_date = realized, rz_submitted_by = submittedBy,
            rz_submitted_at = ve_now v\<rparr>]\<rparr>)) (tx_ret zid)))"

definition DeleteVendorRealizationAmounts :: "id64 \<Rightarrow> vdb \<Rightarrow> vdb" where
  "DeleteVendorRealizationAmounts zid s =
     s\<lparr>rd_real_amounts := filter (\<lambda>a. ra_realization_id a \<noteq> zid) (rd_real_amounts s)\<rparr>"

definition banknotes :: "int list" where
  "banknotes = [100000, 50000, 20000, 10000, 5000, 2000, 1000]"

definition InsertVendorRealizationAmount :: "id64 \<Rightarrow> int \<Rightarrow> int \<Rightarrow> (vdb, pg_err, unit) tx" where
  "InsertVendorRealizationAmount zid denom amount s =
     (if denom \<notin> set banknotes then Inl (PgCheck ''vendor_request_realization_amounts_denom_chk'')
      else if amount < 0 \<or> amount mod denom \<noteq> 0 then Inl (PgCheck ''vendor_request_realization_amounts_amount_chk'')
      else if list_ex (\<lambda>a. ra_realization_id a = zid \<and> ra_denom a = denom) (rd_real_amounts s)
      then Inl (PgUnique ''vendor_request_realization_amounts_pkey'')
      else Inr ((), s\<lparr>rd_real_amounts := rd_real_amounts s
             @ [\<lparr>ra_realization_id = zid, ra_denom = denom, ra_amount = amount\<rparr>]\<rparr>))"

section \<open>SubmitRealization\<close>

definition checkReportsWholeRequest :: "venv \<Rightarrow> vendor_scope \<Rightarrow> id64 \<Rightarrow> unit vtx" where
  "checkReportsWholeRequest v sc rid =
     tx_bind (query v ''ListVendorPartiesForRequest'' ''list parties of request''
       (tx_read (ListVendorPartiesForRequest rid))) (\<lambda>parties.
     tx_guard (\<not> list_ex (\<lambda>(p, b, d). live_replenish p
         \<and> (vd_id d \<noteq> sc_vendorID sc
            \<or> (case sc_branchID sc of None \<Rightarrow> False | Some i \<Rightarrow> py_vendor_branch_id p \<noteq> i))) parties)
       (realization_err ''request ini mencakup ATM di luar cakupan user Anda; laporkan dengan user vendor tanpa batas branch dari vendor pengisi''))"

definition add_order :: "ticket_order_row \<Rightarrow> (string \<times> ticket_order) list \<Rightarrow> (string \<times> ticket_order) list" where
  "add_order r tickets =
     (let t = (case map_of tickets (tr_terminal_id r) of
                 Some t \<Rightarrow> t
               | None \<Rightarrow> \<lparr>to_TicketID = tr_ticket_id r, to_ScheduledDate = tr_replenish_date r, to_Orders = []\<rparr>)
      in AList.update (tr_terminal_id r)
           (t\<lparr>to_Orders := AList.update (tr_denom r) (wrap64 (go_get 0 (to_Orders t) (tr_denom r) + tr_order_amount r))
               (to_Orders t)\<rparr>) tickets)"

definition ticket_orders :: "ticket_order_row list \<Rightarrow> (string \<times> ticket_order) list" where
  "ticket_orders rows = fold add_order rows []"

definition save_realization :: "venv \<Rightarrow> vendor_actor \<Rightarrow> vreq \<Rightarrow> realization_input \<Rightarrow> unit vtx" where
  "save_realization v va req r =
     tx_bind (save_result v req (ri_TerminalID r, ri_Result r)) (\<lambda>ticketID.
     tx_bind (query v ''UpsertVendorRealization'' ''save realization''
       (UpsertVendorRealization v ticketID (vr_id req) (ri_RealizedDate r) (ac_UserID (xa_Actor va)))) (\<lambda>zid.
     tx_then (query v ''DeleteVendorRealizationAmounts'' ''reset realization amounts''
       (tx_write (DeleteVendorRealizationAmounts zid)))
     (tx_each (\<lambda>denom. pg_stmt v ''InsertVendorRealizationAmount'' ''save realization amount''
        (InsertVendorRealizationAmount zid denom (go_get 0 (ri_Amounts r) denom)))
       (sorted_denoms (ri_Amounts r)))))"

definition realization_json :: "realization_input \<Rightarrow> json" where
  "realization_json r = JObj [(''result'', JStr (ri_Result r)),
     (''realized_date'', json_opt (\<lambda>d. JStr (date_iso d)) (ri_RealizedDate r)),
     (''amounts'', JObj (map (\<lambda>d. (FormatInt d, JNum (go_get 0 (ri_Amounts r) d))) (sorted_denoms (ri_Amounts r))))]"

definition applyRealization ::
  "venv \<Rightarrow> vendor_actor \<Rightarrow> realization_input list \<Rightarrow> vreq \<Rightarrow> string \<Rightarrow> ((string \<times> json) list \<times> unit) vtx" where
  "applyRealization v va rows req newStatus =
     tx_bind (query v ''ListRequestTicketOrders'' ''list ticket orders''
       (tx_read (ListRequestTicketOrders (vr_id req)))) (\<lambda>orders.
     tx_then (tx_guard (list_all (\<lambda>r. in_int64 (tr_order_amount r)) orders) (VrDb ''list ticket orders''))
     (tx_then (tx_check (validateRealization (ticket_orders orders) rows (ve_today v)))
     (tx_then (tx_each (save_realization v va req) rows)
     (tx_then (set_completion v newStatus (ac_UserID (xa_Actor va)) None (vr_id req))
     (tx_then (notify v (request_message ''vendor_request.realization_submitted'' ''Laporan realisasi vendor masuk''
         (''Vendor melaporkan realisasi request '' @ vr_request_number req @ ''. Mohon periksa dan setujui.'') (vr_id req))
       (no_recipients\<lparr>rc_Roles := [''ATM-SPV'', ''BRANCH-ATM-SPV'']\<rparr>))
     (tx_ret ([(''realizations'', JObj (map (\<lambda>r. (ri_TerminalID r, realization_json r)) rows))], ())))))))"

definition realization_apply ::
  "venv \<Rightarrow> vendor_actor \<Rightarrow> vendor_scope \<Rightarrow> realization_input list \<Rightarrow> vreq \<Rightarrow> string \<Rightarrow> ((string \<times> json) list \<times> unit) vtx" where
  "realization_apply v va sc rows req newStatus =
     tx_then (tx_guard (vr_vendor_sent req) ErrInvalidTransition)
     (tx_then (checkReportsWholeRequest v sc (vr_id req))
     (applyRealization v va rows req newStatus))"

text \<open>
  The scope and the party are read on the pool, in \<open>view\<close>; the transaction meets the state \<open>s\<close>, which
  other sessions may have changed since.
\<close>

definition realization_party :: "venv \<Rightarrow> vendor_actor \<Rightarrow> id64 \<Rightarrow> (vendor_scope \<times> party) vtx" where
  "realization_party v va pid =
     tx_bind (scope v va) (\<lambda>sc.
     tx_bind (getScoped v sc pid) (\<lambda>x.
     tx_then (tx_guard (py_role (oo_party x) = partyRoleReplenish \<and> py_status (oo_party x) = ''accepted'')
       ErrInvalidTransition)
     (tx_ret (sc, oo_party x))))"

definition VendorOrder_SubmitRealization ::
  "venv \<Rightarrow> vendor_actor \<Rightarrow> id64 \<Rightarrow> realization_input list \<Rightarrow> vdb \<Rightarrow> vdb \<Rightarrow> (vr_err + order_detail) \<times> vdb" where
  "VendorOrder_SubmitRealization v va pid rows view s =
     (case realization_party v va pid view of
        Inl e \<Rightarrow> (Inl e, s)
      | Inr ((sc, p), _) \<Rightarrow>
          then_read (\<lambda>_. VendorOrder_Get v va pid)
            (runCompletionTx v (xa_Actor va) (py_vendor_request_id p) ActionSubmitCompletion
               (realization_apply v va sc rows) s))"

end
