(* ===== verification/Vendor_Frames.thy ===== *)
theory Vendor_Frames
  imports Vault_Plan_Actions Vendor_Realization
begin

text \<open>
  What the steps of the vendor request service leave alone. A view \<open>f\<close> of the database that does not
  see a group of tables does not change under the statements on them; one locale per group, extended
  where a service touches several. The properties interpret the locales on the tables they are about.
\<close>

definition blind :: "(vdb \<Rightarrow> 'v) \<Rightarrow> (vdb \<Rightarrow> vdb) \<Rightarrow> bool" where
  "blind f h \<longleftrightarrow> (\<forall>s. f (h s) = f s)"

lemma blindD: "blind f h \<Longrightarrow> f (h s) = f s"
  by (simp add: blind_def)

lemma blind_write [stays_intros]: "blind f h \<Longrightarrow> stays (\<lambda>s t. f t = f s) (tx_write h)"
  by (simp add: stays_def tx_write_def blind_def)

lemma pg_stmt_stays [stays_intros]: "stays (\<lambda>s t. f t = f s) m \<Longrightarrow> stays (\<lambda>s t. f t = f s) (pg_stmt v q what m)"
  by (auto simp: pg_stmt_def stays_def tx_defs split: sum.splits if_splits)

section \<open>Statements that only read\<close>

lemma resolve_loop_stays [stays_intros]: "stays (\<lambda>s t. f t = f s) (resolve_loop v items resolved invalid)"
  by (induction items arbitrary: resolved invalid) (auto intro!: stays_intros)

lemma single_vendor_loop_stays [stays_intros]:
  "stays (\<lambda>s t. f t = f s) (single_vendor_loop v vendorID rs mismatched atms)"
  by (induction rs arbitrary: mismatched atms) (auto intro!: stays_intros simp: Let_def)

lemma reads_stay [stays_intros]:
  "stays (\<lambda>s t. f t = f s) (resolveItems v items)"
  "stays (\<lambda>s t. g t = g s) (validateItemsSingleVendor v vendorID resolved)"
  "stays (\<lambda>s t. h t = h s) (GetVendorRequestForUpdate v rid)"
  "stays (\<lambda>s t. f t = f s) (lock_request v rid)"
  "stays (\<lambda>s t. f t = f s) (lock_plan_request v rid)"
  "stays (\<lambda>s t. f t = f s) (begin_tx v)"
  unfolding resolveItems_def validateItemsSingleVendor_def GetVendorRequestForUpdate_def lock_request_def
    lock_plan_request_def begin_tx_def
  by (intro stays_intros)+

section \<open>Working tables\<close>

text \<open>
  Items, numbers, tickets, allocations, party events, reports, notifications and the audit rows of
  entities other than requests. Four identity sequences stay visible.
\<close>

locale work_frame =
  fixes f :: "vdb \<Rightarrow> 'v"
  assumes no_notif: "f (s\<lparr>rd_notif := n\<rparr>) = f s"
    and no_ids: "g ''vendor_requests'' = rd_ids s ''vendor_requests''
      \<Longrightarrow> g ''vendor_request_vault_plans'' = rd_ids s ''vendor_request_vault_plans''
      \<Longrightarrow> g ''vendor_request_vendor_parties'' = rd_ids s ''vendor_request_vendor_parties''
      \<Longrightarrow> g ''atm_visits'' = rd_ids s ''atm_visits'' \<Longrightarrow> f (s\<lparr>rd_ids := g\<rparr>) = f s"
    and no_items: "f (s\<lparr>rd_items := items\<rparr>) = f s"
    and no_tickets: "f (s\<lparr>rd_tickets := ts\<rparr>) = f s"
    and no_allocs: "f (s\<lparr>rd_allocs := as\<rparr>) = f s"
    and no_amounts: "f (s\<lparr>rd_amounts := ms\<rparr>) = f s"
    and no_vtickets: "f (s\<lparr>rd_vtickets := ks\<rparr>) = f s"
    and no_events: "f (s\<lparr>rd_events := es\<rparr>) = f s"
    and no_realizations: "f (s\<lparr>rd_realizations := zs\<rparr>) = f s"
    and no_real_amounts: "f (s\<lparr>rd_real_amounts := ras\<rparr>) = f s"
    and no_other_audit: "al_entity_type e \<noteq> ''vendor_request'' \<Longrightarrow> f (s\<lparr>rd_audit := rd_audit s @ [e]\<rparr>) = f s"
begin

lemmas unseen = no_notif no_ids no_items no_tickets no_allocs no_amounts no_vtickets no_events
  no_realizations no_real_amounts no_other_audit

lemma blind_work [stays_intros]:
  "blind f (DeleteVendorRequestItems rid)"
  "blind f (ClearVaultPlanAllocations pid)"
  "blind f (UpdateVaultAllocationSnapshot aid saldo capacity warning)"
  "blind f (DeleteVendorRealizationAmounts zid)"
  by (simp_all add: blind_def DeleteVendorRequestItems_def ClearVaultPlanAllocations_def
      UpdateVaultAllocationSnapshot_def DeleteVendorRealizationAmounts_def unseen)

lemma fresh_id_work [stays_intros]:
  "stays (\<lambda>s t. f t = f s) (fresh_id ''vendor_request_items'')"
  "stays (\<lambda>s t. f t = f s) (fresh_id ''vendor_request_realizations'')"
  by (simp_all add: stays_def fresh_id_def unseen)

lemma write_log_work [stays_intros]:
  "al_entity_type e \<noteq> ''vendor_request'' \<Longrightarrow> stays (\<lambda>s t. f t = f s) (write_log v e)"
  unfolding write_log_def by (intro stays_intros) (simp add: blind_def unseen)

lemma notify_work [stays_intros]: "stays (\<lambda>s t. f t = f s) (notify v msg to)"
  by (auto simp: stays_def notify_def unseen split: option.splits sum.splits)

lemma item_work [stays_intros]: "stays (\<lambda>s t. f t = f s) (InsertVendorRequestItem rid it refund brand lokasi)"
  unfolding InsertVendorRequestItem_def Let_def by (intro stays_intros) (simp add: blind_def unseen)

lemma ticket_work [stays_intros]:
  "stays (\<lambda>s t. f t = f s) (IssueVendorRequestTicket number terminalID dcode d)"
  "stays (\<lambda>s t. f t = f s) (SetVendorRequestTicketActive v tid active)"
  "stays (\<lambda>s t. f t = f s) (SetVendorRequestTicketResult number terminalID res)"
  by (auto simp: stays_def IssueVendorRequestTicket_def SetVendorRequestTicketActive_def
      SetVendorRequestTicketResult_def Let_def unseen split: option.splits if_splits)

lemma issue_ticket_work [stays_intros]: "stays (\<lambda>s t. f t = f s) (issue_ticket v number d it)"
  unfolding issue_ticket_def
  by (intro stays_intros) (auto simp: stays_def split: sum.splits dest: staysD [OF ticket_work(1)])

lemma applyTicketPlan_work [stays_intros]: "stays (\<lambda>s t. f t = f s) (applyTicketPlan v number d p)"
  unfolding applyTicketPlan_def by (intro stays_intros)

lemma insert_items_work [stays_intros]: "stays (\<lambda>s t. f t = f s) (insert_items v rid manual resolved)"
  unfolding insert_items_def by (intro stays_intros)

lemma save_result_work [stays_intros]: "stays (\<lambda>s t. f t = f s) (save_result v req r)"
  unfolding save_result_def by (intro stays_intros)

lemma party_event_work [stays_intros]:
  "stays (\<lambda>s t. f t = f s) (InsertVendorPartyEvent v pid event actorID reason content)"
  unfolding InsertVendorPartyEvent_def by (intro stays_intros) (simp add: blind_def unseen)

lemma notifyParties_work [stays_intros]: "stays (\<lambda>s t. f t = f s) (notifyParties v req notices)"
  unfolding notifyParties_def Let_def by (intro stays_intros)

lemma cancelVendorParties_work [stays_intros]: "stays (\<lambda>s t. f t = f s) (cancelVendorParties v actor req)"
  unfolding cancelVendorParties_def Let_def by (intro stays_intros)

lemma record_event_work [stays_intros]: "stays (\<lambda>s t. f t = f s) (record_event v actorID p event content)"
  unfolding record_event_def by (intro stays_intros)

lemma notify_area_users_work [stays_intros]: "stays (\<lambda>s t. f t = f s) (notify_area_users v area msg)"
  unfolding notify_area_users_def by (intro stays_intros)

lemma notifyRealizationDecision_work [stays_intros]:
  "stays (\<lambda>s t. f t = f s) (notifyRealizationDecision v req reason)"
  unfolding notifyRealizationDecision_def by (intro stays_intros)

lemma portal_work [stays_intros]:
  "stays (\<lambda>s t. f t = f s) (scope v va)"
  "stays (\<lambda>s t. f t = f s) (getScoped v sc pid)"
  "stays (\<lambda>s t. f t = f s) (area_acm v area)"
  "stays (\<lambda>s t. f t = f s) (checkReportsWholeRequest v sc rid)"
  unfolding scope_def getScoped_def area_acm_def checkReportsWholeRequest_def Let_def by (intro stays_intros)+

lemma notify_vault_rejected_work [stays_intros]:
  "stays (\<lambda>s t. f t = f s) (notify_vault_rejected v req reason p)"
  unfolding notify_vault_rejected_def by (intro stays_intros)

lemma realization_work [stays_intros]:
  "stays (\<lambda>s t. f t = f s) (UpsertVendorRealization v ticketID rid realized submittedBy)"
  "stays (\<lambda>s t. f t = f s) (InsertVendorRealizationAmount zid denom amount)"
  subgoal unfolding UpsertVendorRealization_def by (intro stays_intros; simp add: blind_def unseen)
  subgoal by (auto simp: stays_def InsertVendorRealizationAmount_def unseen split: if_splits)
  done

lemma save_realization_work [stays_intros]: "stays (\<lambda>s t. f t = f s) (save_realization v va req r)"
  unfolding save_realization_def by (intro stays_intros)

lemma plan_reads_work [stays_intros]:
  "stays (\<lambda>s t. f t = f s) (planFor v actor pid)"
  "stays (\<lambda>s t. f t = f s) (orderTotals v rid)"
  "stays (\<lambda>s t. f t = f s) (planAllocations v pid)"
  "stays (\<lambda>s t. f t = f s) (loadVaultMetrics v p ids)"
  "stays (\<lambda>s t. f t = f s) (checkAllocationLines v p ins)"
  unfolding planFor_def orderTotals_def planAllocations_def loadVaultMetrics_def checkAllocationLines_def
  by (intro stays_intros)+

lemma storedAllocationLines_work [stays_intros]: "stays (\<lambda>s t. f t = f s) (storedAllocationLines v pid)"
  unfolding storedAllocationLines_def by (intro stays_intros)

lemma refresh_work [stays_intros]: "stays (\<lambda>s t. f t = f s) (refreshAllocationSnapshots v p)"
  unfolding refreshAllocationSnapshots_def by (intro stays_intros)

lemma allocation_work [stays_intros]:
  "stays (\<lambda>s t. f t = f s) (InsertVaultAllocation pid rid l)"
  "stays (\<lambda>s t. f t = f s) (InsertVaultAllocationAmount aid da)"
  by (auto simp: stays_def InsertVaultAllocation_def InsertVaultAllocationAmount_def Let_def unseen
      split: option.splits if_splits prod.splits)

lemma insertAllocation_work [stays_intros]: "stays (\<lambda>s t. f t = f s) (insertAllocation v p l)"
  unfolding insertAllocation_def by (intro stays_intros)

lemma vault_ticket_work [stays_intros]:
  "stays (\<lambda>s t. f t = f s) (SetVaultTicketActive v active tid)"
  "stays (\<lambda>s t. f t = f s) (IssueVaultTicket rid d w)"
  by (auto simp: stays_def SetVaultTicketActive_def IssueVaultTicket_def Let_def unseen split: option.splits)

lemma issue_vault_ticket_work [stays_intros]: "stays (\<lambda>s t. f t = f s) (issue_vault_ticket v rid d w)"
  unfolding issue_vault_ticket_def
  by (intro stays_intros) (auto simp: stays_def split: sum.splits dest: staysD [OF vault_ticket_work(2)])

lemma syncVaultTickets_work [stays_intros]: "stays (\<lambda>s t. f t = f s) (syncVaultTickets v req ls)"
  unfolding syncVaultTickets_def applyVaultTickets_def by (intro stays_intros)

lemma plan_log_work [stays_intros]: "stays (\<lambda>s t. f t = f s) (plan_log v actor p action st_from st_to extra)"
  unfolding plan_log_def by (intro stays_intros) (simp add: audit_entry_def vaultPlanEntity_def)

lemma plan_notify_work [stays_intros]: "stays (\<lambda>s t. f t = f s) (plan_notify v areas role extra msg)"
  unfolding plan_notify_def by (intro stays_intros)

lemma plan_open_work [stays_intros]: "stays (\<lambda>s t. f t = f s) (plan_open p req status)"
  unfolding plan_open_def by (intro stays_intros)

lemma plan_body_work [stays_intros]:
  "(\<And>p req. stays (\<lambda>s t. f t = f s) (fn p req)) \<Longrightarrow> stays (\<lambda>s t. f t = f s) (plan_body v actor pid fn)"
  unfolding plan_body_def by (intro stays_intros)

lemma notifyReviewed_work [stays_intros]: "stays (\<lambda>s t. f t = f s) (notifyReviewed v req plans reason)"
  unfolding notifyReviewed_def Let_def by (intro stays_intros)

end

section \<open>Plans, parties, requests and visits\<close>

locale plan_frame = work_frame f for f :: "vdb \<Rightarrow> 'v" +
  assumes no_plans: "f (s\<lparr>rd_plans := ps\<rparr>) = f s"
    and no_plan_ids: "f (s\<lparr>rd_ids := (rd_ids s)(''vendor_request_vault_plans'' := n)\<rparr>) = f s"
begin

lemma blind_plans [stays_intros]:
  "blind f (CancelVaultPlansForRequest rid)" "blind f (ResetVaultPlansToDraft rid)"
  "blind f (SetVaultPlanStatus v status actorID reason pid)" "blind f (SetVaultPlanBufferReason buffer pid)"
  by (simp_all add: blind_def CancelVaultPlansForRequest_def ResetVaultPlansToDraft_def SetVaultPlanStatus_def
      SetVaultPlanBufferReason_def update_plans_def no_plans)

lemma plan_statements [stays_intros]:
  "stays (\<lambda>s t. f t = f s) (ReturnVaultPlansForVaultBranch v actorID reason rid branchID)"
  "stays (\<lambda>s t. f t = f s) (fresh_id ''vendor_request_vault_plans'')"
  "stays (\<lambda>s t. f t = f s) (set_plan_status v what status actor why pid)"
  subgoal by (simp add: stays_def ReturnVaultPlansForVaultBranch_def update_plans_def no_plans)
  subgoal by (simp add: stays_def fresh_id_def no_plan_ids)
  subgoal unfolding set_plan_status_def by (intro stays_intros)
  done

lemma insert_plans_stay [stays_intros]: "stays (\<lambda>s t. f t = f s) (insert_plans ps)"
proof (induction ps rule: insert_plans.induct)
  case (2 rid area rest)
  have "blind f (\<lambda>s. s\<lparr>rd_plans := rd_plans s @ [draft_plan pid rid area]\<rparr>)" for pid
    by (simp add: blind_def no_plans)
  with 2 show ?case by (auto intro!: stays_intros)
qed (auto intro: stays_intros)

lemma createVaultPlans_stay [stays_intros]: "stays (\<lambda>s t. f t = f s) (createVaultPlans v actor requestID)"
  unfolding createVaultPlans_def CreateMissingVaultPlansByRegion_def
  by (intro stays_intros) (simp add: audit_entry_def vaultPlanEntity_def)

lemma reset_plans_stay [stays_intros]: "stays (\<lambda>s t. f t = f s) (resetVaultPlansForReapproval v actor req)"
  unfolding resetVaultPlansForReapproval_def
  by (intro stays_intros) (simp add: audit_entry_def vaultPlanEntity_def)

lemma plan_bodies [stays_intros]:
  "stays (\<lambda>s t. f t = f s) (save_allocations_fn v actor ins bufferReason p req)"
  "stays (\<lambda>s t. f t = f s) (submit_plan_fn v actor p req)"
  "stays (\<lambda>s t. f t = f s) (reject_plan_fn v actor r p req)"
  unfolding save_allocations_fn_def submit_plan_fn_def reject_plan_fn_def Let_def by (intro stays_intros)+

end

locale party_frame = work_frame f for f :: "vdb \<Rightarrow> 'v" +
  assumes no_parties: "f (s\<lparr>rd_parties := ps\<rparr>) = f s"
    and no_party_ids: "f (s\<lparr>rd_ids := (rd_ids s)(''vendor_request_vendor_parties'' := n)\<rparr>) = f s"
begin

lemma update_party_stays [stays_intros]: "stays (\<lambda>s t. f t = f s) (update_party sel g)"
  by (auto simp: stays_def update_party_def no_parties split: option.splits)

lemma party_statements [stays_intros]:
  "stays (\<lambda>s t. f t = f s) (InsertVendorParty v rid k c)"
  "stays (\<lambda>s t. f t = f s) (ResendVendorParty v c pid)"
  "stays (\<lambda>s t. f t = f s) (WithdrawVendorParty pid)"
  "stays (\<lambda>s t. f t = f s) (DecideVendorParty v status decidedBy reason pid)"
  subgoal
  proof (rule staysI)
    fix s a t assume "InsertVendorParty v rid k c s = Inr (a, t)"
    then show "f t = f s"
      using no_party_ids [of "s\<lparr>rd_parties := rd_parties s @ [a]\<rparr>"]
      by (auto simp: InsertVendorParty_def Let_def no_parties split: if_splits)
  qed
  unfolding ResendVendorParty_def WithdrawVendorParty_def DecideVendorParty_def by (intro stays_intros)+

lemma syncVendorParties_stay [stays_intros]: "stays (\<lambda>s t. f t = f s) (syncVendorParties v actorID req)"
  unfolding syncVendorParties_def refreshParty_def insert_party_def Let_def by (intro stays_intros)

end

locale request_frame = work_frame f for f :: "vdb \<Rightarrow> 'v" +
  assumes no_requests: "f (s\<lparr>rd_requests := rs\<rparr>) = f s"
    and no_seq: "f (s\<lparr>rd_seq := qs\<rparr>) = f s"
    and no_audit: "f (s\<lparr>rd_audit := as\<rparr>) = f s"
    and no_request_ids: "f (s\<lparr>rd_ids := (rd_ids s)(''vendor_requests'' := n)\<rparr>) = f s"
begin

lemma blind_requests [stays_intros]:
  "blind f (UpdateVendorRequestStatus v status actorID reason rid)"
  "blind f (SoftCancelVendorRequest why rid)"
  "blind f (UpdateVendorRequestCompletion v status actorID' reason rid)"
  "blind f (SetVendorRequestVaultReview v status actorID' reason rid)"
  "blind f (SetVendorRequestStatusOnly status rid)"
  by (simp_all add: blind_def UpdateVendorRequestStatus_def SoftCancelVendorRequest_def
      UpdateVendorRequestCompletion_def SetVendorRequestVaultReview_def SetVendorRequestStatusOnly_def
      update_request_def no_requests)

lemma request_log_stays [stays_intros]: "stays (\<lambda>s t. f t = f s) (request_log v actor action rid b a)"
  unfolding request_log_def write_log_def by (intro stays_intros) (simp add: blind_def no_audit)

lemma set_completion_stays [stays_intros]: "stays (\<lambda>s t. f t = f s) (set_completion v status actorID reason rid)"
  unfolding set_completion_def by (intro stays_intros)

lemma moveRequest_stays [stays_intros]: "stays (\<lambda>s t. f t = f s) (moveRequest v va req status extra msg to)"
  unfolding moveRequest_def by (intro stays_intros)

lemma afterAccept_stays [stays_intros]: "stays (\<lambda>s t. f t = f s) (afterAccept v va req)"
  unfolding afterAccept_def by (intro stays_intros)

lemma retry_number_stays [stays_intros]: "stays (\<lambda>s t. f t = f s) (retry_number n v inp prefix regionCode actor)"
proof (rule staysI)
  have seq: "NextRequestNumberSeq w r d s = Inr (q, s1) \<Longrightarrow> f s1 = f s" for w r d s q s1
    by (auto simp: NextRequestNumberSeq_def Let_def no_seq split: option.splits if_splits)
  have new: "CreateVendorRequest mk s = Inr (r, s1) \<Longrightarrow> f s1 = f s" for mk s r s1
    using no_request_ids [of "s\<lparr>rd_requests := rd_requests s @ [mk (rd_ids s ''vendor_requests'')]\<rparr>"]
    by (auto simp: CreateVendorRequest_def Let_def no_requests split: if_splits)
  have att: "attemptCreateWithNumber v inp prefix regionCode actor s = Inr (r, t) \<Longrightarrow> f t = f s" for s r t
    by (auto simp: attemptCreateWithNumber_def split: if_splits sum.splits prod.splits dest!: seq new)
  fix s a t
  show "retry_number n v inp prefix regionCode actor s = Inr (a, t) \<Longrightarrow> f t = f s"
    by (induction n) (auto split: sum.splits attempt_err.splits pg_err.splits dest: att)
qed

lemma create_bodies [stays_intros]:
  "stays (\<lambda>s t. f t = f s) (createWithRetryingNumber v inp regionCode actor)"
  "stays (\<lambda>s t. f t = f s) (VendorRequest_Create_body v actor inp)"
  "stays (\<lambda>s t. f t = f s) (VendorRequest_UpdateItems_body v actor rid items)"
  unfolding createWithRetryingNumber_def resolveVendorPrefix_def VendorRequest_Create_body_def create_in_region_def
    VendorRequest_UpdateItems_body_def by (intro stays_intros)+

lemma completion_body_stays [stays_intros]:
  "(\<And>req newStatus. stays (\<lambda>s t. f t = f s) (apply_fn req newStatus))
    \<Longrightarrow> stays (\<lambda>s t. f t = f s) (completion_body v actor rid a apply_fn)"
  unfolding completion_body_def Let_def by (intro stays_intros)

lemma completion_applies [stays_intros]:
  "stays (\<lambda>s t. f t = f s) (submit_completion_apply v actor rid results req newStatus)"
  "stays (\<lambda>s t. f t = f s) (reject_completion_apply v actor rid trimmed req newStatus)"
  "stays (\<lambda>s t. f t = f s) (realization_apply v va sc rows req newStatus)"
  unfolding submit_completion_apply_def reject_completion_apply_def realization_apply_def applyRealization_def
  by (intro stays_intros)+

end

locale visit_frame = work_frame f for f :: "vdb \<Rightarrow> 'v" +
  assumes no_quotas: "f (s\<lparr>rd_quotas := qs\<rparr>) = f s"
    and no_visits: "f (s\<lparr>rd_visits := xs\<rparr>) = f s"
    and no_ticks: "f (s\<lparr>rd_ticks := k\<rparr>) = f s"
    and no_visit_ids: "f (s\<lparr>rd_ids := (rd_ids s)(''atm_visits'' := n)\<rparr>) = f s"
begin

lemma visit_statements [stays_intros]:
  "stays (\<lambda>s t. f t = f s) (clock_timestamp v)"
  "stays (\<lambda>s t. f t = f s) (fresh_id ''atm_visits'')"
  "stays (\<lambda>s t. f t = f s) (AdjustAtmVisitQuota delta atm)"
  "blind f (MarkAtmVisitOverQuota vid)"
  "blind f (CancelAtmVisit v by_user reason vid)"
  by (auto simp: stays_def blind_def clock_timestamp_def fresh_id_def AdjustAtmVisitQuota_def MarkAtmVisitOverQuota_def
      CancelAtmVisit_def update_visit_def update_quota_def no_quotas no_visits no_ticks no_visit_ids split: option.splits)

lemma visit_writes [stays_intros]:
  "stays (\<lambda>s t. f t = f s) (EnsureAtmVisitQuota v atm label n)"
  "stays (\<lambda>s t. f t = f s) (ResetAtmVisitQuota v atm label n by_user)"
  "stays (\<lambda>s t. f t = f s) (InsertAtmVisit v atm rid known)"
  unfolding EnsureAtmVisitQuota_def ResetAtmVisitQuota_def InsertAtmVisit_def Let_def
  by (intro stays_intros; simp add: blind_def update_quota_def no_quotas no_visits)+

lemma recordVisit_stays [stays_intros]: "stays (\<lambda>s t. f t = f s) (recordVisit v rid terminalID asOf)"
  unfolding recordVisit_def count_visit_def Let_def by (intro stays_intros)

lemma resetOne_stays [stays_intros]: "stays (\<lambda>s t. f t = f s) (resetOne v actor atm terminalID label n)"
  unfolding resetOne_def by (intro stays_intros) (simp add: audit_entry_def)

lemma reset_loop_stays [stays_intros]: "stays (\<lambda>s t. f t = f s) (reset_loop v actor res atms)"
  by (induction atms arbitrary: res) (auto intro!: stays_intros split: option.splits prod.splits)

lemma quota_bodies [stays_intros]:
  "stays (\<lambda>s t. f t = f s) (ResetATM_body v actor terminalID)"
  "stays (\<lambda>s t. f t = f s) (ResetVendor_body v actor vendorID)"
  "stays (\<lambda>s t. f t = f s) (CancelVisit_body v actor visitID trimmed)"
  unfolding ResetATM_body_def ResetVendor_body_def CancelVisit_body_def
  by (intro stays_intros; simp add: audit_entry_def)+

end

section \<open>Services that touch several groups\<close>

locale request_visit_frame = request_frame f + visit_frame f for f :: "vdb \<Rightarrow> 'v"
begin

lemma approve_completion_apply_stays [stays_intros]:
  "stays (\<lambda>s t. f t = f s) (approve_completion_apply v actor rid req newStatus)"
  unfolding approve_completion_apply_def Let_def by (intro stays_intros)

end

locale request_plan_frame = request_frame f + plan_frame f for f :: "vdb \<Rightarrow> 'v"
begin

lemma request_plan_bodies [stays_intros]:
  "stays (\<lambda>s t. f t = f s) (transition_body v actor rid opts)"
  "stays (\<lambda>s t. f t = f s) (VendorRequest_Cancel_body v actor rid trimmed)"
  "stays (\<lambda>s t. f t = f s) (approve_plan_fn v actor p req)"
  "stays (\<lambda>s t. f t = f s) (afterVaultReject v va req x reason)"
  "stays (\<lambda>s t. f t = f s) (afterDecision v va scoped req x why)"
  unfolding transition_body_def VendorRequest_Cancel_body_def approve_plan_fn_def afterVaultReject_def afterDecision_def
  by (intro stays_intros)+

end

locale request_plan_party_frame = request_plan_frame f + party_frame f for f :: "vdb \<Rightarrow> 'v"
begin

lemma vendor_bodies [stays_intros]:
  "stays (\<lambda>s t. f t = f s) (decide_body v va pid reason)"
  "stays (\<lambda>s t. f t = f s) (review_body v actor rid why)"
  unfolding decide_body_def recordDecision_def review_body_def Let_def
  by (intro stays_intros; simp add: audit_entry_def vendorPartyEntity_def)+

end

end
