(* ===== verification/Vendor_Moves.thy ===== *)
theory Vendor_Moves
  imports Vendor_Frames
begin

text \<open>
  What one operation does to the requests: nothing, one new draft, or one move of one request together
  with one entry in its audit trail. \<open>request_move\<close> lists the moves, one rule per kind, with who may
  make them; \<open>vendor_move\<close> are the two that vendors make.
\<close>

section \<open>The requests and their trail\<close>

definition vr_trail :: "vdb \<Rightarrow> audit_row list" where
  "vr_trail s = filter (\<lambda>a. al_entity_type a = ''vendor_request'') (rd_audit s)"

type_synonym vr_core = "vreq list \<times> audit_row list \<times> id64"

definition core :: "vdb \<Rightarrow> vr_core" where
  "core s = (rd_requests s, vr_trail s, rd_ids s ''vendor_requests'')"

interpretation core: plan_frame core
  by unfold_locales (simp_all add: core_def vr_trail_def)

interpretation core: party_frame core
  by unfold_locales (simp_all add: core_def vr_trail_def)

interpretation core: visit_frame core
  by unfold_locales (simp_all add: core_def vr_trail_def)

lemma wp_core: "stays (\<lambda>s t. core t = core s) m \<Longrightarrow> (\<And>a t. core t = core s \<Longrightarrow> Q a t) \<Longrightarrow> wp m s Q"
  by (rule wp_stays)

lemma core_update: "core (update_request rid f s) = (update_where (\<lambda>r. vr_id r = rid) f (rd_requests s), vr_trail s,
    rd_ids s ''vendor_requests'')"
  by (simp add: core_def update_request_def vr_trail_def)

section \<open>Moves\<close>

inductive request_move :: "vr_actor \<Rightarrow> string \<Rightarrow> vreq \<Rightarrow> vreq \<Rightarrow> bool" where
  stepped: "\<lbrakk>nextState (vr_status r) a = Some st; checkActor actor r a = None;
      a \<in> {ActionSubmit, ActionApprove, ActionReject, ActionRevise, ActionVendorReturn}\<rbrakk>
    \<Longrightarrow> request_move actor (action_name a) r (status_row v st (Some (ac_UserID actor)) reason r)"
| edited: "\<lbrakk>vr_status r = ''draft''; ac_UserID actor = vr_created_by r\<rbrakk> \<Longrightarrow> request_move actor ''update_items'' r r"
| cancelled: "\<lbrakk>\<not> vr_is_canceled r; nextState (vr_status r) ActionCancel = Some st; checkActor actor r ActionCancel = None\<rbrakk>
    \<Longrightarrow> request_move actor ''cancel'' r (cancelled_row why r)"
| reported: "\<lbrakk>\<not> vr_is_canceled r; nextState (vr_status r) a = Some st; checkCompletionActor actor r a = None;
      a \<in> {ActionSubmitCompletion, ActionApproveCompletion, ActionRejectCompletion}\<rbrakk>
    \<Longrightarrow> request_move actor (action_name a) r
          (completion_row v (completion_status r a st) (ac_UserID actor) reason r)"
| allocated: "vr_status r = ''vault_assignment''
    \<Longrightarrow> request_move actor ''vault_ready'' r (r\<lparr>vr_status := ''vault_review''\<rparr>)"
| reviewed: "\<lbrakk>\<not> vr_is_canceled r; nextState (vr_status r) a = Some st; isChecker (ac_Role actor);
      a = ActionVaultApprove \<or> a = ActionVaultReject\<rbrakk>
    \<Longrightarrow> request_move actor (action_name a) r (review_row v st (ac_UserID actor) reason r)"

inductive vendor_move :: "vr_actor \<Rightarrow> string \<Rightarrow> vreq \<Rightarrow> vreq \<Rightarrow> bool" where
  vendor_decided: "\<lbrakk>\<not> vr_is_canceled r; vr_status r = ''sent_to_vendor''; st = ''vendor_accepted'' \<or> st = ''vendor_rejected''\<rbrakk>
    \<Longrightarrow> vendor_move actor (''vendor_'' @ st) r (status_row v st None None r)"
| vault_refused: "\<lbrakk>\<not> vr_is_canceled r; vr_status r = ''sent_to_vendor''\<rbrakk>
    \<Longrightarrow> vendor_move actor ''vendor_vault_reject'' r (r\<lparr>vr_status := ''vault_assignment''\<rparr>)"

definition trail_entry :: "vr_actor \<Rightarrow> string \<Rightarrow> vreq \<Rightarrow> vreq \<Rightarrow> audit_row \<Rightarrow> bool" where
  "trail_entry actor act r r' e \<longleftrightarrow> al_actor_id e = ac_UserID actor \<and> al_action e = act \<and> al_entity_id e = vr_id r
     \<and> extractState (al_before e) = Some (vr_status r) \<and> extractState (al_after e) = Some (vr_status r')"

definition core_move ::
  "(vr_actor \<Rightarrow> string \<Rightarrow> vreq \<Rightarrow> vreq \<Rightarrow> bool) \<Rightarrow> vr_actor \<Rightarrow> vr_core \<Rightarrow> vr_core \<Rightarrow> bool" where
  "core_move M actor c c' \<longleftrightarrow>
     (\<exists>act r g e. find_row (\<lambda>x. vr_id x = vr_id r) (fst c) = Some r \<and> M actor act r (g r)
        \<and> trail_entry actor act r (g r) e
        \<and> c' = (update_where (\<lambda>x. vr_id x = vr_id r) g (fst c), fst (snd c) @ [e], snd (snd c)))"

lemma core_move_mono:
  "core_move M actor c c' \<Longrightarrow> (\<And>act r r'. M actor act r r' \<Longrightarrow> N actor act r r') \<Longrightarrow> core_move N actor c c'"
  unfolding core_move_def by blast

text \<open>The moves that neither a plan nor the review of the plans is part of.\<close>

definition plain_move :: "vr_actor \<Rightarrow> string \<Rightarrow> vreq \<Rightarrow> vreq \<Rightarrow> bool" where
  "plain_move actor act r r' \<longleftrightarrow> request_move actor act r r' \<and> act \<notin> {''vault_ready'', ''vault_approve'', ''vault_reject''}"

lemma plain_moveD: "core_move plain_move actor c c' \<Longrightarrow> core_move request_move actor c c'"
  by (erule core_move_mono) (simp add: plain_move_def)

lemma plain_moves:
  "\<lbrakk>nextState (vr_status r) a = Some st; checkActor actor r a = None;
     a \<in> {ActionSubmit, ActionApprove, ActionReject, ActionRevise, ActionVendorReturn}\<rbrakk>
    \<Longrightarrow> plain_move actor (action_name a) r (status_row v st (Some (ac_UserID actor)) reason r)"
  "\<lbrakk>vr_status r = ''draft''; ac_UserID actor = vr_created_by r\<rbrakk> \<Longrightarrow> plain_move actor ''update_items'' r r"
  "\<lbrakk>\<not> vr_is_canceled r; nextState (vr_status r) ActionCancel = Some st; checkActor actor r ActionCancel = None\<rbrakk>
    \<Longrightarrow> plain_move actor ''cancel'' r (cancelled_row why r)"
  "\<lbrakk>\<not> vr_is_canceled r; nextState (vr_status r) b = Some st; checkCompletionActor actor r b = None;
      b \<in> {ActionSubmitCompletion, ActionApproveCompletion, ActionRejectCompletion}\<rbrakk>
    \<Longrightarrow> plain_move actor (action_name b) r
          (completion_row v (completion_status r b st) (ac_UserID actor) reason r)"
  by (auto simp: plain_move_def intro: request_move.intros)

text \<open>
  The pattern of every move: work on other tables, the update of the row, more work, the entry, more
  work.
\<close>

lemma request_moved:
  assumes "core t = core (w\<lparr>rd_audit := rd_audit w
      @ [audit_entry (ac_UserID actor) act ''vendor_request'' rid b (Some (JObj after)) (ac_IP actor)]\<rparr>)"
    and "core w = core (update_request rid g u)" and "core u = core s"
    and "GetVendorRequest rid s = Some req" and "M actor act req (g req)"
    and "extractState b = Some (vr_status req)" and "extractState (Some (JObj after)) = Some (vr_status (g req))"
  shows "core_move M actor (core s) (core t)"
proof -
  let ?e = "audit_entry (ac_UserID actor) act ''vendor_request'' rid b (Some (JObj after)) (ac_IP actor)"
  have req: "find_row (\<lambda>x. vr_id x = vr_id req) (rd_requests s) = Some req" and id: "vr_id req = rid"
    using assms(4) find_row_Some [OF assms(4) [unfolded GetVendorRequest_def]] by (auto simp: GetVendorRequest_def)
  have "core t = (rd_requests w, vr_trail w @ [?e], rd_ids w ''vendor_requests'')"
    unfolding assms(1) by (simp add: core_def vr_trail_def audit_entry_def)
  also have "\<dots> = (update_where (\<lambda>x. vr_id x = vr_id req) g (rd_requests s), vr_trail s @ [?e], rd_ids s ''vendor_requests'')"
    using assms(2,3) id by (simp add: core_def update_request_def vr_trail_def)
  finally have t: "core t = \<dots>" .
  show ?thesis unfolding core_move_def t
    by (rule exI [of _ act], rule exI [of _ req], rule exI [of _ g], rule exI [of _ ?e])
      (use req assms(5-7) id in \<open>simp add: core_def trail_entry_def audit_entry_def\<close>)
qed

lemma extractState_head [simp]: "extractState (Some (JObj ((''state'', JStr st) # m))) = Some st"
  by (simp add: extractState_def)

lemma extractState_json [simp]: "extractState (Some (state_json st)) = Some st"
  by (simp add: extractState_def state_json_def)

lemma status_rows [simp]:
  "vr_status (status_row v st a reason r) = st" "vr_status (cancelled_row why r) = ''cancelled''"
  "vr_status (completion_row v st u reason r) = st" "vr_status (review_row v st u reason r) = st"
  by (simp_all add: status_row_def cancelled_row_def completion_row_def review_row_def)

lemma transition_plain:
  assumes "to_action opts \<in> {ActionSubmit, ActionApprove, ActionReject, ActionRevise, ActionVendorReturn}"
    and "to_auditAction opts = action_name (to_action opts)"
  shows "wp (transition_body v actor rid opts) s (\<lambda>_ t. core_move plain_move actor (core s) (core t))"
proof -
  have *: "core_move plain_move actor (core s) (core t)"
    if "core t = core ((update_request rid (status_row v st (Some (ac_UserID actor)) reason) s)
         \<lparr>rd_audit := rd_audit (update_request rid (status_row v st (Some (ac_UserID actor)) reason) s)
      @ [audit_entry (ac_UserID actor) (to_auditAction opts) ''vendor_request'' rid (Some (state_json (vr_status req)))
          (Some (JObj ((''state'', JStr st) # more))) (ac_IP actor)]\<rparr>)"
      "GetVendorRequest rid s = Some req" "nextState (vr_status req) (to_action opts) = Some st"
      "checkActor actor req (to_action opts) = None" for req st reason more t
    by (rule request_moved [OF that(1) refl refl that(2)])
      (use that assms in \<open>auto intro: plain_moves(1)\<close>)
  show ?thesis
    by (auto simp: transition_body_def GetVendorRequestForUpdate_def request_log_def write_log_def wp_simps
        UpdateVendorRequestStatus_def intro!: wp_core stays_intros intro: *)
qed

lemma transition_moves:
  assumes "to_action opts \<in> {ActionSubmit, ActionApprove, ActionReject, ActionRevise, ActionVendorReturn}"
    and "to_auditAction opts = action_name (to_action opts)"
  shows "wp (transition_body v actor rid opts) s (\<lambda>_ t. core_move request_move actor (core s) (core t))"
  by (rule wp_mono [OF transition_plain [OF assms]]) (rule plain_moveD)

lemma core_unseen [simp]:
  "core (CancelVaultPlansForRequest rid s) = core s" "core (ResetVaultPlansToDraft rid s) = core s"
  "core (SetVaultPlanStatus v status actorID reason pid s) = core s"
  by (simp_all add: blindD [OF core.blind_plans(1)] blindD [OF core.blind_plans(2)] blindD [OF core.blind_plans(3)])

lemmas move_simps = GetVendorRequestForUpdate_def request_log_def write_log_def wp_simps
  UpdateVendorRequestStatus_def SoftCancelVendorRequest_def UpdateVendorRequestCompletion_def
  SetVendorRequestVaultReview_def SetVendorRequestStatusOnly_def

lemma Cancel_plain:
  "wp (VendorRequest_Cancel_body v actor rid trimmed) s (\<lambda>_ t. core_move plain_move actor (core s) (core t))"
  by (auto simp: VendorRequest_Cancel_body_def move_simps intro!: wp_core stays_intros
      intro: request_moved plain_moves(3) simp: extractState_def)

lemma Cancel_moves:
  "wp (VendorRequest_Cancel_body v actor rid trimmed) s (\<lambda>_ t. core_move request_move actor (core s) (core t))"
  by (rule wp_mono [OF Cancel_plain]) (rule plain_moveD)

lemma approve_plan_moves:
  assumes "GetVendorRequest (vr_id req) s = Some req"
  shows "wp (approve_plan_fn v actor p req) s (\<lambda>_ t. core_move request_move actor (core s) (core t))"
  using assms
  by (auto simp: approve_plan_fn_def plan_open_def move_simps set_plan_status_def nextState_def transitions_def intro!: wp_core stays_intros
      intro: request_moved request_move.allocated)

lemma update_nothing: "core (update_request rid (\<lambda>r. r) s) = core s"
  by (simp add: core_def update_request_def vr_trail_def update_where_def)

lemma UpdateItems_plain:
  "wp (VendorRequest_UpdateItems_body v actor rid items) s (\<lambda>_ t. core_move plain_move actor (core s) (core t))"
  by (auto simp: VendorRequest_UpdateItems_body_def move_simps intro!: wp_core stays_intros
      intro: request_moved [where g = "\<lambda>r. r"] plain_moves(2) simp: update_nothing blindD [OF core.blind_work(1)]
      split: option.splits)

lemma UpdateItems_moves:
  "wp (VendorRequest_UpdateItems_body v actor rid items) s (\<lambda>_ t. core_move request_move actor (core s) (core t))"
  by (rule wp_mono [OF UpdateItems_plain]) (rule plain_moveD)

section \<open>Reports\<close>

text \<open>What the body of a completion step does with the request.\<close>

definition completed_core :: "venv \<Rightarrow> vr_actor \<Rightarrow> id64 \<Rightarrow> string \<Rightarrow> vdb \<Rightarrow> vr_core \<Rightarrow> bool" where
  "completed_core v actor rid st s c \<longleftrightarrow>
     (\<exists>reason. c = core (update_request rid (completion_row v st (ac_UserID actor) reason) s))"

definition reports_on :: "venv \<Rightarrow> vr_actor \<Rightarrow> id64 \<Rightarrow> vdb \<Rightarrow> (vreq \<Rightarrow> string \<Rightarrow> ((string \<times> json) list \<times> 'a) vtx) \<Rightarrow> bool" where
  "reports_on v actor rid s apply_fn \<longleftrightarrow>
     (\<forall>req st. GetVendorRequest rid s = Some req \<longrightarrow> wp (apply_fn req st) s (\<lambda>x t.
        map_of (fst x) ''state'' = None \<and> completed_core v actor rid st s (core t)))"

lemma completed_coreI:
  "core u = core s \<Longrightarrow> completed_core v actor rid st s (core (update_request rid (completion_row v st (ac_UserID actor) reason) u))"
  by (auto simp: completed_core_def core_def update_request_def vr_trail_def)

lemma report_logged:
  assumes "GetVendorRequest rid s = Some req" "\<not> vr_is_canceled req" "nextState (vr_status req) a = Some nx"
    "checkCompletionActor actor req a = None" "st = completion_status req a nx"
    and "a \<in> {ActionSubmitCompletion, ActionApproveCompletion, ActionRejectCompletion}"
    and "map_of after ''state'' = None" and "completed_core v actor rid st s (core t)"
  shows "core_move plain_move actor (core s) (core (t\<lparr>rd_audit := rd_audit t @ [audit_entry (ac_UserID actor) (action_name a)
          ''vendor_request'' rid (Some (state_json (vr_status req))) (Some (JObj (after @ [(''state'', JStr st)]))) (ac_IP actor)]\<rparr>))"
proof -
  obtain reason where t: "core t = core (update_request rid (completion_row v st (ac_UserID actor) reason) s)"
    using assms(8) by (auto simp: completed_core_def)
  have "plain_move actor (action_name a) req (completion_row v st (ac_UserID actor) reason req)"
    unfolding assms(5) by (rule plain_moves(4) [OF assms(2,3,4,6)])
  moreover have "extractState (Some (JObj (after @ [(''state'', JStr st)]))) = Some st"
    using assms(7) by (simp add: extractState_def map_add_def)
  ultimately show ?thesis by - (rule request_moved [OF refl t refl assms(1)], simp_all)
qed

lemma completion_plain:
  assumes "reports_on v actor rid s apply_fn"
    and "a \<in> {ActionSubmitCompletion, ActionApproveCompletion, ActionRejectCompletion}"
  shows "wp (completion_body v actor rid a apply_fn) s (\<lambda>_ t. core_move plain_move actor (core s) (core t))"
proof -
  have *: "wp (apply_fn req st) s (\<lambda>x t. wp (case x of (after, res) \<Rightarrow>
      tx_then (request_log v actor (action_name a) rid (Some (state_json (vr_status req))) (after @ [(''state'', JStr st)]))
        (tx_ret res)) t (\<lambda>_ t. core_move plain_move actor (core s) (core t)))"
    if "GetVendorRequest rid s = Some req" "\<not> vr_is_canceled req" "nextState (vr_status req) a = Some nx"
      "checkCompletionActor actor req a = None" "st = completion_status req a nx" for req nx st
    by (rule wp_mono [OF assms(1) [unfolded reports_on_def, rule_format, OF that(1)]])
      (auto simp: request_log_def write_log_def wp_simps intro!: report_logged [OF that assms(2)])
  show ?thesis
    by (auto simp: completion_body_def GetVendorRequestForUpdate_def wp_simps Let_def intro: *)
qed

lemma completion_moves:
  assumes "reports_on v actor rid s apply_fn"
    and "a \<in> {ActionSubmitCompletion, ActionApproveCompletion, ActionRejectCompletion}"
  shows "wp (completion_body v actor rid a apply_fn) s (\<lambda>_ t. core_move request_move actor (core s) (core t))"
  by (rule wp_mono [OF completion_plain [OF assms]]) (rule plain_moveD)

lemmas report_simps = reports_on_def wp_simps set_completion_def UpdateVendorRequestCompletion_def

lemma submit_completion_reports: "reports_on v actor rid s (submit_completion_apply v actor rid results)"
  by (auto simp: submit_completion_apply_def report_simps intro!: wp_core stays_intros intro: completed_coreI)

lemma reject_completion_reports: "reports_on v actor rid s (reject_completion_apply v actor rid trimmed)"
  by (auto simp: reject_completion_apply_def report_simps intro!: wp_core stays_intros intro: completed_coreI)

lemma approve_completion_reports: "reports_on v actor rid s (approve_completion_apply v actor rid)"
  by (auto simp: approve_completion_apply_def report_simps Let_def intro!: wp_core stays_intros intro: completed_coreI)

lemma GetVendorRequest_id: "GetVendorRequest rid s = Some req \<Longrightarrow> vr_id req = rid"
  by (auto simp: GetVendorRequest_def dest: find_row_Some)

lemma realization_reports:
  assumes "actor = xa_Actor va"
  shows "reports_on v actor rid s (realization_apply v va sc rows)"
  unfolding reports_on_def
proof (intro allI impI)
  fix req st assume "GetVendorRequest rid s = Some req"
  then have "vr_id req = rid" by (rule GetVendorRequest_id)
  then show "wp (realization_apply v va sc rows req st) s (\<lambda>x t. map_of (fst x) ''state'' = None
      \<and> completed_core v actor rid st s (core t))"
    by (auto simp: realization_apply_def applyRealization_def report_simps assms
      intro!: wp_core stays_intros intro: completed_coreI)
qed

section \<open>Decisions of vendors and the review\<close>

lemma moveRequest_moves:
  assumes "GetVendorRequest (vr_id req) s = Some req" "\<not> vr_is_canceled req" "vr_status req = ''sent_to_vendor''"
    and "st = ''vendor_accepted'' \<or> st = ''vendor_rejected''" and "core u = core s"
  shows "wp (moveRequest v va req st extra msg to) u (\<lambda>_ t. core_move vendor_move (xa_Actor va) (core s) (core t))"
  using assms(5)
  by (auto simp: moveRequest_def move_simps split: prod.splits intro!: wp_core stays_intros
      intro: request_moved [OF _ _ _ assms(1)] vendor_move.vendor_decided [OF assms(2-4), simplified])

lemma afterAccept_moves:
  assumes "GetVendorRequest (vr_id req) s = Some req" "\<not> vr_is_canceled req" "vr_status req = ''sent_to_vendor''"
    and "core u = core s"
  shows "wp (afterAccept v va req) u (\<lambda>_ t. core t = core s \<or> core_move vendor_move (xa_Actor va) (core s) (core t))"
  using assms(4)
  by (auto simp: afterAccept_def wp_simps intro: wp_mono [OF moveRequest_moves [OF assms(1-3)]])

lemma afterVaultReject_moves:
  assumes "GetVendorRequest (vr_id req) s = Some req" "\<not> vr_is_canceled req" "vr_status req = ''sent_to_vendor''"
    and "core u = core s"
  shows "wp (afterVaultReject v va req p reason) u (\<lambda>_ t. core_move vendor_move (xa_Actor va) (core s) (core t))"
  using assms(4)
  by (auto simp: afterVaultReject_def move_simps intro!: wp_core stays_intros
      intro: request_moved [OF _ _ _ assms(1)] vendor_move.vault_refused [OF assms(2,3)])

lemma afterDecision_moves:
  assumes "GetVendorRequest (vr_id req) s = Some req" "\<not> vr_is_canceled req" "vr_status req = ''sent_to_vendor''"
    and "core u = core s"
  shows "wp (afterDecision v va scoped req p reason) u
    (\<lambda>_ t. core t = core s \<or> core_move vendor_move (xa_Actor va) (core s) (core t))"
  using assms
  by (auto simp: afterDecision_def split: option.splits
      intro: afterAccept_moves wp_mono [OF afterVaultReject_moves] wp_mono [OF moveRequest_moves])

lemma recordDecision_moves:
  assumes "GetVendorRequest (vr_id req) s = Some req" and "core u = core s"
  shows "wp (recordDecision v va scoped req p reason) u
    (\<lambda>_ t. core t = core s \<or> core_move vendor_move (xa_Actor va) (core s) (core t))"
  unfolding recordDecision_def Let_def wp_basic
  by (intro impI, rule wp_core, intro stays_intros, rule wp_core, intro stays_intros, rule wp_core,
      intro stays_intros, simp add: audit_entry_def vendorPartyEntity_def, rule afterDecision_moves [OF assms(1)])
    (use assms(2) in auto)

lemma decide_moves:
  "wp (decide_body v va pid reason) s (\<lambda>_ t. core t = core s \<or> core_move vendor_move (xa_Actor va) (core s) (core t))"
proof -
  have *: "wp (recordDecision v va scoped req p reason) u
      (\<lambda>_ t. core t = core s \<or> core_move vendor_move (xa_Actor va) (core s) (core t))"
    if "GetVendorRequest i u = Some req" "core u = core s" for i req u scoped p
  proof -
    have "GetVendorRequest i s = Some req" using that by (simp add: core_def GetVendorRequest_def)
    then have "GetVendorRequest (vr_id req) s = Some req" using GetVendorRequest_id by metis
    then show ?thesis by (rule recordDecision_moves [OF _ that(2)])
  qed
  show ?thesis
    unfolding decide_body_def wp_basic(3)
    by (rule wp_core [OF core.portal_work(1)], rule wp_core [OF core.portal_work(2)])
      (auto simp: lock_request_def wp_simps intro: *)
qed

lemma review_logged:
  assumes "isChecker (ac_Role actor)" and "a = ActionVaultApprove \<or> a = ActionVaultReject"
    and "core t = core (w\<lparr>rd_audit := rd_audit w @ [audit_entry (ac_UserID actor) (action_name a) ''vendor_request'' rid
      (Some (state_json (vr_status req))) (Some (JObj ((''state'', JStr st) # rest))) (ac_IP actor)]\<rparr>)"
    and "core w = core (update_request rid (review_row v st (ac_UserID actor) reason) u)" and "core u = core s"
    and "GetVendorRequest rid s = Some req" "nextState (vr_status req) a = Some st" "\<not> vr_is_canceled req"
  shows "core_move request_move actor (core s) (core t)"
proof (rule request_moved [OF assms(3-6)])
  show "request_move actor (action_name a) req (review_row v st (ac_UserID actor) reason req)"
    by (rule request_move.reviewed [OF assms(8,7,1,2)])
qed simp_all

lemma review_moves:
  assumes "isChecker (ac_Role actor)"
  shows "wp (review_body v actor rid reason) s (\<lambda>_ t. core_move request_move actor (core s) (core t))"
proof (cases reason)
  case None
  have "wp (review_body v actor rid None) s (\<lambda>_ t. core_move request_move actor (core s) (core t))"
    by (auto simp: review_body_def Let_def move_simps intro!: wp_core stays_intros
        intro: review_logged [OF assms, of ActionVaultApprove, simplified])
  then show ?thesis using None by simp
next
  case (Some r)
  have "wp (review_body v actor rid (Some r)) s (\<lambda>_ t. core_move request_move actor (core s) (core t))"
    by (auto simp: review_body_def Let_def move_simps intro!: wp_core stays_intros
        intro: review_logged [OF assms, of ActionVaultReject, simplified])
  then show ?thesis using Some by simp
qed

section \<open>New requests\<close>

definition new_draft :: "vr_actor \<Rightarrow> id64 \<Rightarrow> vreq \<Rightarrow> bool" where
  "new_draft actor n r \<longleftrightarrow> (\<exists>v number forecast replenish category manual vendor region notes.
     r = draft_request v n number forecast replenish category manual vendor region notes (ac_UserID actor))"

definition core_create :: "vr_actor \<Rightarrow> vr_core \<Rightarrow> vr_core \<Rightarrow> bool" where
  "core_create actor c c' \<longleftrightarrow>
     (\<exists>r e. new_draft actor (snd (snd c)) r \<and> (\<forall>x \<in> set (fst c). vr_request_number x \<noteq> vr_request_number r)
        \<and> al_actor_id e = ac_UserID actor \<and> al_action e = ''create'' \<and> al_entity_id e = vr_id r
        \<and> extractState (al_before e) = None \<and> extractState (al_after e) = Some ''draft''
        \<and> c' = (fst c @ [r], fst (snd c) @ [e], snd (snd c) + 1))"

lemma attempt_creates:
  assumes "attemptCreateWithNumber v inp prefix regionCode actor s = Inr (r, t)"
  shows "new_draft actor (rd_ids s ''vendor_requests'') r"
    and "\<forall>x \<in> set (rd_requests s). vr_request_number x \<noteq> vr_request_number r"
    and "core t = (rd_requests s @ [r], vr_trail s, rd_ids s ''vendor_requests'' + 1)"
proof -
  have seq: "rd_requests s1 = rd_requests s \<and> rd_audit s1 = rd_audit s \<and> rd_ids s1 = rd_ids s"
    if "NextRequestNumberSeq w g d s = Inr (q, s1)" for w g d q s1
    using that by (auto simp: NextRequestNumberSeq_def Let_def split: option.splits if_splits)
  have new: "r = mk (rd_ids s1 ''vendor_requests'') \<and> (\<forall>x \<in> set (rd_requests s1). vr_request_number x \<noteq> vr_request_number r)
      \<and> core t = (rd_requests s1 @ [r], vr_trail s1, rd_ids s1 ''vendor_requests'' + 1)"
    if "CreateVendorRequest mk s1 = Inr (r, t)" for mk s1
    using that by (auto simp: CreateVendorRequest_def Let_def list_ex_iff core_def vr_trail_def split: if_splits)
  obtain q s1 where s1: "NextRequestNumberSeq (ci_VendorID inp) regionCode (ci_ReplenishDate inp) s = Inr (q, s1)"
    and r: "CreateVendorRequest (\<lambda>rid. draft_request v rid (request_number prefix regionCode (date_compact (ci_ReplenishDate inp)) q)
        (ci_ForecastDate inp) (ci_ReplenishDate inp) (categoryOrNil inp) (ci_IsManual inp) (ci_VendorID inp) regionCode
        (stringPtrOrNil (ci_Notes inp)) (ac_UserID actor)) s1 = Inr (r, t)"
    using assms by (auto simp: attemptCreateWithNumber_def split: if_splits sum.splits prod.splits)
  have "rd_ids s1 = rd_ids s" using seq [OF s1] by simp
  then show "new_draft actor (rd_ids s ''vendor_requests'') r" using new [OF r] unfolding new_draft_def by metis
  show "\<forall>x \<in> set (rd_requests s). vr_request_number x \<noteq> vr_request_number r"
    and "core t = (rd_requests s @ [r], vr_trail s, rd_ids s ''vendor_requests'' + 1)"
    using conjunct2 [OF new [OF r]] seq [OF s1] by (simp_all add: vr_trail_def)
qed

lemma retry_creates:
  "retry_number n v inp prefix regionCode actor s = Inr (r, t) \<Longrightarrow>
     attemptCreateWithNumber v inp prefix regionCode actor s = Inr (r, t)"
  by (induction n) (auto split: sum.splits attempt_err.splits pg_err.splits)

lemma createWithRetryingNumber_creates:
  "wp (createWithRetryingNumber v inp regionCode actor) s (\<lambda>r t. new_draft actor (rd_ids s ''vendor_requests'') r
     \<and> (\<forall>x \<in> set (rd_requests s). vr_request_number x \<noteq> vr_request_number r)
     \<and> core t = (rd_requests s @ [r], vr_trail s, rd_ids s ''vendor_requests'' + 1))"
  by (auto simp: createWithRetryingNumber_def resolveVendorPrefix_def wp_simps wp_def [of "retry_number _ _ _ _ _ _"]
      dest!: retry_creates dest: attempt_creates)

lemma create_logged:
  assumes "core u = core s" and "new_draft actor (rd_ids u ''vendor_requests'') r"
    and "\<forall>x \<in> set (rd_requests u). vr_request_number x \<noteq> vr_request_number r"
    and "core w = (rd_requests u @ [r], vr_trail u, rd_ids u ''vendor_requests'' + 1)"
  shows "core_create actor (core s) (core (w\<lparr>rd_audit := rd_audit w @ [audit_entry (ac_UserID actor) ''create''
      ''vendor_request'' (vr_id r) None (Some (JObj ((''state'', JStr ''draft'') # rest))) (ac_IP actor)]\<rparr>))"
proof -
  let ?e = "audit_entry (ac_UserID actor) ''create'' ''vendor_request'' (vr_id r) None
      (Some (JObj ((''state'', JStr ''draft'') # rest))) (ac_IP actor)"
  have "core (w\<lparr>rd_audit := rd_audit w @ [?e]\<rparr>) = (rd_requests s @ [r], vr_trail s @ [?e], rd_ids s ''vendor_requests'' + 1)"
    using assms(1,4) by (simp add: core_def vr_trail_def audit_entry_def)
  then show ?thesis
    unfolding core_create_def using assms(1-3)
    by (auto simp: core_def audit_entry_def extractState_def intro!: exI [of _ r])
qed

lemma create_in_region_creates:
  "wp (create_in_region v actor inp resolved regionCode) u (\<lambda>_ t. core_create actor (core u) (core t))"
  unfolding create_in_region_def wp_basic(3)
  by (rule wp_mono [OF createWithRetryingNumber_creates])
    (auto simp: wp_simps request_log_def write_log_def intro!: wp_core stays_intros intro: create_logged [OF refl])

lemma Create_creates: "wp (VendorRequest_Create_body v actor inp) s (\<lambda>_ t. core_create actor (core s) (core t))"
proof -
  have *: "wp (create_in_region v actor inp resolved regionCode) u (\<lambda>_ t. core_create actor (core s) (core t))"
    if "core u = core s" for u resolved regionCode
    using create_in_region_creates [of v actor inp resolved regionCode u] that by simp
  show ?thesis
    unfolding VendorRequest_Create_body_def wp_basic(3)
    by (rule wp_core, intro stays_intros, rule wp_core, intro stays_intros) (auto simp: wp_options intro: *)
qed

end
