(* ===== verification/Vendor_System.thy ===== *)
theory Vendor_System
  imports Vendor_Moves
begin

text \<open>
  The vendor request services as a transition system: every operation of the services, run by anyone
  with anything failing, the plans that a changed area opens, and any change of the reference data or of
  the notification tables by others.
  The first invariant is about the requests and their audit trail.
\<close>

section \<open>Steps\<close>

text \<open>The foreign key of a plan on its area.\<close>

definition keeps_areas :: "vdb \<Rightarrow> master \<Rightarrow> bool" where
  "keeps_areas s md \<longleftrightarrow> (\<forall>p \<in> set (rd_plans s). area_by_id md (vp_acm_area_id p) \<noteq> None)"

inductive vstep :: "(nat \<Rightarrow> timestamp) \<Rightarrow> vdb \<Rightarrow> vdb \<Rightarrow> bool" for clk where
  create: "ve_clk v = clk \<Longrightarrow> vstep clk s (snd (VendorRequest_Create v actor inp s))"
| update_items: "ve_clk v = clk \<Longrightarrow> vstep clk s (snd (VendorRequest_UpdateItems v actor rid items s))"
| submit: "ve_clk v = clk \<Longrightarrow> vstep clk s (snd (VendorRequest_Submit v actor rid s))"
| approve: "ve_clk v = clk \<Longrightarrow> vstep clk s (snd (VendorRequest_Approve v actor rid s))"
| revise: "ve_clk v = clk \<Longrightarrow> vstep clk s (snd (VendorRequest_Revise v actor rid s))"
| reject: "ve_clk v = clk \<Longrightarrow> vstep clk s (snd (VendorRequest_Reject v actor rid reason s))"
| vendor_return: "ve_clk v = clk \<Longrightarrow> vstep clk s (snd (VendorRequest_VendorReturn v actor rid reason s))"
| cancel: "ve_clk v = clk \<Longrightarrow> vstep clk s (snd (VendorRequest_Cancel v actor rid reason s))"
| submit_completion: "ve_clk v = clk \<Longrightarrow> vstep clk s (snd (VendorRequest_SubmitCompletion v actor rid results s))"
| approve_completion: "ve_clk v = clk \<Longrightarrow> vstep clk s (snd (VendorRequest_ApproveCompletion v actor rid s))"
| reject_completion: "ve_clk v = clk \<Longrightarrow> vstep clk s (snd (VendorRequest_RejectCompletion v actor rid reason s))"
| save_allocations: "ve_clk v = clk \<Longrightarrow> vstep clk s (snd (VaultPlan_SaveAllocations v actor pid ins buffer s))"
| submit_plan: "ve_clk v = clk \<Longrightarrow> vstep clk s (snd (VaultPlan_Submit v actor pid s))"
| approve_plan: "ve_clk v = clk \<Longrightarrow> vstep clk s (snd (VaultPlan_Approve v actor pid s))"
| reject_plan: "ve_clk v = clk \<Longrightarrow> vstep clk s (snd (VaultPlan_Reject v actor pid reason s))"
| review: "ve_clk v = clk \<Longrightarrow> vstep clk s (snd (VaultPlan_ReviewRequest v actor rid ok reason s))"
| accept_order: "ve_clk v = clk \<Longrightarrow> vstep clk s (snd (VendorOrder_Accept v va pid s))"
| reject_order: "ve_clk v = clk \<Longrightarrow> vstep clk s (snd (VendorOrder_Reject v va pid reason s))"
| report: "ve_clk v = clk \<Longrightarrow> vstep clk s (snd (VendorOrder_SubmitRealization v va pid rows view s))"
| reset_atm: "ve_clk v = clk \<Longrightarrow> vstep clk s (snd (AtmVisitQuota_ResetATM v actor terminalID s))"
| reset_vendor: "ve_clk v = clk \<Longrightarrow> vstep clk s (snd (AtmVisitQuota_ResetVendor v actor vendorID s))"
| cancel_visit: "ve_clk v = clk \<Longrightarrow> vstep clk s (snd (AtmVisitQuota_CancelVisit v actor visitID reason s))"
| open_plans: "ve_clk v = clk \<Longrightarrow> vstep clk s (snd (in_tx v ''commit'' (createVaultPlans v actor None) s))"
| reference_data: "keeps_areas s md \<Longrightarrow> vstep clk s (s\<lparr>rd_master := md\<rparr>)"
| notifications: "vstep clk s (s\<lparr>rd_notif := n\<rparr>)"

text \<open>
  The bodies of the operations. Whatever holds of the state after every body that succeeds, and of the
  state itself, holds after the step.
\<close>

definition transition_acts :: "vr_action set" where
  "transition_acts = {ActionSubmit, ActionApprove, ActionReject, ActionRevise, ActionVendorReturn}"

lemma in_tx_wp: "wp body s (\<lambda>_ t. P t) \<Longrightarrow> P s \<Longrightarrow> P (snd (in_tx v what body s))"
  unfolding in_tx_def
  by (rule run_in_tx_cases [of "ve_commit v" "VrDb what" "tx_then (begin_tx v) body" s])
    (auto simp: tx_defs begin_tx_def split: if_splits sum.splits dest: wpD)

lemma vstep_wp:
  assumes "vstep clk s t" and "P s"
    and "\<And>v actor inp. ve_clk v = clk \<Longrightarrow> wp (VendorRequest_Create_body v actor inp) s (\<lambda>_. P)"
    and "\<And>v actor rid items. ve_clk v = clk \<Longrightarrow> wp (VendorRequest_UpdateItems_body v actor rid items) s (\<lambda>_. P)"
    and "\<And>v actor rid a reason. ve_clk v = clk \<Longrightarrow> a \<in> transition_acts \<Longrightarrow> wp (transition_body v actor rid (opts_of a reason)) s (\<lambda>_. P)"
    and "\<And>v actor rid trimmed. ve_clk v = clk \<Longrightarrow> wp (VendorRequest_Cancel_body v actor rid trimmed) s (\<lambda>_. P)"
    and "\<And>v actor rid results. ve_clk v = clk \<Longrightarrow>
      wp (completion_body v actor rid ActionSubmitCompletion (submit_completion_apply v actor rid results)) s (\<lambda>_. P)"
    and "\<And>v actor rid. ve_clk v = clk \<Longrightarrow>
      wp (completion_body v actor rid ActionApproveCompletion (approve_completion_apply v actor rid)) s (\<lambda>_. P)"
    and "\<And>v actor rid trimmed. ve_clk v = clk \<Longrightarrow>
      wp (completion_body v actor rid ActionRejectCompletion (reject_completion_apply v actor rid trimmed)) s (\<lambda>_. P)"
    and "\<And>v va rid sc rows. ve_clk v = clk \<Longrightarrow>
      wp (completion_body v (xa_Actor va) rid ActionSubmitCompletion (realization_apply v va sc rows)) s (\<lambda>_. P)"
    and "\<And>v actor pid ins buffer. ve_clk v = clk \<Longrightarrow> wp (plan_body v actor pid (save_allocations_fn v actor ins buffer)) s (\<lambda>_. P)"
    and "\<And>v actor pid. ve_clk v = clk \<Longrightarrow> wp (plan_body v actor pid (submit_plan_fn v actor)) s (\<lambda>_. P)"
    and "\<And>v actor pid. ve_clk v = clk \<Longrightarrow> wp (plan_body v actor pid (approve_plan_fn v actor)) s (\<lambda>_. P)"
    and "\<And>v actor pid r. ve_clk v = clk \<Longrightarrow> wp (plan_body v actor pid (reject_plan_fn v actor r)) s (\<lambda>_. P)"
    and "\<And>v actor rid reason. ve_clk v = clk \<Longrightarrow> isChecker (ac_Role actor) \<Longrightarrow> wp (review_body v actor rid reason) s (\<lambda>_. P)"
    and "\<And>v va pid reason. ve_clk v = clk \<Longrightarrow> wp (decide_body v va pid reason) s (\<lambda>_. P)"
    and "\<And>v actor terminalID. ve_clk v = clk \<Longrightarrow> wp (ResetATM_body v actor terminalID) s (\<lambda>_. P)"
    and "\<And>v actor vendorID. ve_clk v = clk \<Longrightarrow> wp (ResetVendor_body v actor vendorID) s (\<lambda>_. P)"
    and "\<And>v actor visitID trimmed. ve_clk v = clk \<Longrightarrow> wp (CancelVisit_body v actor visitID trimmed) s (\<lambda>_. P)"
    and "\<And>md. keeps_areas s md \<Longrightarrow> P (s\<lparr>rd_master := md\<rparr>)" and "\<And>n. P (s\<lparr>rd_notif := n\<rparr>)"
    and "\<And>v actor. ve_clk v = clk \<Longrightarrow> wp (createVaultPlans v actor None) s (\<lambda>_. P)"
  shows "P t"
  using assms(1)
  by cases (auto simp: VendorRequest_Create_def VendorRequest_UpdateItems_def VendorRequest_Submit_def
      VendorRequest_Approve_def VendorRequest_Revise_def VendorRequest_Reject_def VendorRequest_VendorReturn_def
      VendorRequest_Cancel_def VendorRequest_SubmitCompletion_def VendorRequest_ApproveCompletion_def
      VendorRequest_RejectCompletion_def VaultPlan_SaveAllocations_def VaultPlan_Submit_def VaultPlan_Approve_def
      VaultPlan_Reject_def VaultPlan_ReviewRequest_def VendorOrder_Accept_def VendorOrder_Reject_def decide_def
      VendorOrder_SubmitRealization_def AtmVisitQuota_ResetATM_def AtmVisitQuota_ResetVendor_def
      AtmVisitQuota_CancelVisit_def transition_def runCompletionTx_def planTx_def quota_tx_def transition_acts_def
      split: option.splits sum.splits prod.splits intro!: in_tx_wp [where P = P] assms(2-))

section \<open>What a step does to the requests\<close>

definition any_move :: "vr_actor \<Rightarrow> string \<Rightarrow> vreq \<Rightarrow> vreq \<Rightarrow> bool" where
  "any_move actor act r r' \<longleftrightarrow> request_move actor act r r' \<or> vendor_move actor act r r'"

lemma core_move_any:
  "core_move request_move actor c c' \<Longrightarrow> core_move any_move actor c c'"
  "core_move vendor_move actor c c' \<Longrightarrow> core_move any_move actor c c'"
  by (fastforce simp: core_move_def any_move_def)+

definition core_step :: "vr_core \<Rightarrow> vr_core \<Rightarrow> bool" where
  "core_step c c' \<longleftrightarrow> c' = c \<or> (\<exists>actor. core_move any_move actor c c' \<or> core_create actor c c')"

lemma core_step_refl [simp]: "core_step c c" by (simp add: core_step_def)

lemma wp_move: "wp m s (\<lambda>_ t. core_move request_move actor (core s) (core t)) \<Longrightarrow> wp m s (\<lambda>_ t. core_step (core s) (core t))"
  by (erule wp_mono) (auto simp: core_step_def dest: core_move_any)

lemma wp_same: "stays (\<lambda>s t. core t = core s) m \<Longrightarrow> wp m s (\<lambda>_ t. core_step (core s) (core t))"
  by (rule wp_core) simp_all

lemma approve_plan_body_moves:
  "wp (plan_body v actor pid (approve_plan_fn v actor)) s (\<lambda>_ t. core_move request_move actor (core s) (core t))"
proof -
  have *: "wp (approve_plan_fn v actor p req) u (\<lambda>_ t. core_move request_move actor (core s) (core t))"
    if "core u = core s" "GetVendorRequest i u = Some req" for u i req p
  proof -
    have "GetVendorRequest (vr_id req) u = Some req" using that(2) GetVendorRequest_id by metis
    then show ?thesis using approve_plan_moves [of req u v actor p] that(1) by simp
  qed
  show ?thesis
    unfolding plan_body_def wp_basic(3)
    by (rule wp_core [OF core.plan_reads_work(1)]) (auto simp: lock_plan_request_def wp_simps intro: *)
qed

lemma vstep_core:
  assumes "vstep clk s t"
  shows "core_step (core s) (core t)"
proof (rule vstep_wp [OF assms, where P = "\<lambda>t. core_step (core s) (core t)"], goal_cases)
  case (2 v actor inp)
  show ?case by (rule wp_mono [OF Create_creates]) (auto simp: core_step_def)
next
  case (4 v actor rid a reason)
  show ?case
    by (rule wp_move [OF transition_moves]) (use 4 in \<open>auto simp: opts_of_def transition_acts_def\<close>)
next
  case (14 v actor rid reason)
  then show ?case by (intro wp_move [OF review_moves])
next
  case (15 v va pid reason)
  show ?case by (rule wp_mono [OF decide_moves]) (auto simp: core_step_def dest: core_move_any)
qed (intro wp_move [OF UpdateItems_moves] wp_move [OF Cancel_moves] wp_move [OF approve_plan_body_moves]
    wp_move [OF completion_moves [OF submit_completion_reports]] wp_move [OF completion_moves [OF approve_completion_reports]]
    wp_move [OF completion_moves [OF reject_completion_reports]] wp_move [OF completion_moves [OF realization_reports [OF refl]]]
    | simp add: core.unseen
    | (rule wp_same, intro stays_intros)
    | simp add: core_def vr_trail_def)+

section \<open>The invariant of the requests\<close>

definition request_statuses :: "string set" where
  "request_statuses = {''draft'', ''pending_approval'', ''rejected'', ''vault_assignment'', ''vault_review'', ''ready'',
     ''sent_to_vendor'', ''vendor_accepted'', ''vendor_rejected'', ''approved'', ''completion_pending'', ''completed'', ''cancelled''}"

definition four_eyes :: "vreq \<Rightarrow> bool" where
  "four_eyes r \<longleftrightarrow> vr_approved_by r \<noteq> Some (vr_created_by r) \<and> vr_rejected_by r \<noteq> Some (vr_created_by r)
     \<and> (vr_status r = ''completion_pending'' \<longrightarrow> vr_completion_submitted_by r \<noteq> None)
     \<and> (vr_status r = ''completed'' \<longrightarrow> vr_completion_submitted_by r \<noteq> None \<and> vr_completion_approved_by r \<noteq> None
          \<and> vr_completion_approved_by r \<noteq> vr_completion_submitted_by r)"

definition request_row_ok :: "vreq \<Rightarrow> bool" where
  "request_row_ok r \<longleftrightarrow> vr_status r \<in> request_statuses \<and> (vr_status r = ''cancelled'' \<longleftrightarrow> vr_is_canceled r) \<and> four_eyes r"

text \<open>What no move changes.\<close>

definition request_identity :: "vreq \<Rightarrow> id64 \<times> string \<times> id64 \<times> day \<times> day option \<times> id64 option \<times> string option" where
  "request_identity r = (vr_id r, vr_request_number r, vr_created_by r, vr_forecast_date r, vr_replenish_date r,
     vr_vendor_id r, vr_region_code r)"

lemma move_identity:
  assumes "any_move actor act r r'"
  shows "request_identity r' = request_identity r"
  using assms unfolding any_move_def
  by (elim disjE request_move.cases vendor_move.cases)
    (simp_all add: request_identity_def status_row_def cancelled_row_def completion_row_def review_row_def)

text \<open>A status a move may lead to, and the edges it follows.\<close>

definition request_edge :: "string \<Rightarrow> string \<Rightarrow> bool" where
  "request_edge a b \<longleftrightarrow> a = ''draft'' \<and> b = a \<or> (\<exists>act. nextState a act = Some b)
     \<or> a = ''completion_pending'' \<and> (b = ''ready'' \<or> b = ''vendor_accepted'')
     \<or> a = ''sent_to_vendor'' \<and> (b = ''vendor_accepted'' \<or> b = ''vendor_rejected'' \<or> b = ''vault_assignment'')"

lemma nextState_statuses: "nextState a act = Some b \<Longrightarrow> a \<in> request_statuses \<and> b \<in> request_statuses \<and> a \<notin> {''completed'', ''cancelled''}"
  by (cases act) (auto simp: nextState_def transitions_def request_statuses_def split: if_splits)

lemma nextState_cancel: "nextState a ActionCancel = Some b \<Longrightarrow> b = ''cancelled''"
  by (drule nextState_cases) simp

lemma request_move_edge: "request_move actor act r r' \<Longrightarrow> request_edge (vr_status r) (vr_status r')"
proof (induction rule: request_move.induct)
  case (reported r a st)
  have "a = ActionRejectCompletion \<Longrightarrow> vr_status r = ''completion_pending''"
    using nextState_cases [OF reported(2)] by simp
  then show ?case using reported(2) by (auto simp: request_edge_def completion_status_def)
next
  case (cancelled r st)
  then show ?case using nextState_cancel [OF cancelled(2)] by (auto simp: request_edge_def)
next
  case (allocated r)
  have "nextState ''vault_assignment'' ActionVaultReady = Some ''vault_review''" by (simp add: nextState_def transitions_def)
  then show ?case using allocated by (auto simp: request_edge_def)
qed (auto simp: request_edge_def)

lemma move_edge: "any_move actor act r r' \<Longrightarrow> request_edge (vr_status r) (vr_status r')"
  unfolding any_move_def
  by (elim disjE) (erule request_move_edge, erule vendor_move.cases, auto simp: request_edge_def)

lemma edge_statuses: "request_edge a b \<Longrightarrow> a \<in> request_statuses \<and> b \<in> request_statuses \<and> a \<notin> {''completed'', ''cancelled''}"
  unfolding request_edge_def by (elim disjE exE conjE) (erule nextState_statuses | simp add: request_statuses_def)+

lemma move_not_final: "any_move actor act r r' \<Longrightarrow> vr_status r \<notin> {''completed'', ''cancelled''}"
  using edge_statuses [OF move_edge] by blast

lemma stepped_to:
  assumes "nextState cur a = Some st" and "a \<in> {ActionSubmit, ActionApprove, ActionReject, ActionRevise, ActionVendorReturn}"
  shows "a = ActionSubmit \<and> st = ''pending_approval'' \<or> a = ActionApprove \<and> st = ''vault_assignment''
    \<or> a = ActionReject \<and> st = ''rejected'' \<or> a = ActionRevise \<and> st = ''draft'' \<or> a = ActionVendorReturn \<and> st = ''rejected''"
  using nextState_cases [OF assms(1)] assms(2) by (cases a) simp_all

lemma reported_to:
  assumes "nextState cur a = Some st" and "a \<in> {ActionSubmitCompletion, ActionApproveCompletion, ActionRejectCompletion}"
  shows "a = ActionSubmitCompletion \<and> st = ''completion_pending'' \<or> a = ActionApproveCompletion \<and> cur = ''completion_pending'' \<and> st = ''completed''
    \<or> a = ActionRejectCompletion \<and> st = ''approved''"
  using nextState_cases [OF assms(1)] assms(2) by (cases a) simp_all

lemma reviewed_to:
  assumes "nextState cur a = Some st" and "a = ActionVaultApprove \<or> a = ActionVaultReject"
  shows "st = ''sent_to_vendor'' \<or> st = ''vault_assignment''"
  using nextState_cases [OF assms(1)] assms(2) by (cases a) simp_all

lemma move_row_ok:
  assumes "any_move actor act r r'" and "request_row_ok r"
  shows "request_row_ok r'"
proof -
  have st: "vr_status r' \<in> request_statuses" using edge_statuses [OF move_edge [OF assms(1)]] by simp
  have live: "\<not> vr_is_canceled r" using assms(2) move_not_final [OF assms(1)] by (auto simp: request_row_ok_def)
  have eyes: "four_eyes r" using assms(2) by (simp add: request_row_ok_def)
  have "(vr_status r' = ''cancelled'' \<longleftrightarrow> vr_is_canceled r') \<and> four_eyes r'"
    using assms(1) unfolding any_move_def
  proof (elim disjE)
    assume "request_move actor act r r'"
    then show ?thesis
    proof (cases rule: request_move.cases)
    case (stepped a st v reason)
    have creator: "a = ActionApprove \<or> a = ActionReject \<or> a = ActionVendorReturn \<Longrightarrow> ac_UserID actor \<noteq> vr_created_by r"
      using stepped(4) by (auto simp: checkActor_def Let_def split: if_splits)
    from stepped_to [OF stepped(3,5)] show ?thesis
      using eyes live creator by (elim disjE conjE) (simp_all add: stepped(2) four_eyes_def status_row_def stamp_def)
  next
    case (reported a st v reason)
    have sub: "a = ActionApproveCompletion \<Longrightarrow> vr_completion_submitted_by r \<noteq> Some (ac_UserID actor)"
      using reported(5) by (auto simp: checkCompletionActor_def split: if_splits)
    from reported_to [OF reported(4,6)] show ?thesis
      using eyes live sub
      by (elim disjE conjE) (simp_all add: reported(2) four_eyes_def completion_row_def completion_status_def stamp_def)
  next
    case (reviewed a st v reason)
    from reviewed_to [OF reviewed(4,6)] show ?thesis
      using eyes live by (elim disjE) (simp_all add: reviewed(2) four_eyes_def review_row_def)
    qed (use assms(2) eyes live in \<open>simp_all add: request_row_ok_def four_eyes_def cancelled_row_def\<close>)
  next
    assume "vendor_move actor act r r'"
    then show ?thesis
      using eyes live by cases (auto simp: four_eyes_def status_row_def stamp_def)
  qed
  with st show ?thesis by (simp add: request_row_ok_def)
qed

section \<open>The trail of a request\<close>

text \<open>Replaying entries from a status: each must start where the one before ended.\<close>

fun replay :: "string option \<Rightarrow> audit_row list \<Rightarrow> string option option" where
  "replay cur [] = Some cur"
| "replay cur (e # es) = (if extractState (al_before e) = cur then replay (extractState (al_after e)) es else None)"

lemma replay_snoc:
  "replay cur (es @ [e]) = (case replay cur es of None \<Rightarrow> None
     | Some st \<Rightarrow> if extractState (al_before e) = st then Some (extractState (al_after e)) else None)"
  by (induction es arbitrary: cur) auto

definition entries_of :: "id64 \<Rightarrow> audit_row list \<Rightarrow> audit_row list" where
  "entries_of rid tr = filter (\<lambda>e. al_entity_id e = rid) tr"

definition core_inv :: "vr_core \<Rightarrow> bool" where
  "core_inv c \<longleftrightarrow> distinct (map vr_id (fst c)) \<and> distinct (map vr_request_number (fst c))
     \<and> (\<forall>r \<in> set (fst c). vr_id r < snd (snd c) \<and> request_row_ok r \<and> replay None (entries_of (vr_id r) (fst (snd c))) = Some (Some (vr_status r)))
     \<and> (\<forall>e \<in> set (fst (snd c)). al_entity_id e < snd (snd c))"

lemma core_invD:
  assumes "core_inv c"
  shows "distinct (map vr_id (fst c))" "distinct (map vr_request_number (fst c))"
    "r \<in> set (fst c) \<Longrightarrow> vr_id r < snd (snd c)" "r \<in> set (fst c) \<Longrightarrow> request_row_ok r"
    "r \<in> set (fst c) \<Longrightarrow> replay None (entries_of (vr_id r) (fst (snd c))) = Some (Some (vr_status r))"
    "e \<in> set (fst (snd c)) \<Longrightarrow> al_entity_id e < snd (snd c)"
  using assms by (auto simp: core_inv_def)

lemma core_invI:
  assumes "distinct (map vr_id rs)" "distinct (map vr_request_number rs)"
    "\<And>r. r \<in> set rs \<Longrightarrow> vr_id r < n" "\<And>r. r \<in> set rs \<Longrightarrow> request_row_ok r"
    "\<And>r. r \<in> set rs \<Longrightarrow> replay None (entries_of (vr_id r) tr) = Some (Some (vr_status r))"
    "\<And>e. e \<in> set tr \<Longrightarrow> al_entity_id e < n"
  shows "core_inv (rs, tr, n)"
  using assms by (simp add: core_inv_def)

text \<open>With distinct ids a move replaces one row by its successor.\<close>

lemma core_moveE:
  assumes "core_move any_move actor c c'" and "core_inv c"
  obtains act r r' e where "r \<in> set (fst c)" "any_move actor act r r'" "trail_entry actor act r r' e"
    "vr_id r' = vr_id r" "vr_request_number r' = vr_request_number r"
    "set (fst c') = insert r' (set (fst c) - {r})" "map vr_id (fst c') = map vr_id (fst c)"
    "map vr_request_number (fst c') = map vr_request_number (fst c)"
    "fst (snd c') = fst (snd c) @ [e]" "snd (snd c') = snd (snd c)"
proof -
  from assms(1) obtain act r g e where
    find: "find_row (\<lambda>x. vr_id x = vr_id r) (fst c) = Some r" and mv: "any_move actor act r (g r)"
    and e: "trail_entry actor act r (g r) e"
    and c': "c' = (update_where (\<lambda>x. vr_id x = vr_id r) g (fst c), fst (snd c) @ [e], snd (snd c))"
    by (auto simp: core_move_def)
  have r: "r \<in> set (fst c)" using find_row_Some [OF find] by simp
  note d = core_invD(1) [OF assms(2)]
  have ids: "vr_id (g r) = vr_id r" "vr_request_number (g r) = vr_request_number r"
    using move_identity [OF mv] by (simp_all add: request_identity_def)
  have keys: "map k (update_where (\<lambda>x. vr_id x = vr_id r) g (fst c)) = map k (fst c)" if "k (g r) = k r" for k :: "vreq \<Rightarrow> 'k"
    unfolding update_where_def using distinct_key_iff [OF d r] that by simp
  show ?thesis
    by (rule that [OF r mv e ids])
      (simp_all add: c' keys ids set_update_where_key [OF d r])
qed

lemma core_move_inv:
  assumes mv: "core_move any_move actor c c'" and inv: "core_inv c"
  shows "core_inv c'"
proof -
  from core_moveE [OF assms] obtain act r r' e where
    r: "r \<in> set (fst c)" and m: "any_move actor act r r'" and e: "trail_entry actor act r r' e"
    and id: "vr_id r' = vr_id r"
    and c': "set (fst c') = insert r' (set (fst c) - {r})" "map vr_id (fst c') = map vr_id (fst c)"
      "map vr_request_number (fst c') = map vr_request_number (fst c)"
      "fst (snd c') = fst (snd c) @ [e]" "snd (snd c') = snd (snd c)" by metis
  have eid: "al_entity_id e = vr_id r" using e by (simp add: trail_entry_def)
  have other: "vr_id x \<noteq> vr_id r" if "x \<in> set (fst c) - {r}" for x
    using distinct_key_eq [OF core_invD(1) [OF inv], of x r] that r by auto
  have "core_inv (fst c', fst (snd c'), snd (snd c'))"
  proof (rule core_invI)
    fix x assume "x \<in> set (fst c')"
    then consider (new) "x = r'" | (old) "x \<in> set (fst c) - {r}" using c'(1) by auto
    then have "vr_id x < snd (snd c') \<and> request_row_ok x
      \<and> replay None (entries_of (vr_id x) (fst (snd c'))) = Some (Some (vr_status x))"
    proof cases
      case new
      have "request_row_ok x" using new move_row_ok [OF m core_invD(4) [OF inv r]] by simp
      then show ?thesis using new id core_invD(3,5) [OF inv r] e c'(4,5) eid
        by (simp add: entries_of_def replay_snoc trail_entry_def)
    next
      case old
      then have x: "x \<in> set (fst c)" by simp
      show ?thesis using core_invD(3-5) [OF inv x] other [OF old] c'(4,5) eid by (simp add: entries_of_def)
    qed
    then show "vr_id x < snd (snd c')" "request_row_ok x"
      "replay None (entries_of (vr_id x) (fst (snd c'))) = Some (Some (vr_status x))" by simp_all
  next
    fix x assume "x \<in> set (fst (snd c'))"
    then have "x \<in> set (fst (snd c)) \<or> x = e" using c'(4) by auto
    then show "al_entity_id x < snd (snd c')" using core_invD(6) [OF inv] eid core_invD(3) [OF inv r] c'(5) by auto
  qed (use core_invD(1,2) [OF inv] c'(2,3) in simp_all)
  then show ?thesis by simp
qed

lemma new_draft_row:
  assumes "new_draft actor n r"
  shows "vr_id r = n" "vr_status r = ''draft''" "vr_created_by r = ac_UserID actor" "request_row_ok r"
  using assms by (auto simp: new_draft_def draft_request_def request_row_ok_def four_eyes_def request_statuses_def)

lemma core_create_inv:
  assumes cr: "core_create actor c c'" and inv: "core_inv c"
  shows "core_inv c'"
proof -
  from cr obtain r e where nd: "new_draft actor (snd (snd c)) r"
    and num: "\<forall>x \<in> set (fst c). vr_request_number x \<noteq> vr_request_number r"
    and e: "al_entity_id e = vr_id r" "extractState (al_before e) = None" "extractState (al_after e) = Some ''draft''"
    and c': "c' = (fst c @ [r], fst (snd c) @ [e], snd (snd c) + 1)"
    by (auto simp: core_create_def)
  note row = new_draft_row [OF nd]
  have none: "entries_of (snd (snd c)) (fst (snd c)) = []"
    using core_invD(6) [OF inv] by (fastforce simp: entries_of_def filter_empty_conv)
  show ?thesis unfolding c'
  proof (rule core_invI)
    show "distinct (map vr_id (fst c @ [r]))" using core_invD(1,3) [OF inv] row(1) by fastforce
    show "distinct (map vr_request_number (fst c @ [r]))" using core_invD(2) [OF inv] num by auto
  next
    fix x assume "x \<in> set (fst c @ [r])"
    then consider (new) "x = r" | (old) "x \<in> set (fst c)" by auto
    then have "vr_id x < snd (snd c) + 1 \<and> request_row_ok x
      \<and> replay None (entries_of (vr_id x) (fst (snd c) @ [e])) = Some (Some (vr_status x))"
    proof cases
      case new
      then show ?thesis using row e none by (simp add: entries_of_def)
    next
      case old
      show ?thesis using core_invD(3-5) [OF inv old] e(1) row(1) by (simp add: entries_of_def)
    qed
    then show "vr_id x < snd (snd c) + 1" "request_row_ok x"
      "replay None (entries_of (vr_id x) (fst (snd c) @ [e])) = Some (Some (vr_status x))" by simp_all
  next
    fix x assume "x \<in> set (fst (snd c) @ [e])"
    then show "al_entity_id x < snd (snd c) + 1" using core_invD(6) [OF inv, of x] e(1) row(1) by auto
  qed
qed

definition request_inv :: "vdb \<Rightarrow> bool" where
  "request_inv s \<longleftrightarrow> core_inv (core s)"

lemma vstep_request_inv: "request_inv s \<Longrightarrow> vstep clk s t \<Longrightarrow> request_inv t"
  unfolding request_inv_def using vstep_core [of clk s t]
  by (auto simp: core_step_def intro: core_move_inv core_create_inv)

text \<open>The database before the first request.\<close>

definition vendor_start :: "vdb \<Rightarrow> bool" where
  "vendor_start s \<longleftrightarrow> rd_requests s = [] \<and> rd_audit s = [] \<and> rd_plans s = [] \<and> rd_parties s = []
     \<and> rd_quotas s = [] \<and> rd_visits s = []"

interpretation requests: invariant_system vendor_start "vstep clk" request_inv for clk
proof unfold_locales
  show "vendor_start s \<Longrightarrow> request_inv s" for s
    by (simp add: vendor_start_def request_inv_def core_inv_def core_def vr_trail_def)
qed (rule vstep_request_inv)

end
