(* ===== verification/Vendor_Agreed.thy ===== *)
theory Vendor_Agreed
  imports Vendor_System
begin

text \<open>
  A request counts as accepted by its vendors only when every party of it that was not withdrawn has
  accepted. The invariant joins the requests and the parties; decisions of vendors and the review are
  the only operations that write parties.
\<close>

section \<open>Parties\<close>

definition settled :: "id64 \<Rightarrow> vdb \<Rightarrow> bool" where
  "settled rid s \<longleftrightarrow> (\<forall>p \<in> set (rd_parties s). py_vendor_request_id p = rid \<longrightarrow>
     py_status p = ''accepted'' \<or> py_status p = ''withdrawn'')"

definition agreed :: "vreq \<Rightarrow> bool" where
  "agreed r \<longleftrightarrow> vr_status r \<in> {''vendor_accepted'', ''completion_pending'', ''completed''}"

definition party_view :: "vdb \<Rightarrow> party list \<times> id64" where
  "party_view s = (rd_parties s, rd_ids s ''vendor_request_vendor_parties'')"

interpretation party_view: request_plan_frame party_view
  by unfold_locales (simp_all add: party_view_def)

interpretation party_view: request_visit_frame party_view
  by unfold_locales (simp_all add: party_view_def)

definition party_ids :: "party list \<times> id64 \<Rightarrow> bool" where
  "party_ids pv \<longleftrightarrow> distinct (map py_id (fst pv)) \<and> (\<forall>p \<in> set (fst pv). py_id p < snd pv)"

text \<open>A request in the vendors' hands was sent; the statuses of the flow without vendors do not occur.\<close>

definition flow_ok :: "vreq \<Rightarrow> bool" where
  "flow_ok r \<longleftrightarrow> vr_status r \<notin> {''approved'', ''ready''}
     \<and> (vr_status r \<in> {''sent_to_vendor'', ''vendor_accepted'', ''vendor_rejected'', ''completion_pending'', ''completed''} \<longrightarrow> vr_vendor_sent r)"

lemma new_draft_flow: "new_draft actor n r \<Longrightarrow> flow_ok r \<and> \<not> agreed r"
  by (auto simp: new_draft_def draft_request_def flow_ok_def agreed_def)

lemma from_completion:
  assumes "nextState cur a = Some st" and "a \<in> {ActionSubmitCompletion, ActionApproveCompletion, ActionRejectCompletion}"
  shows "cur \<in> {''ready'', ''vendor_accepted'', ''approved'', ''completion_pending''}"
  using nextState_cases [OF assms(1)] assms(2) by (cases a) auto

lemma request_move_flow:
  assumes "request_move actor act r r'" and "flow_ok r"
  shows "flow_ok r' \<and> (agreed r' \<longrightarrow> agreed r)"
  using assms(1)
proof (cases rule: request_move.cases)
  case (stepped a st v reason)
  from stepped_to [OF stepped(3,5)] show ?thesis
    by (elim disjE conjE) (simp_all add: stepped(2) flow_ok_def agreed_def)
next
  case (reported a st v reason)
  have "agreed r" "vr_vendor_sent r"
    using from_completion [OF reported(4,6)] assms(2) by (auto simp: flow_ok_def agreed_def)
  moreover have "completion_status r a st \<in> {''completion_pending'', ''completed'', ''vendor_accepted''}"
    using reported_to [OF reported(4,6)] \<open>vr_vendor_sent r\<close> by (auto simp: completion_status_def)
  ultimately show ?thesis by (auto simp: reported(2) flow_ok_def completion_row_def)
next
  case (reviewed a st v reason)
  from reviewed_to [OF reviewed(4,6)] show ?thesis
    by (elim disjE) (simp_all add: reviewed(2) flow_ok_def agreed_def review_row_def)
qed (use assms(2) in \<open>simp_all add: flow_ok_def agreed_def cancelled_row_def\<close>)

lemma vendor_move_flow: "vendor_move actor act r r' \<Longrightarrow> flow_ok r \<Longrightarrow> flow_ok r'"
  by (erule vendor_move.cases) (auto simp: flow_ok_def status_row_def)

section \<open>The invariant\<close>

definition agreed_inv :: "vdb \<Rightarrow> bool" where
  "agreed_inv s \<longleftrightarrow> request_inv s \<and> party_ids (party_view s) \<and> (\<forall>r \<in> set (rd_requests s). flow_ok r)
     \<and> (\<forall>r \<in> set (rd_requests s). agreed r \<longrightarrow> settled (vr_id r) s)"

lemma agreed_invD:
  assumes "agreed_inv s"
  shows "request_inv s" "party_ids (party_view s)" "r \<in> set (rd_requests s) \<Longrightarrow> flow_ok r"
    "r \<in> set (rd_requests s) \<Longrightarrow> agreed r \<Longrightarrow> settled (vr_id r) s"
  using assms by (auto simp: agreed_inv_def)

text \<open>Every new row of a step comes from a row of its own.\<close>

lemma core_step_flow:
  assumes "core_step (core s) (core t)" and "agreed_inv s" and "r' \<in> set (rd_requests t)"
  shows "flow_ok r'"
proof -
  have inv: "core_inv (core s)" using agreed_invD(1) [OF assms(2)] by (simp add: request_inv_def)
  from assms(1) consider "core t = core s" | actor where "core_move any_move actor (core s) (core t)"
    | actor where "core_create actor (core s) (core t)" by (auto simp: core_step_def)
  then show ?thesis
  proof cases
    case 1
    then show ?thesis using assms(3) agreed_invD(3) [OF assms(2)] by (simp add: core_def)
  next
    case 2
    from core_moveE [OF 2 inv] obtain act r x where r: "r \<in> set (fst (core s))" and m: "any_move actor act r x"
      and set: "set (fst (core t)) = insert x (set (fst (core s)) - {r})" by metis
    have "flow_ok x" using m agreed_invD(3) [OF assms(2), of r] r request_move_flow vendor_move_flow
      by (auto simp: any_move_def core_def)
    then show ?thesis using set assms(3) agreed_invD(3) [OF assms(2)] by (auto simp: core_def)
  next
    case 3
    then show ?thesis using assms(3) agreed_invD(3) [OF assms(2)] new_draft_flow by (auto simp: core_create_def core_def)
  qed
qed

text \<open>Operations of the bank that leave the parties alone.\<close>

definition quiet_step :: "vdb \<Rightarrow> vdb \<Rightarrow> bool" where
  "quiet_step s t \<longleftrightarrow> party_view t = party_view s
     \<and> (core t = core s \<or> (\<exists>actor. core_move request_move actor (core s) (core t) \<or> core_create actor (core s) (core t)))"

lemma quiet_step_inv:
  assumes "quiet_step s t" and inv: "agreed_inv s"
  shows "agreed_inv t"
proof -
  have step: "core_step (core s) (core t)" using assms(1) by (auto simp: quiet_step_def core_step_def dest: core_move_any)
  have cinv: "core_inv (core s)" using agreed_invD(1) [OF inv] by (simp add: request_inv_def)
  have pv: "party_view t = party_view s" using assms(1) by (simp add: quiet_step_def)
  then have settled: "settled rid t = settled rid s" for rid by (simp add: settled_def party_view_def)
  have ok: "settled (vr_id r') t" if "r' \<in> set (rd_requests t)" "agreed r'" for r'
    unfolding settled
  proof -
    from assms(1) consider "core t = core s" | actor where "core_move request_move actor (core s) (core t)"
      | actor where "core_create actor (core s) (core t)" by (auto simp: quiet_step_def)
    then show "settled (vr_id r') s"
    proof cases
      case 1
      then show ?thesis using that agreed_invD(4) [OF inv] by (simp add: core_def)
    next
      case 2
      from 2 obtain act r g where r: "r \<in> set (rd_requests s)" and m: "request_move actor act r (g r)"
        and rs: "rd_requests t = update_where (\<lambda>x. vr_id x = vr_id r) g (rd_requests s)"
        by (auto simp: core_move_def core_def dest: find_row_Some)
      have d: "distinct (map vr_id (rd_requests s))" using core_invD(1) [OF cinv] by (simp add: core_def)
      have "r' = g r \<or> r' \<in> set (rd_requests s)" using that(1) set_update_where_key [OF d r, of g] by (auto simp: rs)
      moreover have "vr_id (g r) = vr_id r"
        using move_identity [of actor act r "g r"] m by (simp add: any_move_def request_identity_def)
      moreover have "agreed (g r) \<Longrightarrow> agreed r" using request_move_flow [OF m agreed_invD(3) [OF inv r]] by simp
      ultimately show ?thesis using that(2) agreed_invD(4) [OF inv] r by metis
    next
      case 3
      then show ?thesis using that agreed_invD(4) [OF inv] new_draft_flow by (auto simp: core_create_def core_def)
    qed
  qed
  have "request_inv t" using step cinv unfolding request_inv_def
    by (auto simp: core_step_def intro: core_move_inv core_create_inv)
  then show ?thesis unfolding agreed_inv_def
    using pv agreed_invD(2) [OF inv] core_step_flow [OF step inv] ok by auto
qed

section \<open>Decisions of vendors\<close>

text \<open>What the step may do: settled requests stay settled, and a row that is agreed is old or settled.\<close>

definition decided_step :: "vdb \<Rightarrow> vdb \<Rightarrow> bool" where
  "decided_step s t \<longleftrightarrow> party_ids (party_view t) \<and> (\<forall>rid. settled rid s \<longrightarrow> settled rid t)
     \<and> (\<forall>r' \<in> set (rd_requests t). agreed r' \<longrightarrow> r' \<in> set (rd_requests s) \<or> settled (vr_id r') t)"

lemma decided_step_inv:
  assumes "core_step (core s) (core t)" and "decided_step s t" and inv: "agreed_inv s"
  shows "agreed_inv t"
proof -
  have "request_inv t" using assms(1) agreed_invD(1) [OF inv] unfolding request_inv_def
    by (auto simp: core_step_def intro: core_move_inv core_create_inv)
  moreover have "settled (vr_id r) t" if "r \<in> set (rd_requests t)" "agreed r" for r
    using assms(2) that agreed_invD(4) [OF inv] unfolding decided_step_def by metis
  ultimately show ?thesis unfolding agreed_inv_def
    using assms(2) core_step_flow [OF assms(1) inv] by (simp add: decided_step_def)
qed

lemma not_agreed_rows [simp]:
  "\<not> agreed (status_row v ''vendor_rejected'' a reason r)" "\<not> agreed (r\<lparr>vr_status := ''vault_assignment''\<rparr>)"
  "st \<in> {''sent_to_vendor'', ''vault_assignment''} \<Longrightarrow> \<not> agreed (review_row v st u reason r)"
  by (auto simp: agreed_def)

lemma agreed_update:
  assumes "r' \<in> set (update_where (\<lambda>x. vr_id x = rid) g rs)" and "agreed r'"
    and "\<And>r. vr_id (g r) = vr_id r" and "\<And>r. agreed (g r) \<Longrightarrow> P rid"
  shows "r' \<in> set rs \<or> P (vr_id r')"
  using assms(1)
proof (rule in_update_whereE)
  fix r assume "r \<in> set rs" "vr_id r = rid" "r' = g r"
  then show ?thesis using assms(2-4) by metis
qed simp

text \<open>Around the decision: the parties are as the decision left them, and the request moves.\<close>

definition moved_only :: "(vreq \<Rightarrow> vreq) \<Rightarrow> id64 \<Rightarrow> vdb \<Rightarrow> vdb \<Rightarrow> bool" where
  "moved_only g rid u t \<longleftrightarrow> party_view t = party_view u \<and> rd_requests t = update_where (\<lambda>x. vr_id x = rid) g (rd_requests u)"

lemma core_requests: "core t = core u \<Longrightarrow> rd_requests t = rd_requests u"
  by (simp add: core_def)

lemma moveRequest_moved: "wp (moveRequest v va req st extra msg to) u (\<lambda>_. moved_only (status_row v st None None) (vr_id req) u)"
proof (rule wp_conj_stays [OF _ party_view.moveRequest_stays])
  show "wp (moveRequest v va req st extra msg to) u (\<lambda>_ t. rd_requests t
      = update_where (\<lambda>x. vr_id x = vr_id req) (status_row v st None None) (rd_requests u))"
    by (auto simp: moveRequest_def move_simps update_request_def split: prod.splits
        intro!: wp_core [OF core.notify_work] dest!: core_requests)
qed (auto simp: moved_only_def)

lemma afterVaultReject_moved:
  "wp (afterVaultReject v va req p reason) u (\<lambda>_. moved_only (\<lambda>r. r\<lparr>vr_status := ''vault_assignment''\<rparr>) (vr_id req) u)"
proof (rule wp_conj_stays [OF _ party_view.request_plan_bodies(4)])
  show "wp (afterVaultReject v va req p reason) u (\<lambda>_ t. rd_requests t
      = update_where (\<lambda>x. vr_id x = vr_id req) (\<lambda>r. r\<lparr>vr_status := ''vault_assignment''\<rparr>) (rd_requests u))"
    by (auto simp: afterVaultReject_def move_simps update_request_def intro!: wp_core stays_intros dest!: core_requests)
qed (auto simp: moved_only_def)

definition decision_tail :: "id64 \<Rightarrow> vdb \<Rightarrow> vdb \<Rightarrow> bool" where
  "decision_tail rid u t \<longleftrightarrow> party_view t = party_view u
     \<and> (\<forall>r' \<in> set (rd_requests t). agreed r' \<longrightarrow> r' \<in> set (rd_requests u) \<or> settled (vr_id r') t)"

lemma moved_only_tail:
  assumes "moved_only g rid u t" and "\<And>r. vr_id (g r) = vr_id r" and "\<And>r. agreed (g r) \<Longrightarrow> settled rid u"
  shows "decision_tail rid u t"
proof -
  have "settled i t = settled i u" for i using assms(1) by (simp add: moved_only_def party_view_def settled_def)
  then show ?thesis
    using assms unfolding decision_tail_def moved_only_def
    by (metis (no_types, lifting) agreed_update [where P = "\<lambda>i. settled i u"])
qed

lemma status_row_id [simp]: "vr_id (status_row v st a reason r) = vr_id r"
  by (simp add: status_row_def)

lemma afterDecision_tail: "wp (afterDecision v va scoped req p reason) u (\<lambda>_. decision_tail (vr_id req) u)"
proof (cases reason)
  case None
  have *: "settled (vr_id req) u"
    if "\<not> list_ex (\<lambda>p. py_status p \<noteq> ''accepted'' \<and> py_status p \<noteq> ''withdrawn'') (LockVendorPartiesForRequest (vr_id req) u)"
    using that by (auto simp: settled_def LockVendorPartiesForRequest_def list_ex_iff)
  show ?thesis unfolding None afterDecision_def afterAccept_def
    by (auto simp: wp_simps decision_tail_def intro!: wp_mono [OF moveRequest_moved] moved_only_tail * [unfolded decision_tail_def]
        dest!: moved_only_tail [where u = u] simp del: list_ex_iff)
next
  case (Some r)
  show ?thesis unfolding Some afterDecision_def
    by (auto intro!: wp_mono [OF moveRequest_moved] wp_mono [OF afterVaultReject_moved] moved_only_tail)
qed

lemma decision_keeps:
  assumes "DecideVendorParty v status u reason pid s = Inr (p, t)" and "party_ids (party_view s)"
  shows "rd_requests t = rd_requests s" "party_ids (party_view t)" "settled rid s \<Longrightarrow> settled rid t"
proof -
  have t: "t = s\<lparr>rd_parties := update_where (\<lambda>p. py_id p = pid \<and> py_status p = ''pending'')
      (\<lambda>p. p\<lparr>py_status := status, py_decided_by := Some u, py_decided_at := Some (ve_now v), py_rejection_reason := reason\<rparr>)
      (rd_parties s)\<rparr>"
    using assms(1) by (auto simp: DecideVendorParty_def update_party_def split: option.splits)
  show "rd_requests t = rd_requests s" by (simp add: t)
  show "party_ids (party_view t)"
    using assms(2) by (auto simp: t party_ids_def party_view_def elim!: in_update_whereE)
  show "settled rid t" if "settled rid s"
    using that by (auto simp: t settled_def elim!: in_update_whereE)
qed

lemma wp_party_view: "stays (\<lambda>s t. party_view t = party_view s) m \<Longrightarrow> stays (\<lambda>s t. core t = core s) m
    \<Longrightarrow> (\<And>a t. party_view t = party_view s \<Longrightarrow> core t = core s \<Longrightarrow> Q a t) \<Longrightarrow> wp m s Q"
  by (auto simp: stays_def wp_def)

lemma tail_step:
  assumes "decision_tail rid u t" and "party_ids (party_view u)" and "rd_requests u = rd_requests s"
    and "\<And>i. settled i s \<Longrightarrow> settled i u"
  shows "decided_step s t"
proof -
  have "settled i u = settled i t" for i using assms(1) by (simp add: decision_tail_def party_view_def settled_def)
  then show ?thesis using assms by (simp add: decided_step_def decision_tail_def)
qed

lemma recordDecision_step:
  assumes "party_ids (party_view s)"
  shows "wp (recordDecision v va scoped req p reason) s (\<lambda>_. decided_step s)"
proof -
  let ?status = "if reason = None then ''accepted'' else ''rejected''"
  have tail: "wp (afterDecision v va scoped req p reason) u (\<lambda>_. decided_step s)"
    if "party_view u = party_view t" "core u = core t"
      "DecideVendorParty v ?status (ac_UserID (xa_Actor va)) reason (py_id p) s = Inr (x, t)" for u t x
  proof (rule wp_mono [OF afterDecision_tail])
    note k = decision_keeps [OF that(3) assms]
    have "settled i u = settled i t" for i using that(1) by (simp add: party_view_def settled_def)
    then show "decision_tail (vr_id req) u w \<Longrightarrow> decided_step s w" for w
      using that(1) k core_requests [OF that(2)] by (auto elim!: tail_step)
  qed
  have "wp (DecideVendorParty v ?status (ac_UserID (xa_Actor va)) reason (py_id p)) s (\<lambda>x t.
      wp (tx_then (InsertVendorPartyEvent v (py_id p) ev uid why (c x)) (tx_then (write_log v e) (afterDecision v va scoped req p reason))) t
        (\<lambda>_. decided_step s))" if "al_entity_type e \<noteq> ''vendor_request''" for ev uid why c e
    by (rule wpI, unfold wp_basic, rule wp_party_view, intro stays_intros, intro stays_intros, rule wp_party_view,
        intro stays_intros, rule that, intro stays_intros, rule that, rule tail) auto
  then show ?thesis
    unfolding recordDecision_def Let_def wp_basic(3,4,7) wp_pg_stmt
    by (intro impI disjI2) (simp add: audit_entry_def vendorPartyEntity_def)
qed

lemma decide_step:
  assumes "party_ids (party_view s)"
  shows "wp (decide_body v va pid reason) s (\<lambda>_. decided_step s)"
proof -
  have unchanged: "decided_step s t" if "decided_step u t" "party_view u = party_view s" "core u = core s" for u t
    using that core_requests [OF that(3)] by (simp add: decided_step_def party_view_def settled_def)
  have *: "wp (recordDecision v va scoped req p reason) u (\<lambda>_. decided_step s)"
    if "party_view u = party_view s" "core u = core s" for u scoped req p
    by (rule wp_mono [OF recordDecision_step]) (use assms that unchanged in auto)
  show ?thesis
    unfolding decide_body_def wp_basic(3)
    by (rule wp_party_view [OF party_view.portal_work(1) core.portal_work(1)],
        rule wp_party_view [OF party_view.portal_work(2) core.portal_work(2)])
      (auto simp: lock_request_def wp_simps intro: *)
qed

section \<open>The review\<close>

text \<open>Bringing the parties of one request in line leaves the parties of the others alone.\<close>

definition synced :: "id64 \<Rightarrow> party list \<times> id64 \<Rightarrow> party list \<times> id64 \<Rightarrow> bool" where
  "synced rid pv pv' \<longleftrightarrow> party_ids pv' \<and> snd pv \<le> snd pv'
     \<and> (\<forall>p \<in> set (fst pv'). py_vendor_request_id p = rid \<or> p \<in> set (fst pv))
     \<and> (\<forall>p \<in> set (fst pv'). \<forall>q \<in> set (fst pv). py_id q = py_id p \<longrightarrow> py_vendor_request_id q = py_vendor_request_id p)"

lemma synced_refl: "party_ids pv \<Longrightarrow> synced rid pv pv"
  by (auto simp: synced_def party_ids_def distinct_map dest: inj_onD)

lemma syncedD:
  assumes "synced rid pv pv'"
  shows "party_ids pv'" "snd pv \<le> snd pv'" "p \<in> set (fst pv') \<Longrightarrow> py_vendor_request_id p = rid \<or> p \<in> set (fst pv)"
    "p \<in> set (fst pv') \<Longrightarrow> q \<in> set (fst pv) \<Longrightarrow> py_id q = py_id p \<Longrightarrow> py_vendor_request_id q = py_vendor_request_id p"
  using assms unfolding synced_def by blast+

lemma party_ids_update:
  assumes "party_ids (ps, n)" and "\<And>p. py_id (f p) = py_id p"
  shows "party_ids (update_where sel f ps, n)"
  using assms by (auto simp: party_ids_def elim!: in_update_whereE)

lemma synced_update:
  assumes syn: "synced rid pv (ps, n)" and q: "q \<in> set (fst pv)" "py_vendor_request_id q = rid"
    and f: "\<And>p. py_id (f p) = py_id p" "\<And>p. py_vendor_request_id (f p) = py_vendor_request_id p"
  shows "synced rid pv (update_where (\<lambda>p. py_id p = py_id q) f ps, n)"
proof -
  note d = syncedD [OF syn, unfolded fst_conv snd_conv]
  have keeps: "(py_vendor_request_id p = rid \<or> p \<in> set (fst pv))
      \<and> (\<forall>x \<in> set (fst pv). py_id x = py_id p \<longrightarrow> py_vendor_request_id x = py_vendor_request_id p)"
    if "p \<in> set (update_where (\<lambda>p. py_id p = py_id q) f ps)" for p
    using that
  proof (cases rule: in_update_whereE)
    case kept
    then show ?thesis using d(3,4) by simp
  next
    case (changed r)
    then show ?thesis using d(4) [of r q] d(4) [of r] q f by simp
  qed
  show ?thesis unfolding synced_def fst_conv snd_conv
    using party_ids_update [OF d(1) f(1)] d(2) keeps by simp
qed

lemma synced_insert:
  assumes syn: "synced rid pv (ps, n)" and p: "py_id p = n" "py_vendor_request_id p = rid" and ids: "party_ids pv"
  shows "synced rid pv (ps @ [p], n + 1)"
proof -
  note d = syncedD [OF syn, unfolded fst_conv snd_conv]
  have old: "py_id x \<noteq> n" if "x \<in> set (fst pv)" for x using ids d(2) that by (fastforce simp: party_ids_def)
  have "party_ids (ps @ [p], n + 1)" using d(1) p(1) by (force simp: party_ids_def)
  then show ?thesis unfolding synced_def fst_conv snd_conv
    using d(2-4) p old by auto
qed

lemma record_event_stays: "stays (\<lambda>s t. party_view t = party_view s) (record_event v u p e c)"
  unfolding record_event_def by (intro stays_intros)

lemma refreshParty_synced:
  assumes "synced rid pv (party_view u)" and "p \<in> set (fst pv)" "py_vendor_request_id p = rid"
  shows "wp (refreshParty v actorID force p wanted) u (\<lambda>_ t. synced rid pv (party_view t))"
proof -
  have upd: "wp (update_party (\<lambda>x. py_id x = py_id p) f) u (\<lambda>_ t. synced rid pv (party_view t))"
    if "\<And>p. py_id (f p) = py_id p \<and> py_vendor_request_id (f p) = py_vendor_request_id p" for f
    using synced_update [OF assms(1) [unfolded party_view_def] assms(2,3)] that
    by (auto simp: wp_def update_party_def party_view_def split: option.splits)
  have after: "wp (tx_bind (pg_stmt v q what m) (\<lambda>w. record_event v actorID w e c)) u (\<lambda>_ t. synced rid pv (party_view t))"
    if "wp m u (\<lambda>_ t. synced rid pv (party_view t))" for q what m e c
    unfolding wp_basic wp_pg_stmt
    by (rule disjI2, rule wp_mono [OF that], rule wp_stays [OF record_event_stays]) simp
  show ?thesis
    unfolding refreshParty_def ResendVendorParty_def WithdrawVendorParty_def
    by (auto simp: wp_basic(1) assms(1) split: option.splits intro!: after upd)
qed

lemma insert_party_synced:
  assumes "synced rid pv (party_view u)" and "party_ids pv"
  shows "wp (insert_party v actorID rid built k) u (\<lambda>_ t. synced rid pv (party_view t))"
proof -
  have ins: "wp (InsertVendorParty v rid k c) u (\<lambda>_ t. synced rid pv (party_view t))" for c
    using synced_insert [OF _ _ _ assms(2)] assms(1)
    by (auto simp: wp_def InsertVendorParty_def Let_def party_view_def split: if_splits)
  show ?thesis
    unfolding insert_party_def
    by (auto simp: wp_basic(1,3) wp_pg_stmt assms(1) split: option.splits
        intro!: wp_mono [OF ins] wp_stays [OF record_event_stays])
qed

lemma syncVendorParties_synced:
  assumes "party_ids (party_view s)"
  shows "wp (syncVendorParties v actorID req) s (\<lambda>_ t. synced (vr_id req) (party_view s) (party_view t))"
proof -
  have refresh: "wp (tx_map (\<lambda>p. refreshParty v actorID force p (w p)) (LockVendorPartiesForRequest (vr_id req) s)) s
      (\<lambda>_ t. synced (vr_id req) (party_view s) (party_view t))" for force w
    by (rule wp_map) (auto simp: LockVendorPartiesForRequest_def party_view_def [of s] synced_refl [OF assms, unfolded party_view_def]
        intro!: refreshParty_synced)
  have inserted: "wp (tx_map (insert_party v actorID (vr_id req) built) ks) u (\<lambda>_ t. synced (vr_id req) (party_view s) (party_view t))"
    if "synced (vr_id req) (party_view s) (party_view u)" for built ks u
    by (rule wp_map) (use that assms in \<open>auto intro: insert_party_synced\<close>)
  show ?thesis
    unfolding syncVendorParties_def Let_def
    by (auto simp: wp_simps intro!: wp_mono [OF refresh] inserted)
qed

text \<open>No row the review wrote is agreed.\<close>

definition review_rows :: "id64 \<Rightarrow> vdb \<Rightarrow> vdb \<Rightarrow> bool" where
  "review_rows rid s t \<longleftrightarrow> (\<forall>r' \<in> set (rd_requests t). agreed r' \<longrightarrow> r' \<in> set (rd_requests s) \<and> vr_id r' \<noteq> rid)"

definition review_step :: "id64 \<Rightarrow> vdb \<Rightarrow> vdb \<Rightarrow> bool" where
  "review_step rid s t \<longleftrightarrow> synced rid (party_view s) (party_view t)
     \<and> review_rows rid s t"

lemma review_step_inv:
  assumes "core_step (core s) (core t)" and "review_step rid s t" and inv: "agreed_inv s"
  shows "agreed_inv t"
proof -
  have "request_inv t" using assms(1) agreed_invD(1) [OF inv] unfolding request_inv_def
    by (auto simp: core_step_def intro: core_move_inv core_create_inv)
  moreover have "settled (vr_id r) t" if r: "r \<in> set (rd_requests t)" "agreed r" for r
    unfolding settled_def
  proof (intro ballI impI)
    fix p assume p: "p \<in> set (rd_parties t)" "py_vendor_request_id p = vr_id r"
    have old: "r \<in> set (rd_requests s)" "vr_id r \<noteq> rid" using assms(2) r by (auto simp: review_step_def review_rows_def)
    then have "p \<in> set (rd_parties s)" using assms(2) p by (auto simp: review_step_def synced_def party_view_def)
    then show "py_status p = ''accepted'' \<or> py_status p = ''withdrawn''"
      using agreed_invD(4) [OF inv old(1) r(2)] p(2) by (simp add: settled_def)
  qed
  ultimately show ?thesis unfolding agreed_inv_def
    using assms(2) core_step_flow [OF assms(1) inv] by (simp add: review_step_def synced_def)
qed

lemma review_rowsI:
  assumes "rd_requests t = update_where (\<lambda>y. vr_id y = rid) (review_row v st u reason) (rd_requests s)"
    and "nextState cur a = Some st" "a = ActionVaultApprove \<or> a = ActionVaultReject"
  shows "review_rows rid s t"
proof -
  have "\<not> agreed (review_row v st u reason r)" for r using reviewed_to [OF assms(2,3)] by auto
  then show ?thesis unfolding review_rows_def assms(1) by (auto elim!: in_update_whereE)
qed

lemma reviewed_requests: "wp (review_body v actor rid reason) s (\<lambda>_. review_rows rid s)"
  by (cases reason) (auto simp: review_body_def Let_def move_simps update_request_def
        ResetVaultPlansToDraft_def update_plans_def intro!: wp_core stays_intros dest!: core_requests intro: review_rowsI)

lemma review_parties:
  assumes "party_ids (party_view s)"
  shows "wp (review_body v actor rid reason) s (\<lambda>_ t. synced rid (party_view s) (party_view t))"
proof (cases reason)
  case None
  have sync: "wp (syncVendorParties v actorID req) u (\<lambda>_ t. synced rid (party_view s) (party_view t))"
    if "GetVendorRequest rid s = Some req" "party_view u = party_view s" for actorID req u
    using syncVendorParties_synced [of u v actorID req] assms that GetVendorRequest_id by fastforce
  have notified: "wp (notifyParties v req ns) u (\<lambda>_ t. wp (notifyReviewed v req ps None) t (\<lambda>_ t. Q (party_view t)))"
    if "Q (party_view u)" for u req ns ps and Q :: "party list \<times> id64 \<Rightarrow> bool"
    by (rule wp_stays [OF party_view.notifyParties_work], rule wp_stays [OF party_view.notifyReviewed_work]) (use that in simp)
  have log: "party_view (u\<lparr>rd_audit := l\<rparr>) = party_view u" "party_view (update_request rid f u) = party_view u" for u l f
    by (simp_all add: party_view_def update_request_def)
  have "wp (review_body v actor rid None) s (\<lambda>_ t. synced rid (party_view s) (party_view t))"
    unfolding review_body_def Let_def
    by (auto simp: move_simps log intro!: wp_mono [OF sync] notified)
  then show ?thesis using None by simp
next
  case (Some r)
  have "stays (\<lambda>s t. party_view t = party_view s) (review_body v actor rid (Some r))"
    unfolding review_body_def by (simp, intro stays_intros)
  then show ?thesis using Some synced_refl [OF assms] by (auto intro: wp_stays)
qed

section \<open>Every step\<close>

lemma wp_quiet:
  assumes "stays (\<lambda>s t. party_view t = party_view s) m" and "wp m s (\<lambda>_ t. core_move request_move actor (core s) (core t))"
    and "agreed_inv s"
  shows "wp m s (\<lambda>_. agreed_inv)"
  by (rule wp_conj_stays [OF assms(2,1)], rule quiet_step_inv [OF _ assms(3)]) (auto simp: quiet_step_def)

lemma wp_silent:
  assumes "stays (\<lambda>s t. party_view t = party_view s) m" and "stays (\<lambda>s t. core t = core s) m" and "agreed_inv s"
  shows "wp m s (\<lambda>_. agreed_inv)"
  by (rule wp_party_view [OF assms(1,2)], rule quiet_step_inv [OF _ assms(3)]) (auto simp: quiet_step_def)

lemma vstep_agreed_inv:
  assumes "agreed_inv s" and "vstep clk s t"
  shows "agreed_inv t"
proof (rule vstep_wp [OF assms(2), where P = agreed_inv], goal_cases)
  case (2 v actor inp)
  show ?case
    by (rule wp_conj_stays [OF Create_creates party_view.create_bodies(2)], rule quiet_step_inv [OF _ assms(1)])
      (auto simp: quiet_step_def)
next
  case (4 v actor rid a reason)
  show ?case
    by (rule wp_quiet [OF _ transition_moves assms(1)], intro stays_intros) (use 4 in \<open>auto simp: opts_of_def transition_acts_def\<close>)
next
  case (14 v actor rid reason)
  have "party_ids (party_view s)" by (rule agreed_invD(2) [OF assms(1)])
  have "wp (review_body v actor rid reason) s (\<lambda>_ t. core_move request_move actor (core s) (core t)
    \<and> synced rid (party_view s) (party_view t) \<and> review_rows rid s t)"
    by (intro wp_conj review_moves 14 review_parties reviewed_requests) fact
  then show ?case
    by (rule wp_mono) (rule review_step_inv [OF _ _ assms(1)], auto simp: core_step_def review_step_def dest: core_move_any)
next
  case (15 v va pid reason)
  have "party_ids (party_view s)" by (rule agreed_invD(2) [OF assms(1)])
  then have "wp (decide_body v va pid reason) s (\<lambda>_ t. (core t = core s \<or> core_move vendor_move (xa_Actor va) (core s) (core t))
    \<and> decided_step s t)"
    by (intro wp_conj decide_moves decide_step)
  then show ?case
    by (rule wp_mono) (rule decided_step_inv [OF _ _ assms(1)], auto simp: core_step_def dest: core_move_any)
qed (rule assms(1)
    | (rule wp_quiet [OF _ UpdateItems_moves assms(1)] wp_quiet [OF _ Cancel_moves assms(1)] wp_quiet [OF _ approve_plan_body_moves assms(1)]
    wp_quiet [OF _ completion_moves [OF submit_completion_reports] assms(1)]
    wp_quiet [OF _ completion_moves [OF approve_completion_reports] assms(1)]
    wp_quiet [OF _ completion_moves [OF reject_completion_reports] assms(1)]
    wp_quiet [OF _ completion_moves [OF realization_reports [OF refl]] assms(1)], intro stays_intros)
    | (rule wp_silent [OF _ _ assms(1)], intro stays_intros, intro stays_intros)
    | (rule insertI1 insertI2)
    | (rule quiet_step_inv [OF _ assms(1)], simp add: quiet_step_def party_view_def core_def vr_trail_def))+

interpretation agreements: invariant_system vendor_start "vstep clk" agreed_inv for clk
proof unfold_locales
  show "vendor_start s \<Longrightarrow> agreed_inv s" for s
    by (simp add: vendor_start_def agreed_inv_def request_inv_def core_inv_def core_def vr_trail_def party_ids_def party_view_def)
qed (rule vstep_agreed_inv)

end
