(* ===== verification/Vault_Eyes.thy ===== *)
theory Vault_Eyes
  imports Vendor_Agreed
begin

text \<open>
  Plans and requests together: a request reaches the review only with an approved plan, and the vendors
  only after somebody who neither submitted nor approved that plan reviewed it.
\<close>

section \<open>Plans\<close>

definition plans_of :: "id64 \<Rightarrow> vdb \<Rightarrow> vplan list" where
  "plans_of rid s = filter (\<lambda>p. vp_vendor_request_id p = rid) (rd_plans s)"

definition plan_row_ok :: "vplan \<Rightarrow> bool" where
  "plan_row_ok p \<longleftrightarrow> vp_status p \<in> {planDraft, planPending, planAcmApproved, ''cancelled''}
     \<and> (vp_status p = planDraft \<or> vp_status p = planPending \<longrightarrow> vp_approved_by p = None)
     \<and> (vp_status p = planPending \<or> vp_status p = planAcmApproved \<longrightarrow> vp_submitted_by p \<noteq> None)
     \<and> (vp_status p = planAcmApproved \<longrightarrow> vp_approved_by p \<noteq> None)
     \<and> (vp_approved_by p \<noteq> None \<longrightarrow> vp_approved_by p \<noteq> vp_submitted_by p)"

definition one_live :: "vplan list \<Rightarrow> bool" where
  "one_live ps \<longleftrightarrow> length (filter live_plan ps) \<le> 1"

definition plans_ok :: "vdb \<Rightarrow> bool" where
  "plans_ok s \<longleftrightarrow> distinct (map vp_id (rd_plans s)) \<and> (\<forall>p \<in> set (rd_plans s). vp_id p < rd_ids s ''vendor_request_vault_plans'')
     \<and> (\<forall>p \<in> set (rd_plans s). area_by_id (rd_master s) (vp_acm_area_id p) \<noteq> None)
     \<and> (\<forall>p \<in> set (rd_plans s). plan_row_ok p) \<and> (\<forall>rid. one_live (plans_of rid s))"

definition plan_view :: "vdb \<Rightarrow> vplan list \<times> id64 \<times> master" where
  "plan_view s = (rd_plans s, rd_ids s ''vendor_request_vault_plans'', rd_master s)"

interpretation plan_view: request_visit_frame plan_view
  by unfold_locales (simp_all add: plan_view_def)

interpretation plan_view: party_frame plan_view
  by unfold_locales (simp_all add: plan_view_def)

text \<open>A step that touches the plans of some requests only, and leaves the tables in order.\<close>

definition touches :: "id64 set \<Rightarrow> vdb \<Rightarrow> vdb \<Rightarrow> bool" where
  "touches I s t \<longleftrightarrow> (plans_ok s \<longrightarrow> plans_ok t) \<and> (\<forall>i. i \<notin> I \<longrightarrow> plans_of i t = plans_of i s)"

interpretation touch: tx_frame "touches I" for I
  by unfold_locales (auto simp: touches_def)

lemma same_plans: "plan_view t = plan_view s \<Longrightarrow> touches I s t"
  by (simp add: plan_view_def touches_def plans_ok_def plans_of_def)

lemma touch_frame: "stays (\<lambda>s t. plan_view t = plan_view s) m \<Longrightarrow> stays (touches I) m"
  by (erule stays_mono) (rule same_plans)

lemma filter_update_other:
  assumes "\<And>p. k (f p) = k p" and "\<And>p. p \<in> set xs \<Longrightarrow> sel p \<Longrightarrow> k p \<noteq> i"
  shows "filter (\<lambda>p. k p = i) (update_where sel f xs) = filter (\<lambda>p. k p = i) xs"
  using assms(2) by (induction xs) (auto simp: assms(1))

lemma live_count_update:
  assumes "\<And>p. p \<in> set xs \<Longrightarrow> sel p \<Longrightarrow> live_plan p \<or> \<not> live_plan (f p)" and "\<And>p. k (f p) = k p"
  shows "length (filter live_plan (filter (\<lambda>p. k p = i) (update_where sel f xs)))
    \<le> length (filter live_plan (filter (\<lambda>p. k p = i) xs))"
  using assms(1)
proof (induction xs)
  case (Cons x xs)
  have "length (filter live_plan (filter (\<lambda>p. k p = i) (update_where sel f xs)))
      \<le> length (filter live_plan (filter (\<lambda>p. k p = i) xs))"
    using Cons by simp
  then show ?case using Cons.prems [of x] assms(2) by auto
qed simp

lemma rd_plans_update: "rd_plans (update_plans sel f s) = update_where sel f (rd_plans s)"
  by (simp add: update_plans_def)

lemma update_plans_touches:
  assumes f: "\<And>p. vp_id (f p) = vp_id p" "\<And>p. vp_vendor_request_id (f p) = vp_vendor_request_id p"
      "\<And>p. vp_acm_area_id (f p) = vp_acm_area_id p"
    and sel: "\<And>p. p \<in> set (rd_plans s) \<Longrightarrow> sel p \<Longrightarrow> vp_vendor_request_id p \<in> I"
    and row: "\<And>p. p \<in> set (rd_plans s) \<Longrightarrow> sel p \<Longrightarrow> plan_row_ok p \<Longrightarrow> plan_row_ok (f p) \<and> (live_plan p \<or> \<not> live_plan (f p))"
  shows "touches I s (update_plans sel f s)"
  unfolding touches_def
proof (intro conjI impI allI)
  show "plans_of i (update_plans sel f s) = plans_of i s" if "i \<notin> I" for i
    unfolding plans_of_def update_plans_def using sel that by (simp, intro filter_update_other) (auto simp: f)
  assume ok: "plans_ok s"
  have "one_live (plans_of i (update_plans sel f s))" for i
  proof -
    have "length (filter live_plan (plans_of i (update_plans sel f s))) \<le> length (filter live_plan (plans_of i s))"
      unfolding plans_of_def rd_plans_update
      by (rule live_count_update) (use row ok f in \<open>auto simp: plans_ok_def\<close>)
    then show ?thesis using ok by (auto simp: plans_ok_def one_live_def dest: spec [of _ i])
  qed
  then show "plans_ok (update_plans sel f s)"
    using ok f row by (auto simp: plans_ok_def update_plans_def elim!: in_update_whereE)
qed

section \<open>Statements\<close>

lemmas plan_row_simps = plan_row_ok_def live_plan_def planDraft_def planPending_def planAcmApproved_def

lemma reset_touches: "rid \<in> I \<Longrightarrow> touches I s (ResetVaultPlansToDraft rid s)"
  unfolding ResetVaultPlansToDraft_def by (rule update_plans_touches) (auto simp: plan_row_simps)

lemma cancel_touches: "rid \<in> I \<Longrightarrow> touches I s (CancelVaultPlansForRequest rid s)"
  unfolding CancelVaultPlansForRequest_def by (rule update_plans_touches) (auto simp: plan_row_simps)

lemma return_touches: "rid \<in> I \<Longrightarrow> stays (touches I) (ReturnVaultPlansForVaultBranch v actorID reason rid branchID)"
  by (auto simp: stays_def ReturnVaultPlansForVaultBranch_def returned_plan_def plan_row_simps intro!: update_plans_touches)

lemma buffer_touches:
  assumes "\<forall>p \<in> set (rd_plans s). vp_id p = pid \<longrightarrow> vp_vendor_request_id p \<in> I"
  shows "touches I s (SetVaultPlanBufferReason buffer pid s)"
  unfolding SetVaultPlanBufferReason_def
  by (rule update_plans_touches) (use assms in \<open>auto simp: plan_row_simps\<close>)

text \<open>A plan of the request is submitted from draft, decided from pending.\<close>

lemma status_touches:
  assumes "\<forall>p \<in> set (rd_plans s). vp_id p = pid \<longrightarrow> vp_vendor_request_id p \<in> I \<and> vp_status p = cur \<and> vp_submitted_by p = by_user"
    and "cur = planDraft \<and> st = planPending \<or> cur = planPending \<and> by_user \<noteq> Some uid \<and> (st = planAcmApproved \<or> st = planDraft)"
  shows "touches I s (SetVaultPlanStatus v st uid reason pid s)"
  unfolding SetVaultPlanStatus_def
proof (rule update_plans_touches, goal_cases)
  case (4 p)
  then show ?case using assms(1) by simp
next
  case (5 p)
  then have "vp_status p = cur" "vp_submitted_by p = by_user" using assms(1) by simp_all
  with assms(2) 5 show ?case
    by (elim disjE conjE) (simp_all add: plan_row_simps stamp_def)
qed simp_all

lemma insert_plan_touches:
  assumes "rid \<in> I" and "\<not> plan_conflict (rd_plans s) rid area" "area_by_id (rd_master s) area \<noteq> None"
  shows "touches I s (s\<lparr>rd_ids := (rd_ids s)(''vendor_request_vault_plans'' := rd_ids s ''vendor_request_vault_plans'' + 1),
     rd_plans := rd_plans s @ [draft_plan (rd_ids s ''vendor_request_vault_plans'') rid area]\<rparr>)"
proof -
  have none: "filter live_plan (plans_of rid s) = []"
    using assms(2) by (auto simp: plan_conflict_def plans_of_def list_ex_iff filter_empty_conv)
  have row: "plan_row_ok (draft_plan n rid area)" for n by (simp add: draft_plan_def plan_row_simps)
  show ?thesis
    unfolding touches_def
  proof (intro conjI impI allI)
    assume ok: "plans_ok s"
    have "one_live (plans_of i (s\<lparr>rd_ids := g, rd_plans := rd_plans s @ [draft_plan n rid area]\<rparr>))" for i g n
      using none ok by (cases "i = rid") (auto simp: plans_ok_def one_live_def plans_of_def draft_plan_def)
    then show "plans_ok (s\<lparr>rd_ids := (rd_ids s)(''vendor_request_vault_plans'' := rd_ids s ''vendor_request_vault_plans'' + 1),
        rd_plans := rd_plans s @ [draft_plan (rd_ids s ''vendor_request_vault_plans'') rid area]\<rparr>)"
      using ok row assms(3) by (force simp: plans_ok_def draft_plan_def)
  qed (use assms(1) in \<open>auto simp: plans_of_def draft_plan_def\<close>)
qed

section \<open>Bodies\<close>

lemma write_touch:
  "rid \<in> I \<Longrightarrow> stays (touches I) (tx_write (ResetVaultPlansToDraft rid))"
  "rid \<in> I \<Longrightarrow> stays (touches I) (tx_write (CancelVaultPlansForRequest rid))"
  by (simp_all add: touch.st_write reset_touches cancel_touches)

text \<open>New plans for some requests, in areas that exist.\<close>

lemma insert_plans_touch:
  assumes "\<forall>x \<in> set xs. fst x \<in> I \<and> area_by_id (rd_master s) (snd x) \<noteq> None"
  shows "wp (insert_plans xs) s (\<lambda>_. touches I s)"
  using assms
proof (induction xs arbitrary: s rule: insert_plans.induct)
  case (2 i area rest)
  have later: "wp (insert_plans rest) t (\<lambda>_. touches I s)" if "touches I s t" "rd_master t = rd_master s" for t
  proof -
    have "wp (insert_plans rest) t (\<lambda>_. touches I t)" by (rule "2.IH"(1) [of True]) (use "2.prems" that(2) in auto)
    then show ?thesis by (rule wp_mono) (rule touch.trans_R [OF that(1)])
  qed
  have fresh: "wp (fresh_id table) s Q = Q (rd_ids s table) (s\<lparr>rd_ids := (rd_ids s)(table := rd_ids s table + 1)\<rparr>)" for table Q
    by (simp add: wp_def fresh_id_def)
  show ?case
    using "2.prems" insert_plan_touches [of i I s area]
    by (auto simp: wp_simps fresh touch.refl_R intro!: later)
qed (simp add: wp_simps touch.refl_R)

lemma plan_areas_known: "area \<in> set (plan_areas md r) \<Longrightarrow> area_by_id md area \<noteq> None"
  by (auto simp: plan_areas_def area_by_id_def find_row_None list_ex_iff)

definition assigning :: "id64 option \<Rightarrow> vdb \<Rightarrow> id64 set" where
  "assigning requestID s = vr_id ` {r \<in> set (rd_requests s). plan_wanted requestID s r}"

lemma CreateMissing_touch: "wp (CreateMissingVaultPlansByRegion requestID) s (\<lambda>_. touches (assigning requestID s) s)"
  unfolding CreateMissingVaultPlansByRegion_def wp_basic
  by (rule insert_plans_touch) (auto simp: assigning_def dest: plan_areas_known)

lemma created_entries_stay:
  "stays (\<lambda>s t. plan_view t = plan_view s) (tx_each (\<lambda>p. tx_then (write_log v (audit_entry u act vaultPlanEntity (vp_id p) b (a p) ip))
     (notify_area_users v (vp_acm_area_id p) (msg p))) ps)"
  by (intro stays_intros) (simp add: audit_entry_def vaultPlanEntity_def)

lemma createVaultPlans_touch: "wp (createVaultPlans v actor requestID) s (\<lambda>_. touches (assigning requestID s) s)"
  unfolding createVaultPlans_def wp_basic
  by (rule disjI2, rule wp_mono [OF CreateMissing_touch], rule wp_stays [OF created_entries_stay])
    (rule touch.trans_R, assumption, rule same_plans)

lemma resetVaultPlans_touch: "vr_id req \<in> I \<Longrightarrow> stays (touches I) (resetVaultPlansForReapproval v actor req)"
  unfolding resetVaultPlansForReapproval_def
  by (intro stays_intros write_touch)
    (assumption | (rule touch_frame, intro stays_intros) | simp add: audit_entry_def vaultPlanEntity_def)+

lemma wp_request:
  "(\<And>req. GetVendorRequest rid s = Some req \<Longrightarrow> wp (f req) s Q) \<Longrightarrow> wp (tx_bind (GetVendorRequestForUpdate v rid) f) s Q"
  by (simp add: GetVendorRequestForUpdate_def wp_simps)

lemma transition_touch:
  "wp (transition_body v actor rid opts) s (\<lambda>_ t. touches {rid} s t)"
proof -
  have sub: "touches {rid} u t" if "touches (assigning (Some rid) u) u t" for u t
    using that by (auto simp: touches_def assigning_def plan_wanted_def)
  have "stays (touches {rid}) (createVaultPlans v actor (Some rid))"
    by (rule staysI) (use createVaultPlans_touch sub wpD in fastforce)
  note create = this
  show ?thesis
    unfolding transition_body_def
    by (rule wp_request, rule stays_wp, intro stays_intros create resetVaultPlans_touch)
      (auto dest: GetVendorRequest_id intro!: touch_frame stays_intros)
qed

lemma Cancel_touch: "wp (VendorRequest_Cancel_body v actor rid trimmed) s (\<lambda>_. touches {rid} s)"
  unfolding VendorRequest_Cancel_body_def
  by (rule stays_wp, intro stays_intros write_touch)
    (auto intro!: touch_frame stays_intros)

lemma review_touch: "wp (review_body v actor rid reason) s (\<lambda>_. touches {rid} s)"
  unfolding review_body_def Let_def
  by (rule stays_wp, intro stays_intros write_touch)
    (auto intro!: touch_frame stays_intros)

lemma afterVaultReject_touch: "stays (touches {vr_id req}) (afterVaultReject v va req p reason)"
  unfolding afterVaultReject_def
  by (intro stays_intros return_touches) (auto intro!: touch_frame stays_intros)

section \<open>Requests with a plan\<close>

text \<open>From the review of the plan on, and from the vendors on.\<close>

definition planned :: "vreq \<Rightarrow> bool" where
  "planned r \<longleftrightarrow> vr_status r \<in> {''vault_review'', ''sent_to_vendor'', ''vendor_accepted'', ''completion_pending'', ''completed''}"

definition handed :: "vreq \<Rightarrow> bool" where
  "handed r \<longleftrightarrow> vr_status r \<in> {''sent_to_vendor'', ''vendor_accepted'', ''completion_pending'', ''completed''}"

definition has_approved :: "vplan list \<Rightarrow> bool" where
  "has_approved ps \<longleftrightarrow> (\<exists>p \<in> set ps. vp_status p = planAcmApproved)"

definition reviewed_apart :: "vreq \<Rightarrow> vplan list \<Rightarrow> bool" where
  "reviewed_apart r ps \<longleftrightarrow> (\<exists>u. vr_vault_reviewed_by r = Some u
     \<and> (\<forall>p \<in> set ps. live_plan p \<longrightarrow> vp_submitted_by p \<noteq> Some u \<and> vp_approved_by p \<noteq> Some u))"

definition eyes_inv :: "vdb \<Rightarrow> bool" where
  "eyes_inv s \<longleftrightarrow> agreed_inv s \<and> plans_ok s
     \<and> (\<forall>r \<in> set (rd_requests s). planned r \<longrightarrow> has_approved (plans_of (vr_id r) s))
     \<and> (\<forall>r \<in> set (rd_requests s). handed r \<longrightarrow> reviewed_apart r (plans_of (vr_id r) s))"

lemma eyes_invD:
  assumes "eyes_inv s"
  shows "agreed_inv s" "plans_ok s" "r \<in> set (rd_requests s) \<Longrightarrow> planned r \<Longrightarrow> has_approved (plans_of (vr_id r) s)"
    "r \<in> set (rd_requests s) \<Longrightarrow> handed r \<Longrightarrow> reviewed_apart r (plans_of (vr_id r) s)"
  using assms by (auto simp: eyes_inv_def)

lemma handed_planned: "handed r \<Longrightarrow> planned r"
  by (auto simp: handed_def planned_def)

text \<open>A row that is no further than an old row of its request.\<close>

definition backed :: "vdb \<Rightarrow> vreq \<Rightarrow> bool" where
  "backed s r' \<longleftrightarrow> (\<exists>r \<in> set (rd_requests s). vr_id r = vr_id r' \<and> planned r
     \<and> (handed r' \<longrightarrow> handed r \<and> vr_vault_reviewed_by r' = vr_vault_reviewed_by r))"

lemma backed_old: "r \<in> set (rd_requests s) \<Longrightarrow> planned r \<Longrightarrow> backed s r"
  by (auto simp: backed_def)

lemma eyes_step:
  assumes inv: "eyes_inv s" and "agreed_inv t" and touch: "touches I s t"
    and rows: "\<And>r'. r' \<in> set (rd_requests t) \<Longrightarrow> planned r' \<Longrightarrow> vr_id r' \<notin> I \<and> backed s r'
      \<or> has_approved (plans_of (vr_id r') t) \<and> (handed r' \<longrightarrow> reviewed_apart r' (plans_of (vr_id r') t))"
  shows "eyes_inv t"
proof -
  have "has_approved (plans_of (vr_id r') t) \<and> (handed r' \<longrightarrow> reviewed_apart r' (plans_of (vr_id r') t))"
    if r': "r' \<in> set (rd_requests t)" "planned r'" for r'
  proof (cases "vr_id r' \<notin> I \<and> backed s r'")
    case True
    then obtain r where r: "r \<in> set (rd_requests s)" "vr_id r = vr_id r'" "planned r"
      "handed r' \<longrightarrow> handed r \<and> vr_vault_reviewed_by r' = vr_vault_reviewed_by r"
      by (auto simp: backed_def)
    have "plans_of (vr_id r') t = plans_of (vr_id r) s" using touch True r(2) by (simp add: touches_def)
    then show ?thesis
      using eyes_invD(3) [OF inv r(1,3)] eyes_invD(4) [OF inv r(1)] r(4) by (auto simp: reviewed_apart_def)
  next
    case False
    then show ?thesis using rows [OF r'] by blast
  qed
  moreover have "plans_ok t" using touch eyes_invD(2) [OF inv] by (simp add: touches_def)
  ultimately show ?thesis using assms(2) handed_planned by (simp add: eyes_inv_def)
qed

text \<open>Requests that the step leaves before the review, and requests it does not concern.\<close>

definition unplanned :: "id64 set \<Rightarrow> vdb \<Rightarrow> vdb \<Rightarrow> bool" where
  "unplanned I s t \<longleftrightarrow> (\<forall>r' \<in> set (rd_requests t). planned r' \<longrightarrow> r' \<in> set (rd_requests s) \<and> vr_id r' \<notin> I)"

lemma unplanned_step:
  assumes "eyes_inv s" "agreed_inv t" "touches I s t" "unplanned I s t"
  shows "eyes_inv t"
  by (rule eyes_step [OF assms(1-3)]) (use assms(4) backed_old in \<open>auto simp: unplanned_def\<close>)

lemma unplanned_update:
  assumes "rd_requests t = update_where (\<lambda>x. vr_id x = rid) g (rd_requests s)" and "\<And>r. \<not> planned (g r)"
  shows "unplanned {rid} s t"
  using assms by (auto simp: unplanned_def elim!: in_update_whereE)

lemma unplanned_rows [simp]:
  "\<not> planned (cancelled_row why r)" "\<not> planned (r\<lparr>vr_status := ''vault_assignment''\<rparr>)"
  "\<not> planned (review_row v ''vault_assignment'' u reason r)" "\<not> planned (status_row v ''vendor_rejected'' a reason r)"
  by (simp_all add: planned_def)

lemma transition_unplanned:
  assumes "to_action opts \<in> {ActionSubmit, ActionApprove, ActionReject, ActionRevise, ActionVendorReturn}"
  shows "wp (transition_body v actor rid opts) s (\<lambda>_. unplanned {rid} s)"
proof -
  have *: "unplanned {rid} s t"
    if "rd_requests t = update_where (\<lambda>x. vr_id x = rid) (status_row v st a reason) (rd_requests s)"
      "nextState cur (to_action opts) = Some st" for t st a reason cur
  proof (rule unplanned_update [OF that(1)])
    show "\<not> planned (status_row v st a reason r)" for r
      using stepped_to [OF that(2) assms] by (elim disjE conjE) (simp_all add: planned_def)
  qed
  show ?thesis
    by (auto simp: transition_body_def move_simps update_request_def intro!: wp_core stays_intros
        dest!: core_requests intro: *)
qed

lemma Cancel_unplanned: "wp (VendorRequest_Cancel_body v actor rid trimmed) s (\<lambda>_. unplanned {rid} s)"
  by (auto simp: VendorRequest_Cancel_body_def move_simps update_request_def CancelVaultPlansForRequest_def update_plans_def
      intro!: wp_core stays_intros dest!: core_requests intro: unplanned_update)

lemma review_reject_unplanned: "wp (review_body v actor rid (Some r)) s (\<lambda>_. unplanned {rid} s)"
proof -
  have *: "unplanned {rid} s t"
    if "rd_requests t = update_where (\<lambda>x. vr_id x = rid) (review_row v st a reason) (rd_requests s)"
      "nextState cur ActionVaultReject = Some st" for t st a reason cur
    by (rule unplanned_update [OF that(1)]) (use nextState_cases [OF that(2)] in simp)
  show ?thesis
    by (auto simp: review_body_def Let_def move_simps update_request_def ResetVaultPlansToDraft_def update_plans_def
        intro!: wp_core stays_intros dest!: core_requests intro: *)
qed

section \<open>Moves that keep the plans\<close>

lemma plain_move_planned:
  assumes "plain_move actor act r r'" "flow_ok r" "planned r'"
  shows "planned r \<and> (handed r' \<longrightarrow> handed r \<and> vr_vault_reviewed_by r' = vr_vault_reviewed_by r)"
proof -
  have mv: "request_move actor act r r'" and act: "act \<notin> {''vault_ready'', ''vault_approve'', ''vault_reject''}"
    using assms(1) by (simp_all add: plain_move_def)
  from mv show ?thesis
  proof (cases rule: request_move.cases)
    case (stepped a st v reason)
    from stepped_to [OF stepped(3,5)] assms(3) show ?thesis
      by (elim disjE conjE) (simp_all add: stepped(2) planned_def)
  next
    case (reported a st v reason)
    have "vr_status r \<in> {''vendor_accepted'', ''completion_pending''}"
      using from_completion [OF reported(4,6)] assms(2) by (auto simp: flow_ok_def)
    then show ?thesis by (auto simp: reported(2) planned_def handed_def completion_row_def)
  next
    case (reviewed a st v reason)
    then show ?thesis using act by auto
  qed (use assms(3) act in \<open>simp_all add: planned_def cancelled_row_def\<close>)
qed

lemma vendor_move_planned:
  assumes "vendor_move actor act r r'" "planned r'"
  shows "planned r \<and> (handed r' \<longrightarrow> handed r \<and> vr_vault_reviewed_by r' = vr_vault_reviewed_by r)"
  using assms by (cases rule: vendor_move.cases) (auto simp: planned_def handed_def status_row_def)

lemma core_move_backed:
  assumes mv: "core_move M actor (core s) (core t)" and inv: "agreed_inv s"
    and M: "\<And>act r r'. M actor act r r' \<Longrightarrow> flow_ok r \<Longrightarrow> planned r' \<Longrightarrow>
      planned r \<and> (handed r' \<longrightarrow> handed r \<and> vr_vault_reviewed_by r' = vr_vault_reviewed_by r)"
    and id: "\<And>act r r'. M actor act r r' \<Longrightarrow> vr_id r' = vr_id r"
    and r': "r' \<in> set (rd_requests t)" "planned r'"
  shows "backed s r'"
proof -
  from mv obtain act r g where r: "r \<in> set (rd_requests s)" and m: "M actor act r (g r)"
    and rs: "rd_requests t = update_where (\<lambda>x. vr_id x = vr_id r) g (rd_requests s)"
    by (auto simp: core_move_def core_def dest: find_row_Some)
  have "core_inv (core s)" using agreed_invD(1) [OF inv] by (simp add: request_inv_def)
  then have d: "distinct (map vr_id (rd_requests s))" using core_invD(1) by (fastforce simp: core_def)
  from r'(1) consider "r' = g r" | "r' \<in> set (rd_requests s)"
    using set_update_where_key [OF d r, of g] by (auto simp: rs)
  then show ?thesis
  proof cases
    case 1
    then show ?thesis using M [OF m agreed_invD(3) [OF inv r]] id [OF m] r r'(2) by (auto simp: backed_def)
  next
    case 2
    then show ?thesis using backed_old r'(2) by blast
  qed
qed

lemma any_move_id: "plain_move actor act r r' \<Longrightarrow> vr_id r' = vr_id r" "vendor_move actor act q q' \<Longrightarrow> vr_id q' = vr_id q"
  using move_identity [of actor act r r'] move_identity [of actor act q q']
  by (auto simp: any_move_def plain_move_def request_identity_def)

lemma plain_eyes:
  assumes inv: "eyes_inv s" and "agreed_inv t" and pv: "plan_view t = plan_view s"
    and mv: "core t = core s \<or> core_move plain_move actor (core s) (core t) \<or> core_move vendor_move actor (core s) (core t)
      \<or> core_create actor (core s) (core t)"
  shows "eyes_inv t"
proof (rule eyes_step [OF inv assms(2) same_plans [OF pv, of "{}"]])
  fix r' assume r': "r' \<in> set (rd_requests t)" "planned r'"
  note ag = eyes_invD(1) [OF inv]
  from mv have "backed s r'"
  proof (elim disjE)
    assume "core t = core s"
    then show ?thesis using r' backed_old core_requests by metis
  next
    assume "core_move plain_move actor (core s) (core t)"
    then show ?thesis by (rule core_move_backed [OF _ ag plain_move_planned any_move_id(1) r'])
  next
    assume "core_move vendor_move actor (core s) (core t)"
    then show ?thesis by (rule core_move_backed [OF _ ag vendor_move_planned any_move_id(2) r'])
  next
    assume "core_create actor (core s) (core t)"
    then obtain r where "rd_requests t = rd_requests s @ [r]" "vr_status r = ''draft''"
      using new_draft_row(2) by (auto simp: core_create_def core_def)
    then show ?thesis using r' backed_old by (auto simp: planned_def)
  qed
  then show "vr_id r' \<notin> {} \<and> backed s r'
      \<or> has_approved (plans_of (vr_id r') t) \<and> (handed r' \<longrightarrow> reviewed_apart r' (plans_of (vr_id r') t))"
    by simp
qed

section \<open>The review\<close>

lemma review_eyes:
  assumes inv: "eyes_inv s" and "agreed_inv t" and pv: "plan_view t = plan_view s"
    and req: "GetVendorRequest rid s = Some req" "vr_status req = ''vault_review''"
    and apart: "\<not> plannedBy (ListVaultPlansForRequest rid s) uid"
    and rs: "rd_requests t = update_where (\<lambda>x. vr_id x = rid) (review_row v st uid reason) (rd_requests s)"
  shows "eyes_inv t"
proof (rule eyes_step [OF inv assms(2) same_plans [OF pv, of "{}"]])
  fix r' assume r': "r' \<in> set (rd_requests t)" "planned r'"
  have plans: "plans_of i t = plans_of i s" for i using pv by (simp add: plan_view_def plans_of_def)
  have old: "req \<in> set (rd_requests s)" "vr_id req = rid"
    using find_row_Some [OF req(1) [unfolded GetVendorRequest_def]] by auto
  have apart': "vp_submitted_by p \<noteq> Some uid \<and> vp_approved_by p \<noteq> Some uid" if "p \<in> set (plans_of rid s)" "live_plan p" for p
  proof -
    have "p \<in> set (ListVaultPlansForRequest rid s)"
      using that eyes_invD(2) [OF inv] by (auto simp: ListVaultPlansForRequest_def plans_of_def plans_ok_def)
    then show ?thesis using apart by (auto simp: plannedBy_def list_ex_iff split: option.splits)
  qed
  have "has_approved (plans_of rid s)" using eyes_invD(3) [OF inv old(1)] req(2) old(2) by (simp add: planned_def)
  moreover have "reviewed_apart (review_row v st uid reason r) (plans_of rid s)" for r
    using apart' by (auto simp: reviewed_apart_def review_row_def)
  moreover have "vr_id (review_row v st uid reason r) = vr_id r" for r by (simp add: review_row_def)
  ultimately show "vr_id r' \<notin> {} \<and> backed s r'
      \<or> has_approved (plans_of (vr_id r') t) \<and> (handed r' \<longrightarrow> reviewed_apart r' (plans_of (vr_id r') t))"
    using r' backed_old unfolding rs plans by (auto elim!: in_update_whereE)
qed

definition review_done :: "venv \<Rightarrow> id64 \<Rightarrow> id64 \<Rightarrow> vdb \<Rightarrow> vdb \<Rightarrow> bool" where
  "review_done v uid rid s t \<longleftrightarrow> (\<exists>req st. GetVendorRequest rid s = Some req \<and> vr_status req = ''vault_review''
     \<and> \<not> plannedBy (ListVaultPlansForRequest rid s) uid
     \<and> rd_requests t = update_where (\<lambda>x. vr_id x = rid) (review_row v st uid None) (rd_requests s))"

lemma review_doneI:
  assumes "rd_requests t = update_where (\<lambda>x. vr_id x = rid) (review_row v st uid None) (rd_requests s)"
    and "GetVendorRequest rid s = Some req" "nextState (vr_status req) ActionVaultApprove = Some st"
    and "\<not> plannedBy (ListVaultPlansForRequest rid s) uid"
  shows "review_done v uid rid s t"
  using assms nextState_cases [OF assms(3)] by (auto simp: review_done_def)

lemma review_approves: "wp (review_body v actor rid None) s (\<lambda>_. review_done v (ac_UserID actor) rid s)"
  by (auto simp: review_body_def Let_def move_simps update_request_def
      intro!: wp_core stays_intros dest!: core_requests intro: review_doneI)

lemma review_approve_plans: "stays (\<lambda>s t. plan_view t = plan_view s) (review_body v actor rid None)"
  unfolding review_body_def by (simp add: tx_when_def, intro stays_intros)

section \<open>Decisions of vendors\<close>

definition back_or_same :: "id64 \<Rightarrow> vdb \<Rightarrow> vdb \<Rightarrow> bool" where
  "back_or_same rid s t \<longleftrightarrow> plan_view t = plan_view s \<or> touches {rid} s t \<and> unplanned {rid} s t"

lemma back_or_same_from:
  assumes "back_or_same rid u t" "plan_view u = plan_view s" "core u = core s"
  shows "back_or_same rid s t"
  using assms core_requests [OF assms(3)] touch.trans_R [OF same_plans [OF assms(2)], of "{rid}" t]
  by (auto simp: back_or_same_def unplanned_def)

lemma afterDecision_eyes: "wp (afterDecision v va scoped req p reason) u (\<lambda>_. back_or_same (vr_id req) u)"
proof (cases reason)
  case None
  have "stays (\<lambda>s t. plan_view t = plan_view s) (afterAccept v va req)" by (intro stays_intros)
  then show ?thesis unfolding None afterDecision_def
    by (auto simp: back_or_same_def intro: wp_stays)
next
  case (Some r)
  have refused: "wp (afterVaultReject v va req p r) u (\<lambda>_. back_or_same (vr_id req) u)"
    by (rule wp_conj_stays [OF afterVaultReject_moved afterVaultReject_touch])
      (auto simp: back_or_same_def moved_only_def intro: unplanned_update)
  have moved: "wp (moveRequest v va req st extra msg to) u (\<lambda>_. back_or_same (vr_id req) u)" for st extra msg to
    by (rule wp_stays [OF plan_view.moveRequest_stays]) (simp add: back_or_same_def)
  show ?thesis unfolding Some afterDecision_def by (auto intro: refused moved)
qed

lemma wp_plan_core: "stays (\<lambda>s t. plan_view t = plan_view s) m \<Longrightarrow> stays (\<lambda>s t. core t = core s) m
    \<Longrightarrow> (\<And>a t. plan_view t = plan_view s \<Longrightarrow> core t = core s \<Longrightarrow> Q a t) \<Longrightarrow> wp m s Q"
  by (auto simp: stays_def wp_def)

lemma recordDecision_eyes:
  assumes "plan_view u = plan_view s" "core u = core s"
  shows "wp (recordDecision v va scoped req p reason) u (\<lambda>_ t. \<exists>rid. back_or_same rid s t)"
proof -
  have tail: "wp (afterDecision v va scoped req p reason) w (\<lambda>_ t. \<exists>rid. back_or_same rid s t)"
    if "plan_view w = plan_view s" "core w = core s" for w
    by (rule wp_mono [OF afterDecision_eyes]) (use back_or_same_from that in blast)
  show ?thesis
    unfolding recordDecision_def Let_def wp_basic
    by (intro impI, rule wp_plan_core, intro stays_intros, intro stays_intros, rule wp_plan_core, intro stays_intros,
        intro stays_intros, rule wp_plan_core, intro stays_intros, simp add: audit_entry_def vendorPartyEntity_def,
        intro stays_intros, simp add: audit_entry_def vendorPartyEntity_def, rule tail)
      (use assms in auto)
qed

lemma decide_eyes: "wp (decide_body v va pid reason) s (\<lambda>_ t. \<exists>rid. back_or_same rid s t)"
  unfolding decide_body_def wp_basic(3)
  by (rule wp_plan_core [OF plan_view.portal_work(1) core.portal_work(1)],
      rule wp_plan_core [OF plan_view.portal_work(2) core.portal_work(2)])
    (auto simp: lock_request_def wp_simps intro: recordDecision_eyes)

section \<open>Operations on plans\<close>

text \<open>The plan an operation holds: every row of that identifier looks like the one it read.\<close>

definition plan_key :: "vplan \<Rightarrow> id64 \<times> id64 \<times> string \<times> id64 option" where
  "plan_key q = (vp_id q, vp_vendor_request_id q, vp_status q, vp_submitted_by q)"

definition held :: "plan_row \<Rightarrow> id64 \<Rightarrow> vdb \<Rightarrow> bool" where
  "held p rid s \<longleftrightarrow> (\<forall>k \<in> set (map plan_key (rd_plans s)). fst k = vp_id (pl_plan p)
       \<longrightarrow> snd k = (rid, vp_status (pl_plan p), vp_submitted_by (pl_plan p)))
     \<and> vp_id (pl_plan p) \<in> set (map vp_id (rd_plans s))"

lemma heldD: "held p rid s \<Longrightarrow> q \<in> set (rd_plans s) \<Longrightarrow> vp_id q = vp_id (pl_plan p)
    \<Longrightarrow> vp_vendor_request_id q = rid \<and> vp_status q = vp_status (pl_plan p) \<and> vp_submitted_by q = vp_submitted_by (pl_plan p)"
  by (auto simp: held_def plan_key_def)

lemma wp_planFor:
  assumes "\<And>p. GetVaultPlan pid s = Some p \<Longrightarrow> Q p s"
  shows "wp (planFor v actor pid) s Q"
  using assms by (auto simp: planFor_def wp_simps)

lemma wp_plan_body:
  assumes ok: "plans_ok s"
    and fn: "\<And>p req. held p (vr_id req) s \<Longrightarrow> GetVendorRequest (vr_id req) s = Some req \<Longrightarrow> wp (fn p req) s Q"
  shows "wp (plan_body v actor pid fn) s Q"
  unfolding plan_body_def wp_basic(3)
proof (rule wp_planFor)
  fix p assume p: "GetVaultPlan pid s = Some p"
  then obtain row where row: "plan_by_id pid s = Some row" "pl_plan p = row"
    by (auto simp: GetVaultPlan_def bind_eq_Some_conv)
  have in_row: "row \<in> set (rd_plans s)" "vp_id row = pid" using row(1) find_row_Some by (auto simp: plan_by_id_def dest: find_row_Some)
  have "distinct (map vp_id (rd_plans s))" using ok by (simp add: plans_ok_def)
  then have unique: "q = row" if "vp_id q = pid" "q \<in> set (rd_plans s)" for q
    using that in_row by (metis distinct_map inj_onD)
  have held: "held (p\<lparr>pl_plan := (pl_plan p)\<lparr>vp_status := vp_status l, vp_submitted_by := vp_submitted_by l, vp_buffer_reason := c\<rparr>\<rparr>)
      (vp_vendor_request_id (pl_plan p)) s" if "plan_by_id pid s = Some l" for l c
  proof -
    have "l = row" using that row by simp
    moreover have "snd k = (vp_vendor_request_id row, vp_status row, vp_submitted_by row)"
      if k: "k \<in> set (map plan_key (rd_plans s))" "fst k = vp_id row" for k
    proof -
      obtain q where "q \<in> set (rd_plans s)" "k = plan_key q" using k(1) by auto
      then show ?thesis using unique [of q] k(2) in_row(2) by (simp add: plan_key_def)
    qed
    ultimately show ?thesis using in_row(1) unfolding held_def row(2) by simp
  qed
  show "wp (lock_plan_request v (vp_vendor_request_id (pl_plan p))) s (\<lambda>req t.
      wp (query v ''LockVaultPlan'' ''lock vault plan'' (tx_get (VrPg ''lock vault plan'' PgNoRows) (plan_by_id pid))) t
        (\<lambda>locked u. wp (fn (p\<lparr>pl_plan := (pl_plan p)\<lparr>vp_status := vp_status locked,
           vp_submitted_by := vp_submitted_by locked, vp_buffer_reason := vp_buffer_reason locked\<rparr>\<rparr>) req) u Q))"
    unfolding lock_plan_request_def wp_basic wp_options
  proof (intro disjI2 allI impI fn)
    fix req l assume "GetVendorRequest (vp_vendor_request_id (pl_plan p)) s = Some req" and l: "plan_by_id pid s = Some l"
    then show "GetVendorRequest (vr_id req) s = Some req" using GetVendorRequest_id by metis
    have "vr_id req = vp_vendor_request_id (pl_plan p)" by (rule GetVendorRequest_id) fact
    then show "held (p\<lparr>pl_plan := (pl_plan p)\<lparr>vp_status := vp_status l, vp_submitted_by := vp_submitted_by l,
        vp_buffer_reason := vp_buffer_reason l\<rparr>\<rparr>) (vr_id req) s"
      using held [OF l] by simp
  qed
qed

text \<open>While the request is in assignment it is not planned.\<close>

lemma assigning_unplanned:
  assumes "agreed_inv s" "GetVendorRequest (vr_id req) s = Some req" "vr_status req = ''vault_assignment''" "rd_requests t = rd_requests s"
  shows "unplanned {vr_id req} s t"
proof -
  have "core_inv (core s)" using agreed_invD(1) [OF assms(1)] by (simp add: request_inv_def)
  then have d: "distinct (map vr_id (rd_requests s))" using core_invD(1) by (fastforce simp: core_def)
  have "r = req" if "r \<in> set (rd_requests s)" "vr_id r = vr_id req" for r
    using find_row_key [OF d that(1)] assms(2) that(2) by (simp add: GetVendorRequest_def)
  note unique = this
  have "\<not> planned req" using assms(3) by (simp add: planned_def)
  then show ?thesis using unique assms(4) unfolding unplanned_def by auto
qed

lemma held_same: "plan_view t = plan_view s \<Longrightarrow> held p rid s \<Longrightarrow> held p rid t"
  by (simp add: held_def plan_view_def)

lemma held_buffer:
  assumes "held p rid s"
  shows "held p rid (SetVaultPlanBufferReason b (vp_id (pl_plan p)) s)"
    and "touches {rid} s (SetVaultPlanBufferReason b (vp_id (pl_plan p)) s)"
proof -
  show "touches {rid} s (SetVaultPlanBufferReason b (vp_id (pl_plan p)) s)"
    by (rule buffer_touches) (use heldD [OF assms] in simp)
  show "held p rid (SetVaultPlanBufferReason b (vp_id (pl_plan p)) s)"
    using assms by (simp add: held_def SetVaultPlanBufferReason_def rd_plans_update plan_key_def del: set_map)
qed

lemma held_status:
  assumes "held p rid s"
    and "vp_status (pl_plan p) = planDraft \<and> st = planPending
      \<or> vp_status (pl_plan p) = planPending \<and> vp_submitted_by (pl_plan p) \<noteq> Some uid \<and> (st = planAcmApproved \<or> st = planDraft)"
  shows "touches {rid} s (SetVaultPlanStatus v st uid reason (vp_id (pl_plan p)) s)"
  by (rule status_touches [OF _ assms(2)]) (use heldD [OF assms(1)] in simp)

lemma plan_chain:
  assumes "held p rid s" and "plan_view u = plan_view s"
    and "plan_view w = plan_view (SetVaultPlanBufferReason b (vp_id (pl_plan p)) u)"
  shows "held p rid w" "touches {rid} s w"
proof -
  note h = held_same [OF assms(2,1)]
  show "held p rid w" by (rule held_same [OF assms(3) held_buffer(1) [OF h]])
  show "touches {rid} s w"
    by (rule touch.trans_R [OF same_plans [OF assms(2)]], rule touch.trans_R [OF held_buffer(2) [OF h] same_plans [OF assms(3)]])
qed

lemma wp_plan_view:
  "stays (\<lambda>s t. plan_view t = plan_view s) m \<Longrightarrow> (\<And>a t. plan_view t = plan_view s \<Longrightarrow> Q a t) \<Longrightarrow> wp m s Q"
  by (rule wp_stays)

lemma plan_view_clear [simp]: "plan_view (ClearVaultPlanAllocations pid s) = plan_view s"
  by (simp add: plan_view_def ClearVaultPlanAllocations_def)

lemma save_touch:
  assumes "held p rid s"
  shows "wp (save_allocations_fn v actor ins buffer p req) s (\<lambda>_. touches {rid} s)"
  unfolding save_allocations_fn_def plan_log_def
  by (auto simp: wp_simps plan_open_def intro!: wp_plan_view stays_intros simp: audit_entry_def vaultPlanEntity_def
      intro: plan_chain(2) [OF assms])

lemma submit_touch:
  assumes "held p rid s"
  shows "wp (submit_plan_fn v actor p req) s (\<lambda>_. touches {rid} s)"
proof -
  have *: "touches {rid} s t"
    if "plan_view t = plan_view (SetVaultPlanStatus v planPending uid None (vp_id (pl_plan p)) w)" "plan_view u = plan_view s"
      "plan_view w = plan_view (SetVaultPlanBufferReason b (vp_id (pl_plan p)) u)" "vp_status (pl_plan p) = planDraft" for t w u b uid
    by (rule touch.trans_R [OF plan_chain(2) [OF assms that(2,3)]], rule touch.trans_R [OF held_status same_plans [OF that(1)]])
      (use that(4) plan_chain(1) [OF assms that(2,3)] in auto)
  show ?thesis
    unfolding submit_plan_fn_def plan_log_def set_plan_status_def Let_def
    by (auto simp: wp_simps plan_open_def intro!: wp_plan_view stays_intros simp: audit_entry_def vaultPlanEntity_def intro: *)
qed

lemma reject_touch:
  assumes "held p rid s"
  shows "wp (reject_plan_fn v actor r p req) s (\<lambda>_. touches {rid} s)"
proof -
  have *: "touches {rid} s t"
    if "plan_view t = plan_view (SetVaultPlanStatus v planDraft uid reason (vp_id (pl_plan p)) s)"
      "vp_status (pl_plan p) = planPending" "vp_submitted_by (pl_plan p) \<noteq> Some uid" for t uid reason
    by (rule touch.trans_R [OF held_status same_plans [OF that(1)]]) (use that(2,3) assms in auto)
  show ?thesis
    unfolding reject_plan_fn_def plan_log_def set_plan_status_def
    by (auto simp: wp_simps plan_open_def intro!: wp_plan_view stays_intros simp: audit_entry_def vaultPlanEntity_def intro: *)
qed

text \<open>Approving the plan moves its request into the review.\<close>

lemma in_filter: "x \<in> set xs \<Longrightarrow> P x \<Longrightarrow> x \<in> set (filter P xs)"
  by simp

lemma in_update_where: "x \<in> set xs \<Longrightarrow> p x \<Longrightarrow> f x \<in> set (update_where p f xs)"
  by (force simp: update_where_def)

lemma plan_view_request [simp]: "plan_view (SetVendorRequestStatusOnly st rid s) = plan_view s"
  by (simp add: plan_view_def SetVendorRequestStatusOnly_def update_request_def)

lemma approved_has:
  assumes "held p rid s"
  shows "has_approved (plans_of rid (SetVaultPlanStatus v planAcmApproved uid reason (vp_id (pl_plan p)) s))"
proof -
  from assms obtain q where q: "q \<in> set (rd_plans s)" "vp_id q = vp_id (pl_plan p)" by (auto simp: held_def)
  then have "vp_vendor_request_id q = rid" using heldD [OF assms] by simp
  then show ?thesis
    unfolding has_approved_def plans_of_def SetVaultPlanStatus_def rd_plans_update
    by (intro bexI [OF _ in_filter [OF in_update_where [OF q(1)]]]) (simp_all add: q(2))
qed

lemma approve_touch:
  assumes "held p (vr_id req) s"
  shows "wp (approve_plan_fn v actor p req) s (\<lambda>_ t. touches {vr_id req} s t \<and> has_approved (plans_of (vr_id req) t))"
proof -
  have *: "touches {vr_id req} s t \<and> has_approved (plans_of (vr_id req) t)"
    if "plan_view t = plan_view (SetVaultPlanStatus v planAcmApproved uid reason (vp_id (pl_plan p)) s)"
      "vp_status (pl_plan p) = planPending" "vp_submitted_by (pl_plan p) \<noteq> Some uid" for t uid reason
  proof
    show "touches {vr_id req} s t"
      by (rule touch.trans_R [OF held_status same_plans [OF that(1)]]) (use that(2,3) assms in auto)
    have "plans_of (vr_id req) t = plans_of (vr_id req) (SetVaultPlanStatus v planAcmApproved uid reason (vp_id (pl_plan p)) s)"
      using that(1) by (simp add: plan_view_def plans_of_def)
    then show "has_approved (plans_of (vr_id req) t)" using approved_has [OF assms] by simp
  qed
  show ?thesis
    unfolding approve_plan_fn_def plan_log_def set_plan_status_def
    by (auto simp: wp_simps plan_open_def intro!: wp_plan_view stays_intros simp: audit_entry_def vaultPlanEntity_def
        dest: *)
qed

section \<open>Every step\<close>

definition eyes_after :: "vdb \<Rightarrow> bool" where
  "eyes_after t \<longleftrightarrow> (agreed_inv t \<longrightarrow> eyes_inv t)"

lemma wp_plain_eyes:
  assumes "eyes_inv s" and "stays (\<lambda>s t. plan_view t = plan_view s) m"
    and "wp m s (\<lambda>_ t. core_move plain_move actor (core s) (core t))"
  shows "wp m s (\<lambda>_. eyes_after)"
  by (rule wp_conj_stays [OF assms(3,2)]) (use plain_eyes [OF assms(1)] in \<open>auto simp: eyes_after_def\<close>)

lemma wp_still_eyes:
  assumes "eyes_inv s" and "stays (\<lambda>s t. plan_view t = plan_view s) m" and "stays (\<lambda>s t. core t = core s) m"
  shows "wp m s (\<lambda>_. eyes_after)"
  by (rule wp_plan_core [OF assms(2,3)]) (use plain_eyes [OF assms(1)] in \<open>auto simp: eyes_after_def\<close>)

lemma wp_unplanned:
  assumes "eyes_inv s" and "wp m s (\<lambda>_. touches {rid} s)" and "wp m s (\<lambda>_. unplanned {rid} s)"
  shows "wp m s (\<lambda>_. eyes_after)"
  by (rule wp_mono [OF wp_conj [OF assms(2,3)]]) (use unplanned_step [OF assms(1)] in \<open>auto simp: eyes_after_def\<close>)

text \<open>Operations on a plan whose request is in assignment.\<close>

lemma wp_plan_op:
  assumes inv: "eyes_inv s" and core: "\<And>p req. stays (\<lambda>s t. core t = core s) (fn p req)"
    and touch: "\<And>p req. held p (vr_id req) s \<Longrightarrow> wp (fn p req) s (\<lambda>_. touches {vr_id req} s)"
    and "open": "\<And>p req. \<exists>st m. fn p req = tx_then (plan_open p req st) m"
  shows "wp (plan_body v actor pid fn) s (\<lambda>_. eyes_after)"
proof (rule wp_plan_body [OF eyes_invD(2) [OF inv]])
  fix p req assume held: "held p (vr_id req) s" and req: "GetVendorRequest (vr_id req) s = Some req"
  obtain st m where fn: "fn p req = tx_then (plan_open p req st) m" using "open" by blast
  show "wp (fn p req) s (\<lambda>_. eyes_after)"
  proof (cases "vr_status req = ''vault_assignment''")
    case True
    have "wp (fn p req) s (\<lambda>_. unplanned {vr_id req} s)"
      by (rule wp_stays [OF core]) (rule assigning_unplanned [OF eyes_invD(1) [OF inv] req True core_requests])
    then show ?thesis by (rule wp_unplanned [OF inv touch [OF held]])
  next
    case False
    then show ?thesis by (simp add: fn wp_simps plan_open_def)
  qed
qed

lemma approve_plan_eyes:
  assumes inv: "eyes_inv s"
  shows "wp (plan_body v actor pid (approve_plan_fn v actor)) s (\<lambda>_. eyes_after)"
proof (rule wp_plan_body [OF eyes_invD(2) [OF inv]])
  fix p req assume held: "held p (vr_id req) s" and req: "GetVendorRequest (vr_id req) s = Some req"
  let ?g = "\<lambda>r. r\<lparr>vr_status := ''vault_review''\<rparr>"
  have rows: "wp (approve_plan_fn v actor p req) s (\<lambda>_ t. rd_requests t = update_where (\<lambda>x. vr_id x = vr_id req) ?g (rd_requests s))"
    by (auto simp: approve_plan_fn_def plan_open_def move_simps set_plan_status_def nextState_def transitions_def update_request_def
        SetVaultPlanStatus_def update_plans_def intro!: wp_core stays_intros dest!: core_requests)
  have eyes: "eyes_inv t" if "agreed_inv t" and t: "touches {vr_id req} s t" "has_approved (plans_of (vr_id req) t)"
    "rd_requests t = update_where (\<lambda>x. vr_id x = vr_id req) ?g (rd_requests s)" for t
  proof (rule eyes_step [OF inv that(1) t(1)])
    fix r' assume r': "r' \<in> set (rd_requests t)" "planned r'"
    have "\<not> handed (?g r)" "vr_id (?g r) = vr_id r" for r by (simp_all add: handed_def)
    then show "vr_id r' \<notin> {vr_id req} \<and> backed s r'
      \<or> has_approved (plans_of (vr_id r') t) \<and> (handed r' \<longrightarrow> reviewed_apart r' (plans_of (vr_id r') t))"
      using r' t(2) backed_old unfolding t(3) by (auto elim!: in_update_whereE)
  qed
  show "wp (approve_plan_fn v actor p req) s (\<lambda>_. eyes_after)"
    by (rule wp_mono [OF wp_conj [OF approve_touch [OF held] rows]]) (use eyes in \<open>auto simp: eyes_after_def\<close>)
qed

lemma open_plans_eyes:
  assumes inv: "eyes_inv s"
  shows "wp (createVaultPlans v actor None) s (\<lambda>_. eyes_after)"
proof -
  have rows: "unplanned (assigning None s) s t" if "core t = core s" for t
  proof -
    have "core_inv (core s)" using agreed_invD(1) [OF eyes_invD(1) [OF inv]] by (simp add: request_inv_def)
    then have d: "distinct (map vr_id (rd_requests s))" using core_invD(1) by (fastforce simp: core_def)
    have "\<not> planned r" if r: "r \<in> set (rd_requests s)" "vr_id r \<in> assigning None s" for r
    proof -
      obtain q where q: "q \<in> set (rd_requests s)" "vr_id r = vr_id q" "plan_wanted None s q"
        using r(2) unfolding assigning_def by blast
      have "r = q" using find_row_key [OF d q(1)] find_row_key [OF d r(1)] unfolding q(2) by simp
      then show ?thesis using q(3) by (simp add: plan_wanted_def planned_def)
    qed
    then show ?thesis using core_requests [OF that] by (auto simp: unplanned_def)
  qed
  show ?thesis
    by (rule wp_conj_stays [OF createVaultPlans_touch core.createVaultPlans_stay])
      (use unplanned_step [OF inv] rows in \<open>auto simp: eyes_after_def\<close>)
qed

lemma vstep_eyes_after:
  assumes inv: "eyes_inv s" and "vstep clk s t"
  shows "eyes_after t"
proof (rule vstep_wp [OF assms(2), where P = eyes_after], goal_cases)
  case 1
  then show ?case using inv by (simp add: eyes_after_def)
next
  case (2 v actor inp)
  show ?case
    by (rule wp_conj_stays [OF Create_creates plan_view.create_bodies(2)])
      (use plain_eyes [OF inv] in \<open>auto simp: eyes_after_def\<close>)
next
  case (4 v actor rid a reason)
  then have "to_action (opts_of a reason) \<in> {ActionSubmit, ActionApprove, ActionReject, ActionRevise, ActionVendorReturn}"
    by (auto simp: opts_of_def transition_acts_def)
  then show ?case by (rule wp_unplanned [OF inv transition_touch transition_unplanned])
next
  case (5 v actor rid trimmed)
  show ?case by (rule wp_unplanned [OF inv Cancel_touch Cancel_unplanned])
next
  case (10 v actor pid ins buffer)
  show ?case
    by (rule wp_plan_op [OF inv core.plan_bodies(1) save_touch]) (auto simp: save_allocations_fn_def)
next
  case (11 v actor pid)
  show ?case
    by (rule wp_plan_op [OF inv core.plan_bodies(2) submit_touch]) (auto simp: submit_plan_fn_def Let_def)
next
  case (12 v actor pid)
  show ?case by (rule approve_plan_eyes [OF inv])
next
  case (13 v actor pid r)
  show ?case
    by (rule wp_plan_op [OF inv core.plan_bodies(3) reject_touch]) (auto simp: reject_plan_fn_def)
next
  case (14 v actor rid reason)
  show ?case
  proof (cases reason)
    case None
    show ?thesis unfolding None
      by (rule wp_conj_stays [OF review_approves review_approve_plans])
        (use review_eyes [OF inv] in \<open>auto simp: eyes_after_def review_done_def\<close>)
  next
    case (Some r)
    show ?thesis unfolding Some by (rule wp_unplanned [OF inv review_touch review_reject_unplanned])
  qed
next
  case (15 v va pid reason)
  show ?case
    by (rule wp_mono [OF wp_conj [OF decide_moves decide_eyes]])
      (use plain_eyes [OF inv] unplanned_step [OF inv] in \<open>auto simp: eyes_after_def back_or_same_def\<close>)
next
  case (19 md)
  then have "plans_ok (s\<lparr>rd_master := md\<rparr>)"
    using eyes_invD(2) [OF inv] by (simp add: plans_ok_def keeps_areas_def plans_of_def)
  then show ?case using inv by (simp add: eyes_after_def eyes_inv_def plans_of_def)
next
  case (21 v actor)
  show ?case by (rule open_plans_eyes [OF inv])
qed (rule wp_plain_eyes [OF inv _ UpdateItems_plain]
    wp_plain_eyes [OF inv _ completion_plain [OF submit_completion_reports]]
    wp_plain_eyes [OF inv _ completion_plain [OF approve_completion_reports]]
    wp_plain_eyes [OF inv _ completion_plain [OF reject_completion_reports]]
    wp_plain_eyes [OF inv _ completion_plain [OF realization_reports [OF refl]]], (intro stays_intros | rule insertI1 insertI2)+
    | (rule wp_still_eyes [OF inv], intro stays_intros, intro stays_intros)
    | (insert inv, simp add: eyes_after_def eyes_inv_def plans_ok_def plans_of_def))+

lemma vstep_eyes_inv: "eyes_inv s \<Longrightarrow> vstep clk s t \<Longrightarrow> eyes_inv t"
  using vstep_eyes_after vstep_agreed_inv eyes_invD(1) by (metis eyes_after_def)

interpretation eyes: invariant_system vendor_start "vstep clk" eyes_inv for clk
proof unfold_locales
  show "vendor_start s \<Longrightarrow> eyes_inv s" for s
    using agreements.init_invar [of s]
    by (simp add: vendor_start_def eyes_inv_def plans_ok_def plans_of_def one_live_def)
qed (rule vstep_eyes_inv)

end
