(* ===== verification/Visit_Account.thy ===== *)
theory Visit_Account
  imports Vendor_System
begin

text \<open>
  The books of the visit quotas: what is left of an ATM's quota is its total less the visits counted
  against it and not cancelled since its last reset, and a request counts an ATM at most once.
  The clock of the database is an assumption here: two readings inside the server are never equal.
\<close>

section \<open>The books\<close>

type_synonym visit_books = "quota_row list \<times> visit_row list \<times> nat \<times> id64"

definition books :: "vdb \<Rightarrow> visit_books" where
  "books s = (rd_quotas s, rd_visits s, rd_ticks s, rd_ids s ''atm_visits'')"

text \<open>A visit that counts against a quota row.\<close>

definition counted :: "quota_row \<Rightarrow> visit_row \<Rightarrow> bool" where
  "counted q x \<longleftrightarrow> vs_atm_id x = qt_atm_id q \<and> vs_quota_known x \<and> vs_cancelled_at x = None \<and> qt_reset_at q \<le> vs_created_at x"

definition used :: "quota_row \<Rightarrow> visit_row list \<Rightarrow> int" where
  "used q xs = int (length (filter (counted q) xs))"

fun books_ok :: "(nat \<Rightarrow> timestamp) \<Rightarrow> visit_books \<Rightarrow> bool" where
  "books_ok clk (qs, xs, k, n) \<longleftrightarrow> distinct (map qt_atm_id qs) \<and> distinct (map vs_id xs)
     \<and> distinct (map (\<lambda>x. (vs_vendor_request_id x, vs_atm_id x)) xs)
     \<and> (\<forall>x \<in> set xs. vs_id x < n \<and> vs_created_at x < clk k)
     \<and> (\<forall>q \<in> set qs. qt_reset_at q < clk k \<and> qt_remaining q = qt_quota_total q - used q xs)"

lemma books_okD:
  assumes "books_ok clk (qs, xs, k, n)"
  shows "distinct (map qt_atm_id qs)" "distinct (map vs_id xs)"
    "distinct (map (\<lambda>x. (vs_vendor_request_id x, vs_atm_id x)) xs)"
    "x \<in> set xs \<Longrightarrow> vs_id x < n" "x \<in> set xs \<Longrightarrow> vs_created_at x < clk k"
    "q \<in> set qs \<Longrightarrow> qt_reset_at q < clk k" "q \<in> set qs \<Longrightarrow> qt_remaining q = qt_quota_total q - used q xs"
  using assms by auto

lemma books_okI:
  assumes "distinct (map qt_atm_id qs)" "distinct (map vs_id xs)"
    "distinct (map (\<lambda>x. (vs_vendor_request_id x, vs_atm_id x)) xs)"
    "\<And>x. x \<in> set xs \<Longrightarrow> vs_id x < n" "\<And>x. x \<in> set xs \<Longrightarrow> vs_created_at x < clk k"
    "\<And>q. q \<in> set qs \<Longrightarrow> qt_reset_at q < clk k" "\<And>q. q \<in> set qs \<Longrightarrow> qt_remaining q = qt_quota_total q - used q xs"
  shows "books_ok clk (qs, xs, k, n)"
  using assms by auto

lemma used_append [simp]: "used q (xs @ [x]) = used q xs + (if counted q x then 1 else 0)"
  by (simp add: used_def)

lemma used_none: "(\<And>x. x \<in> set xs \<Longrightarrow> vs_created_at x < qt_reset_at q) \<Longrightarrow> used q xs = 0"
  by (fastforce simp: used_def filter_empty_conv counted_def)

lemma used_remaining [simp]: "used (q\<lparr>qt_remaining := m\<rparr>) xs = used q xs"
proof -
  have "counted (q\<lparr>qt_remaining := m\<rparr>) = counted q" by (rule ext) (simp add: counted_def)
  then show ?thesis by (simp add: used_def)
qed

lemma used_update_same: "(\<And>x. counted q (f x) = counted q x) \<Longrightarrow> used q (update_where p f xs) = used q xs"
  by (induction xs) (simp_all add: used_def)

text \<open>Cancelling one visit among rows with distinct identifiers.\<close>

lemma used_cancel:
  assumes "distinct (map vs_id xs)" "x \<in> set xs" "vs_cancelled_at x = None"
    and f: "\<And>y. vs_cancelled_at (f y) \<noteq> None"
  shows "used q (update_where (\<lambda>y. vs_id y = vs_id x \<and> vs_cancelled_at y = None) f xs)
    = used q xs - (if counted q x then 1 else 0)"
  using assms(1,2)
proof (induction xs)
  case (Cons y ys)
  have off: "\<not> counted q (f z)" for z using f by (simp add: counted_def)
  show ?case
  proof (cases "y = x")
    case True
    have "update_where (\<lambda>y. vs_id y = vs_id x \<and> vs_cancelled_at y = None) f ys = ys"
      using Cons.prems(1) True by (induction ys) auto
    then show ?thesis using True assms(3) off by (simp add: used_def)
  next
    case False
    then have "vs_id y \<noteq> vs_id x" "x \<in> set ys" using Cons.prems by auto
    then show ?thesis using Cons by (auto simp: used_def split: if_splits)
  qed
qed simp

section \<open>What each statement does to the books\<close>

lemma books_tick: "strict_mono clk \<Longrightarrow> books_ok clk (qs, xs, k, n) \<Longrightarrow> books_ok clk (qs, xs, Suc k, n)"
  using strict_mono_less [of clk k "Suc k"] by (fastforce intro: less_trans)

lemma books_new_quota:
  assumes "strict_mono clk" and ok: "books_ok clk (qs, xs, k, n)" and "qt_atm_id q \<notin> qt_atm_id ` set qs"
    and q: "qt_reset_at q = clk k" "qt_remaining q = qt_quota_total q"
  shows "books_ok clk (qs @ [q], xs, Suc k, n)"
proof -
  have "used q xs = 0" using books_okD(5) [OF ok] q(1) by (intro used_none) simp
  moreover have "clk k < clk (Suc k)" using assms(1) by (simp add: strict_mono_less)
  ultimately show ?thesis using books_tick [OF assms(1) ok] assms(3) q by auto
qed

lemma books_reset:
  assumes "strict_mono clk" and ok: "books_ok clk (qs, xs, k, n)"
    and q: "qt_atm_id q = atm" "qt_reset_at q = clk k" "qt_remaining q = qt_quota_total q"
  shows "books_ok clk (update_where (\<lambda>x. qt_atm_id x = atm) (\<lambda>_. q) qs, xs, Suc k, n)"
proof -
  have 0: "used q xs = 0" using books_okD(5) [OF ok] q(2) by (intro used_none) simp
  have 1: "clk k < clk (Suc k)" using assms(1) by (simp add: strict_mono_less)
  have "map qt_atm_id (update_where (\<lambda>x. qt_atm_id x = atm) (\<lambda>_. q) qs) = map qt_atm_id qs"
    using q(1) by (induction qs) auto
  then show ?thesis using books_tick [OF assms(1) ok] q 0 1 by (auto elim!: in_update_whereE)
qed

lemma books_visit:
  assumes "strict_mono clk" and ok: "books_ok clk (qs, xs, k, n)"
    and x: "vs_id x = n" "vs_created_at x = clk k" "\<not> vs_quota_known x"
    and dup: "\<not> list_ex (\<lambda>y. vs_vendor_request_id y = vs_vendor_request_id x \<and> vs_atm_id y = vs_atm_id x) xs"
  shows "books_ok clk (qs, xs @ [x], Suc k, n + 1)"
proof -
  note t = books_okD [OF books_tick [OF assms(1) ok]]
  have 1: "clk k < clk (Suc k)" using assms(1) by (simp add: strict_mono_less)
  have "vs_id x \<notin> vs_id ` set xs" using t(4) x(1) by force
  moreover have "(vs_vendor_request_id x, vs_atm_id x) \<notin> (\<lambda>x. (vs_vendor_request_id x, vs_atm_id x)) ` set xs"
    using dup by (auto simp: list_ex_iff)
  ultimately show ?thesis
    using t 1 x by (intro books_okI) (force simp: counted_def)+
qed

lemma books_counted_visit:
  assumes "strict_mono clk" and ok: "books_ok clk (qs, xs, k, n)"
    and x: "vs_id x = n" "vs_created_at x = clk k" "vs_quota_known x" "vs_cancelled_at x = None" "vs_atm_id x = atm"
    and dup: "\<not> list_ex (\<lambda>y. vs_vendor_request_id y = vs_vendor_request_id x \<and> vs_atm_id y = vs_atm_id x) xs"
  shows "books_ok clk (update_where (\<lambda>q. qt_atm_id q = atm) (\<lambda>q. q\<lparr>qt_remaining := qt_remaining q - 1\<rparr>) qs, xs @ [x], Suc k, n + 1)"
proof -
  note t = books_okD [OF books_tick [OF assms(1) ok]]
  have 1: "clk k < clk (Suc k)" using assms(1) by (simp add: strict_mono_less)
  have new: "vs_id x \<notin> vs_id ` set xs" using t(4) x(1) by force
  have key: "(vs_vendor_request_id x, vs_atm_id x) \<notin> (\<lambda>x. (vs_vendor_request_id x, vs_atm_id x)) ` set xs"
    using dup by (auto simp: list_ex_iff)
  have since: "qt_reset_at q \<le> clk k" if "q \<in> set qs" for q using books_okD(6) [OF ok that] by simp
  show ?thesis
  proof (rule books_okI)
    fix q assume "q \<in> set (update_where (\<lambda>q. qt_atm_id q = atm) (\<lambda>q. q\<lparr>qt_remaining := qt_remaining q - 1\<rparr>) qs)"
    then have "qt_reset_at q < clk (Suc k) \<and> qt_remaining q = qt_quota_total q - used q (xs @ [x])"
    proof (cases rule: in_update_whereE)
      case kept
      then show ?thesis using t(6,7) x by (simp add: counted_def)
    next
      case (changed r)
      then show ?thesis using t(6) [of r] t(7) [of r] since [of r] x by (simp add: counted_def)
    qed
    then show "qt_reset_at q < clk (Suc k)" "qt_remaining q = qt_quota_total q - used q (xs @ [x])" by simp_all
  qed (use t 1 x new key in force)+
qed

text \<open>No old visit has the next identifier.\<close>

lemma books_fresh: "books_ok clk (qs, xs, k, n) \<Longrightarrow> update_where (\<lambda>x. vs_id x = n) f xs = xs"
proof -
  assume "books_ok clk (qs, xs, k, n)"
  then have "\<forall>x \<in> set xs. vs_id x \<noteq> n" using books_okD(4) by blast
  then show ?thesis by (induction xs) auto
qed

lemma books_cancel:
  assumes ok: "books_ok clk (qs, xs, k, n)" and x: "x \<in> set xs" "vs_cancelled_at x = None"
    and f: "\<And>y. vs_cancelled_at (f y) \<noteq> None"
      "\<And>y. (vs_id (f y), vs_vendor_request_id (f y), vs_atm_id (f y), vs_created_at (f y)) = (vs_id y, vs_vendor_request_id y, vs_atm_id y, vs_created_at y)"
    and qs': "if vs_quota_known x
       then qs' = update_where (\<lambda>q. qt_atm_id q = vs_atm_id x) (\<lambda>q. q\<lparr>qt_remaining := qt_remaining q + 1\<rparr>) qs
         \<and> (\<forall>q \<in> set qs. qt_atm_id q = vs_atm_id x \<longrightarrow> qt_reset_at q \<le> vs_created_at x)
       else qs' = qs"
  shows "books_ok clk (qs', update_where (\<lambda>y. vs_id y = vs_id x \<and> vs_cancelled_at y = None) f xs, k, n)"
proof -
  note t = books_okD [OF ok]
  have c: "used q (update_where (\<lambda>y. vs_id y = vs_id x \<and> vs_cancelled_at y = None) f xs) = used q xs - (if counted q x then 1 else 0)" for q
    by (rule used_cancel [OF t(2) x f(1)])
  have xn: "vs_id x < n" by (rule t(4) [OF x(1)])
  have q: "qt_reset_at q < clk k \<and> qt_remaining q = qt_quota_total q - (used q xs - (if counted q x then 1 else 0))"
    if "q \<in> set qs'" for q
  proof (cases "vs_quota_known x")
    case True
    then have "q \<in> set (update_where (\<lambda>q. qt_atm_id q = vs_atm_id x) (\<lambda>q. q\<lparr>qt_remaining := qt_remaining q + 1\<rparr>) qs)"
      using that qs' by simp
    then show ?thesis
    proof (cases rule: in_update_whereE)
      case kept
      then show ?thesis using t(6,7) by (simp add: counted_def)
    next
      case (changed r)
      then show ?thesis using t(6) [of r] t(7) [of r] qs' True x by (simp add: counted_def)
    qed
  next
    case False
    then show ?thesis using qs' that t(6,7) by (simp add: counted_def)
  qed
  have keys: "distinct (map qt_atm_id qs')" using qs' t(1) by (cases "vs_quota_known x") auto
  show ?thesis
    by (rule books_okI) (use t xn keys q c f(2) in \<open>auto elim!: in_update_whereE\<close>)
qed

declare books_ok.simps [simp del]

section \<open>Statements and bodies\<close>

definition quota_ok :: "(nat \<Rightarrow> timestamp) \<Rightarrow> vdb \<Rightarrow> bool" where
  "quota_ok clk s \<longleftrightarrow> books_ok clk (books s)"

interpretation quota_ok: request_plan_party_frame "quota_ok clk" for clk
  by unfold_locales (simp_all add: quota_ok_def books_def)

lemma stays_kept: "stays (\<lambda>s t. P t = P s) m \<Longrightarrow> stays (\<lambda>s t. P s \<longrightarrow> P t) m"
  by (auto simp: stays_def)

lemmas book_simps = tx_defs clock_timestamp_def fresh_id_def update_quota_def update_visit_def
  GetAtmVisitQuotaForUpdate_def quota_ok_def books_def

lemma Ensure_books:
  assumes "strict_mono clk" "ve_clk v = clk"
  shows "stays (\<lambda>s t. quota_ok clk s \<longrightarrow> quota_ok clk t) (EnsureAtmVisitQuota v atm label total')"
  using assms
  by (auto simp: stays_def EnsureAtmVisitQuota_def book_simps find_row_None split: if_splits
      intro!: books_new_quota intro: books_tick)

lemma Reset_books:
  assumes "strict_mono clk" "ve_clk v = clk"
  shows "stays (\<lambda>s t. quota_ok clk s \<longrightarrow> quota_ok clk t) (ResetAtmVisitQuota v atm label total' u)"
  using assms
  by (auto simp: stays_def ResetAtmVisitQuota_def Let_def book_simps find_row_None split: if_splits
      intro!: books_new_quota books_reset)

lemma count_visit_books:
  assumes "strict_mono clk" "ve_clk v = clk"
  shows "stays (\<lambda>s t. quota_ok clk s \<longrightarrow> quota_ok clk t) (count_visit v rid terminalID atm known)"
  using assms
  by (auto simp: stays_def count_visit_def InsertAtmVisit_def Let_def book_simps AdjustAtmVisitQuota_def
      MarkAtmVisitOverQuota_def pg_stmt_def books_fresh split: if_splits option.splits sum.splits
      intro: books_tick books_visit books_counted_visit)

lemma recordVisit_books:
  assumes "strict_mono clk" "ve_clk v = clk"
  shows "stays (\<lambda>s t. quota_ok clk s \<longrightarrow> quota_ok clk t) (recordVisit v rid terminalID asOf)"
  unfolding recordVisit_def
  by (intro stays_intros Ensure_books count_visit_books assms)

lemma resetOne_books:
  assumes "strict_mono clk" "ve_clk v = clk"
  shows "stays (\<lambda>s t. quota_ok clk s \<longrightarrow> quota_ok clk t) (resetOne v actor atm terminalID label total')"
  unfolding resetOne_def
  by (intro stays_intros Reset_books assms, rule stays_kept, intro stays_intros) (simp add: audit_entry_def)

lemma reset_loop_books:
  assumes "strict_mono clk" "ve_clk v = clk"
  shows "stays (\<lambda>s t. quota_ok clk s \<longrightarrow> quota_ok clk t) (reset_loop v actor res atms)"
  by (induction atms arbitrary: res)
    (auto intro!: stays_intros resetOne_books assms split: option.splits prod.splits)

lemma CancelVisit_books:
  assumes "quota_ok clk s"
  shows "wp (CancelVisit_body v actor vid trimmed) s (\<lambda>_. quota_ok clk)"
proof -
  let ?f = "\<lambda>x. x\<lparr>vs_cancelled_at := Some (ve_now v), vs_cancelled_by := Some (ac_UserID actor), vs_cancel_reason := Some trimmed\<rparr>"
  have sel: "q = q'" if "find_row (\<lambda>q. qt_atm_id q = a) (rd_quotas s) = Some q" "q' \<in> set (rd_quotas s)" "qt_atm_id q' = a" for q q' a
    using find_row_key [OF books_okD(1) [OF assms [unfolded quota_ok_def books_def]] that(2)] that by simp
  have logged: "quota_ok clk (u\<lparr>rd_audit := l\<rparr>) = quota_ok clk u" for u l by (rule quota_ok.no_audit)
  have known: "quota_ok clk (CancelAtmVisit v (ac_UserID actor) trimmed vid
      (update_quota (vs_atm_id x) (\<lambda>q. q\<lparr>qt_remaining := qt_remaining q + 1\<rparr>) s))"
    if "find_row (\<lambda>x. vs_id x = vid) (rd_visits s) = Some x" "vs_cancelled_at x = None" "vs_quota_known x"
      "find_row (\<lambda>q. qt_atm_id q = vs_atm_id x) (rd_quotas s) = Some q" "\<not> vs_created_at x < qt_reset_at q" for x q
  proof -
    have "\<forall>q' \<in> set (rd_quotas s). qt_atm_id q' = vs_atm_id x \<longrightarrow> qt_reset_at q' \<le> vs_created_at x"
      using sel [OF that(4)] that(5) by (metis not_le)
    then show ?thesis
      using books_cancel [OF assms [unfolded quota_ok_def books_def], of x ?f] find_row_Some [OF that(1)] that(2,3)
      by (simp add: quota_ok_def books_def CancelAtmVisit_def update_visit_def update_quota_def)
  qed
  have unknown: "quota_ok clk (CancelAtmVisit v (ac_UserID actor) trimmed vid s)"
    if "find_row (\<lambda>x. vs_id x = vid) (rd_visits s) = Some x" "vs_cancelled_at x = None" "\<not> vs_quota_known x" for x
    using books_cancel [OF assms [unfolded quota_ok_def books_def], of x ?f] find_row_Some [OF that(1)] that(2,3)
    by (simp add: quota_ok_def books_def CancelAtmVisit_def update_visit_def)
  have adj: "wp (AdjustAtmVisitQuota 1 a) s Q"
    if "\<And>q. Q q (update_quota a (\<lambda>q. q\<lparr>qt_remaining := qt_remaining q + 1\<rparr>) s)" for a Q
    using that by (auto simp: wp_def AdjustAtmVisitQuota_def split: option.splits)
  show ?thesis
    unfolding CancelVisit_body_def write_log_def GetAtmVisitForUpdate_def GetAtmVisitQuotaForUpdate_def
    by (auto simp: wp_simps logged intro!: adj unknown known)
qed

lemma approve_completion_books:
  assumes "strict_mono clk" "ve_clk v = clk" "quota_ok clk s"
  shows "wp (completion_body v actor rid ActionApproveCompletion (approve_completion_apply v actor rid)) s (\<lambda>_. quota_ok clk)"
proof -
  have "stays (\<lambda>s t. quota_ok clk s \<longrightarrow> quota_ok clk t) (approve_completion_apply v actor rid req st)" for req st
    unfolding approve_completion_apply_def Let_def
    by (intro stays_intros recordVisit_books assms(1,2)) (rule stays_kept, intro stays_intros)+
  then have "stays (\<lambda>s t. quota_ok clk s \<longrightarrow> quota_ok clk t)
      (completion_body v actor rid ActionApproveCompletion (approve_completion_apply v actor rid))"
    unfolding completion_body_def Let_def
    by (intro stays_intros) (assumption | rule stays_kept, intro stays_intros)+
  then show ?thesis using assms(3) by (auto simp: wp_def stays_def)
qed

lemma vstep_quota_ok:
  assumes "strict_mono clk" "quota_ok clk s" and "vstep clk s t"
  shows "quota_ok clk t"
proof (rule vstep_wp [OF assms(3), where P = "quota_ok clk"], goal_cases)
  case (7 v actor rid)
  show ?case by (rule approve_completion_books) (use 7 assms(1,2) in simp_all)
next
  case (16 v actor terminalID)
  have "stays (\<lambda>s t. quota_ok clk s \<longrightarrow> quota_ok clk t) (ResetATM_body v actor terminalID)"
    unfolding ResetATM_body_def by (intro stays_intros resetOne_books assms(1) 16)
  then show ?case using assms(2) by (auto simp: wp_def stays_def)
next
  case (17 v actor vendorID)
  have "stays (\<lambda>s t. quota_ok clk s \<longrightarrow> quota_ok clk t) (ResetVendor_body v actor vendorID)"
    unfolding ResetVendor_body_def by (intro stays_intros reset_loop_books assms(1) 17)
  then show ?case using assms(2) by (auto simp: wp_def stays_def)
next
  case (18 v actor vid trimmed)
  show ?case by (rule CancelVisit_books [OF assms(2)])
qed (rule assms(2) | (rule wp_stays [where R = "\<lambda>s t. quota_ok clk t = quota_ok clk s"], intro stays_intros, simp add: assms(2))
    | (insert assms(2), simp add: quota_ok_def books_def))+

text \<open>Databases with and without a clock that never repeats.\<close>

definition account_inv :: "(nat \<Rightarrow> timestamp) \<Rightarrow> vdb \<Rightarrow> bool" where
  "account_inv clk s \<longleftrightarrow> (strict_mono clk \<longrightarrow> quota_ok clk s)"

interpretation accounts: invariant_system vendor_start "vstep clk" "account_inv clk" for clk
proof unfold_locales
  show "vendor_start s \<Longrightarrow> account_inv clk s" for s
    by (simp add: vendor_start_def account_inv_def quota_ok_def books_def books_ok.simps)
  show "account_inv clk s \<Longrightarrow> vstep clk s t \<Longrightarrow> account_inv clk t" for s t
    using vstep_quota_ok [of clk s t] by (simp add: account_inv_def)
qed

end
