(* ===== verification/Ticket_Sync.thy ===== *)
theory Ticket_Sync
  imports Vendor_Frames
begin

text \<open>
  The tickets of a request follow its items: after an edit the active tickets are exactly the ATMs of the
  items, each with the denomination code of its items. \<open>planTickets\<close> computes the difference and
  \<open>applyTicketPlan\<close> writes it.
\<close>

section \<open>What the plan writes\<close>

lemma update_where_twice:
  assumes "\<And>x. f (f x) = f x" and "\<And>x. k (f x) = k x"
  shows "update_where (\<lambda>x. k x \<in> A) f (update_where (\<lambda>x. k x = a) f xs) = update_where (\<lambda>x. k x \<in> insert a A) f xs"
  using assms by (induction xs) auto

lemma activate_ticket_simps [simp]:
  "activate_ticket v b (activate_ticket v b t) = activate_ticket v b t" "tk_id (activate_ticket v b t) = tk_id t"
  "tk_terminal_id (activate_ticket v b t) = tk_terminal_id t" "tk_denom_code (activate_ticket v b t) = tk_denom_code t"
  "tk_request_number (activate_ticket v b t) = tk_request_number t" "tk_is_active (activate_ticket v b t) = b"
  by (simp_all add: activate_ticket_def)

definition rest_of :: "vdb \<Rightarrow> vreq list \<times> vitem list" where
  "rest_of s = (rd_requests s, rd_items s)"

lemma set_active_wp:
  "wp (tx_map (\<lambda>tid. pg_stmt v q what (SetVendorRequestTicketActive v tid b)) ids) s
     (\<lambda>_ t. rd_tickets t = update_where (\<lambda>k. tk_id k \<in> set ids) (activate_ticket v b) (rd_tickets s) \<and> rest_of t = rest_of s)"
proof (induction ids arbitrary: s)
  case (Cons i ids)
  let ?post = "\<lambda>s t. rd_tickets t = update_where (\<lambda>k. tk_id k \<in> set (i # ids)) (activate_ticket v b) (rd_tickets s) \<and> rest_of t = rest_of s"
  have later: "wp (tx_map (\<lambda>tid. pg_stmt v q what (SetVendorRequestTicketActive v tid b)) ids) u (\<lambda>_. ?post s)"
    if "rd_tickets u = update_where (\<lambda>k. tk_id k = i) (activate_ticket v b) (rd_tickets s)" "rest_of u = rest_of s" for u
    by (rule wp_mono [OF Cons.IH]) (use that update_where_twice [of "activate_ticket v b" tk_id] in simp)
  have "wp (SetVendorRequestTicketActive v i b) s (\<lambda>_ u.
      wp (tx_map (\<lambda>tid. pg_stmt v q what (SetVendorRequestTicketActive v tid b)) ids) u (\<lambda>_. ?post s))"
  proof (rule wpI, rule later)
    fix a u assume "SetVendorRequestTicketActive v i b s = Inr (a, u)"
    then show "rd_tickets u = update_where (\<lambda>k. tk_id k = i) (activate_ticket v b) (rd_tickets s)" "rest_of u = rest_of s"
      by (auto simp: SetVendorRequestTicketActive_def rest_of_def split: option.splits if_splits)
  qed
  then show ?case by (simp add: wp_simps)
qed (simp add: wp_simps update_where_def)

text \<open>The pairs of ATM and code of the active tickets of a request.\<close>

definition active_pairs :: "string \<Rightarrow> ticket list \<Rightarrow> (string \<times> string) set" where
  "active_pairs number ts = (\<lambda>k. (tk_terminal_id k, tk_denom_code k)) ` {k \<in> set ts. tk_request_number k = number \<and> tk_is_active k}"

lemma active_pairs_append:
  "active_pairs number (ts @ [k]) = (if tk_request_number k = number \<and> tk_is_active k
     then insert (tk_terminal_id k, tk_denom_code k) (active_pairs number ts) else active_pairs number ts)"
proof -
  have "{x \<in> set (ts @ [k]). tk_request_number x = number \<and> tk_is_active x}
      = (if tk_request_number k = number \<and> tk_is_active k then {k} else {}) \<union> {x \<in> set ts. tk_request_number x = number \<and> tk_is_active x}"
    by auto
  then show ?thesis by (simp add: active_pairs_def)
qed

lemma issue_wp:
  "wp (tx_map (issue_ticket v number d) its) s
     (\<lambda>_ t. active_pairs number (rd_tickets t) = active_pairs number (rd_tickets s) \<union> set its \<and> rest_of t = rest_of s)"
proof (induction its arbitrary: s)
  case (Cons i its)
  have one: "active_pairs number (rd_tickets t) = insert i (active_pairs number (rd_tickets s)) \<and> rest_of t = rest_of s"
    if "IssueVendorRequestTicket number (fst i) (snd i) d s = Inr (n, t)" for n t
    using that unfolding IssueVendorRequestTicket_def Let_def
    by (clarsimp simp: active_pairs_append rest_of_def split: option.splits)
  have "wp (issue_ticket v number d i) s (\<lambda>_ t. active_pairs number (rd_tickets t) = insert i (active_pairs number (rd_tickets s))
      \<and> rest_of t = rest_of s)"
    unfolding issue_ticket_def wp_basic
    by (intro disjI2, rule wpI) (clarsimp split: sum.splits, rule one)
  then have "wp (issue_ticket v number d i) s (\<lambda>_ u. wp (tx_map (issue_ticket v number d) its) u
      (\<lambda>_ t. active_pairs number (rd_tickets t) = active_pairs number (rd_tickets s) \<union> set (i # its) \<and> rest_of t = rest_of s))"
    by (rule wp_mono) (rule wp_mono [OF Cons.IH], auto)
  then show ?case by (simp add: wp_simps)
qed (simp add: wp_simps)

section \<open>The plan\<close>

lemma in_map_filter: "x \<in> set (List.map_filter f xs) \<longleftrightarrow> (\<exists>y \<in> set xs. f y = Some x)"
  by (induction xs) (auto simp: map_filter_simps split: option.splits)

text \<open>A ticket key is read back: a code has no bar in it.\<close>

lemma ticket_key_inj:
  assumes "CHR ''|'' \<notin> set c" "CHR ''|'' \<notin> set c'" and "ticket_key a c = ticket_key b c'"
  shows "a = b \<and> c = c'"
proof -
  have "takeWhile (\<lambda>x. x \<noteq> CHR ''|'') (rev (ticket_key a c)) = rev c" if "CHR ''|'' \<notin> set c" for a c
    using that by (simp add: ticket_key_def takeWhile_tail) (metis set_rev takeWhile_append2 takeWhile_eq_all_conv)
  then have "c = c'" using assms by (metis rev_rev_ident)
  then show ?thesis using assms(3) by (simp add: ticket_key_def)
qed

text \<open>The tickets of the request among all tickets, as the constraints of the table keep them.\<close>

definition tickets_ok :: "ticket list \<Rightarrow> bool" where
  "tickets_ok ts \<longleftrightarrow> distinct (map tk_id ts) \<and> list_all (\<lambda>k. tk_denom_code k \<noteq> [] \<and> CHR ''|'' \<notin> set (tk_denom_code k)) ts"

definition codes_ok :: "(string \<times> string) list \<Rightarrow> bool" where
  "codes_ok want \<longleftrightarrow> distinct (map fst want) \<and> list_all (\<lambda>x. snd x \<noteq> [] \<and> CHR ''|'' \<notin> set (snd x)) want"

lemma go_get_in: "distinct (map fst m) \<Longrightarrow> (k, c) \<in> set m \<Longrightarrow> go_get z m k = c"
  using map_of_is_SomeI [of "rev m" k c] by (simp add: go_get_def rev_map [symmetric])

lemma go_get_out: "k \<notin> fst ` set m \<Longrightarrow> go_get z m k = z"
  by (simp add: go_get_def map_of_eq_None_iff [THEN iffD2])

lemma wanted_pair:
  assumes "codes_ok want" and "tk_denom_code k \<noteq> []"
  shows "ticket_wanted want k \<longleftrightarrow> (tk_terminal_id k, tk_denom_code k) \<in> set want"
proof (cases "tk_terminal_id k \<in> fst ` set want")
  case True
  then obtain c where c: "(tk_terminal_id k, c) \<in> set want" by auto
  then have "go_get [] want (tk_terminal_id k) = c" using assms(1) go_get_in by (auto simp: codes_ok_def)
  moreover have "(tk_terminal_id k, tk_denom_code k) \<in> set want \<Longrightarrow> go_get [] want (tk_terminal_id k) = tk_denom_code k"
    using assms(1) go_get_in by (auto simp: codes_ok_def)
  ultimately show ?thesis using c by (auto simp: ticket_wanted_def)
next
  case False
  then show ?thesis using go_get_out [OF False, of "[]"] assms(2) by (force simp: ticket_wanted_def)
qed

lemma missing_iff:
  assumes "codes_ok want" and "list_all (\<lambda>k. tk_denom_code k \<noteq> []) existing"
  shows "(t, c) \<in> set (missing_codes existing want) \<longleftrightarrow> (t, c) \<in> set want
     \<and> \<not> (\<exists>k \<in> set existing. tk_is_active k \<and> tk_terminal_id k = t \<and> tk_denom_code k = c)"
proof -
  have keys: "(t, c) \<in> set (map (\<lambda>t. (t, go_get [] want t)) (sortedKeys want)) \<longleftrightarrow> (t, c) \<in> set want"
    using assms(1) go_get_in [of want t] by (force simp: codes_ok_def sortedKeys_def)
  have "go_get [] (active_codes existing want) t = c \<longleftrightarrow> (\<exists>k \<in> set existing. tk_is_active k \<and> tk_terminal_id k = t \<and> tk_denom_code k = c)"
    if tc: "(t, c) \<in> set want"
  proof -
    have c: "c \<noteq> []" using tc assms(1) by (auto simp: codes_ok_def list_all_iff)
    have val: "x = c" if "(t, x) \<in> set (active_codes existing want)" for x
      using that tc assms go_get_in [of want t c "[]"] by (auto simp: active_codes_def ticket_wanted_def codes_ok_def)
    have "(t, c) \<in> set (active_codes existing want) \<longleftrightarrow> (\<exists>k \<in> set existing. tk_is_active k \<and> tk_terminal_id k = t \<and> tk_denom_code k = c)"
      using tc assms go_get_in [of want t c "[]"] by (auto simp: active_codes_def ticket_wanted_def codes_ok_def image_iff)
    moreover have "go_get [] (active_codes existing want) t = c \<longleftrightarrow> (t, c) \<in> set (active_codes existing want)"
    proof (cases "map_of (rev (active_codes existing want)) t")
      case None
      then have "t \<notin> fst ` set (active_codes existing want)" by (simp add: map_of_eq_None_iff)
      then show ?thesis using c go_get_out [of t "active_codes existing want" "[]"] by force
    next
      case (Some x)
      then have "(t, x) \<in> set (active_codes existing want)" using map_of_SomeD [OF Some] by simp
      then show ?thesis using val [of x] Some by (auto simp: go_get_def)
    qed
    ultimately show ?thesis by simp
  qed
  then show ?thesis unfolding missing_codes_def using keys by auto
qed

text \<open>After the plan the active tickets of the request are the wanted ones.\<close>

lemma active_pairs_set:
  "x \<in> active_pairs number (update_where (\<lambda>k. tk_id k \<in> R) (activate_ticket v True)
      (update_where (\<lambda>k. tk_id k \<in> D) (activate_ticket v False) ts))
    \<longleftrightarrow> (\<exists>k \<in> set ts. tk_request_number k = number \<and> x = (tk_terminal_id k, tk_denom_code k)
        \<and> (tk_id k \<in> R \<or> tk_is_active k \<and> tk_id k \<notin> D))"
proof -
  let ?f = "\<lambda>k. if tk_id k \<in> R then activate_ticket v True (if tk_id k \<in> D then activate_ticket v False k else k)
    else if tk_id k \<in> D then activate_ticket v False k else k"
  have eq: "update_where (\<lambda>k. tk_id k \<in> R) (activate_ticket v True) (update_where (\<lambda>k. tk_id k \<in> D) (activate_ticket v False) ts) = map ?f ts"
    by (induction ts) auto
  have f: "tk_request_number (?f k) = tk_request_number k" "tk_terminal_id (?f k) = tk_terminal_id k"
    "tk_denom_code (?f k) = tk_denom_code k" "tk_is_active (?f k) \<longleftrightarrow> tk_id k \<in> R \<or> tk_is_active k \<and> tk_id k \<notin> D" for k
    by auto
  have "x \<in> active_pairs number (map ?f ts) \<longleftrightarrow> (\<exists>k \<in> set ts. tk_request_number (?f k) = number \<and> tk_is_active (?f k)
      \<and> x = (tk_terminal_id (?f k), tk_denom_code (?f k)))"
    unfolding active_pairs_def set_map by blast
  then show ?thesis unfolding eq f by blast
qed

lemma plan_exact:
  assumes want: "codes_ok want" and ts: "tickets_ok ts" and ex: "set existing = {k \<in> set ts. tk_request_number k = number}"
  defines "p \<equiv> planTickets existing want"
  shows "active_pairs number (update_where (\<lambda>k. tk_id k \<in> set (tp_Reactivate p)) (activate_ticket v True)
      (update_where (\<lambda>k. tk_id k \<in> set (tp_Deactivate p)) (activate_ticket v False) ts)) \<union> set (tp_Issue p) = set want"
    (is "?active \<union> _ = _")
proof -
  have nb: "tk_denom_code k \<noteq> []" "CHR ''|'' \<notin> set (tk_denom_code k)" if "k \<in> set ts" for k
    using ts that by (auto simp: tickets_ok_def list_all_iff)
  have ids: "k = k'" if "k \<in> set ts" "k' \<in> set ts" "tk_id k = tk_id k'" for k k'
    using ts that by (auto simp: tickets_ok_def distinct_map inj_on_def)
  have sub: "k \<in> set ts \<and> tk_request_number k = number" if "k \<in> set existing" for k using that ex by simp
  have miss: "(t, c) \<in> set (missing_codes existing want) \<longleftrightarrow> (t, c) \<in> set want
     \<and> \<not> (\<exists>k \<in> set existing. tk_is_active k \<and> tk_terminal_id k = t \<and> tk_denom_code k = c)" for t c
    by (rule missing_iff [OF want]) (use sub nb in \<open>auto simp: list_all_iff\<close>)
  have code: "CHR ''|'' \<notin> set c" if "(t, c) \<in> set want" for t c using want that by (auto simp: codes_ok_def list_all_iff)
  have de: "tk_id k \<in> set (tp_Deactivate p) \<longleftrightarrow> tk_is_active k \<and> (tk_terminal_id k, tk_denom_code k) \<notin> set want"
    if k: "k \<in> set existing" for k
  proof -
    have "tk_id k \<in> set (tp_Deactivate p) \<longleftrightarrow> tk_is_active k \<and> \<not> ticket_wanted want k"
    proof
      assume "tk_id k \<in> set (tp_Deactivate p)"
      then obtain k' where k': "k' \<in> set existing" "tk_is_active k' \<and> \<not> ticket_wanted want k'" "tk_id k = tk_id k'"
        by (auto simp: p_def planTickets_def Let_def)
      have "k = k'" by (rule ids) (use k sub k' in auto)
      then show "tk_is_active k \<and> \<not> ticket_wanted want k" using k'(2) by simp
    qed (use k in \<open>simp add: p_def planTickets_def Let_def\<close>)
    then show ?thesis using wanted_pair [OF want nb(1)] sub [OF k] by simp
  qed
  have inact: "k \<in> set existing \<and> \<not> tk_is_active k \<and> tk_terminal_id k = t \<and> tk_denom_code k = c"
    if "map_of (rev (inactive_tickets existing)) (ticket_key t c) = Some (tk_id k)" "k \<in> set ts" "CHR ''|'' \<notin> set c" for k t c
  proof -
    from map_of_SomeD [OF that(1)] obtain k' where k': "k' \<in> set existing" "\<not> tk_is_active k'"
      "ticket_key (tk_terminal_id k') (tk_denom_code k') = ticket_key t c" "tk_id k' = tk_id k"
      by (auto simp: inactive_tickets_def)
    have "k' = k" by (rule ids) (use k' sub that(2) in auto)
    then show ?thesis using k' ticket_key_inj [OF nb(2) that(3) k'(3)] sub by blast
  qed
  have re: "tk_id k \<in> set (tp_Reactivate p) \<longleftrightarrow> (\<exists>t c. (t, c) \<in> set (missing_codes existing want)
      \<and> map_of (rev (inactive_tickets existing)) (ticket_key t c) = Some (tk_id k))" for k
    by (simp add: p_def planTickets_def Let_def in_map_filter Bex_def)
  have iss: "(t, c) \<in> set (tp_Issue p) \<longleftrightarrow> (t, c) \<in> set (missing_codes existing want)
      \<and> map_of (rev (inactive_tickets existing)) (ticket_key t c) = None" for t c
    by (auto simp: p_def planTickets_def Let_def go_has_def)
  have act: "(t, c) \<in> ?active \<longleftrightarrow> (\<exists>k \<in> set existing. (t, c) = (tk_terminal_id k, tk_denom_code k)
      \<and> (tk_id k \<in> set (tp_Reactivate p) \<or> tk_is_active k \<and> tk_id k \<notin> set (tp_Deactivate p)))" for t c
    unfolding active_pairs_set ex by blast
  have to: "(t, c) \<in> set want" if "(t, c) \<in> ?active \<union> set (tp_Issue p)" for t c
  proof -
    from that consider (issue) "(t, c) \<in> set (tp_Issue p)" | (live) "(t, c) \<in> ?active" by blast
    then show ?thesis
    proof cases
      case issue
      then show ?thesis using iss miss by blast
    next
      case live
      then obtain k where k: "k \<in> set existing" "t = tk_terminal_id k" "c = tk_denom_code k"
        "tk_id k \<in> set (tp_Reactivate p) \<or> tk_is_active k \<and> tk_id k \<notin> set (tp_Deactivate p)" using act by blast
      show ?thesis
      proof (cases "tk_id k \<in> set (tp_Reactivate p)")
        case True
        then obtain t' c' where m: "(t', c') \<in> set want" "map_of (rev (inactive_tickets existing)) (ticket_key t' c') = Some (tk_id k)"
          using re miss by blast
        then show ?thesis using inact [OF m(2) _ code [OF m(1)]] sub [OF k(1)] k(2,3) by simp
      qed (use k de [OF k(1)] in blast)
    qed
  qed
  have "(t, c) \<in> ?active \<union> set (tp_Issue p)" if tc: "(t, c) \<in> set want" for t c
  proof (cases "(t, c) \<in> set (missing_codes existing want)")
    case False
    then obtain k where "k \<in> set existing" "tk_is_active k" "tk_terminal_id k = t" "tk_denom_code k = c" using miss tc by blast
    then show ?thesis using act de tc by blast
  next
    case True
    show ?thesis
    proof (cases "map_of (rev (inactive_tickets existing)) (ticket_key t c)")
      case None
      then show ?thesis using iss True by blast
    next
      case (Some i)
      then obtain k where k: "k \<in> set existing" "tk_id k = i"
        using map_of_SomeD [OF Some] by (auto simp: inactive_tickets_def)
      then have "tk_terminal_id k = t \<and> tk_denom_code k = c" using inact [of t c k] Some sub code [OF tc] by blast
      moreover have "tk_id k \<in> set (tp_Reactivate p)" using re True Some k(2) by blast
      ultimately show ?thesis using act k(1) by blast
    qed
  qed
  with to show ?thesis by auto
qed

lemma applyTicketPlan_wp:
  assumes "codes_ok want" "tickets_ok (rd_tickets s)" "set existing = {k \<in> set (rd_tickets s). tk_request_number k = number}"
  shows "wp (applyTicketPlan v number d (planTickets existing want)) s
     (\<lambda>_ t. active_pairs number (rd_tickets t) = set want \<and> rest_of t = rest_of s)"
proof -
  note e = plan_exact [OF assms, of v]
  show ?thesis
    unfolding applyTicketPlan_def wp_basic
    by (rule wp_mono [OF set_active_wp], rule wp_mono [OF set_active_wp], rule wp_mono [OF issue_wp])
      (use e in simp)
qed

section \<open>Items\<close>

definition items_of :: "id64 \<Rightarrow> vdb \<Rightarrow> (string \<times> int) list" where
  "items_of rid s = map (\<lambda>i. (vi_terminal_id i, vi_denom i)) (filter (\<lambda>i. vi_vendor_request_id i = rid) (rd_items s))"

text \<open>The ticket each ATM of the items should have.\<close>

definition item_codes :: "(string \<times> int) list \<Rightarrow> (string \<times> string) list" where
  "item_codes xs = map (\<lambda>t. (t, denomCode (remdups (map snd (filter (\<lambda>x. fst x = t) xs))))) (remdups (map fst xs))"

lemma wantedCodes_items: "wantedCodes resolved = item_codes (map (\<lambda>r. (ii_TerminalID (rs_input r), ii_Denom (rs_input r))) resolved)"
  by (simp add: wantedCodes_def item_codes_def item_terminals_def denoms_of_def comp_def filter_map)

lemma denomCode_ok: "denomCode ds \<noteq> [] \<and> CHR ''|'' \<notin> set (denomCode ds)"
proof -
  have "CHR ''|'' \<notin> set (FormatInt i)" for i using FormatInt_chars [of "CHR ''|''" i] by (auto simp: is_digit_def)
  then show ?thesis by (auto simp: denomCode_def split: list.splits)
qed

lemma item_codes_ok: "codes_ok (item_codes xs)"
  using denomCode_ok by (auto simp: codes_ok_def item_codes_def list_all_iff comp_def)

lemma insert_item_wp:
  "wp (InsertVendorRequestItem rid it refund brand lokasi) s (\<lambda>_ t. rd_tickets t = rd_tickets s \<and> rd_requests t = rd_requests s
     \<and> items_of rid t = items_of rid s @ [(ii_TerminalID it, ii_Denom it)])"
proof -
  have fresh: "wp (fresh_id table) w Q = Q (rd_ids w table) (w\<lparr>rd_ids := (rd_ids w)(table := rd_ids w table + 1)\<rparr>)" for table w Q
    by (simp add: wp_def fresh_id_def)
  show ?thesis by (simp add: InsertVendorRequestItem_def Let_def wp_simps fresh items_of_def)
qed

lemma insert_items_wp:
  "wp (insert_items v rid manual resolved) s (\<lambda>_ t. rd_tickets t = rd_tickets s \<and> rd_requests t = rd_requests s
     \<and> items_of rid t = items_of rid s @ map (\<lambda>r. (ii_TerminalID (rs_input r), ii_Denom (rs_input r))) resolved)"
proof (induction resolved arbitrary: s)
  case (Cons r resolved)
  have later: "wp (insert_items v rid manual resolved) u (\<lambda>_ t. rd_tickets t = rd_tickets s \<and> rd_requests t = rd_requests s
     \<and> items_of rid t = items_of rid s @ map (\<lambda>r. (ii_TerminalID (rs_input r), ii_Denom (rs_input r))) (r # resolved))"
    if "rd_tickets u = rd_tickets s" "rd_requests u = rd_requests s"
      "items_of rid u = items_of rid s @ [(ii_TerminalID (rs_input r), ii_Denom (rs_input r))]" for u
    by (rule wp_mono [OF Cons.IH]) (use that in simp)
  show ?case
    unfolding insert_items_def tx_each.simps wp_basic
    by (rule disjI2, rule wp_mono [OF insert_item_wp], rule later [unfolded insert_items_def]) simp_all
qed (simp add: insert_items_def wp_simps)

text \<open>The edit of a draft.\<close>

lemma UpdateItems_tickets:
  assumes ts: "tickets_ok (rd_tickets s)" and req: "GetVendorRequest rid s = Some req"
  shows "wp (VendorRequest_UpdateItems_body v actor rid items) s (\<lambda>_ t.
     active_pairs (vr_request_number req) (rd_tickets t) = set (item_codes (items_of rid t)))"
proof -
  let ?n = "vr_request_number req"
  have read: "wp m u Q" if "stays (\<lambda>s t. (\<lambda>x. x) t = (\<lambda>x. x) s) m" "\<And>a. Q a u" for m :: "'a vtx" and u Q
    using that by (auto simp: wp_def stays_def)
  have tail: "wp (applyTicketPlan v ?n d (planTickets (ListVendorRequestTickets ?n u) (wantedCodes resolved))) u
      (\<lambda>tickets t. wp (request_log v actor a rid b (c tickets)) t
        (\<lambda>_ t. active_pairs ?n (rd_tickets t) = set (item_codes (items_of rid t))))"
    if u: "rd_tickets u = rd_tickets s"
      "items_of rid u = map (\<lambda>r. (ii_TerminalID (rs_input r), ii_Denom (rs_input r))) resolved" for u resolved d a b c
  proof (rule wp_mono [OF applyTicketPlan_wp])
    show "codes_ok (wantedCodes resolved)" unfolding wantedCodes_items by (rule item_codes_ok)
    show "tickets_ok (rd_tickets u)" using ts u(1) by simp
    show "set (ListVendorRequestTickets ?n u) = {k \<in> set (rd_tickets u). tk_request_number k = ?n}"
      by (simp add: ListVendorRequestTickets_def)
  qed (use u(2) in \<open>auto simp: request_log_def write_log_def wp_simps wantedCodes_items rest_of_def items_of_def\<close>)
  have gone: "items_of rid (DeleteVendorRequestItems rid s) = []"
    by (simp add: items_of_def DeleteVendorRequestItems_def)
  have rest: "wp (tx_then (query v ''DeleteVendorRequestItems'' ''delete existing items'' (tx_write (DeleteVendorRequestItems rid)))
     (tx_then (insert_items v rid False resolved)
     (tx_bind (query v ''ListVendorRequestTickets'' ''list tickets'' (tx_read (ListVendorRequestTickets ?n))) (\<lambda>existing.
     tx_bind (applyTicketPlan v ?n d (planTickets existing (wantedCodes resolved))) (\<lambda>tickets.
     tx_then (request_log v actor a rid b (c tickets)) (tx_ret rid)))))) s
     (\<lambda>_ t. active_pairs ?n (rd_tickets t) = set (item_codes (items_of rid t)))" for resolved d a b c
    unfolding wp_basic
    by (rule disjI2, rule wp_mono [OF insert_items_wp], rule disjI2, rule tail)
      (simp_all add: gone, simp add: DeleteVendorRequestItems_def)
  show ?thesis
    unfolding VendorRequest_UpdateItems_body_def GetVendorRequestForUpdate_def wp_basic(3,4,7,9) wp_options
    by (intro disjI2 allI impI, rule read, intro stays_intros, rule read, intro stays_intros)
      (use req rest in \<open>simp add: wp_basic\<close>)
qed

end
