(* ===== verification/Vendor_Checks.thy ===== *)
theory Vendor_Checks
  imports Vault_Plan_Actions Vendor_Realization
begin

text \<open>
  Checks of the vendor request services: who a vendor order is for, what an allocation of an order to
  vaults has to satisfy, and two places where a check defeats the operation that carries it.
\<close>

section \<open>Vendor scope\<close>

text \<open>An active user with the role and the vendor of the session.\<close>

definition vendor_user :: "vendor_actor \<Rightarrow> user_row \<Rightarrow> vdb \<Rightarrow> bool" where
  "vendor_user va u s \<longleftrightarrow> u \<in> set (md_users (rd_master s)) \<and> us_id u = ac_UserID (xa_Actor va) \<and> active_user u
     \<and> user_has_role (md_roles (rd_master s)) u (\<lambda>r. r = ac_Role (xa_Actor va))
     \<and> us_vendor_id u \<noteq> None \<and> us_vendor_id u = xa_ClaimVendorID va"

text \<open>A party of one of the user's branches, in a role the session covers.\<close>

definition may_handle :: "vendor_actor \<Rightarrow> party \<Rightarrow> vdb \<Rightarrow> bool" where
  "may_handle va p s \<longleftrightarrow> (\<exists>u b. vendor_user va u s
     \<and> branch_by_id (rd_master s) (Some (py_vendor_branch_id p)) = Some b \<and> us_vendor_id u = Some (vb_vendor_id b)
     \<and> (us_vendor_branch_id u = None \<or> us_vendor_branch_id u = Some (py_vendor_branch_id p))
     \<and> py_role p \<in> set (PartyRoles (ac_Role (xa_Actor va))))"

lemma scope_run:
  assumes "scope v va s = Inr (sc, t)"
  shows "t = s" and "\<exists>u. vendor_user va u s \<and> us_vendor_id u = Some (sc_vendorID sc)
     \<and> us_vendor_branch_id u = sc_branchID sc \<and> sc_partyRoles sc = PartyRoles (ac_Role (xa_Actor va))"
proof -
  obtain vid branch role where g0: "GetUserVendorScope (ac_UserID (xa_Actor va)) s = Some (vid, branch, role)"
    using assms by (cases "GetUserVendorScope (ac_UserID (xa_Actor va)) s") (auto simp: scope_def Let_def tx_defs split: if_splits)
  obtain own where own: "vid = Some own" "xa_ClaimVendorID va = Some own"
    using assms g0 by (cases vid; cases "xa_ClaimVendorID va") (simp_all add: scope_def Let_def tx_defs split: if_splits)
  note g = g0 [unfolded own(1)]
  have c: "role = ac_Role (xa_Actor va)" "xa_ClaimVendorID va = Some own"
    and sc: "sc = \<lparr>sc_vendorID = own, sc_branchID = branch, sc_partyRoles = PartyRoles (ac_Role (xa_Actor va))\<rparr>"
    and t: "t = s"
    using assms g own by (simp_all add: scope_def Let_def tx_defs split: if_splits)
  show "t = s" by (rule t)
  from g obtain u r where u: "find_row (\<lambda>u. us_id u = ac_UserID (xa_Actor va) \<and> active_user u) (md_users (rd_master s)) = Some u"
    and r: "find_row (\<lambda>r. ro_id r = us_role_id u) (md_roles (rd_master s)) = Some r"
    and eq: "us_vendor_id u = Some own" "us_vendor_branch_id u = branch" "ro_role r = role"
    by (auto simp: GetUserVendorScope_def bind_eq_Some_conv)
  have "user_has_role (md_roles (rd_master s)) u (\<lambda>r. r = ac_Role (xa_Actor va))"
    using find_row_Some [OF r] eq(3) c(1) by (auto simp: user_has_role_def list_ex_iff)
  then have "vendor_user va u s" using find_row_Some [OF u] eq(1) c(2) by (simp add: vendor_user_def)
  then show "\<exists>u. vendor_user va u s \<and> us_vendor_id u = Some (sc_vendorID sc)
     \<and> us_vendor_branch_id u = sc_branchID sc \<and> sc_partyRoles sc = PartyRoles (ac_Role (xa_Actor va))"
    by (rule exI [of _ u, OF conjI]) (simp add: sc eq)
qed

lemma in_scope_handles:
  assumes "scope v va s = Inr (sc, t)" and "order_of s p = Some x" "in_scope sc (oo_branch x) (oo_party x)"
  shows "oo_party x = p" "may_handle va p s"
proof -
  show p: "oo_party x = p" using assms(2) by (auto simp: order_of_def bind_eq_Some_conv)
  have b: "branch_by_id (rd_master s) (Some (py_vendor_branch_id p)) = Some (oo_branch x)"
    using assms(2) by (auto simp: order_of_def bind_eq_Some_conv)
  obtain u where u: "vendor_user va u s" "us_vendor_id u = Some (sc_vendorID sc)"
    "us_vendor_branch_id u = sc_branchID sc" "sc_partyRoles sc = PartyRoles (ac_Role (xa_Actor va))"
    using scope_run(2) [OF assms(1)] by blast
  show "may_handle va p s"
    unfolding may_handle_def
    by (rule exI [of _ u], rule exI [of _ "oo_branch x"])
      (use u b assms(3) p in \<open>auto simp: in_scope_def split: option.splits\<close>)
qed

lemma getScoped_run:
  assumes "scope v va s = Inr (sc, t)" and "getScoped v sc pid s = Inr (x, u)"
  shows "u = s" "party_by_id pid s = Some (oo_party x)" "may_handle va (oo_party x) s"
proof -
  have g: "GetVendorOrder sc pid s = Some x" and u: "u = s"
    using assms(2) by (simp_all add: getScoped_def tx_defs split: if_splits option.splits)
  have b: "Option.bind (party_by_id pid s) (order_of s) = Some x" and i: "in_scope sc (oo_branch x) (oo_party x)"
    using g by (simp_all add: GetVendorOrder_def split: if_splits option.splits)
  obtain p where p: "party_by_id pid s = Some p" "order_of s p = Some x" "in_scope sc (oo_branch x) (oo_party x)" "u = s"
    using b i u by (metis bind_eq_Some_conv)
  then show "u = s" "party_by_id pid s = Some (oo_party x)" "may_handle va (oo_party x) s"
    using in_scope_handles [OF assms(1) p(2,3)] by simp_all
qed

text \<open>A transaction whose body needs something of the state.\<close>

lemma in_tx_needs:
  assumes "\<And>a t. body s = Inr (a, t) \<Longrightarrow> P"
  shows "snd (in_tx v what body s) = s \<or> P"
  using assms by (auto simp: in_tx_def run_in_tx_def begin_tx_def tx_defs split: sum.splits prod.splits)

lemma decide_needs:
  assumes "decide_body v va pid reason s = Inr (a, t)"
  shows "\<exists>p. party_by_id pid s = Some p \<and> may_handle va p s"
proof -
  from assms obtain sc s1 x s2 where "scope v va s = Inr (sc, s1)" "getScoped v sc pid s1 = Inr (x, s2)"
    by (auto simp: decide_body_def tx_bind_def split: sum.splits)
  note run = this
  have "s1 = s" by (rule scope_run(1) [OF run(1)])
  then show ?thesis using getScoped_run(2,3) [OF run(1)] run(2) by simp
qed

lemma orders_listed:
  assumes "VendorOrder_List v va f s = Inr ((os, n, pg, sz), t)" and "d \<in> set os"
  shows "\<exists>x. oo_party x \<in> set (rd_parties s) \<and> d = summary x \<and> may_handle va (oo_party x) s"
proof -
  from assms(1) obtain sc s1 where sc: "scope v va s = Inr (sc, s1)" by (auto simp: VendorOrder_List_def tx_bind_def split: sum.splits)
  then have "s1 = s" by (rule scope_run(1))
  then have "\<exists>a b. os = map summary (take a (drop b (matching_orders f sc s)))"
    using assms(1) sc by (auto simp: VendorOrder_List_def tx_defs split: if_splits prod.splits)
  then obtain x where x: "x \<in> set (matching_orders f sc s)" "d = summary x"
    using assms(2) by (auto dest!: in_set_takeD in_set_dropD)
  from x(1) obtain p where p: "p \<in> set (rd_parties s)" "order_of s p = Some x" "in_scope sc (oo_branch x) (oo_party x)"
    by (auto simp: matching_orders_def order_matches_def map_filter_def)
  then show ?thesis using in_scope_handles [OF sc p(2,3)] x(2) by auto
qed

section \<open>Allocations\<close>

text \<open>A number written in decimal is read back, where it fits.\<close>

lemma FormatInt_trim: "TrimSpace (FormatInt i) = FormatInt i"
  by (rule TrimSpace_plain) (auto dest!: FormatInt_chars simp: is_digit_def ascii_space_def)

lemma parse_digits_nat_text [simp]: "parse_digits (nat_text n) = Some (int n)"
  by (auto simp: parse_digits_def list_all_iff dest: nat_text_digits)

lemma ParseInt_FormatInt: "ParseInt bits (FormatInt i) = (if - (2 ^ (bits - 1)) \<le> i \<and> i < 2 ^ (bits - 1) then Some i else None)"
proof (cases "i < 0")
  case True
  then show ?thesis by (simp add: ParseInt_def FormatInt_def)
next
  case False
  obtain c cs where c: "nat_text (nat i) = c # cs" by (cases "nat_text (nat i)") auto
  then have "is_digit c" using nat_text_digits [of c "nat i"] by simp
  then have "c \<noteq> CHR ''-''" "c \<noteq> CHR ''+''" by (auto simp: is_digit_def)
  moreover have "FormatInt i = c # cs" "parse_digits (c # cs) = Some i"
    using False c parse_digits_nat_text [of "nat i"] by (simp_all add: FormatInt_def)
  ultimately show ?thesis by (simp add: ParseInt_def)
qed

text \<open>Lines that passed the checks.\<close>

definition amount_ok :: "int \<times> int \<Rightarrow> bool" where
  "amount_ok da \<longleftrightarrow> fst da \<in> set allocationDenoms \<and> 0 < snd da \<and> snd da \<le> int64_max \<and> snd da mod fst da = 0"

definition line_ok :: "id64 \<times> string option \<Rightarrow> alloc_line \<Rightarrow> bool" where
  "line_ok req l \<longleftrightarrow> ll_amounts l \<noteq> [] \<and> distinct (map fst (ll_amounts l)) \<and> list_all amount_ok (ll_amounts l)
     \<and> ll_tier l = vaultTier (cv_vendor_id (ll_vault l)) (cv_region_code (ll_vault l)) (fst req) (snd req)
     \<and> (ll_tier l = 3 \<longrightarrow> ll_isUrgent l)
     \<and> (case ll_urgentReason l of None \<Rightarrow> \<not> ll_isUrgent l | Some r \<Rightarrow> ll_isUrgent l \<and> \<not> bad_length r)"

lemma ParseInt_range: "ParseInt bits s = Some i \<Longrightarrow> i < 2 ^ (bits - 1)"
  by (auto simp: ParseInt_def split: option.splits if_splits)

lemma parse_amount_ok: "parse_amount w kr = Inr da \<Longrightarrow> amount_ok da"
  by (auto dest!: ParseInt_range simp: parse_amount_def amount_ok_def isAllocationDenom_def int64_max_def split: prod.splits option.splits if_splits)

lemma set_AList_update: "set (AList.update k v m) \<subseteq> insert (k, v) (set m)"
  by (induction m) auto

lemma parse_amounts_ok:
  "parse_amounts w out kvs = Inr res \<Longrightarrow> distinct (map fst out) \<Longrightarrow> list_all amount_ok out
    \<Longrightarrow> distinct (map fst res) \<and> list_all amount_ok res"
proof (induction w out kvs rule: parse_amounts.induct)
  case (2 w out kr rest)
  then obtain d a where p: "parse_amount w kr = Inr (d, a)" by (auto split: sum.splits)
  have "list_all amount_ok (AList.update d a out)"
    using set_AList_update [of d a out] parse_amount_ok [OF p] "2.prems"(3) by (auto simp: list_all_iff)
  then show ?case using "2.IH" [OF p refl] "2.prems" p by (simp add: distinct_update)
qed simp

lemma allocation_line_ok:
  assumes "allocation_line w i req = Inr l"
  shows "line_ok req l" "ll_vault l = w"
proof -
  obtain amounts reason where a: "parseAllocationAmounts (cv_vault_code w) (li_Amounts i) = Inr amounts"
    and r: "urgentReason (cv_vault_code w) (li_IsUrgent i) (li_UrgentReason i) = Inr reason"
    and l: "l = \<lparr>ll_vault = w, ll_tier = vaultTier (cv_vendor_id w) (cv_region_code w) (fst req) (snd req),
        ll_amounts = amounts, ll_isUrgent = li_IsUrgent i, ll_urgentReason = reason\<rparr>"
    and t: "vaultTier (cv_vendor_id w) (cv_region_code w) (fst req) (snd req) = 3 \<longrightarrow> li_IsUrgent i"
    using assms by (simp add: allocation_line_def Let_def split: sum.splits if_splits)
  have "amounts \<noteq> []" "distinct (map fst amounts)" "list_all amount_ok amounts"
    using a parse_amounts_ok [of "cv_vault_code w" "[]" "li_Amounts i"]
    by (auto simp: parseAllocationAmounts_def split: sum.splits list.splits)
  moreover have "case reason of None \<Rightarrow> \<not> li_IsUrgent i | Some r \<Rightarrow> li_IsUrgent i \<and> \<not> bad_length r"
    using r by (auto simp: urgentReason_def Let_def split: if_splits)
  ultimately show "line_ok req l" "ll_vault l = w" using t by (auto simp: line_ok_def l split: option.splits)
qed

lemma allocation_lines_ok:
  "allocation_lines eligible req seen ins = Inr ls \<Longrightarrow> list_all (line_ok req) ls
    \<and> map (\<lambda>i. map_of eligible (li_VendorVaultID i)) ins = map (\<lambda>l. Some (ll_vault l)) ls
    \<and> distinct (map li_VendorVaultID ins) \<and> set (map li_VendorVaultID ins) \<inter> set seen = {}"
proof (induction eligible req seen ins arbitrary: ls rule: allocation_lines.induct)
  case (2 eligible req seen i ins')
  then obtain w line rest where w: "map_of eligible (li_VendorVaultID i) = Some w" "li_VendorVaultID i \<notin> set seen"
    "allocation_line w i req = Inr line" "allocation_lines eligible req (li_VendorVaultID i # seen) ins' = Inr rest"
    by (auto split: option.splits sum.splits if_splits)
  have "list_all (line_ok req) rest
    \<and> map (\<lambda>i. map_of eligible (li_VendorVaultID i)) ins' = map (\<lambda>l. Some (ll_vault l)) rest
    \<and> distinct (map li_VendorVaultID ins') \<and> set (map li_VendorVaultID ins') \<inter> set (li_VendorVaultID i # seen) = {}"
    by (rule "2.IH" [OF w(1-3)]) (rule w(4))
  then show ?case using "2.prems" w allocation_line_ok [OF w(3)] by auto
qed simp

section \<open>Coverage\<close>

definition allocated_of :: "alloc_line list \<Rightarrow> int \<Rightarrow> int" where
  "allocated_of ls d = sum_list (map snd (filter (\<lambda>da. fst da = d) (concat (map ll_amounts ls))))"

lemma go_get_map_of: "distinct (map fst m) \<Longrightarrow> go_get z m k = (case map_of m k of None \<Rightarrow> z | Some v \<Rightarrow> v)"
  using map_of_inject_set [of "rev m" m] by (simp add: go_get_def rev_map [symmetric])

lemma add_amount_get:
  assumes "distinct (map fst m)"
  shows "go_get 0 (add_amount (d, a) m) k = (if k = d then wrap64 (go_get 0 m d + a) else go_get 0 m k)"
    and "distinct (map fst (add_amount (d, a) m))"
proof -
  show d: "distinct (map fst (add_amount (d, a) m))" using assms by (simp add: add_amount_def distinct_update)
  show "go_get 0 (add_amount (d, a) m) k = (if k = d then wrap64 (go_get 0 m d + a) else go_get 0 m k)"
    using go_get_map_of [OF d, of 0 k]
    by (simp add: go_get_map_of [OF assms]) (simp add: add_amount_def update_conv' go_get_map_of [OF assms])
qed

lemma totals_get:
  assumes "distinct (map fst m)" and "\<forall>da \<in> set das. 0 \<le> snd da" and "\<And>k. 0 \<le> go_get 0 m k"
    and "\<And>k. go_get 0 m k + sum_list (map snd (filter (\<lambda>da. fst da = k) das)) \<le> int64_max"
  shows "go_get 0 (fold add_amount das m) k = go_get 0 m k + sum_list (map snd (filter (\<lambda>da. fst da = k) das))
    \<and> distinct (map fst (fold add_amount das m))"
  using assms
proof (induction das arbitrary: m)
  case (Cons da das)
  obtain d a where da: "da = (d, a)" by (cases da)
  have pos: "0 \<le> sum_list (map snd (filter (\<lambda>da. fst da = k) das))" for k
    using Cons.prems(2) by (intro sum_list_nonneg) auto
  have "in_int64 (go_get 0 m d + a)"
    using Cons.prems(4) [of d] Cons.prems(3) [of d] Cons.prems(2) pos [of d]
    by (simp add: da in_int64_def int64_min_def)
  then have g: "go_get 0 (add_amount (d, a) m) k = (if k = d then go_get 0 m d + a else go_get 0 m k)" for k
    using add_amount_get(1) [OF Cons.prems(1)] by (simp add: wrap64_id)
  have "go_get 0 (fold add_amount das (add_amount (d, a) m)) k
      = go_get 0 (add_amount (d, a) m) k + sum_list (map snd (filter (\<lambda>da. fst da = k) das))
      \<and> distinct (map fst (fold add_amount das (add_amount (d, a) m)))"
  proof (rule Cons.IH [OF add_amount_get(2) [OF Cons.prems(1)]])
    show "\<forall>da \<in> set das. 0 \<le> snd da" using Cons.prems(2) by simp
    show "0 \<le> go_get 0 (add_amount (d, a) m) k" for k using Cons.prems(2,3) g by (simp add: da)
    show "go_get 0 (add_amount (d, a) m) k + sum_list (map snd (filter (\<lambda>da. fst da = k) das)) \<le> int64_max" for k
      using Cons.prems(4) [of k] by (simp add: g da split: if_splits)
  qed
  then show ?case using g by (simp add: da)
qed simp

lemma allocationTotals_concat: "allocationTotals ls = fold add_amount (concat (map ll_amounts ls)) []"
proof -
  have "fold (\<lambda>l m. fold add_amount (ll_amounts l) m) ls m = fold add_amount (concat (map ll_amounts ls)) m" for m
    by (induction ls arbitrary: m) simp_all
  then show ?thesis by (simp add: allocationTotals_def)
qed

lemma allocationTotals_get:
  assumes "\<forall>l \<in> set ls. list_all amount_ok (ll_amounts l)" and "\<And>d. allocated_of ls d \<le> int64_max"
  shows "go_get 0 (allocationTotals ls) d = allocated_of ls d" "distinct (map fst (allocationTotals ls))"
proof -
  have "\<forall>da \<in> set (concat (map ll_amounts ls)). 0 \<le> snd da"
    using assms(1) by (fastforce simp: list_all_iff amount_ok_def)
  then have "go_get 0 (fold add_amount (concat (map ll_amounts ls)) []) d
      = go_get 0 [] d + sum_list (map snd (filter (\<lambda>da. fst da = d) (concat (map ll_amounts ls))))
      \<and> distinct (map fst (fold add_amount (concat (map ll_amounts ls)) []))"
    by (intro totals_get) (use assms(2) in \<open>simp_all add: allocated_of_def go_get_def\<close>)
  then show "go_get 0 (allocationTotals ls) d = allocated_of ls d" "distinct (map fst (allocationTotals ls))"
    by (simp_all add: allocationTotals_concat allocated_of_def go_get_def)
qed

text \<open>What submission requires of the lines, without the arithmetic of the program.\<close>

definition allocation_covers :: "denom_amounts \<Rightarrow> alloc_line list \<Rightarrow> bool" where
  "allocation_covers order ls \<longleftrightarrow> list_all (\<lambda>d. go_get 0 order d \<le> allocated_of ls d) allocationDenoms"

definition exceeds :: "denom_amounts \<Rightarrow> alloc_line list \<Rightarrow> bool" where
  "exceeds order ls \<longleftrightarrow> list_ex (\<lambda>d. go_get 0 order d < allocated_of ls d) allocationDenoms"

lemma allocated_nonneg:
  assumes "\<forall>l \<in> set ls. list_all amount_ok (ll_amounts l)"
  shows "0 \<le> allocated_of ls d"
  unfolding allocated_of_def using assms by (intro sum_list_nonneg) (fastforce simp: list_all_iff amount_ok_def)

lemma first_short_None:
  assumes "\<And>d. 0 \<le> go_get 0 order d \<and> go_get 0 order d \<le> int64_max" "\<And>d. 0 \<le> go_get 0 al d \<and> go_get 0 al d \<le> int64_max"
  shows "first_short order al ds = None \<longleftrightarrow> list_all (\<lambda>d. go_get 0 order d \<le> go_get 0 al d) ds"
proof (induction ds)
  case (Cons d ds)
  have "in_int64 (go_get 0 order d - go_get 0 al d)"
    using assms(1) [of d] assms(2) [of d] by (simp add: in_int64_def int64_min_def int64_max_def)
  then show ?case using Cons by (simp add: Let_def wrap64_id)
qed simp

lemma totals_entry:
  assumes "\<forall>l \<in> set ls. list_all amount_ok (ll_amounts l)" and "\<And>d. allocated_of ls d \<le> int64_max"
  shows "(d, a) \<in> set (allocationTotals ls) \<Longrightarrow> a = allocated_of ls d"
    and "0 < allocated_of ls d \<Longrightarrow> (d, allocated_of ls d) \<in> set (allocationTotals ls) \<and> d \<in> set allocationDenoms"
proof -
  note g = allocationTotals_get [OF assms]
  have m: "go_get 0 (allocationTotals ls) d = (case map_of (allocationTotals ls) d of None \<Rightarrow> 0 | Some v \<Rightarrow> v)"
    by (rule go_get_map_of [OF g(2)])
  show "a = allocated_of ls d" if "(d, a) \<in> set (allocationTotals ls)"
    using g(1) [of d] m map_of_is_SomeI [OF g(2) that] by simp
  assume pos: "0 < allocated_of ls d"
  then have "(d, allocated_of ls d) \<in> set (allocationTotals ls)"
    using g(1) [of d] m by (auto split: option.splits dest: map_of_SomeD)
  moreover have "d \<in> set allocationDenoms"
  proof (rule ccontr)
    assume "d \<notin> set allocationDenoms"
    then have "filter (\<lambda>da. fst da = d) (concat (map ll_amounts ls)) = []"
      using assms(1) by (auto simp: filter_empty_conv list_all_iff amount_ok_def)
    then show False using pos by (simp add: allocated_of_def)
  qed
  ultimately show "(d, allocated_of ls d) \<in> set (allocationTotals ls) \<and> d \<in> set allocationDenoms" by simp
qed

lemma checkCoverage_iff:
  assumes ls: "\<forall>l \<in> set ls. list_all amount_ok (ll_amounts l)" "\<And>d. allocated_of ls d \<le> int64_max"
    and order: "\<And>d. 0 \<le> go_get 0 order d \<and> go_get 0 order d \<le> int64_max"
  shows "checkCoverage order (allocationTotals ls) reason = Inr b \<longleftrightarrow> allocation_covers order ls
    \<and> (if exceeds order ls then b = Some (TrimSpace (text_or_empty reason)) \<and> \<not> bad_length (TrimSpace (text_or_empty reason))
       else b = None)"
proof -
  have short: "first_short order (allocationTotals ls) allocationDenoms = None \<longleftrightarrow> allocation_covers order ls"
    unfolding allocation_covers_def by (subst first_short_None [OF order])
      (use allocated_nonneg [OF ls(1)] ls(2) in \<open>simp_all add: allocationTotals_get(1) [OF ls]\<close>)
  have over: "list_ex (\<lambda>(d, a). a > go_get 0 order d) (allocationTotals ls) \<longleftrightarrow> exceeds order ls"
  proof
    assume "list_ex (\<lambda>(d, a). a > go_get 0 order d) (allocationTotals ls)"
    then obtain d a where da: "(d, a) \<in> set (allocationTotals ls)" "a > go_get 0 order d" by (auto simp: list_ex_iff)
    then have "allocated_of ls d > go_get 0 order d" using totals_entry(1) [OF ls] by blast
    moreover from this have "0 < allocated_of ls d" using order [of d] by simp
    ultimately show "exceeds order ls" using totals_entry(2) [OF ls] by (auto simp: exceeds_def list_ex_iff)
  next
    assume "exceeds order ls"
    then obtain d where d: "allocated_of ls d > go_get 0 order d" by (auto simp: exceeds_def list_ex_iff)
    then have "0 < allocated_of ls d" using order [of d] by simp
    then show "list_ex (\<lambda>(d, a). a > go_get 0 order d) (allocationTotals ls)"
      using totals_entry(2) [OF ls] d by (fastforce simp: list_ex_iff)
  qed
  show ?thesis
    unfolding checkCoverage_def over short [symmetric] by (auto simp: Let_def split: option.splits)
qed

section \<open>Stored allocations\<close>

definition stored_rows :: "id64 \<Rightarrow> vdb \<Rightarrow> denom_amounts list" where
  "stored_rows pid s = map (\<lambda>a. amounts_of (ListVaultPlanAllocationAmounts pid s) (va_id (aw_alloc a))) (ListVaultPlanAllocations pid s)"

definition stored_total :: "id64 \<Rightarrow> vdb \<Rightarrow> int \<Rightarrow> int" where
  "stored_total pid s d = sum_list (map snd (filter (\<lambda>da. fst da = d) (concat (stored_rows pid s))))"

text \<open>The primary key of the amounts and the check on the items.\<close>

definition tables_checked :: "vdb \<Rightarrow> bool" where
  "tables_checked s \<longleftrightarrow> distinct (map (\<lambda>m. (vm_allocation_id m, vm_denom m)) (rd_amounts s))
     \<and> list_all (\<lambda>i. 0 \<le> vi_amount_replenish i) (rd_items s)"

lemma AList_update_new: "k \<notin> fst ` set m \<Longrightarrow> AList.update k v m = m @ [(k, v)]"
  by (induction m) auto

lemma parse_stored:
  "parse_amounts w out (amountsJSON a) = Inr res \<Longrightarrow> distinct (map fst (out @ a)) \<Longrightarrow> res = out @ a"
proof (induction a arbitrary: out)
  case (Cons da a)
  obtain d x where da: "da = (d, x)" by (cases da)
  from Cons.prems(1) have "parse_amount w (FormatInt d, FormatInt x) = Inr (d, x)"
    and "parse_amounts w (AList.update d x out) (amountsJSON a) = Inr res"
    by (auto simp: da amountsJSON_def parse_amount_def ParseInt_FormatInt FormatInt_trim split: sum.splits option.splits if_splits)
  then show ?case using Cons.IH [of "out @ [(d, x)]"] Cons.prems(2) by (simp add: da AList_update_new)
qed (simp add: amountsJSON_def)

lemma stored_row_keys:
  assumes "tables_checked s" and "r \<in> set (stored_rows pid s)"
  shows "distinct (map fst r)"
proof -
  have "distinct (map (\<lambda>m. (vm_allocation_id m, vm_denom m)) (ListVaultPlanAllocationAmounts pid s))"
  proof -
    have "distinct (map (\<lambda>m. (vm_allocation_id m, vm_denom m)) (filter P (rd_amounts s)))" for P
      using assms(1) by (simp add: tables_checked_def distinct_map_filter)
    then show ?thesis unfolding ListVaultPlanAllocationAmounts_def by (simp add: distinct_map inj_on_def)
  qed
  then have "distinct (map vm_denom (filter (\<lambda>m. vm_allocation_id m = aid) (ListVaultPlanAllocationAmounts pid s)))" for aid
    by (auto simp: distinct_map inj_on_def)
  moreover from assms(2) obtain aid where "r = amounts_of (ListVaultPlanAllocationAmounts pid s) aid"
    by (auto simp: stored_rows_def)
  ultimately show ?thesis by (simp add: amounts_of_def comp_def)
qed

lemma stored_lines:
  assumes "allocation_lines eligible req seen ins = Inr ls" and "map li_Amounts ins = map amountsJSON rows"
    and "\<forall>r \<in> set rows. distinct (map fst r)"
  shows "map ll_amounts ls = rows"
  using assms
proof (induction ins arbitrary: seen ls rows)
  case (Cons i ins)
  then obtain r rows' where rows: "rows = r # rows'" "li_Amounts i = amountsJSON r" "map li_Amounts ins = map amountsJSON rows'" by auto
  from Cons.prems(1) obtain w line rest where w: "allocation_line w i req = Inr line"
    "allocation_lines eligible req (li_VendorVaultID i # seen) ins = Inr rest" "ls = line # rest"
    by (auto split: option.splits sum.splits if_splits)
  have "parse_amounts (cv_vault_code w) [] (amountsJSON r) = Inr (ll_amounts line)"
    using w(1) rows(2) by (auto simp: allocation_line_def parseAllocationAmounts_def Let_def split: sum.splits list.splits if_splits)
  then have "ll_amounts line = r" using parse_stored [of "cv_vault_code w" "[]" r] Cons.prems(3) rows(1) by simp
  then show ?case using Cons.IH [OF w(2) rows(3)] Cons.prems(3) rows(1) w(3) by simp
qed simp

lemma order_totals_get:
  assumes "tables_checked s" and "list_all (in_int64 \<circ> snd) (ListRequestOrderTotals rid s)"
  shows "0 \<le> go_get 0 (ListRequestOrderTotals rid s) d \<and> go_get 0 (ListRequestOrderTotals rid s) d \<le> int64_max"
proof -
  let ?o = "ListRequestOrderTotals rid s"
  have "distinct (map fst ?o)" by (simp add: ListRequestOrderTotals_def Let_def comp_def)
  then have g: "go_get 0 ?o d = (case map_of ?o d of None \<Rightarrow> 0 | Some v \<Rightarrow> v)" by (rule go_get_map_of)
  show ?thesis
  proof (cases "map_of ?o d")
    case None
    then show ?thesis using g by (simp add: int64_max_def)
  next
    case (Some a)
    then have a: "(d, a) \<in> set ?o" by (rule map_of_SomeD)
    then have "0 \<le> a" using assms(1)
      by (auto simp: ListRequestOrderTotals_def Let_def tables_checked_def list_all_iff intro!: sum_list_nonneg)
    moreover have "a \<le> int64_max" using a assms(2) by (auto simp: list_all_iff in_int64_def)
    ultimately show ?thesis using g Some by simp
  qed
qed

lemma wp_stored:
  assumes "Q (map (\<lambda>a. \<lparr>li_VendorVaultID = va_vendor_vault_id (aw_alloc a), li_Amounts = amountsJSON
        (amounts_of (ListVaultPlanAllocationAmounts pid s) (va_id (aw_alloc a))),
        li_IsUrgent = va_is_urgent (aw_alloc a), li_UrgentReason = va_urgent_reason (aw_alloc a)\<rparr>) (ListVaultPlanAllocations pid s)) s"
  shows "wp (storedAllocationLines v pid) s Q"
  using assms by (simp add: storedAllocationLines_def planAllocations_def wp_simps comp_def)

lemma wp_checkLines:
  assumes "\<And>eligible req ls. allocation_lines eligible req [] ins = Inr ls \<Longrightarrow> Q ls s"
  shows "wp (checkAllocationLines v p ins) s Q"
  using assms by (auto simp: checkAllocationLines_def validateAllocationLines_def wp_simps)

lemma submit_checked:
  assumes tables: "tables_checked s" and fits: "\<And>d. stored_total (vp_id (pl_plan p)) s d \<le> int64_max"
  shows "wp (submit_plan_fn v actor p req) s (\<lambda>_ _. vp_status (pl_plan p) = planDraft \<and> vr_status req = ''vault_assignment''
    \<and> stored_rows (vp_id (pl_plan p)) s \<noteq> []
    \<and> list_all (\<lambda>d. go_get 0 (ListRequestOrderTotals (vp_vendor_request_id (pl_plan p)) s) d \<le> stored_total (vp_id (pl_plan p)) s d) allocationDenoms)"
proof -
  let ?pid = "vp_id (pl_plan p)" and ?o = "ListRequestOrderTotals (vp_vendor_request_id (pl_plan p)) s"
  let ?ins = "map (\<lambda>a. \<lparr>li_VendorVaultID = va_vendor_vault_id (aw_alloc a), li_Amounts = amountsJSON
        (amounts_of (ListVaultPlanAllocationAmounts ?pid s) (va_id (aw_alloc a))),
        li_IsUrgent = va_is_urgent (aw_alloc a), li_UrgentReason = va_urgent_reason (aw_alloc a)\<rparr>) (ListVaultPlanAllocations ?pid s)"
  have *: "list_all (\<lambda>d. go_get 0 ?o d \<le> stored_total ?pid s d) allocationDenoms"
    if lines: "allocation_lines eligible rq [] ?ins = Inr ls" and cov: "checkCoverage ?o (allocationTotals ls) buf = Inr b"
      and o: "list_all (in_int64 \<circ> snd) ?o" for eligible rq ls buf b
  proof -
    have "map li_Amounts ?ins = map amountsJSON (stored_rows ?pid s)" by (simp add: stored_rows_def comp_def)
    then have "map ll_amounts ls = stored_rows ?pid s"
      by (rule stored_lines [OF lines]) (use stored_row_keys [OF tables] in blast)
    then have eq: "allocated_of ls d = stored_total ?pid s d" for d by (simp add: allocated_of_def stored_total_def)
    have ok: "\<forall>l \<in> set ls. list_all amount_ok (ll_amounts l)"
      using allocation_lines_ok [OF lines] by (auto simp: list_all_iff line_ok_def)
    have "allocation_covers ?o ls" using checkCoverage_iff [OF ok _ order_totals_get [OF tables o]] cov fits eq by auto
    then show ?thesis by (simp add: allocation_covers_def eq)
  qed
  show ?thesis
    unfolding submit_plan_fn_def Let_def plan_open_def wp_basic
    by (intro impI wp_stored wp_checkLines, unfold orderTotals_def wp_simps)
      (auto simp: stored_rows_def intro: * intro!: wpI)
qed

section \<open>Request numbers that clash\<close>

text \<open>
  An attempt that fails is rolled back to its savepoint, and the number it drew with it, so the next
  attempt draws the same number.
\<close>

lemma retry_clash:
  "attemptCreateWithNumber v inp prefix regionCode actor s = Inl (AttemptPg (PgUnique c)) \<Longrightarrow>
    retry_number n v inp prefix regionCode actor s = Inl ErrNumberGeneration"
  by (induction n) simp_all

lemma next_number_keeps: "NextRequestNumberSeq i r d s = Inr (seq, t) \<Longrightarrow> rd_requests t = rd_requests s"
  by (auto simp: NextRequestNumberSeq_def Let_def split: option.splits if_splits)

lemma attempt_clash:
  assumes "ve_flt v = (\<lambda>_. False)" and "NextRequestNumberSeq (ci_VendorID inp) regionCode (ci_ReplenishDate inp) s = Inr (seq, t)"
    and "seq \<le> 999" and "r \<in> set (rd_requests s)"
    and "vr_request_number r = request_number prefix regionCode (date_compact (ci_ReplenishDate inp)) seq"
  shows "attemptCreateWithNumber v inp prefix regionCode actor s = Inl (AttemptPg (PgUnique ''vendor_requests_number_uq''))"
proof -
  have "list_ex (\<lambda>x. vr_request_number x = request_number prefix regionCode (date_compact (ci_ReplenishDate inp)) seq) (rd_requests t)"
    using assms(4,5) next_number_keeps [OF assms(2)] by (auto simp: list_ex_iff)
  then show ?thesis using assms(1-3) by (simp add: attemptCreateWithNumber_def CreateVendorRequest_def draft_request_def Let_def)
qed

section \<open>Messages that are too long\<close>

lemma ascii_runes:
  assumes "list_all (\<lambda>c. of_char c < (128 :: nat)) s"
  shows "length (runes s) = length s"
  using assms
proof (induction s)
  case (Cons a s)
  then have "rune_size (a # s) = 1" by (simp add: lead_size_def Let_def)
  then show ?case using Cons by (simp add: runes.simps [of "a # s"])
qed (simp add: runes.simps)

lemma join_length: "length (join sep xs) \<ge> sum_list (map length xs)"
  by (induction sep xs rule: join.induct) auto

lemma join_ascii: "list_all P sep \<Longrightarrow> list_all (list_all P) xs \<Longrightarrow> list_all P (join sep xs)"
  by (induction sep xs rule: join.induct) auto

abbreviation ascii_text :: "string \<Rightarrow> bool" where
  "ascii_text s \<equiv> list_all (\<lambda>c. of_char c < (128 :: nat)) s"

lemma nat_text_ascii: "ascii_text (nat_text n)"
  using nat_text_digits [of _ n] by (fastforce simp: list_all_iff is_digit_def)

lemma over_quota_texts:
  "TrimSpace ''visit_quota.over_quota'' \<noteq> []" "TrimSpace ''Kelebihan kuota kunjungan'' \<noteq> []"
  by (simp_all add: TrimSpace_def trim_with.simps ascii_space_def space2_def space3_def)

lemma over_quota_body:
  assumes "20 \<le> length ts" and "list_all (\<lambda>t. length t = 64 \<and> ascii_text t) ts" and "ascii_text (vr_request_number req)"
  shows "ascii_text (msg_Body (fst (overQuotaNotification req ts)))"
    and "1000 < length (msg_Body (fst (overQuotaNotification req ts)))"
proof -
  let ?listed = "if length ts > overQuotaListMax then take overQuotaListMax ts else ts"
  have n: "length ?listed = 20" using assms(1) by (auto simp: overQuotaListMax_def)
  have l: "list_all (\<lambda>t. length t = 64 \<and> ascii_text t) ?listed"
    using assms(2) by (auto simp: list_all_iff dest: in_set_takeD)
  have "sum_list (map length ?listed) = sum_list (map (\<lambda>_. 64) ?listed)"
    using l by (intro arg_cong [of _ _ sum_list] map_cong) (auto simp: list_all_iff)
  then have "1280 \<le> length (join '', '' ?listed)" using join_length [of ?listed "'', ''"] n by (simp add: sum_list_triv)
  then show "1000 < length (msg_Body (fst (overQuotaNotification req ts)))"
    by (simp add: overQuotaNotification_def request_message_def Let_def)
  have "ascii_text (join '', '' ?listed)" using l by (intro join_ascii) (auto simp: list_all_iff)
  then show "ascii_text (msg_Body (fst (overQuotaNotification req ts)))"
    using assms(3) nat_text_ascii by (simp add: overQuotaNotification_def request_message_def Let_def)
qed

lemma over_quota_refused:
  assumes "20 \<le> length ts" and "list_all (\<lambda>t. length t = 64 \<and> ascii_text t) ts" and "ascii_text (vr_request_number req)"
  shows "validate_message (fst (overQuotaNotification req ts)) = Some (ErrInvalidMessage ''body longer than 1000'')"
proof -
  let ?m = "fst (overQuotaNotification req ts)"
  have t: "msg_Type ?m = ''visit_quota.over_quota''" "msg_Title ?m = ''Kelebihan kuota kunjungan''"
    by (simp_all add: overQuotaNotification_def request_message_def Let_def)
  have "length (runes (msg_Title ?m)) = 25" unfolding t by (subst ascii_runes) simp_all
  then show ?thesis
    unfolding validate_message_def t using over_quota_texts over_quota_body [OF assms]
    by (simp add: ascii_runes maxTitleLen_def maxBodyLen_def)
qed

end
