(* ===== verification/Vendor_Sample.thy ===== *)
theory Vendor_Sample
  imports Vault_Plan_Actions Vendor_Realization
begin

text \<open>
  One request from its creation to its completion, run on the model: created and submitted by a maker,
  approved, allocated to a vault, planned and approved by two members of the area, reviewed, accepted by
  both parties of the vendor, reported and confirmed. Every state is computed by the simplifier from the
  state before it, by the operation itself; the properties' witnesses take their inputs from here.
\<close>

section \<open>Computing an operation\<close>

text \<open>
  Rules that run a body statement by statement. The congruences keep the simplifier out of the statements
  that are not reached yet.
\<close>

definition bind_result :: "'e + 'a \<times> 's \<Rightarrow> ('a \<Rightarrow> ('s, 'e, 'b) tx) \<Rightarrow> 'e + 'b \<times> 's" where
  "bind_result r f = (case r of Inl e \<Rightarrow> Inl e | Inr (a, t) \<Rightarrow> f a t)"

lemma bind_result_simps: "bind_result (Inl e) f = Inl e" "bind_result (Inr (a, t)) f = f a t"
  by (simp_all add: bind_result_def)

lemma bind_runs: "tx_bind m f s = bind_result (m s) f" "tx_then m n s = bind_result (m s) (\<lambda>_. n)"
  by (simp_all add: tx_then_def tx_bind_def bind_result_def)

lemma statement_runs:
  "tx_ret a s = Inr (a, s)" "tx_fail e s = Inl e" "tx_read f s = Inr (f s, s)" "tx_write g s = Inr ((), g s)"
  "tx_guard ok e s = (if ok then Inr ((), s) else Inl e)"
  "tx_check c s = (case c of None \<Rightarrow> Inr ((), s) | Some e \<Rightarrow> Inl e)"
  "tx_lift r s = (case r of Inl e \<Rightarrow> Inl e | Inr a \<Rightarrow> Inr (a, s))"
  "tx_get e f' s = (case f' s of None \<Rightarrow> Inl e | Some a \<Rightarrow> Inr (a, s))"
  "tx_when c' m s = (if c' then m s else Inr ((), s))"
  "tx_stmt fails e m' s = (if fails then Inl e else m' s)"
  by (simp_all add: tx_defs split: option.splits sum.splits)

lemma in_tx_runs:
  "in_tx v what body s = (case tx_then (begin_tx v) body s of Inl e \<Rightarrow> (Inl e, s)
     | Inr (a, t) \<Rightarrow> if ve_commit v then (Inr a, t) else (Inl (VrDb what), s))"
  by (simp add: in_tx_def run_in_tx_def)

lemma retry_runs:
  "attemptCreateWithNumber v inp prefix regionCode actor s = Inr (r, t) \<Longrightarrow>
     retry_number 5 v inp prefix regionCode actor s = Inr (r, t)"
  using retry_number.simps(2) [of 4] by simp

lemma bind_result_cong: "r = r' \<Longrightarrow> bind_result r f = bind_result r' f"
  by simp

lemma unreached_cong:
  "tx_bind m f = tx_bind m f" "tx_then m' n = tx_then m' n" "tx_read f' = tx_read f'" "tx_write g = tx_write g"
  "tx_get e f'' = tx_get e f''" "tx_when c m1 = tx_when c m1" "tx_stmt b e m2 = tx_stmt b e m2"
  "tx_lift r = tx_lift r" "in_tx v w m3 = in_tx v w m3" "tx_guard ok e = tx_guard ok e" "tx_check ce = tx_check ce"
  by (rule refl)+

text \<open>Numbers and dates in text form.\<close>

lemma digit_runs:
  "digit_char 0 = CHR ''0''" "digit_char (Suc 0) = CHR ''1''" "digit_char 1 = CHR ''1''" "digit_char 2 = CHR ''2''"
  "digit_char 3 = CHR ''3''" "digit_char 4 = CHR ''4''" "digit_char 5 = CHR ''5''" "digit_char 6 = CHR ''6''"
  "digit_char 7 = CHR ''7''" "digit_char 8 = CHR ''8''" "digit_char 9 = CHR ''9''"
  by code_simp+

lemma text_runs:
  "nat_text 0 = [digit_char 0]" "nat_text (Suc 0) = [digit_char 1]" "nat_text 1 = [digit_char 1]"
  "nat_text (numeral k) = (if (numeral k :: nat) < 10 then [digit_char (numeral k)]
     else nat_text (numeral k div 10) @ [digit_char (numeral k mod 10)])"
  by (subst nat_text.simps; simp)+

lemma number_runs:
  "FormatInt 0 = nat_text 0" "FormatInt 1 = nat_text 1" "FormatInt (numeral k) = nat_text (numeral k)"
  "zero_padded n 1 = pad_left n (nat_text 1)" "zero_padded n (numeral k) = pad_left n (nat_text (numeral k))"
  "replicate (numeral k) x = x # replicate (pred_numeral k) x"
  by (simp_all add: FormatInt_def zero_padded_def numeral_eq_Suc)

lemma date_runs: "date_compact 1 = ''00010102''" "date_iso 1 = ''0001-01-02''"
  by (simp_all add: date_compact_def date_iso_def civil_def pad_left_def number_runs text_runs digit_runs Let_def
      cong: let_weak_cong)

lemma trim_runs: "TrimSpace [] = []" "TrimSpace ''100000'' = ''100000''"
  by (simp add: TrimSpace_def trim_with.simps) (rule TrimSpace_plain, auto simp: ascii_space_def)

lemmas vendor_db_runs =
  fresh_id_def clock_timestamp_def write_log_def notify_def in_int64_def wrap64_def go_get_def go_has_def
  sortedKeys_def GetVendorRequest_def GetVendorRequestForUpdate_def update_request_def draft_request_def
  CreateVendorRequest_def stamp_def status_row_def UpdateVendorRequestStatus_def returned_def completion_row_def
  UpdateVendorRequestCompletion_def review_row_def SetVendorRequestVaultReview_def
  SetVendorRequestStatusOnly_def ListVendorRequestItems_def ListDistinctRequestTerminals_def item_violation_def
  InsertVendorRequestItem_def DeleteVendorRequestItems_def NextRequestNumberSeq_def ForecastRowExists_def
  GetVendorForRequestNumber_def package_valid_def package_branch_def latest_package_def any_latest_package_def
  branch_by_id_def vendor_by_id_def GetActiveVendorForTerminal_def replenish_branch_def
  ListVendorRequestTickets_def ListActiveVendorRequestTickets_def denom_code_ok_def ticket_violation_def
  next_ticket_seq_def ticket_number_def IssueVendorRequestTicket_def activate_ticket_def
  SetVendorRequestTicketActive_def SetVendorRequestTicketResult_def pg_stmt_def

lemmas vendor_request_runs =
  go_set_def region_codes_def terminals_of_region_def singleRegion_def denomCode_def item_terminals_def
  denoms_of_def wantedCodes_def ticket_key_def ticket_wanted_def active_codes_def inactive_tickets_def
  missing_codes_def planTickets_def json_tickets_def addTo_def issue_ticket_def applyTicketPlan_def
  ticketDate_def checkerRoles_def roleIn_def isChecker_def transitions_def nextState_def checkActor_def
  item_key_def validateItemsPayload_def resolveItems_def validateReplenishDate_def
  validateCategoryDateConsistency_def validateItemsSingleVendor_def stringPtrOrNil_def atm_by_terminal_def
  begin_tx_def state_json_def request_log_def resolveVendorPrefix_def categoryOrNil_def request_number_def
  attemptCreateWithNumber_def maxAttempts_def createWithRetryingNumber_def insert_items_def overrides_def
  vendor_create_checks_def create_in_region_def VendorRequest_Create_body_def VendorRequest_Create_def
  VendorRequest_UpdateItems_body_def VendorRequest_UpdateItems_def carries_reason_def transition_body_def
  transition_def opts_of_def VendorRequest_Submit_def VendorRequest_Approve_def

lemmas vendor_party_runs =
  order_keys_def order_group_def active_ticket_number_def ListRequestPartyAtmRows_def vault_by_id_def
  vault_address_def live_plan_def vault_order_of_def ListRequestPartyVaultRows_def partyRoleReplenish_def
  partyRoleVault_def vendorPartyEntity_def currencyIDR_def branch_ref_def newPartyContent_def text_or_empty_def
  requestVaults_def add_atm_row_def replenish_key_def vault_key_def add_denoms_def buildPartyContents_def
  LockVendorPartiesForRequest_def same_party_def InsertVendorParty_def update_party_def DecideVendorParty_def
  InsertVendorPartyEvent_def notice_of_def partyNoticeText_def no_recipients_def notifyParties_def
  auditParties_def reapprovedSinceSent_def record_event_def refreshParty_def party_key_of_def newPartyKeys_def
  insert_party_def sums_fit_def syncVendorParties_def GetUserVendorScope_def scope_def in_scope_def order_of_def
  party_by_id_def GetVendorOrder_def getScoped_def moveRequest_def afterAccept_def afterDecision_def
  lock_request_def recordDecision_def decide_body_def decide_def VendorOrder_Accept_def
  realizationEarliestDays_def no_ticket_def sorted_denoms_def realization_err_def validateRealizationRow_def
  ticket_for_def validateRealization_def ticket_denoms_def ListRequestTicketOrders_def
  UpsertVendorRealization_def DeleteVendorRealizationAmounts_def banknotes_def InsertVendorRealizationAmount_def
  checkReportsWholeRequest_def add_order_def ticket_orders_def save_realization_def realization_json_def
  applyRealization_def realization_apply_def realization_party_def VendorOrder_SubmitRealization_def

lemmas vault_runs =
  vaultPlanEntity_def planDraft_def planPending_def planAcmApproved_def update_plans_def
  ResetVaultPlansToDraft_def SetVaultPlanStatus_def SetVaultPlanBufferReason_def area_by_id_def area_name_def
  ListVaultPlansForRequest_def ListAcmAreaMemberIDsByRole_def plan_wanted_def plan_areas_def draft_plan_def
  plan_conflict_def CreateMissingVaultPlansByRegion_def notify_area_users_def createVaultPlans_def
  resetVaultPlansForReapproval_def parse_digits_def ParseInt_def capacityWarning_def coverage_def vaultTier_def
  amountsJSON_def vaultCapacity_def allocationDenoms_def reasonMinLen_def reasonMaxLen_def allocErr_def
  isAllocationDenom_def parse_amount_def parseAllocationAmounts_def bad_length_def urgentReason_def
  allocation_line_def validateAllocationLines_def add_amount_def allocationTotals_def checkCoverage_def
  optionalReason_def planVaultTickets_def plan_by_id_def GetVaultPlan_def IsAcmAreaMember_def
  ListRequestOrderTotals_def candidate_of_def ListVaultCandidateVaults_def alloc_view_of_def
  ListVaultPlanAllocations_def ListVaultPlanAllocationAmounts_def ClearVaultPlanAllocations_def
  alloc_violation_def InsertVaultAllocation_def InsertVaultAllocationAmount_def
  UpdateVaultAllocationSnapshot_def saldo_cell_def saldo_row_def ListVaultSaldo_def counted_request_def
  other_alloc_def other_amounts_def ListVaultAllocatedTotals_def ListVaultTicketsForRequest_def
  next_vault_seq_def vault_ticket_violation_def IssueVaultTicket_def issue_vault_ticket_def
  applyVaultTickets_def syncVaultTickets_def hasRole_def planFor_def orderTotals_def amounts_of_def
  planAllocations_def loadVaultMetrics_def metrics_capacity_def refreshAllocationSnapshots_def
  lock_plan_request_def plan_body_def planTx_def plan_log_def plan_notify_def checkAllocationLines_def
  insertAllocation_def line_json_def plan_open_def save_allocations_fn_def VaultPlan_SaveAllocations_def
  storedAllocationLines_def tickets_json_def set_plan_status_def submit_plan_fn_def VaultPlan_Submit_def
  approve_plan_fn_def VaultPlan_Approve_def plannedBy_def notifyReviewed_def review_body_def
  VaultPlan_ReviewRequest_def

lemmas visit_runs =
  package_code_of_def frequency_of_def packageLabel_def atm_quota_of_def ResolveAtmQuota_def
  GetAtmVisitQuotaForUpdate_def EnsureAtmVisitQuota_def update_quota_def AdjustAtmVisitQuota_def
  InsertAtmVisit_def update_visit_def MarkAtmVisitOverQuota_def outcome_of_def count_visit_def recordVisit_def
  completionMakerRoles_def completionSuccess_def completionFailed_def checkCompletionActor_def
  validateCompletionResults_def completion_status_def completion_body_def runCompletionTx_def save_result_def
  set_completion_def party_vendor_def ListVendorPartiesForRequest_def live_replenish_def
  notifyRealizationDecision_def visit_json_def reported_success_def over_quota_terminals_def
  approve_completion_apply_def VendorRequest_ApproveCompletion_def

lemmas library_runs = digit_runs text_runs number_runs date_runs trim_runs pad_left_def go_div_def is_digit_def
  digit_value_def text_value_def equal_fold_def find_row_def update_where_def int64_min_def int64_max_def Let_def
  PartyRoles_def VendorUser_def ATMUser_def VaultUser_def IsVendor_def active_user_def

lemmas sample_runs = bind_result_simps bind_runs statement_runs in_tx_runs retry_runs vendor_db_runs
  vendor_request_runs vendor_party_runs vault_runs visit_runs library_runs

section \<open>The surroundings\<close>

definition sample_user :: user_row where
  "sample_user = \<lparr>us_id = 21, us_role_id = 5, us_employee_id = None, us_username = ''u'', us_full_name = ''U'',
     us_email = ''u@x.id'', us_is_karyawan = False, us_auth_source = ''local'', us_password_hash = None,
     us_vendor_id = Some 1, us_is_active = True, us_last_login_at = None, us_deleted_at = None,
     us_vendor_branch_id = None, us_supervisor_id = None, us_approval_level = None,
     us_password_changed_at = None, us_must_change_password = False, us_failed_login_attempts = 0,
     us_locked_until = None\<rparr>"

definition sample_master :: master where
  "sample_master = \<lparr>
     md_atms = [\<lparr>an_id = 1, an_terminal_id = ''A1'', an_price_machine_group = Some ''G''\<rparr>],
     md_atm_packages = [\<lparr>ap_id = 1, ap_atm_id = 1, ap_vendor_package_id = None, ap_vendor_branch_id = Some 1,
       ap_package = Some ''P'', ap_is_active = True, ap_effective_start_date = 0, ap_effective_end_date = None\<rparr>],
     md_branch_packages = [],
     md_frequencies = [\<lparr>pf_package_code = ''P'', pf_machine_group = ''G'', pf_cr_frequency = 4\<rparr>],
     md_branches = [\<lparr>vb_id = 1, vb_vendor_id = 1, vb_branch_code = ''B1'', vb_branch_name = ''One'',
       vb_region_code = Some ''JKT'', vb_category = ''ATM_CASH'', vb_is_active = True, vb_location_id = None\<rparr>],
     md_vendors = [\<lparr>vd_id = 1, vd_code = ''V1'', vd_name = ''Vendor'', vd_request_prefix = Some ''VEN''\<rparr>],
     md_vaults = [\<lparr>vv_id = 1, vv_vendor_branch_id = 1, vv_vault_code = ''W1'', vv_category = ''CASH'',
       vv_is_active = True, vv_deleted_at = None, vv_location_id = None\<rparr>],
     md_locations = [],
     md_forecast = [\<lparr>fc_terminal_id = ''A1'', fc_periode_pred = 1, fc_denom = 20000, fc_amount_replenish = 40000,
       fc_amount_refund = 0\<rparr>],
     md_areas = [\<lparr>aa_id = 1, aa_name = ''Area'', aa_is_active = True\<rparr>],
     md_area_regions = [(1, ''JKT'')], md_area_members = [(1, 13), (1, 14)],
     md_users = [sample_user], md_roles = [\<lparr>ro_id = 5, ro_role = ''VENDOR-USER''\<rparr>], md_saldo = []\<rparr>"

definition sample_start :: vdb where
  "sample_start = \<lparr>rd_requests = [], rd_items = [], rd_seq = [], rd_tickets = [], rd_plans = [], rd_allocs = [],
     rd_amounts = [], rd_vtickets = [], rd_parties = [], rd_events = [], rd_quotas = [], rd_visits = [],
     rd_realizations = [], rd_real_amounts = [], rd_audit = [],
     rd_notif = \<lparr>nf_users = [], nf_roles = [], nf_branches = [], nf_pics = [], nf_notifications = [], nf_emails = [],
       nf_next_id = 1, nf_next_email = 1\<rparr>,
     rd_master = sample_master, rd_ids = (\<lambda>_. 1), rd_ticks = 0\<rparr>"

definition sample_env :: venv where
  "sample_env = \<lparr>ve_flt = (\<lambda>_. False), ve_now = 100, ve_today = 1, ve_clk = int, ve_commit = True, ve_notifier = None,
     ve_ext = \<lparr>ParseAddress = Some, ToLower = (\<lambda>x. x)\<rparr>\<rparr>"

definition sample_actor :: "id64 \<Rightarrow> string \<Rightarrow> vr_actor" where
  "sample_actor i role = \<lparr>ac_UserID = i, ac_Role = role, ac_IP = []\<rparr>"

definition sample_vendor :: vendor_actor where
  "sample_vendor = \<lparr>xa_Actor = sample_actor 21 ''VENDOR-USER'', xa_ClaimVendorID = Some 1\<rparr>"

definition sample_input :: create_input where
  "sample_input = \<lparr>ci_ForecastDate = 1, ci_ReplenishDate = 1, ci_RequestCategory = ''emergency'', ci_IsManual = True,
     ci_VendorID = 1, ci_Notes = [], ci_Items = [\<lparr>ii_TerminalID = ''A1'', ii_PeriodePred = 1, ii_Denom = 50000,
       ii_AmountReplenish = 100000, ii_Brand = [], ii_LokasiATM = []\<rparr>]\<rparr>"

definition sample_items :: "item_input list" where
  "sample_items = [\<lparr>ii_TerminalID = ''A1'', ii_PeriodePred = 1, ii_Denom = 20000, ii_AmountReplenish = 40000,
     ii_Brand = [], ii_LokasiATM = []\<rparr>]"

definition sample_lines :: "alloc_input list" where
  "sample_lines = [\<lparr>li_VendorVaultID = 1, li_Amounts = [(''50000'', ''100000'')], li_IsUrgent = False,
     li_UrgentReason = None\<rparr>]"

definition sample_report :: "realization_input list" where
  "sample_report = [\<lparr>ri_TerminalID = ''A1'', ri_Result = ''success'', ri_RealizedDate = Some 1,
     ri_Amounts = [(50000, 100000)]\<rparr>]"

text \<open>The fields, so that the records stay folded in the states.\<close>

lemmas sample_master_fields =
  arg_cong [OF sample_master_def, of md_atms, simplified] arg_cong [OF sample_master_def, of md_atm_packages, simplified]
  arg_cong [OF sample_master_def, of md_branch_packages, simplified] arg_cong [OF sample_master_def, of md_frequencies, simplified]
  arg_cong [OF sample_master_def, of md_branches, simplified] arg_cong [OF sample_master_def, of md_vendors, simplified]
  arg_cong [OF sample_master_def, of md_vaults, simplified] arg_cong [OF sample_master_def, of md_locations, simplified]
  arg_cong [OF sample_master_def, of md_forecast, simplified] arg_cong [OF sample_master_def, of md_areas, simplified]
  arg_cong [OF sample_master_def, of md_area_regions, simplified] arg_cong [OF sample_master_def, of md_area_members, simplified]
  arg_cong [OF sample_master_def, of md_users, simplified] arg_cong [OF sample_master_def, of md_roles, simplified]
  arg_cong [OF sample_master_def, of md_saldo, simplified]

lemma sample_fields:
  "ve_flt sample_env q = False" "ve_now sample_env = 100" "ve_today sample_env = 1" "ve_clk sample_env = int"
  "ve_commit sample_env = True" "ve_notifier sample_env = None"
  "ac_UserID (sample_actor i r) = i" "ac_Role (sample_actor i r) = r" "ac_IP (sample_actor i r) = []"
  "ci_ForecastDate sample_input = 1" "ci_ReplenishDate sample_input = 1"
  "ci_RequestCategory sample_input = ''emergency''" "ci_IsManual sample_input" "ci_VendorID sample_input = 1"
  "ci_Notes sample_input = []" "ci_Items sample_input = [\<lparr>ii_TerminalID = ''A1'', ii_PeriodePred = 1, ii_Denom = 50000,
       ii_AmountReplenish = 100000, ii_Brand = [], ii_LokasiATM = []\<rparr>]"
  by (simp_all add: sample_env_def sample_actor_def sample_input_def)

declare sample_runs [simp] sample_master_fields [simp] sample_fields [simp] sample_start_def [simp]
  sample_user_def [simp] sample_vendor_def [simp] sample_lines_def [simp] sample_items_def [simp]
  sample_report_def [simp]

declare bind_result_cong [cong] unreached_cong [cong] let_weak_cong [cong]

section \<open>The run\<close>

definition sample_created :: vdb where
  "sample_created = snd (VendorRequest_Create sample_env (sample_actor 11 ''ATM-USER'') sample_input sample_start)"

lemmas sample_created_state [simp] = sample_created_def [simplified]

definition sample_edited :: vdb where
  "sample_edited = snd (VendorRequest_UpdateItems sample_env (sample_actor 11 ''ATM-USER'') 1 sample_items sample_created)"

lemmas sample_edited_state [simp] = sample_edited_def [simplified]

definition sample_submitted :: vdb where
  "sample_submitted = snd (VendorRequest_Submit sample_env (sample_actor 11 ''ATM-USER'') 1 sample_created)"

lemmas sample_submitted_state [simp] = sample_submitted_def [simplified]

definition sample_approved :: vdb where
  "sample_approved = snd (VendorRequest_Approve sample_env (sample_actor 12 ''ATM-SPV'') 1 sample_submitted)"

lemmas sample_approved_state [simp] = sample_approved_def [simplified]

definition sample_allocated :: vdb where
  "sample_allocated = snd (VaultPlan_SaveAllocations sample_env (sample_actor 13 ''ACM-USER'') 1 sample_lines None sample_approved)"

lemmas sample_allocated_state [simp] = sample_allocated_def [simplified]

definition sample_planned :: vdb where
  "sample_planned = snd (VaultPlan_Submit sample_env (sample_actor 13 ''ACM-USER'') 1 sample_allocated)"

lemmas sample_planned_state [simp] = sample_planned_def [simplified]

definition sample_plan_approved :: vdb where
  "sample_plan_approved = snd (VaultPlan_Approve sample_env (sample_actor 14 ''ACM-SPV'') 1 sample_planned)"

lemmas sample_plan_approved_state [simp] = sample_plan_approved_def [simplified]

definition sample_sent :: vdb where
  "sample_sent = snd (VaultPlan_ReviewRequest sample_env (sample_actor 12 ''ATM-SPV'') 1 True [] sample_plan_approved)"

lemmas sample_sent_state [simp] = sample_sent_def [simplified]

definition sample_half_accepted :: vdb where
  "sample_half_accepted = snd (VendorOrder_Accept sample_env sample_vendor 1 sample_sent)"

lemmas sample_half_accepted_state [simp] = sample_half_accepted_def [simplified]

definition sample_accepted :: vdb where
  "sample_accepted = snd (VendorOrder_Accept sample_env sample_vendor 2 sample_half_accepted)"

lemmas sample_accepted_state [simp] = sample_accepted_def [simplified]

definition sample_reported :: vdb where
  "sample_reported = snd (VendorOrder_SubmitRealization sample_env sample_vendor 1 sample_report sample_accepted sample_accepted)"

lemmas sample_reported_state [simp] = sample_reported_def [simplified]

definition sample_completed :: vdb where
  "sample_completed = snd (VendorRequest_ApproveCompletion sample_env (sample_actor 12 ''ATM-SPV'') 1 sample_reported)"

lemmas sample_completed_state [simp] = sample_completed_def [simplified]

section \<open>What the witnesses use\<close>

lemma sample_statuses:
  "map vr_status (rd_requests sample_created) = [''draft'']"
  "map vr_status (rd_requests sample_approved) = [''vault_assignment'']"
  "map vr_status (rd_requests sample_sent) = [''sent_to_vendor'']"
  "map vr_status (rd_requests sample_accepted) = [''vendor_accepted'']"
  "map vr_status (rd_requests sample_completed) = [''completed'']"
  by simp_all

lemma sample_run_tables:
  "rd_parties sample_created = []" "map py_status (rd_parties sample_completed) = [''accepted'', ''accepted'']"
  "map py_vendor_request_id (rd_parties sample_completed) = [1, 1]" "map vr_id (rd_requests sample_completed) = [1]"
  "map vr_request_number (rd_requests sample_created) = [''REP-VEN-JKT-00010102-001'']"
  "map (\<lambda>q. (qt_quota_total q, qt_remaining q)) (rd_quotas sample_completed) = [(4, 3)]"
  "map vp_vendor_request_id (rd_plans sample_completed) = [1]" "map vr_vault_reviewed_by (rd_requests sample_completed) = [Some 12]"
  "map (\<lambda>k. (tk_denom_code k, tk_is_active k)) (rd_tickets sample_edited) = [(''50K'', False), (''20K'', True)]"
  by simp_all

declare sample_runs [simp del] sample_master_fields [simp del] sample_fields [simp del] sample_start_def [simp del]
  sample_user_def [simp del] sample_vendor_def [simp del] sample_lines_def [simp del] sample_items_def [simp del]
  sample_report_def [simp del]

declare sample_created_state [simp del]
  sample_edited_state [simp del]
  sample_submitted_state [simp del]
  sample_approved_state [simp del]
  sample_allocated_state [simp del]
  sample_planned_state [simp del]
  sample_plan_approved_state [simp del]
  sample_sent_state [simp del]
  sample_half_accepted_state [simp del]
  sample_accepted_state [simp del]
  sample_reported_state [simp del]
  sample_completed_state [simp del]

declare bind_result_cong [cong del] unreached_cong [cong del] let_weak_cong [cong del]

end
