(* ===== verification/Vendor_Properties.thy ===== *)
theory Vendor_Properties
  imports Vault_Eyes Visit_Account Ticket_Sync Vendor_Checks Vendor_Sample
begin

text \<open>
  Properties of the vendor request services, over every run of \<^const>\<open>vstep\<close> from a database without
  requests: anyone may call anything, any statement or commit may fail, and the reference data may change
  in between.
\<close>

section \<open>The sample run\<close>

lemma sample_step:
  "vstep int sample_start sample_created" "vstep int sample_created sample_submitted"
  "vstep int sample_submitted sample_approved" "vstep int sample_approved sample_allocated"
  "vstep int sample_allocated sample_planned" "vstep int sample_planned sample_plan_approved"
  "vstep int sample_plan_approved sample_sent" "vstep int sample_sent sample_half_accepted"
  "vstep int sample_half_accepted sample_accepted" "vstep int sample_accepted sample_reported"
  "vstep int sample_reported sample_completed"
  unfolding sample_created_def sample_submitted_def sample_approved_def sample_allocated_def sample_planned_def
    sample_plan_approved_def sample_sent_def sample_half_accepted_def sample_accepted_def sample_reported_def
    sample_completed_def
  by (rule vstep.intros, simp add: sample_fields)+

lemma sample_start: "vendor_start sample_start"
  by (simp add: vendor_start_def sample_start_def)

lemma sample_run_created: "(vstep int)\<^sup>*\<^sup>* sample_start sample_created"
  using sample_step(1) by blast

lemma sample_run_reported: "(vstep int)\<^sup>*\<^sup>* sample_start sample_reported"
  using sample_step(1-10) by (meson rtranclp.rtrancl_into_rtrancl rtranclp.rtrancl_refl)

lemma sample_run: "(vstep int)\<^sup>*\<^sup>* sample_start sample_completed"
  using sample_run_reported sample_step(11) by (rule rtranclp.rtrancl_into_rtrancl)

section \<open>Requests\<close>

lemma vstep_row:
  assumes "request_inv s" and "vstep clk s t" and "r \<in> set (rd_requests s)"
  shows "\<exists>r' \<in> set (rd_requests t). request_identity r' = request_identity r
    \<and> (r' = r \<or> request_edge (vr_status r) (vr_status r'))"
proof -
  have rs: "fst (core s) = rd_requests s" "fst (core t) = rd_requests t" by (simp_all add: core_def)
  from vstep_core [OF assms(2)] consider (same) "core t = core s"
    | (move) actor where "core_move any_move actor (core s) (core t)" | (create) actor where "core_create actor (core s) (core t)"
    by (auto simp: core_step_def)
  then show ?thesis
  proof cases
    case move
    obtain act q q' where q: "any_move actor act q q'" "set (rd_requests t) = insert q' (set (rd_requests s) - {q})"
      using core_moveE [OF move assms(1) [unfolded request_inv_def]] unfolding rs by metis
    show ?thesis
    proof (cases "r = q")
      case True
      then show ?thesis using q(2) move_identity [OF q(1)] move_edge [OF q(1)] by auto
    qed (use q(2) assms(3) in auto)
  next
    case create
    then obtain q where "rd_requests t = rd_requests s @ [q]" using rs unfolding core_create_def by (metis fst_conv)
    then show ?thesis using assms(3) by auto
  qed (use rs assms(3) in auto)
qed

text \<open>C10: A request keeps its number, maker, dates, vendor and region for good, and its status only
  changes along the transition table, or as a vendor's decision or a rejected report changes it.\<close>

theorem request_follows_table:
  assumes "vendor_start s0" and "(vstep clk)\<^sup>*\<^sup>* s0 s" and "vstep clk s t" and "r \<in> set (rd_requests s)"
  shows "\<exists>r' \<in> set (rd_requests t). request_identity r' = request_identity r
    \<and> (r' = r \<or> request_edge (vr_status r) (vr_status r'))"
  by (rule vstep_row [OF requests.reachable_invar [OF assms(1,2)] assms(3,4)])

theorem request_follows_table_witness:
  "\<exists>r' \<in> set (rd_requests sample_submitted). request_identity r' = request_identity (hd (rd_requests sample_created))
    \<and> (r' = hd (rd_requests sample_created) \<or> request_edge ''draft'' (vr_status r'))"
proof -
  have r: "hd (rd_requests sample_created) \<in> set (rd_requests sample_created)"
    "vr_status (hd (rd_requests sample_created)) = ''draft''"
    using sample_statuses(1) by (auto simp: map_eq_Cons_conv)
  show ?thesis
    using request_follows_table [OF sample_start sample_run_created sample_step(2) r(1)] unfolding r(2) .
qed

text \<open>C3: Ids and numbers of requests are unique, a request is cancelled exactly when its flag says so,
  its maker never approved or rejected it, and a completed one was confirmed by another user than the
  one who reported it.\<close>

theorem request_rows_sound:
  assumes "vendor_start s0" and "(vstep clk)\<^sup>*\<^sup>* s0 s" and "r \<in> set (rd_requests s)"
  shows "distinct (map vr_id (rd_requests s)) \<and> distinct (map vr_request_number (rd_requests s))
    \<and> (vr_status r = ''cancelled'' \<longleftrightarrow> vr_is_canceled r) \<and> vr_approved_by r \<noteq> Some (vr_created_by r)
    \<and> vr_rejected_by r \<noteq> Some (vr_created_by r)
    \<and> (vr_status r = ''completed'' \<longrightarrow> vr_completion_approved_by r \<noteq> None \<and> vr_completion_submitted_by r \<noteq> None
         \<and> vr_completion_approved_by r \<noteq> vr_completion_submitted_by r)"
proof -
  have inv: "core_inv (core s)" using requests.reachable_invar [OF assms(1,2)] by (simp add: request_inv_def)
  show ?thesis using core_invD(1,2) [OF inv] core_invD(4) [OF inv, of r] assms(3)
    by (simp add: core_def request_row_ok_def four_eyes_def)
qed

theorem request_rows_sound_witness:
  "vr_completion_approved_by (hd (rd_requests sample_completed)) \<noteq> vr_completion_submitted_by (hd (rd_requests sample_completed))"
proof -
  have r: "hd (rd_requests sample_completed) \<in> set (rd_requests sample_completed)"
    "vr_status (hd (rd_requests sample_completed)) = ''completed''"
    using sample_statuses(5) by (auto simp: map_eq_Cons_conv)
  show ?thesis using request_rows_sound [OF sample_start sample_run r(1)] r(2) by simp
qed



text \<open>C15: A completed or cancelled request never changes again.\<close>

theorem settled_requests_final:
  assumes "vendor_start s0" and "(vstep clk)\<^sup>*\<^sup>* s0 s" and "(vstep clk)\<^sup>*\<^sup>* s t"
    and "r \<in> set (rd_requests s)" and "vr_status r = ''completed'' \<or> vr_status r = ''cancelled''"
  shows "r \<in> set (rd_requests t)"
proof -
  let ?Q = "\<lambda>u v. \<forall>r \<in> set (rd_requests u). vr_status r = ''completed'' \<or> vr_status r = ''cancelled'' \<longrightarrow> r \<in> set (rd_requests v)"
  have "?Q u v" if "request_inv u" "vstep clk u v" for u v
  proof (intro ballI impI)
    fix q assume q: "q \<in> set (rd_requests u)" "vr_status q = ''completed'' \<or> vr_status q = ''cancelled''"
    then have "\<not> request_edge (vr_status q) b" for b using edge_statuses [of "vr_status q" b] by auto
    then show "q \<in> set (rd_requests v)" using vstep_row [OF that q(1)] by auto
  qed
  then have "?Q s t"
    by (intro requests.run_preorder [OF assms(3) requests.reachable_invar [OF assms(1,2)], of ?Q]) auto
  then show ?thesis using assms(4,5) by blast
qed

theorem settled_requests_final_witness:
  "hd (rd_requests sample_completed) \<in> set (rd_requests (snd (VendorRequest_Cancel sample_env (sample_actor 12 ''ATM-SPV'') 1 ''late'' sample_completed)))"
proof -
  have r: "hd (rd_requests sample_completed) \<in> set (rd_requests sample_completed)"
    "vr_status (hd (rd_requests sample_completed)) = ''completed''"
    using sample_statuses(5) by (auto simp: map_eq_Cons_conv)
  have "vstep int sample_completed (snd (VendorRequest_Cancel sample_env (sample_actor 12 ''ATM-SPV'') 1 ''late'' sample_completed))"
    by (rule vstep.cancel) (simp add: sample_fields)
  then show ?thesis
    by (intro settled_requests_final [OF sample_start sample_run _ r(1)]) (use r(2) in auto)
qed

section \<open>Vendors, vaults and visits\<close>

text \<open>C4: From the moment a request counts as accepted by the vendors, every party of it has accepted it
  or was withdrawn from it.\<close>

theorem vendors_all_accepted:
  assumes "vendor_start s0" and "(vstep clk)\<^sup>*\<^sup>* s0 s" and "r \<in> set (rd_requests s)"
    and "vr_status r \<in> {''vendor_accepted'', ''completion_pending'', ''completed''}"
    and "p \<in> set (rd_parties s)" and "py_vendor_request_id p = vr_id r"
  shows "py_status p = ''accepted'' \<or> py_status p = ''withdrawn''"
proof -
  have "settled (vr_id r) s"
    by (rule agreed_invD(4) [OF agreements.reachable_invar [OF assms(1,2)] assms(3)]) (use assms(4) in \<open>simp add: agreed_def\<close>)
  then show ?thesis using assms(5,6) by (simp add: settled_def)
qed

theorem vendors_all_accepted_witness:
  "py_status (hd (rd_parties sample_completed)) = ''accepted'' \<or> py_status (hd (rd_parties sample_completed)) = ''withdrawn''"
proof -
  have r: "hd (rd_requests sample_completed) \<in> set (rd_requests sample_completed)"
    "vr_status (hd (rd_requests sample_completed)) = ''completed''" "vr_id (hd (rd_requests sample_completed)) = 1"
    using sample_statuses(5) sample_run_tables(4) by (auto simp: map_eq_Cons_conv)
  have p: "hd (rd_parties sample_completed) \<in> set (rd_parties sample_completed)"
    "py_vendor_request_id (hd (rd_parties sample_completed)) = 1"
    using sample_run_tables(3) by (auto simp: map_eq_Cons_conv)
  show ?thesis by (rule vendors_all_accepted [OF sample_start sample_run r(1) _ p(1)]) (simp_all add: r p)
qed

text \<open>C2: A request in the vendors' hands has a vault plan that one user submitted and another approved,
  and its review was by neither of them; at no time does a request have two live plans.\<close>

theorem vault_plan_six_eyes:
  assumes "vendor_start s0" and "(vstep clk)\<^sup>*\<^sup>* s0 s" and "r \<in> set (rd_requests s)"
    and "vr_status r \<in> {''sent_to_vendor'', ''vendor_accepted'', ''completion_pending'', ''completed''}"
  shows "\<exists>p \<in> set (rd_plans s). \<exists>a b c. vp_vendor_request_id p = vr_id r \<and> vp_status p = planAcmApproved
    \<and> vp_submitted_by p = Some a \<and> vp_approved_by p = Some b \<and> vr_vault_reviewed_by r = Some c
    \<and> a \<noteq> b \<and> c \<noteq> a \<and> c \<noteq> b \<and> length (filter live_plan (plans_of (vr_id r) s)) \<le> 1"
proof -
  have inv: "eyes_inv s" by (rule eyes.reachable_invar [OF assms(1,2)])
  have h: "handed r" "planned r" using assms(4) by (auto simp: handed_def planned_def)
  from eyes_invD(3) [OF inv assms(3) h(2)] obtain p
    where p: "p \<in> set (rd_plans s)" "vp_vendor_request_id p = vr_id r" "vp_status p = planAcmApproved"
    by (auto simp: has_approved_def plans_of_def)
  have ok: "plan_row_ok p" "one_live (plans_of (vr_id r) s)" using eyes_invD(2) [OF inv] p(1) by (simp_all add: plans_ok_def)
  from eyes_invD(4) [OF inv assms(3) h(1)] obtain c where c: "vr_vault_reviewed_by r = Some c"
    "vp_submitted_by p \<noteq> Some c" "vp_approved_by p \<noteq> Some c"
    using p by (auto simp: reviewed_apart_def plans_of_def live_plan_def planAcmApproved_def)
  obtain a b where "vp_submitted_by p = Some a" "vp_approved_by p = Some b" "a \<noteq> b"
    using ok(1) p(3) by (auto simp: plan_row_ok_def)
  then show ?thesis using p c ok(2) by (auto simp: one_live_def intro!: bexI [of _ p])
qed

theorem vault_plan_six_eyes_witness:
  "\<exists>p \<in> set (rd_plans sample_completed). \<exists>a b. vp_submitted_by p = Some a \<and> vp_approved_by p = Some b \<and> a \<noteq> b \<and> 12 \<noteq> a \<and> 12 \<noteq> b"
proof -
  have r: "hd (rd_requests sample_completed) \<in> set (rd_requests sample_completed)"
    "vr_status (hd (rd_requests sample_completed)) = ''completed''"
    "vr_vault_reviewed_by (hd (rd_requests sample_completed)) = Some 12"
    using sample_statuses(5) sample_run_tables(8) by (auto simp: map_eq_Cons_conv)
  show ?thesis using vault_plan_six_eyes [OF sample_start sample_run r(1)] r(2,3) by auto
qed

text \<open>C8: Where the clock of the database moves on at every reading, what is left of an ATM's visit quota is
  its total less the visits recorded since its last reset and not cancelled, and a request counts a
  visit to an ATM once.\<close>

theorem visit_quota_balances:
  assumes "vendor_start s0" and "(vstep clk)\<^sup>*\<^sup>* s0 s" and "strict_mono clk" and "q \<in> set (rd_quotas s)"
  shows "qt_remaining q = qt_quota_total q - int (length (filter (\<lambda>x. vs_atm_id x = qt_atm_id q \<and> vs_quota_known x
      \<and> vs_cancelled_at x = None \<and> qt_reset_at q \<le> vs_created_at x) (rd_visits s)))
    \<and> distinct (map (\<lambda>x. (vs_vendor_request_id x, vs_atm_id x)) (rd_visits s))"
proof -
  have "books_ok clk (rd_quotas s, rd_visits s, rd_ticks s, rd_ids s ''atm_visits'')"
    using accounts.reachable_invar [OF assms(1,2)] assms(3) by (simp add: account_inv_def quota_ok_def books_def)
  note ok = books_okD [OF this]
  have "qt_remaining q = qt_quota_total q - used q (rd_visits s)" using ok assms(4) by blast
  moreover have "filter (counted q) (rd_visits s) = filter (\<lambda>x. vs_atm_id x = qt_atm_id q \<and> vs_quota_known x
      \<and> vs_cancelled_at x = None \<and> qt_reset_at q \<le> vs_created_at x) (rd_visits s)"
    by (rule filter_cong) (auto simp: counted_def)
  ultimately show ?thesis using ok by (simp add: used_def)
qed

theorem visit_quota_balances_witness:
  "\<exists>q \<in> set (rd_quotas sample_completed). qt_remaining q = 3
    \<and> qt_remaining q = qt_quota_total q - int (length (filter (\<lambda>x. vs_atm_id x = qt_atm_id q \<and> vs_quota_known x
      \<and> vs_cancelled_at x = None \<and> qt_reset_at q \<le> vs_created_at x) (rd_visits sample_completed)))"
proof -
  obtain q where q: "q \<in> set (rd_quotas sample_completed)" "qt_remaining q = 3"
    using sample_run_tables(6) by (auto simp: map_eq_Cons_conv)
  have "strict_mono int" by (simp add: strict_mono_def)
  from visit_quota_balances [OF sample_start sample_run this q(1)] q show ?thesis by blast
qed

section \<open>Tickets and allocations\<close>

text \<open>C16: After a change of a draft's items, the active tickets of the request are exactly one per ATM of
  the new items, with the code of the denominations ordered for it. Assumed of the table of tickets:
  its primary key and the check on the codes.\<close>

theorem tickets_follow_items:
  assumes "tickets_ok (rd_tickets s)" and "GetVendorRequest rid s = Some req"
    and "snd (VendorRequest_UpdateItems v actor rid items s) \<noteq> s"
  shows "active_pairs (vr_request_number req) (rd_tickets (snd (VendorRequest_UpdateItems v actor rid items s)))
    = set (item_codes (items_of rid (snd (VendorRequest_UpdateItems v actor rid items s))))"
proof -
  let ?P = "\<lambda>t. t = s \<or> active_pairs (vr_request_number req) (rd_tickets t) = set (item_codes (items_of rid t))"
  have "?P (snd (in_tx v ''commit update items'' (VendorRequest_UpdateItems_body v actor rid items) s))"
    by (rule in_tx_wp [where P = ?P], rule wp_mono [OF UpdateItems_tickets [OF assms(1,2)]]) simp_all
  then show ?thesis using assms(3) by (simp add: VendorRequest_UpdateItems_def split: option.splits)
qed

theorem tickets_follow_items_witness:
  "active_pairs ''REP-VEN-JKT-00010102-001'' (rd_tickets sample_edited) = set (item_codes (items_of 1 sample_edited))"
proof -
  have r: "GetVendorRequest 1 sample_created = Some (hd (rd_requests sample_created))"
    "vr_request_number (hd (rd_requests sample_created)) = ''REP-VEN-JKT-00010102-001''"
    by (simp_all add: sample_created_state GetVendorRequest_def find_row_def)
  have t: "tickets_ok (rd_tickets sample_created)" by (simp add: sample_created_state tickets_ok_def)
  have "rd_tickets sample_edited \<noteq> rd_tickets sample_created" by (simp add: sample_created_state sample_edited_state)
  then have "snd (VendorRequest_UpdateItems sample_env (sample_actor 11 ''ATM-USER'') 1 sample_items sample_created) \<noteq> sample_created"
    unfolding sample_edited_def by metis
  from tickets_follow_items [OF t r(1) this] show ?thesis unfolding sample_edited_def [symmetric] r(2) .
qed

text \<open>C13: A vault plan that was submitted was a draft with at least one vault, and for every banknote the
  stored allocations cover the order. Assumed of the tables: the primary key of the amounts, the check
  on the items' amounts, and sums that fit the service's integers.\<close>

theorem submitted_plan_covers_order:
  assumes "tables_checked s" and "plan_by_id pid s = Some p" and "\<And>d. stored_total pid s d \<le> int64_max"
    and "snd (VaultPlan_Submit v actor pid s) \<noteq> s"
  shows "vp_status p = planDraft \<and> stored_rows pid s \<noteq> []
    \<and> list_all (\<lambda>d. go_get 0 (ListRequestOrderTotals (vp_vendor_request_id p) s) d \<le> stored_total pid s d) allocationDenoms"
    (is ?covered)
proof -
  have id: "vp_id p = pid" using assms(2) by (auto simp: plan_by_id_def dest: find_row_Some)
  have "?covered" if run: "plan_body v actor pid (submit_plan_fn v actor) s = Inr (a, t)" for a t
  proof -
    have "wp (plan_body v actor pid (submit_plan_fn v actor)) s (\<lambda>_ _. ?covered)"
      unfolding plan_body_def wp_basic(3)
    proof (rule wp_planFor)
      fix q assume "GetVaultPlan pid s = Some q"
      then have q: "pl_plan q = p" using assms(2) by (auto simp: GetVaultPlan_def bind_eq_Some_conv)
      let ?q = "q\<lparr>pl_plan := p\<lparr>vp_status := vp_status p, vp_submitted_by := vp_submitted_by p, vp_buffer_reason := vp_buffer_reason p\<rparr>\<rparr>"
      have "wp (submit_plan_fn v actor ?q req) s (\<lambda>_ _. ?covered)" for req
        using submit_checked [OF assms(1), of ?q v actor req] assms(3) by (auto simp: id elim: wp_mono)
      then show "wp (lock_plan_request v (vp_vendor_request_id (pl_plan q))) s (\<lambda>req t. wp (query v ''LockVaultPlan'' ''lock vault plan''
          (tx_get (VrPg ''lock vault plan'' PgNoRows) (plan_by_id pid))) t (\<lambda>locked t. wp (submit_plan_fn v actor
            (q\<lparr>pl_plan := (pl_plan q)\<lparr>vp_status := vp_status locked, vp_submitted_by := vp_submitted_by locked,
              vp_buffer_reason := vp_buffer_reason locked\<rparr>\<rparr>) req) t (\<lambda>_ _. ?covered)))"
        using assms(2) by (auto simp: lock_plan_request_def wp_simps q)
    qed
    then show ?thesis using run by (rule wpD)
  qed
  then have "snd (in_tx v ''commit'' (plan_body v actor pid (submit_plan_fn v actor)) s) = s \<or> ?covered"
    by (rule in_tx_needs)
  then show ?thesis using assms(4) by (simp add: VaultPlan_Submit_def planTx_def split: if_splits)
qed

theorem submitted_plan_covers_order_witness:
  "stored_total 1 sample_allocated 50000 = 100000
    \<and> list_all (\<lambda>d. go_get 0 (ListRequestOrderTotals 1 sample_allocated) d \<le> stored_total 1 sample_allocated d) allocationDenoms"
proof -
  have tables: "tables_checked sample_allocated" by (simp add: sample_allocated_state tables_checked_def)
  have p: "plan_by_id 1 sample_allocated = Some (hd (rd_plans sample_allocated))"
    "vp_vendor_request_id (hd (rd_plans sample_allocated)) = 1"
    by (simp_all add: sample_allocated_state plan_by_id_def find_row_def)
  have total: "stored_total 1 sample_allocated d = (if d = 50000 then 100000 else 0)" for d
    by (simp add: sample_allocated_state stored_total_def stored_rows_def vault_runs vendor_party_runs find_row_def
        vendor_db_runs sample_master_fields)
  have "rd_plans sample_planned \<noteq> rd_plans sample_allocated" by (simp add: sample_planned_state sample_allocated_state)
  then have "snd (VaultPlan_Submit sample_env (sample_actor 13 ''ACM-USER'') 1 sample_allocated) \<noteq> sample_allocated"
    unfolding sample_planned_def by metis
  from submitted_plan_covers_order [OF tables p(1) _ this] p(2) total show ?thesis by (simp add: int64_max_def)
qed

section \<open>The vendor portal\<close>

lemma submit_realization_needs:
  "snd (VendorOrder_SubmitRealization v va pid rows view s) = s
    \<or> (\<exists>p. party_by_id pid view = Some p \<and> may_handle va p view \<and> py_role p = partyRoleReplenish \<and> py_status p = ''accepted'')"
proof (cases "realization_party v va pid view")
  case (Inr x)
  then obtain sc s1 y s2 where run: "scope v va view = Inr (sc, s1)" "getScoped v sc pid s1 = Inr (y, s2)"
    and y: "py_role (oo_party y) = partyRoleReplenish" "py_status (oo_party y) = ''accepted''"
    by (auto simp: realization_party_def tx_bind_def tx_then_def tx_guard_def tx_fail_def split: sum.splits if_splits)
  have "s1 = view" by (rule scope_run(1) [OF run(1)])
  then show ?thesis using getScoped_run(2,3) [OF run(1)] run(2) y by auto
qed (simp add: VendorOrder_SubmitRealization_def)

text \<open>C14: A vendor user changes nothing through an order unless it exists and belongs to a branch of the
  user's own vendor, within the user's branch and party roles; a report moreover needs an accepted
  replenish order. The user's vendor, branch and role are those of the database, not of the session.\<close>

theorem vendor_scope_isolates:
  "(snd (VendorOrder_Accept v va pid s) = s \<or> (\<exists>p. party_by_id pid s = Some p \<and> may_handle va p s))
   \<and> (snd (VendorOrder_Reject v va pid reason s) = s \<or> (\<exists>p. party_by_id pid s = Some p \<and> may_handle va p s))
   \<and> (snd (VendorOrder_SubmitRealization v va pid rows view s) = s
      \<or> (\<exists>p. party_by_id pid view = Some p \<and> may_handle va p view \<and> py_role p = partyRoleReplenish \<and> py_status p = ''accepted''))"
proof -
  have *: "snd (decide v va pid x s) = s \<or> (\<exists>p. party_by_id pid s = Some p \<and> may_handle va p s)" for x
    unfolding decide_def by (rule in_tx_needs) (rule decide_needs)
  show ?thesis
    using * submit_realization_needs by (simp add: VendorOrder_Accept_def VendorOrder_Reject_def split: sum.splits)
qed

section \<open>The whole flow\<close>

text \<open>The flow can be walked to its end: there is a run of eleven operations that takes a new request
  through approval, allocation, review, both vendor parties' acceptance and the report to completion,
  with one visit counted against the ATM's quota.\<close>

lemma request_can_complete:
  "vendor_start sample_start \<and> (vstep int)\<^sup>*\<^sup>* sample_start sample_completed
    \<and> map vr_status (rd_requests sample_completed) = [''completed'']
    \<and> map py_status (rd_parties sample_completed) = [''accepted'', ''accepted'']
    \<and> map (\<lambda>q. (qt_quota_total q, qt_remaining q)) (rd_quotas sample_completed) = [(4, 3)]"
  using sample_start sample_run sample_statuses(5) sample_run_tables by simp

section \<open>Where a check defeats the operation\<close>

text \<open>C39: When the number drawn for a new request is taken, every one of the five attempts draws it again
  and the creation fails: the savepoint that keeps the transaction usable also takes back the draw.
  Two vendors with one prefix meet this on their first requests for a day and region.\<close>

theorem number_clash_defeats_retries:
  assumes "ve_flt v = (\<lambda>_. False)" and "GetVendorForRequestNumber (ci_VendorID inp) s = Some d"
    and "vd_request_prefix d = Some prefix"
    and "NextRequestNumberSeq (ci_VendorID inp) regionCode (ci_ReplenishDate inp) s = Inr (seq, t)" and "seq \<le> 999"
    and "r \<in> set (rd_requests s)"
    and "vr_request_number r = request_number prefix regionCode (date_compact (ci_ReplenishDate inp)) seq"
  shows "createWithRetryingNumber v inp regionCode actor s = Inl ErrNumberGeneration"
proof -
  have "resolveVendorPrefix v (ci_VendorID inp) s = Inr (prefix, s)"
    using assms(1-3) by (simp add: resolveVendorPrefix_def tx_defs)
  then show ?thesis
    using retry_clash [OF attempt_clash [OF assms(1,4-7)]] by (simp add: createWithRetryingNumber_def tx_bind_def)
qed

definition twin_vendor :: vvendor where
  "twin_vendor = \<lparr>vd_id = 2, vd_code = ''V2'', vd_name = ''Twin'', vd_request_prefix = Some ''VEN''\<rparr>"

theorem number_clash_defeats_retries_witness:
  "createWithRetryingNumber sample_env (sample_input\<lparr>ci_VendorID := 2\<rparr>) ''JKT'' (sample_actor 11 ''ATM-USER'')
     (sample_created\<lparr>rd_master := sample_master\<lparr>md_vendors := [twin_vendor]\<rparr>\<rparr>) = Inl ErrNumberGeneration"
proof -
  let ?s = "sample_created\<lparr>rd_master := sample_master\<lparr>md_vendors := [twin_vendor]\<rparr>\<rparr>"
  let ?i = "sample_input\<lparr>ci_VendorID := 2\<rparr>"
  have v: "GetVendorForRequestNumber (ci_VendorID ?i) ?s = Some twin_vendor" "vd_request_prefix twin_vendor = Some ''VEN''"
    by (simp_all add: GetVendorForRequestNumber_def twin_vendor_def find_row_def)
  obtain t where t: "NextRequestNumberSeq (ci_VendorID ?i) ''JKT'' (ci_ReplenishDate ?i) ?s = Inr (1, t)"
    by (simp add: NextRequestNumberSeq_def sample_created_state find_row_def sample_fields)
  have r: "hd (rd_requests sample_created) \<in> set (rd_requests ?s)"
    "vr_request_number (hd (rd_requests sample_created)) = request_number ''VEN'' ''JKT'' (date_compact (ci_ReplenishDate ?i)) 1"
    by (simp_all add: sample_created_state sample_fields request_number_def date_runs number_runs text_runs digit_runs pad_left_def)
  show ?thesis
    by (rule number_clash_defeats_retries [OF _ v t _ r]) (simp_all add: sample_env_def)
qed

text \<open>The warning that ATMs went over their quota is refused by the notifier, and the confirmation of the
  report with it, when twenty of them have ids of sixty-four characters, the length a request accepts.\<close>

lemma over_quota_warning_refused:
  assumes "20 \<le> length ts" and "list_all (\<lambda>t. length t = 64 \<and> ascii_text t) ts" and "ascii_text (vr_request_number req)"
    and "ve_notifier v = Some smtp"
  shows "notify v (fst (overQuotaNotification req ts)) (snd (overQuotaNotification req ts)) s
    = Inl (VrNotify (ErrInvalidMessage ''body longer than 1000''))"
  using over_quota_refused [OF assms(1-3)] assms(4) by (simp add: notify_def Send_def tx_defs)

lemma over_quota_warning_refused_witness:
  "notify (sample_env\<lparr>ve_notifier := Some True\<rparr>)
     (fst (overQuotaNotification (hd (rd_requests sample_created)) (replicate 20 (replicate 64 CHR ''A''))))
     (snd (overQuotaNotification (hd (rd_requests sample_created)) (replicate 20 (replicate 64 CHR ''A'')))) sample_created
    = Inl (VrNotify (ErrInvalidMessage ''body longer than 1000''))"
proof (rule over_quota_warning_refused [where smtp = True])
  show "ascii_text (vr_request_number (hd (rd_requests sample_created)))" by (simp add: sample_created_state)
qed (simp_all add: list_all_iff)

end
