(* ===== verification/Notify_Correct.thy ===== *)
theory Notify_Correct
  imports Notify
begin

text \<open>
  What \<open>Send\<close> writes, against a description of the recipients, and the transition system of the
  notification tables: messages sent by the services, the recipients' reading, and the mail worker.
  \<open>outbox_inv\<close> is its invariant, \<open>outbox_moves\<close> what a mail may do from one state to a later one.
\<close>

section \<open>Recipients\<close>

definition addressed :: "recipients \<Rightarrow> notif_st \<Rightarrow> user_row \<Rightarrow> bool" where
  "addressed to st u \<longleftrightarrow> active_user u
     \<and> (us_id u \<in> set (rc_UserIDs to)
        \<or> user_has_role (nf_roles st) u (\<lambda>r. r \<in> set (rc_Roles to))
        \<or> (\<exists>v \<in> set (rc_VendorIDs to). us_vendor_id u = Some v)
        \<or> (\<exists>p \<in> set (rc_VendorParties to).
             list_ex (\<lambda>b. branch_covers b (vt_BranchID p) (us_vendor_id u) (us_vendor_branch_id u)) (nf_branches st)
             \<and> user_has_role (nf_roles st) u (\<lambda>r. r \<in> set (vt_UserRoles p))))"

definition pic_addressed :: "recipients \<Rightarrow> notif_st \<Rightarrow> pic_row \<Rightarrow> bool" where
  "pic_addressed to st q \<longleftrightarrow> pic_reachable q
     \<and> (pc_vendor_id q \<in> set (rc_VendorIDs to)
        \<or> (\<exists>p \<in> set (rc_VendorParties to).
             list_ex (\<lambda>b. branch_covers b (vt_BranchID p) (Some (pc_vendor_id q)) (pc_vendor_branch_id q)) (nf_branches st)
             \<and> vt_PicRole p \<in> set (pc_roles q)))"

lemma no_roles [simp]: "\<not> user_has_role roles u (\<lambda>r. False)"
  by (simp add: user_has_role_def list_ex_iff)

lemma wp_map_read:
  assumes "Q (map (\<lambda>x. f x st) xs) st"
  shows "wp (tx_map (\<lambda>x. tx_stmt b e (tx_read (f x))) xs) st Q"
  using assms by (induction xs arbitrary: Q) (simp_all add: wp_simps)

lemma recipient_rows_wp:
  "wp (recipient_rows flt to) st (\<lambda>rows t. t = st \<and> set rows = recipient_of ` {u \<in> set (nf_users st). addressed to st u})"
proof -
  let ?party = "\<lambda>p. ListActiveUserRecipientsByVendorBranches st (vt_BranchID p) (vt_UserRoles p)"
  have "set (ListActiveUserRecipientsByIDs st (rc_UserIDs to) @ ListActiveUserRecipientsByRoles st (rc_Roles to)
      @ ListActiveUserRecipientsByVendors st (rc_VendorIDs to) @ concat (map ?party (rc_VendorParties to)))
    = recipient_of ` {u \<in> set (nf_users st). addressed to st u}"
    by (auto simp: addressed_def ListActiveUserRecipientsByIDs_def ListActiveUserRecipientsByRoles_def
        ListActiveUserRecipientsByVendors_def ListActiveUserRecipientsByVendorBranches_def)
  moreover have "ListActiveUserRecipientsByIDs st [] = []" "ListActiveUserRecipientsByRoles st [] = []"
    "ListActiveUserRecipientsByVendors st [] = []"
    by (simp_all add: ListActiveUserRecipientsByIDs_def ListActiveUserRecipientsByRoles_def
        ListActiveUserRecipientsByVendors_def)
  ultimately show ?thesis
    unfolding recipient_rows_def
    by (cases "rc_UserIDs to = []"; cases "rc_Roles to = []"; cases "rc_VendorIDs to = []")
       (simp_all add: wp_simps wp_map_read Un_assoc)
qed

lemma add_recipients_spec:
  assumes "distinct (map fst byID)"
  shows "distinct (map fst (add_recipients byID rows))"
    and "fst ` set (add_recipients byID rows) = fst ` set byID \<union> fst ` set rows"
    and "set (add_recipients byID rows) \<subseteq> set byID \<union> set rows"
proof -
  have "distinct (map fst (add_recipients byID rows))
    \<and> fst ` set (add_recipients byID rows) = fst ` set byID \<union> fst ` set rows
    \<and> set (add_recipients byID rows) \<subseteq> set byID \<union> set rows"
    using assms
  proof (induction byID rows rule: add_recipients.induct)
    case (2 byID r rows)
    then show ?case by (cases "fst r \<in> fst ` set byID") (auto simp: insert_absorb)
  qed simp
  then show "distinct (map fst (add_recipients byID rows))"
    and "fst ` set (add_recipients byID rows) = fst ` set byID \<union> fst ` set rows"
    and "set (add_recipients byID rows) \<subseteq> set byID \<union> set rows"
    by simp_all
qed

lemma resolveUsers_wp:
  "wp (resolveUsers flt to) st (\<lambda>us t. t = st \<and> distinct (map fst us)
     \<and> fst ` set us = us_id ` {u \<in> set (nf_users st). addressed to st u}
     \<and> set us \<subseteq> recipient_of ` {u \<in> set (nf_users st). addressed to st u})"
  unfolding resolveUsers_def wp_basic(3)
proof (rule wp_mono [OF recipient_rows_wp])
  fix rows t assume r: "t = st \<and> set rows = recipient_of ` {u \<in> set (nf_users st). addressed to st u}"
  let ?us = "add_recipients [] rows"
  have "fst ` set rows = us_id ` {u \<in> set (nf_users st). addressed to st u}"
    using r by (simp add: image_image recipient_of_def)
  moreover have "distinct (map fst (sort_key fst ?us))"
    using add_recipients_spec(1) [of "[]" rows] by (simp add: distinct_map)
  ultimately show "wp (tx_ret (sort_key fst ?us)) t (\<lambda>us t. t = st \<and> distinct (map fst us)
     \<and> fst ` set us = us_id ` {u \<in> set (nf_users st). addressed to st u}
     \<and> set us \<subseteq> recipient_of ` {u \<in> set (nf_users st). addressed to st u})"
    using r add_recipients_spec(2,3) [of "[]" rows] by (simp add: wp_simps)
qed

lemma pic_emails_wp:
  "wp (pic_emails flt msg to) st (\<lambda>as t. t = st
     \<and> set as = (if msg_Email msg then pic_email ` {q \<in> set (nf_pics st). pic_addressed to st q} else {}))"
proof -
  let ?party = "\<lambda>p. ListVendorBranchNotificationPicEmails st (vt_BranchID p) (vt_PicRole p)"
  have "set (ListVendorNotificationPicEmails st (rc_VendorIDs to) @ concat (map ?party (rc_VendorParties to)))
    = pic_email ` {q \<in> set (nf_pics st). pic_addressed to st q}"
    by (auto simp: pic_addressed_def ListVendorNotificationPicEmails_def ListVendorBranchNotificationPicEmails_def)
  moreover have "ListVendorNotificationPicEmails st [] = []" by (simp add: ListVendorNotificationPicEmails_def)
  ultimately show ?thesis
    unfolding pic_emails_def
    by (cases "rc_VendorIDs to = []"; cases "msg_Email msg") (simp_all add: wp_simps wp_map_read)
qed

section \<open>What is written\<close>

definition new_mail :: "bool \<Rightarrow> timestamp \<Rightarrow> message \<Rightarrow> email_row \<Rightarrow> bool" where
  "new_mail smtp now msg e \<longleftrightarrow> em_status e = (if smtp then ''pending'' else ''skipped'') \<and> em_attempts e = 0
     \<and> em_sent_at e = None \<and> em_subject e = msg_Title msg \<and> em_body e = msg_Body msg @ emailFooter \<and> em_created_at e = now"

definition new_notification :: "timestamp \<Rightarrow> message \<Rightarrow> notification_row \<Rightarrow> bool" where
  "new_notification now msg n \<longleftrightarrow> nt_type n = msg_Type msg \<and> nt_title n = msg_Title msg \<and> nt_body n = msg_Body msg
     \<and> \<not> nt_is_read n \<and> nt_created_at n = now"

text \<open>Mails \<open>es\<close> were added for the addresses among \<open>raws\<close> that none of \<open>seen\<close> is.\<close>

definition mailed :: "notif_ext \<Rightarrow> bool \<Rightarrow> timestamp \<Rightarrow> message \<Rightarrow> string set \<Rightarrow> string list \<Rightarrow> email_row list \<Rightarrow> string list \<Rightarrow> bool" where
  "mailed ext smtp now msg raws seen es seen' \<longleftrightarrow> list_all (new_mail smtp now msg) es
     \<and> distinct (map em_to_address es) \<and> em_to_address ` set es \<inter> set seen = {}
     \<and> set seen' = set seen \<union> em_to_address ` set es
     \<and> set seen' = set seen \<union> {a. \<exists>raw \<in> raws. normalizeEmail ext raw = Some a}"

text \<open>The outbox grows by new mails with the next numbers.\<close>

definition mail_grows :: "email_row list \<Rightarrow> notif_st \<Rightarrow> notif_st \<Rightarrow> bool" where
  "mail_grows es st t \<longleftrightarrow> nf_emails t = nf_emails st @ es \<and> nf_next_email t = nf_next_email st + int (length es)
     \<and> map em_id es = map (\<lambda>i. nf_next_email st + int i) [0..<length es]"

lemma mail_grows_none [simp]: "mail_grows [] st t \<longleftrightarrow> nf_emails t = nf_emails st \<and> nf_next_email t = nf_next_email st"
  by (simp add: mail_grows_def)

lemma map_eq_nthD: "map f xs = map g ys \<Longrightarrow> i < length xs \<Longrightarrow> f (xs ! i) = g (ys ! i)"
  by (metis length_map nth_map)

lemma mail_grows_trans: "mail_grows xs s t \<Longrightarrow> mail_grows ys t u \<Longrightarrow> mail_grows (xs @ ys) s u"
  by (auto simp: mail_grows_def intro!: nth_equalityI simp: nth_append algebra_simps dest: map_eq_nthD)

lemma mailed_none: "mailed ext smtp now msg {} seen [] seen"
  by (simp add: mailed_def)

lemma mailed_addresses:
  assumes "mailed ext smtp now msg raws [] es seen"
  shows "em_to_address ` set es = {a. \<exists>raw \<in> raws. normalizeEmail ext raw = Some a}"
  using assms [unfolded mailed_def, THEN conjunct2, THEN conjunct2, THEN conjunct2]
  by (elim conjE, unfold Un_empty_left list.set(1)) (drule (1) trans [OF sym])

lemma mailed_trans:
  assumes "mailed ext smtp now msg A s0 xs s1" and "mailed ext smtp now msg B s1 ys s2"
  shows "mailed ext smtp now msg (A \<union> B) s0 (xs @ ys) s2"
proof -
  have un: "{a. \<exists>raw \<in> A \<union> B. normalizeEmail ext raw = Some a}
    = {a. \<exists>raw \<in> A. normalizeEmail ext raw = Some a} \<union> {a. \<exists>raw \<in> B. normalizeEmail ext raw = Some a}" by blast
  note l = assms(1) [unfolded mailed_def, THEN conjunct2, THEN conjunct2, THEN conjunct2]
    and r = assms(2) [unfolded mailed_def, THEN conjunct2, THEN conjunct2, THEN conjunct2]
  note s1 = l [THEN conjunct1] l [THEN conjunct2] and s2 = r [THEN conjunct1] r [THEN conjunct2]
  have "set s2 = set s0 \<union> em_to_address ` set (xs @ ys)"
    unfolding s2(1) s1(1) by (simp add: image_Un Un_assoc)
  moreover have "set s2 = set s0 \<union> {a. \<exists>raw \<in> A \<union> B. normalizeEmail ext raw = Some a}"
    unfolding s2(2) s1(2) un by (simp only: Un_assoc)
  moreover have "em_to_address ` set ys \<inter> (set s0 \<union> em_to_address ` set xs) = {}" "em_to_address ` set xs \<inter> set s0 = {}"
    using assms unfolding mailed_def s1(1) by blast+
  ultimately show ?thesis using assms unfolding mailed_def by (auto simp only: list_all_append map_append distinct_append set_append image_Un set_map)
qed

lemma queueEmail_wp:
  "wp (queueEmail ext smtp flt now nid raw msg seen) st (\<lambda>seen' t. \<exists>es. mail_grows es st t
     \<and> nf_notifications t = nf_notifications st \<and> mailed ext smtp now msg {raw} seen es seen')"
proof (cases "normalizeEmail ext raw")
  case (Some a)
  let ?e = "\<lparr>em_id = nf_next_email st, em_notification_id = nid, em_to_address = a, em_subject = msg_Title msg,
    em_body = msg_Body msg @ emailFooter, em_status = if smtp then ''pending'' else ''skipped'', em_attempts = 0,
    em_last_error = None, em_next_attempt_at = now, em_sent_at = None, em_created_at = now\<rparr>"
  show ?thesis
  proof (cases "a \<in> set seen")
    case True
    then show ?thesis using Some by (auto simp: queueEmail_def wp_simps mailed_def insert_absorb intro!: exI [of _ "[]"])
  next
    case False
    then show ?thesis using Some
      by (auto simp: queueEmail_def wp_simps InsertNotificationEmail_def mailed_def mail_grows_def new_mail_def
          intro!: exI [of _ "[?e]"])
  qed
next
  case None
  then have "mailed ext smtp now msg {raw} seen [] seen" by (simp add: mailed_def)
  then show ?thesis using None by (auto simp: queueEmail_def wp_simps intro!: exI [of _ "[]"])
qed

lemma send_users_wp:
  "wp (send_users ext smtp flt now msg us seen) st (\<lambda>seen' t. \<exists>ns es. nf_notifications t = nf_notifications st @ ns
     \<and> map nt_recipient_user_id ns = map fst us \<and> list_all (new_notification now msg) ns \<and> mail_grows es st t
     \<and> mailed ext smtp now msg (if msg_Email msg then snd ` set us else {}) seen es seen')"
proof (induction us arbitrary: seen st)
  case Nil
  then show ?case by (auto simp: wp_simps intro!: exI [of _ "[]"] mailed_none)
next
  case (Cons u us)
  let ?raws = "\<lambda>us. if msg_Email msg then snd ` set us else {}"
  let ?Q = "\<lambda>us st seen seen' t. \<exists>ns es. nf_notifications t = nf_notifications st @ ns
     \<and> map nt_recipient_user_id ns = map fst us \<and> list_all (new_notification now msg) ns \<and> mail_grows es st t
     \<and> mailed ext smtp now msg (?raws us) seen es seen'"
  have "wp (InsertNotification now msg (fst u)) st (\<lambda>nid st1. wp (if msg_Email msg
      then queueEmail ext smtp flt now (Some nid) (snd u) msg seen else tx_ret seen) st1 (\<lambda>seen1 st2. ?Q [u] st seen seen1 st2))"
  proof (rule wpI)
    fix nid st1 assume i: "InsertNotification now msg (fst u) st = Inr (nid, st1)"
    then obtain n where n: "nf_notifications st1 = nf_notifications st @ [n]" "nt_recipient_user_id n = fst u"
      "new_notification now msg n" "nf_emails st1 = nf_emails st" "nf_next_email st1 = nf_next_email st"
      by (auto simp: InsertNotification_def Let_def new_notification_def)
    then have g: "mail_grows es st t = mail_grows es st1 t" for es t by (simp add: mail_grows_def)
    show "wp (if msg_Email msg then queueEmail ext smtp flt now (Some nid) (snd u) msg seen else tx_ret seen) st1
      (\<lambda>seen1 st2. ?Q [u] st seen seen1 st2)"
    proof (cases "msg_Email msg")
      case True
      have "wp (queueEmail ext smtp flt now (Some nid) (snd u) msg seen) st1 (?Q [u] st seen)"
        by (rule wp_mono [OF queueEmail_wp]) (use n True in \<open>auto simp: g intro!: exI [of _ "[n]"]\<close>)
      then show ?thesis using True by simp
    qed (use n in \<open>auto simp: wp_simps mailed_none intro!: exI [of _ "[n]"] exI [of _ "[]"]\<close>)
  qed
  moreover have "wp (send_users ext smtp flt now msg us seen1) st2 (?Q (u # us) st seen)" if q: "?Q [u] st seen seen1 st2" for seen1 st2
  proof (rule wp_mono [OF Cons.IH])
    fix seen' t assume "?Q us st2 seen1 seen' t"
    then obtain ns' es' where r: "nf_notifications t = nf_notifications st2 @ ns'" "map nt_recipient_user_id ns' = map fst us"
      "list_all (new_notification now msg) ns'" "mail_grows es' st2 t" "mailed ext smtp now msg (?raws us) seen1 es' seen'" by blast
    from q obtain ns es where l: "nf_notifications st2 = nf_notifications st @ ns" "map nt_recipient_user_id ns = [fst u]"
      "list_all (new_notification now msg) ns" "mail_grows es st st2" "mailed ext smtp now msg (?raws [u]) seen es seen1" by auto
    have "?raws (u # us) = ?raws [u] \<union> ?raws us" by simp
    then have "mailed ext smtp now msg (?raws (u # us)) seen (es @ es') seen'" using mailed_trans [OF l(5) r(5)] by (simp only:)
    then show "?Q (u # us) st seen seen' t"
      using l(1-3) r(1-3) mail_grows_trans [OF l(4) r(4)]
      by (intro exI [of _ "ns @ ns'"] exI [of _ "es @ es'"]) simp
  qed
  ultimately show ?case
    by (simp only: send_users.simps wp_basic(3,9)) (blast intro: wp_mono)
qed

lemma send_pics_wp:
  "wp (send_pics ext smtp flt now msg as seen) st (\<lambda>_ t. \<exists>es seen'. nf_notifications t = nf_notifications st
     \<and> mail_grows es st t \<and> mailed ext smtp now msg (set as) seen es seen')"
proof (induction as arbitrary: seen st)
  case Nil
  show ?case by (auto simp: wp_simps intro!: exI [of _ "[]"] exI [of _ seen] mailed_none)
next
  case (Cons a as)
  show ?case unfolding send_pics.simps wp_basic(3)
  proof (rule wp_mono [OF queueEmail_wp])
    fix seen1 st1 assume "\<exists>es. mail_grows es st st1 \<and> nf_notifications st1 = nf_notifications st
      \<and> mailed ext smtp now msg {a} seen es seen1"
    then obtain es where l: "mail_grows es st st1" "nf_notifications st1 = nf_notifications st"
      "mailed ext smtp now msg {a} seen es seen1" by blast
    show "wp (send_pics ext smtp flt now msg as seen1) st1 (\<lambda>_ t. \<exists>es seen'. nf_notifications t = nf_notifications st
      \<and> mail_grows es st t \<and> mailed ext smtp now msg (set (a # as)) seen es seen')"
    proof (rule wp_mono [OF Cons.IH])
      fix x t assume "\<exists>es seen'. nf_notifications t = nf_notifications st1 \<and> mail_grows es st1 t
        \<and> mailed ext smtp now msg (set as) seen1 es seen'"
      then obtain es' seen' where r: "nf_notifications t = nf_notifications st1" "mail_grows es' st1 t"
        "mailed ext smtp now msg (set as) seen1 es' seen'" by blast
      show "\<exists>es seen'. nf_notifications t = nf_notifications st \<and> mail_grows es st t
        \<and> mailed ext smtp now msg (set (a # as)) seen es seen'"
        using mail_grows_trans [OF l(1) r(2)] mailed_trans [OF l(3) r(3)] l(2) r(1) by auto
    qed
  qed
qed

text \<open>\<open>Send\<close> as a whole.\<close>

definition sent_to :: "notif_ext \<Rightarrow> bool \<Rightarrow> timestamp \<Rightarrow> message \<Rightarrow> recipients \<Rightarrow> notif_st \<Rightarrow> notif_st \<Rightarrow> bool" where
  "sent_to ext smtp now msg to st t \<longleftrightarrow> (\<exists>us ns es seen as. nf_notifications t = nf_notifications st @ ns
     \<and> map nt_recipient_user_id ns = map fst us \<and> distinct (map fst us)
     \<and> fst ` set us = us_id ` {u \<in> set (nf_users st). addressed to st u}
     \<and> set us \<subseteq> recipient_of ` {u \<in> set (nf_users st). addressed to st u}
     \<and> list_all (new_notification now msg) ns \<and> mail_grows es st t
     \<and> set as = (if msg_Email msg then pic_email ` {q \<in> set (nf_pics st). pic_addressed to st q} else {})
     \<and> mailed ext smtp now msg ((if msg_Email msg then snd ` set us else {}) \<union> set as) [] es seen)"

lemma Send_wp: "wp (Send ext smtp flt now msg to) st (\<lambda>_. sent_to ext smtp now msg to st)"
proof -
  let ?all = "{u \<in> set (nf_users st). addressed to st u}"
  have "wp (if us = [] \<and> as = [] then tx_ret () else tx_bind (send_users ext smtp flt now msg us [])
      (\<lambda>seen. send_pics ext smtp flt now msg as seen)) st (\<lambda>_. sent_to ext smtp now msg to st)"
    if us: "distinct (map fst us) \<and> fst ` set us = us_id ` ?all \<and> set us \<subseteq> recipient_of ` ?all"
      and as: "set as = (if msg_Email msg then pic_email ` {q \<in> set (nf_pics st). pic_addressed to st q} else {})" for us as
  proof (cases "us = [] \<and> as = []")
    case True
    have "mailed ext smtp now msg ((if msg_Email msg then snd ` set us else {}) \<union> set as) [] [] []"
      using True by (simp add: mailed_none)
    then have "sent_to ext smtp now msg to st st" unfolding sent_to_def
      using us as True by (intro exI [of _ us] exI [of _ "[]"] exI [of _ as]) simp
    then show ?thesis using True by (simp add: wp_simps)
  next
    case False
    have "wp (send_users ext smtp flt now msg us []) st (\<lambda>seen t. wp (send_pics ext smtp flt now msg as seen) t
      (\<lambda>_. sent_to ext smtp now msg to st))"
    proof (rule wp_mono [OF send_users_wp])
      fix seen st1 assume "\<exists>ns es. nf_notifications st1 = nf_notifications st @ ns \<and> map nt_recipient_user_id ns = map fst us
        \<and> list_all (new_notification now msg) ns \<and> mail_grows es st st1
        \<and> mailed ext smtp now msg (if msg_Email msg then snd ` set us else {}) [] es seen"
      then obtain ns es where l: "nf_notifications st1 = nf_notifications st @ ns" "map nt_recipient_user_id ns = map fst us"
        "list_all (new_notification now msg) ns" "mail_grows es st st1"
        "mailed ext smtp now msg (if msg_Email msg then snd ` set us else {}) [] es seen" by blast
      show "wp (send_pics ext smtp flt now msg as seen) st1 (\<lambda>_. sent_to ext smtp now msg to st)"
      proof (rule wp_mono [OF send_pics_wp])
        fix x t assume "\<exists>es seen'. nf_notifications t = nf_notifications st1 \<and> mail_grows es st1 t
          \<and> mailed ext smtp now msg (set as) seen es seen'"
        then obtain es' seen' where r: "nf_notifications t = nf_notifications st1" "mail_grows es' st1 t"
          "mailed ext smtp now msg (set as) seen es' seen'" by blast
        show "sent_to ext smtp now msg to st t" unfolding sent_to_def
          using us as l(1-3) r(1) mail_grows_trans [OF l(4) r(2)] mailed_trans [OF l(5) r(3)]
          by (intro exI [of _ us] exI [of _ ns] exI [of _ "es @ es'"] exI [of _ seen'] exI [of _ as]) simp
      qed
    qed
    then show ?thesis using False by (simp only: wp_basic(3) if_False)
  qed
  then show ?thesis
    unfolding Send_def wp_basic(3,4) wp_options(1)
    by (intro impI wp_mono [OF resolveUsers_wp] wp_mono [OF pic_emails_wp]) blast+
qed

section \<open>The outbox\<close>

text \<open>Everything that changes the notification tables. A message is written in the transaction of a service,
  which may still roll it back.\<close>

inductive notify_op :: "notif_st \<Rightarrow> notif_st \<Rightarrow> bool" where
  send: "Send ext smtp flt now msg to st = Inr ((), t) \<Longrightarrow> notify_op st t"
| mark_read: "notify_op st (snd (Notifications_MarkRead flt now nid user st))"
| mark_all: "notify_op st (snd (Notifications_MarkAllRead flt now user st))"
| tick: "notify_op st (fst (Worker_tick mailer flt skip commit txnow now (st, lastPurge)))"

definition outbox_row_ok :: "email_row \<Rightarrow> bool" where
  "outbox_row_ok e \<longleftrightarrow> (em_sent_at e \<noteq> None \<longleftrightarrow> em_status e = ''sent'') \<and>
     (em_status e = ''pending'' \<and> 0 \<le> em_attempts e \<and> em_attempts e \<le> int (length retryBackoff)
      \<or> em_status e = ''skipped'' \<and> em_attempts e = 0
      \<or> em_status e = ''sent'' \<and> 1 \<le> em_attempts e \<and> em_attempts e \<le> int (length retryBackoff) + 1
      \<or> em_status e = ''failed'' \<and> em_attempts e = int (length retryBackoff) + 1)"

definition outbox_inv :: "notif_st \<Rightarrow> bool" where
  "outbox_inv st \<longleftrightarrow> distinct (map em_id (nf_emails st))
     \<and> (\<forall>e \<in> set (nf_emails st). em_id e < nf_next_email st \<and> outbox_row_ok e)"

definition outbox_start :: "notif_st \<Rightarrow> bool" where
  "outbox_start st \<longleftrightarrow> nf_emails st = []"

text \<open>A mail of a later state was there before, or is new; once it is not pending it stays as it is.\<close>

definition outbox_moves :: "notif_st \<Rightarrow> notif_st \<Rightarrow> bool" where
  "outbox_moves st t \<longleftrightarrow> nf_next_email st \<le> nf_next_email t
     \<and> (\<forall>e' \<in> set (nf_emails t). em_id e' < nf_next_email st \<longrightarrow>
          (\<exists>e \<in> set (nf_emails st). em_id e = em_id e' \<and> em_to_address e = em_to_address e'
             \<and> (em_status e \<noteq> ''pending'' \<longrightarrow> em_status e' = em_status e \<and> em_attempts e' = em_attempts e)))"

definition outbox_step :: "notif_st \<Rightarrow> notif_st \<Rightarrow> bool" where
  "outbox_step st t \<longleftrightarrow> outbox_inv st \<longrightarrow> outbox_inv t \<and> outbox_moves st t"

lemma outbox_moves_refl [simp]: "outbox_moves st st"
  by (auto simp: outbox_moves_def)

lemma outbox_moves_trans:
  assumes "outbox_moves s t" and "outbox_moves t u"
  shows "outbox_moves s u"
  unfolding outbox_moves_def
proof (intro conjI ballI impI)
  show "nf_next_email s \<le> nf_next_email u" using assms by (simp add: outbox_moves_def)
  fix e2 assume e2: "e2 \<in> set (nf_emails u)" "em_id e2 < nf_next_email s"
  then have "em_id e2 < nf_next_email t" using assms(1) by (simp add: outbox_moves_def)
  then obtain e1 where e1: "e1 \<in> set (nf_emails t)" "em_id e1 = em_id e2" "em_to_address e1 = em_to_address e2"
    "em_status e1 \<noteq> ''pending'' \<longrightarrow> em_status e2 = em_status e1 \<and> em_attempts e2 = em_attempts e1"
    using assms(2) e2(1) unfolding outbox_moves_def by blast
  then obtain e where "e \<in> set (nf_emails s)" "em_id e = em_id e1" "em_to_address e = em_to_address e1"
    "em_status e \<noteq> ''pending'' \<longrightarrow> em_status e1 = em_status e \<and> em_attempts e1 = em_attempts e"
    using assms(1) e2(2) unfolding outbox_moves_def by metis
  then show "\<exists>e \<in> set (nf_emails s). em_id e = em_id e2 \<and> em_to_address e = em_to_address e2
    \<and> (em_status e \<noteq> ''pending'' \<longrightarrow> em_status e2 = em_status e \<and> em_attempts e2 = em_attempts e)"
    using e1 by (intro bexI [of _ e]) auto
qed

interpretation outbox_frame: tx_frame outbox_step
  by unfold_locales (auto simp: outbox_step_def intro: outbox_moves_trans)

lemma outbox_same:
  assumes "nf_emails t = nf_emails s" and "nf_next_email t = nf_next_email s"
  shows "outbox_step s t"
  using assms by (auto simp: outbox_step_def outbox_inv_def outbox_moves_def)

text \<open>A message adds mails that were not tried yet.\<close>

lemma outbox_grows:
  assumes "mail_grows es s t" and "list_all (new_mail smtp now msg) es"
  shows "outbox_step s t"
  unfolding outbox_step_def
proof (intro impI)
  assume inv: "outbox_inv s"
  have es: "nf_emails t = nf_emails s @ es" "nf_next_email t = nf_next_email s + int (length es)"
    and ids: "map em_id es = map (\<lambda>i. nf_next_email s + int i) [0..<length es]" using assms(1) by (simp_all add: mail_grows_def)
  have range: "nf_next_email s \<le> em_id e \<and> em_id e < nf_next_email t" if "e \<in> set es" for e
  proof -
    have "em_id e \<in> set (map em_id es)" using that by simp
    then show ?thesis unfolding ids using es(2) by auto
  qed
  have "distinct (map em_id es)" unfolding ids by (simp add: distinct_map inj_on_def)
  moreover have "em_id ` set (nf_emails s) \<inter> em_id ` set es = {}" using range inv by (fastforce simp: outbox_inv_def)
  moreover have "outbox_row_ok e" if "e \<in> set es" for e
    using assms(2) that by (auto simp: list_all_iff new_mail_def outbox_row_ok_def)
  ultimately have "outbox_inv t" using inv range es by (fastforce simp: outbox_inv_def)
  moreover have "outbox_moves s t" using range es by (force simp: outbox_moves_def)
  ultimately show "outbox_inv t \<and> outbox_moves s t" ..
qed

text \<open>An update of one pending mail, and the removal of rows.\<close>

lemma outbox_update:
  assumes inv: "outbox_inv s" and r: "r \<in> set (nf_emails s)" "em_status r = ''pending''"
    and f: "em_id (f r) = em_id r" "em_to_address (f r) = em_to_address r" "outbox_row_ok (f r)"
  shows "outbox_inv (update_email (em_id r) f s) \<and> outbox_moves s (update_email (em_id r) f s)"
proof -
  let ?t = "update_email (em_id r) f s"
  have rows: "nf_emails ?t = map (\<lambda>e. if e = r then f e else e) (nf_emails s)"
    unfolding update_email_def update_where_def using inv r(1)
    by (auto simp: outbox_inv_def dest: distinct_key_eq intro!: map_cong)
  have ids: "map em_id (nf_emails ?t) = map em_id (nf_emails s)" unfolding rows using f(1) by auto
  have "set (nf_emails ?t) \<subseteq> insert (f r) (set (nf_emails s))" "nf_next_email ?t = nf_next_email s"
    unfolding rows by (auto simp: update_email_def)
  then have "outbox_inv ?t" using inv r(1) f(1,3) unfolding outbox_inv_def ids by auto
  moreover have "outbox_moves s ?t" using r f(1,2)
    unfolding outbox_moves_def rows by (auto simp: update_email_def)
  ultimately show ?thesis ..
qed

lemma outbox_shrinks:
  assumes "nf_next_email t = nf_next_email s"
    and "\<exists>p g. nf_emails t = map g (filter p (nf_emails s)) \<and> (\<forall>e. em_id (g e) = em_id e \<and> em_to_address (g e) = em_to_address e
      \<and> em_status (g e) = em_status e \<and> em_attempts (g e) = em_attempts e \<and> em_sent_at (g e) = em_sent_at e)"
  shows "outbox_step s t"
proof -
  from assms(2) obtain p g where t: "nf_emails t = map g (filter p (nf_emails s))"
    and g: "em_id (g e) = em_id e" "em_to_address (g e) = em_to_address e" "em_status (g e) = em_status e"
      "em_attempts (g e) = em_attempts e" "em_sent_at (g e) = em_sent_at e" for e by blast
  have ids: "map em_id (nf_emails t) = map em_id (filter p (nf_emails s))" using t g(1) by simp
  show ?thesis unfolding outbox_step_def outbox_inv_def outbox_moves_def ids
    using assms(1) g by (auto simp: outbox_row_ok_def t intro: distinct_map_filter)
qed

section \<open>The worker\<close>

text \<open>A claimed row, still as it was claimed, is delivered or tried again.\<close>

lemma deliver_wp:
  assumes "outbox_inv s" and "r \<in> set (nf_emails s)" and "em_status r = ''pending''"
  shows "wp (deliver mailer flt txnow now r) s (\<lambda>_ t. outbox_inv t \<and> outbox_moves s t
    \<and> (\<forall>e \<in> set (nf_emails s). em_id e \<noteq> em_id r \<longrightarrow> e \<in> set (nf_emails t)))"
proof -
  have ok: "outbox_row_ok r" using assms(1,2) by (simp add: outbox_inv_def)
  have other: "\<forall>e \<in> set (nf_emails s). em_id e \<noteq> em_id r \<longrightarrow> e \<in> set (nf_emails (update_email (em_id r) f s))" for f
    by (auto simp: update_email_def update_where_def intro: image_eqI)
  note upd = outbox_update [OF assms]
  show ?thesis
  proof (cases "mailer r")
    case None
    have "outbox_row_ok (r\<lparr>em_status := ''sent'', em_sent_at := Some txnow, em_attempts := em_attempts r + 1, em_last_error := None\<rparr>)"
      using ok assms(3) by (auto simp: outbox_row_ok_def)
    then show ?thesis using None other upd
      by (simp add: deliver_def wp_simps MarkNotificationEmailSent_def)
  next
    case (Some err)
    show ?thesis
    proof (cases "em_attempts r + 1 > int (length retryBackoff)")
      case True
      then have "outbox_row_ok (r\<lparr>em_status := ''failed'', em_attempts := em_attempts r + 1, em_last_error := Some le\<rparr>)" for le
        using ok assms(3) by (auto simp: outbox_row_ok_def)
      then show ?thesis using Some True other upd
        by (simp add: deliver_def wp_simps MarkNotificationEmailFailed_def Let_def)
    next
      case False
      then have "outbox_row_ok (r\<lparr>em_attempts := em_attempts r + 1, em_last_error := Some le, em_next_attempt_at := n\<rparr>)" for le n
        using ok assms(3) by (auto simp: outbox_row_ok_def)
      then show ?thesis using Some False other upd
        by (simp add: deliver_def wp_simps MarkNotificationEmailRetry_def Let_def)
    qed
  qed
qed

lemma deliver_all_wp:
  assumes "outbox_inv s" and "set rs \<subseteq> set (nf_emails s)" and "distinct (map em_id rs)"
    and "\<forall>r \<in> set rs. em_status r = ''pending''"
  shows "wp (tx_each (deliver mailer flt txnow now) rs) s (\<lambda>_ t. outbox_inv t \<and> outbox_moves s t)"
  using assms
proof (induction rs arbitrary: s)
  case (Cons r rs)
  have "wp (deliver mailer flt txnow now r) s (\<lambda>_ t. outbox_inv t \<and> outbox_moves s t
    \<and> (\<forall>e \<in> set (nf_emails s). em_id e \<noteq> em_id r \<longrightarrow> e \<in> set (nf_emails t)))"
    by (rule deliver_wp) (use Cons.prems in auto)
  then have "wp (deliver mailer flt txnow now r) s (\<lambda>_ t. wp (tx_each (deliver mailer flt txnow now) rs) t
    (\<lambda>_ u. outbox_inv u \<and> outbox_moves s u))"
  proof (rule wp_mono)
    fix a t assume t: "outbox_inv t \<and> outbox_moves s t \<and> (\<forall>e \<in> set (nf_emails s). em_id e \<noteq> em_id r \<longrightarrow> e \<in> set (nf_emails t))"
    then have "set rs \<subseteq> set (nf_emails t)" using Cons.prems(2,3) by (fastforce simp: image_iff)
    then show "wp (tx_each (deliver mailer flt txnow now) rs) t (\<lambda>_ u. outbox_inv u \<and> outbox_moves s u)"
      using t Cons.prems(3,4) by (intro wp_mono [OF Cons.IH]) (auto intro: outbox_moves_trans)
  qed
  then show ?case by (simp add: wp_simps)
qed (simp add: wp_simps)

lemma sendBatch_step: "stays outbox_step (sendBatch mailer flt skip txnow now)"
proof (rule staysI)
  fix s a t assume run: "sendBatch mailer flt skip txnow now s = Inr (a, t)"
  show "outbox_step s t" unfolding outbox_step_def
  proof (intro impI)
    assume inv: "outbox_inv s"
    let ?rs = "ClaimPendingNotificationEmails skip txnow batchSize s"
    have sub: "set ?rs \<subseteq> {e \<in> set (nf_emails s). em_status e = ''pending''}"
      unfolding ClaimPendingNotificationEmails_def by (rule subset_trans [OF set_take_subset]) auto
    have "distinct (map em_id (filter p (nf_emails s)))" for p
      using inv by (simp add: outbox_inv_def distinct_map_filter)
    then have "distinct (map em_id ?rs)"
      unfolding ClaimPendingNotificationEmails_def take_map [symmetric] by (intro distinct_take) (simp add: distinct_map)
    then have "wp (sendBatch mailer flt skip txnow now) s (\<lambda>_ t. outbox_inv t \<and> outbox_moves s t)"
      unfolding sendBatch_def wp_basic(3,5,9) by (intro disjI2 deliver_all_wp inv) (use sub in auto)
    then show "outbox_inv t \<and> outbox_moves s t" using run by (rule wpD)
  qed
qed

lemma purge_step: "stays outbox_step (purge flt now)"
  unfolding purge_def Let_def
proof (intro outbox_frame.st_then outbox_frame.st_stmt outbox_frame.st_write)
  fix s :: notif_st
  show "outbox_step s (s\<lparr>nf_emails := filter (\<lambda>e. \<not> (em_created_at e < now - retention
      \<and> em_status e \<in> {''sent'', ''failed'', ''skipped''})) (nf_emails s)\<rparr>)"
    by (rule outbox_shrinks) (auto intro!: exI [of _ "\<lambda>e. \<not> (em_created_at e < now - retention
      \<and> em_status e \<in> {''sent'', ''failed'', ''skipped''})"] exI [of _ "\<lambda>e. e"])
  let ?gone = "map nt_id (filter (\<lambda>n. nt_created_at n < now - retention) (nf_notifications s))"
  let ?g = "\<lambda>e. if \<exists>i \<in> set ?gone. em_notification_id e = Some i then e\<lparr>em_notification_id := None\<rparr> else e"
  show "outbox_step s (s\<lparr>nf_notifications := filter (\<lambda>n. \<not> nt_created_at n < now - retention) (nf_notifications s),
      nf_emails := update_where (\<lambda>e. \<exists>i \<in> set ?gone. em_notification_id e = Some i)
        (\<lambda>e. e\<lparr>em_notification_id := None\<rparr>) (nf_emails s)\<rparr>)"
    by (rule outbox_shrinks) (auto simp: update_where_def intro!: exI [of _ "\<lambda>_. True"] exI [of _ ?g])
qed

lemma Worker_tick_step: "outbox_step st (fst (Worker_tick mailer flt skip commit txnow now (st, lastPurge)))"
proof -
  let ?st1 = "case mailer of None \<Rightarrow> st
    | Some m \<Rightarrow> snd (run_in_tx commit (NotifDb ''commit'') (sendBatch m flt skip txnow now) st)"
  have one: "outbox_step st ?st1"
    by (cases mailer) (auto simp: outbox_frame.refl_R intro: run_in_tx_stays [OF sendBatch_step])
  have two: "outbox_step ?st1 (snd (run_in_tx commit (NotifDb ''commit'') (purge flt now) ?st1))"
    by (rule run_in_tx_stays [OF purge_step outbox_frame.refl_R])
  show ?thesis using one outbox_frame.trans_R [OF one two]
    by (auto simp: Worker_tick_def Let_def split: prod.splits sum.splits)
qed

lemma notify_op_step: "notify_op s t \<Longrightarrow> outbox_step s t"
proof (induction rule: notify_op.induct)
  case (send ext smtp flt now msg to st t)
  have "sent_to ext smtp now msg to st t" using Send_wp send by (rule wpD)
  then show ?case by (auto simp: sent_to_def mailed_def intro: outbox_grows)
next
  case (tick st mailer flt skip commit txnow now lastPurge)
  show ?case by (rule Worker_tick_step)
qed (auto simp: Notifications_MarkRead_def Notifications_MarkAllRead_def MarkNotificationRead_def
    MarkAllNotificationsRead_def Let_def intro!: outbox_same)

interpretation outbox: invariant_system outbox_start notify_op outbox_inv
  by unfold_locales (auto simp: outbox_start_def outbox_inv_def dest!: notify_op_step simp: outbox_step_def)

end
