(* ===== verification/Notify_Properties.thy ===== *)
theory Notify_Properties
  imports Notify_Correct
begin

text \<open>Properties of the notifications: whom a message reaches, and the life of a mail in the outbox.\<close>

section \<open>A small office\<close>

definition desk_user :: "id64 \<Rightarrow> string \<Rightarrow> bool \<Rightarrow> user_row" where
  "desk_user uid mail active = \<lparr>us_id = uid, us_role_id = 1, us_employee_id = None, us_username = ''u'', us_full_name = ''U'',
     us_email = mail, us_is_karyawan = True, us_auth_source = ''local'', us_password_hash = None, us_vendor_id = None,
     us_is_active = active, us_last_login_at = None, us_deleted_at = None, us_vendor_branch_id = None,
     us_supervisor_id = None, us_approval_level = None, us_password_changed_at = None, us_must_change_password = False,
     us_failed_login_attempts = 0, us_locked_until = None\<rparr>"

definition desk_st :: notif_st where
  "desk_st = \<lparr>nf_users = [desk_user 2 ''a@x'' True, desk_user 1 ''a@x'' True, desk_user 3 ''c@x'' False],
     nf_roles = [\<lparr>ro_id = 1, ro_role = ''ATM-SPV''\<rparr>], nf_branches = [],
     nf_pics = [\<lparr>pc_vendor_id = 7, pc_vendor_branch_id = None, pc_email = Some ''p@x'', pc_is_notification_recipient = True,
       pc_is_active = True, pc_deleted_at = None, pc_roles = []\<rparr>],
     nf_notifications = [], nf_emails = [], nf_next_id = 1, nf_next_email = 1\<rparr>"

definition desk_ext :: notif_ext where
  "desk_ext = \<lparr>ParseAddress = Some, ToLower = (\<lambda>s. s)\<rparr>"

definition desk_msg :: message where
  "desk_msg = \<lparr>msg_Type = ''t'', msg_Title = ''T'', msg_Body = ''B'', msg_Link = [], msg_EntityType = [],
     msg_EntityID = None, msg_Email = True\<rparr>"

definition desk_to :: recipients where
  "desk_to = \<lparr>rc_UserIDs = [1], rc_Roles = [''ATM-SPV''], rc_VendorIDs = [7], rc_VendorParties = []\<rparr>"

definition desk_sent :: notif_st where
  "desk_sent = (case Send desk_ext True (\<lambda>_. False) 10 desk_msg desk_to desk_st of Inr (_, t) \<Rightarrow> t | Inl _ \<Rightarrow> desk_st)"

lemma desk_Send: "Send desk_ext True (\<lambda>_. False) 10 desk_msg desk_to desk_st = Inr ((), desk_sent)"
proof -
  have "Send desk_ext True (\<lambda>_. False) 10 desk_msg desk_to desk_st \<noteq> Inl e" for e
    by (cases e) code_simp+
  then show ?thesis unfolding desk_sent_def by (auto split: sum.splits)
qed

section \<open>Messages\<close>

text \<open>C31: A message that is sent gives every active user it addresses, by id, role, vendor or vendor party, exactly
  one notification, and nobody else one. Where it is also mailed, every valid address of those users and
  of the vendors' contacts gets exactly one mail, however many of them share it. Assumed: users have
  distinct ids.\<close>

theorem Send_once_per_recipient:
  assumes "Send ext smtp flt now msg to st = Inr ((), t)" and "distinct (map us_id (nf_users st))"
  shows "\<exists>ns es. nf_notifications t = nf_notifications st @ ns \<and> nf_emails t = nf_emails st @ es
    \<and> distinct (map nt_recipient_user_id ns)
    \<and> nt_recipient_user_id ` set ns = us_id ` {u \<in> set (nf_users st). addressed to st u}
    \<and> distinct (map em_to_address es)
    \<and> em_to_address ` set es = (if msg_Email msg
        then {a. \<exists>raw \<in> us_email ` {u \<in> set (nf_users st). addressed to st u} \<union> pic_email ` {q \<in> set (nf_pics st). pic_addressed to st q}.
               normalizeEmail ext raw = Some a} else {})
    \<and> list_all (new_notification now msg) ns \<and> list_all (new_mail smtp now msg) es"
proof -
  let ?all = "{u \<in> set (nf_users st). addressed to st u}"
  have "sent_to ext smtp now msg to st t" using Send_wp assms(1) by (rule wpD)
  then obtain us ns es seen as where n: "nf_notifications t = nf_notifications st @ ns" "map nt_recipient_user_id ns = map fst us"
      "list_all (new_notification now msg) ns"
    and us: "distinct (map fst us)" "fst ` set us = us_id ` ?all" "set us \<subseteq> recipient_of ` ?all"
    and as: "set as = (if msg_Email msg then pic_email ` {q \<in> set (nf_pics st). pic_addressed to st q} else {})"
    and e: "mail_grows es st t" "mailed ext smtp now msg ((if msg_Email msg then snd ` set us else {}) \<union> set as) [] es seen"
    unfolding sent_to_def by blast
  have "recipient_of u \<in> set us" if "u \<in> ?all" for u
  proof -
    have "us_id u \<in> fst ` set us" using that us(2) by simp
    then obtain x where x: "x \<in> set us" "fst x = us_id u" by auto
    then obtain w where w: "w \<in> ?all" "x = recipient_of w" using us(3) by blast
    then have "w = u" using distinct_key_eq [OF assms(2)] that x(2) by (auto simp: recipient_of_def)
    then show ?thesis using x(1) w(2) by simp
  qed
  then have "set us = recipient_of ` ?all" using us(3) by blast
  then have "snd ` set us = us_email ` ?all" by (simp add: image_image recipient_of_def)
  then have "em_to_address ` set es = (if msg_Email msg
      then {a. \<exists>raw \<in> us_email ` ?all \<union> pic_email ` {q \<in> set (nf_pics st). pic_addressed to st q}. normalizeEmail ext raw = Some a} else {})"
    using mailed_addresses [OF e(2)] as by simp
  moreover have "nt_recipient_user_id ` set ns = us_id ` ?all" using arg_cong [OF n(2), of set] us(2) by simp
  moreover have "distinct (map em_to_address es)" "list_all (new_mail smtp now msg) es" using e(2) by (simp_all add: mailed_def)
  moreover have "nf_emails t = nf_emails st @ es" using e(1) by (simp add: mail_grows_def)
  moreover have "distinct (map nt_recipient_user_id ns)" using n(2) us(1) by simp
  ultimately show ?thesis using n(1,3) by blast
qed

theorem Send_once_per_recipient_witness:
  "\<exists>ns es. nf_notifications desk_sent = ns \<and> nf_emails desk_sent = es
    \<and> nt_recipient_user_id ` set ns = {1, 2} \<and> em_to_address ` set es = {''a@x'', ''p@x''}
    \<and> distinct (map nt_recipient_user_id ns) \<and> distinct (map em_to_address es)"
proof -
  have all: "{u \<in> set (nf_users desk_st). addressed desk_to desk_st u} = {desk_user 2 ''a@x'' True, desk_user 1 ''a@x'' True}"
    "{q \<in> set (nf_pics desk_st). pic_addressed desk_to desk_st q} = set (nf_pics desk_st)"
    by (auto simp: desk_st_def desk_user_def desk_to_def addressed_def pic_addressed_def active_user_def user_has_role_def pic_reachable_def)
  have mail: "{a. \<exists>raw \<in> {''a@x'', ''p@x''}. normalizeEmail desk_ext raw = Some a} = {''a@x'', ''p@x''}"
  proof -
    have "normalizeEmail desk_ext ''a@x'' = Some ''a@x''" "normalizeEmail desk_ext ''p@x'' = Some ''p@x''" by code_simp+
    then show ?thesis by auto
  qed
  have "distinct (map us_id (nf_users desk_st))" by (simp add: desk_st_def desk_user_def)
  from Send_once_per_recipient [OF desk_Send this] show ?thesis unfolding all
    using mail by (auto simp: desk_st_def desk_user_def desk_msg_def pic_email_def insert_commute)
qed

section \<open>The outbox\<close>



end
