(* ===== verification/Master_Change.thy ===== *)
theory Master_Change
  imports Approval Tx Csv
begin

text \<open>
  Master data under maker-checker: a change of a vendor, branch, vault or ATM is staged, routed through
  the approval chain and applied by the last approval
  (\<open>src/backend/internal/service/masterdata_change.go\<close>, \<open>masterdata_approval.go\<close>,
  \<open>masterdata_applier.go\<close>, the staging half of \<open>masterdata_import_confirm.go\<close>, over
  \<open>db/master_data.sql.go\<close> and the repositories of \<open>masterdata_change_repository.go\<close> and
  \<open>masterdata_import_batch_repository.go\<close>).

  \<^item> \<open>md_st\<close> holds the tables of the approval component, \<open>master_data_change_requests\<close>,
    \<open>master_data_import_batches\<close> and the entities, whose type is left open: only an \<open>applier\<close> touches them.
  \<^item> \<open>md_env\<close> is the call's surroundings: failing calls by query name and row, the text of a driver
    error, the clock, the registry of appliers. A payload is the JSON value it is stored as.
  \<^item> Every statement outside a transaction commits on its own, as in the code; the operations here run
    one after the other. The import notifications, which are best effort and write no other table than
    the notifications, are left out.
\<close>

section \<open>Tables\<close>

record change_row =
  mc_id :: id64
  mc_entity_type :: string
  mc_entity_id :: "id64 option"
  mc_op :: string
  mc_payload :: json
  mc_before :: "json option"
  mc_status :: string
  mc_maker_id :: id64
  mc_approval_request_id :: "id64 option"
  mc_batch_id :: "id64 option"
  mc_error :: "string option"

record batch_row =
  ib_id :: id64
  ib_entity :: string
  ib_file_hash :: string
  ib_maker_id :: id64
  ib_row_count :: int
  ib_file_name :: "string option"

record 'e md_st =
  md_approval :: approval_db
  md_changes :: "change_row list"
  md_batches :: "batch_row list"
  md_entities :: 'e
  md_next_change :: id64
  md_next_batch :: id64

text \<open>\<open>Applier\<close>: the write and the present state of one kind of entity; an error is its text.\<close>

record 'e applier =
  Applier_Apply :: "timestamp \<Rightarrow> change_row \<Rightarrow> ('e, string, id64 \<times> json) tx"
  Applier_CurrentState :: "id64 \<Rightarrow> 'e \<Rightarrow> string + json"

record 'e md_env =
  me_env :: "approval_db \<Rightarrow> approval_db"
  me_approval_faults :: approval_faults
  me_flt :: "string \<Rightarrow> id64 \<Rightarrow> bool"
  me_text :: "string \<Rightarrow> string"
  me_resolved_at :: timestamp
  me_acted_at :: timestamp
  me_tx_now :: timestamp
  me_appliers :: "string \<Rightarrow> 'e applier option"

datatype md_err =
    ErrMasterDataForbidden | MdValidation string string | ErrMasterDataChangePending
  | ErrMasterDataChangeStale | ErrMasterDataNotRetryable
  | MdApproval approval_err
  | MdText string                \<comment> \<open>\<open>fmt.Errorf\<close> without a cause\<close>
  | MdFailed string string       \<comment> \<open>\<open>fmt.Errorf("what: %w", cause)\<close>\<close>
  | MdUnique                     \<comment> \<open>23505 on the index of pending changes\<close>
  | MdCheck string
  | MdBatchRow nat

text \<open>\<open>Error()\<close> of the errors an apply can end with.\<close>

fun md_text :: "md_err \<Rightarrow> string" where
  "md_text (MdText t) = t"
| "md_text (MdFailed what t) = what @ '': '' @ t"
| "md_text ErrMasterDataChangeStale = ''entity has changed since this change request was submitted''"
| "md_text _ = []"

section \<open>Who may stage\<close>

definition masterDataMakerRoles :: "string list" where
  "masterDataMakerRoles = [''ADMIN'', ''ADMIN_PARAM'']"

text \<open>\<open>strings.ToUpper\<close>, as far as its result can be ASCII: beyond ASCII only the dotless i (C4 B1) and the long
  s (C5 BF) have ASCII upper case forms.\<close>

fun to_upper :: "string \<Rightarrow> string" where
  "to_upper [] = []"
| "to_upper [a] = [ascii_upper a]"
| "to_upper (a # b # cs) =
     (if a = CHR 0xC4 \<and> b = CHR 0xB1 then CHR ''I'' # to_upper cs
      else if a = CHR 0xC5 \<and> b = CHR 0xBF then CHR ''S'' # to_upper cs
      else ascii_upper a # to_upper (b # cs))"

text \<open>The caller of the request: user and role, if authenticated.\<close>

definition authorizeMasterDataMaker :: "(id64 \<times> string) option \<Rightarrow> id64 \<Rightarrow> bool" where
  "authorizeMasterDataMaker auth makerID =
     (case auth of None \<Rightarrow> False
      | Some (uid, role) \<Rightarrow> uid = makerID \<and> to_upper (TrimSpace role) \<in> set masterDataMakerRoles)"

definition masterDataDocumentType :: string where
  "masterDataDocumentType = ''master_data''"

record submit_request =
  sr_EntityType :: string
  sr_Op :: string
  sr_EntityID :: "id64 option"
  sr_Payload :: "json option"
  sr_Before :: "json option"
  sr_BatchID :: "id64 option"

definition validateMasterDataOp :: "string \<Rightarrow> id64 option \<Rightarrow> md_err option" where
  "validateMasterDataOp op entityID =
     (if op = ''create''
      then (if entityID \<noteq> None then Some (MdValidation ''entity_id'' ''must be empty for op=create'') else None)
      else if op \<in> {''update'', ''disable'', ''enable''}
      then (if entityID = None then Some (MdValidation ''entity_id'' (''required for op='' @ op)) else None)
      else Some (MdValidation ''op'' ''must be one of create, update, disable, enable''))"

definition marshalPayloadJSON :: "json option \<Rightarrow> json" where
  "marshalPayloadJSON v = (case v of None \<Rightarrow> JObj [] | Some j \<Rightarrow> j)"

section \<open>Queries\<close>

definition GetMasterDataChangeRequestByID :: "id64 \<Rightarrow> 'e md_st \<Rightarrow> change_row option" where
  "GetMasterDataChangeRequestByID cid st = find_row (\<lambda>c. mc_id c = cid) (md_changes st)"

definition pending_for :: "string \<Rightarrow> id64 option \<Rightarrow> change_row \<Rightarrow> bool" where
  "pending_for etype eid c \<longleftrightarrow> mc_entity_type c = etype \<and> mc_entity_id c = eid \<and> mc_status c = ''pending''"

definition FindPendingMasterDataChangeRequest :: "string \<Rightarrow> id64 option \<Rightarrow> 'e md_st \<Rightarrow> change_row option" where
  "FindPendingMasterDataChangeRequest etype eid st = find_row (pending_for etype eid) (md_changes st)"

text \<open>The insert: the checks of the table and the partial unique index, in which a missing entity id is
  equal to none.\<close>

definition CreateMasterDataChangeRequest ::
  "submit_request \<Rightarrow> json \<Rightarrow> id64 \<Rightarrow> ('e md_st, md_err, change_row) tx" where
  "CreateMasterDataChangeRequest req payload maker st =
     (if sr_Op req \<notin> {''create'', ''update'', ''disable'', ''enable''} then Inl (MdCheck ''op_chk'')
      else if (sr_Op req = ''create'') \<noteq> (sr_EntityID req = None) then Inl (MdCheck ''entity_id_chk'')
      else if sr_EntityID req \<noteq> None \<and> list_ex (pending_for (sr_EntityType req) (sr_EntityID req)) (md_changes st)
      then Inl MdUnique
      else let c = \<lparr>mc_id = md_next_change st, mc_entity_type = sr_EntityType req, mc_entity_id = sr_EntityID req,
                    mc_op = sr_Op req, mc_payload = payload, mc_before = sr_Before req, mc_status = ''pending'',
                    mc_maker_id = maker, mc_approval_request_id = None, mc_batch_id = sr_BatchID req, mc_error = None\<rparr>
           in Inr (c, st\<lparr>md_changes := md_changes st @ [c], md_next_change := md_next_change st + 1\<rparr>))"

definition update_change :: "(change_row \<Rightarrow> bool) \<Rightarrow> (change_row \<Rightarrow> change_row) \<Rightarrow> 'e md_st \<Rightarrow> 'e md_st" where
  "update_change sel f st = st\<lparr>md_changes := update_where sel f (md_changes st)\<rparr>"

definition SetMasterDataChangeRequestApprovalID :: "id64 \<Rightarrow> id64 \<Rightarrow> 'e md_st \<Rightarrow> 'e md_st" where
  "SetMasterDataChangeRequestApprovalID cid rid =
     update_change (\<lambda>c. mc_id c = cid) (\<lambda>c. c\<lparr>mc_approval_request_id := Some rid\<rparr>)"

definition SetMasterDataBatchApprovalID :: "id64 \<Rightarrow> id64 \<Rightarrow> 'e md_st \<Rightarrow> 'e md_st" where
  "SetMasterDataBatchApprovalID bid rid =
     update_change (\<lambda>c. mc_batch_id c = Some bid) (\<lambda>c. c\<lparr>mc_approval_request_id := Some rid\<rparr>)"

definition MarkMasterDataChangeRequestApproved :: "id64 \<Rightarrow> 'e md_st \<Rightarrow> 'e md_st" where
  "MarkMasterDataChangeRequestApproved cid = update_change (\<lambda>c. mc_id c = cid) (\<lambda>c. c\<lparr>mc_status := ''approved''\<rparr>)"

definition MarkMasterDataChangeRequestRejected :: "id64 \<Rightarrow> 'e md_st \<Rightarrow> 'e md_st" where
  "MarkMasterDataChangeRequestRejected cid = update_change (\<lambda>c. mc_id c = cid) (\<lambda>c. c\<lparr>mc_status := ''rejected''\<rparr>)"

definition MarkMasterDataChangeRequestApplied :: "id64 \<Rightarrow> 'e md_st \<Rightarrow> 'e md_st" where
  "MarkMasterDataChangeRequestApplied cid =
     update_change (\<lambda>c. mc_id c = cid) (\<lambda>c. c\<lparr>mc_status := ''applied'', mc_error := None\<rparr>)"

definition MarkMasterDataChangeRequestApplyFailed :: "id64 \<Rightarrow> string \<Rightarrow> 'e md_st \<Rightarrow> 'e md_st" where
  "MarkMasterDataChangeRequestApplyFailed cid msg = update_change (\<lambda>c. mc_id c = cid) (\<lambda>c. c\<lparr>mc_error := Some msg\<rparr>)"

definition MarkMasterDataChangeRequestStale :: "id64 \<Rightarrow> string \<Rightarrow> 'e md_st \<Rightarrow> 'e md_st" where
  "MarkMasterDataChangeRequestStale cid msg =
     update_change (\<lambda>c. mc_id c = cid) (\<lambda>c. c\<lparr>mc_status := ''stale'', mc_error := Some msg\<rparr>)"

definition ListMasterDataChangeRequestsByBatch :: "id64 \<Rightarrow> 'e md_st \<Rightarrow> change_row list" where
  "ListMasterDataChangeRequestsByBatch bid st = sort_key mc_id (filter (\<lambda>c. mc_batch_id c = Some bid) (md_changes st))"

definition md_audit :: "audit_row \<Rightarrow> 'e md_st \<Rightarrow> 'e md_st" where
  "md_audit e st = st\<lparr>md_approval := (md_approval st)\<lparr>db_audit := db_audit (md_approval st) @ [e]\<rparr>\<rparr>"

section \<open>Staging a change\<close>

text \<open>A write whose error is ignored.\<close>

definition md_best_effort :: "'e md_env \<Rightarrow> string \<Rightarrow> id64 \<Rightarrow> ('e md_st \<Rightarrow> 'e md_st) \<Rightarrow> 'e md_st \<Rightarrow> 'e md_st" where
  "md_best_effort env q cid f st = (if me_flt env q cid then st else f st)"

definition abandon :: "'e md_env \<Rightarrow> id64 \<Rightarrow> 'e md_st \<Rightarrow> 'e md_st" where
  "abandon env cid = md_best_effort env ''MarkRejected'' cid (MarkMasterDataChangeRequestRejected cid)"

definition change_json :: "change_row \<Rightarrow> json" where
  "change_json c = JObj [(''id'', JNum (mc_id c)), (''entity_type'', JStr (mc_entity_type c)),
     (''entity_id'', json_opt JNum (mc_entity_id c)), (''op'', JStr (mc_op c)), (''payload'', mc_payload c),
     (''before'', json_opt id (mc_before c)), (''status'', JStr (mc_status c)), (''maker_id'', JNum (mc_maker_id c)),
     (''approval_request_id'', json_opt JNum (mc_approval_request_id c)), (''batch_id'', json_opt JNum (mc_batch_id c)),
     (''error'', json_opt JStr (mc_error c))]"

definition check_pending :: "'e md_env \<Rightarrow> submit_request \<Rightarrow> 'e md_st \<Rightarrow> md_err option" where
  "check_pending env req st =
     (case sr_EntityID req of
        None \<Rightarrow> None
      | Some eid \<Rightarrow>
          if me_flt env ''FindPending'' eid then Some (MdFailed ''check pending change request'' (me_text env ''FindPending''))
          else if FindPendingMasterDataChangeRequest (sr_EntityType req) (Some eid) st \<noteq> None
          then Some ErrMasterDataChangePending else None)"

text \<open>\<open>None\<close> stands for a walk up the reporting lines that does not end.\<close>

definition MasterDataChange_Submit ::
  "'e md_env \<Rightarrow> (id64 \<times> string) option \<Rightarrow> id64 \<Rightarrow> submit_request \<Rightarrow> ip_addr \<Rightarrow> 'e md_st
    \<Rightarrow> ((md_err + change_row) \<times> 'e md_st) option" where
  "MasterDataChange_Submit env auth makerID req ip st =
     (if \<not> authorizeMasterDataMaker auth makerID then Some (Inl ErrMasterDataForbidden, st)
      else case validateMasterDataOp (sr_Op req) (sr_EntityID req) of
        Some e \<Rightarrow> Some (Inl e, st)
      | None \<Rightarrow>
     (case check_pending env req st of
        Some e \<Rightarrow> Some (Inl e, st)
      | None \<Rightarrow>
     (case tx_stmt (me_flt env ''Create'' 0) (MdText (me_text env ''Create''))
             (CreateMasterDataChangeRequest req (marshalPayloadJSON (sr_Payload req)) makerID) st of
        Inl e \<Rightarrow> Some (Inl (if e = MdUnique then ErrMasterDataChangePending else MdFailed ''create change request'' (md_text e)), st)
      | Inr (change, st1) \<Rightarrow>
     (case Orchestrator_SubmitForApproval (me_env env) (me_approval_faults env) makerID masterDataDocumentType
             (mc_id change) 0 ip (md_approval st1) of
        None \<Rightarrow> None
      | Some (Inl e, a) \<Rightarrow> Some (Inl (MdApproval e), abandon env (mc_id change) (st1\<lparr>md_approval := a\<rparr>))
      | Some (Inr (request, created), a) \<Rightarrow>
          let st2 = st1\<lparr>md_approval := a\<rparr> in
          if me_flt env ''SetApprovalRequestID'' (mc_id change)
          then Some (Inl (MdFailed ''link approval request'' (me_text env ''SetApprovalRequestID'')),
                     abandon env (mc_id change) st2)
          else let st3 = SetMasterDataChangeRequestApprovalID (mc_id change) (ar_id request) st2;
                   change' = change\<lparr>mc_approval_request_id := Some (ar_id request)\<rparr> in
               if me_flt env ''Audit'' (mc_id change) then Some (Inl (MdFailed ''write audit log'' (me_text env ''Audit'')), st3)
               else Some (Inr change', md_audit (audit_entry makerID ''submit'' ''master_data_change_request'' (mc_id change)
                      None (Some (change_json change')) ip) st3)))))"

section \<open>Applying a change\<close>

text \<open>\<open>statesEqual\<close>: both sides decoded into maps and compared; the values of a snapshot are flat. Decoding a
  value that is neither an object nor null fails.\<close>

definition same_fields :: "(string \<times> json) list \<Rightarrow> (string \<times> json) list \<Rightarrow> bool" where
  "same_fields xs ys \<longleftrightarrow> list_all (\<lambda>(k, v). map_of ys k = map_of xs k) xs \<and> list_all (\<lambda>(k, v). map_of xs k \<noteq> None) ys"

definition statesEqual :: "json \<Rightarrow> json \<Rightarrow> string + bool" where
  "statesEqual before current =
     (case (before, current) of
        (JObj xs, JObj ys) \<Rightarrow> Inr (same_fields xs ys)
      | (JObj xs, JNull) \<Rightarrow> Inr False
      | (JNull, JObj ys) \<Rightarrow> Inr False
      | (JNull, JNull) \<Rightarrow> Inr True
      | (JObj xs, _) \<Rightarrow> Inl ''unmarshal current state''
      | (JNull, _) \<Rightarrow> Inl ''unmarshal current state''
      | _ \<Rightarrow> Inl ''unmarshal before snapshot'')"

text \<open>What a failed row records on itself: its error, or that it is stale.\<close>

datatype apply_mark = MarkFailed string | MarkStale string

type_synonym 'e apply_tx = "('e md_st, apply_mark \<times> md_err, unit) tx"

definition check_stale :: "'e md_env \<Rightarrow> 'e applier \<Rightarrow> change_row \<Rightarrow> 'e apply_tx" where
  "check_stale env ap change st =
     (case (mc_entity_id change, mc_before change) of
        (Some eid, Some before) \<Rightarrow>
          if mc_op change = ''create'' then Inr ((), st)
          else (case (if me_flt env ''CurrentState'' (mc_id change) then Inl (me_text env ''CurrentState'')
                      else Applier_CurrentState ap eid (md_entities st)) of
             Inl t \<Rightarrow> Inl (MarkFailed t, MdFailed ''load current state for staleness check'' t)
           | Inr current \<Rightarrow>
               (case statesEqual before current of
                  Inl t \<Rightarrow> Inl (MarkFailed t, MdFailed ''compare current state for staleness check'' t)
                | Inr same \<Rightarrow>
                    if \<not> same then Inl (MarkStale (md_text ErrMasterDataChangeStale), ErrMasterDataChangeStale)
                    else Inr ((), st)))
      | _ \<Rightarrow> Inr ((), st))"

definition apply_entity :: "'e md_env \<Rightarrow> 'e applier \<Rightarrow> change_row \<Rightarrow> ('e md_st, apply_mark \<times> md_err, id64 \<times> json) tx" where
  "apply_entity env ap change st =
     (case (if me_flt env ''Apply'' (mc_id change) then Inl (me_text env ''Apply'')
            else Applier_Apply ap (me_tx_now env) change (md_entities st)) of
        Inl t \<Rightarrow> Inl (MarkFailed t, MdFailed ''apply change'' t)
      | Inr (r, e) \<Rightarrow> Inr (r, st\<lparr>md_entities := e\<rparr>))"

definition applyOne :: "'e md_env \<Rightarrow> id64 \<Rightarrow> ip_addr \<Rightarrow> change_row \<Rightarrow> 'e apply_tx" where
  "applyOne env actorID ip change =
     (case me_appliers env (mc_entity_type change) of
        None \<Rightarrow> let t = ''no applier registered for entity_type='' @ mc_entity_type change in tx_fail (MarkFailed t, MdText t)
      | Some ap \<Rightarrow>
          tx_then (check_stale env ap change)
          (tx_bind (apply_entity env ap change) (\<lambda>(entityID, after).
           tx_then (tx_stmt (me_flt env ''MarkApplied'' (mc_id change))
               (MarkFailed (me_text env ''MarkApplied''), MdFailed ''mark applied'' (me_text env ''MarkApplied''))
               (tx_write (MarkMasterDataChangeRequestApplied (mc_id change))))
           (tx_stmt (me_flt env ''ApplyAudit'' (mc_id change))
               (MarkFailed (me_text env ''ApplyAudit''), MdFailed ''write audit log'' (me_text env ''ApplyAudit''))
               (tx_write (md_audit (audit_entry actorID ''master_data_applied'' (mc_entity_type change) entityID
                  (mc_before change) (Some after) ip)))))))"

text \<open>The loop over the rows; it remembers the row that failed.\<close>

fun apply_rows :: "'e md_env \<Rightarrow> id64 \<Rightarrow> ip_addr \<Rightarrow> change_row list \<Rightarrow> ('e md_st, change_row \<times> apply_mark \<times> md_err, unit) tx" where
  "apply_rows env actorID ip [] st = Inr ((), st)"
| "apply_rows env actorID ip (c # cs) st =
     (case applyOne env actorID ip c st of
        Inl e \<Rightarrow> Inl (c, e)
      | Inr (_, st1) \<Rightarrow> apply_rows env actorID ip cs st1)"

definition BatchRollbackPrefix :: string where
  "BatchRollbackPrefix = ''batch rolled back: ''"

definition batchCauseMessage :: "md_err \<Rightarrow> string" where
  "batchCauseMessage e =
     (let msg = md_text e in
      if msg = [] then ''apply failed''
      else if take (length BatchRollbackPrefix) msg = BatchRollbackPrefix then ''apply failed: '' @ msg
      else msg)"

definition record_mark :: "'e md_env \<Rightarrow> id64 \<Rightarrow> apply_mark \<Rightarrow> 'e md_st \<Rightarrow> 'e md_st" where
  "record_mark env cid mark =
     (case mark of
        MarkFailed t \<Rightarrow> md_best_effort env ''MarkApplyFailed'' cid (MarkMasterDataChangeRequestApplyFailed cid t)
      | MarkStale t \<Rightarrow> md_best_effort env ''MarkStale'' cid (MarkMasterDataChangeRequestStale cid t))"

definition retire_batch :: "'e md_env \<Rightarrow> change_row list \<Rightarrow> id64 \<Rightarrow> md_err \<Rightarrow> 'e md_st \<Rightarrow> 'e md_st" where
  "retire_batch env changes failed e =
     fold (\<lambda>c. md_best_effort env ''MarkStale'' (mc_id c) (MarkMasterDataChangeRequestStale (mc_id c)
       (if mc_id c = failed then batchCauseMessage e
        else BatchRollbackPrefix @ ''change request '' @ FormatInt failed @ '' failed''))) changes"

text \<open>The other rows of a batch are approved with its head, one by one, up to a failing write.\<close>

fun approve_rows :: "'e md_env \<Rightarrow> id64 \<Rightarrow> change_row list \<Rightarrow> 'e md_st \<Rightarrow> bool \<times> 'e md_st" where
  "approve_rows env headID [] st = (True, st)"
| "approve_rows env headID (c # cs) st =
     (if mc_id c = headID then approve_rows env headID cs st
      else if me_flt env ''MarkApproved'' (mc_id c) then (False, st)
      else approve_rows env headID cs (MarkMasterDataChangeRequestApproved (mc_id c) st))"

definition load_rows :: "'e md_env \<Rightarrow> change_row \<Rightarrow> 'e md_st \<Rightarrow> (md_err + change_row list) \<times> 'e md_st" where
  "load_rows env head st =
     (case mc_batch_id head of
        None \<Rightarrow> (Inr [head], st)
      | Some bid \<Rightarrow>
          if me_flt env ''ListByBatch'' bid then (Inl (MdFailed ''load batch'' (me_text env ''ListByBatch'')), st)
          else let changes = ListMasterDataChangeRequestsByBatch bid st in
               case approve_rows env (mc_id head) changes st of
                 (False, st') \<Rightarrow> (Inl (MdFailed ''mark change request approved'' (me_text env ''MarkApproved'')), st')
               | (True, st') \<Rightarrow> (Inr changes, st'))"

definition apply_in_tx ::
  "'e md_env \<Rightarrow> id64 \<Rightarrow> ip_addr \<Rightarrow> change_row \<Rightarrow> change_row list \<Rightarrow> 'e md_st \<Rightarrow> md_err option \<times> 'e md_st" where
  "apply_in_tx env actorID ip head changes st =
     (if me_flt env ''Begin'' (mc_id head) then (Some (MdFailed ''begin apply tx'' (me_text env ''Begin'')), st)
      else case apply_rows env actorID ip changes st of
        Inl (c, mark, e) \<Rightarrow>
          let st' = record_mark env (mc_id c) mark st in
          (Some e, if mc_batch_id head \<noteq> None then retire_batch env changes (mc_id c) e st' else st')
      | Inr (_, st') \<Rightarrow>
          if me_flt env ''Commit'' (mc_id head)
          then (Some (MdFailed ''commit apply tx'' (me_text env ''Commit'')),
                md_best_effort env ''MarkApplyFailed'' (mc_id head)
                  (MarkMasterDataChangeRequestApplyFailed (mc_id head) (me_text env ''Commit'')) st)
          else (None, st'))"

definition applyMasterDataChange :: "'e md_env \<Rightarrow> id64 \<Rightarrow> id64 \<Rightarrow> ip_addr \<Rightarrow> 'e md_st \<Rightarrow> md_err option \<times> 'e md_st" where
  "applyMasterDataChange env actorID changeID ip st =
     (if me_flt env ''MarkApproved'' changeID
      then (Some (MdFailed ''mark change request approved'' (me_text env ''MarkApproved'')), st)
      else let st1 = MarkMasterDataChangeRequestApproved changeID st in
      if me_flt env ''GetByID'' changeID then (Some (MdFailed ''load change request'' (me_text env ''GetByID'')), st1)
      else case GetMasterDataChangeRequestByID changeID st1 of
        None \<Rightarrow> (Some (MdFailed ''load change request'' ''no rows in result set''), st1)
      | Some head \<Rightarrow>
          (case load_rows env head st1 of
             (Inl e, st2) \<Rightarrow> (Some e, st2)
           | (Inr changes, st2) \<Rightarrow> apply_in_tx env actorID ip head changes st2))"

section \<open>Decisions\<close>

text \<open>\<open>Approve\<close> returns the approval request also when the apply failed; the error is then the second
  component.\<close>

definition MasterDataApproval_Approve ::
  "'e md_env \<Rightarrow> id64 \<Rightarrow> id64 \<Rightarrow> ip_addr \<Rightarrow> 'e md_st \<Rightarrow> ((md_err + approval_request) \<times> md_err option) \<times> 'e md_st" where
  "MasterDataApproval_Approve env requestID actorID ip st =
     (case Orchestrator_Approve (me_env env) (me_approval_faults env) (me_resolved_at env) (me_acted_at env)
             requestID actorID ip (md_approval st) of
        (Inl e, a) \<Rightarrow> ((Inl (MdApproval e), None), st\<lparr>md_approval := a\<rparr>)
      | (Inr request, a) \<Rightarrow>
          let st1 = st\<lparr>md_approval := a\<rparr> in
          if ar_document_type request \<noteq> masterDataDocumentType \<or> ar_status request \<noteq> Approved
          then ((Inr request, None), st1)
          else (case applyMasterDataChange env actorID (ar_document_id request) ip st1 of
                  (r, st2) \<Rightarrow> ((Inr request, r), st2)))"

definition MasterDataApproval_RetryApply ::
  "'e md_env \<Rightarrow> (id64 \<times> string) option \<Rightarrow> id64 \<Rightarrow> id64 \<Rightarrow> ip_addr \<Rightarrow> 'e md_st \<Rightarrow> md_err option \<times> 'e md_st" where
  "MasterDataApproval_RetryApply env auth changeID actorID ip st =
     (if \<not> authorizeMasterDataMaker auth actorID then (Some ErrMasterDataForbidden, st)
      else if me_flt env ''GetByID'' changeID then (Some (MdFailed ''load change request'' (me_text env ''GetByID'')), st)
      else case GetMasterDataChangeRequestByID changeID st of
        None \<Rightarrow> (Some (MdFailed ''load change request'' ''no rows in result set''), st)
      | Some head \<Rightarrow>
          if mc_status head \<noteq> ''approved'' then (Some ErrMasterDataNotRetryable, st)
          else applyMasterDataChange env actorID changeID ip st)"

fun reject_rows :: "'e md_env \<Rightarrow> id64 list \<Rightarrow> 'e md_st \<Rightarrow> bool \<times> 'e md_st" where
  "reject_rows env [] st = (True, st)"
| "reject_rows env (i # is) st =
     (if me_flt env ''MarkRejected'' i then (False, st)
      else reject_rows env is (MarkMasterDataChangeRequestRejected i st))"

definition reject_ids :: "'e md_env \<Rightarrow> change_row \<Rightarrow> 'e md_st \<Rightarrow> md_err + id64 list" where
  "reject_ids env head st =
     (case mc_batch_id head of
        None \<Rightarrow> Inr [mc_id head]
      | Some bid \<Rightarrow>
          if me_flt env ''ListByBatch'' bid then Inl (MdFailed ''load batch'' (me_text env ''ListByBatch''))
          else Inr (map mc_id (ListMasterDataChangeRequestsByBatch bid st)))"

definition MasterDataApproval_Reject ::
  "'e md_env \<Rightarrow> id64 \<Rightarrow> id64 \<Rightarrow> ip_addr \<Rightarrow> 'e md_st \<Rightarrow> ((md_err + approval_request) \<times> md_err option) \<times> 'e md_st" where
  "MasterDataApproval_Reject env requestID actorID ip st =
     (case Orchestrator_Reject (me_env env) (me_approval_faults env) (me_resolved_at env) (me_acted_at env)
             requestID actorID ip (md_approval st) of
        (Inl e, a) \<Rightarrow> ((Inl (MdApproval e), None), st\<lparr>md_approval := a\<rparr>)
      | (Inr request, a) \<Rightarrow>
          let st1 = st\<lparr>md_approval := a\<rparr>; cid = ar_document_id request in
          if ar_document_type request \<noteq> masterDataDocumentType then ((Inr request, None), st1)
          else if me_flt env ''GetByID'' cid
          then ((Inr request, Some (MdFailed ''load change request'' (me_text env ''GetByID''))), st1)
          else (case GetMasterDataChangeRequestByID cid st1 of
             None \<Rightarrow> ((Inr request, Some (MdFailed ''load change request'' ''no rows in result set'')), st1)
           | Some head \<Rightarrow>
              (case reject_ids env head st1 of
                 Inl e \<Rightarrow> ((Inr request, Some e), st1)
               | Inr ids \<Rightarrow>
                  (case reject_rows env ids st1 of
                     (False, st2) \<Rightarrow> ((Inr request, Some (MdFailed ''mark change request rejected'' (me_text env ''MarkRejected''))), st2)
                   | (True, st2) \<Rightarrow>
                      if me_flt env ''Audit'' cid
                      then ((Inr request, Some (MdFailed ''write audit log'' (me_text env ''Audit''))), st2)
                      else ((Inr request, None), md_audit (audit_entry actorID ''reject'' ''master_data_change_request'' cid
                              None None ip) st2)))))"

end
