(* ===== verification/Master_Vendor.thy ===== *)
theory Master_Vendor
  imports Master_Change
begin

text \<open>
  Vendors under maker-checker: the service that stages changes
  (\<open>src/backend/internal/service/vendor_admin.go\<close>), the applier that writes them
  (\<open>masterdata_applier.go\<close>), the queries of \<open>vendors_admin.sql.go\<close>, and the staging of an import file as one
  batch (\<open>masterdata_import_batch_repository.go\<close>, \<open>finish\<close> of
  \<open>masterdata_import_confirm.go\<close>).

  \<open>mailAddress\<close> is \<open>net/mail\<close>'s parser: whether it accepts a text. In JSON a timestamp stands for its text.
\<close>

section \<open>Vendors\<close>

record vendor_rec =
  ve_id :: id64
  ve_code :: string
  ve_name :: string
  ve_legal_name :: "string option"
  ve_npwp :: "string option"
  ve_contact_email :: "string option"
  ve_contact_phone :: "string option"
  ve_hq_address :: "string option"
  ve_is_active :: bool
  ve_deleted_at :: "timestamp option"

text \<open>The tables: vendors, and of the users their vendor and deletion.\<close>

record vendor_tabs =
  vt_vendors :: "vendor_rec list"
  vt_next_vendor :: id64
  vt_users :: "(id64 option \<times> timestamp option) list"

definition vendor_json :: "vendor_rec \<Rightarrow> json" where
  "vendor_json r = JObj [(''id'', JNum (ve_id r)), (''code'', JStr (ve_code r)), (''name'', JStr (ve_name r)),
     (''legal_name'', json_opt JStr (ve_legal_name r)), (''npwp'', json_opt JStr (ve_npwp r)),
     (''contact_email'', json_opt JStr (ve_contact_email r)), (''contact_phone'', json_opt JStr (ve_contact_phone r)),
     (''hq_address'', json_opt JStr (ve_hq_address r)), (''is_active'', JBool (ve_is_active r)),
     (''deleted_at'', json_opt JNum (ve_deleted_at r))]"

record vendor_payload =
  vy_Code :: string
  vy_Name :: string
  vy_LegalName :: string
  vy_NPWP :: string
  vy_ContactEmail :: string
  vy_ContactPhone :: string
  vy_HqAddress :: string

definition vendor_nilIfEmpty :: "string \<Rightarrow> string option" where
  "vendor_nilIfEmpty s = (if s = [] then None else Some s)"

section \<open>Queries\<close>

definition npwp_digits :: "string \<Rightarrow> bool" where
  "npwp_digits s \<longleftrightarrow> (length s = 15 \<or> length s = 16) \<and> list_all (\<lambda>c. 48 \<le> (of_char c :: nat) \<and> (of_char c :: nat) \<le> 57) s"

definition npwp_chk :: "string option \<Rightarrow> bool" where
  "npwp_chk n = (case n of None \<Rightarrow> True | Some s \<Rightarrow> npwp_digits s)"

definition GetVendorAdminByID :: "id64 \<Rightarrow> vendor_tabs \<Rightarrow> vendor_rec option" where
  "GetVendorAdminByID vid t = find_row (\<lambda>r. ve_id r = vid) (vt_vendors t)"

definition FindVendorAdminByCode :: "string \<Rightarrow> vendor_tabs \<Rightarrow> id64 option" where
  "FindVendorAdminByCode vcode t = map_option ve_id (find_row (\<lambda>r. ve_code r = vcode) (vt_vendors t))"

definition CountActiveUsersByVendor :: "id64 \<Rightarrow> vendor_tabs \<Rightarrow> nat" where
  "CountActiveUsersByVendor vid t = length (filter (\<lambda>(v, d). v = Some vid \<and> d = None) (vt_users t))"

definition CreateVendorAdmin :: "vendor_payload \<Rightarrow> (vendor_tabs, string, vendor_rec) tx" where
  "CreateVendorAdmin p t =
     (if FindVendorAdminByCode (vy_Code p) t \<noteq> None then Inl ''vendors_code_key''
      else if \<not> npwp_chk (vendor_nilIfEmpty (vy_NPWP p)) then Inl ''vendors_npwp_chk''
      else let r = \<lparr>ve_id = vt_next_vendor t, ve_code = vy_Code p, ve_name = vy_Name p,
                    ve_legal_name = vendor_nilIfEmpty (vy_LegalName p), ve_npwp = vendor_nilIfEmpty (vy_NPWP p),
                    ve_contact_email = vendor_nilIfEmpty (vy_ContactEmail p), ve_contact_phone = vendor_nilIfEmpty (vy_ContactPhone p),
                    ve_hq_address = vendor_nilIfEmpty (vy_HqAddress p), ve_is_active = True, ve_deleted_at = None\<rparr>
           in Inr (r, t\<lparr>vt_vendors := vt_vendors t @ [r], vt_next_vendor := vt_next_vendor t + 1\<rparr>))"

definition vendor_update :: "vendor_payload \<Rightarrow> vendor_rec \<Rightarrow> vendor_rec" where
  "vendor_update p r = r\<lparr>ve_name := vy_Name p, ve_legal_name := vendor_nilIfEmpty (vy_LegalName p), ve_npwp := vendor_nilIfEmpty (vy_NPWP p),
     ve_contact_email := vendor_nilIfEmpty (vy_ContactEmail p), ve_contact_phone := vendor_nilIfEmpty (vy_ContactPhone p),
     ve_hq_address := vendor_nilIfEmpty (vy_HqAddress p)\<rparr>"

definition UpdateVendorAdmin :: "id64 \<Rightarrow> vendor_payload \<Rightarrow> (vendor_tabs, string, vendor_rec) tx" where
  "UpdateVendorAdmin vid p t =
     (case find_row (\<lambda>r. ve_id r = vid \<and> ve_deleted_at r = None) (vt_vendors t) of
        None \<Rightarrow> Inl ''no rows in result set''
      | Some r \<Rightarrow>
          if \<not> npwp_chk (vendor_nilIfEmpty (vy_NPWP p)) then Inl ''vendors_npwp_chk''
          else Inr (vendor_update p r, t\<lparr>vt_vendors := update_where (\<lambda>r. ve_id r = vid \<and> ve_deleted_at r = None)
                      (vendor_update p) (vt_vendors t)\<rparr>))"

definition DisableVendor :: "timestamp \<Rightarrow> id64 \<Rightarrow> vendor_tabs \<Rightarrow> vendor_tabs" where
  "DisableVendor now vid t = t\<lparr>vt_vendors := update_where (\<lambda>r. ve_id r = vid)
     (\<lambda>r. r\<lparr>ve_is_active := False, ve_deleted_at := Some now\<rparr>) (vt_vendors t)\<rparr>"

definition EnableVendor :: "id64 \<Rightarrow> vendor_tabs \<Rightarrow> vendor_tabs" where
  "EnableVendor vid t = t\<lparr>vt_vendors := update_where (\<lambda>r. ve_id r = vid)
     (\<lambda>r. r\<lparr>ve_is_active := True, ve_deleted_at := None\<rparr>) (vt_vendors t)\<rparr>"

section \<open>The applier\<close>

text \<open>Decoding a payload: a missing field is the empty text, a field that is not a text an error.\<close>

definition payload_field :: "json \<Rightarrow> string \<Rightarrow> string option" where
  "payload_field j k =
     (case j of
        JNull \<Rightarrow> Some []
      | JObj fs \<Rightarrow> (case map_of fs k of None \<Rightarrow> Some [] | Some JNull \<Rightarrow> Some [] | Some (JStr s) \<Rightarrow> Some s | Some _ \<Rightarrow> None)
      | _ \<Rightarrow> None)"

definition vendorPayload :: "json \<Rightarrow> vendor_payload option" where
  "vendorPayload j =
     (case (payload_field j ''code'', payload_field j ''name'', payload_field j ''legal_name'', payload_field j ''npwp'',
            payload_field j ''contact_email'', payload_field j ''contact_phone'', payload_field j ''hq_address'') of
        (Some c, Some n, Some l, Some t, Some e, Some p, Some h) \<Rightarrow>
          Some \<lparr>vy_Code = c, vy_Name = n, vy_LegalName = l, vy_NPWP = t, vy_ContactEmail = e, vy_ContactPhone = p, vy_HqAddress = h\<rparr>
      | _ \<Rightarrow> None)"

definition VendorApplier_Apply :: "timestamp \<Rightarrow> change_row \<Rightarrow> (vendor_tabs, string, id64 \<times> json) tx" where
  "VendorApplier_Apply now change t =
     (if mc_op change = ''create''
      then (case vendorPayload (mc_payload change) of
              None \<Rightarrow> Inl ''unmarshal vendor create payload''
            | Some p \<Rightarrow>
               (case CreateVendorAdmin p t of
                  Inl e \<Rightarrow> Inl (''create vendor: '' @ (if e = ''vendors_code_key'' then ''vendor code already exists'' else e))
                | Inr (r, t') \<Rightarrow> Inr ((ve_id r, vendor_json r), t')))
      else if mc_op change = ''update''
      then (case mc_entity_id change of
              None \<Rightarrow> Inl ''update requires entity_id''
            | Some vid \<Rightarrow>
               (case vendorPayload (mc_payload change) of
                  None \<Rightarrow> Inl ''unmarshal vendor update payload''
                | Some p \<Rightarrow>
                   (case UpdateVendorAdmin vid p t of
                      Inl e \<Rightarrow> Inl (''update vendor: '' @ e)
                    | Inr (r, t') \<Rightarrow> Inr ((vid, vendor_json r), t'))))
      else if mc_op change = ''disable''
      then (case mc_entity_id change of
              None \<Rightarrow> Inl ''disable requires entity_id''
            | Some vid \<Rightarrow> Inr ((vid, JObj [(''is_active'', JBool False)]), DisableVendor now vid t))
      else if mc_op change = ''enable''
      then (case mc_entity_id change of
              None \<Rightarrow> Inl ''enable requires entity_id''
            | Some vid \<Rightarrow> Inr ((vid, JObj [(''is_active'', JBool True)]), EnableVendor vid t))
      else Inl (''unsupported op='' @ mc_op change @ '' for entity_type=vendor''))"

definition VendorApplier_CurrentState :: "id64 \<Rightarrow> vendor_tabs \<Rightarrow> string + json" where
  "VendorApplier_CurrentState vid t =
     (case GetVendorAdminByID vid t of
        None \<Rightarrow> Inl ''load current vendor state: no rows in result set''
      | Some r \<Rightarrow> Inr (vendor_json r))"

definition VendorApplier :: "vendor_tabs applier" where
  "VendorApplier = \<lparr>Applier_Apply = VendorApplier_Apply, Applier_CurrentState = VendorApplier_CurrentState\<rparr>"

section \<open>Staging\<close>

datatype vendor_err = ErrVendorNotFound | ErrVendorCodeConflict | ErrVendorCodeImmutable | VendorValidation string string
  | VendorFailed string | VendorChange md_err

definition normalizeNPWP :: "string \<Rightarrow> vendor_err + string" where
  "normalizeNPWP raw =
     (let s = filter (\<lambda>c. c \<noteq> CHR ''.'' \<and> c \<noteq> CHR ''-'' \<and> c \<noteq> CHR '' '') (TrimSpace raw) in
      if s = [] then Inr []
      else if \<not> npwp_digits s
      then Inl (VendorValidation ''npwp'' ''harus 15 atau 16 digit (titik, strip, dan spasi diabaikan)'')
      else Inr s)"

definition text_of :: "string option \<Rightarrow> string" where
  "text_of p = (case p of None \<Rightarrow> [] | Some s \<Rightarrow> s)"

record update_vendor_request =
  uv_Code :: "string option"
  uv_Name :: string
  uv_LegalName :: "string option"
  uv_NPWP :: "string option"
  uv_ContactEmail :: string
  uv_ContactPhone :: string
  uv_HqAddress :: string

definition vendor_create_payload :: "vendor_payload \<Rightarrow> json" where
  "vendor_create_payload p = JObj [(''code'', JStr (vy_Code p)), (''name'', JStr (vy_Name p)), (''legal_name'', JStr (vy_LegalName p)),
     (''npwp'', JStr (vy_NPWP p)), (''contact_email'', JStr (vy_ContactEmail p)), (''contact_phone'', JStr (vy_ContactPhone p)),
     (''hq_address'', JStr (vy_HqAddress p))]"

definition vendor_update_payload :: "vendor_payload \<Rightarrow> json" where
  "vendor_update_payload p = JObj [(''name'', JStr (vy_Name p)), (''legal_name'', JStr (vy_LegalName p)),
     (''npwp'', JStr (vy_NPWP p)), (''contact_email'', JStr (vy_ContactEmail p)), (''contact_phone'', JStr (vy_ContactPhone p)),
     (''hq_address'', JStr (vy_HqAddress p))]"

definition VendorAdmin_Create_request ::
  "'e md_env \<Rightarrow> (string \<Rightarrow> bool) \<Rightarrow> vendor_payload \<Rightarrow> vendor_tabs \<Rightarrow> vendor_err + submit_request" where
  "VendorAdmin_Create_request env mailAddress req t =
     (let vcode = TrimSpace (vy_Code req); name = TrimSpace (vy_Name req); mail = TrimSpace (vy_ContactEmail req) in
      if vcode = [] then Inl (VendorValidation ''code'' ''wajib diisi'')
      else if name = [] then Inl (VendorValidation ''name'' ''wajib diisi'')
      else if mail \<noteq> [] \<and> \<not> mailAddress mail then Inl (VendorValidation ''contact_email'' ''format email tidak valid'')
      else case normalizeNPWP (vy_NPWP req) of
        Inl e \<Rightarrow> Inl e
      | Inr npwp \<Rightarrow>
          if me_flt env ''FindByCode'' 0 then Inl (VendorFailed ''checking vendor code uniqueness'')
          else if FindVendorAdminByCode vcode t \<noteq> None then Inl ErrVendorCodeConflict
          else Inr \<lparr>sr_EntityType = ''vendor'', sr_Op = ''create'', sr_EntityID = None,
                 sr_Payload = Some (vendor_create_payload \<lparr>vy_Code = vcode, vy_Name = name, vy_LegalName = TrimSpace (vy_LegalName req),
                   vy_NPWP = npwp, vy_ContactEmail = mail, vy_ContactPhone = TrimSpace (vy_ContactPhone req),
                   vy_HqAddress = TrimSpace (vy_HqAddress req)\<rparr>),
                 sr_Before = None, sr_BatchID = None\<rparr>)"

definition load_vendor :: "'e md_env \<Rightarrow> id64 \<Rightarrow> vendor_tabs \<Rightarrow> vendor_err + vendor_rec" where
  "load_vendor env vid t =
     (if me_flt env ''GetVendor'' vid then Inl (VendorFailed ''loading vendor'')
      else case GetVendorAdminByID vid t of None \<Rightarrow> Inl ErrVendorNotFound | Some r \<Rightarrow> Inr r)"

definition VendorAdmin_Update_request ::
  "'e md_env \<Rightarrow> (string \<Rightarrow> bool) \<Rightarrow> id64 \<Rightarrow> update_vendor_request \<Rightarrow> vendor_tabs \<Rightarrow> vendor_err + submit_request" where
  "VendorAdmin_Update_request env mailAddress vid req t =
     (case load_vendor env vid t of
        Inl e \<Rightarrow> Inl e
      | Inr before \<Rightarrow>
          if ve_deleted_at before \<noteq> None then Inl ErrVendorNotFound
          else if (case uv_Code req of None \<Rightarrow> False | Some c \<Rightarrow> TrimSpace c \<noteq> ve_code before) then Inl ErrVendorCodeImmutable
          else let name = TrimSpace (uv_Name req); mail = TrimSpace (uv_ContactEmail req) in
          if name = [] then Inl (VendorValidation ''name'' ''wajib diisi'')
          else if mail \<noteq> [] \<and> \<not> mailAddress mail then Inl (VendorValidation ''contact_email'' ''format email tidak valid'')
          else case (case uv_NPWP req of None \<Rightarrow> Inr (text_of (ve_npwp before)) | Some n \<Rightarrow> normalizeNPWP n) of
            Inl e \<Rightarrow> Inl e
          | Inr npwp \<Rightarrow>
             Inr \<lparr>sr_EntityType = ''vendor'', sr_Op = ''update'', sr_EntityID = Some vid,
                 sr_Payload = Some (vendor_update_payload \<lparr>vy_Code = [], vy_Name = name,
                   vy_LegalName = (case uv_LegalName req of None \<Rightarrow> text_of (ve_legal_name before) | Some l \<Rightarrow> TrimSpace l),
                   vy_NPWP = npwp, vy_ContactEmail = mail, vy_ContactPhone = TrimSpace (uv_ContactPhone req),
                   vy_HqAddress = TrimSpace (uv_HqAddress req)\<rparr>),
                 sr_Before = Some (vendor_json before), sr_BatchID = None\<rparr>)"

definition VendorAdmin_Disable_request :: "'e md_env \<Rightarrow> id64 \<Rightarrow> vendor_tabs \<Rightarrow> vendor_err + submit_request \<times> nat" where
  "VendorAdmin_Disable_request env vid t =
     (case load_vendor env vid t of
        Inl e \<Rightarrow> Inl e
      | Inr existing \<Rightarrow>
          if me_flt env ''CountActiveUsers'' vid then Inl (VendorFailed ''counting linked active users'')
          else Inr (\<lparr>sr_EntityType = ''vendor'', sr_Op = ''disable'', sr_EntityID = Some vid, sr_Payload = None,
                  sr_Before = Some (vendor_json existing), sr_BatchID = None\<rparr>, CountActiveUsersByVendor vid t))"

definition VendorAdmin_Enable_request :: "'e md_env \<Rightarrow> id64 \<Rightarrow> vendor_tabs \<Rightarrow> vendor_err + submit_request" where
  "VendorAdmin_Enable_request env vid t =
     (case load_vendor env vid t of
        Inl e \<Rightarrow> Inl e
      | Inr existing \<Rightarrow>
          Inr \<lparr>sr_EntityType = ''vendor'', sr_Op = ''enable'', sr_EntityID = Some vid, sr_Payload = None,
            sr_Before = Some (vendor_json existing), sr_BatchID = None\<rparr>)"

text \<open>The four methods: a request that passed its checks is submitted.\<close>

definition submit_vendor ::
  "vendor_tabs md_env \<Rightarrow> (id64 \<times> string) option \<Rightarrow> id64 \<Rightarrow> ip_addr \<Rightarrow> vendor_err + submit_request \<Rightarrow> vendor_tabs md_st
    \<Rightarrow> ((vendor_err + change_row) \<times> vendor_tabs md_st) option" where
  "submit_vendor env auth actorID ip r st =
     (case r of
        Inl e \<Rightarrow> Some (Inl e, st)
      | Inr req \<Rightarrow> map_option (\<lambda>(x, st'). (case x of Inl e \<Rightarrow> Inl (VendorChange e) | Inr c \<Rightarrow> Inr c, st'))
          (MasterDataChange_Submit env auth actorID req ip st))"

definition VendorAdmin_Create ::
  "vendor_tabs md_env \<Rightarrow> (string \<Rightarrow> bool) \<Rightarrow> (id64 \<times> string) option \<Rightarrow> id64 \<Rightarrow> vendor_payload \<Rightarrow> ip_addr \<Rightarrow> vendor_tabs md_st
    \<Rightarrow> ((vendor_err + change_row) \<times> vendor_tabs md_st) option" where
  "VendorAdmin_Create env mailAddress auth actorID req ip st =
     submit_vendor env auth actorID ip (VendorAdmin_Create_request env mailAddress req (md_entities st)) st"

definition VendorAdmin_Update ::
  "vendor_tabs md_env \<Rightarrow> (string \<Rightarrow> bool) \<Rightarrow> (id64 \<times> string) option \<Rightarrow> id64 \<Rightarrow> id64 \<Rightarrow> update_vendor_request \<Rightarrow> ip_addr
    \<Rightarrow> vendor_tabs md_st \<Rightarrow> ((vendor_err + change_row) \<times> vendor_tabs md_st) option" where
  "VendorAdmin_Update env mailAddress auth actorID vid req ip st =
     submit_vendor env auth actorID ip (VendorAdmin_Update_request env mailAddress vid req (md_entities st)) st"

definition VendorAdmin_Disable ::
  "vendor_tabs md_env \<Rightarrow> (id64 \<times> string) option \<Rightarrow> id64 \<Rightarrow> id64 \<Rightarrow> ip_addr \<Rightarrow> vendor_tabs md_st
    \<Rightarrow> ((vendor_err + change_row \<times> nat) \<times> vendor_tabs md_st) option" where
  "VendorAdmin_Disable env auth actorID vid ip st =
     (case VendorAdmin_Disable_request env vid (md_entities st) of
        Inl e \<Rightarrow> Some (Inl e, st)
      | Inr (req, linked) \<Rightarrow> map_option (\<lambda>(x, st'). (case x of Inl e \<Rightarrow> Inl e | Inr c \<Rightarrow> Inr (c, linked), st'))
          (submit_vendor env auth actorID ip (Inr req) st))"

definition VendorAdmin_Enable ::
  "vendor_tabs md_env \<Rightarrow> (id64 \<times> string) option \<Rightarrow> id64 \<Rightarrow> id64 \<Rightarrow> ip_addr \<Rightarrow> vendor_tabs md_st
    \<Rightarrow> ((vendor_err + change_row) \<times> vendor_tabs md_st) option" where
  "VendorAdmin_Enable env auth actorID vid ip st =
     submit_vendor env auth actorID ip (VendorAdmin_Enable_request env vid (md_entities st)) st"

section \<open>Import batches\<close>

text \<open>The open batch of a file: the latest one whose first change is neither rejected nor stale. A batch row carries
  the first change's id and approval.\<close>

record import_batch =
  bt_ID :: id64
  bt_MakerID :: id64
  bt_RowCount :: int
  bt_FileName :: "string option"
  bt_HeadID :: id64
  bt_ApprovalRequestID :: "id64 option"

definition batch_head :: "id64 \<Rightarrow> 'e md_st \<Rightarrow> change_row option" where
  "batch_head bid st = (case ListMasterDataChangeRequestsByBatch bid st of [] \<Rightarrow> None | c # _ \<Rightarrow> Some c)"

definition open_batch :: "string \<Rightarrow> string \<Rightarrow> 'e md_st \<Rightarrow> batch_row \<Rightarrow> import_batch option" where
  "open_batch entity hash st b =
     (case batch_head (ib_id b) st of
        None \<Rightarrow> None
      | Some h \<Rightarrow>
          if ib_entity b = entity \<and> ib_file_hash b = hash \<and> mc_status h \<notin> {''rejected'', ''stale''}
          then Some \<lparr>bt_ID = ib_id b, bt_MakerID = ib_maker_id b, bt_RowCount = ib_row_count b, bt_FileName = ib_file_name b,
                 bt_HeadID = mc_id h, bt_ApprovalRequestID = mc_approval_request_id h\<rparr>
          else None)"

definition FindOpenMasterDataImportBatch :: "string \<Rightarrow> string \<Rightarrow> 'e md_st \<Rightarrow> import_batch option" where
  "FindOpenMasterDataImportBatch entity hash st =
     first_min (\<lambda>b. - bt_ID b) (List.map_filter (open_batch entity hash st) (md_batches st))"

fun create_rows ::
  "'e md_env \<Rightarrow> nat \<Rightarrow> id64 \<Rightarrow> id64 \<Rightarrow> submit_request list \<Rightarrow> ('e md_st, md_err, id64 list) tx" where
  "create_rows env i bid maker [] st = Inr ([], st)"
| "create_rows env i bid maker (r # rs) st =
     (case tx_stmt (me_flt env ''CreateRow'' (int i)) (MdText (me_text env ''CreateRow''))
             (CreateMasterDataChangeRequest (r\<lparr>sr_BatchID := Some bid\<rparr>) (marshalPayloadJSON (sr_Payload r)) maker) st of
        Inl e \<Rightarrow> Inl (if e = MdUnique then MdBatchRow i else MdFailed (''create change request '' @ FormatInt (int i)) (md_text e))
      | Inr (c, st1) \<Rightarrow>
         (case create_rows env (Suc i) bid maker rs st1 of
            Inl e \<Rightarrow> Inl e
          | Inr (ids, st2) \<Rightarrow> Inr (mc_id c # ids, st2)))"

definition create_batch ::
  "'e md_env \<Rightarrow> string \<Rightarrow> string \<Rightarrow> string option \<Rightarrow> id64 \<Rightarrow> submit_request list \<Rightarrow> ('e md_st, md_err, import_batch \<times> bool) tx" where
  "create_batch env entity hash name maker rows st =
     (if me_flt env ''BatchLock'' 0 then Inl (MdFailed ''lock batch'' (me_text env ''BatchLock''))
      else if me_flt env ''FindOpen'' 0 then Inl (MdFailed ''find batch'' (me_text env ''FindOpen''))
      else case FindOpenMasterDataImportBatch entity hash st of
        Some b \<Rightarrow> Inr ((b, True), st)
      | None \<Rightarrow>
          if me_flt env ''CreateBatch'' 0 then Inl (MdFailed ''create batch'' (me_text env ''CreateBatch''))
          else if rows = [] then Inl (MdFailed ''create batch'' ''master_data_import_batches_rows_chk'')
          else let bid = md_next_batch st;
                   b = \<lparr>ib_id = bid, ib_entity = entity, ib_file_hash = hash, ib_maker_id = maker,
                        ib_row_count = int (length rows), ib_file_name = name\<rparr>;
                   st1 = st\<lparr>md_batches := md_batches st @ [b], md_next_batch := bid + 1\<rparr>
               in case create_rows env 0 bid maker rows st1 of
                    Inl e \<Rightarrow> Inl e
                  | Inr (ids, st2) \<Rightarrow>
                      Inr ((\<lparr>bt_ID = bid, bt_MakerID = maker, bt_RowCount = int (length rows), bt_FileName = name,
                             bt_HeadID = hd ids, bt_ApprovalRequestID = None\<rparr>, False), st2))"

definition ImportBatch_Create ::
  "'e md_env \<Rightarrow> string \<Rightarrow> string \<Rightarrow> string option \<Rightarrow> id64 \<Rightarrow> submit_request list \<Rightarrow> 'e md_st
    \<Rightarrow> (md_err + import_batch \<times> bool) \<times> 'e md_st" where
  "ImportBatch_Create env entity hash name maker rows st =
     (if me_flt env ''BatchBegin'' 0 then (Inl (MdFailed ''begin batch tx'' (me_text env ''BatchBegin'')), st)
      else run_in_tx (\<not> me_flt env ''BatchCommit'' 0) (MdFailed ''commit batch'' (me_text env ''BatchCommit''))
             (create_batch env entity hash name maker rows) st)"

record confirm_result =
  cr_BatchID :: id64
  cr_Rows :: int
  cr_ApprovalRequestID :: "id64 option"
  cr_Existing :: bool

definition finish_batch ::
  "'e md_env \<Rightarrow> id64 \<Rightarrow> string \<Rightarrow> string \<Rightarrow> import_batch \<Rightarrow> bool \<Rightarrow> ip_addr \<Rightarrow> 'e md_st
    \<Rightarrow> ((md_err + confirm_result) \<times> 'e md_st) option" where
  "finish_batch env makerID entity hash batch existing ip st =
     (let out = \<lparr>cr_BatchID = bt_ID batch, cr_Rows = bt_RowCount batch, cr_ApprovalRequestID = bt_ApprovalRequestID batch,
                 cr_Existing = existing\<rparr> in
      if bt_ApprovalRequestID batch \<noteq> None then Some (Inr out, st)
      else case Orchestrator_SubmitForApproval (me_env env) (me_approval_faults env) (bt_MakerID batch) masterDataDocumentType
             (bt_HeadID batch) 0 ip (md_approval st) of
        None \<Rightarrow> None
      | Some (Inl e, a) \<Rightarrow> Some (Inl (MdApproval e), st\<lparr>md_approval := a\<rparr>)
      | Some (Inr (approval, created), a) \<Rightarrow>
          let st1 = st\<lparr>md_approval := a\<rparr> in
          if me_flt env ''SetBatchApproval'' (bt_ID batch)
          then Some (Inl (MdFailed ''link approval request'' (me_text env ''SetBatchApproval'')), st1)
          else let st2 = SetMasterDataBatchApprovalID (bt_ID batch) (ar_id approval) st1;
                   out' = out\<lparr>cr_ApprovalRequestID := Some (ar_id approval)\<rparr> in
               if \<not> created then Some (Inr out', st2)
               else if me_flt env ''Audit'' (bt_ID batch) then Some (Inl (MdFailed ''write audit log'' (me_text env ''Audit'')), st2)
               else Some (Inr out', md_audit (audit_entry makerID ''submit_batch'' ''master_data_import_batch'' (bt_ID batch) None
                      (Some (JObj [(''entity'', JStr entity), (''file_hash'', JStr hash),
                         (''file_name'', json_opt JStr (bt_FileName batch)), (''rows'', JNum (bt_RowCount batch))])) ip) st2))"

text \<open>
  The part of \<open>Confirm\<close> from the collected changes on: authorisation, the open batch of the same file, the staging
  and the approval. \<open>rows\<close> are the changes the entity services built for a file that validated; \<open>hash\<close> is its
  SHA-256 and \<open>name\<close> its sanitized name.
\<close>

definition stage_import ::
  "'e md_env \<Rightarrow> (id64 \<times> string) option \<Rightarrow> id64 \<Rightarrow> string \<Rightarrow> string \<Rightarrow> string option \<Rightarrow> submit_request list \<Rightarrow> ip_addr \<Rightarrow> 'e md_st
    \<Rightarrow> ((md_err + confirm_result) \<times> 'e md_st) option" where
  "stage_import env auth makerID entity hash name rows ip st =
     (if \<not> authorizeMasterDataMaker auth makerID then Some (Inl ErrMasterDataForbidden, st)
      else if me_flt env ''FindOpen'' 1 then Some (Inl (MdFailed ''find import batch'' (me_text env ''FindOpen'')), st)
      else case FindOpenMasterDataImportBatch entity hash st of
        Some b \<Rightarrow> finish_batch env makerID entity hash b True ip st
      | None \<Rightarrow>
          if rows = [] then Some (Inl (MdText ''import contains no changes''), st)
          else (case ImportBatch_Create env entity hash name makerID rows st of
                  (Inl (MdBatchRow i), st1) \<Rightarrow> Some (Inl ErrMasterDataChangePending, st1)
                | (Inl e, st1) \<Rightarrow> Some (Inl (MdFailed ''stage import batch'' (md_text e)), st1)
                | (Inr (b, existed), st1) \<Rightarrow> finish_batch env makerID entity hash b existed ip st1))"

end
