(* ===== verification/Master_Correct.thy ===== *)
theory Master_Correct
  imports Master_Vendor Approval_System
begin

text \<open>
  The operations on master data as steps of one transition system \<open>md_op\<close> over any kind of entities, and its
  invariant \<open>md_inv\<close>: what ties the staged changes to the approval requests. \<open>restatus\<close> is what an operation
  may do to the staged rows: it only moves the status of some of them.
\<close>

section \<open>Rows\<close>

definition static_part :: "change_row \<Rightarrow> id64 \<times> string \<times> id64 option \<times> string \<times> json \<times> json option \<times> id64 \<times> id64 option" where
  "static_part c = (mc_id c, mc_entity_type c, mc_entity_id c, mc_op c, mc_payload c, mc_before c, mc_maker_id c, mc_batch_id c)"

definition row_moved :: "id64 set \<Rightarrow> string set \<Rightarrow> change_row \<Rightarrow> change_row \<Rightarrow> bool" where
  "row_moved ids sts c c' \<longleftrightarrow> static_part c' = static_part c \<and> (mc_status c' = mc_status c \<or> mc_id c \<in> ids \<and> mc_status c' \<in> sts)"

definition restatus :: "id64 set \<Rightarrow> string set \<Rightarrow> 'e md_st \<Rightarrow> 'e md_st \<Rightarrow> bool" where
  "restatus ids sts s t \<longleftrightarrow> list_all2 (row_moved ids sts) (md_changes s) (md_changes t)
     \<and> md_batches t = md_batches s \<and> md_next_change t = md_next_change s \<and> md_next_batch t = md_next_batch s"

lemma row_moved_refl [simp]: "row_moved ids sts c c"
  by (simp add: row_moved_def)

lemma row_moved_trans: "row_moved ids sts a b \<Longrightarrow> row_moved ids sts b c \<Longrightarrow> row_moved ids sts a c"
  by (auto simp: row_moved_def static_part_def)

lemma restatus_same: "md_changes t = md_changes s \<Longrightarrow> md_batches t = md_batches s \<Longrightarrow> md_next_change t = md_next_change s
    \<Longrightarrow> md_next_batch t = md_next_batch s \<Longrightarrow> restatus ids sts s t"
  by (simp add: restatus_def list_all2_refl)

lemma restatus_refl [simp]: "restatus ids sts s s"
  by (simp add: restatus_same)

lemma restatus_trans: "restatus ids sts s t \<Longrightarrow> restatus ids sts t u \<Longrightarrow> restatus ids sts s u"
  unfolding restatus_def by (auto elim: list_all2_trans [rotated] intro: row_moved_trans)

lemma restatus_mono: "restatus ids sts s t \<Longrightarrow> ids \<subseteq> ids' \<Longrightarrow> sts \<subseteq> sts' \<Longrightarrow> restatus ids' sts' s t"
  unfolding restatus_def row_moved_def by (auto elim!: list_all2_mono)

lemma update_change_restatus:
  assumes "\<And>c. static_part (f c) = static_part c" and "\<And>c. sel c \<Longrightarrow> mc_status (f c) = mc_status c \<or> mc_id c \<in> ids \<and> mc_status (f c) \<in> sts"
  shows "restatus ids sts s (update_change sel f s)"
  using assms by (auto simp: restatus_def update_change_def update_where_def list_all2_map2 row_moved_def intro!: list_all2_refl)

lemma mark_restatus:
  "restatus {cid} {''approved''} s (MarkMasterDataChangeRequestApproved cid s)"
  "restatus {cid} {''rejected''} s (MarkMasterDataChangeRequestRejected cid s)"
  "restatus {cid} {''applied''} s (MarkMasterDataChangeRequestApplied cid s)"
  "restatus {cid} {''stale''} s (MarkMasterDataChangeRequestStale cid msg s)"
  "restatus {} {} s (MarkMasterDataChangeRequestApplyFailed cid msg s)"
  "restatus {} {} s (SetMasterDataChangeRequestApprovalID cid rid s)"
  "restatus {} {} s (SetMasterDataBatchApprovalID bid rid s)"
  unfolding MarkMasterDataChangeRequestApproved_def MarkMasterDataChangeRequestRejected_def
    MarkMasterDataChangeRequestApplied_def MarkMasterDataChangeRequestStale_def MarkMasterDataChangeRequestApplyFailed_def
    SetMasterDataChangeRequestApprovalID_def SetMasterDataBatchApprovalID_def
  by (rule update_change_restatus; simp add: static_part_def)+

text \<open>Rows of the two states correspond.\<close>

lemma restatus_later:
  assumes "restatus ids sts s t" and "c \<in> set (md_changes s)"
  obtains c' where "c' \<in> set (md_changes t)" "row_moved ids sts c c'"
  using assms unfolding restatus_def by (metis list_all2_lengthD in_set_conv_nth list_all2_nthD)

lemma restatus_earlier:
  assumes "restatus ids sts s t" and "c' \<in> set (md_changes t)"
  obtains c where "c \<in> set (md_changes s)" "row_moved ids sts c c'"
  using assms unfolding restatus_def by (metis list_all2_lengthD in_set_conv_nth list_all2_nthD)

lemma restatus_ids: "restatus ids sts s t \<Longrightarrow> map mc_id (md_changes t) = map mc_id (md_changes s)"
  unfolding restatus_def row_moved_def static_part_def
  by (auto simp: list_all2_conv_all_nth intro!: nth_equalityI)

section \<open>Frames\<close>

text \<open>An operation on the staged rows leaves the approvals alone except for the audit log, and an operation outside
  the apply transaction leaves the entities alone.\<close>

definition same_approvals :: "'e md_st \<Rightarrow> 'e md_st \<Rightarrow> bool" where
  "same_approvals s t \<longleftrightarrow> (\<exists>log. md_approval t = (md_approval s)\<lparr>db_audit := log\<rparr>)"

lemma same_approvals_eq: "md_approval t = md_approval s \<Longrightarrow> same_approvals s t"
  unfolding same_approvals_def by (intro exI [of _ "db_audit (md_approval s)"]) simp

lemma same_approvals_trans: "same_approvals s t \<Longrightarrow> same_approvals t u \<Longrightarrow> same_approvals s u"
  by (auto simp: same_approvals_def)

lemma same_approvals_decisions: "same_approvals s t \<Longrightarrow> same_decisions (md_approval s) (md_approval t)"
  by (auto simp: same_approvals_def same_decisions_def)

definition staged :: "id64 set \<Rightarrow> string set \<Rightarrow> 'e md_st \<Rightarrow> 'e md_st \<Rightarrow> bool" where
  "staged ids sts s t \<longleftrightarrow> restatus ids sts s t \<and> same_approvals s t"

lemma staged_refl [simp]: "staged ids sts s s"
  by (simp add: staged_def same_approvals_eq)

lemma staged_trans: "staged ids sts s t \<Longrightarrow> staged ids sts t u \<Longrightarrow> staged ids sts s u"
  unfolding staged_def by (blast intro: restatus_trans same_approvals_trans)

lemma staged_mono: "staged ids sts s t \<Longrightarrow> ids \<subseteq> ids' \<Longrightarrow> sts \<subseteq> sts' \<Longrightarrow> staged ids' sts' s t"
  unfolding staged_def by (blast intro: restatus_mono)

lemma mark_approvals:
  "md_approval (update_change sel f s) = md_approval s" "md_entities (update_change sel f s) = md_entities s"
  by (simp_all add: update_change_def)

lemmas mark_defs = MarkMasterDataChangeRequestApproved_def MarkMasterDataChangeRequestRejected_def
  MarkMasterDataChangeRequestApplied_def MarkMasterDataChangeRequestStale_def MarkMasterDataChangeRequestApplyFailed_def
  SetMasterDataChangeRequestApprovalID_def SetMasterDataBatchApprovalID_def

lemma mark_staged:
  "cid \<in> ids \<Longrightarrow> ''approved'' \<in> sts \<Longrightarrow> staged ids sts s (MarkMasterDataChangeRequestApproved cid s)"
  "cid \<in> ids \<Longrightarrow> ''rejected'' \<in> sts \<Longrightarrow> staged ids sts s (MarkMasterDataChangeRequestRejected cid s)"
  "cid \<in> ids \<Longrightarrow> ''applied'' \<in> sts \<Longrightarrow> staged ids sts s (MarkMasterDataChangeRequestApplied cid s)"
  "cid \<in> ids \<Longrightarrow> ''stale'' \<in> sts \<Longrightarrow> staged ids sts s (MarkMasterDataChangeRequestStale cid msg s)"
  "staged ids sts s (MarkMasterDataChangeRequestApplyFailed cid msg s)"
  "staged ids sts s (SetMasterDataChangeRequestApprovalID cid rid s)"
  "staged ids sts s (SetMasterDataBatchApprovalID bid rid s)"
  "staged ids sts s (md_audit e s)"
proof -
  have "same_approvals s (update_change sel f s)" for sel f by (simp add: mark_approvals same_approvals_eq)
  then have a: "same_approvals s (MarkMasterDataChangeRequestApproved cid s)" "same_approvals s (MarkMasterDataChangeRequestRejected cid s)"
    "same_approvals s (MarkMasterDataChangeRequestApplied cid s)" "same_approvals s (MarkMasterDataChangeRequestStale cid msg s)"
    "same_approvals s (MarkMasterDataChangeRequestApplyFailed cid msg s)" "same_approvals s (SetMasterDataChangeRequestApprovalID cid rid s)"
    "same_approvals s (SetMasterDataBatchApprovalID bid rid s)" by (simp_all add: mark_defs)
  show "cid \<in> ids \<Longrightarrow> ''approved'' \<in> sts \<Longrightarrow> staged ids sts s (MarkMasterDataChangeRequestApproved cid s)"
    "cid \<in> ids \<Longrightarrow> ''rejected'' \<in> sts \<Longrightarrow> staged ids sts s (MarkMasterDataChangeRequestRejected cid s)"
    "cid \<in> ids \<Longrightarrow> ''applied'' \<in> sts \<Longrightarrow> staged ids sts s (MarkMasterDataChangeRequestApplied cid s)"
    "cid \<in> ids \<Longrightarrow> ''stale'' \<in> sts \<Longrightarrow> staged ids sts s (MarkMasterDataChangeRequestStale cid msg s)"
    "staged ids sts s (MarkMasterDataChangeRequestApplyFailed cid msg s)"
    "staged ids sts s (SetMasterDataChangeRequestApprovalID cid rid s)"
    "staged ids sts s (SetMasterDataBatchApprovalID bid rid s)"
    using a mark_restatus unfolding staged_def by (blast intro: restatus_mono)+
  show "staged ids sts s (md_audit e s)"
    by (auto simp: staged_def md_audit_def same_approvals_def restatus_same)
qed

lemma md_best_effort_staged: "staged ids sts s (f s) \<Longrightarrow> staged ids sts s (md_best_effort env q cid f s)"
  by (simp add: md_best_effort_def)

section \<open>The apply transaction\<close>

text \<open>The rows that are applied with a change: itself, and the rest of its batch.\<close>

definition row_keys :: "'e md_st \<Rightarrow> (id64 \<times> id64 option) set" where
  "row_keys st = (\<lambda>c. (mc_id c, mc_batch_id c)) ` set (md_changes st)"

definition mates :: "id64 \<Rightarrow> 'e md_st \<Rightarrow> id64 set" where
  "mates cid st = {i. \<exists>b. (i, b) \<in> row_keys st \<and> (i = cid \<or> b \<noteq> None \<and> (cid, b) \<in> row_keys st)}"

lemma matesI:
  "c \<in> set (md_changes st) \<Longrightarrow> mc_id c \<in> mates (mc_id c) st"
  "c \<in> set (md_changes st) \<Longrightarrow> h \<in> set (md_changes st) \<Longrightarrow> mc_batch_id h = Some b \<Longrightarrow> mc_batch_id c = Some b \<Longrightarrow> mc_id c \<in> mates (mc_id h) st"
  unfolding mates_def row_keys_def by (auto simp: image_iff) (metis option.discI)+

lemma row_keys_restatus:
  assumes "restatus ids sts s t"
  shows "row_keys t = row_keys s"
proof -
  have "map (\<lambda>c. (mc_id c, mc_batch_id c)) (md_changes t) = map (\<lambda>c. (mc_id c, mc_batch_id c)) (md_changes s)"
    using assms unfolding restatus_def row_moved_def static_part_def
    by (auto simp: list_all2_conv_all_nth intro!: nth_equalityI)
  then show ?thesis unfolding row_keys_def by (metis set_map)
qed

lemma mates_restatus: "restatus ids sts s t \<Longrightarrow> mates cid t = mates cid s"
  unfolding mates_def by (simp add: row_keys_restatus)

lemma applyOne_staged:
  assumes "applyOne env actor ip c s = Inr (u, t)" and "mc_id c \<in> ids"
  shows "staged ids {''applied''} s t"
proof -
  have "wp (applyOne env actor ip c) s (\<lambda>_ t. staged ids {''applied''} s t)"
  proof (cases "me_appliers env (mc_entity_type c)")
    case (Some ap)
    have "wp (check_stale env ap c) s (\<lambda>_ t. t = s)"
      by (rule wpI) (auto simp: check_stale_def split: option.splits if_splits sum.splits)
    moreover have "wp (apply_entity env ap c) s (\<lambda>_ t. \<exists>e. t = s\<lparr>md_entities := e\<rparr>)"
      by (rule wpI) (auto simp: apply_entity_def split: sum.splits if_splits)
    moreover have "staged ids {''applied''} s (md_audit a (MarkMasterDataChangeRequestApplied (mc_id c) (s\<lparr>md_entities := e\<rparr>)))" for a e
    proof -
      have "staged ids {''applied''} s (s\<lparr>md_entities := e\<rparr>)" by (simp add: staged_def restatus_same same_approvals_eq)
      from staged_trans [OF staged_trans [OF this mark_staged(3) [OF assms(2), of "{''applied''}"]] mark_staged(8)]
      show ?thesis by simp
    qed
    ultimately show ?thesis using Some
      by (auto simp: applyOne_def wp_simps split_beta intro!: wp_mono [where P = "\<lambda>_ t. t = s"]
          elim!: wp_mono [where P = "\<lambda>_ t. \<exists>e. t = s\<lparr>md_entities := e\<rparr>"])
  qed (simp add: applyOne_def wp_simps Let_def)
  then show ?thesis using assms(1) by (rule wpD)
qed

lemma apply_rows_staged:
  assumes "apply_rows env actor ip cs s = Inr (u, t)" and "mc_id ` set cs \<subseteq> ids"
  shows "staged ids {''applied''} s t"
  using assms
proof (induction cs arbitrary: s)
  case (Cons c cs)
  from Cons.prems obtain s1 where s1: "applyOne env actor ip c s = Inr ((), s1)" "apply_rows env actor ip cs s1 = Inr (u, t)"
    by (auto split: sum.splits)
  have "staged ids {''applied''} s s1" by (rule applyOne_staged [OF s1(1)]) (use Cons.prems in auto)
  moreover have "staged ids {''applied''} s1 t" using Cons.IH [OF s1(2)] Cons.prems(2) by simp
  ultimately show ?case by (rule staged_trans)
qed simp

lemma retire_batch_staged:
  assumes "mc_id ` set cs \<subseteq> ids"
  shows "staged ids {''stale''} s (retire_batch env cs failed e s)"
  using assms
proof (induction cs arbitrary: s)
  case (Cons c cs)
  have "staged ids {''stale''} s (md_best_effort env ''MarkStale'' (mc_id c) (MarkMasterDataChangeRequestStale (mc_id c) m) s)" for m
    by (rule md_best_effort_staged) (use Cons.prems in \<open>simp add: mark_staged\<close>)
  from staged_trans [OF this Cons.IH] Cons.prems show ?case by (simp add: retire_batch_def)
qed (simp add: retire_batch_def)

lemma approve_rows_staged:
  assumes "approve_rows env hid cs s = (ok, t)" and "mc_id ` set cs \<subseteq> ids"
  shows "staged ids {''approved''} s t \<and> md_entities t = md_entities s"
  using assms
proof (induction cs arbitrary: s)
  case (Cons c cs)
  have "staged ids {''approved''} s (MarkMasterDataChangeRequestApproved (mc_id c) s)"
    by (rule mark_staged) (use Cons.prems(2) in auto)
  then show ?case using Cons by (auto simp: mark_defs mark_approvals split: if_splits intro: staged_trans)
qed simp

text \<open>The whole apply, as a move of the rows it concerns.\<close>

lemma record_mark_staged: "cid \<in> ids \<Longrightarrow> staged ids {''stale''} s (record_mark env cid m s)"
  unfolding record_mark_def by (cases m) (auto intro!: md_best_effort_staged mark_staged)

lemma load_rows_staged:
  assumes "load_rows env head s = (r, t)" and "head \<in> set (md_changes s)"
  shows "staged (mates (mc_id head) s) {''approved''} s t \<and> md_entities t = md_entities s
    \<and> (\<forall>cs. r = Inr cs \<longrightarrow> mc_id ` set cs \<subseteq> mates (mc_id head) s \<and> head \<in> set cs)"
proof (cases "mc_batch_id head")
  case None
  then show ?thesis using assms by (auto simp: load_rows_def intro: matesI)
next
  case (Some b)
  let ?cs = "ListMasterDataChangeRequestsByBatch b s"
  have sub: "mc_id ` set ?cs \<subseteq> mates (mc_id head) s" "head \<in> set ?cs"
    using Some assms(2) by (auto simp: ListMasterDataChangeRequestsByBatch_def intro: matesI)
  obtain ok t' where run: "approve_rows env (mc_id head) ?cs s = (ok, t')" by (cases "approve_rows env (mc_id head) ?cs s")
  show ?thesis using assms(1) Some run sub approve_rows_staged [OF run sub(1)]
    by (cases ok) (auto simp: load_rows_def Let_def split: if_splits)
qed

lemma apply_in_tx_staged:
  assumes "apply_in_tx env actor ip head cs s = (r, t)" and "mc_id ` set cs \<subseteq> ids" and "mc_id head \<in> ids"
  shows "staged ids {''applied'', ''stale''} s t \<and> (r \<noteq> None \<longrightarrow> md_entities t = md_entities s)"
proof (cases "apply_rows env actor ip cs s")
  case (Inl x)
  obtain c m e where x: "x = (c, m, e)" by (cases x)
  have c: "mc_id c \<in> ids"
  proof -
    have "apply_rows env actor ip xs u = Inl (c, m, e) \<Longrightarrow> c \<in> set xs" for xs u
      by (induction xs arbitrary: u) (auto split: sum.splits)
    then show ?thesis using Inl x assms(2) by blast
  qed
  let ?s1 = "record_mark env (mc_id c) m s"
  have ent: "md_entities ?s1 = md_entities s" "md_entities (retire_batch env cs i e u) = md_entities u" for i u
  proof -
    show "md_entities ?s1 = md_entities s"
      by (cases m) (auto simp: record_mark_def md_best_effort_def mark_defs mark_approvals)
    show "md_entities (retire_batch env cs i e u) = md_entities u" unfolding retire_batch_def
      by (induction cs arbitrary: u) (auto simp: md_best_effort_def mark_defs mark_approvals)
  qed
  have "staged ids {''stale''} s ?s1" by (rule record_mark_staged [OF c])
  moreover have "staged ids {''stale''} ?s1 (retire_batch env cs (mc_id c) e ?s1)" by (rule retire_batch_staged [OF assms(2)])
  ultimately have "staged ids {''stale''} s ?s1" "staged ids {''stale''} s (retire_batch env cs (mc_id c) e ?s1)"
    by (blast intro: staged_trans)+
  then have "staged ids {''applied'', ''stale''} s ?s1" "staged ids {''applied'', ''stale''} s (retire_batch env cs (mc_id c) e ?s1)"
    by (auto elim: staged_mono)
  then show ?thesis using assms(1) Inl x ent by (auto simp: apply_in_tx_def Let_def split: if_splits)
next
  case (Inr x)
  obtain u t' where x: "x = (u, t')" by (cases x)
  have "staged ids {''applied'', ''stale''} s t'" using apply_rows_staged [OF Inr [unfolded x] assms(2)] by (auto elim: staged_mono)
  moreover have "staged ids {''applied'', ''stale''} s (md_best_effort env q i (MarkMasterDataChangeRequestApplyFailed i m) s)" for q i m
    by (intro md_best_effort_staged mark_staged)
  ultimately show ?thesis using assms(1) Inr x
    by (auto simp: apply_in_tx_def Let_def split: if_splits) (simp add: md_best_effort_def mark_defs mark_approvals)
qed

lemma apply_staged:
  assumes "applyMasterDataChange env actor cid ip s = (r, t)"
  shows "staged (mates cid s) {''approved'', ''applied'', ''stale''} s t \<and> (r \<noteq> None \<longrightarrow> md_entities t = md_entities s)"
proof (cases "GetMasterDataChangeRequestByID cid (MarkMasterDataChangeRequestApproved cid s)")
  case None
  have "cid \<notin> mc_id ` set (md_changes s)"
  proof -
    have "cid \<notin> set (map mc_id (md_changes (MarkMasterDataChangeRequestApproved cid s)))"
      using None by (auto simp: GetMasterDataChangeRequestByID_def find_row_None)
    then show ?thesis unfolding restatus_ids [OF mark_restatus(1)] by simp
  qed
  then have "md_changes (MarkMasterDataChangeRequestApproved cid s) = md_changes s"
    by (auto simp: mark_defs update_change_def intro!: update_where_none)
  then have "staged (mates cid s) {''approved'', ''applied'', ''stale''} s (MarkMasterDataChangeRequestApproved cid s)"
    by (simp add: staged_def restatus_same same_approvals_eq mark_defs update_change_def)
  then show ?thesis using assms None
    by (auto simp: applyMasterDataChange_def Let_def mark_defs mark_approvals split: if_splits)
next
  case (Some head)
  let ?s1 = "MarkMasterDataChangeRequestApproved cid s" and ?I = "mates cid s"
  have h: "head \<in> set (md_changes ?s1)" "mc_id head = cid"
    using Some by (auto simp: GetMasterDataChangeRequestByID_def dest: find_row_Some)
  have "cid \<in> ?I"
  proof -
    have "mc_id head \<in> mates (mc_id head) ?s1" by (rule matesI(1) [OF h(1)])
    then show ?thesis unfolding h(2) mates_restatus [OF mark_restatus(1)] .
  qed
  then have one: "staged ?I {''approved'', ''applied'', ''stale''} s ?s1" by (intro mark_staged) auto
  have ent1: "md_entities ?s1 = md_entities s" by (simp add: mark_defs mark_approvals)
  have I: "mates cid ?s1 = ?I" by (rule mates_restatus [OF mark_restatus(1)])
  obtain x s2 where load: "load_rows env head ?s1 = (x, s2)" by (cases "load_rows env head ?s1")
  note two = load_rows_staged [OF load h(1), unfolded h(2) I]
  then have two': "staged ?I {''approved'', ''applied'', ''stale''} ?s1 s2" by (auto elim: staged_mono)
  show ?thesis
  proof (cases "me_flt env ''MarkApproved'' cid \<or> me_flt env ''GetByID'' cid \<or> (\<exists>e. x = Inl e)")
    case True
    then show ?thesis using assms Some load two two' one ent1
      by (auto simp: applyMasterDataChange_def Let_def intro: staged_trans split: if_splits)
  next
    case False
    then obtain cs where cs: "x = Inr cs" by (cases x) auto
    have fin: "apply_in_tx env actor ip head cs s2 = (r, t)"
      using assms Some load cs False by (simp add: applyMasterDataChange_def Let_def)
    have sub: "mc_id ` set cs \<subseteq> ?I" using two cs by blast
    note three = apply_in_tx_staged [OF fin sub] h(2) \<open>cid \<in> ?I\<close>
    then have "staged ?I {''approved'', ''applied'', ''stale''} s2 t" by (auto elim: staged_mono)
    then show ?thesis using staged_trans [OF staged_trans [OF one two']] three two ent1 by auto
  qed
qed

end
