(* ===== verification/Master_System.thy ===== *)
theory Master_System
  imports Master_Correct
begin

text \<open>
  The transition system of master data changes and its invariant. Approvals of other documents and the
  administration of approvals may interleave; only the shared endpoint's submission of a master data
  document by hand is excluded (\<open>direct\<close>), which is what the checker's independence rests on.
\<close>

section \<open>Approval requests\<close>

definition md_doc :: "approval_request \<Rightarrow> bool" where
  "md_doc r \<longleftrightarrow> ar_document_type r = masterDataDocumentType"

definition same_document :: "approval_request \<Rightarrow> approval_request \<Rightarrow> bool" where
  "same_document r r' \<longleftrightarrow> ar_id r' = ar_id r \<and> ar_maker_id r' = ar_maker_id r
     \<and> ar_document_type r' = ar_document_type r \<and> ar_document_id r' = ar_document_id r"

definition no_new_requests :: "approval_db \<Rightarrow> approval_db \<Rightarrow> bool" where
  "no_new_requests a b \<longleftrightarrow> (\<forall>r' \<in> set (db_requests b). \<exists>r \<in> set (db_requests a). same_document r r')"

lemma set_status_no_new: "db_requests b = db_requests a \<or> db_requests b = set_request_status rid st (db_requests a) \<Longrightarrow> no_new_requests a b"
proof -
  assume b: "db_requests b = db_requests a \<or> db_requests b = set_request_status rid st (db_requests a)"
  show ?thesis unfolding no_new_requests_def
  proof
    fix r' assume "r' \<in> set (db_requests b)"
    then obtain r where "r \<in> set (db_requests a)" "r' = r \<or> r' = r\<lparr>ar_status := st\<rparr>"
      using b by (auto simp: set_request_status_def update_where_def split: if_splits)
    then show "\<exists>r \<in> set (db_requests a). same_document r r'" by (intro bexI [of _ r]) (auto simp: same_document_def)
  qed
qed

lemma Approve_requests:
  assumes inv: "approval_inv a" and run: "Orchestrator_Approve id flt t t' rid actor ip a = (res, b)"
  shows "no_new_requests a b" and "res = Inr r \<Longrightarrow> ar_status r = Approved \<Longrightarrow> r \<in> set (db_requests b)"
proof -
  have "no_new_requests a b \<and> (\<forall>r. res = Inr r \<longrightarrow> ar_status r = Approved \<longrightarrow> r \<in> set (db_requests b))"
  proof (cases rule: Approve_cases [of id flt t t' rid actor ip a])
    case untouched
    then show ?thesis using run by (auto intro!: set_status_no_new)
  next
    case (acted request step r' b')
    from loadPendingStep_ok [OF acted(1)] have s: "step \<in> set (db_steps a)" "as_request_id step = rid" and p: "ar_status request = Pending"
      by (auto simp: steps_of_def)
    have "distinct (map as_id (db_steps a))" using inv by (simp add: approval_inv_def keys_ok_def)
    from approve_tx_tables [OF acted(3) [unfolded id_apply] this s]
    have "db_requests b' = db_requests a \<or> db_requests b' = set_request_status rid Approved (db_requests a)" by blast
    then have "no_new_requests a b'" by (rule set_status_no_new)
    moreover have "r' \<in> set (db_requests b')" if "ar_status r' = Approved"
      using acted(3) that p
      by (auto simp: approve_tx_def Repository_UpdateRequestStatus_def UpdateApprovalRequestStatus_def GetApprovalRequest_def
          Audit_WriteTx_def Let_def dest: find_row_Some split: if_splits sum.splits option.splits prod.splits)
    ultimately show ?thesis using acted(4) run by auto
  qed
  then show "no_new_requests a b" and "res = Inr r \<Longrightarrow> ar_status r = Approved \<Longrightarrow> r \<in> set (db_requests b)" by auto
qed

lemma Reject_requests:
  assumes run: "Orchestrator_Reject id flt t t' rid actor ip a = (res, b)"
  shows "no_new_requests a b"
proof (cases rule: Reject_cases [of id flt t t' rid actor ip a])
  case untouched
  then show ?thesis using run by (auto intro!: set_status_no_new)
next
  case (acted request step r' b')
  from reject_tx_effect [OF acted(3) [unfolded id_apply]] show ?thesis
    using acted(4) run by (auto intro!: set_status_no_new)
qed

lemma Submit_requests:
  assumes "Orchestrator_SubmitForApproval id flt maker dtype did amount ip a = Some (res, b)" and "r' \<in> set (db_requests b)"
  shows "r' \<in> set (db_requests a) \<or> ar_document_type r' = dtype \<and> ar_document_id r' = did \<and> ar_maker_id r' = maker"
  using assms(1)
proof (cases rule: Submit_cases)
  case (created lvl chain r)
  from submit_tx_adds [OF created(5) [unfolded id_apply]] obtain new where
    r: "r = \<lparr>ar_id = db_next_id a, ar_maker_id = maker, ar_document_type = dtype, ar_document_id = did,
          ar_amount = amount, ar_required_level = lvl, ar_status = Pending\<rparr>" "db_requests b = db_requests a @ [r]"
    by (elim conjE exE) simp
  then show ?thesis using assms(2) by auto
qed (use assms(2) in simp_all)

section \<open>The invariant\<close>

definition staff_ok :: "'e md_st \<Rightarrow> bool" where
  "staff_ok st \<longleftrightarrow> distinct (map mc_id (md_changes st)) \<and> (\<forall>c \<in> set (md_changes st). mc_id c < md_next_change st)
     \<and> distinct (map ib_id (md_batches st)) \<and> (\<forall>x \<in> set (md_batches st). ib_id x < md_next_batch st)
     \<and> (\<forall>c \<in> set (md_changes st). \<forall>b. mc_batch_id c = Some b \<longrightarrow>
          (\<exists>x \<in> set (md_batches st). ib_id x = b \<and> ib_maker_id x = mc_maker_id c))"

definition pending_ok :: "'e md_st \<Rightarrow> bool" where
  "pending_ok st \<longleftrightarrow> (\<forall>c \<in> set (md_changes st). \<forall>c' \<in> set (md_changes st). \<forall>et i. pending_for et (Some i) c \<longrightarrow> pending_for et (Some i) c' \<longrightarrow> mc_id c = mc_id c')"

definition documents_ok :: "'e md_st \<Rightarrow> bool" where
  "documents_ok st \<longleftrightarrow> (\<forall>r \<in> set (db_requests (md_approval st)). md_doc r \<longrightarrow>
     (\<exists>c \<in> set (md_changes st). mc_id c = ar_document_id r \<and> mc_maker_id c = ar_maker_id r))"

definition backed_by :: "'e md_st \<Rightarrow> id64 set \<Rightarrow> bool" where
  "backed_by st ids \<longleftrightarrow> (\<exists>r \<in> set (db_requests (md_approval st)). md_doc r \<and> ar_status r = Approved \<and> ids \<subseteq> mates (ar_document_id r) st)"

definition approved_ok :: "'e md_st \<Rightarrow> bool" where
  "approved_ok st \<longleftrightarrow> (\<forall>c \<in> set (md_changes st). mc_status c \<in> {''approved'', ''applied''} \<longrightarrow> backed_by st {mc_id c})"

definition md_inv :: "'e md_st \<Rightarrow> bool" where
  "md_inv st \<longleftrightarrow> approval_inv (md_approval st) \<and> staff_ok st \<and> pending_ok st \<and> documents_ok st \<and> approved_ok st"

lemma md_invD:
  assumes "md_inv st"
  shows "approval_inv (md_approval st)" "staff_ok st" "pending_ok st" "documents_ok st" "approved_ok st"
  using assms by (simp_all add: md_inv_def)

lemma mates_sub:
  assumes "staff_ok st" and "cid \<in> mates d st"
  shows "mates cid st \<subseteq> mates d st"
proof -
  have "b = b'" if "(i, b) \<in> row_keys st" "(i, b') \<in> row_keys st" for i b b'
    using that assms(1) by (auto simp: row_keys_def staff_ok_def dest: distinct_key_eq)
  then show ?thesis using assms(2) unfolding mates_def by blast
qed

subsection \<open>Moves of the rows\<close>

lemma staged_inv:
  assumes inv: "md_inv s" and st: "staged ids sts s t" and p: "''pending'' \<notin> sts"
    and bk: "sts \<inter> {''approved'', ''applied''} \<noteq> {} \<Longrightarrow> backed_by s ids"
  shows "md_inv t"
proof -
  have rs: "restatus ids sts s t" and ap: "same_decisions (md_approval s) (md_approval t)"
    and req: "db_requests (md_approval t) = db_requests (md_approval s)"
    using st same_approvals_decisions by (auto simp: staged_def same_decisions_def)
  note keys = restatus_ids [OF rs] mates_restatus [OF rs]
  have tabs: "md_batches t = md_batches s" "md_next_change t = md_next_change s" "md_next_batch t = md_next_batch s"
    using rs by (simp_all add: restatus_def)
  have "staff_ok t" unfolding staff_ok_def tabs keys(1)
  proof (intro conjI ballI allI impI)
    fix c' assume c': "c' \<in> set (md_changes t)"
    obtain c where c: "c \<in> set (md_changes s)" "row_moved ids sts c c'" by (rule restatus_earlier [OF rs c'])
    have e: "mc_id c' = mc_id c" "mc_batch_id c' = mc_batch_id c" "mc_maker_id c' = mc_maker_id c"
      using c(2) by (simp_all add: row_moved_def static_part_def)
    show "mc_id c' < md_next_change s" using md_invD(2) [OF inv] c(1) e by (simp add: staff_ok_def)
    fix b assume "mc_batch_id c' = Some b"
    then show "\<exists>x \<in> set (md_batches s). ib_id x = b \<and> ib_maker_id x = mc_maker_id c'"
      using md_invD(2) [OF inv] c(1) e by (simp add: staff_ok_def)
  qed (use md_invD(2) [OF inv] in \<open>simp_all add: staff_ok_def\<close>)
  moreover have "pending_ok t" unfolding pending_ok_def
  proof (intro ballI allI impI)
    fix c1 c2 et i assume m: "c1 \<in> set (md_changes t)" "c2 \<in> set (md_changes t)" "pending_for et (Some i) c1" "pending_for et (Some i) c2"
    have back1: "\<exists>c \<in> set (md_changes s). pending_for et (Some i) c \<and> mc_id c = mc_id c'" if m': "c' \<in> set (md_changes t)" "pending_for et (Some i) c'" for c'
    proof -
      obtain c where c: "c \<in> set (md_changes s)" "row_moved ids sts c c'" by (rule restatus_earlier [OF rs m'(1)])
      then show ?thesis using m'(2) p by (intro bexI [of _ c]) (auto simp: row_moved_def static_part_def pending_for_def)
    qed
    obtain d1 d2 where "d1 \<in> set (md_changes s)" "pending_for et (Some i) d1" "mc_id d1 = mc_id c1"
      "d2 \<in> set (md_changes s)" "pending_for et (Some i) d2" "mc_id d2 = mc_id c2"
      using back1 [OF m(1,3)] back1 [OF m(2,4)] by blast
    then show "mc_id c1 = mc_id c2" using md_invD(3) [OF inv] unfolding pending_ok_def by metis
  qed
  moreover have "documents_ok t" unfolding documents_ok_def req
  proof (intro ballI impI)
    fix r assume "r \<in> set (db_requests (md_approval s))" "md_doc r"
    then obtain c where c: "c \<in> set (md_changes s)" "mc_id c = ar_document_id r" "mc_maker_id c = ar_maker_id r"
      using md_invD(4) [OF inv] unfolding documents_ok_def by blast
    obtain c' where "c' \<in> set (md_changes t)" "row_moved ids sts c c'" by (rule restatus_later [OF rs c(1)])
    then show "\<exists>c \<in> set (md_changes t). mc_id c = ar_document_id r \<and> mc_maker_id c = ar_maker_id r"
      using c by (intro bexI [of _ c']) (simp_all add: row_moved_def static_part_def)
  qed
  moreover have "approved_ok t" unfolding approved_ok_def
  proof (intro ballI impI)
    fix c' assume c': "c' \<in> set (md_changes t)" "mc_status c' \<in> {''approved'', ''applied''}"
    obtain c where c: "c \<in> set (md_changes s)" "row_moved ids sts c c'" by (rule restatus_earlier [OF rs c'(1)])
    have id: "mc_id c' = mc_id c" using c(2) by (simp add: row_moved_def static_part_def)
    have "backed_by s {mc_id c}"
    proof (cases "mc_status c' = mc_status c")
      case True
      then show ?thesis using md_invD(5) [OF inv] c(1) c'(2) unfolding approved_ok_def by metis
    next
      case False
      then have "mc_id c \<in> ids" "mc_status c' \<in> sts" using c(2) by (simp_all add: row_moved_def)
      then show ?thesis using bk c'(2) unfolding backed_by_def by blast
    qed
    then show "backed_by t {mc_id c'}" unfolding backed_by_def req keys(2) id .
  qed
  ultimately show ?thesis using same_decisions_inv [OF ap] md_invD(1) [OF inv] by (simp add: md_inv_def)
qed

subsection \<open>Moves of the approvals\<close>

lemma approval_step_inv:
  assumes inv: "md_inv s" and a: "approval_inv a" and k: "keeps_decided (md_approval s) a"
    and new: "\<And>r. r \<in> set (db_requests a) \<Longrightarrow> md_doc r \<Longrightarrow>
      (\<exists>r0 \<in> set (db_requests (md_approval s)). same_document r0 r)
      \<or> (\<exists>c \<in> set (md_changes s). mc_id c = ar_document_id r \<and> mc_maker_id c = ar_maker_id r)"
  shows "md_inv (s\<lparr>md_approval := a\<rparr>)"
proof -
  have "documents_ok (s\<lparr>md_approval := a\<rparr>)" unfolding documents_ok_def
  proof (intro ballI impI)
    fix r assume r: "r \<in> set (db_requests (md_approval (s\<lparr>md_approval := a\<rparr>)))" "md_doc r"
    from new [of r] r consider (old) r0 where "r0 \<in> set (db_requests (md_approval s))" "same_document r0 r"
      | (fresh) "\<exists>c \<in> set (md_changes s). mc_id c = ar_document_id r \<and> mc_maker_id c = ar_maker_id r" by auto
    then show "\<exists>c \<in> set (md_changes (s\<lparr>md_approval := a\<rparr>)). mc_id c = ar_document_id r \<and> mc_maker_id c = ar_maker_id r"
    proof cases
      case old
      then show ?thesis using md_invD(4) [OF inv] r(2) by (auto simp: documents_ok_def same_document_def md_doc_def)
    qed simp
  qed
  moreover have "approved_ok (s\<lparr>md_approval := a\<rparr>)" unfolding approved_ok_def
  proof (intro ballI impI)
    fix c assume "c \<in> set (md_changes (s\<lparr>md_approval := a\<rparr>))" "mc_status c \<in> {''approved'', ''applied''}"
    then obtain r where r: "r \<in> set (db_requests (md_approval s))" "md_doc r" "ar_status r = Approved" "{mc_id c} \<subseteq> mates (ar_document_id r) s"
      using md_invD(5) [OF inv] unfolding approved_ok_def backed_by_def by auto
    then have "r \<in> set (db_requests a)" using k unfolding keeps_decided_def by auto
    then show "backed_by (s\<lparr>md_approval := a\<rparr>) {mc_id c}" using r unfolding backed_by_def by (auto simp: mates_def row_keys_def)
  qed
  moreover have "staff_ok (s\<lparr>md_approval := a\<rparr>) = staff_ok s" "pending_ok (s\<lparr>md_approval := a\<rparr>) = pending_ok s"
    by (simp_all add: staff_ok_def pending_ok_def)
  ultimately show ?thesis using a inv by (simp add: md_inv_def)
qed

lemma no_new_inv:
  assumes "md_inv s" and "approval_inv a" and "keeps_decided (md_approval s) a" and "no_new_requests (md_approval s) a"
  shows "md_inv (s\<lparr>md_approval := a\<rparr>)"
  by (rule approval_step_inv [OF assms(1-3)]) (use assms(4) in \<open>auto simp: no_new_requests_def\<close>)

lemma submit_step_inv:
  assumes inv: "md_inv s" and run: "Orchestrator_SubmitForApproval id flt maker masterDataDocumentType did amount ip (md_approval s) = Some (res, a)"
    and c: "c \<in> set (md_changes s)" "mc_id c = did" "mc_maker_id c = maker"
  shows "md_inv (s\<lparr>md_approval := a\<rparr>)"
proof (rule approval_step_inv [OF inv])
  have "approval_inv (md_approval s)" by (rule md_invD(1) [OF inv])
  then show "approval_inv a" "keeps_decided (md_approval s) a"
    using Submit_inv [of id "md_approval s"] Submit_keeps_decided run by (auto simp: id_def)
  fix r assume "r \<in> set (db_requests a)" "md_doc r"
  from Submit_requests [OF run this(1)] show "(\<exists>r0 \<in> set (db_requests (md_approval s)). same_document r0 r)
      \<or> (\<exists>c \<in> set (md_changes s). mc_id c = ar_document_id r \<and> mc_maker_id c = ar_maker_id r)"
    using c by (auto simp: same_document_def)
qed

subsection \<open>New rows\<close>

lemma create_change_inv:
  assumes inv: "md_inv s" and run: "CreateMasterDataChangeRequest req payload maker s = Inr (c, t)"
    and batch: "\<And>b. sr_BatchID req = Some b \<Longrightarrow> \<exists>x \<in> set (md_batches s). ib_id x = b \<and> ib_maker_id x = maker"
  shows "md_inv t \<and> c \<in> set (md_changes t) \<and> mc_maker_id c = maker \<and> mc_batch_id c = sr_BatchID req
    \<and> md_batches t = md_batches s \<and> md_approval t = md_approval s \<and> set (md_changes s) \<subseteq> set (md_changes t)"
proof -
  have c: "c = \<lparr>mc_id = md_next_change s, mc_entity_type = sr_EntityType req, mc_entity_id = sr_EntityID req,
      mc_op = sr_Op req, mc_payload = payload, mc_before = sr_Before req, mc_status = ''pending'',
      mc_maker_id = maker, mc_approval_request_id = None, mc_batch_id = sr_BatchID req, mc_error = None\<rparr>"
    and t: "t = s\<lparr>md_changes := md_changes s @ [c], md_next_change := md_next_change s + 1\<rparr>"
    and free: "sr_EntityID req \<noteq> None \<Longrightarrow> \<not> list_ex (pending_for (sr_EntityType req) (sr_EntityID req)) (md_changes s)"
    using run by (auto simp: CreateMasterDataChangeRequest_def Let_def split: if_splits)
  have st: "staff_ok s" by (rule md_invD(2) [OF inv])
  have "staff_ok t" using st batch by (auto simp: staff_ok_def t c)
  moreover have "pending_ok t"
    unfolding pending_ok_def
  proof (intro ballI allI impI)
    fix c1 c2 et i assume m: "c1 \<in> set (md_changes t)" "c2 \<in> set (md_changes t)" "pending_for et (Some i) c1" "pending_for et (Some i) c2"
    have old: "d \<noteq> c \<Longrightarrow> d \<in> set (md_changes t) \<Longrightarrow> d \<in> set (md_changes s)" for d by (simp add: t)
    have "\<not> pending_for et (Some i) c" if "d \<in> set (md_changes s)" "pending_for et (Some i) d" for d
    proof
      assume "pending_for et (Some i) c"
      then have "sr_EntityType req = et" "sr_EntityID req = Some i" unfolding c pending_for_def by simp_all
      then show False using free that by (auto simp: list_ex_iff)
    qed
    then have "c1 = c \<and> c2 = c \<or> c1 \<in> set (md_changes s) \<and> c2 \<in> set (md_changes s)" using m old by metis
    then show "mc_id c1 = mc_id c2" using md_invD(3) [OF inv] m unfolding pending_ok_def by metis
  qed
  moreover have "documents_ok t" using md_invD(4) [OF inv] by (auto simp: documents_ok_def t)
  moreover have "approved_ok t"
  proof -
    have "mates d s \<subseteq> mates d t" for d by (auto simp: mates_def row_keys_def t)
    then have "backed_by s ids \<Longrightarrow> backed_by t ids" for ids unfolding backed_by_def by (fastforce simp: t)
    then show ?thesis using md_invD(5) [OF inv] by (auto simp: approved_ok_def t c)
  qed
  ultimately show ?thesis using md_invD(1) [OF inv] by (auto simp: md_inv_def t c)
qed

section \<open>The operations\<close>

lemma abandon_staged: "staged {cid} {''rejected''} s (abandon env cid s)"
  unfolding abandon_def by (intro md_best_effort_staged mark_staged) simp_all

lemma Submit_md_inv:
  assumes inv: "md_inv s" and env: "me_env env = id" and nobatch: "sr_BatchID req = None"
    and run: "MasterDataChange_Submit env auth maker req ip s = Some (r, t)"
  shows "md_inv t"
proof (cases "tx_stmt (me_flt env ''Create'' 0) (MdText (me_text env ''Create''))
    (CreateMasterDataChangeRequest req (marshalPayloadJSON (sr_Payload req)) maker) s")
  case (Inl e)
  then show ?thesis using run inv by (auto simp: MasterDataChange_Submit_def split: if_splits option.splits)
next
  case (Inr x)
  obtain c s1 where x: "x = (c, s1)" by (cases x)
  have cr: "CreateMasterDataChangeRequest req (marshalPayloadJSON (sr_Payload req)) maker s = Inr (c, s1)"
    using Inr x by (auto simp: tx_stmt_def tx_fail_def split: if_splits)
  have c: "md_inv s1" "c \<in> set (md_changes s1)" "mc_maker_id c = maker"
    using create_change_inv [OF inv cr] nobatch by simp_all
  consider (stopped) "t = s" | (routed) res a s2 where
      "Orchestrator_SubmitForApproval id (me_approval_faults env) maker masterDataDocumentType (mc_id c) 0 ip (md_approval s1) = Some (res, a)"
      "s2 = s1\<lparr>md_approval := a\<rparr>" "t = abandon env (mc_id c) s2 \<or> (\<exists>rid. t = SetMasterDataChangeRequestApprovalID (mc_id c) rid s2
         \<or> (\<exists>e. t = md_audit e (SetMasterDataChangeRequestApprovalID (mc_id c) rid s2)))"
    using run Inr x env
    by (auto simp: MasterDataChange_Submit_def Let_def split: if_splits option.splits sum.splits prod.splits)
  then show ?thesis
  proof cases
    case routed
    have inv2: "md_inv s2" unfolding routed(2) by (rule submit_step_inv [OF c(1) routed(1) c(2) refl c(3)])
    have "staged {mc_id c} {''rejected''} s2 t"
      using routed(3) abandon_staged by (auto intro: mark_staged staged_trans [OF mark_staged(6) mark_staged(8)])
    then show ?thesis by (rule staged_inv [OF inv2]) simp_all
  qed (use inv in simp)
qed

lemma apply_inv:
  assumes inv: "md_inv s" and run: "applyMasterDataChange env actor cid ip s = (r, t)" and bk: "backed_by s (mates cid s)"
  shows "md_inv t"
proof -
  have "staged (mates cid s) {''approved'', ''applied'', ''stale''} s t" using apply_staged [OF run] by blast
  then show ?thesis by (rule staged_inv [OF inv]) (use bk in simp_all)
qed

lemma decide_approvals:
  assumes inv: "md_inv s"
    and run: "Orchestrator_Approve id flt t t' rid actor ip (md_approval s) = (res, a)
      \<or> Orchestrator_Reject id flt t t' rid actor ip (md_approval s) = (res, a)"
  shows "md_inv (s\<lparr>md_approval := a\<rparr>)"
proof -
  have i: "approval_inv (md_approval s)" by (rule md_invD(1) [OF inv])
  show ?thesis using run
  proof
    assume r: "Orchestrator_Approve id flt t t' rid actor ip (md_approval s) = (res, a)"
    show ?thesis using Approve_inv [OF i, of flt t t' rid actor ip] Approve_keeps_decided [OF i, of flt t t' rid actor ip]
        Approve_requests(1) [OF i r] unfolding r by (simp add: no_new_inv [OF inv])
  next
    assume r: "Orchestrator_Reject id flt t t' rid actor ip (md_approval s) = (res, a)"
    show ?thesis using Reject_inv [OF i, of flt t t' rid actor ip] Reject_keeps_decided [OF i, of flt t t' rid actor ip]
        Reject_requests [OF r] unfolding r by (simp add: no_new_inv [OF inv])
  qed
qed

lemma Approve_md_inv:
  assumes inv: "md_inv s" and env: "me_env env = id" and run: "MasterDataApproval_Approve env rid actor ip s = (x, t)"
  shows "md_inv t"
proof -
  obtain res a where ap: "Orchestrator_Approve id (me_approval_faults env) (me_resolved_at env) (me_acted_at env) rid actor ip (md_approval s) = (res, a)"
    by fastforce
  let ?s1 = "s\<lparr>md_approval := a\<rparr>"
  have inv1: "md_inv ?s1" using decide_approvals [OF inv] ap by blast
  show ?thesis
  proof (cases "\<exists>req. res = Inr req \<and> md_doc req \<and> ar_status req = Approved")
    case True
    then obtain req where req: "res = Inr req" "md_doc req" "ar_status req = Approved" by blast
    have "req \<in> set (db_requests a)" by (rule Approve_requests(2) [OF md_invD(1) [OF inv] ap req(1,3)])
    then have "backed_by ?s1 (mates (ar_document_id req) ?s1)" using req(2,3) by (auto simp: backed_by_def)
    then show ?thesis using run ap env req
      by (auto simp: MasterDataApproval_Approve_def md_doc_def Let_def split: prod.splits intro: apply_inv [OF inv1])
  next
    case False
    then have "t = ?s1" using run ap env
      by (auto simp: MasterDataApproval_Approve_def md_doc_def Let_def split: sum.splits if_splits)
    then show ?thesis using inv1 by simp
  qed
qed

lemma Retry_md_inv:
  assumes inv: "md_inv s" and run: "MasterDataApproval_RetryApply env auth cid actor ip s = (x, t)"
  shows "md_inv t"
proof (cases "\<exists>h. GetMasterDataChangeRequestByID cid s = Some h \<and> mc_status h = ''approved''")
  case True
  then obtain h where h: "h \<in> set (md_changes s)" "mc_id h = cid" "mc_status h = ''approved''"
    by (auto simp: GetMasterDataChangeRequestByID_def dest: find_row_Some)
  then obtain r where r: "r \<in> set (db_requests (md_approval s))" "md_doc r" "ar_status r = Approved" "cid \<in> mates (ar_document_id r) s"
    using md_invD(5) [OF inv] unfolding approved_ok_def backed_by_def by auto
  have "backed_by s (mates cid s)" using r mates_sub [OF md_invD(2) [OF inv] r(4)] by (auto simp: backed_by_def)
  then show ?thesis using run inv True
    by (auto simp: MasterDataApproval_RetryApply_def split: if_splits intro: apply_inv [OF inv])
next
  case False
  then have "t = s" using run by (auto simp: MasterDataApproval_RetryApply_def split: if_splits option.splits)
  then show ?thesis using inv by simp
qed

lemma reject_rows_staged: "reject_rows env ids s = (ok, t) \<Longrightarrow> set ids \<subseteq> I \<Longrightarrow> staged I {''rejected''} s t"
proof (induction ids arbitrary: s)
  case (Cons i ids)
  have "staged I {''rejected''} s (MarkMasterDataChangeRequestRejected i s)" by (rule mark_staged) (use Cons.prems in auto)
  then show ?case using Cons by (auto split: if_splits intro: staged_trans)
qed simp

lemma Reject_md_inv:
  assumes inv: "md_inv s" and env: "me_env env = id" and run: "MasterDataApproval_Reject env rid actor ip s = (x, t)"
  shows "md_inv t"
proof -
  obtain res a where ap: "Orchestrator_Reject id (me_approval_faults env) (me_resolved_at env) (me_acted_at env) rid actor ip (md_approval s) = (res, a)"
    by fastforce
  let ?s1 = "s\<lparr>md_approval := a\<rparr>"
  have inv1: "md_inv ?s1" using decide_approvals [OF inv] ap by blast
  consider "t = ?s1" | ids ok s2 where "reject_rows env ids ?s1 = (ok, s2)" "t = s2 \<or> (\<exists>e. t = md_audit e s2)"
    using run ap env by (auto simp: MasterDataApproval_Reject_def Let_def split: sum.splits if_splits option.splits prod.splits bool.splits)
  then have "staged UNIV {''rejected''} ?s1 t"
    by cases (auto intro: reject_rows_staged staged_trans [OF reject_rows_staged mark_staged(8)])
  then show ?thesis by (rule staged_inv [OF inv1]) simp_all
qed

subsection \<open>Import batches\<close>

lemma create_rows_inv:
  assumes "md_inv s" and "create_rows env i bid maker rs s = Inr (ids, t)" and "\<exists>x \<in> set (md_batches s). ib_id x = bid \<and> ib_maker_id x = maker"
  shows "md_inv t \<and> md_approval t = md_approval s \<and> set (md_changes s) \<subseteq> set (md_changes t)
    \<and> (\<forall>j \<in> set ids. \<exists>c \<in> set (md_changes t). mc_id c = j \<and> mc_maker_id c = maker)"
  using assms
proof (induction rs arbitrary: s i ids)
  case (Cons r rs)
  obtain c s1 where c: "CreateMasterDataChangeRequest (r\<lparr>sr_BatchID := Some bid\<rparr>) (marshalPayloadJSON (sr_Payload r)) maker s = Inr (c, s1)"
    and rest: "\<exists>js. create_rows env (Suc i) bid maker rs s1 = Inr (js, t) \<and> ids = mc_id c # js"
    using Cons.prems(2) by (auto simp: tx_stmt_def tx_fail_def split: sum.splits if_splits)
  have one: "md_inv s1 \<and> c \<in> set (md_changes s1) \<and> mc_maker_id c = maker \<and> md_batches s1 = md_batches s
      \<and> md_approval s1 = md_approval s \<and> set (md_changes s) \<subseteq> set (md_changes s1)"
    using create_change_inv [OF Cons.prems(1) c] Cons.prems(3) by auto
  obtain js where js: "create_rows env (Suc i) bid maker rs s1 = Inr (js, t)" "ids = mc_id c # js" using rest by blast
  have "\<exists>x \<in> set (md_batches s1). ib_id x = bid \<and> ib_maker_id x = maker" using one Cons.prems(3) by simp
  from Cons.IH [OF conjunct1 [OF one] js(1) this] one show ?case unfolding js(2) by auto
qed simp

lemma new_batch_inv:
  assumes inv: "md_inv s"
  shows "md_inv (s\<lparr>md_batches := md_batches s @ [b\<lparr>ib_id := md_next_batch s\<rparr>], md_next_batch := md_next_batch s + 1\<rparr>)" (is "md_inv ?t")
proof -
  have "staff_ok ?t" using md_invD(2) [OF inv] unfolding staff_ok_def by (fastforce simp: less_le)
  moreover have "pending_ok ?t = pending_ok s" "documents_ok ?t = documents_ok s" by (simp_all add: pending_ok_def documents_ok_def)
  moreover have "approved_ok ?t = approved_ok s" by (simp add: approved_ok_def backed_by_def mates_def row_keys_def)
  ultimately show ?thesis using inv by (simp add: md_inv_def)
qed

definition batch_backed :: "import_batch \<Rightarrow> 'e md_st \<Rightarrow> bool" where
  "batch_backed b st \<longleftrightarrow> (\<exists>c \<in> set (md_changes st). mc_id c = bt_HeadID b \<and> mc_maker_id c = bt_MakerID b)"

lemma open_batch_backed:
  assumes inv: "md_inv s" and "FindOpenMasterDataImportBatch entity hash s = Some b"
  shows "batch_backed b s"
proof -
  have "b \<in> set (List.map_filter (open_batch entity hash s) (md_batches s))"
    using assms(2) first_min_Some unfolding FindOpenMasterDataImportBatch_def by fastforce
  then obtain x where x: "x \<in> set (md_batches s)" "open_batch entity hash s x = Some b" by (auto simp: map_filter_def)
  then obtain h where h: "batch_head (ib_id x) s = Some h" "bt_HeadID b = mc_id h" "bt_MakerID b = ib_maker_id x"
    by (auto simp: open_batch_def split: option.splits if_splits)
  have "h \<in> set (ListMasterDataChangeRequestsByBatch (ib_id x) s)" using h(1) by (auto simp: batch_head_def split: list.splits)
  then have hs: "h \<in> set (md_changes s)" "mc_batch_id h = Some (ib_id x)" by (simp_all add: ListMasterDataChangeRequestsByBatch_def)
  then obtain y where y: "y \<in> set (md_batches s)" "ib_id y = ib_id x" "ib_maker_id y = mc_maker_id h"
    using md_invD(2) [OF inv] unfolding staff_ok_def by blast
  have "y = x" using distinct_key_eq [of ib_id "md_batches s"] y x(1) md_invD(2) [OF inv] by (simp add: staff_ok_def)
  then show ?thesis using h hs y by (auto simp: batch_backed_def)
qed

lemma finish_inv:
  assumes inv: "md_inv s" and env: "me_env env = id" and b: "batch_backed b s"
    and run: "finish_batch env maker entity hash b ex ip s = Some (r, t)"
  shows "md_inv t"
proof -
  obtain c where c: "c \<in> set (md_changes s)" "mc_id c = bt_HeadID b" "mc_maker_id c = bt_MakerID b" using b by (auto simp: batch_backed_def)
  consider "t = s" | (routed) res a s2 where
      "Orchestrator_SubmitForApproval id (me_approval_faults env) (bt_MakerID b) masterDataDocumentType (bt_HeadID b) 0 ip (md_approval s) = Some (res, a)"
      "s2 = s\<lparr>md_approval := a\<rparr>" "t = s2 \<or> (\<exists>rid. t = SetMasterDataBatchApprovalID (bt_ID b) rid s2
         \<or> (\<exists>e. t = md_audit e (SetMasterDataBatchApprovalID (bt_ID b) rid s2)))"
    using run env by (auto simp: finish_batch_def Let_def split: if_splits option.splits sum.splits prod.splits)
  then show ?thesis
  proof cases
    case routed
    have inv2: "md_inv s2" unfolding routed(2) by (rule submit_step_inv [OF inv routed(1) c])
    have "staged {} {} s2 t" using routed(3) by (auto intro: mark_staged staged_trans [OF mark_staged(7) mark_staged(8)])
    then show ?thesis by (rule staged_inv [OF inv2]) simp_all
  qed (use inv in simp)
qed

lemma create_batch_inv:
  assumes inv: "md_inv s" and run: "create_batch env entity hash name maker rows s = Inr ((b, ex), t)"
  shows "md_inv t \<and> batch_backed b t"
proof (cases "FindOpenMasterDataImportBatch entity hash s")
  case (Some x)
  then show ?thesis using run inv open_batch_backed [OF inv Some] by (auto simp: create_batch_def split: if_splits)
next
  case None
  let ?b = "\<lparr>ib_id = md_next_batch s, ib_entity = entity, ib_file_hash = hash, ib_maker_id = maker,
    ib_row_count = int (length rows), ib_file_name = name\<rparr>"
  let ?s1 = "s\<lparr>md_batches := md_batches s @ [?b], md_next_batch := md_next_batch s + 1\<rparr>"
  have inv1: "md_inv ?s1" using new_batch_inv [OF inv, of ?b] by simp
  from run None obtain ids where ids: "create_rows env 0 (md_next_batch s) maker rows ?s1 = Inr (ids, t)" "rows \<noteq> []"
    and b: "bt_HeadID b = hd ids" "bt_MakerID b = maker"
    by (auto simp: create_batch_def Let_def split: if_splits sum.splits)
  have "ids \<noteq> []" using ids by (cases rows) (auto split: sum.splits)
  then have "hd ids \<in> set ids" by simp
  moreover note create_rows_inv [OF inv1 ids(1)]
  ultimately show ?thesis using b by (auto simp: batch_backed_def)
qed

lemma stage_import_inv:
  assumes inv: "md_inv s" and env: "me_env env = id" and run: "stage_import env auth maker entity hash name rows ip s = Some (r, t)"
  shows "md_inv t"
proof (cases "FindOpenMasterDataImportBatch entity hash s")
  case (Some b)
  then show ?thesis using run inv finish_inv [OF inv env open_batch_backed [OF inv Some]]
    by (auto simp: stage_import_def split: if_splits)
next
  case None
  obtain res s1 where cr: "ImportBatch_Create env entity hash name maker rows s = (res, s1)" by fastforce
  have s1: "md_inv s1 \<and> (\<forall>b ex. res = Inr (b, ex) \<longrightarrow> batch_backed b s1)"
    using cr inv create_batch_inv [OF inv]
    by (auto simp: ImportBatch_Create_def run_in_tx_def split: if_splits sum.splits)
  show ?thesis using run None cr s1 inv finish_inv [OF _ env, of s1]
    by (auto simp: stage_import_def split: if_splits sum.splits md_err.splits)
qed

section \<open>The system\<close>

text \<open>Callers, inputs and failing calls are arbitrary; every entity type may have any applier. The services submit
  single changes outside a batch.\<close>

inductive md_op :: "'e md_st \<Rightarrow> 'e md_st \<Rightarrow> bool" where
  submit: "me_env env = id \<Longrightarrow> sr_BatchID req = None \<Longrightarrow> MasterDataChange_Submit env auth maker req ip s = Some (r, t) \<Longrightarrow> md_op s t"
| approve: "me_env env = id \<Longrightarrow> MasterDataApproval_Approve env rid actor ip s = (x, t) \<Longrightarrow> md_op s t"
| reject: "me_env env = id \<Longrightarrow> MasterDataApproval_Reject env rid actor ip s = (x, t) \<Longrightarrow> md_op s t"
| retry: "me_env env = id \<Longrightarrow> MasterDataApproval_RetryApply env auth cid actor ip s = (y, t) \<Longrightarrow> md_op s t"
| import: "me_env env = id \<Longrightarrow> stage_import env auth maker entity hash name rows ip s = Some (z, t) \<Longrightarrow> md_op s t"
| direct: "approval_op (md_approval s) a \<Longrightarrow> \<forall>r \<in> set (db_requests a). md_doc r \<longrightarrow> (\<exists>r0 \<in> set (db_requests (md_approval s)). ar_id r0 = ar_id r)
    \<Longrightarrow> md_op s (s\<lparr>md_approval := a\<rparr>)"

definition md_start :: "'e md_st \<Rightarrow> bool" where
  "md_start st \<longleftrightarrow> approval_init (md_approval st) \<and> md_changes st = [] \<and> md_batches st = []"

lemma direct_same_document:
  assumes inv: "approval_inv a" and op: "approval_op a b" and r: "r \<in> set (db_requests b)" "r0 \<in> set (db_requests a)" "ar_id r0 = ar_id r"
  shows "same_document r0 r"
proof -
  have d: "distinct (map ar_id (db_requests a))" using inv by (simp add: approval_inv_def keys_ok_def)
  have other: "same_document r0 r" if n: "no_new_requests a b"
  proof -
    obtain x where x: "x \<in> set (db_requests a)" "same_document x r" using n r(1) by (auto simp: no_new_requests_def)
    then have "x = r0" using distinct_key_eq [OF d x(1) r(2)] r(3) by (simp add: same_document_def)
    then show ?thesis using x by simp
  qed
  from op show ?thesis
  proof (cases rule: approval_op_cases)
    case admin
    then show ?thesis by (intro other set_status_no_new) (simp add: same_decisions_def)
  next
    case (submitted flt maker dtype did am ip res)
    from submitted show ?thesis
    proof (cases rule: Submit_cases)
      case (created lvl chain q)
      from submit_tx_adds [OF created(5) [unfolded id_apply]] have q: "ar_id q = db_next_id a" "set (db_requests b) = insert q (set (db_requests a))"
        by (elim conjE exE; simp)+
      have "ar_id r0 < db_next_id a" using inv r(2) by (simp add: approval_inv_def keys_ok_def)
      then have "r \<in> set (db_requests a)" using q r(1,3) by auto
      then show ?thesis using distinct_key_eq [OF d _ r(2)] r(3) by (auto simp: same_document_def)
    qed (use other set_status_no_new in auto)
  next
    case (approved flt t t' rid actor ip)
    obtain res where "Orchestrator_Approve id flt t t' rid actor ip a = (res, b)" using approved by (metis prod.collapse)
    from Approve_requests(1) [OF inv this] show ?thesis by (rule other)
  next
    case (rejected flt t t' rid actor ip)
    obtain res where "Orchestrator_Reject id flt t t' rid actor ip a = (res, b)" using rejected by (metis prod.collapse)
    from Reject_requests [OF this] show ?thesis by (rule other)
  qed
qed

lemma direct_inv:
  assumes inv: "md_inv s" and op: "approval_op (md_approval s) a"
    and old: "\<forall>r \<in> set (db_requests a). md_doc r \<longrightarrow> (\<exists>r0 \<in> set (db_requests (md_approval s)). ar_id r0 = ar_id r)"
  shows "md_inv (s\<lparr>md_approval := a\<rparr>)"
proof (rule approval_step_inv [OF inv])
  have i: "approval_inv (md_approval s)" by (rule md_invD(1) [OF inv])
  show "approval_inv a" by (rule approval_op_inv [OF i op])
  show "keeps_decided (md_approval s) a" by (rule approval_op_keeps_decided [OF i op])
  fix r assume r: "r \<in> set (db_requests a)" "md_doc r"
  then obtain r0 where "r0 \<in> set (db_requests (md_approval s))" "ar_id r0 = ar_id r" using old by blast
  then show "(\<exists>r0 \<in> set (db_requests (md_approval s)). same_document r0 r)
      \<or> (\<exists>c \<in> set (md_changes s). mc_id c = ar_document_id r \<and> mc_maker_id c = ar_maker_id r)"
    using direct_same_document [OF i op r(1)] by blast
qed

lemma md_op_inv: "md_op s t \<Longrightarrow> md_inv s \<Longrightarrow> md_inv t"
  by (induction rule: md_op.induct)
     (blast intro: Submit_md_inv Approve_md_inv Reject_md_inv Retry_md_inv stage_import_inv direct_inv)+

interpretation masters: invariant_system md_start md_op md_inv
proof
  show "md_start s \<Longrightarrow> md_inv s" for s :: "'a md_st"
    by (auto simp: md_start_def approval_init_def md_inv_def approval_inv_def keys_ok_def staff_ok_def pending_ok_def
        documents_ok_def approved_ok_def)
  show "md_inv s \<Longrightarrow> md_op s t \<Longrightarrow> md_inv t" for s t :: "'a md_st" by (rule md_op_inv)
qed

end
