(* ===== verification/Master_Apply.thy ===== *)
theory Master_Apply
  imports Master_System
begin

text \<open>
  What applying a change does to the entities, against the reference \<open>applied_in_order\<close>; and the contract of
  an applier (locale \<open>entity_applier\<close>), which the applier of vendors meets: a change touches its own entity
  only.
\<close>

section \<open>All or nothing\<close>

text \<open>A change other than a creation, with a snapshot, meets the state its maker saw.\<close>

definition seen_state :: "'e applier \<Rightarrow> change_row \<Rightarrow> 'e \<Rightarrow> bool" where
  "seen_state ap c e \<longleftrightarrow> mc_op c = ''create'' \<or> (\<forall>i b. mc_entity_id c = Some i \<longrightarrow> mc_before c = Some b \<longrightarrow>
     (\<exists>cur. Applier_CurrentState ap i e = Inr cur \<and> statesEqual b cur = Inr True))"

fun applied_in_order :: "'e md_env \<Rightarrow> change_row list \<Rightarrow> 'e \<Rightarrow> 'e \<Rightarrow> bool" where
  "applied_in_order env [] e e' \<longleftrightarrow> e' = e"
| "applied_in_order env (c # cs) e e' \<longleftrightarrow> (\<exists>ap r e1. me_appliers env (mc_entity_type c) = Some ap \<and> seen_state ap c e
     \<and> Applier_Apply ap (me_tx_now env) c e = Inr (r, e1) \<and> applied_in_order env cs e1 e')"

text \<open>The audit row of an applied change.\<close>

definition applied_log :: "id64 \<Rightarrow> change_row \<Rightarrow> audit_row \<Rightarrow> bool" where
  "applied_log actor c l \<longleftrightarrow> al_actor_id l = actor \<and> al_action l = ''master_data_applied''
     \<and> al_entity_type l = mc_entity_type c \<and> al_before l = mc_before c"

lemma applyOne_effect:
  assumes "applyOne env actor ip c s = Inr (u, t)"
  shows "\<exists>ap r e l. me_appliers env (mc_entity_type c) = Some ap \<and> seen_state ap c (md_entities s)
    \<and> Applier_Apply ap (me_tx_now env) c (md_entities s) = Inr (r, e) \<and> applied_log actor c l
    \<and> t = md_audit l (MarkMasterDataChangeRequestApplied (mc_id c) (s\<lparr>md_entities := e\<rparr>))"
proof (cases "me_appliers env (mc_entity_type c)")
  case (Some ap)
  have stale: "wp (check_stale env ap c) s (\<lambda>_ t. t = s \<and> seen_state ap c (md_entities s))"
    by (rule wpI) (auto simp: check_stale_def seen_state_def split: option.splits if_splits sum.splits)
  have entity: "wp (apply_entity env ap c) s (\<lambda>r t. \<exists>e. t = s\<lparr>md_entities := e\<rparr>
      \<and> Applier_Apply ap (me_tx_now env) c (md_entities s) = Inr (r, e))"
    by (rule wpI) (auto simp: apply_entity_def split: sum.splits if_splits)
  let ?Q = "\<lambda>_ t. \<exists>r e l. seen_state ap c (md_entities s)
    \<and> Applier_Apply ap (me_tx_now env) c (md_entities s) = Inr (r, e) \<and> applied_log actor c l
    \<and> t = md_audit l (MarkMasterDataChangeRequestApplied (mc_id c) (s\<lparr>md_entities := e\<rparr>))"
  have rest: "wp (tx_then (tx_stmt (me_flt env ''MarkApplied'' (mc_id c)) x (tx_write (MarkMasterDataChangeRequestApplied (mc_id c))))
      (tx_stmt (me_flt env ''ApplyAudit'' (mc_id c)) y (tx_write (md_audit (audit_entry actor ''master_data_applied'' (mc_entity_type c) i
        (mc_before c) (Some a) ip))))) (s\<lparr>md_entities := e\<rparr>) ?Q"
    if "Applier_Apply ap (me_tx_now env) c (md_entities s) = Inr ((i, a), e)" "seen_state ap c (md_entities s)" for x y i a e
  proof -
    have "applied_log actor c (audit_entry actor ''master_data_applied'' (mc_entity_type c) i (mc_before c) (Some a) ip)"
      by (simp add: applied_log_def audit_entry_def)
    then show ?thesis using that Some by (simp add: wp_simps) blast
  qed
  have rest': "wp (case r of (i, a) \<Rightarrow> f i a) (s\<lparr>md_entities := e\<rparr>) ?Q"
    if "\<And>i a. r = (i, a) \<Longrightarrow> wp (f i a) (s\<lparr>md_entities := e\<rparr>) ?Q" for r e f
    using that by (cases r) simp
  have "wp (applyOne env actor ip c) s ?Q"
    unfolding applyOne_def Some option.case wp_basic(3,4)
    by (rule wp_mono [OF stale], elim conjE, hypsubst, rule wp_mono [OF entity], elim exE conjE, hypsubst,
        rule rest', rule rest) simp_all
  then have "?Q u t" using assms by (rule wpD)
  then show ?thesis using Some by blast
qed (use assms in \<open>simp add: applyOne_def tx_fail_def Let_def\<close>)

lemma apply_rows_effect:
  assumes "apply_rows env actor ip cs s = Inr (u, t)"
  shows "applied_in_order env cs (md_entities s) (md_entities t)
    \<and> (\<exists>ls. db_audit (md_approval t) = db_audit (md_approval s) @ ls \<and> list_all2 (applied_log actor) cs ls)
    \<and> (\<forall>c \<in> set (md_changes t). mc_id c \<in> mc_id ` set cs \<longrightarrow> mc_status c = ''applied'')"
  using assms
proof (induction cs arbitrary: s)
  case (Cons c cs)
  from Cons.prems obtain s1 where s1: "applyOne env actor ip c s = Inr ((), s1)" "apply_rows env actor ip cs s1 = Inr (u, t)"
    by (auto split: sum.splits)
  from applyOne_effect [OF s1(1)] obtain ap r e l where one: "me_appliers env (mc_entity_type c) = Some ap"
    "seen_state ap c (md_entities s)" "Applier_Apply ap (me_tx_now env) c (md_entities s) = Inr (r, e)" "applied_log actor c l"
    "s1 = md_audit l (MarkMasterDataChangeRequestApplied (mc_id c) (s\<lparr>md_entities := e\<rparr>))" by blast
  have s1e: "md_entities s1 = e" "db_audit (md_approval s1) = db_audit (md_approval s) @ [l]"
    "\<forall>x \<in> set (md_changes s1). mc_id x = mc_id c \<longrightarrow> mc_status x = ''applied''"
    by (auto simp: one(5) md_audit_def mark_defs update_change_def update_where_def split: if_splits)
  note IH = Cons.IH [OF s1(2)]
  obtain ls where ls: "db_audit (md_approval t) = db_audit (md_approval s1) @ ls" "list_all2 (applied_log actor) cs ls" using IH by blast
  have "applied_in_order env (c # cs) (md_entities s) (md_entities t)" using IH one(1-3) s1e(1) by auto
  moreover have "\<exists>ls. db_audit (md_approval t) = db_audit (md_approval s) @ ls \<and> list_all2 (applied_log actor) (c # cs) ls"
    using ls s1e(2) one(4) by (intro exI [of _ "l # ls"]) simp
  moreover have "mc_status x = ''applied''" if x: "x \<in> set (md_changes t)" "mc_id x \<in> mc_id ` set (c # cs)" for x
  proof (cases "mc_id x \<in> mc_id ` set cs")
    case False
    have st: "restatus (mc_id ` set cs) {''applied''} s1 t" using apply_rows_staged [OF s1(2) subset_refl] by (simp add: staged_def)
    obtain y where y: "y \<in> set (md_changes s1)" "row_moved (mc_id ` set cs) {''applied''} y x" by (rule restatus_earlier [OF st x(1)])
    then have "mc_id y = mc_id x" by (simp add: row_moved_def static_part_def)
    then show ?thesis using y False x(2) s1e(3) by (auto simp: row_moved_def)
  qed (use IH x in blast)
  ultimately show ?case by blast
qed simp

text \<open>A failed apply.\<close>

lemma apply_in_tx_failed:
  assumes "apply_in_tx env actor ip head cs s = (Some e, t)" and "mc_id ` set cs \<subseteq> ids"
  shows "restatus ids {''stale''} s t \<and> md_entities t = md_entities s \<and> md_approval t = md_approval s"
proof (cases "apply_rows env actor ip cs s")
  case (Inl x)
  obtain c m e' where x: "x = (c, m, e')" by (cases x)
  have "apply_rows env actor ip xs u = Inl (c, m, e') \<Longrightarrow> c \<in> set xs" for xs u
    by (induction xs arbitrary: u) (auto split: sum.splits)
  then have c: "mc_id c \<in> ids" using Inl x assms(2) by blast
  let ?s1 = "record_mark env (mc_id c) m s"
  have a: "md_entities ?s1 = md_entities s" "md_approval ?s1 = md_approval s"
    by (cases m; auto simp: record_mark_def md_best_effort_def mark_defs mark_approvals)+
  have b: "md_entities (retire_batch env cs i e' u) = md_entities u \<and> md_approval (retire_batch env cs i e' u) = md_approval u" for i u
    unfolding retire_batch_def by (induction cs arbitrary: u) (auto simp: md_best_effort_def mark_defs mark_approvals)
  have "restatus ids {''stale''} s ?s1" using record_mark_staged [OF c, of s env m] by (simp add: staged_def)
  moreover have "restatus ids {''stale''} ?s1 (retire_batch env cs (mc_id c) e' ?s1)"
    using retire_batch_staged [OF assms(2), of ?s1 env "mc_id c" e'] by (simp add: staged_def)
  ultimately show ?thesis using assms(1) Inl x a b
    by (auto simp: apply_in_tx_def Let_def intro: restatus_trans split: if_splits)
next
  case (Inr x)
  have "restatus ids {''stale''} s (MarkMasterDataChangeRequestApplyFailed i m s)" for i m
    using mark_staged(5) [of ids "{''stale''}" s i m] by (simp add: staged_def)
  then show ?thesis using assms(1) Inr
    by (auto simp: apply_in_tx_def md_best_effort_def split: prod.splits if_splits) (simp_all add: mark_defs mark_approvals)
qed

subsection \<open>The whole apply\<close>

lemma restatus_static:
  assumes "restatus ids sts s t"
  shows "map static_part (md_changes t) = map static_part (md_changes s)"
  using assms unfolding restatus_def row_moved_def by (auto simp: list_all2_conv_all_nth intro!: nth_equalityI)

definition rows_of :: "id64 set \<Rightarrow> 'e md_st \<Rightarrow> change_row set" where
  "rows_of ids st = {c \<in> set (md_changes st). mc_id c \<in> ids}"

lemma rows_of_static:
  assumes "restatus ids sts s t"
  shows "static_part ` rows_of I t = static_part ` rows_of I s"
proof -
  have e: "static_part ` rows_of I u = {x \<in> set (map static_part (md_changes u)). fst x \<in> I}" for u :: "'a md_st"
    by (auto simp: rows_of_def static_part_def)
  show ?thesis unfolding e restatus_static [OF assms] ..
qed

lemma matesD:
  assumes "i \<in> mates d st"
  shows "\<exists>y \<in> set (md_changes st). mc_id y = i
    \<and> (i = d \<or> mc_batch_id y \<noteq> None \<and> (\<exists>h \<in> set (md_changes st). mc_id h = d \<and> mc_batch_id h = mc_batch_id y))"
proof -
  obtain b where b: "(i, b) \<in> row_keys st" "i = d \<or> b \<noteq> None \<and> (d, b) \<in> row_keys st" using assms unfolding mates_def by blast
  have key: "\<exists>h \<in> set (md_changes st). mc_id h = k \<and> mc_batch_id h = b" if "(k, b) \<in> row_keys st" for k
    using that unfolding row_keys_def by auto
  obtain y where "y \<in> set (md_changes st)" "mc_id y = i" "mc_batch_id y = b" using key [OF b(1)] by (elim bexE conjE)
  then show ?thesis using b(2) key by (intro bexI [of _ y]) auto
qed

lemma load_rows_ok:
  assumes run: "load_rows env head s = (Inr cs, t)" and h: "head \<in> set (md_changes s)" and d: "distinct (map mc_id (md_changes s))"
  shows "set cs = rows_of (mates (mc_id head) s) s \<and> sorted (map mc_id cs) \<and> distinct (map mc_id cs)"
proof -
  have same: "c = c'" if "c \<in> set (md_changes s)" "c' \<in> set (md_changes s)" "mc_id c = mc_id c'" for c c'
    using distinct_key_eq [OF d] that by blast
  show ?thesis
  proof (cases "mc_batch_id head")
    case None
    have "x = head" if "x \<in> set (md_changes s)" "mc_id x \<in> mates (mc_id head) s" for x
    proof -
      from matesD [OF that(2)] have "mc_id x = mc_id head" using same [OF _ h] None by metis
      then show ?thesis by (rule same [OF that(1) h])
    qed
    then have "rows_of (mates (mc_id head) s) s = {head}" using h matesI(1) [OF h] by (auto simp: rows_of_def)
    moreover have "cs = [head]" using run None by (auto simp: load_rows_def)
    ultimately show ?thesis by simp
  next
    case (Some b)
    then have cs: "cs = ListMasterDataChangeRequestsByBatch b s"
      using run by (auto simp: load_rows_def Let_def split: if_splits prod.splits bool.splits)
    have "set cs = rows_of (mates (mc_id head) s) s"
    proof (intro set_eqI iffI)
      fix c assume "c \<in> set cs"
      then have "c \<in> set (md_changes s)" "mc_batch_id c = Some b" by (simp_all add: cs ListMasterDataChangeRequestsByBatch_def)
      then show "c \<in> rows_of (mates (mc_id head) s) s" using matesI(2) [OF _ h Some] by (simp add: rows_of_def)
    next
      fix c assume "c \<in> rows_of (mates (mc_id head) s) s"
      then have c: "c \<in> set (md_changes s)" "mc_id c \<in> mates (mc_id head) s" by (simp_all add: rows_of_def)
      have "mc_batch_id c = Some b" using matesD [OF c(2)] c(1) same [OF _ c(1)] same [OF _ h] Some by metis
      then show "c \<in> set cs" using c(1) by (simp add: cs ListMasterDataChangeRequestsByBatch_def)
    qed
    moreover have "sorted (map mc_id cs)" by (simp add: cs ListMasterDataChangeRequestsByBatch_def)
    moreover have "distinct (map mc_id cs)"
      using d by (auto simp: cs ListMasterDataChangeRequestsByBatch_def distinct_map intro: inj_on_subset)
    ultimately show ?thesis by blast
  qed
qed

lemma approve_rows_approval: "approve_rows env hid cs s = (ok, t) \<Longrightarrow> md_approval t = md_approval s"
  by (induction cs arbitrary: s) (auto simp: mark_defs mark_approvals split: if_splits)

lemma load_rows_approval: "load_rows env head s = (r, t) \<Longrightarrow> md_approval t = md_approval s"
  by (auto simp: load_rows_def Let_def dest: approve_rows_approval split: option.splits if_splits prod.splits bool.splits)

definition applied_only :: "'e md_st \<Rightarrow> 'e md_st \<Rightarrow> bool" where
  "applied_only s t \<longleftrightarrow> (\<forall>c' \<in> set (md_changes t). mc_status c' = ''applied'' \<longrightarrow>
     (\<exists>c \<in> set (md_changes s). mc_id c = mc_id c' \<and> mc_status c = ''applied''))"

lemma restatus_applied_only:
  assumes "restatus ids sts s t" and "''applied'' \<notin> sts"
  shows "applied_only s t"
  unfolding applied_only_def
proof (intro ballI impI)
  fix c' assume "c' \<in> set (md_changes t)" "mc_status c' = ''applied''"
  moreover obtain c where "c \<in> set (md_changes s)" "row_moved ids sts c c'" by (rule restatus_earlier [OF assms(1) calculation(1)])
  ultimately show "\<exists>c \<in> set (md_changes s). mc_id c = mc_id c' \<and> mc_status c = ''applied''"
    using assms(2) by (intro bexI [of _ c]) (auto simp: row_moved_def static_part_def)
qed

text \<open>The states an apply goes through: the head approved, its rows loaded and approved, the transaction.\<close>

lemma apply_stages:
  assumes "applyMasterDataChange env actor cid ip s = (r, t)"
  obtains (early) e where "r = Some e" "restatus (mates cid s) {''approved''} s t" "md_entities t = md_entities s" "md_approval t = md_approval s"
  | (tx) head cs s2 where "load_rows env head (MarkMasterDataChangeRequestApproved cid s) = (Inr cs, s2)"
      "head \<in> set (md_changes (MarkMasterDataChangeRequestApproved cid s))" "mc_id head = cid" "restatus (mates cid s) {''approved''} s s2"
      "md_entities s2 = md_entities s" "md_approval s2 = md_approval s" "mc_id ` set cs \<subseteq> mates cid s"
      "apply_in_tx env actor ip head cs s2 = (r, t)"
proof (cases "GetMasterDataChangeRequestByID cid (MarkMasterDataChangeRequestApproved cid s)")
  case None
  have "cid \<notin> set (map mc_id (md_changes (MarkMasterDataChangeRequestApproved cid s)))"
    using None by (auto simp: GetMasterDataChangeRequestByID_def find_row_None)
  then have "cid \<notin> mc_id ` set (md_changes s)" unfolding restatus_ids [OF mark_restatus(1)] by simp
  then have "md_changes (MarkMasterDataChangeRequestApproved cid s) = md_changes s"
    by (auto simp: mark_defs update_change_def intro!: update_where_none)
  then have "restatus (mates cid s) {''approved''} s (MarkMasterDataChangeRequestApproved cid s)"
    by (simp add: restatus_same mark_defs update_change_def)
  then show ?thesis using assms None
    by (auto simp: applyMasterDataChange_def Let_def mark_defs mark_approvals split: if_splits intro!: early)
next
  case (Some head)
  let ?s1 = "MarkMasterDataChangeRequestApproved cid s" and ?I = "mates cid s"
  have h: "head \<in> set (md_changes ?s1)" "mc_id head = cid"
    using Some by (auto simp: GetMasterDataChangeRequestByID_def dest: find_row_Some)
  have I: "mates cid ?s1 = ?I" by (rule mates_restatus [OF mark_restatus(1)])
  then have "cid \<in> ?I" using matesI(1) [OF h(1)] h(2) by simp
  then have one: "restatus ?I {''approved''} s ?s1" by (intro restatus_mono [OF mark_restatus(1)]) auto
  have e1: "md_entities ?s1 = md_entities s" "md_approval ?s1 = md_approval s" by (simp_all add: mark_defs mark_approvals)
  obtain x s2 where load: "load_rows env head ?s1 = (x, s2)" by (cases "load_rows env head ?s1")
  note two = load_rows_staged [OF load h(1), unfolded h(2) I] load_rows_approval [OF load]
  have s2: "restatus ?I {''approved''} s s2" using one two(1) by (auto simp: staged_def intro: restatus_trans)
  show ?thesis
  proof (cases "me_flt env ''MarkApproved'' cid \<or> me_flt env ''GetByID'' cid \<or> (\<exists>e. x = Inl e)")
    case True
    then have "(r \<noteq> None \<and> (t = s \<or> t = ?s1 \<or> t = s2))"
      using assms Some load by (auto simp: applyMasterDataChange_def Let_def split: if_splits)
    then show ?thesis using early one s2 e1 two by (metis option.exhaust restatus_refl)
  next
    case False
    then obtain cs where cs: "x = Inr cs" by (cases x) auto
    have "apply_in_tx env actor ip head cs s2 = (r, t)"
      using assms Some load cs False by (simp add: applyMasterDataChange_def Let_def)
    then show ?thesis using tx [OF load [unfolded cs] h s2] two e1 cs by simp
  qed
qed

lemma apply_failed:
  assumes "applyMasterDataChange env actor cid ip s = (Some e, t)"
  shows "md_entities t = md_entities s \<and> md_approval t = md_approval s \<and> applied_only s t"
  using assms
proof (cases rule: apply_stages)
  case early
  then show ?thesis using restatus_applied_only [OF early(2)] by simp
next
  case (tx head cs s2)
  note f = apply_in_tx_failed [OF tx(8,7)]
  have "restatus (mates cid s) {''approved'', ''stale''} s t"
    using f by (intro restatus_trans [OF restatus_mono [OF tx(4)] restatus_mono [of _ "{''stale''}" s2]]) auto
  then show ?thesis using f tx(5,6) restatus_applied_only by fastforce
qed

lemma apply_done:
  assumes run: "applyMasterDataChange env actor cid ip s = (None, t)" and d: "distinct (map mc_id (md_changes s))"
  shows "\<exists>rows logs. static_part ` set rows = static_part ` rows_of (mates cid s) s \<and> sorted (map mc_id rows) \<and> distinct (map mc_id rows)
    \<and> cid \<in> mc_id ` set rows \<and> applied_in_order env rows (md_entities s) (md_entities t)
    \<and> db_audit (md_approval t) = db_audit (md_approval s) @ logs \<and> list_all2 (applied_log actor) rows logs
    \<and> (\<forall>c \<in> rows_of (mates cid s) t. mc_status c = ''applied'')"
  using run
proof (cases rule: apply_stages)
  case (tx head cs s2)
  let ?s1 = "MarkMasterDataChangeRequestApproved cid s" and ?I = "mates cid s"
  have d1: "distinct (map mc_id (md_changes ?s1))" unfolding restatus_ids [OF mark_restatus(1)] by (rule d)
  have I: "mates cid ?s1 = ?I" by (rule mates_restatus [OF mark_restatus(1)])
  note cs = load_rows_ok [OF tx(1,2) d1, unfolded tx(3) I]
  have rows: "apply_rows env actor ip cs s2 = Inr ((), t)"
    using tx(8) by (auto simp: apply_in_tx_def Let_def split: if_splits sum.splits prod.splits)
  note eff = apply_rows_effect [OF rows]
  obtain logs where logs: "db_audit (md_approval t) = db_audit (md_approval s2) @ logs" "list_all2 (applied_log actor) cs logs"
    using eff by blast
  have st: "static_part ` set cs = static_part ` rows_of ?I s" using cs rows_of_static [OF mark_restatus(1)] by metis
  then have "fst ` static_part ` set cs = fst ` static_part ` rows_of ?I s" by simp
  then have ids: "mc_id ` set cs = mc_id ` rows_of ?I s" by (simp add: image_image static_part_def)
  have same_ids: "mc_id ` set (md_changes t) = mc_id ` set (md_changes s)"
    using restatus_ids [of ?I _ s t] apply_staged [OF run] unfolding staged_def by (metis set_map)
  have "mc_status c = ''applied''" if "c \<in> rows_of ?I t" for c
  proof -
    have "mc_id c \<in> mc_id ` set (md_changes t)" "mc_id c \<in> ?I" using that by (simp_all add: rows_of_def)
    then obtain x where "x \<in> set (md_changes s)" "mc_id c = mc_id x" "mc_id x \<in> ?I" unfolding same_ids by auto
    then have "mc_id c \<in> mc_id ` rows_of ?I s" by (simp add: rows_of_def)
    then show ?thesis using eff that ids by (simp add: rows_of_def)
  qed
  moreover have "cid \<in> mc_id ` set cs" using cs tx(2,3) matesI(1) [OF tx(2)] I by (auto simp: rows_of_def)
  moreover have "applied_in_order env cs (md_entities s) (md_entities t)" using eff tx(5) by simp
  ultimately show ?thesis using cs st logs tx(6) by (intro exI [of _ cs] exI [of _ logs]) simp
qed simp

section \<open>The contract of an applier\<close>

text \<open>
  \<open>entity i e\<close> is an entity of the kind, as its applier shows it. An applier writes only the entity its change
  names, a creation only a new one, and every entity it wrote exists.
\<close>

locale entity_applier =
  fixes ap :: "'e applier"
    and ok :: "'e \<Rightarrow> bool"
  assumes keeps_ok: "ok e \<Longrightarrow> Applier_Apply ap now c e = Inr (r, e') \<Longrightarrow> ok e'"
    and writes_own: "ok e \<Longrightarrow> Applier_Apply ap now c e = Inr ((i, a), e') \<Longrightarrow> j \<noteq> i \<Longrightarrow> Applier_CurrentState ap j e' = Applier_CurrentState ap j e"
    and names_own: "Applier_Apply ap now c e = Inr ((i, a), e') \<Longrightarrow> mc_op c \<noteq> ''create'' \<Longrightarrow> mc_entity_id c = Some i"
    and creates_new: "ok e \<Longrightarrow> Applier_Apply ap now c e = Inr ((i, a), e') \<Longrightarrow> mc_op c = ''create'' \<Longrightarrow> \<exists>t. Applier_CurrentState ap i e = Inl t"
begin

text \<open>Rows applied one after the other leave every existing entity they do not name as it was.\<close>

lemma unnamed_untouched:
  assumes "applied_in_order env cs e e'" and "ok e" and "\<And>c. c \<in> set cs \<Longrightarrow> me_appliers env (mc_entity_type c) = Some ap"
    and "Applier_CurrentState ap j e = Inr v" and "\<And>c. c \<in> set cs \<Longrightarrow> mc_entity_id c \<noteq> Some j"
  shows "Applier_CurrentState ap j e' = Inr v"
  using assms
proof (induction cs arbitrary: e)
  case (Cons c cs)
  from Cons.prems(1) Cons.prems(3) [of c] obtain i a e1 where one: "Applier_Apply ap (me_tx_now env) c e = Inr ((i, a), e1)" "applied_in_order env cs e1 e'"
    by auto
  have "j \<noteq> i"
  proof (cases "mc_op c = ''create''")
    case True
    then show ?thesis using creates_new [OF Cons.prems(2) one(1)] Cons.prems(4) by auto
  next
    case False
    then show ?thesis using names_own [OF one(1)] Cons.prems(5) [of c] by auto
  qed
  then have "Applier_CurrentState ap j e1 = Inr v" using writes_own [OF Cons.prems(2) one(1)] Cons.prems(4) by simp
  then show ?case using Cons.IH [OF one(2) keeps_ok [OF Cons.prems(2) one(1)]] Cons.prems(3,5) by auto
qed simp

end

definition vendors_ok :: "vendor_tabs \<Rightarrow> bool" where
  "vendors_ok t \<longleftrightarrow> distinct (map ve_id (vt_vendors t)) \<and> (\<forall>r \<in> set (vt_vendors t). ve_id r < vt_next_vendor t)"

lemma vendor_row_other:
  "(\<And>r. ve_id (f r) = ve_id r) \<Longrightarrow> (\<And>r. sel r \<Longrightarrow> ve_id r = i) \<Longrightarrow> j \<noteq> i
    \<Longrightarrow> find_row (\<lambda>r. ve_id r = j) (update_where sel f rs) = find_row (\<lambda>r. ve_id r = j) rs"
  by (induction rs) auto

lemma vendors_ok_update:
  "vendors_ok t \<Longrightarrow> (\<And>r. ve_id (f r) = ve_id r) \<Longrightarrow> vendors_ok (t\<lparr>vt_vendors := update_where sel f (vt_vendors t)\<rparr>)"
  unfolding vendors_ok_def by (auto elim!: in_update_whereE)

lemma VendorApplier_cases:
  assumes "VendorApplier_Apply now c t = Inr ((i, a), t')"
  obtains (created) r where "mc_op c = ''create''" "i = vt_next_vendor t" "ve_id r = i"
      "t' = t\<lparr>vt_vendors := vt_vendors t @ [r], vt_next_vendor := vt_next_vendor t + 1\<rparr>"
  | (changed) sel f where "mc_op c \<noteq> ''create''" "mc_entity_id c = Some i" "t' = t\<lparr>vt_vendors := update_where sel f (vt_vendors t)\<rparr>"
      "\<And>r. ve_id (f r) = ve_id r" "\<And>r. sel r \<Longrightarrow> ve_id r = i"
proof (cases "mc_op c = ''create''")
  case True
  have "\<exists>r. i = vt_next_vendor t \<and> ve_id r = i \<and> t' = t\<lparr>vt_vendors := vt_vendors t @ [r], vt_next_vendor := vt_next_vendor t + 1\<rparr>"
    using assms True unfolding VendorApplier_Apply_def CreateVendorAdmin_def Let_def
    by (auto split: option.splits sum.splits if_splits; intro exI conjI; (rule refl)?; simp)
  then show ?thesis using created True by blast
next
  case False
  then consider (upd) "mc_op c = ''update''" | (dis) "mc_op c = ''disable''" | (ena) "mc_op c = ''enable''"
    using assms unfolding VendorApplier_Apply_def by (metis Inl_Inr_False)
  then show ?thesis
  proof cases
    case upd
    then obtain p where p: "mc_entity_id c = Some i" "t' = t\<lparr>vt_vendors := update_where (\<lambda>r. ve_id r = i \<and> ve_deleted_at r = None)
        (vendor_update p) (vt_vendors t)\<rparr>"
      using assms by (auto simp: VendorApplier_Apply_def UpdateVendorAdmin_def split: option.splits sum.splits if_splits)
    show ?thesis by (rule changed [OF False p]) (simp_all add: vendor_update_def)
  next
    case dis
    then have p: "mc_entity_id c = Some i" "t' = t\<lparr>vt_vendors := update_where (\<lambda>r. ve_id r = i)
        (\<lambda>r. r\<lparr>ve_is_active := False, ve_deleted_at := Some now\<rparr>) (vt_vendors t)\<rparr>"
      using assms by (auto simp: VendorApplier_Apply_def DisableVendor_def split: option.splits)
    show ?thesis by (rule changed [OF False p]) simp_all
  next
    case ena
    then have p: "mc_entity_id c = Some i" "t' = t\<lparr>vt_vendors := update_where (\<lambda>r. ve_id r = i)
        (\<lambda>r. r\<lparr>ve_is_active := True, ve_deleted_at := None\<rparr>) (vt_vendors t)\<rparr>"
      using assms by (auto simp: VendorApplier_Apply_def EnableVendor_def split: option.splits)
    show ?thesis by (rule changed [OF False p]) simp_all
  qed
qed

lemma VendorApplier_fields [simp]:
  "Applier_Apply VendorApplier = VendorApplier_Apply" "Applier_CurrentState VendorApplier = VendorApplier_CurrentState"
  by (simp_all add: VendorApplier_def)

interpretation vendor_applier: entity_applier VendorApplier vendors_ok
proof (unfold_locales, unfold VendorApplier_fields)
  show "vendors_ok e'" if "vendors_ok e" "VendorApplier_Apply now c e = Inr (r, e')" for e now c r e'
  proof -
    have "VendorApplier_Apply now c e = Inr ((fst r, snd r), e')" using that(2) by simp
    then show ?thesis
    proof (cases rule: VendorApplier_cases)
      case (created q)
      then show ?thesis using that(1) by (auto simp: vendors_ok_def)
    next
      case (changed sel f)
      then show ?thesis using vendors_ok_update [OF that(1)] by simp
    qed
  qed
  show "VendorApplier_CurrentState j e' = VendorApplier_CurrentState j e"
    if "vendors_ok e" "VendorApplier_Apply now c e = Inr ((i, a), e')" "j \<noteq> i" for e now c i a e' j
  proof -
    from that(2) have "GetVendorAdminByID j e' = GetVendorAdminByID j e"
    proof (cases rule: VendorApplier_cases)
      case (created q)
      then show ?thesis using that(3) by (simp add: GetVendorAdminByID_def find_row_append split: option.splits)
    next
      case (changed sel f)
      then show ?thesis using vendor_row_other [OF changed(4,5) that(3)] by (simp add: GetVendorAdminByID_def)
    qed
    then show ?thesis by (simp add: VendorApplier_CurrentState_def)
  qed
  show "mc_entity_id c = Some i" if "VendorApplier_Apply now c e = Inr ((i, a), e')" "mc_op c \<noteq> ''create''" for e now c i a e'
    using that by (cases rule: VendorApplier_cases) simp_all
  show "\<exists>t. VendorApplier_CurrentState i e = Inl t"
    if "vendors_ok e" "VendorApplier_Apply now c e = Inr ((i, a), e')" "mc_op c = ''create''" for e now c i a e'
  proof -
    from that(2,3) have "i = vt_next_vendor e" by (cases rule: VendorApplier_cases) simp_all
    then have "GetVendorAdminByID i e = None" using that(1) by (auto simp: GetVendorAdminByID_def find_row_None vendors_ok_def)
    then show ?thesis by (simp add: VendorApplier_CurrentState_def)
  qed
qed

end
