(* ===== verification/Master_Properties.thy ===== *)
theory Master_Properties
  imports Master_Apply
begin

text \<open>
  The properties of master data changes, each with a witness on a small organisation: user 1 reports to
  user 2 (level 1), a policy asks level 1 for master data, and one vendor is to be closed.
\<close>

section \<open>A small organisation\<close>

definition md_policy_db :: approval_db where
  "md_policy_db = \<lparr>db_users = [\<lparr>un_id = 1, un_supervisor_id = Some 2, un_approval_level = None\<rparr>,
       \<lparr>un_id = 2, un_supervisor_id = Some 3, un_approval_level = Some 1\<rparr>,
       \<lparr>un_id = 3, un_supervisor_id = None, un_approval_level = Some 2\<rparr>],
     db_leaves = [], db_delegations = [],
     db_policies = [\<lparr>ap_id = 10, ap_document_type = ''master_data'', ap_min_amount = 0, ap_max_amount = 100000,
        ap_required_level = 1, ap_is_active = True\<rparr>],
     db_requests = [], db_steps = [], db_audit = [], db_next_id = 100\<rparr>"

definition one_vendor :: vendor_tabs where
  "one_vendor = \<lparr>vt_vendors = [\<lparr>ve_id = 7, ve_code = ''V7'', ve_name = ''Seven'', ve_legal_name = None, ve_npwp = None,
      ve_contact_email = None, ve_contact_phone = None, ve_hq_address = None, ve_is_active = True, ve_deleted_at = None\<rparr>],
    vt_next_vendor = 8, vt_users = []\<rparr>"

definition md_none :: "vendor_tabs md_st" where
  "md_none = \<lparr>md_approval = md_policy_db, md_changes = [], md_batches = [], md_entities = one_vendor, md_next_change = 1, md_next_batch = 1\<rparr>"

definition md_calls :: "(string \<Rightarrow> id64 \<Rightarrow> bool) \<Rightarrow> vendor_tabs md_env" where
  "md_calls flt = \<lparr>me_env = id, me_approval_faults = (\<lambda>_. False), me_flt = flt, me_text = (\<lambda>q. q), me_resolved_at = 5,
     me_acted_at = 6, me_tx_now = 9, me_appliers = [''vendor'' \<mapsto> VendorApplier]\<rparr>"

definition close_vendor :: submit_request where
  "close_vendor = \<lparr>sr_EntityType = ''vendor'', sr_Op = ''disable'', sr_EntityID = Some 7, sr_Payload = None,
     sr_Before = Some (vendor_json (hd (vt_vendors one_vendor))), sr_BatchID = None\<rparr>"

definition md_staged :: "vendor_tabs md_st" where
  "md_staged = snd (the (MasterDataChange_Submit (md_calls (\<lambda>_ _. False)) (Some (1, '' admin'')) 1 close_vendor [] md_none))"

definition md_applied :: "vendor_tabs md_st" where
  "md_applied = snd (MasterDataApproval_Approve (md_calls (\<lambda>_ _. False)) 100 2 [] md_staged)"




section \<open>Four eyes\<close>




text \<open>The operations of the vendor service are such steps, or change nothing.\<close>

lemma submit_vendor_step:
  assumes "me_env env = id" and "\<And>q. r = Inr q \<Longrightarrow> sr_BatchID q = None" and "submit_vendor env auth actor ip r s = Some (x, t)"
  shows "t = s \<or> md_op s t"
proof (cases r)
  case (Inr q)
  then obtain y where "MasterDataChange_Submit env auth actor q ip s = Some (y, t)"
    using assms(3) by (auto simp: submit_vendor_def)
  with assms(1,2) Inr show ?thesis by (blast intro: md_op.submit)
qed (use assms(3) in \<open>simp add: submit_vendor_def\<close>)

lemma vendor_requests_single:
  "VendorAdmin_Create_request env mail req tabs = Inr q \<Longrightarrow> sr_BatchID q = None"
  "VendorAdmin_Update_request env mail vid upd tabs = Inr q \<Longrightarrow> sr_BatchID q = None"
  "VendorAdmin_Disable_request env vid tabs = Inr (q, n) \<Longrightarrow> sr_BatchID q = None"
  "VendorAdmin_Enable_request env vid tabs = Inr q \<Longrightarrow> sr_BatchID q = None"
  by (auto simp: VendorAdmin_Create_request_def VendorAdmin_Update_request_def VendorAdmin_Disable_request_def
      VendorAdmin_Enable_request_def Let_def split: sum.splits if_splits)

lemma VendorAdmin_steps:
  assumes "me_env env = id"
  shows "VendorAdmin_Create env mail auth actor req ip s = Some (x, t) \<Longrightarrow> t = s \<or> md_op s t"
    and "VendorAdmin_Update env mail auth actor vid upd ip s = Some (x, t) \<Longrightarrow> t = s \<or> md_op s t"
    and "VendorAdmin_Disable env auth actor vid ip s = Some (y, t) \<Longrightarrow> t = s \<or> md_op s t"
    and "VendorAdmin_Enable env auth actor vid ip s = Some (x, t) \<Longrightarrow> t = s \<or> md_op s t"
proof -
  note step = submit_vendor_step [OF assms]
  show "VendorAdmin_Create env mail auth actor req ip s = Some (x, t) \<Longrightarrow> t = s \<or> md_op s t"
    unfolding VendorAdmin_Create_def by (rule step [OF vendor_requests_single(1)])
  show "VendorAdmin_Update env mail auth actor vid upd ip s = Some (x, t) \<Longrightarrow> t = s \<or> md_op s t"
    unfolding VendorAdmin_Update_def by (rule step [OF vendor_requests_single(2)])
  show "VendorAdmin_Enable env auth actor vid ip s = Some (x, t) \<Longrightarrow> t = s \<or> md_op s t"
    unfolding VendorAdmin_Enable_def by (rule step [OF vendor_requests_single(4)])
  assume run: "VendorAdmin_Disable env auth actor vid ip s = Some (y, t)"
  show "t = s \<or> md_op s t"
  proof (cases "VendorAdmin_Disable_request env vid (md_entities s)")
    case (Inr qn)
    obtain q n where qn: "qn = (q, n)" by (cases qn)
    then obtain z where z: "submit_vendor env auth actor ip (Inr q) s = Some (z, t)"
      using run Inr by (auto simp: VendorAdmin_Disable_def)
    have "sr_BatchID q = None" by (rule vendor_requests_single(3) [OF Inr [unfolded qn]])
    with z show ?thesis using step [of "Inr q"] by blast
  qed (use run in \<open>simp add: VendorAdmin_Disable_def\<close>)
qed

section \<open>All or nothing\<close>

text \<open>C12: an approved change takes effect as a whole or not at all. An apply that fails, at any call, leaves the
  entities and the approval tables with their audit log as they were and no row newly applied. An apply that succeeds
  has written the change or, for an import, all rows of its batch in the order of their ids, each on the
  state its maker saw; all those rows are applied and there is one audit row for each.\<close>

theorem apply_all_or_nothing:
  assumes "applyMasterDataChange env actor cid ip s = (r, t)" and "distinct (map mc_id (md_changes s))"
  shows "case r of
      Some e \<Rightarrow> md_entities t = md_entities s \<and> md_approval t = md_approval s \<and> applied_only s t
    | None \<Rightarrow> \<exists>rows logs. static_part ` set rows = static_part ` rows_of (mates cid s) s \<and> sorted (map mc_id rows)
        \<and> distinct (map mc_id rows) \<and> cid \<in> mc_id ` set rows \<and> applied_in_order env rows (md_entities s) (md_entities t)
        \<and> db_audit (md_approval t) = db_audit (md_approval s) @ logs \<and> list_all2 (applied_log actor) rows logs
        \<and> (\<forall>c \<in> rows_of (mates cid s) t. mc_status c = ''applied'')"
proof (cases r)
  case None
  show ?thesis unfolding None option.case by (rule apply_done [OF assms(1) [unfolded None] assms(2)])
next
  case (Some e)
  show ?thesis unfolding Some option.case by (rule apply_failed [OF assms(1) [unfolded Some]])
qed

theorem apply_all_or_nothing_witness:
  "\<exists>rows. 1 \<in> mc_id ` set rows
    \<and> applied_in_order (md_calls (\<lambda>_ _. False)) rows (md_entities md_staged) (md_entities md_applied)"
proof -
  obtain r t where run: "applyMasterDataChange (md_calls (\<lambda>_ _. False)) 2 1 [] md_staged = (r, t)" by fastforce
  have "fst (applyMasterDataChange (md_calls (\<lambda>_ _. False)) 2 1 [] md_staged) = None
      \<and> md_entities (snd (applyMasterDataChange (md_calls (\<lambda>_ _. False)) 2 1 [] md_staged)) = md_entities md_applied"
    by code_simp
  then have rt: "r = None" "md_entities t = md_entities md_applied" by (simp_all add: run)
  have "distinct (map mc_id (md_changes md_staged))" by code_simp
  from apply_all_or_nothing [OF run this] show ?thesis unfolding rt option.case by blast
qed

text \<open>With the applier of vendors, an existing vendor that no row names is left as it was.\<close>

lemma apply_leaves_other_vendors:
  assumes "applyMasterDataChange env actor cid ip s = (r, t)" and "distinct (map mc_id (md_changes s))" and "vendors_ok (md_entities s)"
    and vendors: "\<And>c. c \<in> rows_of (mates cid s) s \<Longrightarrow> me_appliers env (mc_entity_type c) = Some VendorApplier"
    and "GetVendorAdminByID vid (md_entities s) = Some v" and unnamed: "\<And>c. c \<in> rows_of (mates cid s) s \<Longrightarrow> mc_entity_id c \<noteq> Some vid"
  shows "VendorApplier_CurrentState vid (md_entities t) = Inr (vendor_json v)"
proof (cases r)
  case None
  from apply_done [OF assms(1) [unfolded None] assms(2)] obtain rows where
    rows: "static_part ` set rows = static_part ` rows_of (mates cid s) s" "applied_in_order env rows (md_entities s) (md_entities t)"
    by (elim exE conjE)
  have "\<exists>c' \<in> rows_of (mates cid s) s. mc_entity_type c' = mc_entity_type c \<and> mc_entity_id c' = mc_entity_id c"
    if c: "c \<in> set rows" for c
  proof -
    have "static_part c \<in> static_part ` rows_of (mates cid s) s" using c rows(1) by blast
    then show ?thesis by (auto simp: static_part_def)
  qed
  then have "me_appliers env (mc_entity_type c) = Some VendorApplier" "mc_entity_id c \<noteq> Some vid" if "c \<in> set rows" for c
    using that vendors unnamed by metis+
  with vendor_applier.unnamed_untouched [OF rows(2) assms(3), of vid] assms(5) show ?thesis
    by (simp add: VendorApplier_CurrentState_def)
next
  case (Some e)
  show ?thesis using apply_failed [OF assms(1) [unfolded Some]] assms(5) by (simp add: VendorApplier_CurrentState_def)
qed

section \<open>Requests that do not belong to their change\<close>



end
