(* ===== verification/Spec2Isabelle.thy ===== *)
theory Spec2Isabelle
  imports Approval_Properties Delivery_Properties Csv_Properties Auth_Properties
    Vendor_Properties Notify_Properties Master_Properties
begin

text \<open>
  A verification library for CROWN, an end-to-end cash management system: a main service
  (\<open>src/backend\<close>), an export service (\<open>src/backend-exq\<close>) and the packages they share (\<open>src/pkg\<close>), in Go
  over PostgreSQL and Redis.

  \<^bold>\<open>The parts that are modelled and how they interact.\<close>

  \<^item> \<^emph>\<open>Authentication and accounts.\<close> A user logs in with email and password at one of two portals; the
    login is rate limited in Redis and locked out in the database. It yields a short access token,
    which \<open>RequireAuth\<close> turns into the identity every other endpoint works with, and a refresh token in a
    cookie, which is exchanged once for the next pair until the session's absolute deadline.
    Administrators create, change, disable and enable accounts.
  \<^item> \<^emph>\<open>Approval (maker-checker).\<close> A document submitted by its maker gets a chain of approvers, taken from
    the reporting line of \<open>users\<close> up to the level a policy asks for. Approvers or their delegates
    decide step by step; every change is audited in its transaction.
  \<^item> \<^emph>\<open>Export jobs.\<close> A request becomes a queued job; a worker claims it, produces CSV through a buffer into
    chunks of the database, and marks it succeeded; its owner downloads it once, after which the
    chunks are deleted; a janitor expires files and requeues or fails jobs that stopped.
  \<^item> \<^emph>\<open>CSV contract.\<close> The exporter writes cells with a guard against formulas; the importer of the main
    service reads an uploaded file back. The property in this theory spans the chain: what a producer
    emits is what the importer reads from the downloaded file.
  \<^item> \<^emph>\<open>Vendor requests.\<close> A request for cash at ATMs is drafted, submitted, approved by another user, planned
    over the vaults of its areas, reviewed, sent to the vendor branches concerned (the parties), accepted
    or rejected by them, reported and confirmed. Every operation is one transaction: it locks the
    request, checks actor and status, writes tickets, plans, parties or visits, one audit entry, and the
    notifications. Vendor users see only the parties of their own vendor and branch.
  \<^item> \<^emph>\<open>Notifications.\<close> A message written in the transaction of a service becomes one in-app notification per user
    and mails in an outbox, which a worker sends with three retries.
  \<^item> \<^emph>\<open>Master data changes.\<close> Administrators do not write master data: a change, or an import file as one batch of
    changes, is staged and submitted to the approval component; the last approval applies it in one
    transaction through the applier of its entity, unless the entity has moved since.

  \<^bold>\<open>The theories.\<close>

  \<^item> \<open>Prelude\<close>, \<open>Text\<close>: types, Go arithmetic, tables as lists of rows (\<open>update_where\<close>, \<open>find_row\<close>),
    transactions (\<open>run_in_tx\<close>), audit rows, decimal and joined text. Locales \<open>invariant_system\<close> (invariants
    of transition systems) and \<open>audited_tx\<close> (a committed change is audited).
  \<^item> \<open>Approval\<close>: \<open>src/backend/internal/approval\<close> with \<open>db/approval.sql.go\<close> and the approval endpoints; state
    \<open>approval_db\<close>, operations \<open>Orchestrator_SubmitForApproval\<close>, \<open>Orchestrator_Approve\<close>, \<open>Orchestrator_Reject\<close> and the
    administration of hierarchy, delegations and leaves. \<open>Approval_Correct\<close> relates \<open>BuildChain\<close> to its
    specification and gives the effect of each transaction (locale \<open>chain_repository\<close> for the lookups it
    needs); \<open>Approval_Runs\<close> and \<open>Approval_System\<close> hold the step relation and the invariant of every
    reachable state; \<open>Approval_Properties\<close> the properties.
  \<^item> \<open>Redis\<close>: the Redis commands in use, the rate limiter (\<open>src/pkg/middleware/rate_limiter.go\<close>) and the token
    blacklist (\<open>src/pkg/auth/token_blacklist.go\<close>).
  \<^item> \<open>Auth\<close>: the tables of authentication, \<open>db/auth.sql.go\<close>, \<open>auth_repository.go\<close>, the policies and the
    token service of \<open>src/pkg/auth\<close>; state \<open>auth_st\<close>. \<open>Auth_Service\<close>: \<open>Login\<close> and the other services of
    \<open>src/backend/internal/auth\<close>, the endpoints of \<open>auth_handler.go\<close> and the request middleware. \<open>User_Admin\<close>:
    \<open>user_admin.go\<close>, \<open>users_admin.sql.go\<close>, the endpoints that change accounts, and \<open>auth_run\<close>, a sequence
    of operations with their times.
    \<open>Auth_Correct\<close> gives each operation as a relation between rows before and after (locale
    \<open>row_relation\<close>, interpreted for each invariant); \<open>Auth_Runs\<close> the invariants of runs; \<open>Auth_Sessions\<close>
    lockout, revocation (locale \<open>revocation_list\<close>, interpreted on the Redis blacklist) and the deadline of
    sessions; \<open>Auth_Properties\<close> the properties.
  \<^item> \<open>Chunks\<close>: \<open>chunkwriter.go\<close>. \<open>Export_Job\<close> and \<open>Export_Service\<close>: \<open>src/backend-exq/internal/exportjob\<close> with
    \<open>repository/export_jobs.sql.go\<close> and the download endpoint; state \<open>export_db\<close>. \<open>Export_Correct\<close> is the
    transition system of jobs, workers, downloads and the janitor with its invariant, \<open>Export_Runs\<close> and
    \<open>Export_Properties\<close> what follows for every run. \<open>Export_Worker\<close> is one run of \<open>worker.go\<close> from the
    producer's rows to the stored chunks; \<open>Export_Worker_Correct\<close> shows that it consists of steps of
    the transition system; \<open>Export_Delivery\<close> and \<open>Delivery_Properties\<close> follow the file to the client.
  \<^item> \<open>Csv\<close>, \<open>Csv_Import\<close>: \<open>src/pkg/csvexport\<close>, the use of \<open>encoding/csv\<close>, and
    \<open>src/backend/internal/service/masterdata_import_csv.go\<close>; \<open>Csv_Correct\<close>, \<open>Csv_Roundtrip\<close>, \<open>Csv_Properties\<close>: the decoder
    inverts the encoder, and the importer the exporter.

  \<^item> \<open>Tx\<close>: bodies of transactions from statements, weakest preconditions, frames (locale \<open>tx_frame\<close>).
  \<^item> \<open>Notify\<close>: \<open>src/backend/internal/notification\<close> with \<open>notifications.sql.go\<close>; state \<open>notif_st\<close>. \<open>Notify_Correct\<close>: what
    \<open>Send\<close> writes and the invariant of the outbox; \<open>Notify_Properties\<close> the properties.
  \<^item> \<open>Vendor_Db\<close>: the tables of the vendor services as one state \<open>vdb\<close> and \<open>vendor_request.sql.go\<close>;
    \<open>Vendor_State\<close>: actors, errors, the transition table and the checks of a payload
    (\<open>vendor_request.go\<close>, \<open>vendor_request_actions.go\<close>); \<open>Vendor_Ticket\<close> (\<open>vendor_request_ticket.go\<close>);
    \<open>Vendor_Party\<close> (\<open>vendor_party.go\<close>, \<open>vendor_parties.sql.go\<close>); \<open>Vault_Plan_Create\<close>, \<open>Vault_Alloc\<close>, \<open>Vault_Plan\<close>,
    \<open>Vault_Plan_Actions\<close> (\<open>vault_plan_create.go\<close>, \<open>vault_allocation.go\<close>, \<open>vault_capacity.go\<close>, \<open>vault_ticket.go\<close>,
    \<open>vault_plan.go\<close>, \<open>vault_plan_actions.go\<close> and their queries); \<open>Vendor_Request\<close>
    (\<open>vendor_request_create.go\<close>, \<open>vendor_request_actions.go\<close>); \<open>Visit_Quota\<close> (\<open>atm_visit_quota.go\<close>);
    \<open>Vendor_Completion\<close> (\<open>vendor_request_completion.go\<close>); \<open>Vendor_Order\<close>, \<open>Vendor_Realization\<close>
    (\<open>vendor_order.go\<close>, \<open>vendor_order_realization.go\<close>, \<open>replenish_realization_rules.go\<close>).
  \<^item> \<open>Vendor_Frames\<close>: what each operation leaves alone, one locale per group of tables, interpreted by the
    theories that follow. \<open>Vendor_Moves\<close>: every operation as a move of requests and their audit trail;
    \<open>Vendor_System\<close>: the step relation \<open>vstep\<close> over all operations and its invariant; \<open>Vendor_Agreed\<close>: the
    parties' decisions; \<open>Vault_Eyes\<close>: who submitted, approved and reviewed a plan; \<open>Visit_Account\<close>: the
    balance of the quotas; \<open>Ticket_Sync\<close>: tickets against items; \<open>Vendor_Checks\<close>: coverage, scope, numbers,
    the warning's length. \<open>Vendor_Sample\<close> runs a request from its creation to its completion by
    evaluation in the kernel; \<open>Vendor_Properties\<close> states the properties and uses that run for their
    witnesses.

  \<^item> \<open>Master_Change\<close>: \<open>masterdata_change.go\<close>, \<open>masterdata_approval.go\<close> and \<open>master_data.sql.go\<close>; state \<open>md_st\<close>, over any
    kind of entities. \<open>Master_Vendor\<close>: vendors (\<open>vendor_admin.go\<close>, \<open>vendors_admin.sql.go\<close>, the applier of
    \<open>masterdata_applier.go\<close>) and import batches (\<open>masterdata_import_batch_repository.go\<close> and, for the changes
    collected from a file, \<open>masterdata_import_confirm.go\<close>). \<open>Master_Correct\<close>: every operation as a move of staged rows;
    \<open>Master_System\<close>: the step relation \<open>md_op\<close> and its invariant, on that of the approvals; \<open>Master_Apply\<close>: applying
    against the reference \<open>applied_in_order\<close>, and the contract of an applier (locale \<open>entity_applier\<close>,
    interpreted on the applier of vendors); \<open>Master_Properties\<close> the properties.

  \<^bold>\<open>Conventions.\<close> Definitions keep the names of the source, with the receiver first where two methods share
  a name. A query is the SQL text of its sqlc function; constraints of the schema are checked where a
  statement can violate them. Calls that may fail for outside reasons are named by a datatype, and
  a fault function says which fail; a failing statement has no effect, except for the worker's
  statements in \<open>Export_Correct\<close>, which may have been applied when their answer is lost (\<open>chunk_unsure\<close>,
  \<open>succeed_unsure\<close>). Where other sessions can write between an operation's reads and its writes, the
  operation takes that as an argument (\<open>env\<close>, \<open>view\<close>); the remaining operations of authentication run as a
  whole. An operation reads the clock once.

  \<^bold>\<open>Loops.\<close> \<open>BuildChain\<close> has no bound in the code: it is a \<open>partial_function\<close>, its termination on hierarchies is
  proved, and so is that it does not return on a cycle. All other loops are total functions: those of
  the chunk writer, the buffer, the CSV decoder, the importer and the runes of a text end because the
  rest of their input shrinks; the retries of a request number count down from the five of the code.
  No fuel is used.

  \<^bold>\<open>Parameters.\<close> SHA-256 and JSON marshalling of export parameters, bcrypt, the JWT library (\<open>jwt_sound\<close>: signed
  claims are read back; \<open>jti_identifies\<close>: identifiers do not repeat), Unicode classes beyond ASCII, the mail
  address parser, \<open>netip\<close>, the SMTP dialogue and the appliers of master data are arguments of the definitions that use them.

  \<^bold>\<open>Not modelled.\<close> Decoding of HTTP and JSON, text formats of times, logging, configuration and
  start-up; the goroutine loops around the worker and the janitor (their bodies are modelled); the
  producers' queries; the read-only list and option queries of user administration and of the vendor
  services (paged lists, the forecast browser); the remaining services of \<open>src/backend/internal/service\<close>
  (the entities of master data other than vendors, their appliers and the validation of import files;
  DSR and replenishment reports; the ATM portal) and role management; the Python batch
  backend and the frontend.
\<close>

section \<open>From the export to the import\<close>

lemma claimed_job_fresh:
  assumes inv: "export_inv (sys db w)" and claim: "ClaimNextExportJob now db = Some (j, db1)"
  shows "export_inv (sys db1 (w(ej_id j \<mapsto> Writing [])))" "running (ej_id j) db1" "chunks_of db1 (ej_id j) = []"
    "j \<in> set (xd_jobs db1)" "xd_users db1 = xd_users db"
proof -
  show inv1: "export_inv (sys db1 (w(ej_id j \<mapsto> Writing [])))"
    using export_sys.step_invar [OF inv export_op.claim [OF claim]] .
  obtain q where q: "first_min ej_id (filter (\<lambda>j. ej_status j = Queued) (xd_jobs db)) = Some q"
      "j = q\<lparr>ej_status := Running, ej_started_at := Some now\<rparr>"
    and db1: "db1 = snd (update_jobs (\<lambda>x. ej_id x = ej_id q) (\<lambda>x. x\<lparr>ej_status := Running, ej_started_at := Some now\<rparr>) db)"
    using claim by (auto simp: ClaimNextExportJob_def split: option.splits)
  have "q \<in> set (xd_jobs db)" using first_min_Some [OF q(1)] by simp
  then show j: "j \<in> set (xd_jobs db1)" unfolding db1 update_jobs_simps update_where_def set_map
    by (rule rev_image_eqI) (simp add: q(2))
  moreover have st: "ej_status j = Running" using q(2) by simp
  ultimately show "running (ej_id j) db1" unfolding running_def by blast
  have "jobs_ok db1 (w(ej_id j \<mapsto> Writing []))" using inv1 by (simp only: export_inv_def export_sys.select_convs)
  then have "job_ok (ej_status j) (chunks_of db1 (ej_id j)) ((w(ej_id j \<mapsto> Writing [])) (ej_id j)) j"
    unfolding jobs_ok_def using j by (rule bspec)
  then show "chunks_of db1 (ej_id j) = []" using st by simp
  show "xd_users db1 = xd_users db" unfolding db1 by (simp add: update_jobs_def)
qed

text \<open>C25: export, download and import fit together. Take any reachable state of the export system in
  which a worker claims a queued job whose producer emits rows of an importable entity within the
  importer's limits. After the worker's run, with no failing call, the owner, if still allowed the
  kind, downloads a file before it expires and gets it whole, under the job's file name; and the
  importer reads that file back as exactly the producer's rows.\<close>

theorem export_reimports:
  assumes "export_init s0" and "export_op\<^sup>*\<^sup>* s0 (sys db w)" and "ClaimNextExportJob now db = Some (j, db1)"
    and "no_worker_faults en" and "e \<in> set importable" and "\<forall>r \<in> set rows. row_ok (length (en_header e)) r"
    and "length rows \<le> MasterDataImportMaxRows" and "length (csv_file (en_header e) rows) \<le> MasterDataImportMaxBytes"
    and "ej_requested_by j = act_user_id a" and "act_user_id a \<noteq> 0" and "0 < ej_id j"
    and "GetActiveUserRole db (act_user_id a) = Some role" and "allowed (ej_kind j) role"
    and "now' < we_mark_at en + Retention" and "\<forall>c. \<not> flt c" and "\<forall>k. sent k"
  shows "\<exists>out recs.
      fst (ExportsHandler_Download flt sent now' now'' a (ej_id j)
             (worker_run en (ej_id j) (Some (en_header e, rows, None)) db1))
        = DlFile (ej_file_name j) (int (length out)) out
    \<and> readImportCSV (Some out) (en_header e) (en_legacy_headers e) (en_legacy_fill e) = Inr (recs, [])
    \<and> map ir_cells recs = rows"
proof -
  let ?f = "csv_file (en_header e) rows" and ?jid = "ej_id j"
  let ?db2 = "worker_run en ?jid (Some (en_header e, rows, None)) db1"
  have inv: "export_inv (sys db w)" by (rule reachable_export_inv [OF assms(1,2)])
  note c = claimed_job_fresh [OF inv assms(3)]
  have lim: "int (length rows) \<le> MaxRows" "int (length ?f) \<le> MaxBytes"
    using assms(7,8) by (simp_all add: MasterDataImportMaxRows_def MasterDataImportMaxBytes_def MaxRows_def MaxBytes_def)
  from worker_run_ok [OF assms(4) c(2,3) lim] obtain j2 where ch: "chunked ChunkSize ?f (chunks_of ?db2 ?jid)"
    and us: "xd_users ?db2 = xd_users db1"
    and j2: "j2 \<in> set (xd_jobs ?db2)" "ej_id j2 = ?jid" "ej_status j2 = Succeeded" "ej_expires_at j2 = Some (we_mark_at en + Retention)"
    by blast
  have run: "export_op\<^sup>*\<^sup>* (sys db1 (w(?jid \<mapsto> Writing []))) (sys ?db2 (w(?jid := None)))" by (rule worker_run_steps)
  have inv2: "export_inv (sys ?db2 (w(?jid := None)))" using c(1) run by (rule export_sys.run_invar)
  have "evolves (xd_jobs (es_db (sys db1 (w(?jid \<mapsto> Writing []))))) (xd_jobs (es_db (sys ?db2 (w(?jid := None)))))"
    by (rule export_sys.run_preorder [where Q = "\<lambda>s t. evolves (xd_jobs (es_db s)) (xd_jobs (es_db t))", OF run c(1)])
       (rule evolves_refl, erule (1) evolves_trans, erule (1) export_op_evolves)
  then obtain j3 where j3: "j3 \<in> set (xd_jobs ?db2)" "same_job j j3" using c(4) unfolding evolves_def by auto
  have dist: "distinct (map ej_id (xd_jobs ?db2))" using inv2 by (simp add: export_inv_def job_keys_ok_def)
  have "j3 = j2" using distinct_key_eq [OF dist j3(1) j2(1)] j3(2) j2(2) by (simp add: same_job_def)
  with j3(2) have same: "ej_requested_by j2 = ej_requested_by j" "ej_kind j2 = ej_kind j" "ej_file_name j2 = ej_file_name j"
    by (simp_all add: same_job_def)
  have role: "GetActiveUserRole ?db2 (act_user_id a) = Some role"
    using assms(12) us c(5) by (simp add: GetActiveUserRole_def)
  have small: "int (length ?f) \<le> int32_max" using lim(2) by (simp add: MaxBytes_def int32_max_def)
  have id2: "0 < ej_id j2" using assms(11) j2(2) by simp
  have "fst (ExportsHandler_Download flt sent now' now'' a ?jid ?db2) = DlFile (ej_file_name j) (int (length ?f)) ?f"
    using download_delivers [where flt = flt and sent = sent and a = a, OF inv2 j2(1,3,4) assms(14) id2 _ assms(10) role _ _ _ _ small]
      assms(9,13,15,16) same ch j2(2) by simp
  moreover obtain recs where "readImportCSV (Some ?f) (en_header e) (en_legacy_headers e) (en_legacy_fill e) = Inr (recs, [])" "map ir_cells recs = rows"
    using import_written [OF assms(5-8)] by blast
  ultimately show ?thesis by blast
qed

theorem export_reimports_witness:
  "\<exists>out recs. fst (ExportsHandler_Download no_xfaults (\<lambda>_. True) 30 40 admin 1
       (worker_run calm 1 (Some (en_header (hd importable), sample_vendor_rows, None)) sx2)) = DlFile ''master-data-vendors-20260101.csv'' (int (length out)) out
     \<and> readImportCSV (Some out) (en_header (hd importable)) (en_legacy_headers (hd importable)) (en_legacy_fill (hd importable)) = Inr (recs, [])
     \<and> map ir_cells recs = sample_vendor_rows"
proof -
  let ?j = "fst (the (ClaimNextExportJob 10 sx1))"
  have "ClaimNextExportJob 10 sx1 \<noteq> None" by code_simp
  then have c: "ClaimNextExportJob 10 sx1 = Some (?j, sx2)" by (simp add: sx2_def)
  have e: "hd importable \<in> set importable" by (simp add: importable_def)
  have r: "\<forall>r \<in> set sample_vendor_rows. row_ok (length (en_header (hd importable))) r" by code_simp
  have n: "length sample_vendor_rows \<le> MasterDataImportMaxRows" by (simp add: sample_vendor_rows_def MasterDataImportMaxRows_def)
  have "length (csv_file (en_header (hd importable)) sample_vendor_rows) \<le> 1000" by code_simp
  then have b: "length (csv_file (en_header (hd importable)) sample_vendor_rows) \<le> MasterDataImportMaxBytes"
    by (simp add: MasterDataImportMaxBytes_def)
  have j: "ej_requested_by ?j = act_user_id admin" "act_user_id admin \<noteq> 0" "ej_id ?j = 1"
    "GetActiveUserRole sx1 (act_user_id admin) = Some ''ADMIN''" "allowed (ej_kind ?j) ''ADMIN''"
    "30 < we_mark_at calm + Retention" "ej_file_name ?j = ''master-data-vendors-20260101.csv''" by code_simp+
  have f: "\<forall>c. \<not> no_xfaults c" "\<forall>k. (\<lambda>_. True) (k :: nat)" by (simp_all add: no_xfaults_def)
  have "0 < ej_id ?j" using j(3) by simp
  from export_reimports [OF sx_reachable(1,2) c calm_ok e r n b j(1,2) this j(4,5,6) f, of 40] show ?thesis
    unfolding j(3,7) .
qed

end
